(* ===== verification/Harness_Prelude.thy ===== *)
theory Harness_Prelude
  imports Complex_Main "HOL-Library.Word" "HOL-Library.Finite_Map" "HOL-Library.Char_ord"
    "HOL-Library.List_Lexorder" "HOL-Library.Sublist" "HOL-Library.Log_Nat" "HOL-Library.Multiset"
begin

text \<open>
  Shared layer of the development: collections of simplification rules, the result type of
  fallible Go functions, strings as Go byte strings, splitting and joining at a separator, and
  lemmas on lists and finite maps that every component uses.

  A Go function that returns \<open>(T, error)\<close> is a HOL function into \<open>error + 'a\<close>: \<open>Inl e\<close> is
  a non-nil error, \<open>Inr x\<close> the value with a nil error. A Go map with string keys is a finite map
  (\<open>fmap\<close>). Where the source ranges over a map, the model takes or fixes an enumeration of it.
\<close>

named_theorems chan_simps \<open>one rule per channel operation and kind\<close>
named_theorems sched_simps \<open>unfolding rules of the scheduler\<close>

type_synonym goint = "64 word"

subsection \<open>Lists\<close>

text \<open>An enumeration of a Go map is a permutation of its keys.\<close>

lemma permuted_keys:
  assumes "\<And>xs. mset (perm xs) = mset xs"
  shows "set (perm xs) = set xs" and "distinct (perm xs) \<longleftrightarrow> distinct xs"
  using mset_eq_setD [OF assms] mset_eq_imp_distinct_iff [OF assms] by blast+

lemma last_conv_butlast: "xs \<noteq> [] \<Longrightarrow> butlast xs @ [last xs] = xs"
  by (rule append_butlast_last_id)

lemma length_one_conv: "length xs = Suc 0 \<longleftrightarrow> (\<exists>x. xs = [x])"
  by (cases xs) auto

lemma map_of_same_set:
  "distinct (map fst xs) \<Longrightarrow> distinct (map fst ys) \<Longrightarrow> set xs = set ys \<Longrightarrow> map_of xs = map_of ys"
  by (simp add: map_of_inject_set)

lemma map_of_rev_distinct: "distinct (map fst xs) \<Longrightarrow> map_of (rev xs) = map_of xs"
  by (rule map_of_same_set) (simp_all flip: rev_map)

subsection \<open>Splitting and joining at a separator character\<close>

text \<open>
  \<open>split_on c s\<close> is \<open>strings.Split(s, string(c))\<close> for a one-byte separator: it never returns the
  empty list, and the empty string splits into one empty part. \<open>join_with c\<close> is
  \<open>strings.Join(parts, string(c))\<close>.
\<close>

fun split_on :: "char \<Rightarrow> string \<Rightarrow> string list" where
  "split_on c [] = [[]]"
| "split_on c (x # xs) =
     (if x = c then [] # split_on c xs
      else (case split_on c xs of [] \<Rightarrow> [[x]] | p # ps \<Rightarrow> (x # p) # ps))"

fun join_with :: "char \<Rightarrow> string list \<Rightarrow> string" where
  "join_with c [] = []"
| "join_with c [p] = p"
| "join_with c (p # q # ps) = p @ c # join_with c (q # ps)"

lemma split_on_not_Nil [simp]: "split_on c s \<noteq> []"
  by (induction s) (auto split: list.splits)

lemma split_on_plain: "c \<notin> set p \<Longrightarrow> split_on c p = [p]"
  by (induction p) auto

lemma split_on_append_sep: "c \<notin> set p \<Longrightarrow> split_on c (p @ c # s) = p # split_on c s"
  by (induction p) auto

lemma split_on_join_with:
  "ps \<noteq> [] \<Longrightarrow> \<forall>p\<in>set ps. c \<notin> set p \<Longrightarrow> split_on c (join_with c ps) = ps"
  by (induction c ps rule: join_with.induct) (auto simp: split_on_plain split_on_append_sep)

lemma join_with_split_on: "join_with c (split_on c s) = s"
proof (induction s)
  case Nil
  show ?case by simp
next
  case (Cons x xs)
  obtain p ps where sp: "split_on c xs = p # ps"
    by (cases "split_on c xs") auto
  with Cons.IH have "join_with c (p # ps) = xs" by simp
  then show ?case using sp by (cases ps) auto
qed

lemma split_on_no_sep: "p \<in> set (split_on c s) \<Longrightarrow> c \<notin> set p"
proof (induction s arbitrary: p)
  case Nil
  then show ?case by simp
next
  case (Cons x xs)
  obtain q qs where sp: "split_on c xs = q # qs"
    by (cases "split_on c xs") auto
  with Cons show ?case by (cases "x = c") auto
qed

lemma join_with_eq_Nil: "join_with c ps = [] \<longleftrightarrow> ps = [] \<or> ps = [[]]"
  by (cases "(c, ps)" rule: join_with.cases) auto

subsection \<open>Finite maps\<close>

definition fmkeys :: "(string, 'v) fmap \<Rightarrow> string list" where
  "fmkeys m = sorted_list_of_fset (fmdom m)"

lemma set_fmkeys [simp]: "set (fmkeys m) = fset (fmdom m)"
  by (simp add: fmkeys_def)

lemma distinct_fmkeys [simp]: "distinct (fmkeys m)"
  by (simp add: fmkeys_def sorted_list_of_fset.rep_eq)

lemma sorted_fmkeys [simp]: "sorted (fmkeys m)"
  by (simp add: fmkeys_def sorted_list_of_fset.rep_eq)

lemma fmkeys_Nil [simp]: "fmkeys m = [] \<longleftrightarrow> m = fmempty"
proof -
  have "fmkeys m = [] \<longleftrightarrow> fmdom m = {||}"
    by (metis set_fmkeys fset_simps(1) fset_inject list.set(1) set_empty)
  then show ?thesis
    by (metis fmdom_empty fmrestrict_fset_dom fmrestrict_fset_null)
qed

definition fmlen :: "('k, 'v) fmap \<Rightarrow> nat" where
  "fmlen m = fcard (fmdom m)"

lemma fmlen_zero [simp]: "fmlen m = 0 \<longleftrightarrow> m = fmempty"
proof -
  have "fmlen m = 0 \<longleftrightarrow> fmdom m = {||}" by (auto simp: fmlen_def)
  then show ?thesis
    by (metis fmdom_empty fmrestrict_fset_dom fmrestrict_fset_null)
qed

lemma fmlen_empty [simp]: "fmlen fmempty = 0"
  by simp

lemma fmlen_fmupd: "fmlen (fmupd k v m) = (if k |\<in>| fmdom m then fmlen m else Suc (fmlen m))"
  by (simp add: fmlen_def fcard_finsert_if)

lemma fmlen_fmdrop: "k |\<in>| fmdom m \<Longrightarrow> Suc (fmlen (fmdrop k m)) = fmlen m"
  by (metis fcard_Suc_fminus1 fmdom_drop fmlen_def)

lemma fmap_ext_lookup: "(\<And>k. fmlookup m k = fmlookup n k) \<Longrightarrow> m = n"
  by (rule fmap_ext)

text \<open>A partial function on values, applied to the entries it is defined on.\<close>

definition fm_map_filter :: "('v \<Rightarrow> 'w option) \<Rightarrow> ('k, 'v) fmap \<Rightarrow> ('k, 'w) fmap" where
  "fm_map_filter f m =
     fmmap (\<lambda>v. the (f v))
       (fmfilter (\<lambda>k. case fmlookup m k of Some v \<Rightarrow> f v \<noteq> None | None \<Rightarrow> False) m)"

lemma fmlookup_map_filter [simp]:
  "fmlookup (fm_map_filter f m) k = Option.bind (fmlookup m k) f"
  by (auto simp: fm_map_filter_def split: option.splits bind_splits)

lemma fm_map_filter_fmmap:
  "(\<And>v. f (g v) = Some v) \<Longrightarrow> fm_map_filter f (fmmap g m) = m"
  by (rule fmap_ext) (auto simp: option.map_comp bind_map_option o_def)

lemma find_append:
  "List.find P (xs @ ys) = (case List.find P xs of Some x \<Rightarrow> Some x | None \<Rightarrow> List.find P ys)"
  by (induction xs) auto

subsection \<open>Sequencing fallible steps over a list\<close>

fun foldl_err :: "('s \<Rightarrow> 'a \<Rightarrow> 'e + 's) \<Rightarrow> 's \<Rightarrow> 'a list \<Rightarrow> 'e + 's" where
  "foldl_err f s [] = Inr s"
| "foldl_err f s (x # xs) = (case f s x of Inl e \<Rightarrow> Inl e | Inr s' \<Rightarrow> foldl_err f s' xs)"

lemma foldl_err_append:
  "foldl_err f s (xs @ ys) =
     (case foldl_err f s xs of Inl e \<Rightarrow> Inl e | Inr s' \<Rightarrow> foldl_err f s' ys)"
  by (induction xs arbitrary: s) (auto split: sum.splits)

lemma foldl_err_invariant:
  assumes "\<And>s x s'. x \<in> set xs \<Longrightarrow> P s \<Longrightarrow> f s x = Inr s' \<Longrightarrow> P s'"
    and "P s" and "foldl_err f s xs = Inr s'"
  shows "P s'"
  using assms
proof (induction xs arbitrary: s)
  case Nil
  then show ?case by simp
next
  case (Cons x xs)
  from Cons.prems(3) obtain t where t: "f s x = Inr t" and rest: "foldl_err f t xs = Inr s'"
    by (auto split: sum.splits)
  have "P t" using Cons.prems(1)[of x s t] Cons.prems(2) t by simp
  then show ?case
  proof (rule Cons.IH [rotated])
    show "foldl_err f t xs = Inr s'" by (rule rest)
    fix u y u' assume "y \<in> set xs" "P u" "f u y = Inr u'"
    then show "P u'" using Cons.prems(1)[of y u u'] by simp
  qed
qed

subsection \<open>The interface of a keyed table\<close>

text \<open>
  Registries and stores are tables with string keys. The contract: a lookup after an insert or a
  delete; the lemmas say what a lookup finds after a whole sequence of inserts.
\<close>

locale keyed_map =
  fixes emp :: 't
    and put :: "'t \<Rightarrow> string \<Rightarrow> 'v \<Rightarrow> 't"
    and get :: "'t \<Rightarrow> string \<Rightarrow> 'v option"
  assumes get_emp: "get emp k = None"
    and get_put: "get (put t k v) k' = (if k = k' then Some v else get t k')"
begin

primrec put_all :: "'t \<Rightarrow> (string \<times> 'v) list \<Rightarrow> 't" where
  "put_all t [] = t"
| "put_all t (kv # kvs) = put_all (put t (fst kv) (snd kv)) kvs"

lemma get_put_all:
  "get (put_all t kvs) k = (case map_of (rev kvs) k of Some v \<Rightarrow> Some v | None \<Rightarrow> get t k)"
  by (induction kvs arbitrary: t) (auto simp: get_put map_add_def split: option.splits)

lemma get_put_all_distinct:
  "distinct (map fst kvs) \<Longrightarrow>
   get (put_all t kvs) k = (case map_of kvs k of Some v \<Rightarrow> Some v | None \<Rightarrow> get t k)"
  by (simp add: get_put_all map_of_rev_distinct)

end

locale keyed_table = keyed_map emp put get
  for emp :: 't
    and put :: "'t \<Rightarrow> string \<Rightarrow> 'v \<Rightarrow> 't"
    and del :: "'t \<Rightarrow> string \<Rightarrow> 't"
    and get :: "'t \<Rightarrow> string \<Rightarrow> 'v option" +
  assumes get_del: "get (del t k) k' = (if k = k' then None else get t k')"
begin

lemma get_put_del: "get (del (put t k v) k) k' = get (del t k) k'"
  by (simp add: get_put get_del)

end

end
