(* ===== verification/Sha256.thy ===== *)
theory Sha256
  imports Harness_Prelude
begin

text \<open>
  The hash the event log seals its events with: \<open>sha256.New\<close>, \<open>Write\<close>, \<open>Sum\<close> and the
  \<open>%x\<close> verb. A Go string or byte slice is a \<open>string\<close>, one character per byte. The compression
  function works on 32-bit words, whose addition wraps as FIPS 180-4 asks. The facts used later are
  that the hexadecimal digest has 64 characters, all of them digits or the letters a to f.
\<close>

unbundle bit_operations_syntax

type_synonym u32 = "32 word"

text \<open>
  The constants are the first 32 bits after the point of roots of primes: of the cube roots for the
  rounds, of the square roots for the initial state. \<open>int_root n x\<close> is the integer part of the \<open>n\<close>-th root, found
  bit by bit from the top.
\<close>

definition int_root :: "nat \<Rightarrow> nat \<Rightarrow> nat" where
  "int_root n x = fold (\<lambda>b r. if (r + 2 ^ b) ^ n \<le> x then r + 2 ^ b else r) (rev [0..<40]) 0"

definition root_bits :: "nat \<Rightarrow> nat \<Rightarrow> u32" where
  "root_bits n p = of_nat (int_root n (p * 2 ^ (32 * n)))"

definition sha_primes :: "nat list" where
  "sha_primes =
    [2, 3, 5, 7, 11, 13, 17, 19, 23, 29, 31, 37, 41, 43, 47, 53,
     59, 61, 67, 71, 73, 79, 83, 89, 97, 101, 103, 107, 109, 113, 127, 131,
     137, 139, 149, 151, 157, 163, 167, 173, 179, 181, 191, 193, 197, 199, 211, 223,
     227, 229, 233, 239, 241, 251, 257, 263, 269, 271, 277, 281, 283, 293, 307, 311]"

definition sha_k :: "u32 list" where
  "sha_k = map (root_bits 3) sha_primes"

definition sha_h0 :: "u32 list" where
  "sha_h0 = map (root_bits 2) (take 8 sha_primes)"

definition rotr :: "nat \<Rightarrow> u32 \<Rightarrow> u32" where
  "rotr n x = (drop_bit n x OR push_bit (32 - n) x)"

text \<open>Padding to a multiple of 64 bytes: a one bit, zeros, the length in bits as a big-endian word.\<close>

definition be_bytes :: "nat \<Rightarrow> nat \<Rightarrow> nat list" where
  "be_bytes n x = map (\<lambda>i. x div 256 ^ (n - 1 - i) mod 256) [0..<n]"

definition sha_pad :: "nat list \<Rightarrow> nat list" where
  "sha_pad m =
     (let l = length m; z = (119 - l mod 64) mod 64
      in m @ 128 # replicate z 0 @ be_bytes 8 (8 * l))"

fun sha_words :: "nat list \<Rightarrow> u32 list" where
  "sha_words (a # b # c # d # r) = of_nat (((a * 256 + b) * 256 + c) * 256 + d) # sha_words r"
| "sha_words _ = []"

text \<open>The message schedule, extended one word at a time (latest word first).\<close>

definition sha_extend :: "u32 list \<Rightarrow> u32 list" where
  "sha_extend w =
     (let x = w ! 1; y = w ! 14;
          s0 = rotr 7 y XOR rotr 18 y XOR drop_bit 3 y;
          s1 = rotr 17 x XOR rotr 19 x XOR drop_bit 10 x
      in (w ! 15 + s0 + w ! 6 + s1) # w)"

definition sha_schedule :: "u32 list \<Rightarrow> u32 list" where
  "sha_schedule blk = rev ((sha_extend ^^ 48) (rev blk))"

fun sha_round :: "u32 list \<Rightarrow> u32 \<times> u32 \<Rightarrow> u32 list" where
  "sha_round [a, b, c, d, e, f, g, h] (k, w) =
     (let s1 = rotr 6 e XOR rotr 11 e XOR rotr 25 e;
          ch = (e AND f) XOR ((NOT e) AND g);
          t1 = h + s1 + ch + k + w;
          s0 = rotr 2 a XOR rotr 13 a XOR rotr 22 a;
          maj = (a AND b) XOR (a AND c) XOR (b AND c)
      in [t1 + (s0 + maj), a, b, c, d + t1, e, f, g])"
| "sha_round st _ = st"

definition sha_block :: "u32 list \<Rightarrow> u32 list \<Rightarrow> u32 list" where
  "sha_block hs blk = map2 (+) hs (foldl sha_round hs (zip sha_k (sha_schedule blk)))"

fun sha_blocks :: "nat \<Rightarrow> u32 list \<Rightarrow> u32 list \<Rightarrow> u32 list" where
  "sha_blocks 0 hs ws = hs"
| "sha_blocks (Suc n) hs ws = sha_blocks n (sha_block hs (take 16 ws)) (drop 16 ws)"

definition hex_digit :: "nat \<Rightarrow> char" where
  "hex_digit n = ''0123456789abcdef'' ! (n mod 16)"

definition hex_of :: "nat \<Rightarrow> nat \<Rightarrow> string" where
  "hex_of d x = map (\<lambda>i. hex_digit (x div 16 ^ (d - 1 - i))) [0..<d]"

definition sha256_hex :: "string \<Rightarrow> string" where
  "sha256_hex s =
     (let p = sha_pad (map of_char s)
      in concat (map (hex_of 8 \<circ> unat) (sha_blocks (length p div 64) sha_h0 (sha_words p))))"

subsection \<open>The shape of a digest\<close>

lemma length_sha_round [simp]: "length (sha_round st kw) = length st"
  by (cases "(st, kw)" rule: sha_round.cases) (auto simp: Let_def)

lemma length_sha_rounds [simp]: "length (foldl sha_round st kws) = length st"
  by (induction kws arbitrary: st) simp_all

lemma length_sha_block [simp]: "length (sha_block hs blk) = length hs"
  unfolding sha_block_def by simp

lemma length_sha_blocks [simp]: "length (sha_blocks n hs ws) = length hs"
  by (induction n arbitrary: hs ws) simp_all

lemma length_hex_of [simp]: "length (hex_of d x) = d"
  by (simp add: hex_of_def)

lemma hex_digit_range: "hex_digit n \<in> set ''0123456789abcdef''"
  unfolding hex_digit_def by (rule nth_mem) simp

lemma sum_list_map_const: "(\<And>x. x \<in> set xs \<Longrightarrow> f x = k) \<Longrightarrow> sum_list (map f xs) = length xs * (k::nat)"
  by (induction xs) auto

lemma length_sha256_hex [simp]: "length (sha256_hex s) = 64"
  unfolding sha256_hex_def Let_def length_concat map_map
  by (subst sum_list_map_const [where k = 8]) (simp_all add: sha_h0_def sha_primes_def)

lemma sha256_hex_digits: "set (sha256_hex s) \<subseteq> set ''0123456789abcdef''"
  unfolding sha256_hex_def Let_def hex_of_def using hex_digit_range by auto

end
