(* ===== verification/Go_Values.thy ===== *)
theory Go_Values
  imports Harness_Prelude
begin

text \<open>
  Dynamic values of the Go program. The graph engine moves values of type \<open>interface{}\<close> between
  nodes, channels and checkpoints and inspects them with type assertions, reflection and JSON. The
  datatype \<open>gval\<close> has one constructor per dynamic type the code tells apart, \<open>gotype\<close> the type
  descriptors reflection sees. Machine \<open>int\<close> values are 64-bit words. A \<open>float64\<close> is its
  finite rational value; NaN, the infinities and the sign of zero are not represented, nor are
  \<open>float32\<close>, arrays, and the difference between nil and empty slices or maps.
  Values are immutable here: no definition below depends on two slices sharing memory.
\<close>

subsection \<open>Types and values\<close>

datatype numkind = Int8 | Int16 | Int32 | Int64 | Uint | Uint8 | Uint16 | Uint32 | Uint64

datatype gotype =
    TIface
  | TBool
  | TInt
  | TNum numkind
  | TFloat
  | TStr
  | TSlice gotype
  | TMap gotype
  | TPtr gotype
  | TStruct string "(string \<times> bool \<times> gotype) list"
  | TRType

text \<open>
  \<open>VSlice t xs\<close> is a \<open>[]T\<close>, \<open>VMapT t m\<close> a \<open>map[string]T\<close>; a struct lists for each field its
  name, whether it is exported, its declared type and its value. \<open>VOverwrite v\<close> is a
  \<open>*types.Overwrite\<close>. \<open>VOverwriter v\<close> is a client value of the same shape that also has the
  method \<open>GetValue\<close>. \<open>VRType t\<close> is a \<open>reflect.Type\<close>, \<open>VRTypeStruct\<close> the zero value of the
  unexported struct \<open>reflect.rtype\<close> behind it.
\<close>

datatype gval =
    VNil
  | VMissing
  | VBool bool
  | VInt goint
  | VNum numkind int
  | VFloat rat
  | VStr string
  | VSlice gotype "gval list"
  | VMapT gotype "(string, gval) fmap"
  | VStruct string "(string \<times> bool \<times> gotype \<times> gval) list"
  | VOverwrite gval
  | VOverwriter gval
  | VNilPtr gotype
  | VRType gotype
  | VRTypeStruct

abbreviation VList :: "gval list \<Rightarrow> gval" where
  "VList \<equiv> VSlice TIface"

abbreviation VMap :: "(string, gval) fmap \<Rightarrow> gval" where
  "VMap \<equiv> VMapT TIface"

text \<open>\<open>reflect.TypeOf\<close>: the dynamic type of a value, \<open>None\<close> for the nil interface.\<close>

definition overwrite_struct :: gotype where
  "overwrite_struct = TStruct ''types.Overwrite'' [(''Value'', True, TIface)]"

fun typeof :: "gval \<Rightarrow> gotype option" where
  "typeof VNil = None"
| "typeof VMissing = Some (TPtr (TStruct ''channels.missingSentinel'' []))"
| "typeof (VBool _) = Some TBool"
| "typeof (VInt _) = Some TInt"
| "typeof (VNum k _) = Some (TNum k)"
| "typeof (VFloat _) = Some TFloat"
| "typeof (VStr _) = Some TStr"
| "typeof (VSlice t _) = Some (TSlice t)"
| "typeof (VMapT t _) = Some (TMap t)"
| "typeof (VStruct n fs) = Some (TStruct n (map (\<lambda>(f, e, t, v). (f, e, t)) fs))"
| "typeof (VOverwrite _) = Some (TPtr overwrite_struct)"
| "typeof (VOverwriter _) = Some (TPtr (TStruct ''client.Overwriter'' [(''Value'', True, TIface)]))"
| "typeof (VNilPtr t) = Some (TPtr t)"
| "typeof (VRType _) = Some (TPtr TRType)"
| "typeof VRTypeStruct = Some TRType"

text \<open>\<open>reflect.Zero(t).Interface()\<close>.\<close>

primrec zero_value :: "gotype \<Rightarrow> gval" where
  "zero_value TIface = VNil"
| "zero_value TBool = VBool False"
| "zero_value TInt = VInt 0"
| "zero_value (TNum k) = VNum k 0"
| "zero_value TFloat = VFloat 0"
| "zero_value TStr = VStr []"
| "zero_value (TSlice t) = VSlice t []"
| "zero_value (TMap t) = VMapT t fmempty"
| "zero_value (TPtr t) = VNilPtr t"
| "zero_value (TStruct n fs) =
     VStruct n (map (map_prod id (map_prod id (\<lambda>t. (t, zero_value t)))) fs)"
| "zero_value TRType = VRTypeStruct"

subsection \<open>The missing sentinel\<close>

fun IsMissing :: "gval \<Rightarrow> bool" where
  "IsMissing VMissing = True"
| "IsMissing _ = False"

lemma IsMissing_iff [simp]: "IsMissing v \<longleftrightarrow> v = VMissing"
  by (cases v) auto

subsection \<open>JSON round trip and deep copies\<close>

text \<open>
  \<open>round53 n\<close> is the \<open>float64\<close> nearest to the integer \<open>n\<close>, ties to even: what
  \<open>json.Unmarshal\<close> stores for the decimal literal of \<open>n\<close>. All 64-bit integers are in range.
\<close>

definition round53 :: "int \<Rightarrow> int" where
  "round53 n =
     (let a = nat \<bar>n\<bar> in
      if a < 2 ^ 53 then n
      else let e = floorlog 2 a - 53; q = a div 2 ^ e; r = a mod 2 ^ e; h = 2 ^ (e - 1);
               q' = (if h < r \<or> (r = h \<and> odd q) then q + 1 else q)
           in sgn n * int (q' * 2 ^ e))"

lemma round53_small: "\<bar>n\<bar> < 2 ^ 53 \<Longrightarrow> round53 n = n"
  unfolding round53_def Let_def by (simp add: nat_less_iff)

text \<open>
  \<open>json_rt v\<close> is \<open>json.Unmarshal(json.Marshal(v))\<close> into an \<open>interface{}\<close>: numbers come back as
  \<open>float64\<close>, every map and struct as \<open>map[string]interface{}\<close>, every slice as
  \<open>[]interface{}\<close>. Strings are valid UTF-8 and struct fields carry no JSON tags.
\<close>

primrec json_rt :: "gval \<Rightarrow> gval" where
  "json_rt VNil = VNil"
| "json_rt VMissing = VMap fmempty"
| "json_rt (VBool b) = VBool b"
| "json_rt (VInt n) = VFloat (of_int (round53 (sint n)))"
| "json_rt (VNum k n) = VFloat (of_int (round53 n))"
| "json_rt (VFloat f) = VFloat f"
| "json_rt (VStr s) = VStr s"
| "json_rt (VSlice t xs) = VList (map json_rt xs)"
| "json_rt (VMapT t m) = VMap (fmmap json_rt m)"
| "json_rt (VStruct n fs) =
     VMap (fmap_of_list (map (\<lambda>(f, e, t, v). (f, v))
       (filter (\<lambda>(f, e, t, v). e)
         (map (map_prod id (map_prod id (map_prod id json_rt))) fs))))"
| "json_rt (VOverwrite v) = VMap (fmap_of_list [(''Value'', json_rt v)])"
| "json_rt (VOverwriter v) = VMap (fmap_of_list [(''Value'', json_rt v)])"
| "json_rt (VNilPtr t) = VNil"
| "json_rt (VRType t) = VMap fmempty"
| "json_rt VRTypeStruct = VMap fmempty"

text \<open>
  \<open>deepCopy\<close> copies maps and slices of interfaces structurally and sends everything else through
  JSON. \<open>deepCopyMap\<close> and \<open>deepCopySlice\<close> are its helpers.
\<close>

primrec deepCopy :: "gval \<Rightarrow> gval" where
  "deepCopy VNil = VNil"
| "deepCopy VMissing = json_rt VMissing"
| "deepCopy (VBool b) = json_rt (VBool b)"
| "deepCopy (VInt n) = json_rt (VInt n)"
| "deepCopy (VNum k n) = json_rt (VNum k n)"
| "deepCopy (VFloat f) = json_rt (VFloat f)"
| "deepCopy (VStr s) = json_rt (VStr s)"
| "deepCopy (VSlice t xs) = (if t = TIface then VList (map deepCopy xs) else json_rt (VSlice t xs))"
| "deepCopy (VMapT t m) = (if t = TIface then VMap (fmmap deepCopy m) else json_rt (VMapT t m))"
| "deepCopy (VStruct n fs) = json_rt (VStruct n fs)"
| "deepCopy (VOverwrite v) = json_rt (VOverwrite v)"
| "deepCopy (VOverwriter v) = json_rt (VOverwriter v)"
| "deepCopy (VNilPtr t) = json_rt (VNilPtr t)"
| "deepCopy (VRType t) = json_rt (VRType t)"
| "deepCopy VRTypeStruct = json_rt VRTypeStruct"

definition deepCopyMap :: "(string, gval) fmap \<Rightarrow> (string, gval) fmap" where
  "deepCopyMap src = fmmap deepCopy src"

definition deepCopySlice :: "gval list \<Rightarrow> gval list" where
  "deepCopySlice xs = map deepCopy xs"

text \<open>Values that came out of a JSON decoder: the ones a copy leaves unchanged.\<close>

primrec json_value :: "gval \<Rightarrow> bool" where
  "json_value VNil = True"
| "json_value VMissing = False"
| "json_value (VBool b) = True"
| "json_value (VInt n) = False"
| "json_value (VNum k n) = False"
| "json_value (VFloat f) = True"
| "json_value (VStr s) = True"
| "json_value (VSlice t xs) = (t = TIface \<and> list_all id (map json_value xs))"
| "json_value (VMapT t m) = (t = TIface \<and> pred_fmap id (fmmap json_value m))"
| "json_value (VStruct n fs) = False"
| "json_value (VOverwrite v) = False"
| "json_value (VOverwriter v) = False"
| "json_value (VNilPtr t) = False"
| "json_value (VRType t) = False"
| "json_value VRTypeStruct = False"

lemma deepCopy_eq_json_rt: "deepCopy v = json_rt v"
proof (induction v)
  case (VMapT t m)
  have "fmmap deepCopy m = fmmap json_rt m"
    by (rule fmap.map_cong0) (rule VMapT)
  then show ?case by simp
next
  case (VSlice t xs)
  have "map deepCopy xs = map json_rt xs"
    by (rule list.map_cong0) (rule VSlice)
  then show ?case by simp
qed simp_all

lemma json_value_fmap:
  "json_value (VMap m) \<longleftrightarrow> (\<forall>k x. fmlookup m k = Some x \<longrightarrow> json_value x)"
  by (auto simp: fmpred_iff)

lemma json_value_list: "json_value (VList xs) \<longleftrightarrow> (\<forall>x\<in>set xs. json_value x)"
  by (simp add: list_all_iff)

lemmas json_value_nested = json_value_fmap json_value_list

lemma json_rt_json_value: "json_value (json_rt v)"
proof (induction v)
  case (VMapT t m)
  have "json_value y" if "fmlookup (fmmap json_rt m) k = Some y" for k y
    using that VMapT by (auto dest: fmran'I)
  then show ?case by (simp only: json_rt.simps json_value_fmap) blast
next
  case (VStruct n fs)
  have "json_value x" if "(f, x) \<in> set (map (\<lambda>(f, e, t, v). (f, v))
      (filter (\<lambda>(f, e, t, v). e) (map (map_prod id (map_prod id (map_prod id json_rt))) fs)))" for f x
    using that VStruct by fastforce
  then show ?case
    by (simp only: json_rt.simps json_value_fmap fmlookup_of_list) (blast dest: map_of_SomeD)
next
  case (VSlice t xs)
  then show ?case by (simp add: list_all_iff)
qed (simp_all add: json_value_fmap del: json_value.simps(9))

lemma json_rt_id: "json_value v \<Longrightarrow> json_rt v = v"
proof (induction v)
  case (VMapT t m)
  then have t: "t = TIface" and "json_value (VMap m)" by simp_all
  then have "json_rt x = x" if "fmlookup m k = Some x" for k x
    using that VMapT.IH by (auto simp: json_value_fmap dest: fmran'I)
  then have "fmmap json_rt m = m"
    by (intro fmap_ext) (auto intro: option.map_ident_strong)
  then show ?case using t by simp
next
  case (VSlice t xs)
  then show ?case by (auto simp: list_all_iff intro: map_idI)
qed simp_all

lemma deepCopy_idem: "deepCopy (deepCopy v) = deepCopy v"
  by (simp add: deepCopy_eq_json_rt json_rt_id json_rt_json_value)

lemma deepCopyMap_idem: "deepCopyMap (deepCopyMap m) = deepCopyMap m"
  unfolding deepCopyMap_def
  by (rule fmap_ext) (simp add: option.map_comp o_def deepCopy_idem)

lemma fmlookup_deepCopyMap [simp]: "fmlookup (deepCopyMap m) k = map_option deepCopy (fmlookup m k)"
  by (simp add: deepCopyMap_def)

lemma deepCopyMap_id: "json_value (VMap m) \<Longrightarrow> deepCopyMap m = m"
  using json_rt_id [of "VMap m"] by (simp add: deepCopyMap_def deepCopy_eq_json_rt [abs_def])

subsection \<open>Formatting with the verb v\<close>

text \<open>
  \<open>sprintv other v\<close> is \<open>fmt.Sprint(v)\<close> and \<open>fmt.Sprintf("%v", v)\<close>: decimal integers, strings
  as they are, slices and maps (keys sorted) with their elements. Floats, pointers and reflection
  types are formatted by the parameter \<open>other\<close>.
\<close>

fun show_nat :: "nat \<Rightarrow> string" where
  "show_nat n = (if n < 10 then [char_of (48 + n)] else show_nat (n div 10) @ [char_of (48 + n mod 10)])"

declare show_nat.simps [simp del]

definition show_int :: "int \<Rightarrow> string" where
  "show_int i = (if i < 0 then CHR ''-'' # show_nat (nat (- i)) else show_nat (nat i))"

primrec sprintv :: "(gval \<Rightarrow> string) \<Rightarrow> gval \<Rightarrow> string" where
  "sprintv other VNil = ''<nil>''"
| "sprintv other VMissing = ''<MISSING>''"
| "sprintv other (VBool b) = (if b then ''true'' else ''false'')"
| "sprintv other (VInt n) = show_int (sint n)"
| "sprintv other (VNum k n) = show_int n"
| "sprintv other (VFloat f) = other (VFloat f)"
| "sprintv other (VStr s) = s"
| "sprintv other (VSlice t xs) = ''['' @ join_with (CHR '' '') (map (sprintv other) xs) @ '']''"
| "sprintv other (VMapT t m) =
     (let sm = fmmap (sprintv other) m
      in ''map['' @ join_with (CHR '' '')
           (map (\<lambda>k. k @ '':'' @ the (fmlookup sm k)) (fmkeys sm)) @ '']'')"
| "sprintv other (VStruct n fs) =
     ''{'' @ join_with (CHR '' '')
        (map (\<lambda>(f, e, t, s). s) (map (map_prod id (map_prod id (map_prod id (sprintv other)))) fs)) @ ''}''"
| "sprintv other (VOverwrite v) = other (VOverwrite v)"
| "sprintv other (VOverwriter v) = other (VOverwriter v)"
| "sprintv other (VNilPtr t) = ''<nil>''"
| "sprintv other (VRType t) = other (VRType t)"
| "sprintv other VRTypeStruct = other VRTypeStruct"

subsection \<open>Errors\<close>

text \<open>
  The error values of \<open>internal/harness/graph/errors\<close> and the ones built with \<open>fmt.Errorf\<close>.
  A formatted message is kept as the data it is formatted from: \<open>Errorf msg\<close> is an error with no
  cause, \<open>Wrapf msg e\<close> wraps \<open>e\<close> with \<open>%w\<close>. \<open>ClientError\<close> is an error of a node function
  supplied by the graph's author. \<open>GoPanic\<close> is a run-time panic, which ends the function like an error.
\<close>

datatype upd_reason =
    OnlyOneValuePerStep string
  | OnlyOneValue
  | OnlyOneOverwritePerStep
  | ValueNotString gval
  | NameNotExpected string "string fset"

datatype gerror =
    EmptyChannelError
  | InvalidUpdateError upd_reason
  | ChannelNotFoundError string
  | NodeNotFoundError string
  | GraphRecursionError int
  | GraphInterrupt "gval list"
  | VersionConflictError int int string string
  | ClientError string
  | Errorf string
  | Wrapf string gerror
  | GoPanic string
  | RetryExhaustedError string int "gerror option" gval

fun IsEmptyChannelError :: "gerror \<Rightarrow> bool" where
  "IsEmptyChannelError EmptyChannelError = True"
| "IsEmptyChannelError _ = False"

fun IsGraphInterrupt :: "gerror \<Rightarrow> bool" where
  "IsGraphInterrupt (GraphInterrupt _) = True"
| "IsGraphInterrupt _ = False"

end
