(* ===== verification/Run_Config.thy ===== *)
theory Run_Config
  imports Go_Values
begin

text \<open>
  The run configuration of \<open>types/config.go\<close>: a record with setters, lookup of configurable
  values and merging. Methods that return their receiver mutate it in Go and return the updated
  record here; a nil \<open>Configurable\<close> map reads and behaves as an empty one.
\<close>

text \<open>\<open>Durability\<close> is a string type; \<open>DurabilityUnset\<close> is the empty string.\<close>

datatype Durability =
  DurabilitySync | DurabilityAsync | DurabilityExit | DurabilityUnset | DurabilityOther string

record RunnableConfig =
  Configurable :: "(string, gval) fmap"
  RecursionLimit :: int
  Tags :: "string list"
  Metadata :: "(string, gval) fmap"
  RunID :: string
  ThreadID :: string
  cfg_Durability :: Durability

definition DefaultRecursionLimit :: int where
  "DefaultRecursionLimit = 50"

definition NewRunnableConfig :: RunnableConfig where
  "NewRunnableConfig =
     \<lparr>Configurable = fmempty, RecursionLimit = DefaultRecursionLimit, Tags = [], Metadata = fmempty,
      RunID = [], ThreadID = [], cfg_Durability = DurabilitySync\<rparr>"

definition Config_Get :: "RunnableConfig \<Rightarrow> string \<Rightarrow> gval option" where
  "Config_Get c key = fmlookup (Configurable c) key"

definition Config_Set :: "RunnableConfig \<Rightarrow> string \<Rightarrow> gval \<Rightarrow> RunnableConfig" where
  "Config_Set c key value = c\<lparr>Configurable := fmupd key value (Configurable c)\<rparr>"

definition GetOrEmpty :: "RunnableConfig \<Rightarrow> string \<Rightarrow> string" where
  "GetOrEmpty c key = (case fmlookup (Configurable c) key of Some (VStr s) \<Rightarrow> s | _ \<Rightarrow> [])"

definition Merge :: "RunnableConfig \<Rightarrow> RunnableConfig option \<Rightarrow> RunnableConfig" where
  "Merge c other =
     (case other of
        None \<Rightarrow> c
      | Some d \<Rightarrow>
          \<lparr>Configurable = Configurable c ++\<^sub>f Configurable d,
           RecursionLimit = (if RecursionLimit d > 0 then RecursionLimit d else RecursionLimit c),
           Tags = Tags c @ Tags d,
           Metadata = Metadata c ++\<^sub>f Metadata d,
           RunID = (if RunID d \<noteq> [] then RunID d else RunID c),
           ThreadID = (if ThreadID d \<noteq> [] then ThreadID d else ThreadID c),
           cfg_Durability =
             (if cfg_Durability d \<noteq> DurabilityUnset \<and> cfg_Durability d \<noteq> DurabilitySync
              then cfg_Durability d else cfg_Durability c)\<rparr>)"

definition WithConfigurable :: "RunnableConfig \<Rightarrow> (string, gval) fmap \<Rightarrow> RunnableConfig" where
  "WithConfigurable c m = c\<lparr>Configurable := m\<rparr>"

definition WithRecursionLimit :: "RunnableConfig \<Rightarrow> int \<Rightarrow> RunnableConfig" where
  "WithRecursionLimit c limit = c\<lparr>RecursionLimit := limit\<rparr>"

definition WithTags :: "RunnableConfig \<Rightarrow> string list \<Rightarrow> RunnableConfig" where
  "WithTags c tags = c\<lparr>Tags := tags\<rparr>"

definition WithMetadata :: "RunnableConfig \<Rightarrow> (string, gval) fmap \<Rightarrow> RunnableConfig" where
  "WithMetadata c m = c\<lparr>Metadata := m\<rparr>"

definition WithRunID :: "RunnableConfig \<Rightarrow> string \<Rightarrow> RunnableConfig" where
  "WithRunID c runID = c\<lparr>RunID := runID\<rparr>"

definition WithThreadID :: "RunnableConfig \<Rightarrow> string \<Rightarrow> RunnableConfig" where
  "WithThreadID c threadID = c\<lparr>ThreadID := threadID\<rparr>"

definition WithDurability :: "RunnableConfig \<Rightarrow> Durability \<Rightarrow> RunnableConfig" where
  "WithDurability c d = c\<lparr>cfg_Durability := d\<rparr>"

definition EnsureConfig :: "RunnableConfig option \<Rightarrow> RunnableConfig" where
  "EnsureConfig config = (case config of None \<Rightarrow> NewRunnableConfig | Some c \<Rightarrow> c)"

fun PatchConfig ::
  "RunnableConfig option \<Rightarrow> (RunnableConfig \<Rightarrow> RunnableConfig) option list \<Rightarrow> RunnableConfig" where
  "PatchConfig config [] = EnsureConfig config"
| "PatchConfig config (p # ps) =
     (case p of
        None \<Rightarrow> PatchConfig (Some (EnsureConfig config)) ps
      | Some f \<Rightarrow> PatchConfig (Some (f (EnsureConfig config))) ps)"

definition MergeConfigs :: "RunnableConfig option list \<Rightarrow> RunnableConfig" where
  "MergeConfigs configs = foldl Merge NewRunnableConfig configs"

subsection \<open>Merging\<close>

interpretation cfg: keyed_map NewRunnableConfig Config_Set Config_Get
  by unfold_locales (auto simp: NewRunnableConfig_def Config_Set_def Config_Get_def)

lemma Merge_None [simp]: "Merge c None = c"
  by (simp add: Merge_def)

lemma Config_Get_Merge:
  "Config_Get (Merge c (Some d)) k =
     (case Config_Get d k of Some v \<Rightarrow> Some v | None \<Rightarrow> Config_Get c k)"
  by (auto simp: Merge_def Config_Get_def fmdomI fmdom_notI split: option.splits)

lemma Merge_assoc: "Merge (Merge a (Some b)) (Some c) = Merge a (Some (Merge b (Some c)))"
  by (auto simp: Merge_def)

lemma Config_Get_foldl_Merge:
  "Config_Get (foldl Merge c configs) k =
     (case [v. Some d \<leftarrow> rev configs, Some v \<leftarrow> [Config_Get d k]] of
        [] \<Rightarrow> Config_Get c k | v # _ \<Rightarrow> Some v)"
proof (induction configs rule: rev_induct)
  case Nil
  then show ?case by simp
next
  case (snoc d ds)
  then show ?case by (cases d) (auto simp: Config_Get_Merge split: option.splits)
qed

text \<open>
  Merging a list of configurations gives each configurable key the value of the last configuration
  that sets it, and merging is associative, so a merged list may be merged again.
\<close>

theorem MergeConfigs_last_wins:
  "Config_Get (MergeConfigs configs) k =
     (case [v. Some d \<leftarrow> rev configs, Some v \<leftarrow> [Config_Get d k]] of [] \<Rightarrow> None | v # _ \<Rightarrow> Some v) \<and>
   MergeConfigs (map Some [a, b, c]) = MergeConfigs (map Some [a, Merge b (Some c)])"
  by (intro conjI; simp only: MergeConfigs_def Config_Get_foldl_Merge cfg.get_emp)
    (simp add: Merge_assoc)

text \<open>
  A configuration made by \<open>NewRunnableConfig\<close> is not neutral for merging: its default recursion
  limit replaces the limit set before, while an explicit request for synchronous durability is
  indistinguishable from the default and never replaces an earlier mode.
\<close>

theorem Merge_default_overrides_limit:
  "RecursionLimit (Merge (WithRecursionLimit c limit) (Some NewRunnableConfig)) = DefaultRecursionLimit \<and>
   cfg_Durability (Merge (WithDurability c DurabilityAsync)
      (Some (WithDurability NewRunnableConfig DurabilitySync))) = DurabilityAsync"
  by (simp add: Merge_def NewRunnableConfig_def WithRecursionLimit_def WithDurability_def
      DefaultRecursionLimit_def)

end
