(* ===== verification/Checkpoint_Data.thy ===== *)
theory Checkpoint_Data
  imports Run_Config
begin

text \<open>
  The versioned checkpoint of \<open>checkpoint/checkpoint.go\<close>: the record, its version bookkeeping,
  cloning, and the conversion to and from a map. Fresh identifiers (\<open>uuid.New\<close>) and the clock
  (\<open>time.Now\<close>) are arguments of the operations that draw them. A time is its number of nanoseconds;
  its RFC 3339 text is given by the arguments \<open>fmtT\<close> and \<open>parseT\<close>. Version counters are Go ints
  that only ever count up by one and are modelled without wrap-around.
\<close>

type_synonym gotime = int

record PendingWrite =
  pw_Channel :: string
  pw_Value :: gval
  pw_Overwrite :: bool
  pw_Node :: string
  pw_Timestamp :: gotime
  pw_TaskID :: string

definition NewPendingWrite ::
  "gotime \<Rightarrow> string \<Rightarrow> gval \<Rightarrow> bool \<Rightarrow> string \<Rightarrow> string \<Rightarrow> PendingWrite" where
  "NewPendingWrite now ch v ow node taskID =
     \<lparr>pw_Channel = ch, pw_Value = v, pw_Overwrite = ow, pw_Node = node, pw_Timestamp = now,
      pw_TaskID = taskID\<rparr>"

record CheckpointMetadata =
  md_ID :: string
  md_ParentID :: string
  md_ThreadID :: string
  md_Step :: int
  md_CreatedAt :: gotime
  md_Source :: string
  md_Metadata :: "(string, gval) fmap"

record CheckpointData =
  cp_ID :: string
  cp_Version :: int
  cp_ParentID :: string
  cp_ChannelVersions :: "(string, int) fmap"
  cp_VersionsSeen :: "(string, (string, int) fmap) fmap"
  cp_State :: "(string, gval) fmap"
  cp_PendingWrites :: "PendingWrite list"
  cp_Metadata :: CheckpointMetadata

definition SourceNode :: string where
  "SourceNode = ''node''"

definition NewCheckpoint :: "string \<Rightarrow> gotime \<Rightarrow> string \<Rightarrow> int \<Rightarrow> CheckpointData" where
  "NewCheckpoint newID now threadID step =
     \<lparr>cp_ID = newID, cp_Version = 0, cp_ParentID = [], cp_ChannelVersions = fmempty,
      cp_VersionsSeen = fmempty, cp_State = fmempty, cp_PendingWrites = [],
      cp_Metadata = \<lparr>md_ID = newID, md_ParentID = [], md_ThreadID = threadID, md_Step = step,
        md_CreatedAt = now, md_Source = SourceNode, md_Metadata = fmempty\<rparr>\<rparr>"

definition Clone :: "string \<Rightarrow> gotime \<Rightarrow> CheckpointData \<Rightarrow> CheckpointData" where
  "Clone newID now c =
     \<lparr>cp_ID = newID, cp_Version = cp_Version c, cp_ParentID = cp_ID c,
      cp_ChannelVersions = cp_ChannelVersions c, cp_VersionsSeen = cp_VersionsSeen c,
      cp_State = fmmap deepCopy (cp_State c),
      cp_PendingWrites = map (\<lambda>pw. pw\<lparr>pw_Value := deepCopy (pw_Value pw)\<rparr>) (cp_PendingWrites c),
      cp_Metadata = \<lparr>md_ID = newID, md_ParentID = cp_ID c, md_ThreadID = md_ThreadID (cp_Metadata c),
        md_Step = md_Step (cp_Metadata c), md_CreatedAt = now, md_Source = md_Source (cp_Metadata c),
        md_Metadata = fmmap deepCopy (md_Metadata (cp_Metadata c))\<rparr>\<rparr>"

text \<open>A missing map entry reads as zero.\<close>

definition vget :: "(string, int) fmap \<Rightarrow> string \<Rightarrow> int" where
  "vget m k = (case fmlookup m k of Some v \<Rightarrow> v | None \<Rightarrow> 0)"

definition IncrementChannel :: "CheckpointData \<Rightarrow> string \<Rightarrow> CheckpointData" where
  "IncrementChannel c ch =
     c\<lparr>cp_ChannelVersions := fmupd ch (vget (cp_ChannelVersions c) ch + 1) (cp_ChannelVersions c)\<rparr>"

definition seen_row :: "(string, (string, int) fmap) fmap \<Rightarrow> string \<Rightarrow> (string, int) fmap" where
  "seen_row m node = (case fmlookup m node of Some row \<Rightarrow> row | None \<Rightarrow> fmempty)"

definition MarkSeen :: "CheckpointData \<Rightarrow> string \<Rightarrow> string \<Rightarrow> CheckpointData" where
  "MarkSeen c node ch =
     c\<lparr>cp_VersionsSeen := fmupd node
          (fmupd ch (vget (cp_ChannelVersions c) ch) (seen_row (cp_VersionsSeen c) node))
          (cp_VersionsSeen c)\<rparr>"

definition HasSeen :: "CheckpointData \<Rightarrow> string \<Rightarrow> string \<Rightarrow> bool" where
  "HasSeen c node ch =
     (case fmlookup (cp_VersionsSeen c) node of
        None \<Rightarrow> False
      | Some row \<Rightarrow>
          (case fmlookup row ch of
             None \<Rightarrow> False
           | Some v \<Rightarrow> v = vget (cp_ChannelVersions c) ch))"

definition AddPendingWrite ::
  "CheckpointData \<Rightarrow> string \<Rightarrow> gval \<Rightarrow> bool \<Rightarrow> string \<Rightarrow> CheckpointData" where
  "AddPendingWrite c ch v ow node =
     c\<lparr>cp_PendingWrites := cp_PendingWrites c @
        [\<lparr>pw_Channel = ch, pw_Value = v, pw_Overwrite = ow, pw_Node = node, pw_Timestamp = 0,
          pw_TaskID = []\<rparr>]\<rparr>"

definition ClearPendingWrites :: "CheckpointData \<Rightarrow> CheckpointData" where
  "ClearPendingWrites c = c\<lparr>cp_PendingWrites := []\<rparr>"

subsection \<open>Conversion to and from maps\<close>

definition gint :: "int \<Rightarrow> gval" where
  "gint n = VInt (word_of_int n)"

definition pw_to_map :: "PendingWrite \<Rightarrow> gval" where
  "pw_to_map pw = VMap (fmap_of_list
     [(''channel'', VStr (pw_Channel pw)), (''value'', pw_Value pw),
      (''overwrite'', VBool (pw_Overwrite pw)), (''node'', VStr (pw_Node pw))])"

definition md_to_map :: "(gotime \<Rightarrow> string) \<Rightarrow> CheckpointMetadata \<Rightarrow> (string, gval) fmap" where
  "md_to_map fmtT md = fmap_of_list
     [(''id'', VStr (md_ID md)), (''parent_id'', VStr (md_ParentID md)),
      (''thread_id'', VStr (md_ThreadID md)), (''step'', gint (md_Step md)),
      (''created_at'', VStr (fmtT (md_CreatedAt md))), (''source'', VStr (md_Source md))]
     ++\<^sub>f md_Metadata md"

definition ToMap :: "(gotime \<Rightarrow> string) \<Rightarrow> CheckpointData \<Rightarrow> (string, gval) fmap" where
  "ToMap fmtT c = fmap_of_list
     [(''id'', VStr (cp_ID c)), (''version'', gint (cp_Version c)),
      (''parent_id'', VStr (cp_ParentID c)),
      (''channel_versions'', VMapT TInt (fmmap gint (cp_ChannelVersions c))),
      (''versions_seen'', VMapT (TMap TInt) (fmmap (\<lambda>row. VMapT TInt (fmmap gint row)) (cp_VersionsSeen c))),
      (''state'', VMap (fmmap deepCopy (cp_State c))),
      (''pending_writes'', VSlice (TMap TIface) (map pw_to_map (cp_PendingWrites c))),
      (''metadata'', VMap (md_to_map fmtT (cp_Metadata c)))]"

definition getString :: "(string, gval) fmap \<Rightarrow> string \<Rightarrow> string" where
  "getString data key = (case fmlookup data key of Some (VStr s) \<Rightarrow> s | _ \<Rightarrow> [])"

definition int_of_float :: "rat \<Rightarrow> int" where
  "int_of_float q = (if q < 0 then \<lceil>q\<rceil> else \<lfloor>q\<rfloor>)"

definition getInt :: "(string, gval) fmap \<Rightarrow> string \<Rightarrow> int \<Rightarrow> int" where
  "getInt data key defaultVal =
     (case fmlookup data key of Some (VFloat f) \<Rightarrow> int_of_float f | _ \<Rightarrow> defaultVal)"

definition getBool :: "(string, gval) fmap \<Rightarrow> string \<Rightarrow> bool \<Rightarrow> bool" where
  "getBool data key defaultVal = (case fmlookup data key of Some (VBool b) \<Rightarrow> b | _ \<Rightarrow> defaultVal)"

fun as_num :: "gval \<Rightarrow> int option" where
  "as_num (VFloat f) = Some (int_of_float f)"
| "as_num _ = None"

fun as_versions :: "gval \<Rightarrow> (string, int) fmap option" where
  "as_versions (VMapT TIface m) = Some (fm_map_filter as_num m)"
| "as_versions _ = None"

fun as_pending :: "gval \<Rightarrow> PendingWrite option" where
  "as_pending (VMapT TIface m) = Some
     \<lparr>pw_Channel = getString m ''channel'',
      pw_Value = (case fmlookup m ''value'' of Some v \<Rightarrow> v | None \<Rightarrow> VNil),
      pw_Overwrite = getBool m ''overwrite'' False, pw_Node = getString m ''node'',
      pw_Timestamp = 0, pw_TaskID = []\<rparr>"
| "as_pending _ = None"

definition reserved_md :: "string list" where
  "reserved_md = [''id'', ''parent_id'', ''thread_id'', ''step'', ''created_at'', ''source'']"

definition zero_md :: CheckpointMetadata where
  "zero_md = \<lparr>md_ID = [], md_ParentID = [], md_ThreadID = [], md_Step = 0, md_CreatedAt = 0,
     md_Source = [], md_Metadata = fmempty\<rparr>"

definition md_from_map :: "(string \<Rightarrow> gotime option) \<Rightarrow> (string, gval) fmap \<Rightarrow> CheckpointMetadata" where
  "md_from_map parseT md =
     \<lparr>md_ID = getString md ''id'', md_ParentID = getString md ''parent_id'',
      md_ThreadID = getString md ''thread_id'', md_Step = getInt md ''step'' 0,
      md_CreatedAt =
        (if getString md ''created_at'' = [] then 0
         else (case parseT (getString md ''created_at'') of Some t \<Rightarrow> t | None \<Rightarrow> 0)),
      md_Source = getString md ''source'',
      md_Metadata = fmfilter (\<lambda>k. k \<notin> set reserved_md) md\<rparr>"

definition FromMap :: "(string \<Rightarrow> gotime option) \<Rightarrow> (string, gval) fmap \<Rightarrow> CheckpointData" where
  "FromMap parseT data =
     \<lparr>cp_ID = getString data ''id'', cp_Version = getInt data ''version'' 0,
      cp_ParentID = getString data ''parent_id'',
      cp_ChannelVersions =
        (case fmlookup data ''channel_versions'' of
           Some v \<Rightarrow> (case as_versions v of Some m \<Rightarrow> m | None \<Rightarrow> fmempty) | None \<Rightarrow> fmempty),
      cp_VersionsSeen =
        (case fmlookup data ''versions_seen'' of
           Some (VMapT TIface m) \<Rightarrow> fm_map_filter as_versions m | _ \<Rightarrow> fmempty),
      cp_State =
        (case fmlookup data ''state'' of
           Some (VMapT TIface m) \<Rightarrow> fmmap deepCopy m | _ \<Rightarrow> fmempty),
      cp_PendingWrites =
        (case fmlookup data ''pending_writes'' of
           Some (VSlice TIface xs) \<Rightarrow> List.map_filter as_pending xs | _ \<Rightarrow> []),
      cp_Metadata =
        (case fmlookup data ''metadata'' of
           Some (VMapT TIface m) \<Rightarrow> md_from_map parseT m | _ \<Rightarrow> zero_md)\<rparr>"

subsection \<open>Which versions a node has seen\<close>

text \<open>Histories of version operations on a new checkpoint.\<close>

datatype version_op = Inc string | Mark string string

primrec apply_op :: "version_op \<Rightarrow> CheckpointData \<Rightarrow> CheckpointData" where
  "apply_op (Inc ch) c = IncrementChannel c ch"
| "apply_op (Mark node ch) c = MarkSeen c node ch"

lemma vget_upd [simp]: "vget (fmupd k v m) k' = (if k = k' then v else vget m k')"
  by (simp add: vget_def)

lemma seen_row_upd [simp]: "seen_row (fmupd n row m) n' = (if n = n' then row else seen_row m n')"
  by (simp add: seen_row_def)

lemma HasSeen_alt:
  "HasSeen c node ch \<longleftrightarrow>
     fmlookup (seen_row (cp_VersionsSeen c) node) ch = Some (vget (cp_ChannelVersions c) ch)"
  by (auto simp: HasSeen_def seen_row_def split: option.splits)

definition seen_le :: "CheckpointData \<Rightarrow> bool" where
  "seen_le c \<longleftrightarrow> (\<forall>node ch v. fmlookup (seen_row (cp_VersionsSeen c) node) ch = Some v \<longrightarrow>
     v \<le> vget (cp_ChannelVersions c) ch)"

lemma seen_le_apply_op: "seen_le c \<Longrightarrow> seen_le (apply_op op c)"
  by (cases op) (fastforce simp: seen_le_def IncrementChannel_def MarkSeen_def split: if_splits)+

lemma seen_le_NewCheckpoint: "seen_le (NewCheckpoint i t th st)"
  by (simp add: seen_le_def NewCheckpoint_def seen_row_def)

lemma seen_le_history: "seen_le c \<Longrightarrow> seen_le (fold apply_op ops c)"
  by (induction ops arbitrary: c) (auto intro: seen_le_apply_op)

lemma HasSeen_apply_op:
  assumes "seen_le c"
  shows "HasSeen (apply_op op c) node ch \<longleftrightarrow>
    op = Mark node ch \<or> (op \<noteq> Inc ch \<and> HasSeen c node ch)"
  using assms
  by (cases op) (force simp: HasSeen_alt seen_le_def IncrementChannel_def MarkSeen_def split: if_splits)+

text \<open>
  A node counts as having seen a channel exactly when, in the checkpoint's history, it was marked
  after the last increment of that channel's version.
\<close>

theorem HasSeen_history:
  "HasSeen (fold apply_op ops (NewCheckpoint newID now threadID step)) node ch \<longleftrightarrow>
     Mark node ch \<in> set (takeWhile (\<lambda>op. op \<noteq> Inc ch) (rev ops))"
proof (induction ops rule: rev_induct)
  case Nil
  then show ?case by (simp add: HasSeen_alt NewCheckpoint_def seen_row_def)
next
  case (snoc op ops)
  have "seen_le (fold apply_op ops (NewCheckpoint newID now threadID step))"
    by (rule seen_le_history [OF seen_le_NewCheckpoint])
  from HasSeen_apply_op [OF this] snoc show ?case by auto
qed

subsection \<open>Maps and back\<close>

text \<open>
  A checkpoint whose contents survive JSON: counters below \<open>2 ^ 53\<close>, JSON values, no custom metadata
  under a reserved key, and pending writes as \<open>AddPendingWrite\<close> makes them.
\<close>

definition small :: "int \<Rightarrow> bool" where
  "small n \<longleftrightarrow> \<bar>n\<bar> < 2 ^ 53"

definition json_checkpoint :: "CheckpointData \<Rightarrow> bool" where
  "json_checkpoint c \<longleftrightarrow>
     small (cp_Version c) \<and> small (md_Step (cp_Metadata c)) \<and>
     (\<forall>k v. fmlookup (cp_ChannelVersions c) k = Some v \<longrightarrow> small v) \<and>
     (\<forall>n row k v. fmlookup (cp_VersionsSeen c) n = Some row \<longrightarrow> fmlookup row k = Some v \<longrightarrow> small v) \<and>
     (\<forall>k v. fmlookup (cp_State c) k = Some v \<longrightarrow> json_value v) \<and>
     (\<forall>k v. fmlookup (md_Metadata (cp_Metadata c)) k = Some v \<longrightarrow> json_value v \<and> k \<notin> set reserved_md) \<and>
     (\<forall>pw\<in>set (cp_PendingWrites c).
        json_value (pw_Value pw) \<and> pw_Timestamp pw = 0 \<and> pw_TaskID pw = [])"

lemma json_gint: "small n \<Longrightarrow> json_rt (gint n) = VFloat (of_int n)"
proof -
  assume n: "small n"
  then have "sint (word_of_int n :: goint) = n"
    by (simp add: small_def signed_take_bit_int_eq_self sint_sbintrunc')
  then show ?thesis using n by (simp add: gint_def round53_small small_def)
qed

lemma int_of_float_of_int [simp]: "int_of_float (of_int n) = n"
  by (simp add: int_of_float_def)

lemma fmmap_cong_lookup:
  "(\<And>k x. fmlookup m k = Some x \<Longrightarrow> f x = g x) \<Longrightarrow> fmmap f m = fmmap g m"
  by (intro fmap_ext) (auto intro: option.map_cong)

lemma versions_json:
  assumes "\<And>k v. fmlookup m k = Some v \<Longrightarrow> small v"
  shows "as_versions (json_rt (VMapT t (fmmap gint m))) = Some m"
proof -
  have "fmmap json_rt (fmmap gint m) = fmmap (\<lambda>n. VFloat (of_int n)) m"
    by (rule fmap_ext) (use assms in \<open>auto simp: option.map_comp o_def json_gint intro: option.map_cong\<close>)
  then show ?thesis by (simp add: fm_map_filter_fmmap)
qed

lemma fmmap_id_lookup: "(\<And>k x. fmlookup m k = Some x \<Longrightarrow> f x = x) \<Longrightarrow> fmmap f m = m"
  by (intro fmap_ext) (auto intro: option.map_ident_strong)

definition stored :: "(gotime \<Rightarrow> string) \<Rightarrow> CheckpointData \<Rightarrow> (string, gval) fmap" where
  "stored fmtT c = deepCopyMap (ToMap fmtT c)"

lemma stored_lookups:
  "fmlookup (stored fmtT c) ''id'' = Some (VStr (cp_ID c))"
  "fmlookup (stored fmtT c) ''version'' = Some (json_rt (gint (cp_Version c)))"
  "fmlookup (stored fmtT c) ''parent_id'' = Some (VStr (cp_ParentID c))"
  "fmlookup (stored fmtT c) ''channel_versions'' = Some (json_rt (VMapT TInt (fmmap gint (cp_ChannelVersions c))))"
  "fmlookup (stored fmtT c) ''versions_seen'' =
     Some (json_rt (VMapT (TMap TInt) (fmmap (\<lambda>row. VMapT TInt (fmmap gint row)) (cp_VersionsSeen c))))"
  "fmlookup (stored fmtT c) ''state'' = Some (json_rt (VMap (fmmap deepCopy (cp_State c))))"
  "fmlookup (stored fmtT c) ''pending_writes'' =
     Some (json_rt (VSlice (TMap TIface) (map pw_to_map (cp_PendingWrites c))))"
  "fmlookup (stored fmtT c) ''metadata'' = Some (json_rt (VMap (md_to_map fmtT (cp_Metadata c))))"
  by (simp_all add: stored_def ToMap_def deepCopy_eq_json_rt del: deepCopy.simps json_rt.simps)
    simp_all

lemma stored_versions_seen:
  assumes "json_checkpoint c"
  shows "fm_map_filter as_versions
     (fmmap json_rt (fmmap (\<lambda>row. VMapT TInt (fmmap gint row)) (cp_VersionsSeen c))) = cp_VersionsSeen c"
proof (rule fmap_ext)
  fix n
  show "fmlookup (fm_map_filter as_versions
      (fmmap json_rt (fmmap (\<lambda>row. VMapT TInt (fmmap gint row)) (cp_VersionsSeen c)))) n =
    fmlookup (cp_VersionsSeen c) n"
  proof (cases "fmlookup (cp_VersionsSeen c) n")
    case (Some row)
    have "\<And>k v. fmlookup row k = Some v \<Longrightarrow> small v"
      using assms Some unfolding json_checkpoint_def by blast
    from versions_json [OF this] Some show ?thesis by (simp del: json_rt.simps)
  qed simp
qed

lemma pw_roundtrip:
  assumes "json_value (pw_Value pw)" "pw_Timestamp pw = 0" "pw_TaskID pw = []"
  shows "as_pending (json_rt (pw_to_map pw)) = Some pw"
  using assms
  by (cases pw) (simp add: pw_to_map_def json_rt_id getString_def getBool_def)

lemma map_filter_all_Some: "(\<And>x. x \<in> set xs \<Longrightarrow> f (g x) = Some x) \<Longrightarrow> List.map_filter f (map g xs) = xs"
  by (induction xs) (simp_all add: List.map_filter_simps)

lemma md_roundtrip:
  assumes "json_checkpoint c" and "fmtT (md_CreatedAt (cp_Metadata c)) \<noteq> []"
    and "parseT (fmtT (md_CreatedAt (cp_Metadata c))) = Some (md_CreatedAt (cp_Metadata c))"
  shows "md_from_map parseT (fmmap json_rt (md_to_map fmtT (cp_Metadata c))) = cp_Metadata c"
proof -
  let ?md = "cp_Metadata c" and ?m = "fmmap json_rt (md_to_map fmtT (cp_Metadata c))"
  have res: "\<And>k v. fmlookup (md_Metadata ?md) k = Some v \<Longrightarrow> json_value v \<and> k \<notin> set reserved_md"
    and st: "small (md_Step ?md)"
    using assms(1) unfolding json_checkpoint_def by blast+
  have none: "fmlookup (md_Metadata ?md) k = None" if "k \<in> set reserved_md" for k
    using res that by (cases "fmlookup (md_Metadata ?md) k") auto
  then have nd: "k |\<notin>| fmdom (md_Metadata ?md)" if "k \<in> set reserved_md" for k
    using that by (intro fmdom_notI)
  have keys: "fmlookup ?m ''id'' = Some (VStr (md_ID ?md))"
    "fmlookup ?m ''parent_id'' = Some (VStr (md_ParentID ?md))"
    "fmlookup ?m ''thread_id'' = Some (VStr (md_ThreadID ?md))"
    "fmlookup ?m ''step'' = Some (VFloat (of_int (md_Step ?md)))"
    "fmlookup ?m ''created_at'' = Some (VStr (fmtT (md_CreatedAt ?md)))"
    "fmlookup ?m ''source'' = Some (VStr (md_Source ?md))"
    using nd json_gint [OF st]
    by (simp_all add: md_to_map_def reserved_md_def)
  have custom: "fmfilter (\<lambda>k. k \<notin> set reserved_md) ?m = md_Metadata ?md"
  proof (rule fmap_ext)
    fix k
    show "fmlookup (fmfilter (\<lambda>k. k \<notin> set reserved_md) ?m) k = fmlookup (md_Metadata ?md) k"
    proof (cases "fmlookup (md_Metadata ?md) k")
      case None
      then have "k |\<notin>| fmdom (md_Metadata ?md)" by (rule fmdom_notI)
      with None show ?thesis by (auto simp: md_to_map_def reserved_md_def)
    next
      case (Some v)
      then have "k |\<in>| fmdom (md_Metadata ?md)" by (rule fmdomI)
      with Some res [OF Some] show ?thesis by (simp add: md_to_map_def json_rt_id)
    qed
  qed
  show ?thesis
    using assms(2,3) unfolding md_from_map_def getString_def getInt_def keys custom by simp
qed

text \<open>
  A checkpoint converted to a map, stored through JSON and read back is the same checkpoint,
  given that its time stamp survives formatting and parsing and its contents are JSON values.
\<close>

theorem checkpoint_map_roundtrip:
  assumes "json_checkpoint c" and "fmtT (md_CreatedAt (cp_Metadata c)) \<noteq> []"
    and "parseT (fmtT (md_CreatedAt (cp_Metadata c))) = Some (md_CreatedAt (cp_Metadata c))"
  shows "FromMap parseT (deepCopyMap (ToMap fmtT c)) = c"
proof -
  have sm: "small (cp_Version c)" "\<And>k v. fmlookup (cp_ChannelVersions c) k = Some v \<Longrightarrow> small v"
    and js: "\<And>k v. fmlookup (cp_State c) k = Some v \<Longrightarrow> json_value v"
    and pw: "\<And>pw. pw \<in> set (cp_PendingWrites c) \<Longrightarrow> as_pending (json_rt (pw_to_map pw)) = Some pw"
    using assms(1) pw_roundtrip unfolding json_checkpoint_def by blast+
  have st: "fmmap deepCopy (fmmap json_rt (fmmap deepCopy (cp_State c))) = cp_State c"
    by (rule fmap_ext) (use js in \<open>auto simp: option.map_comp o_def deepCopy_eq_json_rt json_rt_id
        intro!: option.map_ident_strong\<close>)
  have ws: "List.map_filter as_pending (map json_rt (map pw_to_map (cp_PendingWrites c))) = cp_PendingWrites c"
    using map_filter_all_Some [of "cp_PendingWrites c" as_pending "json_rt \<circ> pw_to_map"] pw by simp
  show ?thesis
    unfolding stored_def [symmetric]
    using versions_json [of "cp_ChannelVersions c" TInt] sm stored_versions_seen [OF assms(1)] st ws
      md_roundtrip [of c fmtT parseT, OF assms]
    by (cases c) (simp add: FromMap_def stored_lookups getString_def getInt_def json_gint)
qed

definition demo_checkpoint :: CheckpointData where
  "demo_checkpoint = AddPendingWrite (MarkSeen (IncrementChannel (NewCheckpoint ''c1'' 7 ''t'' 3) ''x'') ''n'' ''x'')
     ''x'' (VStr ''v'') False ''n''"

theorem checkpoint_map_roundtrip_witness:
  "FromMap (\<lambda>_. Some 7) (deepCopyMap (ToMap (\<lambda>_. ''t7'') demo_checkpoint)) = demo_checkpoint"
  by (rule checkpoint_map_roundtrip [of demo_checkpoint "\<lambda>_. ''t7''" "\<lambda>_. Some 7"])
    (auto simp: demo_checkpoint_def NewCheckpoint_def IncrementChannel_def MarkSeen_def AddPendingWrite_def
      json_checkpoint_def small_def vget_def seen_row_def split: if_splits)

text \<open>
  Without the JSON round trip in between, reading the map back loses the version, all channel
  versions and all pending writes, because the reader only accepts the types JSON decoding produces.
\<close>

theorem FromMap_ToMap_direct:
  "cp_Version (FromMap parseT (ToMap fmtT c)) = 0 \<and>
   cp_ChannelVersions (FromMap parseT (ToMap fmtT c)) = fmempty \<and>
   cp_VersionsSeen (FromMap parseT (ToMap fmtT c)) = fmempty \<and>
   cp_PendingWrites (FromMap parseT (ToMap fmtT c)) = []"
  by (simp add: FromMap_def ToMap_def getInt_def gint_def)

end
