(* ===== verification/Checkpoint_Manager.thy ===== *)
theory Checkpoint_Manager
  imports Checkpoint_Data
begin

text \<open>
  The \<open>CheckpointManager\<close> of \<open>checkpoint/checkpoint.go\<close>: per thread a history of checkpoints,
  oldest first, with optimistic concurrency control. Every method holds the manager's lock, so a
  method is one atomic step. \<open>Save\<close> keeps the caller's pointer: the stored checkpoint is the value it
  points to at the time of the call, and a caller that changes it afterwards is not modelled. Loads return clones, and a clone draws a fresh identifier and a time:
  these are arguments (\<open>newID\<close>, \<open>now\<close>; sequences \<open>ids\<close>, \<open>nows\<close> where a loop clones several
  checkpoints). Loops over the thread map take the order in which Go enumerates it (\<open>order\<close>).
\<close>

subsection \<open>Operations\<close>

record CheckpointManager =
  cm_checkpoints :: "(string, CheckpointData list) fmap"
  cm_maxVersions :: int

definition DefaultCheckpointMaxVersions :: int where
  "DefaultCheckpointMaxVersions = 100"

definition NewCheckpointManager :: "int \<Rightarrow> CheckpointManager" where
  "NewCheckpointManager maxVersions =
     \<lparr>cm_checkpoints = fmempty,
      cm_maxVersions = (if maxVersions \<le> 0 then DefaultCheckpointMaxVersions else maxVersions)\<rparr>"

definition RunnableConfigToMap :: "RunnableConfig option \<Rightarrow> (string, gval) fmap" where
  "RunnableConfigToMap cfg =
     (case cfg of
        None \<Rightarrow> fmempty
      | Some c \<Rightarrow> fmap_of_list
          [(''thread_id'', VStr (ThreadID c)),
           (''checkpoint_id'', VStr (GetOrEmpty c ''checkpoint_id'')),
           (''checkpoint_ns'', VStr (GetOrEmpty c ''checkpoint_ns''))])"

text \<open>The history of a thread; a missing entry of the Go map reads as the nil slice.\<close>

definition history :: "CheckpointManager \<Rightarrow> string \<Rightarrow> CheckpointData list" where
  "history cm threadID = (case fmlookup (cm_checkpoints cm) threadID of Some cs \<Rightarrow> cs | None \<Rightarrow> [])"

definition set_history :: "CheckpointManager \<Rightarrow> string \<Rightarrow> CheckpointData list \<Rightarrow> CheckpointManager" where
  "set_history cm threadID cs = cm\<lparr>cm_checkpoints := fmupd threadID cs (cm_checkpoints cm)\<rparr>"

definition Save :: "CheckpointManager \<Rightarrow> CheckpointData \<Rightarrow> gerror + CheckpointManager" where
  "Save cm c =
     (let threadID = md_ThreadID (cp_Metadata c);
          cs = history cm threadID;
          latest = last cs;
          conflict = VersionConflictError (cp_Version c) (cp_Version latest + 1) (cp_ID c) threadID;
          cs' = cs @ [c]
      in if cs \<noteq> [] \<and> cp_ParentID c \<noteq> [] \<and> cp_ID latest \<noteq> cp_ParentID c then Inl conflict
         else if cs \<noteq> [] \<and> cp_Version c > 0 \<and> cp_Version latest \<noteq> cp_Version c - 1 then Inl conflict
         else Inr (set_history cm threadID
           (if int (length cs') > cm_maxVersions cm
            then drop (nat (int (length cs') - cm_maxVersions cm)) cs' else cs')))"

definition apply_write :: "CheckpointData \<Rightarrow> PendingWrite \<Rightarrow> CheckpointData" where
  "apply_write c w =
     IncrementChannel (c\<lparr>cp_State := fmupd (pw_Channel w) (pw_Value w) (cp_State c)\<rparr>) (pw_Channel w)"

definition PutWrites ::
  "string \<Rightarrow> gotime \<Rightarrow> CheckpointManager \<Rightarrow> RunnableConfig \<Rightarrow> PendingWrite list \<Rightarrow> gerror + CheckpointManager" where
  "PutWrites newID now cm config writes =
     (let threadID = ThreadID config;
          cs = history cm threadID;
          current = last cs;
          callerID = GetOrEmpty config ''checkpoint_id''
      in if threadID = [] then Inl (Errorf ''thread ID is required for put_writes'')
         else if cs = [] then Inl (Errorf (''no checkpoint found for thread '' @ threadID))
         else if callerID = []
           then Inl (Errorf (''checkpoint_id is required for put_writes on thread '' @ threadID))
         else if callerID \<noteq> cp_ID current
           then Inl (VersionConflictError (cp_Version current) (cp_Version current + 1) (cp_ID current) threadID)
         else Inr (set_history cm threadID (cs @
           [foldl apply_write
              ((Clone newID now current)\<lparr>cp_Version := cp_Version current + 1, cp_ParentID := cp_ID current\<rparr>)
              writes])))"

definition Load :: "string \<Rightarrow> gotime \<Rightarrow> CheckpointManager \<Rightarrow> string \<Rightarrow> CheckpointData option" where
  "Load newID now cm threadID =
     (case history cm threadID of [] \<Rightarrow> None | cs \<Rightarrow> Some (Clone newID now (last cs)))"

definition LoadByCheckpointID ::
  "string list \<Rightarrow> string \<Rightarrow> gotime \<Rightarrow> CheckpointManager \<Rightarrow> string \<Rightarrow> gerror + CheckpointData" where
  "LoadByCheckpointID order newID now cm checkpointID =
     (case List.find (\<lambda>cp. cp_ID cp = checkpointID) (concat (map (history cm) order)) of
        Some cp \<Rightarrow> Inr (Clone newID now cp)
      | None \<Rightarrow> Inl (Errorf (''checkpoint not found: '' @ checkpointID)))"

definition clamp_limit :: "int \<Rightarrow> nat \<Rightarrow> nat" where
  "clamp_limit limit len = (if limit \<le> 0 \<or> limit > int len then len else nat limit)"

definition List_checkpoints ::
  "(nat \<Rightarrow> string) \<Rightarrow> (nat \<Rightarrow> gotime) \<Rightarrow> CheckpointManager \<Rightarrow> string \<Rightarrow> int \<Rightarrow> CheckpointData list" where
  "List_checkpoints ids nows cm threadID limit =
     (let cs = history cm threadID; n = clamp_limit limit (length cs); start = length cs - n
      in map (\<lambda>i. Clone (ids i) (nows i) (cs ! (start + i))) [0..<n])"

text \<open>A \<open>time.Time\<close> stored in a map of dynamic values: a struct whose fields are not exported.\<close>

definition VTime :: "gotime \<Rightarrow> gval" where
  "VTime t = VStruct ''time.Time'' [(''wall'', False, TNum Int64, VNum Int64 t)]"

record CheckpointTuple =
  ct_Config :: RunnableConfig
  ct_Checkpoint :: "CheckpointData option"
  ct_ParentConfig :: "RunnableConfig option"
  ct_Metadata :: "(string, gval) fmap"

definition NewCheckpointTuple ::
  "RunnableConfig option \<Rightarrow> CheckpointData option \<Rightarrow> RunnableConfig option \<Rightarrow> CheckpointTuple" where
  "NewCheckpointTuple config checkpoint parentConfig =
     \<lparr>ct_Config = (case config of None \<Rightarrow> NewRunnableConfig | Some c \<Rightarrow> c),
      ct_Checkpoint = checkpoint,
      ct_ParentConfig = parentConfig,
      ct_Metadata =
        (case checkpoint of
           None \<Rightarrow> fmempty
         | Some c \<Rightarrow> fmap_of_list
             [(''id'', VStr (cp_ID c)), (''version'', gint (cp_Version c)),
              (''thread_id'', VStr (md_ThreadID (cp_Metadata c))),
              (''step'', gint (md_Step (cp_Metadata c))),
              (''source'', VStr (md_Source (cp_Metadata c))),
              (''created_at'', VTime (md_CreatedAt (cp_Metadata c)))])\<rparr>"

text \<open>The configuration that names a checkpoint of a thread.\<close>

definition ref_config :: "string \<Rightarrow> string \<Rightarrow> RunnableConfig" where
  "ref_config threadID checkpointID =
     Config_Set (NewRunnableConfig\<lparr>ThreadID := threadID\<rparr>) ''checkpoint_id'' (VStr checkpointID)"

definition GetTuple ::
  "(nat \<Rightarrow> string) \<Rightarrow> (nat \<Rightarrow> gotime) \<Rightarrow> CheckpointManager \<Rightarrow> RunnableConfig \<Rightarrow> gerror + CheckpointTuple" where
  "GetTuple ids nows cm config =
     (let threadID = ThreadID config; cs = history cm threadID; n = length cs
      in if threadID = [] then Inl (Errorf ''thread ID is required'')
         else if cs = [] then Inr (NewCheckpointTuple (Some config) None None)
         else Inr (NewCheckpointTuple (Some config)
           (Some (Clone (ids 0) (nows 0) (cs ! (n - 1))))
           (if n > 1 then Some (ref_config threadID (cp_ID (Clone (ids 1) (nows 1) (cs ! (n - 2))))) else None)))"

fun find_version :: "nat \<Rightarrow> CheckpointData list \<Rightarrow> int \<Rightarrow> nat option" where
  "find_version i [] version = None"
| "find_version i (c # cs) version = (if cp_Version c = version then Some i else find_version (Suc i) cs version)"

definition GetTupleByVersion ::
  "(nat \<Rightarrow> string) \<Rightarrow> (nat \<Rightarrow> gotime) \<Rightarrow> CheckpointManager \<Rightarrow> RunnableConfig \<Rightarrow> int \<Rightarrow> gerror + CheckpointTuple" where
  "GetTupleByVersion ids nows cm config version =
     (let threadID = ThreadID config; cs = history cm threadID
      in if threadID = [] then Inl (Errorf ''thread ID is required'')
         else (case find_version 0 cs version of
             None \<Rightarrow> Inl (Errorf (''version not found: '' @ show_int version))
           | Some i \<Rightarrow> Inr (NewCheckpointTuple (Some config)
               (Some (Clone (ids 0) (nows 0) (cs ! i)))
               (if i > 0 then Some (ref_config threadID (cp_ID (Clone (ids 1) (nows 1) (cs ! (i - 1))))) else None))))"

definition GetLineage ::
  "(nat \<Rightarrow> string) \<Rightarrow> (nat \<Rightarrow> gotime) \<Rightarrow> CheckpointManager \<Rightarrow> string \<Rightarrow> int \<Rightarrow> CheckpointTuple list" where
  "GetLineage ids nows cm threadID limit =
     (let cs = history cm threadID; n = clamp_limit limit (length cs)
      in map (\<lambda>i. let cp = Clone (ids i) (nows i) (cs ! i)
                  in NewCheckpointTuple (Some (ref_config threadID (cp_ID cp))) (Some cp)
                       (if i > 0 then Some (ref_config threadID (cp_ID (cs ! (i - 1)))) else None))
           [length cs - n..<length cs])"

definition GetVersion_checkpoint ::
  "string \<Rightarrow> gotime \<Rightarrow> CheckpointManager \<Rightarrow> string \<Rightarrow> int \<Rightarrow> gerror + CheckpointData" where
  "GetVersion_checkpoint newID now cm threadID version =
     (case find_version 0 (history cm threadID) version of
        Some i \<Rightarrow> Inr (Clone newID now (history cm threadID ! i))
      | None \<Rightarrow> Inl (Errorf (''version not found: '' @ show_int version)))"

fun remove_id :: "string \<Rightarrow> CheckpointData list \<Rightarrow> CheckpointData list" where
  "remove_id i [] = []"
| "remove_id i (c # cs) = (if cp_ID c = i then cs else c # remove_id i cs)"

definition Delete :: "string list \<Rightarrow> CheckpointManager \<Rightarrow> string \<Rightarrow> gerror + CheckpointManager" where
  "Delete order cm checkpointID =
     (case List.find (\<lambda>t. checkpointID \<in> set (map cp_ID (history cm t))) order of
        Some threadID \<Rightarrow> Inr (set_history cm threadID (remove_id checkpointID (history cm threadID)))
      | None \<Rightarrow> Inl (Errorf (''checkpoint not found: '' @ checkpointID)))"

definition ClearThread :: "CheckpointManager \<Rightarrow> string \<Rightarrow> CheckpointManager" where
  "ClearThread cm threadID = cm\<lparr>cm_checkpoints := fmdrop threadID (cm_checkpoints cm)\<rparr>"

definition ClearAll :: "CheckpointManager \<Rightarrow> CheckpointManager" where
  "ClearAll cm = cm\<lparr>cm_checkpoints := fmempty\<rparr>"

subsection \<open>Histories as a keyed table\<close>

interpretation threads: keyed_table "NewCheckpointManager mv" set_history ClearThread
    "\<lambda>cm t. fmlookup (cm_checkpoints cm) t"
  by unfold_locales (auto simp: NewCheckpointManager_def set_history_def ClearThread_def)

lemma history_set_history [simp]:
  "history (set_history cm t cs) t' = (if t = t' then cs else history cm t')"
  by (simp add: history_def threads.get_put)

lemma history_New [simp]: "history (NewCheckpointManager mv) t = []"
  by (simp add: history_def threads.get_emp)

lemma history_ClearThread [simp]: "history (ClearThread cm t) t' = (if t = t' then [] else history cm t')"
  by (simp add: history_def threads.get_del)

lemma history_ClearAll [simp]: "history (ClearAll cm) t = []"
  by (simp add: history_def ClearAll_def)

lemma maxVersions_set_history [simp]: "cm_maxVersions (set_history cm t cs) = cm_maxVersions cm"
  by (simp add: set_history_def)

lemma maxVersions_New [simp]:
  "cm_maxVersions (NewCheckpointManager mv) = (if mv \<le> 0 then DefaultCheckpointMaxVersions else mv)"
  by (simp add: NewCheckpointManager_def)

subsection \<open>Applying writes\<close>

lemma foldl_apply_write:
  fixes c :: CheckpointData
  shows "cp_ID (foldl apply_write c ws) = cp_ID c"
    and "cp_Version (foldl apply_write c ws) = cp_Version c"
    and "cp_ParentID (foldl apply_write c ws) = cp_ParentID c"
    and "cp_VersionsSeen (foldl apply_write c ws) = cp_VersionsSeen c"
    and "cp_PendingWrites (foldl apply_write c ws) = cp_PendingWrites c"
    and "cp_Metadata (foldl apply_write c ws) = cp_Metadata c"
  by (induction ws arbitrary: c) (simp_all add: apply_write_def IncrementChannel_def)

lemma foldl_apply_write_state:
  "fmlookup (cp_State (foldl apply_write c ws)) ch =
     (case map_of (rev (map (\<lambda>w. (pw_Channel w, pw_Value w)) ws)) ch of
        Some v \<Rightarrow> Some v | None \<Rightarrow> fmlookup (cp_State c) ch)"
  by (induction ws arbitrary: c)
    (auto simp: apply_write_def IncrementChannel_def map_add_def split: option.splits)

lemma foldl_apply_write_versions:
  "vget (cp_ChannelVersions (foldl apply_write c ws)) ch =
     vget (cp_ChannelVersions c) ch + int (length (filter (\<lambda>w. pw_Channel w = ch) ws))"
  by (induction ws arbitrary: c) (auto simp: apply_write_def IncrementChannel_def)

lemma Clone_fields [simp]:
  "cp_ID (Clone i t c) = i" "cp_Version (Clone i t c) = cp_Version c" "cp_ParentID (Clone i t c) = cp_ID c"
  "cp_ChannelVersions (Clone i t c) = cp_ChannelVersions c" "cp_VersionsSeen (Clone i t c) = cp_VersionsSeen c"
  "cp_State (Clone i t c) = fmmap deepCopy (cp_State c)"
  "md_ThreadID (cp_Metadata (Clone i t c)) = md_ThreadID (cp_Metadata c)"
  by (simp_all add: Clone_def)

text \<open>The branches of the two writers, with the successful one spelled out.\<close>

lemma Save_InrE:
  assumes "Save cm c = Inr cm'"
  obtains cs where "cs = history cm (md_ThreadID (cp_Metadata c)) @ [c]"
    and "cm' = set_history cm (md_ThreadID (cp_Metadata c)) (drop (nat (int (length cs) - cm_maxVersions cm)) cs)"
    and "history cm (md_ThreadID (cp_Metadata c)) \<noteq> [] \<Longrightarrow>
      (cp_ParentID c \<noteq> [] \<longrightarrow> cp_ParentID c = cp_ID (last (history cm (md_ThreadID (cp_Metadata c))))) \<and>
      (cp_Version c > 0 \<longrightarrow> cp_Version c = cp_Version (last (history cm (md_ThreadID (cp_Metadata c)))) + 1)"
  using assms by (auto simp: Save_def Let_def split: if_splits)

lemma PutWrites_Inr_iff:
  "PutWrites newID now cm config ws = Inr cm' \<longleftrightarrow>
     (let t = ThreadID config; cs = history cm t
      in t \<noteq> [] \<and> cs \<noteq> [] \<and> GetOrEmpty config ''checkpoint_id'' \<noteq> [] \<and>
         GetOrEmpty config ''checkpoint_id'' = cp_ID (last cs) \<and>
         cm' = set_history cm t (cs @ [foldl apply_write
              ((Clone newID now (last cs))\<lparr>cp_Version := cp_Version (last cs) + 1, cp_ParentID := cp_ID (last cs)\<rparr>)
              ws]))"
  by (auto simp: PutWrites_def Let_def)

text \<open>
  A successful \<open>PutWrites\<close> appends exactly one checkpoint to the thread: it is the child of the
  one the caller named, its version is the next one, its state is the old state with the writes
  applied in order (the last write of a channel wins), each channel's version grows by the number of
  writes to it, and no other thread changes.
\<close>

theorem PutWrites_appends:
  assumes "PutWrites newID now cm config ws = Inr cm'"
  shows "\<exists>old new. history cm (ThreadID config) \<noteq> [] \<and> old = last (history cm (ThreadID config)) \<and>
     history cm' (ThreadID config) = history cm (ThreadID config) @ [new] \<and>
     cp_ID new = newID \<and> cp_ParentID new = cp_ID old \<and> cp_Version new = cp_Version old + 1 \<and>
     (\<forall>ch. fmlookup (cp_State new) ch =
        (case map_of (rev (map (\<lambda>w. (pw_Channel w, pw_Value w)) ws)) ch of
           Some v \<Rightarrow> Some v | None \<Rightarrow> map_option deepCopy (fmlookup (cp_State old) ch))) \<and>
     (\<forall>ch. vget (cp_ChannelVersions new) ch =
        vget (cp_ChannelVersions old) ch + int (length (filter (\<lambda>w. pw_Channel w = ch) ws))) \<and>
     (\<forall>t. t = ThreadID config \<or> history cm' t = history cm t)"
  using assms
  by (auto simp: PutWrites_Inr_iff Let_def foldl_apply_write foldl_apply_write_state
      foldl_apply_write_versions split: option.split)

definition demo_manager :: CheckpointManager where
  "demo_manager = set_history (NewCheckpointManager 2) ''t'' [NewCheckpoint ''c1'' 1 ''t'' 0, NewCheckpoint ''c2'' 2 ''t'' 1]"

definition demo_write :: PendingWrite where
  "demo_write = NewPendingWrite 5 ''x'' (VStr ''v'') False ''n'' ''task''"

lemma demo_history: "history demo_manager ''t'' = [NewCheckpoint ''c1'' 1 ''t'' 0, NewCheckpoint ''c2'' 2 ''t'' 1]"
  by (simp add: demo_manager_def)

lemma ref_config_fields [simp]:
  "ThreadID (ref_config t i) = t" "GetOrEmpty (ref_config t i) ''checkpoint_id'' = i"
  by (simp_all add: ref_config_def Config_Set_def NewRunnableConfig_def GetOrEmpty_def)

lemma demo_PutWrites:
  "\<exists>cm'. PutWrites ''c3'' 9 demo_manager (ref_config ''t'' ''c2'') [demo_write] = Inr cm'"
  by (simp add: PutWrites_Inr_iff demo_history NewCheckpoint_def Let_def)

theorem PutWrites_appends_witness:
  "\<exists>cm' new. PutWrites ''c3'' 9 demo_manager (ref_config ''t'' ''c2'') [demo_write] = Inr cm' \<and>
     history cm' ''t'' = history demo_manager ''t'' @ [new] \<and> cp_Version new = 1"
proof -
  obtain cm' where "PutWrites ''c3'' 9 demo_manager (ref_config ''t'' ''c2'') [demo_write] = Inr cm'"
    using demo_PutWrites by blast
  from this PutWrites_appends [OF this] show ?thesis
    by (auto simp: demo_history NewCheckpoint_def)
qed

text \<open>
  C23: of two writers that read the same checkpoint of a thread only the first succeeds: after a
  successful \<open>PutWrites\<close> a second one with the same configuration is rejected with a version
  conflict naming the new latest checkpoint, and changes nothing.
\<close>

theorem PutWrites_no_lost_update:
  assumes "PutWrites newID now cm config ws = Inr cm'" and "newID \<noteq> GetOrEmpty config ''checkpoint_id''"
  shows "PutWrites newID2 now2 cm' config ws2 =
     (let v = cp_Version (last (history cm (ThreadID config)))
      in Inl (VersionConflictError (v + 1) (v + 2) newID (ThreadID config)))"
  using assms unfolding PutWrites_Inr_iff Let_def
  by (auto simp: PutWrites_def Let_def foldl_apply_write)

theorem PutWrites_no_lost_update_witness:
  "\<exists>cm'. PutWrites ''c3'' 9 demo_manager (ref_config ''t'' ''c2'') [demo_write] = Inr cm' \<and>
     PutWrites ''c4'' 10 cm' (ref_config ''t'' ''c2'') [] = Inl (VersionConflictError 1 2 ''c3'' ''t'')"
proof -
  obtain cm' where "PutWrites ''c3'' 9 demo_manager (ref_config ''t'' ''c2'') [demo_write] = Inr cm'"
    using demo_PutWrites by blast
  from this PutWrites_no_lost_update [OF this, of "''c4''" 10 "[]"] show ?thesis
    by (auto simp: demo_history NewCheckpoint_def Let_def)
qed

text \<open>
  The identifier of a loaded checkpoint cannot be used to write: \<open>Load\<close> returns a clone with a
  fresh identifier, so \<open>PutWrites\<close> with that identifier always reports a conflict; the identifier of
  the stored checkpoint is the clone's parent, and with it the write is accepted.
\<close>

theorem Load_then_PutWrites:
  assumes "Load newID now cm t = Some c" and "t \<noteq> []" and "newID \<noteq> []"
    and "newID \<noteq> cp_ID (last (history cm t))" and "cp_ID (last (history cm t)) \<noteq> []"
  shows "PutWrites i n cm (ref_config t (cp_ID c)) ws =
       Inl (VersionConflictError (cp_Version c) (cp_Version c + 1) (cp_ParentID c) t) \<and>
     (\<exists>cm'. PutWrites i n cm (ref_config t (cp_ParentID c)) ws = Inr cm')"
  using assms unfolding PutWrites_Inr_iff Let_def
  by (auto simp: Load_def PutWrites_def Let_def split: list.splits)

theorem Load_then_PutWrites_witness:
  "\<exists>c. Load ''l'' 7 demo_manager ''t'' = Some c \<and>
     PutWrites ''c3'' 8 demo_manager (ref_config ''t'' (cp_ID c)) [] = Inl (VersionConflictError 0 1 ''c2'' ''t'')"
proof -
  obtain c where c: "Load ''l'' 7 demo_manager ''t'' = Some c"
    by (simp add: Load_def demo_history)
  then have "cp_Version c = 0 \<and> cp_ParentID c = ''c2''"
    by (auto simp: Load_def demo_history NewCheckpoint_def)
  with c Load_then_PutWrites [OF c, of "''c3''" 8 "[]"] show ?thesis
    by (simp add: demo_history NewCheckpoint_def)
qed

subsection \<open>Retention and lineage\<close>

text \<open>
  C25: \<open>Save\<close> keeps the most recent \<open>maxVersions\<close> checkpoints of the thread, the saved one last, leaves
  the other threads alone, and the next \<open>Load\<close> of the thread returns a clone of the saved one.
\<close>

theorem Save_retention:
  assumes "Save cm c = Inr cm'" and "cm_maxVersions cm > 0"
  shows "(let t = md_ThreadID (cp_Metadata c); cs = history cm t @ [c] in
     history cm' t = rev (take (nat (cm_maxVersions cm)) (rev cs)) \<and>
     int (length (history cm' t)) \<le> cm_maxVersions cm \<and>
     Load newID now cm' t = Some (Clone newID now c) \<and>
     (\<forall>t'. t' = t \<or> history cm' t' = history cm t'))"
proof -
  let ?t = "md_ThreadID (cp_Metadata c)"
  let ?cs = "history cm ?t @ [c]"
  let ?k = "nat (int (length ?cs) - cm_maxVersions cm)"
  have cm': "cm' = set_history cm ?t (drop ?k ?cs)"
    using assms(1) by (rule Save_InrE) simp
  have k: "?k = length ?cs - nat (cm_maxVersions cm)" "?k < length ?cs"
    using assms(2) by auto
  then obtain x xs where xs: "drop ?k ?cs = x # xs"
    by (cases "drop ?k ?cs") auto
  moreover have "last (drop ?k ?cs) = c"
    using k(2) by (simp add: last_drop)
  ultimately have "Load newID now cm' ?t = Some (Clone newID now c)"
    by (simp add: Load_def cm')
  moreover have "drop ?k ?cs = rev (take (nat (cm_maxVersions cm)) (rev ?cs))"
    by (simp only: k(1) take_rev rev_rev_ident)
  moreover have "int (length (drop ?k ?cs)) \<le> cm_maxVersions cm"
    using assms(2) by simp
  ultimately show ?thesis by (simp add: Let_def cm')
qed

theorem Save_retention_witness:
  "\<exists>cm'. Save demo_manager (NewCheckpoint ''c3'' 3 ''t'' 2) = Inr cm' \<and>
     map cp_ID (history cm' ''t'') = [''c2'', ''c3'']"
proof -
  have mv: "cm_maxVersions demo_manager > 0"
    by (simp add: demo_manager_def NewCheckpointManager_def)
  have th: "md_ThreadID (cp_Metadata (NewCheckpoint ''c3'' 3 ''t'' 2)) = ''t''"
    by (simp add: NewCheckpoint_def)
  obtain cm' where s: "Save demo_manager (NewCheckpoint ''c3'' 3 ''t'' 2) = Inr cm'"
    by (auto simp: Save_def Let_def NewCheckpoint_def)
  from Save_retention [OF s mv] have "history cm' ''t'' = rev (take 2
      (rev (history demo_manager ''t'' @ [NewCheckpoint ''c3'' 3 ''t'' 2])))"
    unfolding Let_def th by (simp add: demo_manager_def NewCheckpointManager_def)
  with s show ?thesis by (simp add: demo_history NewCheckpoint_def numeral_2_eq_2)
qed

text \<open>
  \<open>PutWrites\<close> does not apply the retention limit: from a thread that has a checkpoint with a
  non-empty identifier, any number of writes can follow each other, and each one makes the history
  longer, whatever \<open>maxVersions\<close> is.
\<close>

theorem PutWrites_unbounded:
  assumes "t \<noteq> []" and "history cm t \<noteq> []" and "cp_ID (last (history cm t)) \<noteq> []"
    and "\<And>i. ids i \<noteq> []"
  shows "\<exists>cm'. foldl (\<lambda>r i. case r of Inl e \<Rightarrow> Inl e | Inr m \<Rightarrow>
            PutWrites (ids i) now m (ref_config t (cp_ID (last (history m t)))) ws) (Inr cm) [0..<n] = Inr cm' \<and>
         length (history cm' t) = length (history cm t) + n \<and> cm_maxVersions cm' = cm_maxVersions cm \<and>
         history cm' t \<noteq> [] \<and> cp_ID (last (history cm' t)) \<noteq> []"
proof (induction n)
  case 0
  then show ?case using assms by simp
next
  case (Suc n)
  then obtain cm' where cm': "foldl (\<lambda>r i. case r of Inl e \<Rightarrow> Inl e | Inr m \<Rightarrow>
            PutWrites (ids i) now m (ref_config t (cp_ID (last (history m t)))) ws) (Inr cm) [0..<n] = Inr cm'"
    and len: "length (history cm' t) = length (history cm t) + n"
    and mv: "cm_maxVersions cm' = cm_maxVersions cm"
    and ne: "history cm' t \<noteq> []" "cp_ID (last (history cm' t)) \<noteq> []"
    by blast
  let ?new = "foldl apply_write ((Clone (ids n) now (last (history cm' t)))\<lparr>
      cp_Version := cp_Version (last (history cm' t)) + 1, cp_ParentID := cp_ID (last (history cm' t))\<rparr>) ws"
  have "PutWrites (ids n) now cm' (ref_config t (cp_ID (last (history cm' t)))) ws =
      Inr (set_history cm' t (history cm' t @ [?new]))"
    using ne assms(1) by (simp add: PutWrites_Inr_iff Let_def)
  with cm' len mv assms(4) show ?case by (simp add: foldl_apply_write)
qed

theorem PutWrites_unbounded_witness:
  "\<exists>cm'. int (length (history cm' ''t'')) > cm_maxVersions cm' \<and> cm_maxVersions cm' = 2"
proof -
  have "history demo_manager ''t'' \<noteq> []" "cp_ID (last (history demo_manager ''t'')) \<noteq> []"
    by (simp_all add: demo_history NewCheckpoint_def)
  from PutWrites_unbounded [OF _ this, of "\<lambda>i. show_nat i @ ''x''" 0 "[]" 3]
  obtain cm' where "length (history cm' ''t'') = length (history demo_manager ''t'') + 3"
    "cm_maxVersions cm' = cm_maxVersions demo_manager"
    by auto
  moreover have "cm_maxVersions demo_manager = 2" by (simp add: demo_manager_def NewCheckpointManager_def)
  ultimately show ?thesis by (intro exI [of _ cm']) (simp add: demo_history)
qed

text \<open>
  The state machine of the manager: one transition per successful state-changing method, labelled with
  the checkpoints it deletes; \<open>order\<close> enumerates the threads. \<open>cm_reach mv del cm\<close>: the manager \<open>cm\<close> is
  reached from an empty one, and \<open>del\<close> are the checkpoints that \<open>Delete\<close> removed on the way.
\<close>

inductive cm_step :: "CheckpointManager \<Rightarrow> CheckpointData list \<Rightarrow> CheckpointManager \<Rightarrow> bool" where
  step_Save: "Save cm c = Inr cm' \<Longrightarrow> cm_step cm [] cm'"
| step_PutWrites: "PutWrites newID now cm config ws = Inr cm' \<Longrightarrow> cm_step cm [] cm'"
| step_Delete: "distinct order \<Longrightarrow> set order = fset (fmdom (cm_checkpoints cm)) \<Longrightarrow> Delete order cm i = Inr cm' \<Longrightarrow>
    List.find (\<lambda>c. cp_ID c = i) (concat (map (history cm) order)) = Some c \<Longrightarrow> cm_step cm [c] cm'"
| step_ClearThread: "cm_step cm [] (ClearThread cm t)"
| step_ClearAll: "cm_step cm [] (ClearAll cm)"

inductive cm_reach :: "int \<Rightarrow> CheckpointData set \<Rightarrow> CheckpointManager \<Rightarrow> bool" for mv where
  reach_New: "cm_reach mv {} (NewCheckpointManager mv)"
| reach_step: "cm_reach mv del cm \<Longrightarrow> cm_step cm ds cm' \<Longrightarrow> cm_reach mv (del \<union> set ds) cm'"

definition follows :: "CheckpointData \<Rightarrow> CheckpointData \<Rightarrow> bool" where
  "follows a b \<longleftrightarrow> (cp_ParentID b \<noteq> [] \<longrightarrow> cp_ParentID b = cp_ID a) \<and>
     (cp_Version b > 0 \<longrightarrow> cp_Version b = cp_Version a + 1)"

definition linked :: "CheckpointData set \<Rightarrow> CheckpointData \<Rightarrow> CheckpointData \<Rightarrow> bool" where
  "linked del a b \<longleftrightarrow>
     (\<exists>p. (p = a \<or> p \<in> del \<and> md_ThreadID (cp_Metadata p) = md_ThreadID (cp_Metadata b)) \<and> follows p b)"

definition cm_inv :: "CheckpointData set \<Rightarrow> CheckpointManager \<Rightarrow> bool" where
  "cm_inv del cm \<longleftrightarrow> (\<forall>t. successively (linked del) (history cm t) \<and>
     (\<forall>c\<in>set (history cm t). md_ThreadID (cp_Metadata c) = t))"

lemma successively_drop: "successively P xs \<Longrightarrow> successively P (drop n xs)"
  by (auto simp: successively_conv_nth)

lemma successively_snoc:
  "successively P (xs @ [x]) \<longleftrightarrow> successively P xs \<and> (xs \<noteq> [] \<longrightarrow> P (last xs) x)"
  by (auto simp: successively_append_iff)

lemma cm_inv_set_history:
  "cm_inv del cm \<Longrightarrow> successively (linked del) cs \<Longrightarrow> \<forall>c\<in>set cs. md_ThreadID (cp_Metadata c) = t \<Longrightarrow>
   cm_inv del (set_history cm t cs)"
  by (simp add: cm_inv_def)

lemma follows_linked: "follows a b \<Longrightarrow> linked del a b"
  unfolding linked_def by blast

lemma linked_mono: "linked del a b \<Longrightarrow> del \<subseteq> del' \<Longrightarrow> linked del' a b"
  unfolding linked_def by blast

lemma cm_inv_mono: "cm_inv del cm \<Longrightarrow> del \<subseteq> del' \<Longrightarrow> cm_inv del' cm"
  unfolding cm_inv_def using successively_mono [of "linked del" _ "linked del'"] linked_mono by metis

lemma find_None_ids: "List.find (\<lambda>cp. cp_ID cp = i) cs = None \<longleftrightarrow> i \<notin> cp_ID ` set cs"
  by (auto simp: find_None_iff)

lemma remove_id_split:
  "List.find (\<lambda>c. cp_ID c = i) cs = Some c \<Longrightarrow> \<exists>xs ys. cs = xs @ c # ys \<and> remove_id i cs = xs @ ys"
proof (induction cs)
  case (Cons b bs)
  then show ?case
  proof (cases "cp_ID b = i")
    case False
    with Cons obtain xs ys where "bs = xs @ c # ys" "remove_id i bs = xs @ ys" by auto
    with False show ?thesis by (intro exI [of _ "b # xs"] exI [of _ ys]) simp
  qed auto
qed simp

lemma Delete_removes:
  assumes "Delete order cm i = Inr cm'"
    and "List.find (\<lambda>c. cp_ID c = i) (concat (map (history cm) order)) = Some c"
  shows "\<exists>t xs ys. history cm t = xs @ c # ys \<and> cm' = set_history cm t (xs @ ys)"
proof -
  obtain t where t: "List.find (\<lambda>t. i \<in> set (map cp_ID (history cm t))) order = Some t"
      and cm': "cm' = set_history cm t (remove_id i (history cm t))"
    using assms(1) by (auto simp: Delete_def split: option.splits)
  have "List.find (\<lambda>c. cp_ID c = i) (history cm t) = Some c"
    using t assms(2)
  proof (induction order)
    case (Cons u us)
    then show ?case
      by (cases "List.find (\<lambda>c. cp_ID c = i) (history cm u)")
        (auto simp: find_append find_None_ids find_Some_iff split: if_splits option.splits)
  qed simp
  from remove_id_split [OF this] cm' show ?thesis by metis
qed

lemma successively_cut:
  assumes "successively (linked del) (xs @ c # ys)" and "\<forall>b\<in>set (c # ys). md_ThreadID (cp_Metadata b) = t"
  shows "successively (linked (insert c del)) (xs @ ys)"
proof -
  have "successively (linked (insert c del)) (xs @ c # ys)"
    using successively_mono [OF assms(1)] linked_mono by (metis subset_insertI)
  moreover have "linked (insert c del) (last xs) (hd ys)" if "ys \<noteq> []"
  proof -
    from that obtain y zs where y: "ys = y # zs" by (cases ys) auto
    with assms(1) have "linked del c y" by (simp add: successively_append_iff)
    with assms(2) y show ?thesis unfolding linked_def by auto
  qed
  ultimately show ?thesis by (cases ys) (auto simp: successively_append_iff)
qed

lemma cm_inv_step: "cm_step cm ds cm' \<Longrightarrow> cm_inv del cm \<Longrightarrow> cm_inv (del \<union> set ds) cm'"
proof (induction rule: cm_step.induct)
  case (step_Save cm c cm')
  let ?t = "md_ThreadID (cp_Metadata c)"
  from step_Save(1) obtain k where cm': "cm' = set_history cm ?t (drop k (history cm ?t @ [c]))"
    and "history cm ?t \<noteq> [] \<Longrightarrow> follows (last (history cm ?t)) c"
    unfolding follows_def by (rule Save_InrE) blast
  with step_Save(2) have "successively (linked del) (history cm ?t @ [c])"
    by (simp add: successively_snoc cm_inv_def follows_linked)
  then have "successively (linked del) (drop k (history cm ?t @ [c]))" by (rule successively_drop)
  moreover have "\<forall>x\<in>set (drop k (history cm ?t @ [c])). md_ThreadID (cp_Metadata x) = ?t"
    using step_Save(2) set_drop_subset [of k "history cm ?t @ [c]"] by (auto simp: cm_inv_def)
  ultimately have "cm_inv del cm'" unfolding cm' by (rule cm_inv_set_history [OF step_Save(2)])
  then show ?case by (simp only: list.set Un_empty_right)
next
  case (step_PutWrites newID now cm config ws cm')
  let ?t = "ThreadID config"
  let ?l = "last (history cm ?t)"
  let ?c = "foldl apply_write ((Clone newID now ?l)\<lparr>cp_Version := cp_Version ?l + 1, cp_ParentID := cp_ID ?l\<rparr>) ws"
  have ne: "history cm ?t \<noteq> []" and cm': "cm' = set_history cm ?t (history cm ?t @ [?c])"
    using step_PutWrites(1) unfolding PutWrites_Inr_iff Let_def by blast+
  have th: "\<forall>x\<in>set (history cm ?t). md_ThreadID (cp_Metadata x) = ?t" and
    su: "successively (linked del) (history cm ?t)" using step_PutWrites(2) by (simp_all add: cm_inv_def)
  have "follows ?l ?c" by (simp add: follows_def foldl_apply_write)
  then have "successively (linked del) (history cm ?t @ [?c])"
    using su by (simp add: successively_snoc follows_linked)
  moreover have "\<forall>x\<in>set (history cm ?t @ [?c]). md_ThreadID (cp_Metadata x) = ?t"
    using th ne by (simp add: foldl_apply_write)
  ultimately have "cm_inv del cm'" unfolding cm' by (rule cm_inv_set_history [OF step_PutWrites(2)])
  then show ?case by (simp only: list.set Un_empty_right)
next
  case (step_Delete order cm i cm' c)
  from Delete_removes [OF step_Delete(3,4)] obtain t xs ys where
    h: "history cm t = xs @ c # ys" and cm': "cm' = set_history cm t (xs @ ys)" by blast
  have th: "\<forall>b\<in>set (xs @ c # ys). md_ThreadID (cp_Metadata b) = t"
    using step_Delete(5) h by (simp add: cm_inv_def flip: h)
  have "successively (linked del) (xs @ c # ys)"
    using step_Delete(5) by (simp add: cm_inv_def flip: h)
  then have "successively (linked (insert c del)) (xs @ ys)"
    by (rule successively_cut [where t = t]) (use th in simp)
  moreover have "cm_inv (insert c del) cm" by (rule cm_inv_mono [OF step_Delete(5)]) blast
  ultimately show ?case unfolding cm' using cm_inv_set_history th by simp
qed (simp_all add: cm_inv_def)

text \<open>
  C24: in every manager reached by successful \<open>Save\<close>, \<open>PutWrites\<close>, \<open>Delete\<close>, \<open>ClearThread\<close> and
  \<open>ClearAll\<close> calls, each thread's history holds only checkpoints of that thread, and every checkpoint
  but the oldest continues its predecessor in the history or, where \<open>Delete\<close> has left a gap, a deleted
  checkpoint of the same thread: the parent it names, if any, is that checkpoint, and the version it
  declares, if positive, is that one's version plus one. As long as nothing is deleted the history is
  an unbroken lineage; after a deletion a parent identifier may name a checkpoint that is gone.
\<close>

theorem history_lineage:
  assumes "cm_reach mv del cm"
  shows "(\<forall>c\<in>set (history cm t). md_ThreadID (cp_Metadata c) = t) \<and>
    (\<forall>i. Suc i < length (history cm t) \<longrightarrow>
       (\<exists>p. (p = history cm t ! i \<or> p \<in> del \<and> md_ThreadID (cp_Metadata p) = t) \<and>
          (cp_ParentID (history cm t ! Suc i) \<noteq> [] \<longrightarrow> cp_ParentID (history cm t ! Suc i) = cp_ID p) \<and>
          (cp_Version (history cm t ! Suc i) > 0 \<longrightarrow> cp_Version (history cm t ! Suc i) = cp_Version p + 1)))"
proof -
  from assms have inv: "cm_inv del cm"
  proof (induction rule: cm_reach.induct)
    case reach_New
    show ?case by (simp add: cm_inv_def)
  qed (rule cm_inv_step)
  then have th: "\<forall>c\<in>set (history cm t). md_ThreadID (cp_Metadata c) = t" by (simp add: cm_inv_def)
  have "linked del (history cm t ! i) (history cm t ! Suc i)" if "Suc i < length (history cm t)" for i
    using inv that by (auto simp: cm_inv_def successively_conv_nth)
  then show ?thesis
    using th unfolding linked_def follows_def by (metis nth_mem)
qed

theorem history_lineage_witness:
  "\<exists>cm del a b c. cm_reach 5 del cm \<and> del = {b} \<and> history cm ''t'' = [a, c] \<and>
     cp_ParentID c \<noteq> cp_ID a \<and> cp_ParentID c = cp_ID b \<and> cp_Version c = cp_Version b + 1"
proof -
  let ?a = "NewCheckpoint ''c1'' 1 ''t'' 0"
  let ?m = "set_history (NewCheckpointManager 5) ''t'' [?a]"
  have "Save (NewCheckpointManager 5) ?a = Inr ?m"
    by (simp add: Save_def Let_def NewCheckpoint_def)
  then have r1: "cm_reach 5 {} ?m" using reach_step [OF reach_New step_Save] by fastforce
  obtain b m2 where s2: "PutWrites ''c2'' 2 ?m (ref_config ''t'' ''c1'') [] = Inr m2"
    and h2: "m2 = set_history ?m ''t'' [?a, b]" "cp_ID b = ''c2''" "cp_Version b = 1"
    by (simp add: PutWrites_def Let_def NewCheckpoint_def Clone_def)
  have r2: "cm_reach 5 {} m2" using reach_step [OF r1 step_PutWrites [OF s2]] by simp
  obtain c m3 where s3: "PutWrites ''c3'' 3 m2 (ref_config ''t'' ''c2'') [] = Inr m3"
    and h3: "m3 = set_history m2 ''t'' [?a, b, c]" "cp_ID c = ''c3''" "cp_ParentID c = ''c2''" "cp_Version c = cp_Version b + 1"
      "0 < cp_Version c"
    using h2 s2 by (auto simp: PutWrites_def Let_def NewCheckpoint_def Clone_def)
  have r3: "cm_reach 5 {} m3" using reach_step [OF r2 step_PutWrites [OF s3]] by simp
  let ?m4 = "set_history m3 ''t'' [?a, c]"
  have h: "history m3 ''t'' = [?a, b, c]" by (simp add: h3(1))
  have id: "cp_ID ?a = ''c1''" by (simp add: NewCheckpoint_def)
  have "Delete [''t''] m3 ''c2'' = Inr ?m4" by (simp add: Delete_def h h2(2) h3(2) id)
  moreover have "set [''t''] = fset (fmdom (cm_checkpoints m3))"
    by (simp add: h3(1) h2(1) set_history_def NewCheckpointManager_def)
  moreover have "List.find (\<lambda>c. cp_ID c = ''c2'') (concat (map (history m3) [''t''])) = Some b"
    by (simp add: h h2(2) id)
  ultimately have r4: "cm_reach 5 {b} ?m4"
    using reach_step [OF r3 step_Delete [of "[''t'']" m3 "''c2''" ?m4 b]] by simp
  have h4: "history ?m4 ''t'' = [?a, c]" by simp
  from history_lineage [OF r4, of "''t''"] obtain p where "p = ?a \<or> p = b" "cp_ParentID c = cp_ID p" "cp_Version c = cp_Version p + 1"
    using h3 by (auto simp: h4)
  then have "cp_ParentID c = cp_ID b \<and> cp_Version c = cp_Version b + 1" using h3 id by auto
  with r4 h4 h3 id show ?thesis by (intro exI [of _ ?m4] exI [of _ "{b}"] exI [of _ ?a] exI [of _ b] exI [of _ c]) simp
qed

subsection \<open>Reading\<close>

text \<open>
  The parent configuration in the result of \<open>GetTuple\<close> cannot be loaded: it names the fresh
  identifier of a clone, which no thread stores. The parent configuration in the result of
  \<open>GetLineage\<close> names the stored checkpoint and loads it.
\<close>

theorem GetTuple_parent_dangling:
  assumes "ThreadID config \<noteq> []" and "length (history cm (ThreadID config)) \<ge> 2"
    and "\<And>t c. c \<in> set (history cm t) \<Longrightarrow> cp_ID c \<noteq> ids 1"
    and "ThreadID config \<in> set order"
  shows "(\<exists>tup p. GetTuple ids nows cm config = Inr tup \<and> ct_ParentConfig tup = Some p \<and>
       (\<exists>e. LoadByCheckpointID order newID now cm (GetOrEmpty p ''checkpoint_id'') = Inl e)) \<and>
     (\<exists>p. ct_ParentConfig (last (GetLineage ids nows cm (ThreadID config) 0)) = Some p \<and>
       (\<exists>c. LoadByCheckpointID order newID now cm (GetOrEmpty p ''checkpoint_id'') = Inr c))"
proof -
  let ?t = "ThreadID config" let ?cs = "history cm (ThreadID config)"
  have "ids 1 \<notin> cp_ID ` set (concat (map (history cm) order))"
    using assms(3) by force
  then have none: "List.find (\<lambda>cp. cp_ID cp = ids 1) (concat (map (history cm) order)) = None"
    by (simp only: find_None_ids not_False_eq_True)
  have "?cs \<noteq> []" and len: "length ?cs > 1" using assms(2) by auto
  define q where "q = cp_ID (?cs ! (length ?cs - 2))"
  have "q \<in> cp_ID ` set (concat (map (history cm) order))"
    using len assms(4) by (force simp: q_def)
  then obtain c where some: "List.find (\<lambda>cp. cp_ID cp = q) (concat (map (history cm) order)) = Some c"
    using find_None_ids [of q "concat (map (history cm) order)"] by (meson not_None_eq)
  have "ct_ParentConfig (last (GetLineage ids nows cm ?t 0)) = Some (ref_config ?t q)"
    using len \<open>?cs \<noteq> []\<close> by (simp add: GetLineage_def Let_def clamp_limit_def last_map
        NewCheckpointTuple_def q_def numeral_2_eq_2)
  with some show ?thesis
    using none assms(1) len \<open>?cs \<noteq> []\<close>
    by (simp add: GetTuple_def Let_def NewCheckpointTuple_def LoadByCheckpointID_def)
qed

theorem GetTuple_parent_dangling_witness:
  "\<exists>tup p e. GetTuple (\<lambda>i. if i = 0 then ''f0'' else ''f1'') (\<lambda>i. 4) demo_manager (ref_config ''t'' ''c2'') = Inr tup \<and>
     ct_ParentConfig tup = Some p \<and>
     LoadByCheckpointID [''t''] ''g'' 5 demo_manager (GetOrEmpty p ''checkpoint_id'') = Inl e"
proof -
  have "cp_ID c \<noteq> ''f1''" if "c \<in> set (history demo_manager t)" for c t
    using that by (auto simp: demo_manager_def NewCheckpoint_def split: if_splits)
  then show ?thesis
    using GetTuple_parent_dangling [of "ref_config ''t'' ''c2''" demo_manager
        "\<lambda>i. if i = 0 then ''f0'' else ''f1''" "[''t'']" "\<lambda>i. 4" "''g''" 5]
    by (auto simp: demo_history)
qed

text \<open>
  \<open>List\<close> with a limit returns clones of that many most recent checkpoints, with the oldest of
  them first, each one naming as parent the stored checkpoint it was cloned from.
\<close>

theorem List_checkpoints_order:
  "map cp_ParentID (List_checkpoints ids nows cm t limit) =
     (let cs = history cm t
      in map cp_ID (if limit \<le> 0 then cs else drop (length cs - nat limit) cs))"
proof -
  let ?cs = "history cm t"
  have "map (\<lambda>i. cp_ID (?cs ! (length ?cs - n + i))) [0..<n] = map cp_ID (drop (length ?cs - n) ?cs)"
    if "n \<le> length ?cs" for n
    by (rule nth_equalityI) (use that in auto)
  moreover have "clamp_limit limit (length ?cs) \<le> length ?cs" by (auto simp: clamp_limit_def)
  ultimately show ?thesis
    by (auto simp: List_checkpoints_def Let_def o_def clamp_limit_def)
qed

end
