(* ===== verification/Memory_Saver.thy ===== *)
theory Memory_Saver
  imports Checkpoint_Manager
begin

text \<open>
  The in-memory checkpoint saver of \<open>checkpoint/memory.go\<close> and the interface the engine uses it
  through. A configuration is a map of dynamic values that names the thread and, optionally, a
  checkpoint. Fresh identifiers and the clock are arguments. Maps that cross the interface are
  deep-copied by the code, so nothing is shared between the saver and its callers.
\<close>

type_synonym gmap = "(string, gval) fmap"

definition ConfigKeyThreadID :: string where "ConfigKeyThreadID = ''thread_id''"
definition ConfigKeyCheckpointID :: string where "ConfigKeyCheckpointID = ''checkpoint_id''"

definition str_at :: "gmap \<Rightarrow> string \<Rightarrow> string option" where
  "str_at m k = (case fmlookup m k of Some (VStr s) \<Rightarrow> Some s | _ \<Rightarrow> None)"

subsection \<open>The interface\<close>

text \<open>
  What the engine relies on: a put for a configuration with a thread identifier succeeds, and a get
  for a thread without a checkpoint identifier returns a deep copy of what was last put there.
\<close>

locale checkpointer =
  fixes emp :: 's
    and put :: "string \<Rightarrow> gotime \<Rightarrow> 's \<Rightarrow> gmap \<Rightarrow> gmap \<Rightarrow> gerror + 's"
    and get :: "'s \<Rightarrow> gmap \<Rightarrow> gerror + gmap option"
  assumes get_emp: "str_at cfg ConfigKeyThreadID = Some t \<Longrightarrow> str_at cfg ConfigKeyCheckpointID = None \<Longrightarrow>
      get emp cfg = Inr None"
    and put_ok: "str_at cfg ConfigKeyThreadID = Some t \<Longrightarrow> \<exists>s'. put i n s cfg cp = Inr s'"
    and put_fails: "str_at cfg ConfigKeyThreadID = None \<Longrightarrow> \<exists>e. put i n s cfg cp = Inl e"
    and get_put: "put i n s cfg cp = Inr s' \<Longrightarrow> str_at q ConfigKeyThreadID = Some t \<Longrightarrow>
      str_at q ConfigKeyCheckpointID = None \<Longrightarrow>
      get s' q = (if str_at cfg ConfigKeyThreadID = Some t then Inr (Some (deepCopyMap cp)) else get s q)"
begin

definition put1 :: "'s \<Rightarrow> string \<times> gotime \<times> gmap \<times> gmap \<Rightarrow> 's" where
  "put1 s p = (case p of (i, n, cfg, cp) \<Rightarrow> (case put i n s cfg cp of Inl e \<Rightarrow> s | Inr s' \<Rightarrow> s'))"

text \<open>A failed put leaves the saver as it was; the last put that names the thread decides.\<close>

lemma get_put1:
  assumes "str_at q ConfigKeyThreadID = Some t" "str_at q ConfigKeyCheckpointID = None"
  shows "get (put1 s (i, n, cfg, cp)) q =
    (if str_at cfg ConfigKeyThreadID = Some t then Inr (Some (deepCopyMap cp)) else get s q)"
proof (cases "put i n s cfg cp")
  case (Inl e)
  then have "str_at cfg ConfigKeyThreadID \<noteq> Some t" using put_ok [of cfg t i n s cp] by auto
  with Inl show ?thesis by (simp add: put1_def)
next
  case (Inr s')
  with get_put [OF Inr assms] show ?thesis by (simp add: put1_def)
qed

lemma get_puts:
  assumes "str_at q ConfigKeyThreadID = Some t" "str_at q ConfigKeyCheckpointID = None"
  shows "get (foldl put1 emp ps) q =
    (case filter (\<lambda>(i, n, cfg, cp). str_at cfg ConfigKeyThreadID = Some t) ps of
       [] \<Rightarrow> Inr None | rs \<Rightarrow> Inr (Some (deepCopyMap (snd (snd (snd (last rs)))))))"
proof (induction ps rule: rev_induct)
  case Nil
  show ?case using get_emp [OF assms] by simp
next
  case (snoc p ps)
  obtain i n cfg cp where "p = (i, n, cfg, cp)" by (cases p)
  with snoc get_put1 [OF assms] show ?case by (simp split: list.splits)
qed

end

subsection \<open>Operations\<close>

record checkpointEntry =
  ce_ID :: string
  ce_ThreadID :: string
  ce_Checkpoint :: gmap
  ce_Metadata :: gmap
  ce_CreatedAt :: gotime
  ce_ParentID :: string

record MemorySaver =
  ms_checkpoints :: "(string, gmap) fmap"
  ms_versions :: "(string, checkpointEntry list) fmap"

definition NewMemorySaver :: MemorySaver where
  "NewMemorySaver = \<lparr>ms_checkpoints = fmempty, ms_versions = fmempty\<rparr>"

definition entries :: "MemorySaver \<Rightarrow> string \<Rightarrow> checkpointEntry list" where
  "entries s t = (case fmlookup (ms_versions s) t of Some es \<Rightarrow> es | None \<Rightarrow> [])"

definition MemorySaver_Get :: "MemorySaver \<Rightarrow> gmap \<Rightarrow> gerror + gmap option" where
  "MemorySaver_Get s config =
     (case str_at config ConfigKeyThreadID of
        None \<Rightarrow> Inl (Errorf ''thread_id is required'')
      | Some threadID \<Rightarrow>
          (case str_at config ConfigKeyCheckpointID of
             Some checkpointID \<Rightarrow>
               (case List.find (\<lambda>e. ce_ID e = checkpointID) (entries s threadID) of
                  Some e \<Rightarrow> Inr (Some (deepCopyMap (ce_Checkpoint e)))
                | None \<Rightarrow> Inl (Errorf (''checkpoint not found: '' @ checkpointID)))
           | None \<Rightarrow>
               (case entries s threadID of
                  [] \<Rightarrow> Inr None
                | es \<Rightarrow> Inr (Some (deepCopyMap (ce_Checkpoint (last es)))))))"

definition MemorySaver_Put :: "string \<Rightarrow> gotime \<Rightarrow> MemorySaver \<Rightarrow> gmap \<Rightarrow> gmap \<Rightarrow> gerror + MemorySaver" where
  "MemorySaver_Put newID now s config checkpoint =
     (case str_at config ConfigKeyThreadID of
        None \<Rightarrow> Inl (Errorf ''thread_id is required'')
      | Some threadID \<Rightarrow>
          (let entry =
             \<lparr>ce_ID = (case str_at config ConfigKeyCheckpointID of Some i \<Rightarrow> i | None \<Rightarrow> newID),
              ce_ThreadID = threadID,
              ce_Checkpoint = deepCopyMap checkpoint,
              ce_Metadata = deepCopyMap config,
              ce_CreatedAt = now,
              ce_ParentID = (case str_at config ''parent_checkpoint_id'' of Some i \<Rightarrow> i | None \<Rightarrow> [])\<rparr>
           in Inr \<lparr>ms_checkpoints = fmupd threadID (deepCopyMap checkpoint) (ms_checkpoints s),
                   ms_versions = fmupd threadID (entries s threadID @ [entry]) (ms_versions s)\<rparr>))"

definition entry_map :: "checkpointEntry \<Rightarrow> gmap" where
  "entry_map e = fmap_of_list
     [(ConfigKeyCheckpointID, VStr (ce_ID e)), (ConfigKeyThreadID, VStr (ce_ThreadID e)),
      (''metadata'', VMap (deepCopyMap (ce_Metadata e))), (''created_at'', VTime (ce_CreatedAt e)),
      (''parent_id'', VStr (ce_ParentID e))]"

text \<open>The loop counts down from the newest entry; \<open>i\<close> entries remain below the current one.\<close>

fun list_loop :: "checkpointEntry list \<Rightarrow> nat \<Rightarrow> nat \<Rightarrow> gmap list" where
  "list_loop versions limit i =
     (if i > 0 \<and> i - 1 \<ge> length versions - limit
      then entry_map (versions ! (i - 1)) # list_loop versions limit (i - 1) else [])"

declare list_loop.simps [simp del]

definition MemorySaver_List :: "MemorySaver \<Rightarrow> gmap \<Rightarrow> int \<Rightarrow> gerror + gmap list" where
  "MemorySaver_List s config limit =
     (case str_at config ConfigKeyThreadID of
        None \<Rightarrow> Inl (Errorf ''thread_id is required'')
      | Some threadID \<Rightarrow>
          (let versions = entries s threadID
           in Inr (list_loop versions (clamp_limit limit (length versions)) (length versions))))"

record CheckpointState =
  cs_Checkpoint :: gmap
  cs_Metadata :: gmap

definition MemorySaver_GetState :: "MemorySaver \<Rightarrow> gmap \<Rightarrow> gerror + CheckpointState option" where
  "MemorySaver_GetState s config =
     (let state = (\<lambda>e. \<lparr>cs_Checkpoint = deepCopyMap (ce_Checkpoint e), cs_Metadata = deepCopyMap (ce_Metadata e)\<rparr>)
      in case str_at config ConfigKeyThreadID of
        None \<Rightarrow> Inl (Errorf ''thread_id is required'')
      | Some threadID \<Rightarrow>
          (case str_at config ConfigKeyCheckpointID of
             None \<Rightarrow> (case entries s threadID of [] \<Rightarrow> Inr None | es \<Rightarrow> Inr (Some (state (last es))))
           | Some checkpointID \<Rightarrow>
               (case List.find (\<lambda>e. ce_ID e = checkpointID) (entries s threadID) of
                  Some e \<Rightarrow> Inr (Some (state e))
                | None \<Rightarrow> Inl (Errorf (''checkpoint not found: '' @ checkpointID)))))"

subsection \<open>The saver implements the interface\<close>


lemma entries_New [simp]: "entries NewMemorySaver t = []"
  by (simp add: entries_def NewMemorySaver_def)

lemma entries_upd [simp]:
  "entries \<lparr>ms_checkpoints = m, ms_versions = fmupd t es vs\<rparr> t' =
     (if t = t' then es else (case fmlookup vs t' of Some es \<Rightarrow> es | None \<Rightarrow> []))"
  by (simp add: entries_def)

lemma deepCopyMap_twice [simp]: "deepCopyMap (deepCopyMap m) = deepCopyMap m"
  by (rule fmap_ext) (simp add: option.map_comp o_def deepCopy_idem)

definition new_entry :: "string \<Rightarrow> gotime \<Rightarrow> string \<Rightarrow> gmap \<Rightarrow> gmap \<Rightarrow> checkpointEntry" where
  "new_entry newID now t config checkpoint =
     \<lparr>ce_ID = (case str_at config ConfigKeyCheckpointID of Some i \<Rightarrow> i | None \<Rightarrow> newID),
      ce_ThreadID = t, ce_Checkpoint = deepCopyMap checkpoint, ce_Metadata = deepCopyMap config,
      ce_CreatedAt = now,
      ce_ParentID = (case str_at config ''parent_checkpoint_id'' of Some i \<Rightarrow> i | None \<Rightarrow> [])\<rparr>"

text \<open>All the other methods see of a put: one more entry at the end of its thread.\<close>

lemma entries_Put:
  assumes "MemorySaver_Put i n s cfg cp = Inr s'"
  shows "\<exists>u. str_at cfg ConfigKeyThreadID = Some u \<and>
    (\<forall>t. entries s' t = (if t = u then entries s u @ [new_entry i n u cfg cp] else entries s t))"
  using assms
  by (cases "str_at cfg ConfigKeyThreadID")
    (auto simp: MemorySaver_Put_def Let_def new_entry_def entries_def)

lemma Get_latest:
  assumes "str_at q ConfigKeyThreadID = Some t" "str_at q ConfigKeyCheckpointID = None"
  shows "MemorySaver_Get s q =
    (if entries s t = [] then Inr None else Inr (Some (deepCopyMap (ce_Checkpoint (last (entries s t))))))"
  using assms by (simp add: MemorySaver_Get_def split: list.split)

interpretation saver: checkpointer NewMemorySaver MemorySaver_Put MemorySaver_Get
proof unfold_locales
  fix i n s cfg cp s' q t
  assume put: "MemorySaver_Put i n s cfg cp = Inr s'"
    and q: "str_at q ConfigKeyThreadID = Some t" "str_at q ConfigKeyCheckpointID = None"
  from entries_Put [OF put]
  show "MemorySaver_Get s' q =
      (if str_at cfg ConfigKeyThreadID = Some t then Inr (Some (deepCopyMap cp)) else MemorySaver_Get s q)"
    by (force simp: Get_latest [OF q] new_entry_def split: if_splits)
qed (auto simp: Get_latest MemorySaver_Put_def Let_def)

definition put_step :: "MemorySaver \<Rightarrow> string \<times> gotime \<times> gmap \<times> gmap \<Rightarrow> MemorySaver" where
  "put_step s p = (case p of (i, n, cfg, cp) \<Rightarrow>
     (case MemorySaver_Put i n s cfg cp of Inl e \<Rightarrow> s | Inr s' \<Rightarrow> s'))"

text \<open>
  C28: after any sequence of puts, successful or not, reading a thread without naming a checkpoint
  gives a deep copy of the last checkpoint put for that thread, and nothing if there was none.
\<close>

theorem saver_returns_last_put:
  assumes "str_at q ConfigKeyThreadID = Some t" "str_at q ConfigKeyCheckpointID = None"
  shows "MemorySaver_Get (foldl put_step NewMemorySaver ps) q =
    (case filter (\<lambda>(i, n, cfg, cp). str_at cfg ConfigKeyThreadID = Some t) ps of
       [] \<Rightarrow> Inr None | rs \<Rightarrow> Inr (Some (deepCopyMap (snd (snd (snd (last rs)))))))"
proof -
  have "put_step = saver.put1" by (intro ext) (simp add: put_step_def saver.put1_def)
  then show ?thesis using saver.get_puts [OF assms] by simp
qed

definition thread_cfg :: "string \<Rightarrow> gmap" where
  "thread_cfg t = fmap_of_list [(ConfigKeyThreadID, VStr t)]"

lemma thread_cfg_fields:
  "str_at (thread_cfg t) ConfigKeyThreadID = Some t" "str_at (thread_cfg t) ConfigKeyCheckpointID = None"
  by (simp_all add: thread_cfg_def str_at_def ConfigKeyThreadID_def ConfigKeyCheckpointID_def)

theorem saver_returns_last_put_witness:
  "MemorySaver_Get (foldl put_step NewMemorySaver
      [(''i'', 1, thread_cfg ''a'', fmap_of_list [(''x'', VStr ''1'')]),
       (''j'', 2, thread_cfg ''a'', fmap_of_list [(''x'', VStr ''2'')]),
       (''k'', 3, thread_cfg ''b'', fmempty)]) (thread_cfg ''a'') =
     Inr (Some (fmap_of_list [(''x'', VStr ''2'')]))"
  by (subst saver_returns_last_put [OF thread_cfg_fields])
    (auto simp: thread_cfg_fields intro!: fmap_ext)

text \<open>
  Identifiers are looked up in the order of the puts: once a checkpoint is stored under an
  identifier of a thread, reading that identifier returns the same contents for ever, even after
  later puts that carry the same identifier.
\<close>

theorem saver_id_first_wins:
  assumes "str_at q ConfigKeyThreadID = Some t" "str_at q ConfigKeyCheckpointID = Some i"
    and "MemorySaver_Get s q = Inr r"
  shows "MemorySaver_Get (foldl put_step s ps) q = Inr r"
  using assms(3)
proof (induction ps arbitrary: s)
  case Nil
  then show ?case by simp
next
  case (Cons p ps)
  obtain j n cfg cp where p: "p = (j, n, cfg, cp)" by (cases p)
  have "MemorySaver_Get (put_step s p) q = Inr r"
  proof (cases "MemorySaver_Put j n s cfg cp")
    case (Inl e)
    then show ?thesis using Cons.prems by (simp add: put_step_def p)
  next
    case (Inr s')
    from entries_Put [OF Inr] Cons.prems assms(1,2) show ?thesis
      by (force simp: put_step_def p Inr MemorySaver_Get_def find_append split: option.splits if_splits)
  qed
  with Cons.IH show ?case by simp
qed

definition id_cfg :: "string \<Rightarrow> string \<Rightarrow> gmap" where
  "id_cfg t i = fmap_of_list [(ConfigKeyThreadID, VStr t), (ConfigKeyCheckpointID, VStr i)]"

lemma id_cfg_fields:
  "str_at (id_cfg t i) ConfigKeyThreadID = Some t" "str_at (id_cfg t i) ConfigKeyCheckpointID = Some i"
  by (simp_all add: id_cfg_def str_at_def ConfigKeyThreadID_def ConfigKeyCheckpointID_def)

theorem saver_id_first_wins_witness:
  "MemorySaver_Get (foldl put_step (put_step NewMemorySaver (''u'', 1, id_cfg ''a'' ''i'', fmempty))
      [(''v'', 2, id_cfg ''a'' ''i'', fmap_of_list [(''x'', VStr ''2'')])]) (id_cfg ''a'' ''i'') = Inr (Some fmempty)"
  by (rule saver_id_first_wins [OF id_cfg_fields])
    (simp add: MemorySaver_Get_def put_step_def MemorySaver_Put_def Let_def id_cfg_fields deepCopyMap_def)

lemma list_loop_eq:
  "i \<le> length es \<Longrightarrow>
   list_loop es limit i = map entry_map (rev (drop (length es - limit) (take i es)))"
proof (induction i)
  case 0
  show ?case by (simp add: list_loop.simps)
next
  case (Suc i)
  then show ?case
    by (subst list_loop.simps) (auto simp: take_Suc_conv_app_nth)
qed

text \<open>
  \<open>List\<close> of the memory saver describes the stored checkpoints of the thread newest first, at most
  the requested number, and all of them when no limit is given.
\<close>

theorem saver_list_newest_first:
  "MemorySaver_List s (thread_cfg t) limit =
     Inr (map entry_map (if limit \<le> 0 then rev (entries s t) else take (nat limit) (rev (entries s t))))"
  by (auto simp: MemorySaver_List_def thread_cfg_fields Let_def list_loop_eq clamp_limit_def rev_drop)

end
