(* ===== verification/Event_Log.thy ===== *)
theory Event_Log
  imports Sha256 Memory_Saver
begin

text \<open>
  The event log of the harness: events and their seals, filters, iterators, and the in-memory event
  store. An event is immutable once appended, so the store holds values where the code holds
  pointers; the events of one \<open>Append\<close> call are taken to be distinct objects. \<open>Append\<close> returns the
  events as it left them, because it assigns clocks and hashes in place. JSON text is produced by the
  record \<open>Codec\<close>, the encoder and decoder of each payload type; \<open>None\<close> is an encoding error. Wall
  clock times are nanoseconds after the zero time.
\<close>

subsection \<open>Events\<close>

type_synonym EventID = string
type_synonym EventType = string

record Event =
  ev_ID :: EventID
  ev_Type :: EventType
  ev_Timestamp :: gotime
  ev_Clock :: "64 word"
  ev_TraceID :: string
  ev_ParentID :: EventID
  ev_CausedBy :: "EventID list"
  ev_ThreadID :: string
  ev_Step :: goint
  ev_Node :: string
  ev_TaskID :: string
  ev_Payload :: "string option"
  ev_Metadata :: "gmap option"
  ev_Deterministic :: bool
  ev_Hash :: string

record TokenUsage =
  tu_PromptTokens :: goint
  tu_CompletionTokens :: goint
  tu_TotalTokens :: goint

record ToolCallPayload =
  tp_ToolName :: string
  tp_Arguments :: gmap
  tp_Result :: gval
  tp_DurationMs :: goint
  tp_Error :: string
  tp_RetryCount :: goint

record LLMCallPayload =
  lp_Model :: string
  lp_Provider :: string
  lp_Messages :: "gval list"
  lp_Tokens :: TokenUsage
  lp_Content :: string
  lp_Chunks :: goint
  lp_DurationMs :: goint
  lp_Cost :: rat

record StateTransitionPayload =
  sp_Channel :: string
  sp_OldValue :: gval
  sp_NewValue :: gval
  sp_Reducer :: string

record MemoryWritePayload =
  mp_Store :: string
  mp_Operation :: string
  mp_Key :: string
  mp_Value :: gval
  mp_Score :: rat

record ApprovalPayload =
  ap_RequestID :: string
  ap_Action :: string
  ap_Context :: gval
  ap_Decision :: string
  ap_LatencyMs :: goint

record SubAgentCallPayload =
  ap_SubAgentName :: string
  ap_Input :: gval
  ap_Output :: gval
  ap_Depth :: goint
  ap_DurationMs :: goint
  ap_Error :: string

record SessionValuePayload =
  vp_Key :: string
  vp_Value :: gval

record SessionTransferPayload =
  xp_FromAgent :: string
  xp_ToAgent :: string
  xp_Reason :: string
  xp_Input :: gval

text \<open>
  A decoder returns the struct it has filled in and whether it reports an error.
\<close>

record Codec =
  cd_value :: "gval \<Rightarrow> string option"
  cd_event :: "Event \<Rightarrow> string option"
  cd_unevent :: "string \<Rightarrow> Event option"
  cd_events :: "Event list \<Rightarrow> string option"
  cd_LLM :: "LLMCallPayload \<Rightarrow> string option"
  cd_unLLM :: "string \<Rightarrow> LLMCallPayload \<times> bool"
  cd_Tool :: "ToolCallPayload \<Rightarrow> string option"
  cd_unTool :: "string \<Rightarrow> ToolCallPayload \<times> bool"
  cd_State :: "StateTransitionPayload \<Rightarrow> string option"
  cd_unState :: "string \<Rightarrow> StateTransitionPayload \<times> bool"
  cd_Memory :: "MemoryWritePayload \<Rightarrow> string option"
  cd_Approval :: "ApprovalPayload \<Rightarrow> string option"
  cd_SubAgent :: "SubAgentCallPayload \<Rightarrow> string option"
  cd_Session :: "SessionValuePayload \<Rightarrow> string option"
  cd_Transfer :: "SessionTransferPayload \<Rightarrow> string option"

text \<open>
  \<open>NewEvent\<close> reads the clock twice: \<open>nano\<close> is the Unix time in nanoseconds its identifier carries,
  \<open>now\<close> the time stamp. \<open>%x\<close> prints without leading zeros.
\<close>

fun show_hex :: "nat \<Rightarrow> string" where
  "show_hex n = (if n < 16 then [hex_digit n] else show_hex (n div 16) @ [hex_digit n])"

declare show_hex.simps [simp del]

definition NewEvent :: "nat \<Rightarrow> gotime \<Rightarrow> EventType \<Rightarrow> 64 word \<Rightarrow> Event" where
  "NewEvent nano now typ clk =
     \<lparr>ev_ID = ''evt-'' @ show_nat (unat clk) @ ''-'' @ show_hex nano, ev_Type = typ,
      ev_Timestamp = now, ev_Clock = clk, ev_TraceID = [], ev_ParentID = [], ev_CausedBy = [],
      ev_ThreadID = [], ev_Step = 0, ev_Node = [], ev_TaskID = [], ev_Payload = None,
      ev_Metadata = Some fmempty, ev_Deterministic = False, ev_Hash = []\<rparr>"

definition computeHash :: "Codec \<Rightarrow> Event \<Rightarrow> string" where
  "computeHash cd e =
     sha256_hex
       ((case ev_Payload e of Some p \<Rightarrow> p | None \<Rightarrow> []) @
        (case ev_Metadata e of
           Some m \<Rightarrow> (case cd_value cd (VMap m) of Some t \<Rightarrow> t | None \<Rightarrow> [])
         | None \<Rightarrow> []))"

definition Seal :: "Codec \<Rightarrow> Event \<Rightarrow> Event" where
  "Seal cd e = e\<lparr>ev_Hash := computeHash cd e\<rparr>"

subsection \<open>Filters\<close>

record EventFilter =
  ef_TraceID :: string
  ef_ThreadID :: string
  ef_Types :: "EventType list"
  ef_Node :: string
  ef_FromClock :: "64 word"
  ef_ToClock :: "64 word"
  ef_FromTime :: gotime
  ef_ToTime :: gotime
  ef_Limit :: goint

definition no_filter :: EventFilter where
  "no_filter = \<lparr>ef_TraceID = [], ef_ThreadID = [], ef_Types = [], ef_Node = [], ef_FromClock = 0,
     ef_ToClock = 0, ef_FromTime = 0, ef_ToTime = 0, ef_Limit = 0\<rparr>"

definition Matches :: "EventFilter \<Rightarrow> Event \<Rightarrow> bool" where
  "Matches f e =
    (if ef_TraceID f \<noteq> [] \<and> ev_TraceID e \<noteq> ef_TraceID f then False
     else if ef_ThreadID f \<noteq> [] \<and> ev_ThreadID e \<noteq> ef_ThreadID f then False
     else if ef_Types f \<noteq> [] \<and> ev_Type e \<notin> set (ef_Types f) then False
     else if ef_Node f \<noteq> [] \<and> ev_Node e \<noteq> ef_Node f then False
     else if 0 < ef_FromClock f \<and> ev_Clock e < ef_FromClock f then False
     else if 0 < ef_ToClock f \<and> ef_ToClock f < ev_Clock e then False
     else if ef_FromTime f \<noteq> 0 \<and> ev_Timestamp e < ef_FromTime f then False
     else if ef_ToTime f \<noteq> 0 \<and> ef_ToTime f < ev_Timestamp e then False
     else True)"

subsection \<open>Iterators\<close>

record sliceIterator =
  it_events :: "Event list"
  it_pos :: nat

definition Next :: "sliceIterator \<Rightarrow> Event option \<times> sliceIterator" where
  "Next it = (if length (it_events it) \<le> it_pos it then (None, it)
              else (Some (it_events it ! it_pos it), it\<lparr>it_pos := it_pos it + 1\<rparr>))"

definition Close :: "sliceIterator \<Rightarrow> sliceIterator" where
  "Close it = it\<lparr>it_events := []\<rparr>"

text \<open>The loop every reader runs: call \<open>Next\<close> until it reports the end.\<close>

function collect :: "sliceIterator \<Rightarrow> Event list" where
  "collect it = (case Next it of (None, it') \<Rightarrow> [] | (Some e, it') \<Rightarrow> e # collect it')"
  by pat_completeness auto
termination
  by (relation "measure (\<lambda>it. length (it_events it) - it_pos it)")
     (auto simp: Next_def split: if_splits)

declare collect.simps [simp del]

lemma collect_drop: "collect it = drop (it_pos it) (it_events it)"
proof (induction it rule: collect.induct)
  case (1 it)
  show ?case
  proof (cases "length (it_events it) \<le> it_pos it")
    case True
    then show ?thesis by (subst collect.simps) (simp add: Next_def)
  next
    case False
    then have n: "Next it = (Some (it_events it ! it_pos it), it\<lparr>it_pos := it_pos it + 1\<rparr>)"
      by (simp add: Next_def)
    show ?thesis
      using False 1 [OF n [symmetric]]
      by (subst collect.simps) (simp add: n Cons_nth_drop_Suc)
  qed
qed

lemma Next_after_Close [simp]: "fst (Next (Close it)) = None"
  by (simp add: Next_def Close_def)

subsection \<open>The in-memory store\<close>

text \<open>
  A subscription is the buffer of its channel, of capacity 256. Map iteration over the subscribers
  needs no order: the channels are independent.
\<close>

record MemoryEventStore =
  es_events :: "Event list"
  es_byID :: "(EventID, Event) fmap"
  es_clock :: "64 word"
  es_subs :: "(64 word, Event list) fmap"
  es_subID :: "64 word"

definition NewMemoryEventStore :: MemoryEventStore where
  "NewMemoryEventStore =
     \<lparr>es_events = [], es_byID = fmempty, es_clock = 0, es_subs = fmempty, es_subID = 0\<rparr>"

definition offer :: "Event \<Rightarrow> Event list \<Rightarrow> Event list" where
  "offer e q = (if length q < 256 then q @ [e] else q)"

text \<open>Both stores give an event without a clock the next value of their own counter and seal it.\<close>

definition stamp :: "Codec \<Rightarrow> 64 word \<Rightarrow> Event \<Rightarrow> 64 word \<times> Event" where
  "stamp cd clk e =
     (let clk' = (if ev_Clock e = 0 then clk + 1 else clk);
          e' = (if ev_Clock e = 0 then e\<lparr>ev_Clock := clk'\<rparr> else e)
      in (clk', Seal cd e'))"

definition append_event :: "Codec \<Rightarrow> MemoryEventStore \<Rightarrow> Event \<Rightarrow> MemoryEventStore \<times> Event" where
  "append_event cd s e =
     (let (clk, e') = stamp cd (es_clock s) e
      in (s\<lparr>es_clock := clk, es_events := es_events s @ [e'],
            es_byID := fmupd (ev_ID e') e' (es_byID s),
            es_subs := fmmap (offer e') (es_subs s)\<rparr>, e'))"

fun MES_Append :: "Codec \<Rightarrow> MemoryEventStore \<Rightarrow> Event list \<Rightarrow> MemoryEventStore \<times> Event list" where
  "MES_Append cd s [] = (s, [])"
| "MES_Append cd s (e # es) =
     (let (s', e') = append_event cd s e; (s'', es') = MES_Append cd s' es in (s'', e' # es'))"

definition MES_Stream :: "MemoryEventStore \<Rightarrow> EventFilter \<Rightarrow> sliceIterator" where
  "MES_Stream s f = \<lparr>it_events = filter (Matches f) (es_events s), it_pos = 0\<rparr>"

definition MES_Get :: "MemoryEventStore \<Rightarrow> EventID \<Rightarrow> Event option" where
  "MES_Get s i = fmlookup (es_byID s) i"

fun range_loop :: "64 word \<Rightarrow> 64 word \<Rightarrow> EventFilter \<Rightarrow> Event list \<Rightarrow> Event list" where
  "range_loop lo hi f [] = []"
| "range_loop lo hi f (e # es) =
     (if ev_Clock e < lo then range_loop lo hi f es
      else if 0 < hi \<and> hi < ev_Clock e then range_loop lo hi f es
      else if Matches f e then e # range_loop lo hi f es
      else range_loop lo hi f es)"

definition MES_Range :: "MemoryEventStore \<Rightarrow> 64 word \<Rightarrow> 64 word \<Rightarrow> EventFilter \<Rightarrow> Event list" where
  "MES_Range s lo hi f = range_loop lo hi f (es_events s)"

text \<open>The loop of \<open>Seek\<close>: the first index whose clock is reached, 0 when there is none.\<close>

fun seek_pos :: "64 word \<Rightarrow> nat \<Rightarrow> Event list \<Rightarrow> nat" where
  "seek_pos clk i [] = 0"
| "seek_pos clk i (e # es) = (if clk \<le> ev_Clock e then i else seek_pos clk (Suc i) es)"

definition MES_Seek :: "MemoryEventStore \<Rightarrow> 64 word \<Rightarrow> sliceIterator" where
  "MES_Seek s clk = \<lparr>it_events = drop (seek_pos clk 0 (es_events s)) (es_events s), it_pos = 0\<rparr>"

definition MES_Length :: "MemoryEventStore \<Rightarrow> 64 word" where
  "MES_Length s = of_nat (length (es_events s))"

record Snapshot =
  sn_ID :: string
  sn_TraceID :: string
  sn_Clock :: "64 word"
  sn_CreatedAt :: gotime
  sn_Data :: string

definition new_snapshot :: "Codec \<Rightarrow> gotime \<Rightarrow> string \<Rightarrow> 64 word \<Rightarrow> Event list \<Rightarrow> gerror + Snapshot" where
  "new_snapshot cd now trace clk evs =
     (case cd_events cd evs of
        None \<Rightarrow> Inl (Errorf ''marshal snapshot'')
      | Some d \<Rightarrow> Inr \<lparr>sn_ID = ''snap-'' @ trace @ ''-'' @ show_nat (unat clk), sn_TraceID = trace,
                       sn_Clock = clk, sn_CreatedAt = now, sn_Data = d\<rparr>)"

definition MES_CreateSnapshot :: "Codec \<Rightarrow> gotime \<Rightarrow> MemoryEventStore \<Rightarrow> string \<Rightarrow> gerror + Snapshot" where
  "MES_CreateSnapshot cd now s trace = new_snapshot cd now trace (es_clock s) (es_events s)"

definition MES_RestoreSnapshot :: "MemoryEventStore \<Rightarrow> string \<Rightarrow> sliceIterator" where
  "MES_RestoreSnapshot s sid = MES_Seek s 0"

text \<open>
  \<open>Subscribe\<close> ignores its filter. The goroutine it starts runs \<open>MES_Unsubscribe\<close> when the context
  ends; \<open>MES_Receive\<close> is the client taking the next buffered event.
\<close>

definition MES_Subscribe :: "MemoryEventStore \<Rightarrow> EventFilter \<Rightarrow> MemoryEventStore \<times> 64 word" where
  "MES_Subscribe s f =
     (let i = es_subID s + 1 in (s\<lparr>es_subID := i, es_subs := fmupd i [] (es_subs s)\<rparr>, i))"

definition MES_Unsubscribe :: "MemoryEventStore \<Rightarrow> 64 word \<Rightarrow> MemoryEventStore" where
  "MES_Unsubscribe s i = s\<lparr>es_subs := fmdrop i (es_subs s)\<rparr>"

definition MES_Receive :: "MemoryEventStore \<Rightarrow> 64 word \<Rightarrow> MemoryEventStore \<times> Event option" where
  "MES_Receive s i =
     (case fmlookup (es_subs s) i of
        Some (e # q) \<Rightarrow> (s\<lparr>es_subs := fmupd i q (es_subs s)\<rparr>, Some e)
      | _ \<Rightarrow> (s, None))"

fun gc_loop :: "gotime \<Rightarrow> Event list \<Rightarrow> (EventID, Event) fmap \<Rightarrow> Event list \<times> (EventID, Event) fmap" where
  "gc_loop cutoff [] ids = ([], ids)"
| "gc_loop cutoff (e # es) ids =
     (if cutoff < ev_Timestamp e
      then (let (k, m) = gc_loop cutoff es ids in (e # k, m))
      else gc_loop cutoff es (fmdrop (ev_ID e) ids))"

definition MES_GC :: "gotime \<Rightarrow> MemoryEventStore \<Rightarrow> int \<Rightarrow> MemoryEventStore" where
  "MES_GC now s retention =
     (let (k, m) = gc_loop (now - retention) (es_events s) (es_byID s)
      in s\<lparr>es_events := k, es_byID := m\<rparr>)"

subsection \<open>The logical clock\<close>

record LogicalClock =
  lc_value :: "64 word"

definition NewLogicalClock :: LogicalClock where
  "NewLogicalClock = \<lparr>lc_value = 0\<rparr>"

definition Tick :: "LogicalClock \<Rightarrow> LogicalClock \<times> 64 word" where
  "Tick c = (let v = lc_value c + 1 in (c\<lparr>lc_value := v\<rparr>, v))"

definition Now :: "LogicalClock \<Rightarrow> 64 word" where
  "Now c = lc_value c"

definition Clock_Reset :: "LogicalClock \<Rightarrow> LogicalClock" where
  "Clock_Reset c = c\<lparr>lc_value := 0\<rparr>"

end
