(* ===== verification/Event_Props.thy ===== *)
theory Event_Props
  imports Event_Log
begin

text \<open>
  What the in-memory event store guarantees. Its operations are folded over a trace of requests; the
  abstract store is a plain list of numbered events that appends extend and collection filters. Lookup by
  identifier, streams, ranges and seeks are described on that list, the order of clocks is proved for
  stores that assign the clocks themselves, and a subscriber is shown to hold the oldest 256
  events it has not taken yet.
\<close>

subsection \<open>Sealing and stamping\<close>

lemma Seal_simps [simp]:
  "ev_ID (Seal cd e) = ev_ID e" "ev_Type (Seal cd e) = ev_Type e" "ev_Clock (Seal cd e) = ev_Clock e"
  "ev_Timestamp (Seal cd e) = ev_Timestamp e" "ev_TraceID (Seal cd e) = ev_TraceID e"
  "ev_ThreadID (Seal cd e) = ev_ThreadID e" "ev_Node (Seal cd e) = ev_Node e"
  "ev_Step (Seal cd e) = ev_Step e" "ev_Payload (Seal cd e) = ev_Payload e"
  "ev_Metadata (Seal cd e) = ev_Metadata e" "ev_Hash (Seal cd e) = computeHash cd e"
  by (simp_all add: Seal_def)

lemma computeHash_cong:
  "ev_Payload a = ev_Payload b \<Longrightarrow> ev_Metadata a = ev_Metadata b \<Longrightarrow> computeHash cd a = computeHash cd b"
  by (simp add: computeHash_def)

lemma computeHash_upd [simp]:
  "computeHash cd (e\<lparr>ev_Clock := c\<rparr>) = computeHash cd e"
  "computeHash cd (e\<lparr>ev_Hash := h\<rparr>) = computeHash cd e"
  by (simp_all add: computeHash_def)

definition sealed :: "Codec \<Rightarrow> Event \<Rightarrow> bool" where
  "sealed cd e \<longleftrightarrow> ev_Hash e = computeHash cd e"

lemma Seal_idem [simp]: "Seal cd (Seal cd e) = Seal cd e"
  by (simp add: Seal_def)

lemma sealed_Seal [simp]: "sealed cd (Seal cd e)"
  by (simp add: sealed_def Seal_def)

lemma Seal_sealed: "sealed cd e \<Longrightarrow> Seal cd e = e"
  by (simp add: sealed_def Seal_def)

lemma sealed_length: "sealed cd e \<Longrightarrow> length (ev_Hash e) = 64"
  by (simp add: sealed_def computeHash_def)

lemma stamp_simps [simp]:
  "ev_ID (snd (stamp cd c e)) = ev_ID e" "ev_Timestamp (snd (stamp cd c e)) = ev_Timestamp e"
  "ev_TraceID (snd (stamp cd c e)) = ev_TraceID e" "sealed cd (snd (stamp cd c e))"
  by (simp_all add: stamp_def Let_def)

lemma stamp_preset: "ev_Clock e \<noteq> 0 \<Longrightarrow> stamp cd c e = (c, Seal cd e)"
  by (simp add: stamp_def)

lemma stamp_fresh: "ev_Clock e = 0 \<Longrightarrow> stamp cd c e = (c + 1, Seal cd (e\<lparr>ev_Clock := c + 1\<rparr>))"
  by (simp add: stamp_def Let_def)

text \<open>What \<open>Append\<close> makes of a batch, without the store around it.\<close>

fun stamp_all :: "Codec \<Rightarrow> 64 word \<Rightarrow> Event list \<Rightarrow> 64 word \<times> Event list" where
  "stamp_all cd c [] = (c, [])"
| "stamp_all cd c (e # es) =
     (let (c', e') = stamp cd c e; (c'', es') = stamp_all cd c' es in (c'', e' # es'))"

lemma stamp_all_ids [simp]: "map ev_ID (snd (stamp_all cd c es)) = map ev_ID es"
  by (induction es arbitrary: c) (auto simp: split_def Let_def)

lemma stamp_all_sealed: "e \<in> set (snd (stamp_all cd c es)) \<Longrightarrow> sealed cd e"
  by (induction es arbitrary: c) (auto simp: split_def Let_def)

lemma stamp_all_length [simp]: "length (snd (stamp_all cd c es)) = length es"
  by (induction es arbitrary: c) (auto simp: split_def Let_def)

lemma stamp_all_fresh:
  assumes "\<forall>e\<in>set es. ev_Clock e = 0"
  shows "fst (stamp_all cd c es) = c + of_nat (length es)" (is ?A)
    and "map ev_Clock (snd (stamp_all cd c es)) = map (\<lambda>i. c + of_nat i) [1..<Suc (length es)]" (is ?B)
proof -
  have "fst (stamp_all cd c es) = c + of_nat (length es) \<and>
      map ev_Clock (snd (stamp_all cd c es)) = map (\<lambda>i. c + of_nat i) [1..<Suc (length es)]"
    using assms
  proof (induction es arbitrary: c)
    case (Cons e es)
    have u: "[Suc 0..<Suc (Suc (length es))] = Suc 0 # map Suc [Suc 0..<Suc (length es)]"
      by (simp add: map_Suc_upt upt_conv_Cons del: upt_Suc)
    show ?case
      using Cons.IH [of "c + 1"] Cons.prems
      by (simp add: stamp_fresh split_def Let_def u ac_simps o_def del: upt_Suc)
  qed simp
  then show ?A and ?B by blast+
qed

lemma MES_Append_events:
  "es_events (fst (MES_Append cd s es)) = es_events s @ snd (stamp_all cd (es_clock s) es)"
  "es_clock (fst (MES_Append cd s es)) = fst (stamp_all cd (es_clock s) es)"
  "snd (MES_Append cd s es) = snd (stamp_all cd (es_clock s) es)"
  by (induction es arbitrary: s) (simp_all add: append_event_def split_def Let_def)

lemma MES_Append_byID:
  "fmlookup (es_byID (fst (MES_Append cd s es))) i =
     (case find (\<lambda>e. ev_ID e = i) (rev (snd (stamp_all cd (es_clock s) es))) of
        Some e \<Rightarrow> Some e | None \<Rightarrow> fmlookup (es_byID s) i)"
proof (induction es arbitrary: s)
  case (Cons e es)
  show ?case
    using Cons.IH [of "fst (append_event cd s e)"]
    by (auto simp: append_event_def split_def Let_def find_append split: option.splits)
qed simp

lemma MES_Append_subs:
  "fmlookup (es_subs (fst (MES_Append cd s es))) i =
     map_option (\<lambda>q. fold offer (snd (stamp_all cd (es_clock s) es)) q) (fmlookup (es_subs s) i)"
  by (induction es arbitrary: s)
     (simp_all add: append_event_def split_def Let_def option.map_comp o_def option.map_ident id_def)

lemma MES_Append_subID [simp]: "es_subID (fst (MES_Append cd s es)) = es_subID s"
  by (induction es arbitrary: s) (simp_all add: append_event_def split_def Let_def)

subsection \<open>Readers\<close>

lemma MES_Stream_collect: "collect (MES_Stream s f) = filter (Matches f) (es_events s)"
  by (simp add: collect_drop MES_Stream_def)

lemma range_loop_filter:
  "range_loop lo hi f es =
     filter (\<lambda>e. lo \<le> ev_Clock e \<and> (hi = 0 \<or> ev_Clock e \<le> hi) \<and> Matches f e) es"
  by (induction es) (auto simp: word_gt_0 not_less not_le)

lemma seek_pos_drop:
  assumes "sorted (map ev_Clock es)" and "\<exists>e\<in>set es. clk \<le> ev_Clock e"
  shows "i \<le> seek_pos clk i es \<and> drop (seek_pos clk i es - i) es = filter (\<lambda>e. clk \<le> ev_Clock e) es"
  using assms
proof (induction es arbitrary: i)
  case (Cons e es)
  show ?case
  proof (cases "clk \<le> ev_Clock e")
    case True
    then have "filter (\<lambda>e. clk \<le> ev_Clock e) es = es"
      using Cons.prems(1) by (auto simp: filter_id_conv)
    then show ?thesis using True by simp
  next
    case False
    then have "Suc i \<le> seek_pos clk (Suc i) es \<and>
        drop (seek_pos clk (Suc i) es - Suc i) es = filter (\<lambda>e. clk \<le> ev_Clock e) es"
      using Cons.IH [of "Suc i"] Cons.prems by auto
    then show ?thesis
      using False by (auto simp: Suc_diff_le Suc_le_eq drop_Cons' )
  qed
qed simp

lemma seek_pos_none: "\<forall>e\<in>set es. ev_Clock e < clk \<Longrightarrow> seek_pos clk i es = 0"
  by (induction es arbitrary: i) (auto simp: not_le)

lemma seek_pos_zero: "seek_pos 0 0 es = 0"
  by (cases es) simp_all

lemma gc_loop_events: "fst (gc_loop cutoff es m) = filter (\<lambda>e. cutoff < ev_Timestamp e) es"
  by (induction es arbitrary: m) (simp_all add: split_def Let_def)

lemma gc_loop_ids:
  "fmlookup (snd (gc_loop cutoff es m)) i =
     (if \<exists>e\<in>set es. ev_Timestamp e \<le> cutoff \<and> ev_ID e = i then None else fmlookup m i)"
  by (induction es arbitrary: m) (auto simp: split_def Let_def)

subsection \<open>Traces of requests\<close>

datatype log_op =
    OAppend "Event list"
  | OGC gotime int
  | OSubscribe EventFilter
  | OUnsubscribe "64 word"
  | OReceive "64 word"

fun log_op_step :: "Codec \<Rightarrow> log_op \<Rightarrow> MemoryEventStore \<Rightarrow> MemoryEventStore" where
  "log_op_step cd (OAppend es) s = fst (MES_Append cd s es)"
| "log_op_step cd (OGC now ret) s = MES_GC now s ret"
| "log_op_step cd (OSubscribe f) s = fst (MES_Subscribe s f)"
| "log_op_step cd (OUnsubscribe i) s = MES_Unsubscribe s i"
| "log_op_step cd (OReceive i) s = fst (MES_Receive s i)"

definition log_run :: "Codec \<Rightarrow> log_op list \<Rightarrow> MemoryEventStore" where
  "log_run cd ops = fold (log_op_step cd) ops NewMemoryEventStore"

text \<open>The abstract store: the counter and the list of events kept.\<close>

fun abs_step :: "Codec \<Rightarrow> log_op \<Rightarrow> 64 word \<times> Event list \<Rightarrow> 64 word \<times> Event list" where
  "abs_step cd (OAppend es) (c, l) = (let (c', es') = stamp_all cd c es in (c', l @ es'))"
| "abs_step cd (OGC now ret) (c, l) = (c, filter (\<lambda>e. now - ret < ev_Timestamp e) l)"
| "abs_step cd _ (c, l) = (c, l)"

definition abs_log :: "Codec \<Rightarrow> log_op list \<Rightarrow> Event list" where
  "abs_log cd ops = snd (fold (abs_step cd) ops (0, []))"

primrec appended :: "log_op \<Rightarrow> Event list" where
  "appended (OAppend es) = es"
| "appended (OGC now ret) = []"
| "appended (OSubscribe f) = []"
| "appended (OUnsubscribe i) = []"
| "appended (OReceive i) = []"

definition ids_indexed :: "MemoryEventStore \<Rightarrow> bool" where
  "ids_indexed s \<longleftrightarrow> distinct (map ev_ID (es_events s)) \<and>
     (\<forall>i e. fmlookup (es_byID s) i = Some e \<longleftrightarrow> e \<in> set (es_events s) \<and> ev_ID e = i)"

lemma find_id_iff:
  assumes "distinct (map ev_ID es)"
  shows "find (\<lambda>e. ev_ID e = i) es = Some e \<longleftrightarrow> e \<in> set es \<and> ev_ID e = i"
  using assms by (induction es) (auto simp: image_iff)

lemma ids_indexed_find:
  assumes "ids_indexed s"
  shows "fmlookup (es_byID s) i = find (\<lambda>e. ev_ID e = i) (es_events s)"
proof (rule option.expand)
  have "fmlookup (es_byID s) i = Some e \<longleftrightarrow> find (\<lambda>e. ev_ID e = i) (es_events s) = Some e" for e
    using assms by (simp add: ids_indexed_def find_id_iff)
  then show "(fmlookup (es_byID s) i = None) = (find (\<lambda>e. ev_ID e = i) (es_events s) = None)"
    and "fmlookup (es_byID s) i \<noteq> None \<Longrightarrow> find (\<lambda>e. ev_ID e = i) (es_events s) \<noteq> None \<Longrightarrow>
      the (fmlookup (es_byID s) i) = the (find (\<lambda>e. ev_ID e = i) (es_events s))"
    by (metis not_None_eq, metis option.collapse)
qed

lemma MES_Receive_keeps [simp]:
  "es_events (fst (MES_Receive s i)) = es_events s" "es_byID (fst (MES_Receive s i)) = es_byID s"
  "es_clock (fst (MES_Receive s i)) = es_clock s" "es_subID (fst (MES_Receive s i)) = es_subID s"
  by (simp_all add: MES_Receive_def split: option.split list.split)

lemma MES_Subscribe_keeps [simp]:
  "es_events (fst (MES_Subscribe s f)) = es_events s" "es_byID (fst (MES_Subscribe s f)) = es_byID s"
  "es_clock (fst (MES_Subscribe s f)) = es_clock s"
  by (simp_all add: MES_Subscribe_def Let_def)

lemma MES_Unsubscribe_keeps [simp]:
  "es_events (MES_Unsubscribe s i) = es_events s" "es_byID (MES_Unsubscribe s i) = es_byID s"
  "es_clock (MES_Unsubscribe s i) = es_clock s"
  by (simp_all add: MES_Unsubscribe_def)

lemma MES_GC_simps:
  "es_events (MES_GC now s ret) = filter (\<lambda>e. now - ret < ev_Timestamp e) (es_events s)"
  "fmlookup (es_byID (MES_GC now s ret)) i =
     (if \<exists>e\<in>set (es_events s). ev_Timestamp e \<le> now - ret \<and> ev_ID e = i then None
      else fmlookup (es_byID s) i)"
  "es_clock (MES_GC now s ret) = es_clock s" "es_subs (MES_GC now s ret) = es_subs s"
  using gc_loop_events [of "now - ret" "es_events s" "es_byID s"]
    gc_loop_ids [of "now - ret" "es_events s" "es_byID s" i]
  by (simp_all add: MES_GC_def split_def Let_def)

lemma log_op_abs:
  "(es_clock (log_op_step cd op s), es_events (log_op_step cd op s)) =
     abs_step cd op (es_clock s, es_events s)"
  by (cases op) (simp_all add: MES_Append_events MES_GC_simps split_def Let_def)

lemma log_run_abs: "es_events (log_run cd ops) = abs_log cd ops"
proof -
  have "(es_clock (fold (log_op_step cd) ops s), es_events (fold (log_op_step cd) ops s)) =
      fold (abs_step cd) ops (es_clock s, es_events s)" for s
    by (induction ops arbitrary: s) (simp_all add: log_op_abs)
  from this [of NewMemoryEventStore] show ?thesis
    by (simp add: log_run_def abs_log_def NewMemoryEventStore_def prod_eq_iff)
qed

lemma ids_indexed_append:
  assumes s: "ids_indexed s" and d: "distinct (map ev_ID (es_events s @ es))"
  shows "ids_indexed (fst (MES_Append cd s es))"
proof -
  define new where "new = snd (stamp_all cd (es_clock s) es)"
  have ids: "map ev_ID new = map ev_ID es" by (simp add: new_def)
  have dn: "distinct (map ev_ID (es_events s @ new))" using d by (simp add: ids)
  then have dr: "distinct (map ev_ID (rev new))" by (simp add: rev_map [symmetric])
  have "fmlookup (es_byID (fst (MES_Append cd s es))) i = Some e \<longleftrightarrow>
      e \<in> set (es_events s @ new) \<and> ev_ID e = i" for i e
  proof (cases "find (\<lambda>e. ev_ID e = i) (rev new)")
    case None
    then have "\<forall>x\<in>set new. ev_ID x \<noteq> i" by (simp add: find_None_iff)
    then show ?thesis
      using s None by (auto simp: MES_Append_byID ids_indexed_def simp flip: new_def)
  next
    case (Some x)
    then have x: "x \<in> set new" "ev_ID x = i" using find_id_iff [OF dr] by auto
    have "inj_on ev_ID (set (es_events s @ new))" using dn by (simp only: distinct_map)
    from inj_onD [OF this] have "e \<in> set (es_events s @ new) \<and> ev_ID e = i \<longleftrightarrow> x = e"
      using x by (metis in_set_conv_decomp_first append_assoc Un_iff set_append)
    then show ?thesis using Some by (simp add: MES_Append_byID flip: new_def)
  qed
  then show ?thesis
    using dn by (simp add: ids_indexed_def MES_Append_events flip: new_def)
qed

lemma ids_indexed_step:
  assumes "ids_indexed s" and "distinct (map ev_ID (es_events s @ appended op))"
  shows "ids_indexed (log_op_step cd op s)"
proof (cases op)
  case (OAppend es)
  then show ?thesis using ids_indexed_append [OF assms(1)] assms(2) by simp
next
  case (OGC now ret)
  have "inj_on ev_ID (set (es_events s))"
    using assms(1) by (simp add: ids_indexed_def distinct_map)
  note inj_onD [OF this]
  then show ?thesis
    using assms(1) OGC unfolding ids_indexed_def
    by (auto simp: MES_GC_simps distinct_map_filter not_less)
qed (use assms in \<open>simp_all add: ids_indexed_def\<close>)

lemma log_step_ids:
  "set (map ev_ID (es_events (log_op_step cd op s))) \<subseteq>
     set (map ev_ID (es_events s)) \<union> set (map ev_ID (appended op))"
proof (cases op)
  case (OAppend es)
  then show ?thesis
    using arg_cong [OF stamp_all_ids [of cd "es_clock s" es], of set] by (simp add: MES_Append_events)
qed (auto simp: MES_GC_simps)

lemma ids_indexed_fold:
  assumes "ids_indexed s" and "distinct (map ev_ID (es_events s @ concat (map appended ops)))"
  shows "ids_indexed (fold (log_op_step cd) ops s)"
  using assms
proof (induction ops arbitrary: s)
  case (Cons op ops)
  let ?s = "log_op_step cd op s"
  have i: "ids_indexed ?s"
    using Cons.prems by (intro ids_indexed_step) (auto simp: Int_Un_distrib)
  have "distinct (map ev_ID (es_events ?s @ concat (map appended ops)))"
    using i Cons.prems(2) log_step_ids [of cd op s] unfolding ids_indexed_def map_append distinct_append
      list.map concat.simps set_append
    by blast
  then show ?case using Cons.IH [OF i] by simp
qed simp

lemma ids_indexed_run:
  "distinct (map ev_ID (concat (map appended ops))) \<Longrightarrow> ids_indexed (log_run cd ops)"
  unfolding log_run_def
  by (rule ids_indexed_fold) (simp_all add: ids_indexed_def NewMemoryEventStore_def)

subsection \<open>The order of clocks\<close>

definition clocked :: "MemoryEventStore \<Rightarrow> bool" where
  "clocked s \<longleftrightarrow> sorted_wrt (<) (map ev_Clock (es_events s)) \<and>
     (\<forall>e\<in>set (es_events s). 0 < ev_Clock e \<and> ev_Clock e \<le> es_clock s)"

lemma word_add_nat_less:
  fixes c :: "64 word"
  assumes "unat c + j < 2 ^ 64" and "i < j"
  shows "c + of_nat i < c + of_nat j"
proof -
  have "unat (c + of_nat k) = unat c + k" if "k \<le> j" for k
    using that assms(1) by (simp add: unat_word_ariths unat_of_nat)
  then show ?thesis using assms(2) by (simp add: word_less_nat_alt)
qed

lemma clocked_append:
  assumes "clocked s" and "\<forall>e\<in>set es. ev_Clock e = 0" and "unat (es_clock s) + length es < 2 ^ 64"
  shows "clocked (fst (MES_Append cd s es))"
proof -
  let ?c = "es_clock s" and ?n = "length es"
  let ?new = "snd (stamp_all cd ?c es)"
  have new: "map ev_Clock ?new = map (\<lambda>i. ?c + of_nat i) [1..<Suc ?n]"
    by (rule stamp_all_fresh [OF assms(2)])
  have lt: "?c + of_nat i < ?c + of_nat j" if "i < j" "j \<le> ?n" for i j
    using that assms(3) by (intro word_add_nat_less) auto
  have "sorted_wrt (<) (map ev_Clock ?new)"
    unfolding new sorted_wrt_map by (rule sorted_wrt_mono_rel [OF _ sorted_wrt_upt]) (auto intro: lt)
  moreover have bound: "?c < x \<and> x \<le> ?c + of_nat ?n" if "x \<in> ev_Clock ` set ?new" for x
  proof -
    have "x \<in> set (map ev_Clock ?new)" using that by simp
    then obtain i where i: "1 \<le> i" "i \<le> ?n" "x = ?c + of_nat i" unfolding new by auto
    then show ?thesis
      using lt [of 0 i] lt [of i ?n] by (cases "i = ?n") (auto simp: less_imp_le Suc_le_eq)
  qed
  moreover have up: "?c \<le> ?c + of_nat ?n"
    using lt [of 0 ?n] by (cases "?n = 0") (auto simp: less_imp_le)
  moreover have old: "0 < ev_Clock e \<and> ev_Clock e \<le> ?c" if "e \<in> set (es_events s)" for e
    using that assms(1) by (simp add: clocked_def)
  moreover have "ev_Clock e < ev_Clock e'" if "e \<in> set (es_events s)" "e' \<in> set ?new" for e e'
    using old [OF that(1)] bound [of "ev_Clock e'"] that(2) by (meson imageI le_less_trans)
  moreover have "0 < ev_Clock e \<and> ev_Clock e \<le> ?c + of_nat ?n" if "e \<in> set ?new" for e
    using bound [of "ev_Clock e"] that by (metis imageI word_gt_0 word_not_simps(1))
  moreover have "ev_Clock e \<le> ?c + of_nat ?n" if "e \<in> set (es_events s)" for e
    using old [OF that] up by (meson order_trans)
  ultimately have "sorted_wrt (<) (map ev_Clock (es_events s @ ?new)) \<and>
      (\<forall>e\<in>set (es_events s @ ?new). 0 < ev_Clock e \<and> ev_Clock e \<le> ?c + of_nat ?n)"
    using assms(1) unfolding clocked_def map_append sorted_wrt_append set_append by auto
  then show ?thesis
    using stamp_all_fresh(1) [OF assms(2), of cd ?c] by (simp add: clocked_def MES_Append_events)
qed

lemma sorted_wrt_map_filter:
  "sorted_wrt R (map f xs) \<Longrightarrow> sorted_wrt R (map f (filter P xs))"
  by (induction xs) auto

lemma clocked_step:
  assumes "clocked s" and "\<forall>e\<in>set (appended op). ev_Clock e = 0"
    and "unat (es_clock s) + length (appended op) < 2 ^ 64"
  shows "clocked (log_op_step cd op s)"
proof (cases op)
  case (OAppend es)
  then show ?thesis using clocked_append [OF assms(1)] assms(2,3) by simp
next
  case (OGC now ret)
  then show ?thesis
    using assms(1) by (auto simp: clocked_def MES_GC_simps sorted_wrt_map_filter)
qed (use assms in \<open>simp_all add: clocked_def\<close>)

lemma clock_step:
  assumes "\<forall>e\<in>set (appended op). ev_Clock e = 0"
    and "unat (es_clock s) + length (appended op) < 2 ^ 64"
  shows "unat (es_clock (log_op_step cd op s)) = unat (es_clock s) + length (appended op)"
proof (cases op)
  case (OAppend es)
  then show ?thesis
    using assms by (simp add: MES_Append_events stamp_all_fresh unat_word_ariths unat_of_nat)
qed (simp_all add: MES_GC_simps)

lemma clocked_fold:
  assumes "clocked s" and "\<forall>op\<in>set ops. \<forall>e\<in>set (appended op). ev_Clock e = 0"
    and "unat (es_clock s) + length (concat (map appended ops)) < 2 ^ 64"
  shows "clocked (fold (log_op_step cd) ops s)"
  using assms
proof (induction ops arbitrary: s)
  case (Cons op ops)
  have "clocked (log_op_step cd op s)"
    using Cons.prems by (intro clocked_step) auto
  moreover have "unat (es_clock (log_op_step cd op s)) = unat (es_clock s) + length (appended op)"
    using Cons.prems by (intro clock_step) auto
  ultimately show ?case using Cons.IH Cons.prems by simp
qed simp

subsection \<open>Subscribers\<close>

lemma fold_offer: "fold offer es q = q @ take (256 - length q) es"
proof (induction es arbitrary: q)
  case (Cons e es)
  then show ?case
    by (cases "length q < 256") (auto simp: offer_def take_Cons' Suc_diff_Suc)
qed simp

text \<open>The filter given to \<open>Subscribe\<close> has no effect: the channel receives every event.\<close>

lemma subscriber_unfiltered:
  "fmlookup (es_subs (fst (MES_Append cd (fst (MES_Subscribe s f)) es))) (snd (MES_Subscribe s f)) =
     Some (take 256 (snd (MES_Append cd (fst (MES_Subscribe s f)) es)))"
  by (simp add: MES_Append_subs MES_Append_events fold_offer MES_Subscribe_def Let_def)

subsection \<open>Properties of the store\<close>

text \<open>
  What a reader may rely on, without reference to the code: the event with number \<open>n\<close> gets the clock \<open>n\<close> and
  the hash of its payload and metadata; a filter without a limit selects by its fields that are set.
\<close>

definition stamped :: "Codec \<Rightarrow> nat \<Rightarrow> Event \<Rightarrow> Event" where
  "stamped cd n e = e\<lparr>ev_Clock := of_nat n, ev_Hash := sha256_hex
     ((case ev_Payload e of Some p \<Rightarrow> p | None \<Rightarrow> []) @
      (case ev_Metadata e of None \<Rightarrow> [] | Some m \<Rightarrow> (case cd_value cd (VMap m) of Some t \<Rightarrow> t | None \<Rightarrow> [])))\<rparr>"

fun spec_step :: "Codec \<Rightarrow> log_op \<Rightarrow> nat \<times> Event list \<Rightarrow> nat \<times> Event list" where
  "spec_step cd (OAppend es) (n, l) = (n + length es, l @ map2 (stamped cd) [Suc n..<Suc (n + length es)] es)"
| "spec_step cd (OGC now ret) (n, l) = (n, filter (\<lambda>e. now - ret < ev_Timestamp e) l)"
| "spec_step cd _ (n, l) = (n, l)"

definition spec_log :: "Codec \<Rightarrow> log_op list \<Rightarrow> Event list" where
  "spec_log cd ops = snd (fold (spec_step cd) ops (0, []))"

definition selects :: "EventFilter \<Rightarrow> Event \<Rightarrow> bool" where
  "selects f e \<longleftrightarrow>
     (ef_TraceID f = [] \<or> ev_TraceID e = ef_TraceID f) \<and> (ef_ThreadID f = [] \<or> ev_ThreadID e = ef_ThreadID f) \<and>
     (ef_Types f = [] \<or> ev_Type e \<in> set (ef_Types f)) \<and> (ef_Node f = [] \<or> ev_Node e = ef_Node f) \<and>
     ef_FromClock f \<le> ev_Clock e \<and> (ef_ToClock f = 0 \<or> ev_Clock e \<le> ef_ToClock f) \<and>
     (ef_FromTime f = 0 \<or> ef_FromTime f \<le> ev_Timestamp e) \<and> (ef_ToTime f = 0 \<or> ev_Timestamp e \<le> ef_ToTime f)"

lemma Matches_selects: "Matches f = selects f"
  by (rule ext) (auto simp: Matches_def selects_def not_less not_le word_gt_0)

lemma stamped_Seal: "stamped cd n e = Seal cd (e\<lparr>ev_Clock := of_nat n\<rparr>)"
  by (simp add: stamped_def Seal_def computeHash_def)

lemma stamp_all_numbered:
  assumes "\<forall>e\<in>set es. ev_Clock e = 0"
  shows "stamp_all cd (of_nat n) es = (of_nat (n + length es), map2 (stamped cd) [Suc n..<Suc (n + length es)] es)"
  using assms
proof (induction es arbitrary: n)
  case (Cons e es)
  have "stamp cd (of_nat n) e = (of_nat (Suc n), stamped cd (Suc n) e)"
    using Cons.prems by (simp add: stamp_fresh stamped_Seal ac_simps)
  moreover have "[Suc n..<Suc (n + length (e # es))] = Suc n # [Suc (Suc n)..<Suc (Suc n + length es)]"
    by (simp add: upt_conv_Cons del: upt_Suc)
  ultimately show ?case using Cons.IH [of "Suc n"] Cons.prems by (simp del: upt_Suc of_nat_Suc)
qed simp

lemma spec_step_abs:
  "\<forall>e\<in>set (appended op). ev_Clock e = 0 \<Longrightarrow>
   abs_step cd op (of_nat n, l) = map_prod of_nat id (spec_step cd op (n, l))"
  by (cases op) (simp_all add: stamp_all_numbered del: upt_Suc)

lemma spec_log_abs:
  assumes "\<forall>op\<in>set ops. \<forall>e\<in>set (appended op). ev_Clock e = 0"
  shows "abs_log cd ops = spec_log cd ops"
proof -
  have "fold (abs_step cd) ops (of_nat n, l) = map_prod of_nat id (fold (spec_step cd) ops (n, l))" for n l
    using assms
  proof (induction ops arbitrary: n l)
    case (Cons op ops)
    obtain n' l' where "spec_step cd op (n, l) = (n', l')" by fastforce
    with Cons spec_step_abs [of op cd n l] show ?case by simp
  qed simp
  from this [of 0 "[]"] show ?thesis by (simp add: abs_log_def spec_log_def)
qed

lemma log_run_clocked:
  assumes "\<forall>op\<in>set ops. \<forall>e\<in>set (appended op). ev_Clock e = 0" and "length (concat (map appended ops)) < 2 ^ 64"
  shows "clocked (log_run cd ops)"
  unfolding log_run_def using assms
  by (intro clocked_fold) (simp_all add: clocked_def NewMemoryEventStore_def)

text \<open>
  C16: the in-memory event store implements an append-only list that only collection shortens. For every
  trace of appends, collections and subscriptions whose events have distinct identifiers and leave their clocks
  to the store, the kept events carry the numbers of their appends as clocks and the hash of their contents;
  lookup by identifier finds exactly the kept event, a stream with a filter without a limit yields the
  selected events in the order of their clocks, a range with an upper bound yields those whose clocks
  lie between its bounds, and the length is that of the list.
\<close>

theorem event_store_refines_log:
  assumes "distinct (map ev_ID (concat (map appended ops)))"
    and "\<forall>op\<in>set ops. \<forall>e\<in>set (appended op). ev_Clock e = 0" and "length (concat (map appended ops)) < 2 ^ 64"
    and "ef_Limit f = 0" and "hi \<noteq> 0"
  shows "MES_Get (log_run cd ops) i = find (\<lambda>e. ev_ID e = i) (spec_log cd ops) \<and>
    collect (MES_Stream (log_run cd ops) f) = filter (selects f) (spec_log cd ops) \<and>
    sorted_wrt (<) (map ev_Clock (collect (MES_Stream (log_run cd ops) f))) \<and>
    MES_Range (log_run cd ops) lo hi f =
      filter (\<lambda>e. lo \<le> ev_Clock e \<and> ev_Clock e \<le> hi \<and> selects f e) (spec_log cd ops) \<and>
    MES_Length (log_run cd ops) = of_nat (length (spec_log cd ops))"
proof -
  have l: "es_events (log_run cd ops) = spec_log cd ops"
    by (simp add: log_run_abs spec_log_abs [OF assms(2)])
  have "sorted_wrt (<) (map ev_Clock (filter (selects f) (es_events (log_run cd ops))))"
    using log_run_clocked [OF assms(2,3)] by (intro sorted_wrt_map_filter) (simp add: clocked_def)
  then show ?thesis
    using ids_indexed_find [OF ids_indexed_run [OF assms(1)]] assms(5)
    by (simp add: MES_Get_def MES_Stream_collect MES_Range_def range_loop_filter MES_Length_def Matches_selects l)
qed

definition demo_event :: "string \<Rightarrow> string \<Rightarrow> Event" where
  "demo_event i tr = (NewEvent 7 100 ''node.end'' 0)\<lparr>ev_ID := i, ev_TraceID := tr\<rparr>"

definition demo_codec :: Codec where
  "demo_codec = \<lparr>cd_value = \<lambda>_. Some ''{}'', cd_event = \<lambda>e. Some (ev_ID e),
     cd_unevent = \<lambda>_. None, cd_events = \<lambda>es. Some (concat (map ev_ID es)),
     cd_LLM = \<lambda>p. Some (lp_Content p),
     cd_unLLM = \<lambda>t. (\<lparr>lp_Model = [], lp_Provider = [], lp_Messages = [],
        lp_Tokens = \<lparr>tu_PromptTokens = 0, tu_CompletionTokens = 0, tu_TotalTokens = 0\<rparr>,
        lp_Content = t, lp_Chunks = 0, lp_DurationMs = 0, lp_Cost = 0\<rparr>, False),
     cd_Tool = \<lambda>p. (case tp_Result p of VStr t \<Rightarrow> Some t | _ \<Rightarrow> None),
     cd_unTool = \<lambda>t. (\<lparr>tp_ToolName = [], tp_Arguments = fmempty, tp_Result = VStr t,
        tp_DurationMs = 0, tp_Error = [], tp_RetryCount = 0\<rparr>, False),
     cd_State = \<lambda>p. (case sp_NewValue p of VStr t \<Rightarrow> Some (sp_Channel p @ ''='' @ t) | _ \<Rightarrow> None),
     cd_unState = \<lambda>t. (case split_on CHR ''='' t of
        [c, v] \<Rightarrow> (\<lparr>sp_Channel = c, sp_OldValue = VNil, sp_NewValue = VStr v, sp_Reducer = []\<rparr>, False)
      | _ \<Rightarrow> (\<lparr>sp_Channel = [], sp_OldValue = VNil, sp_NewValue = VNil, sp_Reducer = []\<rparr>, True)),
     cd_Memory = \<lambda>_. None, cd_Approval = \<lambda>_. None, cd_SubAgent = \<lambda>_. None,
     cd_Session = \<lambda>_. None, cd_Transfer = \<lambda>_. None\<rparr>"

definition demo_ops :: "log_op list" where
  "demo_ops = [OAppend [demo_event ''a'' ''t'', demo_event ''b'' ''u''], OGC 100 50,
     OAppend [demo_event ''c'' ''t'']]"

lemma demo_ops_fresh:
  "\<forall>op\<in>set demo_ops. \<forall>e\<in>set (appended op). ev_Clock e = 0" "length (concat (map appended demo_ops)) < 2 ^ 64"
  "distinct (map ev_ID (concat (map appended demo_ops)))"
  by (simp_all add: demo_ops_def demo_event_def NewEvent_def)

lemma demo_spec_log:
  "spec_log demo_codec demo_ops = [stamped demo_codec 1 (demo_event ''a'' ''t''), stamped demo_codec 2 (demo_event ''b'' ''u''),
     stamped demo_codec 3 (demo_event ''c'' ''t'')]"
  by (simp add: spec_log_def demo_ops_def numeral_2_eq_2 numeral_3_eq_3) (simp add: stamped_def demo_event_def NewEvent_def)

theorem event_store_refines_log_witness:
  "MES_Get (log_run demo_codec demo_ops) ''b'' = Some (stamped demo_codec 2 (demo_event ''b'' ''u'')) \<and>
   map ev_ID (collect (MES_Stream (log_run demo_codec demo_ops) (no_filter\<lparr>ef_TraceID := ''t''\<rparr>))) = [''a'', ''c''] \<and>
   map ev_ID (MES_Range (log_run demo_codec demo_ops) 2 3 (no_filter\<lparr>ef_TraceID := ''t''\<rparr>)) = [''c'']"
proof -
  have "ef_Limit (no_filter\<lparr>ef_TraceID := ''t''\<rparr>) = 0" "(3 :: 64 word) \<noteq> 0" by (simp_all add: no_filter_def)
  from event_store_refines_log [OF demo_ops_fresh(3,1,2) this, of demo_codec "''b''" 2]
  show ?thesis unfolding demo_spec_log
    by (simp add: stamped_def demo_event_def selects_def no_filter_def word_le_nat_alt)
qed

text \<open>
  When the store assigns the clocks itself, the kept events carry strictly increasing, positive
  clocks in the order they were appended, through any interleaving with collection and subscription,
  and seeking to a clock that some event reaches yields exactly the events from that clock on.
\<close>

theorem event_clocks_increase:
  assumes "\<forall>op\<in>set ops. \<forall>e\<in>set (appended op). ev_Clock e = 0"
    and "length (concat (map appended ops)) < 2 ^ 64"
  shows "sorted_wrt (<) (map ev_Clock (es_events (log_run cd ops))) \<and>
    (\<forall>e\<in>set (es_events (log_run cd ops)). 0 < ev_Clock e) \<and>
    ((\<exists>e\<in>set (es_events (log_run cd ops)). clk \<le> ev_Clock e) \<longrightarrow>
      collect (MES_Seek (log_run cd ops) clk) = filter (\<lambda>e. clk \<le> ev_Clock e) (es_events (log_run cd ops)))"
proof -
  have c: "clocked (log_run cd ops)" by (rule log_run_clocked [OF assms])
  then have s: "sorted_wrt (<) (map ev_Clock (es_events (log_run cd ops)))"
    by (simp add: clocked_def)
  then have "sorted (map ev_Clock (es_events (log_run cd ops)))"
    by (rule sorted_wrt_mono_rel [rotated]) simp
  with c s show ?thesis
    using seek_pos_drop [where i = 0 and clk = clk] by (auto simp: MES_Seek_def collect_drop clocked_def)
qed

theorem event_clocks_increase_witness:
  "length (concat (map appended demo_ops)) < 2 ^ 64 \<and>
   sorted_wrt (<) (map ev_Clock (es_events (log_run demo_codec demo_ops))) \<and>
   map ev_Clock (es_events (log_run demo_codec demo_ops)) = [1, 2, 3]"
proof -
  have z: "\<forall>op\<in>set demo_ops. \<forall>e\<in>set (appended op). ev_Clock e = 0"
    by (simp add: demo_ops_def demo_event_def NewEvent_def)
  have l: "length (concat (map appended demo_ops)) < 2 ^ 64"
    by (simp add: demo_ops_def)
  have "map ev_Clock (es_events (log_run demo_codec demo_ops)) = [1, 2, 3]"
    by (simp add: log_run_abs demo_ops_def abs_log_def stamp_def demo_event_def NewEvent_def Let_def split_def)
  with event_clocks_increase [OF z l, of demo_codec] l show ?thesis by blast
qed

text \<open>
  A seek to a clock no event has reached starts again at the first event, and restoring a snapshot
  starts at the first event whatever clock the snapshot was taken at.
\<close>

theorem seek_past_end_restarts:
  assumes "\<forall>e\<in>set (es_events s). ev_Clock e < clk"
  shows "collect (MES_Seek s clk) = es_events s"
    and "collect (MES_RestoreSnapshot s sid) = es_events s"
  using assms by (simp_all add: MES_Seek_def MES_RestoreSnapshot_def collect_drop seek_pos_none seek_pos_zero)

end
