(* ===== verification/Channel_Kinds.thy ===== *)
theory Channel_Kinds
  imports Go_Values
begin

text \<open>
  The channel kinds of \<open>internal/harness/graph/channels\<close>, one record per Go struct and one
  definition per method. A method with a pointer receiver that may mutate the channel returns the
  channel after the call: \<open>Update\<close> returns the channel together with \<open>Inl error\<close> or
  \<open>Inr updated\<close>, since the code may have changed the channel before it reports an error. The
  mutexes of the barrier channels make each method one atomic step, which is how they appear here.
\<close>

record BaseChannel =
  Key :: string
  Typ :: "gotype option"
  Version :: int

type_synonym 'c update_result = "'c \<times> (gerror + bool)"

definition no_update :: "'c \<Rightarrow> 'c update_result" where
  "no_update c = (c, Inr False)"

subsection \<open>LastValue\<close>

record LastValue = BaseChannel +
  lv_value :: gval

definition NewLastValue :: "gotype option \<Rightarrow> LastValue" where
  "NewLastValue typ = \<lparr>Key = [], Typ = typ, Version = 0, lv_value = VMissing\<rparr>"

definition LastValue_Get :: "LastValue \<Rightarrow> gerror + gval" where
  "LastValue_Get c = (if IsMissing (lv_value c) then Inl EmptyChannelError else Inr (lv_value c))"

definition LastValue_IsAvailable :: "LastValue \<Rightarrow> bool" where
  "LastValue_IsAvailable c \<longleftrightarrow> \<not> IsMissing (lv_value c)"

definition LastValue_Update :: "LastValue \<Rightarrow> gval list \<Rightarrow> LastValue update_result" where
  "LastValue_Update c values =
     (if length values = 0 then no_update c
      else if length values \<noteq> 1 then (c, Inl (InvalidUpdateError (OnlyOneValuePerStep (Key c))))
      else (c\<lparr>lv_value := values ! (length values - 1)\<rparr>, Inr True))"

definition LastValue_Copy :: "LastValue \<Rightarrow> LastValue" where
  "LastValue_Copy c = (NewLastValue (Typ c))\<lparr>Key := Key c, lv_value := lv_value c\<rparr>"

definition LastValue_Checkpoint :: "LastValue \<Rightarrow> gval" where
  "LastValue_Checkpoint c = lv_value c"

definition LastValue_FromCheckpoint :: "LastValue \<Rightarrow> gval \<Rightarrow> LastValue" where
  "LastValue_FromCheckpoint c cp =
     (let n = (NewLastValue (Typ c))\<lparr>Key := Key c\<rparr>
      in if \<not> IsMissing cp then n\<lparr>lv_value := cp\<rparr> else n)"

subsection \<open>AnyValue\<close>

record AnyValue = BaseChannel +
  av_value :: gval

definition NewAnyValue :: "gotype option \<Rightarrow> AnyValue" where
  "NewAnyValue typ = \<lparr>Key = [], Typ = typ, Version = 0, av_value = VMissing\<rparr>"

definition AnyValue_Get :: "AnyValue \<Rightarrow> gerror + gval" where
  "AnyValue_Get c = (if IsMissing (av_value c) then Inl EmptyChannelError else Inr (av_value c))"

definition AnyValue_IsAvailable :: "AnyValue \<Rightarrow> bool" where
  "AnyValue_IsAvailable c \<longleftrightarrow> \<not> IsMissing (av_value c)"

definition AnyValue_Update :: "AnyValue \<Rightarrow> gval list \<Rightarrow> AnyValue update_result" where
  "AnyValue_Update c values =
     (if length values = 0 then no_update c
      else (c\<lparr>av_value := values ! (length values - 1)\<rparr>, Inr True))"

definition AnyValue_Copy :: "AnyValue \<Rightarrow> AnyValue" where
  "AnyValue_Copy c = (NewAnyValue (Typ c))\<lparr>Key := Key c, av_value := av_value c\<rparr>"

definition AnyValue_Checkpoint :: "AnyValue \<Rightarrow> gval" where
  "AnyValue_Checkpoint c = av_value c"

definition AnyValue_FromCheckpoint :: "AnyValue \<Rightarrow> gval \<Rightarrow> AnyValue" where
  "AnyValue_FromCheckpoint c cp =
     (let n = (NewAnyValue (Typ c))\<lparr>Key := Key c\<rparr>
      in if \<not> IsMissing cp then n\<lparr>av_value := cp\<rparr> else n)"

subsection \<open>EphemeralValue\<close>

record EphemeralValue = BaseChannel +
  ev_value :: gval
  ev_guard :: bool

definition NewEphemeralValue :: "gotype option \<Rightarrow> bool \<Rightarrow> EphemeralValue" where
  "NewEphemeralValue typ guard =
     \<lparr>Key = [], Typ = typ, Version = 0, ev_value = VMissing, ev_guard = guard\<rparr>"

definition EphemeralValue_Get :: "EphemeralValue \<Rightarrow> EphemeralValue \<times> (gerror + gval)" where
  "EphemeralValue_Get c =
     (if IsMissing (ev_value c) then
        (if ev_guard c then (c, Inl EmptyChannelError) else (c, Inr VNil))
      else (c\<lparr>ev_value := VMissing\<rparr>, Inr (ev_value c)))"

definition EphemeralValue_IsAvailable :: "EphemeralValue \<Rightarrow> bool" where
  "EphemeralValue_IsAvailable c \<longleftrightarrow> \<not> IsMissing (ev_value c)"

definition EphemeralValue_Update :: "EphemeralValue \<Rightarrow> gval list \<Rightarrow> EphemeralValue update_result" where
  "EphemeralValue_Update c values =
     (if length values = 0 then no_update c
      else (c\<lparr>ev_value := values ! (length values - 1)\<rparr>, Inr True))"

definition EphemeralValue_Copy :: "EphemeralValue \<Rightarrow> EphemeralValue" where
  "EphemeralValue_Copy c =
     (NewEphemeralValue (Typ c) (ev_guard c))\<lparr>Key := Key c, ev_value := ev_value c\<rparr>"

definition EphemeralValue_Checkpoint :: "EphemeralValue \<Rightarrow> gval" where
  "EphemeralValue_Checkpoint c = ev_value c"

definition EphemeralValue_FromCheckpoint :: "EphemeralValue \<Rightarrow> gval \<Rightarrow> EphemeralValue" where
  "EphemeralValue_FromCheckpoint c cp =
     (let n = (NewEphemeralValue (Typ c) (ev_guard c))\<lparr>Key := Key c\<rparr>
      in if \<not> IsMissing cp then n\<lparr>ev_value := cp\<rparr> else n)"

subsection \<open>UntrackedValue\<close>

record UntrackedValue = BaseChannel +
  uv_value :: gval

definition NewUntrackedValue :: "gotype option \<Rightarrow> UntrackedValue" where
  "NewUntrackedValue typ = \<lparr>Key = [], Typ = typ, Version = 0, uv_value = VMissing\<rparr>"

definition UntrackedValue_Get :: "UntrackedValue \<Rightarrow> gerror + gval" where
  "UntrackedValue_Get c = (if IsMissing (uv_value c) then Inl EmptyChannelError else Inr (uv_value c))"

definition UntrackedValue_IsAvailable :: "UntrackedValue \<Rightarrow> bool" where
  "UntrackedValue_IsAvailable c \<longleftrightarrow> \<not> IsMissing (uv_value c)"

definition UntrackedValue_Update :: "UntrackedValue \<Rightarrow> gval list \<Rightarrow> UntrackedValue update_result" where
  "UntrackedValue_Update c values =
     (if length values = 0 then no_update c
      else (c\<lparr>uv_value := values ! (length values - 1)\<rparr>, Inr True))"

definition UntrackedValue_Copy :: "UntrackedValue \<Rightarrow> UntrackedValue" where
  "UntrackedValue_Copy c = (NewUntrackedValue (Typ c))\<lparr>Key := Key c\<rparr>"

definition UntrackedValue_Checkpoint :: "UntrackedValue \<Rightarrow> gval" where
  "UntrackedValue_Checkpoint c = VMissing"

definition UntrackedValue_FromCheckpoint :: "UntrackedValue \<Rightarrow> gval \<Rightarrow> UntrackedValue" where
  "UntrackedValue_FromCheckpoint c cp = NewUntrackedValue (Typ c)"

subsection \<open>Topic\<close>

record Topic = BaseChannel +
  tp_values :: "gval list"
  tp_accumulate :: bool

definition NewTopic :: "gotype option \<Rightarrow> bool \<Rightarrow> Topic" where
  "NewTopic typ acc = \<lparr>Key = [], Typ = typ, Version = 0, tp_values = [], tp_accumulate = acc\<rparr>"

definition Topic_Get :: "Topic \<Rightarrow> gerror + gval" where
  "Topic_Get c = (if length (tp_values c) = 0 then Inl EmptyChannelError else Inr (VList (tp_values c)))"

definition Topic_IsAvailable :: "Topic \<Rightarrow> bool" where
  "Topic_IsAvailable c \<longleftrightarrow> 0 < length (tp_values c)"

fun flatten :: "gval list \<Rightarrow> gval list" where
  "flatten [] = []"
| "flatten (VSlice TIface xs # vs) = xs @ flatten vs"
| "flatten (v # vs) = v # flatten vs"

definition Topic_Update :: "Topic \<Rightarrow> gval list \<Rightarrow> Topic update_result" where
  "Topic_Update c values =
     (let (c1, updated) =
            (if \<not> tp_accumulate c then (c\<lparr>tp_values := []\<rparr>, 0 < length (tp_values c))
             else (c, False));
          flatValues = flatten values
      in if 0 < length flatValues then (c1\<lparr>tp_values := tp_values c1 @ flatValues\<rparr>, Inr True)
         else (c1, Inr updated))"

definition Topic_Copy :: "Topic \<Rightarrow> Topic" where
  "Topic_Copy c = (NewTopic (Typ c) (tp_accumulate c))\<lparr>Key := Key c, tp_values := tp_values c\<rparr>"

definition Topic_Checkpoint :: "Topic \<Rightarrow> gval" where
  "Topic_Checkpoint c = (if length (tp_values c) = 0 then VMissing else VList (tp_values c))"

definition Topic_FromCheckpoint :: "Topic \<Rightarrow> gval \<Rightarrow> Topic" where
  "Topic_FromCheckpoint c cp =
     (let n = (NewTopic (Typ c) (tp_accumulate c))\<lparr>Key := Key c\<rparr>
      in if \<not> IsMissing cp then
           (case cp of VSlice TIface xs \<Rightarrow> n\<lparr>tp_values := xs\<rparr> | _ \<Rightarrow> n)
         else n)"

end
