(* ===== verification/Channel_Aggregates.thy ===== *)
theory Channel_Aggregates
  imports Channel_Kinds
begin

text \<open>
  Aggregating channels: \<open>BinaryOperatorAggregate\<close> of \<open>binop.go\<close> with its operators, and the
  reducer functions of \<open>reducer.go\<close>. An operator is a HOL function on values. \<open>float64\<close>
  addition is the parameter \<open>fadd\<close> of the operators that add, and the formatting of floats and
  pointers the parameter \<open>other\<close> of \<open>StringConcat\<close>.
\<close>

type_synonym binop = "gval \<Rightarrow> gval \<Rightarrow> gval"

subsection \<open>BinaryOperatorAggregate\<close>

record BinaryOperatorAggregate = BaseChannel +
  bo_value :: gval
  bo_operator :: binop

fun strip_ptr :: "gotype \<Rightarrow> gotype" where
  "strip_ptr (TPtr t) = t"
| "strip_ptr t = t"

definition createZeroValue :: "gotype option \<Rightarrow> gval" where
  "createZeroValue typ =
     (case typ of
        None \<Rightarrow> VMissing
      | Some rt0 \<Rightarrow>
          if rt0 = TSlice TIface then VList []
          else if rt0 = TMap TIface then VMap fmempty
          else (case strip_ptr rt0 of
                  TSlice t \<Rightarrow> VSlice t []
                | TMap t \<Rightarrow> VMapT t fmempty
                | rt \<Rightarrow> zero_value rt))"

definition NewBinaryOperatorAggregate :: "gotype option \<Rightarrow> binop \<Rightarrow> BinaryOperatorAggregate" where
  "NewBinaryOperatorAggregate typ operator =
     \<lparr>Key = [], Typ = typ, Version = 0, bo_value = createZeroValue typ, bo_operator = operator\<rparr>"

definition BinaryOperatorAggregate_Get :: "BinaryOperatorAggregate \<Rightarrow> gerror + gval" where
  "BinaryOperatorAggregate_Get c =
     (if IsMissing (bo_value c) then Inl EmptyChannelError else Inr (bo_value c))"

definition BinaryOperatorAggregate_IsAvailable :: "BinaryOperatorAggregate \<Rightarrow> bool" where
  "BinaryOperatorAggregate_IsAvailable c \<longleftrightarrow> \<not> IsMissing (bo_value c)"

definition overwrite_key :: string where
  "overwrite_key = ''__overwrite__''"

text \<open>
  \<open>isOverwrite\<close> recognises values with a \<open>GetValue\<close> method and one-entry maps with the key
  \<open>__overwrite__\<close>. The result is \<open>Some v\<close> for \<open>(true, v)\<close> and \<open>None\<close> for \<open>(false, nil)\<close>.
\<close>

definition isOverwrite :: "gval \<Rightarrow> gval option" where
  "isOverwrite value =
     (case value of
        VNil \<Rightarrow> None
      | VOverwriter v \<Rightarrow> Some v
      | VMapT TIface m \<Rightarrow> (if fmlen m = 1 then fmlookup m overwrite_key else None)
      | _ \<Rightarrow> None)"

fun bo_loop :: "binop \<Rightarrow> bool \<Rightarrow> gval \<Rightarrow> gval list \<Rightarrow> gval \<times> (gerror + bool)" where
  "bo_loop f seenOverwrite cur [] = (cur, Inr True)"
| "bo_loop f seenOverwrite cur (value # vs) =
     (case isOverwrite value of
        Some ov \<Rightarrow>
          (if seenOverwrite then (cur, Inl (InvalidUpdateError OnlyOneOverwritePerStep))
           else bo_loop f True ov vs)
      | None \<Rightarrow>
          (if \<not> seenOverwrite then bo_loop f seenOverwrite (f cur value) vs
           else bo_loop f seenOverwrite cur vs))"

definition BinaryOperatorAggregate_Update ::
  "BinaryOperatorAggregate \<Rightarrow> gval list \<Rightarrow> BinaryOperatorAggregate update_result" where
  "BinaryOperatorAggregate_Update c values =
     (case values of
        [] \<Rightarrow> no_update c
      | v # vs \<Rightarrow>
          (let (cur, rest) = (if IsMissing (bo_value c) then (v, vs) else (bo_value c, values));
               (cur', r) = bo_loop (bo_operator c) False cur rest
           in (c\<lparr>bo_value := cur'\<rparr>, r)))"

definition BinaryOperatorAggregate_Copy :: "BinaryOperatorAggregate \<Rightarrow> BinaryOperatorAggregate" where
  "BinaryOperatorAggregate_Copy c =
     (NewBinaryOperatorAggregate (Typ c) (bo_operator c))\<lparr>Key := Key c, bo_value := bo_value c\<rparr>"

definition BinaryOperatorAggregate_Checkpoint :: "BinaryOperatorAggregate \<Rightarrow> gval" where
  "BinaryOperatorAggregate_Checkpoint c = bo_value c"

definition BinaryOperatorAggregate_FromCheckpoint ::
  "BinaryOperatorAggregate \<Rightarrow> gval \<Rightarrow> BinaryOperatorAggregate" where
  "BinaryOperatorAggregate_FromCheckpoint c cp =
     (let n = (NewBinaryOperatorAggregate (Typ c) (bo_operator c))\<lparr>Key := Key c\<rparr>
      in if \<not> IsMissing cp then n\<lparr>bo_value := cp\<rparr> else n)"

subsection \<open>Operators\<close>

definition StringConcat :: "(gval \<Rightarrow> string) \<Rightarrow> binop" where
  "StringConcat other a b =
     (case (a, b) of
        (VStr sa, VStr sb) \<Rightarrow> VStr (sa @ sb)
      | _ \<Rightarrow> VStr (sprintv other a @ sprintv other b))"

definition IntAdd :: "(rat \<Rightarrow> rat \<Rightarrow> rat) \<Rightarrow> binop" where
  "IntAdd fadd a b =
     (case (a, b) of
        (VInt ai, VInt bi) \<Rightarrow> VInt (ai + bi)
      | (VFloat af, VFloat bf) \<Rightarrow> VFloat (fadd af bf)
      | _ \<Rightarrow> a)"

definition ListAppend :: binop where
  "ListAppend a b =
     (case a of
        VSlice TIface al \<Rightarrow>
          (case b of VSlice TIface bl \<Rightarrow> VList (al @ bl) | _ \<Rightarrow> VList (al @ [b]))
      | _ \<Rightarrow> VList [a, b])"

subsection \<open>Reducers\<close>

definition MapMerge :: binop where
  "MapMerge a b =
     (case (a, b) of
        (VMapT TIface aMap, VMapT TIface bMap) \<Rightarrow> VMap (aMap ++\<^sub>f bMap)
      | _ \<Rightarrow> b)"

definition AddReducer :: "(rat \<Rightarrow> rat \<Rightarrow> rat) \<Rightarrow> binop" where
  "AddReducer fadd current update =
     (case (current, update) of
        (VNil, u) \<Rightarrow> u
      | (VInt ci, VInt ui) \<Rightarrow> VInt (ci + ui)
      | (VFloat cf, VFloat uf) \<Rightarrow> VFloat (fadd cf uf)
      | (_, u) \<Rightarrow> u)"

definition AppendReducer :: binop where
  "AppendReducer current update =
     (case current of
        VNil \<Rightarrow> VList [update]
      | VSlice TIface xs \<Rightarrow> VList (xs @ [update])
      | _ \<Rightarrow> VList [current, update])"

definition MergeReducer :: binop where
  "MergeReducer current update =
     (case current of
        VNil \<Rightarrow> update
      | VMapT TIface cm \<Rightarrow>
          (case update of VMapT TIface um \<Rightarrow> VMap (cm ++\<^sub>f um) | _ \<Rightarrow> update)
      | _ \<Rightarrow> update)"

subsection \<open>The update loop\<close>

text \<open>
  Without overwrite values the loop is a left fold of the operator. With exactly one overwrite value
  the result is that value, whatever follows it; a second one is an error.
\<close>

lemma bo_loop_plain:
  "\<forall>v\<in>set vs. isOverwrite v = None \<Longrightarrow> bo_loop f False cur vs = (foldl f cur vs, Inr True)"
  by (induction vs arbitrary: cur) auto

lemma bo_loop_seen_plain:
  "\<forall>v\<in>set vs. isOverwrite v = None \<Longrightarrow> bo_loop f True cur vs = (cur, Inr True)"
  by (induction vs arbitrary: cur) auto

lemma bo_loop_one_overwrite:
  assumes "\<forall>v\<in>set pre. isOverwrite v = None" and "isOverwrite w = Some ov"
    and "\<forall>v\<in>set post. isOverwrite v = None"
  shows "bo_loop f False cur (pre @ w # post) = (ov, Inr True)"
  using assms(1) by (induction pre arbitrary: cur) (auto simp: assms(2,3) bo_loop_seen_plain)

lemma bo_loop_seen_overwrite_again:
  "\<exists>v\<in>set vs. isOverwrite v \<noteq> None \<Longrightarrow>
   snd (bo_loop f True cur vs) = Inl (InvalidUpdateError OnlyOneOverwritePerStep)"
  by (induction vs arbitrary: cur) (auto split: option.splits)

lemma bo_loop_result:
  "snd (bo_loop f s cur vs) = Inr True \<or>
   snd (bo_loop f s cur vs) = Inl (InvalidUpdateError OnlyOneOverwritePerStep)"
  by (induction f s cur vs rule: bo_loop.induct) (auto split: option.splits)

text \<open>No value of the repository's own \<open>types.Overwrite\<close> is recognised by the channel.\<close>

lemma isOverwrite_types_Overwrite [simp]: "isOverwrite (VOverwrite v) = None"
  by (simp add: isOverwrite_def)

lemma isOverwrite_scalars [simp]:
  "isOverwrite (VInt n) = None" "isOverwrite (VFloat f) = None" "isOverwrite (VStr s) = None"
  "isOverwrite (VBool b) = None" "isOverwrite (VSlice t xs) = None" "isOverwrite VNil = None"
  "isOverwrite (VNum k i) = None"
  by (simp_all add: isOverwrite_def)

end
