(* ===== verification/Channel_Barriers.thy ===== *)
theory Channel_Barriers
  imports Channel_Kinds
begin

text \<open>
  The synchronising channels of \<open>barrier.go\<close>. The Go sets \<open>names\<close> and \<open>seen\<close> are
  \<open>map[string]bool\<close>; a missing key reads as false. The update loop of the two named barriers is
  the same code in the source and one definition here.
\<close>

abbreviation bget :: "(string, bool) fmap \<Rightarrow> string \<Rightarrow> bool" where
  "bget m k \<equiv> fmlookup m k = Some True"

definition name_set :: "string list \<Rightarrow> (string, bool) fmap" where
  "name_set waitFor = foldl (\<lambda>m n. fmupd n True m) fmempty waitFor"

text \<open>The loop of \<open>Update\<close>: the seen set so far, whether it grew, the remaining values.\<close>

fun barrier_loop ::
  "(string, bool) fmap \<Rightarrow> (string, bool) fmap \<Rightarrow> bool \<Rightarrow> gval list \<Rightarrow>
   (string, bool) fmap \<times> (gerror + bool)" where
  "barrier_loop names seen updated [] = (seen, Inr updated)"
| "barrier_loop names seen updated (val # vs) =
     (case val of
        VStr name \<Rightarrow>
          (if fmlookup names name \<noteq> None then
             (if \<not> bget seen name then barrier_loop names (fmupd name True seen) True vs
              else barrier_loop names seen updated vs)
           else (seen, Inl (InvalidUpdateError (NameNotExpected name (fmdom names)))))
      | _ \<Rightarrow> (seen, Inl (InvalidUpdateError (ValueNotString val))))"

text \<open>\<open>namesMatchSeen\<close>: equally many entries, and every expected name seen.\<close>

definition namesMatchSeen :: "(string, bool) fmap \<Rightarrow> (string, bool) fmap \<Rightarrow> bool" where
  "namesMatchSeen names seen \<longleftrightarrow>
     fmlen names = fmlen seen \<and> list_all (\<lambda>name. bget seen name) (fmkeys names)"

text \<open>Reading the \<open>seen\<close> set out of a checkpoint value, typed or after a JSON round trip.\<close>

fun as_bool :: "gval \<Rightarrow> bool option" where
  "as_bool (VBool b) = Some b"
| "as_bool _ = None"

definition seen_of :: "gval \<Rightarrow> (string, bool) fmap" where
  "seen_of v =
     (case v of
        VMapT TBool m \<Rightarrow> fm_map_filter as_bool m
      | VMapT TIface m \<Rightarrow> fm_map_filter as_bool m
      | _ \<Rightarrow> fmempty)"

subsection \<open>NamedBarrierValue\<close>

record NamedBarrierValue = BaseChannel +
  nb_names :: "(string, bool) fmap"
  nb_seen :: "(string, bool) fmap"

definition NewNamedBarrierValue :: "gotype option \<Rightarrow> string list \<Rightarrow> NamedBarrierValue" where
  "NewNamedBarrierValue typ waitFor =
     \<lparr>Key = [], Typ = typ, Version = 0, nb_names = name_set waitFor, nb_seen = fmempty\<rparr>"

definition NamedBarrierValue_Get :: "NamedBarrierValue \<Rightarrow> gerror + gval" where
  "NamedBarrierValue_Get c =
     (if \<not> namesMatchSeen (nb_names c) (nb_seen c) then Inl EmptyChannelError else Inr VNil)"

definition NamedBarrierValue_IsAvailable :: "NamedBarrierValue \<Rightarrow> bool" where
  "NamedBarrierValue_IsAvailable c = namesMatchSeen (nb_names c) (nb_seen c)"

definition NamedBarrierValue_Update ::
  "NamedBarrierValue \<Rightarrow> gval list \<Rightarrow> NamedBarrierValue update_result" where
  "NamedBarrierValue_Update c values =
     (if length values = 0 then no_update c
      else let (seen', r) = barrier_loop (nb_names c) (nb_seen c) False values
           in (c\<lparr>nb_seen := seen'\<rparr>, r))"

definition NamedBarrierValue_Copy :: "NamedBarrierValue \<Rightarrow> NamedBarrierValue" where
  "NamedBarrierValue_Copy c =
     (NewNamedBarrierValue (Typ c) [])\<lparr>Key := Key c, nb_names := nb_names c, nb_seen := nb_seen c\<rparr>"

definition NamedBarrierValue_Checkpoint :: "NamedBarrierValue \<Rightarrow> gval" where
  "NamedBarrierValue_Checkpoint c =
     (if fmlen (nb_seen c) = 0 then VMissing else VMapT TBool (fmmap VBool (nb_seen c)))"

definition NamedBarrierValue_FromCheckpoint :: "NamedBarrierValue \<Rightarrow> gval \<Rightarrow> NamedBarrierValue" where
  "NamedBarrierValue_FromCheckpoint c cp =
     (let n = (NewNamedBarrierValue (Typ c) [])\<lparr>Key := Key c, nb_names := nb_names c\<rparr>
      in if cp \<noteq> VNil \<and> \<not> IsMissing cp then n\<lparr>nb_seen := seen_of cp\<rparr> else n)"

definition NamedBarrierValue_Finish :: "NamedBarrierValue \<Rightarrow> NamedBarrierValue \<times> bool" where
  "NamedBarrierValue_Finish c =
     (if 0 < fmlen (nb_seen c) then (c\<lparr>nb_seen := fmempty\<rparr>, True) else (c, False))"

definition NamedBarrierValue_Consume :: "NamedBarrierValue \<Rightarrow> NamedBarrierValue \<times> bool" where
  "NamedBarrierValue_Consume c =
     (if namesMatchSeen (nb_names c) (nb_seen c) \<and> 0 < fmlen (nb_seen c)
      then (c\<lparr>nb_seen := fmempty\<rparr>, True) else (c, False))"

subsection \<open>NamedBarrierValueAfterFinish\<close>

record NamedBarrierValueAfterFinish = BaseChannel +
  nf_names :: "(string, bool) fmap"
  nf_seen :: "(string, bool) fmap"
  nf_finished :: bool

definition NewNamedBarrierValueAfterFinish ::
  "gotype option \<Rightarrow> string list \<Rightarrow> NamedBarrierValueAfterFinish" where
  "NewNamedBarrierValueAfterFinish typ waitFor =
     \<lparr>Key = [], Typ = typ, Version = 0, nf_names = name_set waitFor, nf_seen = fmempty,
      nf_finished = False\<rparr>"

definition NamedBarrierValueAfterFinish_Get :: "NamedBarrierValueAfterFinish \<Rightarrow> gerror + gval" where
  "NamedBarrierValueAfterFinish_Get c =
     (if \<not> nf_finished c \<or> \<not> namesMatchSeen (nf_names c) (nf_seen c)
      then Inl EmptyChannelError else Inr VNil)"

definition NamedBarrierValueAfterFinish_IsAvailable :: "NamedBarrierValueAfterFinish \<Rightarrow> bool" where
  "NamedBarrierValueAfterFinish_IsAvailable c \<longleftrightarrow>
     nf_finished c \<and> namesMatchSeen (nf_names c) (nf_seen c)"

definition NamedBarrierValueAfterFinish_Update ::
  "NamedBarrierValueAfterFinish \<Rightarrow> gval list \<Rightarrow> NamedBarrierValueAfterFinish update_result" where
  "NamedBarrierValueAfterFinish_Update c values =
     (if length values = 0 then no_update c
      else let (seen', r) = barrier_loop (nf_names c) (nf_seen c) False values
           in (c\<lparr>nf_seen := seen'\<rparr>, r))"

definition NamedBarrierValueAfterFinish_Copy ::
  "NamedBarrierValueAfterFinish \<Rightarrow> NamedBarrierValueAfterFinish" where
  "NamedBarrierValueAfterFinish_Copy c =
     (NewNamedBarrierValueAfterFinish (Typ c) [])
       \<lparr>Key := Key c, nf_names := nf_names c, nf_seen := nf_seen c, nf_finished := nf_finished c\<rparr>"

definition NamedBarrierValueAfterFinish_Checkpoint :: "NamedBarrierValueAfterFinish \<Rightarrow> gval" where
  "NamedBarrierValueAfterFinish_Checkpoint c =
     (if fmlen (nf_seen c) = 0 \<and> \<not> nf_finished c then VMissing
      else VMap (fmap_of_list
             [(''seen'', VMapT TBool (fmmap VBool (nf_seen c))),
              (''finished'', VBool (nf_finished c))]))"

definition NamedBarrierValueAfterFinish_FromCheckpoint ::
  "NamedBarrierValueAfterFinish \<Rightarrow> gval \<Rightarrow> NamedBarrierValueAfterFinish" where
  "NamedBarrierValueAfterFinish_FromCheckpoint c cp =
     (let n = (NewNamedBarrierValueAfterFinish (Typ c) [])\<lparr>Key := Key c, nf_names := nf_names c\<rparr>
      in case cp of
           VMapT TIface m \<Rightarrow>
             n\<lparr>nf_seen := (case fmlookup m ''seen'' of Some s \<Rightarrow> seen_of s | None \<Rightarrow> fmempty),
               nf_finished := (case fmlookup m ''finished'' of
                                 Some (VBool b) \<Rightarrow> b | _ \<Rightarrow> nf_finished n)\<rparr>
         | _ \<Rightarrow> n)"

definition NamedBarrierValueAfterFinish_Finish ::
  "NamedBarrierValueAfterFinish \<Rightarrow> NamedBarrierValueAfterFinish \<times> bool" where
  "NamedBarrierValueAfterFinish_Finish c =
     (if \<not> nf_finished c \<and> namesMatchSeen (nf_names c) (nf_seen c)
      then (c\<lparr>nf_finished := True\<rparr>, True) else (c, False))"

definition NamedBarrierValueAfterFinish_Consume ::
  "NamedBarrierValueAfterFinish \<Rightarrow> NamedBarrierValueAfterFinish \<times> bool" where
  "NamedBarrierValueAfterFinish_Consume c =
     (if nf_finished c \<and> namesMatchSeen (nf_names c) (nf_seen c) \<and> 0 < fmlen (nf_seen c)
      then (c\<lparr>nf_finished := False, nf_seen := fmempty\<rparr>, True) else (c, False))"

subsection \<open>LastValueAfterFinish\<close>

record LastValueAfterFinish = BaseChannel +
  lf_value :: gval
  lf_finished :: bool

definition NewLastValueAfterFinish :: "gotype option \<Rightarrow> LastValueAfterFinish" where
  "NewLastValueAfterFinish typ =
     \<lparr>Key = [], Typ = typ, Version = 0, lf_value = VMissing, lf_finished = False\<rparr>"

definition LastValueAfterFinish_Get :: "LastValueAfterFinish \<Rightarrow> gerror + gval" where
  "LastValueAfterFinish_Get c =
     (if \<not> lf_finished c then Inl EmptyChannelError
      else if IsMissing (lf_value c) then Inl EmptyChannelError
      else Inr (lf_value c))"

definition LastValueAfterFinish_IsAvailable :: "LastValueAfterFinish \<Rightarrow> bool" where
  "LastValueAfterFinish_IsAvailable c \<longleftrightarrow> lf_finished c \<and> \<not> IsMissing (lf_value c)"

definition LastValueAfterFinish_Update ::
  "LastValueAfterFinish \<Rightarrow> gval list \<Rightarrow> LastValueAfterFinish update_result" where
  "LastValueAfterFinish_Update c values =
     (case values of
        [] \<Rightarrow> no_update c
      | [v] \<Rightarrow> (c\<lparr>lf_value := v\<rparr>, Inr True)
      | _ \<Rightarrow> (c, Inl (InvalidUpdateError OnlyOneValue)))"

definition LastValueAfterFinish_Copy :: "LastValueAfterFinish \<Rightarrow> LastValueAfterFinish" where
  "LastValueAfterFinish_Copy c =
     (NewLastValueAfterFinish (Typ c))
       \<lparr>Key := Key c, lf_value := lf_value c, lf_finished := lf_finished c\<rparr>"

definition LastValueAfterFinish_Checkpoint :: "LastValueAfterFinish \<Rightarrow> gval" where
  "LastValueAfterFinish_Checkpoint c = lf_value c"

definition LastValueAfterFinish_FromCheckpoint ::
  "LastValueAfterFinish \<Rightarrow> gval \<Rightarrow> LastValueAfterFinish" where
  "LastValueAfterFinish_FromCheckpoint c cp =
     (let n = (NewLastValueAfterFinish (Typ c))\<lparr>Key := Key c\<rparr>
      in if \<not> IsMissing cp then n\<lparr>lf_value := cp\<rparr> else n)"

definition LastValueAfterFinish_Finish :: "LastValueAfterFinish \<Rightarrow> LastValueAfterFinish \<times> bool" where
  "LastValueAfterFinish_Finish c =
     (if \<not> lf_finished c then (c\<lparr>lf_finished := True\<rparr>, True) else (c, False))"

definition LastValueAfterFinish_Consume :: "LastValueAfterFinish \<Rightarrow> LastValueAfterFinish \<times> bool" where
  "LastValueAfterFinish_Consume c = (c, False)"

subsection \<open>Facts about the seen set\<close>

text \<open>
  \<open>seen_inv\<close>: the seen set only holds expected names, each stored as true. It holds initially and
  after every update, and under it a barrier is open exactly when every name has arrived.
\<close>

definition seen_inv :: "(string, bool) fmap \<Rightarrow> (string, bool) fmap \<Rightarrow> bool" where
  "seen_inv names seen \<longleftrightarrow> fmdom seen |\<subseteq>| fmdom names \<and> (\<forall>k b. fmlookup seen k = Some b \<longrightarrow> b)"

lemma seen_inv_empty [simp]: "seen_inv names fmempty"
  by (simp add: seen_inv_def)

lemma fmlookup_name_set: "fmlookup (name_set ws) k = (if k \<in> set ws then Some True else None)"
proof -
  have "fmlookup (foldl (\<lambda>m n. fmupd n True m) m ws) k = (if k \<in> set ws then Some True else fmlookup m k)" for m
    by (induction ws arbitrary: m) auto
  then show ?thesis by (simp add: name_set_def)
qed

lemma fmdom_name_set [simp]: "fmdom (name_set ws) = fset_of_list ws"
  by (auto simp: fmlookup_dom_iff fmlookup_name_set fset_of_list_elem split: if_splits)

lemma barrier_loop_inv:
  "seen_inv names seen \<Longrightarrow> seen_inv names (fst (barrier_loop names seen u vs))"
proof (induction names seen u vs rule: barrier_loop.induct)
  case (2 names seen updated val vs)
  show ?case
  proof (cases val)
    case (VStr name)
    have "seen_inv names (fmupd name True seen)" if "fmlookup names name \<noteq> None"
      using "2.prems" that by (auto simp: seen_inv_def intro: fmdomI)
    with "2" VStr show ?thesis by auto
  qed (use "2.prems" in auto)
qed simp

lemma namesMatchSeen_iff:
  assumes "seen_inv names seen"
  shows "namesMatchSeen names seen \<longleftrightarrow> fmdom seen = fmdom names"
proof
  assume "namesMatchSeen names seen"
  then have "\<And>k. k |\<in>| fmdom names \<Longrightarrow> fmlookup seen k = Some True"
    by (simp add: namesMatchSeen_def list_all_iff)
  then have "fmdom names |\<subseteq>| fmdom seen" by (auto intro: fmdomI)
  with assms show "fmdom seen = fmdom names" by (auto simp: seen_inv_def)
next
  assume eq: "fmdom seen = fmdom names"
  have "fmlookup seen k = Some True" if "k |\<in>| fmdom names" for k
    using that assms unfolding eq [symmetric] seen_inv_def by (metis (full_types) fmdomE)
  then show "namesMatchSeen names seen"
    by (simp add: namesMatchSeen_def fmlen_def eq list_all_iff)
qed

lemma barrier_loop_names:
  assumes "\<forall>w\<in>set ws. fmlookup names w \<noteq> None"
  shows "\<exists>u'. snd (barrier_loop names seen u (map VStr ws)) = Inr u' \<and>
     fmdom (fst (barrier_loop names seen u (map VStr ws))) |\<subseteq>| fmdom seen |\<union>| fset_of_list ws \<and>
     fset_of_list ws |\<subseteq>| fmdom (fst (barrier_loop names seen u (map VStr ws))) \<and>
     fmdom seen |\<subseteq>| fmdom (fst (barrier_loop names seen u (map VStr ws)))"
  using assms
proof (induction ws arbitrary: seen u)
  case Nil
  then show ?case by simp
next
  case (Cons w ws)
  show ?case
  proof (cases "bget seen w")
    case True
    then have "w |\<in>| fmdom seen" by (auto intro: fmdomI)
    with True Cons.IH [of seen u] Cons.prems show ?thesis by auto
  next
    case False
    with Cons.IH [of "fmupd w True seen" True] Cons.prems show ?thesis by auto
  qed
qed

lemma barrier_loop_dom:
  assumes "\<forall>w\<in>set ws. fmlookup names w \<noteq> None"
  shows "fmdom (fst (barrier_loop names seen u (map VStr ws))) = fmdom seen |\<union>| fset_of_list ws"
  using barrier_loop_names [OF assms, of seen u] by auto

lemma barrier_loop_reject:
  assumes "w \<notin> fset (fmdom names)"
  shows "snd (barrier_loop names seen u (VStr w # vs)) =
     Inl (InvalidUpdateError (NameNotExpected w (fmdom names)))"
  using assms by (auto dest: fmdom_notD)

lemma seen_of_typed [simp]: "seen_of (VMapT TBool (fmmap VBool s)) = s"
  by (simp add: seen_of_def fm_map_filter_fmmap)

lemma seen_of_json [simp]: "seen_of (VMapT TIface (fmmap VBool s)) = s"
  by (simp add: seen_of_def fm_map_filter_fmmap)

end
