(* ===== verification/Channels.thy ===== *)
theory Channels
  imports Channel_Aggregates Channel_Barriers
begin

text \<open>
  The \<open>Channel\<close> interface of \<open>base.go\<close> as a datatype with one constructor per implementation,
  its methods by dispatch, the wrapper \<open>ReducerChannel\<close> and its factory. The locale
  \<open>persistent_channel\<close> states what a checkpoint of a channel promises; every kind that keeps the
  promise interprets it.
\<close>

datatype channel =
    CLastValue LastValue
  | CAnyValue AnyValue
  | CEphemeralValue EphemeralValue
  | CUntrackedValue UntrackedValue
  | CTopic Topic
  | CBinaryOperatorAggregate BinaryOperatorAggregate
  | CNamedBarrierValue NamedBarrierValue
  | CNamedBarrierValueAfterFinish NamedBarrierValueAfterFinish
  | CLastValueAfterFinish LastValueAfterFinish
  | CReducerChannel channel binop

subsection \<open>Methods inherited from the embedded base\<close>

definition BaseChannel_Consume :: "'c \<Rightarrow> 'c \<times> bool" where
  "BaseChannel_Consume c = (c, False)"

definition BaseChannel_Finish :: "'c \<Rightarrow> 'c \<times> bool" where
  "BaseChannel_Finish c = (c, False)"

primrec GetKey :: "channel \<Rightarrow> string" where
  "GetKey (CLastValue c) = Key c"
| "GetKey (CAnyValue c) = Key c"
| "GetKey (CEphemeralValue c) = Key c"
| "GetKey (CUntrackedValue c) = Key c"
| "GetKey (CTopic c) = Key c"
| "GetKey (CBinaryOperatorAggregate c) = Key c"
| "GetKey (CNamedBarrierValue c) = Key c"
| "GetKey (CNamedBarrierValueAfterFinish c) = Key c"
| "GetKey (CLastValueAfterFinish c) = Key c"
| "GetKey (CReducerChannel ch r) = GetKey ch"

primrec SetKey :: "string \<Rightarrow> channel \<Rightarrow> channel" where
  "SetKey k (CLastValue c) = CLastValue (c\<lparr>Key := k\<rparr>)"
| "SetKey k (CAnyValue c) = CAnyValue (c\<lparr>Key := k\<rparr>)"
| "SetKey k (CEphemeralValue c) = CEphemeralValue (c\<lparr>Key := k\<rparr>)"
| "SetKey k (CUntrackedValue c) = CUntrackedValue (c\<lparr>Key := k\<rparr>)"
| "SetKey k (CTopic c) = CTopic (c\<lparr>Key := k\<rparr>)"
| "SetKey k (CBinaryOperatorAggregate c) = CBinaryOperatorAggregate (c\<lparr>Key := k\<rparr>)"
| "SetKey k (CNamedBarrierValue c) = CNamedBarrierValue (c\<lparr>Key := k\<rparr>)"
| "SetKey k (CNamedBarrierValueAfterFinish c) = CNamedBarrierValueAfterFinish (c\<lparr>Key := k\<rparr>)"
| "SetKey k (CLastValueAfterFinish c) = CLastValueAfterFinish (c\<lparr>Key := k\<rparr>)"
| "SetKey k (CReducerChannel ch r) = CReducerChannel (SetKey k ch) r"

primrec GetVersion :: "channel \<Rightarrow> int" where
  "GetVersion (CLastValue c) = Version c"
| "GetVersion (CAnyValue c) = Version c"
| "GetVersion (CEphemeralValue c) = Version c"
| "GetVersion (CUntrackedValue c) = Version c"
| "GetVersion (CTopic c) = Version c"
| "GetVersion (CBinaryOperatorAggregate c) = Version c"
| "GetVersion (CNamedBarrierValue c) = Version c"
| "GetVersion (CNamedBarrierValueAfterFinish c) = Version c"
| "GetVersion (CLastValueAfterFinish c) = Version c"
| "GetVersion (CReducerChannel ch r) = GetVersion ch"

text \<open>
  \<open>SetVersion\<close> is a method of the embedded \<open>BaseChannel\<close> and not of the interface, so a
  \<open>ReducerChannel\<close>, which embeds the interface, does not have it: \<open>None\<close>.
\<close>

primrec SetVersion :: "int \<Rightarrow> channel \<Rightarrow> channel option" where
  "SetVersion v (CLastValue c) = Some (CLastValue (c\<lparr>Version := v\<rparr>))"
| "SetVersion v (CAnyValue c) = Some (CAnyValue (c\<lparr>Version := v\<rparr>))"
| "SetVersion v (CEphemeralValue c) = Some (CEphemeralValue (c\<lparr>Version := v\<rparr>))"
| "SetVersion v (CUntrackedValue c) = Some (CUntrackedValue (c\<lparr>Version := v\<rparr>))"
| "SetVersion v (CTopic c) = Some (CTopic (c\<lparr>Version := v\<rparr>))"
| "SetVersion v (CBinaryOperatorAggregate c) = Some (CBinaryOperatorAggregate (c\<lparr>Version := v\<rparr>))"
| "SetVersion v (CNamedBarrierValue c) = Some (CNamedBarrierValue (c\<lparr>Version := v\<rparr>))"
| "SetVersion v (CNamedBarrierValueAfterFinish c) =
     Some (CNamedBarrierValueAfterFinish (c\<lparr>Version := v\<rparr>))"
| "SetVersion v (CLastValueAfterFinish c) = Some (CLastValueAfterFinish (c\<lparr>Version := v\<rparr>))"
| "SetVersion v (CReducerChannel ch r) = None"

subsection \<open>Dispatch\<close>

primrec Get :: "channel \<Rightarrow> channel \<times> (gerror + gval)" where
  "Get (CLastValue c) = (CLastValue c, LastValue_Get c)"
| "Get (CAnyValue c) = (CAnyValue c, AnyValue_Get c)"
| "Get (CEphemeralValue c) = map_prod CEphemeralValue id (EphemeralValue_Get c)"
| "Get (CUntrackedValue c) = (CUntrackedValue c, UntrackedValue_Get c)"
| "Get (CTopic c) = (CTopic c, Topic_Get c)"
| "Get (CBinaryOperatorAggregate c) = (CBinaryOperatorAggregate c, BinaryOperatorAggregate_Get c)"
| "Get (CNamedBarrierValue c) = (CNamedBarrierValue c, NamedBarrierValue_Get c)"
| "Get (CNamedBarrierValueAfterFinish c) =
     (CNamedBarrierValueAfterFinish c, NamedBarrierValueAfterFinish_Get c)"
| "Get (CLastValueAfterFinish c) = (CLastValueAfterFinish c, LastValueAfterFinish_Get c)"
| "Get (CReducerChannel ch r) = map_prod (\<lambda>ch'. CReducerChannel ch' r) id (Get ch)"

primrec IsAvailable :: "channel \<Rightarrow> bool" where
  "IsAvailable (CLastValue c) = LastValue_IsAvailable c"
| "IsAvailable (CAnyValue c) = AnyValue_IsAvailable c"
| "IsAvailable (CEphemeralValue c) = EphemeralValue_IsAvailable c"
| "IsAvailable (CUntrackedValue c) = UntrackedValue_IsAvailable c"
| "IsAvailable (CTopic c) = Topic_IsAvailable c"
| "IsAvailable (CBinaryOperatorAggregate c) = BinaryOperatorAggregate_IsAvailable c"
| "IsAvailable (CNamedBarrierValue c) = NamedBarrierValue_IsAvailable c"
| "IsAvailable (CNamedBarrierValueAfterFinish c) = NamedBarrierValueAfterFinish_IsAvailable c"
| "IsAvailable (CLastValueAfterFinish c) = LastValueAfterFinish_IsAvailable c"
| "IsAvailable (CReducerChannel ch r) = IsAvailable ch"

text \<open>
  The body of \<open>ReducerChannel.Update\<close> between reading the wrapped channel and writing it: the
  first value is combined with the current one unless reading failed, the rest folded in.
\<close>

definition reducer_combine :: "binop \<Rightarrow> gerror + gval \<Rightarrow> gval \<Rightarrow> gval list \<Rightarrow> gval" where
  "reducer_combine reducer current v vs =
     foldl reducer (case current of Inl _ \<Rightarrow> v | Inr cur \<Rightarrow> reducer cur v) vs"

primrec wrap_depth :: "channel \<Rightarrow> nat" where
  "wrap_depth (CLastValue c) = 0"
| "wrap_depth (CAnyValue c) = 0"
| "wrap_depth (CEphemeralValue c) = 0"
| "wrap_depth (CUntrackedValue c) = 0"
| "wrap_depth (CTopic c) = 0"
| "wrap_depth (CBinaryOperatorAggregate c) = 0"
| "wrap_depth (CNamedBarrierValue c) = 0"
| "wrap_depth (CNamedBarrierValueAfterFinish c) = 0"
| "wrap_depth (CLastValueAfterFinish c) = 0"
| "wrap_depth (CReducerChannel ch r) = Suc (wrap_depth ch)"

lemma wrap_depth_Get [simp]: "wrap_depth (fst (Get ch)) = wrap_depth ch"
  by (induction ch) (auto split: prod.splits simp: map_prod_def)

function Update :: "channel \<Rightarrow> gval list \<Rightarrow> channel update_result" where
  "Update (CLastValue c) vs = map_prod CLastValue id (LastValue_Update c vs)"
| "Update (CAnyValue c) vs = map_prod CAnyValue id (AnyValue_Update c vs)"
| "Update (CEphemeralValue c) vs = map_prod CEphemeralValue id (EphemeralValue_Update c vs)"
| "Update (CUntrackedValue c) vs = map_prod CUntrackedValue id (UntrackedValue_Update c vs)"
| "Update (CTopic c) vs = map_prod CTopic id (Topic_Update c vs)"
| "Update (CBinaryOperatorAggregate c) vs =
     map_prod CBinaryOperatorAggregate id (BinaryOperatorAggregate_Update c vs)"
| "Update (CNamedBarrierValue c) vs = map_prod CNamedBarrierValue id (NamedBarrierValue_Update c vs)"
| "Update (CNamedBarrierValueAfterFinish c) vs =
     map_prod CNamedBarrierValueAfterFinish id (NamedBarrierValueAfterFinish_Update c vs)"
| "Update (CLastValueAfterFinish c) vs =
     map_prod CLastValueAfterFinish id (LastValueAfterFinish_Update c vs)"
| "Update (CReducerChannel ch r) [] = no_update (CReducerChannel ch r)"
| "Update (CReducerChannel ch r) (v # vs) =
     map_prod (\<lambda>ch'. CReducerChannel ch' r) id
       (Update (fst (Get ch)) [reducer_combine r (snd (Get ch)) v vs])"
  by pat_completeness auto
termination
  by (relation "measure (\<lambda>(ch, vs). wrap_depth ch)") auto

primrec Copy :: "channel \<Rightarrow> channel" where
  "Copy (CLastValue c) = CLastValue (LastValue_Copy c)"
| "Copy (CAnyValue c) = CAnyValue (AnyValue_Copy c)"
| "Copy (CEphemeralValue c) = CEphemeralValue (EphemeralValue_Copy c)"
| "Copy (CUntrackedValue c) = CUntrackedValue (UntrackedValue_Copy c)"
| "Copy (CTopic c) = CTopic (Topic_Copy c)"
| "Copy (CBinaryOperatorAggregate c) = CBinaryOperatorAggregate (BinaryOperatorAggregate_Copy c)"
| "Copy (CNamedBarrierValue c) = CNamedBarrierValue (NamedBarrierValue_Copy c)"
| "Copy (CNamedBarrierValueAfterFinish c) =
     CNamedBarrierValueAfterFinish (NamedBarrierValueAfterFinish_Copy c)"
| "Copy (CLastValueAfterFinish c) = CLastValueAfterFinish (LastValueAfterFinish_Copy c)"
| "Copy (CReducerChannel ch r) = CReducerChannel (Copy ch) r"

primrec Checkpoint :: "channel \<Rightarrow> gval" where
  "Checkpoint (CLastValue c) = LastValue_Checkpoint c"
| "Checkpoint (CAnyValue c) = AnyValue_Checkpoint c"
| "Checkpoint (CEphemeralValue c) = EphemeralValue_Checkpoint c"
| "Checkpoint (CUntrackedValue c) = UntrackedValue_Checkpoint c"
| "Checkpoint (CTopic c) = Topic_Checkpoint c"
| "Checkpoint (CBinaryOperatorAggregate c) = BinaryOperatorAggregate_Checkpoint c"
| "Checkpoint (CNamedBarrierValue c) = NamedBarrierValue_Checkpoint c"
| "Checkpoint (CNamedBarrierValueAfterFinish c) = NamedBarrierValueAfterFinish_Checkpoint c"
| "Checkpoint (CLastValueAfterFinish c) = LastValueAfterFinish_Checkpoint c"
| "Checkpoint (CReducerChannel ch r) = Checkpoint ch"

primrec FromCheckpoint :: "channel \<Rightarrow> gval \<Rightarrow> channel" where
  "FromCheckpoint (CLastValue c) cp = CLastValue (LastValue_FromCheckpoint c cp)"
| "FromCheckpoint (CAnyValue c) cp = CAnyValue (AnyValue_FromCheckpoint c cp)"
| "FromCheckpoint (CEphemeralValue c) cp = CEphemeralValue (EphemeralValue_FromCheckpoint c cp)"
| "FromCheckpoint (CUntrackedValue c) cp = CUntrackedValue (UntrackedValue_FromCheckpoint c cp)"
| "FromCheckpoint (CTopic c) cp = CTopic (Topic_FromCheckpoint c cp)"
| "FromCheckpoint (CBinaryOperatorAggregate c) cp =
     CBinaryOperatorAggregate (BinaryOperatorAggregate_FromCheckpoint c cp)"
| "FromCheckpoint (CNamedBarrierValue c) cp =
     CNamedBarrierValue (NamedBarrierValue_FromCheckpoint c cp)"
| "FromCheckpoint (CNamedBarrierValueAfterFinish c) cp =
     CNamedBarrierValueAfterFinish (NamedBarrierValueAfterFinish_FromCheckpoint c cp)"
| "FromCheckpoint (CLastValueAfterFinish c) cp =
     CLastValueAfterFinish (LastValueAfterFinish_FromCheckpoint c cp)"
| "FromCheckpoint (CReducerChannel ch r) cp = CReducerChannel (FromCheckpoint ch cp) r"

primrec Consume :: "channel \<Rightarrow> channel \<times> bool" where
  "Consume (CLastValue c) = BaseChannel_Consume (CLastValue c)"
| "Consume (CAnyValue c) = BaseChannel_Consume (CAnyValue c)"
| "Consume (CEphemeralValue c) = BaseChannel_Consume (CEphemeralValue c)"
| "Consume (CUntrackedValue c) = BaseChannel_Consume (CUntrackedValue c)"
| "Consume (CTopic c) = BaseChannel_Consume (CTopic c)"
| "Consume (CBinaryOperatorAggregate c) = BaseChannel_Consume (CBinaryOperatorAggregate c)"
| "Consume (CNamedBarrierValue c) = map_prod CNamedBarrierValue id (NamedBarrierValue_Consume c)"
| "Consume (CNamedBarrierValueAfterFinish c) =
     map_prod CNamedBarrierValueAfterFinish id (NamedBarrierValueAfterFinish_Consume c)"
| "Consume (CLastValueAfterFinish c) =
     map_prod CLastValueAfterFinish id (LastValueAfterFinish_Consume c)"
| "Consume (CReducerChannel ch r) = map_prod (\<lambda>ch'. CReducerChannel ch' r) id (Consume ch)"

primrec Finish :: "channel \<Rightarrow> channel \<times> bool" where
  "Finish (CLastValue c) = BaseChannel_Finish (CLastValue c)"
| "Finish (CAnyValue c) = BaseChannel_Finish (CAnyValue c)"
| "Finish (CEphemeralValue c) = BaseChannel_Finish (CEphemeralValue c)"
| "Finish (CUntrackedValue c) = BaseChannel_Finish (CUntrackedValue c)"
| "Finish (CTopic c) = BaseChannel_Finish (CTopic c)"
| "Finish (CBinaryOperatorAggregate c) = BaseChannel_Finish (CBinaryOperatorAggregate c)"
| "Finish (CNamedBarrierValue c) = map_prod CNamedBarrierValue id (NamedBarrierValue_Finish c)"
| "Finish (CNamedBarrierValueAfterFinish c) =
     map_prod CNamedBarrierValueAfterFinish id (NamedBarrierValueAfterFinish_Finish c)"
| "Finish (CLastValueAfterFinish c) =
     map_prod CLastValueAfterFinish id (LastValueAfterFinish_Finish c)"
| "Finish (CReducerChannel ch r) = map_prod (\<lambda>ch'. CReducerChannel ch' r) id (Finish ch)"

subsection \<open>The factory for reducer channels\<close>

text \<open>
  \<open>CreateReducerChannel\<close> picks a channel by the kind of the field's type. For slices, maps and the
  default case the constructor is given the \<open>reflect.Type\<close> itself as its type sample, whose dynamic
  type is \<open>*reflect.rtype\<close>; only the numeric case passes a sample of the field's type.
\<close>

definition CreateReducerChannel ::
  "(rat \<Rightarrow> rat \<Rightarrow> rat) \<Rightarrow> string \<Rightarrow> gotype \<Rightarrow> binop option \<Rightarrow> channel" where
  "CreateReducerChannel fadd fieldName fieldType reducer =
     (let ch = (case fieldType of
                  TSlice t \<Rightarrow>
                    CBinaryOperatorAggregate
                      (NewBinaryOperatorAggregate (typeof (VRType fieldType)) ListAppend)
                | TMap t \<Rightarrow>
                    CBinaryOperatorAggregate
                      (NewBinaryOperatorAggregate (typeof (VRType fieldType)) MapMerge)
                | TInt \<Rightarrow>
                    CBinaryOperatorAggregate
                      (NewBinaryOperatorAggregate (typeof (zero_value fieldType)) (IntAdd fadd))
                | TNum k \<Rightarrow>
                    CBinaryOperatorAggregate
                      (NewBinaryOperatorAggregate (typeof (zero_value fieldType)) (IntAdd fadd))
                | TFloat \<Rightarrow>
                    CBinaryOperatorAggregate
                      (NewBinaryOperatorAggregate (typeof (zero_value fieldType)) (IntAdd fadd))
                | _ \<Rightarrow> CLastValue (NewLastValue (typeof (VRType fieldType))));
          ch' = SetKey fieldName ch
      in case reducer of None \<Rightarrow> ch' | Some r \<Rightarrow> CReducerChannel ch' r)"

end
