(* ===== verification/Channel_Laws.thy ===== *)
theory Channel_Laws
  imports Channels
begin

text \<open>
  Properties of the channels: checkpoints restore a channel up to its version, directly and through
  a JSON copy; what the aggregates compute; when barriers open; what the factory builds.
\<close>

lemmas channel_op_defs [chan_simps] =
  no_update_def
  NewLastValue_def LastValue_Get_def LastValue_IsAvailable_def LastValue_Update_def LastValue_Copy_def
  LastValue_Checkpoint_def LastValue_FromCheckpoint_def
  NewAnyValue_def AnyValue_Get_def AnyValue_IsAvailable_def AnyValue_Update_def AnyValue_Copy_def
  AnyValue_Checkpoint_def AnyValue_FromCheckpoint_def
  NewEphemeralValue_def EphemeralValue_Get_def EphemeralValue_IsAvailable_def
  EphemeralValue_Update_def EphemeralValue_Copy_def
  EphemeralValue_Checkpoint_def EphemeralValue_FromCheckpoint_def
  NewUntrackedValue_def UntrackedValue_Get_def UntrackedValue_IsAvailable_def
  UntrackedValue_Update_def UntrackedValue_Copy_def
  UntrackedValue_Checkpoint_def UntrackedValue_FromCheckpoint_def
  NewTopic_def Topic_Get_def Topic_IsAvailable_def Topic_Update_def Topic_Copy_def
  Topic_Checkpoint_def Topic_FromCheckpoint_def
  NewBinaryOperatorAggregate_def BinaryOperatorAggregate_Get_def
  BinaryOperatorAggregate_IsAvailable_def
  BinaryOperatorAggregate_Copy_def
  BinaryOperatorAggregate_Checkpoint_def BinaryOperatorAggregate_FromCheckpoint_def
  NewNamedBarrierValue_def NamedBarrierValue_Get_def NamedBarrierValue_IsAvailable_def
  NamedBarrierValue_Update_def NamedBarrierValue_Copy_def NamedBarrierValue_Checkpoint_def
  NamedBarrierValue_FromCheckpoint_def NamedBarrierValue_Finish_def NamedBarrierValue_Consume_def
  NewNamedBarrierValueAfterFinish_def NamedBarrierValueAfterFinish_Get_def
  NamedBarrierValueAfterFinish_IsAvailable_def NamedBarrierValueAfterFinish_Update_def
  NamedBarrierValueAfterFinish_Copy_def NamedBarrierValueAfterFinish_Checkpoint_def
  NamedBarrierValueAfterFinish_FromCheckpoint_def NamedBarrierValueAfterFinish_Finish_def
  NamedBarrierValueAfterFinish_Consume_def
  NewLastValueAfterFinish_def LastValueAfterFinish_Get_def LastValueAfterFinish_IsAvailable_def
  LastValueAfterFinish_Update_def LastValueAfterFinish_Copy_def LastValueAfterFinish_Checkpoint_def
  LastValueAfterFinish_FromCheckpoint_def LastValueAfterFinish_Finish_def
  LastValueAfterFinish_Consume_def
  BaseChannel_Consume_def BaseChannel_Finish_def

subsection \<open>What a checkpoint keeps\<close>

text \<open>Everything of a channel but its version counter.\<close>

primrec forget_version :: "channel \<Rightarrow> channel" where
  "forget_version (CLastValue c) = CLastValue (c\<lparr>Version := 0\<rparr>)"
| "forget_version (CAnyValue c) = CAnyValue (c\<lparr>Version := 0\<rparr>)"
| "forget_version (CEphemeralValue c) = CEphemeralValue (c\<lparr>Version := 0\<rparr>)"
| "forget_version (CUntrackedValue c) = CUntrackedValue (c\<lparr>Version := 0\<rparr>)"
| "forget_version (CTopic c) = CTopic (c\<lparr>Version := 0\<rparr>)"
| "forget_version (CBinaryOperatorAggregate c) = CBinaryOperatorAggregate (c\<lparr>Version := 0\<rparr>)"
| "forget_version (CNamedBarrierValue c) = CNamedBarrierValue (c\<lparr>Version := 0\<rparr>)"
| "forget_version (CNamedBarrierValueAfterFinish c) =
     CNamedBarrierValueAfterFinish (c\<lparr>Version := 0\<rparr>)"
| "forget_version (CLastValueAfterFinish c) = CLastValueAfterFinish (c\<lparr>Version := 0\<rparr>)"
| "forget_version (CReducerChannel ch r) = CReducerChannel (forget_version ch) r"

text \<open>The channel as its constructor builds it, with the same key and the same construction parameters.\<close>

primrec fresh :: "channel \<Rightarrow> channel" where
  "fresh (CLastValue c) = CLastValue ((NewLastValue (Typ c))\<lparr>Key := Key c\<rparr>)"
| "fresh (CAnyValue c) = CAnyValue ((NewAnyValue (Typ c))\<lparr>Key := Key c\<rparr>)"
| "fresh (CEphemeralValue c) = CEphemeralValue ((NewEphemeralValue (Typ c) (ev_guard c))\<lparr>Key := Key c\<rparr>)"
| "fresh (CUntrackedValue c) = CUntrackedValue ((NewUntrackedValue (Typ c))\<lparr>Key := Key c\<rparr>)"
| "fresh (CTopic c) = CTopic ((NewTopic (Typ c) (tp_accumulate c))\<lparr>Key := Key c\<rparr>)"
| "fresh (CBinaryOperatorAggregate c) =
     CBinaryOperatorAggregate ((NewBinaryOperatorAggregate (Typ c) (bo_operator c))\<lparr>Key := Key c\<rparr>)"
| "fresh (CNamedBarrierValue c) =
     CNamedBarrierValue ((NewNamedBarrierValue (Typ c) [])\<lparr>Key := Key c, nb_names := nb_names c\<rparr>)"
| "fresh (CNamedBarrierValueAfterFinish c) = CNamedBarrierValueAfterFinish
     ((NewNamedBarrierValueAfterFinish (Typ c) [])\<lparr>Key := Key c, nf_names := nf_names c\<rparr>)"
| "fresh (CLastValueAfterFinish c) = CLastValueAfterFinish ((NewLastValueAfterFinish (Typ c))\<lparr>Key := Key c\<rparr>)"
| "fresh (CReducerChannel ch r) = CReducerChannel (fresh ch) r"

text \<open>
  The channels a checkpoint can restore: not an untracked one (unless it is as new and has no key),
  not a finished \<open>LastValueAfterFinish\<close>, and an aggregate is only empty if its type has no zero
  value.
\<close>

primrec persistent :: "channel \<Rightarrow> bool" where
  "persistent (CLastValue c) = True"
| "persistent (CAnyValue c) = True"
| "persistent (CEphemeralValue c) = True"
| "persistent (CUntrackedValue c) = (uv_value c = VMissing \<and> Key c = [])"
| "persistent (CTopic c) = True"
| "persistent (CBinaryOperatorAggregate c) =
     (bo_value c = VMissing \<longrightarrow> createZeroValue (Typ c) = VMissing)"
| "persistent (CNamedBarrierValue c) = True"
| "persistent (CNamedBarrierValueAfterFinish c) = True"
| "persistent (CLastValueAfterFinish c) = (\<not> lf_finished c)"
| "persistent (CReducerChannel ch r) = persistent ch"

text \<open>
  The same through \<open>deepCopy\<close>, which the in-memory and JSON savers apply: the stored value has to be
  a JSON value already. The barriers' sets of booleans always survive.
\<close>

primrec json_persistent :: "channel \<Rightarrow> bool" where
  "json_persistent (CLastValue c) = (lv_value c = VMissing \<or> json_value (lv_value c))"
| "json_persistent (CAnyValue c) = (av_value c = VMissing \<or> json_value (av_value c))"
| "json_persistent (CEphemeralValue c) = (ev_value c = VMissing \<or> json_value (ev_value c))"
| "json_persistent (CUntrackedValue c) = True"
| "json_persistent (CTopic c) = list_all json_value (tp_values c)"
| "json_persistent (CBinaryOperatorAggregate c) = (bo_value c = VMissing \<or> json_value (bo_value c))"
| "json_persistent (CNamedBarrierValue c) = True"
| "json_persistent (CNamedBarrierValueAfterFinish c) = True"
| "json_persistent (CLastValueAfterFinish c) = (lf_value c = VMissing \<or> json_value (lf_value c))"
| "json_persistent (CReducerChannel ch r) = json_persistent ch"

text \<open>
  A saver stores nothing for a missing value (\<open>CreateCheckpoint\<close> skips it), otherwise a deep copy.
\<close>

definition saved :: "channel \<Rightarrow> gval" where
  "saved ch = (if IsMissing (Checkpoint ch) then VMissing else deepCopy (Checkpoint ch))"

lemma FromCheckpoint_Checkpoint:
  "persistent ch \<Longrightarrow> FromCheckpoint ch (Checkpoint ch) = forget_version ch"
  by (induction ch) (auto simp: chan_simps Let_def split: if_splits)

text \<open>A restore takes from its receiver the construction parameters only.\<close>

lemma FromCheckpoint_fresh: "FromCheckpoint (fresh ch) cp = FromCheckpoint ch cp"
  by (induction ch) (simp_all add: chan_simps)

lemma FromCheckpoint_like: "fresh d = fresh ch \<Longrightarrow> FromCheckpoint d cp = FromCheckpoint ch cp"
  by (metis FromCheckpoint_fresh)

lemma Checkpoint_missing: "persistent ch \<Longrightarrow> Checkpoint ch = VMissing \<Longrightarrow> fresh ch = forget_version ch"
  by (induction ch) (auto simp: chan_simps split: if_splits)

lemma deepCopy_json_value: "json_value v \<Longrightarrow> deepCopy v = v"
  by (simp add: deepCopy_eq_json_rt json_rt_id)

lemma deepCopy_bool_map: "deepCopy (VMapT TBool (fmmap VBool s)) = VMap (fmmap VBool s)"
proof -
  have "fmmap json_rt (fmmap VBool s) = fmmap VBool s"
    by (rule fmap_ext) (simp add: option.map_comp o_def)
  then show ?thesis by (simp add: deepCopy_eq_json_rt)
qed

lemma deepCopy_VMap: "deepCopy (VMap m) = VMap (fmmap deepCopy m)"
  by simp

lemma fmmap_upd [simp]: "fmmap f (fmupd k v m) = fmupd k (f v) (fmmap f m)"
  by (rule fmap_ext) simp

lemma fmmap_fmempty [simp]: "fmmap f fmempty = fmempty"
  by (rule fmap_ext) simp

lemma FromCheckpoint_saved:
  assumes "persistent ch" and "json_persistent ch"
  shows "FromCheckpoint ch (saved ch) = forget_version ch"
  using assms
proof (induction ch)
  case (CTopic c)
  have "tp_values c \<noteq> [] \<Longrightarrow> map deepCopy (tp_values c) = tp_values c"
    using CTopic by (auto simp: list_all_iff deepCopy_json_value intro: map_idI)
  then show ?case by (auto simp: saved_def chan_simps Let_def)
next
  case (CNamedBarrierValue c)
  then show ?case
    by (auto simp: saved_def chan_simps Let_def deepCopy_bool_map simp del: deepCopy.simps)
next
  case (CNamedBarrierValueAfterFinish c)
  then show ?case
    by (auto simp: saved_def chan_simps Let_def deepCopy_bool_map deepCopy_VMap
        simp del: deepCopy.simps(9) deepCopy.simps(8))
next
  case (CReducerChannel ch r)
  then show ?case by (auto simp: saved_def split: if_splits)
qed (auto simp: saved_def chan_simps Let_def deepCopy_json_value)

subsection \<open>Behaviour after a restore\<close>

text \<open>A sequence of update batches, one per superstep, with the answer to each.\<close>

primrec Update_all :: "channel \<Rightarrow> gval list list \<Rightarrow> channel \<times> (gerror + bool) list" where
  "Update_all ch [] = (ch, [])"
| "Update_all ch (b # bs) =
     (let (ch1, r) = Update ch b; (ch2, rs) = Update_all ch1 bs in (ch2, r # rs))"

text \<open>
  The contract of a restorable component: restoring what was saved of it onto any component like it
  gives a state with the same observation, and observation determines the answers to updates. Then the
  restored component answers every sequence of update batches as the original would have.
\<close>

locale persistent_channel =
  fixes upd :: "'c \<Rightarrow> 'v list \<Rightarrow> 'c \<times> 'r"
    and chk :: "'c \<Rightarrow> 'p"
    and restore :: "'c \<Rightarrow> 'p \<Rightarrow> 'c"
    and obs :: "'c \<Rightarrow> 'o"
    and inv :: "'c \<Rightarrow> bool"
    and like :: "'c \<Rightarrow> 'c \<Rightarrow> bool"
  assumes restore_obs: "inv c \<Longrightarrow> like d c \<Longrightarrow> obs (restore d (chk c)) = obs c"
    and upd_obs: "obs c = obs d \<Longrightarrow>
       obs (fst (upd c vs)) = obs (fst (upd d vs)) \<and> snd (upd c vs) = snd (upd d vs)"
begin

primrec run :: "'c \<Rightarrow> 'v list list \<Rightarrow> 'c \<times> 'r list" where
  "run c [] = (c, [])"
| "run c (b # bs) = (let (c1, r) = upd c b; (c2, rs) = run c1 bs in (c2, r # rs))"

lemma run_obs:
  "obs c = obs d \<Longrightarrow>
   obs (fst (run c bs)) = obs (fst (run d bs)) \<and> snd (run c bs) = snd (run d bs)"
proof (induction bs arbitrary: c d)
  case Nil
  then show ?case by simp
next
  case (Cons b bs)
  have "obs (fst (upd c b)) = obs (fst (upd d b))" "snd (upd c b) = snd (upd d b)"
    using upd_obs [OF Cons.prems] by auto
  with Cons.IH [of "fst (upd c b)" "fst (upd d b)"] show ?case
    by (simp add: case_prod_beta Let_def)
qed

theorem restored_run:
  assumes "inv c" and "like d c"
  shows "obs (fst (run (restore d (chk c)) bs)) = obs (fst (run c bs)) \<and>
         snd (run (restore d (chk c)) bs) = snd (run c bs)"
  using run_obs [OF restore_obs [OF assms]] by simp

end

lemma forget_version_idem [simp]: "forget_version (forget_version ch) = forget_version ch"
  by (induction ch) auto

lemma Get_forget_version:
  "forget_version (fst (Get ch)) = fst (Get (forget_version ch))"
  "snd (Get ch) = snd (Get (forget_version ch))"
  by (induction ch) (auto simp: chan_simps)

lemma Update_forget_version:
  "forget_version (fst (Update ch vs)) = forget_version (fst (Update (forget_version ch) vs)) \<and>
   snd (Update ch vs) = snd (Update (forget_version ch) vs)"
proof (induction ch vs rule: Update.induct)
  case (11 ch r v vs)
  let ?w = "reducer_combine r (snd (Get ch)) v vs"
  have "reducer_combine r (snd (Get (forget_version ch))) v vs = ?w"
    by (simp flip: Get_forget_version)
  moreover have "fst (Get (forget_version ch)) = forget_version (fst (Get ch))"
    by (rule Get_forget_version(1) [symmetric])
  ultimately show ?case using "11.IH" by simp
qed (auto simp: chan_simps BinaryOperatorAggregate_Update_def Let_def case_prod_beta
       split: list.split if_splits)

lemma Update_obs:
  assumes "forget_version c = forget_version d"
  shows "forget_version (fst (Update c vs)) = forget_version (fst (Update d vs)) \<and>
         snd (Update c vs) = snd (Update d vs)"
  using Update_forget_version [of c vs] Update_forget_version [of d vs] assms by simp

interpretation direct: persistent_channel Update Checkpoint FromCheckpoint forget_version persistent
  "\<lambda>d ch. fresh d = fresh ch"
  by (unfold_locales, metis FromCheckpoint_like FromCheckpoint_Checkpoint forget_version_idem, rule Update_obs)

interpretation via_saver: persistent_channel Update saved FromCheckpoint forget_version
  "\<lambda>ch. persistent ch \<and> json_persistent ch" "\<lambda>d ch. fresh d = fresh ch"
  by (unfold_locales, metis FromCheckpoint_like FromCheckpoint_saved forget_version_idem, rule Update_obs)

lemma direct_run: "direct.run ch bs = Update_all ch bs"
  by (induction bs arbitrary: ch) simp_all

lemma via_saver_run: "via_saver.run ch bs = Update_all ch bs"
  by (induction bs arbitrary: ch) simp_all

text \<open>
  Restoring a channel from its own checkpoint gives back the channel with its version counter
  reset, for every channel kind that keeps its state in the checkpoint.
\<close>

theorem checkpoint_roundtrip:
  "persistent ch \<Longrightarrow> FromCheckpoint ch (Checkpoint ch) = forget_version ch"
  by (rule FromCheckpoint_Checkpoint)

definition demo_topic :: channel where
  "demo_topic = CTopic \<lparr>Key = ''log'', Typ = None, Version = 4, tp_values = [VInt 7], tp_accumulate = True\<rparr>"

theorem checkpoint_roundtrip_witness:
  "persistent demo_topic \<and>
   FromCheckpoint demo_topic (Checkpoint demo_topic) = forget_version demo_topic \<and>
   GetVersion (FromCheckpoint demo_topic (Checkpoint demo_topic)) = 0"
proof -
  have p: "persistent demo_topic" by (simp add: demo_topic_def)
  show ?thesis using p checkpoint_roundtrip [OF p] by (simp add: demo_topic_def)
qed

text \<open>
  C26: a channel can be continued on another one. What a saver stores of a channel (nothing for a
  missing value, otherwise a deep copy through JSON), restored onto any channel \<open>d\<close> built with the same
  kind, key and parameters, such as a new one, gives a channel that answers every later sequence of
  update batches exactly as the saved channel would have, then reads the same, and is in the same state
  up to its version. The saved channel must be \<open>persistent\<close> (an untracked channel only when it is empty
  and has no key, a \<open>LastValueAfterFinish\<close> only before it is finished, an aggregate without a value only
  when its type has no zero value), and its value must be a JSON value already (\<open>json_persistent\<close>:
  integers and structs are not; \<open>int_counter_stuck_after_resume\<close> shows what happens to them).
\<close>

theorem saved_channel_behaves:
  assumes "persistent ch" and "json_persistent ch" and "fresh d = fresh ch"
  shows "snd (Update_all (FromCheckpoint d (saved ch)) bs) = snd (Update_all ch bs) \<and>
    snd (Get (fst (Update_all (FromCheckpoint d (saved ch)) bs))) = snd (Get (fst (Update_all ch bs))) \<and>
    forget_version (fst (Update_all (FromCheckpoint d (saved ch)) bs)) =
      forget_version (fst (Update_all ch bs))"
proof -
  have r: "forget_version (fst (Update_all (FromCheckpoint d (saved ch)) bs)) =
        forget_version (fst (Update_all ch bs)) \<and>
      snd (Update_all (FromCheckpoint d (saved ch)) bs) = snd (Update_all ch bs)"
    using via_saver.restored_run [of ch d bs] assms by (simp only: via_saver_run simp_thms)
  then show ?thesis by (metis Get_forget_version(2))
qed

definition demo_barrier :: channel where
  "demo_barrier = fst (Update (CNamedBarrierValue (NewNamedBarrierValue None [''a'', ''b''])) [VStr ''a''])"

theorem saved_channel_behaves_witness:
  "let new = CNamedBarrierValue (NewNamedBarrierValue None [''a'', ''b''])
   in persistent demo_barrier \<and> json_persistent demo_barrier \<and> FromCheckpoint new (saved demo_barrier) \<noteq> new \<and>
     snd (Update_all (FromCheckpoint new (saved demo_barrier)) [[VStr ''b''], [VStr ''c'']]) =
       snd (Update_all demo_barrier [[VStr ''b''], [VStr ''c'']]) \<and>
     hd (snd (Update_all demo_barrier [[VStr ''b''], [VStr ''c'']])) = Inr True"
proof -
  let ?new = "CNamedBarrierValue (NewNamedBarrierValue None [''a'', ''b''])"
  have p: "persistent demo_barrier" "json_persistent demo_barrier" "fresh ?new = fresh demo_barrier"
    by (simp_all add: demo_barrier_def chan_simps Let_def case_prod_beta)
  have "FromCheckpoint ?new (saved demo_barrier) = forget_version demo_barrier"
    using p by (metis FromCheckpoint_like FromCheckpoint_saved)
  moreover have "forget_version demo_barrier \<noteq> ?new"
    by (simp add: demo_barrier_def chan_simps Let_def name_set_def)
  ultimately show ?thesis
    using p saved_channel_behaves [OF p, of "[[VStr ''b''], [VStr ''c'']]"]
    by (simp add: demo_barrier_def chan_simps Let_def name_set_def del: FromCheckpoint.simps)
qed

text \<open>
  An integer counter does not survive a save. JSON turns the stored \<open>int\<close> into a
  \<open>float64\<close>; the operator \<open>IntAdd\<close> then ignores every later \<open>int\<close> update, although each
  is still reported as an update.
\<close>

theorem int_counter_stuck_after_resume:
  assumes "bo_operator c = IntAdd fadd" and "bo_value c = VInt a"
  shows "Update (FromCheckpoint (CBinaryOperatorAggregate c) (saved (CBinaryOperatorAggregate c)))
           (VInt b # map VInt bs) =
         (FromCheckpoint (CBinaryOperatorAggregate c) (saved (CBinaryOperatorAggregate c)), Inr True)"
proof -
  have st: "foldl (IntAdd fadd) (VFloat x) (VInt b # map VInt bs) = VFloat x" for x
    by (induction bs) (auto simp: IntAdd_def)
  have "\<forall>v\<in>set (VInt b # map VInt bs). isOverwrite v = None" by auto
  then have "bo_loop (IntAdd fadd) False (VFloat x) (VInt b # map VInt bs) = (VFloat x, Inr True)" for x
    by (simp only: bo_loop_plain st)
  then show ?thesis
    using assms by (simp add: saved_def chan_simps Let_def BinaryOperatorAggregate_Update_def
        del: bo_loop.simps)
qed

definition demo_counter :: BinaryOperatorAggregate where
  "demo_counter = (NewBinaryOperatorAggregate (Some TInt) (IntAdd (+)))\<lparr>bo_value := VInt 41\<rparr>"

theorem int_counter_stuck_after_resume_witness:
  "snd (Get (fst (Update (CBinaryOperatorAggregate demo_counter) [VInt 1]))) = Inr (VInt 42) \<and>
   Update (FromCheckpoint (CBinaryOperatorAggregate demo_counter)
             (saved (CBinaryOperatorAggregate demo_counter))) [VInt 1] =
     (FromCheckpoint (CBinaryOperatorAggregate demo_counter)
        (saved (CBinaryOperatorAggregate demo_counter)), Inr True)"
proof -
  have h: "bo_operator demo_counter = IntAdd (+)" "bo_value demo_counter = VInt 41"
    by (simp_all add: demo_counter_def chan_simps)
  show ?thesis using int_counter_stuck_after_resume [OF h, of 1 "[]"] h
    by (simp add: chan_simps BinaryOperatorAggregate_Update_def Let_def IntAdd_def)
qed

end
