(* ===== verification/Channel_Props.thy ===== *)
theory Channel_Props
  imports Channel_Laws
begin

text \<open>
  Functional properties of the channel kinds: availability, aggregation, overwrites, topics,
  barriers, and the channels that \<open>CreateReducerChannel\<close> builds.
\<close>

definition overwrite_free :: "gval list \<Rightarrow> bool" where
  "overwrite_free vs = list_all (\<lambda>v. isOverwrite v = None) vs"

lemma overwrite_free_Cons [simp]:
  "overwrite_free (v # vs) \<longleftrightarrow> isOverwrite v = None \<and> overwrite_free vs"
  by (simp add: overwrite_free_def)

lemma overwrite_free_append [simp]:
  "overwrite_free (vs @ ws) \<longleftrightarrow> overwrite_free vs \<and> overwrite_free ws"
  by (simp add: overwrite_free_def)

lemma bo_loop_overwrite_free:
  "overwrite_free vs \<Longrightarrow> bo_loop f False cur vs = (foldl f cur vs, Inr True)"
  by (simp add: bo_loop_plain overwrite_free_def list_all_iff)

text \<open>The channel an aggregate becomes when its value is replaced.\<close>

abbreviation agg :: "BinaryOperatorAggregate \<Rightarrow> gval \<Rightarrow> channel" where
  "agg c v \<equiv> CBinaryOperatorAggregate (c\<lparr>bo_value := v\<rparr>)"

lemma Update_agg:
  assumes "overwrite_free vs" and "vs \<noteq> []"
  shows "Update (CBinaryOperatorAggregate c) vs =
    (agg c (if bo_value c = VMissing then foldl (bo_operator c) (hd vs) (tl vs)
            else foldl (bo_operator c) (bo_value c) vs), Inr True)"
  using assms
  by (cases vs) (auto simp: BinaryOperatorAggregate_Update_def Let_def bo_loop_overwrite_free
      simp del: bo_loop.simps)

subsection \<open>Availability\<close>

primrec unguarded :: "channel \<Rightarrow> bool" where
  "unguarded (CLastValue c) = False"
| "unguarded (CAnyValue c) = False"
| "unguarded (CEphemeralValue c) = (\<not> ev_guard c)"
| "unguarded (CUntrackedValue c) = False"
| "unguarded (CTopic c) = False"
| "unguarded (CBinaryOperatorAggregate c) = False"
| "unguarded (CNamedBarrierValue c) = False"
| "unguarded (CNamedBarrierValueAfterFinish c) = False"
| "unguarded (CLastValueAfterFinish c) = False"
| "unguarded (CReducerChannel ch r) = unguarded ch"

lemma Get_result:
  "if IsAvailable ch then (\<exists>v. snd (Get ch) = Inr v)
   else snd (Get ch) = (if unguarded ch then Inr VNil else Inl EmptyChannelError)"
  by (induction ch) (auto simp: chan_simps split: if_splits)

text \<open>
  Reading a channel succeeds exactly when the channel reports itself available, with the single
  exception of an empty ephemeral channel without guard, which answers nil; and the only error a read
  can return is the empty-channel error.
\<close>

theorem Get_total:
  "if IsAvailable ch then (\<exists>v. snd (Get ch) = Inr v)
   else snd (Get ch) = (if unguarded ch then Inr VNil else Inl EmptyChannelError)"
  by (rule Get_result)

subsection \<open>Aggregation\<close>

text \<open>
  An aggregate that is not empty and receives a batch without overwrites holds the left fold of
  its operator over the batch; a batch may be split anywhere into two without changing the result.
\<close>

theorem aggregate_update:
  assumes "overwrite_free (vs @ ws)" and "vs \<noteq> []" and "bo_value c \<noteq> VMissing"
    and "foldl (bo_operator c) (bo_value c) vs \<noteq> VMissing"
  shows "Update (CBinaryOperatorAggregate c) (vs @ ws) =
           (agg c (foldl (bo_operator c) (bo_value c) (vs @ ws)), Inr True) \<and>
         fst (Update (CBinaryOperatorAggregate c) (vs @ ws)) =
           fst (Update (fst (Update (CBinaryOperatorAggregate c) vs)) ws)"
proof -
  have 1: "Update (CBinaryOperatorAggregate c) (vs @ ws) =
      (agg c (foldl (bo_operator c) (bo_value c) (vs @ ws)), Inr True)"
    using assms Update_agg [of "vs @ ws" c] by simp
  have 2: "fst (Update (CBinaryOperatorAggregate c) vs) = agg c (foldl (bo_operator c) (bo_value c) vs)"
    using assms Update_agg [of vs c] by simp
  have "fst (Update (agg c (foldl (bo_operator c) (bo_value c) vs)) ws) =
      agg c (foldl (bo_operator c) (bo_value c) (vs @ ws))"
  proof (cases "ws = []")
    case True
    then show ?thesis by (simp add: BinaryOperatorAggregate_Update_def no_update_def)
  next
    case False
    then show ?thesis using assms Update_agg [of ws "c\<lparr>bo_value := foldl (bo_operator c) (bo_value c) vs\<rparr>"]
      by simp
  qed
  with 1 2 show ?thesis by simp
qed

theorem aggregate_update_witness:
  "Update (CBinaryOperatorAggregate demo_counter) ([VInt 1] @ [VInt 2, VInt 3]) =
     (agg demo_counter (VInt 47), Inr True)"
proof -
  have h: "overwrite_free ([VInt 1] @ [VInt 2, VInt 3])" "[VInt 1] \<noteq> []"
    "bo_value demo_counter \<noteq> VMissing"
    "foldl (bo_operator demo_counter) (bo_value demo_counter) [VInt 1] \<noteq> VMissing"
    by (simp_all add: demo_counter_def chan_simps IntAdd_def overwrite_free_def)
  show ?thesis using aggregate_update [OF h]
    by (simp add: demo_counter_def chan_simps IntAdd_def del: Update.simps)
qed

text \<open>
  Among the values an aggregate receives in one superstep, a single overwrite decides the result:
  what comes before it is discarded and what comes after it is ignored. A second overwrite in the same
  superstep is rejected.
\<close>

theorem aggregate_overwrite:
  assumes "overwrite_free pre" and "isOverwrite w = Some ov" and "bo_value c \<noteq> VMissing"
  shows "(overwrite_free post \<longrightarrow>
           Update (CBinaryOperatorAggregate c) (pre @ w # post) = (agg c ov, Inr True)) \<and>
         (\<not> overwrite_free post \<longrightarrow>
           snd (Update (CBinaryOperatorAggregate c) (pre @ w # post)) =
             Inl (InvalidUpdateError OnlyOneOverwritePerStep))"
proof -
  have skip: "bo_loop f False cur (pre @ w # post) = bo_loop f True ov post" for f cur
    using assms(1) by (induction pre arbitrary: cur) (auto simp: assms(2))
  have upd: "Update (CBinaryOperatorAggregate c) (pre @ w # post) =
      map_prod (agg c) id (bo_loop (bo_operator c) True ov post)"
    unfolding skip [symmetric, of _ "bo_value c"] using assms(3)
    by (cases pre) (auto simp: BinaryOperatorAggregate_Update_def Let_def case_prod_beta
        map_prod_def simp del: bo_loop.simps)
  have "bo_loop (bo_operator c) True ov post = (ov, Inr True)" if "overwrite_free post"
    using that by (simp add: bo_loop_seen_plain overwrite_free_def list_all_iff)
  moreover have "snd (bo_loop (bo_operator c) True ov post) =
      Inl (InvalidUpdateError OnlyOneOverwritePerStep)" if "\<not> overwrite_free post"
    using that by (intro bo_loop_seen_overwrite_again) (auto simp: overwrite_free_def list_all_iff)
  ultimately show ?thesis unfolding upd by simp
qed

theorem aggregate_overwrite_witness:
  "Update (CBinaryOperatorAggregate demo_counter)
     ([VInt 1] @ VMap (fmap_of_list [(''__overwrite__'', VInt 9)]) # [VInt 5]) =
   (agg demo_counter (VInt 9), Inr True)"
proof -
  have h: "overwrite_free [VInt 1]"
    "isOverwrite (VMap (fmap_of_list [(''__overwrite__'', VInt 9)])) = Some (VInt 9)"
    "bo_value demo_counter \<noteq> VMissing" "overwrite_free [VInt 5]"
    by (simp_all add: demo_counter_def chan_simps overwrite_free_def isOverwrite_def
        overwrite_key_def fmlen_def fcard_finsert_if)
  show ?thesis using aggregate_overwrite [OF h(1-3), of "[VInt 5]"] h(4) by blast
qed

subsection \<open>A reducer over a last-value channel is an aggregate\<close>

text \<open>
  Wrapping a \<open>LastValue\<close> channel in a \<open>ReducerChannel\<close> implements the same aggregation as a
  \<open>BinaryOperatorAggregate\<close> with that operator: from equal values, every non-empty batch without
  overwrites is accepted by both and leaves equal values.
\<close>

theorem reducer_refines_aggregate:
  assumes "overwrite_free vs" and "vs \<noteq> []" and "lv_value l = bo_value c"
  shows "\<exists>v. Update (CReducerChannel (CLastValue l) (bo_operator c)) vs =
                (CReducerChannel (CLastValue (l\<lparr>lv_value := v\<rparr>)) (bo_operator c), Inr True) \<and>
             Update (CBinaryOperatorAggregate c) vs = (agg c v, Inr True)"
proof -
  obtain w ws where vs: "vs = w # ws" using assms(2) by (cases vs) auto
  show ?thesis
    using assms Update_agg [OF assms(1,2), of c]
    by (auto simp: vs chan_simps reducer_combine_def)
qed

theorem reducer_refines_aggregate_witness:
  "\<exists>v. Update (CReducerChannel (CLastValue ((NewLastValue None)\<lparr>lv_value := VInt 41\<rparr>)) (IntAdd (+)))
            [VInt 1, VInt 2] =
          (CReducerChannel (CLastValue ((NewLastValue None)\<lparr>lv_value := v\<rparr>)) (IntAdd (+)), Inr True) \<and>
       Update (CBinaryOperatorAggregate demo_counter) [VInt 1, VInt 2] = (agg demo_counter v, Inr True)"
proof -
  have h: "overwrite_free [VInt 1, VInt 2]" "[VInt 1, VInt 2] \<noteq> []"
    "lv_value ((NewLastValue None)\<lparr>lv_value := VInt 41\<rparr>) = bo_value demo_counter"
    by (simp_all add: demo_counter_def chan_simps overwrite_free_def)
  have op: "bo_operator demo_counter = IntAdd (+)" by (simp add: demo_counter_def chan_simps)
  show ?thesis using reducer_refines_aggregate [OF h] unfolding op by simp
qed

subsection \<open>Topics\<close>

text \<open>
  A topic that accumulates holds everything it ever received, flattened, in order; one that does
  not holds exactly the last batch, flattened.
\<close>

theorem topic_contents:
  "snd (Get (fst (Update_all (CTopic t) bs))) =
     (let vs = (if tp_accumulate t then tp_values t @ flatten (concat bs)
                else if bs = [] then tp_values t else flatten (last bs))
      in if vs = [] then Inl EmptyChannelError else Inr (VList vs))"
proof -
  have fl: "flatten (xs @ ys) = flatten xs @ flatten ys" for xs ys
    by (induction xs rule: flatten.induct) auto
  have "fst (Update_all (CTopic t) bs) =
      CTopic (t\<lparr>tp_values := (if tp_accumulate t then tp_values t @ flatten (concat bs)
                else if bs = [] then tp_values t else flatten (last bs))\<rparr>)"
    by (induction bs arbitrary: t)
      (auto simp: Topic_Update_def Let_def case_prod_beta fl split: if_splits)
  then show ?thesis by (auto simp: Topic_Get_def Let_def)
qed

subsection \<open>Barriers\<close>

lemma barrier_batch:
  assumes "seen_inv names seen" and "set ws \<subseteq> fset (fmdom names)"
  shows "seen_inv names (fst (barrier_loop names seen u (map VStr ws)))"
    and "fmdom (fst (barrier_loop names seen u (map VStr ws))) = fmdom seen |\<union>| fset_of_list ws"
  using assms by (auto intro!: barrier_loop_inv barrier_loop_dom dest: subsetD)

lemma barrier_batches:
  assumes "seen_inv (nb_names c) (nb_seen c)" and "set (concat wss) \<subseteq> fset (fmdom (nb_names c))"
  shows "\<exists>s. fst (Update_all (CNamedBarrierValue c) (map (map VStr) wss)) =
                CNamedBarrierValue (c\<lparr>nb_seen := s\<rparr>) \<and>
             seen_inv (nb_names c) s \<and> fmdom s = fmdom (nb_seen c) |\<union>| fset_of_list (concat wss)"
  using assms
proof (induction wss arbitrary: c)
  case Nil
  then show ?case by (intro exI [of _ "nb_seen c"]) simp
next
  case (Cons ws wss)
  let ?s = "fst (barrier_loop (nb_names c) (nb_seen c) False (map VStr ws))"
  have ws: "set ws \<subseteq> fset (fmdom (nb_names c))" using Cons.prems by auto
  note b = barrier_batch [OF Cons.prems(1) ws]
  have u: "fst (Update (CNamedBarrierValue c) (map VStr ws)) = CNamedBarrierValue (c\<lparr>nb_seen := ?s\<rparr>)"
    by (cases ws) (auto simp: NamedBarrierValue_Update_def no_update_def case_prod_beta
        simp del: barrier_loop.simps(2))
  from Cons.IH [of "c\<lparr>nb_seen := ?s\<rparr>"] Cons.prems b(1)
  obtain s where "fst (Update_all (CNamedBarrierValue (c\<lparr>nb_seen := ?s\<rparr>)) (map (map VStr) wss)) =
      CNamedBarrierValue (c\<lparr>nb_seen := s\<rparr>)" "seen_inv (nb_names c) s"
    "fmdom s = fmdom ?s |\<union>| fset_of_list (concat wss)" by auto
  then show ?case using b(2) u by (auto simp: case_prod_beta Let_def sup_assoc)
qed

lemma finish_barrier_batches:
  assumes "seen_inv (nf_names c) (nf_seen c)" and "set (concat wss) \<subseteq> fset (fmdom (nf_names c))"
  shows "\<exists>s. fst (Update_all (CNamedBarrierValueAfterFinish c) (map (map VStr) wss)) =
                CNamedBarrierValueAfterFinish (c\<lparr>nf_seen := s\<rparr>) \<and>
             seen_inv (nf_names c) s \<and> fmdom s = fmdom (nf_seen c) |\<union>| fset_of_list (concat wss)"
  using assms
proof (induction wss arbitrary: c)
  case Nil
  then show ?case by (intro exI [of _ "nf_seen c"]) simp
next
  case (Cons ws wss)
  let ?s = "fst (barrier_loop (nf_names c) (nf_seen c) False (map VStr ws))"
  have ws: "set ws \<subseteq> fset (fmdom (nf_names c))" using Cons.prems by auto
  note b = barrier_batch [OF Cons.prems(1) ws]
  have u: "fst (Update (CNamedBarrierValueAfterFinish c) (map VStr ws)) =
      CNamedBarrierValueAfterFinish (c\<lparr>nf_seen := ?s\<rparr>)"
    by (cases ws) (auto simp: NamedBarrierValueAfterFinish_Update_def no_update_def case_prod_beta
        simp del: barrier_loop.simps(2))
  from Cons.IH [of "c\<lparr>nf_seen := ?s\<rparr>"] Cons.prems b(1)
  obtain s where "fst (Update_all (CNamedBarrierValueAfterFinish (c\<lparr>nf_seen := ?s\<rparr>)) (map (map VStr) wss)) =
      CNamedBarrierValueAfterFinish (c\<lparr>nf_seen := s\<rparr>)" "seen_inv (nf_names c) s"
    "fmdom s = fmdom ?s |\<union>| fset_of_list (concat wss)" by auto
  then show ?case using b(2) u by (auto simp: case_prod_beta Let_def sup_assoc)
qed

lemma fset_of_list_eq_superset:
  "set xs \<subseteq> set ws \<Longrightarrow> fset_of_list xs = fset_of_list ws \<longleftrightarrow> set ws \<subseteq> set xs"
  by (simp add: fset_of_list.rep_eq flip: fset_inject) auto

text \<open>
  A named barrier is available exactly when every name it waits for has arrived, in whatever
  order and grouping into supersteps, and consuming an open barrier closes it again.
\<close>

theorem barrier_opens:
  fixes waitFor :: "string list" and wss :: "string list list"
  assumes "set (concat wss) \<subseteq> set waitFor"
  shows "let ch = fst (Update_all (CNamedBarrierValue (NewNamedBarrierValue typ waitFor))
                     (map (map VStr) wss))
         in (IsAvailable ch \<longleftrightarrow> set waitFor \<subseteq> set (concat wss)) \<and>
            (waitFor \<noteq> [] \<longrightarrow> \<not> IsAvailable (fst (Consume ch)))"
proof -
  define ch where "ch = fst (Update_all (CNamedBarrierValue (NewNamedBarrierValue typ waitFor))
      (map (map VStr) wss))"
  let ?c = "NewNamedBarrierValue typ waitFor"
  have n: "fmdom (nb_names ?c) = fset_of_list waitFor" "nb_seen ?c = fmempty"
    by (simp_all add: NewNamedBarrierValue_def)
  obtain s where s: "ch = CNamedBarrierValue (?c\<lparr>nb_seen := s\<rparr>)" "seen_inv (nb_names ?c) s"
    "fmdom s = fset_of_list (concat wss)"
    using barrier_batches [of ?c wss] assms(1) n by (auto simp: ch_def fset_of_list.rep_eq)
  have av: "IsAvailable ch \<longleftrightarrow> set waitFor \<subseteq> set (concat wss)"
    using s(1) namesMatchSeen_iff [OF s(2)] s(3) n fset_of_list_eq_superset [OF assms(1)]
    by (simp add: NamedBarrierValue_IsAvailable_def)
  have e: "\<not> namesMatchSeen (nb_names ?c) fmempty" if "waitFor \<noteq> []"
    using namesMatchSeen_iff [of "nb_names ?c" fmempty] n that
    by (metis fmdom_empty fset_of_list_eq_superset fset_of_list_simps(1) list.set(1) seen_inv_empty
        set_empty subset_empty empty_subsetI)
  have "\<not> IsAvailable (fst (Consume ch))" if "waitFor \<noteq> []"
    using e [OF that] s(1)
    by (cases "s = fmempty") (auto simp: NamedBarrierValue_Consume_def NamedBarrierValue_IsAvailable_def)
  with av show ?thesis by (simp add: Let_def flip: ch_def)
qed

theorem barrier_opens_witness:
  "IsAvailable (fst (Update_all (CNamedBarrierValue (NewNamedBarrierValue None [''a'', ''b'']))
      (map (map VStr) [[''b''], [], [''a'', ''b'']])))"
  using barrier_opens [of "[[''b''], [], [''a'', ''b'']]" "[''a'', ''b'']" None] by (simp add: Let_def)

text \<open>
  The barrier that waits for the end of the run never becomes available through updates alone.
  Finishing opens it exactly when all names have arrived, and consuming it resets it.
\<close>

theorem barrier_after_finish:
  fixes waitFor :: "string list" and wss :: "string list list"
  assumes "set (concat wss) \<subseteq> set waitFor"
  shows "let ch = fst (Update_all
                 (CNamedBarrierValueAfterFinish (NewNamedBarrierValueAfterFinish typ waitFor))
                 (map (map VStr) wss))
         in \<not> IsAvailable ch \<and>
            (IsAvailable (fst (Finish ch)) \<longleftrightarrow> set waitFor \<subseteq> set (concat wss)) \<and>
            (waitFor \<noteq> [] \<longrightarrow> \<not> IsAvailable (fst (Consume (fst (Finish ch)))))"
proof -
  define ch where "ch = fst (Update_all
      (CNamedBarrierValueAfterFinish (NewNamedBarrierValueAfterFinish typ waitFor))
      (map (map VStr) wss))"
  let ?c = "NewNamedBarrierValueAfterFinish typ waitFor"
  have n: "fmdom (nf_names ?c) = fset_of_list waitFor" "nf_seen ?c = fmempty" "\<not> nf_finished ?c"
    by (simp_all add: NewNamedBarrierValueAfterFinish_def)
  obtain s where s: "ch = CNamedBarrierValueAfterFinish (?c\<lparr>nf_seen := s\<rparr>)" "seen_inv (nf_names ?c) s"
    "fmdom s = fset_of_list (concat wss)"
    using finish_barrier_batches [of ?c wss] assms(1) n by (auto simp: ch_def fset_of_list.rep_eq)
  have m: "namesMatchSeen (nf_names ?c) s \<longleftrightarrow> set waitFor \<subseteq> set (concat wss)"
    using namesMatchSeen_iff [OF s(2)] s(3) n fset_of_list_eq_superset [OF assms(1)] by simp
  have emp: "waitFor = []" if "namesMatchSeen (nf_names ?c) s" "s = fmempty"
    using m that(1) s(3) that(2) by (metis fmdom_empty fset_of_list.rep_eq fset_simps(1) set_empty subset_empty)
  have "\<not> IsAvailable (fst (Consume (fst (Finish ch))))" if w: "waitFor \<noteq> []"
    using s(1) n(3) emp w
    by (cases "namesMatchSeen (nf_names ?c) s")
      (auto simp: NamedBarrierValueAfterFinish_Finish_def NamedBarrierValueAfterFinish_Consume_def
        NamedBarrierValueAfterFinish_IsAvailable_def)
  then show ?thesis using s(1) m n(3)
    by (auto simp: Let_def NamedBarrierValueAfterFinish_Finish_def
        NamedBarrierValueAfterFinish_IsAvailable_def simp flip: ch_def)
qed

theorem barrier_after_finish_witness:
  "IsAvailable (fst (Finish (fst (Update_all
      (CNamedBarrierValueAfterFinish (NewNamedBarrierValueAfterFinish None [''a'', ''b'']))
      (map (map VStr) [[''b''], [''a'']])))))"
  using barrier_after_finish [of "[[''b''], [''a'']]" "[''a'', ''b'']" None] by (simp add: Let_def)

subsection \<open>The channels built by the factory\<close>

text \<open>
  A channel that \<open>CreateReducerChannel\<close> builds for a slice field is never the list of what was
  written. It starts out holding the zero value of \<open>reflect.rtype\<close>, because the type descriptor is
  passed where a sample value is expected, and that value becomes the first element.
\<close>

theorem factory_slice_garbage:
  assumes "isOverwrite b = None" and "\<forall>xs. b \<noteq> VList xs"
  shows "snd (Get (fst (Update (CreateReducerChannel fadd f (TSlice t) None) [b]))) =
           Inr (VList [VRTypeStruct, b])"
  using assms
  by (simp add: CreateReducerChannel_def chan_simps createZeroValue_def
      BinaryOperatorAggregate_Update_def ListAppend_def Let_def)

theorem factory_slice_garbage_witness:
  "snd (Get (fst (Update (CreateReducerChannel (+) ''items'' (TSlice TStr) None) [VStr ''x'']))) =
     Inr (VList [VRTypeStruct, VStr ''x''])"
  by (rule factory_slice_garbage) simp_all

text \<open>
  For a numeric field of any integer type other than \<open>int\<close> the factory's channel never
  accumulates: it stays at zero through every sequence of updates of the field's type.
\<close>

theorem factory_sized_int_stuck:
  "snd (Get (fst (Update_all (CreateReducerChannel fadd f (TNum k) None) (map (map (VNum k)) nss)))) =
     Inr (VNum k 0)"
proof -
  have st: "foldl (IntAdd fadd) (VNum k 0) (map (VNum k) ns) = VNum k 0" for ns
    by (induction ns) (auto simp: IntAdd_def)
  have u: "fst (Update (CBinaryOperatorAggregate c) (map (VNum k) ns)) = CBinaryOperatorAggregate c"
    if "bo_value c = VNum k 0" "bo_operator c = IntAdd fadd" for c ns
  proof (cases "ns = []")
    case False
    have "overwrite_free (map (VNum k) ns)" by (simp add: overwrite_free_def list_all_iff)
    then have "fst (Update (CBinaryOperatorAggregate c) (map (VNum k) ns)) = agg c (VNum k 0)"
      using False that by (subst Update_agg) (auto simp: st)
    then show ?thesis using that(1) by (metis BinaryOperatorAggregate.surjective BinaryOperatorAggregate.update_convs(1))
  qed (simp add: BinaryOperatorAggregate_Update_def no_update_def)
  have "fst (Update_all (CBinaryOperatorAggregate c) (map (map (VNum k)) nss)) = CBinaryOperatorAggregate c"
    if "bo_value c = VNum k 0" "bo_operator c = IntAdd fadd" for c
    using that by (induction nss) (auto simp: case_prod_beta u simp del: Update.simps)
  then show ?thesis
    by (simp add: CreateReducerChannel_def chan_simps createZeroValue_def Let_def)
qed

end
