(* ===== verification/Channel_Registry.thy ===== *)
theory Channel_Registry
  imports Channel_Props
begin

text \<open>
  The channel registry of \<open>base.go\<close>: the table of channels an execution works on. Go ranges over
  maps in an unspecified order, so the operations that range over their argument take an enumeration
  of it as a list and those that range over the registry take an enumeration of its names. The
  properties hold for every enumeration. An operation that fails midway returns the registry as it
  was left and \<open>Some\<close> error.
\<close>

record Registry =
  channels :: "(string, channel) fmap"

definition NewRegistry :: Registry where
  "NewRegistry = \<lparr>channels = fmempty\<rparr>"

definition Registry_Register :: "Registry \<Rightarrow> string \<Rightarrow> channel \<Rightarrow> Registry" where
  "Registry_Register r name ch = r\<lparr>channels := fmupd name ch (channels r)\<rparr>"

definition Registry_Get :: "Registry \<Rightarrow> string \<Rightarrow> channel option" where
  "Registry_Get r name = fmlookup (channels r) name"

definition Registry_Remove :: "Registry \<Rightarrow> string \<Rightarrow> Registry" where
  "Registry_Remove r name = r\<lparr>channels := fmdrop name (channels r)\<rparr>"

definition Registry_Len :: "Registry \<Rightarrow> nat" where
  "Registry_Len r = fmlen (channels r)"

definition Registry_Names :: "Registry \<Rightarrow> string list" where
  "Registry_Names r = fmkeys (channels r)"

text \<open>The checkpoint of all channels, without the missing ones.\<close>

definition CreateCheckpoint :: "Registry \<Rightarrow> (string, gval) fmap" where
  "CreateCheckpoint r =
     fm_map_filter (\<lambda>ch. let cp = Checkpoint ch in if \<not> IsMissing cp then Some cp else None) (channels r)"

fun RestoreFromCheckpoint :: "Registry \<Rightarrow> (string \<times> gval) list \<Rightarrow> Registry \<times> gerror option" where
  "RestoreFromCheckpoint r [] = (r, None)"
| "RestoreFromCheckpoint r ((name, cp) # cps) =
     (case Registry_Get r name of
        None \<Rightarrow> (r, Some (Errorf (''channel '' @ name @ '' not found in registry'')))
      | Some ch \<Rightarrow> RestoreFromCheckpoint (Registry_Register r name (FromCheckpoint ch cp)) cps)"

fun UpdateChannels :: "Registry \<Rightarrow> (string \<times> gval list) list \<Rightarrow> Registry \<times> gerror option" where
  "UpdateChannels r [] = (r, None)"
| "UpdateChannels r ((name, values) # ws) =
     (case Registry_Get r name of
        None \<Rightarrow> (r, Some (ChannelNotFoundError name))
      | Some ch \<Rightarrow>
          (case Update ch values of
             (ch', Inl e) \<Rightarrow>
               (Registry_Register r name ch', Some (Wrapf (''failed to update channel '' @ name) e))
           | (ch', Inr _) \<Rightarrow> UpdateChannels (Registry_Register r name ch') ws))"

fun GetValues_loop ::
  "Registry \<Rightarrow> (string, gval) fmap \<Rightarrow> string list \<Rightarrow> Registry \<times> (gerror + (string, gval) fmap)" where
  "GetValues_loop r values [] = (r, Inr values)"
| "GetValues_loop r values (name # names) =
     (case Registry_Get r name of
        None \<Rightarrow> GetValues_loop r values names
      | Some ch \<Rightarrow>
          (case Get ch of
             (ch', Inl e) \<Rightarrow>
               (if IsEmptyChannelError e then
                  GetValues_loop (Registry_Register r name ch') values names
                else (Registry_Register r name ch',
                      Inl (Wrapf (''failed to get value from channel '' @ name) e)))
           | (ch', Inr v) \<Rightarrow>
               GetValues_loop (Registry_Register r name ch') (fmupd name v values) names))"

definition GetValues :: "Registry \<Rightarrow> Registry \<times> (gerror + (string, gval) fmap)" where
  "GetValues r = GetValues_loop r fmempty (Registry_Names r)"

interpretation reg: keyed_table NewRegistry Registry_Register Registry_Remove Registry_Get
  by unfold_locales (auto simp: NewRegistry_def Registry_Register_def Registry_Remove_def Registry_Get_def)

lemma Registry_eqI: "(\<And>k. Registry_Get r k = Registry_Get r' k) \<Longrightarrow> r = (r' :: Registry)"
  by (cases r, cases r') (auto simp: Registry_Get_def intro: fmap_ext)

lemma Registry_Register_commute:
  "k \<noteq> k' \<Longrightarrow>
   Registry_Register (Registry_Register r k c) k' c' = Registry_Register (Registry_Register r k' c') k c"
  by (rule Registry_eqI) (auto simp: reg.get_put)

lemma set_Registry_Names [simp]: "set (Registry_Names r) = {k. Registry_Get r k \<noteq> None}"
  by (auto simp: Registry_Names_def Registry_Get_def fmlookup_dom_iff)

lemma distinct_Registry_Names [simp]: "distinct (Registry_Names r)"
  by (simp add: Registry_Names_def)

subsection \<open>Restoring\<close>

lemma Restore_get:
  assumes "distinct (map fst cps)" and "\<forall>(k, cp)\<in>set cps. Registry_Get r k \<noteq> None"
  shows "snd (RestoreFromCheckpoint r cps) = None \<and>
         Registry_Get (fst (RestoreFromCheckpoint r cps)) k =
           (case map_of cps k of None \<Rightarrow> Registry_Get r k
            | Some cp \<Rightarrow> map_option (\<lambda>ch. FromCheckpoint ch cp) (Registry_Get r k))"
  using assms
proof (induction cps arbitrary: r)
  case Nil
  then show ?case by simp
next
  case (Cons e cps)
  obtain n cp where e: "e = (n, cp)" by (cases e)
  from Cons.prems e obtain ch where ch: "Registry_Get r n = Some ch" by auto
  let ?r = "Registry_Register r n (FromCheckpoint ch cp)"
  have "\<forall>(k, cp)\<in>set cps. Registry_Get ?r k \<noteq> None"
    using Cons.prems(2) by (auto simp: reg.get_put)
  with Cons.IH [of ?r] Cons.prems(1) ch show ?case
    by (auto simp: e reg.get_put split: option.splits dest: map_of_SomeD) (force dest: map_of_SomeD)+
qed

text \<open>
  C27: a registry can be rebuilt from its checkpoint. Restoring the checkpoint of a registry, in any
  order of the entries, onto a registry of new channels (each name with a channel as its constructor
  builds it, of the same kind, key and parameters) succeeds and gives every channel of the original up
  to its version: those that had a value from their checkpoint, the others because a new channel is
  like them. This is the checkpoint as created, without a JSON copy, and all channels must be
  \<open>persistent\<close>: an untracked channel only when it is empty and has no key, a \<open>LastValueAfterFinish\<close> only
  before it is finished, an aggregate without a value only when its type has no zero value.
\<close>

theorem registry_checkpoint_roundtrip:
  assumes "\<forall>k ch. Registry_Get r k = Some ch \<longrightarrow> persistent ch"
    and "\<forall>k. Registry_Get new k = map_option fresh (Registry_Get r k)"
    and "distinct (map fst cps)" and "map_of cps = fmlookup (CreateCheckpoint r)"
  shows "snd (RestoreFromCheckpoint new cps) = None \<and>
    (\<forall>k. Registry_Get (fst (RestoreFromCheckpoint new cps)) k = map_option forget_version (Registry_Get r k))"
proof -
  have cp: "map_of cps k = Option.bind (Registry_Get r k)
      (\<lambda>ch. if Checkpoint ch \<noteq> VMissing then Some (Checkpoint ch) else None)" for k
    using assms(4) by (simp add: CreateCheckpoint_def Registry_Get_def Let_def)
  have "Registry_Get new k \<noteq> None" if "(k, cp') \<in> set cps" for k cp'
    using weak_map_of_SomeI [OF that] cp [of k] assms(2) by (auto simp: bind_eq_Some_conv)
  then have dom: "\<forall>(k, cp)\<in>set cps. Registry_Get new k \<noteq> None" by auto
  have "Registry_Get (fst (RestoreFromCheckpoint new cps)) k = map_option forget_version (Registry_Get r k)" for k
  proof (cases "Registry_Get r k")
    case (Some ch)
    then have p: "persistent ch" using assms(1) by blast
    show ?thesis
      using Restore_get [OF assms(3) dom, of k] cp [of k] Some assms(2)
      by (cases "Checkpoint ch = VMissing")
        (simp_all add: FromCheckpoint_fresh FromCheckpoint_Checkpoint [OF p] Checkpoint_missing [OF p])
  qed (use Restore_get [OF assms(3) dom, of k] cp [of k] assms(2) in simp)
  then show ?thesis using Restore_get [OF assms(3) dom] by blast
qed

definition demo_registry :: Registry where
  "demo_registry = Registry_Register NewRegistry ''log'' demo_topic"

theorem registry_checkpoint_roundtrip_witness:
  "let new = Registry_Register NewRegistry ''log'' (CTopic ((NewTopic None True)\<lparr>Key := ''log''\<rparr>))
   in Registry_Get (fst (RestoreFromCheckpoint new [(''log'', VList [VInt 7])])) ''log'' =
        Some (forget_version demo_topic) \<and>
      Registry_Get new ''log'' \<noteq> Some (forget_version demo_topic)"
proof -
  let ?t = "CTopic ((NewTopic None True)\<lparr>Key := ''log''\<rparr>)"
  let ?new = "Registry_Register NewRegistry ''log'' ?t"
  have g: "Registry_Get demo_registry k = (if k = ''log'' then Some demo_topic else None)" for k
    by (auto simp: demo_registry_def reg.get_put reg.get_emp)
  have n: "Registry_Get ?new k = (if k = ''log'' then Some ?t else None)" for k
    by (auto simp: reg.get_put reg.get_emp)
  have h1: "\<forall>k ch. Registry_Get demo_registry k = Some ch \<longrightarrow> persistent ch"
    by (simp add: g demo_topic_def)
  have h2: "\<forall>k. Registry_Get ?new k = map_option fresh (Registry_Get demo_registry k)"
    by (simp add: g n demo_topic_def)
  have h3: "map_of [(''log'', VList [VInt 7])] = fmlookup (CreateCheckpoint demo_registry)"
    using g by (auto simp: fun_eq_iff CreateCheckpoint_def Registry_Get_def demo_topic_def chan_simps)
  have "Registry_Get (fst (RestoreFromCheckpoint ?new [(''log'', VList [VInt 7])])) ''log'' = Some (forget_version demo_topic)"
    using registry_checkpoint_roundtrip [OF h1 h2 _ h3] g [of "''log''"] by (simp del: RestoreFromCheckpoint.simps)
  moreover have "Registry_Get ?new ''log'' \<noteq> Some (forget_version demo_topic)"
    unfolding n by (simp add: demo_topic_def chan_simps)
  ultimately show ?thesis by (simp only: Let_def simp_thms)
qed

subsection \<open>Updating\<close>

text \<open>One entry of the update loop, and the loop as repeated application of it.\<close>

definition upd1 :: "channel \<Rightarrow> gval list \<Rightarrow> channel option" where
  "upd1 ch values = (case Update ch values of (ch', Inl e) \<Rightarrow> None | (ch', Inr _) \<Rightarrow> Some ch')"

lemma UpdateChannels_get:
  assumes "distinct (map fst ws)" and "snd (UpdateChannels r ws) = None"
  shows "Registry_Get (fst (UpdateChannels r ws)) k =
     (case map_of ws k of None \<Rightarrow> Registry_Get r k
      | Some vs \<Rightarrow> Option.bind (Registry_Get r k) (\<lambda>ch. upd1 ch vs))"
  using assms
proof (induction ws arbitrary: r)
  case Nil
  then show ?case by simp
next
  case (Cons w ws)
  obtain n vs where w: "w = (n, vs)" by (cases w)
  from Cons.prems(2) w obtain ch ch' b where ch: "Registry_Get r n = Some ch" "Update ch vs = (ch', Inr b)"
    by (auto split: option.splits prod.splits sum.splits)
  have "map_of ws n = None" using Cons.prems(1) w by (simp add: map_of_eq_None_iff)
  with Cons.IH [of "Registry_Register r n ch'"] Cons.prems ch w show ?case
    by (auto simp: reg.get_put upd1_def split: option.splits)
qed

lemma UpdateChannels_ok_iff:
  assumes "distinct (map fst ws)"
  shows "snd (UpdateChannels r ws) = None \<longleftrightarrow>
     (\<forall>(n, vs)\<in>set ws. Option.bind (Registry_Get r n) (\<lambda>ch. upd1 ch vs) \<noteq> None)"
  using assms
proof (induction ws arbitrary: r)
  case Nil
  then show ?case by simp
next
  case (Cons w ws)
  obtain n vs where w: "w = (n, vs)" by (cases w)
  show ?case
  proof (cases "Option.bind (Registry_Get r n) (\<lambda>ch. upd1 ch vs)")
    case None
    then show ?thesis
      by (auto simp: w upd1_def split: option.splits prod.splits sum.splits)
  next
    case (Some ch')
    then obtain ch where "Registry_Get r n = Some ch" "upd1 ch vs = Some ch'"
      by (auto simp: bind_eq_Some_conv)
    then obtain b where ch: "Registry_Get r n = Some ch" "Update ch vs = (ch', Inr b)"
      by (cases "Update ch vs") (auto simp: upd1_def split: sum.splits)
    have "(\<forall>(m, us)\<in>set ws. Option.bind (Registry_Get (Registry_Register r n ch') m) (\<lambda>ch. upd1 ch us) \<noteq> None)
        = (\<forall>(m, us)\<in>set ws. Option.bind (Registry_Get r m) (\<lambda>ch. upd1 ch us) \<noteq> None)"
    proof (intro ball_cong refl)
      fix e assume "e \<in> set ws"
      then have "fst e \<noteq> n" using Cons.prems w by auto
      then show "(case e of (m, us) \<Rightarrow>
            Option.bind (Registry_Get (Registry_Register r n ch') m) (\<lambda>ch. upd1 ch us) \<noteq> None) =
          (case e of (m, us) \<Rightarrow> Option.bind (Registry_Get r m) (\<lambda>ch. upd1 ch us) \<noteq> None)"
        by (simp add: case_prod_beta reg.get_put)
    qed
    then show ?thesis
      using Cons.IH [of "Registry_Register r n ch'"] Cons.prems ch Some by (simp add: w)
  qed
qed

text \<open>
  Applying one superstep's writes to the registry does not depend on the order in which Go ranges
  over the map of writes: every order succeeds if one does, with the same resulting registry.
\<close>

theorem UpdateChannels_order:
  assumes "distinct (map fst ws)" and "set ws' = set ws" and "distinct (map fst ws')"
    and "snd (UpdateChannels r ws) = None"
  shows "UpdateChannels r ws' = UpdateChannels r ws"
proof -
  have ok: "snd (UpdateChannels r ws') = None"
    using assms UpdateChannels_ok_iff [of ws r] UpdateChannels_ok_iff [of ws' r] by simp
  have "map_of ws' = map_of ws" using assms(1-3) by (intro map_of_same_set) simp_all
  then have "fst (UpdateChannels r ws') = fst (UpdateChannels r ws)"
    using UpdateChannels_get [OF assms(3) ok] UpdateChannels_get [OF assms(1,4)]
    by (intro Registry_eqI) simp
  then show ?thesis using ok assms(4) by (simp add: prod_eq_iff)
qed

theorem UpdateChannels_order_witness:
  "UpdateChannels (Registry_Register demo_registry ''n'' (CBinaryOperatorAggregate demo_counter))
      [(''n'', [VInt 1]), (''log'', [VInt 8])] =
   UpdateChannels (Registry_Register demo_registry ''n'' (CBinaryOperatorAggregate demo_counter))
      [(''log'', [VInt 8]), (''n'', [VInt 1])]"
  by (rule UpdateChannels_order)
    (auto simp: demo_registry_def demo_topic_def demo_counter_def reg.get_put reg.get_emp chan_simps
      BinaryOperatorAggregate_Update_def Let_def)

subsection \<open>Reading\<close>

definition read_value :: "Registry \<Rightarrow> (string, gval) fmap \<Rightarrow> string \<Rightarrow> gval option" where
  "read_value r acc k =
     (case Registry_Get r k of
        None \<Rightarrow> fmlookup acc k
      | Some ch \<Rightarrow> (case snd (Get ch) of Inl _ \<Rightarrow> fmlookup acc k | Inr v \<Rightarrow> Some v))"

lemma read_value_Register_other:
  "k \<noteq> n \<Longrightarrow> read_value (Registry_Register r n ch) acc k = read_value r acc k"
  "k \<noteq> n \<Longrightarrow> read_value r (fmupd n v acc) k = read_value r acc k"
  by (simp_all add: read_value_def reg.get_put cong: option.case_cong sum.case_cong)

lemma GetValues_step:
  assumes "Registry_Get r n = Some ch"
  shows "GetValues_loop r acc (n # names) =
     GetValues_loop (Registry_Register r n (fst (Get ch)))
       (case snd (Get ch) of Inl _ \<Rightarrow> acc | Inr v \<Rightarrow> fmupd n v acc) names"
  using assms Get_result [of ch]
  by (cases "Get ch") (auto split: sum.splits if_splits)

lemma GetValues_loop_values:
  "distinct names \<Longrightarrow>
   \<exists>vals. snd (GetValues_loop r acc names) = Inr vals \<and>
     (\<forall>k. fmlookup vals k = (if k \<in> set names then read_value r acc k else fmlookup acc k))"
proof (induction names arbitrary: r acc)
  case Nil
  then show ?case by simp
next
  case (Cons n names)
  then have n: "n \<notin> set names" and d: "distinct names" by auto
  show ?case
  proof (cases "Registry_Get r n")
    case None
    obtain vals where v: "snd (GetValues_loop r acc names) = Inr vals"
      "\<forall>k. fmlookup vals k = (if k \<in> set names then read_value r acc k else fmlookup acc k)"
      using Cons.IH [OF d] by blast
    with None n show ?thesis by (intro exI [of _ vals]) (auto simp: read_value_def)
  next
    case (Some ch)
    let ?r = "Registry_Register r n (fst (Get ch))"
    let ?acc = "case snd (Get ch) of Inl _ \<Rightarrow> acc | Inr v \<Rightarrow> fmupd n v acc"
    obtain vals where v: "snd (GetValues_loop ?r ?acc names) = Inr vals"
      "\<And>k. fmlookup vals k = (if k \<in> set names then read_value ?r ?acc k else fmlookup ?acc k)"
      using Cons.IH [OF d] by blast
    have "fmlookup vals k = (if k \<in> set (n # names) then read_value r acc k else fmlookup acc k)" for k
      using v(2) [of k] n Some
      by (cases "k = n"; cases "snd (Get ch)")
        (simp_all add: read_value_def [of r acc n] read_value_Register_other)
    with v(1) GetValues_step [OF Some] show ?thesis by (intro exI [of _ vals]) simp
  qed
qed

text \<open>
  Reading all values of a registry never fails, whatever it holds: the result has exactly the
  readable channels, each with the value its own read gives.
\<close>

theorem GetValues_total:
  "\<exists>vals. snd (GetValues r) = Inr vals \<and>
     (\<forall>k. fmlookup vals k =
        (case Registry_Get r k of
           None \<Rightarrow> None
         | Some ch \<Rightarrow> (case snd (Get ch) of Inl _ \<Rightarrow> None | Inr v \<Rightarrow> Some v)))"
proof -
  obtain vals where v: "snd (GetValues r) = Inr vals"
    "\<And>k. fmlookup vals k = (if k \<in> set (Registry_Names r) then read_value r fmempty k else None)"
    using GetValues_loop_values [OF distinct_Registry_Names [of r], of r fmempty] by (auto simp: GetValues_def)
  have "fmlookup vals k = read_value r fmempty k" for k
    using v(2) [of k] by (auto simp: read_value_def)
  with v(1) show ?thesis
    by (intro exI [of _ vals]) (simp add: read_value_def split: option.split sum.split)
qed

end
