(* ===== verification/State_Maps.thy ===== *)
theory State_Maps
  imports Memory_Saver Channel_Registry
begin

text \<open>
  Helpers of \<open>pregel/engine.go\<close> that work on state values: conversion of node outputs to maps of
  writes, nested fields and field mappings, merging of states, task paths and the encoding of the
  set of completed tasks. Maps are values here; where a mapping stores a nested map of the output
  and a later mapping writes below it, Go also changes the output through the shared map, which the
  model does not show.
\<close>

subsection \<open>Outputs as maps of writes\<close>

definition exported_fields :: "(string \<times> bool \<times> gotype \<times> gval) list \<Rightarrow> (string \<times> gval) list" where
  "exported_fields fs = [(f, v). (f, e, t, v) \<leftarrow> fs, e]"

fun toMap :: "gval \<Rightarrow> gerror + gmap" where
  "toMap VNil = Inl (Errorf ''nil value'')"
| "toMap (VMapT t m) = Inr m"
| "toMap (VStruct n fs) = Inr (fmap_of_list (rev (exported_fields fs)))"
| "toMap (VOverwrite v) = Inr (fmap_of_list [(''Value'', v)])"
| "toMap (VOverwriter v) = Inr (fmap_of_list [(''Value'', v)])"
| "toMap VMissing = Inr fmempty"
| "toMap (VRType t) = Inr fmempty"
| "toMap VRTypeStruct = Inr fmempty"
| "toMap v = Inr (fmap_of_list [(''__root__'', v)])"

text \<open>The type assertion \<open>v.(map[string]any)\<close>.\<close>

fun as_map :: "gval \<Rightarrow> gmap option" where
  "as_map (VMapT TIface m) = Some m"
| "as_map _ = None"

definition mergeStates :: "gval \<Rightarrow> gval \<Rightarrow> gval" where
  "mergeStates existing nxt =
     (if existing = VNil then nxt
      else if nxt = VNil then existing
      else (case (as_map existing, as_map nxt) of
          (Some m, Some n) \<Rightarrow> VMap (m ++\<^sub>f n)
        | _ \<Rightarrow> nxt))"

subsection \<open>Nested fields\<close>

fun get_path :: "gval \<Rightarrow> string list \<Rightarrow> gval" where
  "get_path cur [] = cur"
| "get_path cur (p # ps) =
     (case as_map cur of
        None \<Rightarrow> VNil
      | Some m \<Rightarrow> (case fmlookup m p of None \<Rightarrow> VNil | Some v \<Rightarrow> if v = VNil then VNil else get_path v ps))"

definition getNestedField :: "gmap \<Rightarrow> string \<Rightarrow> gval" where
  "getNestedField m path = (if path = [] then VMap m else get_path (VMap m) (split_on (CHR ''.'') path))"

text \<open>
  Where a step of the path holds something that is not a map, the code has already overwritten its
  map variable with the failed assertion's nil map and panics on the assignment.
\<close>

fun set_path :: "gmap \<Rightarrow> string list \<Rightarrow> gval \<Rightarrow> gerror + gmap" where
  "set_path m [] v = Inr m"
| "set_path m [p] v = Inr (fmupd p v m)"
| "set_path m (p # q # ps) v =
     (case fmlookup m p of
        None \<Rightarrow> map_sum id (\<lambda>s. fmupd p (VMap s) m) (set_path fmempty (q # ps) v)
      | Some w \<Rightarrow>
          (case as_map w of
             Some sub \<Rightarrow> map_sum id (\<lambda>s. fmupd p (VMap s) m) (set_path sub (q # ps) v)
           | None \<Rightarrow> Inl (GoPanic ''assignment to entry in nil map'')))"

definition setNestedField :: "gmap \<Rightarrow> string \<Rightarrow> gval \<Rightarrow> gerror + gmap" where
  "setNestedField m path v =
     (if path = [] then
        (case as_map v of Some n \<Rightarrow> Inr (m ++\<^sub>f n) | None \<Rightarrow> Inl (GoPanic ''interface conversion''))
      else set_path m (split_on (CHR ''.'') path) v)"

record FieldMapping =
  fm_From :: string
  fm_To :: string

definition applyFieldMapping :: "gmap \<Rightarrow> FieldMapping list \<Rightarrow> gerror + gmap" where
  "applyFieldMapping output mappings =
     (if mappings = [] then Inr output
      else foldl_err (\<lambda>result mapping.
             let val = getNestedField output (fm_From mapping)
             in if val \<noteq> VNil then setNestedField result (fm_To mapping) val else Inr result)
           fmempty mappings)"

subsection \<open>Task paths\<close>

definition TaskPathStr :: "string list \<Rightarrow> string" where
  "TaskPathStr path = (if path = [] then [] else join_with (CHR ''/'') path)"

definition ParseTaskPath :: "string \<Rightarrow> string list" where
  "ParseTaskPath pathStr = (if pathStr = [] then [] else split_on (CHR ''/'') pathStr)"

fun str_of :: "gval \<Rightarrow> string" where
  "str_of (VStr s) = s"
| "str_of _ = []"

text \<open>The default branch formats the component with the verb v; \<open>other\<close> as in \<open>sprintv\<close>.\<close>

fun path_component :: "(gval \<Rightarrow> string) \<Rightarrow> gval \<Rightarrow> string list" where
  "path_component other (VStr s) = [s]"
| "path_component other (VInt n) = [show_int (sint n)]"
| "path_component other (VSlice TStr xs) = map str_of xs"
| "path_component other v = [sprintv other v]"

definition BuildTaskPath :: "(gval \<Rightarrow> string) \<Rightarrow> gval list \<Rightarrow> string list" where
  "BuildTaskPath other components = concat (map (path_component other) components)"

subsection \<open>The set of completed tasks\<close>

definition serializeStringSet :: "(string, bool) fmap \<Rightarrow> string" where
  "serializeStringSet st = (if fmlen st = 0 then [] else join_with (CHR 0x00) (fmkeys st))"

text \<open>\<open>None\<close> is the nil map.\<close>

definition deserializeStringSet :: "string \<Rightarrow> (string, bool) fmap option" where
  "deserializeStringSet encoded =
     (if encoded = [] then None
      else Some (foldl (\<lambda>out part. fmupd part True out) fmempty (split_on (CHR 0x00) encoded)))"

definition flag :: "(string, bool) fmap \<Rightarrow> string \<Rightarrow> bool" where
  "flag m k = (case fmlookup m k of Some b \<Rightarrow> b | None \<Rightarrow> False)"

subsection \<open>Properties\<close>

lemma fmlookup_fold_True:
  "fmlookup (foldl (\<lambda>out part. fmupd part True out) m ps) k = (if k \<in> set ps then Some True else fmlookup m k)"
  by (induction ps arbitrary: m) auto

lemma string_set_decode:
  assumes "\<forall>k. k |\<in>| fmdom st \<longrightarrow> CHR 0x00 \<notin> set k"
  shows "deserializeStringSet (serializeStringSet st) =
     (if fmkeys st = [] \<or> fmkeys st = [[]] then None else Some (fmmap (\<lambda>_. True) st))"
proof (cases "fmkeys st = [] \<or> fmkeys st = [[]]")
  case True
  then show ?thesis by (auto simp: serializeStringSet_def deserializeStringSet_def simp del: fmkeys_Nil)
next
  case False
  then have ne: "st \<noteq> fmempty" "join_with (CHR 0x00) (fmkeys st) \<noteq> []"
    by (auto simp: join_with_eq_Nil)
  have "split_on (CHR 0x00) (join_with (CHR 0x00) (fmkeys st)) = fmkeys st"
    by (rule split_on_join_with) (use False assms in \<open>auto simp del: fmkeys_Nil\<close>)
  then have "deserializeStringSet (serializeStringSet st) =
      Some (foldl (\<lambda>out part. fmupd part True out) fmempty (fmkeys st))"
    using ne by (simp add: serializeStringSet_def deserializeStringSet_def)
  moreover have "foldl (\<lambda>out part. fmupd part True out) fmempty (fmkeys st) = fmmap (\<lambda>_. True) st"
  proof (rule fmap_ext)
    fix k
    show "fmlookup (foldl (\<lambda>out part. fmupd part True out) fmempty (fmkeys st)) k =
        fmlookup (fmmap (\<lambda>_. True) st) k"
      by (cases "fmlookup st k") (simp_all add: fmlookup_fold_True fmdomI fmdom_notI)
  qed
  ultimately show ?thesis using False by simp
qed

text \<open>
  The set of completed tasks survives its encoding in a checkpoint: if no name contains the NUL
  separator, decoding gives back exactly the encoded names, except that the empty set and the set of
  only the empty name both decode to nil.
\<close>

theorem string_set_roundtrip:
  assumes "\<forall>k. k |\<in>| fmdom st \<longrightarrow> CHR 0x00 \<notin> set k"
  shows "deserializeStringSet (serializeStringSet st) =
     (if fmkeys st = [] \<or> fmkeys st = [[]] then None else Some (fmmap (\<lambda>_. True) st))"
  by (rule string_set_decode [OF assms])

theorem string_set_roundtrip_witness:
  "deserializeStringSet (serializeStringSet (fmap_of_list [(''b'', True), (''a'', True)])) =
     Some (fmap_of_list [(''a'', True), (''b'', True)])"
proof -
  have "fmkeys (fmap_of_list [(''b'', True), (''a'', True)]) \<noteq> [[]]"
  proof
    assume "fmkeys (fmap_of_list [(''b'', True), (''a'', True)]) = [[]]"
    then have "set (fmkeys (fmap_of_list [(''b'', True), (''a'', True)])) = {[]}" by simp
    then show False by simp
  qed
  then show ?thesis
    using string_set_roundtrip [of "fmap_of_list [(''b'', True), (''a'', True)]"]
    by (auto intro!: fmap_ext)
qed

text \<open>
  Parsing a printed task path gives the path back for every path without empty and slashed
  components, and printing a parsed string gives the string back for every string.
\<close>

theorem task_path_roundtrip:
  assumes "\<forall>p\<in>set path. p \<noteq> [] \<and> CHR ''/'' \<notin> set p"
  shows "ParseTaskPath (TaskPathStr path) = path \<and> TaskPathStr (ParseTaskPath s) = s"
proof -
  have "ParseTaskPath (TaskPathStr path) = path"
    using assms by (auto simp: ParseTaskPath_def TaskPathStr_def join_with_eq_Nil split_on_join_with)
  then show ?thesis by (simp add: TaskPathStr_def ParseTaskPath_def join_with_split_on)
qed

theorem task_path_roundtrip_witness:
  "ParseTaskPath (TaskPathStr [''loop'', ''3'']) = [''loop'', ''3'']"
  using task_path_roundtrip [of "[''loop'', ''3'']" "[]"] by simp

subsection \<open>Nested fields behave like a tree of fields\<close>

text \<open>What a non-empty path leads to, with a missing entry told apart from a nil one.\<close>

fun look :: "gmap \<Rightarrow> string list \<Rightarrow> gval option" where
  "look m [] = Some (VMap m)"
| "look m (p # ps) =
     (case fmlookup m p of
        None \<Rightarrow> None
      | Some w \<Rightarrow> if ps = [] then Some w else (case as_map w of Some s \<Rightarrow> look s ps | None \<Rightarrow> None))"

lemma as_map_VNil [simp]: "as_map VNil = None"
  by simp

lemma as_map_Some: "as_map v = Some m \<longleftrightarrow> v = VMap m"
  by (cases v rule: as_map.cases) auto

lemma get_path_nomap: "as_map w = None \<Longrightarrow> ps \<noteq> [] \<Longrightarrow> get_path w ps = VNil"
  by (cases ps) auto

lemma get_path_look: "get_path (VMap m) ps = (case look m ps of None \<Rightarrow> VNil | Some w \<Rightarrow> w)"
proof (induction ps arbitrary: m)
  case Nil
  show ?case by simp
next
  case (Cons p ps)
  then show ?case
    by (cases ps) (auto simp: as_map_Some get_path_nomap split: option.split)
qed

text \<open>One step of a path: the entry below becomes a map, a new one if there was none.\<close>

lemma set_path_InrE:
  assumes "set_path m (p # q # ps) v = Inr m'"
  obtains sub s where "m' = fmupd p (VMap s) m" and "set_path sub (q # ps) v = Inr s"
    and "fmlookup m p = None \<and> sub = fmempty \<or> fmlookup m p = Some (VMap sub)"
  using assms by (auto simp: map_sum_def as_map_Some split: option.splits sum.splits)

lemma look_set_path_below:
  "set_path m ps v = Inr m' \<Longrightarrow> x \<noteq> [] \<Longrightarrow> strict_prefix x ps \<Longrightarrow> \<exists>s. look m' x = Some (VMap s)"
proof (induction ps arbitrary: m m' x)
  case (Cons p ps)
  from Cons.prems(2,3) obtain y where x: "x = p # y" "strict_prefix y ps" by (cases x) auto
  then obtain q qs where ps: "ps = q # qs" by (cases ps) auto
  from Cons.prems(1) [unfolded ps] obtain sub s where m': "m' = fmupd p (VMap s) m"
    and s: "set_path sub ps v = Inr s" unfolding ps by (rule set_path_InrE)
  from Cons.IH [OF s _ x(2)] show ?case by (cases "y = []") (simp_all add: x m')
qed simp

lemma look_set_path_same: "set_path m ps v = Inr m' \<Longrightarrow> ps \<noteq> [] \<Longrightarrow> look m' ps = Some v"
proof (induction ps arbitrary: m m')
  case (Cons p ps)
  show ?case
  proof (cases ps)
    case Nil
    with Cons.prems show ?thesis by auto
  next
    case ps: (Cons q qs)
    from Cons.prems(1) [unfolded ps] obtain sub s where "m' = fmupd p (VMap s) m"
      and "set_path sub ps v = Inr s" unfolding ps by (rule set_path_InrE)
    with Cons.IH ps show ?thesis by simp
  qed
qed simp

lemma look_set_path_other:
  "set_path m ps v = Inr m' \<Longrightarrow> \<not> prefix x ps \<Longrightarrow> \<not> prefix ps x \<Longrightarrow> look m' x = look m x"
proof (induction ps arbitrary: m m' x)
  case (Cons p ps)
  from Cons.prems(2) obtain a y where x: "x = a # y" by (cases x) auto
  show ?case
  proof (cases ps)
    case Nil
    with Cons.prems x show ?thesis by auto
  next
    case ps: (Cons q qs)
    from Cons.prems(1) [unfolded ps] obtain sub s where m': "m' = fmupd p (VMap s) m"
      and s: "set_path sub ps v = Inr s"
      and old: "fmlookup m p = None \<and> sub = fmempty \<or> fmlookup m p = Some (VMap sub)"
      unfolding ps by (rule set_path_InrE)
    show ?thesis
    proof (cases "a = p")
      case True
      with Cons.prems x have y: "\<not> prefix y ps" "\<not> prefix ps y" by auto
      then obtain b z where "y = b # z" by (cases y) auto
      with Cons.IH [OF s y] old show ?thesis by (auto simp: x True m')
    qed (simp add: x m')
  qed
qed simp

lemma set_path_Inl:
  "set_path m ps v = Inl e \<Longrightarrow>
   \<exists>x w. x \<noteq> [] \<and> strict_prefix x ps \<and> look m x = Some w \<and> as_map w = None"
proof (induction m ps v rule: set_path.induct)
  case (3 m p q ps v)
  show ?case
  proof (cases "fmlookup m p")
    case None
    with 3(3) obtain e' where "set_path fmempty (q # ps) v = Inl e'"
      by (auto simp: map_sum_def split: sum.splits)
    with 3(1) [OF None] 3(3) None show ?thesis
      by (auto simp: map_sum_def neq_Nil_conv split: sum.splits)
  next
    case (Some w)
    show ?thesis
    proof (cases "as_map w")
      case None
      with Some show ?thesis by (intro exI [of _ "[p]"] exI [of _ w]) (simp add: strict_prefix_def)
    next
      case sub: (Some sub)
      with 3(3) Some have "set_path sub (q # ps) v = Inl e"
        by (auto simp: map_sum_def split: sum.splits)
      from 3(2) [OF Some sub this] obtain x w' where
        "x \<noteq> []" "strict_prefix x (q # ps)" "look sub x = Some w'" "as_map w' = None" by blast
      with Some sub show ?thesis by (intro exI [of _ "p # x"] exI [of _ w']) simp
    qed
  qed
qed auto

abbreviation parts_of :: "string \<Rightarrow> string list" where
  "parts_of path \<equiv> split_on (CHR ''.'') path"

text \<open>Two paths overlap when one leads through the other.\<close>

definition overlap :: "string \<Rightarrow> string \<Rightarrow> bool" where
  "overlap p q \<longleftrightarrow> prefix (parts_of p) (parts_of q) \<or> prefix (parts_of q) (parts_of p)"

lemma getNestedField_look:
  "path \<noteq> [] \<Longrightarrow> getNestedField m path = (case look m (parts_of path) of None \<Rightarrow> VNil | Some w \<Rightarrow> w)"
  by (simp add: getNestedField_def get_path_look)

lemma setNestedField_get:
  assumes "setNestedField m path v = Inr m'" "path \<noteq> []"
  shows "getNestedField m' path = v"
    and "q \<noteq> [] \<Longrightarrow> \<not> overlap path q \<Longrightarrow> getNestedField m' q = getNestedField m q"
  using assms look_set_path_same [of m "parts_of path" v m'] look_set_path_other [of m "parts_of path" v m' "parts_of q"]
  by (auto simp: setNestedField_def getNestedField_look overlap_def)

text \<open>
  A nested field that was set is read back, and setting it changes no field whose path does not
  lead through it or to it; setting fails only where the path leads through a value that is not a map.
\<close>

theorem nested_field_laws:
  assumes "path \<noteq> []"
  shows "(case setNestedField m path v of
       Inr m' \<Rightarrow> getNestedField m' path = v \<and>
         (\<forall>q. q = [] \<or> overlap path q \<or> getNestedField m' q = getNestedField m q)
     | Inl e \<Rightarrow> \<exists>x w. x \<noteq> [] \<and> strict_prefix x (parts_of path) \<and> look m x = Some w \<and> as_map w = None)"
proof (cases "setNestedField m path v")
  case (Inl e)
  with set_path_Inl [of m "parts_of path" v e] assms show ?thesis by (simp add: setNestedField_def)
next
  case (Inr m')
  with setNestedField_get [OF Inr assms] show ?thesis by auto
qed

theorem nested_field_laws_witness:
  "\<exists>m'. setNestedField fmempty ''a.b'' (VStr ''v'') = Inr m' \<and> getNestedField m' ''a.b'' = VStr ''v''"
proof -
  obtain m' where "setNestedField fmempty ''a.b'' (VStr ''v'') = Inr m'"
    by (simp add: setNestedField_def)
  with nested_field_laws [of "''a.b''" fmempty "VStr ''v''"] show ?thesis by simp
qed

subsection \<open>Field mappings\<close>

definition map_field :: "gmap \<Rightarrow> gmap \<Rightarrow> FieldMapping \<Rightarrow> gerror + gmap" where
  "map_field output result mapping =
     (let val = getNestedField output (fm_From mapping)
      in if val \<noteq> VNil then setNestedField result (fm_To mapping) val else Inr result)"

lemma applyFieldMapping_alt:
  "mappings \<noteq> [] \<Longrightarrow> applyFieldMapping output mappings = foldl_err (map_field output) fmempty mappings"
  by (simp add: applyFieldMapping_def map_field_def [abs_def])

text \<open>
  After some mappings: every target holds its value, and whatever is not a map lies at or below a
  target, so no path that avoids the targets is blocked.
\<close>

definition mapped :: "gmap \<Rightarrow> FieldMapping list \<Rightarrow> gmap \<Rightarrow> bool" where
  "mapped output ms r \<longleftrightarrow>
     (\<forall>mp\<in>set ms. getNestedField r (fm_To mp) = getNestedField output (fm_From mp)) \<and>
     (\<forall>x w. x \<noteq> [] \<longrightarrow> look r x = Some w \<longrightarrow> as_map w = None \<longrightarrow>
        (\<exists>mp\<in>set ms. prefix (parts_of (fm_To mp)) x)) \<and>
     (\<forall>q. q \<noteq> [] \<longrightarrow> (\<forall>mp\<in>set ms. \<not> overlap (fm_To mp) q) \<longrightarrow> getNestedField r q = VNil)"

lemma mapped_step:
  assumes "mapped output ms r" and "fm_To mp \<noteq> []"
    and "\<forall>mp'\<in>set ms. fm_To mp' \<noteq> [] \<and> \<not> overlap (fm_To mp') (fm_To mp)"
  shows "\<exists>r'. map_field output r mp = Inr r' \<and> mapped output (ms @ [mp]) r'"
proof (cases "getNestedField output (fm_From mp) = VNil")
  case True
  have "getNestedField r (fm_To mp) = VNil" using assms unfolding mapped_def by blast
  with True assms(1) show ?thesis by (auto simp: map_field_def mapped_def)
next
  case False
  let ?v = "getNestedField output (fm_From mp)"
  have "\<exists>r'. setNestedField r (fm_To mp) ?v = Inr r'"
  proof (cases "setNestedField r (fm_To mp) ?v")
    case (Inl e)
    then obtain x w where "x \<noteq> []" "strict_prefix x (parts_of (fm_To mp))" "look r x = Some w" "as_map w = None"
      using set_path_Inl assms(2) by (force simp: setNestedField_def)
    moreover from this assms(1) obtain mp' where "mp' \<in> set ms" "prefix (parts_of (fm_To mp')) x"
      unfolding mapped_def by blast
    ultimately have "overlap (fm_To mp') (fm_To mp)"
      by (auto simp: overlap_def strict_prefix_def intro: prefix_order.trans)
    with assms(3) \<open>mp' \<in> set ms\<close> show ?thesis by blast
  qed blast
  then obtain r' where r': "setNestedField r (fm_To mp) ?v = Inr r'" by blast
  note upd = setNestedField_get [OF r' assms(2)]
  have nomap: "\<exists>mp'\<in>set (ms @ [mp]). prefix (parts_of (fm_To mp')) x"
    if x: "x \<noteq> []" "look r' x = Some w" "as_map w = None" for x w
  proof (rule ccontr)
    assume n: "\<not> ?thesis"
    have sp: "set_path r (parts_of (fm_To mp)) ?v = Inr r'" using r' assms(2) by (simp add: setNestedField_def)
    have "\<not> prefix x (parts_of (fm_To mp))"
      using look_set_path_below [OF sp x(1)] x n by (fastforce simp: strict_prefix_def)
    then have "look r x = Some w" using look_set_path_other [OF sp, of x] x(2) n by auto
    with assms(1) x n show False unfolding mapped_def by fastforce
  qed
  have "mapped output (ms @ [mp]) r'"
    unfolding mapped_def using upd assms(1,3) nomap
    by (auto simp: mapped_def overlap_def)
  then show ?thesis using r' False by (auto simp: map_field_def)
qed

lemma mapped_all:
  assumes "\<forall>mp\<in>set ms. fm_To mp \<noteq> []" and "\<forall>i j. i < j \<longrightarrow> j < length ms \<longrightarrow> \<not> overlap (fm_To (ms ! i)) (fm_To (ms ! j))"
  shows "\<exists>r. foldl_err (map_field output) fmempty ms = Inr r \<and> mapped output ms r"
  using assms
proof (induction ms rule: rev_induct)
  case Nil
  have "look fmempty x = None" if "x \<noteq> []" for x using that by (cases x) auto
  then show ?case by (auto simp: mapped_def getNestedField_look)
next
  case (snoc mp ms)
  have "\<forall>i j. i < j \<longrightarrow> j < length ms \<longrightarrow> \<not> overlap (fm_To (ms ! i)) (fm_To (ms ! j))"
    using snoc.prems(2) by (auto simp: nth_append split: if_splits)
  with snoc obtain r where r: "foldl_err (map_field output) fmempty ms = Inr r" "mapped output ms r" by auto
  have "\<not> overlap (fm_To mp') (fm_To mp)" if mp': "mp' \<in> set ms" for mp'
  proof -
    obtain i where "i < length ms" "ms ! i = mp'" using mp' by (auto simp: in_set_conv_nth)
    then show ?thesis using snoc.prems(2) [rule_format, of i "length ms"] by (simp add: nth_append)
  qed
  with mapped_step [OF r(2), of mp] snoc.prems(1) r(1) show ?case
    by (auto simp: foldl_err_append)
qed

text \<open>
  Field mappings whose targets do not overlap never panic and route every source field, nested
  ones included, to its target; a field that no mapping targets is absent from the result.
\<close>

theorem field_mapping_correct:
  assumes "ms \<noteq> []" and "\<forall>mp\<in>set ms. fm_To mp \<noteq> []"
    and "\<forall>i j. i < j \<longrightarrow> j < length ms \<longrightarrow> \<not> overlap (fm_To (ms ! i)) (fm_To (ms ! j))"
  shows "\<exists>r. applyFieldMapping output ms = Inr r \<and>
     (\<forall>mp\<in>set ms. getNestedField r (fm_To mp) = getNestedField output (fm_From mp)) \<and>
     (\<forall>q. q \<noteq> [] \<longrightarrow> (\<forall>mp\<in>set ms. \<not> overlap (fm_To mp) q) \<longrightarrow> getNestedField r q = VNil)"
  using mapped_all [OF assms(2,3), of "output"] assms(1)
  by (auto simp: applyFieldMapping_alt mapped_def)

theorem field_mapping_correct_witness:
  "\<exists>r. applyFieldMapping (fmap_of_list [(''x'', VStr ''1''), (''y'', VStr ''2'')])
      [\<lparr>fm_From = ''x'', fm_To = ''o.a''\<rparr>, \<lparr>fm_From = ''y'', fm_To = ''o.b''\<rparr>] = Inr r \<and>
    getNestedField r ''o.a'' = VStr ''1'' \<and> getNestedField r ''o.b'' = VStr ''2''"
  using field_mapping_correct [of "[\<lparr>fm_From = ''x'', fm_To = ''o.a''\<rparr>, \<lparr>fm_From = ''y'', fm_To = ''o.b''\<rparr>]"
      "fmap_of_list [(''x'', VStr ''1''), (''y'', VStr ''2'')]"]
  by (auto simp: overlap_def less_Suc_eq getNestedField_def [of "fmupd _ _ _"])

text \<open>
  Two mappings whose targets overlap can crash the run: after a value that is not a map went to
  the field \<open>a\<close>, mapping anything to \<open>a.b\<close> panics on an assignment to a nil map, although the code
  right after the failed assertion means to replace the value by a new map.
\<close>

theorem field_mapping_panic:
  assumes "getNestedField output f1 \<noteq> VNil" and "as_map (getNestedField output f1) = None"
    and "getNestedField output f2 \<noteq> VNil"
  shows "applyFieldMapping output [\<lparr>fm_From = f1, fm_To = ''a''\<rparr>, \<lparr>fm_From = f2, fm_To = ''a.b''\<rparr>] =
     Inl (GoPanic ''assignment to entry in nil map'')"
  using assms by (simp add: applyFieldMapping_def Let_def setNestedField_def)

theorem field_mapping_panic_witness:
  "applyFieldMapping (fmap_of_list [(''x'', VStr ''1'')])
     [\<lparr>fm_From = ''x'', fm_To = ''a''\<rparr>, \<lparr>fm_From = ''x'', fm_To = ''a.b''\<rparr>] =
     Inl (GoPanic ''assignment to entry in nil map'')"
  by (rule field_mapping_panic) (simp_all add: getNestedField_def)

end
