(* ===== verification/Retry.thy ===== *)
theory Retry
  imports Go_Values
begin

text \<open>
  Retrying of node functions: the policy of \<open>types/types.go\<close> and the executor of
  \<open>pregel/retry.go\<close>. The function being retried is client code, so a run of it is given by what each
  attempt does: it returns a value together with an optional error, or it panics. The outcome of the
  \<open>select\<close> between cancellation and the backoff timer is an argument, indexed by the attempt. The
  floating-point operations of the backoff are parameters: \<open>rnd\<close> rounds an exact product to a
  float64, \<open>dur\<close> converts a float64 to a \<open>time.Duration\<close>.
\<close>

datatype call_result = CallReturn gval "gerror option" | CallPanic string

subsection \<open>Policies\<close>

record RetryPolicy =
  InitialInterval :: int
  BackoffFactor :: rat
  MaxInterval :: int
  MaxAttempts :: int
  Jitter :: bool
  RetryOn :: "(gerror \<Rightarrow> bool) option"

definition DefaultRetryOn :: "gerror \<Rightarrow> bool" where
  "DefaultRetryOn err = True"

text \<open>Durations count nanoseconds.\<close>

definition DefaultRetryPolicy :: RetryPolicy where
  "DefaultRetryPolicy =
     \<lparr>InitialInterval = 500 * 10 ^ 6, BackoffFactor = 2, MaxInterval = 128 * 10 ^ 9, MaxAttempts = 3,
      Jitter = True, RetryOn = Some DefaultRetryOn\<rparr>"

definition powFloat :: "(rat \<Rightarrow> rat) \<Rightarrow> rat \<Rightarrow> int \<Rightarrow> rat" where
  "powFloat rnd base n = ((\<lambda>r. rnd (r * base)) ^^ nat n) 1"

definition CalculateBackoff ::
  "(rat \<Rightarrow> rat) \<Rightarrow> (rat \<Rightarrow> int) \<Rightarrow> rat \<Rightarrow> RetryPolicy \<Rightarrow> int \<Rightarrow> int" where
  "CalculateBackoff rnd dur randFloat p attempt =
     (let backoff = min (dur (rnd (rnd (of_int (InitialInterval p)) * powFloat rnd (BackoffFactor p) (attempt - 1))))
                        (MaxInterval p)
      in if Jitter p
         then (let jitter = dur (rnd (rnd (rnd (of_int backoff) * (1 / 2)) * randFloat))
               in max (backoff - jitter) 0)
         else backoff)"

subsection \<open>The executor\<close>

definition NewRetryExecutor :: "RetryPolicy option \<Rightarrow> RetryPolicy" where
  "NewRetryExecutor policy = (case policy of None \<Rightarrow> DefaultRetryPolicy | Some p \<Rightarrow> p)"

definition IsRetryExhausted :: "gerror \<Rightarrow> bool" where
  "IsRetryExhausted err = (case err of RetryExhaustedError _ _ _ _ \<Rightarrow> True | _ \<Rightarrow> False)"

text \<open>
  The loop of \<open>Execute\<close> from one attempt on, with the last error and output so far. A panic of the
  function is recovered and becomes an error.
\<close>

function retry_loop ::
  "RetryPolicy \<Rightarrow> string \<Rightarrow> (int \<Rightarrow> call_result) \<Rightarrow> (int \<Rightarrow> gerror option) \<Rightarrow> int \<Rightarrow>
   gerror option \<Rightarrow> gval \<Rightarrow> gerror + gval" where
  "retry_loop p name fn wait attempt lastErr lastOutput =
     (if attempt > MaxAttempts p
      then Inl (RetryExhaustedError name (MaxAttempts p) lastErr lastOutput)
      else (case fn attempt of
          CallPanic r \<Rightarrow> Inl (Errorf (''node '' @ name @ '' panicked: '' @ r))
        | CallReturn out None \<Rightarrow> Inr out
        | CallReturn out (Some err) \<Rightarrow>
            (if IsGraphInterrupt err then Inl err
             else if (case RetryOn p of Some f \<Rightarrow> \<not> f err | None \<Rightarrow> False)
               then Inl (Wrapf (''node '' @ name @ '' failed with non-retryable error'') err)
             else if attempt \<ge> MaxAttempts p
               then Inl (RetryExhaustedError name (MaxAttempts p) (Some err) out)
             else (case wait attempt of
                 Some e \<Rightarrow> Inl (Wrapf (''node '' @ name @ '' cancelled during retry'') e)
               | None \<Rightarrow> retry_loop p name fn wait (attempt + 1) (Some err) out))))"
  by pat_completeness auto
termination
  by (relation "measure (\<lambda>(p, name, fn, wait, attempt, _, _). nat (MaxAttempts p + 1 - attempt))") auto

declare retry_loop.simps [simp del]

definition RetryExecutor_Execute ::
  "RetryPolicy option \<Rightarrow> string \<Rightarrow> (int \<Rightarrow> call_result) \<Rightarrow> (int \<Rightarrow> gerror option) \<Rightarrow> gerror + gval" where
  "RetryExecutor_Execute policy name fn wait =
     retry_loop (NewRetryExecutor policy) name fn wait 1 None VNil"

subsection \<open>Retry predicates\<close>

definition toLower :: "string \<Rightarrow> string" where
  "toLower s = map (\<lambda>c. if CHR ''A'' \<le> c \<and> c \<le> CHR ''Z'' then char_of (of_char c + (32 :: nat)) else c) s"

definition containsIgnoreCase :: "string \<Rightarrow> string \<Rightarrow> bool" where
  "containsIgnoreCase s substr =
     (let s = toLower s; substr = toLower substr
      in length s \<ge> length substr \<and> take (length substr) s = substr)"

definition contains :: "string \<Rightarrow> string \<Rightarrow> bool" where
  "contains s substr \<longleftrightarrow>
     length s \<ge> length substr \<and>
     (s = substr \<or>
      length s > length substr \<and> (take (length substr) s = substr \<or> containsIgnoreCase s substr))"

definition networkKeywords :: "string list" where
  "networkKeywords = [''connection refused'', ''connection reset'', ''timeout'', ''network'', ''dns'',
     ''temporary failure'', ''503'', ''502'', ''504'']"

definition tempKeywords :: "string list" where
  "tempKeywords = [''temporary'', ''transient'', ''rate limit'', ''too many requests'', ''429'']"

text \<open>The predicates read the error only through its message.\<close>

definition NetworkErrors :: "string option \<Rightarrow> bool" where
  "NetworkErrors errMsg = (case errMsg of None \<Rightarrow> False | Some m \<Rightarrow> list_ex (contains m) networkKeywords)"

definition TemporaryErrors :: "string option \<Rightarrow> bool" where
  "TemporaryErrors errMsg = (case errMsg of None \<Rightarrow> False | Some m \<Rightarrow> list_ex (contains m) tempKeywords)"

subsection \<open>Properties of the executor\<close>

text \<open>The attempts the executor retries after: an error that is no interrupt and that the policy accepts.\<close>

definition retried :: "RetryPolicy \<Rightarrow> call_result \<Rightarrow> bool" where
  "retried p r = (case r of CallReturn _ (Some err) \<Rightarrow> \<not> IsGraphInterrupt err \<and>
      (case RetryOn p of Some f \<Rightarrow> f err | None \<Rightarrow> True) | _ \<Rightarrow> False)"

lemma retry_loop_skip:
  assumes "retried p (fn a)" "a < MaxAttempts p" "wait a = None"
  shows "\<exists>err out. retry_loop p name fn wait a le lo = retry_loop p name fn wait (a + 1) (Some err) out"
  using assms
  by (subst retry_loop.simps) (auto simp: retried_def split: call_result.splits option.splits)

lemma retry_loop_reach:
  assumes "\<forall>i. a \<le> i \<longrightarrow> i < b \<longrightarrow> retried p (fn i) \<and> wait i = None" and "a \<le> b" "b \<le> MaxAttempts p"
  shows "\<exists>le' lo'. retry_loop p name fn wait a le lo = retry_loop p name fn wait b le' lo'"
  using assms
proof (induction "nat (b - a)" arbitrary: a le lo)
  case 0
  then show ?case by auto
next
  case (Suc n)
  from Suc.hyps(2) have ab: "a < b" by simp
  then have "retried p (fn a)" "wait a = None" "a < MaxAttempts p" using Suc.prems by auto
  then obtain err out where "retry_loop p name fn wait a le lo = retry_loop p name fn wait (a + 1) (Some err) out"
    using retry_loop_skip by blast
  with Suc.hyps(1) [of "a + 1"] Suc.hyps(2) Suc.prems ab show ?case by auto
qed

text \<open>
  If an attempt within the limit succeeds and every earlier one failed in a way the policy
  retries, with no cancellation in between, the executor returns that attempt's value.
\<close>

theorem retry_first_success:
  assumes "1 \<le> k" "k \<le> MaxAttempts p" "fn k = CallReturn out None"
    and "\<forall>i. 1 \<le> i \<longrightarrow> i < k \<longrightarrow> retried p (fn i) \<and> wait i = None"
  shows "RetryExecutor_Execute (Some p) name fn wait = Inr out"
proof -
  obtain le lo where "retry_loop p name fn wait 1 None VNil = retry_loop p name fn wait k le lo"
    using retry_loop_reach [OF assms(4,1,2)] by blast
  moreover have "retry_loop p name fn wait k le lo = Inr out"
    using assms(2,3) by (subst retry_loop.simps) simp
  ultimately show ?thesis by (simp add: RetryExecutor_Execute_def NewRetryExecutor_def)
qed

theorem retry_first_success_witness:
  "RetryExecutor_Execute (Some DefaultRetryPolicy) ''n''
     (\<lambda>i. if i = 2 then CallReturn (VStr ''ok'') None else CallReturn VNil (Some (ClientError ''x''))) (\<lambda>_. None) =
   Inr (VStr ''ok'')"
proof -
  have "i = 1" if "1 \<le> i" "i < 2" for i :: int using that by simp
  then show ?thesis
    by (intro retry_first_success [of 2])
      (auto simp: DefaultRetryPolicy_def retried_def DefaultRetryOn_def)
qed

lemma retry_fail_all:
  assumes "1 \<le> MaxAttempts p" "fn (MaxAttempts p) = CallReturn out (Some err)"
    and "\<forall>i. 1 \<le> i \<longrightarrow> i \<le> MaxAttempts p \<longrightarrow> retried p (fn i) \<and> wait i = None"
  shows "RetryExecutor_Execute (Some p) name fn wait =
     Inl (RetryExhaustedError name (MaxAttempts p) (Some err) out)"
proof -
  have "\<forall>i. 1 \<le> i \<longrightarrow> i < MaxAttempts p \<longrightarrow> retried p (fn i) \<and> wait i = None" using assms(3) by auto
  then obtain le lo where "retry_loop p name fn wait 1 None VNil = retry_loop p name fn wait (MaxAttempts p) le lo"
    using retry_loop_reach assms(1) by blast
  moreover have "retry_loop p name fn wait (MaxAttempts p) le lo =
      Inl (RetryExhaustedError name (MaxAttempts p) (Some err) out)"
    using assms(1,2) assms(3) [rule_format, of "MaxAttempts p"]
    by (subst retry_loop.simps) (auto simp: retried_def split: option.splits)
  ultimately show ?thesis by (simp add: RetryExecutor_Execute_def NewRetryExecutor_def)
qed

text \<open>
  C40: if every attempt up to the limit fails in a way the policy retries, the result is the exhaustion
  error, carrying the error and the output of attempt number \<open>MaxAttempts\<close>, and no later attempt is
  looked at.
\<close>

theorem retry_exhausted:
  assumes "1 \<le> MaxAttempts p" "fn (MaxAttempts p) = CallReturn out (Some err)"
    and "\<forall>i. 1 \<le> i \<longrightarrow> i \<le> MaxAttempts p \<longrightarrow> retried p (fn i) \<and> wait i = None"
  shows "RetryExecutor_Execute (Some p) name fn wait =
     Inl (RetryExhaustedError name (MaxAttempts p) (Some err) out)"
  by (rule retry_fail_all [OF assms])

theorem retry_exhausted_witness:
  "RetryExecutor_Execute (Some DefaultRetryPolicy) ''n''
     (\<lambda>i. CallReturn (VInt (of_int i)) (Some (ClientError ''x''))) (\<lambda>_. None) =
   Inl (RetryExhaustedError ''n'' 3 (Some (ClientError ''x'')) (VInt 3))"
  using retry_exhausted [of DefaultRetryPolicy "\<lambda>i. CallReturn (VInt (of_int i)) (Some (ClientError ''x''))"
      "VInt 3" "ClientError ''x''" "\<lambda>_. None" "''n''"]
  by (simp add: DefaultRetryPolicy_def retried_def DefaultRetryOn_def)

text \<open>
  An interrupt raised by an attempt is never retried and never wrapped: it is returned as it is,
  whatever the policy says.
\<close>

theorem retry_interrupt:
  assumes "1 \<le> k" "k \<le> MaxAttempts p" "fn k = CallReturn out (Some err)" "IsGraphInterrupt err"
    and "\<forall>i. 1 \<le> i \<longrightarrow> i < k \<longrightarrow> retried p (fn i) \<and> wait i = None"
  shows "RetryExecutor_Execute (Some p) name fn wait = Inl err"
proof -
  obtain le lo where "retry_loop p name fn wait 1 None VNil = retry_loop p name fn wait k le lo"
    using retry_loop_reach [OF assms(5,1,2)] by blast
  moreover have "retry_loop p name fn wait k le lo = Inl err"
    using assms(2-4) by (subst retry_loop.simps) simp
  ultimately show ?thesis by (simp add: RetryExecutor_Execute_def NewRetryExecutor_def)
qed

theorem retry_interrupt_witness:
  "RetryExecutor_Execute (Some DefaultRetryPolicy) ''n''
     (\<lambda>i. CallReturn VNil (Some (GraphInterrupt [VStr ''ask'']))) (\<lambda>_. None) = Inl (GraphInterrupt [VStr ''ask''])"
  by (rule retry_interrupt [of 1]) (auto simp: DefaultRetryPolicy_def)

subsection \<open>Properties of the predicates and of the backoff\<close>

text \<open>
  \<open>contains\<close> does not search for a substring: it holds only where the text starts with the keyword
  (case ignored), or equals it. So an error message that mentions a network keyword later on, as
  wrapped errors do, is not recognised.
\<close>

theorem contains_is_prefix_test:
  "contains s substr \<longleftrightarrow>
     s = substr \<or> (length substr < length s \<and> prefix (toLower substr) (toLower s))"
proof -
  have "length (toLower x) = length x" for x by (simp add: toLower_def)
  moreover have "toLower (take n x) = take n (toLower x)" for n x by (simp add: toLower_def take_map)
  ultimately show ?thesis
    by (auto simp: contains_def containsIgnoreCase_def Let_def prefix_def)
      (metis append_take_drop_id)+
qed

text \<open>
  As long as the exponential delay fits a duration, the backoff lies between zero and
  \<open>MaxInterval\<close>, with and without jitter.
\<close>

theorem backoff_bounds:
  assumes "\<And>x. 0 \<le> x \<Longrightarrow> 0 \<le> rnd x" and "\<And>x. 0 \<le> x \<Longrightarrow> x < 2 ^ 63 \<Longrightarrow> dur x = \<lfloor>x\<rfloor>"
    and "0 \<le> InitialInterval p" "0 \<le> BackoffFactor p" "0 \<le> MaxInterval p" "0 \<le> randFloat"
    and "rnd (rnd (of_int (InitialInterval p)) * powFloat rnd (BackoffFactor p) (attempt - 1)) < 2 ^ 63"
    and "\<And>b. 0 \<le> b \<Longrightarrow> b \<le> MaxInterval p \<Longrightarrow> rnd (rnd (rnd (of_int b) * (1 / 2)) * randFloat) < 2 ^ 63"
  shows "0 \<le> CalculateBackoff rnd dur randFloat p attempt \<and>
         CalculateBackoff rnd dur randFloat p attempt \<le> MaxInterval p"
proof -
  have pow: "0 \<le> powFloat rnd (BackoffFactor p) n" for n
  proof -
    have "0 \<le> ((\<lambda>r. rnd (r * BackoffFactor p)) ^^ k) 1" for k
      by (induction k) (auto simp: assms)
    then show ?thesis by (simp add: powFloat_def)
  qed
  define x where "x = rnd (rnd (of_int (InitialInterval p)) * powFloat rnd (BackoffFactor p) (attempt - 1))"
  define b where "b = min (dur x) (MaxInterval p)"
  have "0 \<le> x" unfolding x_def by (simp add: assms pow)
  then have "0 \<le> b" "b \<le> MaxInterval p" using assms(2,5,7) by (auto simp: b_def x_def [symmetric])
  moreover from this have "0 \<le> dur (rnd (rnd (rnd (of_int b) * (1 / 2)) * randFloat))"
    using assms(2) [of "rnd (rnd (rnd (of_int b) * (1 / 2)) * randFloat)"] assms(1,6,8) by simp
  ultimately show ?thesis
    by (auto simp: CalculateBackoff_def x_def [symmetric] b_def [symmetric] Let_def)
qed

theorem backoff_bounds_witness:
  "0 \<le> CalculateBackoff (\<lambda>x. x) (\<lambda>x. \<lfloor>x\<rfloor>) (1 / 2) DefaultRetryPolicy 2 \<and>
   CalculateBackoff (\<lambda>x. x) (\<lambda>x. \<lfloor>x\<rfloor>) (1 / 2) DefaultRetryPolicy 2 \<le> MaxInterval DefaultRetryPolicy"
proof (rule backoff_bounds)
  fix b :: int assume "0 \<le> b" "b \<le> MaxInterval DefaultRetryPolicy"
  then have "b \<le> 128000000000" by (simp add: DefaultRetryPolicy_def)
  then have "of_int b \<le> (of_int 128000000000 :: rat)" by (simp only: of_int_le_iff)
  then show "of_int b * (1 / 2) * (1 / 2) < (2 ^ 63 :: rat)" by simp
qed (auto simp: DefaultRetryPolicy_def powFloat_def)

end
