(* ===== verification/Graph_Build.thy ===== *)
theory Graph_Build
  imports State_Maps Retry
begin

text \<open>
  Building and compiling a state graph: \<open>graph/graph.go\<close> and \<open>graph/state.go\<close>. Functions
  supplied by the graph's author are parameters: a node function is given by what it does in each
  step and attempt on each state, an edge condition by the value and error it returns on a state.
  Loops over Go maps take the keys in ascending order, one of the orders Go may take; the results that
  depend on it are only the names reported in errors.
\<close>

type_synonym nodefn = "nat \<Rightarrow> int \<Rightarrow> gval \<Rightarrow> call_result"
type_synonym edgefn = "gval \<Rightarrow> gval \<times> gerror option"

definition Start :: string where "Start = ''__start__''"
definition End :: string where "End = ''__end__''"

datatype NodeTriggerMode = NodeTriggerAnyPredecessor | NodeTriggerAllPredecessor | NodeTriggerOther string

record Node =
  n_Name :: string
  n_Function :: "nodefn option"
  n_Triggers :: "string list"
  n_Writes :: "string list"
  n_RetryPolicy :: "RetryPolicy option"
  n_Tags :: "string list"
  n_Metadata :: gmap
  n_FieldMapping :: "FieldMapping list"

record Edge =
  e_From :: string
  e_To :: string

record DataEdge =
  de_From :: string
  de_To :: string
  de_Mapping :: "FieldMapping list"

record ConditionalEdge =
  ce_From :: string
  ce_Condition :: edgefn
  ce_Mapping :: "(string, string) fmap"

record Branch =
  b_From :: string
  b_Condition :: edgefn
  b_Then :: "gval \<Rightarrow> string list"

record NodeOptions =
  o_RetryPolicy :: "RetryPolicy option"
  o_Tags :: "string list"
  o_Metadata :: gmap
  o_Triggers :: "string list"
  o_Writes :: "string list"
  o_FieldMapping :: "FieldMapping list"
  o_StatePre :: "nodefn option"
  o_StatePost :: "nodefn option"

record stateGraph =
  g_nodes :: "(string, Node) fmap"
  g_edges :: "Edge list"
  g_dataEdges :: "DataEdge list"
  g_conditionalEdges :: "ConditionalEdge list"
  g_branches :: "Branch list"
  g_entryPoint :: string
  g_finishPoints :: "string list"
  g_channels :: "(string, channel) fmap"
  g_reducers :: "(string, binop) fmap"
  g_stateSchema :: gval
  g_inputSchema :: gval
  g_outputSchema :: gval
  g_NodeTriggerMode :: NodeTriggerMode

definition NewStateGraph :: "gval \<Rightarrow> stateGraph" where
  "NewStateGraph stateSchema =
     \<lparr>g_nodes = fmempty, g_edges = [], g_dataEdges = [], g_conditionalEdges = [], g_branches = [],
      g_entryPoint = [], g_finishPoints = [], g_channels = fmempty, g_reducers = fmempty,
      g_stateSchema = stateSchema, g_inputSchema = stateSchema, g_outputSchema = stateSchema,
      g_NodeTriggerMode = NodeTriggerOther []\<rparr>"

definition WithInputSchema :: "stateGraph \<Rightarrow> gval \<Rightarrow> stateGraph" where
  "WithInputSchema g schema = g\<lparr>g_inputSchema := schema\<rparr>"

definition WithOutputSchema :: "stateGraph \<Rightarrow> gval \<Rightarrow> stateGraph" where
  "WithOutputSchema g schema = g\<lparr>g_outputSchema := schema\<rparr>"

subsection \<open>Nodes\<close>

definition NewNode :: "string \<Rightarrow> nodefn option \<Rightarrow> Node" where
  "NewNode name fn =
     \<lparr>n_Name = name, n_Function = fn, n_Triggers = [], n_Writes = [], n_RetryPolicy = None, n_Tags = [],
      n_Metadata = fmempty, n_FieldMapping = []\<rparr>"

definition AddNode :: "stateGraph \<Rightarrow> string \<Rightarrow> nodefn option \<Rightarrow> stateGraph" where
  "AddNode g name fn = g\<lparr>g_nodes := fmupd name (NewNode name fn) (g_nodes g)\<rparr>"

text \<open>
  The wrapper around a node function with state handlers. A missing node function panics when the
  wrapper calls it; a panic of any of the three ends the call.
\<close>

definition call_fn :: "nodefn option \<Rightarrow> nodefn" where
  "call_fn fn step attempt state =
     (case fn of Some f \<Rightarrow> f step attempt state | None \<Rightarrow> CallPanic ''nil function'')"

definition wrap_handlers :: "string \<Rightarrow> nodefn option \<Rightarrow> nodefn option \<Rightarrow> nodefn option \<Rightarrow> nodefn" where
  "wrap_handlers name pre orig post step attempt state =
     (case (case pre of None \<Rightarrow> CallReturn state None | Some f \<Rightarrow> f step attempt state) of
        CallPanic r \<Rightarrow> CallPanic r
      | CallReturn state' (Some err) \<Rightarrow>
          CallReturn VNil (Some (Wrapf (''state pre-handler for '' @ name) err))
      | CallReturn state' None \<Rightarrow>
          (case call_fn orig step attempt state' of
             CallPanic r \<Rightarrow> CallPanic r
           | CallReturn out (Some err) \<Rightarrow> CallReturn VNil (Some err)
           | CallReturn out None \<Rightarrow>
               (case post of
                  None \<Rightarrow> CallReturn out None
                | Some f \<Rightarrow>
                    (case f step attempt out of
                       CallPanic r \<Rightarrow> CallPanic r
                     | CallReturn out' (Some err) \<Rightarrow>
                         CallReturn VNil (Some (Wrapf (''state post-handler for '' @ name) err))
                     | CallReturn out' None \<Rightarrow> CallReturn out' None))))"

definition AddNodeWithOptions :: "stateGraph \<Rightarrow> string \<Rightarrow> nodefn option \<Rightarrow> NodeOptions \<Rightarrow> stateGraph" where
  "AddNodeWithOptions g name fn opts =
     (let fn' = (if o_StatePre opts \<noteq> None \<or> o_StatePost opts \<noteq> None
                 then Some (wrap_handlers name (o_StatePre opts) fn (o_StatePost opts)) else fn);
          node = NewNode name fn'
      in g\<lparr>g_nodes := fmupd name
             (node\<lparr>n_RetryPolicy := (if o_RetryPolicy opts \<noteq> None then o_RetryPolicy opts else n_RetryPolicy node),
                   n_Tags := n_Tags node @ o_Tags opts,
                   n_Metadata := n_Metadata node ++\<^sub>f o_Metadata opts,
                   n_Triggers := n_Triggers node @ o_Triggers opts,
                   n_Writes := n_Writes node @ o_Writes opts,
                   n_FieldMapping := n_FieldMapping node @ o_FieldMapping opts\<rparr>)
             (g_nodes g)\<rparr>)"

definition WithStatePreHandler :: "nodefn \<Rightarrow> NodeOptions \<Rightarrow> NodeOptions" where
  "WithStatePreHandler fn opts = opts\<lparr>o_StatePre := Some fn\<rparr>"

definition WithStatePostHandler :: "nodefn \<Rightarrow> NodeOptions \<Rightarrow> NodeOptions" where
  "WithStatePostHandler fn opts = opts\<lparr>o_StatePost := Some fn\<rparr>"

definition WithFieldMapping :: "FieldMapping list \<Rightarrow> NodeOptions \<Rightarrow> NodeOptions" where
  "WithFieldMapping mappings opts = opts\<lparr>o_FieldMapping := o_FieldMapping opts @ mappings\<rparr>"

definition MapFields :: "string \<Rightarrow> string \<Rightarrow> FieldMapping" where
  "MapFields from to = \<lparr>fm_From = from, fm_To = to\<rparr>"

definition MapTo :: "string \<Rightarrow> FieldMapping" where
  "MapTo to = \<lparr>fm_From = [], fm_To = to\<rparr>"

subsection \<open>Edges\<close>

definition has_node :: "stateGraph \<Rightarrow> string \<Rightarrow> bool" where
  "has_node g name \<longleftrightarrow> fmlookup (g_nodes g) name \<noteq> None"

definition AddEdge :: "stateGraph \<Rightarrow> string \<Rightarrow> string \<Rightarrow> gerror + stateGraph" where
  "AddEdge g from to =
     (if \<not> has_node g from \<and> from \<noteq> Start then Inl (NodeNotFoundError from)
      else if \<not> has_node g to \<and> to \<noteq> End then Inl (NodeNotFoundError to)
      else Inr (g\<lparr>g_edges := g_edges g @ [\<lparr>e_From = from, e_To = to\<rparr>],
                  g_entryPoint := (if from = Start then to else g_entryPoint g),
                  g_finishPoints := (if to = End \<and> from \<notin> set (g_finishPoints g)
                                     then g_finishPoints g @ [from] else g_finishPoints g)\<rparr>))"

definition mapping_targets :: "(string, string) fmap \<Rightarrow> string list" where
  "mapping_targets m = map (\<lambda>k. the (fmlookup m k)) (fmkeys m)"

definition AddConditionalEdges ::
  "stateGraph \<Rightarrow> string \<Rightarrow> edgefn \<Rightarrow> (string, string) fmap \<Rightarrow> gerror + stateGraph" where
  "AddConditionalEdges g from condition mapping =
     (if \<not> has_node g from then Inl (NodeNotFoundError from)
      else (case List.find (\<lambda>t. \<not> has_node g t \<and> t \<noteq> End) (mapping_targets mapping) of
          Some t \<Rightarrow> Inl (NodeNotFoundError t)
        | None \<Rightarrow> Inr (g\<lparr>g_conditionalEdges := g_conditionalEdges g @
            [\<lparr>ce_From = from, ce_Condition = condition, ce_Mapping = mapping\<rparr>]\<rparr>)))"

definition AddBranch :: "stateGraph \<Rightarrow> string \<Rightarrow> edgefn \<Rightarrow> (gval \<Rightarrow> string list) \<Rightarrow> gerror + stateGraph" where
  "AddBranch g from condition thn =
     (if \<not> has_node g from then Inl (NodeNotFoundError from)
      else Inr (g\<lparr>g_branches := g_branches g @ [\<lparr>b_From = from, b_Condition = condition, b_Then = thn\<rparr>]\<rparr>))"

definition AddDataEdge :: "stateGraph \<Rightarrow> string \<Rightarrow> string \<Rightarrow> FieldMapping list \<Rightarrow> gerror + stateGraph" where
  "AddDataEdge g from to mappings =
     (if \<not> has_node g from \<and> from \<noteq> Start then Inl (NodeNotFoundError from)
      else if \<not> has_node g to \<and> to \<noteq> End then Inl (NodeNotFoundError to)
      else Inr (g\<lparr>g_dataEdges := g_dataEdges g @ [\<lparr>de_From = from, de_To = to, de_Mapping = mappings\<rparr>]\<rparr>))"

definition SetEntryPoint :: "stateGraph \<Rightarrow> string \<Rightarrow> gerror + stateGraph" where
  "SetEntryPoint g node =
     (if \<not> has_node g node then Inl (NodeNotFoundError node) else Inr (g\<lparr>g_entryPoint := node\<rparr>))"

definition SetFinishPoint :: "stateGraph \<Rightarrow> string \<Rightarrow> gerror + stateGraph" where
  "SetFinishPoint g node =
     (if \<not> has_node g node then Inl (NodeNotFoundError node)
      else Inr (g\<lparr>g_finishPoints := g_finishPoints g @ [node]\<rparr>))"

definition SetNodeTriggerMode :: "stateGraph \<Rightarrow> NodeTriggerMode \<Rightarrow> stateGraph" where
  "SetNodeTriggerMode g mode = g\<lparr>g_NodeTriggerMode := mode\<rparr>"

subsection \<open>Channels\<close>

text \<open>A channel argument is any value; what is not a channel (\<open>None\<close>) is ignored.\<close>

definition AddChannel :: "stateGraph \<Rightarrow> string \<Rightarrow> channel option \<Rightarrow> stateGraph" where
  "AddChannel g name ch =
     (case ch of None \<Rightarrow> g | Some c \<Rightarrow> g\<lparr>g_channels := fmupd name (SetKey name c) (g_channels g)\<rparr>)"

definition SetReducer :: "stateGraph \<Rightarrow> string \<Rightarrow> binop \<Rightarrow> stateGraph" where
  "SetReducer g name reducer =
     g\<lparr>g_channels := (case fmlookup (g_channels g) name of
           Some c \<Rightarrow> fmupd name (CReducerChannel c reducer) (g_channels g) | None \<Rightarrow> g_channels g),
       g_reducers := fmupd name reducer (g_reducers g)\<rparr>"

definition AddChannelWithReducer :: "stateGraph \<Rightarrow> string \<Rightarrow> channel option \<Rightarrow> binop option \<Rightarrow> stateGraph" where
  "AddChannelWithReducer g name ch reducer =
     (case ch of
        None \<Rightarrow> g
      | Some c \<Rightarrow>
          (case reducer of
             Some r \<Rightarrow> g\<lparr>g_channels := fmupd name (CReducerChannel (SetKey name c) r) (g_channels g),
                         g_reducers := fmupd name r (g_reducers g)\<rparr>
           | None \<Rightarrow> g\<lparr>g_channels := fmupd name (SetKey name c) (g_channels g)\<rparr>))"

subsection \<open>The state schema\<close>

text \<open>
  A schema is a dynamic value; the struct tag of a field (the part under the key \<open>harness\<close>) is given
  by \<open>tag\<close>. Trimming removes ASCII white space.
\<close>

definition is_space :: "char \<Rightarrow> bool" where
  "is_space c \<longleftrightarrow> c \<in> {CHR '' '', CHR 0x09, CHR 0x0A, CHR 0x0B, CHR 0x0C, CHR 0x0D}"

definition TrimSpace :: "string \<Rightarrow> string" where
  "TrimSpace s = rev (dropWhile is_space (rev (dropWhile is_space s)))"

text \<open>\<open>strings.SplitN(pair, "=", 2)\<close>: \<open>None\<close> when there is no separator.\<close>

definition split_eq :: "string \<Rightarrow> (string \<times> string) option" where
  "split_eq s = (if CHR ''='' \<in> set s
     then Some (takeWhile (\<lambda>c. c \<noteq> CHR ''='') s, tl (dropWhile (\<lambda>c. c \<noteq> CHR ''='') s)) else None)"

record Annotation =
  an_Reducer :: "binop option"
  an_Metadata :: gmap

definition reducers :: "(rat \<Rightarrow> rat \<Rightarrow> rat) \<Rightarrow> string \<Rightarrow> binop option" where
  "reducers fadd = map_of [(''add'', AddReducer fadd), (''append'', AppendReducer), (''merge'', MergeReducer)]"

definition parse_pair :: "(rat \<Rightarrow> rat \<Rightarrow> rat) \<Rightarrow> Annotation \<Rightarrow> string \<Rightarrow> gerror + Annotation" where
  "parse_pair fadd an pair =
     (case split_eq pair of
        None \<Rightarrow> Inr (an\<lparr>an_Metadata := fmupd pair (VBool True) (an_Metadata an)\<rparr>)
      | Some (k, v) \<Rightarrow>
          (let key = TrimSpace k; value = TrimSpace v
           in if key = ''reducer''
              then (case reducers fadd value of
                      None \<Rightarrow> Inl (Errorf (''unknown reducer: '' @ value))
                    | Some r \<Rightarrow> Inr (an\<lparr>an_Reducer := Some r\<rparr>))
              else Inr (an\<lparr>an_Metadata := fmupd key (VStr value) (an_Metadata an)\<rparr>)))"

definition parseAnnotation :: "(rat \<Rightarrow> rat \<Rightarrow> rat) \<Rightarrow> string \<Rightarrow> gerror + Annotation" where
  "parseAnnotation fadd tag =
     foldl_err (parse_pair fadd) \<lparr>an_Reducer = None, an_Metadata = fmempty\<rparr> (split_on (CHR '','') tag)"

record fieldInfo =
  fi_Name :: string
  fi_Type :: gotype
  fi_Channel :: channel
  fi_Annotation :: "Annotation option"

definition processField ::
  "(rat \<Rightarrow> rat \<Rightarrow> rat) \<Rightarrow> (string \<Rightarrow> string) \<Rightarrow> string \<Rightarrow> gotype \<Rightarrow> gerror + fieldInfo" where
  "processField fadd tag name typ =
     (let info = (\<lambda>an. \<lparr>fi_Name = name, fi_Type = typ,
              fi_Channel = CreateReducerChannel fadd name typ (case an of None \<Rightarrow> None | Some a \<Rightarrow> an_Reducer a),
              fi_Annotation = an\<rparr>)
      in if tag name = [] then Inr (info None)
         else (case parseAnnotation fadd (tag name) of
             Inl e \<Rightarrow> Inl (Wrapf ''invalid annotation'' e)
           | Inr an \<Rightarrow> Inr (info (Some an))))"

text \<open>The struct a schema value is or points to; \<open>None\<close> for every other kind.\<close>

fun schema_struct :: "gval \<Rightarrow> (string \<times> bool \<times> gotype) list option" where
  "schema_struct (VStruct n fs) = Some (map (\<lambda>(f, e, t, v). (f, e, t)) fs)"
| "schema_struct (VOverwrite v) = Some [(''Value'', True, TIface)]"
| "schema_struct (VOverwriter v) = Some [(''Value'', True, TIface)]"
| "schema_struct VMissing = Some []"
| "schema_struct (VRType t) = Some []"
| "schema_struct VRTypeStruct = Some []"
| "schema_struct _ = None"

definition is_map_schema :: "gval \<Rightarrow> bool" where
  "is_map_schema v = (case v of VMapT t m \<Rightarrow> True | _ \<Rightarrow> False)"

definition add_field_info ::
  "(rat \<Rightarrow> rat \<Rightarrow> rat) \<Rightarrow> (string \<Rightarrow> string) \<Rightarrow> (string, fieldInfo) fmap \<Rightarrow> string \<times> bool \<times> gotype \<Rightarrow>
   gerror + (string, fieldInfo) fmap" where
  "add_field_info fadd tag infos field =
     (case field of (name, exported, typ) \<Rightarrow>
        if \<not> exported then Inr infos
        else (case processField fadd tag name typ of
            Inl e \<Rightarrow> Inl (Wrapf (''field '' @ name) e)
          | Inr info \<Rightarrow> Inr (fmupd (fi_Name info) info infos)))"

definition validateStateSchema ::
  "(rat \<Rightarrow> rat \<Rightarrow> rat) \<Rightarrow> (string \<Rightarrow> string) \<Rightarrow> gval \<Rightarrow> gerror + (string, fieldInfo) fmap" where
  "validateStateSchema fadd tag schema =
     (if schema = VNil then Inl (Errorf ''state schema cannot be nil'')
      else (case schema_struct schema of
          Some fs \<Rightarrow> foldl_err (add_field_info fadd tag) fmempty fs
        | None \<Rightarrow> if is_map_schema schema then Inr fmempty
                  else Inl (Errorf ''state schema must be a struct or map'')))"

definition ValidateStateSchema :: "(rat \<Rightarrow> rat \<Rightarrow> rat) \<Rightarrow> (string \<Rightarrow> string) \<Rightarrow> stateGraph \<Rightarrow> gerror option" where
  "ValidateStateSchema fadd tag g =
     (case validateStateSchema fadd tag (g_stateSchema g) of Inl e \<Rightarrow> Some e | Inr _ \<Rightarrow> None)"

definition GetStateSchemaInfo ::
  "(rat \<Rightarrow> rat \<Rightarrow> rat) \<Rightarrow> (string \<Rightarrow> string) \<Rightarrow> stateGraph \<Rightarrow> gerror + (string, fieldInfo) fmap" where
  "GetStateSchemaInfo fadd tag g = validateStateSchema fadd tag (g_stateSchema g)"

subsection \<open>Reachability\<close>

text \<open>The nodes the body of the search loop looks at for one node, in order.\<close>

definition successors :: "stateGraph \<Rightarrow> string \<Rightarrow> string list" where
  "successors g current =
     [e_To e. e \<leftarrow> g_edges g, e_From e = current, e_To e \<noteq> End] @
     [t. ce \<leftarrow> g_conditionalEdges g, ce_From ce = current, t \<leftarrow> mapping_targets (ce_Mapping ce),
         has_node g t, t \<noteq> End]"

definition enqueue :: "string list \<times> string list \<Rightarrow> string \<Rightarrow> string list \<times> string list" where
  "enqueue s t = (case s of (reachable, queue) \<Rightarrow>
     if t \<in> set reachable then (reachable, queue) else (reachable @ [t], queue @ [t]))"

definition all_targets :: "stateGraph \<Rightarrow> string set" where
  "all_targets g = e_To ` set (g_edges g) \<union> (\<Union>ce\<in>set (g_conditionalEdges g). set (mapping_targets (ce_Mapping ce)))"

lemma successors_targets: "set (successors g c) \<subseteq> all_targets g"
  by (auto simp: successors_def all_targets_def)

lemma enqueue_simp [simp]:
  "enqueue (r, q) t = (if t \<in> set r then (r, q) else (r @ [t], q @ [t]))"
  by (simp add: enqueue_def)

lemma foldl_enqueue:
  "foldl enqueue (seen, q) ts = (seen', q') \<Longrightarrow>
   \<exists>new. seen' = seen @ new \<and> q' = q @ new \<and> distinct new \<and> set new = set ts - set seen"
proof (induction ts arbitrary: seen q)
  case (Cons t ts)
  show ?case
  proof (cases "t \<in> set seen")
    case True
    with Cons show ?thesis by (auto simp: insert_absorb)
  next
    case False
    with Cons.prems have "foldl enqueue (seen @ [t], q @ [t]) ts = (seen', q')" by simp
    from Cons.IH [OF this] obtain new where
      "seen' = seen @ [t] @ new" "q' = q @ [t] @ new" "distinct new" "set new = set ts - set (seen @ [t])" by auto
    with False show ?thesis by (intro exI [of _ "t # new"]) auto
  qed
qed auto

lemma finite_all_targets [simp]: "finite (all_targets g)"
  by (simp add: all_targets_def)

function reach_loop :: "stateGraph \<Rightarrow> string list \<Rightarrow> string list \<Rightarrow> string list" where
  "reach_loop g reachable [] = reachable"
| "reach_loop g reachable (current # queue) =
     (case foldl enqueue (reachable, queue) (successors g current) of
        (reachable', queue') \<Rightarrow> reach_loop g reachable' queue')"
  by pat_completeness auto
termination
proof (relation "measure (\<lambda>(g, reachable, queue). card (all_targets g - set reachable) + length queue)")
  fix g reachable current queue reachable' queue'
  assume "(reachable', queue') = foldl enqueue (reachable, queue) (successors g current)"
  then obtain new where new: "reachable' = reachable @ new" "queue' = queue @ new" "distinct new"
    "set new = set (successors g current) - set reachable"
    using foldl_enqueue by metis
  have "set new \<subseteq> all_targets g - set reachable" using new(4) successors_targets by blast
  then have "card (all_targets g - set reachable - set new) + card (set new) = card (all_targets g - set reachable)"
    by (simp add: card_Diff_subset card_mono)
  moreover have "all_targets g - set reachable' = all_targets g - set reachable - set new"
    by (auto simp: new(1))
  ultimately have "card (all_targets g - set reachable') + length new = card (all_targets g - set reachable)"
    using new(3) by (simp add: distinct_card)
  then show "((g, reachable', queue'), g, reachable, current # queue) \<in>
      measure (\<lambda>(g, reachable, queue). card (all_targets g - set reachable) + length queue)"
    by (simp add: new(2))
qed simp

definition computeReachable :: "stateGraph \<Rightarrow> string list" where
  "computeReachable g =
     (if g_entryPoint g = [] then [] else reach_loop g [g_entryPoint g] [g_entryPoint g])"

subsection \<open>Validation and compilation\<close>

definition Validate :: "(rat \<Rightarrow> rat \<Rightarrow> rat) \<Rightarrow> (string \<Rightarrow> string) \<Rightarrow> stateGraph \<Rightarrow> gerror option" where
  "Validate fadd tag g =
     (if g_entryPoint g = [] then Some (Errorf ''no entry point set'')
      else if g_finishPoints g = [] then Some (Errorf ''no finish points set'')
      else (case List.find (\<lambda>name. name \<notin> set (computeReachable g)) (fmkeys (g_nodes g)) of
          Some name \<Rightarrow> Some (Errorf (''node '' @ name @ '' is not reachable from entry point''))
        | None \<Rightarrow>
            (case ValidateStateSchema fadd tag g of
               Some e \<Rightarrow> Some (Wrapf ''state schema validation failed'' e)
             | None \<Rightarrow> None)))"

definition add_channel :: "stateGraph \<Rightarrow> string \<Rightarrow> fieldInfo \<Rightarrow> stateGraph" where
  "add_channel g fieldName info =
     g\<lparr>g_channels := (if fieldName |\<in>| fmdom (g_channels g) then g_channels g
                      else fmupd fieldName (fi_Channel info) (g_channels g)),
       g_reducers := (case fi_Annotation info of
           Some an \<Rightarrow> (case an_Reducer an of
               Some r \<Rightarrow> fmupd fieldName r (g_reducers g) | None \<Rightarrow> g_reducers g)
         | None \<Rightarrow> g_reducers g)\<rparr>"

definition configureChannelsFromSchema ::
  "(rat \<Rightarrow> rat \<Rightarrow> rat) \<Rightarrow> (string \<Rightarrow> string) \<Rightarrow> stateGraph \<Rightarrow> gerror + stateGraph" where
  "configureChannelsFromSchema fadd tag g =
     (case GetStateSchemaInfo fadd tag g of
        Inl e \<Rightarrow> Inl e
      | Inr infos \<Rightarrow> Inr (foldl (\<lambda>g name. add_channel g name (the (fmlookup infos name))) g (fmkeys infos)))"

text \<open>The checkpointer of a compiled graph is the saver of the previous theory, when there is one.\<close>

record compiledGraph =
  cg_graph :: stateGraph
  cg_checkpointer :: "MemorySaver option"
  cg_interrupts :: "string list"
  cg_interruptsAfter :: "string list"
  cg_recursionLimit :: int
  cg_debug :: bool
  cg_nodeTriggerMode :: NodeTriggerMode

definition WithCheckpointer :: "MemorySaver option \<Rightarrow> compiledGraph \<Rightarrow> compiledGraph" where
  "WithCheckpointer cp cg = cg\<lparr>cg_checkpointer := cp\<rparr>"

definition WithInterrupts :: "string list \<Rightarrow> compiledGraph \<Rightarrow> compiledGraph" where
  "WithInterrupts nodes cg = cg\<lparr>cg_interrupts := fold List.insert nodes (cg_interrupts cg)\<rparr>"

definition WithInterruptsAfter :: "string list \<Rightarrow> compiledGraph \<Rightarrow> compiledGraph" where
  "WithInterruptsAfter nodes cg = cg\<lparr>cg_interruptsAfter := fold List.insert nodes (cg_interruptsAfter cg)\<rparr>"

definition WithRecursionLimit_opt :: "int \<Rightarrow> compiledGraph \<Rightarrow> compiledGraph" where
  "WithRecursionLimit_opt limit cg = cg\<lparr>cg_recursionLimit := limit\<rparr>"

definition WithDebug :: "bool \<Rightarrow> compiledGraph \<Rightarrow> compiledGraph" where
  "WithDebug debug cg = cg\<lparr>cg_debug := debug\<rparr>"

definition WithNodeTriggerMode :: "NodeTriggerMode \<Rightarrow> compiledGraph \<Rightarrow> compiledGraph" where
  "WithNodeTriggerMode mode cg = cg\<lparr>cg_nodeTriggerMode := mode\<rparr>"

definition Compile ::
  "(rat \<Rightarrow> rat \<Rightarrow> rat) \<Rightarrow> (string \<Rightarrow> string) \<Rightarrow> stateGraph \<Rightarrow> (compiledGraph \<Rightarrow> compiledGraph) list \<Rightarrow>
   gerror + compiledGraph" where
  "Compile fadd tag g opts =
     (case Validate fadd tag g of
        Some e \<Rightarrow> Inl (Wrapf ''graph validation failed'' e)
      | None \<Rightarrow>
          (case configureChannelsFromSchema fadd tag g of
             Inl e \<Rightarrow> Inl (Wrapf ''failed to configure channels from schema'' e)
           | Inr g' \<Rightarrow>
               (let cg = foldl (\<lambda>cg opt. opt cg)
                      \<lparr>cg_graph = g', cg_checkpointer = None, cg_interrupts = [], cg_interruptsAfter = [],
                       cg_recursionLimit = DefaultRecursionLimit, cg_debug = False,
                       cg_nodeTriggerMode = NodeTriggerAnyPredecessor\<rparr> opts
                in Inr (cg\<lparr>cg_graph := (cg_graph cg)\<lparr>g_NodeTriggerMode := cg_nodeTriggerMode cg\<rparr>\<rparr>))))"

end
