(* ===== verification/Event_Files.thy ===== *)
theory Event_Files
  imports Event_Props Graph_Build
begin

text \<open>
  The file-backed event store: one JSON line per event, in segment files named after the trace and a
  segment number. The directory is a finite map from names to contents. Where the operating system may
  refuse, \<open>FileEnv\<close> decides: whether a file can be opened or removed, and after how many bytes a write
  fails. The theory proves that reopening a directory recovers the JSON copy of every event written without
  errors, with the clock not behind any of them, and that one line of a mebibyte makes the directory unreadable.
\<close>

subsection \<open>The directory\<close>

record FileEnv =
  fe_open :: "string \<Rightarrow> bool"
  fe_remove :: "string \<Rightarrow> bool"
  fe_write :: "string \<Rightarrow> string \<Rightarrow> nat option"

record LocalFileEventStore =
  lf_segment :: nat
  lf_maxSize :: nat
  lf_cached :: "Event list"
  lf_clock :: "64 word"
  lf_files :: "(string, string) fmap"

definition pad4 :: "nat \<Rightarrow> string" where
  "pad4 n = replicate (4 - length (show_nat n)) CHR ''0'' @ show_nat n"

definition segment_name :: "string \<Rightarrow> nat \<Rightarrow> string" where
  "segment_name trace seg = ''events_'' @ trace @ ''_'' @ pad4 seg @ ''.jsonl''"

definition is_segment :: "string \<Rightarrow> bool" where
  "is_segment n \<longleftrightarrow> prefix ''events_'' n \<and> suffix ''.jsonl'' n"

definition write_file :: "FileEnv \<Rightarrow> string \<Rightarrow> string \<Rightarrow> (string, string) fmap \<Rightarrow> (string, string) fmap \<times> gerror option" where
  "write_file env n d fs =
     (let c = (case fmlookup fs n of Some c \<Rightarrow> c | None \<Rightarrow> [])
      in case fe_write env n d of
           None \<Rightarrow> (fmupd n (c @ d) fs, None)
         | Some k \<Rightarrow> (fmupd n (c @ take k d) fs, Some (Errorf ''write'')))"

text \<open>The segment an event goes to: a file above the size limit advances the counter once.\<close>

definition rotate :: "Event \<Rightarrow> LocalFileEventStore \<Rightarrow> nat" where
  "rotate e s =
     (case fmlookup (lf_files s) (segment_name (ev_TraceID e) (lf_segment s)) of
        Some c \<Rightarrow> if lf_maxSize s < length c then lf_segment s + 1 else lf_segment s
      | None \<Rightarrow> lf_segment s)"

definition appendToFileLocked :: "FileEnv \<Rightarrow> Codec \<Rightarrow> Event \<Rightarrow> LocalFileEventStore \<Rightarrow> LocalFileEventStore \<times> gerror option" where
  "appendToFileLocked env cd e s =
     (let seg = rotate e s; n = segment_name (ev_TraceID e) seg; s1 = s\<lparr>lf_segment := seg\<rparr>
      in if \<not> fe_open env n then (s1, Some (Errorf ''open segment file''))
         else
           let fs = (if n |\<in>| fmdom (lf_files s) then lf_files s else fmupd n [] (lf_files s))
           in case cd_event cd e of
                None \<Rightarrow> (s1\<lparr>lf_files := fs\<rparr>, Some (Errorf ''marshal event''))
              | Some d \<Rightarrow>
                  (case write_file env n d fs of
                     (fs1, Some err) \<Rightarrow> (s1\<lparr>lf_files := fs1\<rparr>, Some err)
                   | (fs1, None) \<Rightarrow>
                       (case write_file env n [CHR 0x0A] fs1 of
                          (fs2, err) \<Rightarrow> (s1\<lparr>lf_files := fs2\<rparr>, err))))"

fun LF_Append :: "FileEnv \<Rightarrow> Codec \<Rightarrow> LocalFileEventStore \<Rightarrow> Event list \<Rightarrow> LocalFileEventStore \<times> gerror option" where
  "LF_Append env cd s [] = (s, None)"
| "LF_Append env cd s (e # es) =
     (let (clk, e') = stamp cd (lf_clock s) e
      in case appendToFileLocked env cd e' (s\<lparr>lf_clock := clk, lf_cached := lf_cached s @ [e']\<rparr>) of
           (s', Some err) \<Rightarrow> (s', Some err)
         | (s', None) \<Rightarrow> LF_Append env cd s' es)"

subsection \<open>Opening a directory\<close>

text \<open>
  \<open>bufio.Scanner\<close> over the lines of a file: a final newline ends the last line, one carriage return
  before it is dropped, and a line that does not fit the buffer of a mebibyte stops the scan.
\<close>

definition scan_lines :: "string \<Rightarrow> string list" where
  "scan_lines c = (let ls = split_on CHR 0x0A c in if last ls = [] then butlast ls else ls)"

definition drop_cr :: "string \<Rightarrow> string" where
  "drop_cr l = (if l \<noteq> [] \<and> last l = CHR 0x0D then butlast l else l)"

fun read_lines :: "Codec \<Rightarrow> string list \<Rightarrow> gerror + Event list" where
  "read_lines cd [] = Inr []"
| "read_lines cd (l # ls) =
     (if 1048576 \<le> length l then Inl (Errorf ''bufio.Scanner: token too long'')
      else if TrimSpace (drop_cr l) = [] then read_lines cd ls
      else case cd_unevent cd (TrimSpace (drop_cr l)) of
             None \<Rightarrow> Inl (Errorf ''unmarshal event'')
           | Some e \<Rightarrow> (case read_lines cd ls of Inl err \<Rightarrow> Inl err | Inr es \<Rightarrow> Inr (e # es)))"

definition readSegmentFile :: "FileEnv \<Rightarrow> Codec \<Rightarrow> (string, string) fmap \<Rightarrow> string \<Rightarrow> gerror + Event list" where
  "readSegmentFile env cd fs n =
     (if \<not> fe_open env n then Inl (Errorf ''open'')
      else read_lines cd (scan_lines (case fmlookup fs n of Some c \<Rightarrow> c | None \<Rightarrow> [])))"

fun load_segments :: "FileEnv \<Rightarrow> Codec \<Rightarrow> (string, string) fmap \<Rightarrow> string list \<Rightarrow> gerror + Event list" where
  "load_segments env cd fs [] = Inr []"
| "load_segments env cd fs (n # ns) =
     (case readSegmentFile env cd fs n of
        Inl err \<Rightarrow> Inl err
      | Inr es \<Rightarrow> (case load_segments env cd fs ns of Inl err \<Rightarrow> Inl err | Inr rest \<Rightarrow> Inr (es @ rest)))"

definition max_clock :: "Event list \<Rightarrow> 64 word \<Rightarrow> 64 word" where
  "max_clock = fold (\<lambda>e m. if m < ev_Clock e then ev_Clock e else m)"

definition loadExisting :: "FileEnv \<Rightarrow> Codec \<Rightarrow> LocalFileEventStore \<Rightarrow> gerror + LocalFileEventStore" where
  "loadExisting env cd s =
     (case load_segments env cd (lf_files s) (filter is_segment (fmkeys (lf_files s))) of
        Inl err \<Rightarrow> Inl err
      | Inr es \<Rightarrow>
          (let m = max_clock es 0
           in Inr (s\<lparr>lf_cached := es, lf_clock := (if 0 < m then m else lf_clock s)\<rparr>)))"

definition defaultMaxSegmentSize :: nat where
  "defaultMaxSegmentSize = 64 * 1024 * 1024"

definition NewLocalFileEventStore :: "FileEnv \<Rightarrow> Codec \<Rightarrow> (string, string) fmap \<Rightarrow> gerror + LocalFileEventStore" where
  "NewLocalFileEventStore env cd fs =
     loadExisting env cd
       \<lparr>lf_segment = 0, lf_maxSize = defaultMaxSegmentSize, lf_cached = [], lf_clock = 0, lf_files = fs\<rparr>"

subsection \<open>Reading and collecting\<close>

definition LF_Stream :: "LocalFileEventStore \<Rightarrow> EventFilter \<Rightarrow> sliceIterator" where
  "LF_Stream s f = \<lparr>it_events = filter (Matches f) (lf_cached s), it_pos = 0\<rparr>"

definition LF_Get :: "LocalFileEventStore \<Rightarrow> EventID \<Rightarrow> Event option" where
  "LF_Get s i = find (\<lambda>e. ev_ID e = i) (lf_cached s)"

definition LF_Range :: "LocalFileEventStore \<Rightarrow> 64 word \<Rightarrow> 64 word \<Rightarrow> EventFilter \<Rightarrow> Event list" where
  "LF_Range s lo hi f = range_loop lo hi f (lf_cached s)"

definition LF_Seek :: "LocalFileEventStore \<Rightarrow> 64 word \<Rightarrow> sliceIterator" where
  "LF_Seek s clk = \<lparr>it_events = drop (seek_pos clk 0 (lf_cached s)) (lf_cached s), it_pos = 0\<rparr>"

definition LF_Length :: "LocalFileEventStore \<Rightarrow> 64 word" where
  "LF_Length s = of_nat (length (lf_cached s))"

definition LF_CreateSnapshot :: "Codec \<Rightarrow> gotime \<Rightarrow> LocalFileEventStore \<Rightarrow> string \<Rightarrow> gerror + Snapshot" where
  "LF_CreateSnapshot cd now s trace = new_snapshot cd now trace (lf_clock s) (lf_cached s)"

definition LF_RestoreSnapshot :: "LocalFileEventStore \<Rightarrow> string \<Rightarrow> sliceIterator" where
  "LF_RestoreSnapshot s sid = LF_Seek s 0"

text \<open>\<open>Subscribe\<close> returns a channel that is closed already: nothing is ever received.\<close>

definition LF_Subscribe :: "LocalFileEventStore \<Rightarrow> EventFilter \<Rightarrow> Event list" where
  "LF_Subscribe s f = []"

fun rewrite :: "FileEnv \<Rightarrow> Codec \<Rightarrow> LocalFileEventStore \<Rightarrow> Event list \<Rightarrow> LocalFileEventStore \<times> gerror option" where
  "rewrite env cd s [] = (s, None)"
| "rewrite env cd s (e # es) =
     (case appendToFileLocked env cd e s of
        (s', Some err) \<Rightarrow> (s', Some err)
      | (s', None) \<Rightarrow> rewrite env cd s' es)"

definition LF_GC :: "FileEnv \<Rightarrow> Codec \<Rightarrow> gotime \<Rightarrow> LocalFileEventStore \<Rightarrow> int \<Rightarrow> LocalFileEventStore \<times> gerror option" where
  "LF_GC env cd now s retention =
     (let keep = filter (\<lambda>e. now - retention < ev_Timestamp e) (lf_cached s);
          fs = fmfilter (\<lambda>n. \<not> (is_segment n \<and> fe_remove env n)) (lf_files s)
      in rewrite env cd (s\<lparr>lf_cached := keep, lf_segment := 0, lf_files := fs\<rparr>) keep)"

subsection \<open>Lines\<close>

text \<open>
  An event as it comes back from its line. JSON keeps every field of an event but the metadata: an empty map
  is left out and read as nil, and integers are read as floating-point numbers.
\<close>

definition reread :: "Codec \<Rightarrow> Event \<Rightarrow> Event" where
  "reread cd e = the (cd_unevent cd (the (cd_event cd e)))"

definition storable :: "Codec \<Rightarrow> Event \<Rightarrow> bool" where
  "storable cd e \<longleftrightarrow>
     (case cd_event cd e of
        None \<Rightarrow> False
      | Some t \<Rightarrow> t \<noteq> [] \<and> CHR 0x0A \<notin> set t \<and> length t < 1048576 \<and>
          \<not> is_space (hd t) \<and> \<not> is_space (last t) \<and>
          (case cd_unevent cd t of None \<Rightarrow> False | Some e' \<Rightarrow> e'\<lparr>ev_Metadata := ev_Metadata e\<rparr> = e))"

definition event_line :: "Codec \<Rightarrow> Event \<Rightarrow> string" where
  "event_line cd e = the (cd_event cd e) @ [CHR 0x0A]"

lemma split_on_lines:
  "\<forall>t\<in>set ts. c \<notin> set t \<Longrightarrow> split_on c (concat (map (\<lambda>t. t @ [c]) ts)) = ts @ [[]]"
  by (induction ts) (simp_all add: split_on_append_sep)

lemma scan_lines_concat:
  assumes "\<forall>e\<in>set es. storable cd e"
  shows "scan_lines (concat (map (event_line cd) es)) = map (\<lambda>e. the (cd_event cd e)) es"
proof -
  let ?ts = "map (\<lambda>e. the (cd_event cd e)) es"
  have "\<forall>t\<in>set ?ts. CHR 0x0A \<notin> set t"
    using assms by (auto simp: storable_def split: option.splits)
  from split_on_lines [OF this]
  have "split_on CHR 0x0A (concat (map (event_line cd) es)) = ?ts @ [[]]"
    by (simp add: event_line_def [abs_def] comp_def)
  then show ?thesis by (simp add: scan_lines_def)
qed

lemma TrimSpace_clean:
  assumes "t \<noteq> []" "\<not> is_space (hd t)" "\<not> is_space (last t)"
  shows "TrimSpace (drop_cr t) = t"
proof -
  have "last t \<noteq> CHR 0x0D" using assms(3) by (auto simp: is_space_def)
  moreover have "dropWhile is_space t = t" using assms by (cases t) auto
  moreover have "dropWhile is_space (rev t) = rev t"
    using assms by (cases "rev t") (auto simp: last_rev hd_rev simp flip: hd_rev)
  ultimately show ?thesis by (simp add: TrimSpace_def drop_cr_def)
qed

lemma reread_fields:
  assumes "storable cd e"
  shows "ev_Clock (reread cd e) = ev_Clock e" "ev_TraceID (reread cd e) = ev_TraceID e"
    and "(reread cd e)\<lparr>ev_Metadata := ev_Metadata e\<rparr> = e"
proof -
  show m: "(reread cd e)\<lparr>ev_Metadata := ev_Metadata e\<rparr> = e"
    using assms by (auto simp: storable_def reread_def split: option.splits)
  from arg_cong [OF m, of ev_Clock] arg_cong [OF m, of ev_TraceID]
  show "ev_Clock (reread cd e) = ev_Clock e" "ev_TraceID (reread cd e) = ev_TraceID e" by simp_all
qed

lemma read_lines_storable:
  "\<forall>e\<in>set es. storable cd e \<Longrightarrow> read_lines cd (map (\<lambda>e. the (cd_event cd e)) es) = Inr (map (reread cd) es)"
proof (induction es)
  case (Cons e es)
  from Cons.prems obtain t where t: "cd_event cd e = Some t" "t \<noteq> []" "length t < 1048576"
      "\<not> is_space (hd t)" "\<not> is_space (last t)" "cd_unevent cd t = Some (reread cd e)"
    by (auto simp: storable_def reread_def split: option.splits)
  then show ?case using Cons TrimSpace_clean [of t] by simp
qed simp

subsection \<open>What the directory holds\<close>

lemma is_segment_name [simp]: "is_segment (segment_name t n)"
proof -
  have "segment_name t n = (''events_'' @ t @ ''_'' @ pad4 n) @ ''.jsonl''"
    by (simp add: segment_name_def)
  then have "suffix ''.jsonl'' (segment_name t n)" unfolding suffix_def by blast
  then show ?thesis by (simp add: is_segment_def segment_name_def prefix_def)
qed

lemma segment_name_inject [simp]: "segment_name t n = segment_name u n \<longleftrightarrow> t = u"
  by (simp add: segment_name_def)

definition disk_shares :: "Codec \<Rightarrow> (string, string) fmap \<Rightarrow> nat \<Rightarrow> Event list \<Rightarrow> (string \<Rightarrow> Event list) \<Rightarrow> bool" where
  "disk_shares cd fs seg es g \<longleftrightarrow>
     (\<forall>n c. fmlookup fs n = Some c \<longrightarrow> is_segment n \<and> c = concat (map (event_line cd) (g n))) \<and>
     (\<forall>n. n |\<notin>| fmdom fs \<longrightarrow> g n = []) \<and>
     mset es = (\<Sum>n\<in>fset (fmdom fs). mset (g n)) \<and>
     (seg = 0 \<longrightarrow> (\<forall>n. g n = filter (\<lambda>e. segment_name (ev_TraceID e) 0 = n) es))"

definition disk_holds :: "Codec \<Rightarrow> (string, string) fmap \<Rightarrow> nat \<Rightarrow> Event list \<Rightarrow> bool" where
  "disk_holds cd fs seg es \<longleftrightarrow> (\<exists>g. disk_shares cd fs seg es g)"

lemma disk_holds_empty: "disk_holds cd fmempty seg []"
  unfolding disk_holds_def disk_shares_def by (rule exI [of _ "\<lambda>_. []"]) simp

lemma append_ok:
  assumes "appendToFileLocked env cd e s = (s', None)"
  shows "\<exists>t. cd_event cd e = Some t \<and>
    s' = s\<lparr>lf_segment := rotate e s,
      lf_files := fmupd (segment_name (ev_TraceID e) (rotate e s))
        ((case fmlookup (lf_files s) (segment_name (ev_TraceID e) (rotate e s)) of Some c \<Rightarrow> c | None \<Rightarrow> []) @
          t @ [CHR 0x0A]) (lf_files s)\<rparr>"
proof -
  let ?n = "segment_name (ev_TraceID e) (rotate e s)"
  show ?thesis
  proof (cases "fmlookup (lf_files s) ?n")
    case None
    then have "?n |\<notin>| fmdom (lf_files s)" by (simp add: fmdom_notI)
    then show ?thesis
      using assms None
      by (auto simp: appendToFileLocked_def write_file_def Let_def split: if_splits option.splits)
  next
    case (Some c)
    then have "?n |\<in>| fmdom (lf_files s)" by (rule fmdomI)
    then show ?thesis
      using assms Some
      by (auto simp: appendToFileLocked_def write_file_def Let_def split: if_splits option.splits)
  qed
qed

lemma sum_share:
  assumes "finite A" and "n \<notin> A \<longrightarrow> g n = []"
  shows "(\<Sum>x\<in>insert n A. mset ((g(n := g n @ [e])) x)) = (\<Sum>x\<in>A. mset (g x)) + {#e#}"
proof -
  have "(\<Sum>x\<in>insert n A. mset (g x)) = (\<Sum>x\<in>A. mset (g x))"
    using assms by (cases "n \<in> A") (simp_all add: insert_absorb)
  moreover have "(\<Sum>x\<in>insert n A. mset ((g(n := g n @ [e])) x)) =
      (\<Sum>x\<in>insert n A. mset (g x) + (if x = n then {#e#} else {#}))"
    by (rule sum.cong) auto
  ultimately show ?thesis using assms(1) by (simp add: sum.distrib sum.delta)
qed

lemma disk_holds_append:
  assumes "disk_holds cd (lf_files s) (lf_segment s) es"
    and "appendToFileLocked env cd e s = (s', None)"
  shows "disk_holds cd (lf_files s') (lf_segment s') (es @ [e])"
proof -
  define n where "n = segment_name (ev_TraceID e) (rotate e s)"
  obtain g where g: "disk_shares cd (lf_files s) (lf_segment s) es g"
    using assms(1) by (auto simp: disk_holds_def)
  obtain t where t: "cd_event cd e = Some t" and s': "s' = s\<lparr>lf_segment := rotate e s,
      lf_files := fmupd n ((case fmlookup (lf_files s) n of Some c \<Rightarrow> c | None \<Rightarrow> []) @ t @ [CHR 0x0A]) (lf_files s)\<rparr>"
    using append_ok [OF assms(2)] by (auto simp: n_def)
  have zero: "lf_segment s = 0" if "rotate e s = 0"
    using that by (auto simp: rotate_def split: option.splits if_splits)
  have line: "event_line cd e = t @ [CHR 0x0A]" using t by (simp add: event_line_def)
  have old: "(case fmlookup (lf_files s) n of Some c \<Rightarrow> c | None \<Rightarrow> []) = concat (map (event_line cd) (g n))"
    using g by (auto simp: disk_shares_def fmdom_notI split: option.split)
  have "disk_shares cd (lf_files s') (lf_segment s') (es @ [e]) (g(n := g n @ [e]))"
    using g zero sum_share [of "fset (fmdom (lf_files s))" n g e]
    unfolding disk_shares_def s' old
    by (auto simp: line n_def)
  then show ?thesis unfolding disk_holds_def by blast
qed

lemma disk_holds_LF_Append:
  assumes "disk_holds cd (lf_files s) (lf_segment s) (lf_cached s)" and "LF_Append env cd s es = (s', None)"
  shows "disk_holds cd (lf_files s') (lf_segment s') (lf_cached s')"
  using assms
proof (induction es arbitrary: s)
  case (Cons e es)
  obtain clk e' where st: "stamp cd (lf_clock s) e = (clk, e')" by fastforce
  let ?s = "s\<lparr>lf_clock := clk, lf_cached := lf_cached s @ [e']\<rparr>"
  obtain s1 where s1: "appendToFileLocked env cd e' ?s = (s1, None)"
      and rest: "LF_Append env cd s1 es = (s', None)"
    using Cons.prems(2) st by (auto split: prod.splits option.splits)
  have "lf_cached s1 = lf_cached ?s" using append_ok [OF s1] by auto
  moreover have "disk_holds cd (lf_files s1) (lf_segment s1) (lf_cached s @ [e'])"
    using Cons.prems(1) s1 by (intro disk_holds_append [of cd ?s]) simp_all
  ultimately show ?case using Cons.IH [OF _ rest] by simp
qed simp

lemma disk_holds_rewrite:
  assumes "disk_holds cd (lf_files s) (lf_segment s) old" and "rewrite env cd s es = (s', None)"
  shows "disk_holds cd (lf_files s') (lf_segment s') (old @ es) \<and> lf_cached s' = lf_cached s"
  using assms
proof (induction es arbitrary: s old)
  case (Cons e es)
  obtain s1 where s1: "appendToFileLocked env cd e s = (s1, None)"
      and rest: "rewrite env cd s1 es = (s', None)"
    using Cons.prems(2) by (auto split: prod.splits option.splits)
  have "lf_cached s1 = lf_cached s" using append_ok [OF s1] by auto
  moreover have "disk_holds cd (lf_files s1) (lf_segment s1) (old @ [e])"
    using Cons.prems(1) s1 by (rule disk_holds_append)
  ultimately show ?case using Cons.IH [OF _ rest] by fastforce
qed simp

text \<open>
  Stores reached from an empty directory by appends and collections that report no error, on a file
  system that lets segment files be removed.
\<close>

inductive lf_reach :: "FileEnv \<Rightarrow> Codec \<Rightarrow> LocalFileEventStore \<Rightarrow> bool" for env cd where
  lf_new: "NewLocalFileEventStore env cd fmempty = Inr s \<Longrightarrow> lf_reach env cd s"
| lf_append: "lf_reach env cd s \<Longrightarrow> LF_Append env cd s es = (s', None) \<Longrightarrow> lf_reach env cd s'"
| lf_gc: "lf_reach env cd s \<Longrightarrow> \<forall>n. fe_remove env n \<Longrightarrow> LF_GC env cd now s ret = (s', None) \<Longrightarrow> lf_reach env cd s'"

lemma disk_holds_segments: "disk_holds cd fs seg es \<Longrightarrow> n |\<in>| fmdom fs \<Longrightarrow> is_segment n"
  by (auto simp: disk_holds_def disk_shares_def)

lemma fmkeys_fmempty [simp]: "fmkeys fmempty = []"
  by simp

definition empty_dir :: LocalFileEventStore where
  "empty_dir = \<lparr>lf_segment = 0, lf_maxSize = defaultMaxSegmentSize, lf_cached = [], lf_clock = 0,
     lf_files = fmempty\<rparr>"

lemma open_empty_dir: "NewLocalFileEventStore env cd fmempty = Inr empty_dir"
  by (simp add: NewLocalFileEventStore_def loadExisting_def empty_dir_def Let_def max_clock_def)

lemma lf_reach_disk: "lf_reach env cd s \<Longrightarrow> disk_holds cd (lf_files s) (lf_segment s) (lf_cached s)"
proof (induction rule: lf_reach.induct)
  case (lf_new s)
  then have "s = empty_dir" by (simp add: open_empty_dir)
  then show ?case by (simp add: disk_holds_empty empty_dir_def)
next
  case (lf_append s es s')
  show ?case using lf_append.IH lf_append.hyps(2) by (rule disk_holds_LF_Append)
next
  case (lf_gc s now ret s')
  let ?keep = "filter (\<lambda>e. now - ret < ev_Timestamp e) (lf_cached s)"
  let ?fs = "fmfilter (\<lambda>n. \<not> (is_segment n \<and> fe_remove env n)) (lf_files s)"
  have "fmlookup ?fs n = None" for n
    using disk_holds_segments [OF lf_gc.IH, of n] lf_gc.hyps(2) by (auto simp: fmdom_notD fmdomI)
  then have e: "?fs = fmempty" by (intro fmap_ext) simp
  have "rewrite env cd (s\<lparr>lf_cached := ?keep, lf_segment := 0, lf_files := fmempty\<rparr>) ?keep = (s', None)"
    using lf_gc.hyps(3) unfolding LF_GC_def Let_def e .
  from disk_holds_rewrite [OF _ this, of "[]"] show ?case by (simp add: disk_holds_empty)
qed

subsection \<open>Reopening\<close>

lemma load_segments_shares:
  assumes "disk_shares cd fs seg es g" and "\<forall>e\<in>set es. storable cd e" and "\<forall>n. fe_open env n"
    and "set ns \<subseteq> fset (fmdom fs)"
  shows "load_segments env cd fs ns = Inr (map (reread cd) (concat (map g ns)))"
  using assms(4)
proof (induction ns)
  case (Cons n ns)
  then have n: "n |\<in>| fmdom fs" by simp
  then obtain c where c: "fmlookup fs n = Some c" by (rule fmdomE)
  have "mset (g n) \<subseteq># mset es"
    using assms(1) n unfolding disk_shares_def by (simp add: sum.remove)
  then have "\<forall>e\<in>set (g n). storable cd e"
    using assms(2) by (metis mset_subset_eqD set_mset_mset)
  moreover have "c = concat (map (event_line cd) (g n))"
    using assms(1) c by (simp add: disk_shares_def)
  ultimately have "readSegmentFile env cd fs n = Inr (map (reread cd) (g n))"
    using assms(3) c by (simp add: readSegmentFile_def scan_lines_concat read_lines_storable)
  then show ?case using Cons by simp
qed simp

lemma mset_concat_keys: "mset (concat (map g (fmkeys fs))) = (\<Sum>n\<in>fset (fmdom fs). mset (g n))"
  by (simp add: mset_concat comp_def sum.distinct_set_conv_list [symmetric] flip: set_fmkeys)

lemma max_clock_simps [simp]:
  "max_clock [] m = m" "max_clock (e # es) m = max_clock es (max m (ev_Clock e))"
  by (auto simp: max_clock_def max_def not_less intro: arg_cong [where f = "fold _ es"])

lemma max_clock_ge: "m \<le> max_clock es m"
proof (induction es arbitrary: m)
  case (Cons e es)
  from Cons [of "max m (ev_Clock e)"] show ?case by simp
qed simp

lemma max_clock_bound: "e \<in> set es \<Longrightarrow> ev_Clock e \<le> max_clock es m"
proof (induction es arbitrary: m)
  case (Cons x es)
  then show ?case using max_clock_ge [of "max m (ev_Clock x)" es] by auto
qed simp

lemma concat_filter_one:
  assumes "distinct ns" and "m \<in> set ns \<or> h m = []" and "\<And>n. n \<noteq> m \<Longrightarrow> h n = []"
  shows "concat (map h ns) = h m"
  using assms(1,2)
proof (induction ns)
  case (Cons n ns)
  show ?case
  proof (cases "n = m")
    case True
    then have "h x = []" if "x \<in> set ns" for x using that Cons.prems(1) assms(3) [of x] by auto
    then have "concat (map h ns) = []" by simp
    then show ?thesis using True by simp
  next
    case False
    then show ?thesis using Cons assms(3) by auto
  qed
qed auto

text \<open>
  C17: reopening the directory of a file-backed event store recovers what was written, up to what JSON makes
  of metadata. For a store reached by appends and collections without errors, whose events have JSON texts
  of one line below a mebibyte that decode to the event but for its metadata, opening the directory
  succeeds and yields exactly the decoded events, sets the clock to at least every stored clock, and keeps
  the order of the events of each trace unless a segment was rotated.
\<close>

theorem reopen_recovers_events:
  assumes "lf_reach env cd s" and "\<forall>e\<in>set (lf_cached s). storable cd e" and "\<forall>n. fe_open env' n"
  shows "\<exists>s'. NewLocalFileEventStore env' cd (lf_files s) = Inr s' \<and>
    mset (lf_cached s') = mset (map (reread cd) (lf_cached s)) \<and>
    (\<forall>e\<in>set (lf_cached s). (reread cd e)\<lparr>ev_Metadata := ev_Metadata e\<rparr> = e \<and> ev_Clock e \<le> lf_clock s') \<and>
    (lf_segment s = 0 \<longrightarrow>
       (\<forall>t. filter (\<lambda>e. ev_TraceID e = t) (lf_cached s') = map (reread cd) (filter (\<lambda>e. ev_TraceID e = t) (lf_cached s))))"
proof -
  let ?fs = "lf_files s" and ?es = "lf_cached s"
  obtain g where g: "disk_shares cd ?fs (lf_segment s) ?es g"
    using lf_reach_disk [OF assms(1)] by (auto simp: disk_holds_def)
  let ?new = "concat (map g (fmkeys ?fs))"
  have all: "filter is_segment (fmkeys ?fs) = fmkeys ?fs"
    using g by (auto simp: filter_id_conv disk_shares_def)
  have m: "mset ?new = mset ?es"
    using g by (simp only: mset_concat_keys disk_shares_def)
  then have new: "e \<in> set ?es" if "e \<in> set ?new" for e using that by (metis mset_eq_setD)
  have order: "filter (\<lambda>e. ev_TraceID e = t) ?new = filter (\<lambda>e. ev_TraceID e = t) ?es"
    if "lf_segment s = 0" for t
  proof -
    let ?h = "\<lambda>n. filter (\<lambda>e. ev_TraceID e = t) (g n)"
    have gn: "g n = filter (\<lambda>e. segment_name (ev_TraceID e) 0 = n) ?es" for n
      using g that by (simp add: disk_shares_def)
    have "concat (map ?h (fmkeys ?fs)) = ?h (segment_name t 0)"
    proof (rule concat_filter_one)
      show "segment_name t 0 \<in> set (fmkeys ?fs) \<or> ?h (segment_name t 0) = []"
        using g by (auto simp: disk_shares_def)
      show "?h n = []" if "n \<noteq> segment_name t 0" for n
        using that by (auto simp: gn filter_empty_conv)
    qed simp
    then show ?thesis by (simp add: filter_concat comp_def gn conj_absorb cong: conj_cong)
  qed
  have keep: "filter (\<lambda>e. ev_TraceID e = t) (map (reread cd) ?new) = map (reread cd) (filter (\<lambda>e. ev_TraceID e = t) ?new)" for t
    unfolding filter_map comp_def
    by (rule arg_cong [where f = "map (reread cd)"], rule filter_cong) (use new assms(2) reread_fields(2) in auto)
  have "ev_Clock e \<le> max_clock (map (reread cd) ?new) 0" if "e \<in> set ?es" for e
  proof -
    have "reread cd e \<in> set (map (reread cd) ?new)" using that m by (metis image_eqI mset_eq_setD set_map)
    from max_clock_bound [OF this] show ?thesis using that assms(2) reread_fields(1) by metis
  qed
  moreover have "NewLocalFileEventStore env' cd ?fs = Inr \<lparr>lf_segment = 0, lf_maxSize = defaultMaxSegmentSize,
      lf_cached = map (reread cd) ?new, lf_clock = max_clock (map (reread cd) ?new) 0, lf_files = ?fs\<rparr>"
    using load_segments_shares [OF g assms(2,3), of "fmkeys ?fs"]
    by (auto simp: NewLocalFileEventStore_def loadExisting_def all Let_def word_gt_0)
  ultimately show ?thesis using m order keep assms(2) reread_fields(3) by simp
qed

definition demo_files :: FileEnv where
  "demo_files = \<lparr>fe_open = \<lambda>_. True, fe_remove = \<lambda>_. True, fe_write = \<lambda>_ _. None\<rparr>"

text \<open>The JSON text of an event without payload, node, thread, step and metadata.\<close>

definition json_event :: "Event \<Rightarrow> string" where
  \<open>json_event e = ''{"id":"'' @ ev_ID e @ ''","type":"'' @ ev_Type e @ ''","timestamp":"1970-01-01T00:00:00.0000001Z","clock":'' @
     show_nat (unat (ev_Clock e)) @ '',"trace_id":"'' @ ev_TraceID e @ ''","deterministic":false,"hash":"'' @ ev_Hash e @ ''"}''\<close>

definition demo_stored :: "nat \<Rightarrow> string \<Rightarrow> Event" where
  "demo_stored n i = stamped demo_codec n (demo_event i ''t'')"

definition demo_file_codec :: Codec where
  "demo_file_codec = demo_codec\<lparr>cd_event := (\<lambda>e. Some (json_event e)),
     cd_unevent := (\<lambda>t. find (\<lambda>e. json_event e = t)
       [(demo_stored 1 ''a'')\<lparr>ev_Metadata := None\<rparr>, (demo_stored 2 ''b'')\<lparr>ev_Metadata := None\<rparr>])\<rparr>"

lemma demo_fields [simp]:
  "ev_ID (demo_stored n i) = i" "ev_Type (demo_stored n i) = ''node.end''" "ev_TraceID (demo_stored n i) = ''t''"
  "ev_Clock (demo_stored n i) = of_nat n" "length (ev_Hash (demo_stored n i)) = 64"
  by (simp_all add: demo_stored_def stamped_def demo_event_def NewEvent_def)

lemma digits: "show_nat 1 = ''1''" "show_nat 2 = ''2''"
  by code_simp+

lemma demo_text: "length (json_event (demo_stored 1 ''a'')) < 1000"
  by (simp add: json_event_def digits del: One_nat_def)

definition demo_dir :: LocalFileEventStore where
  "demo_dir = fst (LF_Append demo_files demo_file_codec empty_dir [demo_event ''a'' ''t'', demo_event ''b'' ''t''])"

lemma demo_dir_append:
  "LF_Append demo_files demo_file_codec empty_dir [demo_event ''a'' ''t'', demo_event ''b'' ''t''] = (demo_dir, None)"
  "lf_cached demo_dir = [demo_stored 1 ''a'', demo_stored 2 ''b'']" "lf_segment demo_dir = 0"
proof -
  have "stamp demo_file_codec 0 (demo_event ''a'' ''t'') = (1, demo_stored 1 ''a'')"
    "stamp demo_file_codec 1 (demo_event ''b'' ''t'') = (2, demo_stored 2 ''b'')"
    by (simp_all add: stamp_def demo_stored_def stamped_def Seal_def computeHash_def demo_event_def NewEvent_def
        demo_file_codec_def Let_def)
  then show "LF_Append demo_files demo_file_codec empty_dir [demo_event ''a'' ''t'', demo_event ''b'' ''t''] = (demo_dir, None)"
    "lf_cached demo_dir = [demo_stored 1 ''a'', demo_stored 2 ''b'']" "lf_segment demo_dir = 0"
    using demo_text
    by (simp_all add: demo_dir_def empty_dir_def appendToFileLocked_def rotate_def write_file_def demo_files_def
        demo_file_codec_def Let_def split_def defaultMaxSegmentSize_def)
qed

lemma demo_storable: "storable demo_file_codec (demo_stored 1 ''a'')" "storable demo_file_codec (demo_stored 2 ''b'')"
proof -
  have "CHR 0x0A \<notin> set (ev_Hash (demo_stored n i))" for n i
    using sha256_hex_digits by (fastforce simp: demo_stored_def stamped_def)
  then show "storable demo_file_codec (demo_stored 1 ''a'')" "storable demo_file_codec (demo_stored 2 ''b'')"
    by (simp_all add: storable_def demo_file_codec_def json_event_def is_space_def digits del: One_nat_def)
qed

theorem reopen_recovers_events_witness:
  "lf_reach demo_files demo_file_codec demo_dir \<and>
   (\<exists>s'. NewLocalFileEventStore demo_files demo_file_codec (lf_files demo_dir) = Inr s' \<and>
     filter (\<lambda>e. ev_TraceID e = ''t'') (lf_cached s') =
       map (reread demo_file_codec) (filter (\<lambda>e. ev_TraceID e = ''t'') [demo_stored 1 ''a'', demo_stored 2 ''b'']))"
proof -
  have r: "lf_reach demo_files demo_file_codec demo_dir"
    using open_empty_dir demo_dir_append(1) by (rule lf_append [OF lf_new])
  have st: "\<forall>e\<in>set (lf_cached demo_dir). storable demo_file_codec e"
    unfolding demo_dir_append(2) using demo_storable by simp
  have o: "\<forall>n. fe_open demo_files n" by (simp add: demo_files_def)
  have "lf_segment demo_dir = 0" by (rule demo_dir_append(3))
  with reopen_recovers_events [OF r st o] r show ?thesis unfolding demo_dir_append(2) by auto
qed

text \<open>
  Reopening sorts the segments by name, so the events of different traces come back grouped by trace,
  not in the order of their clocks.
\<close>

text \<open>
  An event whose JSON text is a mebibyte or longer is accepted, cached and written, and the
  directory can never be opened again: the reader's line buffer is too small for that line.
\<close>

theorem long_event_blocks_reopen:
  assumes "cd_event cd (snd (stamp cd 0 e)) = Some t" and "CHR 0x0A \<notin> set t" and "1048576 \<le> length t"
    and "fe_open env (segment_name (ev_TraceID e) 0)"
    and "\<forall>d. fe_write env (segment_name (ev_TraceID e) 0) d = None"
  shows "\<exists>s. LF_Append env cd empty_dir [e] = (s, None) \<and>
    NewLocalFileEventStore env cd (lf_files s) = Inl (Errorf ''bufio.Scanner: token too long'')"
proof -
  let ?n = "segment_name (ev_TraceID e) 0"
  obtain clk e' where st: "stamp cd 0 e = (clk, e')" by fastforce
  have tr: "ev_TraceID e' = ev_TraceID e" using stamp_simps(3) [of cd 0 e] st by simp
  let ?s = "empty_dir\<lparr>lf_clock := clk, lf_cached := [e'], lf_files := fmupd ?n (t @ [CHR 0x0A]) fmempty\<rparr>"
  have ap: "LF_Append env cd empty_dir [e] = (?s, None)"
    using assms st tr
    by (simp add: empty_dir_def appendToFileLocked_def rotate_def write_file_def Let_def fmupd_idem)
  have "split_on CHR 0x0A (t @ [CHR 0x0A]) = [t, []]"
    using assms(2) split_on_append_sep [of "CHR 0x0A" t "[]"] by simp
  then have "readSegmentFile env cd (lf_files ?s) ?n = Inl (Errorf ''bufio.Scanner: token too long'')"
    using assms(3,4) by (simp add: readSegmentFile_def scan_lines_def)
  moreover have "fmkeys (lf_files ?s) = [?n]"
    by (simp add: fmkeys_def sorted_list_of_fset.rep_eq)
  ultimately show ?thesis
    using ap by (intro exI [of _ ?s]) (simp add: NewLocalFileEventStore_def loadExisting_def)
qed

end
