(* ===== verification/Event_Recorder.thy ===== *)
theory Event_Recorder
  imports Event_Files
begin

text \<open>
  The event recorder: it stamps events with its own logical clock, its trace and its thread, and hands
  each of them to an event log. The log is an interface with several implementations; the locale
  \<open>event_log\<close> states what the recorder relies on (one event appended is one sealed event at the end
  of the log, its clock kept) and both stores satisfy it, the file store even when a write fails. The
  wall clock is an argument of every call: the pairs \<open>tm\<close> hold the two readings \<open>NewEvent\<close> takes.
\<close>

subsection \<open>Operations\<close>

record EventRecorder =
  rc_clock :: LogicalClock
  rc_traceID :: string
  rc_threadID :: string

definition NewEventRecorder :: "string \<Rightarrow> string \<Rightarrow> EventRecorder" where
  "NewEventRecorder trace thread = \<lparr>rc_clock = NewLogicalClock, rc_traceID = trace, rc_threadID = thread\<rparr>"

type_synonym stamp_time = "nat \<times> gotime"

text \<open>
  \<open>record\<close>: \<open>app\<close> is the log's \<open>Append\<close> of one event, \<open>opt\<close> the caller's changes to the event.
\<close>

definition record_event ::
  "('s \<Rightarrow> Event \<Rightarrow> 's) \<Rightarrow> Codec \<Rightarrow> stamp_time \<Rightarrow> EventType \<Rightarrow> (Event \<Rightarrow> Event) \<Rightarrow> EventRecorder \<times> 's \<Rightarrow> EventRecorder \<times> 's" where
  "record_event app cd tm typ opt rs =
     (let (r, s) = rs; (c, v) = Tick (rc_clock r);
          e = (NewEvent (fst tm) (snd tm) typ v)\<lparr>ev_TraceID := rc_traceID r, ev_ThreadID := rc_threadID r\<rparr>
      in (r\<lparr>rc_clock := c\<rparr>, app s (Seal cd (opt e))))"

definition meta :: "string \<Rightarrow> gval \<Rightarrow> Event \<Rightarrow> Event" where
  "meta k v e = e\<lparr>ev_Metadata := Some (fmupd k v (case ev_Metadata e of Some m \<Rightarrow> m | None \<Rightarrow> fmempty))\<rparr>"

definition nondeterministic :: "Event \<Rightarrow> Event" where
  "nondeterministic e = e\<lparr>ev_Deterministic := False\<rparr>"

definition pl :: "string option \<Rightarrow> Event \<Rightarrow> Event" where
  "pl t e = e\<lparr>ev_Payload := t\<rparr>"

type_synonym 's recorder_call = "('s \<Rightarrow> Event \<Rightarrow> 's) \<Rightarrow> Codec \<Rightarrow> EventRecorder \<times> 's \<Rightarrow> EventRecorder \<times> 's"

definition RecordModelCall ::
  "stamp_time \<Rightarrow> stamp_time \<Rightarrow> string \<Rightarrow> string \<Rightarrow> gval list \<Rightarrow> string \<Rightarrow> TokenUsage \<Rightarrow> goint \<Rightarrow> rat \<Rightarrow> 's recorder_call" where
  "RecordModelCall t1 t2 model provider messages content tokens durationMs cost app cd rs =
     record_event app cd t2 ''llm.call.end''
       (\<lambda>e. pl (cd_LLM cd \<lparr>lp_Model = model, lp_Provider = provider, lp_Messages = messages,
                lp_Tokens = tokens, lp_Content = content, lp_Chunks = 0, lp_DurationMs = durationMs,
                lp_Cost = cost\<rparr>) (nondeterministic e))
       (record_event app cd t1 ''llm.call.start''
          (\<lambda>e. meta ''provider'' (VStr provider) (meta ''model'' (VStr model) (nondeterministic e))) rs)"

definition RecordLLMChunk :: "stamp_time \<Rightarrow> string \<Rightarrow> string \<Rightarrow> 's recorder_call" where
  "RecordLLMChunk t model chunk app cd =
     record_event app cd t ''llm.call.chunk''
       (\<lambda>e. meta ''chunk'' (VStr chunk) (meta ''model'' (VStr model) (nondeterministic e)))"

definition RecordToolCall ::
  "stamp_time \<Rightarrow> stamp_time \<Rightarrow> string \<Rightarrow> gmap \<Rightarrow> gval \<Rightarrow> goint \<Rightarrow> goint \<Rightarrow> string \<Rightarrow> 's recorder_call" where
  "RecordToolCall t1 t2 toolName arguments result durationMs retryCount errStr app cd rs =
     record_event app cd t2 ''tool.call.result''
       (\<lambda>e. let e' = pl (cd_Tool cd \<lparr>tp_ToolName = toolName, tp_Arguments = arguments, tp_Result = result,
                tp_DurationMs = durationMs, tp_Error = errStr, tp_RetryCount = retryCount\<rparr>) e
            in if errStr \<noteq> [] then nondeterministic e' else e')
       (record_event app cd t1 ''tool.call.start'' (meta ''tool'' (VStr toolName)) rs)"

definition RecordSubAgentCall ::
  "stamp_time \<Rightarrow> stamp_time \<Rightarrow> string \<Rightarrow> gval \<Rightarrow> gval \<Rightarrow> goint \<Rightarrow> goint \<Rightarrow> string \<Rightarrow> 's recorder_call" where
  "RecordSubAgentCall t1 t2 name input outp depth durationMs errStr app cd rs =
     record_event app cd t2 ''subagent.call.end''
       (\<lambda>e. let e' = pl (cd_SubAgent cd \<lparr>ap_SubAgentName = name, ap_Input = VNil, ap_Output = outp,
                ap_Depth = depth, ap_DurationMs = durationMs, ap_Error = errStr\<rparr>) e
            in if errStr \<noteq> [] then nondeterministic e' else e')
       (record_event app cd t1 ''subagent.call.start''
          (pl (cd_SubAgent cd \<lparr>ap_SubAgentName = name, ap_Input = input, ap_Output = VNil,
             ap_Depth = depth, ap_DurationMs = 0, ap_Error = []\<rparr>)) rs)"

definition RecordSessionValue :: "stamp_time \<Rightarrow> string \<Rightarrow> gval \<Rightarrow> 's recorder_call" where
  "RecordSessionValue t key v app cd =
     record_event app cd t ''session.value.set'' (pl (cd_Session cd \<lparr>vp_Key = key, vp_Value = v\<rparr>))"

definition RecordSessionTransfer :: "stamp_time \<Rightarrow> string \<Rightarrow> string \<Rightarrow> string \<Rightarrow> gval \<Rightarrow> 's recorder_call" where
  "RecordSessionTransfer t fromAgent toAgent reason input app cd =
     record_event app cd t ''session.transfer''
       (pl (cd_Transfer cd \<lparr>xp_FromAgent = fromAgent, xp_ToAgent = toAgent, xp_Reason = reason, xp_Input = input\<rparr>))"

definition RecordStateWrite :: "stamp_time \<Rightarrow> string \<Rightarrow> gval \<Rightarrow> gval \<Rightarrow> string \<Rightarrow> 's recorder_call" where
  "RecordStateWrite t channel oldValue newValue reducer app cd =
     record_event app cd t ''state.write''
       (pl (cd_State cd \<lparr>sp_Channel = channel, sp_OldValue = oldValue, sp_NewValue = newValue, sp_Reducer = reducer\<rparr>))"

definition RecordMemoryWrite :: "stamp_time \<Rightarrow> string \<Rightarrow> string \<Rightarrow> string \<Rightarrow> gval \<Rightarrow> rat \<Rightarrow> 's recorder_call" where
  "RecordMemoryWrite t store operation key v score app cd =
     record_event app cd t ''memory.write''
       (pl (cd_Memory cd \<lparr>mp_Store = store, mp_Operation = operation, mp_Key = key, mp_Value = v, mp_Score = score\<rparr>))"

definition RecordMemoryRead :: "stamp_time \<Rightarrow> string \<Rightarrow> string \<Rightarrow> rat \<Rightarrow> 's recorder_call" where
  "RecordMemoryRead t store key score app cd =
     record_event app cd t ''memory.read''
       (pl (cd_Memory cd \<lparr>mp_Store = store, mp_Operation = [], mp_Key = key, mp_Value = VNil, mp_Score = score\<rparr>))"

definition RecordApproval :: "stamp_time \<Rightarrow> string \<Rightarrow> string \<Rightarrow> gval \<Rightarrow> string \<Rightarrow> goint \<Rightarrow> 's recorder_call" where
  "RecordApproval t requestID action ctx decision latencyMs app cd =
     record_event app cd t ''approval.request''
       (pl (cd_Approval cd \<lparr>ap_RequestID = requestID, ap_Action = action, ap_Context = ctx,
          ap_Decision = decision, ap_LatencyMs = latencyMs\<rparr>))"

definition RecordError :: "stamp_time \<Rightarrow> string \<Rightarrow> 's recorder_call" where
  "RecordError t errMsg app cd = record_event app cd t ''error'' (meta ''error'' (VStr errMsg))"

definition RecordRetry :: "stamp_time \<Rightarrow> string \<Rightarrow> 's recorder_call" where
  "RecordRetry t detail app cd = record_event app cd t ''retry'' (meta ''detail'' (VStr detail))"

text \<open>The callbacks of the graph engine; an error is the text of \<open>err.Error()\<close>.\<close>

definition meta_err :: "string option \<Rightarrow> Event \<Rightarrow> Event" where
  "meta_err err e = (case err of Some m \<Rightarrow> meta ''error'' (VStr m) e | None \<Rightarrow> e)"

definition OnRunStart :: "stamp_time \<Rightarrow> string \<Rightarrow> string \<Rightarrow> 's recorder_call" where
  "OnRunStart t graphName threadID app cd =
     record_event app cd t ''graph.start'' (meta ''graph_name'' (VStr graphName))"

definition OnRunEnd :: "stamp_time \<Rightarrow> string \<Rightarrow> string \<Rightarrow> string option \<Rightarrow> 's recorder_call" where
  "OnRunEnd t graphName threadID err app cd =
     record_event app cd t ''graph.end'' (\<lambda>e. meta_err err (meta ''graph_name'' (VStr graphName) e))"

definition OnStepStart :: "stamp_time \<Rightarrow> goint \<Rightarrow> goint \<Rightarrow> 's recorder_call" where
  "OnStepStart t step taskCount app cd =
     record_event app cd t ''step.start'' (\<lambda>e. meta ''task_count'' (VInt taskCount) (e\<lparr>ev_Step := step\<rparr>))"

definition OnStepEnd :: "stamp_time \<Rightarrow> goint \<Rightarrow> string option \<Rightarrow> 's recorder_call" where
  "OnStepEnd t step err app cd =
     record_event app cd t ''step.end'' (\<lambda>e. meta_err err (e\<lparr>ev_Step := step\<rparr>))"

definition OnNodeStart :: "stamp_time \<Rightarrow> string \<Rightarrow> goint \<Rightarrow> 's recorder_call" where
  "OnNodeStart t nodeName step app cd =
     record_event app cd t ''node.start'' (\<lambda>e. e\<lparr>ev_Node := nodeName, ev_Step := step\<rparr>)"

definition OnNodeEnd :: "stamp_time \<Rightarrow> string \<Rightarrow> goint \<Rightarrow> gval \<Rightarrow> string option \<Rightarrow> 's recorder_call" where
  "OnNodeEnd t nodeName step outp err app cd =
     record_event app cd t ''node.end'' (\<lambda>e. meta_err err (e\<lparr>ev_Node := nodeName, ev_Step := step\<rparr>))"

definition OnCheckpointSave :: "stamp_time \<Rightarrow> string \<Rightarrow> string \<Rightarrow> goint \<Rightarrow> 's recorder_call" where
  "OnCheckpointSave t threadID checkpointID step app cd =
     record_event app cd t ''checkpoint.created''
       (\<lambda>e. meta ''checkpoint_id'' (VStr checkpointID) (e\<lparr>ev_ThreadID := threadID, ev_Step := step\<rparr>))"

definition OnCheckpointLoad :: "stamp_time \<Rightarrow> string \<Rightarrow> string \<Rightarrow> goint \<Rightarrow> 's recorder_call" where
  "OnCheckpointLoad t threadID checkpointID step app cd =
     record_event app cd t ''checkpoint.restored''
       (\<lambda>e. meta ''checkpoint_id'' (VStr checkpointID) (e\<lparr>ev_ThreadID := threadID, ev_Step := step\<rparr>))"

definition OnCheckpointUpdate :: "stamp_time \<Rightarrow> string \<Rightarrow> string \<Rightarrow> 's recorder_call" where
  "OnCheckpointUpdate t threadID asNode app cd =
     record_event app cd t ''state.write'' (\<lambda>e. e\<lparr>ev_ThreadID := threadID, ev_Node := asNode\<rparr>)"

definition OnInterrupt :: "stamp_time \<Rightarrow> string list \<Rightarrow> goint \<Rightarrow> 's recorder_call" where
  "OnInterrupt t nodeNames step app cd =
     record_event app cd t ''interrupt''
       (\<lambda>e. meta ''interrupt_nodes'' (VSlice TStr (map VStr nodeNames)) (e\<lparr>ev_Step := step\<rparr>))"

definition OnResume :: "stamp_time \<Rightarrow> string \<Rightarrow> 's recorder_call" where
  "OnResume t threadID app cd = record_event app cd t ''resume'' (\<lambda>e. e\<lparr>ev_ThreadID := threadID\<rparr>)"

subsection \<open>Calls as data\<close>

datatype rec_call =
    CModelCall stamp_time stamp_time string string "gval list" string TokenUsage goint rat
  | CLLMChunk stamp_time string string
  | CToolCall stamp_time stamp_time string gmap gval goint goint string
  | CSubAgentCall stamp_time stamp_time string gval gval goint goint string
  | CSessionValue stamp_time string gval
  | CSessionTransfer stamp_time string string string gval
  | CStateWrite stamp_time string gval gval string
  | CMemoryWrite stamp_time string string string gval rat
  | CMemoryRead stamp_time string string rat
  | CApproval stamp_time string string gval string goint
  | CError stamp_time string
  | CRetry stamp_time string
  | CRunStart stamp_time string string
  | CRunEnd stamp_time string string "string option"
  | CStepStart stamp_time goint goint
  | CStepEnd stamp_time goint "string option"
  | CNodeStart stamp_time string goint
  | CNodeEnd stamp_time string goint gval "string option"
  | CCheckpointSave stamp_time string string goint
  | CCheckpointLoad stamp_time string string goint
  | CCheckpointUpdate stamp_time string string
  | CInterrupt stamp_time "string list" goint
  | CResume stamp_time string

primrec perform :: "rec_call \<Rightarrow> 's recorder_call" where
  "perform (CModelCall t u m p ms c tk d co) = RecordModelCall t u m p ms c tk d co"
| "perform (CLLMChunk t m c) = RecordLLMChunk t m c"
| "perform (CToolCall t u n a r d k e) = RecordToolCall t u n a r d k e"
| "perform (CSubAgentCall t u n i q d k e) = RecordSubAgentCall t u n i q d k e"
| "perform (CSessionValue t k v) = RecordSessionValue t k v"
| "perform (CSessionTransfer t f g r i) = RecordSessionTransfer t f g r i"
| "perform (CStateWrite t c q n r) = RecordStateWrite t c q n r"
| "perform (CMemoryWrite t s q k v sc) = RecordMemoryWrite t s q k v sc"
| "perform (CMemoryRead t s k sc) = RecordMemoryRead t s k sc"
| "perform (CApproval t q a c d l) = RecordApproval t q a c d l"
| "perform (CError t m) = RecordError t m"
| "perform (CRetry t m) = RecordRetry t m"
| "perform (CRunStart t g h) = OnRunStart t g h"
| "perform (CRunEnd t g h e) = OnRunEnd t g h e"
| "perform (CStepStart t n k) = OnStepStart t n k"
| "perform (CStepEnd t n e) = OnStepEnd t n e"
| "perform (CNodeStart t n k) = OnNodeStart t n k"
| "perform (CNodeEnd t n k q e) = OnNodeEnd t n k q e"
| "perform (CCheckpointSave t h c k) = OnCheckpointSave t h c k"
| "perform (CCheckpointLoad t h c k) = OnCheckpointLoad t h c k"
| "perform (CCheckpointUpdate t h n) = OnCheckpointUpdate t h n"
| "perform (CInterrupt t ns k) = OnInterrupt t ns k"
| "perform (CResume t h) = OnResume t h"

text \<open>The event types a call is meant to leave in the log.\<close>

primrec yields :: "rec_call \<Rightarrow> EventType list" where
  "yields (CModelCall t u m p ms c tk d co) = [''llm.call.start'', ''llm.call.end'']"
| "yields (CLLMChunk t m c) = [''llm.call.chunk'']"
| "yields (CToolCall t u n a r d k e) = [''tool.call.start'', ''tool.call.result'']"
| "yields (CSubAgentCall t u n i q d k e) = [''subagent.call.start'', ''subagent.call.end'']"
| "yields (CSessionValue t k v) = [''session.value.set'']"
| "yields (CSessionTransfer t f g r i) = [''session.transfer'']"
| "yields (CStateWrite t c q n r) = [''state.write'']"
| "yields (CMemoryWrite t s q k v sc) = [''memory.write'']"
| "yields (CMemoryRead t s k sc) = [''memory.read'']"
| "yields (CApproval t q a c d l) = [''approval.request'']"
| "yields (CError t m) = [''error'']"
| "yields (CRetry t m) = [''retry'']"
| "yields (CRunStart t g h) = [''graph.start'']"
| "yields (CRunEnd t g h e) = [''graph.end'']"
| "yields (CStepStart t n k) = [''step.start'']"
| "yields (CStepEnd t n e) = [''step.end'']"
| "yields (CNodeStart t n k) = [''node.start'']"
| "yields (CNodeEnd t n k q e) = [''node.end'']"
| "yields (CCheckpointSave t h c k) = [''checkpoint.created'']"
| "yields (CCheckpointLoad t h c k) = [''checkpoint.restored'']"
| "yields (CCheckpointUpdate t h n) = [''state.write'']"
| "yields (CInterrupt t ns k) = [''interrupt'']"
| "yields (CResume t h) = [''resume'']"

text \<open>Changes that leave an event's type, clock and trace alone.\<close>

definition keeps_stamp :: "(Event \<Rightarrow> Event) \<Rightarrow> bool" where
  "keeps_stamp f \<longleftrightarrow> (\<forall>e. ev_Type (f e) = ev_Type e \<and> ev_Clock (f e) = ev_Clock e \<and> ev_TraceID (f e) = ev_TraceID e)"

lemma stamp_kept [simp]:
  "ev_Type (meta k v e) = ev_Type e" "ev_Clock (meta k v e) = ev_Clock e" "ev_TraceID (meta k v e) = ev_TraceID e"
  "ev_Type (pl t e) = ev_Type e" "ev_Clock (pl t e) = ev_Clock e" "ev_TraceID (pl t e) = ev_TraceID e"
  "ev_Type (nondeterministic e) = ev_Type e" "ev_Clock (nondeterministic e) = ev_Clock e"
  "ev_TraceID (nondeterministic e) = ev_TraceID e"
  "ev_Type (meta_err err e) = ev_Type e" "ev_Clock (meta_err err e) = ev_Clock e"
  "ev_TraceID (meta_err err e) = ev_TraceID e"
  by (simp_all add: meta_def pl_def nondeterministic_def meta_err_def split: option.split)

type_synonym script = "(stamp_time \<times> EventType \<times> (Event \<Rightarrow> Event)) list"

definition play :: "('s \<Rightarrow> Event \<Rightarrow> 's) \<Rightarrow> Codec \<Rightarrow> script \<Rightarrow> EventRecorder \<times> 's \<Rightarrow> EventRecorder \<times> 's" where
  "play app cd sc rs = fold (\<lambda>(t, typ, f). record_event app cd t typ f) sc rs"

lemmas recorder_call_defs =
  RecordModelCall_def RecordLLMChunk_def RecordToolCall_def RecordSubAgentCall_def RecordSessionValue_def
  RecordSessionTransfer_def RecordStateWrite_def RecordMemoryWrite_def RecordMemoryRead_def
  RecordApproval_def RecordError_def RecordRetry_def OnRunStart_def OnRunEnd_def OnStepStart_def
  OnStepEnd_def OnNodeStart_def OnNodeEnd_def OnCheckpointSave_def OnCheckpointLoad_def
  OnCheckpointUpdate_def OnInterrupt_def OnResume_def

text \<open>A call plays a script: its types in order, with changes that keep the stamps.\<close>

definition scripted ::
  "('s \<Rightarrow> Event \<Rightarrow> 's) \<Rightarrow> Codec \<Rightarrow> (EventRecorder \<times> 's \<Rightarrow> EventRecorder \<times> 's) \<Rightarrow> EventType list \<Rightarrow> bool" where
  "scripted app cd F typs \<longleftrightarrow>
     (\<exists>sc. F = play app cd sc \<and> map (\<lambda>(t, typ, f). typ) sc = typs \<and> (\<forall>(t, typ, f)\<in>set sc. keeps_stamp f))"

lemma scripted_one: "keeps_stamp f \<Longrightarrow> scripted app cd (record_event app cd t typ f) [typ]"
  unfolding scripted_def by (rule exI [of _ "[(t, typ, f)]"]) (simp add: play_def fun_eq_iff)

lemma scripted_two:
  "keeps_stamp f \<Longrightarrow> keeps_stamp g \<Longrightarrow>
   scripted app cd (\<lambda>rs. record_event app cd u typ' g (record_event app cd t typ f rs)) [typ, typ']"
  unfolding scripted_def by (rule exI [of _ "[(t, typ, f), (u, typ', g)]"]) (simp add: play_def fun_eq_iff)

lemma scripted_perform: "scripted app cd (perform c app cd) (yields c)"
  by (cases c)
    (simp_all add: recorder_call_defs [abs_def] scripted_one scripted_two keeps_stamp_def Let_def)

lemma play_append: "play app cd (sc @ ss) = play app cd ss \<circ> play app cd sc"
  by (simp add: play_def fun_eq_iff)

lemma scripted_performs:
  "scripted app cd (fold (\<lambda>c. perform c app cd) cs) (concat (map yields cs))"
proof (induction cs)
  case Nil
  show ?case unfolding scripted_def by (rule exI [of _ "[]"]) (simp add: play_def fun_eq_iff)
next
  case (Cons c cs)
  obtain sc where sc: "perform c app cd = play app cd sc" "map (\<lambda>(t, typ, f). typ) sc = yields c"
      "\<forall>(t, typ, f)\<in>set sc. keeps_stamp f"
    using scripted_perform [of app cd c] by (auto simp: scripted_def)
  obtain ss where ss: "fold (\<lambda>c. perform c app cd) cs = play app cd ss"
      "map (\<lambda>(t, typ, f). typ) ss = concat (map yields cs)" "\<forall>(t, typ, f)\<in>set ss. keeps_stamp f"
    using Cons by (auto simp: scripted_def)
  show ?case unfolding scripted_def
    by (rule exI [of _ "sc @ ss"]) (use sc(2,3) ss(2,3) in \<open>auto simp: play_append sc(1) ss(1)\<close>)
qed

subsection \<open>The interface of an event log\<close>

text \<open>What a recorder of trace \<open>t\<close> should have left behind after the calls \<open>cs\<close>.\<close>

definition recorded :: "Codec \<Rightarrow> string \<Rightarrow> rec_call list \<Rightarrow> Event list \<Rightarrow> bool" where
  "recorded cd t cs es \<longleftrightarrow> map ev_Type es = concat (map yields cs) \<and>
     map ev_Clock es = map of_nat [1..<Suc (length es)] \<and> (\<forall>e\<in>set es. ev_TraceID e = t \<and> sealed cd e)"

locale event_log =
  fixes cd :: Codec
    and append1 :: "'s \<Rightarrow> Event \<Rightarrow> 's"
    and events_of :: "'s \<Rightarrow> Event list"
    and stream :: "'s \<Rightarrow> EventFilter \<Rightarrow> sliceIterator"
  assumes append1_events: "ev_Clock e \<noteq> 0 \<Longrightarrow> events_of (append1 s e) = events_of s @ [Seal cd e]"
    and stream_events: "collect (stream s f) = filter (Matches f) (events_of s)"
begin

lemma play_extends:
  assumes "\<forall>(t, typ, f)\<in>set sc. keeps_stamp f" and "unat (lc_value (rc_clock r)) + length sc < 2 ^ 64"
  shows "\<exists>es. events_of (snd (play append1 cd sc (r, s))) = events_of s @ es \<and>
    map ev_Type es = map (\<lambda>(t, typ, f). typ) sc \<and>
    map ev_Clock es = map (\<lambda>i. lc_value (rc_clock r) + of_nat i) [1..<Suc (length sc)] \<and>
    (\<forall>e\<in>set es. ev_TraceID e = rc_traceID r \<and> sealed cd e)"
  using assms
proof (induction sc arbitrary: r s)
  case (Cons x sc)
  obtain t ty f where x: "x = (t, ty, f)" by (cases x)
  define c where "c = lc_value (rc_clock r)"
  define e where "e = Seal cd (f ((NewEvent (fst t) (snd t) ty (c + 1))
      \<lparr>ev_TraceID := rc_traceID r, ev_ThreadID := rc_threadID r\<rparr>))"
  let ?r = "r\<lparr>rc_clock := (rc_clock r)\<lparr>lc_value := c + 1\<rparr>\<rparr>"
  have f: "keeps_stamp f" using Cons.prems(1) x by simp
  have small: "unat c + Suc (length sc) < 2 ^ 64" using Cons.prems(2) by (simp add: c_def)
  then have c1: "unat (c + 1) = unat c + 1" by (simp add: unat_word_ariths)
  then have nz: "c + 1 \<noteq> 0" by (metis add_is_0 one_neq_zero unat_0)
  have e: "ev_Type e = ty" "ev_Clock e = c + 1" "ev_TraceID e = rc_traceID r" "sealed cd e"
    using f by (simp_all add: e_def keeps_stamp_def NewEvent_def)
  have one: "record_event append1 cd t ty f (r, s) = (?r, append1 s e)"
    by (simp add: record_event_def Tick_def e_def c_def Let_def)
  have ev: "events_of (append1 s e) = events_of s @ [e]"
    using append1_events [of e s] e(2) nz by (simp add: e_def)
  have u: "[Suc 0..<Suc (Suc (length sc))] = Suc 0 # map Suc [Suc 0..<Suc (length sc)]"
    by (simp add: map_Suc_upt upt_conv_Cons del: upt_Suc)
  have "\<exists>es. events_of (snd (play append1 cd sc (?r, append1 s e))) = events_of (append1 s e) @ es \<and>
      map ev_Type es = map (\<lambda>(t, typ, f). typ) sc \<and>
      map ev_Clock es = map (\<lambda>i. lc_value (rc_clock ?r) + of_nat i) [1..<Suc (length sc)] \<and>
      (\<forall>e\<in>set es. ev_TraceID e = rc_traceID ?r \<and> sealed cd e)"
    by (rule Cons.IH) (use Cons.prems(1) small c1 in simp_all)
  then obtain es where es: "events_of (snd (play append1 cd sc (?r, append1 s e))) = events_of (append1 s e) @ es"
      "map ev_Type es = map (\<lambda>(t, typ, f). typ) sc"
      "map ev_Clock es = map (\<lambda>i. c + 1 + of_nat i) [1..<Suc (length sc)]"
      "\<forall>e\<in>set es. ev_TraceID e = rc_traceID r \<and> sealed cd e"
    by auto
  show ?case
    by (rule exI [of _ "e # es"])
      (use es e ev one in \<open>simp add: play_def x c_def [symmetric] u ac_simps o_def del: upt_Suc\<close>)
qed (simp add: play_def)

lemma performs_extend:
  assumes "unat (lc_value (rc_clock r)) + length (concat (map yields cs)) < 2 ^ 64"
  shows "\<exists>es. events_of (snd (fold (\<lambda>c. perform c append1 cd) cs (r, s))) = events_of s @ es \<and>
    map ev_Type es = concat (map yields cs) \<and>
    map ev_Clock es = map (\<lambda>i. lc_value (rc_clock r) + of_nat i) [1..<Suc (length (concat (map yields cs)))] \<and>
    (\<forall>e\<in>set es. ev_TraceID e = rc_traceID r \<and> sealed cd e)"
proof -
  obtain sc where sc: "fold (\<lambda>c. perform c append1 cd) cs = play append1 cd sc"
      "map (\<lambda>(t, typ, f). typ) sc = concat (map yields cs)" "\<forall>(t, typ, f)\<in>set sc. keeps_stamp f"
    using scripted_performs [of append1 cd cs] by (auto simp: scripted_def)
  have "length sc = length (concat (map yields cs))" using arg_cong [OF sc(2), of length] by simp
  with play_extends [OF sc(3)] assms sc show ?thesis by metis
qed

text \<open>A reader that asks for the recorder's trace sees exactly what was recorded.\<close>

lemma trace_streamed:
  assumes "events_of s' = events_of s @ es" and "\<forall>e\<in>set es. ev_TraceID e = t" and "t \<noteq> []"
    and "\<forall>e\<in>set (events_of s). ev_TraceID e \<noteq> t"
  shows "collect (stream s' (no_filter\<lparr>ef_TraceID := t\<rparr>)) = es"
proof -
  have "Matches (no_filter\<lparr>ef_TraceID := t\<rparr>) e \<longleftrightarrow> ev_TraceID e = t" for e
    using assms(3) by (simp add: Matches_def no_filter_def)
  then show ?thesis
    using assms by (simp add: stream_events filter_empty_conv)
qed

lemma recorder_streamed:
  assumes "length (concat (map yields cs)) < 2 ^ 64" and "t \<noteq> []"
    and "\<forall>e\<in>set (events_of s). ev_TraceID e \<noteq> t"
  shows "recorded cd t cs
    (collect (stream (snd (fold (\<lambda>c. perform c append1 cd) cs (NewEventRecorder t h, s)))
       (no_filter\<lparr>ef_TraceID := t\<rparr>)))"
proof -
  obtain es where es: "events_of (snd (fold (\<lambda>c. perform c append1 cd) cs (NewEventRecorder t h, s))) =
        events_of s @ es" "map ev_Type es = concat (map yields cs)"
      "map ev_Clock es = map of_nat [1..<Suc (length (concat (map yields cs)))]"
      "\<forall>e\<in>set es. ev_TraceID e = t \<and> sealed cd e"
    using performs_extend [of "NewEventRecorder t h" cs s] assms(1)
    by (auto simp: NewEventRecorder_def NewLogicalClock_def)
  moreover have "length es = length (concat (map yields cs))" using arg_cong [OF es(2), of length] by simp
  ultimately show ?thesis
    using trace_streamed [OF es(1) _ assms(2,3)] by (simp add: recorded_def)
qed

end

subsection \<open>Both stores are event logs\<close>

interpretation mem_log: event_log cd "\<lambda>s e. fst (MES_Append cd s [e])" es_events MES_Stream for cd
  by unfold_locales (simp_all add: append_event_def stamp_preset MES_Stream_collect)

lemma appendToFileLocked_cached [simp]: "lf_cached (fst (appendToFileLocked env cd e s)) = lf_cached s"
  by (auto simp: appendToFileLocked_def Let_def split: option.split prod.split)

interpretation file_log: event_log cd "\<lambda>s e. fst (LF_Append env cd s [e])" lf_cached LF_Stream for env cd
proof unfold_locales
  fix e :: Event and s :: LocalFileEventStore
  assume "ev_Clock e \<noteq> 0"
  let ?s = "s\<lparr>lf_clock := lf_clock s, lf_cached := lf_cached s @ [Seal cd e]\<rparr>"
  have "lf_cached (fst (appendToFileLocked env cd (Seal cd e) ?s)) = lf_cached s @ [Seal cd e]" by simp
  then show "lf_cached (fst (LF_Append env cd s [e])) = lf_cached s @ [Seal cd e]"
    using \<open>ev_Clock e \<noteq> 0\<close> by (simp add: stamp_preset split_def Let_def split: option.split)
qed (simp add: LF_Stream_def collect_drop)

text \<open>When the file system and the encoder never fail, neither does an append, and the directory keeps up.\<close>

definition no_failures :: "FileEnv \<Rightarrow> Codec \<Rightarrow> bool" where
  "no_failures env cd \<longleftrightarrow> (\<forall>n. fe_open env n) \<and> (\<forall>n d. fe_write env n d = None) \<and> (\<forall>e. cd_event cd e \<noteq> None)"

lemma append_succeeds:
  assumes "no_failures env cd"
  shows "\<exists>s'. LF_Append env cd s [e] = (s', None)"
proof -
  have "snd (appendToFileLocked env cd e' s') = None" for e' s'
    using assms by (auto simp: no_failures_def appendToFileLocked_def write_file_def Let_def split: option.split)
  then show ?thesis by (simp add: split_def Let_def split: option.split)
qed

lemma record_event_appends: "\<exists>r' e. record_event app cd tm ty f (r, s) = (r', app s e)"
  by (auto simp: record_event_def split_def Let_def)

lemma play_reach:
  assumes "no_failures env cd"
  shows "lf_reach env cd s \<Longrightarrow> lf_reach env cd (snd (play (\<lambda>s e. fst (LF_Append env cd s [e])) cd sc (r, s)))"
proof (induction sc arbitrary: r s)
  case (Cons x sc)
  obtain tm ty f where x: "x = (tm, ty, f)" by (cases x)
  obtain r' e where one: "record_event (\<lambda>s e. fst (LF_Append env cd s [e])) cd tm ty f (r, s) = (r', fst (LF_Append env cd s [e]))"
    using record_event_appends [of "\<lambda>s e. fst (LF_Append env cd s [e])" cd tm ty f r s] by blast
  obtain s' where "LF_Append env cd s [e] = (s', None)" using append_succeeds [OF assms] by blast
  with lf_append [OF Cons.prems this] have "lf_reach env cd (fst (LF_Append env cd s [e]))" by (simp del: LF_Append.simps)
  from Cons.IH [OF this, of r'] show ?case by (simp add: play_def x one del: LF_Append.simps)
qed (simp add: play_def)

lemma performs_disk:
  fixes r :: EventRecorder and cs :: "rec_call list"
  assumes "no_failures env cd" "lf_reach env cd s"
  defines "final \<equiv> snd (fold (\<lambda>c. perform c (\<lambda>s e. fst (LF_Append env cd s [e])) cd) cs (r, s))"
  shows "disk_holds cd (lf_files final) (lf_segment final) (lf_cached final)"
proof -
  obtain sc where "fold (\<lambda>c. perform c (\<lambda>s e. fst (LF_Append env cd s [e])) cd) cs = play (\<lambda>s e. fst (LF_Append env cd s [e])) cd sc"
    using scripted_performs [of "\<lambda>s e. fst (LF_Append env cd s [e])" cd cs] by (auto simp: scripted_def)
  then show ?thesis unfolding final_def using play_reach [OF assms(1,2)] by (intro lf_reach_disk) simp
qed



end
