(* ===== verification/Graph_Props.thy ===== *)
theory Graph_Props
  imports Graph_Build
begin

text \<open>
  Properties of building, validating and compiling graphs: every graph the builder can produce is
  well formed, the search of \<open>computeReachable\<close> computes graph reachability, validation accepts
  exactly the graphs whose nodes are all reachable over edges and conditional edges, and what the
  schema's reducer annotations do to the channels of a compiled graph.
\<close>

subsection \<open>Graphs made by the builder\<close>

inductive built :: "stateGraph \<Rightarrow> bool" where
  built_New: "built (NewStateGraph schema)"
| built_AddNode: "built g \<Longrightarrow> built (AddNode g name fn)"
| built_AddNodeWithOptions: "built g \<Longrightarrow> built (AddNodeWithOptions g name fn opts)"
| built_AddEdge: "built g \<Longrightarrow> AddEdge g src dst = Inr g' \<Longrightarrow> built g'"
| built_AddConditionalEdges: "built g \<Longrightarrow> AddConditionalEdges g src cond mapping = Inr g' \<Longrightarrow> built g'"
| built_AddBranch: "built g \<Longrightarrow> AddBranch g src cond thn = Inr g' \<Longrightarrow> built g'"
| built_AddDataEdge: "built g \<Longrightarrow> AddDataEdge g src dst ms = Inr g' \<Longrightarrow> built g'"
| built_SetEntryPoint: "built g \<Longrightarrow> SetEntryPoint g node = Inr g' \<Longrightarrow> built g'"
| built_SetFinishPoint: "built g \<Longrightarrow> SetFinishPoint g node = Inr g' \<Longrightarrow> built g'"
| built_AddChannel: "built g \<Longrightarrow> built (AddChannel g name ch)"
| built_SetReducer: "built g \<Longrightarrow> built (SetReducer g name r)"
| built_AddChannelWithReducer: "built g \<Longrightarrow> built (AddChannelWithReducer g name ch ro)"
| built_SetNodeTriggerMode: "built g \<Longrightarrow> built (SetNodeTriggerMode g mode)"
| built_WithInputSchema: "built g \<Longrightarrow> built (WithInputSchema g schema)"
| built_WithOutputSchema: "built g \<Longrightarrow> built (WithOutputSchema g schema)"

definition joins :: "(string \<Rightarrow> bool) \<Rightarrow> string \<Rightarrow> string \<Rightarrow> bool" where
  "joins known src dst \<longleftrightarrow> (known src \<or> src = Start) \<and> (known dst \<or> dst = End)"

definition wf_graph :: "stateGraph \<Rightarrow> bool" where
  "wf_graph g \<longleftrightarrow>
     list_all (\<lambda>e. joins (has_node g) (e_From e) (e_To e)) (g_edges g) \<and>
     list_all (\<lambda>ce. has_node g (ce_From ce) \<and>
        list_all (\<lambda>t. has_node g t \<or> t = End) (mapping_targets (ce_Mapping ce))) (g_conditionalEdges g) \<and>
     list_all (\<lambda>b. has_node g (b_From b)) (g_branches g) \<and>
     list_all (\<lambda>d. joins (has_node g) (de_From d) (de_To d)) (g_dataEdges g) \<and>
     (g_entryPoint g = [] \<or> g_entryPoint g = End \<or> has_node g (g_entryPoint g)) \<and>
     list_all (\<lambda>f. has_node g f \<or> f = Start) (g_finishPoints g) \<and>
     (\<forall>k n. fmlookup (g_nodes g) k = Some n \<longrightarrow> n_Name n = k)"

lemma mapping_targets_values: "(\<forall>t\<in>set (mapping_targets m). P t) \<longleftrightarrow> (\<forall>k t. fmlookup m k = Some t \<longrightarrow> P t)"
proof -
  have "set (mapping_targets m) = {t. \<exists>k. fmlookup m k = Some t}"
    by (force simp: mapping_targets_def fmlookup_dom_iff image_iff)
  then show ?thesis by blast
qed

lemma has_node_upd [simp]:
  "has_node (g\<lparr>g_edges := es\<rparr>) = has_node g" "has_node (g\<lparr>g_dataEdges := ds\<rparr>) = has_node g"
  "has_node (g\<lparr>g_conditionalEdges := cs\<rparr>) = has_node g" "has_node (g\<lparr>g_branches := bs\<rparr>) = has_node g"
  "has_node (g\<lparr>g_entryPoint := p\<rparr>) = has_node g" "has_node (g\<lparr>g_finishPoints := fs\<rparr>) = has_node g"
  "has_node (g\<lparr>g_channels := m\<rparr>) = has_node g" "has_node (g\<lparr>g_reducers := r\<rparr>) = has_node g"
  "has_node (g\<lparr>g_inputSchema := v\<rparr>) = has_node g" "has_node (g\<lparr>g_outputSchema := v\<rparr>) = has_node g"
  "has_node (g\<lparr>g_NodeTriggerMode := md\<rparr>) = has_node g"
  "has_node (g\<lparr>g_nodes := fmupd name n (g_nodes g)\<rparr>) x \<longleftrightarrow> x = name \<or> has_node g x"
  by (auto simp: has_node_def)

lemma wf_more_nodes:
  assumes "wf_graph g" "n_Name n = name"
  shows "wf_graph (g\<lparr>g_nodes := fmupd name n (g_nodes g)\<rparr>)"
  using assms unfolding wf_graph_def joins_def
  by (elim conjE, intro conjI) (auto elim!: list.pred_mono_strong split: if_splits)

lemma find_None_all: "List.find P xs = None \<longleftrightarrow> list_all (\<lambda>x. \<not> P x) xs"
  by (auto simp: find_None_iff list_all_iff)

lemma NewNode_Name [simp]: "n_Name (NewNode name fn) = name"
  by (simp add: NewNode_def)

lemma built_wf: "built g \<Longrightarrow> wf_graph g"
proof (induction rule: built.induct)
  case (built_AddEdge g src dst g')
  then show ?case by (auto simp: AddEdge_def wf_graph_def joins_def split: if_splits)
next
  case (built_AddConditionalEdges g src cond mapping g')
  then show ?case
    by (auto simp: AddConditionalEdges_def wf_graph_def find_None_all split: if_splits option.splits)
next
  case (built_AddBranch g src cond thn g')
  then show ?case by (auto simp: AddBranch_def wf_graph_def split: if_splits)
next
  case (built_AddDataEdge g src dst ms g')
  then show ?case by (auto simp: AddDataEdge_def wf_graph_def joins_def split: if_splits)
next
  case (built_SetEntryPoint g node g')
  then show ?case by (auto simp: SetEntryPoint_def wf_graph_def split: if_splits)
next
  case (built_SetFinishPoint g node g')
  then show ?case by (auto simp: SetFinishPoint_def wf_graph_def split: if_splits)
next
  case (built_AddNode g name fn)
  then show ?case by (simp add: AddNode_def wf_more_nodes)
next
  case (built_AddNodeWithOptions g name fn opts)
  then show ?case unfolding AddNodeWithOptions_def Let_def by (intro wf_more_nodes) simp_all
next
  case (built_AddChannelWithReducer g name ch ro)
  then show ?case by (auto simp: AddChannelWithReducer_def wf_graph_def split: option.split)
qed (simp_all add: NewStateGraph_def AddChannel_def SetReducer_def
    SetNodeTriggerMode_def WithInputSchema_def WithOutputSchema_def wf_graph_def split: option.split)

text \<open>
  C39: whatever sequence of builder calls made a graph, its edges and data edges lead from known nodes
  or the start marker to known nodes or the end marker, its conditional edges and branches start at known
  nodes, the mapped targets of conditional edges are known nodes or the end marker, its entry point is
  unset, the end marker or a known node, its finish points are known nodes or the start marker, and every
  node is stored under its own name. What a branch returns when it runs is not checked by the builder.
\<close>

theorem built_graph_wf:
  assumes "built g"
  shows "(\<forall>e\<in>set (g_edges g). (has_node g (e_From e) \<or> e_From e = Start) \<and> (has_node g (e_To e) \<or> e_To e = End)) \<and>
     (\<forall>d\<in>set (g_dataEdges g). (has_node g (de_From d) \<or> de_From d = Start) \<and> (has_node g (de_To d) \<or> de_To d = End)) \<and>
     (\<forall>ce\<in>set (g_conditionalEdges g). has_node g (ce_From ce) \<and>
        (\<forall>k t. fmlookup (ce_Mapping ce) k = Some t \<longrightarrow> has_node g t \<or> t = End)) \<and>
     (\<forall>b\<in>set (g_branches g). has_node g (b_From b)) \<and>
     (g_entryPoint g = [] \<or> g_entryPoint g = End \<or> has_node g (g_entryPoint g)) \<and>
     (\<forall>f\<in>set (g_finishPoints g). has_node g f \<or> f = Start) \<and>
     (\<forall>k n. fmlookup (g_nodes g) k = Some n \<longrightarrow> n_Name n = k)"
  using built_wf [OF assms] unfolding wf_graph_def joins_def list_all_iff
  by (simp add: mapping_targets_values)

definition demo_chain :: stateGraph where
  "demo_chain = (NewStateGraph (VMap fmempty))
     \<lparr>g_nodes := fmupd ''a'' (NewNode ''a'' None) fmempty,
      g_edges := [\<lparr>e_From = Start, e_To = ''a''\<rparr>, \<lparr>e_From = ''a'', e_To = End\<rparr>],
      g_entryPoint := ''a'', g_finishPoints := [''a'']\<rparr>"

lemma demo_chain_fields:
  "g_edges demo_chain = [\<lparr>e_From = Start, e_To = ''a''\<rparr>, \<lparr>e_From = ''a'', e_To = End\<rparr>]"
  "g_entryPoint demo_chain = ''a''" "g_finishPoints demo_chain = [''a'']"
  "g_nodes demo_chain = fmupd ''a'' (NewNode ''a'' None) fmempty"
  "g_conditionalEdges demo_chain = []" "g_branches demo_chain = []"
  "g_stateSchema demo_chain = VMap fmempty"
  by (simp_all add: demo_chain_def NewStateGraph_def)

lemma demo_chain_built: "built demo_chain"
proof -
  let ?g0 = "AddNode (NewStateGraph (VMap fmempty)) ''a'' None"
  let ?g1 = "?g0\<lparr>g_edges := [\<lparr>e_From = Start, e_To = ''a''\<rparr>], g_entryPoint := ''a''\<rparr>"
  have "built ?g0" by (intro built.intros)
  moreover have "AddEdge ?g0 Start ''a'' = Inr ?g1"
    by (simp add: AddEdge_def AddNode_def NewStateGraph_def has_node_def End_def)
  ultimately have "built ?g1" by (rule built_AddEdge)
  moreover have "AddEdge ?g1 ''a'' End = Inr demo_chain"
    by (simp add: AddEdge_def AddNode_def NewStateGraph_def has_node_def Start_def demo_chain_def)
  ultimately show ?thesis by (rule built_AddEdge)
qed

theorem built_graph_wf_witness:
  "\<exists>g. AddDataEdge demo_chain Start ''a'' [] = Inr g \<and> g_dataEdges g \<noteq> [] \<and>
     (\<forall>d\<in>set (g_dataEdges g). has_node g (de_To d) \<or> de_To d = End) \<and>
     has_node g (g_entryPoint g) \<and> (\<forall>f\<in>set (g_finishPoints g). has_node g f \<or> f = Start)"
proof -
  obtain g where g: "AddDataEdge demo_chain Start ''a'' [] = Inr g" "g_dataEdges g \<noteq> []" "g_entryPoint g = ''a''"
    by (simp add: AddDataEdge_def demo_chain_fields has_node_def)
  from built_graph_wf [OF built_AddDataEdge [OF demo_chain_built g(1)]] g show ?thesis by (simp add: End_def)
qed

subsection \<open>Reachability\<close>

definition leads :: "stateGraph \<Rightarrow> (string \<times> string) set" where
  "leads g = {(a, b). b \<in> set (successors g a)}"

text \<open>While the search runs: all found nodes are reachable, and only queued ones have unseen successors.\<close>

lemma reach_loop_correct:
  assumes "set queue \<subseteq> set seen" and "set seen \<subseteq> {n. (s, n) \<in> (leads g)\<^sup>*}" and "s \<in> set seen"
    and "\<forall>x\<in>set seen - set queue. set (successors g x) \<subseteq> set seen"
  shows "set (reach_loop g seen queue) = {n. (s, n) \<in> (leads g)\<^sup>*}"
  using assms
proof (induction g seen queue rule: reach_loop.induct)
  case (1 g seen)
  have "n \<in> set seen" if "(s, n) \<in> (leads g)\<^sup>*" for n
    using that by induction (use 1 in \<open>auto simp: leads_def\<close>)
  with 1 show ?case by auto
next
  case (2 g seen current queue)
  obtain seen' queue' where fl: "foldl enqueue (seen, queue) (successors g current) = (seen', queue')"
    by (cases "foldl enqueue (seen, queue) (successors g current)")
  from foldl_enqueue [OF fl] obtain new where new: "seen' = seen @ new" "queue' = queue @ new"
    "set new = set (successors g current) - set seen" by blast
  have cur: "(s, current) \<in> (leads g)\<^sup>*" using 2(2,3) by auto
  have "set (reach_loop g seen' queue') = {n. (s, n) \<in> (leads g)\<^sup>*}"
  proof (rule 2(1) [OF fl [symmetric]])
    show "set queue' \<subseteq> set seen'" using 2(2) new by auto
    show "set seen' \<subseteq> {n. (s, n) \<in> (leads g)\<^sup>*}"
      using 2(3) new cur by (auto simp: leads_def intro: rtrancl_into_rtrancl)
    show "s \<in> set seen'" using 2(4) new by auto
    show "\<forall>x\<in>set seen' - set queue'. set (successors g x) \<subseteq> set seen'"
      using 2(5) new by auto
  qed
  with fl show ?case by simp
qed

lemma set_computeReachable:
  "g_entryPoint g \<noteq> [] \<Longrightarrow> set (computeReachable g) = {n. (g_entryPoint g, n) \<in> (leads g)\<^sup>*}"
  unfolding computeReachable_def
  by (simp add: reach_loop_correct [of "[g_entryPoint g]" "[g_entryPoint g]" "g_entryPoint g"] del: reach_loop.simps)

text \<open>
  C38: the breadth-first search ends on every graph and finds exactly the nodes that a path of edges and
  conditional-edge targets joins to the entry point.
\<close>

theorem computeReachable_correct:
  "set (computeReachable g) =
     (if g_entryPoint g = [] then {} else {n. (g_entryPoint g, n) \<in> {(a, b). b \<in> set (successors g a)}\<^sup>*})"
  using set_computeReachable [of g] by (auto simp: computeReachable_def leads_def)

lemma Validate_None_iff:
  "Validate fadd tag g = None \<longleftrightarrow>
     g_entryPoint g \<noteq> [] \<and> g_finishPoints g \<noteq> [] \<and>
     (\<forall>name. has_node g name \<longrightarrow> (g_entryPoint g, name) \<in> (leads g)\<^sup>*) \<and>
     ValidateStateSchema fadd tag g = None"
proof (cases "g_entryPoint g = []")
  case False
  have "List.find (\<lambda>name. name \<notin> set (computeReachable g)) (fmkeys (g_nodes g)) = None \<longleftrightarrow>
      (\<forall>name. has_node g name \<longrightarrow> (g_entryPoint g, name) \<in> (leads g)\<^sup>*)"
    unfolding find_None_all list_all_iff by (auto simp: set_computeReachable [OF False] has_node_def fmlookup_dom_iff)
  then show ?thesis
    using False by (cases "List.find (\<lambda>name. name \<notin> set (computeReachable g)) (fmkeys (g_nodes g))")
      (auto simp: Validate_def split: option.split)
qed (simp add: Validate_def)

text \<open>A fold fails exactly when it meets an element that fails whatever came before.\<close>

lemma foldl_err_ok:
  assumes "\<And>a x. (\<exists>b. f a x = Inr b) \<longleftrightarrow> P x"
  shows "(\<exists>b. foldl_err f a xs = Inr b) \<longleftrightarrow> (\<forall>x\<in>set xs. P x)"
proof (induction xs arbitrary: a)
  case (Cons x xs)
  with assms [of a x] show ?case by (cases "f a x") auto
qed simp

definition tag_ok :: "string \<Rightarrow> bool" where
  "tag_ok s \<longleftrightarrow> s = [] \<or> (\<forall>pair\<in>set (split_on (CHR '','') s). case split_eq pair of
     None \<Rightarrow> True
   | Some (k, v) \<Rightarrow> TrimSpace k = ''reducer'' \<longrightarrow> TrimSpace v \<in> {''add'', ''append'', ''merge''})"

lemma parseAnnotation_ok:
  "(\<exists>an. parseAnnotation fadd s = Inr an) \<longleftrightarrow>
   (\<forall>pair\<in>set (split_on (CHR '','') s). case split_eq pair of
     None \<Rightarrow> True
   | Some (k, v) \<Rightarrow> TrimSpace k = ''reducer'' \<longrightarrow> TrimSpace v \<in> {''add'', ''append'', ''merge''})"
  unfolding parseAnnotation_def
  by (rule foldl_err_ok) (auto simp: parse_pair_def reducers_def Let_def split: option.splits if_splits)

lemma schema_fields_ok:
  "(\<exists>infos. foldl_err (add_field_info fadd tag) m fs = Inr infos) \<longleftrightarrow> (\<forall>(f, exported, t)\<in>set fs. exported \<longrightarrow> tag_ok (tag f))"
proof (rule foldl_err_ok)
  fix m :: "(string, fieldInfo) fmap" and x :: "string \<times> bool \<times> gotype"
  obtain f ex ty where x: "x = (f, ex, ty)" by (cases x)
  show "(\<exists>b. add_field_info fadd tag m x = Inr b) \<longleftrightarrow> (case x of (f, exported, t) \<Rightarrow> exported \<longrightarrow> tag_ok (tag f))"
    using parseAnnotation_ok [of fadd "tag f"]
    by (cases "parseAnnotation fadd (tag f)") (auto simp: x add_field_info_def processField_def tag_ok_def Let_def)
qed

lemma schema_ok:
  "(\<exists>infos. validateStateSchema fadd tag schema = Inr infos) \<longleftrightarrow>
     schema \<noteq> VNil \<and> (case schema_struct schema of
        Some fs \<Rightarrow> \<forall>(f, exported, t)\<in>set fs. exported \<longrightarrow> tag_ok (tag f)
      | None \<Rightarrow> is_map_schema schema)"
  using schema_fields_ok [of fadd tag] by (auto simp: validateStateSchema_def split: option.split)

lemma leads_eq:
  "leads g = {(a, b). b \<noteq> End \<and> ((\<exists>e\<in>set (g_edges g). e_From e = a \<and> e_To e = b) \<or>
     has_node g b \<and> (\<exists>ce\<in>set (g_conditionalEdges g). ce_From ce = a \<and> (\<exists>k. fmlookup (ce_Mapping ce) k = Some b)))}"
proof -
  have "set (mapping_targets m) = {t. \<exists>k. fmlookup m k = Some t}" for m
    by (force simp: mapping_targets_def fmlookup_dom_iff image_iff)
  then show ?thesis by (auto simp: leads_def successors_def)
qed

lemma Compile_ok:
  "(\<exists>cg. Compile fadd tag g opts = Inr cg) \<longleftrightarrow> Validate fadd tag g = None"
proof -
  have "\<exists>infos. GetStateSchemaInfo fadd tag g = Inr infos" if "Validate fadd tag g = None"
    using that by (auto simp: Validate_None_iff ValidateStateSchema_def GetStateSchemaInfo_def split: sum.splits)
  then show ?thesis
    by (cases "Validate fadd tag g") (auto simp: Compile_def configureChannelsFromSchema_def Let_def split: sum.split)
qed


lemma demo_chain_valid: "Validate fadd tag demo_chain = None"
proof -
  have "(''a'', name) \<in> (leads demo_chain)\<^sup>*" if "has_node demo_chain name" for name
    using that by (auto simp: has_node_def demo_chain_fields split: if_splits)
  then show ?thesis
    by (simp add: Validate_None_iff demo_chain_fields ValidateStateSchema_def validateStateSchema_def is_map_schema_def)
qed

definition demo_conditional :: stateGraph where
  "demo_conditional = (AddNode demo_chain ''b'' None)\<lparr>g_conditionalEdges :=
     [\<lparr>ce_From = ''a'', ce_Condition = (\<lambda>s. (s, None)), ce_Mapping = fmap_of_list [(''yes'', ''b'')]\<rparr>]\<rparr>"

lemma demo_conditional_fields:
  "g_edges demo_conditional = g_edges demo_chain" "g_entryPoint demo_conditional = ''a''"
  "g_finishPoints demo_conditional = [''a'']" "g_stateSchema demo_conditional = VMap fmempty"
  "has_node demo_conditional n \<longleftrightarrow> n = ''a'' \<or> n = ''b''"
  "g_conditionalEdges demo_conditional = [\<lparr>ce_From = ''a'', ce_Condition = (\<lambda>s. (s, None)), ce_Mapping = fmap_of_list [(''yes'', ''b'')]\<rparr>]"
  by (auto simp: demo_conditional_def AddNode_def demo_chain_fields has_node_def)


text \<open>
  Validation does not look at branches: a graph with a node that only branches lead to is rejected,
  although the engine would schedule that node, and adding a branch never makes a rejected graph valid.
\<close>

theorem Validate_ignores_branches:
  assumes "AddBranch g src cond thn = Inr g'"
  shows "(Validate fadd tag g' = None \<longleftrightarrow> Validate fadd tag g = None)"
proof -
  have g': "g' = g\<lparr>g_branches := g_branches g @ [\<lparr>b_From = src, b_Condition = cond, b_Then = thn\<rparr>]\<rparr>"
    using assms by (auto simp: AddBranch_def split: if_splits)
  have "has_node g' = has_node g" by (intro ext) (simp add: g' has_node_def)
  then have "leads g' = leads g" by (simp add: leads_def successors_def g')
  with \<open>has_node g' = has_node g\<close> show ?thesis
    by (simp add: Validate_None_iff ValidateStateSchema_def) (simp add: g')
qed

definition demo_branch :: stateGraph where
  "demo_branch = (case AddBranch (AddNode demo_chain ''b'' None) ''a'' (\<lambda>s. (s, None)) (\<lambda>_. [''b'']) of
     Inl _ \<Rightarrow> demo_chain | Inr g \<Rightarrow> g)"

theorem Validate_ignores_branches_witness: "Validate (+) (\<lambda>_. []) demo_branch \<noteq> None"
proof -
  let ?g = "AddNode demo_chain ''b'' None"
  have b: "AddBranch ?g ''a'' (\<lambda>s. (s, None)) (\<lambda>_. [''b'']) = Inr demo_branch"
    by (simp add: demo_branch_def AddBranch_def AddNode_def has_node_def demo_chain_fields)
  have succ: "successors ?g x = []" if "x = ''a''" for x
    using that by (simp add: successors_def AddNode_def demo_chain_fields End_def Start_def)
  have "x = ''a'' \<Longrightarrow> n = ''a''" if "(x, n) \<in> (leads ?g)\<^sup>*" for x n
    using that by (induction rule: rtrancl_induct) (simp_all add: leads_def succ)
  from this [of "''a''" "''b''"] have "(''a'', ''b'') \<notin> (leads ?g)\<^sup>*" by auto
  moreover have "has_node ?g ''b''" "g_entryPoint ?g = ''a''"
    by (simp_all add: AddNode_def has_node_def demo_chain_fields)
  ultimately have "Validate (+) (\<lambda>_. []) ?g \<noteq> None"
    unfolding Validate_None_iff by metis
  with Validate_ignores_branches [OF b] show ?thesis by simp
qed

subsection \<open>Reducer annotations\<close>

text \<open>
  A reducer annotation does not accumulate, it compounds: the channel made for an int field
  annotated \<open>reducer=add\<close> adds the update to the current value and then adds the current value again,
  so a field that holds \<open>c\<close> holds \<open>2 * c + u\<close> after the update \<open>u\<close>, and a sequence of updates
  weighs the earlier ones by powers of two.
\<close>

theorem annotated_add_compounds:
  "snd (Get (foldl (\<lambda>ch u. fst (Update ch [VInt u]))
      (CreateReducerChannel fadd name TInt (reducers fadd ''add'')) us)) =
   Inr (VInt (foldl (\<lambda>c u. 2 * c + u) 0 us))"
proof -
  let ?base = "(NewBinaryOperatorAggregate (Some TInt) (IntAdd fadd))\<lparr>Key := name\<rparr>"
  let ?ch = "\<lambda>c. CReducerChannel (agg ?base (VInt c)) (AddReducer fadd)"
  have start: "CreateReducerChannel fadd name TInt (reducers fadd ''add'') = ?ch 0"
    by (simp add: CreateReducerChannel_def reducers_def NewBinaryOperatorAggregate_def createZeroValue_def)
  have "Update (agg ?base (VInt c)) [VInt (c + u)] = (agg ?base (VInt (2 * c + u)), Inr True)" for c u
    by (subst Update_agg) (simp_all add: NewBinaryOperatorAggregate_def IntAdd_def overwrite_free_def)
  then have step: "fst (Update (?ch c) [VInt u]) = ?ch (2 * c + u)" for c u
    by (simp add: reducer_combine_def BinaryOperatorAggregate_Get_def AddReducer_def del: Update.simps(6))
  have "foldl (\<lambda>ch u. fst (Update ch [VInt u])) (?ch c) us = ?ch (foldl (\<lambda>c u. 2 * c + u) c us)" for c
    by (induction us arbitrary: c) (simp_all only: foldl.simps step)
  then show ?thesis by (simp add: start BinaryOperatorAggregate_Get_def)
qed

end
