(* ===== verification/Scheduler.thy ===== *)
theory Scheduler
  imports Graph_Props
begin

text \<open>
  The scheduling half of \<open>pregel/engine.go\<close>: which nodes run next, as which tasks, and where the run
  is interrupted. A Go map of booleans used as a set is the list of its keys in the order of their
  insertion; where the code ranges over such a map, the argument \<open>perm\<close> gives the order in which Go
  enumerates the keys, and a theorem about the outcome holds for every \<open>perm\<close>. Fresh task identifiers
  come from \<open>ids\<close>; \<open>other\<close> formats the values that \<open>sprintv\<close> leaves open.
\<close>

subsection \<open>The engine\<close>

record deferredCheckpoint =
  dc_ThreadID :: string
  dc_CheckpointID :: string
  dc_Step :: int
  dc_Checkpoint :: gmap

record Engine =
  eng_graph :: stateGraph
  eng_checkpointer :: "MemorySaver option"
  eng_interrupts :: "string list"
  eng_interruptsAfter :: "string list"
  eng_recursionLimit :: int
  eng_debug :: bool
  eng_config :: RunnableConfig
  eng_maxConcurrency :: int
  eng_retryPolicy :: "RetryPolicy option"
  eng_currentCheckpoint :: "CheckpointData option"
  eng_channelVersions :: "(string, int) fmap"
  eng_versionsSeen :: "(string, (string, int) fmap) fmap"
  eng_deferredCheckpoints :: "deferredCheckpoint list"

definition NewEngine :: "stateGraph \<Rightarrow> (Engine \<Rightarrow> Engine) list \<Rightarrow> Engine" where
  "NewEngine g opts = foldl (\<lambda>e opt. opt e)
     \<lparr>eng_graph = g, eng_checkpointer = None, eng_interrupts = [], eng_interruptsAfter = [],
      eng_recursionLimit = 25, eng_debug = False, eng_config = NewRunnableConfig, eng_maxConcurrency = 10,
      eng_retryPolicy = None, eng_currentCheckpoint = None, eng_channelVersions = fmempty,
      eng_versionsSeen = fmempty, eng_deferredCheckpoints = []\<rparr> opts"

definition Engine_WithCheckpointer :: "MemorySaver option \<Rightarrow> Engine \<Rightarrow> Engine" where
  "Engine_WithCheckpointer cp e = e\<lparr>eng_checkpointer := cp\<rparr>"

definition Engine_WithInterrupts :: "string list \<Rightarrow> Engine \<Rightarrow> Engine" where
  "Engine_WithInterrupts nodes e = e\<lparr>eng_interrupts := fold List.insert nodes (eng_interrupts e)\<rparr>"

definition Engine_WithInterruptsAfter :: "string list \<Rightarrow> Engine \<Rightarrow> Engine" where
  "Engine_WithInterruptsAfter nodes e = e\<lparr>eng_interruptsAfter := fold List.insert nodes (eng_interruptsAfter e)\<rparr>"

definition Engine_WithRecursionLimit :: "int \<Rightarrow> Engine \<Rightarrow> Engine" where
  "Engine_WithRecursionLimit limit e = e\<lparr>eng_recursionLimit := limit\<rparr>"

definition Engine_WithDebug :: "bool \<Rightarrow> Engine \<Rightarrow> Engine" where
  "Engine_WithDebug debug e = e\<lparr>eng_debug := debug\<rparr>"

definition Engine_WithConfig :: "RunnableConfig \<Rightarrow> Engine \<Rightarrow> Engine" where
  "Engine_WithConfig cfg e = e\<lparr>eng_config := cfg\<rparr>"

definition Engine_WithMaxConcurrency :: "int \<Rightarrow> Engine \<Rightarrow> Engine" where
  "Engine_WithMaxConcurrency m e = (if m > 0 then e\<lparr>eng_maxConcurrency := m\<rparr> else e)"

definition Engine_WithRetryPolicy :: "RetryPolicy option \<Rightarrow> Engine \<Rightarrow> Engine" where
  "Engine_WithRetryPolicy policy e = e\<lparr>eng_retryPolicy := policy\<rparr>"

record Task =
  t_ID :: string
  t_Name :: string
  t_Func :: "nodefn option"
  t_Channels :: "string list"
  t_Path :: "string list"
  t_Triggers :: "string list"
  t_RetryPolicy :: "RetryPolicy option"

record TaskResult =
  r_Name :: string
  r_Output :: gval
  r_Err :: "gerror option"

subsection \<open>Next nodes\<close>

definition add_key :: "string list \<Rightarrow> string \<Rightarrow> string list" where
  "add_key xs x = (if x \<in> set xs then xs else xs @ [x])"

definition getNode :: "stateGraph \<Rightarrow> string \<Rightarrow> Node option" where
  "getNode g name = fmlookup (g_nodes g) name"

definition getTriggers :: "Node option \<Rightarrow> string list" where
  "getTriggers node = (case node of None \<Rightarrow> [] | Some n \<Rightarrow> n_Triggers n)"

text \<open>
  Phase 1: conditional edges. \<open>Inl\<close> is the early return with the nodes collected so far; the flag
  records whether the node has a conditional edge at all. The condition's error is only logged.
\<close>

fun cond_loop ::
  "(gval \<Rightarrow> string) \<Rightarrow> string \<Rightarrow> gval \<Rightarrow> string list \<Rightarrow> bool \<Rightarrow> ConditionalEdge list \<Rightarrow>
   string list + (string list \<times> bool)" where
  "cond_loop other node state nextNodes has [] = Inr (nextNodes, has)"
| "cond_loop other node state nextNodes has (ce # ces) =
     (if ce_From ce \<noteq> node then cond_loop other node state nextNodes has ces
      else (case fmlookup (ce_Mapping ce) (sprintv other (fst (ce_Condition ce state))) of
          None \<Rightarrow> cond_loop other node state nextNodes True ces
        | Some targetNode \<Rightarrow>
            if targetNode = End then Inl nextNodes
            else cond_loop other node state (add_key nextNodes targetNode) True ces))"

text \<open>Phase 2: regular edges, for a node without conditional edges.\<close>

fun edge_loop :: "string \<Rightarrow> string list \<Rightarrow> Edge list \<Rightarrow> string list + string list" where
  "edge_loop node nextNodes [] = Inr nextNodes"
| "edge_loop node nextNodes (e # es) =
     (if e_From e = node
      then (if e_To e = End then Inl nextNodes else edge_loop node (add_key nextNodes (e_To e)) es)
      else edge_loop node nextNodes es)"

text \<open>Phase 3: the target recorded in the state under \<open>_next\<close>, when nothing else was found.\<close>

fun next_name :: "gval \<Rightarrow> string option" where
  "next_name (VStr tv) = Some tv"
| "next_name (VSlice TIface (VStr s # _)) = Some s"
| "next_name _ = None"

definition resume_next :: "stateGraph \<Rightarrow> gval \<Rightarrow> string list \<Rightarrow> string list" where
  "resume_next g state nextNodes =
     (if nextNodes \<noteq> [] then nextNodes
      else (case Option.bind (Option.bind (as_map state) (\<lambda>st. fmlookup st ''_next'')) next_name of
          Some n \<Rightarrow> if has_node g n then [n] else []
        | None \<Rightarrow> []))"

text \<open>Phase 4: branches.\<close>

fun branch_loop :: "string \<Rightarrow> gval \<Rightarrow> string list \<Rightarrow> Branch list \<Rightarrow> string list" where
  "branch_loop node state nextNodes [] = nextNodes"
| "branch_loop node state nextNodes (b # bs) =
     (if b_From b = node
      then (case b_Condition b state of
          (_, Some err) \<Rightarrow> branch_loop node state nextNodes bs
        | (res, None) \<Rightarrow>
            branch_loop node state (foldl add_key nextNodes (filter (\<lambda>t. t \<noteq> End) (b_Then b res))) bs)
      else branch_loop node state nextNodes bs)"

definition getNextNodes :: "(gval \<Rightarrow> string) \<Rightarrow> stateGraph \<Rightarrow> string \<Rightarrow> gval \<Rightarrow> string list" where
  "getNextNodes other g node state =
     (case cond_loop other node state [] False (g_conditionalEdges g) of
        Inl nextNodes \<Rightarrow> nextNodes
      | Inr (nextNodes, hasConditional) \<Rightarrow>
          (case (if \<not> hasConditional \<and> nextNodes = [] then edge_loop node nextNodes (g_edges g) else Inr nextNodes) of
             Inl nextNodes \<Rightarrow> nextNodes
           | Inr nextNodes \<Rightarrow> branch_loop node state (resume_next g state nextNodes) (g_branches g)))"

subsection \<open>Tasks\<close>

definition createTask :: "string \<Rightarrow> Node \<Rightarrow> string list \<Rightarrow> string list \<Rightarrow> Task" where
  "createTask newID node chans triggers =
     \<lparr>t_ID = newID, t_Name = n_Name node, t_Func = n_Function node, t_Channels = chans, t_Path = [],
      t_Triggers = foldl add_key [] triggers, t_RetryPolicy = n_RetryPolicy node\<rparr>"

definition createTaskInfo :: "string \<Rightarrow> Node \<Rightarrow> string list \<Rightarrow> string list \<Rightarrow> Task" where
  "createTaskInfo newID node chans triggers =
     \<lparr>t_ID = newID, t_Name = n_Name node, t_Func = None, t_Channels = chans, t_Path = [],
      t_Triggers = foldl add_key [] triggers, t_RetryPolicy = n_RetryPolicy node\<rparr>"

definition resolveRetryPolicy :: "Engine \<Rightarrow> Task \<Rightarrow> RetryPolicy" where
  "resolveRetryPolicy e task =
     (case t_RetryPolicy task of
        Some p \<Rightarrow> p
      | None \<Rightarrow> (case eng_retryPolicy e of Some p \<Rightarrow> p | None \<Rightarrow> DefaultRetryPolicy))"

definition buildIncomingEdges :: "stateGraph \<Rightarrow> (string, string list) fmap" where
  "buildIncomingEdges g =
     foldl (\<lambda>adj e. fmupd (e_To e) ((case fmlookup adj (e_To e) of Some ps \<Rightarrow> ps | None \<Rightarrow> []) @ [e_From e]) adj)
       fmempty (g_edges g)"

definition allDone :: "(string, bool) fmap \<Rightarrow> string list \<Rightarrow> bool" where
  "allDone completedTasks preds = list_all (\<lambda>p. p = Start \<or> p = End \<or> flag completedTasks p) preds"

definition mk_task :: "bool \<Rightarrow> string \<Rightarrow> Node \<Rightarrow> string list \<Rightarrow> Task" where
  "mk_task forExecution newID node triggers =
     (if forExecution then createTask newID node triggers [] else createTaskInfo newID node triggers [])"

fun dag_loop ::
  "(string \<Rightarrow> string) \<Rightarrow> bool \<Rightarrow> stateGraph \<Rightarrow> (string, bool) fmap \<Rightarrow> (string, string list) fmap \<Rightarrow>
   string list \<Rightarrow> Task list \<times> string list \<Rightarrow> Task list \<times> string list" where
  "dag_loop ids forExecution g completedTasks incoming [] acc = acc"
| "dag_loop ids forExecution g completedTasks incoming (name # names) acc =
     (case getNode g name of
        None \<Rightarrow> dag_loop ids forExecution g completedTasks incoming names acc
      | Some n \<Rightarrow>
          if flag completedTasks name \<or>
             \<not> allDone completedTasks (case fmlookup incoming name of Some ps \<Rightarrow> ps | None \<Rightarrow> [])
          then dag_loop ids forExecution g completedTasks incoming names acc
          else (let ts = getTriggers (Some n);
                    triggers = (if ts = [] then fmkeys (g_channels g) else ts)
                in dag_loop ids forExecution g completedTasks incoming names
                     (fst acc @ [mk_task forExecution (ids name) n triggers],
                      foldl add_key (snd acc) triggers)))"

definition prepareNextTasksDAG ::
  "(string list \<Rightarrow> string list) \<Rightarrow> (string \<Rightarrow> string) \<Rightarrow> stateGraph \<Rightarrow> (string, bool) fmap \<Rightarrow> bool \<Rightarrow>
   Task list \<times> string list" where
  "prepareNextTasksDAG perm ids g completedTasks forExecution =
     dag_loop ids forExecution g completedTasks (buildIncomingEdges g)
       (map (\<lambda>k. n_Name (the (fmlookup (g_nodes g) k))) (perm (fmkeys (g_nodes g)))) ([], [])"

fun bsp_loop ::
  "(string \<Rightarrow> string) \<Rightarrow> bool \<Rightarrow> stateGraph \<Rightarrow> string list \<Rightarrow> string list \<Rightarrow> Task list \<times> string list \<Rightarrow>
   Task list \<times> string list" where
  "bsp_loop ids forExecution g names [] acc = acc"
| "bsp_loop ids forExecution g names (nodeName # nodeNames) acc =
     (case getNode g nodeName of
        None \<Rightarrow> bsp_loop ids forExecution g names nodeNames acc
      | Some n \<Rightarrow>
          (let ts = getTriggers (Some n); triggers = (if ts = [] then names else ts)
           in bsp_loop ids forExecution g names nodeNames
                (fst acc @ [mk_task forExecution (ids nodeName) n triggers], foldl add_key (snd acc) triggers)))"

definition prepareNextTasksWithMode ::
  "(gval \<Rightarrow> string) \<Rightarrow> (string list \<Rightarrow> string list) \<Rightarrow> (string \<Rightarrow> string) \<Rightarrow> stateGraph \<Rightarrow> Registry \<Rightarrow>
   (string, bool) fmap \<Rightarrow> string \<Rightarrow> gval \<Rightarrow> bool \<Rightarrow> gerror + (Task list \<times> string list)" where
  "prepareNextTasksWithMode other perm ids g registry completedTasks lastCompletedNode currentState forExecution =
     (if fmlen completedTasks = 0
      then (let entryPoint = g_entryPoint g
            in if entryPoint = [] then Inl (Errorf ''no entry point set'')
               else if entryPoint = End then Inr ([], [])
               else (case getNode g entryPoint of
                   None \<Rightarrow> Inl (NodeNotFoundError entryPoint)
                 | Some node \<Rightarrow>
                     (let ts = getTriggers (Some node);
                          triggers = (if ts = [] then Registry_Names registry else ts)
                      in Inr ([createTask (ids entryPoint) node triggers []], [''__start__'']))))
      else if g_NodeTriggerMode g = NodeTriggerAllPredecessor
        then Inr (prepareNextTasksDAG perm ids g completedTasks forExecution)
      else Inr (bsp_loop ids forExecution g (Registry_Names registry)
              (perm (getNextNodes other g lastCompletedNode currentState)) ([], [])))"

definition prepareNextTasks where
  "prepareNextTasks other perm ids g registry completedTasks lastCompletedNode currentState =
     prepareNextTasksWithMode other perm ids g registry completedTasks lastCompletedNode currentState True"

definition PrepareNextTasksForInspection where
  "PrepareNextTasksForInspection other perm ids g registry completedTasks lastCompletedNode currentState =
     prepareNextTasksWithMode other perm ids g registry completedTasks lastCompletedNode currentState False"

subsection \<open>Interrupts\<close>

definition All :: string where "All = ''*''"

definition shouldInterrupt :: "Engine \<Rightarrow> Task list \<Rightarrow> Task list" where
  "shouldInterrupt e tasks =
     (if eng_interrupts e = [] then []
      else filter (\<lambda>t. All \<in> set (eng_interrupts e) \<or> t_Name t \<in> set (eng_interrupts e)) tasks)"

fun after_loop :: "string list \<Rightarrow> TaskResult list \<Rightarrow> bool" where
  "after_loop names [] = False"
| "after_loop names (r # rs) =
     (if r_Err r \<noteq> None then after_loop names rs
      else if All \<in> set names \<or> r_Name r \<in> set names then True
      else after_loop names rs)"

definition shouldInterruptAfter :: "Engine \<Rightarrow> TaskResult list \<Rightarrow> bool" where
  "shouldInterruptAfter e results =
     (if eng_interruptsAfter e = [] then False else after_loop (eng_interruptsAfter e) results)"

end
