(* ===== verification/Scheduler_Props.thy ===== *)
theory Scheduler_Props
  imports Scheduler
begin

text \<open>
  What the scheduler guarantees: which nodes follow a node over conditional and regular edges, that
  only known nodes are scheduled, that the DAG mode schedules exactly the ready nodes, and that on
  acyclic graphs it always makes progress.
\<close>

subsection \<open>Insertion-ordered sets\<close>

lemma set_add_key [simp]: "set (add_key xs x) = insert x (set xs)"
  by (auto simp: add_key_def)

lemma distinct_add_key [simp]: "distinct (add_key xs x) \<longleftrightarrow> distinct xs"
  by (auto simp: add_key_def)

lemma set_foldl_add_key [simp]: "set (foldl add_key xs ys) = set xs \<union> set ys"
  by (induction ys arbitrary: xs) auto

lemma distinct_foldl_add_key [simp]: "distinct (foldl add_key xs ys) \<longleftrightarrow> distinct xs"
  by (induction ys arbitrary: xs) auto

subsection \<open>Following edges\<close>

lemma cond_loop_flag:
  "cond_loop other node state nx has ces = Inr (nx', has') \<Longrightarrow>
   has' \<longleftrightarrow> has \<or> (\<exists>ce\<in>set ces. ce_From ce = node)"
  by (induction other node state nx has ces rule: cond_loop.induct) (auto split: if_splits option.splits)

lemma cond_loop_none:
  "\<forall>ce\<in>set ces. ce_From ce \<noteq> node \<Longrightarrow> cond_loop other node state nx has ces = Inr (nx, has)"
  by (induction ces) auto

text \<open>
  Regular edges are only a fallback: for a node with a conditional edge, the nodes that follow do
  not depend on the graph's regular edges at all, whether or not the condition matched.
\<close>

theorem conditional_excludes_edges:
  assumes "ce \<in> set (g_conditionalEdges g)" and "ce_From ce = node"
  shows "getNextNodes other (g\<lparr>g_edges := es\<rparr>) node state = getNextNodes other g node state"
proof (cases "cond_loop other node state [] False (g_conditionalEdges g)")
  case (Inl nx)
  then show ?thesis by (simp add: getNextNodes_def)
next
  case (Inr r)
  obtain nx has where r: "r = (nx, has)" by (cases r)
  have "has" using cond_loop_flag [OF Inr [unfolded r]] assms by auto
  moreover have "resume_next (g\<lparr>g_edges := es\<rparr>) state = resume_next g state"
    by (intro ext) (simp add: resume_next_def split: option.split)
  ultimately show ?thesis using Inr r by (simp add: getNextNodes_def)
qed

definition demo_cond :: ConditionalEdge where
  "demo_cond = \<lparr>ce_From = ''a'', ce_Condition = (\<lambda>s. (VStr ''no'', None)), ce_Mapping = fmempty\<rparr>"

theorem conditional_excludes_edges_witness:
  "getNextNodes (\<lambda>_. []) (demo_chain\<lparr>g_conditionalEdges := [demo_cond], g_edges := []\<rparr>) ''a'' VNil =
   getNextNodes (\<lambda>_. []) (demo_chain\<lparr>g_conditionalEdges := [demo_cond]\<rparr>) ''a'' VNil"
  using conditional_excludes_edges [of demo_cond "demo_chain\<lparr>g_conditionalEdges := [demo_cond]\<rparr>" "''a''"
      "\<lambda>_. []" "[]" VNil]
  by (simp add: demo_cond_def)

lemma edge_loop_eq:
  "edge_loop node nx es =
     (let ts = map e_To (filter (\<lambda>e. e_From e = node) es)
      in if End \<in> set ts then Inl (foldl add_key nx (takeWhile (\<lambda>t. t \<noteq> End) ts)) else Inr (foldl add_key nx ts))"
  by (induction node nx es rule: edge_loop.induct) (auto simp: Let_def)

text \<open>
  For a node without conditional edges the targets of its regular edges follow; but the first edge
  to the end marker stops the search at that point: targets of edges added later, the recorded
  \<open>_next\<close> and all branches are then ignored.
\<close>

theorem regular_edges_next:
  assumes "\<forall>ce\<in>set (g_conditionalEdges g). ce_From ce \<noteq> node"
  shows "getNextNodes other g node state =
     (let ts = map e_To (filter (\<lambda>e. e_From e = node) (g_edges g))
      in if End \<in> set ts then foldl add_key [] (takeWhile (\<lambda>t. t \<noteq> End) ts)
         else branch_loop node state (resume_next g state (foldl add_key [] ts)) (g_branches g))"
  by (simp add: getNextNodes_def cond_loop_none [OF assms] edge_loop_eq Let_def)

theorem regular_edges_next_witness:
  "getNextNodes (\<lambda>_. []) (demo_chain\<lparr>g_edges := [\<lparr>e_From = ''a'', e_To = End\<rparr>, \<lparr>e_From = ''a'', e_To = ''b''\<rparr>]\<rparr>) ''a'' VNil = []"
  by (subst regular_edges_next) (simp_all add: demo_chain_fields Let_def)

subsection \<open>Only known nodes\<close>

definition targets_of :: "Branch list \<Rightarrow> string \<Rightarrow> gval \<Rightarrow> string set" where
  "targets_of bs node state =
     {t. t \<noteq> End \<and> (\<exists>b\<in>set bs. b_From b = node \<and> snd (b_Condition b state) = None \<and>
        t \<in> set (b_Then b (fst (b_Condition b state))))}"

abbreviation branch_targets :: "stateGraph \<Rightarrow> string \<Rightarrow> gval \<Rightarrow> string set" where
  "branch_targets g \<equiv> targets_of (g_branches g)"

lemma cond_loop_known:
  assumes "list_all (\<lambda>ce. list_all (\<lambda>t. has_node g t \<or> t = End) (mapping_targets (ce_Mapping ce))) ces"
    and "\<forall>n\<in>set nx. has_node g n" "distinct nx"
  shows "case cond_loop other node state nx has ces of
     Inl ns \<Rightarrow> (\<forall>n\<in>set ns. has_node g n) \<and> distinct ns
   | Inr r \<Rightarrow> (\<forall>n\<in>set (fst r). has_node g n) \<and> distinct (fst r)"
  using assms
proof (induction other node state nx has ces rule: cond_loop.induct)
  case (2 other node state nx has ce ces)
  have "has_node g t \<or> t = End" if "fmlookup (ce_Mapping ce) k = Some t" for k t
  proof -
    have "t \<in> set (mapping_targets (ce_Mapping ce))"
      using that by (auto simp: mapping_targets_def fmdomI intro!: image_eqI [of _ _ k])
    then show ?thesis using 2(4) by (auto simp: list_all_iff)
  qed
  with 2 show ?case by (auto split: option.split)
qed simp

lemma edge_loop_known:
  assumes "list_all (\<lambda>e. joins (has_node g) (e_From e) (e_To e)) es" and "\<forall>n\<in>set nx. has_node g n" "distinct nx"
  shows "case edge_loop node nx es of
     Inl ns \<Rightarrow> (\<forall>n\<in>set ns. has_node g n) \<and> distinct ns | Inr ns \<Rightarrow> (\<forall>n\<in>set ns. has_node g n) \<and> distinct ns"
  using assms
  by (induction node nx es rule: edge_loop.induct) (auto simp: joins_def)

lemma branch_loop_step:
  "branch_loop node state nx (b # bs) =
     branch_loop node state (foldl add_key nx (filter (\<lambda>t. t \<noteq> End)
       (if b_From b = node \<and> snd (b_Condition b state) = None then b_Then b (fst (b_Condition b state)) else []))) bs"
  by (cases "b_Condition b state") (auto split: option.split)

lemma branch_loop_known:
  "set (branch_loop node state nx bs) = set nx \<union> targets_of bs node state \<and>
   (distinct nx \<longrightarrow> distinct (branch_loop node state nx bs))"
proof (induction bs arbitrary: nx)
  case (Cons b bs)
  have "targets_of (b # bs) node state = targets_of bs node state \<union>
      set (filter (\<lambda>t. t \<noteq> End) (if b_From b = node \<and> snd (b_Condition b state) = None
        then b_Then b (fst (b_Condition b state)) else []))"
    by (auto simp: targets_of_def)
  with Cons.IH show ?case by (simp only: branch_loop_step) auto
qed (simp add: targets_of_def)

lemma getNextNodes_known:
  assumes "wf_graph g"
  shows "(\<forall>n\<in>set (getNextNodes other g node state). has_node g n \<or> n \<in> branch_targets g node state) \<and>
    distinct (getNextNodes other g node state)"
proof -
  have ok: "\<forall>n\<in>set ns. has_node g n" "distinct ns" if "resume_next g state nx = ns"
    "\<forall>n\<in>set nx. has_node g n" "distinct nx" for nx ns
    using that by (auto simp: resume_next_def split: if_splits option.splits)
  have conds: "list_all (\<lambda>ce. list_all (\<lambda>t. has_node g t \<or> t = End) (mapping_targets (ce_Mapping ce))) (g_conditionalEdges g)"
    and edges: "list_all (\<lambda>e. joins (has_node g) (e_From e) (e_To e)) (g_edges g)"
    using assms by (auto simp: wf_graph_def list_all_iff)
  have fin: "(\<forall>n\<in>set (branch_loop node state (resume_next g state nx) (g_branches g)). has_node g n \<or> n \<in> branch_targets g node state) \<and>
     distinct (branch_loop node state (resume_next g state nx) (g_branches g))"
    if "\<forall>n\<in>set nx. has_node g n" "distinct nx" for nx
    using branch_loop_known [of node state "resume_next g state nx" "g_branches g"] ok [OF refl that]
    by blast
  show ?thesis
  proof (cases "cond_loop other node state [] False (g_conditionalEdges g)")
    case (Inl nx)
    with cond_loop_known [OF conds, of "[]" other node state False] show ?thesis by (simp add: getNextNodes_def)
  next
    case (Inr r)
    obtain nx has where r: "r = (nx, has)" by (cases r)
    have nx: "\<forall>n\<in>set nx. has_node g n" "distinct nx"
      using cond_loop_known [OF conds, of "[]" other node state False] Inr r by simp_all
    show ?thesis
    proof (cases "\<not> has \<and> nx = []")
      case True
      with edge_loop_known [OF edges nx, of node] show ?thesis
        by (cases "edge_loop node nx (g_edges g)") (use fin in \<open>auto simp: getNextNodes_def Inr r\<close>)
    next
      case False
      then show ?thesis using fin [OF nx] by (auto simp: getNextNodes_def Inr r)
    qed
  qed
qed

subsection \<open>The tasks of a step\<close>

lemma t_Name_mk_task [simp]: "t_Name (mk_task f i n ts) = n_Name n"
  by (simp add: mk_task_def createTask_def createTaskInfo_def)

lemma wf_names: "wf_graph g \<Longrightarrow> getNode g k = Some n \<Longrightarrow> n_Name n = k"
  by (simp add: wf_graph_def getNode_def)

lemma has_node_dom: "has_node g k \<longleftrightarrow> k |\<in>| fmdom (g_nodes g)"
  by (auto simp: has_node_def fmlookup_dom_iff)

lemma getNode_has: "(\<exists>n. getNode g k = Some n) \<longleftrightarrow> has_node g k"
  by (auto simp: getNode_def has_node_def)

lemma bsp_loop_names:
  assumes "wf_graph g"
  shows "map t_Name (fst (bsp_loop ids f g names ns acc)) = map t_Name (fst acc) @ filter (has_node g) ns"
proof (induction ns arbitrary: acc)
  case (Cons n ns)
  then show ?case
    using wf_names [OF assms, of n] getNode_has [of g n]
    by (cases "getNode g n") (auto simp: Let_def)
qed simp

definition preds :: "(string, string list) fmap \<Rightarrow> string \<Rightarrow> string list" where
  "preds incoming name = (case fmlookup incoming name of Some ps \<Rightarrow> ps | None \<Rightarrow> [])"

definition ready :: "stateGraph \<Rightarrow> (string, bool) fmap \<Rightarrow> string \<Rightarrow> bool" where
  "ready g completed name \<longleftrightarrow> has_node g name \<and> \<not> flag completed name \<and>
     (\<forall>e\<in>set (g_edges g). e_To e = name \<longrightarrow> e_From e = Start \<or> e_From e = End \<or> flag completed (e_From e))"

lemma preds_incoming: "preds (buildIncomingEdges g) name = map e_From (filter (\<lambda>e. e_To e = name) (g_edges g))"
proof -
  have "preds (foldl (\<lambda>adj e. fmupd (e_To e) ((case fmlookup adj (e_To e) of Some ps \<Rightarrow> ps | None \<Rightarrow> []) @ [e_From e]) adj) adj es) name =
      preds adj name @ map e_From (filter (\<lambda>e. e_To e = name) es)" for adj es
    by (induction es arbitrary: adj) (auto simp: preds_def)
  from this [of fmempty "g_edges g"] show ?thesis by (simp add: buildIncomingEdges_def) (simp add: preds_def)
qed

lemma dag_loop_names:
  assumes "wf_graph g"
  shows "map t_Name (fst (dag_loop ids f g completed inc names acc)) =
    map t_Name (fst acc) @ filter (\<lambda>n. has_node g n \<and> \<not> flag completed n \<and> allDone completed (preds inc n)) names"
proof (induction names arbitrary: acc)
  case (Cons n names)
  then show ?case
    using wf_names [OF assms, of n] getNode_has [of g n]
    by (cases "getNode g n") (auto simp: Let_def preds_def)
qed simp

lemma ready_alt:
  "ready g completed n \<longleftrightarrow> has_node g n \<and> \<not> flag completed n \<and> allDone completed (preds (buildIncomingEdges g) n)"
  by (auto simp: ready_def preds_incoming allDone_def list_all_iff)

lemma dag_tasks:
  assumes "wf_graph g" and "\<And>xs. mset (perm xs) = mset xs"
  shows "set (map t_Name (fst (prepareNextTasksDAG perm ids g completed f))) = {name. ready g completed name} \<and>
     distinct (map t_Name (fst (prepareNextTasksDAG perm ids g completed f)))"
proof -
  let ?keys = "perm (fmkeys (g_nodes g))"
  have keys: "set ?keys = {k. has_node g k}" "distinct ?keys"
    using permuted_keys [of perm "fmkeys (g_nodes g)", OF assms(2)]
    by (auto simp: has_node_dom)
  have "n_Name (the (fmlookup (g_nodes g) k)) = k" if "k \<in> set ?keys" for k
    using that keys(1) wf_names [OF assms(1)] by (auto simp: has_node_def getNode_def)
  then have names: "map (\<lambda>k. n_Name (the (fmlookup (g_nodes g) k))) ?keys = ?keys"
    by (simp add: map_idI)
  have "map t_Name (fst (prepareNextTasksDAG perm ids g completed f)) = filter (ready g completed) ?keys"
    by (simp only: prepareNextTasksDAG_def names dag_loop_names [OF assms(1)] ready_alt [abs_def]) simp
  then show ?thesis using keys by (auto simp: ready_def)
qed

lemma fmlen_0: "fmlen m = 0 \<longleftrightarrow> m = fmempty"
  by (metis fcard_0_eq fmdom_empty fmlen_def fmrestrict_fset_dom fmrestrict_fset_null)

text \<open>
  C5: in DAG mode the first step, when nothing has completed, has one task, the entry point. In every later
  step the tasks are exactly the nodes that have not completed and whose incoming edges all come from
  completed nodes (or the markers), each once, for every order in which Go enumerates the nodes.
\<close>

theorem dag_schedules_ready:
  assumes "wf_graph g" and "g_NodeTriggerMode g = NodeTriggerAllPredecessor" and "\<And>xs. mset (perm xs) = mset xs"
    and "g_entryPoint g \<noteq> []" "g_entryPoint g \<noteq> End"
  shows "\<exists>tasks trig. prepareNextTasks other perm ids g reg completed lastNode state = Inr (tasks, trig) \<and>
     (if completed = fmempty then map t_Name tasks = [g_entryPoint g]
      else distinct (map t_Name tasks) \<and> set (map t_Name tasks) =
        {name. has_node g name \<and> \<not> flag completed name \<and>
          (\<forall>e\<in>set (g_edges g). e_To e = name \<longrightarrow> e_From e = Start \<or> e_From e = End \<or> flag completed (e_From e))})"
proof (cases "completed = fmempty")
  case True
  from assms(1,4,5) obtain n where n: "getNode g (g_entryPoint g) = Some n" "n_Name n = g_entryPoint g"
    using wf_names [OF assms(1)] by (auto simp: wf_graph_def has_node_def getNode_def)
  with True assms(4,5) show ?thesis
    by (simp add: prepareNextTasks_def prepareNextTasksWithMode_def fmlen_0 Let_def createTask_def)
next
  case False
  obtain tasks trig where t: "prepareNextTasksDAG perm ids g completed True = (tasks, trig)"
    by (cases "prepareNextTasksDAG perm ids g completed True")
  with False assms(2) have "prepareNextTasks other perm ids g reg completed lastNode state = Inr (tasks, trig)"
    by (simp add: prepareNextTasks_def prepareNextTasksWithMode_def fmlen_0)
  with False dag_tasks [OF assms(1), of perm ids completed True, OF assms(3)] t show ?thesis
    by (simp add: ready_def)
qed

text \<open>A diamond: when \<open>a\<close> and \<open>b\<close> have completed, \<open>c\<close> is next and \<open>d\<close> has to wait.\<close>

definition demo_diamond :: stateGraph where
  "demo_diamond = (NewStateGraph (VMap fmempty))
     \<lparr>g_nodes := fmap_of_list (map (\<lambda>n. (n, NewNode n None)) [''a'', ''b'', ''c'', ''d'']),
      g_edges := [\<lparr>e_From = Start, e_To = ''a''\<rparr>, \<lparr>e_From = ''a'', e_To = ''b''\<rparr>, \<lparr>e_From = ''a'', e_To = ''c''\<rparr>,
        \<lparr>e_From = ''b'', e_To = ''d''\<rparr>, \<lparr>e_From = ''c'', e_To = ''d''\<rparr>, \<lparr>e_From = ''d'', e_To = End\<rparr>],
      g_entryPoint := ''a'', g_finishPoints := [''d''], g_NodeTriggerMode := NodeTriggerAllPredecessor\<rparr>"

lemma demo_diamond_nodes: "has_node demo_diamond n \<longleftrightarrow> n \<in> {''a'', ''b'', ''c'', ''d''}"
  by (auto simp: demo_diamond_def has_node_def)

lemma demo_diamond_wf: "wf_graph demo_diamond"
  unfolding wf_graph_def joins_def demo_diamond_nodes
  by (auto simp: demo_diamond_def NewStateGraph_def split: if_splits)

lemma demo_diamond_fields:
  "g_entryPoint demo_diamond = ''a''" "g_NodeTriggerMode demo_diamond = NodeTriggerAllPredecessor"
  "g_edges demo_diamond = [\<lparr>e_From = Start, e_To = ''a''\<rparr>, \<lparr>e_From = ''a'', e_To = ''b''\<rparr>, \<lparr>e_From = ''a'', e_To = ''c''\<rparr>,
        \<lparr>e_From = ''b'', e_To = ''d''\<rparr>, \<lparr>e_From = ''c'', e_To = ''d''\<rparr>, \<lparr>e_From = ''d'', e_To = End\<rparr>]"
  by (simp_all add: demo_diamond_def)

theorem dag_schedules_ready_witness:
  "(\<exists>tasks trig. prepareNextTasks (\<lambda>_. []) rev (\<lambda>n. n) demo_diamond NewRegistry
      (fmap_of_list [(''a'', True), (''b'', True)]) ''b'' VNil = Inr (tasks, trig) \<and> set (map t_Name tasks) = {''c''}) \<and>
   (\<exists>tasks trig. prepareNextTasks (\<lambda>_. []) rev (\<lambda>n. n) demo_diamond NewRegistry fmempty [] VNil = Inr (tasks, trig) \<and>
      map t_Name tasks = [''a''])"
proof
  let ?c = "fmap_of_list [(''a'', True), (''b'', True)]"
  note ready = dag_schedules_ready [OF demo_diamond_wf, of rev]
  have "{name. has_node demo_diamond name \<and> \<not> flag ?c name \<and> (\<forall>e\<in>set (g_edges demo_diamond). e_To e = name \<longrightarrow>
      e_From e = Start \<or> e_From e = End \<or> flag ?c (e_From e))} = {''c''}"
    by (auto simp: demo_diamond_nodes demo_diamond_fields flag_def Start_def End_def)
  moreover have "?c \<noteq> fmempty" by (simp add: fmupd_idem)
  ultimately show "\<exists>tasks trig. prepareNextTasks (\<lambda>_. []) rev (\<lambda>n. n) demo_diamond NewRegistry ?c ''b'' VNil = Inr (tasks, trig) \<and>
      set (map t_Name tasks) = {''c''}"
    using ready [of "\<lambda>_. []" "\<lambda>n. n" NewRegistry ?c "''b''" VNil]
    by (auto simp: demo_diamond_fields(1,2) End_def)
  show "\<exists>tasks trig. prepareNextTasks (\<lambda>_. []) rev (\<lambda>n. n) demo_diamond NewRegistry fmempty [] VNil = Inr (tasks, trig) \<and>
      map t_Name tasks = [''a'']"
    using ready [of "\<lambda>_. []" "\<lambda>n. n" NewRegistry fmempty "[]" VNil] by (auto simp: demo_diamond_fields(1,2) End_def)
qed

text \<open>The dependencies between nodes.\<close>

definition depends :: "stateGraph \<Rightarrow> (string \<times> string) set" where
  "depends g = {(a, b). has_node g a \<and> has_node g b \<and> (\<exists>e\<in>set (g_edges g). e_From e = a \<and> e_To e = b)}"

lemma depends_finite: "finite (depends g)"
proof (rule finite_subset)
  show "depends g \<subseteq> (\<lambda>e. (e_From e, e_To e)) ` set (g_edges g)" by (force simp: depends_def)
qed simp

lemma ready_exists:
  assumes "wf_graph g" "acyclic (depends g)" "has_node g n" "\<not> flag completed n"
  shows "\<exists>m. ready g completed m"
proof -
  have "wf (depends g)" by (rule finite_acyclic_wf [OF depends_finite assms(2)])
  moreover have "n \<in> {m. has_node g m \<and> \<not> flag completed m}" using assms by simp
  ultimately obtain m where m: "m \<in> {m. has_node g m \<and> \<not> flag completed m}"
    and min: "\<And>y. (y, m) \<in> depends g \<Longrightarrow> y \<notin> {m. has_node g m \<and> \<not> flag completed m}"
    by (rule wfE_min) blast
  have "e_From e = Start \<or> flag completed (e_From e)" if "e \<in> set (g_edges g)" "e_To e = m" for e
  proof -
    have "has_node g (e_From e) \<or> e_From e = Start"
      using assms(1) that(1) by (auto simp: wf_graph_def joins_def list_all_iff)
    moreover have "flag completed (e_From e)" if "has_node g (e_From e)"
      using min [of "e_From e"] that m \<open>e \<in> set (g_edges g)\<close> \<open>e_To e = m\<close> by (auto simp: depends_def)
    ultimately show ?thesis by blast
  qed
  with m have "ready g completed m" by (auto simp: ready_def)
  then show ?thesis ..
qed

text \<open>
  C6: in DAG mode a run cannot get stuck: on a graph whose edges form no cycle, as long as some node has
  not completed, the next step has at least one task.
\<close>

theorem dag_progress:
  assumes "built g" and "acyclic (depends g)" and "has_node g n" "\<not> flag completed n"
    and "\<And>xs. mset (perm xs) = mset xs"
  shows "fst (prepareNextTasksDAG perm ids g completed f) \<noteq> []"
proof -
  let ?keys = "perm (fmkeys (g_nodes g))"
  have wf: "wf_graph g" by (rule built_wf [OF assms(1)])
  obtain m where m: "ready g completed m" using ready_exists [OF wf assms(2-4)] by blast
  then have "m \<in> set ?keys"
    using permuted_keys [of perm "fmkeys (g_nodes g)", OF assms(5)] by (auto simp: ready_def has_node_def fmdomI)
  then have "n_Name (the (fmlookup (g_nodes g) m)) = m"
    using m wf_names [OF wf] by (auto simp: ready_def has_node_def getNode_def)
  with m \<open>m \<in> set ?keys\<close>
  have "m \<in> set (map t_Name (fst (prepareNextTasksDAG perm ids g completed f)))"
    by (simp only: prepareNextTasksDAG_def dag_loop_names [OF wf] ready_alt [symmetric]) force
  then show ?thesis by auto
qed

theorem dag_progress_witness:
  "fst (prepareNextTasksDAG rev (\<lambda>n. n) demo_chain fmempty True) \<noteq> []"
proof -
  have "depends demo_chain = {}" by (auto simp: depends_def demo_chain_fields has_node_def End_def Start_def)
  then show ?thesis
    using dag_progress [OF demo_chain_built, of "''a''" fmempty rev "\<lambda>n. n" True]
    by (simp add: demo_chain_fields has_node_def flag_def wf_acyclic)
qed

text \<open>
  In DAG mode conditions are never asked: conditional edges and branches have no influence on the
  tasks that are scheduled, so the target of a conditional edge that was not taken runs as well.
\<close>

theorem dag_ignores_conditions:
  "prepareNextTasksDAG perm ids (g\<lparr>g_conditionalEdges := ces, g_branches := bs\<rparr>) completed f =
   prepareNextTasksDAG perm ids g completed f"
proof -
  have "dag_loop ids f (g\<lparr>g_conditionalEdges := ces, g_branches := bs\<rparr>) completed inc names acc =
      dag_loop ids f g completed inc names acc" for inc names acc
    by (induction names arbitrary: acc) (simp_all add: getNode_def Let_def split: option.split)
  then show ?thesis by (simp add: prepareNextTasksDAG_def buildIncomingEdges_def)
qed

text \<open>
  The tasks of a step in the default mode are known nodes of the graph, each at most once:
  unknown targets, which only a branch can produce, are dropped.
\<close>

theorem tasks_known:
  assumes "built g" and "\<And>xs. mset (perm xs) = mset xs" and "g_NodeTriggerMode g \<noteq> NodeTriggerAllPredecessor"
    and "prepareNextTasks other perm ids g reg completed lastNode state = Inr (tasks, trig)"
  shows "(\<forall>n\<in>set (map t_Name tasks). has_node g n) \<and> distinct (map t_Name tasks)"
proof (cases "fmlen completed = 0")
  case True
  then show ?thesis
    using assms(4) wf_names [OF built_wf [OF assms(1)]]
    by (auto simp: prepareNextTasks_def prepareNextTasksWithMode_def Let_def createTask_def getNode_def has_node_def
        split: if_splits option.splits)
next
  case False
  have wf: "wf_graph g" by (rule built_wf [OF assms(1)])
  from assms(3,4) False have "tasks = fst (bsp_loop ids True g (Registry_Names reg)
      (perm (getNextNodes other g lastNode state)) ([], []))"
    by (simp add: prepareNextTasks_def prepareNextTasksWithMode_def)
  then have "map t_Name tasks = filter (has_node g) (perm (getNextNodes other g lastNode state))"
    by (simp only: bsp_loop_names [OF wf]) simp
  moreover have "distinct (perm (getNextNodes other g lastNode state))"
    using getNextNodes_known [OF wf, of other lastNode state] permuted_keys [of perm, OF assms(2)] by simp
  ultimately show ?thesis by simp
qed

theorem tasks_known_witness:
  "\<exists>tasks trig. prepareNextTasks (\<lambda>_. []) rev (\<lambda>n. n) demo_chain NewRegistry fmempty [] VNil = Inr (tasks, trig) \<and>
     distinct (map t_Name tasks)"
proof -
  have "\<exists>tasks trig. prepareNextTasks (\<lambda>_. []) rev (\<lambda>n. n) demo_chain NewRegistry fmempty [] VNil = Inr (tasks, trig)"
    by (simp add: prepareNextTasks_def prepareNextTasksWithMode_def Let_def demo_chain_fields getNode_def End_def)
  moreover have "g_NodeTriggerMode demo_chain \<noteq> NodeTriggerAllPredecessor"
    by (simp add: demo_chain_def NewStateGraph_def)
  ultimately show ?thesis
    using tasks_known [OF demo_chain_built, of rev] by fastforce
qed

end
