(* ===== verification/Engine_State.thy ===== *)
theory Engine_State
  imports Scheduler_Props
begin

text \<open>
  The state half of \<open>pregel/engine.go\<close>: applying the input, reading a task's input, running tasks and
  applying their outputs to the channels with version bookkeeping. The engine's mutable fields and the
  channel registry are passed and returned explicitly. Tasks of a step run concurrently in Go and
  share only the registry, which they read; they are run in list order here. Loops over maps of
  channels take the keys in ascending order; the channels they touch are distinct, so the order only
  decides which of several errors is reported and the order of the recorded pending writes.
\<close>

subsection \<open>Input\<close>

definition upper_first :: "string \<Rightarrow> string option" where
  "upper_first key = (case key of c # cs \<Rightarrow>
     (if CHR ''a'' \<le> c \<and> c \<le> CHR ''z'' then Some (char_of (of_char c - (32 :: nat)) # cs) else None) | [] \<Rightarrow> None)"

definition lower_first :: "string \<Rightarrow> string option" where
  "lower_first key = (case key of c # cs \<Rightarrow>
     (if CHR ''A'' \<le> c \<and> c \<le> CHR ''Z'' then Some (char_of (of_char c + (32 :: nat)) # cs) else None) | [] \<Rightarrow> None)"

definition registered :: "Registry \<Rightarrow> string \<Rightarrow> bool" where
  "registered r name \<longleftrightarrow> Registry_Get r name \<noteq> None"

text \<open>The empty string means that no channel was found.\<close>

definition caseFoldKey :: "Registry \<Rightarrow> string \<Rightarrow> string" where
  "caseFoldKey r key =
     (case upper_first key of
        Some candidate \<Rightarrow> if registered r candidate then candidate else []
      | None \<Rightarrow>
          (case lower_first key of
             Some candidate \<Rightarrow> if registered r candidate then candidate else []
           | None \<Rightarrow> []))"

text \<open>
  One pass over the input's keys, in the order \<open>keys\<close> in which Go visits them. A key that is renamed
  to the spelling of a registered channel is deleted and re-inserted; visiting the new key would
  change nothing. The map that is renamed in place is the caller's.
\<close>

fun register_keys :: "Registry \<Rightarrow> gmap \<Rightarrow> string list \<Rightarrow> Registry \<times> gmap" where
  "register_keys r input [] = (r, input)"
| "register_keys r input (key # keys) =
     (if registered r key then register_keys r input keys
      else (let guessed = caseFoldKey r key; value = the (fmlookup input key)
            in if guessed \<noteq> [] then register_keys r (fmupd guessed value (fmdrop key input)) keys
               else register_keys (Registry_Register r key (CLastValue (NewLastValue (typeof value)))) input keys))"

definition write_list :: "gmap \<Rightarrow> (string \<times> gval list) list" where
  "write_list m = map (\<lambda>k. (k, [the (fmlookup m k)])) (fmkeys m)"

text \<open>The result has the registry, the input as it is left behind, and the error.\<close>

definition applyInput ::
  "(string list \<Rightarrow> string list) \<Rightarrow> Registry \<Rightarrow> gval \<Rightarrow> Registry \<times> gval \<times> gerror option" where
  "applyInput perm r input =
     (case toMap input of
        Inl e \<Rightarrow> (r, input, Some e)
      | Inr inputMap \<Rightarrow>
          (case register_keys r inputMap (perm (fmkeys inputMap)) of
             (r', inputMap') \<Rightarrow>
               (let input' = (if as_map input \<noteq> None then VMap inputMap' else input)
                in if fmlen inputMap' > 0
                   then (case UpdateChannels r' (write_list inputMap') of (r'', err) \<Rightarrow> (r'', input', err))
                   else (r', input', None))))"

definition getThreadID :: "string \<Rightarrow> RunnableConfig \<Rightarrow> string" where
  "getThreadID newID config = (case fmlookup (Configurable config) ''thread_id'' of Some (VStr t) \<Rightarrow> t | _ \<Rightarrow> newID)"

definition getGraphChannels :: "stateGraph \<Rightarrow> (string, channel) fmap" where
  "getGraphChannels g = g_channels g"

definition buildOutput :: "Registry \<Rightarrow> gval \<Rightarrow> Registry \<times> gval" where
  "buildOutput r lastState =
     (case GetValues r of
        (r', Inl e) \<Rightarrow> (r', lastState)
      | (r', Inr values) \<Rightarrow> (r', if fmlen values > 0 then VMap values else lastState))"

subsection \<open>Running tasks\<close>

fun read_channels :: "Registry \<Rightarrow> gmap \<Rightarrow> string list \<Rightarrow> Registry \<times> (gerror + gmap)" where
  "read_channels r values [] = (r, Inr values)"
| "read_channels r values (name # names) =
     (case Registry_Get r name of
        None \<Rightarrow> read_channels r values names
      | Some ch \<Rightarrow>
          (case Get ch of
             (ch', Inl e) \<Rightarrow>
               (if IsEmptyChannelError e then read_channels (Registry_Register r name ch') values names
                else (Registry_Register r name ch', Inl e))
           | (ch', Inr v) \<Rightarrow> read_channels (Registry_Register r name ch') (fmupd name v values) names))"

definition readTaskInput :: "Registry \<Rightarrow> Task \<Rightarrow> Registry \<times> (gerror + gval)" where
  "readTaskInput r task =
     (if t_Channels task = [] then (r, Inr (VMap fmempty))
      else map_prod id (map_sum id VMap) (read_channels r fmempty (t_Channels task)))"

text \<open>
  \<open>mapToStateSchema\<close> fills a new value of the schema's struct type from the input. \<open>conv t v\<close> is
  reflection's conversion of \<open>v\<close> to the type \<open>t\<close>, if there is one. A nil value under a field's name
  makes the reflection call panic. A schema that is a pointer to a struct is not represented among the
  values; a map or nil schema passes the input through.
\<close>

fun fill_fields ::
  "(gotype \<Rightarrow> gval \<Rightarrow> gval option) \<Rightarrow> gmap \<Rightarrow> (string \<times> bool \<times> gotype \<times> gval) list \<Rightarrow>
   gerror + (string \<times> bool \<times> gotype \<times> gval) list" where
  "fill_fields conv m [] = Inr []"
| "fill_fields conv m ((f, exported, t, v) # fs) =
     (let here = (if \<not> exported then Inr (zero_value t)
                  else (case fmlookup m f of
                      None \<Rightarrow> Inr (zero_value t)
                    | Some w \<Rightarrow>
                        if w = VNil then Inl (GoPanic ''reflect: call of Type on zero Value'')
                        else if t = TIface \<or> typeof w = Some t then Inr w
                        else Inr (case conv t w of Some w' \<Rightarrow> w' | None \<Rightarrow> zero_value t)))
      in case here of Inl e \<Rightarrow> Inl e
         | Inr w \<Rightarrow> map_sum id (\<lambda>rest. (f, exported, t, w) # rest) (fill_fields conv m fs))"

definition mapToStateSchema ::
  "(gotype \<Rightarrow> gval \<Rightarrow> gval option) \<Rightarrow> stateGraph \<Rightarrow> gval \<Rightarrow> gerror + gval" where
  "mapToStateSchema conv g input =
     (case as_map input of
        None \<Rightarrow> Inr input
      | Some m \<Rightarrow>
          (case g_stateSchema g of
             VStruct n fs \<Rightarrow> map_sum id (VStruct n) (fill_fields conv m fs)
           | _ \<Rightarrow> Inr input))"

text \<open>
  The body of one task's goroutine in \<open>executeTasksAsync\<close>: read, convert, and run the node function
  through the pipeline's worker, which applies the retry policy of the node. The goroutine then selects
  between the end of the context and the result channel; which case it takes is \<open>sel\<close>.
\<close>

datatype task_wait =
    ResultReady
  | CtxDone gerror
  | ResultClosed

definition async_task ::
  "(gotype \<Rightarrow> gval \<Rightarrow> gval option) \<Rightarrow> (string \<Rightarrow> int \<Rightarrow> gerror option) \<Rightarrow> (string \<Rightarrow> task_wait) \<Rightarrow> Engine \<Rightarrow> nat \<Rightarrow> Registry \<Rightarrow> Task \<Rightarrow>
   Registry \<times> (gerror + TaskResult)" where
  "async_task conv wait sel e step r task =
     (case readTaskInput r task of
        (r', Inl err) \<Rightarrow>
          (r', Inr \<lparr>r_Name = t_Name task, r_Output = VNil, r_Err = Some (Wrapf ''failed to read task input'' err)\<rparr>)
      | (r', Inr input) \<Rightarrow>
          (case mapToStateSchema conv (eng_graph e) input of
             Inl panic \<Rightarrow> (r', Inl panic)
           | Inr converted \<Rightarrow>
               (case sel (t_Name task) of
                  CtxDone err \<Rightarrow> (r', Inr \<lparr>r_Name = t_Name task, r_Output = VNil, r_Err = Some err\<rparr>)
                | ResultClosed \<Rightarrow> (r', Inr \<lparr>r_Name = t_Name task, r_Output = VNil,
                    r_Err = Some (Errorf ''async result channel closed unexpectedly'')\<rparr>)
                | ResultReady \<Rightarrow>
                    (case RetryExecutor_Execute (Some (resolveRetryPolicy e task)) (t_Name task)
                            (\<lambda>attempt. call_fn (t_Func task) step attempt converted) (wait (t_Name task)) of
                       Inl err \<Rightarrow> (r', Inr \<lparr>r_Name = t_Name task, r_Output = VNil, r_Err = Some err\<rparr>)
                     | Inr out \<Rightarrow> (r', Inr \<lparr>r_Name = t_Name task, r_Output = out, r_Err = None\<rparr>)))))"

text \<open>The synchronous variant, which also wraps the error of exhausted retries.\<close>

definition executeTask ::
  "(gotype \<Rightarrow> gval \<Rightarrow> gval option) \<Rightarrow> (string \<Rightarrow> int \<Rightarrow> gerror option) \<Rightarrow> Engine \<Rightarrow> nat \<Rightarrow> Registry \<Rightarrow> Task \<Rightarrow>
   Registry \<times> (gerror + TaskResult)" where
  "executeTask conv wait e step r task =
     (case readTaskInput r task of
        (r', Inl err) \<Rightarrow>
          (r', Inr \<lparr>r_Name = t_Name task, r_Output = VNil, r_Err = Some (Wrapf ''failed to read task input'' err)\<rparr>)
      | (r', Inr input) \<Rightarrow>
          (case mapToStateSchema conv (eng_graph e) input of
             Inl panic \<Rightarrow> (r', Inl panic)
           | Inr converted \<Rightarrow>
               (case RetryExecutor_Execute (Some (resolveRetryPolicy e task)) (t_Name task)
                       (\<lambda>attempt. call_fn (t_Func task) step attempt converted) (wait (t_Name task)) of
                  Inl err \<Rightarrow> (r', Inr \<lparr>r_Name = t_Name task, r_Output = VNil,
                    r_Err = Some (if IsRetryExhausted err then Wrapf ''max retries exceeded'' err else err)\<rparr>)
                | Inr out \<Rightarrow> (r', Inr \<lparr>r_Name = t_Name task, r_Output = out, r_Err = None\<rparr>))))"

text \<open>The results keep the order of the tasks. A panic outside a node function ends the run.\<close>

fun execute_all ::
  "(Registry \<Rightarrow> Task \<Rightarrow> Registry \<times> (gerror + TaskResult)) \<Rightarrow> Registry \<Rightarrow> Task list \<Rightarrow>
   Registry \<times> (gerror + TaskResult list)" where
  "execute_all f r [] = (r, Inr [])"
| "execute_all f r (t # ts) =
     (case f r t of
        (r', Inl panic) \<Rightarrow> (r', Inl panic)
      | (r', Inr res) \<Rightarrow> map_prod id (map_sum id (\<lambda>rs. res # rs)) (execute_all f r' ts))"

definition executeTasksAsync ::
  "(gotype \<Rightarrow> gval \<Rightarrow> gval option) \<Rightarrow> (string \<Rightarrow> int \<Rightarrow> gerror option) \<Rightarrow> (string \<Rightarrow> task_wait) \<Rightarrow> Engine \<Rightarrow> nat \<Rightarrow> Registry \<Rightarrow> Task list \<Rightarrow>
   Registry \<times> (gerror + TaskResult list)" where
  "executeTasksAsync conv wait sel e step r tasks = execute_all (async_task conv wait sel e step) r tasks"

definition executeTasks ::
  "(gotype \<Rightarrow> gval \<Rightarrow> gval option) \<Rightarrow> (string \<Rightarrow> int \<Rightarrow> gerror option) \<Rightarrow> Engine \<Rightarrow> nat \<Rightarrow> Registry \<Rightarrow> Task list \<Rightarrow>
   Registry \<times> (gerror + TaskResult list)" where
  "executeTasks conv wait e step r tasks = execute_all (executeTask conv wait e step) r tasks"

subsection \<open>Applying writes\<close>

record Writes =
  w_byChannel :: "(string, gval list) fmap"
  w_pending :: "(string, PendingWrite) fmap"

definition writes_of :: "(string, gval list) fmap \<Rightarrow> string \<Rightarrow> gval list" where
  "writes_of m key = (case fmlookup m key of Some vs \<Rightarrow> vs | None \<Rightarrow> [])"

fun unwrap :: "gval \<Rightarrow> gval \<times> bool" where
  "unwrap (VOverwrite v) = (v, True)"
| "unwrap v = (v, False)"

definition collect_key :: "string \<Rightarrow> gmap \<Rightarrow> Writes \<Rightarrow> string \<Rightarrow> Writes" where
  "collect_key node outputMap ws key =
     (case fmlookup outputMap key of
        None \<Rightarrow> ws
      | Some value \<Rightarrow>
          if value = VNil then ws
          else (case unwrap value of (v, overwrite) \<Rightarrow>
            \<lparr>w_byChannel = fmupd key (writes_of (w_byChannel ws) key @ [v]) (w_byChannel ws),
             w_pending = fmupd key
               \<lparr>pw_Channel = key, pw_Value = v, pw_Overwrite = overwrite, pw_Node = node, pw_Timestamp = 0,
                pw_TaskID = []\<rparr> (w_pending ws)\<rparr>))"

definition collect_result :: "stateGraph \<Rightarrow> Writes \<Rightarrow> TaskResult \<Rightarrow> gerror + Writes" where
  "collect_result g ws res =
     (if r_Err res \<noteq> None \<or> r_Output res = VNil then Inr ws
      else (case toMap (r_Output res) of
          Inl e \<Rightarrow> Inl (Wrapf ''failed to convert output to map'' e)
        | Inr outputMap \<Rightarrow>
            (case (case getNode g (r_Name res) of
                     Some node \<Rightarrow> if n_FieldMapping node \<noteq> [] then applyFieldMapping outputMap (n_FieldMapping node)
                                  else Inr outputMap
                   | None \<Rightarrow> Inr outputMap) of
               Inl e \<Rightarrow> Inl e
             | Inr m \<Rightarrow> Inr (foldl (collect_key (r_Name res) m) ws (fmkeys m)))))"

fun accumulates :: "channel \<Rightarrow> bool" where
  "accumulates (CBinaryOperatorAggregate c) = True"
| "accumulates (CReducerChannel ch r) = True"
| "accumulates _ = False"

definition write_values :: "channel \<Rightarrow> gval list \<Rightarrow> gval list" where
  "write_values ch values =
     (let filtered = filter (\<lambda>v. v \<noteq> VNil) values
      in if length filtered > 1 \<and> \<not> accumulates ch then [last filtered] else filtered)"

definition bump_version :: "Engine \<Rightarrow> string \<Rightarrow> Engine" where
  "bump_version e name =
     e\<lparr>eng_channelVersions := fmupd name (vget (eng_channelVersions e) name + 1) (eng_channelVersions e),
       eng_currentCheckpoint := map_option (\<lambda>c. IncrementChannel c name) (eng_currentCheckpoint e)\<rparr>"

definition update_channel ::
  "Engine \<times> Registry \<times> string list \<Rightarrow> string \<times> gval list \<Rightarrow> gerror + (Engine \<times> Registry \<times> string list)" where
  "update_channel s w =
     (case s of (e, r, updated) \<Rightarrow> case w of (name, values) \<Rightarrow>
        (let ch = (case Registry_Get r name of Some c \<Rightarrow> c | None \<Rightarrow> CLastValue (NewLastValue None))
         in case Update ch (write_values ch values) of
              (ch', Inl err) \<Rightarrow> Inl (Wrapf (''failed to update channel '' @ name) err)
            | (ch', Inr upd) \<Rightarrow>
                if upd \<and> IsAvailable ch'
                then (let e' = bump_version e name;
                          ch'' = (case SetVersion (vget (eng_channelVersions e') name) ch' of Some c \<Rightarrow> c | None \<Rightarrow> ch')
                      in Inr (e', Registry_Register r name ch'', add_key updated name))
                else Inr (e, Registry_Register r name ch', updated)))"

definition store_pending :: "Engine \<Rightarrow> PendingWrite list \<Rightarrow> Engine" where
  "store_pending e pws =
     e\<lparr>eng_currentCheckpoint := map_option
         (\<lambda>c. foldl (\<lambda>c pw. AddPendingWrite c (pw_Channel pw) (pw_Value pw) (pw_Overwrite pw) (pw_Node pw)) c pws)
         (eng_currentCheckpoint e)\<rparr>"

definition markSeen :: "Engine \<Rightarrow> string \<Rightarrow> string \<Rightarrow> Engine" where
  "markSeen e node ch =
     e\<lparr>eng_versionsSeen := fmupd node
          (fmupd ch (vget (eng_channelVersions e) ch) (seen_row (eng_versionsSeen e) node)) (eng_versionsSeen e),
       eng_currentCheckpoint := map_option (\<lambda>c. MarkSeen c node ch) (eng_currentCheckpoint e)\<rparr>"

definition hasSeen :: "Engine \<Rightarrow> string \<Rightarrow> string \<Rightarrow> bool" where
  "hasSeen e node ch =
     (case fmlookup (eng_versionsSeen e) node of
        None \<Rightarrow> False
      | Some row \<Rightarrow>
          (case fmlookup row ch of None \<Rightarrow> False | Some v \<Rightarrow> v = vget (eng_channelVersions e) ch))"

definition applyWrites ::
  "Engine \<Rightarrow> Registry \<Rightarrow> TaskResult list \<Rightarrow> string list \<Rightarrow> gerror + (Engine \<times> Registry \<times> string list)" where
  "applyWrites e r results triggerToNodes =
     (case foldl_err (collect_result (eng_graph e)) \<lparr>w_byChannel = fmempty, w_pending = fmempty\<rparr>
             (sort_key r_Name results) of
        Inl err \<Rightarrow> Inl err
      | Inr ws \<Rightarrow>
          (let keys = fmkeys (w_byChannel ws)
           in case foldl_err update_channel (e, r, []) (map (\<lambda>k. (k, the (fmlookup (w_byChannel ws) k))) keys) of
                Inl err \<Rightarrow> Inl err
              | Inr (e', r', updated) \<Rightarrow>
                  (let e'' = store_pending e' (map (\<lambda>k. the (fmlookup (w_pending ws) k)) (fmkeys (w_pending ws)));
                       marks = [(n, c). n \<leftarrow> keys, n \<in> set triggerToNodes, c \<leftarrow> updated]
                   in Inr (foldl (\<lambda>e (n, c). markSeen e n c) e'' marks, r', updated))))"

end
