(* ===== verification/Engine_Props.thy ===== *)
theory Engine_Props
  imports Engine_State
begin

text \<open>
  What applying a step's outputs does: the abstract description is one list of values per channel, the
  contributions of the successful results in the order of their names, and one channel update with
  that list. The lemmas relate the collecting and the updating loop to it; the theorems state the
  effect on channels and versions, the independence of the order in which tasks finish, and the places
  where the code departs from its documentation.
\<close>

subsection \<open>Reading inputs\<close>

lemma read_channels_ok: "\<exists>m. snd (read_channels r vs names) = Inr m \<and> fset (fmdom m) \<subseteq> fset (fmdom vs) \<union> set names"
proof (induction names arbitrary: r vs)
  case (Cons n ns)
  show ?case
  proof (cases "Registry_Get r n")
    case None
    with Cons [of r vs] show ?thesis by auto
  next
    case (Some ch)
    obtain ch' res where g: "Get ch = (ch', res)" by (cases "Get ch")
    have res: "res = Inl EmptyChannelError \<or> (\<exists>v. res = Inr v)"
      using Get_result [of ch] g by (auto split: if_splits)
    with Cons [of "Registry_Register r n ch'" vs] Cons [of "Registry_Register r n ch'" "fmupd n v vs" for v] Some g
    show ?thesis by (cases res) fastforce+
  qed
qed simp

text \<open>
  Reading a task's input never fails: empty channels are skipped, and the task gets a map whose
  keys are among the channels it subscribes to.
\<close>

theorem readTaskInput_total:
  "\<exists>m. snd (readTaskInput r task) = Inr (VMap m) \<and> fset (fmdom m) \<subseteq> set (t_Channels task)"
  using read_channels_ok [of r fmempty "t_Channels task"] by (auto simp: readTaskInput_def)

subsection \<open>Collecting writes\<close>

definition output_map :: "stateGraph \<Rightarrow> TaskResult \<Rightarrow> gerror + gmap" where
  "output_map g res =
     (if r_Err res \<noteq> None \<or> r_Output res = VNil then Inr fmempty
      else (case toMap (r_Output res) of
          Inl e \<Rightarrow> Inl (Wrapf ''failed to convert output to map'' e)
        | Inr m \<Rightarrow> (case getNode g (r_Name res) of
              Some node \<Rightarrow> if n_FieldMapping node \<noteq> [] then applyFieldMapping m (n_FieldMapping node) else Inr m
            | None \<Rightarrow> Inr m)))"

definition contribution :: "stateGraph \<Rightarrow> TaskResult \<Rightarrow> string \<Rightarrow> gval list" where
  "contribution g res k =
     (case output_map g res of
        Inl e \<Rightarrow> []
      | Inr m \<Rightarrow> (case fmlookup m k of
            None \<Rightarrow> [] | Some v \<Rightarrow> if v = VNil then [] else [fst (unwrap v)]))"

lemma fmkeys_empty: "fmkeys fmempty = []"
  by simp

lemma collect_result_alt:
  "collect_result g ws res =
     map_sum id (\<lambda>m. foldl (collect_key (r_Name res) m) ws (fmkeys m)) (output_map g res)"
  by (auto simp: collect_result_def output_map_def fmkeys_empty split: sum.split option.split)

lemma writes_collect_key:
  "writes_of (w_byChannel (collect_key n m ws key)) k = writes_of (w_byChannel ws) k @
     (if key = k then (case fmlookup m k of None \<Rightarrow> [] | Some v \<Rightarrow> if v = VNil then [] else [fst (unwrap v)]) else [])"
  by (auto simp: collect_key_def writes_of_def split: option.split prod.split)

lemma writes_collect_keys:
  "distinct keys \<Longrightarrow> writes_of (w_byChannel (foldl (collect_key n m) ws keys)) k = writes_of (w_byChannel ws) k @
     (if k \<in> set keys then (case fmlookup m k of None \<Rightarrow> [] | Some v \<Rightarrow> if v = VNil then [] else [fst (unwrap v)]) else [])"
  by (induction keys arbitrary: ws) (auto simp: writes_collect_key)

lemma writes_collect_result:
  assumes "collect_result g ws res = Inr ws'"
  shows "writes_of (w_byChannel ws') k = writes_of (w_byChannel ws) k @ contribution g res k"
proof -
  obtain m where m: "output_map g res = Inr m" "ws' = foldl (collect_key (r_Name res) m) ws (fmkeys m)"
    using assms by (cases "output_map g res") (auto simp: collect_result_alt)
  then show ?thesis
    by (cases "fmlookup m k")
      (simp_all add: writes_collect_keys contribution_def fmdomI fmdom_notI)
qed

lemma collect_key_nonempty:
  "\<forall>k. fmlookup (w_byChannel ws) k \<noteq> Some [] \<Longrightarrow> \<forall>k. fmlookup (w_byChannel (collect_key n m ws key)) k \<noteq> Some []"
  by (auto simp: collect_key_def split: option.split prod.split)

lemma foldl_collect_nonempty:
  "\<forall>k. fmlookup (w_byChannel ws) k \<noteq> Some [] \<Longrightarrow>
   \<forall>k. fmlookup (w_byChannel (foldl (collect_key n m) ws keys)) k \<noteq> Some []"
  by (induction keys arbitrary: ws) (simp_all add: collect_key_nonempty)

lemma collect_results:
  assumes "foldl_err (collect_result g) ws results = Inr ws'"
    and "\<forall>k. fmlookup (w_byChannel ws) k \<noteq> Some []"
  shows "writes_of (w_byChannel ws') k = writes_of (w_byChannel ws) k @ concat (map (\<lambda>res. contribution g res k) results) \<and>
    (\<forall>k. fmlookup (w_byChannel ws') k \<noteq> Some [])"
  using assms
proof (induction results arbitrary: ws)
  case (Cons res results)
  obtain ws1 where ws1: "collect_result g ws res = Inr ws1" "foldl_err (collect_result g) ws1 results = Inr ws'"
    using Cons.prems(1) by (auto split: sum.splits)
  have "\<forall>k. fmlookup (w_byChannel ws1) k \<noteq> Some []"
    using ws1(1) Cons.prems(2) foldl_collect_nonempty
    by (cases "output_map g res") (auto simp: collect_result_alt)
  from Cons.IH [OF ws1(2) this] writes_collect_result [OF ws1(1), of k] show ?case by simp
qed simp

text \<open>All values a step writes to a channel.\<close>

definition step_writes :: "stateGraph \<Rightarrow> TaskResult list \<Rightarrow> string \<Rightarrow> gval list" where
  "step_writes g results k = concat (map (\<lambda>res. contribution g res k) (sort_key r_Name results))"

lemma collected:
  assumes "foldl_err (collect_result g) \<lparr>w_byChannel = fmempty, w_pending = fmempty\<rparr> (sort_key r_Name results) = Inr ws"
  shows "fmlookup (w_byChannel ws) k = (if step_writes g results k = [] then None else Some (step_writes g results k))"
proof -
  from collect_results [OF assms, of k]
  have "writes_of (w_byChannel ws) k = step_writes g results k" "fmlookup (w_byChannel ws) k \<noteq> Some []"
    by (simp_all add: step_writes_def writes_of_def)
  then show ?thesis by (cases "fmlookup (w_byChannel ws) k") (auto simp: writes_of_def)
qed

subsection \<open>Updating channels\<close>

text \<open>What a channel becomes, and whether the update counts, when a non-empty list of values is written.\<close>

definition chan_of :: "Registry \<Rightarrow> string \<Rightarrow> channel" where
  "chan_of r k = (case Registry_Get r k of Some c \<Rightarrow> c | None \<Rightarrow> CLastValue (NewLastValue None))"

definition written :: "Registry \<Rightarrow> string \<Rightarrow> gval list \<Rightarrow> channel" where
  "written r k values = fst (Update (chan_of r k) (write_values (chan_of r k) values))"

definition counts :: "Registry \<Rightarrow> string \<Rightarrow> gval list \<Rightarrow> bool" where
  "counts r k values \<longleftrightarrow>
     snd (Update (chan_of r k) (write_values (chan_of r k) values)) = Inr True \<and> IsAvailable (written r k values)"

lemma update_channel_Inr:
  assumes "update_channel (e, r, upd) (k, vs) = Inr (e', r', upd')"
  shows "(if counts r k vs
      then e' = bump_version e k \<and> upd' = add_key upd k \<and>
           (\<exists>ch. r' = Registry_Register r k ch \<and> forget_version ch = forget_version (written r k vs))
      else e' = e \<and> upd' = upd \<and> r' = Registry_Register r k (written r k vs))"
proof -
  have fv: "forget_version (case SetVersion v ch of Some c \<Rightarrow> c | None \<Rightarrow> ch) = forget_version ch" for v ch
    by (cases ch) simp_all
  obtain ch' res where u: "Update (chan_of r k) (write_values (chan_of r k) vs) = (ch', res)"
    by (cases "Update (chan_of r k) (write_values (chan_of r k) vs)")
  from assms u show ?thesis
    by (cases res) (auto simp: update_channel_def chan_of_def [symmetric] written_def counts_def Let_def fv
        split: if_splits)
qed

definition takes_effect :: "Registry \<Rightarrow> (string \<times> gval list) list \<Rightarrow> string \<Rightarrow> bool" where
  "takes_effect r ws k = (case map_of ws k of None \<Rightarrow> False | Some vs \<Rightarrow> counts r k vs)"

lemma chan_of_Register: "k \<noteq> k' \<Longrightarrow> chan_of (Registry_Register r k ch) k' = chan_of r k'"
  by (simp add: chan_of_def reg.get_put)

lemma counts_Register: "k \<noteq> k' \<Longrightarrow> counts (Registry_Register r k ch) k' vs = counts r k' vs"
  by (simp add: counts_def written_def chan_of_Register)

lemma written_Register: "k \<noteq> k' \<Longrightarrow> written (Registry_Register r k ch) k' vs = written r k' vs"
  by (simp add: written_def chan_of_Register)

lemma vget_bump [simp]:
  "vget (eng_channelVersions (bump_version e k)) k' = vget (eng_channelVersions e) k' + (if k = k' then 1 else 0)"
  by (simp add: bump_version_def)

lemma update_channel_effect:
  assumes "update_channel (e, r, upd) (k, vs) = Inr (e', r', upd')"
  obtains ch where "r' = Registry_Register r k ch" and "forget_version ch = forget_version (written r k vs)"
    and "\<And>k'. k' \<in> set upd' \<longleftrightarrow> k' \<in> set upd \<or> (k' = k \<and> counts r k vs)"
    and "\<And>k'. vget (eng_channelVersions e') k' =
        vget (eng_channelVersions e) k' + (if k' = k \<and> counts r k vs then 1 else 0)"
proof (cases "counts r k vs")
  case True
  with update_channel_Inr [OF assms] obtain ch where "e' = bump_version e k" "upd' = add_key upd k"
    "r' = Registry_Register r k ch" "forget_version ch = forget_version (written r k vs)" by auto
  with True show ?thesis by (intro that [of ch]) auto
next
  case False
  with update_channel_Inr [OF assms] show ?thesis by (intro that [of "written r k vs"]) auto
qed

lemma takes_effect_Register:
  "k0 \<notin> fst ` set ws \<Longrightarrow> takes_effect (Registry_Register r k0 ch) ws k = takes_effect r ws k"
  by (cases "k = k0") (simp_all add: takes_effect_def counts_Register map_of_eq_None_iff [THEN iffD2] split: option.split)

lemma update_channels:
  assumes "foldl_err update_channel (e, r, upd) ws = Inr (e', r', upd')" and "distinct (map fst ws)"
  shows "map_option forget_version (Registry_Get r' k) =
      (case map_of ws k of None \<Rightarrow> map_option forget_version (Registry_Get r k)
       | Some vs \<Rightarrow> Some (forget_version (written r k vs))) \<and>
    (k \<in> set upd' \<longleftrightarrow> k \<in> set upd \<or> takes_effect r ws k) \<and>
    vget (eng_channelVersions e') k = vget (eng_channelVersions e) k + (if takes_effect r ws k then 1 else 0)"
  using assms
proof (induction ws arbitrary: e r upd)
  case Nil
  then show ?case by (simp add: takes_effect_def)
next
  case (Cons w ws)
  obtain k0 vs0 where w: "w = (k0, vs0)" by (cases w)
  from Cons.prems(1) obtain e1 r1 upd1 where u: "update_channel (e, r, upd) (k0, vs0) = Inr (e1, r1, upd1)"
    and f: "foldl_err update_channel (e1, r1, upd1) ws = Inr (e', r', upd')"
    by (auto simp: w split: sum.splits)
  from update_channel_effect [OF u] obtain ch where r1: "r1 = Registry_Register r k0 ch"
    and ch: "forget_version ch = forget_version (written r k0 vs0)"
    and upd1: "k \<in> set upd1 \<longleftrightarrow> k \<in> set upd \<or> (k = k0 \<and> counts r k0 vs0)"
    and v1: "vget (eng_channelVersions e1) k =
        vget (eng_channelVersions e) k + (if k = k0 \<and> counts r k0 vs0 then 1 else 0)" by metis
  have d: "distinct (map fst ws)" "k0 \<notin> fst ` set ws" using Cons.prems(2) by (auto simp: w)
  note IH = Cons.IH [OF f d(1), unfolded r1 takes_effect_Register [OF d(2)]]
  show ?case
  proof (cases "k = k0")
    case True
    with d(2) have "map_of ws k = None" by (simp add: map_of_eq_None_iff)
    with IH True ch upd1 v1 show ?thesis by (simp add: w takes_effect_def reg.get_put)
  next
    case False
    then have "takes_effect r (w # ws) k = takes_effect r ws k" "map_of (w # ws) k = map_of ws k"
      by (simp_all add: w takes_effect_def)
    with IH False upd1 v1 show ?thesis by (simp add: reg.get_put written_Register split: option.split)
  qed
qed

lemma applyWrites_parts:
  assumes "applyWrites e r results trig = Inr (e', r', updated)"
  obtains ws e1 where
    "foldl_err (collect_result (eng_graph e)) \<lparr>w_byChannel = fmempty, w_pending = fmempty\<rparr> (sort_key r_Name results) = Inr ws"
    and "foldl_err update_channel (e, r, []) (map (\<lambda>k. (k, the (fmlookup (w_byChannel ws) k))) (fmkeys (w_byChannel ws))) =
      Inr (e1, r', updated)"
    and "e' = foldl (\<lambda>e (n, c). markSeen e n c)
        (store_pending e1 (map (\<lambda>k. the (fmlookup (w_pending ws) k)) (fmkeys (w_pending ws))))
        [(n, c). n \<leftarrow> fmkeys (w_byChannel ws), n \<in> set trig, c \<leftarrow> updated]"
  using assms by (auto simp: applyWrites_def Let_def split: sum.splits)

lemma map_of_keys:
  "map_of (map (\<lambda>k. (k, the (fmlookup m k))) (fmkeys m)) = fmlookup m"
proof
  fix k
  show "map_of (map (\<lambda>k. (k, the (fmlookup m k))) (fmkeys m)) k = fmlookup m k"
    by (cases "fmlookup m k")
      (auto simp: map_of_eq_None_iff fmdom_notI fmdomI intro!: map_of_is_SomeI image_eqI [of _ _ k] simp: o_def)
qed

lemma channelVersions_marks [simp]:
  "eng_channelVersions (foldl (\<lambda>e (n, c). markSeen e n c) e marks) = eng_channelVersions e"
  by (induction marks arbitrary: e) (auto simp: markSeen_def)

lemma channelVersions_pending [simp]: "eng_channelVersions (store_pending e pws) = eng_channelVersions e"
  by (simp add: store_pending_def)

lemma applyWrites_effect:
  assumes "applyWrites e r results trig = Inr (e', r', updated)"
  shows "map_option forget_version (Registry_Get r' k) =
       (let vs = step_writes (eng_graph e) results k
        in if vs = [] then map_option forget_version (Registry_Get r k)
           else Some (forget_version (fst (Update (chan_of r k) (write_values (chan_of r k) vs))))) \<and>
     (k \<in> set updated \<longleftrightarrow> step_writes (eng_graph e) results k \<noteq> [] \<and> counts r k (step_writes (eng_graph e) results k)) \<and>
     vget (eng_channelVersions e') k = vget (eng_channelVersions e) k + (if k \<in> set updated then 1 else 0)"
proof -
  from assms obtain ws e1 where
    c: "foldl_err (collect_result (eng_graph e)) \<lparr>w_byChannel = fmempty, w_pending = fmempty\<rparr> (sort_key r_Name results) = Inr ws"
    and u: "foldl_err update_channel (e, r, []) (map (\<lambda>k. (k, the (fmlookup (w_byChannel ws) k))) (fmkeys (w_byChannel ws))) =
      Inr (e1, r', updated)" and e': "eng_channelVersions e' = eng_channelVersions e1"
    by (rule applyWrites_parts) simp
  have "distinct (map fst (map (\<lambda>k. (k, the (fmlookup (w_byChannel ws) k))) (fmkeys (w_byChannel ws))))"
    by (simp add: o_def)
  note upd = update_channels [OF u this, of k]
  have m: "map_of (map (\<lambda>k. (k, the (fmlookup (w_byChannel ws) k))) (fmkeys (w_byChannel ws))) k =
      (if step_writes (eng_graph e) results k = [] then None else Some (step_writes (eng_graph e) results k))"
    unfolding map_of_keys by (rule collected [OF c])
  show ?thesis
    using upd unfolding takes_effect_def m by (simp add: e' written_def Let_def split: if_splits)
qed

text \<open>The values that reach a channel: an accumulating channel gets all of them, any other the last one.\<close>

lemma write_values_cases:
  "write_values ch vs =
     (case ch of
        CBinaryOperatorAggregate c \<Rightarrow> filter (\<lambda>v. v \<noteq> VNil) vs
      | CReducerChannel c f \<Rightarrow> filter (\<lambda>v. v \<noteq> VNil) vs
      | _ \<Rightarrow> drop (length (filter (\<lambda>v. v \<noteq> VNil) vs) - 1) (filter (\<lambda>v. v \<noteq> VNil) vs))"
proof -
  have "(if 1 < length xs then [last xs] else xs) = drop (length xs - 1) xs" for xs :: "gval list"
    by (cases xs rule: rev_cases) auto
  then show ?thesis by (cases ch) (simp_all add: write_values_def Let_def)
qed

text \<open>
  C2: applying the outputs of a step gives a channel that some successful task wrote to exactly one
  update. An aggregate or reducer channel receives all the values other than nil that were written to it,
  in the order of the node names; every other channel, a topic included, receives only the last of them.
  Channels nobody wrote to stay as they are. The reported channels are those whose update changed
  them and left them with a value, and exactly their versions grow, each by one.
\<close>

theorem applyWrites_channels:
  fixes k :: string
  assumes "applyWrites e r results trig = Inr (e', r', updated)"
  defines "vs \<equiv> concat (map (\<lambda>res. contribution (eng_graph e) res k) (sort_key r_Name results))"
  defines "vals \<equiv> filter (\<lambda>v. v \<noteq> VNil) vs"
  defines "ch \<equiv> (case Registry_Get r k of Some c \<Rightarrow> c | None \<Rightarrow> CLastValue (NewLastValue None))"
  defines "upd \<equiv> Update ch (case ch of
      CBinaryOperatorAggregate c \<Rightarrow> vals
    | CReducerChannel c f \<Rightarrow> vals
    | _ \<Rightarrow> if vals = [] then [] else [last vals])"
  shows "(vs = [] \<longrightarrow> map_option forget_version (Registry_Get r' k) = map_option forget_version (Registry_Get r k) \<and>
       k \<notin> set updated) \<and>
     (vs \<noteq> [] \<longrightarrow> map_option forget_version (Registry_Get r' k) = Some (forget_version (fst upd)) \<and>
       (k \<in> set updated \<longleftrightarrow> snd upd = Inr True \<and> IsAvailable (fst upd))) \<and>
     vget (eng_channelVersions e') k = vget (eng_channelVersions e) k + (if k \<in> set updated then 1 else 0)"
proof -
  have sw: "step_writes (eng_graph e) results k = vs" by (simp add: step_writes_def vs_def)
  have ch: "chan_of r k = ch" by (simp add: chan_of_def ch_def)
  have l: "drop (length vals - 1) vals = (if vals = [] then [] else [last vals])"
    by (cases vals rule: rev_cases) simp_all
  have upd: "upd = Update ch (write_values ch vs)"
    unfolding upd_def write_values_cases vals_def [symmetric] l ..
  from applyWrites_effect [OF assms(1), of k] show ?thesis
    unfolding sw counts_def written_def ch upd by (auto simp: Let_def)
qed

definition demo_engine :: Engine where
  "demo_engine = NewEngine demo_chain []"

definition demo_results :: "TaskResult list" where
  "demo_results = [\<lparr>r_Name = ''a'', r_Output = VMap (fmap_of_list [(''x'', VStr ''1'')]), r_Err = None\<rparr>]"

lemma demo_engine_graph: "eng_graph demo_engine = demo_chain"
  by (simp add: demo_engine_def NewEngine_def)

lemma fmkeys_single: "fmkeys (fmupd k v fmempty) = [k]"
proof -
  have "set (fmkeys (fmupd k v fmempty)) = {k}" "distinct (fmkeys (fmupd k v fmempty))" by simp_all
  then show ?thesis by (metis distinct_singleton distinct_length_2_or_more empty_iff list.set(1)
        list.set_intros(1) list.set_intros(2) neq_Nil_conv singletonD insertI1)
qed

lemma demo_applyWrites:
  "\<exists>e' r' u. applyWrites demo_engine NewRegistry demo_results [] = Inr (e', r', u)"
  by (simp add: applyWrites_def demo_results_def demo_engine_graph collect_result_def getNode_def demo_chain_fields
      NewNode_def fmkeys_single collect_key_def writes_of_def update_channel_def reg.get_emp write_values_def
      LastValue_Update_def NewLastValue_def LastValue_IsAvailable_def Let_def)

definition demo_writers :: "TaskResult list" where
  "demo_writers =
     [\<lparr>r_Name = ''b'', r_Output = VMap (fmap_of_list [(''x'', VStr ''2'')]), r_Err = None\<rparr>,
      \<lparr>r_Name = ''a'', r_Output = VMap (fmap_of_list [(''x'', VStr ''1'')]), r_Err = None\<rparr>]"

definition demo_topic_registry :: Registry where
  "demo_topic_registry = Registry_Register NewRegistry ''x'' (CTopic (NewTopic None True))"

lemma demo_writers_sorted: "sort_key r_Name demo_writers = rev demo_writers"
  by (simp add: demo_writers_def)

lemma demo_writes: "concat (map (\<lambda>res. contribution (eng_graph demo_engine) res ''x'') (sort_key r_Name demo_writers)) =
    [VStr ''1'', VStr ''2'']"
  by (simp add: demo_writers_sorted demo_engine_graph)
    (simp add: demo_writers_def contribution_def output_map_def getNode_def demo_chain_fields NewNode_def)

lemma demo_topic_get: "Registry_Get demo_topic_registry ''x'' = Some (CTopic (NewTopic None True))"
  by (simp add: demo_topic_registry_def reg.get_put)

lemma demo_topic_writes:
  "\<exists>e' r' u. applyWrites demo_engine demo_topic_registry demo_writers [] = Inr (e', r', u)"
  by (simp add: applyWrites_def demo_writers_sorted)
    (simp add: demo_writers_def demo_engine_graph collect_result_def getNode_def demo_chain_fields
      NewNode_def fmkeys_single collect_key_def writes_of_def update_channel_def demo_topic_get write_values_def
      Topic_Update_def NewTopic_def Topic_IsAvailable_def Let_def)

text \<open>Two nodes write to one topic: it receives the value of the last name only.\<close>

theorem applyWrites_channels_witness:
  "\<exists>e' r' u. applyWrites demo_engine demo_topic_registry demo_writers [] = Inr (e', r', u) \<and>
     map_option forget_version (Registry_Get r' ''x'') = Some (CTopic ((NewTopic None True)\<lparr>tp_values := [VStr ''2'']\<rparr>)) \<and>
     ''x'' \<in> set u \<and> vget (eng_channelVersions e') ''x'' = vget (eng_channelVersions demo_engine) ''x'' + 1"
proof -
  obtain e' r' u where aw: "applyWrites demo_engine demo_topic_registry demo_writers [] = Inr (e', r', u)"
    using demo_topic_writes by blast
  from applyWrites_channels [OF aw, of "''x''"] aw show ?thesis
    unfolding demo_writes demo_topic_get
    by (simp add: Topic_Update_def NewTopic_def Topic_IsAvailable_def Let_def)
qed

text \<open>
  A topic is meant to collect what is published to it, but of several values written to it in one step
  only one is kept.
\<close>

theorem topic_keeps_one_write:
  assumes "applyWrites e r results trig = Inr (e', r', updated)" and "Registry_Get r k = Some (CTopic c)"
    and "tp_accumulate c" and "tp_values c = []" and "step_writes (eng_graph e) results k = vs @ [VStr x]"
  shows "map_option forget_version (Registry_Get r' k) = Some (forget_version (CTopic (c\<lparr>tp_values := [VStr x]\<rparr>)))"
proof -
  have "write_values (CTopic c) (vs @ [VStr x]) = [VStr x]" by (simp add: write_values_def Let_def)
  with applyWrites_effect [OF assms(1), of k] assms(2-5) show ?thesis
    by (simp add: chan_of_def Topic_Update_def Let_def)
qed

theorem topic_keeps_one_write_witness:
  "\<exists>e' r' u. applyWrites demo_engine demo_topic_registry demo_writers [] = Inr (e', r', u) \<and>
     map_option forget_version (Registry_Get r' ''x'') = Some (forget_version (CTopic ((NewTopic None True)\<lparr>tp_values := [VStr ''2'']\<rparr>)))"
proof -
  obtain e' r' u where aw: "applyWrites demo_engine demo_topic_registry demo_writers [] = Inr (e', r', u)"
    using demo_topic_writes by blast
  have "step_writes (eng_graph demo_engine) demo_writers ''x'' = [VStr ''1''] @ [VStr ''2'']"
    using demo_writes by (simp add: step_writes_def)
  from topic_keeps_one_write [OF aw demo_topic_get _ _ this] aw show ?thesis by (simp add: NewTopic_def)
qed

lemma filter_key_unique: "distinct (map f zs) \<Longrightarrow> length (filter (\<lambda>x. f x = a) zs) \<le> 1"
  by (induction zs) (auto simp: filter_empty_conv, metis image_eqI)

lemma sort_key_perm:
  assumes "mset xs = mset ys" "distinct (map f xs)"
  shows "sort_key f xs = sort_key f ys"
proof (rule properties_for_sort_key)
  show "mset (sort_key f ys) = mset xs" using assms(1) by simp
  fix k
  have "mset (map f xs) = mset (map f ys)" using assms(1) by simp
  then have d: "distinct (map f ys)" using assms(2) mset_eq_imp_distinct_iff by blast
  have "mset (filter (\<lambda>x. f x = f k) xs) = mset (filter (\<lambda>x. f x = f k) ys)" using assms(1) by simp
  with filter_key_unique [OF assms(2), of "f k"] filter_key_unique [OF d, of "f k"]
  have "filter (\<lambda>x. f x = f k) xs = filter (\<lambda>x. f x = f k) ys"
    by (cases "filter (\<lambda>x. f x = f k) xs"; cases "filter (\<lambda>x. f x = f k) ys") auto
  then show "filter (\<lambda>x. f k = f x) (sort_key f ys) = filter (\<lambda>x. f k = f x) xs"
    using sort_key_stable [of f "f k" ys] by (simp add: eq_commute)
qed simp

text \<open>
  C3: applying the writes of a step does not depend on the order in which its results are listed: any
  permutation of the results of distinct nodes gives the same registry, versions, checkpoint and updated
  channels, or the same error. The last completed node and the merged state, which the run loop keeps
  beside them, do follow the list; they are no part of this claim.
\<close>

theorem applyWrites_order:
  assumes "mset results = mset results'" and "distinct (map r_Name results)"
  shows "applyWrites e r results trig = applyWrites e r results' trig"
  by (simp add: applyWrites_def sort_key_perm [OF assms])

theorem applyWrites_order_witness:
  "(\<exists>e' r' u. applyWrites demo_engine demo_topic_registry demo_writers [] = Inr (e', r', u)) \<and>
   applyWrites demo_engine demo_topic_registry demo_writers [] =
   applyWrites demo_engine demo_topic_registry (rev demo_writers) []"
  using demo_topic_writes
  by (intro conjI applyWrites_order) (simp_all add: demo_writers_def)

subsection \<open>Version bookkeeping\<close>

text \<open>The engine's counters and those of its current checkpoint agree.\<close>

definition versions_agree :: "Engine \<Rightarrow> bool" where
  "versions_agree e = (case eng_currentCheckpoint e of
      None \<Rightarrow> True
    | Some c \<Rightarrow> (\<forall>ch. vget (cp_ChannelVersions c) ch = vget (eng_channelVersions e) ch) \<and>
        (\<forall>n. seen_row (cp_VersionsSeen c) n = seen_row (eng_versionsSeen e) n))"

lemma agree_bump: "versions_agree e \<Longrightarrow> versions_agree (bump_version e k)"
  by (auto simp: versions_agree_def bump_version_def IncrementChannel_def split: option.splits)

lemma agree_mark: "versions_agree e \<Longrightarrow> versions_agree (markSeen e n c)"
  by (auto simp: versions_agree_def markSeen_def MarkSeen_def split: option.splits)

lemma agree_marks: "versions_agree e \<Longrightarrow> versions_agree (foldl (\<lambda>e (n, c). markSeen e n c) e marks)"
  by (induction marks arbitrary: e) (auto simp: agree_mark)

lemma pending_versions:
  "cp_ChannelVersions (foldl (\<lambda>c pw. AddPendingWrite c (pw_Channel pw) (pw_Value pw) (pw_Overwrite pw) (pw_Node pw)) c pws) =
     cp_ChannelVersions c \<and>
   cp_VersionsSeen (foldl (\<lambda>c pw. AddPendingWrite c (pw_Channel pw) (pw_Value pw) (pw_Overwrite pw) (pw_Node pw)) c pws) =
     cp_VersionsSeen c"
  by (induction pws arbitrary: c) (simp_all add: AddPendingWrite_def)

lemma agree_pending: "versions_agree e \<Longrightarrow> versions_agree (store_pending e pws)"
  by (auto simp: versions_agree_def store_pending_def pending_versions split: option.splits)

lemma agree_update:
  "update_channel (e, r, upd) w = Inr (e', r', upd') \<Longrightarrow> versions_agree e \<Longrightarrow> versions_agree e'"
  using update_channel_Inr [of e r upd "fst w" "snd w" e' r' upd'] by (auto simp: agree_bump split: if_splits)

lemma agree_updates:
  "foldl_err update_channel (e, r, upd) ws = Inr (e', r', upd') \<Longrightarrow> versions_agree e \<Longrightarrow> versions_agree e'"
proof (induction ws arbitrary: e r upd)
  case (Cons w ws)
  then obtain e1 r1 upd1 where "update_channel (e, r, upd) w = Inr (e1, r1, upd1)"
    "foldl_err update_channel (e1, r1, upd1) ws = Inr (e', r', upd')" by (auto split: sum.splits)
  with Cons agree_update show ?case by blast
qed simp

text \<open>
  The two copies of the version bookkeeping stay equal: if the channel versions and the seen
  versions of the engine agree with those of its current checkpoint before a step's outputs are
  applied, they agree afterwards.
\<close>

theorem versions_stay_equal:
  assumes "applyWrites e r results trig = Inr (e', r', updated)" and "versions_agree e"
  shows "versions_agree e'"
  using assms(1)
proof (rule applyWrites_parts)
  fix ws e1
  assume "foldl_err update_channel (e, r, []) (map (\<lambda>k. (k, the (fmlookup (w_byChannel ws) k))) (fmkeys (w_byChannel ws))) =
      Inr (e1, r', updated)"
    and "e' = foldl (\<lambda>e (n, c). markSeen e n c)
        (store_pending e1 (map (\<lambda>k. the (fmlookup (w_pending ws) k)) (fmkeys (w_pending ws))))
        [(n, c). n \<leftarrow> fmkeys (w_byChannel ws), n \<in> set trig, c \<leftarrow> updated]"
  then show ?thesis using assms(2) by (simp only: agree_marks agree_pending agree_updates)
qed

theorem versions_stay_equal_witness:
  "\<exists>e' r' u. applyWrites demo_engine NewRegistry demo_results [] = Inr (e', r', u) \<and> versions_agree e'"
proof -
  obtain e' r' u where aw: "applyWrites demo_engine NewRegistry demo_results [] = Inr (e', r', u)"
    using demo_applyWrites by blast
  moreover have "versions_agree demo_engine" by (simp add: versions_agree_def demo_engine_def NewEngine_def)
  ultimately show ?thesis using versions_stay_equal [OF aw] by blast
qed

lemma seen_marks:
  "n \<notin> fst ` set marks \<Longrightarrow>
   fmlookup (eng_versionsSeen (foldl (\<lambda>e (n, c). markSeen e n c) e marks)) n = fmlookup (eng_versionsSeen e) n"
  by (induction marks arbitrary: e) (auto simp: markSeen_def)

lemma seen_update: "update_channel (e, r, upd) w = Inr (e', r', upd') \<Longrightarrow> eng_versionsSeen e' = eng_versionsSeen e"
  using update_channel_Inr [of e r upd "fst w" "snd w" e' r' upd'] by (auto simp: bump_version_def split: if_splits)

lemma seen_updates:
  "foldl_err update_channel (e, r, upd) ws = Inr (e', r', upd') \<Longrightarrow> eng_versionsSeen e' = eng_versionsSeen e"
proof (induction ws arbitrary: e r upd)
  case (Cons w ws)
  then obtain e1 r1 upd1 where "update_channel (e, r, upd) w = Inr (e1, r1, upd1)"
    "foldl_err update_channel (e1, r1, upd1) ws = Inr (e', r', upd')" by (auto split: sum.splits)
  with Cons.IH seen_update show ?case by metis
qed simp

text \<open>
  The bookkeeping of seen versions is not kept per node: a step only marks names of channels it
  wrote to, so a node whose name is not the name of a written channel is never recorded as having
  seen anything.
\<close>

theorem nodes_never_marked:
  assumes "applyWrites e r results trig = Inr (e', r', updated)" and "step_writes (eng_graph e) results node = []"
  shows "hasSeen e' node ch = (case fmlookup (eng_versionsSeen e) node of None \<Rightarrow> False | Some row \<Rightarrow>
     (case fmlookup row ch of None \<Rightarrow> False | Some v \<Rightarrow> v = vget (eng_channelVersions e') ch))"
  using assms(1)
proof (rule applyWrites_parts)
  fix ws e1
  assume c: "foldl_err (collect_result (eng_graph e)) \<lparr>w_byChannel = fmempty, w_pending = fmempty\<rparr> (sort_key r_Name results) = Inr ws"
    and u: "foldl_err update_channel (e, r, []) (map (\<lambda>k. (k, the (fmlookup (w_byChannel ws) k))) (fmkeys (w_byChannel ws))) =
      Inr (e1, r', updated)"
    and e': "e' = foldl (\<lambda>e (n, c). markSeen e n c)
        (store_pending e1 (map (\<lambda>k. the (fmlookup (w_pending ws) k)) (fmkeys (w_pending ws))))
        [(n, c). n \<leftarrow> fmkeys (w_byChannel ws), n \<in> set trig, c \<leftarrow> updated]"
  have "node \<notin> set (fmkeys (w_byChannel ws))" using collected [OF c, of node] assms(2) by (auto simp: fmdom_notI)
  then have "fmlookup (eng_versionsSeen e') node = fmlookup (eng_versionsSeen e1) node"
    unfolding e' by (subst seen_marks) (auto simp: store_pending_def)
  then show ?thesis by (simp add: hasSeen_def seen_updates [OF u])
qed

theorem nodes_never_marked_witness:
  "\<exists>e' r' u. applyWrites demo_engine NewRegistry demo_results [] = Inr (e', r', u) \<and> \<not> hasSeen e' ''a'' ''x''"
proof -
  obtain e' r' u where aw: "applyWrites demo_engine NewRegistry demo_results [] = Inr (e', r', u)"
    using demo_applyWrites by blast
  have "step_writes (eng_graph demo_engine) demo_results ''a'' = []"
    by (simp add: step_writes_def demo_results_def contribution_def output_map_def getNode_def demo_chain_fields
        NewNode_def demo_engine_graph)
  with nodes_never_marked [OF aw, of "''a''" "''x''"] aw show ?thesis by (simp add: demo_engine_def NewEngine_def)
qed

subsection \<open>Overwrites and nil values\<close>

text \<open>
  Wrapping an output value in \<open>types.Overwrite\<close> does not bypass the reducer of an aggregate: the
  engine unwraps the value before it reaches the channel, which then combines it with the current one.
\<close>

theorem overwrite_is_reduced:
  assumes "applyWrites e r [\<lparr>r_Name = n, r_Output = VMap (fmap_of_list [(k, VOverwrite v)]), r_Err = None\<rparr>] trig =
      Inr (e', r', updated)"
    and "case getNode (eng_graph e) n of Some node \<Rightarrow> n_FieldMapping node = [] | None \<Rightarrow> True"
    and "Registry_Get r k = Some (CBinaryOperatorAggregate c)" and "bo_value c \<noteq> VMissing"
    and "v \<noteq> VNil" "isOverwrite v = None" "bo_operator c (bo_value c) v \<noteq> VMissing"
  shows "map_option (\<lambda>ch. snd (Get ch)) (Registry_Get r' k) = Some (Inr (bo_operator c (bo_value c) v))"
proof -
  let ?res = "\<lparr>r_Name = n, r_Output = VMap (fmap_of_list [(k, VOverwrite v)]), r_Err = None\<rparr>"
  have sw: "step_writes (eng_graph e) [?res] k = [v]"
    using assms(2) by (auto simp: step_writes_def contribution_def output_map_def split: option.splits)
  have wv: "write_values (chan_of r k) [v] = [v]" "chan_of r k = CBinaryOperatorAggregate c"
    using assms(3,5) by (simp_all add: write_values_def chan_of_def)
  have "fst (Update (chan_of r k) (write_values (chan_of r k) [v])) = agg c (bo_operator c (bo_value c) v)"
    unfolding wv(1) unfolding wv(2) using assms(4,6) by (subst Update_agg) (simp_all add: overwrite_free_def)
  with applyWrites_effect [OF assms(1), of k] sw
  have "map_option forget_version (Registry_Get r' k) = Some (forget_version (agg c (bo_operator c (bo_value c) v)))"
    by simp
  then obtain ch where ch: "Registry_Get r' k = Some ch"
    "forget_version ch = forget_version (agg c (bo_operator c (bo_value c) v))" by auto
  have "snd (Get ch) = snd (Get (forget_version ch))" by (rule Get_forget_version(2))
  also have "\<dots> = snd (Get (agg c (bo_operator c (bo_value c) v)))"
    unfolding ch(2) by (rule Get_forget_version(2) [symmetric])
  finally have "snd (Get ch) = snd (Get (agg c (bo_operator c (bo_value c) v)))" .
  with ch(1) assms(7) show ?thesis by (simp add: BinaryOperatorAggregate_Get_def)
qed

definition demo_total :: Registry where
  "demo_total = Registry_Register NewRegistry ''x''
     (CBinaryOperatorAggregate \<lparr>Key = ''x'', Typ = Some TInt, Version = 0, bo_value = VInt 5, bo_operator = IntAdd (+)\<rparr>)"

theorem overwrite_is_reduced_witness:
  "\<exists>e' r' u. applyWrites demo_engine demo_total
      [\<lparr>r_Name = ''z'', r_Output = VMap (fmap_of_list [(''x'', VOverwrite (VInt 2))]), r_Err = None\<rparr>] [] = Inr (e', r', u) \<and>
     map_option (\<lambda>ch. snd (Get ch)) (Registry_Get r' ''x'') = Some (Inr (VInt 7))"
proof -
  have g: "getNode (eng_graph demo_engine) ''z'' = None"
    by (simp add: demo_engine_graph getNode_def demo_chain_fields)
  obtain e' r' u where aw: "applyWrites demo_engine demo_total
      [\<lparr>r_Name = ''z'', r_Output = VMap (fmap_of_list [(''x'', VOverwrite (VInt 2))]), r_Err = None\<rparr>] [] = Inr (e', r', u)"
    by (simp add: applyWrites_def collect_result_def g fmkeys_single collect_key_def writes_of_def update_channel_def
        demo_total_def reg.get_put write_values_def BinaryOperatorAggregate_Update_def
        BinaryOperatorAggregate_IsAvailable_def IntAdd_def Let_def)
  have "Registry_Get demo_total ''x'' = Some (CBinaryOperatorAggregate
      \<lparr>Key = ''x'', Typ = Some TInt, Version = 0, bo_value = VInt 5, bo_operator = IntAdd (+)\<rparr>)"
    by (simp add: demo_total_def reg.get_put)
  from overwrite_is_reduced [OF aw _ this] aw show ?thesis by (simp add: g IntAdd_def)
qed

text \<open>
  A nil value in a channel named like an exported field of a struct schema crashes the run: the
  conversion of the task's input calls reflection on the nil value, outside any recovery.
\<close>

theorem nil_field_panics:
  assumes "g_stateSchema g = VStruct n fs" and "(f, True, t, v) \<in> set fs" and "fmlookup m f = Some VNil"
  shows "\<exists>p. mapToStateSchema conv g (VMap m) = Inl (GoPanic p)"
proof -
  have "\<exists>p. fill_fields conv m fs = Inl (GoPanic p)"
    using assms(2)
  proof (induction fs)
    case (Cons x fs)
    obtain f' ex t' v' where x: "x = (f', ex, t', v')" by (cases x)
    show ?case
    proof (cases "ex \<and> fmlookup m f' = Some VNil")
      case True
      then show ?thesis by (simp add: x)
    next
      case False
      with Cons.prems assms(3) have "(f, True, t, v) \<in> set fs" by (auto simp: x)
      with Cons.IH False show ?thesis by (auto simp: x Let_def split: option.split)
    qed
  qed simp
  then show ?thesis using assms(1) by (auto simp: mapToStateSchema_def)
qed

theorem nil_field_panics_witness:
  "\<exists>p. mapToStateSchema (\<lambda>_ _. None)
     (NewStateGraph (VStruct ''S'' [(''X'', True, TStr, VStr [])])) (VMap (fmap_of_list [(''X'', VNil)])) = Inl (GoPanic p)"
  by (rule nil_field_panics [of _ "''S''" "[(''X'', True, TStr, VStr [])]" "''X''" TStr "VStr []"])
    (simp_all add: NewStateGraph_def)

end
