(* ===== verification/Engine_Run.thy ===== *)
theory Engine_Run
  imports Engine_Props
begin

text \<open>
  \<open>Engine.Run\<close>: initialisation with input or checkpoint, the superstep loop with its recursion limit,
  interrupts and durability modes, and the final output. What the code takes from outside is one
  record \<open>Env\<close>: fresh identifiers, the clock, map iteration orders, cancellation (before a step and while a task runs), JSON text of states,
  and the backoff waits of the retry executor. Stream events and callbacks only report and are left
  out, except for the values event, whose collection reads (and so may empty) channels. An
  asynchronous checkpoint save is modelled as completing before the next step; its errors are ignored
  as in the code.
\<close>

record Env =
  env_other :: "gval \<Rightarrow> string"
  env_perm :: "nat \<Rightarrow> string list \<Rightarrow> string list"
  env_inputPerm :: "nat \<Rightarrow> string list \<Rightarrow> string list"
  env_ids :: "nat \<Rightarrow> string \<Rightarrow> string"
  env_conv :: "gotype \<Rightarrow> gval \<Rightarrow> gval option"
  env_wait :: "nat \<Rightarrow> string \<Rightarrow> int \<Rightarrow> gerror option"
  env_sel :: "nat \<Rightarrow> string \<Rightarrow> task_wait"
  env_ctx :: "nat \<Rightarrow> gerror option"
  env_thread :: string
  env_uuid :: "nat \<Rightarrow> string"
  env_entry :: "nat \<Rightarrow> string"
  env_now :: "nat \<Rightarrow> gotime"
  env_marshal :: "gval \<Rightarrow> string option"
  env_unmarshal :: "string \<Rightarrow> gmap option"
  env_substate :: "gval \<Rightarrow> gval option"
  env_parseT :: "string \<Rightarrow> gotime option"

record RunState =
  rs_eng :: Engine
  rs_reg :: Registry
  rs_step :: nat
  rs_completed :: "(string, bool) fmap"
  rs_last :: string
  rs_state :: gval

text \<open>How a run ends: with the final state or with an error; the engine as it is left.\<close>

datatype run_result = RunOk Engine gval | RunErr Engine gerror

datatype step_result = Continue RunState | Break RunState | Fail Engine gerror

subsection \<open>Saving checkpoints\<close>

text \<open>A put through the engine's checkpointer; without one nothing happens.\<close>

definition put_checkpoint :: "string \<Rightarrow> gotime \<Rightarrow> Engine \<Rightarrow> gmap \<Rightarrow> gmap \<Rightarrow> gerror + Engine" where
  "put_checkpoint newID now e config cp =
     (case eng_checkpointer e of
        None \<Rightarrow> Inr e
      | Some s \<Rightarrow> map_sum id (\<lambda>s'. e\<lparr>eng_checkpointer := Some s'\<rparr>) (MemorySaver_Put newID now s config cp))"

definition step_config :: "string \<Rightarrow> string \<Rightarrow> int \<Rightarrow> gmap" where
  "step_config threadID checkpointID step = fmap_of_list
     [(ConfigKeyThreadID, VStr threadID), (ConfigKeyCheckpointID, VStr checkpointID), (''step'', gint step)]"

definition saveCheckpoint :: "string \<Rightarrow> gotime \<Rightarrow> Engine \<Rightarrow> string \<Rightarrow> string \<Rightarrow> int \<Rightarrow> gmap \<Rightarrow> gerror + Engine" where
  "saveCheckpoint newID now e threadID checkpointID step cp =
     put_checkpoint newID now e (step_config threadID checkpointID step) cp"

definition deferCheckpoint :: "Engine \<Rightarrow> string \<Rightarrow> string \<Rightarrow> int \<Rightarrow> gmap \<Rightarrow> Engine" where
  "deferCheckpoint e threadID checkpointID step cp =
     e\<lparr>eng_deferredCheckpoints := eng_deferredCheckpoints e @
        [\<lparr>dc_ThreadID = threadID, dc_CheckpointID = checkpointID, dc_Step = step, dc_Checkpoint = cp\<rparr>]\<rparr>"

fun save_all :: "string \<Rightarrow> gotime \<Rightarrow> Engine \<Rightarrow> gerror option \<Rightarrow> deferredCheckpoint list \<Rightarrow> Engine \<times> gerror option" where
  "save_all newID now e lastErr [] = (e, lastErr)"
| "save_all newID now e lastErr (dc # dcs) =
     (case saveCheckpoint newID now e (dc_ThreadID dc) (dc_CheckpointID dc) (dc_Step dc) (dc_Checkpoint dc) of
        Inl err \<Rightarrow> save_all newID now e (Some err) dcs
      | Inr e' \<Rightarrow> save_all newID now e' lastErr dcs)"

definition saveDeferredCheckpoints :: "string \<Rightarrow> gotime \<Rightarrow> Engine \<Rightarrow> Engine \<times> gerror option" where
  "saveDeferredCheckpoints newID now e =
     (if eng_checkpointer e = None \<or> eng_deferredCheckpoints e = [] then (e, None)
      else (case save_all newID now e None (eng_deferredCheckpoints e) of
          (e', lastErr) \<Rightarrow> (e'\<lparr>eng_deferredCheckpoints := []\<rparr>, lastErr)))"

text \<open>The save at the end of a step, by durability mode.\<close>

definition save_step :: "Env \<Rightarrow> string \<Rightarrow> nat \<Rightarrow> Engine \<Rightarrow> gmap \<Rightarrow> gerror + Engine" where
  "save_step env threadID step e cp =
     (if eng_checkpointer e = None then Inr e
      else (let cpID = env_uuid env step; save = saveCheckpoint (env_entry env step) (env_now env step) e threadID cpID (int step) cp
            in case cfg_Durability (eng_config e) of
                 DurabilityAsync \<Rightarrow> (case save of Inl err \<Rightarrow> Inr e | Inr e' \<Rightarrow> Inr e')
               | DurabilityExit \<Rightarrow> Inr (deferCheckpoint e threadID cpID (int step) cp)
               | _ \<Rightarrow> (case save of Inl err \<Rightarrow> Inl (Wrapf ''failed to save checkpoint'' err) | Inr e' \<Rightarrow> Inr e')))"

subsection \<open>Results of a step\<close>

text \<open>Completed tasks, last completed node and merged state, in the order of the results.\<close>

fun note_results ::
  "(string, bool) fmap \<times> string \<times> gval \<Rightarrow> TaskResult list \<Rightarrow> (string, bool) fmap \<times> string \<times> gval" where
  "note_results acc [] = acc"
| "note_results (completed, lastNode, st) (r # rs) =
     (if r_Err r = None
      then note_results (fmupd (r_Name r) True completed, r_Name r, mergeStates st (r_Output r)) rs
      else note_results (completed, lastNode, st) rs)"

definition interrupted :: "TaskResult \<Rightarrow> bool" where
  "interrupted r = (case r_Err r of Some err \<Rightarrow> IsGraphInterrupt err | None \<Rightarrow> False)"

definition allFailed :: "TaskResult list \<Rightarrow> bool" where
  "allFailed results \<longleftrightarrow> results \<noteq> [] \<and> list_all (\<lambda>r. r_Err r \<noteq> None) results"

text \<open>The first interrupt that carries values.\<close>

fun first_interrupt :: "TaskResult list \<Rightarrow> gval list option" where
  "first_interrupt [] = None"
| "first_interrupt (r # rs) =
     (case r_Err r of
        Some (GraphInterrupt (v # vs)) \<Rightarrow> Some (v # vs)
      | _ \<Rightarrow> first_interrupt rs)"

definition interrupt_payload ::
  "Env \<Rightarrow> nat \<Rightarrow> Registry \<Rightarrow> (string, bool) fmap \<Rightarrow> string \<Rightarrow> gval \<Rightarrow> TaskResult list \<Rightarrow> gmap" where
  "interrupt_payload env step r completed lastNode st results =
     (let p1 = fmupd ''__step__'' (VFloat (of_nat step))
                (fmupd ''__last_completed_node__'' (VStr lastNode)
                  (fmupd ''__completed_tasks__'' (VStr (serializeStringSet completed)) (CreateCheckpoint r)));
          p2 = (if st = VNil then p1
                else (case env_marshal env st of Some s \<Rightarrow> fmupd ''__last_state__'' (VStr s) p1 | None \<Rightarrow> p1))
      in case first_interrupt results of
           Some (v # vs) \<Rightarrow> (case env_substate env v of Some b \<Rightarrow> fmupd ''__sub_state__'' b p2 | None \<Rightarrow> p2)
         | _ \<Rightarrow> p2)"

definition thread_config :: "string \<Rightarrow> gmap" where
  "thread_config threadID = fmap_of_list [(ConfigKeyThreadID, VStr threadID)]"

subsection \<open>One superstep\<close>

text \<open>The part of the loop body after the tasks have run.\<close>

definition finish_step :: "Env \<Rightarrow> string \<Rightarrow> RunState \<Rightarrow> string list \<Rightarrow> TaskResult list \<Rightarrow> step_result" where
  "finish_step env threadID s triggers results =
     (case note_results (rs_completed s, rs_last s, rs_state s) results of (completed, lastNode, st) \<Rightarrow>
        if list_ex interrupted results
        then (case put_checkpoint (env_entry env (rs_step s)) (env_now env (rs_step s)) (rs_eng s) (thread_config threadID)
                     (interrupt_payload env (rs_step s) (rs_reg s) completed lastNode st results) of
                Inl err \<Rightarrow> Fail (rs_eng s) (Wrapf ''failed to save checkpoint on interrupt'' err)
              | Inr e' \<Rightarrow> Fail e' (GraphInterrupt (case first_interrupt results of Some vs \<Rightarrow> vs | None \<Rightarrow> [])))
        else if allFailed results then Fail (rs_eng s) (Errorf ''all tasks failed'')
        else (case applyWrites (rs_eng s) (rs_reg s) results triggers of
            Inl err \<Rightarrow> Fail (rs_eng s) (case err of GoPanic p \<Rightarrow> err | _ \<Rightarrow> Wrapf ''failed to apply writes'' err)
          | Inr (e', r', updated) \<Rightarrow>
              (let r'' = fst (GetValues r')
               in case save_step env threadID (rs_step s) e' (CreateCheckpoint r'') of
                    Inl err \<Rightarrow> Fail e' err
                  | Inr e'' \<Rightarrow>
                      if shouldInterruptAfter e'' results then Fail e'' (GraphInterrupt [])
                      else Continue \<lparr>rs_eng = e'', rs_reg = r'', rs_step = Suc (rs_step s), rs_completed = completed,
                                     rs_last = lastNode, rs_state = st\<rparr>)))"

definition run_step :: "Env \<Rightarrow> string \<Rightarrow> RunState \<Rightarrow> step_result" where
  "run_step env threadID s =
     (let e = rs_eng s; step = rs_step s
      in case env_ctx env step of
           Some err \<Rightarrow> Fail e err
         | None \<Rightarrow>
             if int step \<ge> eng_recursionLimit e then Fail e (GraphRecursionError (eng_recursionLimit e))
             else (case prepareNextTasks (env_other env) (env_perm env step) (env_ids env step) (eng_graph e) (rs_reg s)
                          (rs_completed s) (rs_last s) (rs_state s) of
                 Inl err \<Rightarrow> Fail e (Wrapf ''failed to prepare next tasks'' err)
               | Inr (tasks, triggers) \<Rightarrow>
                   if tasks = [] then Break s
                   else if shouldInterrupt e tasks \<noteq> []
                     then (case put_checkpoint (env_entry env step) (env_now env step) e (thread_config threadID)
                                  (CreateCheckpoint (rs_reg s)) of
                             Inl err \<Rightarrow> Fail e (Wrapf ''failed to save checkpoint'' err)
                           | Inr e' \<Rightarrow> Fail e' (GraphInterrupt []))
                   else (case executeTasksAsync (env_conv env) (env_wait env step) (env_sel env step) e step (rs_reg s) tasks of
                       (r', Inl panic) \<Rightarrow> Fail e panic
                     | (r', Inr results) \<Rightarrow> finish_step env threadID (s\<lparr>rs_reg := r'\<rparr>) triggers results)))"

subsection \<open>The loop\<close>

text \<open>What a run never changes of its engine.\<close>

definition same_setup :: "Engine \<Rightarrow> Engine \<Rightarrow> bool" where
  "same_setup e e' \<longleftrightarrow> eng_recursionLimit e' = eng_recursionLimit e \<and> eng_graph e' = eng_graph e \<and>
     eng_config e' = eng_config e \<and> eng_interrupts e' = eng_interrupts e \<and> eng_interruptsAfter e' = eng_interruptsAfter e"

lemma same_setup_refl [simp]: "same_setup e e"
  by (simp add: same_setup_def)

lemma same_setup_trans: "same_setup a b \<Longrightarrow> same_setup b c \<Longrightarrow> same_setup a c"
  by (simp add: same_setup_def)

lemma same_setup_update: "update_channel (e, r, upd) w = Inr (e', r', upd') \<Longrightarrow> same_setup e e'"
  using update_channel_Inr [of e r upd "fst w" "snd w" e' r' upd']
  by (auto simp: bump_version_def same_setup_def split: if_splits)

lemma same_setup_updates: "foldl_err update_channel (e, r, upd) ws = Inr (e', r', upd') \<Longrightarrow> same_setup e e'"
proof (induction ws arbitrary: e r upd)
  case (Cons w ws)
  then obtain e1 r1 upd1 where "update_channel (e, r, upd) w = Inr (e1, r1, upd1)"
    "foldl_err update_channel (e1, r1, upd1) ws = Inr (e', r', upd')" by (auto split: sum.splits)
  with Cons.IH same_setup_update same_setup_trans show ?case by blast
qed simp

lemma same_setup_marks: "same_setup e (foldl (\<lambda>e (n, c). markSeen e n c) e marks)"
  by (induction marks arbitrary: e) (auto simp: markSeen_def same_setup_def)

lemma same_setup_applyWrites:
  assumes "applyWrites e r results trig = Inr (e', r', updated)"
  shows "same_setup e e'"
  using assms
proof (rule applyWrites_parts)
  fix ws e1
  assume u: "foldl_err update_channel (e, r, []) (map (\<lambda>k. (k, the (fmlookup (w_byChannel ws) k))) (fmkeys (w_byChannel ws))) =
      Inr (e1, r', updated)"
    and e': "e' = foldl (\<lambda>e (n, c). markSeen e n c)
        (store_pending e1 (map (\<lambda>k. the (fmlookup (w_pending ws) k)) (fmkeys (w_pending ws))))
        [(n, c). n \<leftarrow> fmkeys (w_byChannel ws), n \<in> set trig, c \<leftarrow> updated]"
  have "same_setup e1 (store_pending e1 pws)" for pws by (simp add: store_pending_def same_setup_def)
  with same_setup_updates [OF u] show ?thesis unfolding e' using same_setup_marks same_setup_trans by blast
qed

lemma same_setup_put: "put_checkpoint i n e cfg cp = Inr e' \<Longrightarrow> same_setup e e'"
  by (auto simp: put_checkpoint_def same_setup_def map_sum_def split: option.splits sum.splits)

lemma same_setup_save: "save_step env th st e cp = Inr e' \<Longrightarrow> same_setup e e'"
  by (auto simp: save_step_def saveCheckpoint_def deferCheckpoint_def Let_def same_setup_def
      split: if_splits Durability.splits sum.splits dest!: same_setup_put)

lemma finish_step_parts:
  assumes "finish_step env th s trig results = Continue s'"
  obtains e' r' updated where "applyWrites (rs_eng s) (rs_reg s) results trig = Inr (e', r', updated)"
    and "rs_reg s' = fst (GetValues r')" "rs_step s' = Suc (rs_step s)"
    and "save_step env th (rs_step s) e' (CreateCheckpoint (rs_reg s')) = Inr (rs_eng s')"
proof -
  obtain completed lastNode st where n: "note_results (rs_completed s, rs_last s, rs_state s) results = (completed, lastNode, st)"
    by (cases "note_results (rs_completed s, rs_last s, rs_state s) results")
  from assms obtain e' r' updated where aw: "applyWrites (rs_eng s) (rs_reg s) results trig = Inr (e', r', updated)"
    by (auto simp: finish_step_def n split: if_splits sum.splits)
  with assms have "rs_reg s' = fst (GetValues r')" "rs_step s' = Suc (rs_step s)"
    "save_step env th (rs_step s) e' (CreateCheckpoint (rs_reg s')) = Inr (rs_eng s')"
    by (auto simp: finish_step_def n Let_def split: if_splits sum.splits)
  with aw that show thesis by blast
qed

lemma finish_step_Continue:
  assumes "finish_step env th s trig results = Continue s'"
  shows "rs_step s' = Suc (rs_step s) \<and> same_setup (rs_eng s) (rs_eng s')"
  using assms by (rule finish_step_parts) (metis same_setup_applyWrites same_setup_save same_setup_trans)

lemma run_step_Continue:
  assumes "run_step env th s = Continue s'"
  shows "rs_step s' = Suc (rs_step s) \<and> same_setup (rs_eng s) (rs_eng s') \<and>
    int (rs_step s) < eng_recursionLimit (rs_eng s)"
proof -
  have lim: "int (rs_step s) < eng_recursionLimit (rs_eng s)"
    using assms by (auto simp: run_step_def Let_def split: option.splits if_splits)
  then obtain tasks triggers r' results where "finish_step env th (s\<lparr>rs_reg := r'\<rparr>) triggers results = Continue s'"
    using assms by (auto simp: run_step_def Let_def split: option.splits if_splits sum.splits prod.splits)
  from finish_step_Continue [OF this] lim show ?thesis by simp
qed

text \<open>The end of a run that ran out of tasks.\<close>

definition finish_run :: "Env \<Rightarrow> RunState \<Rightarrow> run_result" where
  "finish_run env s =
     (let finalState = snd (buildOutput (rs_reg s) (rs_state s)); e = rs_eng s
      in if cfg_Durability (eng_config e) = DurabilityExit
         then (case saveDeferredCheckpoints (env_entry env (rs_step s)) (env_now env (rs_step s)) e of
             (e', Some err) \<Rightarrow> RunErr e' (Wrapf ''failed to save deferred checkpoints'' err)
           | (e', None) \<Rightarrow> RunOk e' finalState)
         else RunOk e finalState)"

function run_loop :: "Env \<Rightarrow> string \<Rightarrow> RunState \<Rightarrow> run_result" where
  "run_loop env threadID s =
     (case run_step env threadID s of
        Continue s' \<Rightarrow> run_loop env threadID s'
      | Break s' \<Rightarrow> finish_run env s'
      | Fail e err \<Rightarrow> RunErr e err)"
  by pat_completeness auto
termination
proof (relation "measure (\<lambda>(env, th, s). nat (eng_recursionLimit (rs_eng s) - int (rs_step s)))")
  fix env th s s'
  assume "run_step env th s = Continue s'"
  from run_step_Continue [OF this]
  show "((env, th, s'), env, th, s) \<in> measure (\<lambda>(env, th, s). nat (eng_recursionLimit (rs_eng s) - int (rs_step s)))"
    by (simp add: same_setup_def)
qed simp

declare run_loop.simps [simp del]

subsection \<open>Initialisation\<close>

definition init_registry :: "stateGraph \<Rightarrow> Registry" where
  "init_registry g = \<lparr>channels = fmmap Copy (getGraphChannels g)\<rparr>"

definition requested_id :: "RunnableConfig \<Rightarrow> string" where
  "requested_id config = (case fmlookup (Configurable config) ConfigKeyCheckpointID of Some (VStr i) \<Rightarrow> i | _ \<Rightarrow> [])"

definition load_config :: "string \<Rightarrow> RunnableConfig \<Rightarrow> gmap" where
  "load_config threadID config =
     (if requested_id config = [] then thread_config threadID
      else fmupd ConfigKeyCheckpointID (VStr (requested_id config)) (thread_config threadID))"

text \<open>
  Loading (the errors of the in-memory saver are plain messages): an error if a requested checkpoint cannot be read, no checkpoint, or the stored map. Errors
  of a load that was not requested by identifier are ignored.
\<close>

definition load_checkpoint :: "Engine \<Rightarrow> string \<Rightarrow> gerror + gmap option" where
  "load_checkpoint e threadID =
     (case eng_checkpointer e of
        None \<Rightarrow> Inr None
      | Some saver \<Rightarrow>
          (case MemorySaver_Get saver (load_config threadID (eng_config e)) of
             Inl err \<Rightarrow> if requested_id (eng_config e) \<noteq> []
                        then Inl (Errorf (''requested checkpoint_id '' @ requested_id (eng_config e) @ '': '' @
                               (case err of Errorf msg \<Rightarrow> msg | _ \<Rightarrow> []))) else Inr None
           | Inr None \<Rightarrow> if requested_id (eng_config e) \<noteq> []
                         then Inl (Errorf (''requested checkpoint_id '' @ requested_id (eng_config e) @ '': checkpoint not found''))
                         else Inr None
           | Inr (Some cp) \<Rightarrow> Inr (Some cp)))"

definition restore_list :: "Registry \<Rightarrow> gmap \<Rightarrow> (string \<times> gval) list" where
  "restore_list r cp = [(k, the (fmlookup cp k)). k \<leftarrow> fmkeys cp, registered r k]"

text \<open>The loop's variables as a loaded checkpoint sets them.\<close>

definition completed_of :: "gmap \<Rightarrow> (string, bool) fmap" where
  "completed_of cp =
     (case str_at cp ''__completed_tasks__'' of
        Some s \<Rightarrow> (case deserializeStringSet s of Some m \<Rightarrow> m | None \<Rightarrow> fmempty)
      | None \<Rightarrow> fmempty)"

definition last_node_of :: "gmap \<Rightarrow> string" where
  "last_node_of cp = (case str_at cp ''__last_completed_node__'' of Some s \<Rightarrow> s | None \<Rightarrow> [])"

definition last_state_of :: "Env \<Rightarrow> gmap \<Rightarrow> gval" where
  "last_state_of env cp =
     (case str_at cp ''__last_state__'' of
        Some s \<Rightarrow> (case env_unmarshal env s of Some m \<Rightarrow> VMap m | None \<Rightarrow> VNil)
      | None \<Rightarrow> VNil)"

definition reset_engine :: "Engine \<Rightarrow> Engine" where
  "reset_engine e = e\<lparr>eng_currentCheckpoint := None, eng_channelVersions := fmempty, eng_versionsSeen := fmempty,
     eng_deferredCheckpoints := []\<rparr>"

definition resume_run :: "Env \<Rightarrow> string \<Rightarrow> Engine \<Rightarrow> Registry \<Rightarrow> gmap \<Rightarrow> run_result + RunState" where
  "resume_run env threadID e r cp =
     (case RestoreFromCheckpoint r (restore_list r cp) of
        (r', Some err) \<Rightarrow> Inl (RunErr e (Wrapf ''failed to restore from checkpoint'' err))
      | (r', None) \<Rightarrow>
          Inr \<lparr>rs_eng = e\<lparr>eng_currentCheckpoint := Some (FromMap (env_parseT env) cp)\<rparr>, rs_reg = r', rs_step = 0,
               rs_completed = completed_of cp, rs_last = last_node_of cp, rs_state = last_state_of env cp\<rparr>)"

definition start_run :: "Env \<Rightarrow> string \<Rightarrow> Engine \<Rightarrow> Registry \<Rightarrow> gval \<Rightarrow> run_result + RunState" where
  "start_run env threadID e r input =
     (case applyInput (env_inputPerm env 1) r input of
        (r', input', Some err) \<Rightarrow> Inl (RunErr e (Wrapf ''failed to apply input'' err))
      | (r', input', None) \<Rightarrow>
          Inr \<lparr>rs_eng = e\<lparr>eng_currentCheckpoint := Some (NewCheckpoint (env_uuid env 0) (env_now env 0) threadID 0)\<rparr>,
               rs_reg = r', rs_step = 0, rs_completed = fmempty, rs_last = [], rs_state = input'\<rparr>)"

definition init_run :: "Env \<Rightarrow> Engine \<Rightarrow> gval \<Rightarrow> run_result + RunState" where
  "init_run env e0 input =
     (let threadID = getThreadID (env_thread env) (eng_config e0); e = reset_engine e0
      in case applyInput (env_inputPerm env 0) (init_registry (eng_graph e)) input of
           (r, input', Some err) \<Rightarrow> Inl (RunErr e (Wrapf ''failed to apply input'' err))
         | (r, input', None) \<Rightarrow>
             (case load_checkpoint e threadID of
                Inl err \<Rightarrow> Inl (RunErr e err)
              | Inr (Some cp) \<Rightarrow> resume_run env threadID e r cp
              | Inr None \<Rightarrow> start_run env threadID e r input'))"

definition Run :: "Env \<Rightarrow> Engine \<Rightarrow> gval \<Rightarrow> run_result" where
  "Run env e input =
     (case init_run env e input of
        Inl res \<Rightarrow> res
      | Inr s \<Rightarrow> run_loop env (getThreadID (env_thread env) (eng_config e)) s)"

definition RunSync :: "Env \<Rightarrow> Engine \<Rightarrow> gval \<Rightarrow> Engine \<times> (gerror + gval)" where
  "RunSync env e input = (case Run env e input of RunOk e' v \<Rightarrow> (e', Inr v) | RunErr e' err \<Rightarrow> (e', Inl err))"

definition runCompiledGraph :: "Env \<Rightarrow> compiledGraph \<Rightarrow> RunnableConfig \<Rightarrow> gval \<Rightarrow> Engine \<times> (gerror + gval)" where
  "runCompiledGraph env cg config input =
     RunSync env (NewEngine (cg_graph cg)
       [Engine_WithCheckpointer (cg_checkpointer cg), Engine_WithInterrupts (cg_interrupts cg),
        Engine_WithInterruptsAfter (cg_interruptsAfter cg), Engine_WithRecursionLimit (cg_recursionLimit cg),
        Engine_WithDebug (cg_debug cg), Engine_WithConfig config]) input"

end
