(* ===== verification/Run_Props.thy ===== *)
theory Run_Props
  imports Engine_Run
begin

text \<open>
  Properties of whole runs: every run ends within its recursion limit, what a run that was interrupted
  finds when it resumes, and what initialisation and the values event do to the channels.
\<close>

subsection \<open>Runs end\<close>

inductive supersteps :: "Env \<Rightarrow> string \<Rightarrow> RunState \<Rightarrow> RunState \<Rightarrow> bool" for env th where
  supersteps_refl: "supersteps env th s s"
| supersteps_step: "supersteps env th s s' \<Longrightarrow> run_step env th s' = Continue s'' \<Longrightarrow> supersteps env th s s''"

lemma supersteps_bound:
  "supersteps env th s s' \<Longrightarrow> same_setup (rs_eng s) (rs_eng s') \<and> rs_step s \<le> rs_step s' \<and>
     (rs_step s' = rs_step s \<or> int (rs_step s') \<le> eng_recursionLimit (rs_eng s))"
proof (induction rule: supersteps.induct)
  case (supersteps_step s s' s'')
  from run_step_Continue [OF supersteps_step.hyps(2)] supersteps_step.IH same_setup_trans
  show ?case by (auto simp: same_setup_def)
qed simp

lemma supersteps_first:
  "run_step env th s = Continue s1 \<Longrightarrow> supersteps env th s1 s' \<Longrightarrow> supersteps env th s s'"
  by (rotate_tac, induction rule: supersteps.induct) (auto intro: supersteps.intros)

lemma run_loop_outcome:
  "\<exists>s'. supersteps env th s s' \<and>
     (case run_step env th s' of
        Continue s'' \<Rightarrow> False
      | Break t \<Rightarrow> run_loop env th s = finish_run env t
      | Fail e err \<Rightarrow> run_loop env th s = RunErr e err)"
proof (induction env th s rule: run_loop.induct)
  case (1 env th s)
  show ?case
  proof (cases "run_step env th s")
    case (Continue s1)
    from 1 [OF this] obtain s' where "supersteps env th s1 s'"
      "case run_step env th s' of Continue s'' \<Rightarrow> False
       | Break t \<Rightarrow> run_loop env th s1 = finish_run env t | Fail e err \<Rightarrow> run_loop env th s1 = RunErr e err" by blast
    moreover have "run_loop env th s = run_loop env th s1" by (subst run_loop.simps) (simp add: Continue)
    ultimately show ?thesis
      using supersteps_first [OF Continue] by (intro exI [of _ s']) (simp split: step_result.splits)
  next
    case (Break t)
    then show ?thesis by (intro exI [of _ s]) (simp add: supersteps_refl run_loop.simps [of env th s])
  next
    case (Fail e err)
    then show ?thesis by (intro exI [of _ s]) (simp add: supersteps_refl run_loop.simps [of env th s])
  qed
qed

text \<open>
  C1: every run ends, on every graph, cyclic ones included, and whatever its nodes do: after at most
  \<open>recursionLimit\<close> supersteps it reaches a state in which the loop stops, and the run's result is the
  final output or the error of that state.
\<close>

theorem run_terminates:
  "\<exists>s'. supersteps env th s s' \<and> int (rs_step s') \<le> max (int (rs_step s)) (eng_recursionLimit (rs_eng s)) \<and>
     (case run_step env th s' of
        Continue s'' \<Rightarrow> False
      | Break t \<Rightarrow> run_loop env th s = finish_run env t
      | Fail e err \<Rightarrow> run_loop env th s = RunErr e err)"
proof -
  obtain s' where s': "supersteps env th s s'" "case run_step env th s' of Continue s'' \<Rightarrow> False
      | Break t \<Rightarrow> run_loop env th s = finish_run env t | Fail e err \<Rightarrow> run_loop env th s = RunErr e err"
    using run_loop_outcome by blast
  with supersteps_bound [OF s'(1)] show ?thesis by (intro exI [of _ s']) auto
qed

text \<open>
  A run whose steps never run out of tasks and never fail ends with the recursion error, and the
  limit counts the final check as well: at the limit the error is reported even when no task is left.
\<close>

theorem recursion_error:
  assumes "\<forall>n. env_ctx env n = None"
    and "\<forall>s'. supersteps env th s s' \<longrightarrow> int (rs_step s') < eng_recursionLimit (rs_eng s) \<longrightarrow>
           (\<exists>s''. run_step env th s' = Continue s'')"
  shows "\<exists>e. run_loop env th s = RunErr e (GraphRecursionError (eng_recursionLimit (rs_eng s)))"
proof -
  obtain s' where s': "supersteps env th s s'" "case run_step env th s' of Continue s'' \<Rightarrow> False
      | Break t \<Rightarrow> run_loop env th s = finish_run env t | Fail e err \<Rightarrow> run_loop env th s = RunErr e err"
    using run_loop_outcome by blast
  then have "\<not> int (rs_step s') < eng_recursionLimit (rs_eng s)" using assms(2) by fastforce
  moreover have "eng_recursionLimit (rs_eng s') = eng_recursionLimit (rs_eng s)"
    using supersteps_bound [OF s'(1)] by (simp add: same_setup_def)
  ultimately have "run_step env th s' = Fail (rs_eng s') (GraphRecursionError (eng_recursionLimit (rs_eng s)))"
    using assms(1) by (simp add: run_step_def Let_def)
  with s'(2) show ?thesis by auto
qed

definition demo_env :: Env where
  "demo_env = \<lparr>env_other = (\<lambda>_. []), env_perm = (\<lambda>_ xs. xs), env_inputPerm = (\<lambda>_ xs. xs), env_ids = (\<lambda>_ n. n),
     env_conv = (\<lambda>_ _. None), env_wait = (\<lambda>_ _ _. None), env_sel = (\<lambda>_ _. ResultReady), env_ctx = (\<lambda>_. None), env_thread = ''t'',
     env_uuid = (\<lambda>_. ''u''), env_entry = (\<lambda>_. ''v''), env_now = (\<lambda>_. 0), env_marshal = (\<lambda>_. None),
     env_unmarshal = (\<lambda>_. None), env_substate = (\<lambda>_. None), env_parseT = (\<lambda>_. None)\<rparr>"

definition demo_state :: RunState where
  "demo_state = \<lparr>rs_eng = demo_engine\<lparr>eng_recursionLimit := 0\<rparr>, rs_reg = NewRegistry, rs_step = 0,
     rs_completed = fmempty, rs_last = [], rs_state = VNil\<rparr>"

theorem recursion_error_witness:
  "\<exists>e. run_loop demo_env ''t'' demo_state = RunErr e (GraphRecursionError 0)"
proof -
  have "eng_recursionLimit (rs_eng demo_state) = 0" by (simp add: demo_state_def)
  then show ?thesis
    using recursion_error [of demo_env "''t''" demo_state] by (simp add: demo_env_def)
qed

subsection \<open>Saving and resuming\<close>

lemma str_at_thread_config [simp]:
  "str_at (thread_config th) ConfigKeyThreadID = Some th" "str_at (thread_config th) ConfigKeyCheckpointID = None"
  by (simp_all add: thread_config_def str_at_def ConfigKeyThreadID_def ConfigKeyCheckpointID_def)

lemma put_then_load:
  assumes "put_checkpoint i n e (thread_config th) cp = Inr e'" "eng_checkpointer e \<noteq> None"
    and "requested_id (eng_config e) = []"
  shows "load_checkpoint e' th = Inr (Some (deepCopyMap cp))"
proof -
  obtain s s' where s: "eng_checkpointer e = Some s" "MemorySaver_Put i n s (thread_config th) cp = Inr s'"
    "e' = e\<lparr>eng_checkpointer := Some s'\<rparr>"
    using assms(1,2) by (auto simp: put_checkpoint_def map_sum_def split: sum.splits)
  have "MemorySaver_Get s' (thread_config th) = Inr (Some (deepCopyMap cp))"
    using saver.get_put [OF s(2), of "thread_config th" th] by simp
  then show ?thesis using assms(3) by (simp add: load_checkpoint_def load_config_def s(3))
qed

lemma put_succeeds: "\<exists>e'. put_checkpoint i n e (thread_config th) cp = Inr e'"
proof (cases "eng_checkpointer e")
  case (Some s)
  obtain s' where "MemorySaver_Put i n s (thread_config th) cp = Inr s'"
    using saver.put_ok [of "thread_config th" th i n s cp] by auto
  with Some show ?thesis by (simp add: put_checkpoint_def)
qed (simp add: put_checkpoint_def)

lemma str_at_deepCopyMap: "fmlookup m k = Some (VStr s) \<Longrightarrow> str_at (deepCopyMap m) k = Some s"
  by (simp add: str_at_def)

lemma payload_lookups:
  "fmlookup (interrupt_payload env step r completed lastNode st results) ''__completed_tasks__'' =
     Some (VStr (serializeStringSet completed))"
  "fmlookup (interrupt_payload env step r completed lastNode st results) ''__last_completed_node__'' = Some (VStr lastNode)"
  "env_marshal env st = Some js \<Longrightarrow> st \<noteq> VNil \<Longrightarrow>
   fmlookup (interrupt_payload env step r completed lastNode st results) ''__last_state__'' = Some (VStr js)"
  by (auto simp: interrupt_payload_def Let_def split: option.split list.split)

lemma decode_completed:
  assumes "\<forall>k. k |\<in>| fmdom completed \<longrightarrow> CHR 0x00 \<notin> set k" and "fmkeys completed \<noteq> [[]]"
    and "\<forall>k. fmlookup completed k \<noteq> Some False"
  shows "(case deserializeStringSet (serializeStringSet completed) of Some m \<Rightarrow> m | None \<Rightarrow> fmempty) = completed"
proof -
  have "fmmap (\<lambda>_. True) completed = completed"
    using assms(3) by (intro fmmap_id_lookup) metis
  then show ?thesis using string_set_decode [OF assms(1)] assms(2) by auto
qed

text \<open>
  C4: a run interrupted by one of its nodes can be resumed: what the interrupt saved is loaded by the
  next run of the thread, which starts with the same set of completed tasks, the same last node and,
  if the state survives JSON, the same merged state.
\<close>

theorem interrupt_resume:
  assumes "eng_checkpointer e \<noteq> None" and "requested_id (eng_config e) = []"
    and "\<forall>k. k |\<in>| fmdom completed \<longrightarrow> CHR 0x00 \<notin> set k" and "fmkeys completed \<noteq> [[]]"
    and "\<forall>k. fmlookup completed k \<noteq> Some False"
    and "env_marshal env (VMap st) = Some js" "env_unmarshal env js = Some st"
  shows "\<exists>e' cp. put_checkpoint i n e (thread_config th)
         (interrupt_payload env step r completed lastNode (VMap st) results) = Inr e' \<and>
       load_checkpoint e' th = Inr (Some cp) \<and> completed_of cp = completed \<and> last_node_of cp = lastNode \<and>
       last_state_of env cp = VMap st"
proof -
  let ?p = "interrupt_payload env step r completed lastNode (VMap st) results"
  obtain e' where e': "put_checkpoint i n e (thread_config th) ?p = Inr e'" using put_succeeds by blast
  have "completed_of (deepCopyMap ?p) = completed"
    unfolding completed_of_def str_at_deepCopyMap [OF payload_lookups(1)]
    using decode_completed [OF assms(3-5)] by simp
  moreover have "last_node_of (deepCopyMap ?p) = lastNode"
    by (simp add: last_node_of_def str_at_deepCopyMap [OF payload_lookups(2)])
  moreover have "last_state_of env (deepCopyMap ?p) = VMap st"
    using assms(7) by (simp add: last_state_of_def str_at_deepCopyMap [OF payload_lookups(3) [OF assms(6)]])
  ultimately show ?thesis using e' put_then_load [OF e' assms(1,2)] by blast
qed

text \<open>
  A run interrupted before a node (or stopped after any ordinary step) does not continue where it
  stopped: the checkpoint it leaves has no record of completed tasks, so the next run of the thread
  starts again at the entry point.
\<close>

theorem resume_restarts_at_entry:
  assumes "eng_checkpointer e \<noteq> None" and "requested_id (eng_config e) = []"
    and "Registry_Get r ''__completed_tasks__'' = None"
    and "g_entryPoint g \<noteq> []" "g_entryPoint g \<noteq> End" "getNode g (g_entryPoint g) = Some node"
  shows "\<exists>e' cp tasks trig. put_checkpoint i n e (thread_config th) (CreateCheckpoint r) = Inr e' \<and>
       load_checkpoint e' th = Inr (Some cp) \<and>
       prepareNextTasks other perm ids g reg (completed_of cp) (last_node_of cp) (last_state_of env cp) = Inr (tasks, trig) \<and>
       map t_Name tasks = [n_Name node]"
proof -
  obtain e' where e': "put_checkpoint i n e (thread_config th) (CreateCheckpoint r) = Inr e'" using put_succeeds by blast
  have "fmlookup (CreateCheckpoint r) ''__completed_tasks__'' = None"
    using assms(3) by (simp add: CreateCheckpoint_def Registry_Get_def)
  then have "completed_of (deepCopyMap (CreateCheckpoint r)) = fmempty"
    by (simp add: completed_of_def str_at_def)
  then obtain tasks trig where "prepareNextTasks other perm ids g reg (completed_of (deepCopyMap (CreateCheckpoint r)))
      (last_node_of (deepCopyMap (CreateCheckpoint r))) (last_state_of env (deepCopyMap (CreateCheckpoint r))) =
        Inr (tasks, trig)" "map t_Name tasks = [n_Name node]"
    using assms(4-6) by (simp add: prepareNextTasks_def prepareNextTasksWithMode_def Let_def createTask_def)
  with e' put_then_load [OF e' assms(1,2)] show ?thesis
    by (intro exI [of _ e'] exI [of _ "deepCopyMap (CreateCheckpoint r)"] exI [of _ tasks] exI [of _ trig]) simp
qed

definition demo_saver_engine :: Engine where
  "demo_saver_engine = demo_engine\<lparr>eng_checkpointer := Some NewMemorySaver\<rparr>"

lemma demo_saver_engine_fields:
  "eng_checkpointer demo_saver_engine \<noteq> None" "requested_id (eng_config demo_saver_engine) = []"
  by (simp_all add: demo_saver_engine_def demo_engine_def NewEngine_def NewRunnableConfig_def requested_id_def)

theorem resume_restarts_at_entry_witness:
  "\<exists>e' cp tasks trig. load_checkpoint e' ''t'' = Inr (Some cp) \<and>
     prepareNextTasks (\<lambda>_. []) (\<lambda>xs. xs) (\<lambda>n. n) demo_chain NewRegistry (completed_of cp) (last_node_of cp)
       (last_state_of demo_env cp) = Inr (tasks, trig) \<and> map t_Name tasks = [''a'']"
proof -
  have g: "g_entryPoint demo_chain \<noteq> []" "g_entryPoint demo_chain \<noteq> End"
    "getNode demo_chain (g_entryPoint demo_chain) = Some (NewNode ''a'' None)"
    by (simp_all add: demo_chain_fields End_def getNode_def)
  have "Registry_Get NewRegistry ''__completed_tasks__'' = None" by (simp add: reg.get_emp)
  from resume_restarts_at_entry [OF demo_saver_engine_fields this g, of "''i''" 1 "''t''" "\<lambda>_. []" "\<lambda>xs. xs" "\<lambda>n. n"
      NewRegistry demo_env]
  show ?thesis unfolding NewNode_Name by metis
qed

definition json_env :: Env where
  "json_env = demo_env\<lparr>env_marshal := (\<lambda>v. if v = VMap fmempty then Some ''{}'' else None),
     env_unmarshal := (\<lambda>s. if s = ''{}'' then Some fmempty else None)\<rparr>"

theorem interrupt_resume_witness:
  "\<exists>e' cp. load_checkpoint e' ''t'' = Inr (Some cp) \<and> completed_of cp = fmupd ''a'' True fmempty \<and> last_node_of cp = ''a''"
proof -
  have js: "env_marshal json_env (VMap fmempty) = Some ''{}''" "env_unmarshal json_env ''{}'' = Some fmempty"
    by (simp_all add: json_env_def)
  have "\<forall>k. k |\<in>| fmdom (fmupd ''a'' True fmempty) \<longrightarrow> CHR 0x00 \<notin> set k" "fmkeys (fmupd ''a'' True fmempty) \<noteq> [[]]"
    "\<forall>k. fmlookup (fmupd ''a'' True fmempty) k \<noteq> Some False"
    by (simp_all add: fmkeys_single)
  from interrupt_resume [OF demo_saver_engine_fields this js, of "''i''" 1 "''t''" 0 NewRegistry "''a''" "[]"]
  show ?thesis by blast
qed

subsection \<open>Initialisation and the values event\<close>

lemma fmlen_pos: "0 < fmlen m \<longleftrightarrow> m \<noteq> fmempty"
  using fmlen_zero [of m] by linarith

lemma register_keys_known:
  "\<forall>k\<in>set keys. registered r k \<Longrightarrow> register_keys r m keys = (r, m)"
  by (induction keys) auto

lemma applyInput_known:
  assumes "\<forall>k. k |\<in>| fmdom m \<longrightarrow> registered r k" "\<And>xs. set (perm xs) = set xs" "m \<noteq> fmempty"
    and "applyInput perm r (VMap m) = (r', input', None)"
  shows "input' = VMap m \<and> (\<forall>k. Registry_Get r' k =
      (case fmlookup m k of None \<Rightarrow> Registry_Get r k | Some v \<Rightarrow> Option.bind (Registry_Get r k) (\<lambda>ch. upd1 ch [v])))"
proof -
  have "register_keys r m (perm (fmkeys m)) = (r, m)"
    by (rule register_keys_known) (simp add: assms(1,2))
  then have ai: "applyInput perm r (VMap m) = (fst (UpdateChannels r (write_list m)), VMap m, snd (UpdateChannels r (write_list m)))"
    using assms(3) by (simp add: applyInput_def Let_def split: prod.split)
  have d: "distinct (map fst (write_list m))" by (simp add: write_list_def o_def)
  have mo: "map_of (write_list m) k = map_option (\<lambda>v. [v]) (fmlookup m k)" for k
    by (cases "fmlookup m k") (auto simp: write_list_def map_of_eq_None_iff fmdom_notI fmdomI o_def
        intro!: map_of_is_SomeI image_eqI [of _ _ k])
  show ?thesis
    using UpdateChannels_get [OF d, of r] assms(4) ai by (auto simp: mo split: option.split)
qed

lemma registered_kept:
  assumes "\<forall>k. Registry_Get r' k =
      (case fmlookup m k of None \<Rightarrow> Registry_Get r k | Some v \<Rightarrow> Option.bind (Registry_Get r k) (\<lambda>ch. upd1 ch [v]))"
    and "snd (UpdateChannels r (write_list m)) = None" and "\<forall>k. k |\<in>| fmdom m \<longrightarrow> registered r k"
  shows "\<forall>k. k |\<in>| fmdom m \<longrightarrow> registered r' k"
proof (intro allI impI)
  fix k assume k: "k |\<in>| fmdom m"
  then obtain v where v: "fmlookup m k = Some v" by (auto simp: fmlookup_dom_iff)
  have d: "distinct (map fst (write_list m))" by (simp add: write_list_def o_def)
  have "(k, [v]) \<in> set (write_list m)" using k v by (auto simp: write_list_def intro!: image_eqI [of _ _ k])
  then have "Option.bind (Registry_Get r k) (\<lambda>ch. upd1 ch [v]) \<noteq> None"
    using UpdateChannels_ok_iff [OF d, of r] assms(2) by fastforce
  with assms(1) v show "registered r' k" by (auto simp: registered_def)
qed

text \<open>
  A fresh run applies its input twice: with no checkpoint to load, every channel that the input
  names is updated with the input value two times before the first step, so an aggregate starts with
  the value combined in twice.
\<close>

theorem input_applied_twice:
  assumes "init_run env e (VMap m) = Inr s" and "eng_checkpointer e = None"
    and "\<forall>k. k |\<in>| fmdom m \<longrightarrow> registered (init_registry (eng_graph e)) k"
    and "\<And>i xs. set (env_inputPerm env i xs) = set xs" and "fmlookup m k = Some v"
    and "Registry_Get (init_registry (eng_graph e)) k = Some ch"
  shows "\<exists>ch1. upd1 ch [v] = Some ch1 \<and> Registry_Get (rs_reg s) k = upd1 ch1 [v]"
proof -
  let ?r = "init_registry (eng_graph e)"
  have m: "m \<noteq> fmempty" using assms(5) by auto
  have e: "eng_graph (reset_engine e) = eng_graph e" "eng_checkpointer (reset_engine e) = None"
    using assms(2) by (simp_all add: reset_engine_def)
  obtain r1 i1 err1 where a1: "applyInput (env_inputPerm env 0) ?r (VMap m) = (r1, i1, err1)"
    by (cases "applyInput (env_inputPerm env 0) ?r (VMap m)")
  then have n1: "err1 = None" using assms(1) e by (cases err1) (simp_all add: init_run_def Let_def)
  from applyInput_known [OF assms(3) assms(4) m] a1 n1
  have i1: "i1 = VMap m" and r1: "\<forall>k. Registry_Get r1 k =
      (case fmlookup m k of None \<Rightarrow> Registry_Get ?r k | Some v \<Rightarrow> Option.bind (Registry_Get ?r k) (\<lambda>ch. upd1 ch [v]))" by auto
  have "register_keys ?r m (env_inputPerm env 0 (fmkeys m)) = (?r, m)"
    by (rule register_keys_known) (simp add: assms(3,4))
  then have "snd (UpdateChannels ?r (write_list m)) = None"
    using a1 n1 m by (auto simp: applyInput_def Let_def fmlen_pos split: prod.splits)
  note reg1 = registered_kept [OF r1 this assms(3)]
  obtain r2 i2 err2 where a2: "applyInput (env_inputPerm env 1) r1 (VMap m) = (r2, i2, err2)"
    by (cases "applyInput (env_inputPerm env 1) r1 (VMap m)")
  have run: "start_run env (getThreadID (env_thread env) (eng_config e)) (reset_engine e) r1 (VMap m) = Inr s"
    using assms(1) e a1 n1 i1 by (simp add: init_run_def Let_def load_checkpoint_def)
  then have n2: "err2 = None" "rs_reg s = r2" using a2 by (cases err2; auto simp: start_run_def)+
  from applyInput_known [OF reg1 assms(4) m] a2 n2(1)
  have "Registry_Get r2 k = Option.bind (Registry_Get r1 k) (\<lambda>ch. upd1 ch [v])" using assms(5) by auto
  moreover have "Registry_Get r1 k = upd1 ch [v]" using r1 assms(5,6) by simp
  moreover have "Registry_Get r1 k \<noteq> None" using reg1 assms(5) by (auto simp: registered_def fmdomI)
  ultimately show ?thesis using n2(2) by auto
qed

definition demo_counter_graph :: stateGraph where
  "demo_counter_graph = AddChannel demo_chain ''x'' (Some (CBinaryOperatorAggregate
     \<lparr>Key = [], Typ = Some TInt, Version = 0, bo_value = VInt 0, bo_operator = IntAdd (+)\<rparr>))"

lemma demo_counter_channels:
  "g_channels demo_counter_graph = fmupd ''x'' (CBinaryOperatorAggregate
     \<lparr>Key = ''x'', Typ = Some TInt, Version = 0, bo_value = VInt 0, bo_operator = IntAdd (+)\<rparr>) fmempty"
  by (simp add: demo_counter_graph_def AddChannel_def demo_chain_def NewStateGraph_def)

theorem input_applied_twice_witness:
  "\<exists>s. init_run demo_env (NewEngine demo_counter_graph []) (VMap (fmap_of_list [(''x'', VInt 2)])) = Inr s \<and>
     map_option (\<lambda>ch. snd (Get ch)) (Registry_Get (rs_reg s) ''x'') = Some (Inr (VInt 4))"
proof -
  let ?e = "NewEngine demo_counter_graph []" and ?m = "fmap_of_list [(''x'', VInt 2)]"
  let ?c = "\<lambda>n. CBinaryOperatorAggregate
    \<lparr>Key = ''x'', Typ = Some TInt, Version = 0, bo_value = VInt n, bo_operator = IntAdd (+)\<rparr>"
  have e: "eng_graph ?e = demo_counter_graph" "eng_checkpointer ?e = None" by (simp_all add: NewEngine_def)
  have r: "Registry_Get (init_registry demo_counter_graph) ''x'' = Some (?c 0)"
    by (simp add: init_registry_def Registry_Get_def getGraphChannels_def demo_counter_channels
        BinaryOperatorAggregate_Copy_def NewBinaryOperatorAggregate_def)
  have ai: "applyInput (\<lambda>xs. xs) r' (VMap ?m) = (Registry_Register r' ''x'' (?c (n + 2)), VMap ?m, None)"
    if "Registry_Get r' ''x'' = Some (?c n)" for r' n
    using that by (simp add: applyInput_def fmkeys_single registered_def fmlen_pos write_list_def
        BinaryOperatorAggregate_Update_def BinaryOperatorAggregate_IsAvailable_def IntAdd_def)
  obtain s where s: "init_run demo_env ?e (VMap ?m) = Inr s"
    using ai [OF r] ai [of "Registry_Register (init_registry demo_counter_graph) ''x'' (?c (0 + 2))" "0 + 2"]
    by (simp add: init_run_def Let_def e reset_engine_def load_checkpoint_def start_run_def demo_env_def reg.get_put)
  have "\<exists>ch1. upd1 (?c 0) [VInt 2] = Some ch1 \<and> Registry_Get (rs_reg s) ''x'' = upd1 ch1 [VInt 2]"
    by (rule input_applied_twice [OF s e(2)]) (simp_all add: e(1) r demo_env_def registered_def)
  moreover have "upd1 (?c n) [VInt 2] = Some (?c (n + 2))" for n
    by (simp add: upd1_def BinaryOperatorAggregate_Update_def BinaryOperatorAggregate_IsAvailable_def IntAdd_def)
  ultimately show ?thesis using s by (auto simp: BinaryOperatorAggregate_Get_def)
qed

lemma GetValues_loop_registry:
  "distinct names \<Longrightarrow> Registry_Get (fst (GetValues_loop r acc names)) k =
     (if k \<in> set names then map_option (\<lambda>ch. fst (Get ch)) (Registry_Get r k) else Registry_Get r k)"
proof (induction names arbitrary: r acc)
  case (Cons n names)
  show ?case
  proof (cases "Registry_Get r n")
    case None
    with Cons show ?thesis by auto
  next
    case (Some ch)
    show ?thesis unfolding GetValues_step [OF Some] using Cons Some by (auto simp: reg.get_put)
  qed
qed simp

lemma GetValues_registry:
  "Registry_Get (fst (GetValues r)) k = map_option (\<lambda>ch. fst (Get ch)) (Registry_Get r k)"
  using GetValues_loop_registry [OF distinct_Registry_Names [of r], of r fmempty k]
  by (auto simp: GetValues_def Registry_Names_def Registry_Get_def fmlookup_dom_iff)

text \<open>
  An ephemeral value never reaches the next superstep: at the end of every step that goes on, the
  values event reads every channel, and reading an ephemeral channel empties it.
\<close>

theorem values_event_consumes_ephemeral:
  assumes "finish_step env th s trig results = Continue s'"
    and "Registry_Get (rs_reg s') k = Some (CEphemeralValue c)"
  shows "\<not> IsAvailable (CEphemeralValue c)"
proof -
  obtain e' r' updated where "rs_reg s' = fst (GetValues r')"
    using finish_step_parts [OF assms(1)] by metis
  with assms(2) obtain ch where "fst (Get ch) = CEphemeralValue c"
    by (auto simp: GetValues_registry)
  then show ?thesis
    by (cases ch) (auto simp: EphemeralValue_Get_def EphemeralValue_IsAvailable_def map_prod_def
        split: prod.splits if_splits)
qed

definition demo_signal :: Registry where
  "demo_signal = Registry_Register NewRegistry ''x'' (CEphemeralValue (NewEphemeralValue None False))"

lemma demo_signal_step:
  "\<exists>s' c. finish_step demo_env ''t'' (demo_state\<lparr>rs_reg := demo_signal\<rparr>) [] demo_results = Continue s' \<and>
     Registry_Get (rs_reg s') ''x'' = Some (CEphemeralValue c)"
proof -
  let ?e = "demo_engine\<lparr>eng_recursionLimit := 0\<rparr>"
  obtain e' r' u c where aw: "applyWrites ?e demo_signal demo_results [] = Inr (e', r', u)"
    and x: "Registry_Get r' ''x'' = Some (CEphemeralValue c)" and e': "eng_checkpointer e' = None" "eng_interruptsAfter e' = []"
    by (simp add: applyWrites_def demo_results_def demo_engine_def NewEngine_def collect_result_def getNode_def demo_chain_fields
        NewNode_def fmkeys_single collect_key_def writes_of_def update_channel_def demo_signal_def reg.get_put
        write_values_def EphemeralValue_Update_def NewEphemeralValue_def EphemeralValue_IsAvailable_def Let_def
        store_pending_def bump_version_def)
  have "finish_step demo_env ''t'' (demo_state\<lparr>rs_reg := demo_signal\<rparr>) [] demo_results =
      Continue \<lparr>rs_eng = e', rs_reg = fst (GetValues r'), rs_step = 1, rs_completed = fmupd ''a'' True fmempty, rs_last = ''a'',
        rs_state = mergeStates VNil (VMap (fmap_of_list [(''x'', VStr ''1'')]))\<rparr>"
    using aw e' by (simp add: finish_step_def demo_state_def demo_results_def interrupted_def allFailed_def save_step_def Let_def
        shouldInterruptAfter_def)
  moreover have "\<exists>c. Registry_Get (fst (GetValues r')) ''x'' = Some (CEphemeralValue c)"
    by (simp add: GetValues_registry x)
  ultimately show ?thesis by auto
qed

theorem values_event_consumes_ephemeral_witness:
  "\<exists>s' c. finish_step demo_env ''t'' (demo_state\<lparr>rs_reg := demo_signal\<rparr>) [] demo_results = Continue s' \<and>
     Registry_Get (rs_reg s') ''x'' = Some (CEphemeralValue c) \<and> \<not> IsAvailable (CEphemeralValue c)"
  using demo_signal_step values_event_consumes_ephemeral by blast

text \<open>
  A run with a nil input fails before its first step, also when a checkpoint of the thread could be
  resumed, because the input is applied before the checkpoint is looked up.
\<close>

theorem nil_input_fails:
  "Run env e VNil = RunErr (reset_engine e) (Wrapf ''failed to apply input'' (Errorf ''nil value''))"
  by (simp add: Run_def init_run_def Let_def applyInput_def)

text \<open>
  The writes of a step are applied in the order of the node names, but the last completed node, which
  decides where the run goes on, is the last successful result in the order of the tasks.
\<close>

lemma note_results_append: "note_results acc (xs @ ys) = note_results (note_results acc xs) ys"
  by (induction acc xs rule: note_results.induct) simp_all

theorem last_node_follows_list:
  assumes "r_Err res = None" and "\<forall>x\<in>set rest. r_Err x \<noteq> None"
  shows "fst (snd (note_results acc (results @ res # rest))) = r_Name res"
proof -
  have "note_results b rest = b" for b
    using assms(2) by (induction b rest rule: note_results.induct) auto
  then show ?thesis
    using assms(1) by (cases "note_results acc results") (simp add: note_results_append)
qed

end
