(* ===== verification/Replay.thy ===== *)
theory Replay
  imports Event_Recorder Run_Props
begin

text \<open>
  Replay, fork and diff of recorded traces. \<open>Replay\<close> reads a trace, substitutes model and tool results,
  compares what it produced with what it read and hands it to an output log; \<open>Fork\<close> copies the events
  before a point, appends a marker and may hand a rebuilt checkpoint to an engine; \<open>Diff\<close> compares two
  traces clock by clock. Event logs are used through their interface: \<open>stream\<close> and \<open>get\<close> are the
  readers of the source log, and an output log is a state with its \<open>Append\<close>, which returns the new
  state and an error or the events as the log left them. Clock readings are an argument: \<open>tm i\<close> is the
  \<open>i\<close>-th one.
\<close>

subsection \<open>Overrides\<close>

type_synonym ModelOverrideFunc = "gval list \<Rightarrow> string \<Rightarrow> gerror + string option"
type_synonym ToolOverrideFunc = "string \<Rightarrow> gmap \<Rightarrow> gval \<Rightarrow> gerror + gval"
type_synonym StateOverrideFunc = "gmap \<Rightarrow> gerror + gmap option"
type_synonym 'o appender = "'o \<Rightarrow> Event list \<Rightarrow> 'o \<times> (gerror + Event list)"

definition ReplayExactTools :: ToolOverrideFunc where
  "ReplayExactTools toolName args r = Inr r"

definition ReplayLiveTools :: ToolOverrideFunc where
  "ReplayLiveTools toolName args r = Inr VNil"

definition ReplaySubstituteModel :: "(string \<Rightarrow> string) \<Rightarrow> ModelOverrideFunc" where
  "ReplaySubstituteModel fn messages r = Inr (Some (fn r))"

definition exact_model :: ModelOverrideFunc where
  "exact_model messages r = Inr (Some r)"

record ReplayConfig =
  rp_TraceID :: string
  rp_Start :: "64 word"
  rp_End :: "64 word"
  rp_ModelOverride :: "ModelOverrideFunc option"
  rp_ToolOverride :: "ToolOverrideFunc option"
  rp_StateOverride :: "StateOverrideFunc option"
  rp_DiffEnabled :: bool

subsection \<open>Differences\<close>

datatype DivergenceType = DivergenceMissing | DivergenceExtra | DivergenceMismatch

record EventDivergence =
  dv_Clock :: "64 word"
  dv_OriginalEvent :: "Event option"
  dv_ReplayEvent :: "Event option"
  dv_Type :: DivergenceType
  dv_Description :: string

definition compare_events :: "Event \<Rightarrow> Event \<Rightarrow> EventDivergence list" where
  "compare_events a b =
     (if ev_Type a \<noteq> ev_Type b
      then [\<lparr>dv_Clock = ev_Clock a, dv_OriginalEvent = Some a, dv_ReplayEvent = Some b,
             dv_Type = DivergenceMismatch, dv_Description = ''event type mismatch''\<rparr>] else []) @
     (if ev_Hash a \<noteq> ev_Hash b
      then [\<lparr>dv_Clock = ev_Clock a, dv_OriginalEvent = Some a, dv_ReplayEvent = Some b,
             dv_Type = DivergenceMismatch, dv_Description = ''payload mismatch (hash differs)''\<rparr>] else [])"

fun diffEventLists :: "Event list \<Rightarrow> Event list \<Rightarrow> EventDivergence list" where
  "diffEventLists [] [] = []"
| "diffEventLists [] (b # bs) =
     \<lparr>dv_Clock = ev_Clock b, dv_OriginalEvent = None, dv_ReplayEvent = Some b,
      dv_Type = DivergenceExtra, dv_Description = ''replay produced extra event''\<rparr> # diffEventLists [] bs"
| "diffEventLists (a # as) [] =
     \<lparr>dv_Clock = ev_Clock a, dv_OriginalEvent = Some a, dv_ReplayEvent = None,
      dv_Type = DivergenceMissing, dv_Description = ''original event missing in replay''\<rparr> # diffEventLists as []"
| "diffEventLists (a # as) (b # bs) = compare_events a b @ diffEventLists as bs"

subsection \<open>Replay\<close>

record ReplayMetrics =
  rm_TotalEvents :: int
  rm_DivergenceCount :: int
  rm_MatchCount :: int

record ReplayResult =
  rr_Events :: "Event list"
  rr_OriginalLen :: int
  rr_ReplayLen :: int
  rr_Divergences :: "EventDivergence list"
  rr_ReplayMetrics :: ReplayMetrics

definition copyEvent :: "Event \<Rightarrow> Event" where
  "copyEvent e = e"

definition zero_LLM :: LLMCallPayload where
  "zero_LLM = \<lparr>lp_Model = [], lp_Provider = [], lp_Messages = [],
     lp_Tokens = \<lparr>tu_PromptTokens = 0, tu_CompletionTokens = 0, tu_TotalTokens = 0\<rparr>,
     lp_Content = [], lp_Chunks = 0, lp_DurationMs = 0, lp_Cost = 0\<rparr>"

definition zero_Tool :: ToolCallPayload where
  "zero_Tool = \<lparr>tp_ToolName = [], tp_Arguments = fmempty, tp_Result = VNil, tp_DurationMs = 0,
     tp_Error = [], tp_RetryCount = 0\<rparr>"

definition zero_State :: StateTransitionPayload where
  "zero_State = \<lparr>sp_Channel = [], sp_OldValue = VNil, sp_NewValue = VNil, sp_Reducer = []\<rparr>"

text \<open>\<open>parsePayload\<close> with its error dropped, as every caller does.\<close>

definition parse_LLM :: "Codec \<Rightarrow> Event \<Rightarrow> LLMCallPayload" where
  "parse_LLM cd e = (case ev_Payload e of None \<Rightarrow> zero_LLM | Some t \<Rightarrow> fst (cd_unLLM cd t))"

definition parse_Tool :: "Codec \<Rightarrow> Event \<Rightarrow> ToolCallPayload" where
  "parse_Tool cd e = (case ev_Payload e of None \<Rightarrow> zero_Tool | Some t \<Rightarrow> fst (cd_unTool cd t))"

definition parse_State :: "Codec \<Rightarrow> Event \<Rightarrow> StateTransitionPayload" where
  "parse_State cd e = (case ev_Payload e of None \<Rightarrow> zero_State | Some t \<Rightarrow> fst (cd_unState cd t))"

fun override_state :: "Codec \<Rightarrow> StateOverrideFunc \<Rightarrow> Event list \<Rightarrow> gerror + Event list" where
  "override_state cd so [] = Inr []"
| "override_state cd so (e # es) =
     (if ev_Type e = ''state.write''
      then (let st = parse_State cd e
            in case so (fmupd (sp_Channel st) (sp_NewValue st) fmempty) of
                 Inl err \<Rightarrow> Inl err
               | Inr None \<Rightarrow> Inr (e # es)
               | Inr (Some m) \<Rightarrow>
                   (case fmlookup m (sp_Channel st) of
                      None \<Rightarrow> Inr (e # es)
                    | Some v \<Rightarrow> Inr (Seal cd ((copyEvent e)\<lparr>ev_Payload := cd_State cd (st\<lparr>sp_NewValue := v\<rparr>)\<rparr>) # es)))
      else map_sum id (Cons e) (override_state cd so es))"

definition replay_one :: "Codec \<Rightarrow> ModelOverrideFunc \<Rightarrow> ToolOverrideFunc \<Rightarrow> Event \<Rightarrow> gerror + Event" where
  "replay_one cd mo to e =
     (if ev_Type e = ''llm.call.end''
      then (let p = parse_LLM cd e
            in case mo (lp_Messages p) (lp_Content p) of
                 Inl err \<Rightarrow> Inl err
               | Inr None \<Rightarrow> Inr (copyEvent e)
               | Inr (Some c) \<Rightarrow> Inr (Seal cd ((copyEvent e)\<lparr>ev_Payload := cd_LLM cd (p\<lparr>lp_Content := c\<rparr>)\<rparr>)))
      else if ev_Type e = ''tool.call.result''
      then (let p = parse_Tool cd e
            in case to (tp_ToolName p) (tp_Arguments p) (tp_Result p) of
                 Inl err \<Rightarrow> Inl err
               | Inr v \<Rightarrow> if v \<noteq> VNil
                          then Inr (Seal cd ((copyEvent e)\<lparr>ev_Payload := cd_Tool cd (p\<lparr>tp_Result := v\<rparr>)\<rparr>))
                          else Inr (copyEvent e))
      else Inr (copyEvent e))"

fun replay_all :: "Codec \<Rightarrow> ModelOverrideFunc \<Rightarrow> ToolOverrideFunc \<Rightarrow> Event list \<Rightarrow> gerror + Event list" where
  "replay_all cd mo to [] = Inr []"
| "replay_all cd mo to (e # es) =
     (case replay_one cd mo to e of
        Inl err \<Rightarrow> Inl err
      | Inr e' \<Rightarrow> (case replay_all cd mo to es of Inl err \<Rightarrow> Inl err | Inr es' \<Rightarrow> Inr (e' # es')))"

definition trace_filter :: "string \<Rightarrow> 64 word \<Rightarrow> 64 word \<Rightarrow> EventFilter" where
  "trace_filter trace lo hi = no_filter\<lparr>ef_TraceID := trace, ef_FromClock := lo, ef_ToClock := hi\<rparr>"

definition Replay ::
  "Codec \<Rightarrow> 'o appender \<Rightarrow> (EventFilter \<Rightarrow> sliceIterator) \<Rightarrow> ReplayConfig \<Rightarrow> 'o option \<Rightarrow> 'o option \<times> (gerror + ReplayResult)" where
  "Replay cd app stream cfg out =
     (let mo = (case rp_ModelOverride cfg of Some f \<Rightarrow> f | None \<Rightarrow> exact_model);
          to = (case rp_ToolOverride cfg of Some f \<Rightarrow> f | None \<Rightarrow> ReplayExactTools);
          read = collect (stream (trace_filter (rp_TraceID cfg) (rp_Start cfg) (rp_End cfg)))
      in case (case rp_StateOverride cfg of None \<Rightarrow> Inr read | Some so \<Rightarrow> override_state cd so read) of
           Inl err \<Rightarrow> (out, Inl err)
         | Inr orig \<Rightarrow>
             (case replay_all cd mo to orig of
                Inl err \<Rightarrow> (out, Inl err)
              | Inr evs \<Rightarrow>
                  (let divs = (if rp_DiffEnabled cfg then diffEventLists orig evs else []);
                       res = \<lparr>rr_Events = [], rr_OriginalLen = int (length read), rr_ReplayLen = int (length evs),
                              rr_Divergences = divs,
                              rr_ReplayMetrics = \<lparr>rm_TotalEvents = int (length evs),
                                rm_DivergenceCount = int (length divs),
                                rm_MatchCount = int (length evs) - int (length divs)\<rparr>\<rparr>
                   in case out of
                        None \<Rightarrow> (None, Inr res)
                      | Some o1 \<Rightarrow>
                          (case app o1 evs of
                             (o2, Inl err) \<Rightarrow> (Some o2, Inl err)
                           | (o2, Inr evs') \<Rightarrow> (Some o2, Inr (res\<lparr>rr_Events := evs'\<rparr>))))))"

subsection \<open>Rebuilding a checkpoint\<close>

fun build_loop :: "Codec \<Rightarrow> Event list \<Rightarrow> gmap \<times> string list \<times> string \<times> goint \<Rightarrow> gmap \<times> string list \<times> string \<times> goint" where
  "build_loop cd [] acc = acc"
| "build_loop cd (e # es) (cp, ts, n, st) =
     build_loop cd es
       (if ev_Type e = ''state.write''
        then (let p = parse_State cd e
              in (if sp_Channel p \<noteq> [] then fmupd (sp_Channel p) (sp_NewValue p) cp else cp, ts, n, st))
        else if ev_Type e = ''node.end'' then (cp, ts @ [ev_Node e], ev_Node e, st)
        else if ev_Type e = ''step.end'' then (cp, ts, n, if sint st < sint (ev_Step e) then ev_Step e else st)
        else (cp, ts, n, st))"

definition PregelCheckpointID :: string where
  "PregelCheckpointID = ''__pregel_checkpoint_id''"

definition checkpoint_base :: "string \<Rightarrow> string \<Rightarrow> gmap" where
  "checkpoint_base threadID cpID =
     fmupd PregelCheckpointID (VStr cpID)
       (fmupd ConfigKeyCheckpointID (VStr cpID) (fmupd ConfigKeyThreadID (VStr threadID) fmempty))"

definition BuildCheckpoint :: "Codec \<Rightarrow> int \<Rightarrow> Event list \<Rightarrow> string \<Rightarrow> gmap \<times> string" where
  "BuildCheckpoint cd nano evs threadID =
     (let cpID = ''fork-cp-'' @ threadID @ ''-'' @ show_int nano;
          (cp, ts, n, st) = build_loop cd evs (checkpoint_base threadID cpID, [], [], 0);
          cp1 = (if 2 < fmlen cp
                 then (case cd_value cd (VMap (fmfilter
                              (\<lambda>k. k \<notin> {ConfigKeyThreadID, ConfigKeyCheckpointID, PregelCheckpointID}) cp)) of
                         Some t \<Rightarrow> fmupd ''__last_state__'' (VStr t) cp
                       | None \<Rightarrow> cp)
                 else cp);
          cp2 = (if ts \<noteq> [] then fmupd ''__completed_tasks__'' (VStr (join_with (CHR 0x00) ts)) cp1 else cp1);
          cp3 = (if n \<noteq> [] then fmupd ''__last_completed_node__'' (VStr n) cp2 else cp2)
      in (fmupd ''__step__'' (VFloat (of_int (sint st))) cp3, cpID))"

subsection \<open>Fork\<close>

text \<open>
  \<open>fk_Engine\<close> holds the environment and the engine of the forked branch; \<open>fk_saver\<close> is the put of the
  caller's checkpointer, \<open>None\<close> for a fresh in-memory saver. The runnable configuration the code
  builds is not passed to the engine, so the run below does not mention it.
\<close>

record ForkConfig =
  fk_TraceID :: string
  fk_Point :: EventID
  fk_Engine :: "(Env \<times> Engine) option"
  fk_saver :: "(gmap \<Rightarrow> gmap \<Rightarrow> gerror option) option"

record ForkResult =
  fr_ForkTraceID :: string
  fr_ForkEvents :: "Event list"
  fr_ParentTraceID :: string
  fr_ForkPoint :: EventID
  fr_FinalState :: gval

definition fork_marker :: "Codec \<Rightarrow> stamp_time \<Rightarrow> string \<Rightarrow> EventID \<Rightarrow> Event" where
  "fork_marker cd t trace point =
     Seal cd (meta ''parent_trace'' (VStr trace)
       ((NewEvent (fst t) (snd t) ''fork'' 0)
          \<lparr>ev_TraceID := trace @ ''_fork_'' @ point, ev_ParentID := point, ev_CausedBy := [point]\<rparr>))"

definition fork_end :: "Codec \<Rightarrow> stamp_time \<Rightarrow> string \<Rightarrow> EventID \<Rightarrow> Event" where
  "fork_end cd t trace point =
     Seal cd (meta ''fork_replay'' (VBool True)
       ((NewEvent (fst t) (snd t) ''graph.end'' 0)\<lparr>ev_TraceID := trace @ ''_fork_'' @ point\<rparr>))"

definition resumeFromCheckpoint ::
  "Codec \<Rightarrow> 'o appender \<Rightarrow> (nat \<Rightarrow> stamp_time) \<Rightarrow> ForkConfig \<Rightarrow> Event list \<Rightarrow> 'o option \<Rightarrow> 'o option \<times> (gerror + gval)" where
  "resumeFromCheckpoint cd app tm cfg pre out =
     (case fk_Engine cfg of
        None \<Rightarrow> (out, Inr VNil)
      | Some (env, e) \<Rightarrow>
          (let threadID = (if fk_TraceID cfg = [] then ''fork-'' @ fk_Point cfg else fk_TraceID cfg);
               (cp, cpID) = BuildCheckpoint cd (int (fst (tm 1))) pre threadID;
               config = fmupd ConfigKeyCheckpointID (VStr cpID) (fmupd ConfigKeyThreadID (VStr threadID) fmempty);
               put_err = (case fk_saver cfg of
                  Some put \<Rightarrow> put config cp
                | None \<Rightarrow> (case MemorySaver_Put cpID (snd (tm 1)) NewMemorySaver config cp of
                             Inl err \<Rightarrow> Some err | Inr s \<Rightarrow> None))
           in case put_err of
                Some err \<Rightarrow> (out, Inl (Wrapf ''save fork checkpoint'' err))
              | None \<Rightarrow>
                  (case Run env e VNil of
                     RunErr e' err \<Rightarrow> (out, Inl err)
                   | RunOk e' v \<Rightarrow>
                       (map_option (\<lambda>o1. fst (app o1 [fork_end cd (tm 2) (fk_TraceID cfg) (fk_Point cfg)])) out,
                        Inr v))))"

definition Fork ::
  "Codec \<Rightarrow> 'o appender \<Rightarrow> (nat \<Rightarrow> stamp_time) \<Rightarrow> (EventID \<Rightarrow> Event option) \<Rightarrow> (EventFilter \<Rightarrow> sliceIterator) \<Rightarrow>
   ForkConfig \<Rightarrow> 'o option \<Rightarrow> 'o option \<times> (gerror + ForkResult)" where
  "Fork cd app tm get stream cfg out =
     (case get (fk_Point cfg) of
        None \<Rightarrow> (out, Inl (Errorf (''event not found: '' @ fk_Point cfg)))
      | Some fe \<Rightarrow>
          (let pre = collect (stream (trace_filter (fk_TraceID cfg) 0 (ev_Clock fe - 1)));
               marker = fork_marker cd (tm 0) (fk_TraceID cfg) (fk_Point cfg)
           in case (case out of
                      None \<Rightarrow> (None, Inr (pre @ [marker]))
                    | Some o1 \<Rightarrow> map_prod Some id (app o1 (pre @ [marker]))) of
                (out1, Inl err) \<Rightarrow> (out1, Inl err)
              | (out1, Inr evs) \<Rightarrow>
                  (let res = \<lparr>fr_ForkTraceID = fk_TraceID cfg @ ''_fork_'' @ fk_Point cfg, fr_ForkEvents = evs,
                              fr_ParentTraceID = fk_TraceID cfg, fr_ForkPoint = fk_Point cfg, fr_FinalState = VNil\<rparr>
                   in if fk_Engine cfg = None then (out1, Inr res)
                      else case resumeFromCheckpoint cd app tm cfg pre out1 of
                             (out2, Inl err) \<Rightarrow> (out2, Inl (Wrapf ''fork resume'' err))
                           | (out2, Inr v) \<Rightarrow> (out2, Inr (res\<lparr>fr_FinalState := v\<rparr>)))))"

subsection \<open>Diff of two traces\<close>

record EventMismatch =
  em_Clock :: "64 word"
  em_LeftEvent :: Event
  em_RightEvent :: Event
  em_Field :: string
  em_LeftValue :: string
  em_RightValue :: string

record DiffResult =
  df_MissingInRight :: "Event list"
  df_MissingInLeft :: "Event list"
  df_Mismatched :: "EventMismatch list"
  df_StateDiff :: "(string, 64 word) fmap"
  df_ToolCallDiff :: "(int \<times> string) list"
  df_LLMResponseDiff :: "(int \<times> string \<times> string) list"

definition readAllEvents :: "(EventFilter \<Rightarrow> sliceIterator) \<Rightarrow> string \<Rightarrow> Event list" where
  "readAllEvents stream trace = collect (stream (no_filter\<lparr>ef_TraceID := trace\<rparr>))"

definition extractContent :: "Codec \<Rightarrow> Event \<Rightarrow> string" where
  "extractContent cd e =
     (case ev_Payload e of
        None \<Rightarrow> []
      | Some t \<Rightarrow> (case cd_unLLM cd t of (p, bad) \<Rightarrow> if bad then [] else lp_Content p))"

definition extractToolName :: "Codec \<Rightarrow> Event \<Rightarrow> string" where
  "extractToolName cd e =
     (case ev_Payload e of
        None \<Rightarrow> []
      | Some t \<Rightarrow> (case cd_unTool cd t of (p, bad) \<Rightarrow> if bad then [] else tp_ToolName p))"

text \<open>\<open>byClock\<close> keeps the last event of each clock. A hash shorter than 16 characters panics.\<close>

definition byClock :: "Event list \<Rightarrow> 64 word \<Rightarrow> Event option" where
  "byClock es c = find (\<lambda>e. ev_Clock e = c) (rev es)"

definition hash_prefix :: "Event \<Rightarrow> gerror + string" where
  "hash_prefix e = (if length (ev_Hash e) < 16 then Inl (GoPanic ''slice bounds out of range'')
                    else Inr (take 16 (ev_Hash e)))"

definition mismatch_type :: "64 word \<Rightarrow> Event \<Rightarrow> Event \<Rightarrow> EventMismatch list" where
  "mismatch_type c l r =
     (if ev_Type l \<noteq> ev_Type r
      then [\<lparr>em_Clock = c, em_LeftEvent = l, em_RightEvent = r, em_Field = ''type'',
             em_LeftValue = ev_Type l, em_RightValue = ev_Type r\<rparr>] else [])"

definition mismatch_hash :: "64 word \<Rightarrow> Event \<Rightarrow> Event \<Rightarrow> gerror + EventMismatch list" where
  "mismatch_hash c l r =
     (if ev_Hash l \<noteq> ev_Hash r
      then (case (hash_prefix l, hash_prefix r) of
              (Inr lv, Inr rv) \<Rightarrow> Inr [\<lparr>em_Clock = c, em_LeftEvent = l, em_RightEvent = r,
                  em_Field = ''payload'', em_LeftValue = lv, em_RightValue = rv\<rparr>]
            | (Inl err, _) \<Rightarrow> Inl err
            | (_, Inl err) \<Rightarrow> Inl err)
      else Inr [])"

definition categorise :: "Codec \<Rightarrow> 64 word \<Rightarrow> Event \<Rightarrow> Event \<Rightarrow> DiffResult \<Rightarrow> DiffResult" where
  "categorise cd c l r d =
     (if ev_Type l = ''llm.call.end''
      then d\<lparr>df_LLMResponseDiff := df_LLMResponseDiff d @
             [(int (length (df_LLMResponseDiff d)), extractContent cd l, extractContent cd r)]\<rparr>
      else if ev_Type l = ''tool.call.result''
      then d\<lparr>df_ToolCallDiff := df_ToolCallDiff d @ [(int (length (df_ToolCallDiff d)), extractToolName cd l)]\<rparr>
      else if ev_Type l = ''state.write'' \<and> ev_Node l \<noteq> []
      then d\<lparr>df_StateDiff := fmupd (ev_Node l) c (df_StateDiff d)\<rparr>
      else d)"

definition diff_clock :: "Codec \<Rightarrow> Event list \<Rightarrow> Event list \<Rightarrow> DiffResult \<Rightarrow> 64 word \<Rightarrow> gerror + DiffResult" where
  "diff_clock cd ls rs d c =
     (case (byClock ls c, byClock rs c) of
        (Some l, None) \<Rightarrow> Inr (d\<lparr>df_MissingInRight := df_MissingInRight d @ [l]\<rparr>)
      | (None, Some r) \<Rightarrow> Inr (d\<lparr>df_MissingInLeft := df_MissingInLeft d @ [r]\<rparr>)
      | (Some l, Some r) \<Rightarrow>
          map_sum id (\<lambda>ms. categorise cd c l r (d\<lparr>df_Mismatched := df_Mismatched d @ mismatch_type c l r @ ms\<rparr>))
            (mismatch_hash c l r)
      | (None, None) \<Rightarrow> Inr d)"

text \<open>\<open>order\<close> is the order in which the map of clocks is iterated.\<close>

definition Diff ::
  "Codec \<Rightarrow> (64 word list \<Rightarrow> 64 word list) \<Rightarrow> (EventFilter \<Rightarrow> sliceIterator) \<Rightarrow> (EventFilter \<Rightarrow> sliceIterator) \<Rightarrow>
   string \<Rightarrow> string \<Rightarrow> gerror + DiffResult" where
  "Diff cd order left right lt rt =
     (let ls = readAllEvents left lt; rs = readAllEvents right rt
      in foldl_err (diff_clock cd ls rs)
           \<lparr>df_MissingInRight = [], df_MissingInLeft = [], df_Mismatched = [], df_StateDiff = fmempty,
            df_ToolCallDiff = [], df_LLMResponseDiff = []\<rparr>
           (order (remdups (map ev_Clock (ls @ rs)))))"

subsection \<open>Event helpers\<close>

definition FindEventsOfType :: "Event list \<Rightarrow> EventType \<Rightarrow> Event list" where
  "FindEventsOfType es t = filter (\<lambda>e. ev_Type e = t) es"

definition EventsContains :: "Event list \<Rightarrow> EventType \<Rightarrow> bool" where
  "EventsContains es t = list_ex (\<lambda>e. ev_Type e = t) es"

fun EventCount :: "Event list \<Rightarrow> EventType \<Rightarrow> int" where
  "EventCount [] t = 0"
| "EventCount (e # es) t = (if ev_Type e = t then 1 else 0) + EventCount es t"

end
