(* ===== verification/Replay_Props.thy ===== *)
theory Replay_Props
  imports Replay
begin

text \<open>
  Correctness of replay, fork and diff: what a replay without a state override puts into its output for
  each recorded event and how it counts matches, that a state override is never reported, which events
  a fork takes, what a checkpoint rebuilt from events contains, and that a diff lists exactly the clocks
  where two traces differ. A replay without any override need not reproduce a trace: it decodes and
  re-encodes every recorded result, which changes the text of a payload whose encoding is not canonical.
\<close>

subsection \<open>Divergences\<close>

lemma compare_events_Nil [simp]:
  "compare_events a b = [] \<longleftrightarrow> ev_Type a = ev_Type b \<and> ev_Hash a = ev_Hash b"
  by (simp add: compare_events_def)

lemma diffEventLists_Nil:
  "diffEventLists as bs = [] \<longleftrightarrow> list_all2 (\<lambda>a b. ev_Type a = ev_Type b \<and> ev_Hash a = ev_Hash b) as bs"
  by (induction as bs rule: diffEventLists.induct) auto

lemma diffEventLists_same_types:
  assumes "list_all2 (\<lambda>a b. ev_Type a = ev_Type b) as bs"
  shows "length (diffEventLists as bs) = length (filter (\<lambda>(a, b). ev_Hash a \<noteq> ev_Hash b) (zip as bs))"
  using assms by (induction rule: list_all2_induct) (simp_all add: compare_events_def)

subsection \<open>What a replay may change\<close>

definition result_type :: "EventType \<Rightarrow> bool" where
  "result_type t \<longleftrightarrow> t = ''llm.call.end'' \<or> t = ''tool.call.result''"

definition replays :: "Codec \<Rightarrow> Event \<Rightarrow> Event \<Rightarrow> bool" where
  "replays cd a b \<longleftrightarrow> b = a \<or>
     (result_type (ev_Type a) \<and> b = Seal cd (a\<lparr>ev_Payload := ev_Payload b\<rparr>))"

lemma replay_one_replays: "replay_one cd mo to e = Inr e' \<Longrightarrow> replays cd e e'"
  by (auto simp: replay_one_def replays_def result_type_def copyEvent_def Let_def
      split: if_splits sum.splits option.splits)

lemma replay_all_replays: "replay_all cd mo to es = Inr es' \<Longrightarrow> list_all2 (replays cd) es es'"
  by (induction es arbitrary: es') (auto simp: replay_one_replays split: sum.splits)

lemma replays_stamp:
  assumes "replays cd a b"
  shows "ev_ID b = ev_ID a \<and> ev_Type b = ev_Type a \<and> ev_Clock b = ev_Clock a"
proof -
  obtain p where "b = a \<or> b = Seal cd (a\<lparr>ev_Payload := p\<rparr>)"
    using assms by (auto simp: replays_def)
  then show ?thesis by auto
qed

lemma replays_sealed: "sealed cd a \<Longrightarrow> replays cd a b \<Longrightarrow> sealed cd b"
  by (auto simp: replays_def) (metis sealed_Seal)

definition mes_app :: "Codec \<Rightarrow> MemoryEventStore appender" where
  "mes_app cd s es = map_prod id Inr (MES_Append cd s es)"

lemma stamp_all_preset:
  "\<forall>e\<in>set es. ev_Clock e \<noteq> 0 \<and> sealed cd e \<Longrightarrow> stamp_all cd c es = (c, es)"
  by (induction es) (simp_all add: stamp_preset Seal_sealed)

lemma mes_app_preset:
  assumes "\<forall>e\<in>set es. ev_Clock e \<noteq> 0 \<and> sealed cd e"
  shows "es_events (fst (mes_app cd s es)) = es_events s @ es" and "snd (mes_app cd s es) = Inr es"
  using stamp_all_preset [OF assms, of "es_clock s"]
  by (simp_all add: mes_app_def MES_Append_events)

lemma Replay_success:
  assumes "Replay cd app stream cfg out = (out', Inr r)" and "rp_StateOverride cfg = None"
  defines "orig \<equiv> collect (stream (trace_filter (rp_TraceID cfg) (rp_Start cfg) (rp_End cfg)))"
  shows "\<exists>evs. list_all2 (replays cd) orig evs \<and>
    replay_all cd (case rp_ModelOverride cfg of Some f \<Rightarrow> f | None \<Rightarrow> exact_model)
      (case rp_ToolOverride cfg of Some f \<Rightarrow> f | None \<Rightarrow> ReplayExactTools) orig = Inr evs \<and>
    rr_OriginalLen r = int (length orig) \<and> rr_ReplayLen r = int (length orig) \<and>
    rr_Divergences r = (if rp_DiffEnabled cfg then diffEventLists orig evs else []) \<and>
    rm_MatchCount (rr_ReplayMetrics r) = int (length orig) - int (length (rr_Divergences r)) \<and>
    (\<forall>o1. out = Some o1 \<longrightarrow> out' = Some (fst (app o1 evs)) \<and> snd (app o1 evs) = Inr (rr_Events r))"
proof -
  let ?mo = "case rp_ModelOverride cfg of Some f \<Rightarrow> f | None \<Rightarrow> exact_model"
  let ?to = "case rp_ToolOverride cfg of Some f \<Rightarrow> f | None \<Rightarrow> ReplayExactTools"
  obtain evs where evs: "replay_all cd ?mo ?to orig = Inr evs"
    using assms(1,2) by (auto simp: Replay_def Let_def orig_def split: sum.splits)
  have l: "list_all2 (replays cd) orig evs" by (rule replay_all_replays [OF evs])
  then have "length evs = length orig" by (simp add: list_all2_lengthD)
  with assms(1,2) evs l show ?thesis
    by (intro exI [of _ evs]) (auto simp: Replay_def Let_def orig_def split: sum.splits prod.splits option.splits)
qed

lemma replayed_ok:
  assumes "list_all2 (replays cd) orig evs" and "\<forall>e\<in>set orig. ev_Clock e \<noteq> 0 \<and> sealed cd e"
  shows "\<forall>e\<in>set evs. ev_Clock e \<noteq> 0 \<and> sealed cd e"
proof
  fix b assume "b \<in> set evs"
  then obtain a where "a \<in> set orig" "replays cd a b"
    using assms(1) by (metis in_set_conv_nth list_all2_conv_all_nth)
  then show "ev_Clock b \<noteq> 0 \<and> sealed cd b"
    using assms(2) replays_stamp [of cd a b] replays_sealed [of cd a b] by auto
qed

lemma matches_counted:
  assumes "list_all2 (replays cd) orig evs"
  shows "int (length orig) - int (length (diffEventLists orig evs)) =
    int (card {i. i < length orig \<and> ev_Hash (evs ! i) = ev_Hash (orig ! i)})"
proof -
  have "list_all2 (\<lambda>a b. ev_Type a = ev_Type b) orig evs"
    using assms by (rule list_all2_mono) (simp add: replays_stamp)
  note dl = diffEventLists_same_types [OF this]
  have len: "length (zip orig evs) = length orig" using assms by (simp add: list_all2_lengthD)
  have "length (filter (\<lambda>(a, b). ev_Hash a = ev_Hash b) (zip orig evs)) =
      card {i. i < length orig \<and> ev_Hash (evs ! i) = ev_Hash (orig ! i)}"
    unfolding length_filter_conv_card len
    by (rule arg_cong [of _ _ card]) (use assms in \<open>auto simp: list_all2_lengthD\<close>)
  moreover have "length (filter (\<lambda>(a, b). ev_Hash a = ev_Hash b) (zip orig evs)) +
      length (filter (\<lambda>(a, b). ev_Hash a \<noteq> ev_Hash b) (zip orig evs)) = length (zip orig evs)"
    using sum_length_filter_compl [of "\<lambda>(a, b). ev_Hash a = ev_Hash b" "zip orig evs"] by (simp add: split_def)
  ultimately show ?thesis using len by (simp add: dl)
qed

lemma trace_filter_Matches:
  "Matches (trace_filter t lo hi) e \<longleftrightarrow>
     (t = [] \<or> ev_TraceID e = t) \<and> (lo = 0 \<or> lo \<le> ev_Clock e) \<and> (hi = 0 \<or> ev_Clock e \<le> hi)"
  by (auto simp: Matches_def trace_filter_def no_filter_def word_gt_0 not_less not_le)

text \<open>
  The substitutions a replay makes, one recorded event at a time: \<open>replaced\<close> holds of an event and its
  replacement when only the content of a model result or the value of a tool result has been exchanged
  for what the substitution returned (nothing, if it returned no content or nil).
\<close>

definition model_replaced :: "Codec \<Rightarrow> ModelOverrideFunc \<Rightarrow> Event \<Rightarrow> Event \<Rightarrow> bool" where
  "model_replaced cd model a b \<longleftrightarrow>
     (\<exists>c. model (lp_Messages (parse_LLM cd a)) (lp_Content (parse_LLM cd a)) = Inr c \<and>
       (c = None \<longrightarrow> b = a) \<and>
       (\<forall>t. c = Some t \<longrightarrow> ev_Payload b = cd_LLM cd ((parse_LLM cd a)\<lparr>lp_Content := t\<rparr>) \<and>
          sealed cd b \<and> b\<lparr>ev_Payload := ev_Payload a, ev_Hash := ev_Hash a\<rparr> = a))"

definition tool_replaced :: "Codec \<Rightarrow> ToolOverrideFunc \<Rightarrow> Event \<Rightarrow> Event \<Rightarrow> bool" where
  "tool_replaced cd tool a b \<longleftrightarrow>
     (\<exists>v. tool (tp_ToolName (parse_Tool cd a)) (tp_Arguments (parse_Tool cd a)) (tp_Result (parse_Tool cd a)) = Inr v \<and>
       (v = VNil \<longrightarrow> b = a) \<and>
       (v \<noteq> VNil \<longrightarrow> ev_Payload b = cd_Tool cd ((parse_Tool cd a)\<lparr>tp_Result := v\<rparr>) \<and>
          sealed cd b \<and> b\<lparr>ev_Payload := ev_Payload a, ev_Hash := ev_Hash a\<rparr> = a))"

lemma Seal_replaced: "(Seal cd (a\<lparr>ev_Payload := p\<rparr>))\<lparr>ev_Payload := ev_Payload a, ev_Hash := ev_Hash a\<rparr> = a"
  by (simp add: Seal_def)

lemma replay_one_replaced:
  assumes "replay_one cd mo to a = Inr b"
  shows "(ev_Type a = ''llm.call.end'' \<longrightarrow> model_replaced cd mo a b) \<and>
    (ev_Type a = ''tool.call.result'' \<longrightarrow> tool_replaced cd to a b) \<and>
    (ev_Type a \<notin> {''llm.call.end'', ''tool.call.result''} \<longrightarrow> b = a)"
  using assms
  by (auto simp: replay_one_def model_replaced_def tool_replaced_def copyEvent_def Let_def Seal_replaced
      split: if_splits sum.splits option.splits)

lemma replay_all_replaced:
  "replay_all cd mo to es = Inr es' \<Longrightarrow> list_all2 (\<lambda>a b. replay_one cd mo to a = Inr b) es es'"
  by (induction es arbitrary: es') (auto split: sum.splits)


subsection \<open>Replay without overrides\<close>

text \<open>
  A result event is canonical when encoding its decoded payload gives the same text again. (A missing
  payload is decoded as the zero struct.) Such an event passes through a replay without overrides.
\<close>

definition canonical :: "Codec \<Rightarrow> Event \<Rightarrow> bool" where
  "canonical cd e \<longleftrightarrow> sealed cd e \<and>
     (ev_Type e = ''llm.call.end'' \<longrightarrow> cd_LLM cd (parse_LLM cd e) = ev_Payload e) \<and>
     (ev_Type e = ''tool.call.result'' \<longrightarrow> cd_Tool cd (parse_Tool cd e) = ev_Payload e)"

lemma exact_replay_one: "canonical cd e \<Longrightarrow> replay_one cd exact_model ReplayExactTools e = Inr e"
  by (auto simp: canonical_def replay_one_def exact_model_def ReplayExactTools_def copyEvent_def Let_def
      Seal_sealed)

lemma exact_replay_all:
  "\<forall>e\<in>set es. canonical cd e \<Longrightarrow> replay_all cd exact_model ReplayExactTools es = Inr es"
  by (induction es) (simp_all add: exact_replay_one)

lemma diffEventLists_refl [simp]: "diffEventLists es es = []"
  by (simp add: diffEventLists_Nil list_all2_refl)

text \<open>
  A state override never shows up in the comparison: the overridden event takes the place of the
  recorded one before the two lists are compared.
\<close>

theorem state_override_not_compared:
  assumes "override_state cd so (collect (stream (trace_filter t 0 0))) = Inr orig"
    and "\<forall>e\<in>set orig. canonical cd e"
  shows "\<exists>r. Replay cd app stream
      \<lparr>rp_TraceID = t, rp_Start = 0, rp_End = 0, rp_ModelOverride = None, rp_ToolOverride = None,
       rp_StateOverride = Some so, rp_DiffEnabled = True\<rparr> None = (None, Inr r) \<and> rr_Divergences r = []"
  using assms by (simp add: Replay_def exact_replay_all Let_def)

subsection \<open>Fork\<close>

lemma trace_filter_events:
  "t \<noteq> [] \<Longrightarrow> filter (Matches (trace_filter t lo hi)) es =
     filter (\<lambda>e. ev_TraceID e = t \<and> (lo = 0 \<or> lo \<le> ev_Clock e) \<and> (hi = 0 \<or> ev_Clock e \<le> hi)) es"
  by (intro filter_cong) (auto simp: trace_filter_Matches)

lemma word_le_pred: "1 < (c :: 64 word) \<Longrightarrow> (x \<le> c - 1 \<longleftrightarrow> x < c) \<and> c - 1 \<noteq> 0"
  by (simp add: word_less_nat_alt word_le_nat_alt unat_sub_if' unat_eq_0 [symmetric] del: unat_eq_0 unat_eq_zero)
     arith


text \<open>
  Forking at an event of clock 1 takes the whole trace: the upper bound becomes 0, which a filter reads
  as no bound.
\<close>

theorem fork_at_first_takes_all:
  assumes "MES_Get s (fk_Point cfg) = Some fe" and "ev_Clock fe = 1" and "fk_Engine cfg = None"
    and "fk_TraceID cfg \<noteq> []"
  shows "\<exists>r m. Fork cd app tm (MES_Get s) (MES_Stream s) cfg None = (None, Inr r) \<and>
    fr_ForkEvents r = filter (\<lambda>e. ev_TraceID e = fk_TraceID cfg) (es_events s) @ [m]"
  using assms by (simp add: Fork_def Let_def MES_Stream_collect trace_filter_events)

text \<open>
  With a fresh saver the forked engine never sees the rebuilt checkpoint: what it returns does not
  depend on the events before the fork.
\<close>

theorem fork_ignores_history:
  assumes "fk_saver cfg = None"
  shows "snd (resumeFromCheckpoint cd app tm cfg pre out) = snd (resumeFromCheckpoint cd app tm cfg pre' out)"
  using assms
  by (simp add: resumeFromCheckpoint_def MemorySaver_Put_def str_at_def ConfigKeyThreadID_def
      ConfigKeyCheckpointID_def Let_def split_def split: option.split run_result.split)

subsection \<open>Rebuilt checkpoints\<close>

text \<open>What the events say the state was: the last write per channel, the finished nodes, the last step.\<close>

definition last_write :: "Codec \<Rightarrow> Event list \<Rightarrow> string \<Rightarrow> gval option" where
  "last_write cd es k =
     map_option (\<lambda>e. sp_NewValue (parse_State cd e))
       (find (\<lambda>e. ev_Type e = ''state.write'' \<and> sp_Channel (parse_State cd e) = k) (rev es))"

definition finished_nodes :: "Event list \<Rightarrow> string list" where
  "finished_nodes es = map ev_Node (filter (\<lambda>e. ev_Type e = ''node.end'') es)"

lemma build_loop_nodes:
  "fst (snd (build_loop cd es (cp, ts, n, st))) = ts @ finished_nodes es"
  "fst (snd (snd (build_loop cd es (cp, ts, n, st)))) =
     (if finished_nodes es = [] then n else last (finished_nodes es))"
  by (induction es arbitrary: cp ts n st) (auto simp: finished_nodes_def Let_def)

lemma build_loop_channel:
  "k \<noteq> [] \<Longrightarrow> fmlookup (fst (build_loop cd es (cp, ts, n, st))) k =
     (case last_write cd es k of Some v \<Rightarrow> Some v | None \<Rightarrow> fmlookup cp k)"
proof (induction es arbitrary: cp ts n st)
  case (Cons e es)
  then show ?case
    by (auto simp: last_write_def find_append Let_def split: option.split)
qed (simp add: last_write_def)

definition reserved_cp :: "string set" where
  "reserved_cp = {ConfigKeyThreadID, ConfigKeyCheckpointID, PregelCheckpointID, ''__last_state__'',
     ''__completed_tasks__'', ''__last_completed_node__'', ''__step__''}"

lemma completed_of_joined:
  assumes "str_at cp ''__completed_tasks__'' = Some (join_with (CHR 0x00) ns)" and "ns \<noteq> []"
    and "\<forall>n\<in>set ns. n \<noteq> [] \<and> CHR 0x00 \<notin> set n"
  shows "fmlookup (completed_of cp) k = (if k \<in> set ns then Some True else None)"
proof -
  have "join_with (CHR 0x00) ns \<noteq> []" using assms(2,3) by (auto simp: join_with_eq_Nil)
  moreover have "split_on (CHR 0x00) (join_with (CHR 0x00) ns) = ns"
    by (rule split_on_join_with) (use assms(2,3) in auto)
  ultimately show ?thesis
    by (simp add: completed_of_def assms(1) deserializeStringSet_def fmlookup_fold_True)
qed

definition step_ends :: "Event list \<Rightarrow> int list" where
  "step_ends es = map (\<lambda>e. sint (ev_Step e)) (filter (\<lambda>e. ev_Type e = ''step.end'') es)"

definition last_step :: "Event list \<Rightarrow> int" where
  "last_step es = Max (set (0 # step_ends es))"

lemma Max_insert_if: "Max (insert (if a < b then b else a) (set xs)) = Max (insert a (insert b (set (xs :: int list))))"
  by (cases "set xs = {}") auto

lemma build_loop_step:
  "sint (snd (snd (snd (build_loop cd es (cp, ts, n, st))))) = Max (insert (sint st) (set (step_ends es)))"
proof (induction es arbitrary: cp ts n st)
  case (Cons e es)
  have i: "sint (if sint st < sint (ev_Step e) then ev_Step e else st) =
      (if sint st < sint (ev_Step e) then sint (ev_Step e) else sint st)" by simp
  have s: "set (step_ends (e # es)) =
      (if ev_Type e = ''step.end'' then insert (sint (ev_Step e)) (set (step_ends es)) else set (step_ends es))"
    by (simp add: step_ends_def)
  show ?case
  proof (cases "ev_Type e = ''step.end''")
    case True
    then have "build_loop cd (e # es) (cp, ts, n, st) =
        build_loop cd es (cp, ts, n, if sint st < sint (ev_Step e) then ev_Step e else st)" by simp
    then show ?thesis by (simp only: Cons i Max_insert_if s) (simp add: True)
  next
    case False
    then show ?thesis unfolding s build_loop.simps by (simp add: Cons Let_def)
  qed
qed (simp add: step_ends_def)

definition reserved_writes :: "Codec \<Rightarrow> Event list \<Rightarrow> bool" where
  "reserved_writes cd es \<longleftrightarrow>
     (\<exists>e\<in>set es. ev_Type e = ''state.write'' \<and> sp_Channel (parse_State cd e) \<in> reserved_cp)"

lemma last_write_reserved: "\<not> reserved_writes cd es \<Longrightarrow> k \<in> reserved_cp \<Longrightarrow> last_write cd es k = None"
  by (auto simp: last_write_def reserved_writes_def find_None_iff)

lemma build_loop_empty: "fmlookup cp [] = None \<Longrightarrow> fmlookup (fst (build_loop cd es (cp, ts, n, st))) [] = None"
  by (induction es arbitrary: cp ts n st) (auto simp: Let_def)

lemma build_loop_dom: "fmdom cp |\<subseteq>| fmdom (fst (build_loop cd es (cp, ts, n, st)))"
  by (induction es arbitrary: cp ts n st) (force simp: Let_def)+

lemma checkpoint_base_keys:
  "fmdom (checkpoint_base th i) = {|ConfigKeyThreadID, ConfigKeyCheckpointID, PregelCheckpointID|}"
  by (auto simp: checkpoint_base_def)

lemma rebuilt_size:
  assumes "build_loop cd es (checkpoint_base th i, [], [], 0) = (cp, ts, n, st)"
  shows "2 < fmlen cp"
proof -
  have "fcard (fmdom (checkpoint_base th i)) = 3"
    by (simp add: checkpoint_base_keys ConfigKeyThreadID_def ConfigKeyCheckpointID_def PregelCheckpointID_def
        fcard_finsert_if)
  moreover have "fmdom (checkpoint_base th i) |\<subseteq>| fmdom cp"
    using build_loop_dom [of "checkpoint_base th i" cd es "[]" "[]" 0] by (simp add: assms)
  ultimately show ?thesis unfolding fmlen_def using fcard_mono by fastforce
qed

lemma rebuilt_channels:
  assumes "build_loop cd es (checkpoint_base th i, [], [], 0) = (cp, ts, n, st)"
    and "k \<notin> {ConfigKeyThreadID, ConfigKeyCheckpointID, PregelCheckpointID}"
  shows "fmlookup cp k = (if k = [] then None else last_write cd es k)"
proof -
  have "fmlookup (checkpoint_base th i) k = None" using assms(2) by (auto simp: checkpoint_base_def)
  then show ?thesis
    using build_loop_channel [of k cd es "checkpoint_base th i" "[]" "[]" 0]
      build_loop_empty [of "checkpoint_base th i" cd es "[]" "[]" 0]
    by (auto simp: assms(1) split: option.split)
qed

lemmas reserved_names = reserved_cp_def ConfigKeyThreadID_def ConfigKeyCheckpointID_def PregelCheckpointID_def


subsection \<open>Diff\<close>

lemma byClock_Some: "byClock es c = Some e \<Longrightarrow> e \<in> set es \<and> ev_Clock e = c"
  by (auto simp: byClock_def find_Some_iff) (metis nth_mem set_rev length_rev)

lemma byClock_None: "byClock es c = None \<longleftrightarrow> c \<notin> ev_Clock ` set es"
  by (auto simp: byClock_def find_None_iff)

text \<open>What one clock contributes when the hashes have their full length.\<close>

definition diff_at :: "Codec \<Rightarrow> Event list \<Rightarrow> Event list \<Rightarrow> 64 word \<Rightarrow> EventMismatch list" where
  "diff_at cd ls rs c =
     (case (byClock ls c, byClock rs c) of
        (Some l, Some r) \<Rightarrow> mismatch_type c l r @ (case mismatch_hash c l r of Inr ms \<Rightarrow> ms | Inl _ \<Rightarrow> [])
      | _ \<Rightarrow> [])"

lemma mismatch_hash_sealed:
  "sealed cd l \<Longrightarrow> sealed cd r \<Longrightarrow> \<exists>ms. mismatch_hash c l r = Inr ms \<and> (ms = [] \<longleftrightarrow> ev_Hash l = ev_Hash r)"
  by (simp add: mismatch_hash_def hash_prefix_def sealed_length)

lemma categorise_keeps [simp]:
  "df_MissingInRight (categorise cd c l r d) = df_MissingInRight d"
  "df_MissingInLeft (categorise cd c l r d) = df_MissingInLeft d"
  "df_Mismatched (categorise cd c l r d) = df_Mismatched d"
  by (simp_all add: categorise_def)

lemma diff_clocks:
  assumes "\<forall>e\<in>set ls. sealed cd e" and "\<forall>e\<in>set rs. sealed cd e"
  shows "\<exists>d'. foldl_err (diff_clock cd ls rs) d cs = Inr d' \<and>
    df_MissingInRight d' = df_MissingInRight d @
      [the (byClock ls c). c \<leftarrow> cs, byClock ls c \<noteq> None \<and> byClock rs c = None] \<and>
    df_MissingInLeft d' = df_MissingInLeft d @
      [the (byClock rs c). c \<leftarrow> cs, byClock ls c = None \<and> byClock rs c \<noteq> None] \<and>
    df_Mismatched d' = df_Mismatched d @ concat (map (diff_at cd ls rs) cs)"
proof (induction cs arbitrary: d)
  case (Cons c cs)
  have "\<exists>d1. diff_clock cd ls rs d c = Inr d1 \<and>
      df_MissingInRight d1 = df_MissingInRight d @
        (if byClock ls c \<noteq> None \<and> byClock rs c = None then [the (byClock ls c)] else []) \<and>
      df_MissingInLeft d1 = df_MissingInLeft d @
        (if byClock ls c = None \<and> byClock rs c \<noteq> None then [the (byClock rs c)] else []) \<and>
      df_Mismatched d1 = df_Mismatched d @ diff_at cd ls rs c"
  proof (cases "byClock ls c")
    case None
    then show ?thesis by (cases "byClock rs c") (simp_all add: diff_clock_def diff_at_def)
  next
    case (Some l)
    show ?thesis
    proof (cases "byClock rs c")
      case None
      with Some show ?thesis by (simp add: diff_clock_def diff_at_def)
    next
      case r: (Some r)
      obtain ms where "mismatch_hash c l r = Inr ms"
        using mismatch_hash_sealed [of cd l r c] assms byClock_Some [OF Some] byClock_Some [OF r] by auto
      with Some r show ?thesis by (simp add: diff_clock_def diff_at_def)
    qed
  qed
  then obtain d1 where d1: "diff_clock cd ls rs d c = Inr d1"
      "df_MissingInRight d1 = df_MissingInRight d @
        (if byClock ls c \<noteq> None \<and> byClock rs c = None then [the (byClock ls c)] else [])"
      "df_MissingInLeft d1 = df_MissingInLeft d @
        (if byClock ls c = None \<and> byClock rs c \<noteq> None then [the (byClock rs c)] else [])"
      "df_Mismatched d1 = df_Mismatched d @ diff_at cd ls rs c"
    by blast
  from Cons [of d1] show ?case by (auto simp: d1)
qed simp

lemma diff_at_iff:
  assumes "\<forall>e\<in>set ls. sealed cd e" and "\<forall>e\<in>set rs. sealed cd e"
  shows "diff_at cd ls rs c \<noteq> [] \<longleftrightarrow>
    (\<exists>l r. byClock ls c = Some l \<and> byClock rs c = Some r \<and> (ev_Type l \<noteq> ev_Type r \<or> ev_Hash l \<noteq> ev_Hash r))"
proof (cases "byClock ls c"; cases "byClock rs c")
  fix l r assume l: "byClock ls c = Some l" and r: "byClock rs c = Some r"
  obtain ms where "mismatch_hash c l r = Inr ms" "ms = [] \<longleftrightarrow> ev_Hash l = ev_Hash r"
    using mismatch_hash_sealed [of cd l r c] assms byClock_Some [OF l] byClock_Some [OF r] by auto
  with l r show ?thesis by (auto simp: diff_at_def mismatch_type_def)
qed (simp_all add: diff_at_def)

lemma byClock_distinct:
  assumes "distinct (map ev_Clock es)"
  shows "byClock es c = Some e \<longleftrightarrow> e \<in> set es \<and> ev_Clock e = c"
proof
  assume e: "e \<in> set es \<and> ev_Clock e = c"
  then obtain x where x: "byClock es c = Some x" using byClock_None [of es c] by auto
  then have "x \<in> set es" "ev_Clock x = c" using byClock_Some by blast+
  then have "x = e" using e assms by (auto simp: distinct_map inj_on_def)
  then show "byClock es c = Some e" using x by simp
qed (rule byClock_Some)

lemma missing_events:
  assumes "distinct (map ev_Clock ls)" and "ev_Clock ` set ls \<subseteq> set cs"
  shows "set [the (byClock ls c). c \<leftarrow> cs, byClock ls c \<noteq> None \<and> byClock rs c = None] =
    {e \<in> set ls. ev_Clock e \<notin> ev_Clock ` set rs}" (is "set ?m = ?E")
proof (intro set_eqI iffI)
  fix e assume "e \<in> set ?m"
  then obtain c where "byClock ls c = Some e" "byClock rs c = None" by (auto split: if_splits)
  then show "e \<in> ?E" using byClock_Some [of ls c e] by (auto simp: byClock_None)
next
  fix e assume e: "e \<in> ?E"
  then have "byClock ls (ev_Clock e) = Some e" "byClock rs (ev_Clock e) = None" "ev_Clock e \<in> set cs"
    using assms by (auto simp: byClock_distinct byClock_None)
  then show "e \<in> set ?m" by (auto intro!: bexI [of _ "ev_Clock e"])
qed

text \<open>
  C22: a diff is exact. For two in-memory logs of sealed events whose traces use every clock once, and
  for every iteration order of the clocks, the diff succeeds; the events missing on either side are
  exactly those whose clock the other trace does not have, and no mismatch is reported if and only if
  events of equal clock agree in type and hash.
\<close>

theorem diff_exact:
  assumes "\<forall>e\<in>set (es_events s). sealed cd e" and "\<forall>e\<in>set (es_events s'). sealed cd e"
    and "ls = readAllEvents (MES_Stream s) lt" and "rs = readAllEvents (MES_Stream s') rt"
    and "distinct (map ev_Clock ls)" and "distinct (map ev_Clock rs)"
    and "\<And>cs. set (order cs) = set cs"
  shows "\<exists>d. Diff cd order (MES_Stream s) (MES_Stream s') lt rt = Inr d \<and>
    set (df_MissingInRight d) = {e \<in> set ls. ev_Clock e \<notin> ev_Clock ` set rs} \<and>
    set (df_MissingInLeft d) = {e \<in> set rs. ev_Clock e \<notin> ev_Clock ` set ls} \<and>
    (df_Mismatched d = [] \<longleftrightarrow>
       (\<forall>l\<in>set ls. \<forall>r\<in>set rs. ev_Clock l = ev_Clock r \<longrightarrow> ev_Type l = ev_Type r \<and> ev_Hash l = ev_Hash r))"
proof -
  let ?cs = "order (remdups (map ev_Clock (ls @ rs)))"
  have sl: "\<forall>e\<in>set ls. sealed cd e" "\<forall>e\<in>set rs. sealed cd e"
    using assms(1-4) by (auto simp: readAllEvents_def MES_Stream_collect)
  have cs: "set ?cs = ev_Clock ` set ls \<union> ev_Clock ` set rs"
    unfolding assms(7) by (simp add: image_Un)
  then have sub: "ev_Clock ` set rs \<subseteq> set ?cs" by blast
  note bl = byClock_distinct [OF assms(5)] and br = byClock_distinct [OF assms(6)]
  obtain d where d: "Diff cd order (MES_Stream s) (MES_Stream s') lt rt = Inr d"
      "df_MissingInRight d = [the (byClock ls c). c \<leftarrow> ?cs, byClock ls c \<noteq> None \<and> byClock rs c = None]"
      "df_MissingInLeft d = [the (byClock rs c). c \<leftarrow> ?cs, byClock ls c = None \<and> byClock rs c \<noteq> None]"
      "df_Mismatched d = concat (map (diff_at cd ls rs) ?cs)"
    using diff_clocks [OF sl, of "\<lparr>df_MissingInRight = [], df_MissingInLeft = [], df_Mismatched = [],
        df_StateDiff = fmempty, df_ToolCallDiff = [], df_LLMResponseDiff = []\<rparr>" ?cs]
    unfolding Diff_def Let_def assms(3,4) by auto
  have "set (df_MissingInRight d) = {e \<in> set ls. ev_Clock e \<notin> ev_Clock ` set rs}"
    unfolding d(2) by (rule missing_events [OF assms(5)]) (use cs in blast)
  moreover have "set (df_MissingInLeft d) = {e \<in> set rs. ev_Clock e \<notin> ev_Clock ` set ls}"
    unfolding d(3) using missing_events [OF assms(6) sub, of ls] by (simp add: conj_commute)
  moreover have "df_Mismatched d = [] \<longleftrightarrow> (\<forall>c\<in>set ?cs. \<not> diff_at cd ls rs c \<noteq> [])"
    unfolding d(4) by simp
  then have "df_Mismatched d = [] \<longleftrightarrow>
      (\<forall>l\<in>set ls. \<forall>r\<in>set rs. ev_Clock l = ev_Clock r \<longrightarrow> ev_Type l = ev_Type r \<and> ev_Hash l = ev_Hash r)"
    unfolding diff_at_iff [OF sl] cs by (auto simp: bl br)
  ultimately show ?thesis using d(1) by blast
qed

subsection \<open>A recorded run, replayed and forked\<close>

text \<open>A trace of a state write, a model call and a finished node, as the store keeps it.\<close>

definition demo_trace_event :: "string \<Rightarrow> 64 word \<Rightarrow> EventType \<Rightarrow> string option \<Rightarrow> Event" where
  "demo_trace_event i c ty p = Seal demo_codec ((NewEvent 7 100 ty c)
     \<lparr>ev_ID := i, ev_TraceID := ''t'', ev_Node := ''n'', ev_Payload := p\<rparr>)"

definition demo_trace :: "Event list" where
  "demo_trace = [demo_trace_event ''e1'' 1 ''state.write'' (Some ''x=1''), demo_trace_event ''e2'' 2 ''llm.call.end'' (Some ''hi''),
     demo_trace_event ''e3'' 3 ''node.end'' None]"

definition demo_log :: MemoryEventStore where
  "demo_log = fst (MES_Append demo_codec NewMemoryEventStore demo_trace)"

lemma demo_trace_sealed: "e \<in> set demo_trace \<Longrightarrow> ev_Clock e \<noteq> 0 \<and> canonical demo_codec e"
  by (auto simp: demo_trace_def demo_trace_event_def NewEvent_def canonical_def parse_LLM_def demo_codec_def)

lemma demo_log_events [simp]: "es_events demo_log = demo_trace"
  using demo_trace_sealed
  by (simp add: demo_log_def MES_Append_events stamp_all_preset NewMemoryEventStore_def canonical_def)

lemma demo_trace_simps [simp]:
  "ev_Clock (demo_trace_event i c ty p) = c" "ev_Type (demo_trace_event i c ty p) = ty"
  "ev_TraceID (demo_trace_event i c ty p) = ''t''" "ev_Node (demo_trace_event i c ty p) = ''n''"
  "ev_Payload (demo_trace_event i c ty p) = p" "ev_ID (demo_trace_event i c ty p) = i"
  by (simp_all add: demo_trace_event_def NewEvent_def)

definition demo_replay :: ReplayConfig where
  "demo_replay = \<lparr>rp_TraceID = ''t'', rp_Start = 0, rp_End = 0,
     rp_ModelOverride = Some (ReplaySubstituteModel (\<lambda>_. ''bye'')), rp_ToolOverride = None,
     rp_StateOverride = None, rp_DiffEnabled = True\<rparr>"


definition demo_fork :: ForkConfig where
  "demo_fork = \<lparr>fk_TraceID = ''t'', fk_Point = ''e3'', fk_Engine = None, fk_saver = None\<rparr>"



theorem diff_exact_witness:
  "\<exists>d. Diff demo_codec (\<lambda>cs. cs) (MES_Stream demo_log) (MES_Stream NewMemoryEventStore) ''t'' ''t'' = Inr d \<and>
     set (df_MissingInRight d) = set demo_trace \<and> df_Mismatched d = []"
proof -
  have l: "demo_trace = readAllEvents (MES_Stream demo_log) ''t''"
    by (simp add: readAllEvents_def MES_Stream_collect Matches_def no_filter_def demo_trace_def)
  have r: "[] = readAllEvents (MES_Stream NewMemoryEventStore) ''t''"
    by (simp add: readAllEvents_def MES_Stream_collect NewMemoryEventStore_def)
  have "\<forall>e\<in>set (es_events demo_log). sealed demo_codec e"
    using demo_trace_sealed by (simp add: canonical_def)
  from diff_exact [OF this _ l r, of "\<lambda>cs. cs"] show ?thesis
    by (auto simp: NewMemoryEventStore_def demo_trace_def)
qed

end
