(* ===== verification/Loop_Controls.thy ===== *)
theory Loop_Controls
  imports Go_Values
begin

text \<open>
  The parts the agent loop is built from: cancel options and cancel requests that are merged until they
  can be delivered, the blocking turn buffer, and the controllers for stopping the loop and for
  preempting a turn. Every operation of a controller runs under its mutex and is one function here.
  Durations and times are nanoseconds. An acknowledgement channel is a number; an operation that closes
  such channels returns their numbers. A blocked call has no result (\<open>None\<close>); a panic is \<open>Inl\<close>.
\<close>

unbundle bit_operations_syntax

subsection \<open>Cancel options and requests\<close>

type_synonym CancelMode = goint

definition CancelImmediate :: CancelMode where "CancelImmediate = 0"
definition CancelAfterChatModel :: CancelMode where "CancelAfterChatModel = 2"
definition CancelAfterToolCalls :: CancelMode where "CancelAfterToolCalls = 4"

record cancelConfig =
  cn_Mode :: CancelMode
  cn_Recursive :: bool
  cn_Timeout :: "int option"

datatype CancelOption = WithCancelMode CancelMode | WithCancelTimeout int | WithRecursiveCancel

primrec apply_option :: "CancelOption \<Rightarrow> cancelConfig \<Rightarrow> cancelConfig" where
  "apply_option (WithCancelMode m) c = c\<lparr>cn_Mode := m\<rparr>"
| "apply_option (WithCancelTimeout d) c = c\<lparr>cn_Timeout := Some d\<rparr>"
| "apply_option WithRecursiveCancel c = c\<lparr>cn_Recursive := True\<rparr>"

definition parseCancelOptions :: "CancelOption list \<Rightarrow> cancelConfig" where
  "parseCancelOptions opts =
     fold apply_option opts \<lparr>cn_Mode = CancelImmediate, cn_Recursive = False, cn_Timeout = None\<rparr>"

record cancelRequestState =
  cr_cfg :: cancelConfig
  cr_deadline :: "int option"

definition newCancelRequestState :: "CancelOption list \<Rightarrow> int \<Rightarrow> cancelRequestState" where
  "newCancelRequestState opts now =
     (let cfg = parseCancelOptions opts
      in \<lparr>cr_cfg = cfg\<lparr>cn_Timeout := None\<rparr>,
          cr_deadline = (case cn_Timeout cfg of
             Some d \<Rightarrow> if 0 < d \<and> cn_Mode cfg \<noteq> CancelImmediate then Some (now + d) else None
           | None \<Rightarrow> None)\<rparr>)"

definition earliest :: "int option \<Rightarrow> int option \<Rightarrow> int option" where
  "earliest cur next =
     (case next of
        None \<Rightarrow> cur
      | Some d \<Rightarrow> (case cur of None \<Rightarrow> Some d | Some c \<Rightarrow> if d < c then Some d else Some c))"

text \<open>\<open>merge\<close>; a nil slice of options changes nothing.\<close>

definition merge_request :: "cancelRequestState \<Rightarrow> CancelOption list option \<Rightarrow> int \<Rightarrow> cancelRequestState" where
  "merge_request s opts now =
     (case opts of
        None \<Rightarrow> s
      | Some os \<Rightarrow>
          (let nxt = newCancelRequestState os now;
               s1 = (if cn_Mode (cr_cfg s) = CancelImmediate \<or> cn_Mode (cr_cfg nxt) = CancelImmediate
                     then s\<lparr>cr_cfg := (cr_cfg s)\<lparr>cn_Mode := CancelImmediate\<rparr>, cr_deadline := None\<rparr>
                     else s\<lparr>cr_cfg := (cr_cfg s)\<lparr>cn_Mode := cn_Mode (cr_cfg s) OR cn_Mode (cr_cfg nxt)\<rparr>,
                            cr_deadline := earliest (cr_deadline s) (cr_deadline nxt)\<rparr>)
           in if cn_Recursive (cr_cfg nxt) then s1\<lparr>cr_cfg := (cr_cfg s1)\<lparr>cn_Recursive := True\<rparr>\<rparr> else s1))"

definition cancelOptions :: "cancelRequestState \<Rightarrow> int \<Rightarrow> CancelOption list" where
  "cancelOptions s now =
     (let cfg = (case cr_deadline s of
            Some d \<Rightarrow>
              if cn_Mode (cr_cfg s) \<noteq> CancelImmediate
              then if d - now \<le> 0 then (cr_cfg s)\<lparr>cn_Mode := CancelImmediate, cn_Timeout := None\<rparr>
                   else (cr_cfg s)\<lparr>cn_Timeout := Some (d - now)\<rparr>
              else cr_cfg s
          | None \<Rightarrow> cr_cfg s)
      in WithCancelMode (cn_Mode cfg) # (if cn_Recursive cfg then [WithRecursiveCancel] else []) @
         (case cn_Timeout cfg of Some d \<Rightarrow> [WithCancelTimeout d] | None \<Rightarrow> []))"

subsection \<open>The turn buffer\<close>

record 'a turnBuffer =
  tb_buf :: "'a list"
  tb_closed :: bool
  tb_woken :: bool

definition newTurnBuffer :: "'a turnBuffer" where
  "newTurnBuffer = \<lparr>tb_buf = [], tb_closed = False, tb_woken = False\<rparr>"

definition TrySend :: "'a \<Rightarrow> 'a turnBuffer \<Rightarrow> 'a turnBuffer \<times> bool" where
  "TrySend v tb = (if tb_closed tb then (tb, False) else (tb\<lparr>tb_buf := tb_buf tb @ [v]\<rparr>, True))"

definition Receive :: "'a turnBuffer \<Rightarrow> ('a turnBuffer \<times> 'a option) option" where
  "Receive tb =
     (if tb_buf tb = [] \<and> \<not> tb_closed tb \<and> \<not> tb_woken tb then None
      else let tb1 = tb\<lparr>tb_woken := False\<rparr>
           in case tb_buf tb of
                [] \<Rightarrow> Some (tb1, None)
              | v # vs \<Rightarrow> Some (tb1\<lparr>tb_buf := vs\<rparr>, Some v))"

definition Buffer_Close :: "'a turnBuffer \<Rightarrow> 'a turnBuffer" where
  "Buffer_Close tb = tb\<lparr>tb_closed := True\<rparr>"

definition IsClosed :: "'a turnBuffer \<Rightarrow> bool" where
  "IsClosed tb = tb_closed tb"

definition TakeAll :: "'a turnBuffer \<Rightarrow> 'a turnBuffer \<times> 'a list" where
  "TakeAll tb = (tb\<lparr>tb_buf := []\<rparr>, tb_buf tb)"

definition PushFront :: "'a list \<Rightarrow> 'a turnBuffer \<Rightarrow> 'a turnBuffer" where
  "PushFront vs tb = (if vs = [] then tb else tb\<lparr>tb_buf := vs @ tb_buf tb\<rparr>)"

definition Wakeup :: "'a turnBuffer \<Rightarrow> 'a turnBuffer" where
  "Wakeup tb = tb\<lparr>tb_woken := True\<rparr>"

definition ClearWakeup :: "'a turnBuffer \<Rightarrow> 'a turnBuffer" where
  "ClearWakeup tb = tb\<lparr>tb_woken := False\<rparr>"

subsection \<open>Stopping\<close>

datatype stopPhase = stopOpen | stopIdleWaiting | stopCommitted

record stopConfig =
  sc_agentCancelOpts :: "CancelOption list option"
  sc_skipCheckpoint :: bool
  sc_stopCause :: string
  sc_idleFor :: int
  sc_timeout :: "int option"

record stopController =
  st_phase :: stopPhase
  st_hasActiveCancelTarget :: bool
  st_pending :: "cancelRequestState option"
  st_notify :: bool
  st_idleFor :: int
  st_skipCheckpoint :: bool
  st_stopCause :: string
  st_closed :: bool

definition newStopController :: stopController where
  "newStopController = \<lparr>st_phase = stopOpen, st_hasActiveCancelTarget = False, st_pending = None,
     st_notify = False, st_idleFor = 0, st_skipCheckpoint = False, st_stopCause = [], st_closed = False\<rparr>"

record stopDecision =
  sd_commit :: bool
  sd_wakeIdle :: bool

definition commitLocked :: "stopController \<Rightarrow> stopController \<times> bool" where
  "commitLocked c = (if st_closed c \<or> st_phase c = stopCommitted then (c, False)
                     else (c\<lparr>st_phase := stopCommitted, st_idleFor := 0\<rparr>, True))"

definition requestStop :: "stopConfig \<Rightarrow> int \<Rightarrow> stopController \<Rightarrow> stopController \<times> stopDecision" where
  "requestStop cfg now c =
     (if st_closed c then (c, \<lparr>sd_commit = False, sd_wakeIdle = False\<rparr>)
      else
        let c1 = (if sc_skipCheckpoint cfg then c\<lparr>st_skipCheckpoint := True\<rparr> else c);
            c2 = (if sc_stopCause cfg \<noteq> [] \<and> st_stopCause c1 = []
                  then c1\<lparr>st_stopCause := sc_stopCause cfg\<rparr> else c1)
        in if 0 < sc_idleFor cfg
           then (let c3 = (if st_phase c2 \<noteq> stopCommitted \<and> st_idleFor c2 = 0
                           then c2\<lparr>st_phase := stopIdleWaiting, st_idleFor := sc_idleFor cfg\<rparr> else c2)
                 in (c3, \<lparr>sd_commit = False, sd_wakeIdle = (st_phase c3 = stopIdleWaiting)\<rparr>))
           else (let (c3, committed) = commitLocked c2;
                     c4 = (case sc_agentCancelOpts cfg of
                        None \<Rightarrow> c3
                      | Some opts \<Rightarrow>
                          (let c5 = c3\<lparr>st_pending := Some (case st_pending c3 of
                                None \<Rightarrow> newCancelRequestState opts now
                              | Some p \<Rightarrow> merge_request p (Some opts) now)\<rparr>
                           in if st_hasActiveCancelTarget c5 then c5\<lparr>st_notify := True\<rparr> else c5))
                 in (c4, \<lparr>sd_commit = committed, sd_wakeIdle = False\<rparr>)))"

definition isCommitted :: "stopController \<Rightarrow> bool" where
  "isCommitted c \<longleftrightarrow> st_phase c = stopCommitted"

definition idleDuration :: "stopController \<Rightarrow> int" where
  "idleDuration c = (if st_phase c \<noteq> stopIdleWaiting then 0 else st_idleFor c)"

definition Stop_beginActiveTurn :: "stopController \<Rightarrow> stopController" where
  "Stop_beginActiveTurn c =
     (if st_closed c then c
      else c\<lparr>st_hasActiveCancelTarget := True, st_notify := (st_notify c \<or> st_pending c \<noteq> None)\<rparr>)"

definition Stop_endActiveTurn :: "stopController \<Rightarrow> stopController \<times> cancelRequestState option" where
  "Stop_endActiveTurn c = (c\<lparr>st_hasActiveCancelTarget := False, st_pending := None\<rparr>, st_pending c)"

definition receiveCancel :: "stopController \<Rightarrow> stopController \<times> cancelRequestState option" where
  "receiveCancel c = (if \<not> st_hasActiveCancelTarget c \<or> st_pending c = None then (c, None)
                      else (c\<lparr>st_pending := None\<rparr>, st_pending c))"

definition Stop_closeForLoopExit :: "stopController \<Rightarrow> stopController" where
  "Stop_closeForLoopExit c =
     c\<lparr>st_closed := True, st_hasActiveCancelTarget := False, st_pending := None, st_notify := False\<rparr>"

text \<open>The options of \<open>Stop\<close>; the two that check their argument panic when it is not positive.\<close>

datatype StopOption =
    WithGraceful
  | WithImmediate
  | WithGracefulTimeout int
  | WithStopTimeout int
  | WithSkipCheckpoint
  | WithStopCause string
  | UntilIdleFor int

definition graceful_mode :: CancelMode where
  "graceful_mode = (CancelAfterChatModel OR CancelAfterToolCalls)"

primrec stop_option :: "StopOption \<Rightarrow> stopConfig \<Rightarrow> gerror + stopConfig" where
  "stop_option WithGraceful c =
     Inr (c\<lparr>sc_agentCancelOpts := Some [WithCancelMode graceful_mode, WithRecursiveCancel]\<rparr>)"
| "stop_option WithImmediate c = Inr (c\<lparr>sc_agentCancelOpts := Some [WithRecursiveCancel]\<rparr>)"
| "stop_option (WithGracefulTimeout d) c =
     (if d \<le> 0 then Inl (GoPanic ''agentcore: WithGracefulTimeout: gracePeriod must be positive'')
      else Inr (c\<lparr>sc_agentCancelOpts :=
             Some [WithCancelMode graceful_mode, WithRecursiveCancel, WithCancelTimeout d]\<rparr>))"
| "stop_option (WithStopTimeout d) c = Inr (c\<lparr>sc_timeout := Some d\<rparr>)"
| "stop_option WithSkipCheckpoint c = Inr (c\<lparr>sc_skipCheckpoint := True\<rparr>)"
| "stop_option (WithStopCause s) c = Inr (c\<lparr>sc_stopCause := s\<rparr>)"
| "stop_option (UntilIdleFor d) c =
     (if d \<le> 0 then Inl (GoPanic ''agentcore: UntilIdleFor: duration must be positive'')
      else Inr (c\<lparr>sc_idleFor := d\<rparr>))"

subsection \<open>Preempting\<close>

type_synonym SafePoint = goint

definition AfterChatModel :: SafePoint where "AfterChatModel = 1"
definition AfterToolCalls :: SafePoint where "AfterToolCalls = 2"
definition AnySafePoint :: SafePoint where "AnySafePoint = (AfterChatModel OR AfterToolCalls)"

definition toCancelMode :: "SafePoint \<Rightarrow> CancelMode" where
  "toCancelMode sp =
     (let m = (if sp AND AfterToolCalls \<noteq> 0 then CancelAfterToolCalls else 0)
      in if sp AND AfterChatModel \<noteq> 0 then m OR CancelAfterChatModel else m)"

datatype preemptTurnPhase = preemptTurnIdle | preemptTurnPlanning | preemptTurnActive

record preemptRequest =
  pr_cancel :: cancelRequestState
  pr_ackChans :: "nat list"

text \<open>The current turn's context is the turn it belongs to; only its presence matters here.\<close>

record preemptController =
  pc_turnPhase :: preemptTurnPhase
  pc_turnID :: "64 word"
  pc_hasCurrent :: bool
  pc_pushInFlight :: int
  pc_pending :: "preemptRequest option"
  pc_notify :: bool
  pc_closed :: bool

definition newPreemptController :: preemptController where
  "newPreemptController = \<lparr>pc_turnPhase = preemptTurnIdle, pc_turnID = 0, pc_hasCurrent = False,
     pc_pushInFlight = 0, pc_pending = None, pc_notify = False, pc_closed = False\<rparr>"

record preemptTurnSnapshot =
  ps_hasTargetTurn :: bool
  ps_turnID :: "64 word"
  ps_hasCurrent :: bool

definition req_acks :: "preemptRequest option \<Rightarrow> nat list" where
  "req_acks r = (case r of None \<Rightarrow> [] | Some q \<Rightarrow> pr_ackChans q)"

definition wrong_phase :: gerror where
  "wrong_phase = GoPanic ''adk: preemptController called in the wrong turn phase''"

definition beginPlanningTurn :: "preemptController \<Rightarrow> gerror + preemptController" where
  "beginPlanningTurn c =
     (if pc_turnPhase c \<noteq> preemptTurnIdle then Inl wrong_phase
      else if pc_pending c \<noteq> None
      then Inl (GoPanic ''adk: preemptController.beginPlanningTurn called with stale pending preempt request'')
      else Inr (c\<lparr>pc_turnID := pc_turnID c + 1, pc_turnPhase := preemptTurnPlanning, pc_hasCurrent := False\<rparr>))"

definition end_turn :: "preemptController \<Rightarrow> preemptController \<times> preemptRequest option" where
  "end_turn c = (c\<lparr>pc_turnPhase := preemptTurnIdle, pc_hasCurrent := False, pc_pending := None\<rparr>, pc_pending c)"

definition abortPlanningTurn :: "preemptController \<Rightarrow> gerror + (preemptController \<times> preemptRequest option)" where
  "abortPlanningTurn c = (if pc_turnPhase c \<noteq> preemptTurnPlanning then Inl wrong_phase else Inr (end_turn c))"

definition beginActiveTurn :: "preemptController \<Rightarrow> gerror + preemptController" where
  "beginActiveTurn c =
     (if pc_turnPhase c \<noteq> preemptTurnPlanning then Inl wrong_phase
      else Inr (c\<lparr>pc_turnPhase := preemptTurnActive, pc_hasCurrent := True,
                   pc_notify := (pc_notify c \<or> pc_pending c \<noteq> None)\<rparr>))"

definition endActiveTurn :: "preemptController \<Rightarrow> gerror + (preemptController \<times> preemptRequest option)" where
  "endActiveTurn c = (if pc_turnPhase c \<noteq> preemptTurnActive then Inl wrong_phase else Inr (end_turn c))"

definition beginPush :: "preemptController \<Rightarrow> preemptController \<times> preemptTurnSnapshot" where
  "beginPush c =
     (c\<lparr>pc_pushInFlight := pc_pushInFlight c + 1\<rparr>,
      \<lparr>ps_hasTargetTurn = (pc_turnPhase c = preemptTurnPlanning \<or> pc_turnPhase c = preemptTurnActive),
       ps_turnID = pc_turnID c, ps_hasCurrent = pc_hasCurrent c\<rparr>)"

definition endPush :: "preemptController \<Rightarrow> gerror + preemptController" where
  "endPush c =
     (if pc_pushInFlight c - 1 < 0
      then Inl (GoPanic ''adk: preemptController.endPush called without matching beginPush'')
      else Inr (c\<lparr>pc_pushInFlight := pc_pushInFlight c - 1\<rparr>))"

text \<open>\<open>waitForPushes\<close> returns once no push is in flight.\<close>

definition waitForPushes :: "preemptController \<Rightarrow> preemptController option" where
  "waitForPushes c = (if 0 < pc_pushInFlight c then None else Some c)"

definition requestPreempt ::
  "preemptTurnSnapshot \<Rightarrow> nat option \<Rightarrow> CancelOption list \<Rightarrow> int \<Rightarrow> preemptController \<Rightarrow> preemptController \<times> nat list" where
  "requestPreempt target ack opts now c =
     (if pc_closed c \<or> \<not> ps_hasTargetTurn target \<or> pc_turnPhase c = preemptTurnIdle \<or> pc_turnID c \<noteq> ps_turnID target
      then (c, case ack of Some a \<Rightarrow> [a] | None \<Rightarrow> [])
      else
        let acks = (case ack of Some a \<Rightarrow> [a] | None \<Rightarrow> []);
            req = (case pc_pending c of
                     None \<Rightarrow> \<lparr>pr_cancel = newCancelRequestState opts now, pr_ackChans = acks\<rparr>
                   | Some p \<Rightarrow> \<lparr>pr_cancel = merge_request (pr_cancel p) (Some opts) now, pr_ackChans = pr_ackChans p @ acks\<rparr>)
        in (c\<lparr>pc_pending := Some req, pc_notify := (pc_notify c \<or> pc_turnPhase c = preemptTurnActive)\<rparr>, []))"

definition receivePreempt :: "preemptController \<Rightarrow> preemptController \<times> preemptRequest option" where
  "receivePreempt c = (if pc_turnPhase c \<noteq> preemptTurnActive \<or> pc_pending c = None then (c, None)
                       else (c\<lparr>pc_pending := None\<rparr>, pc_pending c))"

definition Preempt_closeForLoopExit :: "preemptController \<Rightarrow> preemptController \<times> nat list" where
  "Preempt_closeForLoopExit c =
     (c\<lparr>pc_closed := True, pc_turnPhase := preemptTurnIdle, pc_hasCurrent := False, pc_pending := None,
        pc_notify := False\<rparr>, req_acks (pc_pending c))"

end
