(* ===== verification/Loop_Props.thy ===== *)
theory Loop_Props
  imports Loop_Controls
begin

text \<open>
  Properties of the loop's building blocks: merged cancel requests are the join of their parts, the
  buffer is a queue that loses nothing, a stop is committed at most once, and every acknowledgement
  channel given to the preempt controller is closed exactly once, whatever the interleaving of pushes,
  turns, watchers and the end of the loop.
\<close>

subsection \<open>Merged requests\<close>

definition merge_all :: "CancelOption list \<times> int \<Rightarrow> (CancelOption list \<times> int) list \<Rightarrow> cancelRequestState" where
  "merge_all r rs = fold (\<lambda>(os, now) s. merge_request s (Some os) now) rs (newCancelRequestState (fst r) (snd r))"

definition req_mode :: "CancelOption list \<times> int \<Rightarrow> CancelMode" where
  "req_mode r = cn_Mode (parseCancelOptions (fst r))"

definition req_deadline :: "CancelOption list \<times> int \<Rightarrow> int option" where
  "req_deadline r = cr_deadline (newCancelRequestState (fst r) (snd r))"

definition deadlines :: "(CancelOption list \<times> int) list \<Rightarrow> int set" where
  "deadlines rs = {d. \<exists>r\<in>set rs. req_deadline r = Some d}"

definition min_deadline :: "int set \<Rightarrow> int option" where
  "min_deadline D = (if D = {} then None else Some (Min D))"

lemma finite_deadlines [simp]: "finite (deadlines rs)"
proof -
  have "deadlines rs \<subseteq> (\<lambda>r. the (req_deadline r)) ` set rs" by (force simp: deadlines_def)
  then show ?thesis by (rule finite_subset) simp
qed

lemma deadlines_Cons: "deadlines (r # rs) = deadlines [r] \<union> deadlines rs"
  by (auto simp: deadlines_def)

lemma deadlines_snoc: "deadlines (rs @ [r]) = deadlines rs \<union> deadlines [r]"
  by (auto simp: deadlines_def)

lemma deadlines_single: "deadlines [r] = (case req_deadline r of None \<Rightarrow> {} | Some d \<Rightarrow> {d})"
  by (auto simp: deadlines_def split: option.split)

lemma earliest_min:
  assumes "finite D"
  shows "earliest (min_deadline D) (req_deadline r) = min_deadline (D \<union> deadlines [r])"
proof (cases "req_deadline r")
  case (Some d)
  show ?thesis
  proof (cases "D = {}")
    case False
    define m where "m = Min D"
    have "min_deadline D = Some m" "min_deadline (D \<union> {d}) = Some (min d m)"
      using False assms by (simp_all add: min_deadline_def m_def)
    then show ?thesis using Some by (simp add: earliest_def deadlines_single min_def)
  qed (use Some in \<open>simp add: earliest_def min_deadline_def deadlines_single\<close>)
qed (simp add: earliest_def deadlines_single)

lemma new_request_simps [simp]:
  "cn_Mode (cr_cfg (newCancelRequestState os now)) = cn_Mode (parseCancelOptions os)"
  "cn_Recursive (cr_cfg (newCancelRequestState os now)) = cn_Recursive (parseCancelOptions os)"
  by (simp_all add: newCancelRequestState_def Let_def)

lemma or_eq_0 [simp]: "(a :: 64 word) OR b = 0 \<longleftrightarrow> a = 0 \<and> b = 0"
  by (auto simp: bit_eq_iff bit_or_iff)

lemma fold_or_eq_0: "fold (OR) xs (a :: 64 word) = 0 \<longleftrightarrow> a = 0 \<and> (\<forall>x\<in>set xs. x = 0)"
  by (induction xs arbitrary: a) auto

text \<open>
  Cancel requests that arrive before they can be delivered are joined, whatever their order: the
  merged request is immediate if one of them is, otherwise its mode is the union of their safe points
  and its deadline the earliest of theirs, so that a later request never postpones an earlier one; an
  immediate request has no deadline; and it reaches sub-agents if any of them should.
\<close>

theorem cancel_requests_join:
  "cn_Mode (cr_cfg (merge_all r rs)) =
     (if CancelImmediate \<in> req_mode ` set (r # rs) then CancelImmediate else fold (OR) (map req_mode rs) (req_mode r)) \<and>
   cr_deadline (merge_all r rs) =
     (if CancelImmediate \<in> req_mode ` set (r # rs) then None else min_deadline (deadlines (r # rs))) \<and>
   (cn_Recursive (cr_cfg (merge_all r rs)) \<longleftrightarrow> (\<exists>q\<in>set (r # rs). cn_Recursive (parseCancelOptions (fst q))))"
proof (induction rs rule: rev_induct)
  case Nil
  have "req_mode r = CancelImmediate \<Longrightarrow> req_deadline r = None"
    by (simp add: req_deadline_def req_mode_def newCancelRequestState_def Let_def split: option.split)
  then show ?case
    by (cases "req_deadline r")
       (auto simp: merge_all_def req_mode_def req_deadline_def deadlines_single min_deadline_def)
next
  case (snoc q rs)
  let ?s = "merge_all r rs"
  obtain os now where q: "q = (os, now)" by (cases q)
  have m: "merge_all r (rs @ [q]) = merge_request ?s (Some os) now" by (simp add: merge_all_def q)
  have d: "deadlines (r # rs @ [q]) = deadlines (r # rs) \<union> deadlines [q]"
    using deadlines_snoc [of "r # rs" q] by simp
  have nz: "CancelImmediate \<notin> req_mode ` set (r # rs) \<Longrightarrow> fold (OR) (map req_mode rs) (req_mode r) \<noteq> CancelImmediate"
    by (auto simp: CancelImmediate_def fold_or_eq_0)
  have qm: "cn_Mode (parseCancelOptions os) = req_mode q" and qd: "cr_deadline (newCancelRequestState os now) = req_deadline q"
    and qr: "cn_Recursive (parseCancelOptions os) = cn_Recursive (parseCancelOptions (fst q))"
    by (simp_all add: req_mode_def req_deadline_def q)
  show ?case
  proof (cases "CancelImmediate \<in> req_mode ` set (r # rs)")
    case True
    with snoc show ?thesis unfolding m by (simp add: merge_request_def Let_def qm qr) auto
  next
    case False
    with snoc nz [OF False] have s: "cn_Mode (cr_cfg ?s) \<noteq> CancelImmediate"
        "cn_Mode (cr_cfg ?s) = fold (OR) (map req_mode rs) (req_mode r)"
        "cr_deadline ?s = min_deadline (deadlines (r # rs))"
      by simp_all
    show ?thesis
    proof (cases "req_mode q = CancelImmediate")
      case True
      with s snoc show ?thesis unfolding m by (simp add: merge_request_def Let_def qm qr)
    next
      case q0: False
      have "CancelImmediate \<notin> req_mode ` set (r # rs @ [q])" using False q0 by auto
      with q0 s snoc show ?thesis
        unfolding m d by (simp add: merge_request_def Let_def qm qd qr earliest_min or.commute)
    qed
  qed
qed

subsection \<open>The buffer\<close>

text \<open>
  A receiver never blocks on a buffer that holds something, is closed or was woken, and takes the
  oldest value; what a sender was told is accepted is in the buffer.
\<close>

lemma Receive_blocks: "Receive tb = None \<longleftrightarrow> tb_buf tb = [] \<and> \<not> tb_closed tb \<and> \<not> tb_woken tb"
  by (auto simp: Receive_def Let_def split: list.split)

lemma Receive_Some:
  "Receive tb = Some (tb', Some v) \<longleftrightarrow> tb_buf tb = v # tb_buf tb' \<and> tb' = tb\<lparr>tb_woken := False, tb_buf := tb_buf tb'\<rparr>"
  by (auto simp: Receive_def Let_def split: list.split)

lemma Receive_empty:
  "Receive tb = Some (tb', None) \<Longrightarrow> tb_buf tb = [] \<and> tb_buf tb' = [] \<and> tb_closed tb' = tb_closed tb"
  by (auto simp: Receive_def Let_def split: list.splits if_splits)

lemma buffer_simps [simp]:
  "tb_buf (fst (TakeAll tb)) = []" "snd (TakeAll tb) = tb_buf tb" "tb_closed (fst (TakeAll tb)) = tb_closed tb"
  "tb_buf (PushFront vs tb) = vs @ tb_buf tb" "tb_closed (PushFront vs tb) = tb_closed tb"
  "tb_buf (Buffer_Close tb) = tb_buf tb" "tb_closed (Buffer_Close tb)" "tb_buf (Wakeup tb) = tb_buf tb"
  "tb_closed (Wakeup tb) = tb_closed tb" "tb_buf (ClearWakeup tb) = tb_buf tb"
  "tb_closed (ClearWakeup tb) = tb_closed tb"
  by (simp_all add: TakeAll_def PushFront_def Buffer_Close_def Wakeup_def ClearWakeup_def)

subsection \<open>Stopping\<close>

text \<open>Once committed, a stop stays committed, and only one request is told to commit.\<close>

datatype stop_op = SRequest stopConfig int | SCommit | SBegin | SEnd | SReceive | SExit

primrec stop_op_step :: "stop_op \<Rightarrow> stopController \<Rightarrow> stopController \<times> bool" where
  "stop_op_step (SRequest cfg now) c = map_prod id sd_commit (requestStop cfg now c)"
| "stop_op_step SCommit c = commitLocked c"
| "stop_op_step SBegin c = (Stop_beginActiveTurn c, False)"
| "stop_op_step SEnd c = (fst (Stop_endActiveTurn c), False)"
| "stop_op_step SReceive c = (fst (receiveCancel c), False)"
| "stop_op_step SExit c = (Stop_closeForLoopExit c, False)"

fun stop_run :: "stop_op list \<Rightarrow> stopController \<Rightarrow> stopController \<times> nat" where
  "stop_run [] c = (c, 0)"
| "stop_run (x # xs) c =
     (let (c', told) = stop_op_step x c; (c'', n) = stop_run xs c' in (c'', n + (if told then 1 else 0)))"

lemma commitLocked_told: "snd (commitLocked c) \<longleftrightarrow> \<not> st_closed c \<and> st_phase c \<noteq> stopCommitted"
  by (auto simp: commitLocked_def)

lemma commitLocked_phase: "snd (commitLocked c) \<Longrightarrow> st_phase (fst (commitLocked c)) = stopCommitted"
  by (auto simp: commitLocked_def)

lemma stop_step_told:
  "snd (stop_op_step x c) \<Longrightarrow> st_phase c \<noteq> stopCommitted \<and> st_phase (fst (stop_op_step x c)) = stopCommitted"
  by (cases x) (auto simp: requestStop_def commitLocked_def Let_def split: if_splits option.splits)

lemma stop_step_committed:
  "st_phase c = stopCommitted \<Longrightarrow> st_phase (fst (stop_op_step x c)) = stopCommitted"
  by (cases x) (auto simp: requestStop_def commitLocked_def Let_def Stop_beginActiveTurn_def
      Stop_endActiveTurn_def receiveCancel_def Stop_closeForLoopExit_def split: option.splits)

lemma stop_run_committed: "st_phase c = stopCommitted \<Longrightarrow> snd (stop_run xs c) = 0"
proof (induction xs arbitrary: c)
  case (Cons x xs)
  then show ?case
    using stop_step_told [of x c] stop_step_committed [of c x] by (auto simp: split_def Let_def)
qed simp

lemma stop_run_once: "snd (stop_run xs c) \<le> 1"
proof (induction xs arbitrary: c)
  case (Cons x xs)
  show ?case
  proof (cases "snd (stop_op_step x c)")
    case True
    then have "snd (stop_run xs (fst (stop_op_step x c))) = 0"
      by (intro stop_run_committed) (simp add: stop_step_told)
    then show ?thesis by (simp add: split_def Let_def)
  next
    case False
    then show ?thesis using Cons by (simp add: split_def Let_def)
  qed
qed simp

subsection \<open>Preemption as a system of goroutines\<close>

text \<open>
  The controller together with the goroutines that use it: pushes between \<open>beginPush\<close> and \<open>endPush\<close>
  (with the acknowledgement they have made and not yet handed over), delayed requests, the watchers of
  active turns (with the request they have received), and the loop itself, which plans, runs and ends
  turns and finally closes the controller. \<open>issued\<close> lists the acknowledgement channels ever made,
  \<open>closed\<close> those that were closed, once per close. A watcher belongs to a turn but may outlive it.
\<close>

datatype loop_phase = LIdle | LPlanning | LActive | LExited

record PreemptSys =
  y_ctrl :: preemptController
  y_pushes :: "(preemptTurnSnapshot \<times> nat option) multiset"
  y_delayed :: "(preemptTurnSnapshot \<times> nat) multiset"
  y_watchers :: "(64 word \<times> preemptRequest option) multiset"
  y_loop :: loop_phase
  y_issued :: "nat list"
  y_closed :: "nat list"

definition preempt_init :: PreemptSys where
  "preempt_init = \<lparr>y_ctrl = newPreemptController, y_pushes = {#}, y_delayed = {#}, y_watchers = {#},
     y_loop = LIdle, y_issued = [], y_closed = []\<rparr>"

inductive preempt_step :: "PreemptSys \<Rightarrow> PreemptSys \<Rightarrow> bool" where
  begin_push: "beginPush (y_ctrl y) = (c, snap) \<Longrightarrow>
    preempt_step y (y\<lparr>y_ctrl := c, y_pushes := add_mset (snap, None) (y_pushes y)\<rparr>)"
| make_ack: "y_pushes y = add_mset (snap, None) P \<Longrightarrow> a \<notin> set (y_issued y) \<Longrightarrow>
    preempt_step y (y\<lparr>y_pushes := add_mset (snap, Some a) P, y_issued := a # y_issued y\<rparr>)"
| ack_unstarted: "y_pushes y = add_mset (snap, Some a) P \<Longrightarrow>
    preempt_step y (y\<lparr>y_pushes := add_mset (snap, None) P, y_closed := a # y_closed y\<rparr>)"
| submit: "y_pushes y = add_mset (snap, Some a) P \<Longrightarrow>
    requestPreempt snap (Some a) opts now (y_ctrl y) = (c, cl) \<Longrightarrow>
    preempt_step y (y\<lparr>y_ctrl := c, y_pushes := add_mset (snap, None) P, y_closed := cl @ y_closed y\<rparr>)"
| delay: "y_pushes y = add_mset (snap, Some a) P \<Longrightarrow>
    preempt_step y (y\<lparr>y_pushes := add_mset (snap, None) P, y_delayed := add_mset (snap, a) (y_delayed y)\<rparr>)"
| end_push: "y_pushes y = add_mset (snap, None) P \<Longrightarrow> endPush (y_ctrl y) = Inr c \<Longrightarrow>
    preempt_step y (y\<lparr>y_ctrl := c, y_pushes := P\<rparr>)"
| fire: "y_delayed y = add_mset (snap, a) D \<Longrightarrow> requestPreempt snap (Some a) opts now (y_ctrl y) = (c, cl) \<Longrightarrow>
    preempt_step y (y\<lparr>y_ctrl := c, y_delayed := D, y_closed := cl @ y_closed y\<rparr>)"
| drop_delayed: "y_delayed y = add_mset (snap, a) D \<Longrightarrow> y_loop y = LExited \<Longrightarrow>
    preempt_step y (y\<lparr>y_delayed := D, y_closed := a # y_closed y\<rparr>)"
| plan: "y_loop y = LIdle \<Longrightarrow> beginPlanningTurn (y_ctrl y) = Inr c \<Longrightarrow>
    preempt_step y (y\<lparr>y_ctrl := c, y_loop := LPlanning\<rparr>)"
| abort: "y_loop y = LPlanning \<Longrightarrow> abortPlanningTurn (y_ctrl y) = Inr (c, r) \<Longrightarrow>
    preempt_step y (y\<lparr>y_ctrl := c, y_loop := LIdle, y_closed := req_acks r @ y_closed y\<rparr>)"
| activate: "y_loop y = LPlanning \<Longrightarrow> beginActiveTurn (y_ctrl y) = Inr c \<Longrightarrow>
    preempt_step y (y\<lparr>y_ctrl := c, y_loop := LActive, y_watchers := add_mset (pc_turnID c, None) (y_watchers y)\<rparr>)"
| watch: "y_watchers y = add_mset (t, None) W \<Longrightarrow> pc_notify (y_ctrl y) \<Longrightarrow>
    receivePreempt ((y_ctrl y)\<lparr>pc_notify := False\<rparr>) = (c, r) \<Longrightarrow>
    preempt_step y (y\<lparr>y_ctrl := c, y_watchers := add_mset (t, r) W\<rparr>)"
| acknowledge: "y_watchers y = add_mset (t, Some r) W \<Longrightarrow>
    preempt_step y (y\<lparr>y_watchers := add_mset (t, None) W, y_closed := pr_ackChans r @ y_closed y\<rparr>)"
| watcher_exit: "y_watchers y = add_mset (t, None) W \<Longrightarrow> y_loop y \<noteq> LActive \<or> pc_turnID (y_ctrl y) \<noteq> t \<Longrightarrow>
    preempt_step y (y\<lparr>y_watchers := W\<rparr>)"
| finish: "y_loop y = LActive \<Longrightarrow> endActiveTurn (y_ctrl y) = Inr (c, r) \<Longrightarrow>
    preempt_step y (y\<lparr>y_ctrl := c, y_loop := LIdle, y_closed := req_acks r @ y_closed y\<rparr>)"
| exit_loop: "y_loop y = LIdle \<Longrightarrow> Preempt_closeForLoopExit (y_ctrl y) = (c, cl) \<Longrightarrow>
    preempt_step y (y\<lparr>y_ctrl := c, y_loop := LExited, y_closed := cl @ y_closed y\<rparr>)"

inductive preempt_reach :: "PreemptSys \<Rightarrow> bool" where
  "preempt_reach preempt_init"
| "preempt_reach y \<Longrightarrow> preempt_step y y' \<Longrightarrow> preempt_reach y'"

text \<open>Where acknowledgements wait to be closed.\<close>

definition ack_of :: "nat option \<Rightarrow> nat multiset" where
  "ack_of a = (case a of Some x \<Rightarrow> {#x#} | None \<Rightarrow> {#})"

definition waiting :: "PreemptSys \<Rightarrow> nat multiset" where
  "waiting y = (\<Sum>p\<in>#y_pushes y. ack_of (snd p)) + image_mset snd (y_delayed y) +
     mset (req_acks (pc_pending (y_ctrl y))) + (\<Sum>w\<in>#y_watchers y. mset (req_acks (snd w)))"

definition in_step :: "PreemptSys \<Rightarrow> bool" where
  "in_step y \<longleftrightarrow>
     (y_loop y = LPlanning \<longleftrightarrow> pc_turnPhase (y_ctrl y) = preemptTurnPlanning) \<and>
     (y_loop y = LActive \<longleftrightarrow> pc_turnPhase (y_ctrl y) = preemptTurnActive) \<and>
     (pc_turnPhase (y_ctrl y) = preemptTurnIdle \<longrightarrow> pc_pending (y_ctrl y) = None) \<and>
     pc_pushInFlight (y_ctrl y) = int (size (y_pushes y))"

definition acks_balanced :: "PreemptSys \<Rightarrow> bool" where
  "acks_balanced y \<longleftrightarrow> distinct (y_issued y) \<and> mset (y_issued y) = mset (y_closed y) + waiting y"

lemmas preempt_defs = beginPush_def endPush_def beginPlanningTurn_def abortPlanningTurn_def beginActiveTurn_def
  endActiveTurn_def end_turn_def receivePreempt_def Preempt_closeForLoopExit_def requestPreempt_def

lemma requestPreempt_keeps:
  assumes "requestPreempt snap (Some a) opts now c = (c', cl)"
  shows "pc_turnPhase c' = pc_turnPhase c" "pc_pushInFlight c' = pc_pushInFlight c"
    "pc_turnPhase c = preemptTurnIdle \<Longrightarrow> pc_pending c' = pc_pending c"
    "mset cl + mset (req_acks (pc_pending c')) = {#a#} + mset (req_acks (pc_pending c))"
  using assms by (auto simp: requestPreempt_def req_acks_def Let_def split: if_splits option.splits)

lemma in_step_preserved: "preempt_step y y' \<Longrightarrow> in_step y \<Longrightarrow> in_step y'"
proof (induction rule: preempt_step.induct)
  case (submit y snap a P opts now c cl)
  then show ?case using requestPreempt_keeps(1-3) [OF submit.hyps(2)] by (simp add: in_step_def)
next
  case (fire y snap a D opts now c cl)
  then show ?case using requestPreempt_keeps(1-3) [OF fire.hyps(2)] by (simp add: in_step_def)
qed (auto simp: in_step_def preempt_defs split: if_splits)

lemma acks_balanced_preserved: "preempt_step y y' \<Longrightarrow> acks_balanced y \<Longrightarrow> acks_balanced y'"
proof (induction rule: preempt_step.induct)
  case (submit y snap a P opts now c cl)
  then show ?case
    using requestPreempt_keeps(4) [OF submit.hyps(2)]
    by (simp add: acks_balanced_def waiting_def ack_of_def ac_simps)
next
  case (fire y snap a D opts now c cl)
  then show ?case
    using requestPreempt_keeps(4) [OF fire.hyps(2)]
    by (simp add: acks_balanced_def waiting_def ack_of_def ac_simps)
next
  case (watch y t W c r)
  then have "mset (req_acks r) + mset (req_acks (pc_pending c)) = mset (req_acks (pc_pending (y_ctrl y)))"
    by (auto simp: receivePreempt_def req_acks_def split: if_splits)
  with watch show ?case
    by (simp add: acks_balanced_def waiting_def req_acks_def ac_simps)
qed (auto simp: acks_balanced_def waiting_def ack_of_def req_acks_def preempt_defs ac_simps split: if_splits)

lemma preempt_reach_inv: "preempt_reach y \<Longrightarrow> in_step y \<and> acks_balanced y"
proof (induction rule: preempt_reach.induct)
  case 1
  show ?case
    by (simp add: in_step_def acks_balanced_def waiting_def preempt_init_def newPreemptController_def req_acks_def)
qed (blast intro: in_step_preserved acks_balanced_preserved)

text \<open>
  C9: preemption is acknowledged exactly once. In every interleaving of pushes, delayed requests, turns
  and watchers, no acknowledgement channel is closed twice (which would panic) and none is closed that
  was not made; when the loop has exited and no push, delayed request or watcher holds one any more,
  all of them are closed, so no caller waits for ever; and the loop's own calls never panic.
\<close>

theorem preempt_acks_exactly_once:
  assumes "preempt_reach y"
  shows "distinct (y_closed y) \<and> set (y_closed y) \<subseteq> set (y_issued y) \<and>
    (y_loop y = LExited \<and> y_pushes y = {#} \<and> y_delayed y = {#} \<and> (\<forall>w\<in>#y_watchers y. snd w = None) \<longrightarrow>
       set (y_closed y) = set (y_issued y)) \<and>
    (y_loop y = LIdle \<longrightarrow> beginPlanningTurn (y_ctrl y) \<in> range Inr) \<and>
    (y_loop y = LPlanning \<longrightarrow> abortPlanningTurn (y_ctrl y) \<in> range Inr \<and> beginActiveTurn (y_ctrl y) \<in> range Inr) \<and>
    (y_loop y = LActive \<longrightarrow> endActiveTurn (y_ctrl y) \<in> range Inr) \<and>
    (y_pushes y \<noteq> {#} \<longrightarrow> endPush (y_ctrl y) \<in> range Inr)"
proof -
  have s: "in_step y" and b: "mset (y_issued y) = mset (y_closed y) + waiting y" and d: "distinct (y_issued y)"
    using preempt_reach_inv [OF assms] by (simp_all add: acks_balanced_def)
  obtain ws where "mset ws = waiting y" using ex_mset by blast
  then have "mset (y_issued y) = mset (y_closed y @ ws)" using b by simp
  from mset_eq_imp_distinct_iff [OF this] have "distinct (y_closed y)" using d by simp
  moreover have "set (y_closed y) \<subseteq> set (y_issued y)"
    using b by (metis set_mset_mset set_mset_union sup_ge1)
  moreover have "set (y_closed y) = set (y_issued y)"
    if "y_loop y = LExited" "y_pushes y = {#}" "y_delayed y = {#}" "\<forall>w\<in>#y_watchers y. snd w = None"
  proof -
    have "pc_turnPhase (y_ctrl y) = preemptTurnIdle"
      using s that(1) by (cases "pc_turnPhase (y_ctrl y)") (auto simp: in_step_def)
    then have "pc_pending (y_ctrl y) = None" using s by (simp add: in_step_def)
    then have "waiting y = {#}"
      using that by (auto simp: waiting_def req_acks_def)
    then show ?thesis using b by (metis add.right_neutral set_mset_mset)
  qed
  moreover have "y_loop y = LIdle \<longrightarrow> beginPlanningTurn (y_ctrl y) \<in> range Inr"
    using s by (cases "pc_turnPhase (y_ctrl y)") (auto simp: in_step_def beginPlanningTurn_def)
  moreover have "y_pushes y \<noteq> {#} \<longrightarrow> endPush (y_ctrl y) \<in> range Inr"
    using s by (auto simp: in_step_def endPush_def)
  ultimately show ?thesis
    using s by (auto simp: in_step_def abortPlanningTurn_def beginActiveTurn_def endActiveTurn_def)
qed

lemma preempt_reach_plan_active:
  "\<exists>y. preempt_reach y \<and> y_loop y = LActive \<and> y_watchers y = {#(1, None)#} \<and> y_pushes y = {#} \<and>
     y_delayed y = {#} \<and> y_issued y = [] \<and> y_closed y = [] \<and>
     y_ctrl y = newPreemptController\<lparr>pc_turnID := 1, pc_turnPhase := preemptTurnActive, pc_hasCurrent := True\<rparr>"
proof -
  let ?c1 = "newPreemptController\<lparr>pc_turnID := 1, pc_turnPhase := preemptTurnPlanning\<rparr>"
  let ?c2 = "newPreemptController\<lparr>pc_turnID := 1, pc_turnPhase := preemptTurnActive, pc_hasCurrent := True\<rparr>"
  let ?y1 = "preempt_init\<lparr>y_ctrl := ?c1, y_loop := LPlanning\<rparr>"
  have "preempt_step preempt_init ?y1"
    by (rule plan) (simp_all add: preempt_init_def beginPlanningTurn_def newPreemptController_def)
  with preempt_reach.intros(1) have r: "preempt_reach ?y1" by (rule preempt_reach.intros(2))
  have "preempt_step ?y1 (?y1\<lparr>y_ctrl := ?c2, y_loop := LActive, y_watchers := add_mset (pc_turnID ?c2, None) (y_watchers ?y1)\<rparr>)"
    by (rule activate) (simp_all add: beginActiveTurn_def newPreemptController_def)
  from preempt_reach.intros(2) [OF r this] show ?thesis
    by (intro exI conjI) (assumption, simp_all add: preempt_init_def)
qed

theorem preempt_acks_exactly_once_witness:
  "\<exists>y. preempt_reach y \<and> y_loop y = LActive \<and> distinct (y_closed y) \<and> endActiveTurn (y_ctrl y) \<in> range Inr"
proof -
  obtain y where y: "preempt_reach y" "y_loop y = LActive" using preempt_reach_plan_active by blast
  show ?thesis
    using preempt_acks_exactly_once [OF y(1)] y by (intro exI [of _ y]) simp
qed

text \<open>
  A watcher may outlive its turn, because the turn returns without waiting for it. It can then receive,
  and acknowledge, a request meant for the next turn, whose agent it has no way to cancel.
\<close>

theorem stale_watcher_takes_request:
  "\<exists>y r W. preempt_reach y \<and> y_loop y = LActive \<and> pc_turnID (y_ctrl y) = 2 \<and> pc_pending (y_ctrl y) = None \<and>
     y_watchers y = add_mset (1, Some r) W \<and> pr_ackChans r = [a]"
proof -
  obtain y1 where y1: "preempt_reach y1" "y_loop y1 = LActive" "y_watchers y1 = {#(1, None)#}" "y_pushes y1 = {#}"
      "y_issued y1 = []"
      "y_ctrl y1 = newPreemptController\<lparr>pc_turnID := 1, pc_turnPhase := preemptTurnActive, pc_hasCurrent := True\<rparr>"
    using preempt_reach_plan_active by blast
  let ?cp = "newPreemptController\<lparr>pc_turnID := 2, pc_turnPhase := preemptTurnPlanning, pc_hasCurrent := False\<rparr>"
  let ?ca = "newPreemptController\<lparr>pc_turnID := 2, pc_turnPhase := preemptTurnActive, pc_hasCurrent := True\<rparr>"
  let ?snap = "\<lparr>ps_hasTargetTurn = True, ps_turnID = 2, ps_hasCurrent = True\<rparr>"
  let ?r = "\<lparr>pr_cancel = newCancelRequestState [] 0, pr_ackChans = [a]\<rparr>"
  let ?c0 = "newPreemptController\<lparr>pc_turnID := 1\<rparr>"
  let ?y2 = "y1\<lparr>y_ctrl := ?c0, y_loop := LIdle, y_closed := req_acks None @ y_closed y1\<rparr>"
  have 2: "preempt_reach ?y2"
    by (rule preempt_reach.intros(2) [OF y1(1)], rule finish)
       (simp_all add: y1 endActiveTurn_def end_turn_def newPreemptController_def)
  let ?y3 = "?y2\<lparr>y_ctrl := ?cp, y_loop := LPlanning\<rparr>"
  have 3: "preempt_reach ?y3"
    by (rule preempt_reach.intros(2) [OF 2], rule plan)
       (simp_all add: beginPlanningTurn_def newPreemptController_def)
  let ?y4 = "?y3\<lparr>y_ctrl := ?ca, y_loop := LActive,
      y_watchers := add_mset (pc_turnID (?ca), None) (y_watchers ?y3)\<rparr>"
  have 4: "preempt_reach ?y4"
    by (rule preempt_reach.intros(2) [OF 3], rule activate)
       (simp_all add: beginActiveTurn_def newPreemptController_def)
  let ?y5 = "?y4\<lparr>y_ctrl := (?ca)\<lparr>pc_pushInFlight := 1\<rparr>, y_pushes := add_mset (?snap, None) (y_pushes ?y4)\<rparr>"
  have 5: "preempt_reach ?y5"
    by (rule preempt_reach.intros(2) [OF 4], rule begin_push)
       (simp add: beginPush_def newPreemptController_def)
  let ?y6 = "?y5\<lparr>y_pushes := add_mset (?snap, Some a) {#}, y_issued := a # y_issued ?y5\<rparr>"
  have 6: "preempt_reach ?y6"
    by (rule preempt_reach.intros(2) [OF 5], rule make_ack) (simp_all add: y1)
  let ?y7 = "?y6\<lparr>y_ctrl := (?ca)\<lparr>pc_pushInFlight := 1, pc_pending := Some ?r, pc_notify := True\<rparr>,
      y_pushes := add_mset (?snap, None) {#}, y_closed := [] @ y_closed ?y6\<rparr>"
  have 7: "preempt_reach ?y7"
    by (rule preempt_reach.intros(2) [OF 6], rule submit)
       (simp_all add: requestPreempt_def newPreemptController_def Let_def)
  let ?y8 = "?y7\<lparr>y_ctrl := (?ca)\<lparr>pc_pushInFlight := 1\<rparr>, y_watchers := add_mset (1, Some ?r) {#(2, None)#}\<rparr>"
  have 8: "preempt_reach ?y8"
    by (rule preempt_reach.intros(2) [OF 7], rule watch)
       (simp_all add: y1 receivePreempt_def newPreemptController_def add_mset_commute)
  show ?thesis
    by (rule exI [of _ ?y8], rule exI [of _ ?r], rule exI [of _ "{#(2, None)#}"], intro conjI, rule 8)
       (simp_all add: newPreemptController_def)
qed

end
