(* ===== verification/Agent_Loop.thy ===== *)
theory Agent_Loop
  imports Loop_Props
begin

text \<open>
  The agent loop: items are pushed into a buffer, a goroutine takes them, asks the client to plan a
  turn, runs an agent on the consumed items and, when it ends, returns or checkpoints what was not
  handled. The loop, the pushes, the stops and the context are goroutines; the step relation below
  interleaves them at their atomic operations (a controller call and the wake-up it asks for are one
  step, and so are a \<open>Receive\<close> and the checks that follow it at once). The client's callbacks and the agent
  are arbitrary. Of the preempt controller the loop needs the pushes in flight, for which it waits before
  it takes what is in the buffer; the turns and requests of that controller only ask a turn to end and are
  the step relation of \<open>Loop_Props\<close>. Ghost fields count items: accepted by a push; loaded from a checkpoint, and
  discarded while loading; offered to a planner whose turn started, and chosen by it; consumed by a turn
  that ended normally, failed or was preempted; dropped by the idle branch.
\<close>

subsection \<open>Checkpoints of the loop\<close>

record 'a agentLoopCheckpoint =
  ck_RunnerCheckpoint :: string
  ck_HasRunnerState :: bool
  ck_UnhandledItems :: "'a list"
  ck_CanceledItems :: "'a list"

record 'a agentLoopPendingResume =
  pd_interrupted :: "'a list"
  pd_unhandled :: "'a list"
  pd_newItems :: "'a list"
  pd_resumeBytes :: string

text \<open>
  Errors the loop tells apart: whether the chain holds a cancellation or an interrupt.
\<close>

datatype loop_error = LoopError (is_cancel: bool) (is_interrupt: bool) string

record 'a AgentLoopState =
  as_ExitReason :: "loop_error option"
  as_UnhandledItems :: "'a list"
  as_InterruptedItems :: "'a list"
  as_StopCause :: string
  as_CheckpointAttempted :: bool
  as_CheckpointErr :: "gerror option"

text \<open>Gob encoding of a checkpoint, and the store's answers; a missing store is \<open>None\<close>.\<close>

record 'a LoopEnv =
  le_gob :: "'a agentLoopCheckpoint \<Rightarrow> string option"
  le_ungob :: "string \<Rightarrow> 'a agentLoopCheckpoint option"
  le_CheckpointID :: string
  le_deleter :: bool

record 'a turnPlan =
  pn_remaining :: "'a list"
  pn_consumed :: "'a list"
  pn_isResume :: bool
  pn_resumeBytes :: string

text \<open>What \<open>GenInput\<close> and \<open>GenResume\<close> return; only the former has an input, which may be missing.\<close>

record 'a GenInputResult =
  gi_hasInput :: bool
  gi_Consumed :: "'a list"
  gi_Remaining :: "'a list"

record 'a GenResumeResult =
  gr_Consumed :: "'a list"
  gr_Remaining :: "'a list"

text \<open>
  Where the loop's goroutine is. \<open>AtReceive b\<close> waits for an item, with the idle timer armed if \<open>b\<close>;
  \<open>AtWait\<close> and \<open>AtWaitResume\<close> wait for the pushes in flight;
  the planning states carry the list that is pushed back if the turn does not start.
\<close>

datatype 'a loop_pc =
    AtStart
  | AtTop
  | AtReceive bool
  | AtGot 'a
  | AtWait 'a
  | AtWaitResume "'a agentLoopPendingResume"
  | AtItems "'a list" "'a agentLoopPendingResume option"
  | AtPlanned "'a turnPlan" "'a list"
  | AtPrepared "'a turnPlan" "'a list"
  | AtTurn "'a turnPlan"
  | AtCleanup
  | AtTaking
  | AtTook "'a list"
  | AtResult
  | AtExit

text \<open>
  Where a push is: before \<open>beginPush\<close> or in the call of its strategy, before the check of the stopped flag
  (with a flag that says whether it will preempt), before \<open>beginPush\<close> after that check, before \<open>TrySend\<close>, before
  \<open>appendLate\<close>, before \<open>endPush\<close>. The first flag of a state says that \<open>beginPush\<close> was called.
\<close>

datatype 'a push_pc =
    PBegin 'a
  | PStrategy 'a
  | PCheck bool bool 'a
  | PHold 'a
  | PSend bool 'a
  | PLate bool 'a
  | PEnd

record 'a AgentLoop =
  ag_buffer :: "'a turnBuffer"
  ag_stopped :: bool
  ag_stopCtrl :: stopController
  ag_preemptCtrl :: preemptController
  ag_result :: "'a AgentLoopState option"
  ag_runErr :: "loop_error option"
  ag_interruptedItems :: "'a list"
  ag_checkPointRunnerBytes :: string
  ag_interruptContexts :: bool
  ag_capturedCancelErr :: bool
  ag_pendingResume :: "'a agentLoopPendingResume option"
  ag_loadCheckpointID :: string
  ag_lateItems :: "'a list"
  ag_lateSealed :: bool
  ag_store :: "(string, string) fmap option"
  ag_ctxErr :: bool
  ag_finishing :: nat
  ag_pc :: "'a loop_pc"
  ag_pushes :: "'a push_pc multiset"
  ag_accepted :: "'a multiset"
  ag_loaded :: "'a multiset"
  ag_discarded :: "'a multiset"
  ag_finished :: "'a multiset"
  ag_failed :: "'a multiset"
  ag_preempted :: "'a multiset"
  ag_dropped :: "'a multiset"
  ag_offered :: "'a multiset"
  ag_chosen :: "'a multiset"

definition NewAgentLoop :: "(string, string) fmap option \<Rightarrow> 'a AgentLoop" where
  "NewAgentLoop store = \<lparr>ag_buffer = newTurnBuffer, ag_stopped = False, ag_stopCtrl = newStopController, ag_preemptCtrl = newPreemptController,
     ag_result = None, ag_runErr = None, ag_interruptedItems = [], ag_checkPointRunnerBytes = [],
     ag_interruptContexts = False, ag_capturedCancelErr = False, ag_pendingResume = None,
     ag_loadCheckpointID = [], ag_lateItems = [], ag_lateSealed = False, ag_store = store, ag_ctxErr = False,
     ag_finishing = 0, ag_pc = AtStart, ag_pushes = {#}, ag_accepted = {#}, ag_loaded = {#},
     ag_discarded = {#}, ag_finished = {#}, ag_failed = {#}, ag_preempted = {#}, ag_dropped = {#}, ag_offered = {#}, ag_chosen = {#}\<rparr>"

subsection \<open>Loading and saving\<close>

definition saveTurnLoopCheckpoint ::
  "'a LoopEnv \<Rightarrow> 'a agentLoopCheckpoint \<Rightarrow> gerror option \<Rightarrow> (string, string) fmap option \<Rightarrow> (string, string) fmap option \<times> gerror option" where
  "saveTurnLoopCheckpoint env cp set_err store =
     (case store of
        None \<Rightarrow> (None, Some (Errorf ''checkpoint store is nil''))
      | Some m \<Rightarrow>
          (case le_gob env cp of
             None \<Rightarrow> (store, Some (Errorf ''gob''))
           | Some d \<Rightarrow> (case set_err of
                Some err \<Rightarrow> (store, Some err)
              | None \<Rightarrow> (Some (fmupd (le_CheckpointID env) d m), None))))"

definition deleteTurnLoopCheckpoint :: "'a LoopEnv \<Rightarrow> string \<Rightarrow> (string, string) fmap option \<Rightarrow> (string, string) fmap option" where
  "deleteTurnLoopCheckpoint env i store =
     (case store of None \<Rightarrow> None | Some m \<Rightarrow> if le_deleter env then Some (fmdrop i m) else Some m)"

definition load_error :: "string \<Rightarrow> loop_error" where
  "load_error i = LoopError False False (''failed to load checkpoint['' @ i @ '']'')"

text \<open>\<open>tryLoadCheckpoint\<close>; \<open>get_err\<close> says whether the store's \<open>Get\<close> fails.\<close>

definition tryLoadCheckpoint :: "'a LoopEnv \<Rightarrow> bool \<Rightarrow> 'a AgentLoop \<Rightarrow> 'a AgentLoop \<times> loop_error option" where
  "tryLoadCheckpoint env get_err l =
     (let i = le_CheckpointID env
      in case ag_store l of
           None \<Rightarrow> (l, None)
         | Some m \<Rightarrow>
             if i = [] then (l, None)
             else
               let l1 = l\<lparr>ag_loadCheckpointID := i\<rparr>
               in if get_err then (l1, Some (load_error i))
                  else case fmlookup m i of
                    None \<Rightarrow> (l1, None)
                  | Some d \<Rightarrow>
                      if d = [] then (l1, None)
                      else case le_ungob env d of
                             None \<Rightarrow> (l1, Some (LoopError False False (''failed to unmarshal checkpoint['' @ i @ '']'')))
                           | Some cp \<Rightarrow>
                               (let (b, newItems) = TakeAll (ag_buffer l1);
                                    l2 = l1\<lparr>ag_buffer := b\<rparr>
                                in if ck_HasRunnerState cp
                                   then if ck_RunnerCheckpoint cp = []
                                        then (l2\<lparr>ag_buffer := PushFront newItems b\<rparr>,
                                              Some (LoopError False False (''checkpoint['' @ i @ ''] has runner state but bytes are empty'')))
                                        else (l2\<lparr>ag_pendingResume := Some
                                                \<lparr>pd_interrupted = ck_CanceledItems cp, pd_unhandled = ck_UnhandledItems cp,
                                                 pd_newItems = newItems, pd_resumeBytes = ck_RunnerCheckpoint cp\<rparr>,
                                               ag_loaded := mset (ck_CanceledItems cp) + mset (ck_UnhandledItems cp)\<rparr>, None)
                                   else (l2\<lparr>ag_buffer := PushFront (ck_UnhandledItems cp @ newItems) b,
                                            ag_loaded := mset (ck_CanceledItems cp) + mset (ck_UnhandledItems cp),
                                            ag_discarded := mset (ck_CanceledItems cp)\<rparr>, None)))"

definition shouldSaveCheckpoint :: "'a LoopEnv \<Rightarrow> 'a AgentLoop \<Rightarrow> bool" where
  "shouldSaveCheckpoint env l =
     (if ag_store l = None \<or> le_CheckpointID env = [] then False
      else if st_skipCheckpoint (ag_stopCtrl l) then False
      else if ag_checkPointRunnerBytes l = [] \<and> ag_interruptedItems l = [] then False
      else
        let exitCausedByStop = (case ag_runErr l of None \<Rightarrow> True | Some e \<Rightarrow> is_cancel e) \<or> ag_capturedCancelErr l;
            businessInterrupt = (case ag_runErr l of None \<Rightarrow> False | Some e \<Rightarrow> is_interrupt e) \<or> ag_interruptContexts l
        in (isCommitted (ag_stopCtrl l) \<and> exitCausedByStop) \<or> businessInterrupt)"

text \<open>The part of \<open>cleanup\<close> between taking the buffer and closing it; \<open>unhandled\<close> was taken.\<close>

definition cleanup_result :: "'a LoopEnv \<Rightarrow> gerror option \<Rightarrow> 'a list \<Rightarrow> 'a AgentLoop \<Rightarrow> 'a AgentLoop" where
  "cleanup_result env set_err unhandled l =
     (let save = shouldSaveCheckpoint env l;
          cp = \<lparr>ck_RunnerCheckpoint = ag_checkPointRunnerBytes l, ck_HasRunnerState = (ag_checkPointRunnerBytes l \<noteq> []),
                ck_UnhandledItems = unhandled, ck_CanceledItems = ag_interruptedItems l\<rparr>;
          (store, err) = (if save then saveTurnLoopCheckpoint env cp set_err (ag_store l)
                          else if ag_loadCheckpointID l \<noteq> [] then (deleteTurnLoopCheckpoint env (ag_loadCheckpointID l) (ag_store l), None)
                          else (ag_store l, None))
      in l\<lparr>ag_store := store,
           ag_result := Some \<lparr>as_ExitReason = ag_runErr l, as_UnhandledItems = unhandled,
              as_InterruptedItems = ag_interruptedItems l, as_StopCause = st_stopCause (ag_stopCtrl l),
              as_CheckpointAttempted = save, as_CheckpointErr = err\<rparr>\<rparr>)"

subsection \<open>Pieces of the loop\<close>

definition pushback :: "'a list \<Rightarrow> 'a AgentLoop \<Rightarrow> 'a AgentLoop" where
  "pushback vs l = l\<lparr>ag_buffer := PushFront vs (ag_buffer l)\<rparr>"

definition stop_with :: "loop_error option \<Rightarrow> 'a AgentLoop \<Rightarrow> 'a AgentLoop" where
  "stop_with err l = l\<lparr>ag_runErr := (case err of Some e \<Rightarrow> Some e | None \<Rightarrow> ag_runErr l), ag_pc := AtCleanup\<rparr>"

definition ctx_error :: "'a AgentLoop \<Rightarrow> loop_error option" where
  "ctx_error l = (if ag_ctxErr l then Some (LoopError False False ''context canceled'') else None)"

text \<open>The resume branch after \<open>waitForPushes\<close>: everything at hand, in the order it is pushed back.\<close>

definition take_resume :: "'a agentLoopPendingResume \<Rightarrow> preemptController \<Rightarrow> 'a AgentLoop \<Rightarrow> 'a AgentLoop" where
  "take_resume pr c l =
     (let (b, new) = TakeAll (ag_buffer l); pr' = pr\<lparr>pd_newItems := pd_newItems pr @ new\<rparr>
      in l\<lparr>ag_preemptCtrl := c, ag_buffer := b,
           ag_pc := AtItems (pd_interrupted pr' @ pd_unhandled pr' @ pd_newItems pr') (Some pr')\<rparr>)"

text \<open>What follows \<open>Receive\<close>: \<open>idle\<close> tells which branch called it.\<close>

definition after_receive :: "bool \<Rightarrow> 'a turnBuffer \<Rightarrow> 'a option \<Rightarrow> 'a AgentLoop \<Rightarrow> 'a AgentLoop" where
  "after_receive idle b got l =
     (let l1 = l\<lparr>ag_buffer := b\<rparr>
      in if idle \<and> got = None \<and> \<not> IsClosed b
         then (if ag_ctxErr l1 then stop_with (ctx_error l1) l1 else l1\<lparr>ag_pc := AtTop\<rparr>)
         else if idle \<and> ag_stopped l1
         then stop_with None (l1\<lparr>ag_dropped := ag_dropped l1 + (case got of Some v \<Rightarrow> {#v#} | None \<Rightarrow> {#})\<rparr>)
         else if \<not> idle \<and> got = None \<and> 0 < idleDuration (ag_stopCtrl l1) then l1\<lparr>ag_pc := AtTop\<rparr>
         else case got of
                None \<Rightarrow> stop_with (ctx_error l1) l1
              | Some v \<Rightarrow> l1\<lparr>ag_pc := AtGot v\<rparr>)"

definition after_got :: "'a \<Rightarrow> 'a AgentLoop \<Rightarrow> 'a AgentLoop" where
  "after_got v l =
     (if ag_ctxErr l then stop_with (ctx_error l) (pushback [v] l)
      else if isCommitted (ag_stopCtrl l) then stop_with None (pushback [v] l)
      else l\<lparr>ag_pc := AtWait v\<rparr>)"

text \<open>After \<open>waitForPushes\<close>, whose controller is \<open>c\<close>: the item received and what else is in the buffer.\<close>

definition take_items :: "'a \<Rightarrow> preemptController \<Rightarrow> 'a AgentLoop \<Rightarrow> 'a AgentLoop" where
  "take_items v c l =
     (let (b, rest) = TakeAll (ag_buffer l)
      in l\<lparr>ag_preemptCtrl := c, ag_buffer := b, ag_pc := AtItems (v # rest) None\<rparr>)"

definition plain_error :: "string \<Rightarrow> loop_error" where
  "plain_error = LoopError False False"

definition planTurn ::
  "('a list \<Rightarrow> loop_error + 'a GenInputResult option) \<Rightarrow>
   ('a list \<Rightarrow> 'a list \<Rightarrow> 'a list \<Rightarrow> loop_error + 'a GenResumeResult option) option \<Rightarrow>
   bool \<Rightarrow> 'a list \<Rightarrow> 'a agentLoopPendingResume option \<Rightarrow> loop_error + 'a turnPlan" where
  "planTurn GenInput GenResume isResume items pr =
     (if \<not> isResume then
        case GenInput items of
          Inl err \<Rightarrow> Inl err
        | Inr None \<Rightarrow> Inl (plain_error ''GenInputResult is nil'')
        | Inr (Some res) \<Rightarrow>
            if \<not> gi_hasInput res then Inl (plain_error ''agent input is nil'')
            else Inr \<lparr>pn_remaining = gi_Remaining res, pn_consumed = gi_Consumed res, pn_isResume = False, pn_resumeBytes = []\<rparr>
      else case pr of
          None \<Rightarrow> Inl (plain_error ''resume payload is nil'')
        | Some r \<Rightarrow>
            (case GenResume of
               None \<Rightarrow> Inl (plain_error ''GenResume is required for resume'')
             | Some gen \<Rightarrow>
                 (case gen (pd_interrupted r) (pd_unhandled r) (pd_newItems r) of
                    Inl err \<Rightarrow> Inl err
                  | Inr None \<Rightarrow> Inl (plain_error ''GenResumeResult is nil'')
                  | Inr (Some res) \<Rightarrow>
                      Inr \<lparr>pn_remaining = gr_Remaining res, pn_consumed = gr_Consumed res, pn_isResume = True,
                           pn_resumeBytes = pd_resumeBytes r\<rparr>)))"

subsection \<open>Running the agent\<close>

record bridgeStore =
  bs_cpID :: string
  bs_data :: string

definition bridgeCheckpointID :: string where
  "bridgeCheckpointID = ''__adk_turnloop_bridge_cp__''"

definition newBridgeStore :: bridgeStore where
  "newBridgeStore = \<lparr>bs_cpID = bridgeCheckpointID, bs_data = []\<rparr>"

definition newResumeBridgeStore :: "string \<Rightarrow> string \<Rightarrow> bridgeStore" where
  "newResumeBridgeStore i d = \<lparr>bs_cpID = i, bs_data = d\<rparr>"

definition Bridge_Get :: "string \<Rightarrow> bridgeStore \<Rightarrow> string option" where
  "Bridge_Get key s = (if key \<noteq> bs_cpID s then None else if bs_data s = [] then None else Some (bs_data s))"

definition Bridge_Set :: "string \<Rightarrow> string \<Rightarrow> bridgeStore \<Rightarrow> bridgeStore" where
  "Bridge_Set key d s = (if key = bs_cpID s then s\<lparr>bs_data := d\<rparr> else s)"

definition Bridge_Delete :: "string \<Rightarrow> bridgeStore \<Rightarrow> bridgeStore" where
  "Bridge_Delete key s = (if key = bs_cpID s then s\<lparr>bs_data := []\<rparr> else s)"

definition setupBridgeStore :: "(string, string) fmap option \<Rightarrow> 'a turnPlan \<Rightarrow> loop_error + bridgeStore option" where
  "setupBridgeStore store p =
     (if store = None \<and> pn_isResume p then Inl (plain_error ''failed to resume agent: checkpoint store is nil'')
      else if store = None then Inr None
      else if pn_isResume p
      then if pn_resumeBytes p = [] then Inl (plain_error ''resume checkpoint is empty'')
           else Inr (Some (newResumeBridgeStore bridgeCheckpointID (pn_resumeBytes p)))
      else Inr (Some newBridgeStore))"

text \<open>
  How a turn ends: the error it returns, what the framework captured, the runner's bytes, and whether it
  was preempted.
\<close>

record turn_outcome =
  to_err :: "loop_error option"
  to_captured :: bool
  to_interrupt :: bool
  to_bytes :: string
  to_preempted :: bool

text \<open>
  The end of \<open>runAgentAndHandleEvents\<close>: the runner could not resume, or the events were handled with an
  error or none while the proxy captured a cancellation or interrupt contexts and the runner left \<open>ms\<close>
  in the bridge store. A preempted turn returns nil whatever happened, and keeps no bytes.
\<close>

datatype run_end =
    Not_resumed string
  | Preempted (re_captured: bool) (re_interrupt: bool)
  | Handled "loop_error option" (re_captured: bool) (re_interrupt: bool) "bridgeStore option"

definition applyFrameworkCapturedError :: "bool \<Rightarrow> loop_error option \<Rightarrow> loop_error option" where
  "applyFrameworkCapturedError captured handleErr =
     (case handleErr of
        Some e \<Rightarrow> Some e
      | None \<Rightarrow> if captured then Some (LoopError True False ''cancelled'') else None)"

primrec runAgentAndHandleEvents :: "run_end \<Rightarrow> turn_outcome" where
  "runAgentAndHandleEvents (Not_resumed err) =
     \<lparr>to_err = Some (plain_error (''failed to resume agent: '' @ err)), to_captured = False, to_interrupt = False, to_bytes = [],
      to_preempted = False\<rparr>"
| "runAgentAndHandleEvents (Preempted captured interrupt) =
     \<lparr>to_err = None, to_captured = captured, to_interrupt = interrupt, to_bytes = [], to_preempted = True\<rparr>"
| "runAgentAndHandleEvents (Handled err captured interrupt ms) =
     \<lparr>to_err = applyFrameworkCapturedError captured err, to_captured = captured, to_interrupt = interrupt,
      to_bytes = (case ms of None \<Rightarrow> [] | Some s \<Rightarrow> (case Bridge_Get bridgeCheckpointID s of Some d \<Rightarrow> d | None \<Rightarrow> [])),
      to_preempted = False\<rparr>"

definition after_turn :: "turn_outcome \<Rightarrow> 'a turnPlan \<Rightarrow> 'a AgentLoop \<Rightarrow> 'a AgentLoop" where
  "after_turn t p l =
     (let l1 = l\<lparr>ag_capturedCancelErr := to_captured t, ag_interruptContexts := to_interrupt t,
                 ag_checkPointRunnerBytes := to_bytes t\<rparr>
      in case to_err t of
           Some e \<Rightarrow>
             if to_captured t \<or> to_interrupt t
             then stop_with (Some e) (l1\<lparr>ag_interruptedItems := pn_consumed p\<rparr>)
             else stop_with (Some e) (l1\<lparr>ag_failed := ag_failed l1 + mset (pn_consumed p)\<rparr>)
         | None \<Rightarrow>
             if to_interrupt t
             then stop_with (Some (LoopError False True ''agent interrupted'')) (l1\<lparr>ag_interruptedItems := pn_consumed p\<rparr>)
             else if to_preempted t then l1\<lparr>ag_preempted := ag_preempted l1 + mset (pn_consumed p), ag_pc := AtTop\<rparr>
             else l1\<lparr>ag_finished := ag_finished l1 + mset (pn_consumed p), ag_pc := AtTop\<rparr>)"

text \<open>The remaining items go back to the buffer and the turn has the consumed ones.\<close>

definition give_turn :: "'a turnPlan \<Rightarrow> 'a list \<Rightarrow> 'a AgentLoop \<Rightarrow> 'a AgentLoop" where
  "give_turn p items l =
     (pushback (pn_remaining p) l)\<lparr>ag_pc := AtTurn p, ag_offered := ag_offered l + mset items,
        ag_chosen := ag_chosen l + mset (pn_consumed p) + mset (pn_remaining p)\<rparr>"

subsection \<open>Pushing and stopping\<close>

text \<open>
  A push with a strategy is in flight while the strategy decides and until it returns; it checks the stopped
  flag only if the strategy chose to preempt. A push without one checks the flag first, and is in flight after
  that only if it preempts. Each then tries the buffer, and if that is closed keeps the item with the
  late ones. The preemption itself is a step of the preempt controller alone.
\<close>

definition Push_start :: "bool \<Rightarrow> bool \<Rightarrow> 'a \<Rightarrow> 'a push_pc" where
  "Push_start strategy preempt v = (if strategy then PBegin v else PCheck False preempt v)"

definition appendLate :: "'a \<Rightarrow> 'a AgentLoop \<Rightarrow> gerror + 'a AgentLoop" where
  "appendLate v l =
     (if ag_lateSealed l then Inl (GoPanic ''AgentLoop: Push called after TakeLateItems'')
      else Inr (l\<lparr>ag_lateItems := ag_lateItems l @ [v]\<rparr>))"

definition hold_push :: "'a AgentLoop \<Rightarrow> 'a AgentLoop" where
  "hold_push l = l\<lparr>ag_preemptCtrl := fst (beginPush (ag_preemptCtrl l))\<rparr>"

definition after_push :: "bool \<Rightarrow> 'a push_pc option" where
  "after_push held = (if held then Some PEnd else None)"

text \<open>\<open>preempt\<close> is what the strategy chooses.\<close>

definition push_next :: "bool \<Rightarrow> 'a push_pc \<Rightarrow> 'a AgentLoop \<Rightarrow> gerror + ('a AgentLoop \<times> 'a push_pc option)" where
  "push_next preempt q l =
     (case q of
        PBegin v \<Rightarrow> Inr (hold_push l, Some (PStrategy v))
      | PStrategy v \<Rightarrow> Inr (l, Some (if preempt then PCheck True True v else PSend True v))
      | PCheck held pre v \<Rightarrow>
          Inr (l, Some (if ag_stopped l then PLate held v else if pre \<and> \<not> held then PHold v else PSend held v))
      | PHold v \<Rightarrow> Inr (hold_push l, Some (PSend True v))
      | PSend held v \<Rightarrow>
          (let (b, ok) = TrySend v (ag_buffer l)
           in if ok then Inr (l\<lparr>ag_buffer := b, ag_accepted := add_mset v (ag_accepted l)\<rparr>, after_push held)
              else Inr (l, Some (PLate held v)))
      | PLate held v \<Rightarrow> (case appendLate v l of Inl e \<Rightarrow> Inl e | Inr l' \<Rightarrow> Inr (l', after_push held))
      | PEnd \<Rightarrow> (case endPush (ag_preemptCtrl l) of
            Inl e \<Rightarrow> Inl e | Inr c \<Rightarrow> Inr (l\<lparr>ag_preemptCtrl := c\<rparr>, None)))"

definition TakeLateItems :: "'a AgentLoop \<Rightarrow> 'a AgentLoop" where
  "TakeLateItems l = l\<lparr>ag_lateSealed := True\<rparr>"

text \<open>
  A commit that takes effect is followed by \<open>finishStopCommit\<close>, a step of its own; \<open>ag_finishing\<close> counts those
  that are due.
\<close>

definition Loop_Stop :: "StopOption list \<Rightarrow> int \<Rightarrow> 'a AgentLoop \<Rightarrow> gerror + 'a AgentLoop" where
  "Loop_Stop opts now l =
     (case foldl_err (\<lambda>c opt. stop_option opt c)
             \<lparr>sc_agentCancelOpts = None, sc_skipCheckpoint = False, sc_stopCause = [], sc_idleFor = 0, sc_timeout = None\<rparr> opts of
        Inl e \<Rightarrow> Inl e
      | Inr cfg0 \<Rightarrow>
          (let cfg = (if 0 < sc_idleFor cfg0 then cfg0\<lparr>sc_agentCancelOpts := None\<rparr> else cfg0);
               (c, d) = requestStop cfg now (ag_stopCtrl l)
           in Inr (l\<lparr>ag_stopCtrl := c,
                ag_buffer := (if sd_wakeIdle d then Wakeup (ag_buffer l) else ag_buffer l),
                ag_finishing := ag_finishing l + (if sd_commit d then 1 else 0)\<rparr>)))"

definition commitStop :: "'a AgentLoop \<Rightarrow> 'a AgentLoop" where
  "commitStop l =
     (let (c, told) = commitLocked (ag_stopCtrl l)
      in l\<lparr>ag_stopCtrl := c, ag_finishing := ag_finishing l + (if told then 1 else 0)\<rparr>)"

definition finishStopCommit :: "'a AgentLoop \<Rightarrow> 'a AgentLoop" where
  "finishStopCommit l =
     l\<lparr>ag_finishing := ag_finishing l - 1, ag_stopped := True, ag_buffer := Buffer_Close (ag_buffer l)\<rparr>"

subsection \<open>Steps\<close>

inductive loop_step :: "'a LoopEnv \<Rightarrow> 'a AgentLoop \<Rightarrow> 'a AgentLoop \<Rightarrow> bool" for env where
  load: "ag_pc l = AtStart \<Longrightarrow> tryLoadCheckpoint env get_err l = (l', err) \<Longrightarrow>
    loop_step env l (if err = None then l'\<lparr>ag_pc := AtTop\<rparr> else stop_with err l')"
| top_committed: "ag_pc l = AtTop \<Longrightarrow> isCommitted (ag_stopCtrl l) \<Longrightarrow> loop_step env l (stop_with None l)"
| top_resume: "ag_pc l = AtTop \<Longrightarrow> \<not> isCommitted (ag_stopCtrl l) \<Longrightarrow> ag_pendingResume l = Some pr \<Longrightarrow>
    loop_step env l (l\<lparr>ag_pendingResume := None, ag_pc := AtWaitResume pr\<rparr>)"
| resume_waits: "ag_pc l = AtWaitResume pr \<Longrightarrow> waitForPushes (ag_preemptCtrl l) = Some c \<Longrightarrow>
    loop_step env l (take_resume pr c l)"
| top_idle: "ag_pc l = AtTop \<Longrightarrow> \<not> isCommitted (ag_stopCtrl l) \<Longrightarrow> ag_pendingResume l = None \<Longrightarrow>
    0 < idleDuration (ag_stopCtrl l) \<Longrightarrow>
    loop_step env l (l\<lparr>ag_buffer := ClearWakeup (ag_buffer l), ag_pc := AtReceive True\<rparr>)"
| top_plain: "ag_pc l = AtTop \<Longrightarrow> \<not> isCommitted (ag_stopCtrl l) \<Longrightarrow> ag_pendingResume l = None \<Longrightarrow>
    \<not> 0 < idleDuration (ag_stopCtrl l) \<Longrightarrow> loop_step env l (l\<lparr>ag_pc := AtReceive False\<rparr>)"
| receive: "ag_pc l = AtReceive idle \<Longrightarrow> Receive (ag_buffer l) = Some (b, got) \<Longrightarrow>
    loop_step env l (after_receive idle b got l)"
| got: "ag_pc l = AtGot v \<Longrightarrow> loop_step env l (after_got v l)"
| got_waits: "ag_pc l = AtWait v \<Longrightarrow> waitForPushes (ag_preemptCtrl l) = Some c \<Longrightarrow> loop_step env l (take_items v c l)"
| plan_fails: "ag_pc l = AtItems back pr \<Longrightarrow>
    planTurn GenInput GenResume (pr \<noteq> None) (if pr = None then back else []) pr = Inl err \<Longrightarrow>
    loop_step env l (stop_with (Some err) (pushback back l))"
| plans: "ag_pc l = AtItems back pr \<Longrightarrow>
    planTurn GenInput GenResume (pr \<noteq> None) (if pr = None then back else []) pr = Inr p \<Longrightarrow>
    loop_step env l (l\<lparr>ag_pc := AtPlanned p back\<rparr>)"
| planned_stop: "ag_pc l = AtPlanned p back \<Longrightarrow> isCommitted (ag_stopCtrl l) \<Longrightarrow>
    loop_step env l (stop_with None (pushback back l))"
| prepare_fails: "ag_pc l = AtPlanned p back \<Longrightarrow> \<not> isCommitted (ag_stopCtrl l) \<Longrightarrow>
    loop_step env l (stop_with (Some err) (pushback back l))"
| prepares: "ag_pc l = AtPlanned p back \<Longrightarrow> \<not> isCommitted (ag_stopCtrl l) \<Longrightarrow>
    loop_step env l (l\<lparr>ag_pc := AtPrepared p back\<rparr>)"
| prepared_stop: "ag_pc l = AtPrepared p back \<Longrightarrow> isCommitted (ag_stopCtrl l) \<Longrightarrow>
    loop_step env l (stop_with None (pushback back l))"
| turn_fails: "ag_pc l = AtPrepared p back \<Longrightarrow> \<not> isCommitted (ag_stopCtrl l) \<Longrightarrow>
    setupBridgeStore (ag_store l) p = Inl err \<Longrightarrow>
    loop_step env l (after_turn \<lparr>to_err = Some err, to_captured = False, to_interrupt = False, to_bytes = [], to_preempted = False\<rparr> p
      (give_turn p back l))"
| turn_begins: "ag_pc l = AtPrepared p back \<Longrightarrow> \<not> isCommitted (ag_stopCtrl l) \<Longrightarrow>
    setupBridgeStore (ag_store l) p = Inr ms \<Longrightarrow>
    loop_step env l ((give_turn p back l)\<lparr>ag_stopCtrl := Stop_beginActiveTurn (ag_stopCtrl l)\<rparr>)"
| turn_ends: "ag_pc l = AtTurn p \<Longrightarrow>
    loop_step env l (after_turn (runAgentAndHandleEvents r) p (l\<lparr>ag_stopCtrl := fst (Stop_endActiveTurn (ag_stopCtrl l))\<rparr>))"
| cleanup: "ag_pc l = AtCleanup \<Longrightarrow> loop_step env l (l\<lparr>ag_stopped := True, ag_pc := AtTaking\<rparr>)"
| takes: "ag_pc l = AtTaking \<Longrightarrow> TakeAll (ag_buffer l) = (b, vs) \<Longrightarrow>
    loop_step env l (l\<lparr>ag_buffer := b, ag_pc := AtTook vs\<rparr>)"
| results: "ag_pc l = AtTook vs \<Longrightarrow> loop_step env l ((cleanup_result env set_err vs l)\<lparr>ag_pc := AtResult\<rparr>)"
| exits: "ag_pc l = AtResult \<Longrightarrow>
    loop_step env l (l\<lparr>ag_stopCtrl := Stop_closeForLoopExit (ag_stopCtrl l),
      ag_buffer := Buffer_Close (ag_buffer l), ag_pc := AtExit\<rparr>)"
| push_starts: "loop_step env l (l\<lparr>ag_pushes := add_mset (Push_start strategy preempt v) (ag_pushes l)\<rparr>)"
| pushes: "ag_pushes l = add_mset q P \<Longrightarrow> push_next preempt q l = Inr (l', r) \<Longrightarrow>
    loop_step env l (l'\<lparr>ag_pushes := (case r of None \<Rightarrow> P | Some q' \<Rightarrow> add_mset q' P)\<rparr>)"
| take_late: "ag_pc l = AtExit \<Longrightarrow> loop_step env l (TakeLateItems l)"
| stops: "Loop_Stop opts now l = Inr l' \<Longrightarrow> loop_step env l l'"
| commits: "loop_step env l (commitStop l)"
| finishes: "0 < ag_finishing l \<Longrightarrow> loop_step env l (finishStopCommit l)"
| ctx_done: "loop_step env l (l\<lparr>ag_ctxErr := True\<rparr>)"
| ctx_closes: "ag_ctxErr l \<Longrightarrow> loop_step env l (l\<lparr>ag_buffer := Buffer_Close (ag_buffer l)\<rparr>)"

inductive loop_reach :: "'a LoopEnv \<Rightarrow> 'a AgentLoop \<Rightarrow> bool" for env where
  loop_init: "loop_reach env (NewAgentLoop store)"
| loop_next: "loop_reach env l \<Longrightarrow> loop_step env l l' \<Longrightarrow> loop_reach env l'"

end
