(* ===== verification/Agent_Loop_Props.thy ===== *)
theory Agent_Loop_Props
  imports Agent_Loop
begin

text \<open>
  What happens to the items of an agent loop. Every accepted or loaded item is accounted for in every
  reachable state; the ways an item can disappear are the turns that failed or were preempted, an item
  dropped by the idle branch, items discarded while a checkpoint is loaded, the buffer after the loop has
  exited and a resume that never started; the losses outside turns are shown to occur. After a committed stop
  the loop can only wait for pushes in flight, which come to an end.
\<close>

subsection \<open>Where the items are\<close>

primrec hand :: "'a loop_pc \<Rightarrow> 'a multiset" where
  "hand AtStart = {#}"
| "hand AtTop = {#}"
| "hand (AtReceive b) = {#}"
| "hand (AtGot v) = {#v#}"
| "hand (AtWait v) = {#v#}"
| "hand (AtWaitResume pr) = mset (pd_interrupted pr) + mset (pd_unhandled pr) + mset (pd_newItems pr)"
| "hand (AtItems back pr) = mset back"
| "hand (AtPlanned p back) = mset back"
| "hand (AtPrepared p back) = mset back"
| "hand (AtTurn p) = mset (pn_consumed p)"
| "hand AtCleanup = {#}"
| "hand AtTaking = {#}"
| "hand (AtTook vs) = mset vs"
| "hand AtResult = {#}"
| "hand AtExit = {#}"

definition resume_items :: "'a agentLoopPendingResume option \<Rightarrow> 'a multiset" where
  "resume_items pr = (case pr of None \<Rightarrow> {#}
     | Some r \<Rightarrow> mset (pd_interrupted r) + mset (pd_unhandled r) + mset (pd_newItems r))"

definition returned :: "'a AgentLoopState option \<Rightarrow> 'a multiset" where
  "returned r = (case r of None \<Rightarrow> {#} | Some s \<Rightarrow> mset (as_UnhandledItems s))"

definition conserved :: "'a AgentLoop \<Rightarrow> bool" where
  "conserved l \<longleftrightarrow> ag_accepted l + ag_loaded l + ag_chosen l = ag_offered l +
     mset (tb_buf (ag_buffer l)) + hand (ag_pc l) + resume_items (ag_pendingResume l) +
     mset (ag_interruptedItems l) + ag_finished l + ag_failed l + ag_preempted l + ag_discarded l + ag_dropped l +
     returned (ag_result l)"

definition running :: "'a loop_pc \<Rightarrow> bool" where
  "running p \<longleftrightarrow> p \<notin> {AtCleanup, AtTaking, AtResult, AtExit} \<and> (\<forall>vs. p \<noteq> AtTook vs)"

definition loop_inv :: "'a AgentLoop \<Rightarrow> bool" where
  "loop_inv l \<longleftrightarrow> conserved l \<and>
     (running (ag_pc l) \<longrightarrow> ag_interruptedItems l = [] \<and> ag_dropped l = {#} \<and> ag_failed l = {#}) \<and>
     size (ag_dropped l) \<le> 1 \<and> (ag_failed l \<noteq> {#} \<longrightarrow> ag_runErr l \<noteq> None) \<and> ag_discarded l \<subseteq># ag_loaded l \<and>
     (ag_pc l \<noteq> AtResult \<and> ag_pc l \<noteq> AtExit \<longrightarrow> ag_result l = None) \<and>
     (ag_pc l = AtResult \<or> ag_pc l = AtExit \<longrightarrow>
       (\<exists>s. ag_result l = Some s \<and> as_InterruptedItems s = ag_interruptedItems l \<and> as_ExitReason s = ag_runErr l)) \<and>
     (ag_pc l = AtStart \<longrightarrow> ag_pendingResume l = None \<and> ag_loaded l = {#} \<and> ag_discarded l = {#})"

lemma running_simps [simp]:
  "running AtStart" "running AtTop" "running (AtReceive b)" "running (AtGot v)" "running (AtWait v)"
  "running (AtWaitResume r)" "running (AtItems back pr)"
  "running (AtPlanned p back)" "running (AtPrepared p back)" "running (AtTurn p)" "\<not> running AtCleanup"
  "\<not> running AtTaking" "\<not> running (AtTook vs)" "\<not> running AtResult" "\<not> running AtExit"
  by (simp_all add: running_def)

lemmas loop_piece_defs = stop_with_def pushback_def take_resume_def after_got_def after_turn_def
  TakeAll_def TrySend_def IsClosed_def Let_def

lemma TakeAll_buf: "TakeAll tb = (b, vs) \<Longrightarrow> tb_buf b = [] \<and> vs = tb_buf tb"
  by (auto simp: TakeAll_def)

lemma tryLoad_inv:
  assumes "loop_inv l" "ag_pc l = AtStart" "tryLoadCheckpoint env get_err l = (l', err)"
  shows "loop_inv (if err = None then l'\<lparr>ag_pc := AtTop\<rparr> else stop_with err l')"
  using assms
  by (auto simp: tryLoadCheckpoint_def loop_inv_def conserved_def resume_items_def returned_def
      TakeAll_def PushFront_def stop_with_def Let_def ac_simps split: option.splits if_splits)

lemma after_receive_inv:
  assumes "loop_inv l" "ag_pc l = AtReceive idle" "Receive (ag_buffer l) = Some (b, got)"
  shows "loop_inv (after_receive idle b got l)"
proof (cases got)
  case None
  with Receive_empty [of "ag_buffer l" b] assms have "tb_buf (ag_buffer l) = []" "tb_buf b = []" by auto
  with assms None show ?thesis
    by (auto simp: loop_inv_def conserved_def after_receive_def stop_with_def Let_def)
next
  case (Some v)
  with assms(3) have "tb_buf (ag_buffer l) = v # tb_buf b" by (simp add: Receive_Some)
  with assms Some show ?thesis
    by (auto simp: loop_inv_def conserved_def after_receive_def stop_with_def Let_def ac_simps)
qed

lemma loop_inv_ctrls [simp]:
  "loop_inv (l\<lparr>ag_stopCtrl := c\<rparr>) = loop_inv l" "loop_inv (l\<lparr>ag_preemptCtrl := p\<rparr>) = loop_inv l"
  by (simp_all add: loop_inv_def conserved_def)

lemma returned_None [simp]: "returned None = {#}"
  by (simp add: returned_def)

lemma give_turn_inv:
  assumes "loop_inv l" "ag_pc l = AtPrepared p bk"
  shows "loop_inv (give_turn p bk l)"
  using assms by (simp add: loop_inv_def conserved_def give_turn_def pushback_def ac_simps)

lemma cleanup_result_keeps [simp]:
  "ag_buffer (cleanup_result env e vs l) = ag_buffer l" "ag_pendingResume (cleanup_result env e vs l) = ag_pendingResume l"
  "ag_interruptedItems (cleanup_result env e vs l) = ag_interruptedItems l" "ag_finished (cleanup_result env e vs l) = ag_finished l"
  "ag_failed (cleanup_result env e vs l) = ag_failed l" "ag_preempted (cleanup_result env e vs l) = ag_preempted l"
  "ag_discarded (cleanup_result env e vs l) = ag_discarded l" "ag_runErr (cleanup_result env e vs l) = ag_runErr l"
  "ag_preemptCtrl (cleanup_result env e vs l) = ag_preemptCtrl l" "ag_pushes (cleanup_result env e vs l) = ag_pushes l"
  "ag_lateSealed (cleanup_result env e vs l) = ag_lateSealed l"
  "ag_dropped (cleanup_result env e vs l) = ag_dropped l" "ag_accepted (cleanup_result env e vs l) = ag_accepted l"
  "ag_loaded (cleanup_result env e vs l) = ag_loaded l"
  "ag_offered (cleanup_result env e vs l) = ag_offered l" "ag_chosen (cleanup_result env e vs l) = ag_chosen l" "ag_stopCtrl (cleanup_result env e vs l) = ag_stopCtrl l"
  "ag_finishing (cleanup_result env e vs l) = ag_finishing l" "ag_stopped (cleanup_result env e vs l) = ag_stopped l"
  "returned (ag_result (cleanup_result env e vs l)) = mset vs"
  by (simp_all add: cleanup_result_def Let_def split_def returned_def)

lemma cleanup_result_fields:
  "\<exists>s. ag_result (cleanup_result env e vs l) = Some s \<and> as_InterruptedItems s = ag_interruptedItems l \<and>
     as_ExitReason s = ag_runErr l"
  by (simp add: cleanup_result_def Let_def split_def)

lemma after_turn_inv:
  assumes "loop_inv l" "ag_pc l = AtTurn p"
  shows "loop_inv (after_turn t p l)"
  using assms
  by (auto simp: loop_inv_def conserved_def after_turn_def stop_with_def Let_def ac_simps split: option.split)

lemma take_inv:
  "loop_inv l \<Longrightarrow> ag_pc l = AtWaitResume pr \<Longrightarrow> loop_inv (take_resume pr c l)"
  "loop_inv l \<Longrightarrow> ag_pc l = AtWait v \<Longrightarrow> loop_inv (take_items v c l)"
  by (simp_all add: loop_inv_def conserved_def take_resume_def take_items_def TakeAll_def Let_def ac_simps)

lemma loop_inv_pushes [simp]: "loop_inv (l\<lparr>ag_pushes := P\<rparr>) = loop_inv l"
  by (simp add: loop_inv_def conserved_def)

lemma push_next_effect:
  assumes "push_next pre q l = Inr (l', r)"
  shows "l' = l \<or> (\<exists>c. l' = l\<lparr>ag_preemptCtrl := c\<rparr>) \<or>
    (\<exists>v. \<not> tb_closed (ag_buffer l) \<and> l' = l\<lparr>ag_buffer := (ag_buffer l)\<lparr>tb_buf := tb_buf (ag_buffer l) @ [v]\<rparr>,
        ag_accepted := add_mset v (ag_accepted l)\<rparr>) \<or>
    (\<exists>v. l' = l\<lparr>ag_lateItems := ag_lateItems l @ [v]\<rparr>)"
proof (cases q)
  case (PSend held v)
  with assms show ?thesis
    by (cases "tb_closed (ag_buffer l)") (simp_all add: push_next_def TrySend_def, metis)
next
  case (PLate held v)
  with assms show ?thesis by (cases "ag_lateSealed l") (simp_all add: push_next_def appendLate_def, metis)
next
  case PEnd
  with assms show ?thesis by (cases "endPush (ag_preemptCtrl l)") (simp_all add: push_next_def, metis)
next
  case (PBegin v)
  with assms have "l' = hold_push l" by (simp add: push_next_def)
  then show ?thesis unfolding hold_push_def by blast
next
  case (PHold v)
  with assms have "l' = hold_push l" by (simp add: push_next_def)
  then show ?thesis unfolding hold_push_def by blast
qed (use assms in \<open>simp_all add: push_next_def\<close>)

lemma push_next_inv:
  assumes "loop_inv l" "push_next pre q l = Inr (l', r)"
  shows "loop_inv l'"
  using push_next_effect [OF assms(2)]
proof (elim disjE exE conjE)
  fix v
  assume "l' = l\<lparr>ag_buffer := (ag_buffer l)\<lparr>tb_buf := tb_buf (ag_buffer l) @ [v]\<rparr>, ag_accepted := add_mset v (ag_accepted l)\<rparr>"
  with assms(1) show ?thesis by (simp add: loop_inv_def conserved_def)
next
  fix v
  assume "l' = l\<lparr>ag_lateItems := ag_lateItems l @ [v]\<rparr>"
  with assms(1) show ?thesis by (simp add: loop_inv_def conserved_def)
qed (use assms(1) in simp_all)

lemma Loop_Stop_eq:
  assumes "Loop_Stop opts now l = Inr l'"
  obtains cfg c d where "requestStop cfg now (ag_stopCtrl l) = (c, d)"
    "l' = l\<lparr>ag_stopCtrl := c, ag_buffer := (if sd_wakeIdle d then Wakeup (ag_buffer l) else ag_buffer l),
             ag_finishing := ag_finishing l + (if sd_commit d then 1 else 0)\<rparr>"
  using assms by (auto simp: Loop_Stop_def Let_def split: sum.splits prod.splits)

lemma Loop_Stop_inv:
  assumes "loop_inv l" "Loop_Stop opts now l = Inr l'"
  shows "loop_inv l'"
proof -
  from assms(2) obtain cfg c d where "requestStop cfg now (ag_stopCtrl l) = (c, d)" and "l' = l\<lparr>ag_stopCtrl := c, ag_buffer := (if sd_wakeIdle d then Wakeup (ag_buffer l) else ag_buffer l),
             ag_finishing := ag_finishing l + (if sd_commit d then 1 else 0)\<rparr>" by (rule Loop_Stop_eq)
  with assms(1) show ?thesis by (simp add: loop_inv_def conserved_def)
qed

lemma loop_inv_step: "loop_step env l l' \<Longrightarrow> loop_inv l \<Longrightarrow> loop_inv l'"
proof (induction rule: loop_step.induct)
  case (load l get_err m err)
  then show ?case by (blast intro: tryLoad_inv)
next
  case (top_resume l pr)
  then show ?case by (simp add: loop_inv_def conserved_def resume_items_def ac_simps)
next
  case (resume_waits l pr c)
  then show ?case by (simp add: take_inv)
next
  case (got_waits l v c)
  then show ?case by (simp add: take_inv)
next
  case (receive l idle b got)
  then show ?case by (blast intro: after_receive_inv)
next
  case (got l v)
  then show ?case by (auto simp: loop_inv_def conserved_def loop_piece_defs ac_simps)
next
  case (turn_ends l p r)
  then show ?case by (intro after_turn_inv) simp_all
next
  case (takes l b xs)
  then show ?case using TakeAll_buf [of "ag_buffer l" b xs] by (simp add: loop_inv_def conserved_def ac_simps)
next
  case (plan_fails l bk pr GI GR err)
  then show ?case by (simp add: loop_inv_def conserved_def pushback_def stop_with_def ac_simps)
next
  case (planned_stop l p bk)
  then show ?case by (simp add: loop_inv_def conserved_def pushback_def stop_with_def ac_simps)
next
  case (prepare_fails l p bk err)
  then show ?case by (simp add: loop_inv_def conserved_def pushback_def stop_with_def ac_simps)
next
  case (prepared_stop l p bk)
  then show ?case by (simp add: loop_inv_def conserved_def pushback_def stop_with_def ac_simps)
next
  case (turn_begins l p bk ms)
  then show ?case by (simp add: give_turn_inv)
next
  case (turn_fails l p bk err)
  then have "loop_inv (give_turn p bk l)" by (blast intro: give_turn_inv)
  then show ?case by (rule after_turn_inv) (simp add: give_turn_def)
next
  case (results l xs set_err)
  then show ?case using cleanup_result_fields [of env set_err xs l]
    by (simp add: loop_inv_def conserved_def ac_simps)
next
  case (pushes l q P pre m r)
  then show ?case using push_next_inv [of l pre q m r] by simp
next
  case (stops opts now l m)
  then show ?case using Loop_Stop_inv [of l opts now m] by simp
next
  case (commits l)
  then show ?case by (simp add: commitStop_def Let_def split_def loop_inv_def conserved_def)
qed (simp_all add: loop_inv_def conserved_def stop_with_def finishStopCommit_def TakeLateItems_def ac_simps)

lemma loop_inv_reach: "loop_reach env l \<Longrightarrow> loop_inv l"
proof (induction rule: loop_reach.induct)
  case (loop_init store)
  then show ?case
    by (simp add: loop_inv_def conserved_def NewAgentLoop_def newTurnBuffer_def resume_items_def returned_def)
qed (blast intro: loop_inv_step)

subsection \<open>A committed stop\<close>

text \<open>
  Once a stop has been committed and its \<open>finishStopCommit\<close> has run, the loop's goroutine is this many
  steps of its own, at most, from its exit.
\<close>

primrec exit_rank :: "'a loop_pc \<Rightarrow> nat" where
  "exit_rank AtStart = 6"
| "exit_rank AtTop = 5"
| "exit_rank (AtReceive b) = 6"
| "exit_rank (AtGot v) = 5"
| "exit_rank (AtWait v) = 7"
| "exit_rank (AtWaitResume pr) = 7"
| "exit_rank (AtItems bk pr) = 6"
| "exit_rank (AtPlanned p bk) = 5"
| "exit_rank (AtPrepared p bk) = 5"
| "exit_rank (AtTurn p) = 6"
| "exit_rank AtCleanup = 4"
| "exit_rank AtTaking = 3"
| "exit_rank (AtTook vs) = 2"
| "exit_rank AtResult = 1"
| "exit_rank AtExit = 0"

definition stopping :: "'a AgentLoop \<Rightarrow> bool" where
  "stopping l \<longleftrightarrow> isCommitted (ag_stopCtrl l) \<and> ag_finishing l = 0"

definition stop_inv :: "'a AgentLoop \<Rightarrow> bool" where
  "stop_inv l \<longleftrightarrow> (isCommitted (ag_stopCtrl l) \<longrightarrow> 0 < ag_finishing l \<or> tb_closed (ag_buffer l))"

lemma buffer_closed_simps [simp]:
  "tb_closed (PushFront vs tb) = tb_closed tb" "tb_closed (Buffer_Close tb)" "tb_closed (Wakeup tb) = tb_closed tb"
  "tb_closed (ClearWakeup tb) = tb_closed tb"
  by (simp_all add: PushFront_def Buffer_Close_def Wakeup_def ClearWakeup_def)

lemma buffer_ops_closed:
  "TakeAll tb = (b, vs) \<Longrightarrow> tb_closed b = tb_closed tb" "TrySend v tb = (b, ok) \<Longrightarrow> tb_closed b = tb_closed tb"
  "Receive tb = Some (b, got) \<Longrightarrow> tb_closed b = tb_closed tb"
  by (auto simp: TakeAll_def TrySend_def Receive_def Let_def split: if_splits list.splits)

lemma committed_simps [simp]:
  "isCommitted (Stop_beginActiveTurn c) = isCommitted c" "isCommitted (fst (Stop_endActiveTurn c)) = isCommitted c"
  "isCommitted (Stop_closeForLoopExit c) = isCommitted c"
  by (simp_all add: isCommitted_def Stop_beginActiveTurn_def Stop_endActiveTurn_def Stop_closeForLoopExit_def)

lemma commitLocked_committed:
  "commitLocked c = (c', told) \<Longrightarrow> isCommitted c' = (isCommitted c \<or> told) \<and> (told \<longrightarrow> \<not> isCommitted c)"
  by (auto simp: commitLocked_def isCommitted_def split: if_splits)

lemma requestStop_committed:
  "requestStop cfg now c = (c', d) \<Longrightarrow> isCommitted c' = (isCommitted c \<or> sd_commit d) \<and> (sd_commit d \<longrightarrow> \<not> isCommitted c)"
  by (auto simp: requestStop_def commitLocked_def isCommitted_def Let_def split: if_splits option.splits)

lemma loop_piece_stop [simp]:
  "ag_stopCtrl (stop_with e l) = ag_stopCtrl l" "ag_finishing (stop_with e l) = ag_finishing l"
  "ag_buffer (stop_with e l) = ag_buffer l" "ag_pc (stop_with e l) = AtCleanup"
  "ag_stopCtrl (pushback vs l) = ag_stopCtrl l" "ag_finishing (pushback vs l) = ag_finishing l"
  "ag_buffer (pushback vs l) = PushFront vs (ag_buffer l)"
  "ag_stopCtrl (give_turn p vs l) = ag_stopCtrl l" "ag_finishing (give_turn p vs l) = ag_finishing l"
  "ag_buffer (give_turn p vs l) = PushFront (pn_remaining p) (ag_buffer l)" "ag_pc (give_turn p vs l) = AtTurn p"
  "ag_stopCtrl (after_turn t p l) = ag_stopCtrl l" "ag_finishing (after_turn t p l) = ag_finishing l"
  "ag_buffer (after_turn t p l) = ag_buffer l"
  "ag_stopCtrl (after_receive idle b got l) = ag_stopCtrl l" "ag_finishing (after_receive idle b got l) = ag_finishing l"
  "ag_buffer (after_receive idle b got l) = b"
  "ag_stopCtrl (after_got v l) = ag_stopCtrl l" "ag_finishing (after_got v l) = ag_finishing l"
  "tb_closed (ag_buffer (after_got v l)) = tb_closed (ag_buffer l)"
  "ag_stopCtrl (take_resume pr c l) = ag_stopCtrl l" "ag_finishing (take_resume pr c l) = ag_finishing l"
  "tb_closed (ag_buffer (take_resume pr c l)) = tb_closed (ag_buffer l)"
  "ag_stopCtrl (take_items v c l) = ag_stopCtrl l" "ag_finishing (take_items v c l) = ag_finishing l"
  "tb_closed (ag_buffer (take_items v c l)) = tb_closed (ag_buffer l)"
  by (simp_all add: stop_with_def pushback_def give_turn_def after_turn_def after_receive_def after_got_def
      take_resume_def take_items_def TakeAll_def Let_def split: option.split)

lemma tryLoad_stop:
  assumes "tryLoadCheckpoint env get_err l = (l', err)"
  shows "ag_stopCtrl l' = ag_stopCtrl l \<and> ag_finishing l' = ag_finishing l \<and>
         tb_closed (ag_buffer l') = tb_closed (ag_buffer l) \<and> ag_pc l' = ag_pc l"
  using assms by (auto simp: tryLoadCheckpoint_def TakeAll_def Let_def split: option.splits if_splits)

lemma push_next_stop:
  assumes "push_next pre q l = Inr (l', r)"
  shows "ag_stopCtrl l' = ag_stopCtrl l \<and> ag_finishing l' = ag_finishing l \<and>
         tb_closed (ag_buffer l') = tb_closed (ag_buffer l) \<and> ag_pc l' = ag_pc l"
  using push_next_effect [OF assms] by (elim disjE exE conjE) simp_all

lemma Loop_Stop_stop:
  assumes "Loop_Stop opts now l = Inr l'"
  shows "tb_closed (ag_buffer l') = tb_closed (ag_buffer l) \<and> ag_pc l' = ag_pc l \<and>
    (if isCommitted (ag_stopCtrl l) then isCommitted (ag_stopCtrl l') \<and> ag_finishing l' = ag_finishing l
     else isCommitted (ag_stopCtrl l') \<longrightarrow> 0 < ag_finishing l')"
proof -
  from assms obtain cfg c d where *: "requestStop cfg now (ag_stopCtrl l) = (c, d)"
    "l' = l\<lparr>ag_stopCtrl := c, ag_buffer := (if sd_wakeIdle d then Wakeup (ag_buffer l) else ag_buffer l),
             ag_finishing := ag_finishing l + (if sd_commit d then 1 else 0)\<rparr>" by (rule Loop_Stop_eq)
  with requestStop_committed [OF *(1)] show ?thesis by auto
qed

lemma commitStop_stop:
  "ag_buffer (commitStop l) = ag_buffer l \<and> ag_pc (commitStop l) = ag_pc l \<and> isCommitted (ag_stopCtrl (commitStop l)) =
     (isCommitted (ag_stopCtrl l) \<or> snd (commitLocked (ag_stopCtrl l))) \<and>
   ag_finishing (commitStop l) = ag_finishing l + (if snd (commitLocked (ag_stopCtrl l)) then 1 else 0) \<and>
   (snd (commitLocked (ag_stopCtrl l)) \<longrightarrow> \<not> isCommitted (ag_stopCtrl l))"
  using commitLocked_committed [of "ag_stopCtrl l" "fst (commitLocked (ag_stopCtrl l))" "snd (commitLocked (ag_stopCtrl l))"]
  by (simp add: commitStop_def Let_def split_def)

lemma stop_inv_step: "loop_step env l l' \<Longrightarrow> stop_inv l \<Longrightarrow> stop_inv l'"
proof (induction rule: loop_step.induct)
  case (load l get_err m err)
  then show ?case using tryLoad_stop [of env get_err l m err] by (simp add: stop_inv_def)
next
  case (pushes l q P pre m r)
  then show ?case using push_next_stop [of pre q l m r] by (simp add: stop_inv_def)
next
  case (stops opts now l m)
  then show ?case using Loop_Stop_stop [of opts now l m] by (auto simp: stop_inv_def split: if_splits)
next
  case (commits l)
  then show ?case using commitStop_stop [of l] by (auto simp: stop_inv_def)
qed (auto simp: stop_inv_def buffer_ops_closed finishStopCommit_def TakeLateItems_def split: if_splits)

lemma stop_inv_reach: "loop_reach env l \<Longrightarrow> stop_inv l"
proof (induction rule: loop_reach.induct)
  case (loop_init store)
  then show ?case by (simp add: stop_inv_def NewAgentLoop_def isCommitted_def newStopController_def)
qed (blast intro: stop_inv_step)

lemma exit_rank_after_turn: "exit_rank (ag_pc (after_turn t p l)) < 6"
  by (simp add: after_turn_def Let_def stop_with_def split: option.split)

lemma exit_rank_after_got: "isCommitted (ag_stopCtrl l) \<Longrightarrow> exit_rank (ag_pc (after_got v l)) = 4"
  by (simp add: after_got_def)

lemma exit_rank_take: "exit_rank (ag_pc (take_items v c l)) = 6" "exit_rank (ag_pc (take_resume pr c l)) = 6"
  by (simp_all add: take_items_def take_resume_def TakeAll_def Let_def)

lemma exit_rank_after_receive:
  "isCommitted (ag_stopCtrl l) \<Longrightarrow> tb_closed b \<Longrightarrow> exit_rank (ag_pc (after_receive idle b got l)) < 6"
  by (simp add: after_receive_def Let_def IsClosed_def idleDuration_def isCommitted_def stop_with_def split: option.split)

lemma exit_rank_step:
  assumes "loop_step env l l'" "stopping l" "stop_inv l"
  shows "stopping l' \<and> (ag_pc l' = ag_pc l \<or> exit_rank (ag_pc l') < exit_rank (ag_pc l))"
  using assms
proof (induction rule: loop_step.induct)
  case (load l get_err m err)
  then show ?case using tryLoad_stop [of env get_err l m err] by (simp add: stopping_def)
next
  case (receive l idle b got)
  then have "tb_closed b" by (simp add: stop_inv_def stopping_def buffer_ops_closed)
  with receive exit_rank_after_receive [of l b idle got] show ?case by (simp add: stopping_def)
next
  case (turn_fails l p bk err)
  then show ?case by (simp add: stopping_def)
next
  case (turn_ends l p r)
  then show ?case using exit_rank_after_turn [of "runAgentAndHandleEvents r" p] by (simp add: stopping_def)
next
  case (pushes l q P pre m r)
  then show ?case using push_next_stop [of pre q l m r] by (simp add: stopping_def)
next
  case (stops opts now l m)
  then show ?case using Loop_Stop_stop [of opts now l m] by (simp add: stopping_def)
next
  case (commits l)
  then show ?case using commitStop_stop [of l] by (auto simp: stopping_def)
qed (auto simp: stopping_def exit_rank_after_got exit_rank_take finishStopCommit_def TakeLateItems_def split: if_splits)

subsection \<open>Pushes in flight\<close>

primrec held :: "'a push_pc \<Rightarrow> bool" where
  "held (PBegin v) = False"
| "held (PStrategy v) = True"
| "held (PCheck h pre v) = h"
| "held (PHold v) = False"
| "held (PSend h v) = h"
| "held (PLate h v) = h"
| "held PEnd = True"

text \<open>How many steps a push is from its end.\<close>

primrec push_rank :: "'a push_pc \<Rightarrow> nat" where
  "push_rank (PBegin v) = 7"
| "push_rank (PStrategy v) = 6"
| "push_rank (PCheck h pre v) = 5"
| "push_rank (PHold v) = 4"
| "push_rank (PSend h v) = 3"
| "push_rank (PLate h v) = 2"
| "push_rank PEnd = 1"

definition push_work :: "'a push_pc multiset \<Rightarrow> nat" where
  "push_work P = (\<Sum>q\<in>#P. push_rank q)"

definition flight_inv :: "'a AgentLoop \<Rightarrow> bool" where
  "flight_inv l \<longleftrightarrow> pc_pushInFlight (ag_preemptCtrl l) = int (size (filter_mset held (ag_pushes l))) \<and>
     (ag_lateSealed l \<longrightarrow> ag_pc l = AtExit)"

definition rest_of :: "'a push_pc option \<Rightarrow> 'a push_pc multiset" where
  "rest_of r = (case r of None \<Rightarrow> {#} | Some q \<Rightarrow> {#q#})"

lemma rest_of_simps [simp]: "rest_of None = {#}" "rest_of (Some q) = {#q#}"
  "rest_of (after_push h) = (if h then {#PEnd#} else {#})"
  by (simp_all add: rest_of_def after_push_def)

lemma rest_of_add: "(case r of None \<Rightarrow> P | Some q \<Rightarrow> add_mset q P) = rest_of r + P"
  by (simp add: rest_of_def split: option.split)

text \<open>A push moves towards its end and keeps the count of the pushes in flight.\<close>

lemma push_next_flight:
  assumes "push_next pre q l = Inr (l', r)"
  shows "pc_pushInFlight (ag_preemptCtrl l') - int (size (filter_mset held (rest_of r))) =
      pc_pushInFlight (ag_preemptCtrl l) - (if held q then 1 else 0) \<and>
    ag_lateSealed l' = ag_lateSealed l \<and> push_work (rest_of r) < push_rank q"
proof (cases q)
  case (PSend h v)
  with assms show ?thesis
    by (cases "tb_closed (ag_buffer l)") (auto simp: push_next_def TrySend_def push_work_def)
next
  case (PLate h v)
  with assms show ?thesis by (cases "ag_lateSealed l") (auto simp: push_next_def appendLate_def push_work_def)
next
  case PEnd
  with assms show ?thesis
    by (cases "pc_pushInFlight (ag_preemptCtrl l) - 1 < 0") (auto simp: push_next_def endPush_def push_work_def)
qed (use assms in \<open>auto simp: push_next_def hold_push_def beginPush_def push_work_def split: if_splits\<close>)

lemma flight_pieces [simp]:
  "ag_preemptCtrl (stop_with e l) = ag_preemptCtrl l" "ag_pushes (stop_with e l) = ag_pushes l"
  "ag_lateSealed (stop_with e l) = ag_lateSealed l"
  "ag_preemptCtrl (pushback vs l) = ag_preemptCtrl l" "ag_pushes (pushback vs l) = ag_pushes l"
  "ag_lateSealed (pushback vs l) = ag_lateSealed l"
  "ag_preemptCtrl (give_turn p vs l) = ag_preemptCtrl l" "ag_pushes (give_turn p vs l) = ag_pushes l"
  "ag_lateSealed (give_turn p vs l) = ag_lateSealed l"
  "ag_preemptCtrl (after_turn t p l) = ag_preemptCtrl l" "ag_pushes (after_turn t p l) = ag_pushes l"
  "ag_lateSealed (after_turn t p l) = ag_lateSealed l"
  "ag_preemptCtrl (after_receive idle b got l) = ag_preemptCtrl l" "ag_pushes (after_receive idle b got l) = ag_pushes l"
  "ag_lateSealed (after_receive idle b got l) = ag_lateSealed l"
  "ag_preemptCtrl (after_got v l) = ag_preemptCtrl l" "ag_pushes (after_got v l) = ag_pushes l"
  "ag_lateSealed (after_got v l) = ag_lateSealed l"
  "ag_preemptCtrl (take_resume pr c l) = c" "ag_pushes (take_resume pr c l) = ag_pushes l"
  "ag_lateSealed (take_resume pr c l) = ag_lateSealed l"
  "ag_preemptCtrl (take_items v c l) = c" "ag_pushes (take_items v c l) = ag_pushes l"
  "ag_lateSealed (take_items v c l) = ag_lateSealed l"
  by (simp_all add: stop_with_def pushback_def give_turn_def after_turn_def after_receive_def after_got_def
      take_resume_def take_items_def TakeAll_def Let_def split: option.split)

lemma tryLoad_flight:
  assumes "tryLoadCheckpoint env get_err l = (l', err)"
  shows "ag_preemptCtrl l' = ag_preemptCtrl l \<and> ag_pushes l' = ag_pushes l \<and> ag_lateSealed l' = ag_lateSealed l"
  using assms by (auto simp: tryLoadCheckpoint_def TakeAll_def Let_def split: option.splits if_splits)

lemma push_next_pushes: "push_next pre q l = Inr (l', r) \<Longrightarrow> ag_pushes l' = ag_pushes l"
  by (drule push_next_effect) (elim disjE exE conjE, simp_all)

lemma Loop_Stop_flight:
  assumes "Loop_Stop opts now l = Inr l'"
  shows "ag_preemptCtrl l' = ag_preemptCtrl l \<and> ag_pushes l' = ag_pushes l \<and> ag_lateSealed l' = ag_lateSealed l"
  using assms by (rule Loop_Stop_eq) simp

lemma flight_inv_step: "loop_step env l l' \<Longrightarrow> flight_inv l \<Longrightarrow> flight_inv l'"
proof (induction rule: loop_step.induct)
  case (load l get_err m err)
  then show ?case using tryLoad_flight [of env get_err l m err] by (simp add: flight_inv_def)
next
  case (pushes l q P pre m r)
  from pushes(3) have c: "pc_pushInFlight (ag_preemptCtrl l) = int (size (filter_mset held (ag_pushes l)))"
    "ag_lateSealed l \<longrightarrow> ag_pc l = AtExit" by (simp_all add: flight_inv_def)
  show ?case
    using push_next_flight [OF pushes(2)] push_next_stop [OF pushes(2)] c
    unfolding flight_inv_def pushes(1) rest_of_add by (auto split: if_splits)
next
  case (push_starts l strategy preempt v)
  then show ?case by (simp add: flight_inv_def Push_start_def)
next
  case (stops opts now l m)
  then show ?case using Loop_Stop_flight [of opts now l m] Loop_Stop_stop [of opts now l m] by (simp add: flight_inv_def)
next
  case (commits l)
  then show ?case by (simp add: flight_inv_def commitStop_def Let_def split_def)
qed (auto simp: flight_inv_def waitForPushes_def finishStopCommit_def TakeLateItems_def split: if_splits)

lemma flight_inv_reach: "loop_reach env l \<Longrightarrow> flight_inv l"
proof (induction rule: loop_reach.induct)
  case (loop_init store)
  then show ?case by (simp add: flight_inv_def NewAgentLoop_def newPreemptController_def)
qed (blast intro: flight_inv_step)

text \<open>While the loop waits for pushes, one of those in flight can move, and none can panic.\<close>

lemma push_in_flight_moves:
  assumes "flight_inv l" "0 < pc_pushInFlight (ag_preemptCtrl l)" "ag_pc l \<noteq> AtExit"
  shows "\<exists>l'. loop_step env l l' \<and> ag_pc l' = ag_pc l \<and> push_work (ag_pushes l') < push_work (ag_pushes l)"
proof -
  from assms have "0 < int (size (filter_mset held (ag_pushes l)))" "\<not> ag_lateSealed l"
    unfolding flight_inv_def by metis+
  then have "filter_mset held (ag_pushes l) \<noteq> {#}" by (intro notI) (simp only: size_empty of_nat_0 less_irrefl)
  then obtain q where "q \<in># filter_mset held (ag_pushes l)" by (rule multiset_nonemptyE)
  then obtain P where q: "ag_pushes l = add_mset q P" "held q" by (auto dest: multi_member_split)
  have "\<exists>l' r. push_next False q l = Inr (l', r)"
    using \<open>\<not> ag_lateSealed l\<close> assms(2)
    by (cases q) (auto simp: push_next_def TrySend_def appendLate_def endPush_def)
  then obtain l' r where p: "push_next False q l = Inr (l', r)" by blast
  let ?m = "l'\<lparr>ag_pushes := (case r of None \<Rightarrow> P | Some q' \<Rightarrow> add_mset q' P)\<rparr>"
  from push_next_flight [OF p] have "push_work (ag_pushes ?m) < push_work (ag_pushes l)"
    by (simp add: rest_of_add q push_work_def)
  moreover have "loop_step env l ?m" by (rule pushes [OF q(1) p])
  ultimately show ?thesis using push_next_stop [OF p] by (intro exI [of _ ?m]) simp
qed

text \<open>Unless it waits for pushes, the loop's goroutine has a step of its own, the turn's end included.\<close>

lemma moves: "loop_step env l m \<Longrightarrow> ag_pc m \<noteq> ag_pc l \<Longrightarrow> \<exists>l'. loop_step env l l' \<and> ag_pc l' \<noteq> ag_pc l"
  by blast

lemma stopping_enabled:
  assumes "stopping l" "stop_inv l" "ag_pc l \<noteq> AtExit"
    and "(\<exists>v. ag_pc l = AtWait v) \<or> (\<exists>pr. ag_pc l = AtWaitResume pr) \<longrightarrow> \<not> 0 < pc_pushInFlight (ag_preemptCtrl l)"
  shows "\<exists>l'. loop_step env l l' \<and> ag_pc l' \<noteq> ag_pc l"
proof -
  from assms have com: "isCommitted (ag_stopCtrl l)" and cl: "tb_closed (ag_buffer l)"
    by (auto simp: stopping_def stop_inv_def)
  show ?thesis
  proof (cases "ag_pc l")
    case AtStart
    obtain m err where ld: "tryLoadCheckpoint env False l = (m, err)" by fastforce
    then show ?thesis using AtStart tryLoad_stop [OF ld] by (intro moves [OF load [OF AtStart ld]]) simp
  next
    case (AtReceive b)
    from cl obtain tb got where rc: "Receive (ag_buffer l) = Some (tb, got)" and "tb_closed tb"
      by (cases "tb_buf (ag_buffer l)") (auto simp: Receive_def Let_def)
    with com exit_rank_after_receive [of l tb b got] have "ag_pc (after_receive b tb got l) \<noteq> AtReceive b" by auto
    then show ?thesis using AtReceive by (intro moves [OF receive [OF AtReceive rc]]) simp
  next
    case (AtItems bk pr)
    let ?GI = "\<lambda>_. Inl (plain_error [])"
    have "planTurn ?GI None (pr \<noteq> None) (if pr = None then bk else []) pr \<in> range Inl"
      by (simp add: planTurn_def split: option.split)
    then obtain e where pl: "planTurn ?GI None (pr \<noteq> None) (if pr = None then bk else []) pr = Inl e" by blast
    show ?thesis using AtItems by (intro moves [OF plan_fails [OF AtItems pl]]) simp
  next
    case (AtTurn p)
    let ?l = "l\<lparr>ag_stopCtrl := fst (Stop_endActiveTurn (ag_stopCtrl l))\<rparr>"
    have "exit_rank (ag_pc (after_turn (runAgentAndHandleEvents (Not_resumed [])) p ?l)) < 6"
      by (rule exit_rank_after_turn)
    then show ?thesis using AtTurn by (intro moves [OF turn_ends [OF AtTurn, of env "Not_resumed []"]]) auto
  next
    case AtTop
    then show ?thesis by (intro moves [OF top_committed [OF AtTop com]]) simp
  next
    case (AtGot v)
    then show ?thesis using exit_rank_after_got [OF com, of v] by (intro moves [OF got [OF AtGot]]) auto
  next
    case (AtWait v)
    with assms(4) have "waitForPushes (ag_preemptCtrl l) = Some (ag_preemptCtrl l)" by (auto simp: waitForPushes_def)
    then show ?thesis using exit_rank_take(1) [of v "ag_preemptCtrl l" l] AtWait by (intro moves [OF got_waits [OF AtWait]]) auto
  next
    case (AtWaitResume pr)
    with assms(4) have "waitForPushes (ag_preemptCtrl l) = Some (ag_preemptCtrl l)" by (auto simp: waitForPushes_def)
    then show ?thesis using exit_rank_take(2) [of pr "ag_preemptCtrl l" l] AtWaitResume
      by (intro moves [OF resume_waits [OF AtWaitResume]]) auto
  next
    case (AtPlanned p bk)
    then show ?thesis by (intro moves [OF planned_stop [OF AtPlanned com]]) simp
  next
    case (AtPrepared p bk)
    then show ?thesis by (intro moves [OF prepared_stop [OF AtPrepared com]]) simp
  next
    case AtCleanup
    then show ?thesis by (intro moves [OF cleanup [OF AtCleanup]]) simp
  next
    case AtTaking
    then show ?thesis by (intro moves [OF takes [OF AtTaking TakeAll_def]]) simp
  next
    case (AtTook vs)
    then show ?thesis by (intro moves [OF results [OF AtTook, of env None]]) simp
  next
    case AtResult
    then show ?thesis by (intro moves [OF exits [OF AtResult]]) simp
  qed (use assms in simp)
qed

text \<open>
  C8: once a stop has been committed and its \<open>finishStopCommit\<close> has run, every step keeps it so and takes the
  loop's goroutine no further from its exit, which is at most seven steps of its own away. Until it has
  exited it has a step to take (its \<open>Receive\<close> does not block; client callbacks and a running turn are taken to
  return) except while it waits for pushes in flight; then one of these pushes has a step, which brings
  it closer to its end.
\<close>

theorem stop_exits:
  assumes "loop_reach env l" "isCommitted (ag_stopCtrl l)" "ag_finishing l = 0"
  shows "exit_rank (ag_pc l) \<le> 7 \<and>
    (ag_pc l \<noteq> AtExit \<longrightarrow>
      (if ((\<exists>v. ag_pc l = AtWait v) \<or> (\<exists>pr. ag_pc l = AtWaitResume pr)) \<and> 0 < pc_pushInFlight (ag_preemptCtrl l)
       then \<exists>l'. loop_step env l l' \<and> ag_pc l' = ag_pc l \<and> push_work (ag_pushes l') < push_work (ag_pushes l)
       else \<exists>l'. loop_step env l l' \<and> ag_pc l' \<noteq> ag_pc l)) \<and>
    (\<forall>l'. loop_step env l l' \<longrightarrow> isCommitted (ag_stopCtrl l') \<and> ag_finishing l' = 0 \<and>
      (ag_pc l' = ag_pc l \<or> exit_rank (ag_pc l') < exit_rank (ag_pc l)))"
proof (intro conjI impI)
  from assms have s: "stopping l" "stop_inv l" by (auto simp: stopping_def intro: stop_inv_reach)
  show "exit_rank (ag_pc l) \<le> 7" by (cases "ag_pc l") simp_all
  show "\<forall>l'. loop_step env l l' \<longrightarrow> isCommitted (ag_stopCtrl l') \<and> ag_finishing l' = 0 \<and>
      (ag_pc l' = ag_pc l \<or> exit_rank (ag_pc l') < exit_rank (ag_pc l))"
    using exit_rank_step [of env l, OF _ s] by (fastforce simp: stopping_def)
  assume "ag_pc l \<noteq> AtExit"
  then show "if ((\<exists>v. ag_pc l = AtWait v) \<or> (\<exists>pr. ag_pc l = AtWaitResume pr)) \<and> 0 < pc_pushInFlight (ag_preemptCtrl l)
       then \<exists>l'. loop_step env l l' \<and> ag_pc l' = ag_pc l \<and> push_work (ag_pushes l') < push_work (ag_pushes l)
       else \<exists>l'. loop_step env l l' \<and> ag_pc l' \<noteq> ag_pc l"
    using stopping_enabled [OF s, of env] push_in_flight_moves [OF flight_inv_reach [OF assms(1)], of env] by auto
qed

text \<open>
  C7: no item disappears unaccounted. When the loop has exited, the items accepted by a push or loaded
  from a checkpoint, plus those its planners chose, are the items it offered to the planners plus: the
  unhandled and interrupted items it reports, the items of turns that ended normally, of preempted turns and of
  a failed turn, those discarded when the checkpoint was loaded, the one it may have dropped, those still in
  the buffer and those of a resume it never started. Items of a failed turn exist only if the loop reports
  an error, at most one item was dropped, and only loaded items were discarded.
\<close>

theorem items_conserved:
  assumes "loop_reach env l" "ag_pc l = AtExit"
  shows "\<exists>s. ag_result l = Some s \<and>
    ag_accepted l + ag_loaded l + ag_chosen l =
      ag_offered l + mset (as_UnhandledItems s) + mset (as_InterruptedItems s) +
      ag_finished l + ag_preempted l + ag_failed l + ag_discarded l + ag_dropped l +
      mset (tb_buf (ag_buffer l)) + resume_items (ag_pendingResume l) \<and>
    (ag_failed l \<noteq> {#} \<longrightarrow> as_ExitReason s \<noteq> None) \<and> size (ag_dropped l) \<le> 1 \<and> ag_discarded l \<subseteq># ag_loaded l"
proof -
  from loop_inv_reach [OF assms(1)] assms(2) obtain s
    where "ag_result l = Some s" "as_InterruptedItems s = ag_interruptedItems l" "as_ExitReason s = ag_runErr l" and "conserved l"
      "ag_failed l \<noteq> {#} \<longrightarrow> ag_runErr l \<noteq> None" "size (ag_dropped l) \<le> 1" "ag_discarded l \<subseteq># ag_loaded l"
    by (auto simp: loop_inv_def)
  with assms(2) show ?thesis by (simp add: conserved_def returned_def ac_simps)
qed

subsection \<open>Items that are lost\<close>

text \<open>
  A push that checked the stopped flag before, or does not check it, can succeed after \<open>cleanup\<close> has emptied
  the buffer: the item is accepted, and is in no list the loop reports.
\<close>

definition loses_item :: "'a LoopEnv \<Rightarrow> 'a \<Rightarrow> 'a AgentLoop \<Rightarrow> bool" where
  "loses_item env v l \<longleftrightarrow> loop_reach env l \<and> ag_pc l = AtExit \<and> ag_accepted l = {#v#} \<and> ag_finished l = {#} \<and>
     ag_failed l = {#} \<and> ag_preempted l = {#} \<and> ag_lateItems l = [] \<and> (\<exists>s. ag_result l = Some s \<and> as_UnhandledItems s = [] \<and> as_InterruptedItems s = [])"

lemma loop_next_eq: "loop_reach env l \<Longrightarrow> loop_step env l m \<Longrightarrow> m = l' \<Longrightarrow> loop_reach env l'"
  by (blast intro: loop_next)

text \<open>The state of a fresh loop without a store, after its start.\<close>

lemma started: "loop_reach env ((NewAgentLoop None)\<lparr>ag_pc := AtTop\<rparr>)"
  by (rule loop_next_eq [OF loop_init [of env None] load [where get_err = False and l' = "NewAgentLoop None" and err = None]])
    (simp_all add: NewAgentLoop_def tryLoadCheckpoint_def)

text \<open>A stop that is committed while the loop is between turns takes it to its cleanup.\<close>

lemma stopped_between_turns:
  assumes "loop_reach env l" "ag_pc l = AtTop" "ag_stopCtrl l = newStopController"
  shows "loop_reach env (l\<lparr>ag_stopCtrl := newStopController\<lparr>st_phase := stopCommitted\<rparr>,
    ag_finishing := ag_finishing l + 1, ag_pc := AtCleanup\<rparr>)"
proof -
  let ?c = "newStopController\<lparr>st_phase := stopCommitted\<rparr>"
  have "loop_reach env (l\<lparr>ag_stopCtrl := ?c, ag_finishing := ag_finishing l + 1\<rparr>)"
    by (rule loop_next_eq [OF assms(1) commits]) (simp add: commitStop_def assms(3) commitLocked_def newStopController_def)
  from loop_next [OF this top_committed] assms(2) show ?thesis by (simp add: isCommitted_def stop_with_def)
qed

lemma push_ready:
  assumes "loop_reach env l" "ag_pushes l = {#}" "\<not> ag_stopped l"
  shows "loop_reach env (l\<lparr>ag_pushes := {#PSend False v#}\<rparr>)"
proof -
  have "loop_reach env (l\<lparr>ag_pushes := {#PCheck False False v#}\<rparr>)"
    by (rule loop_next_eq [OF assms(1) push_starts [where strategy = False and preempt = False and v = v]])
      (simp add: Push_start_def assms(2))
  from loop_next [OF this pushes [where P = "{#}" and q = "PCheck False False v" and preempt = False and r = "Some (PSend False v)"]]
  show ?thesis using assms(3) by (simp add: push_next_def)
qed

lemma sent:
  assumes "loop_reach env l" "ag_pushes l = {#PSend False v#}" "\<not> tb_closed (ag_buffer l)"
    and "l' = l\<lparr>ag_buffer := (ag_buffer l)\<lparr>tb_buf := tb_buf (ag_buffer l) @ [v]\<rparr>,
                ag_accepted := add_mset v (ag_accepted l), ag_pushes := {#}\<rparr>"
  shows "loop_reach env l'"
  using loop_next [OF assms(1) pushes [OF assms(2), of False _ None]] assms(3,4)
  by (simp add: push_next_def TrySend_def after_push_def)

lemma cleaning:
  assumes "loop_reach env l" "ag_pc l = AtCleanup"
  shows "loop_reach env (l\<lparr>ag_stopped := True, ag_buffer := (ag_buffer l)\<lparr>tb_buf := []\<rparr>, ag_pc := AtTook (tb_buf (ag_buffer l))\<rparr>)"
proof -
  have "loop_reach env (l\<lparr>ag_stopped := True, ag_pc := AtTaking\<rparr>)"
    by (rule loop_next [OF assms(1) cleanup [OF assms(2)]])
  then show ?thesis by (rule loop_next_eq [OF _ takes]) (simp_all add: TakeAll_def)
qed

lemma exiting:
  assumes "loop_reach env l" "ag_pc l = AtTook vs"
  shows "\<exists>m. loop_reach env m \<and> ag_pc m = AtExit \<and> ag_result m = ag_result (cleanup_result env None vs l) \<and>
    ag_store m = ag_store (cleanup_result env None vs l) \<and> ag_accepted m = ag_accepted l \<and> ag_finished m = ag_finished l \<and>
    ag_failed m = ag_failed l \<and> ag_preempted m = ag_preempted l \<and> ag_discarded m = ag_discarded l \<and>
    ag_lateItems m = ag_lateItems l \<and> ag_loaded m = ag_loaded l \<and> tb_buf (ag_buffer m) = tb_buf (ag_buffer l)"
proof -
  let ?r = "(cleanup_result env None vs l)\<lparr>ag_pc := AtResult\<rparr>"
  let ?m = "?r\<lparr>ag_stopCtrl := Stop_closeForLoopExit (ag_stopCtrl ?r), ag_buffer := Buffer_Close (ag_buffer ?r), ag_pc := AtExit\<rparr>"
  from results [OF assms(2), of env None] assms(1) have "loop_reach env ?r" by (blast intro: loop_next)
  from loop_next [OF this exits] have "loop_reach env ?m" by simp
  then show ?thesis by (intro exI [of _ ?m]) (simp add: cleanup_result_def Let_def split_def Buffer_Close_def)
qed

lemmas fresh_simps = NewAgentLoop_def newTurnBuffer_def newStopController_def

theorem late_push_lost: "\<exists>l. loses_item env v l"
proof -
  let ?c = "newStopController\<lparr>st_phase := stopCommitted\<rparr>"
  let ?a = "(NewAgentLoop None)\<lparr>ag_pc := AtCleanup, ag_stopCtrl := ?c, ag_finishing := 1, ag_pushes := {#PSend False v#}\<rparr>"
  have "loop_reach env ((NewAgentLoop None)\<lparr>ag_pc := AtCleanup, ag_stopCtrl := ?c, ag_finishing := 1\<rparr>)"
    using stopped_between_turns [OF started] by (simp add: NewAgentLoop_def)
  from push_ready [OF this, of v] have "loop_reach env ?a" by (simp add: NewAgentLoop_def)
  from cleaning [OF this] have "loop_reach env (?a\<lparr>ag_stopped := True, ag_pc := AtTook []\<rparr>)"
    by (simp add: NewAgentLoop_def newTurnBuffer_def)
  then have "loop_reach env (?a\<lparr>ag_stopped := True, ag_pc := AtTook [], ag_pushes := {#},
      ag_buffer := newTurnBuffer\<lparr>tb_buf := [v]\<rparr>, ag_accepted := {#v#}\<rparr>)"
    by (rule sent [where v = v]) (simp_all add: fresh_simps)
  from exiting [OF this] show ?thesis
    by (auto simp: loses_item_def NewAgentLoop_def cleanup_result_def Let_def shouldSaveCheckpoint_def)
qed

text \<open>
  While the loop waits to become idle, an item that is received after the idle timer has committed the
  stop is neither processed nor put back.
\<close>

theorem idle_item_dropped: "\<exists>l. loses_item env v l \<and> tb_buf (ag_buffer l) = []"
proof -
  let ?i = "newStopController\<lparr>st_phase := stopIdleWaiting, st_idleFor := 5\<rparr>"
  let ?c = "newStopController\<lparr>st_phase := stopCommitted\<rparr>"
  let ?a = "(NewAgentLoop None)\<lparr>ag_pc := AtTop, ag_stopCtrl := ?i, ag_buffer := newTurnBuffer\<lparr>tb_woken := True\<rparr>\<rparr>"
  let ?b = "(NewAgentLoop None)\<lparr>ag_pc := AtReceive True, ag_stopCtrl := ?i, ag_pushes := {#PSend False v#}\<rparr>"
  let ?d = "(NewAgentLoop None)\<lparr>ag_pc := AtReceive True, ag_stopCtrl := ?i, ag_buffer := newTurnBuffer\<lparr>tb_buf := [v]\<rparr>, ag_accepted := {#v#}\<rparr>"
  let ?e = "?d\<lparr>ag_stopCtrl := ?c, ag_stopped := True, ag_buffer := newTurnBuffer\<lparr>tb_buf := [v], tb_closed := True\<rparr>\<rparr>"
  have "loop_reach env ?a"
    by (rule loop_next [OF started stops [of "[UntilIdleFor 5]" 0]])
      (simp add: fresh_simps Loop_Stop_def requestStop_def Wakeup_def Let_def)
  then have "loop_reach env ((NewAgentLoop None)\<lparr>ag_pc := AtReceive True, ag_stopCtrl := ?i\<rparr>)"
    by (rule loop_next_eq [OF _ top_idle]) (simp_all add: fresh_simps isCommitted_def idleDuration_def ClearWakeup_def)
  from push_ready [OF this, of v] have "loop_reach env ?b" by (simp add: NewAgentLoop_def)
  then have "loop_reach env ?d"
    by (rule sent [where v = v]) (simp_all add: fresh_simps)
  then have "loop_reach env (?d\<lparr>ag_stopCtrl := ?c, ag_finishing := 1\<rparr>)"
    by (rule loop_next_eq [OF _ commits]) (simp add: fresh_simps commitStop_def commitLocked_def)
  then have "loop_reach env ?e"
    by (rule loop_next_eq [OF _ finishes]) (simp_all add: fresh_simps finishStopCommit_def Buffer_Close_def)
  then have "loop_reach env (?e\<lparr>ag_pc := AtCleanup, ag_buffer := newTurnBuffer\<lparr>tb_closed := True\<rparr>, ag_dropped := {#v#}\<rparr>)"
    by (rule loop_next_eq [OF _ receive [where idle = True and got = "Some v" and b = "newTurnBuffer\<lparr>tb_closed := True\<rparr>"]])
      (simp_all add: fresh_simps Receive_def after_receive_def stop_with_def Let_def)
  from cleaning [OF this] have "loop_reach env (?e\<lparr>ag_pc := AtTook [], ag_buffer := newTurnBuffer\<lparr>tb_closed := True\<rparr>, ag_dropped := {#v#}\<rparr>)"
    by (simp add: fresh_simps)
  from exiting [OF this] show ?thesis
    by (auto simp: loses_item_def fresh_simps cleanup_result_def Let_def shouldSaveCheckpoint_def)
qed

text \<open>
  A loop that is stopped after it has loaded a checkpoint and before the resumed turn starts deletes the
  checkpoint and reports none of its items.
\<close>

theorem stopped_resume_lost:
  assumes "le_CheckpointID env \<noteq> []" "le_deleter env" "le_ungob env d = Some cp" "d \<noteq> []"
    and "ck_HasRunnerState cp" "ck_RunnerCheckpoint cp \<noteq> []"
    and "fmlookup m (le_CheckpointID env) = Some d"
  shows "\<exists>l s. loop_reach env l \<and> ag_pc l = AtExit \<and> ag_store l = Some (fmdrop (le_CheckpointID env) m) \<and>
    ag_loaded l = mset (ck_CanceledItems cp) + mset (ck_UnhandledItems cp) \<and> ag_finished l = {#} \<and>
    ag_result l = Some s \<and> as_UnhandledItems s = [] \<and> as_InterruptedItems s = [] \<and> \<not> as_CheckpointAttempted s"
proof -
  let ?c = "newStopController\<lparr>st_phase := stopCommitted\<rparr>"
  let ?pr = "\<lparr>pd_interrupted = ck_CanceledItems cp, pd_unhandled = ck_UnhandledItems cp, pd_newItems = [],
     pd_resumeBytes = ck_RunnerCheckpoint cp\<rparr>"
  let ?l = "(NewAgentLoop (Some m))\<lparr>ag_loadCheckpointID := le_CheckpointID env, ag_pendingResume := Some ?pr,
     ag_loaded := mset (ck_CanceledItems cp) + mset (ck_UnhandledItems cp)\<rparr>"
  have "loop_reach env (?l\<lparr>ag_pc := AtTop\<rparr>)"
    by (rule loop_next_eq [OF loop_init [of env "Some m"] load [where get_err = False and l' = ?l and err = None]])
      (use assms in \<open>simp_all add: fresh_simps tryLoadCheckpoint_def TakeAll_def Let_def\<close>)
  from stopped_between_turns [OF this]
  have "loop_reach env (?l\<lparr>ag_pc := AtCleanup, ag_stopCtrl := ?c, ag_finishing := 1\<rparr>)" by (simp add: fresh_simps)
  from exiting [OF cleaning [OF this]] assms show ?thesis
    by (auto simp: fresh_simps cleanup_result_def Let_def shouldSaveCheckpoint_def deleteTurnLoopCheckpoint_def)
qed

text \<open>
  A turn that is cancelled before the runner has anything to resume from is saved as cancelled items
  without a runner state; the loop that loads such a checkpoint forgets them, and deletes the checkpoint when
  it ends.
\<close>

theorem canceled_items_lost:
  assumes "le_CheckpointID env \<noteq> []" "le_deleter env" "le_ungob env d = Some cp" "d \<noteq> []"
    and "\<not> ck_HasRunnerState cp" "fmlookup m (le_CheckpointID env) = Some d"
  shows "\<exists>l s. loop_reach env l \<and> ag_pc l = AtExit \<and> ag_store l = Some (fmdrop (le_CheckpointID env) m) \<and>
    ag_discarded l = mset (ck_CanceledItems cp) \<and> ag_finished l = {#} \<and> ag_result l = Some s \<and>
    as_UnhandledItems s = ck_UnhandledItems cp \<and> as_InterruptedItems s = [] \<and> ag_lateItems l = []"
proof -
  let ?c = "newStopController\<lparr>st_phase := stopCommitted\<rparr>"
  let ?l = "(NewAgentLoop (Some m))\<lparr>ag_loadCheckpointID := le_CheckpointID env,
     ag_buffer := newTurnBuffer\<lparr>tb_buf := ck_UnhandledItems cp\<rparr>,
     ag_loaded := mset (ck_CanceledItems cp) + mset (ck_UnhandledItems cp), ag_discarded := mset (ck_CanceledItems cp)\<rparr>"
  have "loop_reach env (?l\<lparr>ag_pc := AtTop\<rparr>)"
    by (rule loop_next_eq [OF loop_init [of env "Some m"] load [where get_err = False and l' = ?l and err = None]])
      (use assms in \<open>simp_all add: fresh_simps tryLoadCheckpoint_def TakeAll_def PushFront_def Let_def\<close>)
  from stopped_between_turns [OF this]
  have "loop_reach env (?l\<lparr>ag_pc := AtCleanup, ag_stopCtrl := ?c, ag_finishing := 1\<rparr>)" by (simp add: fresh_simps)
  from exiting [OF cleaning [OF this]] assms show ?thesis
    by (auto simp: fresh_simps cleanup_result_def Let_def shouldSaveCheckpoint_def deleteTurnLoopCheckpoint_def)
qed

subsection \<open>Concrete runs\<close>

definition demo_loop_env :: "nat LoopEnv" where
  "demo_loop_env = \<lparr>le_gob = (\<lambda>_. None), le_ungob = (\<lambda>_. None), le_CheckpointID = [], le_deleter = False\<rparr>"

text \<open>The loop was stopped after it had received an item, while it waits for a push whose strategy is running.\<close>

definition stopped_loop :: "nat AgentLoop" where
  "stopped_loop = (NewAgentLoop None)\<lparr>ag_pc := AtWait 7, ag_stopCtrl := newStopController\<lparr>st_phase := stopCommitted\<rparr>,
     ag_stopped := True, ag_buffer := newTurnBuffer\<lparr>tb_closed := True\<rparr>, ag_accepted := {#7#},
     ag_preemptCtrl := newPreemptController\<lparr>pc_pushInFlight := 1\<rparr>, ag_pushes := {#PStrategy 8#}\<rparr>"

lemma stopped_loop_reach: "loop_reach demo_loop_env stopped_loop"
proof -
  let ?a = "(NewAgentLoop None)\<lparr>ag_pc := AtTop, ag_buffer := newTurnBuffer\<lparr>tb_buf := [7]\<rparr>, ag_accepted := {#7#}\<rparr> :: nat AgentLoop"
  let ?b = "(NewAgentLoop None)\<lparr>ag_pc := AtWait 7, ag_accepted := {#7#}\<rparr> :: nat AgentLoop"
  let ?p = "newPreemptController\<lparr>pc_pushInFlight := 1\<rparr>"
  have "loop_reach demo_loop_env ((NewAgentLoop None)\<lparr>ag_pc := AtTop, ag_pushes := {#PSend False 7#}\<rparr>)"
    using push_ready [OF started [of demo_loop_env], of 7] by (simp add: NewAgentLoop_def)
  then have "loop_reach demo_loop_env ?a" by (rule sent [where v = 7]) (simp_all add: fresh_simps)
  then have "loop_reach demo_loop_env (?a\<lparr>ag_pc := AtReceive False\<rparr>)"
    by (rule loop_next_eq [OF _ top_plain]) (simp_all add: fresh_simps isCommitted_def idleDuration_def)
  then have "loop_reach demo_loop_env ((NewAgentLoop None)\<lparr>ag_pc := AtGot 7, ag_accepted := {#7#}\<rparr>)"
    by (rule loop_next_eq [OF _ receive [where idle = False and got = "Some 7" and b = newTurnBuffer]])
      (simp_all add: fresh_simps Receive_def after_receive_def)
  then have "loop_reach demo_loop_env ?b"
    by (rule loop_next_eq [OF _ got]) (simp_all add: fresh_simps after_got_def isCommitted_def)
  then have "loop_reach demo_loop_env (?b\<lparr>ag_pushes := {#PBegin 8#}\<rparr>)"
    by (rule loop_next_eq [OF _ push_starts [where strategy = True and v = 8]]) (simp add: NewAgentLoop_def Push_start_def)
  then have "loop_reach demo_loop_env (?b\<lparr>ag_preemptCtrl := ?p, ag_pushes := {#PStrategy 8#}\<rparr>)"
    by (rule loop_next_eq [OF _ pushes [where P = "{#}" and q = "PBegin 8" and preempt = False and r = "Some (PStrategy 8)" and
          l' = "?b\<lparr>ag_preemptCtrl := ?p, ag_pushes := {#PBegin 8#}\<rparr>"]])
      (simp_all add: NewAgentLoop_def push_next_def hold_push_def beginPush_def newPreemptController_def)
  then have "loop_reach demo_loop_env (?b\<lparr>ag_preemptCtrl := ?p, ag_pushes := {#PStrategy 8#},
      ag_stopCtrl := newStopController\<lparr>st_phase := stopCommitted\<rparr>, ag_finishing := 1\<rparr>)"
    by (rule loop_next_eq [OF _ commits]) (simp add: fresh_simps commitStop_def commitLocked_def)
  then show ?thesis
    by (rule loop_next_eq [OF _ finishes]) (simp_all add: stopped_loop_def fresh_simps finishStopCommit_def Buffer_Close_def)
qed

theorem stop_exits_witness:
  "loop_reach demo_loop_env stopped_loop \<and> isCommitted (ag_stopCtrl stopped_loop) \<and> ag_finishing stopped_loop = 0 \<and>
   (\<exists>l'. loop_step demo_loop_env stopped_loop l' \<and> ag_pc l' = ag_pc stopped_loop \<and>
     push_work (ag_pushes l') < push_work (ag_pushes stopped_loop))"
proof -
  have s: "isCommitted (ag_stopCtrl stopped_loop)" "ag_finishing stopped_loop = 0" "ag_pc stopped_loop = AtWait 7"
    "pc_pushInFlight (ag_preemptCtrl stopped_loop) = 1"
    by (simp_all add: stopped_loop_def isCommitted_def NewAgentLoop_def)
  show ?thesis using stop_exits [OF stopped_loop_reach s(1,2)] s stopped_loop_reach by simp
qed

theorem items_conserved_witness:
  "\<exists>l s. loop_reach demo_loop_env l \<and> ag_pc l = AtExit \<and> ag_accepted l = {#7#} \<and> ag_finished l = {#} \<and> ag_result l = Some s \<and>
    as_UnhandledItems s = [] \<and> ag_accepted l + ag_loaded l + ag_chosen l =
      ag_offered l + mset (as_UnhandledItems s) + mset (as_InterruptedItems s) +
      ag_finished l + ag_preempted l + ag_failed l + ag_discarded l + ag_dropped l +
      mset (tb_buf (ag_buffer l)) + resume_items (ag_pendingResume l)"
proof -
  from late_push_lost [of demo_loop_env 7] obtain l where l: "loses_item demo_loop_env 7 l" ..
  then have "loop_reach demo_loop_env l" "ag_pc l = AtExit" by (simp_all add: loses_item_def)
  from items_conserved [OF this] l show ?thesis by (auto simp: loses_item_def)
qed

end
