(* ===== verification/Cancel.thy ===== *)
theory Cancel
  imports Loop_Controls
begin

text \<open>
  The cancel contexts of agents (\<open>core/cancel.go\<close>): a state machine shared by goroutines that ask for
  cancellation, escalate it after a timeout, pass it on to the contexts of sub-agents, handle it, or end
  the run. The code synchronises with atomic variables, channels that are closed and two mutexes, so
  every function is a list of atomic instructions, and goroutines interleave between them. Calls become
  appended lists, a branch is an argument of the instruction that decides it. Closing a channel counts;
  a channel closed twice panics in Go, so the count must stay below two.
\<close>

subsection \<open>Contexts\<close>

datatype cancelState = stRunning | stCancelling | stDone | stCancelHandled

record AgentCancelInfo =
  ci_Mode :: CancelMode
  ci_Escalated :: bool
  ci_Timeout :: bool

datatype CancelHandle = HandleNil | HandleEnded | HandleWait

record cancelContext =
  cx_mode :: CancelMode
  cx_cancelChan :: nat
  cx_immediateChan :: nat
  cx_doneChan :: nat
  cx_doneOnce :: bool
  cx_state :: cancelState
  cx_interruptSent :: bool
  cx_escalated :: bool
  cx_timeoutEscalated :: bool
  cx_startedMode :: CancelMode
  cx_deadlineUnixNano :: int
  cx_recursive :: bool
  cx_recursiveChan :: nat
  cx_root :: bool
  cx_parent :: "nat option"
  cx_agentToolDescendant :: bool
  cx_cancelMu :: bool
  cx_timeoutOnce :: bool
  cx_timeoutNotify :: bool
  cx_mu :: bool
  cx_interruptFuncs :: "nat list"
  cx_called :: "nat list"
  cx_handled :: "AgentCancelInfo list"
  cx_sent :: "AgentCancelInfo list"
  cx_returned :: "(CancelHandle \<times> bool) list"

text \<open>
  The last four fields are ghosts: the interrupt callbacks that were called, the cancel errors that
  \<open>createAndMarkHandled\<close> returned together with true, the cancel errors that were sent to the client, and what calls
  of the cancel function returned.
\<close>

definition newCancelContext :: "nat option \<Rightarrow> cancelContext" where
  "newCancelContext par = \<lparr>cx_mode = 0, cx_cancelChan = 0, cx_immediateChan = 0, cx_doneChan = 0, cx_doneOnce = False,
     cx_state = stRunning, cx_interruptSent = False, cx_escalated = False, cx_timeoutEscalated = False,
     cx_startedMode = 0, cx_deadlineUnixNano = 0, cx_recursive = False, cx_recursiveChan = 0, cx_root = (par = None),
     cx_parent = par, cx_agentToolDescendant = False, cx_cancelMu = False, cx_timeoutOnce = False,
     cx_timeoutNotify = False, cx_mu = False, cx_interruptFuncs = [], cx_called = [], cx_handled = [], cx_sent = [], cx_returned = []\<rparr>"

definition shouldCancel :: "cancelContext \<Rightarrow> bool" where
  "shouldCancel c \<longleftrightarrow> 0 < cx_cancelChan c"

definition isImmediate :: "cancelContext \<Rightarrow> bool" where
  "isImmediate c \<longleftrightarrow> 0 < cx_immediateChan c"

subsection \<open>Instructions\<close>

text \<open>\<open>OtherCh\<close> stands for a timer, the context of the caller, or the inner iterator: it may be ready at any time.\<close>

datatype chan = CancelCh nat | ImmediateCh nat | RecursiveCh nat | DoneCh nat | NotifyCh nat | OtherCh

datatype proc = TimeoutLoop nat | IterLoop nat | MarkDescendant nat

datatype instr =
    Load nat "cancelContext \<Rightarrow> instr list"
  | Store nat "cancelContext \<Rightarrow> cancelContext"
  | CasState nat cancelState cancelState "instr list" "instr list"
  | CasRecursive nat "instr list"
  | CasInterrupt nat "instr list" "instr list"
  | CloseCancel nat
  | CloseImmediate nat
  | CloseRecursive nat
  | DoneOnce nat
  | Handled nat AgentCancelInfo
  | Lock nat
  | Unlock nat
  | LockMu nat
  | UnlockMu nat
  | StartOnce nat
  | Select "(chan \<times> instr list) list"
  | Call proc

type_synonym cheap = "nat \<Rightarrow> cancelContext"

primrec ready :: "chan \<Rightarrow> cheap \<Rightarrow> bool" where
  "ready (CancelCh i) h \<longleftrightarrow> 0 < cx_cancelChan (h i)"
| "ready (ImmediateCh i) h \<longleftrightarrow> 0 < cx_immediateChan (h i)"
| "ready (RecursiveCh i) h \<longleftrightarrow> 0 < cx_recursiveChan (h i)"
| "ready (DoneCh i) h \<longleftrightarrow> 0 < cx_doneChan (h i)"
| "ready (NotifyCh i) h \<longleftrightarrow> cx_timeoutNotify (h i)"
| "ready OtherCh h \<longleftrightarrow> True"

primrec take_from :: "chan \<Rightarrow> cheap \<Rightarrow> cheap" where
  "take_from (CancelCh i) h = h"
| "take_from (ImmediateCh i) h = h"
| "take_from (RecursiveCh i) h = h"
| "take_from (DoneCh i) h = h"
| "take_from (NotifyCh i) h = h(i := (h i)\<lparr>cx_timeoutNotify := False\<rparr>)"
| "take_from OtherCh h = h"

subsection \<open>The functions\<close>

definition setMode :: "nat \<Rightarrow> CancelMode \<Rightarrow> instr list" where
  "setMode i m = [Store i (\<lambda>c. c\<lparr>cx_mode := m\<rparr>)]"

definition setRecursive :: "nat \<Rightarrow> bool \<Rightarrow> instr list" where
  "setRecursive i v = (if v then [CasRecursive i [CloseRecursive i]] else [])"

definition markDone :: "nat \<Rightarrow> instr list" where
  "markDone i = [CasState i stRunning stDone [DoneOnce i] [CasState i stCancelling stDone [DoneOnce i] []]]"

text \<open>\<open>markHandled\<close>, continuing with one of two lists according to its result.\<close>

definition markHandled :: "nat \<Rightarrow> instr list \<Rightarrow> instr list \<Rightarrow> instr list" where
  "markHandled i yes no = [CasState i stCancelling stCancelHandled (DoneOnce i # yes) no]"

definition createError :: "nat \<Rightarrow> (AgentCancelInfo \<Rightarrow> instr list) \<Rightarrow> instr list" where
  "createError i k =
     [Load i (\<lambda>c. let m = cx_mode c in
       [Load i (\<lambda>c. if cx_escalated c
          then [Load i (\<lambda>c. k \<lparr>ci_Mode = m, ci_Escalated = True, ci_Timeout = cx_timeoutEscalated c\<rparr>)]
          else k \<lparr>ci_Mode = m, ci_Escalated = False, ci_Timeout = False\<rparr>)])]"

definition send_error :: "nat \<Rightarrow> AgentCancelInfo \<Rightarrow> instr list" where
  "send_error i info = [Store i (\<lambda>c. c\<lparr>cx_sent := cx_sent c @ [info]\<rparr>)]"

text \<open>
  \<open>createAndMarkHandled\<close>, continuing with the error if this call marked the context as handled, and otherwise
  with the second argument.
\<close>

definition createAndMarkHandled :: "nat \<Rightarrow> (AgentCancelInfo \<Rightarrow> instr list) \<Rightarrow> instr list \<Rightarrow> instr list" where
  "createAndMarkHandled i yes no =
     Lock i # createError i (\<lambda>info. markHandled i ([Unlock i, Handled i info] @ yes info) (Unlock i # no))"

text \<open>
  What a workflow does at its checks for a cancellation (the same lines in sequences, loops and parallel
  runs): when another goroutine has ended the context, it sends a cancel error of its own.
\<close>

definition workflow_cancelled :: "nat \<Rightarrow> instr list" where
  "workflow_cancelled i =
     [Load i (\<lambda>c. if shouldCancel c then createAndMarkHandled i (send_error i) (createError i (send_error i)) else [])]"

definition triggerCancel :: "nat \<Rightarrow> CancelMode \<Rightarrow> instr list" where
  "triggerCancel i m = setMode i m @ [CasState i stRunning stCancelling [CloseCancel i] []]"

definition sendInterrupt :: "nat \<Rightarrow> instr list" where
  "sendInterrupt i =
     [LockMu i,
      CasInterrupt i
        [CloseImmediate i,
         Load i (\<lambda>c. UnlockMu i # map (\<lambda>fn. Store i (\<lambda>c. c\<lparr>cx_called := cx_called c @ [fn]\<rparr>)) (cx_interruptFuncs c)),
         Load i (\<lambda>c. if cx_recursive c
           then [Load i (\<lambda>c. if cx_agentToolDescendant c then [Select [(DoneCh i, []), (OtherCh, [])]] else [])]
           else [])]
        [UnlockMu i]]"

definition triggerImmediate :: "nat \<Rightarrow> instr list" where
  "triggerImmediate i =
     Store i (\<lambda>c. c\<lparr>cx_escalated := True\<rparr>) # setMode i CancelImmediate @
     [CasState i stRunning stCancelling [CloseCancel i] []] @ sendInterrupt i"

definition derive_cancel :: "nat \<Rightarrow> nat \<Rightarrow> instr list" where
  "derive_cancel p c =
     (let pass = setRecursive c True @ [Load p (\<lambda>cc. triggerCancel c (cx_mode cc))]
      in [Select
           [(CancelCh p, [Load p (\<lambda>cc. if cx_recursive cc then pass
               else [Select [(RecursiveCh p, pass), (DoneCh c, []), (OtherCh, [])]])]),
            (DoneCh c, []), (OtherCh, [])]])"

definition derive_immediate :: "nat \<Rightarrow> nat \<Rightarrow> instr list" where
  "derive_immediate p c =
     (let pass = setRecursive c True @ triggerImmediate c
      in [Select
           [(ImmediateCh p, [Load p (\<lambda>cc. if cx_recursive cc then pass
               else [Select [(RecursiveCh p, pass), (DoneCh c, []), (OtherCh, [])]])]),
            (DoneCh c, []), (OtherCh, [])]])"

definition join_mode :: "CancelMode \<Rightarrow> CancelMode \<Rightarrow> CancelMode" where
  "join_mode a b = (if a = CancelImmediate \<or> b = CancelImmediate then CancelImmediate else a OR b)"

definition deadline_min :: "int \<Rightarrow> int \<Rightarrow> int" where
  "deadline_min cur nxt = (if cur \<noteq> 0 \<and> cur \<le> nxt then cur else nxt)"

definition return_handle :: "nat \<Rightarrow> CancelHandle \<Rightarrow> bool \<Rightarrow> instr" where
  "return_handle i res contributed = Store i (\<lambda>c. c\<lparr>cx_returned := cx_returned c @ [(res, contributed)]\<rparr>)"

text \<open>The end of the cancel function: what the request asks for beyond the mode.\<close>

definition cancel_rest :: "nat \<Rightarrow> cancelConfig \<Rightarrow> int \<Rightarrow> instr list" where
  "cancel_rest i req now =
     [Load i (\<lambda>c. if cx_mode c = CancelImmediate
        then Unlock i # triggerImmediate i @ [return_handle i HandleWait True]
        else case cn_Timeout req of
               Some d \<Rightarrow> if 0 < d
                 then [Store i (\<lambda>c. c\<lparr>cx_deadlineUnixNano := deadline_min (cx_deadlineUnixNano c) (now + d)\<rparr>),
                       Store i (\<lambda>c. c\<lparr>cx_timeoutNotify := True\<rparr>), Unlock i, StartOnce i, return_handle i HandleWait True]
                 else [Unlock i, return_handle i HandleWait True]
             | None \<Rightarrow> [Unlock i, return_handle i HandleWait True])]"

definition cancel_locked :: "nat \<Rightarrow> cancelConfig \<Rightarrow> int \<Rightarrow> cancelState \<Rightarrow> instr list" where
  "cancel_locked i req now st =
     (case st of
        stCancelHandled \<Rightarrow> [Unlock i, return_handle i HandleNil False]
      | stDone \<Rightarrow> [Unlock i, return_handle i HandleEnded False]
      | stRunning \<Rightarrow>
          [CasState i stRunning stCancelling
             (setMode i (cn_Mode req) @ [Store i (\<lambda>c. c\<lparr>cx_startedMode := cn_Mode req\<rparr>)] @
              setRecursive i (cn_Recursive req) @ [CloseCancel i] @ cancel_rest i req now)
             [Load i (\<lambda>c. Unlock i # (if cx_state c = stDone then [return_handle i HandleEnded False]
                                       else [return_handle i HandleWait True]))]]
      | stCancelling \<Rightarrow>
          [Load i (\<lambda>c. setMode i (join_mode (cx_mode c) (cn_Mode req)))] @
          setRecursive i (cn_Recursive req) @ cancel_rest i req now)"

definition buildCancelFunc :: "nat \<Rightarrow> CancelOption list \<Rightarrow> int \<Rightarrow> instr list" where
  "buildCancelFunc i opts now =
     [Load i (\<lambda>c. case cx_state c of
        stCancelHandled \<Rightarrow> [return_handle i HandleNil False]
      | stDone \<Rightarrow> [return_handle i HandleEnded False]
      | _ \<Rightarrow> [Lock i, Load i (\<lambda>c. cancel_locked i (parseCancelOptions opts) now (cx_state c))])]"

text \<open>What the handle's \<open>Wait\<close> returns once the run has ended; \<open>None\<close> while it blocks.\<close>

definition waitDone :: "cancelContext \<Rightarrow> string option option" where
  "waitDone c =
     (if cx_doneChan c = 0 then None
      else Some (if cx_state c = stDone then Some ''execution already ended''
                 else if cx_timeoutEscalated c then Some ''cancel timed out'' else None))"

definition SetGraphInterruptFunc :: "nat \<Rightarrow> nat \<Rightarrow> instr list" where
  "SetGraphInterruptFunc i fn =
     [LockMu i, Store i (\<lambda>c. c\<lparr>cx_interruptFuncs := cx_interruptFuncs c @ [fn]\<rparr>), UnlockMu i]"

definition InterruptFromGraph :: "nat \<Rightarrow> CancelMode \<Rightarrow> int \<Rightarrow> bool \<Rightarrow> int \<Rightarrow> instr list" where
  "InterruptFromGraph i md timeout recursive now =
     [Lock i,
      Load i (\<lambda>c. if cx_state c \<noteq> stRunning then [Unlock i]
        else [CasState i stRunning stCancelling
                (setMode i md @ setRecursive i recursive @ [CloseCancel i] @
                 (if md = CancelImmediate then triggerImmediate i
                  else if 0 < timeout
                  then [Store i (\<lambda>c. c\<lparr>cx_deadlineUnixNano := now + timeout\<rparr>), StartOnce i] else []) @ [Unlock i])
                [Unlock i]])]"

text \<open>
  The loops. The timer of \<open>startTimeout\<close> and its check that the deadline has passed are \<open>OtherCh\<close>. The
  iterator that watches a run ends, reports an interrupt, or passes an event on.
\<close>

definition timeout_fires :: "nat \<Rightarrow> instr list" where
  "timeout_fires i =
     [Store i (\<lambda>c. c\<lparr>cx_escalated := True\<rparr>), Store i (\<lambda>c. c\<lparr>cx_timeoutEscalated := True\<rparr>)] @ triggerImmediate i"

definition iter_end :: "nat \<Rightarrow> instr list" where
  "iter_end i =
     [Load i (\<lambda>c. if cx_root c \<and> shouldCancel c then createAndMarkHandled i (send_error i) [] @ markDone i
        else [Load i (\<lambda>c. if shouldCancel c then markDone i else [])])]"

definition iter_interrupted :: "nat \<Rightarrow> instr list" where
  "iter_interrupted i =
     [Load i (\<lambda>c. if cx_root c \<and> shouldCancel c then createAndMarkHandled i (send_error i) [] else [Call (IterLoop i)])]"

primrec body :: "proc \<Rightarrow> instr list" where
  "body (TimeoutLoop i) =
     [Load i (\<lambda>c. if 0 < cx_doneChan c then []
        else [Load i (\<lambda>c. if cx_deadlineUnixNano c = 0 then []
          else [Select [(OtherCh, timeout_fires i), (NotifyCh i, [Call (TimeoutLoop i)]), (DoneCh i, [])]])])]"
| "body (IterLoop i) =
     [Select [(OtherCh, iter_end i), (OtherCh, iter_interrupted i), (OtherCh, [Call (IterLoop i)])]]"
| "body (MarkDescendant i) =
     [Store i (\<lambda>c. c\<lparr>cx_agentToolDescendant := True\<rparr>),
      Load i (\<lambda>c. case cx_parent c of Some p \<Rightarrow> [Call (MarkDescendant p)] | None \<Rightarrow> [])]"

subsection \<open>Execution\<close>

text \<open>
  The possible outcomes of an instruction: the new contexts, what the goroutine does next, and the
  goroutines it starts. An instruction that waits has no outcome.
\<close>

primrec exec :: "instr \<Rightarrow> cheap \<Rightarrow> (cheap \<times> instr list \<times> instr list list) list" where
  "exec (Load i f) h = [(h, f (h i), [])]"
| "exec (Store i f) h = [(h(i := f (h i)), [], [])]"
| "exec (CasState i a b yes no) h =
     [if cx_state (h i) = a then (h(i := (h i)\<lparr>cx_state := b\<rparr>), yes, []) else (h, no, [])]"
| "exec (CasRecursive i yes) h =
     [if cx_recursive (h i) then (h, [], []) else (h(i := (h i)\<lparr>cx_recursive := True\<rparr>), yes, [])]"
| "exec (CasInterrupt i yes no) h =
     [if cx_interruptSent (h i) then (h, no, []) else (h(i := (h i)\<lparr>cx_interruptSent := True\<rparr>), yes, [])]"
| "exec (CloseCancel i) h = [(h(i := (h i)\<lparr>cx_cancelChan := cx_cancelChan (h i) + 1\<rparr>), [], [])]"
| "exec (CloseImmediate i) h = [(h(i := (h i)\<lparr>cx_immediateChan := cx_immediateChan (h i) + 1\<rparr>), [], [])]"
| "exec (CloseRecursive i) h = [(h(i := (h i)\<lparr>cx_recursiveChan := cx_recursiveChan (h i) + 1\<rparr>), [], [])]"
| "exec (DoneOnce i) h =
     [if cx_doneOnce (h i) then (h, [], [])
      else (h(i := (h i)\<lparr>cx_doneOnce := True, cx_doneChan := cx_doneChan (h i) + 1\<rparr>), [], [])]"
| "exec (Handled i info) h = [(h(i := (h i)\<lparr>cx_handled := cx_handled (h i) @ [info]\<rparr>), [], [])]"
| "exec (Lock i) h = (if cx_cancelMu (h i) then [] else [(h(i := (h i)\<lparr>cx_cancelMu := True\<rparr>), [], [])])"
| "exec (Unlock i) h = [(h(i := (h i)\<lparr>cx_cancelMu := False\<rparr>), [], [])]"
| "exec (LockMu i) h = (if cx_mu (h i) then [] else [(h(i := (h i)\<lparr>cx_mu := True\<rparr>), [], [])])"
| "exec (UnlockMu i) h = [(h(i := (h i)\<lparr>cx_mu := False\<rparr>), [], [])]"
| "exec (StartOnce i) h =
     [if cx_timeoutOnce (h i) then (h, [], [])
      else (h(i := (h i)\<lparr>cx_timeoutOnce := True\<rparr>), [], [[Call (TimeoutLoop i)]])]"
| "exec (Select cs) h = concat (map (\<lambda>(ch, k). if ready ch h then [(take_from ch h, k, [])] else []) cs)"
| "exec (Call p) h = [(h, body p, [])]"

text \<open>
  The calls a program can make: \<open>par\<close> gives the parent of a context that was derived for a sub-agent. The
  cancel function and the graph's interrupts belong to contexts of their own.
\<close>

inductive api :: "(nat \<Rightarrow> nat option) \<Rightarrow> instr list \<Rightarrow> bool" for par where
  "par i = None \<Longrightarrow> api par (buildCancelFunc i opts now)"
| "par i = None \<Longrightarrow> api par (InterruptFromGraph i md timeout recursive now)"
| "api par (markDone i)"
| "api par (markHandled i [] [])"
| "api par (createAndMarkHandled i (\<lambda>_. []) [])"
| "api par (workflow_cancelled i)"
| "api par (SetGraphInterruptFunc i fn)"
| "api par [Call (IterLoop i)]"
| "api par [Call (MarkDescendant i)]"
| "par c = Some p \<Longrightarrow> api par (derive_cancel p c)"
| "par c = Some p \<Longrightarrow> api par (derive_immediate p c)"

record CancelSys =
  y_heap :: cheap
  y_threads :: "instr list multiset"

inductive cancel_step :: "(nat \<Rightarrow> nat option) \<Rightarrow> CancelSys \<Rightarrow> CancelSys \<Rightarrow> bool" for par where
  run: "y_threads y = add_mset (i # k) T \<Longrightarrow> (h', js, sp) \<in> set (exec i (y_heap y)) \<Longrightarrow>
    cancel_step par y \<lparr>y_heap = h', y_threads = add_mset (js @ k) T + mset sp\<rparr>"
| call: "api par t \<Longrightarrow> cancel_step par y (y\<lparr>y_threads := add_mset t (y_threads y)\<rparr>)"

inductive cancel_reach :: "(nat \<Rightarrow> nat option) \<Rightarrow> CancelSys \<Rightarrow> bool" for par where
  init: "cancel_reach par \<lparr>y_heap = (\<lambda>i. newCancelContext (par i)), y_threads = {#}\<rparr>"
| step: "cancel_reach par y \<Longrightarrow> cancel_step par y y' \<Longrightarrow> cancel_reach par y'"

end
