(* ===== verification/Cancel_Props.thy ===== *)
theory Cancel_Props
  imports Cancel
begin

text \<open>
  Properties of cancel contexts under every interleaving. The right to close a channel, or to report a
  cancellation, is a token that the winner of a compare-and-swap gets; a typing of instruction lists
  shows that every function uses only what it has won, and what a goroutine has learned about a context
  (it is no longer running, its cancellation is recursive) stays true. Hence no channel is closed twice,
  a run ends in exactly one way, and a sub-agent is cancelled only when its parent is, recursively.
\<close>

subsection \<open>Tokens\<close>

datatype token = TCancel nat | TImmediate nat | TRecursive nat | TDone nat | THandled nat

primrec tok :: "instr \<Rightarrow> token multiset" where
  "tok (Load i f) = {#}"
| "tok (Store i f) = {#}"
| "tok (CasState i a b yes no) = {#}"
| "tok (CasRecursive i yes) = {#}"
| "tok (CasInterrupt i yes no) = {#}"
| "tok (CloseCancel i) = {#TCancel i#}"
| "tok (CloseImmediate i) = {#TImmediate i#}"
| "tok (CloseRecursive i) = {#TRecursive i#}"
| "tok (DoneOnce i) = {#TDone i#}"
| "tok (Handled i info) = {#THandled i#}"
| "tok (Lock i) = {#}"
| "tok (Unlock i) = {#}"
| "tok (LockMu i) = {#}"
| "tok (UnlockMu i) = {#}"
| "tok (StartOnce i) = {#}"
| "tok (Select cs) = {#}"
| "tok (Call p) = {#}"

primrec toks :: "instr list \<Rightarrow> token multiset" where
  "toks [] = {#}"
| "toks (i # is) = tok i + toks is"

lemma toks_append [simp]: "toks (xs @ ys) = toks xs + toks ys"
  by (induction xs) (simp_all add: ac_simps)

lemma toks_stores [simp]: "toks (map (\<lambda>fn. Store i (f fn)) fns) = {#}"
  by (induction fns) simp_all

text \<open>What a context allows and what has been used of it.\<close>

primrec limit :: "token \<Rightarrow> cheap \<Rightarrow> nat" where
  "limit (TCancel i) h = (if cx_state (h i) = stRunning then 0 else 1)"
| "limit (TImmediate i) h = (if cx_interruptSent (h i) then 1 else 0)"
| "limit (TRecursive i) h = (if cx_recursive (h i) then 1 else 0)"
| "limit (TDone i) h = (if cx_state (h i) \<in> {stDone, stCancelHandled} then 1 else 0)"
| "limit (THandled i) h = (if cx_state (h i) = stCancelHandled then 1 else 0)"

primrec used :: "token \<Rightarrow> cheap \<Rightarrow> nat" where
  "used (TCancel i) h = cx_cancelChan (h i)"
| "used (TImmediate i) h = cx_immediateChan (h i)"
| "used (TRecursive i) h = cx_recursiveChan (h i)"
| "used (TDone i) h = cx_doneChan (h i)"
| "used (THandled i) h = length (cx_handled (h i))"

definition grant :: "nat \<Rightarrow> cancelState \<Rightarrow> token multiset" where
  "grant i b = (case b of
     stRunning \<Rightarrow> {#} | stCancelling \<Rightarrow> {#TCancel i#} | stDone \<Rightarrow> {#TDone i#} | stCancelHandled \<Rightarrow> {#TDone i, THandled i#})"

lemma grant_simps [simp]:
  "grant i stRunning = {#}" "grant i stCancelling = {#TCancel i#}" "grant i stDone = {#TDone i#}"
  "grant i stCancelHandled = {#TDone i, THandled i#}"
  by (simp_all add: grant_def)

subsection \<open>Typing of instruction lists\<close>

text \<open>Facts a goroutine can rely on once it has learned them.\<close>

datatype fact = NotRunning nat | Recursive nat

primrec holds :: "cheap \<Rightarrow> fact \<Rightarrow> bool" where
  "holds h (NotRunning i) \<longleftrightarrow> cx_state (h i) \<noteq> stRunning"
| "holds h (Recursive i) \<longleftrightarrow> cx_recursive (h i)"

definition learned :: "nat \<Rightarrow> cancelContext \<Rightarrow> fact set" where
  "learned i c = (if cx_recursive c then {Recursive i} else {}) \<union> (if cx_state c \<noteq> stRunning then {NotRunning i} else {})"

primrec told :: "chan \<Rightarrow> fact set" where
  "told (CancelCh i) = {NotRunning i}"
| "told (ImmediateCh i) = {NotRunning i}"
| "told (RecursiveCh i) = {Recursive i}"
| "told (DoneCh i) = {}"
| "told (NotifyCh i) = {}"
| "told OtherCh = {}"

text \<open>A store that leaves what the tokens and facts are about.\<close>

definition benign :: "(cancelContext \<Rightarrow> cancelContext) \<Rightarrow> bool" where
  "benign f \<longleftrightarrow> (\<forall>c. cx_state (f c) = cx_state c \<and> cx_recursive (f c) = cx_recursive c \<and>
     cx_interruptSent (f c) = cx_interruptSent c \<and> cx_cancelChan (f c) = cx_cancelChan c \<and>
     cx_immediateChan (f c) = cx_immediateChan c \<and> cx_recursiveChan (f c) = cx_recursiveChan c \<and>
     cx_doneChan (f c) = cx_doneChan c \<and> cx_handled (f c) = cx_handled c \<and> cx_parent (f c) = cx_parent c)"

definition may_cancel :: "(nat \<Rightarrow> nat option) \<Rightarrow> fact set \<Rightarrow> nat \<Rightarrow> bool" where
  "may_cancel par K i \<longleftrightarrow> (\<forall>p. par i = Some p \<longrightarrow> Recursive p \<in> K \<and> NotRunning p \<in> K)"

definition transition :: "cancelState \<Rightarrow> cancelState \<Rightarrow> bool" where
  "transition a b \<longleftrightarrow> (a, b) \<in> {(stRunning, stCancelling), (stRunning, stDone), (stCancelling, stDone), (stCancelling, stCancelHandled)}"

definition not_running :: "cancelState \<Rightarrow> nat \<Rightarrow> fact set" where
  "not_running a i = (if a = stRunning then {NotRunning i} else {})"

primrec root_only :: "(nat \<Rightarrow> nat option) \<Rightarrow> proc \<Rightarrow> bool" where
  "root_only par (TimeoutLoop i) \<longleftrightarrow> par i = None"
| "root_only par (IterLoop i) \<longleftrightarrow> True"
| "root_only par (MarkDescendant i) \<longleftrightarrow> True"

inductive okl :: "(nat \<Rightarrow> nat option) \<Rightarrow> fact set \<Rightarrow> instr list \<Rightarrow> bool" for par where
  ok_Nil: "okl par K []"
| ok_Load: "(\<And>c. toks (f c) = {#} \<and> okl par (K \<union> learned i c) (f c @ k)) \<Longrightarrow> okl par K (Load i f # k)"
| ok_Store: "benign f \<Longrightarrow> okl par K k \<Longrightarrow> okl par K (Store i f # k)"
| ok_CasState: "transition a b \<Longrightarrow> (b = stCancelling \<Longrightarrow> may_cancel par K i) \<Longrightarrow> toks yes \<subseteq># grant i b \<Longrightarrow> toks no = {#} \<Longrightarrow>
    okl par (K \<union> {NotRunning i}) (yes @ k) \<Longrightarrow> okl par (K \<union> not_running a i) (no @ k) \<Longrightarrow>
    okl par K (CasState i a b yes no # k)"
| ok_CasRecursive: "toks yes \<subseteq># {#TRecursive i#} \<Longrightarrow> okl par K (yes @ k) \<Longrightarrow> okl par K k \<Longrightarrow> okl par K (CasRecursive i yes # k)"
| ok_CasInterrupt: "toks yes \<subseteq># {#TImmediate i#} \<Longrightarrow> toks no = {#} \<Longrightarrow> NotRunning i \<in> K \<Longrightarrow>
    okl par K (yes @ k) \<Longrightarrow> okl par K (no @ k) \<Longrightarrow> okl par K (CasInterrupt i yes no # k)"
| ok_CloseCancel: "may_cancel par K i \<Longrightarrow> okl par K k \<Longrightarrow> okl par K (CloseCancel i # k)"
| ok_CloseImmediate: "okl par K k \<Longrightarrow> okl par K (CloseImmediate i # k)"
| ok_CloseRecursive: "okl par K k \<Longrightarrow> okl par K (CloseRecursive i # k)"
| ok_DoneOnce: "okl par K k \<Longrightarrow> okl par K (DoneOnce i # k)"
| ok_Handled: "okl par K k \<Longrightarrow> okl par K (Handled i info # k)"
| ok_Lock: "okl par K k \<Longrightarrow> okl par K (Lock i # k)"
| ok_Unlock: "okl par K k \<Longrightarrow> okl par K (Unlock i # k)"
| ok_LockMu: "okl par K k \<Longrightarrow> okl par K (LockMu i # k)"
| ok_UnlockMu: "okl par K k \<Longrightarrow> okl par K (UnlockMu i # k)"
| ok_StartOnce: "par i = None \<Longrightarrow> okl par K k \<Longrightarrow> okl par K (StartOnce i # k)"
| ok_Select: "(\<And>ch js. (ch, js) \<in> set cs \<Longrightarrow> toks js = {#} \<and> okl par (K \<union> told ch) (js @ k)) \<Longrightarrow> okl par K (Select cs # k)"
| ok_Call: "root_only par p \<Longrightarrow> okl par K k \<Longrightarrow> okl par K (Call p # k)"

inductive_simps okl_Nil [simp]: "okl par K []"
inductive_simps okl_Load [simp]: "okl par K (Load i f # k)"
inductive_simps okl_Store [simp]: "okl par K (Store i f # k)"
inductive_simps okl_CasState [simp]: "okl par K (CasState i a b yes no # k)"
inductive_simps okl_CasRecursive [simp]: "okl par K (CasRecursive i yes # k)"
inductive_simps okl_CasInterrupt [simp]: "okl par K (CasInterrupt i yes no # k)"
inductive_simps okl_CloseCancel [simp]: "okl par K (CloseCancel i # k)"
inductive_simps okl_CloseImmediate [simp]: "okl par K (CloseImmediate i # k)"
inductive_simps okl_CloseRecursive [simp]: "okl par K (CloseRecursive i # k)"
inductive_simps okl_DoneOnce [simp]: "okl par K (DoneOnce i # k)"
inductive_simps okl_Handled [simp]: "okl par K (Handled i info # k)"
inductive_simps okl_Lock [simp]: "okl par K (Lock i # k)"
inductive_simps okl_Unlock [simp]: "okl par K (Unlock i # k)"
inductive_simps okl_LockMu [simp]: "okl par K (LockMu i # k)"
inductive_simps okl_UnlockMu [simp]: "okl par K (UnlockMu i # k)"
inductive_simps okl_StartOnce [simp]: "okl par K (StartOnce i # k)"
inductive_simps okl_Select [simp]: "okl par K (Select cs # k)"
inductive_simps okl_Call [simp]: "okl par K (Call p # k)"

text \<open>More facts do no harm, and lists can be joined.\<close>

lemma okl_mono: "okl par K xs \<Longrightarrow> K \<subseteq> K' \<Longrightarrow> okl par K' xs"
proof (induction arbitrary: K' rule: okl.induct)
  case (ok_Load f K i k)
  then have "\<And>c. toks (f c) = {#} \<and> okl par (K' \<union> learned i c) (f c @ k)" by (meson Un_mono order_refl)
  then show ?case by simp
next
  case (ok_Select cs K k)
  then have "\<And>ch js. (ch, js) \<in> set cs \<Longrightarrow> toks js = {#} \<and> okl par (K' \<union> told ch) (js @ k)" by (meson Un_mono order_refl)
  then show ?case by simp
next
  case (ok_CasState a b K i yes no k)
  then have "okl par (K' \<union> {NotRunning i}) (yes @ k)" "okl par (K' \<union> not_running a i) (no @ k)"
    "b = stCancelling \<Longrightarrow> may_cancel par K' i" by (meson Un_mono order_refl, meson Un_mono order_refl, auto simp: may_cancel_def)
  with ok_CasState.hyps show ?case by simp
next
  case (ok_CloseCancel K i k)
  then show ?case by (auto simp: may_cancel_def)
qed auto

lemma okl_append: "okl par K xs \<Longrightarrow> okl par K ys \<Longrightarrow> okl par K (xs @ ys)"
proof (induction rule: okl.induct)
  case (ok_Load f K i k)
  then have "\<And>c. okl par (K \<union> learned i c) ys" by (blast intro: okl_mono)
  with ok_Load have "\<And>c. toks (f c) = {#} \<and> okl par (K \<union> learned i c) (f c @ k @ ys)" by simp
  then show ?case by simp
next
  case (ok_Select cs K k)
  then have "\<And>ch. okl par (K \<union> told ch) ys" by (blast intro: okl_mono)
  with ok_Select have "\<And>ch js. (ch, js) \<in> set cs \<Longrightarrow> toks js = {#} \<and> okl par (K \<union> told ch) (js @ k @ ys)" by simp
  then show ?case by simp
next
  case (ok_CasState a b K i yes no k)
  then have "okl par (K \<union> {NotRunning i}) ys" "okl par (K \<union> not_running a i) ys" by (blast intro: okl_mono)+
  with ok_CasState show ?case by simp
qed simp_all

subsection \<open>The functions are well typed\<close>

lemmas prog_defs = setMode_def setRecursive_def markDone_def markHandled_def createError_def createAndMarkHandled_def
  triggerCancel_def sendInterrupt_def triggerImmediate_def derive_cancel_def derive_immediate_def return_handle_def
  timeout_fires_def iter_end_def iter_interrupted_def SetGraphInterruptFunc_def send_error_def
  workflow_cancelled_def Let_def

lemma benign_simps [simp]:
  "benign (\<lambda>c. c\<lparr>cx_mode := m\<rparr>)" "benign (\<lambda>c. c\<lparr>cx_escalated := b\<rparr>)" "benign (\<lambda>c. c\<lparr>cx_timeoutEscalated := b\<rparr>)"
  "benign (\<lambda>c. c\<lparr>cx_startedMode := m\<rparr>)" "benign (\<lambda>c. c\<lparr>cx_deadlineUnixNano := g c\<rparr>)" "benign (\<lambda>c. c\<lparr>cx_timeoutNotify := b\<rparr>)"
  "benign (\<lambda>c. c\<lparr>cx_called := cs c\<rparr>)" "benign (\<lambda>c. c\<lparr>cx_returned := rs c\<rparr>)" "benign (\<lambda>c. c\<lparr>cx_interruptFuncs := fs c\<rparr>)"
  "benign (\<lambda>c. c\<lparr>cx_agentToolDescendant := b\<rparr>)" "benign (\<lambda>c. c\<lparr>cx_sent := es c\<rparr>)"
  by (simp_all add: benign_def)

lemma transition_simps [simp]:
  "transition stRunning stCancelling" "transition stRunning stDone" "transition stCancelling stDone"
  "transition stCancelling stCancelHandled"
  by (simp_all add: transition_def)

lemma may_cancel_root [simp]: "par i = None \<Longrightarrow> may_cancel par K i"
  by (simp add: may_cancel_def)

lemma may_cancel_child: "par i = Some p \<Longrightarrow> Recursive p \<in> K \<Longrightarrow> NotRunning p \<in> K \<Longrightarrow> may_cancel par K i"
  by (simp add: may_cancel_def)

lemma okl_stores [simp]: "okl par K (map (\<lambda>fn. Store i (\<lambda>c. c\<lparr>cx_called := cx_called c @ [fn]\<rparr>)) fns @ k) = okl par K k"
  by (induction fns) simp_all

lemma ok_sendInterrupt: "NotRunning i \<in> K \<Longrightarrow> okl par K (sendInterrupt i)"
  by (auto simp: sendInterrupt_def)

lemma may_cancel_insert [simp]: "may_cancel par K i \<Longrightarrow> may_cancel par (insert f K) i"
  by (auto simp: may_cancel_def)

lemma ok_triggerImmediate: "may_cancel par K i \<Longrightarrow> okl par K (triggerImmediate i)"
  using ok_sendInterrupt [of i "insert (NotRunning i) K" par]
  by (auto simp: triggerImmediate_def setMode_def not_running_def insert_commute)

lemma ok_setRecursive [simp]: "okl par K (setRecursive i v @ k) = okl par K k"
  by (auto simp: setRecursive_def)

lemma ok_setMode [simp]: "okl par K (setMode i m @ k) = okl par K k" "okl par K (setMode i m)"
  by (simp_all add: setMode_def)

lemma toks_prog [simp]:
  "toks (setMode i m) = {#}" "toks (triggerImmediate i) = {#}" "toks (setRecursive i v) = {#}" "toks (markDone i) = {#}"
  "toks (createAndMarkHandled i yes no) = {#}" "toks (cancel_rest i req now) = {#}" "tok (return_handle i res b) = {#}"
  "toks (triggerCancel i m) = {#}" "toks (timeout_fires i) = {#}" "toks (iter_end i) = {#}" "toks (iter_interrupted i) = {#}"
  by (simp_all add: prog_defs cancel_rest_def)

lemma toks_cancel_locked [simp]: "toks (cancel_locked i req now st) = {#}"
  by (cases st) (simp_all add: cancel_locked_def)

lemma toks_body [simp]: "toks (body p) = {#}"
  by (cases p) simp_all

lemma ok_markDone [simp]: "okl par K (markDone i)"
  by (simp add: markDone_def)

lemma ok_createError: "(\<And>info K. toks (k info) = {#} \<and> okl par K (k info)) \<Longrightarrow> okl par K (createError i k)"
  by (simp add: createError_def Let_def)

lemma ok_createAndMarkHandled:
  assumes "\<And>info K. okl par K (yes info)" "\<And>info. toks (yes info) = {#}" "\<And>K. okl par K no" "toks no = {#}"
  shows "okl par K (createAndMarkHandled i yes no)"
  using assms by (simp add: createAndMarkHandled_def createError_def markHandled_def Let_def)

lemma ok_send_error [simp]: "okl par K (send_error i info)" "toks (send_error i info) = {#}"
  by (simp_all add: send_error_def)

lemma toks_createError [simp]: "toks (createError i k) = {#}"
  by (simp add: createError_def)

lemma ok_workflow_cancelled: "okl par K (workflow_cancelled i)"
  by (auto simp: workflow_cancelled_def intro!: ok_createAndMarkHandled ok_createError)

lemma ok_cancel_rest: "par i = None \<Longrightarrow> okl par K (cancel_rest i req now)"
  by (auto simp: cancel_rest_def return_handle_def ok_triggerImmediate okl_append split: option.split)

lemma ok_cancel_locked: "par i = None \<Longrightarrow> okl par K (cancel_locked i req now st)"
  by (auto simp: cancel_locked_def return_handle_def ok_cancel_rest split: cancelState.split)

lemma ok_buildCancelFunc: "par i = None \<Longrightarrow> okl par K (buildCancelFunc i opts now)"
  by (auto simp: buildCancelFunc_def return_handle_def ok_cancel_locked split: cancelState.split)

lemma ok_InterruptFromGraph: "par i = None \<Longrightarrow> okl par K (InterruptFromGraph i md timeout recursive now)"
  by (auto simp: InterruptFromGraph_def ok_triggerImmediate okl_append)

lemma ok_body: "root_only par p \<Longrightarrow> okl par K (body p)"
  by (cases p)
    (auto simp: timeout_fires_def iter_end_def iter_interrupted_def ok_triggerImmediate okl_append ok_createAndMarkHandled
      split: option.split)

lemma ok_triggerCancel: "may_cancel par K i \<Longrightarrow> okl par K (triggerCancel i m)"
  by (simp add: triggerCancel_def)

lemma ok_derive_cancel:
  assumes "par c = Some p"
  shows "okl par K (derive_cancel p c)"
  using assms by (auto simp: derive_cancel_def Let_def learned_def intro!: ok_triggerCancel may_cancel_child)

lemma ok_derive_immediate:
  assumes "par c = Some p"
  shows "okl par K (derive_immediate p c)"
  using assms by (auto simp: derive_immediate_def Let_def learned_def intro!: ok_triggerImmediate may_cancel_child)

lemma api_ok: "api par t \<Longrightarrow> okl par {} t"
  by (induction rule: api.induct)
    (simp_all add: ok_buildCancelFunc ok_InterruptFromGraph markHandled_def SetGraphInterruptFunc_def
      ok_derive_cancel ok_derive_immediate ok_createAndMarkHandled ok_workflow_cancelled)

lemma api_toks: "api par t \<Longrightarrow> toks t = {#}"
  by (induction rule: api.induct)
    (simp_all add: buildCancelFunc_def InterruptFromGraph_def markHandled_def SetGraphInterruptFunc_def
      derive_cancel_def derive_immediate_def workflow_cancelled_def Let_def)

subsection \<open>Steps keep the invariant\<close>

definition interrupts_late :: "cheap \<Rightarrow> bool" where
  "interrupts_late h \<longleftrightarrow> (\<forall>i. cx_interruptSent (h i) \<longrightarrow> cx_state (h i) \<noteq> stRunning)"

definition children_follow :: "(nat \<Rightarrow> nat option) \<Rightarrow> cheap \<Rightarrow> bool" where
  "children_follow par h \<longleftrightarrow> (\<forall>c p. par c = Some p \<and> (cx_state (h c) \<in> {stCancelling, stCancelHandled} \<or> 0 < cx_cancelChan (h c)) \<longrightarrow>
     cx_recursive (h p) \<and> cx_state (h p) \<noteq> stRunning)"

lemma exec_persist:
  assumes "okl par K (i # k)" "(h', js, sp) \<in> set (exec i h)" "holds h f"
  shows "holds h' f"
proof (cases i)
  case (Select cs)
  with assms(2) obtain ch where "h' = take_from ch h" by (auto split: if_splits)
  then show ?thesis using assms(3) by (cases f; cases ch) auto
qed (use assms in \<open>cases f; auto simp: benign_def transition_def split: if_splits\<close>)+

lemma exec_spawned:
  assumes "okl par K (i # k)" "(h', js, sp) \<in> set (exec i h)" "t \<in> set sp"
  shows "okl par {} t \<and> toks t = {#}"
  using assms by (cases i) (auto split: if_splits)

lemma exec_ok:
  assumes "okl par K (i # k)" "\<forall>f\<in>K. holds h f" "\<And>x. used x h \<le> limit x h" "interrupts_late h"
    and "(h', js, sp) \<in> set (exec i h)"
  shows "\<exists>K'. (\<forall>f\<in>K'. holds h' f) \<and> okl par K' (js @ k)"
proof -
  have kept: "\<forall>f\<in>K. holds h' f" using assms(2) exec_persist [OF assms(1,5)] by blast
  show ?thesis
  proof (cases i)
    case (Load j f)
    with assms(5) have "h' = h" "js = f (h j)" by simp_all
    with Load assms(1,2) show ?thesis by (intro exI [of _ "K \<union> learned j (h j)"]) (auto simp: learned_def)
  next
    case (CasState j a b yes no)
    show ?thesis
    proof (cases "cx_state (h j) = a")
      case True
      with CasState assms(1,5) kept show ?thesis
        by (intro exI [of _ "K \<union> {NotRunning j}"]) (auto simp: transition_def)
    next
      case False
      with CasState assms(1,5) kept show ?thesis
        by (intro exI [of _ "K \<union> not_running a j"]) (auto simp: not_running_def)
    qed
  next
    case (Select cs)
    with assms(5) obtain ch where ch: "(ch, js) \<in> set cs" "ready ch h" "h' = take_from ch h" by (auto split: if_splits)
    have "0 < cx_cancelChan (h j) \<Longrightarrow> cx_state (h j) \<noteq> stRunning" "0 < cx_recursiveChan (h j) \<Longrightarrow> cx_recursive (h j)"
      "0 < cx_immediateChan (h j) \<Longrightarrow> cx_interruptSent (h j)" for j
      using assms(3) [of "TCancel j"] assms(3) [of "TImmediate j"] assms(3) [of "TRecursive j"] by (auto split: if_splits)
    then have "\<forall>f\<in>told ch. holds h f" using ch(2) assms(4) by (cases ch) (auto simp: interrupts_late_def)
    then have "\<forall>f\<in>K \<union> told ch. holds h' f" using kept exec_persist [OF assms(1,5)] by blast
    moreover have "okl par (K \<union> told ch) (js @ k)" using Select assms(1) ch(1) by simp
    ultimately show ?thesis by blast
  next
    case (Call p)
    with assms kept show ?thesis by (auto intro!: exI [of _ K] okl_append ok_body)
  qed (use assms kept in \<open>auto split: if_splits intro!: exI [of _ K]\<close>)
qed

lemma exec_tokens:
  assumes "okl par K (i # k)" "(h', js, sp) \<in> set (exec i h)"
  shows "used x h' + count (toks js) x + limit x h \<le> used x h + count (tok i) x + limit x h'"
proof (cases i)
  case (CasState j a b yes no)
  with assms(1) have "count (toks yes) x \<le> count (grant j b) x" by (intro mset_subset_eq_count) simp
  moreover have "toks no = {#}" "transition a b" using CasState assms(1) by auto
  ultimately show ?thesis using CasState assms(2) by (cases x) (auto simp: transition_def split: if_splits)
next
  case (CasRecursive j yes)
  with assms(1) have "count (toks yes) x \<le> count {#TRecursive j#} x"
    by (intro mset_subset_eq_count) simp
  with CasRecursive assms(2) show ?thesis by (cases x) (auto split: if_splits)
next
  case (CasInterrupt j yes no)
  with assms(1) have "count (toks yes) x \<le> count {#TImmediate j#} x" by (intro mset_subset_eq_count) simp
  moreover have "toks no = {#}" using CasInterrupt assms(1) by simp
  ultimately show ?thesis using CasInterrupt assms(2) by (cases x) (auto split: if_splits)
next
  case (Select cs)
  with assms obtain ch where ch: "(ch, js) \<in> set cs" "h' = take_from ch h" by (auto split: if_splits)
  with Select assms(1) have "toks js = {#}" by auto
  with ch(2) Select show ?thesis by (cases x; cases ch) auto
qed (use assms in \<open>cases x; auto simp: benign_def split: if_splits\<close>)+

lemma exec_late:
  assumes "okl par K (i # k)" "\<forall>f\<in>K. holds h f" "interrupts_late h" "(h', js, sp) \<in> set (exec i h)"
  shows "interrupts_late h'"
proof (cases i)
  case (Select cs)
  with assms(4) obtain ch where "h' = take_from ch h" by (auto split: if_splits)
  with assms(3) show ?thesis by (cases ch) (auto simp: interrupts_late_def)
qed (use assms in \<open>auto simp: interrupts_late_def benign_def transition_def split: if_splits\<close>)

lemma exec_children:
  assumes "okl par K (i # k)" "\<forall>f\<in>K. holds h f" "children_follow par h" "(h', js, sp) \<in> set (exec i h)"
  shows "children_follow par h'"
proof -
  have old: "cx_recursive (h' p) \<and> cx_state (h' p) \<noteq> stRunning" if "cx_recursive (h p)" "cx_state (h p) \<noteq> stRunning" for p
    using that exec_persist [OF assms(1,4), of "Recursive p"] exec_persist [OF assms(1,4), of "NotRunning p"] by simp
  let ?hit = "\<lambda>h c. cx_state (h c) \<in> {stCancelling, stCancelHandled} \<or> 0 < cx_cancelChan (h c)"
  have new: "?hit h c \<or> may_cancel par K c" if "?hit h' c" for c
  proof (cases i)
    case (Select cs)
    with assms(4) obtain ch where "h' = take_from ch h" by (auto split: if_splits)
    with that show ?thesis by (cases ch) (auto split: if_splits)
  qed (use that assms(1,4) in \<open>auto simp: benign_def transition_def split: if_splits\<close>)
  show ?thesis unfolding children_follow_def
  proof (intro allI impI)
    fix c p assume c: "par c = Some p \<and> ?hit h' c"
    with new [of c] have "cx_recursive (h p) \<and> cx_state (h p) \<noteq> stRunning"
      using assms(2,3) by (auto simp: children_follow_def may_cancel_def)
    with old [of p] show "cx_recursive (h' p) \<and> cx_state (h' p) \<noteq> stRunning" by blast
  qed
qed

definition cancel_inv :: "(nat \<Rightarrow> nat option) \<Rightarrow> CancelSys \<Rightarrow> bool" where
  "cancel_inv par y \<longleftrightarrow>
     (\<forall>x. used x (y_heap y) + (\<Sum>t\<in>#y_threads y. count (toks t) x) \<le> limit x (y_heap y)) \<and>
     (\<forall>t\<in>#y_threads y. \<exists>K. (\<forall>f\<in>K. holds (y_heap y) f) \<and> okl par K t) \<and>
     interrupts_late (y_heap y) \<and> children_follow par (y_heap y)"

lemma cancel_inv_run:
  assumes inv: "cancel_inv par y" and th: "y_threads y = add_mset (i # k) T"
    and ex: "(h', js, sp) \<in> set (exec i (y_heap y))"
  shows "cancel_inv par \<lparr>y_heap = h', y_threads = add_mset (js @ k) T + mset sp\<rparr>"
proof -
  let ?h = "y_heap y"
  from inv th obtain K where K: "\<forall>f\<in>K. holds ?h f" "okl par K (i # k)" by (auto simp: cancel_inv_def)
  have le: "used x ?h \<le> limit x ?h" for x using inv by (auto simp: cancel_inv_def intro: order_trans [OF le_add1])
  have sp: "\<forall>t\<in>set sp. okl par {} t \<and> toks t = {#}" using exec_spawned [OF K(2) ex] by blast
  have none: "(\<Sum>t\<in>#mset sp. count (toks t) x) = 0" for x using sp by (auto simp: sum_mset_0_iff)
  have "used x h' + (count (toks js) x + count (toks k) x + (\<Sum>t\<in>#T. count (toks t) x)) \<le> limit x h'" for x
  proof -
    have "used x ?h + (count (tok i) x + count (toks k) x + (\<Sum>t\<in>#T. count (toks t) x)) \<le> limit x ?h"
      using inv th by (auto simp: cancel_inv_def)
    with exec_tokens [OF K(2) ex, of x] show ?thesis by linarith
  qed
  moreover have "\<forall>t\<in>#T. \<exists>K. (\<forall>f\<in>K. holds h' f) \<and> okl par K t"
  proof
    fix t assume "t \<in># T"
    with inv th obtain K' where "\<forall>f\<in>K'. holds ?h f" "okl par K' t" by (auto simp: cancel_inv_def)
    then show "\<exists>K. (\<forall>f\<in>K. holds h' f) \<and> okl par K t" using exec_persist [OF K(2) ex] by blast
  qed
  moreover have "\<exists>K'. (\<forall>f\<in>K'. holds h' f) \<and> okl par K' (js @ k)"
    using inv by (intro exec_ok [OF K(2,1) le _ ex]) (simp add: cancel_inv_def)
  moreover have "\<forall>t\<in>set sp. \<exists>K. (\<forall>f\<in>K. holds h' f) \<and> okl par K t" using sp by (auto intro: exI [of _ "{}"])
  moreover have "interrupts_late h'" "children_follow par h'"
    using inv exec_late [OF K(2,1) _ ex] exec_children [OF K(2,1) _ ex] by (simp_all add: cancel_inv_def)
  ultimately show ?thesis by (auto simp: cancel_inv_def none simp del: sum_mset_0_iff)
qed

lemma cancel_inv_reach: "cancel_reach par y \<Longrightarrow> cancel_inv par y"
proof (induction rule: cancel_reach.induct)
  case init
  have "used x (\<lambda>i. newCancelContext (par i)) = 0" for x by (cases x) (simp_all add: newCancelContext_def)
  then show ?case by (simp add: cancel_inv_def interrupts_late_def children_follow_def newCancelContext_def)
next
  case (step y y')
  from step.hyps(2) show ?case
  proof cases
    case (run i k T h' js sp)
    with step.IH show ?thesis by (blast intro: cancel_inv_run)
  next
    case (call t)
    with step.IH api_ok [of par t] api_toks [of par t] show ?thesis
      by (auto simp: cancel_inv_def intro: exI [of _ "{}"])
  qed
qed

subsection \<open>What holds under every interleaving\<close>

lemma exec_final:
  assumes "okl par K (i # k)" "(h', js, sp) \<in> set (exec i h)" "cx_state (h j) \<in> {stDone, stCancelHandled}"
  shows "cx_state (h' j) = cx_state (h j)"
proof (cases i)
  case (Select cs)
  with assms(2) obtain ch where "h' = take_from ch h" by (auto split: if_splits)
  then show ?thesis by (cases ch) auto
qed (use assms in \<open>auto simp: benign_def transition_def split: if_splits\<close>)

lemma step_final:
  assumes "cancel_inv par y" "cancel_step par y y'" "cx_state (y_heap y j) \<in> {stDone, stCancelHandled}"
  shows "cx_state (y_heap y' j) = cx_state (y_heap y j)"
  using assms(2)
proof cases
  case (run i k T h' js sp)
  with assms(1) obtain K where "okl par K (i # k)" by (auto simp: cancel_inv_def)
  from exec_final [OF this run(3) assms(3)] run(1) show ?thesis by simp
qed simp

text \<open>
  C10: the channels of a cancel context are closed at most once, so no goroutine panics, and at most one
  call of \<open>createAndMarkHandled\<close> returns true, under every interleaving of cancel calls, timeouts, graph
  interrupts, parents, iterators, workflows and ends of runs. The done channel is closed only after the context
  has reached one of its two final states, which it then keeps, a call returns true only for a handled
  cancellation, and nothing is interrupted before it has been cancelled. (How many cancel errors a client
  sees is not bounded: a workflow whose call returned false sends one as well.)
\<close>

theorem cancel_closes_once:
  assumes "cancel_reach par y" "c = y_heap y i"
  shows "cx_cancelChan c \<le> 1 \<and> cx_immediateChan c \<le> 1 \<and> cx_recursiveChan c \<le> 1 \<and> cx_doneChan c \<le> 1 \<and>
    length (cx_handled c) \<le> 1 \<and> (0 < cx_doneChan c \<longrightarrow> cx_state c \<in> {stDone, stCancelHandled}) \<and>
    (cx_handled c \<noteq> [] \<longrightarrow> cx_state c = stCancelHandled) \<and> (0 < cx_immediateChan c \<longrightarrow> cx_state c \<noteq> stRunning) \<and>
    (cx_state c \<in> {stDone, stCancelHandled} \<longrightarrow> (\<forall>y'. cancel_step par y y' \<longrightarrow> cx_state (y_heap y' i) = cx_state c))"
proof -
  from assms(1) have i: "cancel_inv par y" by (rule cancel_inv_reach)
  then have le: "used x (y_heap y) \<le> limit x (y_heap y)" for x
    by (auto simp: cancel_inv_def intro: order_trans [OF le_add1])
  have "0 < cx_immediateChan c \<longrightarrow> cx_state c \<noteq> stRunning"
    using le [of "TImmediate i"] i by (auto simp: cancel_inv_def interrupts_late_def assms(2) split: if_splits)
  moreover have "0 < cx_doneChan c \<longrightarrow> cx_state c \<in> {stDone, stCancelHandled}" "cx_doneChan c \<le> 1"
    using le [of "TDone i"] by (auto simp: assms(2) split: if_splits)
  moreover have "cx_handled c \<noteq> [] \<longrightarrow> cx_state c = stCancelHandled" "length (cx_handled c) \<le> 1"
    using le [of "THandled i"] by (auto simp: assms(2) split: if_splits)
  moreover have "cx_cancelChan c \<le> 1" "cx_immediateChan c \<le> 1" "cx_recursiveChan c \<le> 1"
    using le [of "TCancel i"] le [of "TImmediate i"] le [of "TRecursive i"] by (auto simp: assms(2) split: if_splits)
  ultimately show ?thesis using step_final [OF i, of _ i] by (simp add: assms(2))
qed

text \<open>
  C11: cancelling an agent reaches its sub-agents only when it is meant to: whenever the context derived for
  a sub-agent has been cancelled, its parent has been cancelled, recursively.
\<close>

theorem child_cancelled_recursively:
  assumes "cancel_reach par y" "par c = Some p" "shouldCancel (y_heap y c)"
  shows "cx_recursive (y_heap y p) \<and> cx_state (y_heap y p) \<noteq> stRunning"
  using cancel_inv_reach [OF assms(1)] assms(2,3) by (auto simp: cancel_inv_def children_follow_def shouldCancel_def)

subsection \<open>Particular schedules\<close>

text \<open>Goroutines as a list; a schedule says which one moves and which of its outcomes it takes.\<close>

fun sched :: "(nat \<times> nat) list \<Rightarrow> cheap \<times> instr list list \<Rightarrow> (cheap \<times> instr list list) option" where
  "sched [] y = Some y"
| "sched ((t, n) # ss) (h, ts) =
     (if t < length ts
      then (case ts ! t of
              [] \<Rightarrow> None
            | i # k \<Rightarrow>
                if n < length (exec i h)
                then (let (h', js, sp) = exec i h ! n in sched ss (h', ts[t := js @ k] @ sp))
                else None)
      else None)"

lemma sched_reach:
  assumes "sched ss (h, ts) = Some (h', ts')" "cancel_reach par \<lparr>y_heap = h, y_threads = mset ts\<rparr>"
  shows "cancel_reach par \<lparr>y_heap = h', y_threads = mset ts'\<rparr>"
  using assms
proof (induction ss arbitrary: h ts)
  case (Cons sn ss)
  obtain t n where tn: "sn = (t, n)" by fastforce
  with Cons.prems(1) obtain i k g js sp where st: "t < length ts" "ts ! t = i # k" "n < length (exec i h)"
      "exec i h ! n = (g, js, sp)" "sched ss (g, ts[t := js @ k] @ sp) = Some (h', ts')"
    by (auto simp: Let_def split: if_splits list.splits prod.splits)
  let ?T = "mset ts - {#i # k#}"
  have "mset ts = add_mset (i # k) ?T" using st(1,2) nth_mem [OF st(1)] by (simp add: insert_DiffM)
  moreover have "(g, js, sp) \<in> set (exec i h)" using st(3,4) nth_mem [OF st(3)] by simp
  ultimately have "cancel_step par \<lparr>y_heap = h, y_threads = mset ts\<rparr> \<lparr>y_heap = g, y_threads = add_mset (js @ k) ?T + mset sp\<rparr>"
    by (intro run) simp_all
  moreover have "add_mset (js @ k) ?T + mset sp = mset (ts[t := js @ k] @ sp)" using st(1,2) by (simp add: mset_update)
  ultimately show ?case using Cons.IH [OF st(5)] Cons.prems(2) by (metis cancel_reach.step)
qed simp

lemma calls_reach: "\<forall>t\<in>set ts. api par t \<Longrightarrow> cancel_reach par \<lparr>y_heap = (\<lambda>i. newCancelContext (par i)), y_threads = mset ts\<rparr>"
proof (induction ts)
  case Nil
  then show ?case using init by simp
next
  case (Cons t ts)
  then have "cancel_reach par \<lparr>y_heap = (\<lambda>i. newCancelContext (par i)), y_threads = mset ts\<rparr>" by simp
  from cancel_reach.step [OF this call [of par t]] Cons.prems show ?case by simp
qed

lemmas sched_simps = newCancelContext_def buildCancelFunc_def cancel_locked_def cancel_rest_def prog_defs
  parseCancelOptions_def CancelImmediate_def CancelAfterChatModel_def CancelAfterToolCalls_def
  createAndMarkHandled_def InterruptFromGraph_def deadline_min_def join_mode_def

lemma scheduled:
  assumes "\<exists>h ts'. sched ss (\<lambda>i. newCancelContext (par i), ts) = Some (h, ts') \<and> P h ts'" and "\<forall>t\<in>set ts. api par t"
  shows "\<exists>h ts'. cancel_reach par \<lparr>y_heap = h, y_threads = mset ts'\<rparr> \<and> P h ts'"
  using assms sched_reach [OF _ calls_reach] by blast

theorem cancel_closes_once_witness:
  "\<exists>y. cancel_reach (\<lambda>_. None) y \<and> cx_cancelChan (y_heap y 0) = 1 \<and> cx_immediateChan (y_heap y 0) = 1 \<and>
     cx_state (y_heap y 0) = stCancelling \<and> cx_doneChan (y_heap y 0) \<le> 1"
proof -
  have "\<exists>h ts. cancel_reach (\<lambda>_. None) \<lparr>y_heap = h, y_threads = mset ts\<rparr> \<and>
      cx_cancelChan (h 0) = 1 \<and> cx_immediateChan (h 0) = 1 \<and> cx_state (h 0) = stCancelling"
    by (rule scheduled [where ts = "[buildCancelFunc 0 [] 0]" and
        ss = "[(0,0),(0,0),(0,0),(0,0),(0,0),(0,0),(0,0),(0,0),(0,0),(0,0),(0,0),(0,0),(0,0),(0,0),(0,0)]"])
      (simp add: sched_simps, simp add: api.intros)
  then obtain h ts where r: "cancel_reach (\<lambda>_. None) \<lparr>y_heap = h, y_threads = mset ts\<rparr>"
      and h: "cx_cancelChan (h 0) = 1" "cx_immediateChan (h 0) = 1" "cx_state (h 0) = stCancelling" by blast
  from cancel_closes_once [OF r refl, of 0] r h show ?thesis
    by (auto intro!: exI [of _ "\<lparr>y_heap = h, y_threads = mset ts\<rparr>"])
qed

definition one_child :: "nat \<Rightarrow> nat option" where
  "one_child i = (if i = 1 then Some 0 else None)"

theorem child_cancelled_recursively_witness:
  "\<exists>y. cancel_reach one_child y \<and> shouldCancel (y_heap y 1) \<and> cx_recursive (y_heap y 0) \<and> cx_state (y_heap y 0) \<noteq> stRunning"
proof -
  have "\<exists>h ts. cancel_reach one_child \<lparr>y_heap = h, y_threads = mset ts\<rparr> \<and> shouldCancel (h 1)"
    by (rule scheduled [where ts = "[buildCancelFunc 0 [WithRecursiveCancel] 0, derive_cancel 0 1]" and
        ss = "[(0,0),(0,0),(0,0),(0,0),(0,0),(0,0),(0,0),(0,0),(0,0),(1,0),(1,0),(1,0),(1,0),(1,0),(1,0),(1,0),(1,0)]"])
      (simp add: sched_simps shouldCancel_def one_child_def, simp add: api.intros one_child_def)
  then obtain h ts where r: "cancel_reach one_child \<lparr>y_heap = h, y_threads = mset ts\<rparr>" and h: "shouldCancel (h 1)" by blast
  from child_cancelled_recursively [OF r, of 1 0] r h show ?thesis
    by (auto simp: one_child_def intro!: exI [of _ "\<lparr>y_heap = h, y_threads = mset ts\<rparr>"])
qed

text \<open>
  A cancel call joins its mode to the one it has read, but a timeout that fires in between stores
  the immediate mode without the lock: the run has been interrupted at once, and the context reports the
  safe points of the two calls.
\<close>

theorem timeout_mode_overwritten:
  "\<exists>h ts. cancel_reach (\<lambda>_. None) \<lparr>y_heap = h, y_threads = mset ts\<rparr> \<and> cx_immediateChan (h 0) = 1 \<and>
     cx_timeoutEscalated (h 0) \<and> cx_mode (h 0) \<noteq> CancelImmediate"
  by (rule scheduled [where ts = "[buildCancelFunc 0 [WithCancelMode CancelAfterChatModel, WithCancelTimeout 5] 1,
        buildCancelFunc 0 [WithCancelMode CancelAfterToolCalls] 2]" and
      ss = "[(0,0),(0,0),(0,0),(0,0),(0,0),(0,0),(0,0),(0,0),(0,0),(0,0),(0,0),(0,0),(1,0),(1,0),(1,0),(1,0),
        (2,0),(2,0),(2,0),(2,0),(2,0),(2,0),(2,0),(2,0),(2,0),(2,0),(2,0),(2,0),(1,0)]"])
    (simp add: sched_simps, simp add: api.intros)

text \<open>
  A graph interrupt waits for the run to end while it holds the lock that handling the cancellation needs:
  the wait can only end by its timeout.
\<close>

theorem graph_interrupt_blocks_handling:
  "\<exists>h ts. cancel_reach (\<lambda>_. None) \<lparr>y_heap = h, y_threads = mset ts\<rparr> \<and>
     (\<exists>k. Select [(DoneCh 0, []), (OtherCh, [])] # k \<in> set ts) \<and> createAndMarkHandled 0 (\<lambda>_. []) [] \<in> set ts \<and>
     exec (Lock 0) h = [] \<and> cx_doneChan (h 0) = 0"
  by (rule scheduled [where ts = "[[Call (MarkDescendant 0)], InterruptFromGraph 0 CancelImmediate 0 True 0, createAndMarkHandled 0 (\<lambda>_. []) []]" and
      ss = "[(0,0),(0,0),(1,0),(1,0),(1,0),(1,0),(1,0),(1,0),(1,0),(1,0),(1,0),(1,0),(1,0),(1,0),(1,0),(1,0),(1,0),(1,0),(1,0)]"])
    (simp add: sched_simps, simp add: api.intros)

text \<open>
  Two cancel errors reach the client when the iterator around a run and a workflow inside it both notice
  the cancellation.
\<close>

theorem cancel_error_sent_twice:
  "\<exists>h ts. cancel_reach (\<lambda>_. None) \<lparr>y_heap = h, y_threads = mset ts\<rparr> \<and> length (cx_handled (h 0)) = 1 \<and> length (cx_sent (h 0)) = 2"
  by (rule scheduled [where ts = "[buildCancelFunc 0 [WithCancelMode CancelAfterChatModel] 1, workflow_cancelled 0, workflow_cancelled 0]" and
      ss = "[(0,0),(0,0),(0,0),(0,0),(0,0),(0,0),(0,0),(0,0),(0,0),
        (1,0),(1,0),(1,0),(1,0),(1,0),(1,0),(1,0),(1,0),(1,0),(2,0),(2,0),(2,0),(2,0),(2,0),(2,0),(2,0),(2,0),(2,0)]"])
    (simp add: sched_simps shouldCancel_def, simp add: api.intros)

end
