(* ===== verification/Interrupts.thy ===== *)
theory Interrupts
  imports Go_Values
begin

text \<open>
  \<open>interrupt/interrupt.go\<close>: interrupts raised inside node functions and the resume values that answer
  them. A Go context carries at most one request-local interrupt context and the bytes of a sub-graph
  state; without a local one the process-wide context is used. Each method runs under the context's
  mutex and is one step here. The identifier of an interrupt is an argument.
\<close>

record interruptContext =
  ic_resumeValues :: "gval list"
  ic_index :: nat
  ic_nullResume :: gval

definition new_context :: interruptContext where
  "new_context = \<lparr>ic_resumeValues = [], ic_index = 0, ic_nullResume = VNil\<rparr>"

record Contexts =
  cx_request :: "interruptContext option"
  cx_global :: interruptContext
  cx_subState :: "string option"

definition WithInterruptContext :: "('w) Contexts_scheme \<Rightarrow> 'w Contexts_scheme" where
  "WithInterruptContext s = s\<lparr>cx_request := Some new_context\<rparr>"

definition GetInterruptContext :: "('w) Contexts_scheme \<Rightarrow> interruptContext option" where
  "GetInterruptContext s = cx_request s"

definition IsInterruptContext :: "('w) Contexts_scheme \<Rightarrow> bool" where
  "IsInterruptContext s \<longleftrightarrow> GetInterruptContext s \<noteq> None"

text \<open>The context in use, and the state with that context replaced.\<close>

definition current_ic :: "('w) Contexts_scheme \<Rightarrow> interruptContext" where
  "current_ic s = (case GetInterruptContext s of Some ic \<Rightarrow> ic | None \<Rightarrow> cx_global s)"

definition put_ic :: "('w) Contexts_scheme \<Rightarrow> interruptContext \<Rightarrow> 'w Contexts_scheme" where
  "put_ic s ic = (case GetInterruptContext s of
     Some _ \<Rightarrow> s\<lparr>cx_request := Some ic\<rparr> | None \<Rightarrow> s\<lparr>cx_global := ic\<rparr>)"

definition consumeNextResumeValue :: "interruptContext \<Rightarrow> interruptContext \<times> gval option" where
  "consumeNextResumeValue ic =
     (if ic_index ic < length (ic_resumeValues ic)
      then (ic\<lparr>ic_index := ic_index ic + 1\<rparr>, Some (ic_resumeValues ic ! ic_index ic))
      else (ic, None))"

definition appendResumeValue :: "interruptContext \<Rightarrow> gval \<Rightarrow> interruptContext" where
  "appendResumeValue ic v = ic\<lparr>ic_resumeValues := ic_resumeValues ic @ [v]\<rparr>"

definition setNullResume :: "interruptContext \<Rightarrow> gval \<Rightarrow> interruptContext" where
  "setNullResume ic v = ic\<lparr>ic_nullResume := v\<rparr>"

text \<open>A \<open>*types.Interrupt\<close> with its value and identifier.\<close>

definition interrupt_val :: "gval \<Rightarrow> string \<Rightarrow> gval" where
  "interrupt_val v i = VStruct ''types.Interrupt'' [(''Value'', True, TIface, v), (''ID'', True, TStr, VStr i)]"

definition Interrupt :: "string \<Rightarrow> ('w) Contexts_scheme \<Rightarrow> gval \<Rightarrow> 'w Contexts_scheme \<times> (gerror + gval)" where
  "Interrupt newID s value =
     (case consumeNextResumeValue (current_ic s) of
        (ic, Some v) \<Rightarrow> (put_ic s ic, Inr v)
      | (ic, None) \<Rightarrow>
          (let v = ic_nullResume ic
           in if v \<noteq> VNil then (put_ic s (appendResumeValue (setNullResume ic VNil) v), Inr v)
              else (s, Inl (GraphInterrupt [interrupt_val value newID]))))"

definition GetResumeValues :: "('w) Contexts_scheme \<Rightarrow> gval list" where
  "GetResumeValues s = ic_resumeValues (current_ic s)"

definition GetInterruptIndex :: "('w) Contexts_scheme \<Rightarrow> nat" where
  "GetInterruptIndex s = ic_index (current_ic s)"

definition AppendResumeValue :: "('w) Contexts_scheme \<Rightarrow> gval \<Rightarrow> 'w Contexts_scheme" where
  "AppendResumeValue s v = put_ic s (appendResumeValue (current_ic s) v)"

definition GetNullResume :: "('w) Contexts_scheme \<Rightarrow> bool \<Rightarrow> 'w Contexts_scheme \<times> gval" where
  "GetNullResume s consume =
     (let v = ic_nullResume (current_ic s)
      in (if consume then put_ic s (setNullResume (current_ic s) VNil) else s, v))"

definition SetResumeValues :: "('w) Contexts_scheme \<Rightarrow> gval list \<Rightarrow> 'w Contexts_scheme" where
  "SetResumeValues s vs = put_ic s ((current_ic s)\<lparr>ic_resumeValues := vs\<rparr>)"

definition Reset :: "('w) Contexts_scheme \<Rightarrow> 'w Contexts_scheme" where
  "Reset s = put_ic s new_context"

definition IsInterrupt :: "gerror \<Rightarrow> bool" where
  "IsInterrupt err = IsGraphInterrupt err"

fun GetInterruptValue :: "gerror \<Rightarrow> gval option" where
  "GetInterruptValue (GraphInterrupt (VStruct n fs # vs)) =
     (if n = ''types.Interrupt''
      then Some (case fs of (_, _, _, v) # _ \<Rightarrow> v | [] \<Rightarrow> VNil)
      else Some (VStruct n fs))"
| "GetInterruptValue (GraphInterrupt (v # vs)) = Some v"
| "GetInterruptValue _ = None"

subsection \<open>Laws\<close>

lemma current_put_ic [simp]: "current_ic (put_ic s ic) = ic"
  by (simp add: current_ic_def put_ic_def GetInterruptContext_def split: option.split)

lemma put_ic_request [simp]:
  "cx_request s = Some ic0 \<Longrightarrow> cx_request (put_ic s ic) = Some ic"
  "cx_request s = Some ic0 \<Longrightarrow> cx_global (put_ic s ic) = cx_global s"
  "cx_subState (put_ic s ic) = cx_subState s"
  by (auto simp: put_ic_def GetInterruptContext_def split: option.split)

lemma interrupt_value [simp]: "GetInterruptValue (GraphInterrupt (interrupt_val v i # vs)) = Some v"
  by (simp add: interrupt_val_def)

lemma Interrupt_pending:
  assumes "ic_index (current_ic s) < length (GetResumeValues s)"
  shows "Interrupt i s v = (put_ic s ((current_ic s)\<lparr>ic_index := ic_index (current_ic s) + 1\<rparr>),
           Inr (GetResumeValues s ! ic_index (current_ic s)))"
  using assms by (simp add: Interrupt_def consumeNextResumeValue_def GetResumeValues_def)

lemma Interrupt_raises:
  assumes "length (GetResumeValues s) \<le> ic_index (current_ic s)" "ic_nullResume (current_ic s) = VNil"
  shows "Interrupt i s v = (s, Inl (GraphInterrupt [interrupt_val v i]))"
  using assms by (simp add: Interrupt_def consumeNextResumeValue_def GetResumeValues_def)

text \<open>A node body that asks one question after the other and stops at the first that interrupts.\<close>

fun ask :: "(nat \<Rightarrow> string) \<Rightarrow> ('w) Contexts_scheme \<Rightarrow> gval list \<Rightarrow> gval list \<times> gerror option" where
  "ask ids s [] = ([], None)"
| "ask ids s (q # qs) =
     (case Interrupt (ids (length qs)) s q of
        (s', Inl err) \<Rightarrow> ([], Some err)
      | (s', Inr v) \<Rightarrow> (case ask ids s' qs of (vs, err) \<Rightarrow> (v # vs, err)))"

text \<open>
  Resume values answer interrupts in the order of the calls: a node that is run again gets the
  stored values for its first questions, and the first question without a stored value raises the
  interrupt that carries exactly that question.
\<close>

theorem interrupts_in_order:
  assumes "ic_nullResume (current_ic s) = VNil" and "ic_index (current_ic s) \<le> length (GetResumeValues s)"
  shows "ask ids s qs =
    (let rs = drop (ic_index (current_ic s)) (GetResumeValues s); n = length rs
     in (take (length qs) rs,
         if length qs \<le> n then None
         else Some (GraphInterrupt [interrupt_val (qs ! n) (ids (length qs - Suc n))])))"
  using assms
proof (induction qs arbitrary: s)
  case (Cons q qs)
  show ?case
  proof (cases "ic_index (current_ic s) < length (GetResumeValues s)")
    case True
    let ?s = "put_ic s ((current_ic s)\<lparr>ic_index := ic_index (current_ic s) + 1\<rparr>)"
    have s': "GetResumeValues ?s = GetResumeValues s" "ic_index (current_ic ?s) = Suc (ic_index (current_ic s))"
      "ic_nullResume (current_ic ?s) = VNil"
      using Cons.prems(1) by (simp_all add: GetResumeValues_def)
    have "drop (ic_index (current_ic s)) (GetResumeValues s) =
        GetResumeValues s ! ic_index (current_ic s) # drop (Suc (ic_index (current_ic s))) (GetResumeValues s)"
      using True by (simp add: Cons_nth_drop_Suc)
    then show ?thesis
      using Cons.IH [of ?s] True unfolding s' by (simp add: Interrupt_pending [OF True] Let_def)
  next
    case False
    then show ?thesis using Cons.prems by (simp add: Interrupt_raises Let_def)
  qed
qed (simp add: Let_def)

definition demo_contexts :: Contexts where
  "demo_contexts = \<lparr>cx_request = Some \<lparr>ic_resumeValues = [VStr ''yes''], ic_index = 0, ic_nullResume = VNil\<rparr>,
     cx_global = new_context, cx_subState = None\<rparr>"

theorem interrupts_in_order_witness:
  "ask (\<lambda>_. ''i'') demo_contexts [VStr ''sure?'', VStr ''name?''] =
     ([VStr ''yes''], Some (GraphInterrupt [interrupt_val (VStr ''name?'') ''i'']))"
  using interrupts_in_order [of demo_contexts "\<lambda>_. ''i''" "[VStr ''sure?'', VStr ''name?'']"]
  by (simp add: demo_contexts_def current_ic_def GetInterruptContext_def GetResumeValues_def Let_def)

text \<open>
  Requests are isolated: while a request has its own interrupt context, no operation of the package
  touches the process-wide one.
\<close>

theorem request_isolation:
  assumes "cx_request s = Some ic"
  shows "cx_global (fst (Interrupt i s v)) = cx_global s \<and> cx_global (AppendResumeValue s v) = cx_global s \<and>
    cx_global (fst (GetNullResume s b)) = cx_global s \<and> cx_global (SetResumeValues s vs) = cx_global s \<and>
    cx_global (Reset s) = cx_global s"
  using assms
  by (simp add: Interrupt_def AppendResumeValue_def GetNullResume_def SetResumeValues_def Reset_def Let_def
      split: prod.split option.split)

end
