(* ===== verification/Loop_Node.thy ===== *)
theory Loop_Node
  imports Interrupts Engine_Run
begin

text \<open>
  \<open>graph/loop.go\<close>: a node function that invokes a compiled sub-graph until a condition holds. The
  sub-graph's \<open>Invoke\<close> is a function that may change the interrupt contexts and whatever else the state
  record holds (its checkpointer, for instance); \<open>invoke_compiled\<close> is the instance the code uses. JSON
  encoding and decoding are arguments.
\<close>

type_synonym 'w invoke = "RunnableConfig \<Rightarrow> gval \<Rightarrow> 'w Contexts_scheme \<Rightarrow> 'w Contexts_scheme \<times> (gerror + gval)"
type_synonym LoopCondition = "int \<Rightarrow> gval \<Rightarrow> gval \<Rightarrow> gerror + bool"

record loopOptions =
  lo_maxIterations :: int
  lo_checkpointIDPrefix :: string

definition WithLoopMaxIterations :: "int \<Rightarrow> loopOptions \<Rightarrow> loopOptions" where
  "WithLoopMaxIterations n opts = (if n \<ge> 0 then opts\<lparr>lo_maxIterations := n\<rparr> else opts)"

definition WithLoopCheckpointIDPrefix :: "string \<Rightarrow> loopOptions \<Rightarrow> loopOptions" where
  "WithLoopCheckpointIDPrefix pre opts = (if pre \<noteq> [] then opts\<lparr>lo_checkpointIDPrefix := pre\<rparr> else opts)"

definition getLoopOptions :: "(loopOptions \<Rightarrow> loopOptions) list \<Rightarrow> loopOptions" where
  "getLoopOptions opts = foldl (\<lambda>o' f. f o') \<lparr>lo_maxIterations = 1024, lo_checkpointIDPrefix = []\<rparr> opts"

text \<open>The state saved with an interrupt; the raw JSON fields are absent when not set.\<close>

record loopInterruptState =
  ls_Iteration :: int
  ls_CurrentInput :: "string option"
  ls_UserFillUpValue :: "string option"

definition raw_json :: "string option \<Rightarrow> gval" where
  "raw_json r = (case r of Some s \<Rightarrow> VStr s | None \<Rightarrow> VNil)"

definition loop_state_val :: "loopInterruptState \<Rightarrow> gval" where
  "loop_state_val st = VStruct ''graph.loopInterruptState''
     [(''Iteration'', True, TInt, VInt (word_of_int (ls_Iteration st))),
      (''CurrentInput'', True, TSlice (TNum Uint8), raw_json (ls_CurrentInput st)),
      (''UserFillUpValue'', True, TSlice (TNum Uint8), raw_json (ls_UserFillUpValue st))]"

text \<open>The bytes of a resume value of type \<open>[]byte\<close> or \<open>string\<close>.\<close>

fun byte_char :: "gval \<Rightarrow> char" where
  "byte_char (VNum k n) = char_of (nat n)"
| "byte_char _ = CHR 0x00"

fun resume_bytes :: "gval \<Rightarrow> string option" where
  "resume_bytes (VStr s) = Some s"
| "resume_bytes (VSlice (TNum Uint8) bs) = Some (map byte_char bs)"
| "resume_bytes _ = None"

definition valid_snapshot :: "(string \<Rightarrow> loopInterruptState option) \<Rightarrow> string \<Rightarrow> loopInterruptState option" where
  "valid_snapshot decode bytes =
     (case decode bytes of Some st \<Rightarrow> if ls_Iteration st > 0 then Some st else None | None \<Rightarrow> None)"

definition loadLoopSnapshot ::
  "(string \<Rightarrow> loopInterruptState option) \<Rightarrow> ('w) Contexts_scheme \<Rightarrow> loopInterruptState option" where
  "loadLoopSnapshot decode s =
     (case Option.bind (cx_subState s) (valid_snapshot decode) of
        Some st \<Rightarrow> Some st
      | None \<Rightarrow>
          (case List.map_filter (\<lambda>v. Option.bind (resume_bytes v) (valid_snapshot decode)) (GetResumeValues s) of
             st # _ \<Rightarrow> Some st
           | [] \<Rightarrow> None))"

definition sub_config :: "string \<Rightarrow> RunnableConfig" where
  "sub_config threadID =
     \<lparr>Configurable = fmap_of_list [(''thread_id'', VStr threadID)], RecursionLimit = 0, Tags = [], Metadata = fmempty,
      RunID = [], ThreadID = [], cfg_Durability = DurabilityUnset\<rparr>"

definition loop_config :: "loopOptions \<Rightarrow> string \<Rightarrow> int \<Rightarrow> RunnableConfig" where
  "loop_config opts key iteration =
     sub_config (lo_checkpointIDPrefix opts @ '':loop:'' @ key @ '':iter:'' @ show_int iteration)"

text \<open>What the node does when an iteration's sub-graph was interrupted.\<close>

definition rethrow ::
  "(gval \<Rightarrow> string option) \<Rightarrow> string \<Rightarrow> int \<Rightarrow> gval \<Rightarrow> gerror \<Rightarrow> ('w) Contexts_scheme \<Rightarrow>
   'w Contexts_scheme \<times> (gerror + gval)" where
  "rethrow marshal newID iteration cur err s =
     (case marshal cur of
        None \<Rightarrow> (s, Inl (Errorf ''graph: loop marshal state''))
      | Some js \<Rightarrow>
          (let fill = (case GetInterruptValue err of Some v \<Rightarrow> if v \<noteq> VNil then marshal v else None | None \<Rightarrow> None);
               st = \<lparr>ls_Iteration = iteration, ls_CurrentInput = Some js, ls_UserFillUpValue = fill\<rparr>
           in case Interrupt newID s (loop_state_val st) of
                (s', Inl e) \<Rightarrow> (s', Inl e)
              | (s', Inr _) \<Rightarrow> (s', Inr VNil)))"

definition wrap_err :: "string \<Rightarrow> gerror \<Rightarrow> gerror" where
  "wrap_err msg err = (case err of GoPanic p \<Rightarrow> err | _ \<Rightarrow> Wrapf msg err)"

definition max_exceeded :: "int \<Rightarrow> gerror" where
  "max_exceeded n = Wrapf (show_int n) (Errorf ''graph: loop max iterations exceeded'')"

function loop_from ::
  "(gval \<Rightarrow> string option) \<Rightarrow> (int \<Rightarrow> string) \<Rightarrow> 'w invoke \<Rightarrow> LoopCondition \<Rightarrow> loopOptions \<Rightarrow> string \<Rightarrow> int \<Rightarrow> gval \<Rightarrow>
   'w Contexts_scheme \<Rightarrow> 'w Contexts_scheme \<times> (gerror + gval)" where
  "loop_from marshal newID sub shouldQuit opts key iteration cur s =
     (case sub (loop_config opts key iteration) cur s of
        (s', Inl err) \<Rightarrow>
          if IsInterrupt err then rethrow marshal (newID iteration) iteration cur err s'
          else (s', Inl (wrap_err (''graph: loop iteration '' @ show_int iteration) err))
      | (s', Inr nxt) \<Rightarrow>
          (case shouldQuit iteration cur nxt of
             Inl qErr \<Rightarrow> (s', Inl (Wrapf (''graph: loop condition iteration '' @ show_int iteration) qErr))
           | Inr quit \<Rightarrow>
               if quit then (s', Inr nxt)
               else if iteration \<ge> lo_maxIterations opts then (s', Inl (max_exceeded (lo_maxIterations opts)))
               else loop_from marshal newID sub shouldQuit opts key (iteration + 1) nxt s'))"
  by pat_completeness auto
termination
  by (relation "measure (\<lambda>(_, _, _, _, opts, _, iteration, _, _). nat (lo_maxIterations opts - iteration))") auto

declare loop_from.simps [simp del]

definition runLoop ::
  "(gval \<Rightarrow> string option) \<Rightarrow> (string \<Rightarrow> gval option) \<Rightarrow> (string \<Rightarrow> loopInterruptState option) \<Rightarrow> (int \<Rightarrow> string) \<Rightarrow>
   'w invoke \<Rightarrow> LoopCondition \<Rightarrow> loopOptions \<Rightarrow> string \<Rightarrow> gval \<Rightarrow> 'w Contexts_scheme \<Rightarrow>
   'w Contexts_scheme \<times> (gerror + gval)" where
  "runLoop marshal unmarshal decode newID sub shouldQuit opts key input s =
     (let start = (\<lambda>i c. loop_from marshal newID sub shouldQuit opts key i
                     (if c = VNil then VMap fmempty else c) s)
      in case loadLoopSnapshot decode s of
           None \<Rightarrow> start 1 input
         | Some snap \<Rightarrow>
             (case ls_CurrentInput snap of
                None \<Rightarrow> start (ls_Iteration snap) input
              | Some js \<Rightarrow>
                  (case unmarshal js of
                     None \<Rightarrow> (s, Inl (Wrapf ''decode current input'' (Errorf ''graph: loop resume state invalid'')))
                   | Some v \<Rightarrow> start (ls_Iteration snap) v)))"

definition NewLoopNodeFunc ::
  "(gval \<Rightarrow> string option) \<Rightarrow> (string \<Rightarrow> gval option) \<Rightarrow> (string \<Rightarrow> loopInterruptState option) \<Rightarrow> (int \<Rightarrow> string) \<Rightarrow>
   string \<Rightarrow> 'w invoke option \<Rightarrow> LoopCondition option \<Rightarrow> (loopOptions \<Rightarrow> loopOptions) list \<Rightarrow>
   gerror + (gval \<Rightarrow> 'w Contexts_scheme \<Rightarrow> 'w Contexts_scheme \<times> (gerror + gval))" where
  "NewLoopNodeFunc marshal unmarshal decode newID key sub0 shouldQuit opts =
     (if key = [] then Inl (Errorf ''graph: loop key is empty'')
      else (case sub0 of
          None \<Rightarrow> Inl (Errorf ''graph: loop sub-graph is nil'')
        | Some sub \<Rightarrow>
            (case shouldQuit of
               None \<Rightarrow> Inl (Errorf ''graph: loop shouldQuit is nil'')
             | Some q \<Rightarrow>
                 (let o1 = getLoopOptions opts;
                      o2 = (if lo_checkpointIDPrefix o1 = [] then o1\<lparr>lo_checkpointIDPrefix := key\<rparr> else o1)
                  in Inr (\<lambda>st s. runLoop marshal unmarshal decode newID sub q o2 key st s)))))"

text \<open>
  The sub-graph is a compiled graph run by the engine; its checkpointer is shared between invocations,
  so it is part of the state.
\<close>

record SubWorld = Contexts +
  sw_saver :: "MemorySaver option"

definition Invoke ::
  "Env \<Rightarrow> compiledGraph \<Rightarrow> gval \<Rightarrow> RunnableConfig option \<Rightarrow> Engine \<times> (gerror + gval)" where
  "Invoke env cg input config =
     runCompiledGraph env cg
       (case config of
          Some c \<Rightarrow> c
        | None \<Rightarrow> \<lparr>Configurable = fmempty, RecursionLimit = 0, Tags = [], Metadata = fmempty, RunID = [], ThreadID = [],
                   cfg_Durability = DurabilityUnset\<rparr>) input"

definition invoke_compiled :: "Env \<Rightarrow> compiledGraph \<Rightarrow> RunnableConfig \<Rightarrow> gval \<Rightarrow> SubWorld \<Rightarrow> SubWorld \<times> (gerror + gval)" where
  "invoke_compiled env cg config input s =
     (case Invoke env (cg\<lparr>cg_checkpointer := sw_saver s\<rparr>) input (Some config) of
        (e, r) \<Rightarrow> (s\<lparr>sw_saver := eng_checkpointer e\<rparr>, r))"

subsection \<open>Properties\<close>

lemma loop_steps:
  assumes "\<And>i. start \<le> i \<Longrightarrow> i < k \<Longrightarrow> sub (loop_config opts key i) (cur i) (st i) = (st (i + 1), Inr (cur (i + 1))) \<and>
      shouldQuit i (cur i) (cur (i + 1)) = Inr False"
    and "start \<le> k" "k \<le> lo_maxIterations opts"
  shows "loop_from marshal newID sub shouldQuit opts key start (cur start) (st start) =
    loop_from marshal newID sub shouldQuit opts key k (cur k) (st k)"
  using assms
proof (induction "nat (k - start)" arbitrary: start)
  case (Suc n)
  have lt: "start < k" using Suc.hyps(2) by linarith
  have "loop_from marshal newID sub shouldQuit opts key start (cur start) (st start) =
      loop_from marshal newID sub shouldQuit opts key (start + 1) (cur (start + 1)) (st (start + 1))"
    using Suc.prems(1) [of start] lt Suc.prems(3) by (subst loop_from.simps) simp
  also have "\<dots> = loop_from marshal newID sub shouldQuit opts key k (cur k) (st k)"
    by (rule Suc.hyps(1)) (use Suc.hyps(2) Suc.prems lt in simp_all)
  finally show ?case .
qed simp

text \<open>
  C29: what a fresh run of the loop node returns. If the sub-graph turns each input into the next one
  and the condition first holds after iteration \<open>k\<close>, which is within the limit, the output of iteration
  \<open>k\<close> is the node's output; if the condition does not hold up to the limit, the node fails with the limit
  error after exactly that many iterations and its last output is dropped. (The package comment says
  that the last output is returned when the limit is reached; the code does not do that.)
\<close>

theorem loop_result:
  assumes "\<And>i. 1 \<le> i \<Longrightarrow> i \<le> k \<Longrightarrow> sub (loop_config opts key i) (cur i) (st i) = (st (i + 1), Inr (cur (i + 1)))"
    and "\<And>i. 1 \<le> i \<Longrightarrow> i < k \<Longrightarrow> shouldQuit i (cur i) (cur (i + 1)) = Inr False"
    and "shouldQuit k (cur k) (cur (k + 1)) = Inr quit"
    and "1 \<le> k" "k \<le> lo_maxIterations opts" "\<not> quit \<Longrightarrow> k = lo_maxIterations opts"
    and "loadLoopSnapshot decode (st 1) = None" "cur 1 \<noteq> VNil"
  shows "runLoop marshal unmarshal decode newID sub shouldQuit opts key (cur 1) (st 1) =
    (st (k + 1), if quit then Inr (cur (k + 1)) else Inl (max_exceeded (lo_maxIterations opts)))"
proof -
  have "loop_from marshal newID sub shouldQuit opts key 1 (cur 1) (st 1) =
      loop_from marshal newID sub shouldQuit opts key k (cur k) (st k)"
    by (rule loop_steps [where shouldQuit = shouldQuit]) (use assms in auto)
  also have "\<dots> = (st (k + 1), if quit then Inr (cur (k + 1)) else Inl (max_exceeded (lo_maxIterations opts)))"
    using assms(1) [of k] assms(3-6) by (subst loop_from.simps) auto
  finally show ?thesis using assms(7,8) by (simp add: runLoop_def)
qed

definition demo_sub :: "RunnableConfig \<Rightarrow> gval \<Rightarrow> Contexts \<Rightarrow> Contexts \<times> (gerror + gval)" where
  "demo_sub cfg cur s = (case cur of VInt n \<Rightarrow> (s, Inr (VInt (n + 1))) | _ \<Rightarrow> (s, Inl (ClientError ''no counter'')))"

definition empty_contexts :: Contexts where
  "empty_contexts = \<lparr>cx_request = None, cx_global = new_context, cx_subState = None\<rparr>"

lemma empty_contexts_facts:
  "loadLoopSnapshot decode empty_contexts = None" "GetResumeValues empty_contexts = []"
  "ic_nullResume (current_ic empty_contexts) = VNil"
  by (simp_all add: loadLoopSnapshot_def empty_contexts_def GetResumeValues_def current_ic_def GetInterruptContext_def
      new_context_def map_filter_simps)

theorem loop_result_witness:
  "runLoop (\<lambda>_. None) (\<lambda>_. None) (\<lambda>_. None) (\<lambda>_. []) demo_sub (\<lambda>i _ _. Inr (i \<ge> 3)) (getLoopOptions []) ''l'' (VInt 1)
     empty_contexts = (empty_contexts, Inr (VInt 4))"
proof -
  have "runLoop (\<lambda>_. None) (\<lambda>_. None) (\<lambda>_. None) (\<lambda>_. []) demo_sub (\<lambda>i _ _. Inr (i \<ge> 3)) (getLoopOptions []) ''l''
      (VInt (word_of_int 1)) empty_contexts =
    (empty_contexts, if True then Inr (VInt (word_of_int (3 + 1))) else
      Inl (max_exceeded (lo_maxIterations (getLoopOptions []))))"
    by (rule loop_result [where k = 3 and cur = "\<lambda>i. VInt (word_of_int i)" and st = "\<lambda>_. empty_contexts"])
      (simp_all add: demo_sub_def getLoopOptions_def empty_contexts_facts)
  then show ?thesis by simp
qed

text \<open>
  C30: an interrupted loop resumes where it stopped: the interrupt carries the iteration and its input,
  and a run of the node that finds this state in its context starts with that iteration and that
  input, whatever input it is given, without repeating the completed iterations.
\<close>

theorem loop_resume:
  assumes "\<And>i. 1 \<le> i \<Longrightarrow> i < k \<Longrightarrow> sub (loop_config opts key i) (cur i) (st i) = (st (i + 1), Inr (cur (i + 1))) \<and>
      shouldQuit i (cur i) (cur (i + 1)) = Inr False"
    and "1 \<le> k" "k \<le> lo_maxIterations opts"
    and "sub (loop_config opts key k) (cur k) (st k) = (s', Inl err)" "IsInterrupt err"
    and "length (GetResumeValues s') \<le> ic_index (current_ic s')" "ic_nullResume (current_ic s') = VNil"
    and "marshal (cur k) = Some js" "unmarshal js = Some (cur k)"
    and "loadLoopSnapshot decode (st 1) = None" "cur 1 \<noteq> VNil" "cur k \<noteq> VNil"
  shows "\<exists>snap. runLoop marshal unmarshal decode newID sub shouldQuit opts key (cur 1) (st 1) =
      (s', Inl (GraphInterrupt [interrupt_val (loop_state_val snap) (newID k)])) \<and>
    ls_Iteration snap = k \<and> ls_CurrentInput snap = Some js \<and>
    ls_UserFillUpValue snap = (case GetInterruptValue err of Some v \<Rightarrow> if v \<noteq> VNil then marshal v else None | None \<Rightarrow> None) \<and>
    (\<forall>bytes s2 input. cx_subState s2 = Some bytes \<longrightarrow> decode bytes = Some snap \<longrightarrow>
       runLoop marshal unmarshal decode newID sub shouldQuit opts key input s2 =
         loop_from marshal newID sub shouldQuit opts key k (cur k) s2)"
proof -
  let ?snap = "\<lparr>ls_Iteration = k, ls_CurrentInput = Some js, ls_UserFillUpValue =
    (case GetInterruptValue err of Some v \<Rightarrow> if v \<noteq> VNil then marshal v else None | None \<Rightarrow> None)\<rparr>"
  have "loop_from marshal newID sub shouldQuit opts key 1 (cur 1) (st 1) =
      loop_from marshal newID sub shouldQuit opts key k (cur k) (st k)"
    by (rule loop_steps [where shouldQuit = shouldQuit]) (use assms in auto)
  also have "\<dots> = (s', Inl (GraphInterrupt [interrupt_val (loop_state_val ?snap) (newID k)]))"
    using assms(4,5,8) by (subst loop_from.simps) (simp add: rethrow_def Let_def Interrupt_raises [OF assms(6,7)])
  finally have "runLoop marshal unmarshal decode newID sub shouldQuit opts key (cur 1) (st 1) =
      (s', Inl (GraphInterrupt [interrupt_val (loop_state_val ?snap) (newID k)]))"
    using assms(10,11) by (simp add: runLoop_def)
  moreover have "runLoop marshal unmarshal decode newID sub shouldQuit opts key input s2 =
         loop_from marshal newID sub shouldQuit opts key k (cur k) s2"
    if "cx_subState s2 = Some bytes" "decode bytes = Some ?snap" for bytes s2 input
    using that assms(2,9,12) by (simp add: runLoop_def loadLoopSnapshot_def valid_snapshot_def)
  ultimately show ?thesis by (intro exI [of _ ?snap]) simp
qed

definition demo_ask :: "RunnableConfig \<Rightarrow> gval \<Rightarrow> Contexts \<Rightarrow> Contexts \<times> (gerror + gval)" where
  "demo_ask cfg cur s = (if cur = VInt 2 then (s, Inl (GraphInterrupt [])) else demo_sub cfg cur s)"

definition demo_snap :: loopInterruptState where
  "demo_snap = \<lparr>ls_Iteration = 2, ls_CurrentInput = Some ''2'', ls_UserFillUpValue = None\<rparr>"

theorem loop_resume_witness:
  "runLoop (\<lambda>_. Some ''2'') (\<lambda>_. Some (VInt 2)) (\<lambda>_. Some demo_snap) (\<lambda>_. ''i'') demo_ask (\<lambda>_ _ _. Inr False)
      (getLoopOptions []) ''l'' (VInt 1) empty_contexts =
      (empty_contexts, Inl (GraphInterrupt [interrupt_val (loop_state_val demo_snap) ''i''])) \<and>
   runLoop (\<lambda>_. Some ''2'') (\<lambda>_. Some (VInt 2)) (\<lambda>_. Some demo_snap) (\<lambda>_. ''i'') demo_ask (\<lambda>_ _ _. Inr False)
      (getLoopOptions []) ''l'' VNil (empty_contexts\<lparr>cx_subState := Some ''state''\<rparr>) =
   loop_from (\<lambda>_. Some ''2'') (\<lambda>_. ''i'') demo_ask (\<lambda>_ _ _. Inr False) (getLoopOptions []) ''l'' 2 (VInt 2)
     (empty_contexts\<lparr>cx_subState := Some ''state''\<rparr>)"
proof -
  let ?c = "\<lambda>i. VInt (word_of_int i)"
  let ?run = "runLoop (\<lambda>_. Some ''2'') (\<lambda>_. Some (VInt 2)) (\<lambda>_. Some demo_snap) (\<lambda>_. ''i'') demo_ask (\<lambda>_ _ _. Inr False)
      (getLoopOptions []) ''l''"
  have d: "demo_ask cfg (?c 1) empty_contexts = (empty_contexts, Inr (?c 2))"
    "demo_ask cfg (?c 2) empty_contexts = (empty_contexts, Inl (GraphInterrupt []))" for cfg
    by (simp_all add: demo_ask_def demo_sub_def)
  let ?Q = "\<lambda>snap. ?run (?c 1) empty_contexts = (empty_contexts, Inl (GraphInterrupt [interrupt_val (loop_state_val snap) ''i''])) \<and>
    ls_Iteration snap = 2 \<and> ls_CurrentInput snap = Some ''2'' \<and>
    ls_UserFillUpValue snap = (case GetInterruptValue (GraphInterrupt []) of Some v \<Rightarrow> if v \<noteq> VNil then (\<lambda>_. Some ''2'') v else None | None \<Rightarrow> None) \<and>
    (\<forall>bytes s2 input. cx_subState s2 = Some bytes \<longrightarrow> (\<lambda>_. Some demo_snap) bytes = Some snap \<longrightarrow>
       ?run input s2 = loop_from (\<lambda>_. Some ''2'') (\<lambda>_. ''i'') demo_ask (\<lambda>_ _ _. Inr False) (getLoopOptions []) ''l'' 2 (?c 2) s2)"
  have "\<exists>snap. ?Q snap"
  proof (rule loop_resume [where k = 2 and st = "\<lambda>_. empty_contexts" and cur = ?c and err = "GraphInterrupt []"])
    show "demo_ask (loop_config (getLoopOptions []) ''l'' i) (?c i) empty_contexts = (empty_contexts, Inr (?c (i + 1))) \<and>
        (Inr False :: gerror + bool) = Inr False" if "1 \<le> i" "i < 2" for i
    proof -
      have "i = 1" using that by linarith
      then show ?thesis using d(1) by simp
    qed
  qed (use d(2) in \<open>simp_all add: getLoopOptions_def IsInterrupt_def empty_contexts_facts\<close>)
  then obtain snap where s: "?Q snap" ..
  then have "snap = demo_snap" by (simp add: demo_snap_def)
  with s show ?thesis by simp
qed

text \<open>
  An interrupt inside a loop is lost when the context still holds an unused resume value: the node
  consumes that value in place of raising its own interrupt and reports success with a nil output.
\<close>

theorem loop_swallows_interrupt:
  assumes "loadLoopSnapshot decode s = None" "input \<noteq> VNil"
    and "sub (loop_config opts key 1) input s = (s', Inl err)" "IsInterrupt err" "marshal input = Some js"
    and "ic_index (current_ic s') < length (GetResumeValues s')"
  shows "snd (runLoop marshal unmarshal decode newID sub shouldQuit opts key input s) = Inr VNil"
proof -
  have "snd (loop_from marshal newID sub shouldQuit opts key 1 input s) = Inr VNil"
    using assms(3-5) by (subst loop_from.simps) (simp add: rethrow_def Let_def Interrupt_pending [OF assms(6)])
  then show ?thesis using assms(1,2) by (simp add: runLoop_def)
qed

theorem loop_swallows_interrupt_witness:
  "snd (runLoop (\<lambda>_. Some ''2'') (\<lambda>_. None) (\<lambda>_. None) (\<lambda>_. ''i'') demo_ask (\<lambda>_ _ _. Inr False) (getLoopOptions []) ''l''
     (VInt 2) demo_contexts) = Inr VNil"
  by (rule loop_swallows_interrupt [where s' = demo_contexts and err = "GraphInterrupt []"])
    (simp_all add: demo_ask_def IsInterrupt_def demo_contexts_def loadLoopSnapshot_def GetResumeValues_def current_ic_def
      GetInterruptContext_def map_filter_simps valid_snapshot_def)

text \<open>
  A saved loop state is not tied to its node: every loop node that runs with it in its context starts at
  the saved iteration with the saved input, also one with another key.
\<close>

theorem snapshot_not_keyed:
  assumes "cx_subState s = Some bytes" "decode bytes = Some snap" "ls_Iteration snap > 0"
    and "ls_CurrentInput snap = Some js" "unmarshal js = Some v" "v \<noteq> VNil"
  shows "runLoop marshal unmarshal decode newID sub shouldQuit opts key input s =
    loop_from marshal newID sub shouldQuit opts key (ls_Iteration snap) v s"
  using assms by (simp add: runLoop_def loadLoopSnapshot_def valid_snapshot_def)

end
