(* ===== verification/Parallel_Node.thy ===== *)
theory Parallel_Node
  imports Loop_Node
begin

text \<open>
  \<open>graph/parallel.go\<close>: a node function that invokes a compiled sub-graph once per item of its input
  list. Concurrent items are modelled by the order in which they run and report, a permutation of the
  indices after the first one (which runs alone); each item is one step, since items use separate
  checkpoint threads. The per-item checkpoint store is handed through unchanged: no code reads it from the
  context.
\<close>

record parallelOptions =
  po_maxConcurrency :: int

definition WithParallelMaxConcurrency :: "int \<Rightarrow> parallelOptions \<Rightarrow> parallelOptions" where
  "WithParallelMaxConcurrency n opts = (if n \<ge> 0 then opts\<lparr>po_maxConcurrency := n\<rparr> else opts)"

definition getParallelOptions :: "(parallelOptions \<Rightarrow> parallelOptions) list \<Rightarrow> parallelOptions" where
  "getParallelOptions opts = foldl (\<lambda>o' f. f o') \<lparr>po_maxConcurrency = 0\<rparr> opts"

record parallelInterruptState =
  ps_OriginalInputsJSON :: string
  ps_CompletedResults :: "(int, gval) fmap"
  ps_InterruptedIndices :: "int list"
  ps_TotalCount :: int
  ps_ItemCheckpoints :: "(string, string) fmap"

definition bytes_val :: "string \<Rightarrow> gval" where
  "bytes_val s = VSlice (TNum Uint8) (map (\<lambda>c. VNum Uint8 (int (of_char c))) s)"

text \<open>The state as a value; integer keys are written in decimal, as JSON writes them.\<close>

definition parallel_state_val :: "parallelInterruptState \<Rightarrow> gval" where
  "parallel_state_val st = VStruct ''graph.parallelInterruptState''
     [(''OriginalInputsJSON'', True, TSlice (TNum Uint8), bytes_val (ps_OriginalInputsJSON st)),
      (''CompletedResults'', True, TMap TIface,
         VMap (fmap_of_list (map (\<lambda>i. (show_int i, the (fmlookup (ps_CompletedResults st) i)))
           (sorted_list_of_fset (fmdom (ps_CompletedResults st)))))),
      (''InterruptedIndices'', True, TSlice TInt, VSlice TInt (map (\<lambda>i. VInt (word_of_int i)) (ps_InterruptedIndices st))),
      (''TotalCount'', True, TInt, VInt (word_of_int (ps_TotalCount st))),
      (''ItemCheckpoints'', True, TMap (TSlice (TNum Uint8)),
         VMapT (TSlice (TNum Uint8)) (fmmap bytes_val (ps_ItemCheckpoints st)))]"

subsection \<open>Checkpoints of items\<close>

type_synonym itemCheckpointStore = "(string, string) fmap"

definition newItemCheckpointStore :: "(string, string) fmap \<Rightarrow> itemCheckpointStore" where
  "newItemCheckpointStore data = data"

definition store_get :: "itemCheckpointStore \<Rightarrow> string \<Rightarrow> string option" where
  "store_get st i = fmlookup st i"

definition store_set :: "itemCheckpointStore \<Rightarrow> string \<Rightarrow> string \<Rightarrow> itemCheckpointStore" where
  "store_set st i payload = fmupd i payload st"

definition store_snapshot :: "itemCheckpointStore \<Rightarrow> (string, string) fmap" where
  "store_snapshot st = st"

subsection \<open>Fan-out\<close>

definition loadParallelSnapshot ::
  "(string \<Rightarrow> parallelInterruptState option) \<Rightarrow> ('w) Contexts_scheme \<Rightarrow> parallelInterruptState option" where
  "loadParallelSnapshot decode s =
     (case List.map_filter (\<lambda>v. Option.bind (resume_bytes v)
              (\<lambda>b. case decode b of Some st \<Rightarrow> if ps_TotalCount st > 0 then Some st else None | None \<Rightarrow> None))
            (GetResumeValues s) of
        st # _ \<Rightarrow> Some st
      | [] \<Rightarrow> None)"

definition runOne ::
  "'w invoke \<Rightarrow> string \<Rightarrow> gval list \<Rightarrow> int \<Rightarrow> 'w Contexts_scheme \<Rightarrow> 'w Contexts_scheme \<times> (gerror + gval)" where
  "runOne sub key items idx s =
     (if idx < 0 \<or> idx \<ge> int (length items)
      then (s, Inl (Errorf (''parallel item index '' @ show_int idx @ '' out of bounds'')))
      else (case sub (sub_config (''parallel:'' @ key @ '':item:'' @ show_int idx)) (items ! nat idx) s of
          (s', Inl (GoPanic p)) \<Rightarrow> (s', Inl (Errorf (''parallel item '' @ show_int idx @ '' panic: '' @ p)))
        | r \<Rightarrow> r))"

definition fan_order :: "(int list \<Rightarrow> int list) \<Rightarrow> parallelOptions \<Rightarrow> int list \<Rightarrow> int list" where
  "fan_order perm opts indices =
     (if po_maxConcurrency opts \<le> 1 then indices
      else (case indices of [] \<Rightarrow> [] | i # is \<Rightarrow> i # perm is))"

fun run_items ::
  "(int \<Rightarrow> 's \<Rightarrow> 's \<times> (gerror + gval)) \<Rightarrow> int list \<Rightarrow> 's \<Rightarrow> 's \<times> (int \<times> (gerror + gval)) list" where
  "run_items f [] s = (s, [])"
| "run_items f (i # is) s =
     (case f i s of (s', r) \<Rightarrow> (case run_items f is s' of (s'', rs) \<Rightarrow> (s'', (i, r) # rs)))"

definition fanOutItems ::
  "'w invoke \<Rightarrow> string \<Rightarrow> gval list \<Rightarrow> (int list \<Rightarrow> int list) \<Rightarrow> parallelOptions \<Rightarrow> int list \<Rightarrow> 'w Contexts_scheme \<Rightarrow>
   'w Contexts_scheme \<times> (int \<times> (gerror + gval)) list" where
  "fanOutItems sub key items perm opts indices s = run_items (runOne sub key items) (fan_order perm opts indices) s"

text \<open>The loop that collects the results: outputs, completed results, interrupt flag, first error.\<close>

record Collected =
  co_outputs :: "gval list"
  co_completed :: "(int, gval) fmap"
  co_interrupt :: bool
  co_err :: "gerror option"

definition collect_item :: "Collected \<Rightarrow> int \<times> (gerror + gval) \<Rightarrow> Collected" where
  "collect_item c r =
     (case r of
        (idx, Inr out) \<Rightarrow>
          c\<lparr>co_outputs := (if 0 \<le> idx \<and> idx < int (length (co_outputs c))
                          then (co_outputs c)[nat idx := out] else co_outputs c),
            co_completed := fmupd idx out (co_completed c)\<rparr>
      | (idx, Inl err) \<Rightarrow>
          if IsInterrupt err then c\<lparr>co_interrupt := True\<rparr>
          else if co_err c = None
            then c\<lparr>co_err := Some (Wrapf (''graph: parallel item failed: item '' @ show_int idx) err)\<rparr>
            else c)"

text \<open>Outputs filled with the completed results of an earlier run.\<close>

definition replay :: "int \<Rightarrow> (int, gval) fmap \<Rightarrow> gval list" where
  "replay totalCount completed =
     map (\<lambda>i. case fmlookup completed (int i) of Some v \<Rightarrow> v | None \<Rightarrow> VNil) [0..<nat totalCount]"

definition finish_parallel ::
  "(gval \<Rightarrow> string option) \<Rightarrow> string \<Rightarrow> gval list \<Rightarrow> int \<Rightarrow> itemCheckpointStore \<Rightarrow> Collected \<Rightarrow> ('w) Contexts_scheme \<Rightarrow>
   'w Contexts_scheme \<times> (gerror + gval)" where
  "finish_parallel marshal newID items totalCount store c s =
     (case co_err c of
        Some err \<Rightarrow> (s, Inl err)
      | None \<Rightarrow>
          if co_interrupt c
          then (case marshal (VList items) of
              None \<Rightarrow> (s, Inl (Errorf ''graph: parallel marshal inputs''))
            | Some js \<Rightarrow>
                (let st = \<lparr>ps_OriginalInputsJSON = js, ps_CompletedResults = co_completed c,
                           ps_InterruptedIndices = filter (\<lambda>i. fmlookup (co_completed c) i = None) (map int [0..<nat totalCount]),
                           ps_TotalCount = totalCount, ps_ItemCheckpoints = store_snapshot store\<rparr>
                 in case Interrupt newID s (parallel_state_val st) of
                      (s', Inl e) \<Rightarrow> (s', Inl e)
                    | (s', Inr _) \<Rightarrow> (s', Inr VNil)))
          else (s, Inr (VList (co_outputs c))))"

definition runParallel ::
  "(gval \<Rightarrow> string option) \<Rightarrow> (string \<Rightarrow> parallelInterruptState option) \<Rightarrow> string \<Rightarrow> (int list \<Rightarrow> int list) \<Rightarrow>
   'w invoke \<Rightarrow> parallelOptions \<Rightarrow> string \<Rightarrow> gval list \<Rightarrow> 'w Contexts_scheme \<Rightarrow> 'w Contexts_scheme \<times> (gerror + gval)" where
  "runParallel marshal decode newID perm sub opts key items s =
     (case (case loadParallelSnapshot decode s of
              None \<Rightarrow> (int (length items), replicate (length items) VNil, map int [0..<length items],
                       newItemCheckpointStore fmempty)
            | Some prev \<Rightarrow> (ps_TotalCount prev, replay (ps_TotalCount prev) (ps_CompletedResults prev),
                            ps_InterruptedIndices prev, newItemCheckpointStore (ps_ItemCheckpoints prev))) of
        (totalCount, outputs, indices, store) \<Rightarrow>
          if indices = [] then (s, Inr (VList outputs))
          else (case fanOutItems sub key items perm opts indices s of
              (s', results) \<Rightarrow>
                finish_parallel marshal newID items totalCount store
                  (foldl collect_item \<lparr>co_outputs = outputs, co_completed = fmempty, co_interrupt = False, co_err = None\<rparr>
                     results) s'))"

fun list_of :: "gval \<Rightarrow> gval list option" where
  "list_of (VSlice TIface xs) = Some xs"
| "list_of _ = None"

definition parallel_items :: "gval \<Rightarrow> gerror + gval list" where
  "parallel_items st =
     (case list_of st of
        Some xs \<Rightarrow> Inr xs
      | None \<Rightarrow>
          (case as_map st of
             None \<Rightarrow> Inl (Errorf ''graph: parallel node expects []interface{} input'')
           | Some m \<Rightarrow>
               (case Option.bind (fmlookup m ''__input__'') list_of of
                  Some xs \<Rightarrow> Inr xs
                | None \<Rightarrow>
                    (case Option.bind (fmlookup m ''items'') list_of of
                       Some xs \<Rightarrow> Inr xs
                     | None \<Rightarrow> Inl (Errorf ''graph: parallel node cannot extract []interface{}'')))))"

definition NewParallelNodeFunc ::
  "(gval \<Rightarrow> string option) \<Rightarrow> (string \<Rightarrow> parallelInterruptState option) \<Rightarrow> string \<Rightarrow> (int list \<Rightarrow> int list) \<Rightarrow>
   string \<Rightarrow> 'w invoke option \<Rightarrow> (parallelOptions \<Rightarrow> parallelOptions) list \<Rightarrow>
   gerror + (gval \<Rightarrow> 'w Contexts_scheme \<Rightarrow> 'w Contexts_scheme \<times> (gerror + gval))" where
  "NewParallelNodeFunc marshal decode newID perm key sub0 opts =
     (if key = [] then Inl (Errorf ''graph: parallel key is empty'')
      else (case sub0 of
          None \<Rightarrow> Inl (Errorf ''graph: parallel sub-graph is nil'')
        | Some sub \<Rightarrow>
            Inr (\<lambda>st s. case parallel_items st of
                Inl err \<Rightarrow> (s, Inl err)
              | Inr items \<Rightarrow> runParallel marshal decode newID perm sub (getParallelOptions opts) key items s)))"

subsection \<open>Properties\<close>

lemma run_items_results:
  "(\<And>i s. snd (f i s) = g i) \<Longrightarrow> snd (run_items f is s) = map (\<lambda>i. (i, g i)) is"
proof (induction "is" arbitrary: s)
  case (Cons i "is")
  obtain s' where f: "f i s = (s', g i)" using Cons.prems [of i s] by (metis prod.collapse)
  obtain s'' rs where r: "run_items f is s' = (s'', rs)" by (cases "run_items f is s'")
  have "rs = map (\<lambda>i. (i, g i)) is" using Cons.IH [of s'] Cons.prems r by simp
  then show ?case by (simp add: f r)
qed simp

abbreviation collected :: "Collected \<Rightarrow> (int \<Rightarrow> gerror + gval) \<Rightarrow> int list \<Rightarrow> Collected" where
  "collected c g is \<equiv> foldl collect_item c (map (\<lambda>i. (i, g i)) is)"

lemma collected_err:
  "co_err (collected c g is) = None \<longleftrightarrow> co_err c = None \<and> (\<forall>i\<in>set is. \<forall>e. g i = Inl e \<longrightarrow> IsInterrupt e)"
  by (induction "is" arbitrary: c) (auto simp: collect_item_def split: sum.splits)

lemma collected_interrupt:
  "co_interrupt (collected c g is) \<longleftrightarrow> co_interrupt c \<or> (\<exists>i\<in>set is. \<exists>e. g i = Inl e \<and> IsInterrupt e)"
  by (induction "is" arbitrary: c) (auto simp: collect_item_def split: sum.splits)

lemma collected_completed:
  "fmlookup (co_completed (collected c g is)) i =
     (case if i \<in> set is then g i else Inl EmptyChannelError of Inr v \<Rightarrow> Some v | Inl _ \<Rightarrow> fmlookup (co_completed c) i)"
  by (induction "is" arbitrary: c) (auto simp: collect_item_def split: sum.splits)

lemma collected_length [simp]: "length (co_outputs (collected c g is)) = length (co_outputs c)"
  by (induction "is" arbitrary: c) (auto simp: collect_item_def split: sum.splits)

lemma collected_outputs:
  "j < length (co_outputs c) \<Longrightarrow> co_outputs (collected c g is) ! j =
     (case if int j \<in> set is then g (int j) else Inl EmptyChannelError of Inr v \<Rightarrow> v | Inl _ \<Rightarrow> co_outputs c ! j)"
proof (induction "is" arbitrary: c)
  case (Cons i "is")
  let ?c = "collect_item c (i, g i)"
  have "length (co_outputs ?c) = length (co_outputs c)" by (auto simp: collect_item_def split: sum.split)
  with Cons have "co_outputs (collected ?c g is) ! j =
     (case if int j \<in> set is then g (int j) else Inl EmptyChannelError of Inr v \<Rightarrow> v | Inl _ \<Rightarrow> co_outputs ?c ! j)" by simp
  moreover have "co_outputs ?c ! j = (case if int j = i then g (int j) else Inl EmptyChannelError of Inr v \<Rightarrow> v | Inl _ \<Rightarrow> co_outputs c ! j)"
    using Cons.prems by (auto simp: collect_item_def nth_list_update split: sum.split)
  ultimately show ?case by (auto split: sum.splits)
qed simp

lemma set_fan_order:
  assumes "\<And>xs. mset (perm xs) = mset xs"
  shows "set (fan_order perm opts is) = set is"
  using assms [THEN mset_eq_setD] by (cases "is") (auto simp: fan_order_def)

lemma fan_results:
  assumes "\<And>i s. snd (runOne sub key items i s) = g i"
  shows "snd (fanOutItems sub key items perm opts is s) = map (\<lambda>i. (i, g i)) (fan_order perm opts is)"
  unfolding fanOutItems_def by (rule run_items_results) (rule assms)

lemma runParallel_fresh:
  assumes "loadParallelSnapshot decode s = None" and "\<And>i s. snd (runOne sub key items i s) = g i"
    and "items \<noteq> []"
  shows "runParallel marshal decode newID perm sub opts key items s =
    finish_parallel marshal newID items (int (length items)) fmempty
      (collected \<lparr>co_outputs = replicate (length items) VNil, co_completed = fmempty, co_interrupt = False, co_err = None\<rparr> g
         (fan_order perm opts (map int [0..<length items])))
      (fst (fanOutItems sub key items perm opts (map int [0..<length items]) s))"
  using assms(1,3) fan_results [OF assms(2), of perm opts "map int [0..<length items]" s]
  by (simp add: runParallel_def newItemCheckpointStore_def case_prod_beta)

lemma set_indices: "set (map int [0..<n]) = {i. 0 \<le> i \<and> i < int n}"
  by (auto simp: image_int_atLeastLessThan)

text \<open>
  C31: the fan-out returns one output per item, in the order of the items, for every concurrency limit
  and every order in which the items finish.
\<close>

theorem parallel_outputs:
  assumes "loadParallelSnapshot decode s = None" and "\<And>xs. mset (perm xs) = mset xs"
    and "\<And>i s. snd (runOne sub key items i s) = g i"
    and "\<And>i. i < length items \<Longrightarrow> g (int i) = Inr (out i)"
  shows "snd (runParallel marshal decode newID perm sub opts key items s) = Inr (VList (map out [0..<length items]))"
proof (cases "items = []")
  case True
  then show ?thesis using assms(1) by (simp add: runParallel_def)
next
  case False
  let ?c = "\<lparr>co_outputs = replicate (length items) VNil, co_completed = fmempty, co_interrupt = False, co_err = None\<rparr>"
  let ?is = "fan_order perm opts (map int [0..<length items])"
  have dom: "set ?is = {i. 0 \<le> i \<and> i < int (length items)}" by (simp only: set_fan_order [OF assms(2)] set_indices)
  have ok: "g i = Inr (out (nat i))" if "i \<in> set ?is" for i
    using that assms(4) [of "nat i"] by (simp add: dom nat_less_iff)
  have "co_err (collected ?c g ?is) = None" "\<not> co_interrupt (collected ?c g ?is)"
    using ok by (auto simp: collected_err collected_interrupt)
  moreover have "co_outputs (collected ?c g ?is) = map out [0..<length items]"
  proof (rule nth_equalityI)
    fix j assume "j < length (co_outputs (collected ?c g ?is))"
    then have "j < length items" by simp
    then show "co_outputs (collected ?c g ?is) ! j = map out [0..<length items] ! j"
      using ok [of "int j"] by (simp add: collected_outputs dom)
  qed simp
  ultimately show ?thesis
    unfolding runParallel_fresh [OF assms(1,3) False] by (simp add: finish_parallel_def)
qed

definition demo_double :: "RunnableConfig \<Rightarrow> gval \<Rightarrow> Contexts \<Rightarrow> Contexts \<times> (gerror + gval)" where
  "demo_double cfg v s = (s, case v of VInt n \<Rightarrow> Inr (VInt (2 * n)) | _ \<Rightarrow> Inl (GraphInterrupt []))"

lemma demo_double_runOne:
  "snd (runOne demo_double ''p'' [VInt 1, VInt 2] i s) =
     (if i = 0 then Inr (VInt 2) else if i = 1 then Inr (VInt 4) else
      Inl (Errorf (''parallel item index '' @ show_int i @ '' out of bounds'')))"
  by (auto simp: runOne_def demo_double_def)

lemma demo_no_snapshot: "loadParallelSnapshot decode empty_contexts = None"
  by (simp add: loadParallelSnapshot_def empty_contexts_facts map_filter_simps)

theorem parallel_outputs_witness:
  "snd (runParallel (\<lambda>_. None) (\<lambda>_. None) ''i'' rev demo_double \<lparr>po_maxConcurrency = 4\<rparr> ''p'' [VInt 1, VInt 2] empty_contexts) =
     Inr (VList [VInt 2, VInt 4])"
proof -
  let ?g = "\<lambda>i::int. if i = 0 then Inr (VInt 2) else if i = 1 then Inr (VInt 4) else
      Inl (Errorf (''parallel item index '' @ show_int i @ '' out of bounds''))"
  let ?out = "\<lambda>i::nat. if i = 0 then VInt 2 else VInt 4"
  have "snd (runParallel (\<lambda>_. None) (\<lambda>_. None) ''i'' rev demo_double \<lparr>po_maxConcurrency = 4\<rparr> ''p'' [VInt 1, VInt 2]
      empty_contexts) = Inr (VList (map ?out [0..<length [VInt 1, VInt 2]]))"
    by (rule parallel_outputs [where g = ?g, OF demo_no_snapshot])
      (auto simp: demo_double_runOne less_Suc_eq)
  then show ?thesis by (simp add: upt_rec)
qed

text \<open>The saved state of an interrupted fan-out, for any outcome of its items that has no error.\<close>

definition interrupt_state ::
  "string \<Rightarrow> (int \<Rightarrow> gerror + gval) \<Rightarrow> int list \<Rightarrow> int \<Rightarrow> itemCheckpointStore \<Rightarrow> (int, gval) fmap \<Rightarrow> parallelInterruptState" where
  "interrupt_state js g indices totalCount store completed =
     \<lparr>ps_OriginalInputsJSON = js, ps_CompletedResults = completed,
      ps_InterruptedIndices = filter (\<lambda>i. i \<notin> set indices \<or> isl (g i)) (map int [0..<nat totalCount]),
      ps_TotalCount = totalCount, ps_ItemCheckpoints = store\<rparr>"

lemma finish_parallel_interrupt:
  assumes "\<forall>i\<in>set is. \<forall>e. g i = Inl e \<longrightarrow> IsInterrupt e" and "\<exists>i\<in>set is. isl (g i)"
    and "marshal (VList items) = Some js"
    and "length (GetResumeValues s) \<le> ic_index (current_ic s)" "ic_nullResume (current_ic s) = VNil"
  shows "\<exists>done. (\<forall>i. fmlookup done i = (if i \<in> set is then (case g i of Inr v \<Rightarrow> Some v | Inl _ \<Rightarrow> None) else None)) \<and>
    finish_parallel marshal newID items n store
      (collected \<lparr>co_outputs = outs, co_completed = fmempty, co_interrupt = False, co_err = None\<rparr> g is) s =
    (s, Inl (GraphInterrupt [interrupt_val (parallel_state_val (interrupt_state js g is n store done)) newID]))"
proof -
  let ?c = "collected \<lparr>co_outputs = outs, co_completed = fmempty, co_interrupt = False, co_err = None\<rparr> g is"
  have look: "fmlookup (co_completed ?c) i = (if i \<in> set is then (case g i of Inr v \<Rightarrow> Some v | Inl _ \<Rightarrow> None) else None)" for i
    by (simp add: collected_completed split: sum.split)
  have pend: "(fmlookup (co_completed ?c) i = None) = (i \<notin> set is \<or> isl (g i))" for i
    unfolding look by (auto split: sum.split)
  have "co_err ?c = None" using assms(1) by (simp add: collected_err)
  moreover have "co_interrupt ?c" using assms(1,2) by (auto simp: collected_interrupt isl_def)
  ultimately have "finish_parallel marshal newID items n store ?c s =
    (s, Inl (GraphInterrupt [interrupt_val (parallel_state_val (interrupt_state js g is n store (co_completed ?c))) newID]))"
    using assms(3)
    by (simp add: finish_parallel_def Let_def Interrupt_raises [OF assms(4,5)] interrupt_state_def pend store_snapshot_def)
  with look show ?thesis by blast
qed

lemma runParallel_resumed:
  assumes "loadParallelSnapshot decode s = Some prev" and "\<And>i s. snd (runOne sub key items i s) = g i"
    and "ps_InterruptedIndices prev \<noteq> []"
  shows "runParallel marshal decode newID perm sub opts key items s =
    finish_parallel marshal newID items (ps_TotalCount prev) (ps_ItemCheckpoints prev)
      (collected \<lparr>co_outputs = replay (ps_TotalCount prev) (ps_CompletedResults prev), co_completed = fmempty,
         co_interrupt = False, co_err = None\<rparr> g (fan_order perm opts (ps_InterruptedIndices prev)))
      (fst (fanOutItems sub key items perm opts (ps_InterruptedIndices prev) s))"
  using assms(1,3) fan_results [OF assms(2), of perm opts "ps_InterruptedIndices prev" s]
  by (simp add: runParallel_def newItemCheckpointStore_def case_prod_beta)

lemma resumed_outputs:
  assumes st: "loadParallelSnapshot decode s2 = Some (interrupt_state js g is (int (length items)) store d)"
    and sub: "\<And>i s. snd (runOne sub key items i s) = h i" and perm: "\<And>xs. mset (perm xs) = mset xs"
    and "is": "set is = {i. 0 \<le> i \<and> i < int (length items)}"
    and d: "\<And>i. fmlookup d i = (if i \<in> set is then (case g i of Inr v \<Rightarrow> Some v | Inl _ \<Rightarrow> None) else None)"
    and ex: "\<exists>i<length items. isl (g (int i))"
    and h: "\<And>i e. 0 \<le> i \<Longrightarrow> i < int (length items) \<Longrightarrow> g i = Inl e \<Longrightarrow> h i = Inr (again (nat i))"
  shows "snd (runParallel marshal decode newID perm sub opts key items s2) =
      Inr (VList (map (\<lambda>i. case g (int i) of Inr v \<Rightarrow> v | Inl _ \<Rightarrow> again i) [0..<length items]))"
proof -
  let ?st = "interrupt_state js g is (int (length items)) store d"
  let ?js = "fan_order perm opts (ps_InterruptedIndices ?st)"
  let ?c = "\<lparr>co_outputs = replay (ps_TotalCount ?st) (ps_CompletedResults ?st), co_completed = fmempty,
         co_interrupt = False, co_err = None\<rparr>"
  have js: "i \<in> set ?js \<longleftrightarrow> 0 \<le> i \<and> i < int (length items) \<and> isl (g i)" for i
    unfolding set_fan_order [OF perm] interrupt_state_def by (auto simp: "is" image_int_atLeastLessThan)
  then have ne: "ps_InterruptedIndices ?st \<noteq> []"
    using ex set_fan_order [OF perm, of opts "ps_InterruptedIndices ?st"] by fastforce
  have ok: "h i = Inr (again (nat i))" if "i \<in> set ?js" for i
    using that h unfolding js by (auto simp: isl_def)
  have "co_err (collected ?c h ?js) = None" "\<not> co_interrupt (collected ?c h ?js)"
    using ok by (auto simp: collected_err collected_interrupt)
  moreover have "co_outputs (collected ?c h ?js) = map (\<lambda>i. case g (int i) of Inr v \<Rightarrow> v | Inl _ \<Rightarrow> again i) [0..<length items]"
  proof (rule nth_equalityI)
    fix j assume "j < length (co_outputs (collected ?c h ?js))"
    then have j: "j < length items" by (simp add: replay_def interrupt_state_def)
    then have "co_outputs (collected ?c h ?js) ! j =
        (case if int j \<in> set ?js then h (int j) else Inl EmptyChannelError of Inr v \<Rightarrow> v | Inl _ \<Rightarrow>
           (case fmlookup d (int j) of Some v \<Rightarrow> v | None \<Rightarrow> VNil))"
      by (subst collected_outputs) (simp_all add: replay_def interrupt_state_def split: sum.split)
    also have "\<dots> = (case g (int j) of Inr v \<Rightarrow> v | Inl _ \<Rightarrow> again j)"
      using ok [of "int j"] j by (simp add: js d "is" split: sum.split)
    finally show "co_outputs (collected ?c h ?js) ! j = map (\<lambda>i. case g (int i) of Inr v \<Rightarrow> v | Inl _ \<Rightarrow> again i) [0..<length items] ! j"
      using j by (simp split: sum.split)
  qed (simp add: replay_def interrupt_state_def)
  ultimately show ?thesis
    unfolding runParallel_resumed [OF st sub ne] by (simp add: finish_parallel_def)
qed

text \<open>
  An interrupted fan-out that gets its state back processes only the items that were interrupted:
  each other item keeps the output of the first run, and the result is again in the order of the items.
\<close>

theorem parallel_resume:
  assumes "loadParallelSnapshot decode s = None" and "\<And>xs. mset (perm xs) = mset xs"
    and "\<And>i s. snd (runOne sub key items i s) = g i" and "\<And>i s. snd (runOne sub' key items i s) = h i"
    and "\<And>i. i < length items \<Longrightarrow> \<forall>e. g (int i) = Inl e \<longrightarrow> IsInterrupt e \<and> h (int i) = Inr (again i)"
    and "\<exists>i<length items. isl (g (int i))" and "marshal (VList items) = Some js"
    and "s' = fst (fanOutItems sub key items perm opts (map int [0..<length items]) s)"
    and "length (GetResumeValues s') \<le> ic_index (current_ic s')" "ic_nullResume (current_ic s') = VNil"
  shows "\<exists>st. runParallel marshal decode newID perm sub opts key items s =
        (s', Inl (GraphInterrupt [interrupt_val (parallel_state_val st) newID])) \<and>
      ps_OriginalInputsJSON st = js \<and> ps_TotalCount st = int (length items) \<and> ps_ItemCheckpoints st = fmempty \<and>
      ps_InterruptedIndices st = filter (\<lambda>i. isl (g i)) (map int [0..<length items]) \<and>
      (\<forall>i. fmlookup (ps_CompletedResults st) i =
         (if 0 \<le> i \<and> i < int (length items) then (case g i of Inr v \<Rightarrow> Some v | Inl _ \<Rightarrow> None) else None)) \<and>
      (\<forall>s2. loadParallelSnapshot decode s2 = Some st \<longrightarrow>
         snd (runParallel marshal decode newID perm sub' opts key items s2) =
           Inr (VList (map (\<lambda>i. case g (int i) of Inr v \<Rightarrow> v | Inl _ \<Rightarrow> again i) [0..<length items])))"
proof -
  let ?n = "length items" and ?is = "fan_order perm opts (map int [0..<length items])"
  have ne: "items \<noteq> []" using assms(6) by auto
  have dom: "set ?is = {i. 0 \<le> i \<and> i < int ?n}" by (simp only: set_fan_order [OF assms(2)] set_indices)
  have bad: "IsInterrupt e \<and> h i = Inr (again (nat i))" if "0 \<le> i" "i < int ?n" "g i = Inl e" for i e
    using assms(5) [of "nat i"] that by (simp add: nat_less_iff)
  have all: "\<forall>i\<in>set ?is. \<forall>e. g i = Inl e \<longrightarrow> IsInterrupt e" 
    using bad by (auto simp: dom)
  obtain i0 where "i0 < ?n" "isl (g (int i0))" using assms(6) by blast
  then have some: "\<exists>i\<in>set ?is. isl (g i)" unfolding dom by (intro bexI [of _ "int i0"]) simp_all
  obtain d where d: "\<And>i. fmlookup d i = (if i \<in> set ?is then (case g i of Inr v \<Rightarrow> Some v | Inl _ \<Rightarrow> None) else None)"
    and run: "runParallel marshal decode newID perm sub opts key items s = (s', Inl (GraphInterrupt
      [interrupt_val (parallel_state_val (interrupt_state js g ?is (int ?n) fmempty d)) newID]))"
    using finish_parallel_interrupt [where marshal = marshal and items = items and newID = newID and n = "int ?n" and
        store = fmempty and outs = "replicate ?n VNil", OF all some assms(7,9,10)]
    unfolding runParallel_fresh [OF assms(1,3) ne] assms(8) by metis
  let ?st = "interrupt_state js g ?is (int ?n) fmempty d"
  have "snd (runParallel marshal decode newID perm sub' opts key items s2) =
      Inr (VList (map (\<lambda>i. case g (int i) of Inr v \<Rightarrow> v | Inl _ \<Rightarrow> again i) [0..<?n]))"
    if st: "loadParallelSnapshot decode s2 = Some ?st" for s2
    by (rule resumed_outputs [OF st assms(4) assms(2) dom d assms(6)]) (use bad in blast)
  moreover have "filter (\<lambda>i. i \<notin> set ?is \<or> isl (g i)) (map int [0..<?n]) = filter (\<lambda>i. isl (g i)) (map int [0..<?n])"
    by (rule filter_cong) (auto simp: dom)
  ultimately show ?thesis using run d by (intro exI [of _ ?st]) (simp add: interrupt_state_def dom)
qed

definition demo_half :: "RunnableConfig \<Rightarrow> gval \<Rightarrow> Contexts \<Rightarrow> Contexts \<times> (gerror + gval)" where
  "demo_half cfg v s = (if v = VInt 2 then (s, Inl (GraphInterrupt [])) else demo_double cfg v s)"

lemma demo_half_runOne:
  "snd (runOne demo_half ''p'' [VInt 1, VInt 2] i s) =
     (if i = 0 then Inr (VInt 2) else if i = 1 then Inl (GraphInterrupt []) else
      Inl (Errorf (''parallel item index '' @ show_int i @ '' out of bounds'')))"
  by (auto simp: runOne_def demo_half_def demo_double_def)

definition parallel_demo_state :: parallelInterruptState where
  "parallel_demo_state = \<lparr>ps_OriginalInputsJSON = ''[1,2]'', ps_CompletedResults = fmap_of_list [(0, VInt 2)],
     ps_InterruptedIndices = [1], ps_TotalCount = 2, ps_ItemCheckpoints = fmempty\<rparr>"

theorem parallel_resume_witness:
  "runParallel (\<lambda>_. Some ''[1,2]'') (\<lambda>_. Some parallel_demo_state) ''i'' rev demo_half \<lparr>po_maxConcurrency = 0\<rparr> ''p'' [VInt 1, VInt 2]
       empty_contexts = (empty_contexts, Inl (GraphInterrupt [interrupt_val (parallel_state_val parallel_demo_state) ''i''])) \<and>
   snd (runParallel (\<lambda>_. Some ''[1,2]'') (\<lambda>_. Some parallel_demo_state) ''i'' rev demo_double \<lparr>po_maxConcurrency = 0\<rparr> ''p'' [VInt 1, VInt 2]
       (SetResumeValues empty_contexts [VStr ''state''])) = Inr (VList [VInt 2, VInt 4])"
proof -
  let ?g = "\<lambda>i::int. if i = 0 then Inr (VInt 2) else if i = 1 then Inl (GraphInterrupt []) else
      Inl (Errorf (''parallel item index '' @ show_int i @ '' out of bounds''))"
  let ?h = "\<lambda>i::int. if i = 0 then Inr (VInt 2) else if i = 1 then Inr (VInt 4) else
      Inl (Errorf (''parallel item index '' @ show_int i @ '' out of bounds''))"
  let ?run = "\<lambda>sub. runParallel (\<lambda>_. Some ''[1,2]'') (\<lambda>_. Some parallel_demo_state) ''i'' rev sub \<lparr>po_maxConcurrency = 0\<rparr> ''p'' [VInt 1, VInt 2]"
  have s': "empty_contexts = fst (fanOutItems demo_half ''p'' [VInt 1, VInt 2] rev \<lparr>po_maxConcurrency = 0\<rparr>
      (map int [0..<length [VInt 1, VInt 2]]) empty_contexts)"
    by (simp add: fanOutItems_def fan_order_def runOne_def demo_half_def demo_double_def upt_rec)
  have none: "loadParallelSnapshot (\<lambda>_. Some parallel_demo_state) empty_contexts = None"
    by (simp add: loadParallelSnapshot_def empty_contexts_facts map_filter_simps)
  let ?Q = "\<lambda>st. ?run demo_half empty_contexts = (empty_contexts, Inl (GraphInterrupt [interrupt_val (parallel_state_val st) ''i''])) \<and>
      ps_OriginalInputsJSON st = ''[1,2]'' \<and> ps_TotalCount st = int (length [VInt 1, VInt 2]) \<and> ps_ItemCheckpoints st = fmempty \<and>
      ps_InterruptedIndices st = filter (\<lambda>i. isl (?g i)) (map int [0..<length [VInt 1, VInt 2]]) \<and>
      (\<forall>i. fmlookup (ps_CompletedResults st) i =
         (if 0 \<le> i \<and> i < int (length [VInt 1, VInt 2]) then (case ?g i of Inr v \<Rightarrow> Some v | Inl _ \<Rightarrow> None) else None)) \<and>
      (\<forall>s2. loadParallelSnapshot (\<lambda>_. Some parallel_demo_state) s2 = Some st \<longrightarrow> snd (?run demo_double s2) =
         Inr (VList (map (\<lambda>i. case ?g (int i) of Inr v \<Rightarrow> v | Inl _ \<Rightarrow> VInt 4) [0..<length [VInt 1, VInt 2]])))"
  have "\<exists>st. ?Q st"
    by (rule parallel_resume [where g = ?g and h = ?h and js = "''[1,2]''", OF none])
      (use s' in \<open>auto simp: demo_half_runOne demo_double_runOne less_Suc_eq IsInterrupt_def empty_contexts_facts split: if_splits\<close>)
  then obtain st where st: "?Q st" ..
  have "ps_CompletedResults st = ps_CompletedResults parallel_demo_state"
    by (rule fmap_ext) (use st in \<open>simp add: parallel_demo_state_def\<close>)
  with st have eq: "st = parallel_demo_state" by (simp add: parallel_demo_state_def upt_rec)
  have "loadParallelSnapshot (\<lambda>_. Some parallel_demo_state) (SetResumeValues empty_contexts [VStr ''state'']) = Some parallel_demo_state"
    by (simp add: loadParallelSnapshot_def GetResumeValues_def SetResumeValues_def current_ic_def put_ic_def GetInterruptContext_def
        empty_contexts_def new_context_def map_filter_simps parallel_demo_state_def)
  with st eq show ?thesis by (simp add: upt_rec)
qed

text \<open>
  A fan-out that is interrupted a second time forgets the first run: an item that had completed
  before the first interrupt is listed as interrupted again and its result is not saved.
\<close>

theorem parallel_forgets:
  assumes "loadParallelSnapshot decode s = Some prev" and "\<And>xs. mset (perm xs) = mset xs"
    and "\<And>i s. snd (runOne sub key items i s) = g i"
    and "\<forall>i\<in>set (ps_InterruptedIndices prev). \<forall>e. g i = Inl e \<longrightarrow> IsInterrupt e"
    and "\<exists>i\<in>set (ps_InterruptedIndices prev). isl (g i)" and "marshal (VList items) = Some js"
    and "s' = fst (fanOutItems sub key items perm opts (ps_InterruptedIndices prev) s)"
    and "length (GetResumeValues s') \<le> ic_index (current_ic s')" "ic_nullResume (current_ic s') = VNil"
    and "0 \<le> i" "i < ps_TotalCount prev" "i \<notin> set (ps_InterruptedIndices prev)"
  shows "\<exists>st. runParallel marshal decode newID perm sub opts key items s =
        (s', Inl (GraphInterrupt [interrupt_val (parallel_state_val st) newID])) \<and>
      i \<in> set (ps_InterruptedIndices st) \<and> fmlookup (ps_CompletedResults st) i = None"
proof -
  let ?is = "fan_order perm opts (ps_InterruptedIndices prev)" and ?n = "ps_TotalCount prev"
  have ne: "ps_InterruptedIndices prev \<noteq> []" using assms(5) by auto
  have dom: "set ?is = set (ps_InterruptedIndices prev)" by (rule set_fan_order [OF assms(2)])
  have all: "\<forall>i\<in>set ?is. \<forall>e. g i = Inl e \<longrightarrow> IsInterrupt e" and some: "\<exists>i\<in>set ?is. isl (g i)"
    using assms(4,5) by (simp_all only: dom)
  obtain d where d: "\<And>i. fmlookup d i = (if i \<in> set ?is then (case g i of Inr v \<Rightarrow> Some v | Inl _ \<Rightarrow> None) else None)"
    and run: "runParallel marshal decode newID perm sub opts key items s = (s', Inl (GraphInterrupt
      [interrupt_val (parallel_state_val (interrupt_state js g ?is ?n (ps_ItemCheckpoints prev) d)) newID]))"
    using finish_parallel_interrupt [where marshal = marshal and items = items and newID = newID and n = ?n and
        store = "ps_ItemCheckpoints prev" and outs = "replay ?n (ps_CompletedResults prev)", OF all some assms(6,8,9)]
    unfolding runParallel_resumed [OF assms(1,3) ne] assms(7) by metis
  have "i \<in> set (ps_InterruptedIndices (interrupt_state js g ?is ?n (ps_ItemCheckpoints prev) d))"
    using assms(10-12) by (simp add: interrupt_state_def dom image_int_atLeastLessThan)
  moreover have "fmlookup (ps_CompletedResults (interrupt_state js g ?is ?n (ps_ItemCheckpoints prev) d)) i = None"
    using assms(12) by (simp add: interrupt_state_def d dom)
  ultimately show ?thesis using run by blast
qed

text \<open>
  The state that the engine restores into the context for a resumed node is not looked at by the
  fan-out, which searches the resume values only.
\<close>

lemma parallel_ignores_subState:
  "loadParallelSnapshot decode (s\<lparr>cx_subState := b\<rparr>) = loadParallelSnapshot decode s"
  by (cases "cx_request s") (simp_all add: loadParallelSnapshot_def GetResumeValues_def current_ic_def GetInterruptContext_def)

end
