(* ===== verification/Messages.thy ===== *)
theory Messages
  imports Graph_Build
begin

text \<open>
  \<open>graph/message.go\<close>: conversation messages, the reducer that merges message lists by identifier, the
  message graph, filters and the OpenAI chat format. A \<open>*Message\<close> stored in a state or channel is the
  struct value \<open>msg_val m\<close>, a \<open>[]*Message\<close> a slice with element type \<open>msg_type\<close>; message pointers are not nil.
\<close>

record Message =
  m_ID :: string
  m_Role :: string
  m_Content :: string
  m_Extra :: "(string, gval) fmap"

definition NewMessage :: "string \<Rightarrow> string \<Rightarrow> Message" where
  "NewMessage role content = \<lparr>m_ID = [], m_Role = role, m_Content = content, m_Extra = fmempty\<rparr>"

definition NewMessageWithID :: "string \<Rightarrow> string \<Rightarrow> string \<Rightarrow> Message" where
  "NewMessageWithID i role content = \<lparr>m_ID = i, m_Role = role, m_Content = content, m_Extra = fmempty\<rparr>"

subsection \<open>Messages as dynamic values\<close>

definition msg_type :: gotype where
  "msg_type = TPtr (TStruct ''graph.Message''
     [(''ID'', True, TStr), (''Role'', True, TStr), (''Content'', True, TStr), (''Extra'', True, TMap TIface)])"

definition msg_val :: "Message \<Rightarrow> gval" where
  "msg_val m = VStruct ''graph.Message''
     [(''ID'', True, TStr, VStr (m_ID m)), (''Role'', True, TStr, VStr (m_Role m)),
      (''Content'', True, TStr, VStr (m_Content m)), (''Extra'', True, TMap TIface, VMap (m_Extra m))]"

text \<open>The type assertion \<open>v.(*Message)\<close>.\<close>

definition as_message :: "gval \<Rightarrow> Message option" where
  "as_message v =
     (case v of
        VStruct n [(_, _, _, VStr i), (_, _, _, VStr r), (_, _, _, VStr c), (_, _, _, VMapT TIface e)] \<Rightarrow>
          if n = ''graph.Message'' then Some \<lparr>m_ID = i, m_Role = r, m_Content = c, m_Extra = e\<rparr> else None
      | _ \<Rightarrow> None)"

definition msgs_val :: "Message list \<Rightarrow> gval" where
  "msgs_val ms = VSlice msg_type (map msg_val ms)"

text \<open>The type assertion \<open>v.([]*Message)\<close>.\<close>

fun as_messages :: "gval \<Rightarrow> Message list option" where
  "as_messages (VSlice t xs) = (if t = msg_type then those (map as_message xs) else None)"
| "as_messages _ = None"

lemma as_message_val [simp]: "as_message (msg_val m) = Some m"
  by (simp add: as_message_def msg_val_def)

lemma those_map_Some [simp]: "those (map (\<lambda>x. Some (f x)) xs) = Some (map f xs)"
  by (induction xs) auto

lemma as_messages_val [simp]: "as_messages (msgs_val ms) = Some ms"
  by (simp add: msgs_val_def o_def those_map_Some [of "\<lambda>x. x", simplified])

lemma msgs_val_not_nil [simp]: "msgs_val ms \<noteq> VNil"
  by (simp add: msgs_val_def)

lemma msg_val_not_list [simp]: "as_messages (msg_val m) = None"
  by (simp add: msg_val_def)

subsection \<open>The state of message graphs\<close>

record MessagesState =
  mst_Messages :: "Message list"
  mst_Extra :: "(string, gval) fmap"

definition AddMessages :: "MessagesState \<Rightarrow> Message list \<Rightarrow> MessagesState" where
  "AddMessages s msgs = s\<lparr>mst_Messages := mst_Messages s @ msgs\<rparr>"

definition MessagesState_GetMessages :: "MessagesState \<Rightarrow> Message list" where
  "MessagesState_GetMessages s = mst_Messages s"

definition GetLastMessage :: "MessagesState \<Rightarrow> Message option" where
  "GetLastMessage s =
     (if length (mst_Messages s) = 0 then None else Some (mst_Messages s ! (length (mst_Messages s) - 1)))"

definition GetMessagesByRole :: "MessagesState \<Rightarrow> string \<Rightarrow> Message list" where
  "GetMessagesByRole s role = filter (\<lambda>m. m_Role m = role) (mst_Messages s)"

subsection \<open>The reducer\<close>

text \<open>One existing message: kept, or replaced by the first update with its identifier.\<close>

definition merge_one :: "Message list \<Rightarrow> Message list \<times> string list \<Rightarrow> Message \<Rightarrow> Message list \<times> string list" where
  "merge_one msgs acc msg =
     (case acc of (result, processedIDs) \<Rightarrow>
        if m_ID msg = [] then (result @ [msg], processedIDs)
        else (case List.find (\<lambda>u. m_ID u = m_ID msg) msgs of
            Some u \<Rightarrow> (result @ [u], m_ID msg # processedIDs)
          | None \<Rightarrow> (result @ [msg], processedIDs)))"

definition append_new :: "string list \<Rightarrow> string list \<Rightarrow> Message list \<Rightarrow> Message \<Rightarrow> Message list" where
  "append_new processedIDs existingIDs result msg =
     (if m_ID msg = [] then result @ [msg]
      else if m_ID msg \<notin> set processedIDs \<and> m_ID msg \<notin> set existingIDs then result @ [msg]
      else result)"

definition merge_messages :: "Message list \<Rightarrow> Message list \<Rightarrow> Message list" where
  "merge_messages existingMsgs msgs =
     (let existingIDs = filter (\<lambda>i. i \<noteq> []) (map m_ID existingMsgs)
      in case foldl (merge_one msgs) ([], []) existingMsgs of
           (result, processedIDs) \<Rightarrow> foldl (append_new processedIDs existingIDs) result msgs)"

definition AddMessagesReducer :: "gval \<Rightarrow> gval \<Rightarrow> gerror + gval" where
  "AddMessagesReducer existing updates =
     (case (case as_messages updates of Some ms \<Rightarrow> Some ms | None \<Rightarrow> map_option (\<lambda>m. [m]) (as_message updates)) of
        None \<Rightarrow> Inl (Errorf ''cannot add messages'')
      | Some msgs \<Rightarrow>
          if existing = VNil then Inr (msgs_val msgs)
          else (case as_messages existing of
              None \<Rightarrow> Inl (Errorf ''existing messages is not []*Message'')
            | Some existingMsgs \<Rightarrow> Inr (msgs_val (merge_messages existingMsgs msgs))))"

subsection \<open>Message graphs\<close>

record MessageGraph =
  mg_graph :: stateGraph
  mg_messagesChannel :: string

definition NewMessageGraph :: MessageGraph where
  "NewMessageGraph =
     \<lparr>mg_graph = AddChannel (NewStateGraph (VMap (fmap_of_list [(''messages'', VList [])]))) ''messages''
                  (Some (CLastValue (NewLastValue (Some (TSlice msg_type))))),
      mg_messagesChannel = ''messages''\<rparr>"

definition MessageGraph_AddNode :: "MessageGraph \<Rightarrow> string \<Rightarrow> nodefn option \<Rightarrow> MessageGraph" where
  "MessageGraph_AddNode g name action = g\<lparr>mg_graph := AddNode (mg_graph g) name action\<rparr>"

definition MessageGraph_AddEdge :: "MessageGraph \<Rightarrow> string \<Rightarrow> string \<Rightarrow> gerror + MessageGraph" where
  "MessageGraph_AddEdge g a b = map_sum id (\<lambda>sg. g\<lparr>mg_graph := sg\<rparr>) (AddEdge (mg_graph g) a b)"

definition MessageGraph_AddConditionalEdge ::
  "MessageGraph \<Rightarrow> string \<Rightarrow> edgefn \<Rightarrow> (string, string) fmap \<Rightarrow> gerror + MessageGraph" where
  "MessageGraph_AddConditionalEdge g source cond edgeMap =
     map_sum id (\<lambda>sg. g\<lparr>mg_graph := sg\<rparr>) (AddConditionalEdges (mg_graph g) source cond edgeMap)"

definition MessageGraph_SetEntryPoint :: "MessageGraph \<Rightarrow> string \<Rightarrow> gerror + MessageGraph" where
  "MessageGraph_SetEntryPoint g node = map_sum id (\<lambda>sg. g\<lparr>mg_graph := sg\<rparr>) (SetEntryPoint (mg_graph g) node)"

definition MessageGraph_Build ::
  "(rat \<Rightarrow> rat \<Rightarrow> rat) \<Rightarrow> (string \<Rightarrow> string) \<Rightarrow> MessageGraph \<Rightarrow> gerror + compiledGraph" where
  "MessageGraph_Build fadd tag g = Compile fadd tag (mg_graph g) []"

text \<open>Reading the messages channel; an ephemeral channel would be emptied by it.\<close>

definition MessageGraph_GetMessages :: "MessageGraph \<Rightarrow> Registry \<Rightarrow> Registry \<times> Message list" where
  "MessageGraph_GetMessages g r =
     (case Registry_Get r (mg_messagesChannel g) of
        None \<Rightarrow> (r, [])
      | Some ch \<Rightarrow>
          (case Get ch of
             (ch', res) \<Rightarrow>
               (Registry_Register r (mg_messagesChannel g) ch',
                case res of Inl _ \<Rightarrow> [] | Inr d \<Rightarrow> (case as_messages d of Some ms \<Rightarrow> ms | None \<Rightarrow> []))))"

definition MessageGraph_GetState :: "MessageGraph \<Rightarrow> (string, gval) fmap" where
  "MessageGraph_GetState g = fmap_of_list [(''messages'', VList [])]"

text \<open>\<open>GetMessagesFromState\<close>: an untyped list is accepted when all its elements are messages.\<close>

fun untyped_messages :: "nat \<Rightarrow> gval list \<Rightarrow> gerror + Message list" where
  "untyped_messages i [] = Inr []"
| "untyped_messages i (v # vs) =
     (case as_message v of
        None \<Rightarrow> Inl (Errorf (''message at index '' @ show_nat i @ '' is not *Message''))
      | Some m \<Rightarrow> map_sum id (\<lambda>ms. m # ms) (untyped_messages (Suc i) vs))"

definition GetMessagesFromState :: "(string, gval) fmap \<Rightarrow> gerror + Message list" where
  "GetMessagesFromState st =
     (case fmlookup st ''messages'' of
        None \<Rightarrow> Inr []
      | Some v \<Rightarrow>
          (case as_messages v of
             Some ms \<Rightarrow> Inr ms
           | None \<Rightarrow>
               (case v of
                  VSlice TIface vs \<Rightarrow> untyped_messages 0 vs
                | _ \<Rightarrow> Inl (Errorf ''messages is not []*Message''))))"

definition AddMessagesToState :: "(string, gval) fmap \<Rightarrow> Message list \<Rightarrow> gerror + (string, gval) fmap" where
  "AddMessagesToState st msgs =
     map_sum id (\<lambda>existing. fmupd ''messages'' (msgs_val (existing @ msgs)) st) (GetMessagesFromState st)"

subsection \<open>Constructors and helpers\<close>

definition HumanMessage :: "string \<Rightarrow> Message" where "HumanMessage content = NewMessage ''user'' content"
definition AIMessage :: "string \<Rightarrow> Message" where "AIMessage content = NewMessage ''assistant'' content"
definition SystemMessage :: "string \<Rightarrow> Message" where "SystemMessage content = NewMessage ''system'' content"

definition ToolMessage :: "string \<Rightarrow> string \<Rightarrow> Message" where
  "ToolMessage content toolCallID =
     (let m = NewMessage ''tool'' content in m\<lparr>m_Extra := fmupd ''tool_call_id'' (VStr toolCallID) (m_Extra m)\<rparr>)"

definition FunctionMessage :: "string \<Rightarrow> string \<Rightarrow> Message" where
  "FunctionMessage content name =
     (let m = NewMessage ''function'' content in m\<lparr>m_Extra := fmupd ''name'' (VStr name) (m_Extra m)\<rparr>)"

definition FormatMessages :: "Message list \<Rightarrow> string list" where
  "FormatMessages msgs = map (\<lambda>m. m_Role m @ '': '' @ m_Content m) msgs"

definition GetLastUserMessage :: "Message list \<Rightarrow> Message option" where
  "GetLastUserMessage msgs = List.find (\<lambda>m. m_Role m = ''user'') (rev msgs)"

definition GetLastAIMessage :: "Message list \<Rightarrow> Message option" where
  "GetLastAIMessage msgs = List.find (\<lambda>m. m_Role m = ''assistant'') (rev msgs)"

definition FilterMessagesByRole :: "Message list \<Rightarrow> string list \<Rightarrow> Message list" where
  "FilterMessagesByRole msgs roles = filter (\<lambda>m. m_Role m \<in> set roles) msgs"

record MessagesFilter =
  f_roles :: "string list"
  f_limit :: int
  f_offset :: int
  f_reverse :: bool
  f_predicate :: "(Message \<Rightarrow> bool) option"

definition NewMessagesFilter :: MessagesFilter where
  "NewMessagesFilter = \<lparr>f_roles = [], f_limit = 0, f_offset = 0, f_reverse = False, f_predicate = None\<rparr>"

definition WithRole :: "MessagesFilter \<Rightarrow> string list \<Rightarrow> MessagesFilter" where
  "WithRole f roles = f\<lparr>f_roles := roles\<rparr>"

definition WithLimit :: "MessagesFilter \<Rightarrow> int \<Rightarrow> MessagesFilter" where
  "WithLimit f n = f\<lparr>f_limit := n\<rparr>"

definition WithOffset :: "MessagesFilter \<Rightarrow> int \<Rightarrow> MessagesFilter" where
  "WithOffset f n = f\<lparr>f_offset := n\<rparr>"

definition WithReverse :: "MessagesFilter \<Rightarrow> MessagesFilter" where
  "WithReverse f = f\<lparr>f_reverse := True\<rparr>"

definition WithPredicate :: "MessagesFilter \<Rightarrow> (Message \<Rightarrow> bool) \<Rightarrow> MessagesFilter" where
  "WithPredicate f p = f\<lparr>f_predicate := Some p\<rparr>"

definition Filter_messages :: "MessagesFilter \<Rightarrow> Message list \<Rightarrow> Message list" where
  "Filter_messages f msgs =
     (let r1 = filter (\<lambda>m. (f_roles f = [] \<or> m_Role m \<in> set (f_roles f)) \<and>
                 (case f_predicate f of Some p \<Rightarrow> p m | None \<Rightarrow> True)) msgs;
          r2 = (if f_offset f > 0 \<and> f_offset f < int (length r1) then drop (nat (f_offset f)) r1 else r1);
          r3 = (if f_limit f > 0 \<and> f_limit f < int (length r2) then take (nat (f_limit f)) r2 else r2)
      in if f_reverse f then rev r3 else r3)"

record OpenAIChatMessage =
  oa_Role :: string
  oa_Content :: string
  oa_Name :: string

definition ToOpenAIChatMessage :: "Message \<Rightarrow> OpenAIChatMessage" where
  "ToOpenAIChatMessage m = \<lparr>oa_Role = m_Role m, oa_Content = m_Content m, oa_Name = []\<rparr>"

definition MessagesToOpenAIFormat :: "Message list \<Rightarrow> OpenAIChatMessage list" where
  "MessagesToOpenAIFormat messages = map ToOpenAIChatMessage messages"

definition OpenAIFormatToMessages :: "OpenAIChatMessage list \<Rightarrow> Message list" where
  "OpenAIFormatToMessages ms =
     map (\<lambda>o'. \<lparr>m_ID = [], m_Role = oa_Role o', m_Content = oa_Content o',
                m_Extra = (if oa_Name o' \<noteq> [] then fmupd ''name'' (VStr (oa_Name o')) fmempty else fmempty)\<rparr>) ms"

subsection \<open>Properties\<close>

definition updated :: "Message list \<Rightarrow> Message \<Rightarrow> Message" where
  "updated us m = (if m_ID m = [] then m else (case List.find (\<lambda>u. m_ID u = m_ID m) us of Some u \<Rightarrow> u | None \<Rightarrow> m))"

lemma find_ID: "List.find (\<lambda>u. m_ID u = i) us = Some u \<Longrightarrow> m_ID u = i"
  by (auto simp: find_Some_iff)

lemma updated_ID [simp]: "m_ID (updated us m) = m_ID m"
  by (auto simp: updated_def split: option.split dest: find_ID)

lemma updated_blank: "m_ID m = [] \<Longrightarrow> updated us m = m"
  by (simp add: updated_def)

lemma merge_one_fold:
  "\<exists>ps. foldl (merge_one us) (acc, ps0) ms = (acc @ map (updated us) ms, ps) \<and>
     set ps \<subseteq> set ps0 \<union> {i. i \<noteq> [] \<and> i \<in> m_ID ` set ms}"
proof (induction ms arbitrary: acc ps0)
  case (Cons m ms)
  let ?ps = "if m_ID m \<noteq> [] \<and> List.find (\<lambda>u. m_ID u = m_ID m) us \<noteq> None then m_ID m # ps0 else ps0"
  have step: "merge_one us (acc, ps0) m = (acc @ [updated us m], ?ps)"
    by (auto simp: merge_one_def updated_def split: option.split)
  obtain ps where "foldl (merge_one us) (acc @ [updated us m], ?ps) ms = ((acc @ [updated us m]) @ map (updated us) ms, ps)"
    "set ps \<subseteq> set ?ps \<union> {i. i \<noteq> [] \<and> i \<in> m_ID ` set ms}" using Cons.IH by blast
  then show ?case by (intro exI [of _ ps]) (auto simp: step split: if_splits)
qed simp

lemma append_new_fold:
  "foldl (append_new ps es) acc us = acc @ filter (\<lambda>u. m_ID u = [] \<or> m_ID u \<notin> set ps \<and> m_ID u \<notin> set es) us"
  by (induction us arbitrary: acc) (auto simp: append_new_def)

text \<open>The reducer as one expression.\<close>

lemma merge_messages_eq:
  "merge_messages es us = map (updated us) es @ filter (\<lambda>u. m_ID u = [] \<or> m_ID u \<notin> m_ID ` set es) us"
proof -
  obtain ps where ps: "foldl (merge_one us) ([], []) es = (map (updated us) es, ps)"
    "set ps \<subseteq> {i. i \<noteq> [] \<and> i \<in> m_ID ` set es}"
    using merge_one_fold [of us "[]" "[]" es] by auto
  have "filter (\<lambda>u. m_ID u = [] \<or> m_ID u \<notin> set ps \<and> m_ID u \<notin> set (filter (\<lambda>i. i \<noteq> []) (map m_ID es))) us =
      filter (\<lambda>u. m_ID u = [] \<or> m_ID u \<notin> m_ID ` set es) us"
    using ps(2) by (intro filter_cong) auto
  then show ?thesis
    unfolding merge_messages_def Let_def ps(1) case_prod_conv append_new_fold by (rule arg_cong)
qed

lemma find_updated:
  "i \<noteq> [] \<Longrightarrow> List.find (\<lambda>m. m_ID m = i) (map (updated us) es) =
     (if i \<in> m_ID ` set es
      then (case List.find (\<lambda>m. m_ID m = i) us of Some u \<Rightarrow> Some u | None \<Rightarrow> List.find (\<lambda>m. m_ID m = i) es) else None)"
  by (induction es) (auto simp: updated_def split: option.splits dest: find_ID)

lemma find_filter_new:
  "i \<noteq> [] \<Longrightarrow> i \<notin> I \<Longrightarrow>
   List.find (\<lambda>m. m_ID m = i) (filter (\<lambda>u. m_ID u = [] \<or> m_ID u \<notin> I) us) = List.find (\<lambda>m. m_ID m = i) us"
  by (induction us) auto

lemma find_ID_None: "i \<notin> m_ID ` set es \<Longrightarrow> List.find (\<lambda>m. m_ID m = i) es = None"
  by (auto simp: find_None_iff)

text \<open>
  Merging updates into a conversation keeps the conversation's order and length as a prefix, keeps
  every message without identifier, and for each identifier the merged list holds the first update with
  it, or the old message if there is none.
\<close>

theorem messages_merge:
  assumes "AddMessagesReducer (msgs_val es) (msgs_val us) = Inr v"
  shows "\<exists>ms. as_messages v = Some ms \<and> take (length es) (map m_ID ms) = map m_ID es \<and>
    filter (\<lambda>m. m_ID m = []) ms = filter (\<lambda>m. m_ID m = []) es @ filter (\<lambda>m. m_ID m = []) us \<and>
    (\<forall>i. i \<noteq> [] \<longrightarrow> List.find (\<lambda>m. m_ID m = i) ms =
       (case List.find (\<lambda>m. m_ID m = i) us of Some u \<Rightarrow> Some u | None \<Rightarrow> List.find (\<lambda>m. m_ID m = i) es))"
proof -
  let ?ms = "merge_messages es us"
  have v: "v = msgs_val ?ms" using assms by (simp add: AddMessagesReducer_def)
  have "take (length es) (map m_ID ?ms) = map m_ID es" by (simp add: merge_messages_eq o_def)
  moreover have "filter (\<lambda>m. m_ID m = []) ?ms = filter (\<lambda>m. m_ID m = []) es @ filter (\<lambda>m. m_ID m = []) us"
  proof -
    have "filter (\<lambda>m. m_ID m = []) (map (updated us) es) = filter (\<lambda>m. m_ID m = []) es"
      by (induction es) (auto simp: updated_blank)
    moreover have "filter (\<lambda>m. m_ID m = []) (filter (\<lambda>u. m_ID u = [] \<or> m_ID u \<notin> m_ID ` set es) us) =
        filter (\<lambda>m. m_ID m = []) us" by (induction us) auto
    ultimately show ?thesis by (simp add: merge_messages_eq del: filter_filter)
  qed
  moreover have "List.find (\<lambda>m. m_ID m = i) ?ms =
       (case List.find (\<lambda>m. m_ID m = i) us of Some u \<Rightarrow> Some u | None \<Rightarrow> List.find (\<lambda>m. m_ID m = i) es)"
    if "i \<noteq> []" for i
    using that by (cases "i \<in> m_ID ` set es")
      (auto simp: merge_messages_eq find_append find_updated find_filter_new find_ID_None find_None_iff split: option.split)
  ultimately show ?thesis using v by (intro exI [of _ ?ms]) simp
qed

theorem messages_merge_witness:
  "\<exists>ms. AddMessagesReducer (msgs_val [NewMessageWithID ''1'' ''user'' ''hi'']) (msgs_val [NewMessageWithID ''1'' ''user'' ''hello'']) =
     Inr (msgs_val ms) \<and> take 1 (map m_ID ms) = [''1'']"
proof -
  let ?es = "[NewMessageWithID ''1'' ''user'' ''hi'']" and ?us = "[NewMessageWithID ''1'' ''user'' ''hello'']"
  have r: "AddMessagesReducer (msgs_val ?es) (msgs_val ?us) = Inr (msgs_val (merge_messages ?es ?us))"
    by (simp add: AddMessagesReducer_def)
  from messages_merge [OF r] show ?thesis
    by (intro exI [of _ "merge_messages ?es ?us"]) (use r in \<open>simp add: NewMessageWithID_def\<close>)
qed

definition distinct_ids :: "Message list \<Rightarrow> bool" where
  "distinct_ids ms \<longleftrightarrow> distinct (filter (\<lambda>i. i \<noteq> []) (map m_ID ms))"

lemma updated_idem: "updated us (updated us m) = updated us m"
proof (cases "List.find (\<lambda>u. m_ID u = m_ID m) us")
  case (Some u)
  with find_ID [OF this] show ?thesis by (simp add: updated_def)
qed (simp add: updated_def)

lemma find_distinct:
  assumes "distinct_ids us" "u \<in> set us" "m_ID u \<noteq> []"
  shows "List.find (\<lambda>x. m_ID x = m_ID u) us = Some u"
  using assms by (induction us) (auto simp: distinct_ids_def image_iff split: if_splits)

text \<open>
  Identifiers stay unique: if no identifier occurs twice in the conversation nor in the updates, none
  occurs twice in the merged list, and merging the same updates again changes nothing when all of them
  carry identifiers.
\<close>

theorem messages_distinct:
  assumes "distinct_ids es" "distinct_ids us"
  shows "distinct_ids (merge_messages es us) \<and>
    ((\<forall>u\<in>set us. m_ID u \<noteq> []) \<longrightarrow> merge_messages (merge_messages es us) us = merge_messages es us)"
proof
  have ids: "filter (\<lambda>i. i \<noteq> []) (map m_ID (merge_messages es us)) =
    filter (\<lambda>i. i \<noteq> []) (map m_ID es) @ filter (\<lambda>i. i \<notin> m_ID ` set es) (filter (\<lambda>i. i \<noteq> []) (map m_ID us))"
    by (simp add: merge_messages_eq filter_map o_def) (metis (mono_tags, lifting) filter_cong)
  show "distinct_ids (merge_messages es us)"
    unfolding distinct_ids_def ids distinct_append using assms
    by (auto simp: distinct_ids_def simp del: filter_filter intro: distinct_filter)
next
  show "(\<forall>u\<in>set us. m_ID u \<noteq> []) \<longrightarrow> merge_messages (merge_messages es us) us = merge_messages es us"
  proof
    assume ne: "\<forall>u\<in>set us. m_ID u \<noteq> []"
    let ?ms = "merge_messages es us"
    have fix_new: "updated us u = u" if "u \<in> set us" for u
      using find_distinct [OF assms(2) that] ne that by (simp add: updated_def)
    have "updated us m = m" if "m \<in> set ?ms" for m
      using that fix_new by (auto simp: merge_messages_eq updated_idem)
    moreover have "m_ID u \<in> m_ID ` set ?ms" if "u \<in> set us" for u
      using that by (cases "m_ID u \<in> m_ID ` set es") (force simp: merge_messages_eq image_Un image_image)+
    ultimately show "merge_messages ?ms us = ?ms"
      using ne by (subst merge_messages_eq) (simp add: map_idI)
  qed
qed

theorem messages_distinct_witness:
  "distinct_ids (merge_messages [NewMessageWithID ''1'' ''user'' ''hi''] [NewMessageWithID ''2'' ''user'' ''x''])"
  using messages_distinct [of "[NewMessageWithID ''1'' ''user'' ''hi'']" "[NewMessageWithID ''2'' ''user'' ''x'']"]
  by (simp add: distinct_ids_def NewMessageWithID_def)

text \<open>
  Two updates that carry the same new identifier in one batch are both appended, so the merged list then
  holds that identifier twice.
\<close>

lemma messages_duplicate_batch:
  assumes "m_ID a = i" "m_ID b = i" "i \<noteq> []" "i \<notin> m_ID ` set es"
  shows "\<not> distinct_ids (merge_messages es [a, b])"
  using assms by (simp add: merge_messages_eq distinct_ids_def)

text \<open>
  An offset past the last matching message is ignored: the filter then returns the messages from the
  first one on.
\<close>

lemma filter_offset_ignored:
  "int (length msgs) \<le> f_offset f \<Longrightarrow> f_roles f = [] \<Longrightarrow> f_predicate f = None \<Longrightarrow> f_limit f = 0 \<Longrightarrow> \<not> f_reverse f \<Longrightarrow>
   Filter_messages f msgs = msgs"
  by (simp add: Filter_messages_def)

lemma filter_messages_spec:
  assumes "0 \<le> f_offset f" "f_offset f < int (length [m\<leftarrow>msgs. f_roles f = [] \<or> m_Role m \<in> set (f_roles f)])" "0 < f_limit f"
    "f_predicate f = None"
  shows "Filter_messages f msgs = (if f_reverse f then rev else id)
    (take (nat (f_limit f)) (drop (nat (f_offset f)) [m\<leftarrow>msgs. f_roles f = [] \<or> m_Role m \<in> set (f_roles f)]))"
  using assms by (auto simp: Filter_messages_def Let_def nat_le_iff not_less intro!: take_all [symmetric])

lemma openai_roundtrip:
  assumes "\<forall>m\<in>set ms. m_ID m = [] \<and> m_Extra m = fmempty"
  shows "OpenAIFormatToMessages (MessagesToOpenAIFormat ms) = ms"
  using assms by (induction ms)
    (auto simp: OpenAIFormatToMessages_def MessagesToOpenAIFormat_def ToOpenAIChatMessage_def)

lemma AddMessagesToState_get:
  "AddMessagesToState st ms = Inr st' \<Longrightarrow>
   \<exists>old. GetMessagesFromState st = Inr old \<and> GetMessagesFromState st' = Inr (old @ ms)"
  by (cases "GetMessagesFromState st")
    (auto simp: AddMessagesToState_def GetMessagesFromState_def [of "fmupd _ _ _"])

text \<open>
  The messages channel of a new message graph keeps the last list only: it is a plain last-value
  channel, without the merging reducer.
\<close>

lemma message_graph_keeps_last:
  "\<exists>ch ch1 ch2. fmlookup (g_channels (mg_graph NewMessageGraph)) ''messages'' = Some ch \<and>
     Update ch [msgs_val old] = (ch1, Inr True) \<and> Update ch1 [msgs_val new] = (ch2, Inr True) \<and>
     snd (Get ch2) = Inr (msgs_val new)"
  by (simp add: NewMessageGraph_def AddChannel_def LastValue_Update_def LastValue_Get_def msgs_val_def)

end
