(* ===== verification/Node_Cache.thy ===== *)
theory Node_Cache
  imports Run_Config
begin

text \<open>
  \<open>pregel/cache.go\<close> and \<open>pregel/cache_async.go\<close>: the in-memory cache of node outputs with its
  eviction policies, the executor that consults a cache before it calls a node function, and the cache
  whose operations are queued for worker goroutines. The clock, the order in which Go visits the entries,
  JSON text and hashing are arguments; each cache operation is one step, as under its mutex.
\<close>

subsection \<open>The memory cache\<close>

record cacheEntry =
  en_value :: gval
  en_expiration :: "int option"
  en_lastAccess :: int
  en_hits :: int

datatype EvictionPolicy = EvictLRU | EvictLFU | EvictRandom | EvictOther int

record MemoryCache =
  mc_data :: "(string, cacheEntry) fmap"
  mc_maxSize :: int
  mc_eviction :: EvictionPolicy

definition NewMemoryCache :: "int \<Rightarrow> EvictionPolicy \<Rightarrow> MemoryCache" where
  "NewMemoryCache maxSize eviction = \<lparr>mc_data = fmempty, mc_maxSize = maxSize, mc_eviction = eviction\<rparr>"

definition Cache_Get :: "int \<Rightarrow> MemoryCache \<Rightarrow> string \<Rightarrow> MemoryCache \<times> gval option" where
  "Cache_Get now c key =
     (case fmlookup (mc_data c) key of
        None \<Rightarrow> (c, None)
      | Some entry \<Rightarrow>
          (case en_expiration entry of
             Some t \<Rightarrow> if now > t then (c, None)
                       else (c\<lparr>mc_data := fmupd key (entry\<lparr>en_hits := en_hits entry + 1, en_lastAccess := now\<rparr>) (mc_data c)\<rparr>,
                             Some (en_value entry))
           | None \<Rightarrow> (c\<lparr>mc_data := fmupd key (entry\<lparr>en_hits := en_hits entry + 1, en_lastAccess := now\<rparr>) (mc_data c)\<rparr>,
                      Some (en_value entry))))"

text \<open>One step of the scans of \<open>evict\<close>: the best value so far, if any, and its key.\<close>

definition lru_step :: "(string, cacheEntry) fmap \<Rightarrow> (int \<times> string) option \<Rightarrow> string \<Rightarrow> (int \<times> string) option" where
  "lru_step m acc k =
     (let v = the (fmlookup m k)
      in case acc of
           None \<Rightarrow> Some (en_lastAccess v, k)
         | Some (oldest, key) \<Rightarrow> if en_lastAccess v < oldest then Some (en_lastAccess v, k) else acc)"

definition lfu_step :: "(string, cacheEntry) fmap \<Rightarrow> int \<times> string \<Rightarrow> string \<Rightarrow> int \<times> string" where
  "lfu_step m acc k =
     (case acc of (minHits, key) \<Rightarrow>
        let v = the (fmlookup m k) in if minHits = -1 \<or> en_hits v < minHits then (en_hits v, k) else (minHits, key))"

definition key_to_delete :: "(string list \<Rightarrow> string list) \<Rightarrow> MemoryCache \<Rightarrow> string" where
  "key_to_delete perm c =
     (let m = mc_data c; ks = perm (fmkeys m)
      in case mc_eviction c of
           EvictLRU \<Rightarrow> (case foldl (lru_step m) None ks of Some (_, k) \<Rightarrow> k | None \<Rightarrow> [])
         | EvictLFU \<Rightarrow> snd (foldl (lfu_step m) (-1, []) ks)
         | EvictRandom \<Rightarrow> (case ks of k # _ \<Rightarrow> k | [] \<Rightarrow> [])
         | EvictOther _ \<Rightarrow> [])"

definition evict :: "(string list \<Rightarrow> string list) \<Rightarrow> MemoryCache \<Rightarrow> MemoryCache" where
  "evict perm c =
     (if fmlen (mc_data c) = 0 then c
      else (let k = key_to_delete perm c in if k \<noteq> [] then c\<lparr>mc_data := fmdrop k (mc_data c)\<rparr> else c))"

definition Cache_Set ::
  "(string list \<Rightarrow> string list) \<Rightarrow> int \<Rightarrow> MemoryCache \<Rightarrow> string \<Rightarrow> gval \<Rightarrow> int \<Rightarrow> MemoryCache" where
  "Cache_Set perm now c key value ttl =
     (let c' = (if int (fmlen (mc_data c)) \<ge> mc_maxSize c then evict perm c else c)
      in c'\<lparr>mc_data := fmupd key \<lparr>en_value = value, en_expiration = (if ttl > 0 then Some (now + ttl) else None),
                                  en_lastAccess = now, en_hits = 0\<rparr> (mc_data c')\<rparr>)"

definition Cache_Delete :: "MemoryCache \<Rightarrow> string \<Rightarrow> MemoryCache" where
  "Cache_Delete c key = c\<lparr>mc_data := fmdrop key (mc_data c)\<rparr>"

definition Cache_Clear :: "MemoryCache \<Rightarrow> MemoryCache" where
  "Cache_Clear c = c\<lparr>mc_data := fmempty\<rparr>"

text \<open>The cache that stores nothing.\<close>

definition NoopCache_Get :: "int \<Rightarrow> unit \<Rightarrow> string \<Rightarrow> unit \<times> gval option" where
  "NoopCache_Get now c key = (c, None)"

definition NoopCache_Set :: "int \<Rightarrow> unit \<Rightarrow> string \<Rightarrow> gval \<Rightarrow> int \<Rightarrow> unit" where
  "NoopCache_Set now c key value ttl = c"

subsection \<open>Cached execution\<close>

record CachePolicy =
  cap_KeyFunc :: "(gval \<Rightarrow> string) option"
  cap_TTL :: "int option"

text \<open>The key: node name and hash of the JSON text, or the type name when there is no JSON text.\<close>

definition GenerateCacheKey :: "(gval \<Rightarrow> string option) \<Rightarrow> (string \<Rightarrow> string) \<Rightarrow> (gval \<Rightarrow> string) \<Rightarrow> string \<Rightarrow> gval \<Rightarrow> string" where
  "GenerateCacheKey marshal sha typeName nodeName input =
     (case marshal input of
        None \<Rightarrow> nodeName @ '':'' @ typeName input
      | Some d \<Rightarrow> nodeName @ '':'' @ sha d)"

definition cache_key ::
  "(string \<Rightarrow> gval \<Rightarrow> string) \<Rightarrow> CachePolicy option \<Rightarrow> string \<Rightarrow> gval \<Rightarrow> string" where
  "cache_key gen policy nodeName input =
     (case Option.bind policy cap_KeyFunc of Some f \<Rightarrow> f input | None \<Rightarrow> gen nodeName input)"

definition cache_ttl :: "CachePolicy option \<Rightarrow> int" where
  "cache_ttl policy = (case Option.bind policy cap_TTL of Some t \<Rightarrow> t | None \<Rightarrow> 0)"

definition CachedExecutor_Execute ::
  "(int \<Rightarrow> 'c \<Rightarrow> string \<Rightarrow> 'c \<times> gval option) \<Rightarrow> (int \<Rightarrow> 'c \<Rightarrow> string \<Rightarrow> gval \<Rightarrow> int \<Rightarrow> 'c) \<Rightarrow>
   (string \<Rightarrow> gval \<Rightarrow> string) \<Rightarrow> CachePolicy option \<Rightarrow> int \<Rightarrow> 'c \<Rightarrow> string \<Rightarrow> gval \<Rightarrow> (gval \<Rightarrow> gerror + gval) \<Rightarrow>
   'c \<times> (gerror + gval)" where
  "CachedExecutor_Execute getf setf gen policy now c nodeName input fn =
     (let key = cache_key gen policy nodeName input
      in case getf now c key of
           (c', Some cached) \<Rightarrow> (c', Inr cached)
         | (c', None) \<Rightarrow>
             (case fn input of
                Inl err \<Rightarrow> (c', Inl err)
              | Inr result \<Rightarrow> (setf now c' key result (cache_ttl policy), Inr result)))"

subsection \<open>The contract of a cache\<close>

text \<open>
  What the executor needs of a cache: it never returns, and never comes to hold, a value that was not
  stored under that key. \<open>holds c k v\<close> says that \<open>c\<close> has \<open>v\<close> under \<open>k\<close>.
\<close>

locale cache =
  fixes getf :: "int \<Rightarrow> 'c \<Rightarrow> string \<Rightarrow> 'c \<times> gval option"
    and setf :: "int \<Rightarrow> 'c \<Rightarrow> string \<Rightarrow> gval \<Rightarrow> int \<Rightarrow> 'c"
    and holds :: "'c \<Rightarrow> string \<Rightarrow> gval \<Rightarrow> bool"
  assumes get_holds: "getf now c k = (c', Some v) \<Longrightarrow> holds c k v"
    and get_keeps: "holds (fst (getf now c k)) k' v \<Longrightarrow> holds c k' v"
    and set_holds: "holds (setf now c k v ttl) k' v' \<Longrightarrow> k' = k \<and> v' = v \<or> holds c k' v'"
begin

text \<open>Coherence with a function: every value held under an input's key is the function's value.\<close>

definition coherent :: "(gval \<Rightarrow> string) \<Rightarrow> (gval \<Rightarrow> gerror + gval) \<Rightarrow> 'c \<Rightarrow> bool" where
  "coherent key fn c \<longleftrightarrow> (\<forall>x v. holds c (key x) v \<longrightarrow> fn x = Inr v)"

lemma execute_transparent:
  assumes "coherent (cache_key gen policy node) fn c"
    and inj: "\<And>x y. cache_key gen policy node x = cache_key gen policy node y \<Longrightarrow> fn x = fn y"
  shows "snd (CachedExecutor_Execute getf setf gen policy now c node x fn) = fn x \<and>
    coherent (cache_key gen policy node) fn (fst (CachedExecutor_Execute getf setf gen policy now c node x fn))"
proof -
  let ?k = "cache_key gen policy node x"
  obtain c' r where g: "getf now c ?k = (c', r)" by (cases "getf now c ?k")
  have c': "coherent (cache_key gen policy node) fn c'"
    using assms(1) get_keeps [of now c ?k] by (simp add: coherent_def g)
  show ?thesis
  proof (cases r)
    case (Some v)
    with get_holds g assms(1) have "fn x = Inr v" by (auto simp: coherent_def)
    with c' Some g show ?thesis by (simp add: CachedExecutor_Execute_def)
  next
    case None
    have "coherent (cache_key gen policy node) fn (setf now c' ?k v ttl)" if "fn x = Inr v" for v ttl
      unfolding coherent_def using set_holds [of now c' ?k v ttl] c' that inj by (metis coherent_def)
    with None g c' show ?thesis by (auto simp: CachedExecutor_Execute_def split: sum.split)
  qed
qed

end

lemma evict_lookup: "fmlookup (mc_data (evict perm c)) k = Some e \<Longrightarrow> fmlookup (mc_data c) k = Some e"
  by (auto simp: evict_def Let_def split: if_splits)

definition cache_holds :: "MemoryCache \<Rightarrow> string \<Rightarrow> gval \<Rightarrow> bool" where
  "cache_holds c k v \<longleftrightarrow> (\<exists>e. fmlookup (mc_data c) k = Some e \<and> en_value e = v)"

interpretation mem: cache Cache_Get "Cache_Set perm" cache_holds
proof (unfold_locales, goal_cases)
  case (1 now c k c' v)
  then show ?case by (auto simp: Cache_Get_def cache_holds_def split: option.splits if_splits)
next
  case (2 now c k k' v)
  then show ?case by (auto simp: Cache_Get_def cache_holds_def split: option.splits if_splits)
next
  case (3 now c k v ttl k' v')
  then show ?case by (auto simp: Cache_Set_def cache_holds_def Let_def dest!: evict_lookup split: if_splits)
qed

interpretation noop: cache NoopCache_Get NoopCache_Set "\<lambda>_ _ _. False"
  by unfold_locales (simp_all add: NoopCache_Get_def)

subsection \<open>Properties\<close>

text \<open>A sequence of executions, each with its time, its map order and its input.\<close>

fun run_cached ::
  "(string \<Rightarrow> gval \<Rightarrow> string) \<Rightarrow> CachePolicy option \<Rightarrow> string \<Rightarrow> (gval \<Rightarrow> gerror + gval) \<Rightarrow> MemoryCache \<Rightarrow>
   (int \<times> (string list \<Rightarrow> string list) \<times> gval) list \<Rightarrow> (gerror + gval) list" where
  "run_cached gen policy node fn c [] = []"
| "run_cached gen policy node fn c ((now, perm, x) # calls) =
     (case CachedExecutor_Execute Cache_Get (Cache_Set perm) gen policy now c node x fn of
        (c', r) \<Rightarrow> r # run_cached gen policy node fn c' calls)"

lemma run_cached_coherent:
  assumes "mem.coherent (cache_key gen policy node) fn c"
    and "\<And>x y. cache_key gen policy node x = cache_key gen policy node y \<Longrightarrow> fn x = fn y"
  shows "run_cached gen policy node fn c calls = map (\<lambda>(now, perm, x). fn x) calls"
  using assms(1)
proof (induction calls arbitrary: c)
  case (Cons call calls)
  obtain now perm x where call: "call = (now, perm, x)" by (cases call)
  from mem.execute_transparent [OF Cons.prems assms(2), of perm now x] Cons.IH show ?case
    by (auto simp: call split: prod.split)
qed simp

text \<open>
  Caching is invisible: starting from an empty cache of any size and eviction policy, any sequence of
  cached executions returns exactly what calling the node function each time would return, provided the
  key tells apart inputs on which the function differs.
\<close>

theorem caching_transparent:
  assumes "\<And>x y. cache_key gen policy node x = cache_key gen policy node y \<Longrightarrow> fn x = fn y"
  shows "run_cached gen policy node fn (NewMemoryCache n ev) calls = map (\<lambda>(now, perm, x). fn x) calls"
proof (rule run_cached_coherent [OF _ assms])
  show "mem.coherent (cache_key gen policy node) fn (NewMemoryCache n ev)"
    by (simp add: mem.coherent_def NewMemoryCache_def cache_holds_def)
qed

theorem caching_transparent_witness:
  "run_cached (\<lambda>n x. n) (Some \<lparr>cap_KeyFunc = Some (sprintv (\<lambda>_. [])), cap_TTL = None\<rparr>) ''a'' (\<lambda>x. Inr (VStr (sprintv (\<lambda>_. []) x)))
     (NewMemoryCache 1 EvictLRU) [(0, rev, VStr ''p''), (1, rev, VStr ''q''), (2, rev, VStr ''p'')] =
   [Inr (VStr ''p''), Inr (VStr ''q''), Inr (VStr ''p'')]"
  using caching_transparent [of "\<lambda>n x. n" "Some \<lparr>cap_KeyFunc = Some (sprintv (\<lambda>_. [])), cap_TTL = None\<rparr>" "''a''"
      "\<lambda>x. Inr (VStr (sprintv (\<lambda>_. []) x))" 1 EvictLRU "[(0, rev, VStr ''p''), (1, rev, VStr ''q''), (2, rev, VStr ''p'')]"]
  by (simp add: cache_key_def)

text \<open>
  Inputs without JSON text share one key per type: the second of two such inputs gets the result that was
  computed for the first.
\<close>

lemma unmarshalable_inputs_collide:
  assumes "marshal a = None" "marshal b = None" "typeName a = typeName b" "fn a = Inr v"
    and "CachedExecutor_Execute Cache_Get (Cache_Set perm) (GenerateCacheKey marshal sha typeName) None now
           (NewMemoryCache n ev) node a fn = (c, r)"
  shows "snd (CachedExecutor_Execute Cache_Get (Cache_Set perm) (GenerateCacheKey marshal sha typeName) None now
           c node b fn) = Inr v"
proof -
  have "cache_holds c (node @ '':'' @ typeName b) v" "\<exists>e. fmlookup (mc_data c) (node @ '':'' @ typeName b) = Some e \<and> en_expiration e = None"
    using assms by (auto simp: CachedExecutor_Execute_def cache_key_def GenerateCacheKey_def Cache_Get_def NewMemoryCache_def
        Cache_Set_def cache_ttl_def evict_def cache_holds_def Let_def)
  then show ?thesis
    using assms(2) by (auto simp: CachedExecutor_Execute_def cache_key_def GenerateCacheKey_def Cache_Get_def cache_holds_def)
qed

subsubsection \<open>Size and eviction\<close>

lemma lru_fold_Some:
  "\<exists>t' k'. foldl (lru_step m) (Some (t, k)) ks = Some (t', k') \<and> t' \<le> t \<and>
     (\<forall>x\<in>set ks. t' \<le> en_lastAccess (the (fmlookup m x))) \<and>
     ((t', k') = (t, k) \<or> k' \<in> set ks \<and> t' = en_lastAccess (the (fmlookup m k')))"
proof (induction ks arbitrary: t k)
  case (Cons x ks)
  let ?v = "en_lastAccess (the (fmlookup m x))"
  show ?case
  proof (cases "?v < t")
    case True
    then have "lru_step m (Some (t, k)) x = Some (?v, x)" by (simp add: lru_step_def Let_def)
    with Cons.IH [of ?v x] True show ?thesis by fastforce
  next
    case False
    then have "lru_step m (Some (t, k)) x = Some (t, k)" by (simp add: lru_step_def Let_def)
    with Cons.IH [of t k] False show ?thesis by fastforce
  qed
qed simp

lemma lfu_fold_in: "snd (foldl (lfu_step m) acc ks) = snd acc \<or> snd (foldl (lfu_step m) acc ks) \<in> set ks"
proof (induction ks arbitrary: acc)
  case (Cons x ks)
  have "snd (lfu_step m acc x) = snd acc \<or> snd (lfu_step m acc x) = x" by (auto simp: lfu_step_def Let_def split: prod.split)
  with Cons.IH [of "lfu_step m acc x"] show ?case by auto
qed simp

lemma key_to_delete_in:
  assumes "mc_data c \<noteq> fmempty" "\<And>xs. set (perm xs) = set xs" "\<And>n. mc_eviction c \<noteq> EvictOther n"
  shows "key_to_delete perm c |\<in>| fmdom (mc_data c)"
proof -
  let ?m = "mc_data c"
  have ks: "set (perm (fmkeys ?m)) = fset (fmdom ?m)" by (simp add: assms(2))
  have "perm (fmkeys ?m) \<noteq> []" using ks assms(1) fmkeys_Nil [of ?m] by (metis assms(2) empty_set set_empty2)
  then obtain k ks' where k: "perm (fmkeys ?m) = k # ks'" by (cases "perm (fmkeys ?m)") simp_all
  have lru: "foldl (lru_step ?m) None (k # ks') = foldl (lru_step ?m) (Some (en_lastAccess (the (fmlookup ?m k)), k)) ks'"
    and lfu: "foldl (lfu_step ?m) (-1, []) (k # ks') = foldl (lfu_step ?m) (en_hits (the (fmlookup ?m k)), k) ks'"
    by (simp_all add: lru_step_def lfu_step_def Let_def)
  have "key_to_delete perm c \<in> set (k # ks')"
  proof (cases "mc_eviction c")
    case EvictLRU
    obtain t' k' where "foldl (lru_step ?m) (Some (en_lastAccess (the (fmlookup ?m k)), k)) ks' = Some (t', k')" "k' \<in> set (k # ks')"
      using lru_fold_Some [of ?m "en_lastAccess (the (fmlookup ?m k))" k ks'] by auto
    with EvictLRU show ?thesis by (simp add: key_to_delete_def Let_def k lru del: foldl_Cons)
  next
    case EvictLFU
    with lfu_fold_in [of ?m "(en_hits (the (fmlookup ?m k)), k)" ks'] show ?thesis
      by (auto simp: key_to_delete_def Let_def k lfu simp del: foldl_Cons)
  qed (use assms(3) in \<open>auto simp: key_to_delete_def k\<close>)
  then show ?thesis using ks k by (metis (no_types))
qed

datatype cache_op = OpGet int string | OpSet "string list \<Rightarrow> string list" int string gval int | OpDelete string | OpClear

primrec cache_step :: "MemoryCache \<Rightarrow> cache_op \<Rightarrow> MemoryCache" where
  "cache_step c (OpGet now k) = fst (Cache_Get now c k)"
| "cache_step c (OpSet perm now k v ttl) = Cache_Set perm now c k v ttl"
| "cache_step c (OpDelete k) = Cache_Delete c k"
| "cache_step c OpClear = Cache_Clear c"

text \<open>Operations whose keys are not empty and whose map orders visit every entry.\<close>

primrec proper_op :: "cache_op \<Rightarrow> bool" where
  "proper_op (OpGet now k) = True"
| "proper_op (OpSet perm now k v ttl) = (k \<noteq> [] \<and> (\<forall>xs. set (perm xs) = set xs))"
| "proper_op (OpDelete k) = True"
| "proper_op OpClear = True"

definition sized :: "MemoryCache \<Rightarrow> bool" where
  "sized c \<longleftrightarrow> int (fmlen (mc_data c)) \<le> mc_maxSize c \<and> [] |\<notin>| fmdom (mc_data c)"

lemma sized_evict:
  assumes "sized c" "mc_maxSize c > 0" "\<And>xs. set (perm xs) = set xs" "\<And>n. mc_eviction c \<noteq> EvictOther n"
    "int (fmlen (mc_data c)) \<ge> mc_maxSize c"
  shows "int (fmlen (mc_data (evict perm c))) < mc_maxSize c"
proof -
  have ne: "mc_data c \<noteq> fmempty" using assms(2,5) by auto
  then have "key_to_delete perm c |\<in>| fmdom (mc_data c)" by (rule key_to_delete_in) (use assms(3,4) in auto)
  moreover from this have "key_to_delete perm c \<noteq> []" using assms(1) by (auto simp: sized_def)
  ultimately show ?thesis
    using assms(1) ne fmlen_fmdrop [of "key_to_delete perm c" "mc_data c"] by (simp add: evict_def Let_def sized_def)
qed

lemma evict_fields [simp]: "mc_maxSize (evict perm c) = mc_maxSize c" "mc_eviction (evict perm c) = mc_eviction c"
  by (simp_all add: evict_def Let_def)

lemma evict_dom: "k |\<in>| fmdom (mc_data (evict perm c)) \<Longrightarrow> k |\<in>| fmdom (mc_data c)"
  by (auto simp: evict_def Let_def split: if_splits)

lemma sized_step:
  assumes "sized c" "mc_maxSize c > 0" "\<And>n. mc_eviction c \<noteq> EvictOther n" "proper_op op"
  shows "sized (cache_step c op) \<and> mc_maxSize (cache_step c op) = mc_maxSize c \<and> mc_eviction (cache_step c op) = mc_eviction c"
proof (cases op)
  case (OpGet now k)
  then show ?thesis using assms(1)
    by (auto simp: Cache_Get_def sized_def fmlen_fmupd fmlookup_dom_iff split: option.split)
next
  case (OpSet perm now k v ttl)
  let ?c = "if int (fmlen (mc_data c)) \<ge> mc_maxSize c then evict perm c else c"
  have "int (fmlen (mc_data ?c)) < mc_maxSize c"
    using sized_evict [OF assms(1,2)] assms(3,4) OpSet by auto
  moreover have "[] |\<notin>| fmdom (mc_data ?c)" using assms(1) evict_dom by (auto simp: sized_def)
  ultimately show ?thesis
    using assms(4) by (simp add: OpSet Cache_Set_def Let_def sized_def fmlen_fmupd del: if_split) auto
next
  case (OpDelete k)
  then show ?thesis using assms(1) fmlen_fmdrop [of k "mc_data c"]
    by (cases "k |\<in>| fmdom (mc_data c)") (auto simp: Cache_Delete_def sized_def fmlen_def)
next
  case OpClear
  then show ?thesis using assms(2) by (simp add: Cache_Clear_def sized_def)
qed

text \<open>
  The cache never grows beyond its maximal size, for every eviction policy and every sequence of
  operations with non-empty keys.
\<close>

theorem cache_bounded:
  assumes "n > 0" "\<And>m. ev \<noteq> EvictOther m" "\<forall>op\<in>set ops. proper_op op"
  shows "int (fmlen (mc_data (foldl cache_step (NewMemoryCache n ev) ops))) \<le> n"
proof -
  have "sized (foldl cache_step c ops) \<and> mc_maxSize (foldl cache_step c ops) = n"
    if "sized c" "mc_maxSize c = n" "mc_eviction c = ev" for c
    using assms(3) that
  proof (induction ops arbitrary: c)
    case (Cons op ops)
    from sized_step [of c op] Cons.prems assms(1,2)
    have "sized (cache_step c op) \<and> mc_maxSize (cache_step c op) = n \<and> mc_eviction (cache_step c op) = ev" by simp
    with Cons show ?case by simp
  qed simp
  from this [of "NewMemoryCache n ev"] show ?thesis using assms(1) by (simp add: sized_def NewMemoryCache_def)
qed

theorem cache_bounded_witness:
  "int (fmlen (mc_data (foldl cache_step (NewMemoryCache 1 EvictLFU)
     [OpSet rev 0 ''a'' VNil 0, OpGet 1 ''a'', OpSet rev 2 ''b'' VNil 0]))) \<le> 1"
  by (rule cache_bounded) simp_all

text \<open>
  With the LRU policy a full cache gives up exactly one entry, and no entry that stays was accessed
  earlier than it.
\<close>

theorem lru_evicts_oldest:
  assumes "mc_eviction c = EvictLRU" "\<And>xs. set (perm xs) = set xs" "mc_data c \<noteq> fmempty" "[] |\<notin>| fmdom (mc_data c)"
  shows "\<exists>k e. fmlookup (mc_data c) k = Some e \<and> mc_data (evict perm c) = fmdrop k (mc_data c) \<and>
    (\<forall>k' e'. fmlookup (mc_data c) k' = Some e' \<longrightarrow> en_lastAccess e \<le> en_lastAccess e')"
proof -
  let ?m = "mc_data c"
  have ks: "set (perm (fmkeys ?m)) = fset (fmdom ?m)" by (simp add: assms(2))
  have "perm (fmkeys ?m) \<noteq> []" using ks assms(3) fmkeys_Nil [of ?m] by (metis assms(2) empty_set set_empty2)
  then obtain k0 ks' where k0: "perm (fmkeys ?m) = k0 # ks'" by (cases "perm (fmkeys ?m)") simp_all
  let ?t0 = "en_lastAccess (the (fmlookup ?m k0))"
  obtain t k where f: "foldl (lru_step ?m) (Some (?t0, k0)) ks' = Some (t, k)" "t \<le> ?t0"
    "\<forall>x\<in>set ks'. t \<le> en_lastAccess (the (fmlookup ?m x))"
    "(t, k) = (?t0, k0) \<or> k \<in> set ks' \<and> t = en_lastAccess (the (fmlookup ?m k))"
    using lru_fold_Some [of ?m ?t0 k0 ks'] by blast
  have "foldl (lru_step ?m) None (k0 # ks') = Some (t, k)" using f(1) by (simp add: lru_step_def Let_def)
  then have key: "key_to_delete perm c = k" using assms(1) by (simp add: key_to_delete_def Let_def k0 del: foldl_Cons)
  have dom: "k |\<in>| fmdom ?m" using f(4) ks k0 by auto
  then obtain e where e: "fmlookup ?m k = Some e" by (auto simp: fmlookup_dom_iff)
  have "mc_data (evict perm c) = fmdrop k ?m"
    using key dom assms(3,4) by (auto simp: evict_def Let_def)
  moreover have "en_lastAccess e \<le> en_lastAccess e'" if "fmlookup ?m k' = Some e'" for k' e'
  proof -
    have "k' \<in> set (k0 # ks')" using that ks k0 by (metis fmdomI)
    then show ?thesis using f(2-4) e that by auto
  qed
  ultimately show ?thesis using e by blast
qed

text \<open>
  Storing under a key that a full cache already has removes some entry first, although no room is needed.
\<close>

lemma set_existing_evicts:
  assumes "int (fmlen (mc_data c)) = mc_maxSize c" "key |\<in>| fmdom (mc_data c)"
  shows "mc_data (Cache_Set perm now c key v ttl) =
    fmupd key \<lparr>en_value = v, en_expiration = (if ttl > 0 then Some (now + ttl) else None), en_lastAccess = now, en_hits = 0\<rparr>
      (mc_data (evict perm c))"
  using assms by (simp add: Cache_Set_def Let_def)

end
