(* ===== verification/Async_Cache.thy ===== *)
theory Async_Cache
  imports Node_Cache Sha256
begin

text \<open>
  \<open>pregel/cache_async.go\<close>: cache operations are queued and worker goroutines process them one at a time
  each; several workers may overtake one another. An execution asks the cache, waits for the reply, and
  on a miss calls the node function and queues the store of its result without waiting for it. The step
  relation has one step per queue or worker action, in any interleaving, for the executions of one node
  with an asynchronous policy; \<open>key\<close> is the key computation of \<open>Execute\<close>, which is \<open>GenerateCacheKey\<close> unless
  the policy has a key function of its own.
\<close>

datatype asyncCacheOp = AGetOp nat string | ASetOp string gval int | ADeleteOp string

record AsyncMemoryCache =
  ac_cache :: MemoryCache
  ac_queue :: "asyncCacheOp list"
  ac_replies :: "(nat \<times> gval option) list"

definition NewAsyncMemoryCache :: "int \<Rightarrow> EvictionPolicy \<Rightarrow> AsyncMemoryCache" where
  "NewAsyncMemoryCache maxSize eviction = \<lparr>ac_cache = NewMemoryCache maxSize eviction, ac_queue = [], ac_replies = []\<rparr>"

definition queue_capacity :: nat where "queue_capacity = 1000"

text \<open>A send to the worker queue; \<open>None\<close> when the queue is full and the caller has to wait.\<close>

definition enqueue_op :: "AsyncMemoryCache \<Rightarrow> asyncCacheOp \<Rightarrow> AsyncMemoryCache option" where
  "enqueue_op c op = (if length (ac_queue c) < queue_capacity then Some (c\<lparr>ac_queue := ac_queue c @ [op]\<rparr>) else None)"

definition AGet :: "AsyncMemoryCache \<Rightarrow> nat \<Rightarrow> string \<Rightarrow> AsyncMemoryCache option" where
  "AGet c i key = enqueue_op c (AGetOp i key)"

definition ASet :: "AsyncMemoryCache \<Rightarrow> string \<Rightarrow> gval \<Rightarrow> int \<Rightarrow> AsyncMemoryCache option" where
  "ASet c key value ttl = enqueue_op c (ASetOp key value ttl)"

definition ADelete :: "AsyncMemoryCache \<Rightarrow> string \<Rightarrow> AsyncMemoryCache option" where
  "ADelete c key = enqueue_op c (ADeleteOp key)"

definition processOp :: "(string list \<Rightarrow> string list) \<Rightarrow> int \<Rightarrow> AsyncMemoryCache \<Rightarrow> asyncCacheOp \<Rightarrow> AsyncMemoryCache" where
  "processOp perm now c op =
     (case op of
        AGetOp i key \<Rightarrow>
          (case Cache_Get now (ac_cache c) key of
             (m, found) \<Rightarrow> c\<lparr>ac_cache := m, ac_replies := ac_replies c @ [(i, found)]\<rparr>)
      | ASetOp key value ttl \<Rightarrow> c\<lparr>ac_cache := Cache_Set perm now (ac_cache c) key value ttl\<rparr>
      | ADeleteOp key \<Rightarrow> c\<lparr>ac_cache := Cache_Delete (ac_cache c) key\<rparr>)"

text \<open>The second half of \<open>AsyncCachedExecutor.Execute\<close>, from the reply on.\<close>

definition AExecute_reply ::
  "string \<Rightarrow> int \<Rightarrow> (gval \<Rightarrow> gerror + gval) \<Rightarrow> AsyncMemoryCache \<Rightarrow> gval \<Rightarrow> gval option \<Rightarrow>
   (AsyncMemoryCache \<times> (gerror + gval)) option" where
  "AExecute_reply key ttl fn c input found =
     (case found of
        Some v \<Rightarrow> Some (c, Inr v)
      | None \<Rightarrow>
          (case fn input of
             Inl err \<Rightarrow> Some (c, Inl err)
           | Inr result \<Rightarrow> map_option (\<lambda>c'. (c', Inr result)) (ASet c key result ttl)))"

text \<open>
  The cache, the executions waiting for a reply, the results returned so far, and the inputs of all
  executions started. An execution whose context is cancelled stops waiting and returns the context's
  error; it is not among the results.
\<close>

record AsyncRun =
  ar_cache :: AsyncMemoryCache
  ar_waiting :: "(nat \<times> gval) list"
  ar_results :: "(gval \<times> (gerror + gval)) list"
  ar_inputs :: "gval list"

inductive async_step :: "(gval \<Rightarrow> string) \<Rightarrow> int \<Rightarrow> (gval \<Rightarrow> gerror + gval) \<Rightarrow> AsyncRun \<Rightarrow> AsyncRun \<Rightarrow> bool"
  for key :: "gval \<Rightarrow> string" and ttl :: int and fn :: "gval \<Rightarrow> gerror + gval" where
  start: "AGet (ar_cache s) i (key x) = Some c \<Longrightarrow> i \<notin> fst ` set (ar_waiting s) \<Longrightarrow>
    i \<notin> fst ` set (ac_replies (ar_cache s)) \<Longrightarrow> (\<forall>k. AGetOp i k \<notin> set (ac_queue (ar_cache s))) \<Longrightarrow>
    async_step key ttl fn s (s\<lparr>ar_cache := c, ar_waiting := ar_waiting s @ [(i, x)], ar_inputs := ar_inputs s @ [x]\<rparr>)"
| work: "ac_queue (ar_cache s) = q1 @ op # q2 \<Longrightarrow>
    async_step key ttl fn s (s\<lparr>ar_cache := processOp perm now ((ar_cache s)\<lparr>ac_queue := q1 @ q2\<rparr>) op\<rparr>)"
| finish: "(i, x) \<in> set (ar_waiting s) \<Longrightarrow> (i, found) \<in> set (ac_replies (ar_cache s)) \<Longrightarrow>
    AExecute_reply (key x) ttl fn (ar_cache s) x found = Some (c, r) \<Longrightarrow>
    async_step key ttl fn s (s\<lparr>ar_cache := c, ar_waiting := remove1 (i, x) (ar_waiting s),
       ar_results := ar_results s @ [(x, r)]\<rparr>)"
| clear: "ADelete (ar_cache s) k = Some c \<Longrightarrow> async_step key ttl fn s (s\<lparr>ar_cache := c\<rparr>)"
| cancel: "(i, x) \<in> set (ar_waiting s) \<Longrightarrow>
    async_step key ttl fn s (s\<lparr>ar_waiting := remove1 (i, x) (ar_waiting s)\<rparr>)"

inductive async_reach :: "(gval \<Rightarrow> string) \<Rightarrow> int \<Rightarrow> (gval \<Rightarrow> gerror + gval) \<Rightarrow> int \<Rightarrow> EvictionPolicy \<Rightarrow> AsyncRun \<Rightarrow> bool"
  for key ttl fn n ev where
  init: "async_reach key ttl fn n ev \<lparr>ar_cache = NewAsyncMemoryCache n ev, ar_waiting = [], ar_results = [], ar_inputs = []\<rparr>"
| step: "async_reach key ttl fn n ev s \<Longrightarrow> async_step key ttl fn s s' \<Longrightarrow> async_reach key ttl fn n ev s'"

text \<open>
  The invariant, for a set \<open>D\<close> of inputs that contains all inputs ever started: the cache and the queued
  stores agree with the function on \<open>D\<close>, every queued question and every reply belongs to the input of the
  execution that waits for it, and every result is the function's.
\<close>

definition coherent_on :: "gval set \<Rightarrow> (gval \<Rightarrow> string) \<Rightarrow> (gval \<Rightarrow> gerror + gval) \<Rightarrow> MemoryCache \<Rightarrow> bool" where
  "coherent_on D key fn c \<longleftrightarrow> (\<forall>x\<in>D. \<forall>v. cache_holds c (key x) v \<longrightarrow> fn x = Inr v)"

definition reply_ok :: "(gval \<Rightarrow> gerror + gval) \<Rightarrow> (nat \<times> gval) list \<Rightarrow> nat \<times> gval option \<Rightarrow> bool" where
  "reply_ok fn waiting r \<longleftrightarrow> (\<forall>x v. (fst r, x) \<in> set waiting \<longrightarrow> snd r = Some v \<longrightarrow> fn x = Inr v)"

definition op_ok :: "gval set \<Rightarrow> (gval \<Rightarrow> string) \<Rightarrow> (gval \<Rightarrow> gerror + gval) \<Rightarrow> (nat \<times> gval) list \<Rightarrow> asyncCacheOp \<Rightarrow> bool" where
  "op_ok D key fn waiting op =
     (case op of
        AGetOp i k \<Rightarrow> \<forall>x. (i, x) \<in> set waiting \<longrightarrow> k = key x
      | ASetOp k v ttl \<Rightarrow> \<forall>x\<in>D. key x = k \<longrightarrow> fn x = Inr v
      | ADeleteOp k \<Rightarrow> True)"

definition async_inv :: "gval set \<Rightarrow> (gval \<Rightarrow> string) \<Rightarrow> (gval \<Rightarrow> gerror + gval) \<Rightarrow> AsyncRun \<Rightarrow> bool" where
  "async_inv D key fn s \<longleftrightarrow> coherent_on D key fn (ac_cache (ar_cache s)) \<and>
     (\<forall>op\<in>set (ac_queue (ar_cache s)). op_ok D key fn (ar_waiting s) op) \<and>
     (\<forall>r\<in>set (ac_replies (ar_cache s)). reply_ok fn (ar_waiting s) r) \<and>
     snd ` set (ar_waiting s) \<subseteq> D \<and> (\<forall>(x, r)\<in>set (ar_results s). r = fn x)"

lemma enqueue_op_Some: "enqueue_op c op = Some c' \<Longrightarrow> c' = c\<lparr>ac_queue := ac_queue c @ [op]\<rparr>"
  by (simp add: enqueue_op_def split: if_splits)

lemma coherent_processOp:
  assumes "coherent_on D key fn (ac_cache c)" "op_ok D key fn w op"
  shows "coherent_on D key fn (ac_cache (processOp perm now c op))"
proof (cases op)
  case (AGetOp i k)
  with assms(1) mem.get_keeps [of now "ac_cache c" k] show ?thesis
    by (auto simp: processOp_def coherent_on_def split: prod.split)
next
  case (ASetOp k v ttl)
  with assms mem.set_holds [of perm now "ac_cache c" k v ttl] show ?thesis
    by (simp add: processOp_def coherent_on_def op_ok_def) metis
next
  case (ADeleteOp k)
  with assms(1) show ?thesis
    by (auto simp: processOp_def coherent_on_def Cache_Delete_def cache_holds_def split: if_splits)
qed

lemma reply_processOp:
  assumes "coherent_on D key fn (ac_cache c)" "op_ok D key fn w op" "\<forall>r\<in>set (ac_replies c). reply_ok fn w r"
    and "snd ` set w \<subseteq> D"
  shows "\<forall>r\<in>set (ac_replies (processOp perm now c op)). reply_ok fn w r"
proof (cases op)
  case (AGetOp i k)
  obtain m found where g: "Cache_Get now (ac_cache c) k = (m, found)" by (cases "Cache_Get now (ac_cache c) k")
  have "reply_ok fn w (i, found)"
    using mem.get_holds [of now "ac_cache c" k m] assms(1,2,4) g AGetOp
    by (force simp: reply_ok_def op_ok_def coherent_on_def)
  with assms(3) AGetOp g show ?thesis by (auto simp: processOp_def)
qed (use assms(3) in \<open>auto simp: processOp_def\<close>)

lemma queue_processOp [simp]: "ac_queue (processOp perm now c op) = ac_queue c"
  by (auto simp: processOp_def split: asyncCacheOp.split prod.split)

lemma async_inv_start:
  assumes "async_inv D key fn s" "AGet (ar_cache s) i (key x) = Some c"
    "i \<notin> fst ` set (ac_replies (ar_cache s))" "\<forall>k. AGetOp i k \<notin> set (ac_queue (ar_cache s))"
    "i \<notin> fst ` set (ar_waiting s)" "x \<in> D"
  shows "async_inv D key fn (s\<lparr>ar_cache := c, ar_waiting := ar_waiting s @ [(i, x)], ar_inputs := ar_inputs s @ [x]\<rparr>)"
proof -
  have c: "c = (ar_cache s)\<lparr>ac_queue := ac_queue (ar_cache s) @ [AGetOp i (key x)]\<rparr>"
    using enqueue_op_Some assms(2) by (simp add: AGet_def)
  have "op_ok D key fn (ar_waiting s @ [(i, x)]) op" if "op \<in> set (ac_queue (ar_cache s))" for op
    using assms(1,4) that by (cases op) (force simp: async_inv_def op_ok_def)+
  moreover have "op_ok D key fn (ar_waiting s @ [(i, x)]) (AGetOp i (key x))"
    using assms(5) by (force simp: op_ok_def)
  moreover have "reply_ok fn (ar_waiting s @ [(i, x)]) r" if "r \<in> set (ac_replies (ar_cache s))" for r
    using assms(1,3) that by (force simp: async_inv_def reply_ok_def)
  ultimately show ?thesis using assms(1,6) by (simp add: async_inv_def c)
qed

lemma op_ok_remove: "op_ok D key fn w op \<Longrightarrow> op_ok D key fn (remove1 p w) op"
  by (cases op) (auto simp: op_ok_def dest: notin_set_remove1)

lemma reply_ok_remove: "reply_ok fn w r \<Longrightarrow> reply_ok fn (remove1 p w) r"
  by (auto simp: reply_ok_def dest: notin_set_remove1)

lemma waiting_remove: "snd ` set w \<subseteq> D \<Longrightarrow> snd ` set (remove1 p w) \<subseteq> D"
  by (meson image_mono order_trans set_remove1_subset)

lemma async_inv_finish:
  assumes inv: "async_inv D key fn s" and w: "(i, x) \<in> set (ar_waiting s)"
    and r: "(i, found) \<in> set (ac_replies (ar_cache s))"
    and ex: "AExecute_reply (key x) ttl fn (ar_cache s) x found = Some (c, res)"
    and inj: "\<And>x y. x \<in> D \<Longrightarrow> y \<in> D \<Longrightarrow> key x = key y \<Longrightarrow> fn x = fn y"
  shows "async_inv D key fn (s\<lparr>ar_cache := c, ar_waiting := remove1 (i, x) (ar_waiting s), ar_results := ar_results s @ [(x, res)]\<rparr>)"
proof -
  have xD: "x \<in> D" using inv w by (force simp: async_inv_def)
  have found: "fn x = Inr v" if "found = Some v" for v
    using inv r w that by (force simp: async_inv_def reply_ok_def)
  have res: "res = fn x" using ex found by (auto simp: AExecute_reply_def split: option.splits sum.splits)
  have "c = ar_cache s \<or> (\<exists>v. fn x = Inr v \<and> c = (ar_cache s)\<lparr>ac_queue := ac_queue (ar_cache s) @ [ASetOp (key x) v ttl]\<rparr>)"
    using ex by (auto simp: AExecute_reply_def ASet_def split: option.splits sum.splits) (metis enqueue_op_Some)
  then show ?thesis
  proof
    assume "c = ar_cache s"
    with inv show ?thesis by (simp add: async_inv_def op_ok_remove reply_ok_remove waiting_remove res)
  next
    assume "\<exists>v. fn x = Inr v \<and> c = (ar_cache s)\<lparr>ac_queue := ac_queue (ar_cache s) @ [ASetOp (key x) v ttl]\<rparr>"
    then obtain v where v: "fn x = Inr v" "c = (ar_cache s)\<lparr>ac_queue := ac_queue (ar_cache s) @ [ASetOp (key x) v ttl]\<rparr>" by blast
    have "op_ok D key fn w' (ASetOp (key x) v ttl)" for w'
      unfolding op_ok_def asyncCacheOp.case by (metis inj v(1) xD)
    with inv show ?thesis by (simp add: async_inv_def op_ok_remove reply_ok_remove waiting_remove res v(2))
  qed
qed

lemma async_inv_step:
  assumes "async_step key ttl fn s s'" "async_inv D key fn s" "set (ar_inputs s') \<subseteq> D"
    and inj: "\<And>x y. x \<in> D \<Longrightarrow> y \<in> D \<Longrightarrow> key x = key y \<Longrightarrow> fn x = fn y"
  shows "async_inv D key fn s'"
  using assms(1)
proof cases
  case (start i x c)
  then show ?thesis using async_inv_start [OF assms(2)] assms(3) by simp
next
  case (work q1 op q2 perm now)
  let ?c = "(ar_cache s)\<lparr>ac_queue := q1 @ q2\<rparr>"
  have "op_ok D key fn (ar_waiting s) op" "coherent_on D key fn (ac_cache ?c)"
      "\<forall>r\<in>set (ac_replies ?c). reply_ok fn (ar_waiting s) r" "snd ` set (ar_waiting s) \<subseteq> D"
    using assms(2) work(2) by (auto simp: async_inv_def)
  with coherent_processOp [of D key fn ?c "ar_waiting s" op perm now] reply_processOp [of D key fn ?c "ar_waiting s" op perm now]
  show ?thesis using assms(2) work by (auto simp: async_inv_def)
next
  case (finish i x found c r)
  have "async_inv D key fn (s\<lparr>ar_cache := c, ar_waiting := remove1 (i, x) (ar_waiting s), ar_results := ar_results s @ [(x, r)]\<rparr>)"
    by (rule async_inv_finish [OF assms(2) finish(2-4)]) (rule inj)
  then show ?thesis by (simp only: finish(1))
next
  case (clear k c)
  then have "c = (ar_cache s)\<lparr>ac_queue := ac_queue (ar_cache s) @ [ADeleteOp k]\<rparr>"
    using enqueue_op_Some by (simp add: ADelete_def)
  with clear(1) assms(2) show ?thesis by (auto simp: async_inv_def op_ok_def)
next
  case (cancel i x)
  with assms(2) show ?thesis by (simp add: async_inv_def op_ok_remove reply_ok_remove waiting_remove)
qed

lemma async_step_inputs: "async_step key ttl fn s s' \<Longrightarrow> set (ar_inputs s) \<subseteq> set (ar_inputs s')"
  by (induction rule: async_step.induct) auto

lemma async_reach_inv:
  assumes "async_reach key ttl fn n ev s" "set (ar_inputs s) \<subseteq> D"
    and "\<And>x y. x \<in> D \<Longrightarrow> y \<in> D \<Longrightarrow> key x = key y \<Longrightarrow> fn x = fn y"
  shows "async_inv D key fn s"
  using assms(1,2)
proof induction
  case init
  show ?case by (simp add: async_inv_def NewAsyncMemoryCache_def NewMemoryCache_def coherent_on_def cache_holds_def)
next
  case (step s s')
  then have "async_inv D key fn s" using async_step_inputs by blast
  with step.hyps(2) step.prems show ?case using async_inv_step assms(3) by blast
qed

text \<open>
  C32: asynchronous caching does not change results, under every interleaving of the executions of one
  node and the workers. Assume that the keys come from \<open>GenerateCacheKey\<close> (the policy has no key function),
  that every input started has a JSON text, that the hash does not collide on these texts, and that the
  node function returns the same for inputs with the same JSON text. Then, whatever the order in which
  queued operations are processed, whatever is deleted from the cache and whichever executions are
  cancelled, every execution that returns without being cancelled returns what the node function returns
  on its input. (Inputs without a JSON text are excluded because those of one type share a key:
  \<open>unmarshalable_inputs_collide\<close>.)
\<close>

theorem async_caching_transparent:
  assumes "async_reach (cache_key (GenerateCacheKey marshal sha typeName) policy node) (cache_ttl policy) fn n ev s"
    and "Option.bind policy cap_KeyFunc = None"
    and "\<forall>x\<in>set (ar_inputs s). marshal x \<noteq> None"
    and "inj_on sha {d. \<exists>x\<in>set (ar_inputs s). marshal x = Some d}"
    and "\<forall>x\<in>set (ar_inputs s). \<forall>y\<in>set (ar_inputs s). marshal x = marshal y \<longrightarrow> fn x = fn y"
    and "(x, r) \<in> set (ar_results s)"
  shows "r = fn x"
proof -
  let ?key = "cache_key (GenerateCacheKey marshal sha typeName) policy node"
  have inj: "fn x = fn y" if D: "x \<in> set (ar_inputs s)" "y \<in> set (ar_inputs s)" and k: "?key x = ?key y" for x y
  proof -
    from D assms(3) obtain d e where m: "marshal x = Some d" "marshal y = Some e" by blast
    then have "sha d = sha e" using k assms(2) by (simp add: cache_key_def GenerateCacheKey_def)
    then have "d = e" using assms(4) D m by (auto simp: inj_on_def)
    then have "marshal x = marshal y" using m by simp
    then show ?thesis using assms(5) D by blast
  qed
  have "async_inv (set (ar_inputs s)) ?key fn s" by (rule async_reach_inv [OF assms(1) order_refl inj])
  with assms(6) show ?thesis by (auto simp: async_inv_def)
qed

text \<open>A node that echoes strings, called twice on the same input: the second call is served from the cache.\<close>

definition demo_marshal :: "gval \<Rightarrow> string option" where
  "demo_marshal x = (case x of VStr t \<Rightarrow> Some (CHR 0x22 # t @ [CHR 0x22]) | _ \<Rightarrow> None)"

definition demo_fn :: "gval \<Rightarrow> gerror + gval" where
  "demo_fn x = Inr (VStr (sprintv (\<lambda>_. []) x @ ''!''))"

definition demo_key :: "gval \<Rightarrow> string" where
  "demo_key = cache_key (GenerateCacheKey demo_marshal sha256_hex (\<lambda>_. ''string'')) None ''node''"

definition demo_cached :: AsyncMemoryCache where
  "demo_cached = processOp rev 0 ((NewAsyncMemoryCache 1 EvictLRU)\<lparr>ac_replies := [(0, None)]\<rparr>)
     (ASetOp (demo_key (VStr ''q'')) (VStr ''q!'') 0)"

lemma demo_async_run:
  "\<exists>s. async_reach demo_key 0 demo_fn 1 EvictLRU s \<and> ar_inputs s = [VStr ''q'', VStr ''q''] \<and>
     ac_replies (ar_cache s) = [(0, None), (1, Some (VStr ''q!''))] \<and>
     ar_results s = [(VStr ''q'', Inr (VStr ''q!'')), (VStr ''q'', Inr (VStr ''q!''))]"
proof -
  let ?k = "demo_key (VStr ''q'')" and ?v = "VStr ''q!''" and ?q = "VStr ''q''"
  let ?c0 = "NewAsyncMemoryCache 1 EvictLRU"
  let ?c2 = "?c0\<lparr>ac_replies := [(0, None)]\<rparr>"
  let ?s0 = "\<lparr>ar_cache = ?c0, ar_waiting = [], ar_results = [], ar_inputs = []\<rparr>"
  let ?s1 = "?s0\<lparr>ar_cache := ?c0\<lparr>ac_queue := [AGetOp 0 ?k]\<rparr>, ar_waiting := [(0, ?q)], ar_inputs := [?q]\<rparr>"
  let ?s2 = "?s1\<lparr>ar_cache := ?c2\<rparr>"
  let ?s3 = "?s2\<lparr>ar_cache := ?c2\<lparr>ac_queue := [ASetOp ?k ?v 0]\<rparr>, ar_waiting := [], ar_results := [(?q, Inr ?v)]\<rparr>"
  let ?s4 = "?s3\<lparr>ar_cache := demo_cached\<rparr>"
  let ?s5 = "?s4\<lparr>ar_cache := demo_cached\<lparr>ac_queue := [AGetOp 1 ?k]\<rparr>, ar_waiting := [(1, ?q)], ar_inputs := [?q, ?q]\<rparr>"
  obtain c6 where c6: "processOp rev 0 demo_cached (AGetOp 1 ?k) = c6" "ac_replies c6 = [(0, None), (1, Some ?v)]"
    by (simp add: demo_cached_def processOp_def NewAsyncMemoryCache_def NewMemoryCache_def Cache_Set_def Cache_Get_def
        evict_def Let_def)
  let ?s6 = "?s5\<lparr>ar_cache := c6\<rparr>"
  let ?s7 = "?s6\<lparr>ar_waiting := [], ar_results := [(?q, Inr ?v), (?q, Inr ?v)]\<rparr>"
  have f: "demo_fn ?q = Inr ?v" by (simp add: demo_fn_def)
  have q: "ac_queue demo_cached = []" "ac_replies demo_cached = [(0, None)]"
    by (simp_all add: demo_cached_def processOp_def NewAsyncMemoryCache_def)
  have q0: "demo_cached\<lparr>ac_queue := []\<rparr> = demo_cached" using q(1) by (cases demo_cached) simp
  have r0: "async_reach demo_key 0 demo_fn 1 EvictLRU ?s0" by (rule async_reach.init)
  have t0: "async_step demo_key 0 demo_fn ?s0 ?s1"
    using async_step.start [of ?s0 0 demo_key ?q "?c0\<lparr>ac_queue := [AGetOp 0 ?k]\<rparr>" 0 demo_fn]
    by (simp add: AGet_def enqueue_op_def queue_capacity_def NewAsyncMemoryCache_def)
  have t1: "async_step demo_key 0 demo_fn ?s1 ?s2"
    using async_step.work [of ?s1 "[]" "AGetOp 0 ?k" "[]" demo_key 0 demo_fn rev 0]
    by (simp add: processOp_def NewAsyncMemoryCache_def NewMemoryCache_def Cache_Get_def)
  have t2: "async_step demo_key 0 demo_fn ?s2 ?s3"
    using async_step.finish [of 0 ?q ?s2 None demo_key 0 demo_fn "?c2\<lparr>ac_queue := [ASetOp ?k ?v 0]\<rparr>" "Inr ?v"]
    by (simp add: AExecute_reply_def f ASet_def enqueue_op_def queue_capacity_def NewAsyncMemoryCache_def)
  have t3: "async_step demo_key 0 demo_fn ?s3 ?s4"
    using async_step.work [of ?s3 "[]" "ASetOp ?k ?v 0" "[]" demo_key 0 demo_fn rev 0]
    by (simp add: demo_cached_def NewAsyncMemoryCache_def)
  have t4: "async_step demo_key 0 demo_fn ?s4 ?s5"
    using async_step.start [of ?s4 1 demo_key ?q "demo_cached\<lparr>ac_queue := [AGetOp 1 ?k]\<rparr>" 0 demo_fn]
    by (simp add: AGet_def enqueue_op_def queue_capacity_def q)
  have t5: "async_step demo_key 0 demo_fn ?s5 ?s6"
    using async_step.work [of ?s5 "[]" "AGetOp 1 ?k" "[]" demo_key 0 demo_fn rev 0] c6(1) q0
    by simp
  have t6: "async_step demo_key 0 demo_fn ?s6 ?s7"
    using async_step.finish [of 1 ?q ?s6 "Some ?v" demo_key 0 demo_fn c6 "Inr ?v"] c6(2)
    by (simp add: AExecute_reply_def)
  have "async_reach demo_key 0 demo_fn 1 EvictLRU ?s7"
    by (rule async_reach.step [OF async_reach.step [OF async_reach.step [OF async_reach.step [OF async_reach.step
          [OF async_reach.step [OF async_reach.step [OF r0 t0] t1] t2] t3] t4] t5] t6])
  then show ?thesis using c6(2) by (intro exI [of _ ?s7]) simp
qed

theorem async_caching_transparent_witness:
  "\<exists>s. async_reach demo_key 0 demo_fn 1 EvictLRU s \<and> (1, Some (VStr ''q!'')) \<in> set (ac_replies (ar_cache s)) \<and>
     ar_results s \<noteq> [] \<and> (\<forall>(x, r)\<in>set (ar_results s). r = demo_fn x)"
proof -
  obtain s where s: "async_reach demo_key 0 demo_fn 1 EvictLRU s" "ar_inputs s = [VStr ''q'', VStr ''q'']"
      "(1, Some (VStr ''q!'')) \<in> set (ac_replies (ar_cache s))" "ar_results s \<noteq> []"
    using demo_async_run by force
  have r: "async_reach (cache_key (GenerateCacheKey demo_marshal sha256_hex (\<lambda>_. ''string'')) None ''node'')
      (cache_ttl None) demo_fn 1 EvictLRU s"
    using s(1) by (simp add: demo_key_def cache_ttl_def)
  have "r = demo_fn x" if "(x, r) \<in> set (ar_results s)" for x r
    by (rule async_caching_transparent [OF r _ _ _ _ that]) (simp_all add: s(2) demo_marshal_def inj_on_def)
  with s show ?thesis by blast
qed

end
