(* ===== verification/Multi_Retry.thy ===== *)
theory Multi_Retry
  imports Retry
begin

text \<open>
  \<open>pregel/retry_multi.go\<close>: retrying with several policies, of which the first that accepts an error
  decides. The retried function is given by what its successive calls do: \<open>fn k\<close> is the outcome of the
  \<open>k\<close>-th call, \<open>wait k\<close> the outcome of the wait after it. The executor returns the number of calls it
  made together with its result. A panic of a direct call is not recovered.
\<close>

text \<open>The number of the last attempt that \<open>retry_loop\<close> makes.\<close>

function retry_calls :: "RetryPolicy \<Rightarrow> (int \<Rightarrow> call_result) \<Rightarrow> (int \<Rightarrow> gerror option) \<Rightarrow> int \<Rightarrow> int" where
  "retry_calls p fn wait attempt =
     (if attempt > MaxAttempts p then attempt - 1
      else (case fn attempt of
          CallReturn out (Some err) \<Rightarrow>
            (if IsGraphInterrupt err \<or> (case RetryOn p of Some f \<Rightarrow> \<not> f err | None \<Rightarrow> False) \<or>
                attempt \<ge> MaxAttempts p \<or> wait attempt \<noteq> None
             then attempt else retry_calls p fn wait (attempt + 1))
        | _ \<Rightarrow> attempt))"
  by pat_completeness auto
termination
  by (relation "measure (\<lambda>(p, fn, wait, attempt). nat (MaxAttempts p + 1 - attempt))") auto

declare retry_calls.simps [simp del]

definition findMatchingPolicy :: "RetryPolicy list \<Rightarrow> gerror \<Rightarrow> RetryPolicy option" where
  "findMatchingPolicy policies err =
     List.find (\<lambda>p. case RetryOn p of None \<Rightarrow> True | Some f \<Rightarrow> f err) policies"

lemma findMatchingPolicy_in: "findMatchingPolicy ps err = Some p \<Longrightarrow> p \<in> set ps"
  by (auto simp: findMatchingPolicy_def find_Some_iff)

definition limited :: "RetryPolicy \<Rightarrow> int \<Rightarrow> RetryPolicy" where
  "limited p attempt = p\<lparr>MaxAttempts := MaxAttempts p - attempt + 1\<rparr>"

definition max_of :: "RetryPolicy list \<Rightarrow> int" where
  "max_of ps = foldr (\<lambda>p m. max (MaxAttempts p) m) ps 0"

lemma max_of_ge: "p \<in> set ps \<Longrightarrow> MaxAttempts p \<le> max_of ps"
  by (induction ps) (auto simp: max_of_def)

text \<open>The loop with the calls made and the attempts counted so far.\<close>

function multi_loop ::
  "RetryPolicy list \<Rightarrow> string \<Rightarrow> (int \<Rightarrow> call_result) \<Rightarrow> (int \<Rightarrow> gerror option) \<Rightarrow> int \<Rightarrow> int \<Rightarrow> int \<times> (gerror + gval)" where
  "multi_loop policies name fn wait calls attempt =
     (case fn (calls + 1) of
        CallPanic r \<Rightarrow> (calls + 1, Inl (GoPanic r))
      | CallReturn out None \<Rightarrow> (calls + 1, Inr out)
      | CallReturn out (Some err) \<Rightarrow>
          (case findMatchingPolicy policies err of
             None \<Rightarrow> (calls + 1, Inl (Wrapf (''node '' @ name @ '' failed with non-retryable error'') err))
           | Some p \<Rightarrow>
               if attempt + 1 \<ge> MaxAttempts p
               then (calls + 1, Inl (RetryExhaustedError name (attempt + 1) (Some err) out))
               else (let lp = limited p (attempt + 1); fn' = (\<lambda>a. fn (calls + 1 + a)); wait' = (\<lambda>a. wait (calls + 1 + a));
                         calls' = calls + 1 + retry_calls lp fn' wait' 1
                     in case RetryExecutor_Execute (Some lp) name fn' wait' of
                          Inr result \<Rightarrow> (calls', Inr result)
                        | Inl err2 \<Rightarrow> multi_loop policies name fn wait calls' (MaxAttempts p))))"
  by pat_completeness auto
termination
  by (relation "measure (\<lambda>(ps, _, _, _, _, attempt). nat (max_of ps - attempt))")
    (auto dest!: findMatchingPolicy_in max_of_ge)

declare multi_loop.simps [simp del]

definition MultiPolicyRetryExecutor_Execute ::
  "RetryPolicy list \<Rightarrow> string \<Rightarrow> (int \<Rightarrow> call_result) \<Rightarrow> (int \<Rightarrow> gerror option) \<Rightarrow> int \<times> (gerror + gval)" where
  "MultiPolicyRetryExecutor_Execute policies name fn wait =
     (if policies = []
      then (1, case fn 1 of CallReturn out None \<Rightarrow> Inr out | CallReturn out (Some err) \<Rightarrow> Inl err | CallPanic r \<Rightarrow> Inl (GoPanic r))
      else multi_loop policies name fn wait 0 0)"

subsection \<open>Presets\<close>

definition keyword_error :: "(gerror \<Rightarrow> string) \<Rightarrow> string list \<Rightarrow> gerror \<Rightarrow> bool" where
  "keyword_error text kws err = list_ex (contains (text err)) kws"

definition preset_NetworkErrors :: "(gerror \<Rightarrow> string) \<Rightarrow> RetryPolicy" where
  "preset_NetworkErrors text = \<lparr>InitialInterval = 100 * 10 ^ 6, BackoffFactor = 2, MaxInterval = 30 * 10 ^ 9, MaxAttempts = 5,
     Jitter = True, RetryOn = Some (\<lambda>err. NetworkErrors (Some (text err)))\<rparr>"

definition preset_TemporaryErrors :: "(gerror \<Rightarrow> string) \<Rightarrow> RetryPolicy" where
  "preset_TemporaryErrors text = \<lparr>InitialInterval = 500 * 10 ^ 6, BackoffFactor = 3 / 2, MaxInterval = 10 * 10 ^ 9, MaxAttempts = 3,
     Jitter = True, RetryOn = Some (\<lambda>err. TemporaryErrors (Some (text err)))\<rparr>"

definition preset_ResourceErrors :: "(gerror \<Rightarrow> string) \<Rightarrow> RetryPolicy" where
  "preset_ResourceErrors text = \<lparr>InitialInterval = 10 ^ 9, BackoffFactor = 3 / 2, MaxInterval = 60 * 10 ^ 9, MaxAttempts = 10,
     Jitter = True, RetryOn = Some (keyword_error text
       [''resource exhausted'', ''too many requests'', ''rate limit'', ''quota exceeded'', ''429'', ''503''])\<rparr>"

definition preset_TimeoutErrors :: "(gerror \<Rightarrow> string) \<Rightarrow> RetryPolicy" where
  "preset_TimeoutErrors text = \<lparr>InitialInterval = 10 ^ 9, BackoffFactor = 2, MaxInterval = 30 * 10 ^ 9, MaxAttempts = 3,
     Jitter = False, RetryOn = Some (keyword_error text
       [''timeout'', ''deadline exceeded'', ''context deadline'', ''408'', ''504''])\<rparr>"

definition CreateDefaultMultiPolicy :: "(gerror \<Rightarrow> string) \<Rightarrow> RetryPolicy list" where
  "CreateDefaultMultiPolicy text =
     [preset_NetworkErrors text, preset_TemporaryErrors text, preset_TimeoutErrors text, preset_ResourceErrors text]"

definition NewMultiRetryConfig :: "RetryPolicy list \<Rightarrow> RetryPolicy list" where
  "NewMultiRetryConfig policies = (if policies = [] then [DefaultRetryPolicy] else policies)"

subsection \<open>Properties\<close>

lemma retry_calls_all:
  assumes "\<And>i. a \<le> i \<Longrightarrow> i \<le> MaxAttempts p \<Longrightarrow> retried p (fn i) \<and> wait i = None" "a \<le> MaxAttempts p"
  shows "retry_calls p fn wait a = MaxAttempts p"
  using assms
proof (induction "nat (MaxAttempts p - a)" arbitrary: a)
  case 0
  then have a: "a = MaxAttempts p" by simp
  then have "retried p (fn a)" using 0 by blast
  with a show ?case by (subst retry_calls.simps) (auto simp: retried_def split: call_result.splits option.splits)
next
  case (Suc n)
  then have lt: "a < MaxAttempts p" by linarith
  have "retried p (fn a)" "wait a = None" using Suc.prems lt by auto
  then have "retry_calls p fn wait a = retry_calls p fn wait (a + 1)"
    using lt by (subst retry_calls.simps) (auto simp: retried_def split: call_result.splits option.splits)
  moreover have "retry_calls p fn wait (a + 1) = MaxAttempts p"
    by (rule Suc.hyps(1)) (use Suc.hyps(2) Suc.prems lt in auto)
  ultimately show ?case by simp
qed

lemma retried_limited [simp]: "retried (limited p n) r = retried p r"
  by (simp add: retried_def limited_def split: call_result.split option.split)

lemma findMatching_retried: "retried p (CallReturn out (Some err)) \<Longrightarrow> findMatchingPolicy [p] err = Some p"
  by (auto simp: retried_def findMatchingPolicy_def split: option.splits)

text \<open>
  A function that keeps failing with an error that the one policy accepts is called two
  more times than the policy allows: \<open>MaxAttempts + 2\<close> calls are made before the exhaustion error, which reports
  \<open>MaxAttempts + 1\<close> attempts.
\<close>

theorem multi_retry_calls:
  assumes "2 \<le> MaxAttempts p" and "\<And>i. retried p (fn i) \<and> wait i = None"
    and "fn (MaxAttempts p + 2) = CallReturn out (Some err)"
  shows "MultiPolicyRetryExecutor_Execute [p] name fn wait =
     (MaxAttempts p + 2, Inl (RetryExhaustedError name (MaxAttempts p + 1) (Some err) out))"
proof -
  let ?N = "MaxAttempts p" and ?lp = "limited p 1"
  let ?fn = "\<lambda>a. fn (0 + 1 + a)" and ?wait = "\<lambda>a. wait (0 + 1 + a)"
  have N: "MaxAttempts ?lp = ?N" by (simp add: limited_def)
  obtain o1 e1 where f1: "fn 1 = CallReturn o1 (Some e1)"
    using assms(2) [of 1] by (auto simp: retried_def split: call_result.splits option.splits)
  obtain o2 e2 where f2: "fn (?N + 1) = CallReturn o2 (Some e2)"
    using assms(2) [of "?N + 1"] by (auto simp: retried_def split: call_result.splits option.splits)
  have calls: "retry_calls ?lp ?fn ?wait 1 = ?N"
    using retry_calls_all [of 1 ?lp ?fn ?wait] assms(1,2) by (simp add: N)
  have "RetryExecutor_Execute (Some ?lp) name ?fn ?wait = Inl (RetryExhaustedError name ?N (Some e2) o2)"
    using retry_loop_reach [of 1 ?N ?lp ?fn ?wait name None VNil] assms(1,2) f2
    by (subst retry_fail_all) (auto simp: N add.commute)
  moreover have "findMatchingPolicy [p] e1 = Some p" "findMatchingPolicy [p] err = Some p"
    using findMatching_retried assms(2,3) f1 by metis+
  moreover have "multi_loop [p] name fn wait (0 + 1 + ?N) ?N = (?N + 2, Inl (RetryExhaustedError name (?N + 1) (Some err) out))"
    using assms(3) calculation(3) by (subst multi_loop.simps) (simp add: add.commute)
  ultimately have "multi_loop [p] name fn wait 0 0 = (?N + 2, Inl (RetryExhaustedError name (?N + 1) (Some err) out))"
    using assms(1) f1 calls by (subst multi_loop.simps) (simp add: Let_def)
  then show ?thesis by (simp add: MultiPolicyRetryExecutor_Execute_def)
qed

theorem multi_retry_calls_witness:
  "MultiPolicyRetryExecutor_Execute [DefaultRetryPolicy] ''n'' (\<lambda>_. CallReturn VNil (Some (ClientError ''x''))) (\<lambda>_. None) =
     (5, Inl (RetryExhaustedError ''n'' 4 (Some (ClientError ''x'')) VNil))"
  using multi_retry_calls [of DefaultRetryPolicy "\<lambda>_. CallReturn VNil (Some (ClientError ''x''))" "\<lambda>_. None"
      VNil "ClientError ''x''" "''n''"]
  by (simp add: DefaultRetryPolicy_def retried_def DefaultRetryOn_def)

text \<open>
  An interrupt is retried like any other error when a policy accepts all errors: if the second call
  succeeds, its value is returned and the interrupt is lost.
\<close>

lemma multi_retries_interrupt:
  assumes "RetryOn p = None" "2 \<le> MaxAttempts p"
    and "fn 1 = CallReturn out1 (Some (GraphInterrupt vs))" "fn 2 = CallReturn out2 None"
  shows "snd (MultiPolicyRetryExecutor_Execute [p] name fn wait) = Inr out2"
proof -
  have "RetryExecutor_Execute (Some (limited p 1)) name (\<lambda>a. fn (0 + 1 + a)) (\<lambda>a. wait (0 + 1 + a)) = Inr out2"
    unfolding RetryExecutor_Execute_def NewRetryExecutor_def option.case
    using assms(2,4) by (subst retry_loop.simps) (simp add: limited_def)
  then have "snd (multi_loop [p] name fn wait 0 0) = Inr out2"
    using assms by (subst multi_loop.simps) (simp add: findMatchingPolicy_def Let_def)
  then show ?thesis by (simp add: MultiPolicyRetryExecutor_Execute_def)
qed

end
