(* ===== verification/Kv_Store.thy ===== *)
theory Kv_Store
  imports Retry
begin

text \<open>
  \<open>store/memory.go\<close> and \<open>store/base.go\<close>: the in-memory key-value store with namespaces, expiry times, filters and
  batches. Every operation runs under the store's lock and is one step at one time \<open>now\<close>. The order of map
  iterations, the comparison of structs and pointers, the regular expression engine and the similarity of
  vectors (floating-point arithmetic) are arguments, collected in \<open>StoreEnv\<close>. Copies of values are the
  values themselves.
\<close>

type_synonym doc = "(string, gval) fmap"

record IndexConfig =
  ix_Dims :: int
  ix_Embed :: gval
  ix_Fields :: "string list"

record InMemoryStore =
  is_data :: "(string, (string, doc) fmap) fmap"
  is_ttl :: "(string, int) fmap"
  is_indexes :: "(string, (string, gval list) fmap) fmap"
  is_indexConfigs :: "(string, IndexConfig) fmap"
  is_closed :: bool

record StoreEnv =
  se_now :: int
  se_order :: "string list \<Rightarrow> string list"
  se_same :: "gval \<Rightarrow> gval \<Rightarrow> gerror + bool"
  se_regex :: "string \<Rightarrow> (string \<Rightarrow> bool) option"
  se_sim :: "gval list \<Rightarrow> gval list \<Rightarrow> rat"

definition NewInMemoryStore :: InMemoryStore where
  "NewInMemoryStore = \<lparr>is_data = fmempty, is_ttl = fmempty, is_indexes = fmempty, is_indexConfigs = fmempty, is_closed = False\<rparr>"

definition store_closed :: gerror where "store_closed = Errorf ''store is closed''"

definition nsKey :: "string list \<Rightarrow> string" where
  "nsKey ns = join_with (CHR ''|'') ns"

definition fullKey :: "string \<Rightarrow> string \<Rightarrow> string" where
  "fullKey nk key = nk @ '':'' @ key"

definition checkTTL :: "int \<Rightarrow> InMemoryStore \<Rightarrow> string \<Rightarrow> bool" where
  "checkTTL now s fk = (case fmlookup (is_ttl s) fk of Some expiry \<Rightarrow> now < expiry | None \<Rightarrow> True)"

subsection \<open>Reading and writing\<close>

definition lookup_live :: "int \<Rightarrow> InMemoryStore \<Rightarrow> string list \<Rightarrow> string \<Rightarrow> doc option" where
  "lookup_live now s ns key =
     (case fmlookup (is_data s) (nsKey ns) of
        None \<Rightarrow> None
      | Some nsData \<Rightarrow> if \<not> checkTTL now s (fullKey (nsKey ns) key) then None else fmlookup nsData key)"

definition Store_Get :: "int \<Rightarrow> InMemoryStore \<Rightarrow> string list \<Rightarrow> string \<Rightarrow> gerror + doc option" where
  "Store_Get now s ns key = (if is_closed s then Inl store_closed else Inr (lookup_live now s ns key))"

definition put_data :: "InMemoryStore \<Rightarrow> string \<Rightarrow> string \<Rightarrow> doc \<Rightarrow> InMemoryStore" where
  "put_data s nk key v =
     s\<lparr>is_data := fmupd nk (fmupd key v (case fmlookup (is_data s) nk of Some d \<Rightarrow> d | None \<Rightarrow> fmempty)) (is_data s)\<rparr>"

definition Store_Put :: "InMemoryStore \<Rightarrow> string list \<Rightarrow> string \<Rightarrow> doc \<Rightarrow> gerror + InMemoryStore" where
  "Store_Put s ns key v = (if is_closed s then Inl store_closed else Inr (put_data s (nsKey ns) key v))"

definition Store_Delete :: "InMemoryStore \<Rightarrow> string list \<Rightarrow> string \<Rightarrow> gerror + InMemoryStore" where
  "Store_Delete s ns key =
     (if is_closed s then Inl store_closed
      else Inr (case fmlookup (is_data s) (nsKey ns) of
          None \<Rightarrow> s
        | Some nsData \<Rightarrow> s\<lparr>is_data := fmupd (nsKey ns) (fmdrop key nsData) (is_data s),
                           is_ttl := fmdrop (fullKey (nsKey ns) key) (is_ttl s)\<rparr>))"

definition SetTTL :: "int \<Rightarrow> InMemoryStore \<Rightarrow> string list \<Rightarrow> string \<Rightarrow> int \<Rightarrow> gerror + InMemoryStore" where
  "SetTTL now s ns key ttl =
     (if is_closed s then Inl store_closed
      else if ttl \<le> 0 then Inr s
      else Inr (s\<lparr>is_ttl := fmupd (fullKey (nsKey ns) key) (now + ttl) (is_ttl s)\<rparr>))"

definition set_expiry :: "int \<Rightarrow> InMemoryStore \<Rightarrow> string \<Rightarrow> int option \<Rightarrow> InMemoryStore" where
  "set_expiry now s fk ttl =
     (case ttl of None \<Rightarrow> s | Some d \<Rightarrow> s\<lparr>is_ttl := fmupd fk (now + d) (is_ttl s)\<rparr>)"

definition BatchPut :: "InMemoryStore \<Rightarrow> (string list \<times> string \<times> doc) list \<Rightarrow> gerror + InMemoryStore" where
  "BatchPut s ops =
     (if is_closed s then Inl store_closed
      else Inr (foldl (\<lambda>s (ns, key, v). put_data s (nsKey ns) key v) s ops))"

definition Store_Clear :: "InMemoryStore \<Rightarrow> InMemoryStore" where
  "Store_Clear s = s\<lparr>is_data := fmempty, is_ttl := fmempty\<rparr>"

definition Store_Close :: "InMemoryStore \<Rightarrow> InMemoryStore" where
  "Store_Close s = s\<lparr>is_closed := True\<rparr>"

subsection \<open>Items and indexes\<close>

record Item =
  it_Value :: doc
  it_Key :: string
  it_Namespace :: "string list"
  it_CreatedAt :: int
  it_UpdatedAt :: int
  it_ExpiresAt :: "int option"

record SearchItem =
  si_Item :: Item
  si_Score :: "rat option"

definition make_item :: "int \<Rightarrow> InMemoryStore \<Rightarrow> string list \<Rightarrow> string \<Rightarrow> string \<Rightarrow> doc \<Rightarrow> Item" where
  "make_item now s ns nk key v =
     \<lparr>it_Value = v, it_Key = key, it_Namespace = ns, it_CreatedAt = now, it_UpdatedAt = now,
      it_ExpiresAt = fmlookup (is_ttl s) (fullKey nk key)\<rparr>"

definition GetItem :: "int \<Rightarrow> InMemoryStore \<Rightarrow> string list \<Rightarrow> string \<Rightarrow> gerror + Item option" where
  "GetItem now s ns key =
     (if is_closed s then Inl store_closed
      else Inr (map_option (make_item now s ns (nsKey ns) key) (lookup_live now s ns key)))"

datatype IndexArg = NoIndex | IndexBy IndexConfig | IndexFields "string list" | IndexBool bool | IndexOther

fun embedding :: "gval option \<Rightarrow> gval list option" where
  "embedding (Some (VSlice TFloat xs)) = Some xs"
| "embedding _ = None"

definition add_index :: "InMemoryStore \<Rightarrow> string \<Rightarrow> string \<Rightarrow> doc \<Rightarrow> IndexArg \<Rightarrow> InMemoryStore" where
  "add_index s nk key v ix =
     (case ix of
        IndexBy c \<Rightarrow>
          (let s1 = s\<lparr>is_indexConfigs := fmupd nk c (is_indexConfigs s)\<rparr>
           in if ix_Embed c \<noteq> VNil \<and> ix_Fields c \<noteq> []
              then (case List.map_filter (\<lambda>f. embedding (fmlookup v f)) (ix_Fields c) of
                  emb # _ \<Rightarrow> s1\<lparr>is_indexes := fmupd nk (fmupd key emb
                               (case fmlookup (is_indexes s1) nk of Some m \<Rightarrow> m | None \<Rightarrow> fmempty)) (is_indexes s1)\<rparr>
                | [] \<Rightarrow> s1)
              else s1)
      | IndexFields fs \<Rightarrow>
          if fs \<noteq> [] then s\<lparr>is_indexConfigs := fmupd nk \<lparr>ix_Dims = 0, ix_Embed = VNil, ix_Fields = fs\<rparr> (is_indexConfigs s)\<rparr> else s
      | IndexBool b \<Rightarrow>
          if b then s\<lparr>is_indexConfigs := fmupd nk \<lparr>ix_Dims = 0, ix_Embed = VNil, ix_Fields = [''embedding'']\<rparr> (is_indexConfigs s)\<rparr> else s
      | _ \<Rightarrow> s)"

definition PutItem :: "int \<Rightarrow> InMemoryStore \<Rightarrow> string list \<Rightarrow> string \<Rightarrow> doc \<Rightarrow> IndexArg \<Rightarrow> int option \<Rightarrow> gerror + InMemoryStore" where
  "PutItem now s ns key v ix ttl =
     (if is_closed s then Inl store_closed
      else Inr (add_index (set_expiry now (put_data s (nsKey ns) key v) (fullKey (nsKey ns) key) ttl) (nsKey ns) key v ix))"

subsection \<open>Queries and filters\<close>

definition contains_text :: "string \<Rightarrow> string \<Rightarrow> bool" where
  "contains_text s sub = list_ex (prefix sub) (suffixes s)"

definition matchQuery :: "doc \<Rightarrow> string \<Rightarrow> bool" where
  "matchQuery v query =
     list_ex (\<lambda>k. case fmlookup v k of Some (VStr str) \<Rightarrow> contains_text (toLower str) (toLower query) | _ \<Rightarrow> False) (fmkeys v)"

text \<open>Equality of interface values: false for different types, a panic for slices and maps.\<close>

definition store_equal :: "StoreEnv \<Rightarrow> gval \<Rightarrow> gval \<Rightarrow> gerror + bool" where
  "store_equal env a b =
     (if typeof a \<noteq> typeof b then Inr False
      else (case a of
          VSlice _ _ \<Rightarrow> Inl (GoPanic ''comparing uncomparable type'')
        | VMapT _ _ \<Rightarrow> Inl (GoPanic ''comparing uncomparable type'')
        | VStruct _ _ \<Rightarrow> se_same env a b
        | VOverwrite _ \<Rightarrow> se_same env a b
        | VOverwriter _ \<Rightarrow> se_same env a b
        | _ \<Rightarrow> Inr (a = b)))"

definition greaterThan :: "gval \<Rightarrow> gval \<Rightarrow> bool" where
  "greaterThan a b =
     (case a of
        VInt x \<Rightarrow> (case b of VInt y \<Rightarrow> sint x > sint y | _ \<Rightarrow> False)
      | VNum k x \<Rightarrow> (case b of VNum k' y \<Rightarrow> k = Int64 \<and> k' = Int64 \<and> x > y | _ \<Rightarrow> False)
      | VFloat x \<Rightarrow> (case b of VFloat y \<Rightarrow> x > y | _ \<Rightarrow> False)
      | VStr x \<Rightarrow> (case b of VStr y \<Rightarrow> x > y | _ \<Rightarrow> False)
      | _ \<Rightarrow> False)"

definition lessThan :: "gval \<Rightarrow> gval \<Rightarrow> bool" where
  "lessThan a b =
     (case a of
        VInt x \<Rightarrow> (case b of VInt y \<Rightarrow> sint x < sint y | _ \<Rightarrow> False)
      | VNum k x \<Rightarrow> (case b of VNum k' y \<Rightarrow> k = Int64 \<and> k' = Int64 \<and> x < y | _ \<Rightarrow> False)
      | VFloat x \<Rightarrow> (case b of VFloat y \<Rightarrow> x < y | _ \<Rightarrow> False)
      | VStr x \<Rightarrow> (case b of VStr y \<Rightarrow> x < y | _ \<Rightarrow> False)
      | _ \<Rightarrow> False)"

fun any_equal :: "StoreEnv \<Rightarrow> gval \<Rightarrow> gval list \<Rightarrow> gerror + bool" where
  "any_equal env v [] = Inr False"
| "any_equal env v (x # xs) =
     (case store_equal env v x of Inl e \<Rightarrow> Inl e | Inr b \<Rightarrow> if b then Inr True else any_equal env v xs)"

definition inArray :: "StoreEnv \<Rightarrow> gval \<Rightarrow> gval \<Rightarrow> gerror + bool" where
  "inArray env v arr = (case arr of VSlice TIface xs \<Rightarrow> any_equal env v xs | _ \<Rightarrow> Inr False)"

definition regexMatch :: "StoreEnv \<Rightarrow> gval \<Rightarrow> gval \<Rightarrow> bool" where
  "regexMatch env v pat =
     (case (v, pat) of
        (VStr str, VStr p) \<Rightarrow> (case se_regex env p of Some re \<Rightarrow> re str | None \<Rightarrow> False)
      | _ \<Rightarrow> False)"

definition compare :: "StoreEnv \<Rightarrow> gval \<Rightarrow> string \<Rightarrow> gval \<Rightarrow> gerror + bool" where
  "compare env fv op ov =
     (if op = ''$eq'' then store_equal env fv ov
      else if op = ''$ne'' then map_sum id Not (store_equal env fv ov)
      else if op = ''$gt'' then Inr (greaterThan fv ov)
      else if op = ''$gte'' then (if greaterThan fv ov then Inr True else store_equal env fv ov)
      else if op = ''$lt'' then Inr (lessThan fv ov)
      else if op = ''$lte'' then (if lessThan fv ov then Inr True else store_equal env fv ov)
      else if op = ''$in'' then inArray env fv ov
      else if op = ''$nin'' then map_sum id Not (inArray env fv ov)
      else if op = ''$regex'' then Inr (regexMatch env fv ov)
      else Inr False)"

fun all_true :: "('a \<Rightarrow> gerror + bool) \<Rightarrow> 'a list \<Rightarrow> gerror + bool" where
  "all_true f [] = Inr True"
| "all_true f (x # xs) = (case f x of Inl e \<Rightarrow> Inl e | Inr b \<Rightarrow> if b then all_true f xs else Inr False)"

definition match_field :: "StoreEnv \<Rightarrow> doc \<Rightarrow> string \<Rightarrow> gval \<Rightarrow> gerror + bool" where
  "match_field env v field condition =
     (case fmlookup v field of
        None \<Rightarrow> Inr False
      | Some fv \<Rightarrow>
          (case condition of
             VMapT TIface ops \<Rightarrow> all_true (\<lambda>op. compare env fv op (the (fmlookup ops op))) (se_order env (fmkeys ops))
           | _ \<Rightarrow> compare env fv ''$eq'' condition))"

definition matchFilter :: "StoreEnv \<Rightarrow> doc \<Rightarrow> doc \<Rightarrow> gerror + bool" where
  "matchFilter env v fil = all_true (\<lambda>field. match_field env v field (the (fmlookup fil field))) (se_order env (fmkeys fil))"

subsection \<open>Searching\<close>

text \<open>The loops over a namespace: they skip entries and stop when the limit is reached.\<close>

fun collect_upto :: "int \<Rightarrow> ('a \<Rightarrow> gerror + 'b option) \<Rightarrow> 'a list \<Rightarrow> 'b list \<Rightarrow> gerror + 'b list" where
  "collect_upto limit f [] acc = Inr acc"
| "collect_upto limit f (x # xs) acc =
     (case f x of
        Inl e \<Rightarrow> Inl e
      | Inr None \<Rightarrow> collect_upto limit f xs acc
      | Inr (Some y) \<Rightarrow>
          if limit > 0 \<and> int (length (acc @ [y])) \<ge> limit then Inr (acc @ [y])
          else collect_upto limit f xs (acc @ [y]))"

definition entries_of :: "StoreEnv \<Rightarrow> (string, doc) fmap \<Rightarrow> (string \<times> doc) list" where
  "entries_of env nsData = map (\<lambda>k. (k, the (fmlookup nsData k))) (se_order env (fmkeys nsData))"

definition Store_Search :: "StoreEnv \<Rightarrow> InMemoryStore \<Rightarrow> string list \<Rightarrow> string \<Rightarrow> int \<Rightarrow> gerror + doc list" where
  "Store_Search env s ns query limit =
     (if is_closed s then Inl store_closed
      else (case fmlookup (is_data s) (nsKey ns) of
          None \<Rightarrow> Inr []
        | Some nsData \<Rightarrow>
            collect_upto limit
              (\<lambda>(key, v). Inr (if checkTTL (se_now env) s (fullKey (nsKey ns) key) \<and> (query = [] \<or> matchQuery v query)
                              then Some v else None))
              (entries_of env nsData) []))"

definition Store_List :: "StoreEnv \<Rightarrow> InMemoryStore \<Rightarrow> string list \<Rightarrow> int \<Rightarrow> gerror + string list" where
  "Store_List env s ns limit =
     (if is_closed s then Inl store_closed
      else (case fmlookup (is_data s) (nsKey ns) of
          None \<Rightarrow> Inr []
        | Some nsData \<Rightarrow>
            collect_upto limit
              (\<lambda>(key, v). Inr (if checkTTL (se_now env) s (fullKey (nsKey ns) key) then Some key else None))
              (entries_of env nsData) []))"

text \<open>One entry of a filtered search: expiry, query, filter.\<close>

definition search_entry ::
  "StoreEnv \<Rightarrow> InMemoryStore \<Rightarrow> string \<Rightarrow> string option \<Rightarrow> doc option \<Rightarrow> string \<times> doc \<Rightarrow> gerror + (string \<times> doc) option" where
  "search_entry env s nk query fil kv =
     (if \<not> checkTTL (se_now env) s (fullKey nk (fst kv)) then Inr None
      else if (case query of Some q \<Rightarrow> q \<noteq> [] \<and> \<not> matchQuery (snd kv) q | None \<Rightarrow> False) then Inr None
      else (case fil of
          None \<Rightarrow> Inr (Some kv)
        | Some f \<Rightarrow> map_sum id (\<lambda>b. if b then Some kv else None) (matchFilter env (snd kv) f)))"

definition apply_offset :: "int \<Rightarrow> 'a list \<Rightarrow> 'a list" where
  "apply_offset offset xs = (if offset > 0 \<and> offset < int (length xs) then drop (nat offset) xs else xs)"

definition searchByEmbedding :: "StoreEnv \<Rightarrow> InMemoryStore \<Rightarrow> string \<Rightarrow> gval list \<Rightarrow> int \<Rightarrow> SearchItem list" where
  "searchByEmbedding env s nk q limit =
     (case fmlookup (is_indexes s) nk of
        None \<Rightarrow> []
      | Some idx \<Rightarrow>
          (let scored = List.map_filter
                 (\<lambda>key. case Option.bind (fmlookup (is_data s) nk) (\<lambda>d. fmlookup d key) of
                     None \<Rightarrow> None
                   | Some v \<Rightarrow>
                       if \<not> checkTTL (se_now env) s (fullKey nk key) then None
                       else Some \<lparr>si_Item = make_item (se_now env) s (split_on (CHR ''|'') nk) nk key v,
                                  si_Score = Some (se_sim env q (the (fmlookup idx key)))\<rparr>)
                 (se_order env (fmkeys idx));
               sorted = sort_key (\<lambda>si. - the (si_Score si)) scored
           in if limit > 0 \<and> limit < int (length sorted) then take (nat limit) sorted else sorted))"

definition SearchItems ::
  "StoreEnv \<Rightarrow> InMemoryStore \<Rightarrow> string list \<Rightarrow> string option \<Rightarrow> doc option \<Rightarrow> int \<Rightarrow> int \<Rightarrow> gerror + SearchItem list" where
  "SearchItems env s ns query fil limit offset =
     (if is_closed s then Inl store_closed
      else (case embedding (Option.bind fil (\<lambda>f. fmlookup f ''$embedding'')) of
          Some emb \<Rightarrow> Inr (apply_offset offset (searchByEmbedding env s (nsKey ns) emb limit))
        | None \<Rightarrow>
            (case fmlookup (is_data s) (nsKey ns) of
               None \<Rightarrow> Inr []
             | Some nsData \<Rightarrow>
                 map_sum id
                   (\<lambda>kvs. apply_offset offset
                      (map (\<lambda>(key, v). \<lparr>si_Item = make_item (se_now env) s ns (nsKey ns) key v, si_Score = None\<rparr>) kvs))
                   (collect_upto limit (search_entry env s (nsKey ns) query fil) (entries_of env nsData) []))))"

subsection \<open>Namespaces\<close>

record MatchCondition =
  mc_MatchType :: string
  mc_Path :: "string list"

fun matchNamespaceConditions :: "string list \<Rightarrow> MatchCondition list \<Rightarrow> bool" where
  "matchNamespaceConditions ns [] = True"
| "matchNamespaceConditions ns (c # cs) =
     (if mc_MatchType c = ''prefix'' then prefix (mc_Path c) ns
      else if mc_MatchType c = ''suffix'' then suffix (mc_Path c) ns
      else cs \<noteq> [] \<and> matchNamespaceConditions ns cs)"

definition add_prefixes :: "(string, string list) fmap \<Rightarrow> string \<Rightarrow> (string, string list) fmap" where
  "add_prefixes m nk =
     (let parts = split_on (CHR ''|'') nk
      in foldl (\<lambda>m i. let p = take i parts; k = join_with (CHR ''|'') p
                      in case fmlookup m k of None \<Rightarrow> fmupd k p m | Some _ \<Rightarrow> m) m [1..<Suc (length parts)])"

definition ListNamespaces ::
  "StoreEnv \<Rightarrow> InMemoryStore \<Rightarrow> MatchCondition list \<Rightarrow> int option \<Rightarrow> int \<Rightarrow> int \<Rightarrow> gerror + string list list" where
  "ListNamespaces env s conds maxDepth limit offset =
     (if is_closed s then Inl store_closed
      else (let set1 = foldl add_prefixes fmempty (se_order env (fmkeys (is_data s)));
                all1 = map (\<lambda>k. the (fmlookup set1 k)) (se_order env (fmkeys set1));
                f1 = filter (\<lambda>ns. matchNamespaceConditions ns conds) all1;
                f2 = (case maxDepth of None \<Rightarrow> f1 | Some d \<Rightarrow> filter (\<lambda>ns. int (length ns) \<le> d) f1)
            in if offset > int (length f2) then Inl (GoPanic ''slice bounds out of range'')
               else (let f3 = (if offset > 0 then drop (nat offset) f2 else f2)
                     in Inr (if limit > 0 \<and> limit < int (length f3) then take (nat limit) f3 else f3))))"

subsection \<open>Batches\<close>

datatype Op =
    GetOp "string list" string
  | PutOp "string list" string doc "int option"
  | SearchOp "string list" "doc option" int int "string option"
  | ListNamespacesOp "MatchCondition list" "int option" int int
  | OtherOp

record Result =
  re_Value :: gval
  re_Error :: "gerror option"

definition result_val :: "gval \<Rightarrow> Result" where
  "result_val v = \<lparr>re_Value = v, re_Error = None\<rparr>"

text \<open>
  One operation of a batch. Listing namespaces takes the store's read lock, which the batch already
  holds for writing, and never returns: \<open>None\<close>.
\<close>

definition batch_one :: "StoreEnv \<Rightarrow> InMemoryStore \<Rightarrow> Op \<Rightarrow> (InMemoryStore \<times> (gerror + Result)) option" where
  "batch_one env s op =
     (case op of
        GetOp ns key \<Rightarrow>
          Some (s, Inr (result_val (case lookup_live (se_now env) s ns key of Some v \<Rightarrow> VMap v | None \<Rightarrow> VNil)))
      | PutOp ns key v ttl \<Rightarrow>
          Some (set_expiry (se_now env) (put_data s (nsKey ns) key v) (fullKey (nsKey ns) key) ttl, Inr (result_val VNil))
      | SearchOp ns fil limit offset query \<Rightarrow>
          Some (s, case fmlookup (is_data s) (nsKey ns) of
              None \<Rightarrow> Inr (result_val VNil)
            | Some nsData \<Rightarrow>
                map_sum id (\<lambda>kvs. result_val (VSlice (TMap TIface) (map VMap (apply_offset offset (map snd kvs)))))
                  (collect_upto limit (search_entry env s (nsKey ns) query fil) (entries_of env nsData) []))
      | ListNamespacesOp _ _ _ _ \<Rightarrow> None
      | OtherOp \<Rightarrow> Some (s, Inr \<lparr>re_Value = VNil, re_Error = Some (Errorf ''unknown operation type'')\<rparr>))"

fun batch_loop :: "StoreEnv \<Rightarrow> InMemoryStore \<Rightarrow> Op list \<Rightarrow> (InMemoryStore \<times> (gerror + Result list)) option" where
  "batch_loop env s [] = Some (s, Inr [])"
| "batch_loop env s (op # ops) =
     (case batch_one env s op of
        None \<Rightarrow> None
      | Some (s', Inl e) \<Rightarrow> Some (s', Inl e)
      | Some (s', Inr r) \<Rightarrow> map_option (map_prod id (map_sum id (\<lambda>rs. r # rs))) (batch_loop env s' ops))"

definition Batch :: "StoreEnv \<Rightarrow> InMemoryStore \<Rightarrow> Op list \<Rightarrow> (InMemoryStore \<times> (gerror + Result list)) option" where
  "Batch env s ops = (if is_closed s then Some (s, Inl store_closed) else batch_loop env s ops)"

subsection \<open>Removal of expired entries\<close>

definition cleanup_one :: "int \<Rightarrow> InMemoryStore \<Rightarrow> string \<Rightarrow> InMemoryStore" where
  "cleanup_one now s fk =
     (case fmlookup (is_ttl s) fk of
        None \<Rightarrow> s
      | Some expiry \<Rightarrow>
          if now > expiry
          then (let s1 = (case split_on (CHR '':'') fk of
                    [nk, key] \<Rightarrow>
                      (case fmlookup (is_data s) nk of
                         None \<Rightarrow> s
                       | Some d \<Rightarrow> (let d' = fmdrop key d
                                    in s\<lparr>is_data := (if fmlen d' = 0 then fmdrop nk (is_data s) else fmupd nk d' (is_data s))\<rparr>))
                  | _ \<Rightarrow> s)
                in s1\<lparr>is_ttl := fmdrop fk (is_ttl s1),
                      is_indexes := fm_map_filter (\<lambda>m. let m' = fmdrop fk m in if fmlen m' = 0 then None else Some m') (is_indexes s1)\<rparr>)
          else s)"

definition cleanupExpired :: "StoreEnv \<Rightarrow> InMemoryStore \<Rightarrow> InMemoryStore" where
  "cleanupExpired env s = foldl (cleanup_one (se_now env)) s (se_order env (fmkeys (is_ttl s)))"

end
