(* ===== verification/Store_Props.thy ===== *)
theory Store_Props
  imports Kv_Store
begin

text \<open>
  Properties of the store: it implements a table, expiry and the removal of expired entries, searches and
  their limits, batches, and the namespaces it lists.
\<close>

subsection \<open>The contract of a table with composite keys\<close>

text \<open>
  The table a sequence of writes leaves is the specification. The operations of the store may fail; \<open>ok\<close> are
  the states in which they do not, \<open>ident\<close> tells which keys name the same entry.
\<close>

definition table_after :: "('k \<times> 'v option) list \<Rightarrow> ('k \<Rightarrow> 'v option) \<Rightarrow> 'k \<Rightarrow> 'v option" where
  "table_after ops m = foldl (\<lambda>m op. m(fst op := snd op)) m ops"

lemma table_after_simps [simp]:
  "table_after [] m = m" "table_after (ops @ [op]) m k = (if fst op = k then snd op else table_after ops m k)"
  by (simp_all add: table_after_def)

locale kv_store =
  fixes ok :: "'s \<Rightarrow> bool" and ident :: "'k \<Rightarrow> 'i"
    and put :: "'s \<Rightarrow> 'k \<Rightarrow> 'v \<Rightarrow> 'e + 's" and del :: "'s \<Rightarrow> 'k \<Rightarrow> 'e + 's" and get :: "'s \<Rightarrow> 'k \<Rightarrow> 'v option"
  assumes put_ok: "ok s \<Longrightarrow>
      \<exists>s'. put s k v = Inr s' \<and> ok s' \<and> (\<forall>k'. get s' k' = (if ident k = ident k' then Some v else get s k'))"
    and del_ok: "ok s \<Longrightarrow>
      \<exists>s'. del s k = Inr s' \<and> ok s' \<and> (\<forall>k'. get s' k' = (if ident k = ident k' then None else get s k'))"
begin

definition do_write :: "'s \<Rightarrow> 'k \<times> 'v option \<Rightarrow> 'e + 's" where
  "do_write s op = (case snd op of Some v \<Rightarrow> put s (fst op) v | None \<Rightarrow> del s (fst op))"

lemma write_ok:
  assumes "ok s"
  shows "\<exists>s'. do_write s op = Inr s' \<and> ok s' \<and> (\<forall>k'. get s' k' = (if ident (fst op) = ident k' then snd op else get s k'))"
proof (cases "snd op")
  case None
  with del_ok [OF assms, of "fst op"] show ?thesis by (auto simp: do_write_def)
next
  case (Some v)
  with put_ok [OF assms, of "fst op" v] show ?thesis by (auto simp: do_write_def)
qed

lemma writes_ok:
  assumes "ok s" "inj_on ident K" "fst ` set ops \<subseteq> K" "k \<in> K"
  shows "\<exists>s'. foldl_err do_write s ops = Inr s' \<and> ok s' \<and> get s' k = table_after ops (get s) k"
  using assms
proof (induction ops arbitrary: s rule: rev_induct)
  case (snoc op ops)
  obtain s1 where s1: "foldl_err do_write s ops = Inr s1" "ok s1" "get s1 k = table_after ops (get s) k"
    using snoc.IH [OF snoc.prems(1,2) _ snoc.prems(4)] snoc.prems(3) by fastforce
  obtain s2 where s2: "do_write s1 op = Inr s2" "ok s2" "\<forall>k'. get s2 k' = (if ident (fst op) = ident k' then snd op else get s1 k')"
    using write_ok [OF s1(2)] by blast
  have "ident (fst op) = ident k \<longleftrightarrow> fst op = k"
    using snoc.prems by (auto dest: inj_onD)
  with s1 s2 show ?case by (auto simp: foldl_err_append)
qed auto

end

subsection \<open>The store as a table\<close>

lemma lookup_put:
  "lookup_live t (put_data s (nsKey ns) k v) ns' k' =
     (if nsKey ns = nsKey ns' \<and> k = k' then if checkTTL t s (fullKey (nsKey ns) k) then Some v else None
      else lookup_live t s ns' k')"
  by (auto simp: lookup_live_def put_data_def checkTTL_def split: option.split)

lemma lookup_delete:
  "\<not> is_closed s \<Longrightarrow> \<exists>s'. Store_Delete s ns k = Inr s' \<and> is_closed s' = is_closed s \<and>
     is_ttl s' = (case fmlookup (is_data s) (nsKey ns) of None \<Rightarrow> is_ttl s | Some _ \<Rightarrow> fmdrop (fullKey (nsKey ns) k) (is_ttl s)) \<and>
     (\<forall>k'. lookup_live t s' ns k' = (if k = k' then None else lookup_live t s ns k'))"
  by (auto simp: Store_Delete_def lookup_live_def checkTTL_def fullKey_def split: option.split)

definition untimed :: "InMemoryStore \<Rightarrow> bool" where
  "untimed s \<longleftrightarrow> \<not> is_closed s \<and> is_ttl s = fmempty"

lemma lookup_untimed:
  "untimed s \<Longrightarrow> lookup_live t s ns k = Option.bind (fmlookup (is_data s) (nsKey ns)) (\<lambda>d. fmlookup d k)"
  by (auto simp: untimed_def lookup_live_def checkTTL_def split: option.split)

interpretation store: kv_store untimed "\<lambda>(ns, k). (nsKey ns, k)" "\<lambda>s (ns, k) v. Store_Put s ns k v"
  "\<lambda>s (ns, k). Store_Delete s ns k" "\<lambda>s (ns, k). lookup_live t s ns k"
proof
  fix s :: InMemoryStore and k :: "string list \<times> string" and v
  assume u: "untimed s"
  obtain ns key where k: "k = (ns, key)" by force
  show "\<exists>s'. (case k of (ns, k) \<Rightarrow> \<lambda>v. Store_Put s ns k v) v = Inr s' \<and> untimed s' \<and>
      (\<forall>k'. (case k' of (ns, k) \<Rightarrow> lookup_live t s' ns k) =
         (if (case k of (ns, k) \<Rightarrow> (nsKey ns, k)) = (case k' of (ns, k) \<Rightarrow> (nsKey ns, k)) then Some v
          else (case k' of (ns, k) \<Rightarrow> lookup_live t s ns k)))"
  proof -
    have "untimed (put_data s (nsKey ns) key v)" using u by (simp add: untimed_def put_data_def)
    then show ?thesis using u by (auto simp: k Store_Put_def lookup_put untimed_def checkTTL_def)
  qed
  show "\<exists>s'. (case k of (ns, k) \<Rightarrow> Store_Delete s ns k) = Inr s' \<and> untimed s' \<and>
      (\<forall>k'. (case k' of (ns, k) \<Rightarrow> lookup_live t s' ns k) =
         (if (case k of (ns, k) \<Rightarrow> (nsKey ns, k)) = (case k' of (ns, k) \<Rightarrow> (nsKey ns, k)) then None
          else (case k' of (ns, k) \<Rightarrow> lookup_live t s ns k)))"
    using u by (auto simp: k Store_Delete_def untimed_def lookup_live_def checkTTL_def split: option.split)
qed

text \<open>Namespaces without the separator have different keys.\<close>

definition plain_ns :: "string list \<Rightarrow> bool" where
  "plain_ns ns \<longleftrightarrow> ns \<noteq> [] \<and> (\<forall>p\<in>set ns. CHR ''|'' \<notin> set p)"

lemma split_nsKey: "plain_ns ns \<Longrightarrow> split_on (CHR ''|'') (nsKey ns) = ns"
  unfolding nsKey_def plain_ns_def using split_on_join_with [of ns "CHR ''|''"] by auto

lemma inj_names: "inj_on (\<lambda>(ns, k). (nsKey ns, k)) {(ns, k). plain_ns ns}"
  by (rule inj_onI) (auto dest: split_nsKey split: prod.splits, metis split_nsKey)

text \<open>
  C35: the operations \<open>Put\<close>, \<open>Delete\<close> and \<open>Get\<close> without an expiry time, on non-empty namespaces whose
  parts do not contain the separator bar (\<open>plain_ns\<close>): after any sequence of puts and deletes on such
  namespaces of a new store, all of which succeed, \<open>Get\<close> returns what the last operation on that namespace
  and key left. Without the restriction namespaces collide (\<open>namespaces_collide\<close>).
\<close>

theorem store_refines_table:
  assumes "\<forall>op\<in>set ops. plain_ns (fst (fst op))" and "plain_ns ns"
  shows "\<exists>s. foldl_err (\<lambda>s op. case snd op of Some v \<Rightarrow> Store_Put s (fst (fst op)) (snd (fst op)) v
                                        | None \<Rightarrow> Store_Delete s (fst (fst op)) (snd (fst op))) NewInMemoryStore ops = Inr s \<and>
    Store_Get now s ns key = Inr (table_after ops (\<lambda>_. None) (ns, key))"
proof -
  have "untimed NewInMemoryStore" by (simp add: untimed_def NewInMemoryStore_def)
  then obtain s where s: "foldl_err store.do_write NewInMemoryStore ops = Inr s" "untimed s"
      "(case (ns, key) of (ns, k) \<Rightarrow> lookup_live now s ns k) =
        table_after ops (\<lambda>(ns, k). lookup_live now NewInMemoryStore ns k) (ns, key)"
    using store.writes_ok [OF _ inj_names, of NewInMemoryStore ops "(ns, key)" now] assms by fastforce
  have "store.do_write = (\<lambda>s op. case snd op of Some v \<Rightarrow> Store_Put s (fst (fst op)) (snd (fst op)) v
                                        | None \<Rightarrow> Store_Delete s (fst (fst op)) (snd (fst op)))"
    by (intro ext) (simp add: store.do_write_def case_prod_beta split: option.split)
  moreover have "(\<lambda>(ns, k). lookup_live now NewInMemoryStore ns k) = (\<lambda>_. None)"
    by (auto simp: lookup_live_def NewInMemoryStore_def)
  ultimately show ?thesis using s by (auto simp: Store_Get_def untimed_def)
qed

theorem store_refines_table_witness:
  "\<exists>s. foldl_err (\<lambda>s op. case snd op of Some v \<Rightarrow> Store_Put s (fst (fst op)) (snd (fst op)) v
                                     | None \<Rightarrow> Store_Delete s (fst (fst op)) (snd (fst op))) NewInMemoryStore
      [(([''users'', ''7''], ''a''), Some fmempty), (([''users''], ''a''), None)] = Inr s \<and>
    Store_Get 0 s [''users'', ''7''] ''a'' = Inr (Some fmempty)"
  using store_refines_table [of "[(([''users'', ''7''], ''a''), Some fmempty), (([''users''], ''a''), None)]"
      "[''users'', ''7'']" 0 "''a''"]
  by (simp add: plain_ns_def table_after_def)

text \<open>Without the restriction, namespaces collide: joining loses where a part ends.\<close>

lemma namespaces_collide: "Store_Get now s [''a|b''] key = Store_Get now s [''a'', ''b''] key"
proof -
  have "nsKey [''a|b''] = nsKey [''a'', ''b'']" by (simp add: nsKey_def)
  then show ?thesis by (simp only: Store_Get_def lookup_live_def)
qed

subsection \<open>Expiry\<close>

definition stored_doc :: "InMemoryStore \<Rightarrow> string \<Rightarrow> string \<Rightarrow> doc option" where
  "stored_doc s nk key = Option.bind (fmlookup (is_data s) nk) (\<lambda>d. fmlookup d key)"

lemma lookup_live_stored: "lookup_live t s ns key = (if checkTTL t s (fullKey (nsKey ns) key) then stored_doc s (nsKey ns) key else None)"
  by (auto simp: lookup_live_def stored_doc_def split: option.split)

definition expired :: "int \<Rightarrow> InMemoryStore \<Rightarrow> string \<Rightarrow> bool" where
  "expired now s fk \<longleftrightarrow> (case fmlookup (is_ttl s) fk of Some e \<Rightarrow> e < now | None \<Rightarrow> False)"

lemma cleanup_one_ttl:
  "fmlookup (is_ttl (cleanup_one now s fk)) x = (if x = fk \<and> expired now s fk then None else fmlookup (is_ttl s) x)"
  by (auto simp: cleanup_one_def expired_def Let_def split: option.split list.split)

lemma fmlen_zero_lookup: "fmlen (fmdrop k d) = 0 \<Longrightarrow> x \<noteq> k \<Longrightarrow> fmlookup d x = None"
  by (metis fmlen_zero fmlookup_drop fmempty_lookup)

lemma cleanup_one_stored:
  "stored_doc (cleanup_one now s fk) nk key =
     (if expired now s fk \<and> split_on (CHR '':'') fk = [nk, key] then None else stored_doc s nk key)"
proof (cases "expired now s fk \<and> (\<exists>nk' key'. split_on (CHR '':'') fk = [nk', key'])")
  case True
  then obtain nk' key' e where fk: "split_on (CHR '':'') fk = [nk', key']" "fmlookup (is_ttl s) fk = Some e" "e < now"
    by (auto simp: expired_def split: option.splits)
  show ?thesis
  proof (cases "fmlookup (is_data s) nk'")
    case None
    with fk show ?thesis by (auto simp: cleanup_one_def stored_doc_def expired_def Let_def)
  next
    case (Some d)
    with fk show ?thesis
      by (auto simp: cleanup_one_def stored_doc_def expired_def Let_def simp del: fmlen_zero dest: fmlen_zero_lookup [of key' d key])
  qed
next
  case False
  then show ?thesis
    by (auto simp: cleanup_one_def stored_doc_def expired_def Let_def split: option.split list.split)
qed

lemma cleanup_ttl:
  "fmlookup (is_ttl (foldl (cleanup_one now) s fks)) x = (if x \<in> set fks \<and> expired now s x then None else fmlookup (is_ttl s) x)"
proof (induction fks arbitrary: s)
  case (Cons fk fks)
  then show ?case by (auto simp: cleanup_one_ttl expired_def)
qed simp

lemma cleanup_stored:
  "stored_doc (foldl (cleanup_one now) s fks) nk key =
     (if \<exists>fk\<in>set fks. expired now s fk \<and> split_on (CHR '':'') fk = [nk, key] then None else stored_doc s nk key)"
proof (induction fks arbitrary: s)
  case (Cons fk fks)
  have "expired now (cleanup_one now s fk) x \<longleftrightarrow> expired now s x \<and> x \<noteq> fk" for x
    by (auto simp: expired_def cleanup_one_ttl)
  with Cons show ?case by (auto simp: cleanup_one_stored)
qed simp

lemma split_fullKey:
  assumes "split_on (CHR '':'') fk = [nk, key]"
  shows "fk = fullKey nk key"
  using join_with_split_on [of "CHR '':''" fk] by (simp add: assms fullKey_def)

lemma split_plain_fullKey:
  "CHR '':'' \<notin> set nk \<Longrightarrow> CHR '':'' \<notin> set key \<Longrightarrow> split_on (CHR '':'') (fullKey nk key) = [nk, key]"
  by (simp add: fullKey_def split_on_append_sep split_on_plain)

lemma cleanup_closed [simp]: "is_closed (foldl (cleanup_one now) s fks) = is_closed s"
proof (induction fks arbitrary: s)
  case (Cons fk fks)
  then show ?case by (auto simp: cleanup_one_def Let_def split: option.split list.split)
qed simp

text \<open>
  C36: the periodic removal of expired entries cannot be observed by \<open>Get\<close> through a namespace and a key
  without a colon: at that time or later \<open>Get\<close> returns what it would have returned without the removal,
  whatever the order in which entries are visited; and if the entry had expired, a value put under that
  name afterwards is visible at once. Names with a colon are excluded because their expired values come
  back (\<open>cleanup_resurrects\<close>), and other operations can observe the removal: \<open>ListNamespaces\<close> no longer
  lists a namespace whose last entry was removed.
\<close>

theorem cleanup_correct:
  assumes "CHR '':'' \<notin> set (nsKey ns)" "CHR '':'' \<notin> set key" "se_now env \<le> t" and "\<And>xs. mset (se_order env xs) = mset xs"
  shows "Store_Get t (cleanupExpired env s) ns key = Store_Get t s ns key \<and>
    (expired (se_now env) s (fullKey (nsKey ns) key) \<longrightarrow>
       lookup_live t (put_data (cleanupExpired env s) (nsKey ns) key v) ns key = Some v)"
proof -
  let ?fk = "fullKey (nsKey ns) key" and ?now = "se_now env"
  have mem: "?fk \<in> set (se_order env (fmkeys (is_ttl s))) \<longleftrightarrow> fmlookup (is_ttl s) ?fk \<noteq> None"
    using permuted_keys(1) [OF assms(4)] by (simp add: fmlookup_dom_iff)
  have split: "split_on (CHR '':'') fk = [nsKey ns, key] \<longleftrightarrow> fk = ?fk" for fk
    using split_fullKey [of fk "nsKey ns" key] split_plain_fullKey [OF assms(1,2)] by blast
  have ttl: "fmlookup (is_ttl (cleanupExpired env s)) ?fk = (if expired ?now s ?fk then None else fmlookup (is_ttl s) ?fk)"
    unfolding cleanupExpired_def cleanup_ttl by (auto simp: mem expired_def split: option.splits)
  have st: "stored_doc (cleanupExpired env s) (nsKey ns) key = (if expired ?now s ?fk then None else stored_doc s (nsKey ns) key)"
    unfolding cleanupExpired_def cleanup_stored split by (auto simp: mem expired_def split: option.splits)
  have "lookup_live t (cleanupExpired env s) ns key = lookup_live t s ns key"
    unfolding lookup_live_stored st checkTTL_def ttl using assms(3) by (auto simp: expired_def split: option.splits)
  moreover have "lookup_live t (put_data (cleanupExpired env s) (nsKey ns) key v) ns key = Some v" if "expired ?now s ?fk"
    by (simp add: lookup_put checkTTL_def ttl that)
  ultimately show ?thesis by (simp add: Store_Get_def cleanupExpired_def)
qed

definition demo_store :: InMemoryStore where
  "demo_store = NewInMemoryStore\<lparr>is_data := fmap_of_list [(''n'', fmap_of_list [(''k'', fmempty)])],
     is_ttl := fmap_of_list [(''n:k'', 5)]\<rparr>"

definition store_demo_env :: StoreEnv where
  "store_demo_env = \<lparr>se_now = 9, se_order = rev, se_same = (\<lambda>_ _. Inr False), se_regex = (\<lambda>_. None), se_sim = (\<lambda>_ _. 0)\<rparr>"

theorem cleanup_correct_witness:
  "Store_Get 9 (cleanupExpired store_demo_env demo_store) [''n''] ''k'' = Inr None \<and>
   lookup_live 9 (put_data (cleanupExpired store_demo_env demo_store) ''n'' ''k'' fmempty) [''n''] ''k'' = Some fmempty"
  using cleanup_correct [of "[''n'']" "''k''" store_demo_env 9 demo_store fmempty]
  by (simp add: store_demo_env_def demo_store_def NewInMemoryStore_def nsKey_def expired_def fullKey_def Store_Get_def lookup_live_def checkTTL_def)

text \<open>
  An expired entry whose key contains a colon comes back: the removal forgets its expiry time but cannot
  take the full key apart and leaves the value.
\<close>

lemma cleanup_resurrects:
  assumes "CHR '':'' \<in> set key" "expired (se_now env) s (fullKey (nsKey ns) key)" "stored_doc s (nsKey ns) key = Some v"
    and "\<And>xs. mset (se_order env xs) = mset xs"
  shows "lookup_live t s ns key = None \<or> t \<le> se_now env" "lookup_live t (cleanupExpired env s) ns key = Some v"
proof -
  show "lookup_live t s ns key = None \<or> t \<le> se_now env"
    using assms(2) by (auto simp: lookup_live_stored checkTTL_def expired_def split: option.splits)
  have "split_on (CHR '':'') fk \<noteq> [nsKey ns, key]" for fk
    using assms(1) split_on_no_sep [of key "CHR '':''" fk] by auto
  then have "stored_doc (cleanupExpired env s) (nsKey ns) key = Some v"
    using assms(3) by (simp add: cleanupExpired_def cleanup_stored)
  moreover have "fullKey (nsKey ns) key \<in> set (se_order env (fmkeys (is_ttl s)))"
    using assms(2) permuted_keys(1) [OF assms(4)] by (auto simp: expired_def fmlookup_dom_iff split: option.splits)
  then have "fmlookup (is_ttl (cleanupExpired env s)) (fullKey (nsKey ns) key) = None"
    unfolding cleanupExpired_def cleanup_ttl using assms(2) by simp
  ultimately show "lookup_live t (cleanupExpired env s) ns key = Some v"
    by (simp add: lookup_live_stored checkTTL_def)
qed

text \<open>Until the removal runs, a value put after the expiry of its predecessor cannot be read.\<close>

lemma put_after_expiry_invisible:
  assumes "\<not> is_closed s" "fmlookup (is_ttl s) (fullKey (nsKey ns) key) = Some e" "e \<le> now" "Store_Put s ns key v = Inr s'"
  shows "Store_Get now s' ns key = Inr None"
  using assms by (auto simp: Store_Put_def Store_Get_def lookup_put checkTTL_def) (simp add: put_data_def)

subsection \<open>Searches\<close>

lemma collect_upto_pure:
  "collect_upto limit (\<lambda>x. Inr (f x)) xs acc =
     Inr (if 0 < limit \<and> limit \<le> int (length acc) then
            (case List.map_filter f xs of [] \<Rightarrow> acc | y # _ \<Rightarrow> acc @ [y])
          else acc @ (if 0 < limit then take (nat limit - length acc) else id) (List.map_filter f xs))"
proof (induction xs arbitrary: acc)
  case (Cons x xs)
  show ?case
  proof (cases "f x")
    case None
    with Cons show ?thesis by (simp add: map_filter_simps)
  next
    case (Some y)
    with Cons [of "acc @ [y]"] show ?thesis
      by (auto simp: map_filter_simps take_Cons' nat_le_iff Suc_diff_le not_le)
  qed
qed (simp add: map_filter_simps)

definition hits :: "StoreEnv \<Rightarrow> InMemoryStore \<Rightarrow> string list \<Rightarrow> string \<Rightarrow> string list \<Rightarrow> string list" where
  "hits env s ns query ks =
     filter (\<lambda>k. case lookup_live (se_now env) s ns k of Some v \<Rightarrow> query = [] \<or> matchQuery v query | None \<Rightarrow> False) ks"

lemma map_filter_map: "List.map_filter f (map g xs) = List.map_filter (\<lambda>x. f (g x)) xs"
  by (induction xs) (simp_all add: map_filter_simps split: option.split)

lemma map_filter_map_filter: "List.map_filter (\<lambda>x. if P x then Some (f x) else None) xs = map f (filter P xs)"
  by (induction xs) (simp_all add: map_filter_simps)

text \<open>
  A search returns the live documents of the namespace that match the query, each once, for every order in
  which the map is visited: all of them without a limit, and otherwise as many of them as the limit allows.
\<close>

theorem search_complete:
  assumes "\<not> is_closed s" "fmlookup (is_data s) (nsKey ns) = Some d" and "\<And>xs. mset (se_order env xs) = mset xs"
  shows "\<exists>rs. Store_Search env s ns query limit = Inr rs \<and>
    mset rs \<subseteq># mset (map (\<lambda>k. the (fmlookup d k)) (hits env s ns query (fmkeys d))) \<and>
    length rs = (if limit > 0 then min (nat limit) else id) (length (hits env s ns query (fmkeys d)))"
proof -
  let ?h = "hits env s ns query (se_order env (fmkeys d))" and ?v = "\<lambda>k. the (fmlookup d k)"
  let ?P = "\<lambda>k. checkTTL (se_now env) s (fullKey (nsKey ns) k) \<and> (query = [] \<or> matchQuery (?v k) query)"
  have "filter ?P (se_order env (fmkeys d)) = ?h"
    unfolding hits_def
  proof (rule filter_cong)
    fix k assume "k \<in> set (se_order env (fmkeys d))"
    then obtain v where "fmlookup d k = Some v"
      using permuted_keys(1) [OF assms(3)] by (auto simp: fmlookup_dom_iff)
    then show "?P k = (case lookup_live (se_now env) s ns k of Some v \<Rightarrow> query = [] \<or> matchQuery v query | None \<Rightarrow> False)"
      by (simp add: lookup_live_stored stored_doc_def assms(2))
  qed simp
  then have mf: "List.map_filter (\<lambda>p. if checkTTL (se_now env) s (fullKey (nsKey ns) (fst p)) \<and>
      (query = [] \<or> matchQuery (snd p) query) then Some (snd p) else None) (entries_of env d) = map ?v ?h"
    using map_filter_map_filter [of ?P ?v "se_order env (fmkeys d)"]
    by (simp add: entries_of_def map_filter_map cong: if_cong)
  have run: "Store_Search env s ns query limit = Inr ((if 0 < limit then take (nat limit) else id) (map ?v ?h))"
    using assms(1,2) by (simp add: Store_Search_def case_prod_unfold collect_upto_pure mf)
  have "mset ?h = mset (hits env s ns query (fmkeys d))" using assms(3) by (simp add: hits_def)
  then have ms: "mset (map ?v ?h) = mset (map ?v (hits env s ns query (fmkeys d)))" "length ?h = length (hits env s ns query (fmkeys d))"
    by (simp_all add: mset_map) (metis size_mset)
  have "mset (take n (map ?v ?h)) \<subseteq># mset (map ?v ?h)" for n
    by (metis append_take_drop_id mset_append mset_subset_eq_add_left)
  with run ms show ?thesis by (auto simp: min_def)
qed

theorem search_complete_witness:
  "\<exists>rs. Store_Search (store_demo_env\<lparr>se_now := 1\<rparr>) demo_store [''n''] [] 3 = Inr rs \<and> length rs = 1"
  using search_complete [of demo_store "[''n'']" "fmap_of_list [(''k'', fmempty)]" "store_demo_env\<lparr>se_now := 1\<rparr>" "[]" 3]
  by (auto simp: store_demo_env_def demo_store_def NewInMemoryStore_def nsKey_def hits_def lookup_live_def checkTTL_def fullKey_def
      fmkeys_def sorted_list_of_fset.rep_eq)

lemma collect_upto_length:
  "collect_upto limit f xs acc = Inr ys \<Longrightarrow> 0 < limit \<Longrightarrow> int (length acc) \<le> limit \<Longrightarrow>
   int (length ys) \<le> limit \<or> (int (length acc) = limit \<and> int (length ys) = limit + 1)"
proof (induction xs arbitrary: acc)
  case (Cons x xs)
  then show ?case by (fastforce split: sum.splits option.splits if_splits)
qed auto

lemma late_offset: "int (length xs) \<le> limit \<Longrightarrow> limit \<le> offset \<Longrightarrow> apply_offset offset xs = apply_offset 0 xs"
  by (simp add: apply_offset_def)

lemma late_offset_collect:
  assumes "0 < limit" "limit \<le> offset"
  shows "map_sum id (\<lambda>kvs. apply_offset offset (map g kvs)) (collect_upto limit f xs []) =
    map_sum id (\<lambda>kvs. apply_offset 0 (map g kvs)) (collect_upto limit f xs [])"
proof (cases "collect_upto limit f xs []")
  case (Inr ys)
  with collect_upto_length [OF Inr assms(1)] assms late_offset [of "map g ys"] show ?thesis by simp
qed simp

text \<open>
  Paging does not work: the limit cuts the results before the offset is applied, so a page that starts at or
  after the limit is the first page again.
\<close>

lemma search_paging_stuck:
  assumes "0 < limit" "limit \<le> offset"
  shows "SearchItems env s ns query fil limit offset = SearchItems env s ns query fil limit 0"
proof -
  have emb: "int (length (searchByEmbedding env s nk q limit)) \<le> limit" for nk q
    using assms(1) by (auto simp: searchByEmbedding_def Let_def min_def split: option.split)
  show ?thesis unfolding SearchItems_def late_offset [OF emb assms(2)] late_offset_collect [OF assms] ..
qed

subsection \<open>Batches\<close>

text \<open>The operations of a batch one by one, through the store's own interface.\<close>

fun single :: "StoreEnv \<Rightarrow> InMemoryStore \<Rightarrow> Op \<Rightarrow> gerror + (InMemoryStore \<times> Result)" where
  "single env s (GetOp ns key) =
     map_sum id (\<lambda>v. (s, result_val (case v of Some d \<Rightarrow> VMap d | None \<Rightarrow> VNil))) (Store_Get (se_now env) s ns key)"
| "single env s (PutOp ns key v ttl) = map_sum id (\<lambda>s'. (s', result_val VNil)) (PutItem (se_now env) s ns key v NoIndex ttl)"
| "single env s op = Inl (Errorf ''no single operation'')"

fun singles :: "StoreEnv \<Rightarrow> InMemoryStore \<Rightarrow> Op list \<Rightarrow> gerror + (InMemoryStore \<times> Result list)" where
  "singles env s [] = Inr (s, [])"
| "singles env s (op # ops) =
     (case single env s op of
        Inl e \<Rightarrow> Inl e
      | Inr (s', r) \<Rightarrow> map_sum id (map_prod id (\<lambda>rs. r # rs)) (singles env s' ops))"

fun get_or_put :: "Op \<Rightarrow> bool" where
  "get_or_put (GetOp _ _) = True"
| "get_or_put (PutOp _ _ _ _) = True"
| "get_or_put _ = False"

lemma batch_one_single:
  assumes "\<not> is_closed s" "get_or_put op"
  shows "\<exists>s' r. batch_one env s op = Some (s', Inr r) \<and> single env s op = Inr (s', r) \<and> \<not> is_closed s'"
  using assms
  by (cases op) (auto simp: batch_one_def Store_Get_def PutItem_def add_index_def set_expiry_def put_data_def split: option.split)

lemma batch_loop_singles:
  assumes "\<not> is_closed s" "\<forall>op\<in>set ops. get_or_put op"
  shows "\<exists>s' rs. batch_loop env s ops = Some (s', Inr rs) \<and> singles env s ops = Inr (s', rs) \<and> \<not> is_closed s'"
  using assms
proof (induction ops arbitrary: s)
  case (Cons op ops)
  then obtain s1 r where "batch_one env s op = Some (s1, Inr r)" "single env s op = Inr (s1, r)" "\<not> is_closed s1"
    using batch_one_single [of s op env] by auto
  then show ?case using Cons.IH [of s1] Cons.prems(2) by auto
qed simp

text \<open>
  A batch of gets and puts returns, and does exactly what the same operations do one after the other: the
  same results in the same order and the same final store.
\<close>

theorem batch_is_sequence:
  assumes "\<not> is_closed s" "\<forall>op\<in>set ops. get_or_put op"
  shows "\<exists>s' rs. Batch env s ops = Some (s', Inr rs) \<and> singles env s ops = Inr (s', rs)"
  using batch_loop_singles [OF assms, of env] assms(1) by (auto simp: Batch_def)

theorem batch_is_sequence_witness:
  "\<exists>s' rs. Batch store_demo_env demo_store [PutOp [''n''] ''j'' fmempty None, GetOp [''n''] ''j''] = Some (s', Inr rs) \<and>
     singles store_demo_env demo_store [PutOp [''n''] ''j'' fmempty None, GetOp [''n''] ''j''] = Inr (s', rs)"
  by (rule batch_is_sequence) (simp_all add: demo_store_def NewInMemoryStore_def)

text \<open>A batch that lists namespaces never returns: it waits for the lock it holds.\<close>

lemma batch_deadlocks:
  assumes "\<not> is_closed s" "\<forall>op\<in>set ops. get_or_put op"
  shows "Batch env s (ops @ ListNamespacesOp conds depth limit offset # ops') = None"
proof -
  have "batch_loop env s (ops @ ListNamespacesOp conds depth limit offset # ops') = None"
    using assms
  proof (induction ops arbitrary: s)
    case Nil
    show ?case by (simp add: batch_one_def)
  next
    case (Cons op ops)
    then obtain s1 r where "batch_one env s op = Some (s1, Inr r)" "\<not> is_closed s1"
      using batch_one_single [of s op env] by auto
    then show ?case using Cons.IH [of s1] Cons.prems(2) by simp
  qed
  with assms(1) show ?thesis by (simp add: Batch_def)
qed

subsection \<open>Namespaces\<close>

definition ns_prefixes :: "string \<Rightarrow> string list set" where
  "ns_prefixes nk = {p. p \<noteq> [] \<and> prefix p (split_on (CHR ''|'') nk)}"

definition split_map :: "(string, string list) fmap \<Rightarrow> bool" where
  "split_map m \<longleftrightarrow> (\<forall>k p. fmlookup m k = Some p \<longrightarrow> p = split_on (CHR ''|'') k)"

lemma split_join_take:
  assumes "0 < i" "i \<le> length (split_on c nk)"
  shows "split_on c (join_with c (take i (split_on c nk))) = take i (split_on c nk)"
  by (rule split_on_join_with) (use assms in \<open>auto dest!: in_set_takeD split_on_no_sep\<close>)

lemma add_prefixes_loop:
  assumes "split_map m" "\<forall>i\<in>set is. 0 < i \<and> i \<le> length (split_on (CHR ''|'') nk)"
  shows "split_map (foldl (\<lambda>m i. let p = take i (split_on (CHR ''|'') nk); k = join_with (CHR ''|'') p
            in case fmlookup m k of None \<Rightarrow> fmupd k p m | Some _ \<Rightarrow> m) m is) \<and>
    fset (fmran (foldl (\<lambda>m i. let p = take i (split_on (CHR ''|'') nk); k = join_with (CHR ''|'') p
            in case fmlookup m k of None \<Rightarrow> fmupd k p m | Some _ \<Rightarrow> m) m is)) =
      fset (fmran m) \<union> (\<lambda>i. take i (split_on (CHR ''|'') nk)) ` set is"
  using assms
proof (induction "is" arbitrary: m)
  case (Cons i "is")
  let ?p = "take i (split_on (CHR ''|'') nk)"
  let ?k = "join_with (CHR ''|'') ?p"
  let ?m = "case fmlookup m ?k of None \<Rightarrow> fmupd ?k ?p m | Some _ \<Rightarrow> m"
  have sp: "split_on (CHR ''|'') ?k = ?p" using Cons.prems(2) by (intro split_join_take) simp_all
  have ran: "fset (fmran ?m) = insert ?p (fset (fmran m))"
  proof (cases "fmlookup m ?k")
    case None
    then show ?thesis by (auto simp: fmlookup_ran_iff split: if_splits) (metis option.distinct(1))
  next
    case (Some q)
    then have "q = ?p" using Cons.prems(1) sp by (auto simp: split_map_def)
    with Some show ?thesis by (auto dest: fmranI)
  qed
  moreover have "split_map ?m" using Cons.prems(1) sp by (auto simp: split_map_def split: option.split)
  ultimately show ?case using Cons.IH [of ?m] Cons.prems(2) by (simp add: Let_def)
qed simp

lemma take_image:
  "(\<lambda>i. take i xs) ` {i. 0 < i \<and> i \<le> length xs} = {p. p \<noteq> [] \<and> prefix p xs}"
proof (intro equalityI subsetI)
  fix p assume "p \<in> {p. p \<noteq> [] \<and> prefix p xs}"
  then have "p = take (length p) xs" "0 < length p" "length p \<le> length xs"
    by (auto simp: prefix_def)
  then show "p \<in> (\<lambda>i. take i xs) ` {i. 0 < i \<and> i \<le> length xs}" by blast
qed (auto simp: take_is_prefix)

lemma add_prefixes_ran:
  assumes "split_map m"
  shows "split_map (add_prefixes m nk) \<and> fset (fmran (add_prefixes m nk)) = fset (fmran m) \<union> ns_prefixes nk"
proof -
  have "set [1..<Suc (length (split_on (CHR ''|'') nk))] = {i. 0 < i \<and> i \<le> length (split_on (CHR ''|'') nk)}" by auto
  then show ?thesis
    using add_prefixes_loop [OF assms, of "[1..<Suc (length (split_on (CHR ''|'') nk))]" nk]
    unfolding add_prefixes_def Let_def ns_prefixes_def take_image [symmetric] by auto
qed

lemma all_prefixes_ran:
  "split_map m \<Longrightarrow> split_map (foldl add_prefixes m nks) \<and>
   fset (fmran (foldl add_prefixes m nks)) = fset (fmran m) \<union> (\<Union>nk\<in>set nks. ns_prefixes nk)"
proof (induction nks arbitrary: m)
  case (Cons nk nks)
  with add_prefixes_ran [of m nk] show ?case by auto
qed simp

text \<open>
  The namespaces listed without conditions are the stored namespaces and all their ancestors, each
  once.
\<close>

theorem namespaces_exact:
  assumes "\<not> is_closed s" and "\<And>xs. mset (se_order env xs) = mset xs"
  shows "\<exists>nss. ListNamespaces env s [] None 0 0 = Inr nss \<and> distinct nss \<and>
    set nss = (\<Union>nk\<in>fset (fmdom (is_data s)). ns_prefixes nk)"
proof -
  let ?m = "foldl add_prefixes fmempty (se_order env (fmkeys (is_data s)))"
  let ?nss = "map (\<lambda>k. the (fmlookup ?m k)) (se_order env (fmkeys ?m))"
  have "split_map fmempty" by (simp add: split_map_def)
  then have sm: "split_map ?m" and ran: "fset (fmran ?m) = (\<Union>nk\<in>fset (fmdom (is_data s)). ns_prefixes nk)"
    using all_prefixes_ran [of fmempty "se_order env (fmkeys (is_data s))"] permuted_keys(1) [OF assms(2)] by simp_all
  have keys: "set (se_order env (fmkeys ?m)) = fset (fmdom ?m)" "distinct (se_order env (fmkeys ?m))"
    using permuted_keys [OF assms(2), of "fmkeys ?m"] by simp_all
  have look: "the (fmlookup ?m k) = split_on (CHR ''|'') k" if "k \<in> fset (fmdom ?m)" for k
    using that sm by (force simp: split_map_def fmlookup_dom_iff)
  have "inj_on (\<lambda>k. the (fmlookup ?m k)) (fset (fmdom ?m))"
    by (rule inj_onI) (metis look join_with_split_on)
  then have "distinct ?nss" by (simp add: distinct_map keys)
  moreover have "set ?nss = fset (fmran ?m)"
    by (force simp: keys fmlookup_ran_iff fmlookup_dom_iff)
  ultimately show ?thesis using assms(1) ran by (simp add: ListNamespaces_def Let_def)
qed

theorem namespaces_exact_witness:
  "\<exists>nss. ListNamespaces store_demo_env demo_store [] None 0 0 = Inr nss \<and> distinct nss \<and> set nss = {[''n'']}"
proof -
  have "ns_prefixes ''n'' = {[''n'']}"
    by (auto simp: ns_prefixes_def prefix_Cons)
  then show ?thesis
    using namespaces_exact [of demo_store store_demo_env]
    by (simp add: store_demo_env_def demo_store_def NewInMemoryStore_def)
qed

text \<open>Only the first condition of a known type counts; the others are not looked at.\<close>

lemma first_condition_decides:
  assumes "mc_MatchType c \<in> {''prefix'', ''suffix''}"
  shows "matchNamespaceConditions ns (c # cs) = matchNamespaceConditions ns [c]"
  using assms by auto

lemma fmkeys_none: "fmkeys fmempty = []"
  by simp

text \<open>An offset beyond the number of namespaces panics.\<close>

lemma namespaces_offset_panics:
  "\<not> is_closed s \<Longrightarrow> is_data s = fmempty \<Longrightarrow> (\<And>xs. mset (se_order env xs) = mset xs) \<Longrightarrow> 0 < offset \<Longrightarrow>
   ListNamespaces env s [] None limit offset = Inl (GoPanic ''slice bounds out of range'')"
  using permuted_keys(1) [of "se_order env" "[]"] by (simp add: ListNamespaces_def fmkeys_none del: fmkeys_Nil)

end
