(* ===== verification/Async_Exec.thy ===== *)
theory Async_Exec
  imports Retry
begin

text \<open>
  \<open>pregel/async.go\<close>: the executor with a pool of worker slots, the concurrency limiter, the priority executor
  and the event pipeline. The executor is a step relation: each task goes through the phases of its
  goroutine, and tasks, cancellation and new submissions interleave freely. What a task function may
  return is an argument.
\<close>

subsection \<open>The executor\<close>

text \<open>
  \<open>Acquired\<close>: the task holds a slot and has not yet looked at its context; \<open>Sent\<close>: the result is in the
  result channel, the slot not yet given back; \<open>Released\<close>: the deferred removal from the active tasks is still
  to run; \<open>Closed\<close>: the goroutine has ended and the result channel is closed.
\<close>

datatype phase =
    Queued
  | Acquired
  | Running
  | Sent "gerror + gval"
  | Released "gerror + gval"
  | Closed "gerror + gval"

record asyncTask =
  at_Batch :: bool
  at_Cancelled :: bool
  at_Phase :: phase

record AsyncExecutor =
  ax_maxConcurrency :: nat
  ax_workerPool :: nat
  ax_activeTasks :: "string fset"
  ax_tasks :: "(string, asyncTask) fmap"

definition NewAsyncExecutor :: "int \<Rightarrow> AsyncExecutor" where
  "NewAsyncExecutor maxConcurrency =
     (let n = (if maxConcurrency \<le> 0 then 10 else nat maxConcurrency)
      in \<lparr>ax_maxConcurrency = n, ax_workerPool = n, ax_activeTasks = {||}, ax_tasks = fmempty\<rparr>)"

definition set_phase :: "AsyncExecutor \<Rightarrow> string \<Rightarrow> asyncTask \<Rightarrow> phase \<Rightarrow> AsyncExecutor" where
  "set_phase e i t p = e\<lparr>ax_tasks := fmupd i (t\<lparr>at_Phase := p\<rparr>) (ax_tasks e)\<rparr>"

text \<open>\<open>Execute\<close> and, for each task of a batch, \<open>ExecuteBatch\<close> up to the start of the goroutine.\<close>

definition register_task :: "AsyncExecutor \<Rightarrow> string \<Rightarrow> bool \<Rightarrow> AsyncExecutor" where
  "register_task e i batch =
     e\<lparr>ax_activeTasks := finsert i (ax_activeTasks e),
       ax_tasks := fmupd i \<lparr>at_Batch = batch, at_Cancelled = False, at_Phase = Queued\<rparr> (ax_tasks e)\<rparr>"

text \<open>
  \<open>Cancel\<close> calls the cancel functions of the active tasks and empties their table. \<open>Execute\<close> gives every
  task a cancel function of its context. \<open>ExecuteBatch\<close> keeps the one the caller put into the task, if any;
  it can cancel the context of the batch only as the caller can at any time, which is the separate step
  \<open>cancel_ctx\<close> below, so \<open>Cancel\<close> itself leaves the tasks of a batch as they are.
\<close>

definition Executor_Cancel :: "AsyncExecutor \<Rightarrow> AsyncExecutor" where
  "Executor_Cancel e =
     e\<lparr>ax_tasks := fmmap_keys (\<lambda>i t. if i |\<in>| ax_activeTasks e \<and> \<not> at_Batch t then t\<lparr>at_Cancelled := True\<rparr> else t) (ax_tasks e),
       ax_activeTasks := {||}\<rparr>"

definition GetActiveTaskCount :: "AsyncExecutor \<Rightarrow> nat" where
  "GetActiveTaskCount e = fcard (ax_activeTasks e)"

text \<open>One look of \<open>Wait\<close> at the executor: whether it returns.\<close>

definition Wait_returns :: "AsyncExecutor \<Rightarrow> bool" where
  "Wait_returns e \<longleftrightarrow> GetActiveTaskCount e = 0"

text \<open>The error of an ended context; it stands for both errors a context can have, cancelled and deadline exceeded.\<close>

definition ctx_err :: gerror where "ctx_err = ClientError ''context canceled''"

text \<open>Steps of the goroutine of task \<open>i\<close>; a batch task starts without looking at its context.\<close>

inductive task_step :: "(string \<Rightarrow> (gerror + gval) set) \<Rightarrow> string \<Rightarrow> AsyncExecutor \<Rightarrow> AsyncExecutor \<Rightarrow> bool"
  for fn :: "string \<Rightarrow> (gerror + gval) set" and i :: string where
  acquire: "fmlookup (ax_tasks e) i = Some t \<Longrightarrow> at_Phase t = Queued \<Longrightarrow> ax_workerPool e > 0 \<Longrightarrow>
    task_step fn i e (set_phase (e\<lparr>ax_workerPool := ax_workerPool e - 1\<rparr>) i t (if at_Batch t then Running else Acquired))"
| give_up: "fmlookup (ax_tasks e) i = Some t \<Longrightarrow> at_Phase t = Queued \<Longrightarrow> at_Cancelled t \<Longrightarrow>
    task_step fn i e (set_phase e i t (Released (Inl ctx_err)))"
| begin_run: "fmlookup (ax_tasks e) i = Some t \<Longrightarrow> at_Phase t = Acquired \<Longrightarrow> \<not> at_Cancelled t \<Longrightarrow>
    task_step fn i e (set_phase e i t Running)"
| stop_early: "fmlookup (ax_tasks e) i = Some t \<Longrightarrow> at_Phase t = Acquired \<Longrightarrow> at_Cancelled t \<Longrightarrow>
    task_step fn i e (set_phase e i t (Sent (Inl ctx_err)))"
| run_done: "fmlookup (ax_tasks e) i = Some t \<Longrightarrow> at_Phase t = Running \<Longrightarrow> r \<in> fn i \<Longrightarrow>
    task_step fn i e (set_phase e i t (Sent r))"
| give_back: "fmlookup (ax_tasks e) i = Some t \<Longrightarrow> at_Phase t = Sent r \<Longrightarrow>
    task_step fn i e (set_phase (e\<lparr>ax_workerPool := ax_workerPool e + 1\<rparr>) i t (Released r))"
| deregister: "fmlookup (ax_tasks e) i = Some t \<Longrightarrow> at_Phase t = Released r \<Longrightarrow>
    task_step fn i e (set_phase (e\<lparr>ax_activeTasks := ax_activeTasks e |-| {|i|}\<rparr>) i t (Closed r))"

inductive exec_step :: "(string \<Rightarrow> (gerror + gval) set) \<Rightarrow> AsyncExecutor \<Rightarrow> AsyncExecutor \<Rightarrow> bool"
  for fn :: "string \<Rightarrow> (gerror + gval) set" where
  submit: "fmlookup (ax_tasks e) i = None \<Longrightarrow> exec_step fn e (register_task e i batch)"
| task: "task_step fn i e e' \<Longrightarrow> exec_step fn e e'"
| cancel_all: "exec_step fn e (Executor_Cancel e)"
| cancel_ctx: "fmlookup (ax_tasks e) i = Some t \<Longrightarrow>
    exec_step fn e (e\<lparr>ax_tasks := fmupd i (t\<lparr>at_Cancelled := True\<rparr>) (ax_tasks e)\<rparr>)"

inductive exec_reach :: "(string \<Rightarrow> (gerror + gval) set) \<Rightarrow> int \<Rightarrow> AsyncExecutor \<Rightarrow> bool"
  for fn :: "string \<Rightarrow> (gerror + gval) set" and n :: int where
  init: "exec_reach fn n (NewAsyncExecutor n)"
| step: "exec_reach fn n e \<Longrightarrow> exec_step fn e e' \<Longrightarrow> exec_reach fn n e'"

subsection \<open>Slots\<close>

primrec holds :: "phase \<Rightarrow> bool" where
  "holds Queued = False"
| "holds Acquired = True"
| "holds Running = True"
| "holds (Sent r) = True"
| "holds (Released r) = False"
| "holds (Closed r) = False"

definition in_phase :: "(phase \<Rightarrow> bool) \<Rightarrow> AsyncExecutor \<Rightarrow> string set" where
  "in_phase P e = {i. \<exists>t. fmlookup (ax_tasks e) i = Some t \<and> P (at_Phase t)}"

lemma finite_in_phase [simp]: "finite (in_phase P e)"
  by (rule finite_subset [of _ "fset (fmdom (ax_tasks e))"]) (auto simp: in_phase_def fmlookup_dom_iff)

lemma set_phase_fields [simp]:
  "ax_maxConcurrency (set_phase e i t p) = ax_maxConcurrency e" "ax_workerPool (set_phase e i t p) = ax_workerPool e"
  "ax_activeTasks (set_phase e i t p) = ax_activeTasks e"
  "fmlookup (ax_tasks (set_phase e i t p)) j = (if i = j then Some (t\<lparr>at_Phase := p\<rparr>) else fmlookup (ax_tasks e) j)"
  by (simp_all add: set_phase_def)

lemma in_phase_cong: "ax_tasks e = ax_tasks e' \<Longrightarrow> in_phase P e = in_phase P e'"
  by (simp add: in_phase_def)

lemma in_phase_set:
  "in_phase P (set_phase e i t p) = (if P p then insert i (in_phase P e) else in_phase P e - {i})"
  by (auto simp: in_phase_def)

lemma holders_set:
  assumes "fmlookup (ax_tasks e) i = Some t"
  shows "card (in_phase holds (set_phase e i t p)) + (if holds (at_Phase t) then 1 else 0) =
    card (in_phase holds e) + (if holds p then 1 else 0)"
proof -
  have "i \<in> in_phase holds e \<longleftrightarrow> holds (at_Phase t)" using assms by (simp add: in_phase_def)
  moreover have "i \<in> in_phase holds e \<Longrightarrow> 0 < card (in_phase holds e)" by (auto simp: card_gt_0_iff)
  ultimately show ?thesis by (auto simp: in_phase_set card_insert_if insert_absorb)
qed

definition balanced :: "AsyncExecutor \<Rightarrow> bool" where
  "balanced e \<longleftrightarrow> ax_workerPool e + card (in_phase holds e) = ax_maxConcurrency e"

lemma balanced_task_step: "task_step fn i e e' \<Longrightarrow> balanced e \<Longrightarrow> balanced e'"
proof (induction rule: task_step.induct)
  case (acquire e t)
  let ?e = "e\<lparr>ax_workerPool := ax_workerPool e - 1\<rparr>"
  have "card (in_phase holds ?e) = card (in_phase holds e)" by (simp add: in_phase_def)
  with acquire holders_set [of ?e i t] show ?case by (auto simp: balanced_def)
next
  case (give_back e t r)
  let ?e = "e\<lparr>ax_workerPool := ax_workerPool e + 1\<rparr>"
  have "card (in_phase holds ?e) = card (in_phase holds e)" by (simp add: in_phase_def)
  with give_back holders_set [of ?e i t "Released r"] show ?case by (simp add: balanced_def)
next
  case (deregister e t r)
  let ?e = "e\<lparr>ax_activeTasks := ax_activeTasks e |-| {|i|}\<rparr>"
  have "card (in_phase holds ?e) = card (in_phase holds e)" by (simp add: in_phase_def)
  with deregister holders_set [of ?e i t "Closed r"] show ?case by (simp add: balanced_def)
next
  case (give_up e t)
  with holders_set [of e i t "Released (Inl ctx_err)"] show ?case by (simp add: balanced_def)
next
  case (begin_run e t)
  with holders_set [of e i t Running] show ?case by (simp add: balanced_def)
next
  case (stop_early e t)
  with holders_set [of e i t "Sent (Inl ctx_err)"] show ?case by (simp add: balanced_def)
next
  case (run_done e t r)
  with holders_set [of e i t "Sent r"] show ?case by (simp add: balanced_def)
qed

lemma lookup_Cancel:
  "fmlookup (ax_tasks (Executor_Cancel e)) i =
     map_option (\<lambda>t. t\<lparr>at_Cancelled := at_Cancelled t \<or> (i |\<in>| ax_activeTasks e \<and> \<not> at_Batch t)\<rparr>) (fmlookup (ax_tasks e) i)"
  by (cases "fmlookup (ax_tasks e) i") (auto simp: Executor_Cancel_def)

lemma in_phase_Cancel [simp]: "in_phase P (Executor_Cancel e) = in_phase P e"
  by (auto simp: in_phase_def lookup_Cancel)

lemma in_phase_ctx:
  "fmlookup (ax_tasks e) i = Some t \<Longrightarrow>
   in_phase P (e\<lparr>ax_tasks := fmupd i (t\<lparr>at_Cancelled := True\<rparr>) (ax_tasks e)\<rparr>) = in_phase P e"
  by (auto simp: in_phase_def)

lemma in_phase_register:
  "fmlookup (ax_tasks e) i = None \<Longrightarrow> \<not> P Queued \<Longrightarrow> in_phase P (register_task e i b) = in_phase P e"
  by (auto simp: in_phase_def register_task_def)

lemma balanced_step: "exec_step fn e e' \<Longrightarrow> balanced e \<Longrightarrow> balanced e'"
proof (induction rule: exec_step.induct)
  case (submit e i batch)
  then show ?case using in_phase_register [of e i holds batch] by (simp add: balanced_def) (simp add: register_task_def)
next
  case (cancel_all e)
  then show ?case by (simp add: balanced_def) (simp add: Executor_Cancel_def)
next
  case (cancel_ctx e i t)
  then show ?case by (simp add: balanced_def in_phase_ctx)
qed (rule balanced_task_step)

lemma max_task_step: "task_step fn i e e' \<Longrightarrow> ax_maxConcurrency e' = ax_maxConcurrency e"
  by (induction rule: task_step.induct) simp_all

lemma max_step: "exec_step fn e e' \<Longrightarrow> ax_maxConcurrency e' = ax_maxConcurrency e"
  by (induction rule: exec_step.induct) (auto simp: register_task_def Executor_Cancel_def max_task_step)

lemma reach_balanced:
  "exec_reach fn n e \<Longrightarrow> balanced e \<and> ax_maxConcurrency e = (if n \<le> 0 then 10 else nat n)"
proof (induction rule: exec_reach.induct)
  case init
  show ?case by (simp add: balanced_def NewAsyncExecutor_def in_phase_def Let_def)
next
  case (step e e')
  then show ?case using balanced_step max_step by metis
qed

subsection \<open>Results\<close>

definition result_of :: "phase \<Rightarrow> (gerror + gval) option" where
  "result_of p = (case p of Sent r \<Rightarrow> Some r | Released r \<Rightarrow> Some r | Closed r \<Rightarrow> Some r | _ \<Rightarrow> None)"

definition proper :: "(string \<Rightarrow> (gerror + gval) set) \<Rightarrow> string \<Rightarrow> asyncTask \<Rightarrow> bool" where
  "proper fn i t \<longleftrightarrow> (\<forall>r. result_of (at_Phase t) = Some r \<longrightarrow> r \<in> fn i \<or> (at_Cancelled t \<and> r = Inl ctx_err))"

definition all_proper :: "(string \<Rightarrow> (gerror + gval) set) \<Rightarrow> AsyncExecutor \<Rightarrow> bool" where
  "all_proper fn e \<longleftrightarrow> (\<forall>i t. fmlookup (ax_tasks e) i = Some t \<longrightarrow> proper fn i t)"

lemma proper_task_step: "task_step fn i e e' \<Longrightarrow> all_proper fn e \<Longrightarrow> all_proper fn e'"
  by (induction rule: task_step.induct) (fastforce simp: all_proper_def proper_def result_of_def)+

lemma proper_step: "exec_step fn e e' \<Longrightarrow> all_proper fn e \<Longrightarrow> all_proper fn e'"
proof (induction rule: exec_step.induct)
  case (submit e i batch)
  then show ?case by (auto simp: all_proper_def proper_def register_task_def result_of_def)
next
  case (cancel_all e)
  then show ?case unfolding all_proper_def proper_def lookup_Cancel by fastforce
next
  case (cancel_ctx e i t)
  then show ?case by (auto simp: all_proper_def proper_def)
qed (rule proper_task_step)

text \<open>
  C33: under every interleaving of submissions, batches, cancellations and goroutine steps, the number of
  tasks running at the same time never exceeds the configured concurrency, no slot is lost or duplicated,
  and every result delivered is a result of the task's own function, or the context error of a task that was
  cancelled.
\<close>

theorem executor_safe:
  assumes "exec_reach fn n e"
  shows "card (in_phase (\<lambda>p. p = Running) e) \<le> (if n \<le> 0 then 10 else nat n) \<and>
    ax_workerPool e + card (in_phase holds e) = (if n \<le> 0 then 10 else nat n) \<and>
    (\<forall>i t r. fmlookup (ax_tasks e) i = Some t \<and> result_of (at_Phase t) = Some r \<longrightarrow>
       r \<in> fn i \<or> (at_Cancelled t \<and> r = Inl ctx_err))"
proof -
  have b: "ax_workerPool e + card (in_phase holds e) = (if n \<le> 0 then 10 else nat n)"
    using reach_balanced [OF assms] by (simp add: balanced_def)
  have "in_phase (\<lambda>p. p = Running) e \<subseteq> in_phase holds e" by (auto simp: in_phase_def)
  then have "card (in_phase (\<lambda>p. p = Running) e) \<le> card (in_phase holds e)" by (rule card_mono [rotated]) simp
  moreover have "all_proper fn e"
    using assms
  proof (induction rule: exec_reach.induct)
    case init
    show ?case by (simp add: all_proper_def NewAsyncExecutor_def Let_def)
  qed (rule proper_step)
  ultimately show ?thesis using b by (auto simp: all_proper_def proper_def)
qed

definition demo_outcomes :: "string \<Rightarrow> (gerror + gval) set" where
  "demo_outcomes i = {Inr (VStr i)}"

definition demo_exec :: AsyncExecutor where
  "demo_exec = \<lparr>ax_maxConcurrency = 1, ax_workerPool = 0, ax_activeTasks = {|''a''|},
     ax_tasks = fmap_of_list [(''a'', \<lparr>at_Batch = True, at_Cancelled = False, at_Phase = Running\<rparr>)]\<rparr>"

lemma demo_exec_reach: "exec_reach demo_outcomes 1 demo_exec"
proof -
  let ?e1 = "register_task (NewAsyncExecutor 1) ''a'' True"
  have "exec_reach demo_outcomes 1 ?e1"
    by (rule exec_reach.step [OF exec_reach.init exec_step.submit]) (simp add: NewAsyncExecutor_def Let_def)
  moreover have "task_step demo_outcomes ''a'' ?e1 demo_exec"
    using task_step.acquire [of ?e1 "''a''" "\<lparr>at_Batch = True, at_Cancelled = False, at_Phase = Queued\<rparr>" demo_outcomes]
    by (simp add: register_task_def NewAsyncExecutor_def Let_def set_phase_def demo_exec_def)
  ultimately show ?thesis by (rule exec_reach.step [OF _ exec_step.task])
qed

theorem executor_safe_witness:
  "exec_reach demo_outcomes 1 demo_exec \<and> in_phase (\<lambda>p. p = Running) demo_exec = {''a''} \<and>
   card (in_phase (\<lambda>p. p = Running) demo_exec) \<le> 1"
proof -
  have "in_phase (\<lambda>p. p = Running) demo_exec = {''a''}"
    by (auto simp: in_phase_def demo_exec_def split: if_splits)
  moreover have "card (in_phase (\<lambda>p. p = Running) demo_exec) \<le> 1"
    using executor_safe [OF demo_exec_reach] by simp
  ultimately show ?thesis using demo_exec_reach by simp
qed

subsection \<open>Cancellation\<close>

definition stopped :: "AsyncExecutor \<Rightarrow> string \<Rightarrow> bool" where
  "stopped e i \<longleftrightarrow> (\<exists>t. fmlookup (ax_tasks e) i = Some t \<and> at_Cancelled t \<and> \<not> at_Batch t \<and>
     (at_Phase t \<in> {Queued, Acquired} \<or> result_of (at_Phase t) = Some (Inl ctx_err)))"

lemma stopped_task_step: "task_step fn j e e' \<Longrightarrow> stopped e i \<Longrightarrow> stopped e' i"
  by (induction rule: task_step.induct) (auto simp: stopped_def result_of_def)

lemma stopped_step: "exec_step fn e e' \<Longrightarrow> stopped e i \<Longrightarrow> stopped e' i"
proof (induction rule: exec_step.induct)
  case (submit e j batch)
  then show ?case by (auto simp: stopped_def register_task_def)
next
  case (cancel_all e)
  then show ?case by (auto simp: stopped_def lookup_Cancel)
next
  case (cancel_ctx e j t)
  then show ?case by (auto simp: stopped_def)
qed (rule stopped_task_step)

text \<open>
  Cancelling the executor is effective for tasks that wait: a task submitted on its own that is waiting for a
  slot, or has one but has not started, when everything is cancelled never runs its function, and the only
  result it can deliver is the context error.
\<close>

theorem cancelled_never_runs:
  assumes "fmlookup (ax_tasks e) i = Some t" "at_Phase t \<in> {Queued, Acquired}" "\<not> at_Batch t" "i |\<in>| ax_activeTasks e"
    and "(exec_step fn)\<^sup>*\<^sup>* (Executor_Cancel e) e'"
  shows "\<exists>t'. fmlookup (ax_tasks e') i = Some t' \<and> at_Phase t' \<noteq> Running \<and>
    (\<forall>r. result_of (at_Phase t') = Some r \<longrightarrow> r = Inl ctx_err)"
proof -
  have "stopped (Executor_Cancel e) i" using assms(1-4) by (auto simp: stopped_def lookup_Cancel)
  with assms(5) have "stopped e' i" by (induction rule: rtranclp_induct) (auto intro: stopped_step)
  then show ?thesis by (auto simp: stopped_def result_of_def)
qed

definition demo_waiting :: AsyncExecutor where
  "demo_waiting = register_task demo_exec ''b'' False"

theorem cancelled_never_runs_witness:
  "\<exists>t'. fmlookup (ax_tasks (Executor_Cancel demo_waiting)) ''b'' = Some t' \<and> at_Phase t' \<noteq> Running \<and>
    (\<forall>r. result_of (at_Phase t') = Some r \<longrightarrow> r = Inl ctx_err)"
  by (rule cancelled_never_runs [of demo_waiting _ "\<lparr>at_Batch = False, at_Cancelled = False, at_Phase = Queued\<rparr>" demo_outcomes])
    (simp_all add: demo_waiting_def register_task_def demo_exec_def)

text \<open>
  Waiting after a cancellation returns at once, although tasks of batches and tasks that had started still
  run: cancelling empties the table that the wait looks at.
\<close>

lemma wait_returns_while_running:
  "Wait_returns (Executor_Cancel e) \<and> in_phase (\<lambda>p. p = Running) (Executor_Cancel e) = in_phase (\<lambda>p. p = Running) e"
  by (simp add: Wait_returns_def GetActiveTaskCount_def) (simp add: Executor_Cancel_def)

subsection \<open>Progress\<close>

primrec rank :: "phase \<Rightarrow> nat" where
  "rank Queued = 5"
| "rank Acquired = 4"
| "rank Running = 3"
| "rank (Sent r) = 2"
| "rank (Released r) = 1"
| "rank (Closed r) = 0"

definition work_left :: "AsyncExecutor \<Rightarrow> nat" where
  "work_left e = (\<Sum>i\<in>fset (fmdom (ax_tasks e)). rank (at_Phase (the (fmlookup (ax_tasks e) i))))"

lemma work_left_set:
  assumes "fmlookup (ax_tasks e) i = Some t"
  shows "work_left (set_phase e i t p) + rank (at_Phase t) = work_left e + rank p"
proof -
  let ?D = "fset (fmdom (ax_tasks e))" and ?r = "\<lambda>e j. rank (at_Phase (the (fmlookup (ax_tasks e) j)))"
  have D: "i \<in> ?D" "finite ?D" using assms by (auto simp: fmlookup_dom_iff)
  have "insert i ?D = ?D" using D(1) by blast
  then have "work_left (set_phase e i t p) = (\<Sum>j\<in>?D. ?r (set_phase e i t p) j)"
    by (simp add: work_left_def set_phase_def)
  also have "\<dots> = rank p + (\<Sum>j\<in>?D - {i}. ?r e j)"
    unfolding sum.remove [OF D(2,1)] by (intro arg_cong2 [where f = plus] sum.cong) auto
  finally have "work_left (set_phase e i t p) = rank p + (\<Sum>j\<in>?D - {i}. ?r e j)" .
  moreover have "work_left e = rank (at_Phase t) + (\<Sum>j\<in>?D - {i}. ?r e j)"
    unfolding work_left_def sum.remove [OF D(2,1)] using assms by simp
  ultimately show ?thesis by simp
qed

lemma work_left_fields [simp]:
  "work_left (e\<lparr>ax_workerPool := k\<rparr>) = work_left e" "work_left (e\<lparr>ax_activeTasks := a\<rparr>) = work_left e"
  by (simp_all add: work_left_def)

lemma work_decreases: "task_step fn i e e' \<Longrightarrow> work_left e' < work_left e"
proof (induction rule: task_step.induct)
  case (acquire e t)
  with work_left_set [of "e\<lparr>ax_workerPool := ax_workerPool e - 1\<rparr>" i t "if at_Batch t then Running else Acquired"]
  show ?case by (simp split: if_splits)
next
  case (give_up e t)
  with work_left_set [of e i t "Released (Inl ctx_err)"] show ?case by simp
next
  case (begin_run e t)
  with work_left_set [of e i t Running] show ?case by simp
next
  case (stop_early e t)
  with work_left_set [of e i t "Sent (Inl ctx_err)"] show ?case by simp
next
  case (run_done e t r)
  with work_left_set [of e i t "Sent r"] show ?case by simp
next
  case (give_back e t r)
  with work_left_set [of "e\<lparr>ax_workerPool := ax_workerPool e + 1\<rparr>" i t "Released r"] show ?case by simp
next
  case (deregister e t r)
  with work_left_set [of "e\<lparr>ax_activeTasks := ax_activeTasks e |-| {|i|}\<rparr>" i t "Closed r"] show ?case by simp
qed

definition all_closed :: "AsyncExecutor \<Rightarrow> bool" where
  "all_closed e \<longleftrightarrow> (\<forall>i t. fmlookup (ax_tasks e) i = Some t \<longrightarrow> (\<exists>r. at_Phase t = Closed r))"

lemma task_can_step:
  assumes "fmlookup (ax_tasks e) i = Some t" "at_Phase t \<noteq> Queued" "\<And>r. at_Phase t \<noteq> Closed r" "fn i \<noteq> {}"
  shows "\<exists>e'. task_step fn i e e'"
proof (cases "at_Phase t")
  case Acquired
  then show ?thesis using assms(1) task_step.begin_run task_step.stop_early by (cases "at_Cancelled t") blast+
next
  case Running
  then show ?thesis using assms(1,4) task_step.run_done by blast
qed (use assms task_step.give_back task_step.deregister in \<open>blast+\<close>)

lemma executor_progress:
  assumes "balanced e" "0 < ax_maxConcurrency e" "\<And>i. fn i \<noteq> {}" "\<not> all_closed e"
  shows "\<exists>i e'. task_step fn i e e'"
proof (cases "\<exists>i t. fmlookup (ax_tasks e) i = Some t \<and> at_Phase t \<noteq> Queued \<and> (\<forall>r. at_Phase t \<noteq> Closed r)")
  case True
  then show ?thesis using task_can_step assms(3) by metis
next
  case False
  then have "in_phase holds e = {}"
    by (auto simp: in_phase_def) (metis holds.simps(1,6))
  with assms(1,2) have free: "ax_workerPool e > 0" by (simp add: balanced_def)
  obtain i t where "fmlookup (ax_tasks e) i = Some t" "at_Phase t = Queued"
    using assms(4) False unfolding all_closed_def by blast
  then show ?thesis using task_step.acquire [OF _ _ free] by blast
qed

text \<open>
  C34: the executor drains: if task functions return, then from every reachable state the goroutines take at
  most five steps per task, whatever their order, and they can only come to rest when every task has ended,
  delivered its result and closed its channel.
\<close>

theorem executor_drains:
  assumes "exec_reach fn n e" and "\<And>i. fn i \<noteq> {}" and "((\<lambda>a b. \<exists>i. task_step fn i a b) ^^ k) e e'"
  shows "k \<le> 5 * fcard (fmdom (ax_tasks e)) \<and> (all_closed e' \<or> (\<exists>i e''. task_step fn i e' e''))"
proof -
  have run: "work_left e' + k \<le> work_left e \<and> exec_reach fn n e'"
    using assms(3)
  proof (induction k arbitrary: e')
    case 0
    with assms(1) show ?case by simp
  next
    case (Suc k)
    then obtain d i where d: "work_left d + k \<le> work_left e \<and> exec_reach fn n d" and s: "task_step fn i d e'"
      by (auto simp: relpowp_Suc_right OO_def)
    with work_decreases [OF s] show ?case
      by (auto intro: exec_reach.step exec_step.task)
  qed
  have "rank p \<le> 5" for p by (cases p) auto
  then have "work_left e \<le> 5 * fcard (fmdom (ax_tasks e))"
    unfolding work_left_def by (intro order_trans [OF sum_bounded_above [where K = 5]]) (simp_all add: fcard.rep_eq)
  moreover have "all_closed e' \<or> (\<exists>i e''. task_step fn i e' e'')"
    using executor_progress [of e' fn] reach_balanced [of fn n e'] run assms(2) by (auto split: if_splits)
  ultimately show ?thesis using run by auto
qed

theorem executor_drains_witness:
  "exec_reach demo_outcomes 1 demo_exec \<and> (all_closed demo_exec \<or> (\<exists>i e''. task_step demo_outcomes i demo_exec e''))"
  using executor_drains [OF demo_exec_reach, of 0 demo_exec] demo_exec_reach by (simp add: demo_outcomes_def)

end
