(* ===== verification/Limiters.thy ===== *)
theory Limiters
  imports Async_Exec
begin

text \<open>
  The rest of \<open>pregel/async.go\<close>: the concurrency limiter for single nodes, the priority executor and the
  event pipeline. Buffered channels are lists with their capacity; a receive or send that would wait is
  \<open>None\<close>.
\<close>

subsection \<open>Concurrency limiter\<close>

text \<open>For each node the capacity of its channel and the slots in it.\<close>

type_synonym ConcurrencyLimiter = "(string, nat \<times> nat) fmap"

definition NewConcurrencyLimiter :: ConcurrencyLimiter where
  "NewConcurrencyLimiter = fmempty"

definition SetLimit :: "ConcurrencyLimiter \<Rightarrow> string \<Rightarrow> int \<Rightarrow> gerror + ConcurrencyLimiter" where
  "SetLimit l node limit =
     (if limit < 0 then Inl (GoPanic ''makechan: size out of range'')
      else Inr (fmupd node (nat limit, nat limit) l))"

definition Acquire :: "ConcurrencyLimiter \<Rightarrow> string \<Rightarrow> ConcurrencyLimiter option" where
  "Acquire l node =
     (case fmlookup l node of
        None \<Rightarrow> Some l
      | Some (cap, n) \<Rightarrow> if n > 0 then Some (fmupd node (cap, n - 1) l) else None)"

definition Release :: "ConcurrencyLimiter \<Rightarrow> string \<Rightarrow> ConcurrencyLimiter" where
  "Release l node =
     (case fmlookup l node of
        None \<Rightarrow> l
      | Some (cap, n) \<Rightarrow> if n < cap then fmupd node (cap, n + 1) l else l)"

text \<open>
  Uses of the limiter by clients that give back only what they took: the limiter with the number of slots
  held for each node.
\<close>

inductive limiter_use :: "ConcurrencyLimiter \<times> (string \<Rightarrow> nat) \<Rightarrow> ConcurrencyLimiter \<times> (string \<Rightarrow> nat) \<Rightarrow> bool" where
  take_slot: "Acquire l node = Some l' \<Longrightarrow> limiter_use (l, h) (l', h(node := h node + 1))"
| put_slot: "0 < h node \<Longrightarrow> limiter_use (l, h) (Release l node, h(node := h node - 1))"

subsection \<open>Priority executor\<close>

record PriorityTask =
  pt_Func :: "gerror + gval"
  pt_Priority :: int

record PriorityExecutor =
  pe_tasks :: "PriorityTask list"
  pe_bufferSize :: nat

definition NewPriorityExecutor :: "int \<Rightarrow> gerror + PriorityExecutor" where
  "NewPriorityExecutor bufferSize =
     (if bufferSize < 0 then Inl (GoPanic ''makechan: size out of range'')
      else Inr \<lparr>pe_tasks = [], pe_bufferSize = nat bufferSize\<rparr>)"

definition Submit :: "PriorityExecutor \<Rightarrow> PriorityTask \<Rightarrow> gerror + PriorityExecutor" where
  "Submit e task =
     (if length (pe_tasks e) < pe_bufferSize e then Inr (e\<lparr>pe_tasks := pe_tasks e @ [task]\<rparr>)
      else Inl (Errorf ''task queue full''))"

text \<open>One turn of the loop of \<open>Execute\<close>: the next task is received and run.\<close>

definition Execute_next :: "PriorityExecutor \<Rightarrow> (PriorityExecutor \<times> (gerror + gval) \<times> int) option" where
  "Execute_next e =
     (case pe_tasks e of
        [] \<Rightarrow> None
      | t # ts \<Rightarrow> Some (e\<lparr>pe_tasks := ts\<rparr>, pt_Func t, pt_Priority t))"

subsection \<open>Event pipeline\<close>

record AsyncPipeline =
  ap_executor :: AsyncExecutor
  ap_events :: "gval list"
  ap_errors :: "gerror list"
  ap_running :: bool

definition NewAsyncPipeline :: "int \<Rightarrow> AsyncPipeline" where
  "NewAsyncPipeline maxConcurrency =
     \<lparr>ap_executor = NewAsyncExecutor maxConcurrency, ap_events = [], ap_errors = [], ap_running = False\<rparr>"

definition Pipeline_Start :: "AsyncPipeline \<Rightarrow> AsyncPipeline" where
  "Pipeline_Start p = (if ap_running p then p else p\<lparr>ap_events := [], ap_errors := [], ap_running := True\<rparr>)"

definition Pipeline_Stop :: "AsyncPipeline \<Rightarrow> AsyncPipeline" where
  "Pipeline_Stop p = (if \<not> ap_running p then p else p\<lparr>ap_executor := Executor_Cancel (ap_executor p), ap_running := False\<rparr>)"

definition EmitEvent :: "AsyncPipeline \<Rightarrow> gval \<Rightarrow> AsyncPipeline" where
  "EmitEvent p ev = (if ap_running p \<and> length (ap_events p) < 100 then p\<lparr>ap_events := ap_events p @ [ev]\<rparr> else p)"

definition EmitError :: "AsyncPipeline \<Rightarrow> gerror \<Rightarrow> AsyncPipeline" where
  "EmitError p err = (if ap_running p \<and> length (ap_errors p) < 10 then p\<lparr>ap_errors := ap_errors p @ [err]\<rparr> else p)"

definition IsRunning :: "AsyncPipeline \<Rightarrow> bool" where
  "IsRunning p = ap_running p"

subsection \<open>Properties\<close>

definition limiter_inv :: "string \<Rightarrow> nat \<Rightarrow> ConcurrencyLimiter \<times> (string \<Rightarrow> nat) \<Rightarrow> bool" where
  "limiter_inv node c s \<longleftrightarrow> (\<exists>n. fmlookup (fst s) node = Some (c, n) \<and> n + snd s node = c)"

lemma limiter_inv_use: "limiter_use s s' \<Longrightarrow> limiter_inv node c s \<Longrightarrow> limiter_inv node c s'"
  by (induction rule: limiter_use.induct)
    (auto simp: limiter_inv_def Acquire_def Release_def split: option.splits if_splits)

text \<open>
  Once a limit is set for a node and while it is not changed, the node never has more slots in use than
  the limit, whatever clients of this and other nodes do, and a slot is available whenever fewer are in
  use.
\<close>

theorem limiter_bounded:
  assumes "SetLimit l node limit = Inr l'" and "limiter_use\<^sup>*\<^sup>* (l', \<lambda>_. 0) (l'', held)"
  shows "int (held node) \<le> limit \<and> (Acquire l'' node = None \<longleftrightarrow> int (held node) = limit)"
proof -
  have "limiter_inv node (nat limit) (l', \<lambda>_. 0)" and nonneg: "0 \<le> limit"
    using assms(1) by (auto simp: SetLimit_def limiter_inv_def split: if_splits)
  with assms(2) have "limiter_inv node (nat limit) (l'', held)"
    by (induction rule: rtranclp_induct) (auto intro: limiter_inv_use)
  with nonneg show ?thesis by (auto simp: limiter_inv_def Acquire_def split: if_splits)
qed

theorem limiter_bounded_witness:
  "\<exists>l''. Acquire (fmupd ''n'' (1, 1) NewConcurrencyLimiter) ''n'' = Some l'' \<and> Acquire l'' ''n'' = None"
proof -
  let ?l = "fmupd ''n'' (1, 1) NewConcurrencyLimiter" and ?l' = "fmupd ''n'' (1, 0) (fmupd ''n'' (1, 1) NewConcurrencyLimiter)"
  have a: "Acquire ?l ''n'' = Some ?l'" by (simp add: Acquire_def)
  have "limiter_use (?l, \<lambda>_. 0) (?l', (\<lambda>_. 0)(''n'' := 0 + 1))" by (rule take_slot [OF a])
  then have "limiter_use\<^sup>*\<^sup>* (?l, \<lambda>_. 0) (?l', (\<lambda>_. 0)(''n'' := 0 + 1))" by blast
  from limiter_bounded [OF _ this, of NewConcurrencyLimiter "''n''" 1] have "Acquire ?l' ''n'' = None"
    by (simp add: SetLimit_def)
  with a show ?thesis by blast
qed

text \<open>
  Setting the limit again while slots are in use forgets them: the new channel is full, so that as many
  clients again can enter.
\<close>

lemma limit_reset_forgets:
  assumes "limiter_inv node c (l, held)" "0 < c" "SetLimit l node (int c) = Inr l'"
  shows "\<exists>l''. Acquire l' node = Some l'' \<and> fmlookup l'' node = Some (c, c - 1)"
  using assms by (auto simp: SetLimit_def Acquire_def)

text \<open>Tasks run in the order of submission; their priorities play no role.\<close>

lemma priority_ignored:
  assumes "Submit e t1 = Inr e1" "Submit e1 t2 = Inr e2" "pe_tasks e = []"
  shows "\<exists>e3. Execute_next e2 = Some (e3, pt_Func t1, pt_Priority t1) \<and> map_option snd (Execute_next e3) = Some (pt_Func t2, pt_Priority t2)"
  using assms by (auto simp: Submit_def Execute_next_def split: if_splits)

lemma pipeline_bounded:
  assumes "length (ap_events p) \<le> 100" "length (ap_errors p) \<le> 10"
  shows "length (ap_events (EmitEvent p ev)) \<le> 100" "length (ap_errors (EmitError p err)) \<le> 10"
  using assms by (simp_all add: EmitEvent_def EmitError_def)

end
