(* ===== verification/Task_Queues.thy ===== *)
theory Task_Queues
  imports Go_Values "HOL-Library.Product_Lexorder"
begin

text \<open>
  Three priority queues: the binary heap of \<open>pregel/background.go\<close>, and the insertion queue and the sorted
  queue of \<open>pregel/optimized.go\<close>. The contract they share is the locale \<open>prio_queue\<close>.
\<close>

subsection \<open>The contract\<close>

locale prio_queue =
  fixes good :: "'q \<Rightarrow> bool" and bag :: "'q \<Rightarrow> 'a multiset" and item_ok :: "'a \<Rightarrow> bool" and before :: "'a \<Rightarrow> 'a \<Rightarrow> bool"
    and empty :: 'q and push :: "'q \<Rightarrow> 'a \<Rightarrow> 'q" and pop :: "'q \<Rightarrow> ('a \<times> 'q) option"
  assumes good_empty: "good empty" and bag_empty: "bag empty = {#}"
    and push_good: "good q \<Longrightarrow> item_ok x \<Longrightarrow> good (push q x)" and bag_push: "good q \<Longrightarrow> bag (push q x) = add_mset x (bag q)"
    and pop_None: "good q \<Longrightarrow> pop q = None \<longleftrightarrow> bag q = {#}"
    and pop_Some: "good q \<Longrightarrow> pop q = Some (x, q') \<Longrightarrow> good q' \<and> bag q = add_mset x (bag q') \<and> (\<forall>y\<in>#bag q'. before x y)"
begin

primrec drain :: "nat \<Rightarrow> 'q \<Rightarrow> 'a list" where
  "drain 0 q = []"
| "drain (Suc n) q = (case pop q of None \<Rightarrow> [] | Some (x, q') \<Rightarrow> x # drain n q')"

lemma drain_sorted:
  "good q \<Longrightarrow> size (bag q) = n \<Longrightarrow> mset (drain n q) = bag q \<and> sorted_wrt before (drain n q)"
proof (induction n arbitrary: q)
  case (Suc n)
  then obtain x q' where p: "pop q = Some (x, q')" using pop_None [of q] by fastforce
  note q' = pop_Some [OF Suc.prems(1) p]
  with Suc.prems have IH: "mset (drain n q') = bag q'" "sorted_wrt before (drain n q')"
    using Suc.IH [of q'] by simp_all
  have "set (drain n q') = set_mset (bag q')" by (simp flip: IH(1))
  with p q' IH show ?case by simp
qed simp

lemma pushes_good:
  "\<forall>x\<in>set xs. item_ok x \<Longrightarrow> good q \<Longrightarrow> good (foldl push q xs) \<and> bag (foldl push q xs) = bag q + mset xs"
  by (induction xs arbitrary: q) (simp_all add: push_good bag_push)

lemma queue_sorts:
  assumes "\<forall>x\<in>set xs. item_ok x"
  shows "mset (drain (length xs) (foldl push empty xs)) = mset xs \<and> sorted_wrt before (drain (length xs) (foldl push empty xs))"
  using drain_sorted [of "foldl push empty xs" "length xs"] pushes_good [OF assms good_empty] by (simp add: bag_empty)

end

subsection \<open>The binary heap\<close>

record BackgroundTask =
  bt_ID :: string
  bt_Name :: string
  bt_Priority :: int

type_synonym PriorityQueue = "BackgroundTask list"

definition NewPriorityQueue :: PriorityQueue where "NewPriorityQueue = []"

definition swap :: "'a list \<Rightarrow> nat \<Rightarrow> nat \<Rightarrow> 'a list" where
  "swap xs i j = xs[i := xs ! j, j := xs ! i]"

function heapifyUp :: "PriorityQueue \<Rightarrow> nat \<Rightarrow> PriorityQueue" where
  "heapifyUp ts index =
     (if index > 0
      then (let parent = (index - 1) div 2
            in if bt_Priority (ts ! parent) \<ge> bt_Priority (ts ! index) then ts
               else heapifyUp (swap ts parent index) parent)
      else ts)"
  by pat_completeness auto
termination by (relation "measure snd") auto

definition largest_child :: "PriorityQueue \<Rightarrow> nat \<Rightarrow> nat" where
  "largest_child ts index =
     (let n = length ts; left = 2 * index + 1; right = 2 * index + 2;
          l1 = (if left < n \<and> bt_Priority (ts ! left) > bt_Priority (ts ! index) then left else index)
      in if right < n \<and> bt_Priority (ts ! right) > bt_Priority (ts ! l1) then right else l1)"

lemma largest_child_bound: "largest_child ts i \<noteq> i \<Longrightarrow> i < largest_child ts i \<and> largest_child ts i < length ts"
  by (auto simp: largest_child_def Let_def split: if_splits)

lemma length_swap [simp]: "length (swap xs i j) = length xs"
  by (simp add: swap_def)

function heapifyDown :: "PriorityQueue \<Rightarrow> nat \<Rightarrow> PriorityQueue" where
  "heapifyDown ts index =
     (let largest = largest_child ts index
      in if largest = index then ts else heapifyDown (swap ts index largest) largest)"
  by pat_completeness auto
termination
  by (relation "measure (\<lambda>(ts, i). length ts - i)") (auto dest!: largest_child_bound)

declare heapifyUp.simps [simp del] heapifyDown.simps [simp del]

definition Queue_Push :: "PriorityQueue \<Rightarrow> BackgroundTask \<Rightarrow> PriorityQueue" where
  "Queue_Push ts task = heapifyUp (ts @ [task]) (length (ts @ [task]) - 1)"

definition Queue_Pop :: "PriorityQueue \<Rightarrow> (BackgroundTask \<times> PriorityQueue) option" where
  "Queue_Pop ts =
     (if length ts = 0 then None
      else (let task = ts ! 0; ts1 = take (length ts - 1) (ts[0 := ts ! (length ts - 1)])
            in Some (task, if length ts1 > 0 then heapifyDown ts1 0 else ts1)))"

definition Queue_Len :: "PriorityQueue \<Rightarrow> nat" where
  "Queue_Len ts = length ts"

definition up :: "nat \<Rightarrow> nat" where "up j = (j - 1) div 2"

definition heap :: "PriorityQueue \<Rightarrow> bool" where
  "heap ts \<longleftrightarrow> (\<forall>j. 0 < j \<longrightarrow> j < length ts \<longrightarrow> bt_Priority (ts ! j) \<le> bt_Priority (ts ! up j))"

text \<open>A heap but for the edge above, or the edges below, one index.\<close>

definition up_ok :: "PriorityQueue \<Rightarrow> nat \<Rightarrow> bool" where
  "up_ok ts i \<longleftrightarrow>
     (\<forall>j. 0 < j \<longrightarrow> j < length ts \<longrightarrow> j \<noteq> i \<longrightarrow> bt_Priority (ts ! j) \<le> bt_Priority (ts ! up j)) \<and>
     (\<forall>j. 0 < j \<longrightarrow> j < length ts \<longrightarrow> up j = i \<longrightarrow> 0 < i \<longrightarrow> bt_Priority (ts ! j) \<le> bt_Priority (ts ! up i))"

definition down_ok :: "PriorityQueue \<Rightarrow> nat \<Rightarrow> bool" where
  "down_ok ts i \<longleftrightarrow>
     (\<forall>j. 0 < j \<longrightarrow> j < length ts \<longrightarrow> up j \<noteq> i \<longrightarrow> bt_Priority (ts ! j) \<le> bt_Priority (ts ! up j)) \<and>
     (\<forall>j. 0 < j \<longrightarrow> j < length ts \<longrightarrow> up j = i \<longrightarrow> 0 < i \<longrightarrow> bt_Priority (ts ! j) \<le> bt_Priority (ts ! up i))"

lemma nth_swap:
  "i < length xs \<Longrightarrow> j < length xs \<Longrightarrow> swap xs i j ! k = (if k = i then xs ! j else if k = j then xs ! i else xs ! k)"
  by (auto simp: swap_def nth_list_update)

lemma mset_swap_list: "i < length xs \<Longrightarrow> j < length xs \<Longrightarrow> mset (swap xs i j) = mset xs"
  unfolding swap_def by (rule mset_swap)

lemma up_less: "0 < j \<Longrightarrow> up j < j"
  by (simp add: up_def)

lemma up_ok_swap:
  assumes "up_ok ts i" "0 < i" "i < length ts" "bt_Priority (ts ! up i) < bt_Priority (ts ! i)"
  shows "up_ok (swap ts (up i) i) (up i)"
proof -
  let ?p = "up i" and ?s = "swap ts (up i) i" and ?P = "\<lambda>j. bt_Priority (ts ! j)"
  have p: "?p < i" "?p < length ts" using assms(2,3) up_less [of i] by auto
  have nth: "bt_Priority (?s ! k) = (if k = ?p then ?P i else if k = i then ?P ?p else ?P k)" for k
    using nth_swap [OF p(2) assms(3), of k] by simp
  have edge: "?P j \<le> ?P (up j)" if "0 < j" "j < length ts" "j \<noteq> i" for j
    using assms(1) that by (simp add: up_ok_def)
  have below: "?P j \<le> ?P ?p" if "0 < j" "j < length ts" "up j = i" for j
    using assms(1,2) that by (simp add: up_ok_def)
  have sib: "?P j \<le> ?P ?p" if "0 < j" "j < length ts" "up j = ?p" "j \<noteq> i" for j
    using edge [OF that(1,2,4)] that(3) by simp
  have "bt_Priority (?s ! j) \<le> bt_Priority (?s ! up j)" if "0 < j" "j < length ts" "j \<noteq> ?p" for j
  proof (cases "j = i")
    case True
    show ?thesis unfolding True nth using assms(4) p(1) by simp
  next
    case False
    then show ?thesis
      using edge [OF that(1,2) False] below [OF that(1,2)] sib [OF that(1,2) _ False] assms(4) that(3)
      unfolding nth by auto
  qed
  moreover have "bt_Priority (?s ! j) \<le> bt_Priority (?s ! up ?p)" if "0 < j" "j < length ts" "up j = ?p" "0 < ?p" for j
  proof -
    have "?P ?p \<le> ?P (up ?p)" using edge [of ?p] that(4) p by simp
    moreover have "up ?p < ?p" "j \<noteq> ?p" using that up_less [of ?p] up_less [of j] by auto
    ultimately show ?thesis using sib [OF that(1-3)] p(1) unfolding nth by auto
  qed
  ultimately show ?thesis by (simp add: up_ok_def)
qed

lemma heapifyUp_heap:
  "up_ok ts i \<Longrightarrow> i < length ts \<Longrightarrow> heap (heapifyUp ts i) \<and> mset (heapifyUp ts i) = mset ts"
proof (induction ts i rule: heapifyUp.induct)
  case (1 ts i)
  show ?case
  proof (cases "0 < i \<and> bt_Priority (ts ! up i) < bt_Priority (ts ! i)")
    case True
    then have "heapifyUp ts i = heapifyUp (swap ts (up i) i) (up i)" by (subst heapifyUp.simps) (simp add: Let_def up_def)
    moreover have "heap (heapifyUp (swap ts (up i) i) (up i)) \<and> mset (heapifyUp (swap ts (up i) i) (up i)) = mset (swap ts (up i) i)"
      using "1.IH" [of "up i"] True "1.prems" up_ok_swap [of ts i] up_less [of i] by (simp add: up_def)
    ultimately show ?thesis using True "1.prems" up_less [of i] by (simp add: mset_swap_list)
  next
    case False
    then have "heapifyUp ts i = ts" by (subst heapifyUp.simps) (auto simp: Let_def up_def)
    moreover have "heap ts" using "1.prems"(1) False unfolding heap_def up_ok_def by (metis linorder_not_le)
    ultimately show ?thesis by simp
  qed
qed

lemma up_children: "0 < j \<Longrightarrow> up j = i \<longleftrightarrow> j = 2 * i + 1 \<or> j = 2 * i + 2"
  by (auto simp: up_def)

lemma largest_child_child:
  assumes "largest_child ts i \<noteq> i"
  shows "up (largest_child ts i) = i" "bt_Priority (ts ! i) < bt_Priority (ts ! largest_child ts i)"
  using assms by (auto simp: largest_child_def Let_def up_def split: if_splits)

lemma largest_child_max:
  assumes "0 < j" "j < length ts" "up j = i"
  shows "bt_Priority (ts ! j) \<le> bt_Priority (ts ! largest_child ts i)"
proof -
  have "j = 2 * i + 1 \<or> j = 2 * i + 2" using up_children [OF assms(1), of i] assms(3) by simp
  then show ?thesis using assms(2) by (elim disjE) (simp_all add: largest_child_def Let_def)
qed

lemma down_ok_swap:
  assumes "down_ok ts i" "i < length ts" "largest_child ts i \<noteq> i"
  shows "down_ok (swap ts i (largest_child ts i)) (largest_child ts i)"
proof -
  let ?l = "largest_child ts i" and ?s = "swap ts i (largest_child ts i)" and ?P = "\<lambda>j. bt_Priority (ts ! j)"
  note l = largest_child_bound [OF assms(3)] largest_child_child [OF assms(3)]
  have nth: "bt_Priority (?s ! k) = (if k = i then ?P ?l else if k = ?l then ?P i else ?P k)" for k
    using nth_swap [OF assms(2), of ?l k] l by simp
  have edge: "?P j \<le> ?P (up j)" if "0 < j" "j < length ts" "up j \<noteq> i" for j
    using assms(1) that by (simp add: down_ok_def)
  have "bt_Priority (?s ! j) \<le> bt_Priority (?s ! up j)" if "0 < j" "j < length ts" "up j \<noteq> ?l" for j
  proof -
    have "?P ?l \<le> ?P (up i)" if "0 < i" using assms(1) l that unfolding down_ok_def by (metis less_trans)
    then show ?thesis
      using edge [OF that(1,2)] largest_child_max [OF that(1,2), of i] l up_less [OF that(1)] that unfolding nth by auto
  qed
  moreover have "bt_Priority (?s ! j) \<le> bt_Priority (?s ! up ?l)" if "0 < j" "j < length ts" "up j = ?l" for j
    using edge [OF that(1,2)] that(3) l up_less [OF that(1)] unfolding nth by auto
  ultimately show ?thesis by (simp add: down_ok_def)
qed

lemma heapifyDown_heap:
  "down_ok ts i \<Longrightarrow> i < length ts \<Longrightarrow> heap (heapifyDown ts i) \<and> mset (heapifyDown ts i) = mset ts"
proof (induction ts i rule: heapifyDown.induct)
  case (1 ts i)
  show ?case
  proof (cases "largest_child ts i = i")
    case True
    then have "heapifyDown ts i = ts" by (subst heapifyDown.simps) simp
    moreover have "heap ts"
      using "1.prems"(1) largest_child_max [of _ ts i] True unfolding heap_def down_ok_def by metis
    ultimately show ?thesis by simp
  next
    case False
    note l = largest_child_bound [OF False]
    have "heapifyDown ts i = heapifyDown (swap ts i (largest_child ts i)) (largest_child ts i)"
      using False by (subst heapifyDown.simps) (simp add: Let_def)
    moreover have "heap (heapifyDown (swap ts i (largest_child ts i)) (largest_child ts i)) \<and>
        mset (heapifyDown (swap ts i (largest_child ts i)) (largest_child ts i)) = mset (swap ts i (largest_child ts i))"
      by (rule "1.IH") (use False "1.prems" l down_ok_swap [of ts i] in auto)
    ultimately show ?thesis using "1.prems"(2) l by (simp add: mset_swap_list)
  qed
qed

lemma heap_root: "heap ts \<Longrightarrow> j < length ts \<Longrightarrow> bt_Priority (ts ! j) \<le> bt_Priority (ts ! 0)"
proof (induction j rule: less_induct)
  case (less j)
  show ?case
  proof (cases "0 < j")
    case True
    then have "bt_Priority (ts ! j) \<le> bt_Priority (ts ! up j)" using less.prems by (simp add: heap_def)
    also have "\<dots> \<le> bt_Priority (ts ! 0)" using less.IH [of "up j"] less.prems True up_less [of j] by simp
    finally show ?thesis .
  qed simp
qed

lemma Push_heap:
  assumes "heap ts"
  shows "heap (Queue_Push ts x) \<and> mset (Queue_Push ts x) = add_mset x (mset ts)"
proof -
  have "up_ok (ts @ [x]) (length ts)"
    using assms unfolding up_ok_def heap_def up_def by (auto simp: nth_append less_Suc_eq)
  then show ?thesis using heapifyUp_heap [of "ts @ [x]" "length ts"] by (simp add: Queue_Push_def)
qed

lemma Pop_heap:
  assumes "heap ts" "Queue_Pop ts = Some (x, ts')"
  shows "heap ts' \<and> mset ts = add_mset x (mset ts') \<and> (\<forall>y\<in>#mset ts'. bt_Priority y \<le> bt_Priority x)"
proof -
  obtain y ys where ts: "ts = y # ys" using assms(2) by (cases ts) (auto simp: Queue_Pop_def)
  let ?t = "take (length ts - 1) (ts[0 := ts ! (length ts - 1)])"
  have x: "x = ts ! 0" and ts': "ts' = (if 0 < length ?t then heapifyDown ?t 0 else ?t)"
    using assms(2) ts by (auto simp: Queue_Pop_def Let_def)
  have m: "mset ts = add_mset y (mset ?t)"
  proof (cases ys rule: rev_cases)
    case (snoc zs z)
    then show ?thesis by (simp add: ts nth_append)
  qed (simp add: ts)
  have h: "heap ts' \<and> mset ts' = mset ?t"
  proof (cases "0 < length ?t")
    case True
    have "down_ok ?t 0"
      using assms(1) unfolding down_ok_def heap_def up_def by (auto simp: nth_list_update)
    with True show ?thesis using heapifyDown_heap [of ?t 0] ts' by simp
  next
    case False
    then show ?thesis using ts' by (simp add: heap_def)
  qed
  have top: "bt_Priority z \<le> bt_Priority y" if "z \<in># mset ts" for z
  proof -
    obtain j where "j < length ts" "z = ts ! j" using \<open>z \<in># mset ts\<close> by (metis in_set_conv_nth set_mset_mset)
    with heap_root [OF assms(1)] show ?thesis by (simp add: ts)
  qed
  have eq: "mset ts = add_mset y (mset ts')" using m h by simp
  have "bt_Priority z \<le> bt_Priority y" if "z \<in># mset ts'" for z
    using that by (intro top) (simp add: eq)
  moreover have "x = y" using x ts by simp
  ultimately show ?thesis using eq h by blast
qed

interpretation bg: prio_queue heap mset "\<lambda>_. True" "\<lambda>x y. bt_Priority y \<le> bt_Priority x" NewPriorityQueue Queue_Push Queue_Pop
proof
  show "heap NewPriorityQueue" "mset NewPriorityQueue = {#}" by (simp_all add: heap_def NewPriorityQueue_def)
  show "heap q \<Longrightarrow> heap (Queue_Push q x)" "heap q \<Longrightarrow> mset (Queue_Push q x) = add_mset x (mset q)" for q x
    using Push_heap by blast+
  show "Queue_Pop q = None \<longleftrightarrow> mset q = {#}" for q by (simp add: Queue_Pop_def Let_def)
  show "heap q \<Longrightarrow> Queue_Pop q = Some (x, q') \<Longrightarrow>
      heap q' \<and> mset q = add_mset x (mset q') \<and> (\<forall>y\<in>#mset q'. bt_Priority y \<le> bt_Priority x)" for q x q'
    using Pop_heap by blast
qed

text \<open>
  The binary heap is a priority queue: popping everything that was pushed returns exactly the pushed
  tasks, in the order of falling priority.
\<close>

theorem heap_sorts:
  "mset (bg.drain (length xs) (foldl Queue_Push NewPriorityQueue xs)) = mset xs \<and>
   sorted_wrt (\<lambda>x y. bt_Priority y \<le> bt_Priority x) (bg.drain (length xs) (foldl Queue_Push NewPriorityQueue xs))"
  using bg.queue_sorts [of xs] by simp

subsection \<open>The insertion queue\<close>

record PathTask =
  tk_Name :: string
  tk_Path :: "string list"

text \<open>The loop of \<open>Push\<close>, which moves the new last task towards the front.\<close>

fun sink :: "PathTask list \<Rightarrow> nat \<Rightarrow> PathTask list" where
  "sink ts 0 = ts"
| "sink ts (Suc i) =
     (if length (tk_Path (ts ! Suc i)) < length (tk_Path (ts ! i)) then sink (swap ts (Suc i) i) i else ts)"

definition TaskQueue_Push :: "PathTask list \<Rightarrow> PathTask \<Rightarrow> PathTask list" where
  "TaskQueue_Push ts task = sink (ts @ [task]) (length (ts @ [task]) - 1)"

definition TaskQueue_Pop :: "PathTask list \<Rightarrow> (PathTask \<times> PathTask list) option" where
  "TaskQueue_Pop ts = (case ts of [] \<Rightarrow> None | t # ts' \<Rightarrow> Some (t, ts'))"

definition path_len :: "PathTask \<Rightarrow> nat" where
  "path_len t = length (tk_Path t)"

lemma swap_append: "swap (xs @ y # x # zs) (Suc (length xs)) (length xs) = xs @ x # y # zs"
  by (simp add: swap_def nth_append list_update_append)

lemma sink_takeWhile:
  "sink (xs @ x # zs) (length xs) =
     rev (dropWhile (\<lambda>y. path_len x < path_len y) (rev xs)) @ x # rev (takeWhile (\<lambda>y. path_len x < path_len y) (rev xs)) @ zs"
proof (induction xs arbitrary: zs rule: rev_induct)
  case (snoc y ys)
  have "sink ((ys @ [y]) @ x # zs) (length (ys @ [y])) =
      (if path_len x < path_len y then sink (ys @ x # y # zs) (length ys) else ys @ y # x # zs)"
    using swap_append [of ys y x zs] by (simp add: path_len_def nth_append)
  with snoc.IH [of "y # zs"] show ?case by simp
qed simp

lemma stable_insert:
  assumes "sorted (map path_len xs)"
  shows "sink (xs @ [x]) (length xs) = sort_key path_len (xs @ [x])"
proof -
  define A where "A = rev (dropWhile (\<lambda>y. path_len x < path_len y) (rev xs))"
  define B where "B = rev (takeWhile (\<lambda>y. path_len x < path_len y) (rev xs))"
  have xs: "xs = A @ B" unfolding A_def B_def by (metis rev_append rev_rev_ident takeWhile_dropWhile_id)
  have s: "sink (xs @ [x]) (length xs) = A @ x # B" by (simp add: sink_takeWhile A_def B_def)
  have hi: "path_len x < path_len y" if "y \<in> set B" for y
    using that unfolding B_def by (metis set_rev set_takeWhileD)
  have lo: "path_len y \<le> path_len x" if "y \<in> set A" for y
  proof (cases A rule: rev_cases)
    case (snoc zs d)
    then have "dropWhile (\<lambda>y. path_len x < path_len y) (rev xs) = d # rev zs"
      unfolding A_def by (metis rev.simps(2) rev_rev_ident rev_append append_Nil append_Cons rev_singleton_conv)
    then have "\<not> path_len x < path_len d" by (simp add: dropWhile_eq_Cons_conv)
    moreover have "sorted (map path_len (zs @ [d]))" using assms by (simp add: xs snoc sorted_append)
    ultimately show ?thesis using that snoc by (auto simp: sorted_append)
  qed (use that in simp)
  have "sort_key path_len (xs @ [x]) = A @ x # B"
  proof (rule properties_for_sort_key)
    show "mset (A @ x # B) = mset (xs @ [x])" by (simp add: xs)
    show "sorted (map path_len (A @ x # B))"
      using assms lo hi by (auto simp: xs sorted_append less_imp_le)
    fix k
    have "filter (\<lambda>y. path_len k = path_len y) B = []" if "path_len k = path_len x"
      using hi that by (force simp: filter_empty_conv)
    then show "filter (\<lambda>y. path_len k = path_len y) (A @ x # B) = filter (\<lambda>y. path_len k = path_len y) (xs @ [x])"
      by (cases "path_len k = path_len x") (simp_all add: xs)
  qed
  with s show ?thesis by simp
qed

lemma filter_sort_key: "filter (\<lambda>y. k = f y) (sort_key f xs) = filter (\<lambda>y. k = f y) xs"
  using sort_key_stable [of f k xs] by (simp add: eq_commute)

lemma sort_key_snoc: "sort_key f (sort_key f xs @ [x]) = sort_key f (xs @ [x])"
  by (rule properties_for_sort_key) (simp_all add: filter_sort_key)

text \<open>
  The insertion queue sorts stably: whatever tasks are pushed, it holds them by length of path, tasks with
  equally long paths in the order in which they were pushed.
\<close>

theorem path_queue_stable: "foldl TaskQueue_Push [] xs = sort_key path_len xs"
proof (induction xs rule: rev_induct)
  case (snoc x xs)
  have "foldl TaskQueue_Push [] (xs @ [x]) = sort_key path_len (sort_key path_len xs @ [x])"
    using stable_insert [of "sort_key path_len xs" x] by (simp add: snoc TaskQueue_Push_def)
  then show ?case by (simp add: sort_key_snoc)
qed simp

interpretation pathq: prio_queue "\<lambda>q. sorted (map path_len q)" mset "\<lambda>_. True" "\<lambda>x y. path_len x \<le> path_len y" "[]"
  TaskQueue_Push TaskQueue_Pop
proof
  fix q q' :: "PathTask list" and x
  assume s: "sorted (map path_len q)"
  have push: "TaskQueue_Push q x = sort_key path_len (q @ [x])" using stable_insert [OF s] by (simp add: TaskQueue_Push_def)
  show "sorted (map path_len (TaskQueue_Push q x))" "mset (TaskQueue_Push q x) = add_mset x (mset q)" by (simp_all add: push)
  show "TaskQueue_Pop q = None \<longleftrightarrow> mset q = {#}" by (simp add: TaskQueue_Pop_def split: list.split)
  show "TaskQueue_Pop q = Some (x, q') \<Longrightarrow>
      sorted (map path_len q') \<and> mset q = add_mset x (mset q') \<and> (\<forall>y\<in>#mset q'. path_len x \<le> path_len y)"
    using s by (auto simp: TaskQueue_Pop_def split: list.splits)
qed simp_all

subsection \<open>The sorted queue\<close>

record TaskWithPriority =
  tw_Name :: string
  tw_Priority :: goint
  tw_Namespace :: string
  tw_Path :: "string list"

fun path_compare :: "string list \<Rightarrow> string list \<Rightarrow> int" where
  "path_compare (x # xs) (y # ys) = (if x \<noteq> y then if x < y then -1 else 1 else path_compare xs ys)"
| "path_compare _ _ = 0"

definition Compare :: "TaskWithPriority \<Rightarrow> TaskWithPriority \<Rightarrow> int" where
  "Compare tp other =
     (if tw_Priority tp \<noteq> tw_Priority other then sint (tw_Priority tp - tw_Priority other)
      else if length (tw_Path tp) \<noteq> length (tw_Path other) then int (length (tw_Path tp)) - int (length (tw_Path other))
      else path_compare (tw_Path tp) (tw_Path other))"

text \<open>\<open>sort.Slice\<close>; tasks that compare equal keep their order here.\<close>

fun insert_by :: "('a \<Rightarrow> 'a \<Rightarrow> bool) \<Rightarrow> 'a \<Rightarrow> 'a list \<Rightarrow> 'a list" where
  "insert_by lt x [] = [x]"
| "insert_by lt x (y # ys) = (if lt y x then y # insert_by lt x ys else x # y # ys)"

definition slice_sort :: "('a \<Rightarrow> 'a \<Rightarrow> bool) \<Rightarrow> 'a list \<Rightarrow> 'a list" where
  "slice_sort lt xs = foldr (insert_by lt) xs []"

definition enqueue_task :: "TaskWithPriority list \<Rightarrow> string \<Rightarrow> goint \<Rightarrow> string \<Rightarrow> TaskWithPriority list" where
  "enqueue_task q name priority namespace =
     q @ [\<lparr>tw_Name = name, tw_Priority = priority, tw_Namespace = namespace, tw_Path = [namespace, name]\<rparr>]"

definition GetNextPriorityTask :: "TaskWithPriority list \<Rightarrow> (TaskWithPriority \<times> TaskWithPriority list) option" where
  "GetNextPriorityTask q =
     (if length q = 0 then None
      else (case slice_sort (\<lambda>a b. Compare a b < 0) q of [] \<Rightarrow> None | t # ts \<Rightarrow> Some (t, ts)))"

definition small_priority :: "TaskWithPriority \<Rightarrow> bool" where
  "small_priority t \<longleftrightarrow> \<bar>sint (tw_Priority t)\<bar> < 2 ^ 62"

definition task_key :: "TaskWithPriority \<Rightarrow> int \<times> nat \<times> string list" where
  "task_key t = (sint (tw_Priority t), length (tw_Path t), tw_Path t)"

lemma path_compare_less: "length xs = length ys \<Longrightarrow> path_compare xs ys < 0 \<longleftrightarrow> xs < ys"
  by (induction xs ys rule: path_compare.induct) (auto simp: Cons_less_Cons)

lemma sint_diff:
  fixes a b :: goint
  assumes "\<bar>sint a\<bar> < 2 ^ 62" "\<bar>sint b\<bar> < 2 ^ 62"
  shows "sint (a - b) = sint a - sint b"
proof -
  have "sint (a - b) = signed_take_bit 63 (sint a - sint b)" by (simp add: sint_word_ariths)
  also have "\<dots> = sint a - sint b" using assms by (subst signed_take_bit_int_eq_self_iff) auto
  finally show ?thesis .
qed

lemma compare_key:
  assumes "small_priority a" "small_priority b"
  shows "Compare a b < 0 \<longleftrightarrow> task_key a < task_key b"
proof (cases "tw_Priority a = tw_Priority b")
  case True
  then show ?thesis using path_compare_less [of "tw_Path a" "tw_Path b"] by (auto simp: Compare_def task_key_def)
next
  case False
  then have "sint (tw_Priority a) \<noteq> sint (tw_Priority b)" using signed_word_eqI by blast
  with False sint_diff [of "tw_Priority a" "tw_Priority b"] assms show ?thesis
    by (auto simp: Compare_def task_key_def small_priority_def)
qed

text \<open>
  For priorities below two to the power of 62 in absolute value the comparison of tasks is a linear
  preorder: by priority, then by length of path, then by path. Beyond that the subtraction of priorities can
  wrap around.
\<close>

theorem Compare_spec:
  assumes "small_priority a" "small_priority b"
  shows "Compare a b < 0 \<longleftrightarrow> task_key a < task_key b"
  using assms by (rule compare_key)

definition demo_task :: "goint \<Rightarrow> TaskWithPriority" where
  "demo_task p = \<lparr>tw_Name = ''a'', tw_Priority = p, tw_Namespace = [], tw_Path = [[], ''a'']\<rparr>"

theorem Compare_spec_witness: "Compare (demo_task 1) (demo_task 2) < 0 \<longleftrightarrow> task_key (demo_task 1) < task_key (demo_task 2)"
  by (rule Compare_spec) (simp_all add: small_priority_def demo_task_def)

lemma slice_sort_key:
  assumes "\<forall>x\<in>set xs. small_priority x"
  shows "slice_sort (\<lambda>a b. Compare a b < 0) xs = sort_key task_key xs"
  using assms
proof (induction xs)
  case (Cons x xs)
  have "insert_by (\<lambda>a b. Compare a b < 0) x ys = insort_key task_key x ys" if "\<forall>y\<in>set ys. small_priority y" for ys
    using that
  proof (induction ys)
    case (Cons y ys)
    then have "Compare y x < 0 \<longleftrightarrow> task_key y < task_key x"
      using \<open>\<forall>z\<in>set (x # xs). small_priority z\<close> by (intro compare_key) simp_all
    with Cons show ?case by auto
  qed simp
  with Cons show ?case by (simp add: slice_sort_def)
qed (simp add: slice_sort_def)

interpretation prioq: prio_queue "\<lambda>q. \<forall>x\<in>set q. small_priority x" mset small_priority "\<lambda>x y. task_key x \<le> task_key y" "[]"
  "\<lambda>q x. q @ [x]" GetNextPriorityTask
proof
  fix q q' :: "TaskWithPriority list" and x
  assume s: "\<forall>x\<in>set q. small_priority x"
  show "GetNextPriorityTask q = None \<longleftrightarrow> mset q = {#}"
    using slice_sort_key [OF s] by (auto simp: GetNextPriorityTask_def split: list.split dest: arg_cong [of _ "[]" mset])
  assume "GetNextPriorityTask q = Some (x, q')"
  then have k: "sort_key task_key q = x # q'"
    using slice_sort_key [OF s] by (auto simp: GetNextPriorityTask_def split: if_splits list.splits)
  then have m: "mset q = mset (x # q')" by (metis mset_sort)
  moreover have "set q = set (x # q')" by (rule mset_eq_setD [OF m])
  moreover have "sorted (map task_key (x # q'))" by (metis k sorted_sort_key)
  ultimately show "(\<forall>x\<in>set q'. small_priority x) \<and> mset q = add_mset x (mset q') \<and> (\<forall>y\<in>#mset q'. task_key x \<le> task_key y)"
    using s by simp
qed auto

text \<open>
  Taking tasks from the sorted queue returns all queued tasks in the order of priority, length of path
  and path.
\<close>

theorem priority_order:
  assumes "\<forall>x\<in>set xs. small_priority x"
  shows "mset (prioq.drain (length xs) xs) = mset xs \<and> sorted_wrt (\<lambda>x y. task_key x \<le> task_key y) (prioq.drain (length xs) xs)"
  using prioq.drain_sorted [of xs "length xs"] assms by simp

theorem priority_order_witness:
  "mset (prioq.drain 2 [demo_task 2, demo_task 1]) = {#demo_task 1, demo_task 2#}"
  using priority_order [of "[demo_task 2, demo_task 1]"] by (simp add: small_priority_def demo_task_def numeral_2_eq_2)

subsection \<open>Dependencies of the optimised engine\<close>

record OptimizedState =
  oe_stepQueue :: "(int, string list) fmap"
  oe_seenChannels :: "(string, (string, bool) fmap) fmap"
  oe_finishedTasks :: "(string, bool) fmap"
  oe_taskDependencies :: "(string, string list) fmap"

definition deps_of :: "OptimizedState \<Rightarrow> string \<Rightarrow> string list" where
  "deps_of e name = (case fmlookup (oe_taskDependencies e) name of Some ds \<Rightarrow> ds | None \<Rightarrow> [])"

definition AddTaskDependency :: "OptimizedState \<Rightarrow> string \<Rightarrow> string \<Rightarrow> OptimizedState" where
  "AddTaskDependency e fromTask toTask =
     e\<lparr>oe_taskDependencies := fmupd toTask (deps_of e toTask @ [fromTask]) (oe_taskDependencies e)\<rparr>"

definition GetTaskDependencies :: "OptimizedState \<Rightarrow> string \<Rightarrow> string list" where
  "GetTaskDependencies e name = deps_of e name"

definition bump_one :: "int \<Rightarrow> string list \<Rightarrow> OptimizedState \<Rightarrow> string \<Rightarrow> OptimizedState" where
  "bump_one completedStep updated e depTask =
     (let seen = fmlookup (oe_seenChannels e) depTask;
          ready = (case seen of None \<Rightarrow> True | Some m \<Rightarrow> list_all (\<lambda>ch. fmlookup m ch = Some True) updated)
      in if ready
         then e\<lparr>oe_stepQueue := fmupd (completedStep + 1)
                  ((case fmlookup (oe_stepQueue e) (completedStep + 1) of Some q \<Rightarrow> q | None \<Rightarrow> []) @ [depTask]) (oe_stepQueue e),
                oe_seenChannels := fmupd depTask
                  (foldl (\<lambda>m ch. fmupd ch True m) (case seen of Some m \<Rightarrow> m | None \<Rightarrow> fmempty) updated) (oe_seenChannels e)\<rparr>
         else e)"

definition BumpStep :: "OptimizedState \<Rightarrow> string \<Rightarrow> int \<Rightarrow> string list \<Rightarrow> OptimizedState" where
  "BumpStep e name completedStep updated =
     foldl (bump_one completedStep updated) (e\<lparr>oe_finishedTasks := fmupd name True (oe_finishedTasks e)\<rparr>) (deps_of e name)"

definition IsTaskReady :: "OptimizedState \<Rightarrow> string \<Rightarrow> bool" where
  "IsTaskReady e name =
     (if length (deps_of e name) = 0 then True
      else list_all (\<lambda>dep. fmlookup (oe_finishedTasks e) dep = Some True) (deps_of e name))"

definition ClearFinishedTasks :: "OptimizedState \<Rightarrow> OptimizedState" where
  "ClearFinishedTasks e = e\<lparr>oe_finishedTasks := fmempty\<rparr>"

text \<open>
  The readiness test reads the table of dependents as if it held dependencies: a task that depends on another
  is ready at once, and the other is not ready until its dependent has finished.
\<close>

lemma readiness_inverted:
  assumes "deps_of e a = []" "a \<noteq> b" "fmlookup (oe_finishedTasks e) a = None"
  shows "IsTaskReady (AddTaskDependency e a b) a" "\<not> IsTaskReady (AddTaskDependency e a b) b"
  using assms by (simp_all add: IsTaskReady_def AddTaskDependency_def deps_of_def)

text \<open>A dependent that has seen channels, but not all updated ones, is not scheduled for the next step.\<close>

lemma bump_skips_unseen:
  assumes "fmlookup (oe_seenChannels e) dep = Some m" "ch \<in> set updated" "fmlookup m ch \<noteq> Some True"
  shows "bump_one completedStep updated e dep = e"
  using assms by (auto simp: bump_one_def list_all_iff)

end
