(* ===== verification/Background.thy ===== *)
theory Background
  imports Task_Queues
begin

text \<open>
  The background executor of \<open>pregel/background.go\<close>. The task queue is a buffered channel; a worker takes the
  task at its head. Stopping waits for the workers and then closes the channels.
\<close>

record BackgroundExecutor =
  be_maxWorkers :: nat
  be_queueSize :: nat
  be_taskQueue :: "BackgroundTask list"
  be_closed :: bool
  be_results :: "(string \<times> (gerror + gval)) list"
  be_running :: bool
  be_activeTasks :: "(string, BackgroundTask) fmap"

definition NewBackgroundExecutor :: "int \<Rightarrow> int \<Rightarrow> BackgroundExecutor" where
  "NewBackgroundExecutor maxWorkers queueSize =
     \<lparr>be_maxWorkers = (if maxWorkers \<le> 0 then 10 else nat maxWorkers),
      be_queueSize = (if queueSize \<le> 0 then 100 else nat queueSize),
      be_taskQueue = [], be_closed = False, be_results = [], be_running = False, be_activeTasks = fmempty\<rparr>"

definition Background_Start :: "BackgroundExecutor \<Rightarrow> BackgroundExecutor" where
  "Background_Start e = (if be_running e then e else e\<lparr>be_running := True\<rparr>)"

text \<open>A second stop after a restart closes a channel that is already closed.\<close>

definition Background_Stop :: "BackgroundExecutor \<Rightarrow> gerror + BackgroundExecutor" where
  "Background_Stop e =
     (if \<not> be_running e then Inr e
      else if be_closed e then Inl (GoPanic ''close of closed channel'')
      else Inr (e\<lparr>be_running := False, be_closed := True\<rparr>))"

text \<open>\<open>ctxDone\<close> tells which of the two waits of a full queue ends first.\<close>

definition Background_Submit ::
  "bool \<Rightarrow> BackgroundExecutor \<Rightarrow> BackgroundTask \<Rightarrow> BackgroundExecutor \<times> (gerror + BackgroundTask)" where
  "Background_Submit ctxDone e task =
     (if \<not> be_running e then (e, Inl (Errorf ''executor not running''))
      else (let e1 = e\<lparr>be_activeTasks := fmupd (bt_ID task) task (be_activeTasks e)\<rparr>
            in if be_closed e then (e1, Inl (GoPanic ''send on closed channel''))
               else if length (be_taskQueue e) < be_queueSize e
               then (e1\<lparr>be_taskQueue := be_taskQueue e @ [task]\<rparr>, Inr task)
               else (e1, Inl (if ctxDone then ClientError ''context canceled'' else Errorf ''task queue full''))))"

definition CancelTask :: "BackgroundExecutor \<Rightarrow> string \<Rightarrow> bool" where
  "CancelTask e taskID = (fmlookup (be_activeTasks e) taskID \<noteq> None)"

definition GetActiveTasks :: "BackgroundExecutor \<Rightarrow> string list" where
  "GetActiveTasks e = fmkeys (be_activeTasks e)"

text \<open>A worker takes a task and runs it; the global results channel drops what finds no room.\<close>

definition worker_step :: "(string \<Rightarrow> gerror + gval) \<Rightarrow> BackgroundExecutor \<Rightarrow> BackgroundExecutor" where
  "worker_step fn e =
     (case be_taskQueue e of
        [] \<Rightarrow> e
      | task # rest \<Rightarrow>
          e\<lparr>be_taskQueue := rest, be_activeTasks := fmdrop (bt_ID task) (be_activeTasks e),
            be_results := (if length (be_results e) < be_queueSize e
                           then be_results e @ [(bt_ID task, fn (bt_ID task))] else be_results e)\<rparr>)"

fun worker_run :: "nat \<Rightarrow> (string \<Rightarrow> gerror + gval) \<Rightarrow> BackgroundExecutor \<Rightarrow> BackgroundExecutor" where
  "worker_run 0 fn e = e"
| "worker_run (Suc n) fn e = worker_run n fn (worker_step fn e)"

subsection \<open>Properties\<close>

lemma worker_run_all:
  assumes "length (be_results e) + length (be_taskQueue e) \<le> be_queueSize e"
  shows "be_results (worker_run (length (be_taskQueue e)) fn e) = be_results e @ map (\<lambda>t. (bt_ID t, fn (bt_ID t))) (be_taskQueue e) \<and>
    be_taskQueue (worker_run (length (be_taskQueue e)) fn e) = [] \<and>
    fmdom (be_activeTasks (worker_run (length (be_taskQueue e)) fn e)) =
      fmdom (be_activeTasks e) |-| fset_of_list (map bt_ID (be_taskQueue e))"
  using assms
proof (induction "be_taskQueue e" arbitrary: e)
  case (Cons t ts)
  let ?e = "worker_step fn e"
  note q = Cons.hyps(2) [symmetric]
  have e: "be_taskQueue ?e = ts" "be_results ?e = be_results e @ [(bt_ID t, fn (bt_ID t))]" "be_queueSize ?e = be_queueSize e"
    "fmdom (be_activeTasks ?e) = fmdom (be_activeTasks e) |-| {|bt_ID t|}"
    using Cons.prems by (simp_all add: worker_step_def q)
  have "length (be_results ?e) + length (be_taskQueue ?e) \<le> be_queueSize ?e" using Cons.prems by (simp add: e q)
  from Cons.hyps(1) [OF e(1) [symmetric] this] show ?case by (simp add: q e) auto
qed simp

text \<open>
  Tasks accepted by a new executor are all run: when as many tasks as fit the queue have been submitted and
  the workers have emptied it, there is one result per task, in the order of submission, and no task is active
  any more.
\<close>

theorem background_runs_all:
  assumes "length ts \<le> be_queueSize (NewBackgroundExecutor w q)"
  defines "e \<equiv> foldl (\<lambda>e t. fst (Background_Submit False e t)) (Background_Start (NewBackgroundExecutor w q)) ts"
  shows "be_results (worker_run (length ts) fn e) = map (\<lambda>t. (bt_ID t, fn (bt_ID t))) ts \<and>
    GetActiveTasks (worker_run (length ts) fn e) = []"
proof -
  have sub: "be_taskQueue e = ts \<and> be_results e = [] \<and> be_queueSize e = be_queueSize (NewBackgroundExecutor w q) \<and>
      be_running e \<and> \<not> be_closed e \<and> fmdom (be_activeTasks e) = fset_of_list (map bt_ID ts)"
    unfolding e_def using assms(1)
  proof (induction ts rule: rev_induct)
    case Nil
    show ?case by (simp add: Background_Start_def NewBackgroundExecutor_def)
  next
    case (snoc t ts)
    then show ?case by (simp add: Background_Submit_def Let_def)
  qed
  have "fmdom (be_activeTasks (worker_run (length ts) fn e)) = {||}" and
      "be_results (worker_run (length ts) fn e) = map (\<lambda>t. (bt_ID t, fn (bt_ID t))) ts"
    using worker_run_all [of e fn] sub assms(1) by simp_all
  then show ?thesis by (metis GetActiveTasks_def fmkeys_Nil fmrestrict_fset_dom fmrestrict_fset_null)
qed

definition demo_bg :: "string \<Rightarrow> BackgroundTask" where
  "demo_bg i = \<lparr>bt_ID = i, bt_Name = ''n'', bt_Priority = 0\<rparr>"

theorem background_runs_all_witness:
  "GetActiveTasks (worker_run 1 (\<lambda>_. Inr VNil)
     (foldl (\<lambda>e t. fst (Background_Submit False e t)) (Background_Start (NewBackgroundExecutor 2 5)) [demo_bg ''a''])) = []"
  using background_runs_all [of "[demo_bg ''a'']" 2 5 "\<lambda>_. Inr VNil"] by (simp add: NewBackgroundExecutor_def)

text \<open>A task refused because the queue is full stays in the table of active tasks.\<close>

lemma refused_task_leaks:
  assumes "be_running e" "\<not> be_closed e" "be_queueSize e \<le> length (be_taskQueue e)" "Background_Submit c e t = (e', r)"
  shows "isl r" "CancelTask e' (bt_ID t)" "be_taskQueue e' = be_taskQueue e"
  using assms by (auto simp: Background_Submit_def Let_def CancelTask_def)

text \<open>After a stop and a new start every submission panics.\<close>

lemma restart_panics:
  assumes "be_running e" "Background_Stop e = Inr e1"
  shows "snd (Background_Submit c (Background_Start e1) t) = Inl (GoPanic ''send on closed channel'')"
  using assms by (auto simp: Background_Stop_def Background_Start_def Background_Submit_def Let_def split: if_splits)

end
