(* ===== verification/Cli_Lexer.thy ===== *)
theory Cli_Lexer
  imports Harness_Prelude
begin

text \<open>
  The lexer of the command line client (\<open>internal/cli/lexer.go\<close>, token numbers of
  \<open>internal/cli/types.go\<close>).

  A \<open>Lexer\<close> is the source's struct: the input, the position of the current byte, the position of
  the next one and the current byte itself, which is 0 past the end of the input. \<open>NextToken\<close> is
  the method of the same name. The loops \<open>for cond(l.ch) { l.readChar() }\<close> are all instances of
  \<open>scan\<close>: every such condition of the source is false on the byte 0, so the loop ends at the end
  of the input at the latest. A Go string is the list of its bytes.

  \<open>lex_rest\<close> is a reference lexer on the unread part of the input; \<open>NextToken_refines\<close> shows that
  the byte-by-byte methods compute it and never slice the input out of bounds.
\<close>

subsection \<open>Token numbers\<close>

abbreviation (input) TokenLogin :: nat where "TokenLogin \<equiv> 0"
abbreviation (input) TokenLogout :: nat where "TokenLogout \<equiv> 1"
abbreviation (input) TokenRegister :: nat where "TokenRegister \<equiv> 2"
abbreviation (input) TokenList :: nat where "TokenList \<equiv> 3"
abbreviation (input) TokenServices :: nat where "TokenServices \<equiv> 4"
abbreviation (input) TokenShow :: nat where "TokenShow \<equiv> 5"
abbreviation (input) TokenCreate :: nat where "TokenCreate \<equiv> 6"
abbreviation (input) TokenService :: nat where "TokenService \<equiv> 7"
abbreviation (input) TokenShutdown :: nat where "TokenShutdown \<equiv> 8"
abbreviation (input) TokenRestart :: nat where "TokenRestart \<equiv> 9"
abbreviation (input) TokenUsers :: nat where "TokenUsers \<equiv> 10"
abbreviation (input) TokenDrop :: nat where "TokenDrop \<equiv> 11"
abbreviation (input) TokenUser :: nat where "TokenUser \<equiv> 12"
abbreviation (input) TokenAlter :: nat where "TokenAlter \<equiv> 13"
abbreviation (input) TokenActive :: nat where "TokenActive \<equiv> 14"
abbreviation (input) TokenInactive :: nat where "TokenInactive \<equiv> 15"
abbreviation (input) TokenAdmin :: nat where "TokenAdmin \<equiv> 16"
abbreviation (input) TokenServer :: nat where "TokenServer \<equiv> 17"
abbreviation (input) TokenAPI :: nat where "TokenAPI \<equiv> 18"
abbreviation (input) TokenAdd :: nat where "TokenAdd \<equiv> 19"
abbreviation (input) TokenLive :: nat where "TokenLive \<equiv> 20"
abbreviation (input) TokenHealth :: nat where "TokenHealth \<equiv> 21"
abbreviation (input) TokenHost :: nat where "TokenHost \<equiv> 22"
abbreviation (input) TokenDelete :: nat where "TokenDelete \<equiv> 23"
abbreviation (input) TokenPassword :: nat where "TokenPassword \<equiv> 24"
abbreviation (input) TokenDataset :: nat where "TokenDataset \<equiv> 25"
abbreviation (input) TokenDatasets :: nat where "TokenDatasets \<equiv> 26"
abbreviation (input) TokenChunkStore :: nat where "TokenChunkStore \<equiv> 27"
abbreviation (input) TokenOf :: nat where "TokenOf \<equiv> 28"
abbreviation (input) TokenAgents :: nat where "TokenAgents \<equiv> 29"
abbreviation (input) TokenSearches :: nat where "TokenSearches \<equiv> 30"
abbreviation (input) TokenRole :: nat where "TokenRole \<equiv> 31"
abbreviation (input) TokenRoles :: nat where "TokenRoles \<equiv> 32"
abbreviation (input) TokenDescription :: nat where "TokenDescription \<equiv> 33"
abbreviation (input) TokenGrant :: nat where "TokenGrant \<equiv> 34"
abbreviation (input) TokenRevoke :: nat where "TokenRevoke \<equiv> 35"
abbreviation (input) TokenAll :: nat where "TokenAll \<equiv> 36"
abbreviation (input) TokenPermission :: nat where "TokenPermission \<equiv> 37"
abbreviation (input) TokenTo :: nat where "TokenTo \<equiv> 38"
abbreviation (input) TokenFrom :: nat where "TokenFrom \<equiv> 39"
abbreviation (input) TokenFor :: nat where "TokenFor \<equiv> 40"
abbreviation (input) TokenResources :: nat where "TokenResources \<equiv> 41"
abbreviation (input) TokenOn :: nat where "TokenOn \<equiv> 42"
abbreviation (input) TokenSet :: nat where "TokenSet \<equiv> 43"
abbreviation (input) TokenReset :: nat where "TokenReset \<equiv> 44"
abbreviation (input) TokenVersion :: nat where "TokenVersion \<equiv> 45"
abbreviation (input) TokenVar :: nat where "TokenVar \<equiv> 46"
abbreviation (input) TokenVars :: nat where "TokenVars \<equiv> 47"
abbreviation (input) TokenConfigs :: nat where "TokenConfigs \<equiv> 48"
abbreviation (input) TokenConfig :: nat where "TokenConfig \<equiv> 49"
abbreviation (input) TokenEnvs :: nat where "TokenEnvs \<equiv> 50"
abbreviation (input) TokenKey :: nat where "TokenKey \<equiv> 51"
abbreviation (input) TokenKeys :: nat where "TokenKeys \<equiv> 52"
abbreviation (input) TokenGenerate :: nat where "TokenGenerate \<equiv> 53"
abbreviation (input) TokenAvailable :: nat where "TokenAvailable \<equiv> 54"
abbreviation (input) TokenSupported :: nat where "TokenSupported \<equiv> 55"
abbreviation (input) TokenModel :: nat where "TokenModel \<equiv> 56"
abbreviation (input) TokenModels :: nat where "TokenModels \<equiv> 57"
abbreviation (input) TokenProvider :: nat where "TokenProvider \<equiv> 58"
abbreviation (input) TokenProviders :: nat where "TokenProviders \<equiv> 59"
abbreviation (input) TokenDefault :: nat where "TokenDefault \<equiv> 60"
abbreviation (input) TokenChats :: nat where "TokenChats \<equiv> 61"
abbreviation (input) TokenChat :: nat where "TokenChat \<equiv> 62"
abbreviation (input) TokenMessage :: nat where "TokenMessage \<equiv> 63"
abbreviation (input) TokenImage :: nat where "TokenImage \<equiv> 64"
abbreviation (input) TokenVideo :: nat where "TokenVideo \<equiv> 65"
abbreviation (input) TokenAudio :: nat where "TokenAudio \<equiv> 66"
abbreviation (input) TokenStream :: nat where "TokenStream \<equiv> 67"
abbreviation (input) TokenFiles :: nat where "TokenFiles \<equiv> 68"
abbreviation (input) TokenAs :: nat where "TokenAs \<equiv> 69"
abbreviation (input) TokenParse :: nat where "TokenParse \<equiv> 70"
abbreviation (input) TokenImport :: nat where "TokenImport \<equiv> 71"
abbreviation (input) TokenInto :: nat where "TokenInto \<equiv> 72"
abbreviation (input) TokenIn :: nat where "TokenIn \<equiv> 73"
abbreviation (input) TokenWith :: nat where "TokenWith \<equiv> 74"
abbreviation (input) TokenParser :: nat where "TokenParser \<equiv> 75"
abbreviation (input) TokenPipeline :: nat where "TokenPipeline \<equiv> 76"
abbreviation (input) TokenSearch :: nat where "TokenSearch \<equiv> 77"
abbreviation (input) TokenAgent :: nat where "TokenAgent \<equiv> 78"
abbreviation (input) TokenMemories :: nat where "TokenMemories \<equiv> 79"
abbreviation (input) TokenMemory :: nat where "TokenMemory \<equiv> 80"
abbreviation (input) TokenRetrieve :: nat where "TokenRetrieve \<equiv> 81"
abbreviation (input) TokenCurrent :: nat where "TokenCurrent \<equiv> 82"
abbreviation (input) TokenSoft :: nat where "TokenSoft \<equiv> 83"
abbreviation (input) TokenFingerprint :: nat where "TokenFingerprint \<equiv> 84"
abbreviation (input) TokenLicense :: nat where "TokenLicense \<equiv> 85"
abbreviation (input) TokenVision :: nat where "TokenVision \<equiv> 86"
abbreviation (input) TokenEmbedding :: nat where "TokenEmbedding \<equiv> 87"
abbreviation (input) TokenRerank :: nat where "TokenRerank \<equiv> 88"
abbreviation (input) TokenASR :: nat where "TokenASR \<equiv> 89"
abbreviation (input) TokenTTS :: nat where "TokenTTS \<equiv> 90"
abbreviation (input) TokenOCR :: nat where "TokenOCR \<equiv> 91"
abbreviation (input) TokenDocParse :: nat where "TokenDocParse \<equiv> 92"
abbreviation (input) TokenEmbed :: nat where "TokenEmbed \<equiv> 93"
abbreviation (input) TokenText :: nat where "TokenText \<equiv> 94"
abbreviation (input) TokenQuery :: nat where "TokenQuery \<equiv> 95"
abbreviation (input) TokenFormat :: nat where "TokenFormat \<equiv> 96"
abbreviation (input) TokenParam :: nat where "TokenParam \<equiv> 97"
abbreviation (input) TokenPlay :: nat where "TokenPlay \<equiv> 98"
abbreviation (input) TokenSave :: nat where "TokenSave \<equiv> 99"
abbreviation (input) TokenTop :: nat where "TokenTop \<equiv> 100"
abbreviation (input) TokenDimension :: nat where "TokenDimension \<equiv> 101"
abbreviation (input) TokenAsync :: nat where "TokenAsync \<equiv> 102"
abbreviation (input) TokenSync :: nat where "TokenSync \<equiv> 103"
abbreviation (input) TokenSyncLogs :: nat where "TokenSyncLogs \<equiv> 104"
abbreviation (input) TokenBenchmark :: nat where "TokenBenchmark \<equiv> 105"
abbreviation (input) TokenPing :: nat where "TokenPing \<equiv> 106"
abbreviation (input) TokenToken :: nat where "TokenToken \<equiv> 107"
abbreviation (input) TokenTokens :: nat where "TokenTokens \<equiv> 108"
abbreviation (input) TokenUnset :: nat where "TokenUnset \<equiv> 109"
abbreviation (input) TokenIndex :: nat where "TokenIndex \<equiv> 110"
abbreviation (input) TokenVector :: nat where "TokenVector \<equiv> 111"
abbreviation (input) TokenSize :: nat where "TokenSize \<equiv> 112"
abbreviation (input) TokenStore :: nat where "TokenStore \<equiv> 113"
abbreviation (input) TokenEngine :: nat where "TokenEngine \<equiv> 114"
abbreviation (input) TokenName :: nat where "TokenName \<equiv> 115"
abbreviation (input) TokenBalance :: nat where "TokenBalance \<equiv> 116"
abbreviation (input) TokenInstance :: nat where "TokenInstance \<equiv> 117"
abbreviation (input) TokenInstances :: nat where "TokenInstances \<equiv> 118"
abbreviation (input) TokenDisable :: nat where "TokenDisable \<equiv> 119"
abbreviation (input) TokenEnable :: nat where "TokenEnable \<equiv> 120"
abbreviation (input) TokenUse :: nat where "TokenUse \<equiv> 121"
abbreviation (input) TokenCheck :: nat where "TokenCheck \<equiv> 122"
abbreviation (input) TokenThink :: nat where "TokenThink \<equiv> 123"
abbreviation (input) TokenEffort :: nat where "TokenEffort \<equiv> 124"
abbreviation (input) TokenVerbosity :: nat where "TokenVerbosity \<equiv> 125"
abbreviation (input) TokenNone :: nat where "TokenNone \<equiv> 126"
abbreviation (input) TokenMinimal :: nat where "TokenMinimal \<equiv> 127"
abbreviation (input) TokenLow :: nat where "TokenLow \<equiv> 128"
abbreviation (input) TokenMedium :: nat where "TokenMedium \<equiv> 129"
abbreviation (input) TokenHigh :: nat where "TokenHigh \<equiv> 130"
abbreviation (input) TokenMax :: nat where "TokenMax \<equiv> 131"
abbreviation (input) TokenLS :: nat where "TokenLS \<equiv> 132"
abbreviation (input) TokenCat :: nat where "TokenCat \<equiv> 133"
abbreviation (input) TokenInsert :: nat where "TokenInsert \<equiv> 134"
abbreviation (input) TokenFile :: nat where "TokenFile \<equiv> 135"
abbreviation (input) TokenMetadata :: nat where "TokenMetadata \<equiv> 136"
abbreviation (input) TokenTable :: nat where "TokenTable \<equiv> 137"
abbreviation (input) TokenGet :: nat where "TokenGet \<equiv> 138"
abbreviation (input) TokenUpdate :: nat where "TokenUpdate \<equiv> 139"
abbreviation (input) TokenRemove :: nat where "TokenRemove \<equiv> 140"
abbreviation (input) TokenExplain :: nat where "TokenExplain \<equiv> 141"
abbreviation (input) TokenChunk :: nat where "TokenChunk \<equiv> 142"
abbreviation (input) TokenChunks :: nat where "TokenChunks \<equiv> 143"
abbreviation (input) TokenDocument :: nat where "TokenDocument \<equiv> 144"
abbreviation (input) TokenDocuments :: nat where "TokenDocuments \<equiv> 145"
abbreviation (input) TokenTag :: nat where "TokenTag \<equiv> 146"
abbreviation (input) TokenRegion :: nat where "TokenRegion \<equiv> 147"
abbreviation (input) TokenURL :: nat where "TokenURL \<equiv> 148"
abbreviation (input) TokenTask :: nat where "TokenTask \<equiv> 149"
abbreviation (input) TokenTasks :: nat where "TokenTasks \<equiv> 150"
abbreviation (input) TokenIngestor :: nat where "TokenIngestor \<equiv> 151"
abbreviation (input) TokenIngestors :: nat where "TokenIngestors \<equiv> 152"
abbreviation (input) TokenStart :: nat where "TokenStart \<equiv> 153"
abbreviation (input) TokenStop :: nat where "TokenStop \<equiv> 154"
abbreviation (input) TokenIngestion :: nat where "TokenIngestion \<equiv> 155"
abbreviation (input) TokenCache :: nat where "TokenCache \<equiv> 156"
abbreviation (input) TokenMQ :: nat where "TokenMQ \<equiv> 157"
abbreviation (input) TokenPublish :: nat where "TokenPublish \<equiv> 158"
abbreviation (input) TokenPull :: nat where "TokenPull \<equiv> 159"
abbreviation (input) TokenPending :: nat where "TokenPending \<equiv> 160"
abbreviation (input) TokenNoACK :: nat where "TokenNoACK \<equiv> 161"
abbreviation (input) TokenAnalyze :: nat where "TokenAnalyze \<equiv> 162"
abbreviation (input) TokenSummary :: nat where "TokenSummary \<equiv> 163"
abbreviation (input) TokenStats :: nat where "TokenStats \<equiv> 164"
abbreviation (input) TokenStorage :: nat where "TokenStorage \<equiv> 165"
abbreviation (input) TokenQuota :: nat where "TokenQuota \<equiv> 166"
abbreviation (input) TokenTree :: nat where "TokenTree \<equiv> 167"
abbreviation (input) TokenOrphan :: nat where "TokenOrphan \<equiv> 168"
abbreviation (input) TokenHour :: nat where "TokenHour \<equiv> 169"
abbreviation (input) TokenDay :: nat where "TokenDay \<equiv> 170"
abbreviation (input) TokenMonth :: nat where "TokenMonth \<equiv> 171"
abbreviation (input) TokenDays :: nat where "TokenDays \<equiv> 172"
abbreviation (input) TokenWindow :: nat where "TokenWindow \<equiv> 173"
abbreviation (input) TokenActivity :: nat where "TokenActivity \<equiv> 174"
abbreviation (input) TokenData :: nat where "TokenData \<equiv> 175"
abbreviation (input) TokenPurge :: nat where "TokenPurge \<equiv> 176"
abbreviation (input) TokenPlan :: nat where "TokenPlan \<equiv> 177"
abbreviation (input) TokenPreview :: nat where "TokenPreview \<equiv> 178"
abbreviation (input) TokenOpenaiChat :: nat where "TokenOpenaiChat \<equiv> 179"
abbreviation (input) TokenLog :: nat where "TokenLog \<equiv> 180"
abbreviation (input) TokenLogs :: nat where "TokenLogs \<equiv> 181"
abbreviation (input) TokenLevel :: nat where "TokenLevel \<equiv> 182"
abbreviation (input) TokenDebug :: nat where "TokenDebug \<equiv> 183"
abbreviation (input) TokenInfo :: nat where "TokenInfo \<equiv> 184"
abbreviation (input) TokenWarn :: nat where "TokenWarn \<equiv> 185"
abbreviation (input) TokenError :: nat where "TokenError \<equiv> 186"
abbreviation (input) TokenFatal :: nat where "TokenFatal \<equiv> 187"
abbreviation (input) TokenPanic :: nat where "TokenPanic \<equiv> 188"
abbreviation (input) TokenIdentifier :: nat where "TokenIdentifier \<equiv> 189"
abbreviation (input) TokenQuotedString :: nat where "TokenQuotedString \<equiv> 190"
abbreviation (input) TokenInteger :: nat where "TokenInteger \<equiv> 191"
abbreviation (input) TokenFloat :: nat where "TokenFloat \<equiv> 192"
abbreviation (input) TokenSemicolon :: nat where "TokenSemicolon \<equiv> 195"
abbreviation (input) TokenComma :: nat where "TokenComma \<equiv> 196"
abbreviation (input) TokenSlash :: nat where "TokenSlash \<equiv> 197"
abbreviation (input) TokenEOF :: nat where "TokenEOF \<equiv> 198"
abbreviation (input) TokenDash :: nat where "TokenDash \<equiv> 199"
abbreviation (input) TokenIllegal :: nat where "TokenIllegal \<equiv> 200"
abbreviation (input) TokenLBracket :: nat where "TokenLBracket \<equiv> 201"
abbreviation (input) TokenRBracket :: nat where "TokenRBracket \<equiv> 202"
abbreviation (input) TokenNumber :: nat where "TokenNumber \<equiv> TokenInteger"

record Token =
  Tok_Type :: nat
  Tok_Value :: string

definition mkToken :: "nat \<Rightarrow> string \<Rightarrow> Token" where
  "mkToken t v = \<lparr>Tok_Type = t, Tok_Value = v\<rparr>"

lemma mkToken_simps [simp]:
  "Tok_Type (mkToken t v) = t" "Tok_Value (mkToken t v) = v"
  "mkToken t v = mkToken t' v' \<longleftrightarrow> t = t' \<and> v = v'"
  by (simp_all add: mkToken_def)

subsection \<open>Bytes\<close>

text \<open>
  \<open>isLetter\<close> and \<open>isDigit\<close> apply \<open>unicode.IsLetter\<close> and \<open>unicode.IsDigit\<close> to a single byte, so
  they see the Latin-1 characters: the ASCII letters, the feminine and masculine ordinal signs, the
  micro sign and the accented letters (without the multiplication and division signs), and the
  ASCII digits.
\<close>

definition isLetter :: "char \<Rightarrow> bool" where
  "isLetter c = (let n = (of_char c :: nat) in
     65 \<le> n \<and> n \<le> 90 \<or> 97 \<le> n \<and> n \<le> 122 \<or> n = 170 \<or> n = 181 \<or> n = 186 \<or>
     192 \<le> n \<and> n \<le> 214 \<or> 216 \<le> n \<and> n \<le> 246 \<or> 248 \<le> n)"

definition isDigit :: "char \<Rightarrow> bool" where
  "isDigit c = (let n = (of_char c :: nat) in 48 \<le> n \<and> n \<le> 57)"

definition isBlank :: "char \<Rightarrow> bool" where
  "isBlank c = (c = CHR '' '' \<or> c = CHR 0x09 \<or> c = CHR 0x0A \<or> c = CHR 0x0D)"

definition isIdentChar :: "char \<Rightarrow> bool" where
  "isIdentChar c = (isLetter c \<or> isDigit c \<or> c = CHR ''_'' \<or> c = CHR ''-'' \<or> c = CHR ''.'')"

text \<open>
  \<open>strings.ToUpper\<close> and \<open>strings.ToLower\<close> on the ASCII letters. The lexer and the parsers compare
  their results with ASCII words only, and no byte sequence outside ASCII that can occur in an
  identifier maps into ASCII, so the comparisons are those of the source.
\<close>

definition upper_char :: "char \<Rightarrow> char" where
  "upper_char c = (let n = (of_char c :: nat) in if 97 \<le> n \<and> n \<le> 122 then char_of (n - 32) else c)"

definition lower_char :: "char \<Rightarrow> char" where
  "lower_char c = (let n = (of_char c :: nat) in if 65 \<le> n \<and> n \<le> 90 then char_of (n + 32) else c)"

definition ToUpper :: "string \<Rightarrow> string" where
  "ToUpper s = map upper_char s"

definition ToLower :: "string \<Rightarrow> string" where
  "ToLower s = map lower_char s"

subsection \<open>The lexer state\<close>

record Lexer =
  lx_input :: string
  lx_pos :: nat
  lx_readPos :: nat
  lx_ch :: char

definition byte_at :: "string \<Rightarrow> nat \<Rightarrow> char" where
  "byte_at s i = (if length s \<le> i then CHR 0x00 else s ! i)"

definition readChar :: "Lexer \<Rightarrow> Lexer" where
  "readChar l = l\<lparr>lx_ch := byte_at (lx_input l) (lx_readPos l), lx_pos := lx_readPos l,
     lx_readPos := Suc (lx_readPos l)\<rparr>"

definition NewLexer :: "string \<Rightarrow> Lexer" where
  "NewLexer s = readChar \<lparr>lx_input = s, lx_pos = 0, lx_readPos = 0, lx_ch = CHR 0x00\<rparr>"

definition peekChar :: "Lexer \<Rightarrow> char" where
  "peekChar l = byte_at (lx_input l) (lx_readPos l)"

definition lexer_left :: "Lexer \<Rightarrow> nat" where
  "lexer_left l = (length (lx_input l) - lx_readPos l) + (if lx_ch l = CHR 0x00 then 0 else 1)"

lemma readChar_left: "lx_ch l \<noteq> CHR 0x00 \<Longrightarrow> lexer_left (readChar l) < lexer_left l"
  by (auto simp: lexer_left_def readChar_def byte_at_def)

function scan :: "(char \<Rightarrow> bool) \<Rightarrow> Lexer \<Rightarrow> Lexer" where
  "scan P l = (if P (lx_ch l) \<and> lx_ch l \<noteq> CHR 0x00 then scan P (readChar l) else l)"
  by pat_completeness auto
termination by (relation "measure (\<lambda>(P, l). lexer_left l)") (auto simp: readChar_left)

declare scan.simps [simp del]

text \<open>The slice \<open>l.input[start:l.pos]\<close>.\<close>

definition slice_from :: "nat \<Rightarrow> Lexer \<Rightarrow> string" where
  "slice_from start l = take (lx_pos l - start) (drop start (lx_input l))"

definition skipWhitespace :: "Lexer \<Rightarrow> Lexer" where
  "skipWhitespace l = scan isBlank l"

definition readMetaCommand :: "Lexer \<Rightarrow> string \<times> Lexer" where
  "readMetaCommand l =
    (let start = lx_pos l;
         l = readChar l;
         l = scan (\<lambda>c. isLetter c \<or> c = CHR ''?'') l
     in (slice_from start l, l))"

definition readIdentifier :: "Lexer \<Rightarrow> string \<times> Lexer" where
  "readIdentifier l =
    (let start = lx_pos l;
         l = scan isIdentChar l
     in (slice_from start l, l))"

definition readNumber :: "Lexer \<Rightarrow> (string \<times> nat) \<times> Lexer" where
  "readNumber l =
    (let start = lx_pos l;
         l = scan isDigit l
     in if lx_ch l = CHR ''.'' \<and> isDigit (peekChar l)
        then let l = scan isDigit (readChar l) in ((slice_from start l, TokenFloat), l)
        else ((slice_from start l, TokenInteger), l))"

definition readQuotedString :: "char \<Rightarrow> Lexer \<Rightarrow> string \<times> Lexer" where
  "readQuotedString quote l =
    (let l = readChar l;
         start = lx_pos l;
         l = scan (\<lambda>c. c \<noteq> quote \<and> c \<noteq> CHR 0x00) l;
         str = slice_from start l
     in (str, if lx_ch l = quote then readChar l else l))"

definition keyword_table :: "(string \<times> nat) list" where
  "keyword_table = [(''LOGIN'', TokenLogin), (''LOGOUT'', TokenLogout), (''REGISTER'', TokenRegister),
    (''LIST'', TokenList), (''SERVICES'', TokenServices), (''SHOW'', TokenShow),
    (''CREATE'', TokenCreate), (''SERVICE'', TokenService), (''SHUTDOWN'', TokenShutdown),
    (''RESTART'', TokenRestart), (''USERS'', TokenUsers), (''DROP'', TokenDrop),
    (''USER'', TokenUser), (''ALTER'', TokenAlter), (''ACTIVE'', TokenActive),
    (''INACTIVE'', TokenInactive), (''ADMIN'', TokenAdmin), (''SERVER'', TokenServer),
    (''API'', TokenAPI), (''ADD'', TokenAdd), (''LIVE'', TokenLive),
    (''HEALTH'', TokenHealth), (''HOST'', TokenHost), (''DELETE'', TokenDelete),
    (''PASSWORD'', TokenPassword), (''DATASET'', TokenDataset),
    (''DATASETS'', TokenDatasets), (''OF'', TokenOf), (''AGENTS'', TokenAgents),
    (''SEARCHES'', TokenSearches), (''ROLE'', TokenRole), (''ROLES'', TokenRoles),
    (''DESCRIPTION'', TokenDescription), (''GRANT'', TokenGrant),
    (''REVOKE'', TokenRevoke), (''ALL'', TokenAll), (''PERMISSION'', TokenPermission),
    (''TO'', TokenTo), (''FROM'', TokenFrom), (''FOR'', TokenFor),
    (''RESOURCES'', TokenResources), (''ON'', TokenOn), (''SET'', TokenSet),
    (''UNSET'', TokenUnset), (''RESET'', TokenReset), (''VERSION'', TokenVersion),
    (''VAR'', TokenVar), (''VARS'', TokenVars), (''CONFIGS'', TokenConfigs),
    (''CONFIG'', TokenConfig), (''ENVS'', TokenEnvs), (''KEY'', TokenKey),
    (''KEYS'', TokenKeys), (''GENERATE'', TokenGenerate), (''MODEL'', TokenModel),
    (''MODELS'', TokenModels), (''PROVIDER'', TokenProvider),
    (''PROVIDERS'', TokenProviders), (''DEFAULT'', TokenDefault), (''CHATS'', TokenChats),
    (''CHAT'', TokenChat), (''OPENAI_CHAT'', TokenOpenaiChat), (''MESSAGE'', TokenMessage),
    (''IMAGE'', TokenImage), (''VIDEO'', TokenVideo), (''AUDIO'', TokenAudio),
    (''THINK'', TokenThink), (''EFFORT'', TokenEffort), (''VERBOSITY'', TokenVerbosity),
    (''NONE'', TokenNone), (''MINIMAL'', TokenMinimal), (''LOW'', TokenLow),
    (''MEDIUM'', TokenMedium), (''HIGH'', TokenHigh), (''MAX'', TokenMax),
    (''STORE'', TokenStore), (''ENGINE'', TokenEngine), (''STREAM'', TokenStream),
    (''LS'', TokenLS), (''CAT'', TokenCat), (''FILES'', TokenFiles), (''AS'', TokenAs),
    (''PARSE'', TokenParse), (''IMPORT'', TokenImport), (''INTO'', TokenInto),
    (''WITH'', TokenWith), (''PARSER'', TokenParser), (''PIPELINE'', TokenPipeline),
    (''GET'', TokenGet), (''SEARCH'', TokenSearch), (''AGENT'', TokenAgent),
    (''MEMORY'', TokenMemory), (''MEMORIES'', TokenMemories),
    (''RETRIEVE'', TokenRetrieve), (''CURRENT'', TokenCurrent), (''SOFT'', TokenSoft),
    (''FINGERPRINT'', TokenFingerprint), (''LICENSE'', TokenLicense),
    (''VISION'', TokenVision), (''EMBEDDING'', TokenEmbedding), (''RERANK'', TokenRerank),
    (''ASR'', TokenASR), (''TTS'', TokenTTS), (''EMBED'', TokenEmbed),
    (''TEXT'', TokenText), (''QUERY'', TokenQuery), (''TOP'', TokenTop),
    (''DIMENSION'', TokenDimension), (''OCR'', TokenOCR), (''DOC_PARSE'', TokenDocParse),
    (''ASYNC'', TokenAsync), (''SYNC'', TokenSync), (''SYNC_LOGS'', TokenSyncLogs),
    (''BENCHMARK'', TokenBenchmark), (''PING'', TokenPing), (''TOKEN'', TokenToken),
    (''TOKENS'', TokenTokens), (''INDEX'', TokenIndex), (''VECTOR'', TokenVector),
    (''SIZE'', TokenSize), (''METADATA'', TokenMetadata), (''TABLE'', TokenTable),
    (''AVAILABLE'', TokenAvailable), (''SUPPORTED'', TokenSupported),
    (''NAME'', TokenName), (''BALANCE'', TokenBalance), (''INSTANCE'', TokenInstance),
    (''INSTANCES'', TokenInstances), (''DISABLE'', TokenDisable),
    (''ENABLE'', TokenEnable), (''INSERT'', TokenInsert), (''FILE'', TokenFile),
    (''USE'', TokenUse), (''CHECK'', TokenCheck), (''UPDATE'', TokenUpdate),
    (''REMOVE'', TokenRemove), (''EXPLAIN'', TokenExplain), (''CHUNKS'', TokenChunks),
    (''DOCUMENT'', TokenDocument), (''DOCUMENTS'', TokenDocuments), (''TAGS'', TokenTag),
    (''REGION'', TokenRegion), (''URL'', TokenURL), (''TASK'', TokenTask),
    (''TASKS'', TokenTasks), (''START'', TokenStart), (''STOP'', TokenStop),
    (''INGESTOR'', TokenIngestor), (''INGESTORS'', TokenIngestors),
    (''INGESTION'', TokenIngestion), (''CACHE'', TokenCache), (''MQ'', TokenMQ),
    (''PUBLISH'', TokenPublish), (''PULL'', TokenPull), (''PENDING'', TokenPending),
    (''NOACK'', TokenNoACK), (''ANALYZE'', TokenAnalyze), (''SUMMARY'', TokenSummary),
    (''STATS'', TokenStats), (''STORAGE'', TokenStorage), (''QUOTA'', TokenQuota),
    (''TREE'', TokenTree), (''ORPHAN'', TokenOrphan), (''DAYS'', TokenDays),
    (''HOUR'', TokenHour), (''DAY'', TokenDay), (''MONTH'', TokenMonth),
    (''WINDOW'', TokenWindow), (''ACTIVITY'', TokenActivity), (''PURGE'', TokenPurge),
    (''PREVIEW'', TokenPreview), (''PLAN'', TokenPlan), (''DATA'', TokenData),
    (''LOG'', TokenLog), (''LOGS'', TokenLogs), (''LEVEL'', TokenLevel),
    (''DEBUG'', TokenDebug), (''INFO'', TokenInfo), (''IN'', TokenIn),
    (''WARN'', TokenWarn), (''ERROR'', TokenError), (''FATAL'', TokenFatal),
    (''PANIC'', TokenPanic), (''PARAM'', TokenParam), (''PLAY'', TokenPlay),
    (''FORMAT'', TokenFormat), (''SAVE'', TokenSave)]"

definition keywordType :: "string \<Rightarrow> nat option" where
  "keywordType upper = map_of keyword_table upper"

lemmas keywordType_chain = keywordType_def
  [unfolded keyword_table_def map_of.simps fst_conv snd_conv fun_upd_apply]

declare keywordType_chain [code]

text \<open>
  \<open>peekToken\<close> looks past the current byte, whatever that byte is, skips blanks and reads the
  identifier found there. \<open>lookupIdent\<close> uses it to join \<open>CHUNK\<close> and \<open>STORE\<close> into one token.
\<close>

definition lexer_peekToken :: "Lexer \<Rightarrow> string" where
  "lexer_peekToken l = takeWhile isIdentChar (dropWhile isBlank (drop (lx_readPos l) (lx_input l)))"

definition lookupIdent :: "string \<Rightarrow> Lexer \<Rightarrow> Token \<times> Lexer" where
  "lookupIdent ident l =
    (let upper = ToUpper ident
     in if upper = ''CHUNK''
        then (if ToUpper (lexer_peekToken l) = ''STORE''
              then (mkToken TokenChunkStore ''CHUNK STORE'', scan isIdentChar (scan isBlank l))
              else (mkToken TokenChunk ident, l))
        else (case keywordType upper of
                Some t \<Rightarrow> (mkToken t ident, l)
              | None \<Rightarrow> (mkToken TokenIdentifier ident, l)))"

definition newToken :: "nat \<Rightarrow> char \<Rightarrow> Token" where
  "newToken tokenType c = mkToken tokenType (if (of_char c :: nat) < 128 then [c]
     else [char_of (192 + (of_char c :: nat) div 64), char_of (128 + (of_char c :: nat) mod 64)])"

definition NextToken :: "Lexer \<Rightarrow> Token \<times> Lexer" where
  "NextToken l =
    (let l = skipWhitespace l; c = lx_ch l
     in if c = CHR '';'' then (newToken TokenSemicolon c, readChar l)
        else if c = CHR '','' then (newToken TokenComma c, readChar l)
        else if c = CHR ''/'' then (newToken TokenSlash c, readChar l)
        else if c = CHR ''-'' then (newToken TokenDash c, readChar l)
        else if c = CHR ''['' then (newToken TokenLBracket c, readChar l)
        else if c = CHR '']'' then (newToken TokenRBracket c, readChar l)
        else if c = CHR 0x27 \<or> c = CHR 0x22
          then (case readQuotedString c l of (v, l) \<Rightarrow> (mkToken TokenQuotedString v, l))
        else if c = CHR 0x5C
          then (case readMetaCommand l of (v, l) \<Rightarrow> (mkToken TokenIdentifier v, l))
        else if c = CHR 0x00 then (mkToken TokenEOF [], l)
        else if isLetter c \<or> c = CHR ''_''
          then (case readIdentifier l of (ident, l) \<Rightarrow> lookupIdent ident l)
        else if isDigit c
          then (case readNumber l of ((v, t), l) \<Rightarrow> (mkToken t v, l))
        else (newToken TokenIllegal c, readChar l))"

subsection \<open>A reference lexer on the unread input\<close>

text \<open>\<open>lex_number\<close> and \<open>lex_word\<close> split the unread input after a number or a word.\<close>

definition lex_number :: "string \<Rightarrow> Token \<times> string" where
  "lex_number s =
    (let whole = takeWhile isDigit s; r = dropWhile isDigit s
     in case r of
          d # f # r' \<Rightarrow>
            if d = CHR ''.'' \<and> isDigit f
            then (mkToken TokenFloat (whole @ d # takeWhile isDigit (f # r')),
                  dropWhile isDigit (f # r'))
            else (mkToken TokenInteger whole, r)
        | _ \<Rightarrow> (mkToken TokenInteger whole, r))"

definition lex_word :: "string \<Rightarrow> Token \<times> string" where
  "lex_word s =
    (let ident = takeWhile isIdentChar s; r = dropWhile isIdentChar s; upper = ToUpper ident
     in if upper = ''CHUNK''
        then (if ToUpper (takeWhile isIdentChar (dropWhile isBlank (drop 1 r))) = ''STORE''
              then (mkToken TokenChunkStore ''CHUNK STORE'',
                    dropWhile isIdentChar (dropWhile isBlank r))
              else (mkToken TokenChunk ident, r))
        else (case keywordType upper of
                Some t \<Rightarrow> (mkToken t ident, r)
              | None \<Rightarrow> (mkToken TokenIdentifier ident, r)))"

definition lex_quoted :: "char \<Rightarrow> string \<Rightarrow> Token \<times> string" where
  "lex_quoted q s =
    (let keep = (\<lambda>c. c \<noteq> q \<and> c \<noteq> CHR 0x00); r = dropWhile keep s
     in (mkToken TokenQuotedString (takeWhile keep s),
         case r of c # cs \<Rightarrow> if c = q then cs else r | [] \<Rightarrow> []))"

definition single_tokens :: "(char \<times> nat) list" where
  "single_tokens = [(CHR '';'', TokenSemicolon), (CHR '','', TokenComma), (CHR ''/'', TokenSlash),
    (CHR ''-'', TokenDash), (CHR ''['', TokenLBracket), (CHR '']'', TokenRBracket)]"

definition lex_rest :: "string \<Rightarrow> Token \<times> string" where
  "lex_rest s =
    (case dropWhile isBlank s of
       [] \<Rightarrow> (mkToken TokenEOF [], [])
     | c # cs \<Rightarrow>
         (case map_of single_tokens c of
            Some t \<Rightarrow> (newToken t c, cs)
          | None \<Rightarrow>
              if c = CHR 0x27 \<or> c = CHR 0x22 then lex_quoted c cs
              else if c = CHR 0x5C
              then (mkToken TokenIdentifier (c # takeWhile (\<lambda>c. isLetter c \<or> c = CHR ''?'') cs),
                    dropWhile (\<lambda>c. isLetter c \<or> c = CHR ''?'') cs)
              else if c = CHR 0x00 then (mkToken TokenEOF [], c # cs)
              else if isLetter c \<or> c = CHR ''_'' then lex_word (c # cs)
              else if isDigit c then lex_number (c # cs)
              else (newToken TokenIllegal c, cs)))"

subsection \<open>The lexer computes the reference\<close>

definition lex_ok :: "Lexer \<Rightarrow> bool" where
  "lex_ok l = (lx_pos l \<le> length (lx_input l) \<and> lx_readPos l = Suc (lx_pos l) \<and>
     lx_ch l = byte_at (lx_input l) (lx_pos l))"

definition unread :: "Lexer \<Rightarrow> string" where
  "unread l = drop (lx_pos l) (lx_input l)"

definition head_byte :: "string \<Rightarrow> char" where
  "head_byte s = (case s of [] \<Rightarrow> CHR 0x00 | c # _ \<Rightarrow> c)"

lemma NewLexer_ok: "lex_ok (NewLexer s)" and NewLexer_unread: "unread (NewLexer s) = s"
  and NewLexer_input [simp]: "lx_input (NewLexer s) = s"
  by (simp_all add: NewLexer_def readChar_def lex_ok_def unread_def)

lemma ch_unread: "lex_ok l \<Longrightarrow> lx_ch l = head_byte (unread l)"
  by (auto simp: lex_ok_def unread_def head_byte_def byte_at_def hd_drop_conv_nth split: list.splits)
     (metis list.sel(1) hd_drop_conv_nth not_le)

lemma peek_unread: "lex_ok l \<Longrightarrow> peekChar l = head_byte (drop 1 (unread l))"
  by (auto simp: lex_ok_def unread_def head_byte_def byte_at_def peekChar_def split: list.splits)
     (metis list.sel(1) hd_drop_conv_nth not_le)

lemma readChar_input [simp]: "lx_input (readChar l) = lx_input l"
  by (simp add: readChar_def)

lemma readChar_step:
  assumes "lex_ok l" and "unread l = c # cs"
  shows "lex_ok (readChar l)" and "unread (readChar l) = cs" and "lx_pos (readChar l) = Suc (lx_pos l)"
proof -
  have p: "lx_pos l < length (lx_input l)" using assms(2) by (auto simp: unread_def not_le [symmetric])
  then show "lex_ok (readChar l)" using assms(1) by (simp add: lex_ok_def readChar_def)
  show "unread (readChar l) = cs"
    using assms by (simp add: lex_ok_def readChar_def unread_def drop_Suc tl_drop [symmetric])
  show "lx_pos (readChar l) = Suc (lx_pos l)" using assms(1) by (simp add: lex_ok_def readChar_def)
qed

text \<open>\<open>scan\<close> drops the longest run of bytes that satisfy the condition.\<close>

lemma scan_spec:
  assumes "lex_ok l" and "\<not> P (CHR 0x00)"
  shows "lex_ok (scan P l) \<and> lx_input (scan P l) = lx_input l \<and>
    unread (scan P l) = dropWhile P (unread l) \<and>
    lx_pos (scan P l) = lx_pos l + length (takeWhile P (unread l))"
  using assms
proof (induction P l rule: scan.induct)
  case (1 P l)
  show ?case
  proof (cases "P (lx_ch l) \<and> lx_ch l \<noteq> CHR 0x00")
    case True
    then obtain cs where u: "unread l = lx_ch l # cs"
      using ch_unread [OF 1(2)] by (auto simp: head_byte_def split: list.splits)
    show ?thesis
      using 1(1) [OF True readChar_step(1) [OF 1(2) u] 1(3)] True
        readChar_step(2,3) [OF 1(2) u] u
      by (subst (1 2 3 4) scan.simps) simp
  next
    case False
    then have "\<not> P (head_byte (unread l))" using ch_unread [OF 1(2)] 1(3) by auto
    then show ?thesis using 1(2) False
      by (subst (1 2 3 4) scan.simps) (auto simp: head_byte_def split: list.splits)
  qed
qed

lemmas scan_facts = scan_spec [THEN conjunct1] scan_spec [THEN conjunct2, THEN conjunct1]
  scan_spec [THEN conjunct2, THEN conjunct2, THEN conjunct1]
  scan_spec [THEN conjunct2, THEN conjunct2, THEN conjunct2]

lemma slice_split:
  assumes "lex_ok l" and "lx_input l' = lx_input l" and "lx_pos l' = lx_pos l + n"
  shows "slice_from (lx_pos l) l' = take n (unread l)"
  using assms by (simp add: slice_from_def unread_def)

lemma zero_not [simp]:
  "\<not> isLetter (CHR 0x00)" "\<not> isDigit (CHR 0x00)" "\<not> isBlank (CHR 0x00)" "\<not> isIdentChar (CHR 0x00)"
  by (simp_all add: isLetter_def isDigit_def isBlank_def isIdentChar_def)

definition lex_step_ok :: "Lexer \<Rightarrow> Lexer \<Rightarrow> string \<Rightarrow> bool" where
  "lex_step_ok l l' r = (lex_ok l' \<and> lx_input l' = lx_input l \<and> unread l' = r)"

lemma scan_step:
  assumes "lex_ok l" and "\<not> P (CHR 0x00)"
  shows "lex_step_ok l (scan P l) (dropWhile P (unread l))"
    and "slice_from (lx_pos l) (scan P l) = takeWhile P (unread l)"
proof -
  show "lex_step_ok l (scan P l) (dropWhile P (unread l))"
    using scan_spec [where P = P, OF assms] by (simp add: lex_step_ok_def)
  have "slice_from (lx_pos l) (scan P l) = take (length (takeWhile P (unread l))) (unread l)"
    using scan_spec [where P = P, OF assms] by (intro slice_split [OF assms(1)]) simp_all
  then show "slice_from (lx_pos l) (scan P l) = takeWhile P (unread l)"
    by (simp add: takeWhile_eq_take [symmetric])
qed

lemma step_trans:
  "lex_step_ok l l' r \<Longrightarrow> lex_step_ok l' l'' r' \<Longrightarrow> lex_step_ok l l'' r'"
  by (simp add: lex_step_ok_def)

lemma readChar_lex_step:
  "lex_ok l \<Longrightarrow> unread l = c # cs \<Longrightarrow> lex_step_ok l (readChar l) cs"
  by (simp add: lex_step_ok_def readChar_step)

text \<open>A scan after the current byte: the slice from that byte on is the byte and the run.\<close>

lemma scan_after:
  assumes "lex_ok l" and "unread l = c # cs" and "\<not> P (CHR 0x00)"
  shows "lex_step_ok l (scan P (readChar l)) (dropWhile P cs)"
    and "slice_from (lx_pos l) (scan P (readChar l)) = c # takeWhile P cs"
proof -
  note r = readChar_step [OF assms(1,2)]
  show "lex_step_ok l (scan P (readChar l)) (dropWhile P cs)"
    using scan_spec [where P = P, OF r(1) assms(3)] r(2) by (simp add: lex_step_ok_def)
  have "slice_from (lx_pos l) (scan P (readChar l))
      = take (Suc (length (takeWhile P cs))) (unread l)"
    using scan_spec [where P = P, OF r(1) assms(3)] r(2,3) by (intro slice_split [OF assms(1)]) simp_all
  then show "slice_from (lx_pos l) (scan P (readChar l)) = c # takeWhile P cs"
    using assms(2) by (simp add: takeWhile_eq_take [symmetric])
qed

lemma lexer_peekToken_spec:
  "lex_ok l \<Longrightarrow> lexer_peekToken l = takeWhile isIdentChar (dropWhile isBlank (drop 1 (unread l)))"
  by (simp add: lexer_peekToken_def lex_ok_def unread_def)

lemma lookupIdent_spec:
  assumes "lex_ok l" and "lex_ok l0" and "unread l = dropWhile isIdentChar (unread l0)"
    and "lx_input l = lx_input l0"
  shows "fst (lookupIdent (takeWhile isIdentChar (unread l0)) l) = fst (lex_word (unread l0)) \<and>
    lex_step_ok l0 (snd (lookupIdent (takeWhile isIdentChar (unread l0)) l))
      (snd (lex_word (unread l0)))"
proof -
  have a: "lex_step_ok l0 (scan isIdentChar (scan isBlank l))
      (dropWhile isIdentChar (dropWhile isBlank (dropWhile isIdentChar (unread l0))))"
    using scan_step(1) [of "scan isBlank l" isIdentChar] scan_step(1) [of l isBlank] assms
    by (simp add: lex_step_ok_def)
  have b: "lex_step_ok l0 l (dropWhile isIdentChar (unread l0))"
    using assms by (simp add: lex_step_ok_def)
  show ?thesis
    using a b lexer_peekToken_spec [OF assms(1)] assms(3)
    by (simp add: lookupIdent_def lex_word_def Let_def split: option.split)
qed

lemma readIdentifier_spec:
  assumes "lex_ok l"
  shows "fst (readIdentifier l) = takeWhile isIdentChar (unread l) \<and>
    lex_step_ok l (snd (readIdentifier l)) (dropWhile isIdentChar (unread l))"
  using scan_step [OF assms, of isIdentChar] by (simp add: readIdentifier_def Let_def)

lemma word_spec:
  assumes "lex_ok l"
  shows "fst (case readIdentifier l of (i, l) \<Rightarrow> lookupIdent i l) = fst (lex_word (unread l)) \<and>
    lex_step_ok l (snd (case readIdentifier l of (i, l) \<Rightarrow> lookupIdent i l)) (snd (lex_word (unread l)))"
  using readIdentifier_spec [OF assms] lookupIdent_spec [of "snd (readIdentifier l)" l] assms
  by (cases "readIdentifier l") (simp add: lex_step_ok_def)

lemma number_spec:
  assumes "lex_ok l"
  shows "(case readNumber l of ((v, t), l') \<Rightarrow> mkToken t v = fst (lex_number (unread l)) \<and>
    lex_step_ok l l' (snd (lex_number (unread l))))"
proof -
  define m where "m = scan isDigit l"
  have m: "lex_ok m" "lx_input m = lx_input l" "unread m = dropWhile isDigit (unread l)"
      "lx_pos m = lx_pos l + length (takeWhile isDigit (unread l))"
    using scan_spec [OF assms, of isDigit] by (auto simp: m_def)
  have w: "slice_from (lx_pos l) m = takeWhile isDigit (unread l)"
    using scan_step(2) [OF assms, of isDigit] by (simp add: m_def)
  have short: ?thesis if "\<not> (lx_ch m = CHR ''.'' \<and> isDigit (peekChar m))"
  proof -
    have "lex_number (unread l) = (mkToken TokenInteger (takeWhile isDigit (unread l)), unread m)"
      using that ch_unread [OF m(1)] peek_unread [OF m(1)] m(3)
      by (auto simp: lex_number_def Let_def head_byte_def simp del: dropWhile_eq_Nil_conv
          split: list.splits if_splits)
    then show ?thesis using that w m
      by (simp add: readNumber_def Let_def m_def [symmetric] lex_step_ok_def)
  qed
  have long: ?thesis if d: "lx_ch m = CHR ''.''" and p: "isDigit (peekChar m)"
  proof -
    obtain f r where u: "unread m = CHR ''.'' # f # r" and f: "isDigit f"
      using d p ch_unread [OF m(1)] peek_unread [OF m(1)]
      by (auto simp: head_byte_def split: list.splits)
    define k where "k = scan isDigit (readChar m)"
    note r = readChar_step [OF m(1) u]
    have k: "lex_ok k" "lx_input k = lx_input l" "unread k = dropWhile isDigit (f # r)"
        "lx_pos k = Suc (lx_pos m) + length (takeWhile isDigit (f # r))"
      using scan_spec [OF r(1), of isDigit] r m(2) by (simp_all add: k_def)
    have "slice_from (lx_pos l) k = take (length (takeWhile isDigit (unread l)) +
        Suc (length (takeWhile isDigit (f # r)))) (unread l)"
      by (rule slice_split [OF assms k(2)]) (simp add: k(4) m(4))
    moreover have "unread l = takeWhile isDigit (unread l) @ CHR ''.'' # f # r"
      using takeWhile_dropWhile_id [of isDigit "unread l"] m(3) u by simp
    moreover have "take (length w + Suc (length (takeWhile isDigit t))) (w @ x # t)
        = w @ x # takeWhile isDigit t" for w t and x :: char
      by (simp add: takeWhile_eq_take [symmetric])
    ultimately have "slice_from (lx_pos l) k =
        takeWhile isDigit (unread l) @ CHR ''.'' # takeWhile isDigit (f # r)"
      by metis
    then show ?thesis using d p u f k m(3)
      by (simp add: readNumber_def Let_def m_def [symmetric] k_def [symmetric] lex_number_def
          lex_step_ok_def)
  qed
  show ?thesis by (cases "lx_ch m = CHR ''.'' \<and> isDigit (peekChar m)") (use short long in simp_all)
qed

lemma quoted_spec:
  assumes "lex_ok l" and "unread l = q # cs" and "q \<noteq> CHR 0x00"
  shows "(case readQuotedString q l of (v, l') \<Rightarrow> mkToken TokenQuotedString v = fst (lex_quoted q cs) \<and>
    lex_step_ok l l' (snd (lex_quoted q cs)))"
proof -
  let ?P = "\<lambda>c. c \<noteq> q \<and> c \<noteq> CHR 0x00"
  note r = readChar_step [OF assms(1,2)]
  define m where "m = scan ?P (readChar l)"
  have m: "lex_ok m" "lx_input m = lx_input l" "unread m = dropWhile ?P cs"
    using scan_spec [OF r(1), of ?P] r(2) by (auto simp: m_def)
  have v: "slice_from (lx_pos (readChar l)) m = takeWhile ?P cs"
    using scan_step(2) [OF r(1), of ?P] r(2) by (simp add: m_def)
  show ?thesis
  proof (cases "unread m")
    case Nil
    then show ?thesis using v m ch_unread [OF m(1)] assms(3)
      by (simp add: readQuotedString_def Let_def m_def [symmetric] lex_quoted_def lex_step_ok_def
          head_byte_def del: dropWhile_eq_Nil_conv)
  next
    case (Cons c rest)
    then have c: "lx_ch m = c" using ch_unread [OF m(1)] by (simp add: head_byte_def)
    show ?thesis using v m(1,2) c Cons readChar_step [OF m(1) Cons]
      unfolding m(3) [symmetric]
      by (simp add: readQuotedString_def Let_def m_def [symmetric] lex_quoted_def lex_step_ok_def
          m(3) [symmetric])
  qed
qed

lemma metaCommand_spec:
  assumes "lex_ok l" and "unread l = c # cs"
  shows "(case readMetaCommand l of (v, l') \<Rightarrow>
    v = c # takeWhile (\<lambda>c. isLetter c \<or> c = CHR ''?'') cs \<and>
    lex_step_ok l l' (dropWhile (\<lambda>c. isLetter c \<or> c = CHR ''?'') cs))"
  using scan_after [OF assms, of "\<lambda>c. isLetter c \<or> c = CHR ''?''"]
  by (simp add: readMetaCommand_def Let_def)

definition lex_rel :: "Lexer \<Rightarrow> Token \<times> Lexer \<Rightarrow> Token \<times> string \<Rightarrow> bool" where
  "lex_rel l x y = (fst x = fst y \<and> lex_step_ok l (snd x) (snd y))"

lemma lex_rel_if:
  "(b \<Longrightarrow> lex_rel l x y) \<Longrightarrow> (\<not> b \<Longrightarrow> lex_rel l x' y') \<Longrightarrow>
    lex_rel l (if b then x else x') (if b then y else y')"
  by simp

lemma lex_rest_Cons:
  "\<not> isBlank c \<Longrightarrow> lex_rest (c # cs) =
    (if c = CHR '';'' then (newToken TokenSemicolon c, cs)
     else if c = CHR '','' then (newToken TokenComma c, cs)
     else if c = CHR ''/'' then (newToken TokenSlash c, cs)
     else if c = CHR ''-'' then (newToken TokenDash c, cs)
     else if c = CHR ''['' then (newToken TokenLBracket c, cs)
     else if c = CHR '']'' then (newToken TokenRBracket c, cs)
     else if c = CHR 0x27 \<or> c = CHR 0x22 then lex_quoted c cs
     else if c = CHR 0x5C
     then (mkToken TokenIdentifier (c # takeWhile (\<lambda>c. isLetter c \<or> c = CHR ''?'') cs),
           dropWhile (\<lambda>c. isLetter c \<or> c = CHR ''?'') cs)
     else if c = CHR 0x00 then (mkToken TokenEOF [], c # cs)
     else if isLetter c \<or> c = CHR ''_'' then lex_word (c # cs)
     else if isDigit c then lex_number (c # cs)
     else (newToken TokenIllegal c, cs))"
  by (simp add: lex_rest_def single_tokens_def)

lemma NextToken_rel:
  assumes "lex_ok l"
  shows "lex_rel l (NextToken l) (lex_rest (unread l))"
proof -
  define m where "m = skipWhitespace l"
  have m: "lex_ok m" "lx_input m = lx_input l" "unread m = dropWhile isBlank (unread l)"
    using scan_spec [OF assms, of isBlank] by (auto simp: m_def skipWhitespace_def)
  have via: "lex_rel l x y" if "lex_rel m x y" for x y
    using that m(2) by (simp add: lex_rel_def lex_step_ok_def)
  have rest: "lex_rest (unread l) = lex_rest (unread m)"
    by (cases "unread m") (use m(3) hd_dropWhile [of isBlank "unread l"] in \<open>simp_all add: lex_rest_def\<close>)
  show ?thesis
  proof (cases "unread m")
    case Nil
    then have "lx_ch m = CHR 0x00" using ch_unread [OF m(1)] by (simp add: head_byte_def)
    then show ?thesis using Nil m(1,2) rest
      by (simp add: NextToken_def m_def [symmetric] lex_rel_def lex_rest_def lex_step_ok_def)
  next
    case (Cons a as)
    then have ch: "lx_ch m = a" using ch_unread [OF m(1)] by (simp add: head_byte_def)
    have nb: "\<not> isBlank a" using m(3) Cons by (metis hd_dropWhile list.distinct(1) list.sel(1))
    have one: "lex_rel m (t, readChar m) (t, as)" for t
      using readChar_lex_step [OF m(1) Cons] by (simp add: lex_rel_def)
    have stay: "lex_rel m (t, m) (t, a # as)" for t
      using m(1) Cons by (simp add: lex_rel_def lex_step_ok_def)
    have word: "lex_rel m (case readIdentifier m of (i, l) \<Rightarrow> lookupIdent i l) (lex_word (a # as))"
      using word_spec [OF m(1)] Cons by (simp add: lex_rel_def)
    have num: "lex_rel m (case readNumber m of ((v, t), l) \<Rightarrow> (mkToken t v, l)) (lex_number (a # as))"
      using number_spec [OF m(1)] Cons by (simp add: lex_rel_def split: prod.splits)
    have meta: "lex_rel m (case readMetaCommand m of (v, l) \<Rightarrow> (mkToken TokenIdentifier v, l))
        (mkToken TokenIdentifier (a # takeWhile (\<lambda>c. isLetter c \<or> c = CHR ''?'') as),
         dropWhile (\<lambda>c. isLetter c \<or> c = CHR ''?'') as)"
      using metaCommand_spec [OF m(1) Cons] by (simp add: lex_rel_def split: prod.splits)
    have quoted: "lex_rel m (case readQuotedString a m of (v, l) \<Rightarrow> (mkToken TokenQuotedString v, l))
        (lex_quoted a as)" if "a = CHR 0x27 \<or> a = CHR 0x22"
    proof -
      have "a \<noteq> CHR 0x00" using that by auto
      from quoted_spec [OF m(1) Cons this] show ?thesis
        by (simp add: lex_rel_def split: prod.splits)
    qed
    show ?thesis
      unfolding NextToken_def Let_def m_def [symmetric] ch rest Cons lex_rest_Cons [OF nb]
      by (rule via) (intro lex_rel_if one stay word num meta quoted)
  qed
qed

lemma NextToken_refines:
  "lex_ok l \<Longrightarrow> fst (NextToken l) = fst (lex_rest (unread l)) \<and> lex_ok (snd (NextToken l)) \<and>
    lx_input (snd (NextToken l)) = lx_input l \<and> unread (snd (NextToken l)) = snd (lex_rest (unread l))"
  using NextToken_rel [of l] by (simp add: lex_rel_def lex_step_ok_def)

subsection \<open>Progress\<close>

text \<open>Every token but the end of the input consumes at least one byte.\<close>

lemma scan_left: "lexer_left (scan P l) \<le> lexer_left l"
proof (induction P l rule: scan.induct)
  case (1 P l)
  then show ?case using readChar_left [of l] by (subst scan.simps) auto
qed

lemma scan_left_less: "lexer_left l < n \<Longrightarrow> lexer_left (scan P l) < n"
  using scan_left [of P l] by linarith

lemma quoted_left:
  assumes "lx_ch l \<noteq> CHR 0x00" and "q \<noteq> CHR 0x00"
  shows "lexer_left (snd (readQuotedString q l)) < lexer_left l"
proof -
  define m where "m = scan (\<lambda>c. c \<noteq> q \<and> c \<noteq> CHR 0x00) (readChar l)"
  have m: "lexer_left m < lexer_left l"
    unfolding m_def by (rule scan_left_less [OF readChar_left [OF assms(1)]])
  moreover have "lexer_left (readChar m) < lexer_left m" if "lx_ch m = q"
    using that assms(2) by (intro readChar_left) simp
  ultimately show ?thesis by (auto simp: readQuotedString_def Let_def m_def [symmetric])
qed

lemma scan_head_less:
  assumes "P (lx_ch l)" and "\<not> P (CHR 0x00)"
  shows "lexer_left (scan P l) < lexer_left l"
proof -
  have z: "lx_ch l \<noteq> CHR 0x00" using assms by metis
  then have "scan P l = scan P (readChar l)" using assms(1) by (subst scan.simps) simp
  then show ?thesis using scan_left_less [OF readChar_left [OF z]] by simp
qed

lemma lookupIdent_left: "lexer_left (snd (lookupIdent i l)) \<le> lexer_left l"
  using scan_left [of isIdentChar "scan isBlank l"] scan_left [of isBlank l]
  by (auto simp: lookupIdent_def Let_def split: option.splits)

lemma number_left:
  assumes "isDigit (lx_ch l)"
  shows "lexer_left (snd (readNumber l)) < lexer_left l"
proof -
  define m where "m = scan isDigit l"
  have m: "lexer_left m < lexer_left l" using scan_head_less [of isDigit l] assms by (simp add: m_def)
  moreover have "lexer_left (scan isDigit (readChar m)) < lexer_left l" if "lx_ch m = CHR ''.''"
    by (rule scan_left_less) (use readChar_left [of m] that m in simp)
  ultimately show ?thesis by (auto simp: readNumber_def Let_def m_def [symmetric])
qed

lemma NextToken_left:
  "lexer_left (snd (NextToken l)) \<le> lexer_left l"
  "Tok_Type (fst (NextToken l)) \<noteq> TokenEOF \<Longrightarrow> lexer_left (snd (NextToken l)) < lexer_left l"
proof -
  define m where "m = skipWhitespace l"
  have m: "lexer_left m \<le> lexer_left l" by (simp add: m_def skipWhitespace_def scan_left)
  have word: "lexer_left (snd (case readIdentifier m of (i, l) \<Rightarrow> lookupIdent i l)) < lexer_left m"
    if "isLetter (lx_ch m) \<or> lx_ch m = CHR ''_''"
    using lookupIdent_left [of "fst (readIdentifier m)" "snd (readIdentifier m)"]
      scan_head_less [of isIdentChar m] that
    by (auto simp: readIdentifier_def Let_def isIdentChar_def)
  have meta: "lexer_left (snd (readMetaCommand m)) < lexer_left m" if "lx_ch m \<noteq> CHR 0x00"
    using readChar_left [OF that] by (simp add: readMetaCommand_def Let_def scan_left_less)
  have "lexer_left (snd (NextToken l)) < lexer_left m \<or>
      NextToken l = (mkToken TokenEOF [], m)"
    using readChar_left [of m] word meta number_left [of m] quoted_left [of m "lx_ch m"]
    unfolding NextToken_def Let_def m_def [symmetric] by (auto split: prod.splits)
  then show "lexer_left (snd (NextToken l)) \<le> lexer_left l"
    and "Tok_Type (fst (NextToken l)) \<noteq> TokenEOF \<Longrightarrow> lexer_left (snd (NextToken l)) < lexer_left l"
    using m by auto
qed

end
