(* ===== verification/Cli_Base.thy ===== *)
theory Cli_Base
  imports Cli_Lexer
begin

text \<open>
  The core of the recursive descent parser of the command line client (\<open>internal/cli/parser.go\<close>,
  the \<open>Command\<close> of \<open>internal/cli/types.go\<close> and the helpers its methods share).

  A \<open>Parser\<close> is the source's struct. A method that only reads the current token is a function into
  \<open>fmsg + 'a\<close>; one that moves the cursor returns a \<open>'a res\<close>: the value and the parser after it, the
  error, or \<open>PHang\<close>. \<open>PHang\<close> stands for a loop that would come round without having consumed a
  token; the parsers are shown never to return it, so the value is not a limit of the model.

  An error is kept as its format and arguments, \<open>Errf fmt args\<close>, not as rendered text. A parameter
  of a command is a \<open>cval\<close>, one constructor per Go type stored in \<open>Params\<close>; a nil and an empty slice
  are both the empty list, and a \<open>float64\<close> read from the input is the decimal it was parsed from,
  \<open>CFloat m k\<close> for the number nearest to \<open>m / 10^k\<close>.
\<close>

subsection \<open>Errors, values and commands\<close>

datatype fmsg = Txt string | Dec int | Errf string "fmsg list"

datatype cval =
    CStr string | CInt int | CBool bool | CFloat nat nat
  | CStrs "string list" | CInts "int list"
  | CMap "string \<Rightarrow> cval option" | CMaps "(string \<Rightarrow> cval option) list"
  | CCmd string "string \<Rightarrow> cval option"

record Command =
  Cmd_Type :: string
  Cmd_Params :: "string \<Rightarrow> cval option"

definition NewCommand :: "string \<Rightarrow> Command" where
  "NewCommand cmdType = \<lparr>Cmd_Type = cmdType, Cmd_Params = Map.empty\<rparr>"

text \<open>The assignment \<open>cmd.Params[k] = v\<close>.\<close>

definition setParam :: "string \<Rightarrow> cval \<Rightarrow> Command \<Rightarrow> Command" where
  "setParam k v cmd = cmd\<lparr>Cmd_Params := (Cmd_Params cmd)(k \<mapsto> v)\<rparr>"

lemma NewCommand_Type [simp]: "Cmd_Type (NewCommand t) = t"
  and NewCommand_Params [simp]: "Cmd_Params (NewCommand t) = Map.empty"
  by (simp_all add: NewCommand_def)

lemma setParam_Type [simp]: "Cmd_Type (setParam k v cmd) = Cmd_Type cmd"
  and setParam_Params [simp]: "Cmd_Params (setParam k v cmd) = (Cmd_Params cmd)(k \<mapsto> v)"
  by (simp_all add: setParam_def)

subsection \<open>The parser state\<close>

record Parser =
  ps_lexer :: Lexer
  ps_cur :: Token
  ps_peek :: Token
  ps_original :: string

abbreviation curType :: "Parser \<Rightarrow> nat" where "curType p \<equiv> Tok_Type (ps_cur p)"
abbreviation curValue :: "Parser \<Rightarrow> string" where "curValue p \<equiv> Tok_Value (ps_cur p)"

definition nextToken :: "Parser \<Rightarrow> Parser" where
  "nextToken p =
    (case NextToken (ps_lexer p) of
       (t, l) \<Rightarrow> p\<lparr>ps_cur := ps_peek p, ps_peek := t, ps_lexer := l\<rparr>)"

definition NewParser :: "string \<Rightarrow> Parser" where
  "NewParser s = nextToken (nextToken
     \<lparr>ps_lexer = NewLexer s, ps_cur = mkToken 0 [], ps_peek = mkToken 0 [], ps_original = s\<rparr>)"

text \<open>The idiom \<open>if p.curToken.Type == TokenSemicolon { p.nextToken() }\<close> that ends most methods.\<close>

definition optSemicolon :: "Parser \<Rightarrow> Parser" where
  "optSemicolon p = (if curType p = TokenSemicolon then nextToken p else p)"

text \<open>
  What the parser relies on of the lexer is that it runs dry: every token but the end of the input
  takes something away from it. Under that law the two-token window of the parser runs dry as well.
\<close>

definition tok_weight :: "Token \<Rightarrow> nat" where
  "tok_weight t = (if Tok_Type t = TokenEOF then 0 else 1)"

locale token_source =
  fixes nxt :: "'l \<Rightarrow> Token \<times> 'l" and left :: "'l \<Rightarrow> nat"
  assumes nxt_le: "left (snd (nxt l)) \<le> left l"
    and nxt_less: "Tok_Type (fst (nxt l)) \<noteq> TokenEOF \<Longrightarrow> left (snd (nxt l)) < left l"
begin

lemma window_le:
  "left (snd (nxt l)) + tok_weight b + tok_weight (fst (nxt l)) \<le> left l + tok_weight a + tok_weight b"
  using nxt_le [of l] nxt_less [of l] by (auto simp: tok_weight_def)

lemma window_less:
  "Tok_Type a \<noteq> TokenEOF \<Longrightarrow>
    left (snd (nxt l)) + tok_weight b + tok_weight (fst (nxt l)) < left l + tok_weight a + tok_weight b"
  using nxt_le [of l] nxt_less [of l] by (auto simp: tok_weight_def)

end

interpretation lx: token_source NextToken lexer_left
  by unfold_locales (fact NextToken_left)+

definition parser_left :: "Parser \<Rightarrow> nat" where
  "parser_left p = lexer_left (ps_lexer p) + tok_weight (ps_cur p) + tok_weight (ps_peek p)"

lemma nextToken_left_le: "parser_left (nextToken p) \<le> parser_left p"
  using lx.window_le [of "ps_lexer p" "ps_peek p" "ps_cur p"]
  by (cases "NextToken (ps_lexer p)") (simp add: parser_left_def nextToken_def)

lemma nextToken_left: "curType p \<noteq> TokenEOF \<Longrightarrow> parser_left (nextToken p) < parser_left p"
  using lx.window_less [of "ps_cur p" "ps_lexer p" "ps_peek p"]
  by (cases "NextToken (ps_lexer p)") (simp add: parser_left_def nextToken_def)

lemma optSemicolon_left_le: "parser_left (optSemicolon p) \<le> parser_left p"
  by (simp add: optSemicolon_def nextToken_left_le)

lemma nextToken_less: "parser_left p < n \<Longrightarrow> parser_left (nextToken p) < n"
  using nextToken_left_le [of p] by linarith

lemma optSemicolon_less: "parser_left p < n \<Longrightarrow> parser_left (optSemicolon p) < n"
  using optSemicolon_left_le [of p] by linarith

subsection \<open>Results\<close>

datatype 'a res = POk 'a Parser | PErr fmsg | PHang

fun bindR :: "'a res \<Rightarrow> ('a \<Rightarrow> Parser \<Rightarrow> 'b res) \<Rightarrow> 'b res" where
  "bindR (POk a p) f = f a p"
| "bindR (PErr e) f = PErr e"
| "bindR PHang f = PHang"

text \<open>The loop \<open>for { body }\<close>: the body ends with the new loop state (\<open>Inl\<close>, go round again), with
  the value at a \<open>break\<close> (\<open>Inr\<close>) or with an error.\<close>

function ploop :: "('s \<Rightarrow> Parser \<Rightarrow> ('s + 'b) res) \<Rightarrow> 's \<Rightarrow> Parser \<Rightarrow> 'b res" where
  "ploop body s p =
    (case body s p of
       PErr e \<Rightarrow> PErr e
     | PHang \<Rightarrow> PHang
     | POk (Inr b) p' \<Rightarrow> POk b p'
     | POk (Inl s') p' \<Rightarrow> if parser_left p' < parser_left p then ploop body s' p' else PHang)"
  by pat_completeness auto
termination by (relation "measure (\<lambda>(body, s, p). parser_left p)") auto

declare ploop.simps [simp del]

text \<open>\<open>returns_with Q r\<close>: the parser returned, and on success \<open>Q\<close> returns_with of the value and the state.\<close>

definition returns_with :: "('a \<Rightarrow> Parser \<Rightarrow> bool) \<Rightarrow> 'a res \<Rightarrow> bool" where
  "returns_with Q r = (case r of POk a p \<Rightarrow> Q a p | PErr _ \<Rightarrow> True | PHang \<Rightarrow> False)"

named_theorems wp_simps \<open>weakest preconditions of the parser combinators\<close>

lemma wp_basic [wp_simps]:
  "returns_with Q (POk a p) = Q a p" "returns_with Q (PErr e) = True" "returns_with Q PHang = False"
  by (simp_all add: returns_with_def)

lemma wp_bindR [wp_simps]: "returns_with Q (bindR m f) = returns_with (\<lambda>a p. returns_with Q (f a p)) m"
  by (cases m) (simp_all add: returns_with_def)

lemma wp_if [wp_simps]:
  "returns_with Q (if b then x else y) = ((b \<longrightarrow> returns_with Q x) \<and> (\<not> b \<longrightarrow> returns_with Q y))"
  by simp

lemma wp_sum [wp_simps]:
  "returns_with Q (case_sum f g x) = ((\<forall>e. x = Inl e \<longrightarrow> returns_with Q (f e)) \<and> (\<forall>v. x = Inr v \<longrightarrow> returns_with Q (g v)))"
  by (cases x) simp_all

lemma wp_option [wp_simps]:
  "returns_with Q (case_option a g x) = ((x = None \<longrightarrow> returns_with Q a) \<and> (\<forall>v. x = Some v \<longrightarrow> returns_with Q (g v)))"
  by (cases x) simp_all

lemma wp_let [wp_simps]: "returns_with Q (Let a f) = returns_with Q (f a)"
  by simp

lemma wp_prod [wp_simps]: "returns_with Q (case_prod f x) = (\<forall>a b. x = (a, b) \<longrightarrow> returns_with Q (f a b))"
  by (cases x) simp

lemma wp_mono: "returns_with Q r \<Longrightarrow> (\<And>a p. Q a p \<Longrightarrow> Q' a p) \<Longrightarrow> returns_with Q' r"
  by (auto simp: returns_with_def split: res.splits)

lemma wp_ploop:
  assumes "I s" and body: "\<And>s p. I s \<Longrightarrow>
      returns_with (\<lambda>r p'. case r of Inl s' \<Rightarrow> I s' \<and> parser_left p' < parser_left p | Inr b \<Rightarrow> Q b) (body s p)"
  shows "returns_with (\<lambda>b p. Q b) (ploop body s p)"
  using assms(1)
proof (induction "parser_left p" arbitrary: s p rule: less_induct)
  case less
  show ?case
  proof (cases "body s p")
    case (POk r q)
    show ?thesis
      using body [OF less.prems, of p] less.hyps [of q] POk
      by (subst ploop.simps) (cases r; simp add: wp_basic)
  qed (use body [OF less.prems, of p] in \<open>subst ploop.simps; simp add: wp_basic\<close>)+
qed

subsection \<open>Strings of the Go library\<close>

text \<open>
  \<open>space_runes\<close> lists the UTF-8 encodings of the characters with \<open>unicode.IsSpace\<close>. A start byte of
  an encoding never occurs inside another one, so cutting these byte sequences off either end of a
  string is \<open>strings.TrimSpace\<close>, and splitting at them is \<open>strings.Fields\<close>.
\<close>

definition bytes :: "nat list \<Rightarrow> string" where
  "bytes ns = map char_of ns"

definition space_runes :: "string list" where
  "space_runes = [
    [CHR 0x09], [CHR 0x0A], [CHR 0x0B], [CHR 0x0C], [CHR 0x0D], [CHR 0x20],
    [CHR 0xC2, CHR 0x85], [CHR 0xC2, CHR 0xA0], [CHR 0xE1, CHR 0x9A, CHR 0x80],
    [CHR 0xE2, CHR 0x80, CHR 0x80], [CHR 0xE2, CHR 0x80, CHR 0x81], [CHR 0xE2, CHR 0x80, CHR 0x82], [CHR 0xE2, CHR 0x80, CHR 0x83],
    [CHR 0xE2, CHR 0x80, CHR 0x84], [CHR 0xE2, CHR 0x80, CHR 0x85], [CHR 0xE2, CHR 0x80, CHR 0x86], [CHR 0xE2, CHR 0x80, CHR 0x87],
    [CHR 0xE2, CHR 0x80, CHR 0x88], [CHR 0xE2, CHR 0x80, CHR 0x89], [CHR 0xE2, CHR 0x80, CHR 0x8A],
    [CHR 0xE2, CHR 0x80, CHR 0xA8], [CHR 0xE2, CHR 0x80, CHR 0xA9], [CHR 0xE2, CHR 0x80, CHR 0xAF],
    [CHR 0xE2, CHR 0x81, CHR 0x9F], [CHR 0xE3, CHR 0x80, CHR 0x80]]"

definition space_prefix :: "string list \<Rightarrow> string \<Rightarrow> nat" where
  "space_prefix rs s =
    (case find (\<lambda>r. take (length r) s = r) rs of Some r \<Rightarrow> length r | None \<Rightarrow> 0)"

function trim_left :: "string list \<Rightarrow> string \<Rightarrow> string" where
  "trim_left rs s =
    (if space_prefix rs s = 0 \<or> s = [] then s else trim_left rs (drop (space_prefix rs s) s))"
  by pat_completeness auto
termination by (relation "measure (\<lambda>(rs, s). length s)") auto

definition trim_space :: "string \<Rightarrow> string" where
  "trim_space s = rev (trim_left (map rev space_runes) (rev (trim_left space_runes s)))"

function fields_from :: "string \<Rightarrow> string \<Rightarrow> string list" where
  "fields_from acc s =
    (if s = [] then (if acc = [] then [] else [acc])
     else if space_prefix space_runes s = 0 then fields_from (acc @ [hd s]) (tl s)
     else (if acc = [] then [] else [acc]) @ fields_from [] (drop (space_prefix space_runes s) s))"
  by pat_completeness auto
termination by (relation "measure (\<lambda>(acc, s). length s)") auto

definition string_fields :: "string \<Rightarrow> string list" where
  "string_fields s = fields_from [] s"

text \<open>\<open>strings.Trim(s, "\"'")\<close>.\<close>

definition is_quote :: "char \<Rightarrow> bool" where
  "is_quote c = (c = CHR 0x22 \<or> c = CHR 0x27)"

definition trim_quotes :: "string \<Rightarrow> string" where
  "trim_quotes s = rev (dropWhile is_quote (rev (dropWhile is_quote s)))"

definition EqualFold :: "string \<Rightarrow> string \<Rightarrow> bool" where
  "EqualFold s t = (ToLower s = ToLower t)"

definition has_backslash :: "string \<Rightarrow> bool" where
  "has_backslash s = (case s of [] \<Rightarrow> False | c # _ \<Rightarrow> c = CHR 0x5C)"

text \<open>Numbers: \<open>strconv.Atoi\<close> for a 64-bit \<open>int\<close>, and \<open>strconv.ParseFloat\<close> on the literals the
  lexer produces. The bound of the latter is the midpoint between the largest finite \<open>float64\<close> and
  \<open>2^1024\<close>, from which on the nearest value is infinite and an error is returned.\<close>

definition digits_val :: "string \<Rightarrow> nat" where
  "digits_val s = foldl (\<lambda>n c. 10 * n + ((of_char c :: nat) - 48)) 0 s"

definition Atoi :: "string \<Rightarrow> fmsg + int" where
  "Atoi s =
    (let sign = (case s of c # _ \<Rightarrow> if c = CHR ''-'' then -1 else 1 | [] \<Rightarrow> 1) :: int;
         ds = (case s of c # cs \<Rightarrow> if c = CHR ''-'' \<or> c = CHR ''+'' then cs else s | [] \<Rightarrow> []);
         n = sign * int (digits_val ds)
     in if ds = [] \<or> \<not> list_all isDigit ds
        then Inl (Errf ''strconv.Atoi: parsing %q: invalid syntax'' [Txt s])
        else if n < - (2 ^ 63) \<or> 2 ^ 63 \<le> n
        then Inl (Errf ''strconv.Atoi: parsing %q: value out of range'' [Txt s])
        else Inr n)"

definition ParseFloat :: "string \<Rightarrow> fmsg + nat \<times> nat" where
  "ParseFloat s =
    (let whole = takeWhile isDigit s; frac = drop 1 (dropWhile isDigit s);
         m = digits_val (whole @ frac); k = length frac
     in if (2 ^ 1024 - 2 ^ 970) * 10 ^ k \<le> m
        then Inl (Errf ''strconv.ParseFloat: parsing %q: value out of range'' [Txt s])
        else Inr (m, k))"

subsection \<open>The shared parser methods\<close>

definition isKeyword :: "nat \<Rightarrow> bool" where
  "isKeyword tokenType = (TokenLogin \<le> tokenType \<and> tokenType \<le> TokenPanic)"

definition tokenTypeToString :: "nat \<Rightarrow> fmsg" where
  "tokenTypeToString t =
    (if t = TokenEOF then Txt ''end of input''
     else if t = TokenIdentifier then Txt ''identifier''
     else if t = TokenInteger then Txt ''integer''
     else if t = TokenFloat then Txt ''float''
     else if t = TokenQuotedString then Txt ''quoted string''
     else if t = TokenLBracket then Txt (bytes [39, 91, 39])
     else if t = TokenRBracket then Txt (bytes [39, 93, 39])
     else if t = TokenComma then Txt (bytes [39, 44, 39])
     else if t = TokenSemicolon then Txt (bytes [39, 59, 39])
     else Errf ''token(%d)'' [Dec (int t)])"

definition tokenTypeDescription :: "nat \<Rightarrow> Token \<Rightarrow> fmsg" where
  "tokenTypeDescription t tok =
    (if Tok_Type tok = t \<and> Tok_Value tok \<noteq> []
     then Errf ''%s %q'' [tokenTypeToString t, Txt (Tok_Value tok)]
     else tokenTypeToString t)"

definition expectPeek :: "nat \<Rightarrow> Parser \<Rightarrow> unit res" where
  "expectPeek tokenType p =
    (if Tok_Type (ps_peek p) \<noteq> tokenType
     then PErr (Errf ''expected %s, got %s'' [tokenTypeToString tokenType, Txt (Tok_Value (ps_peek p))])
     else POk () (nextToken p))"

definition expectSemicolon :: "Parser \<Rightarrow> unit res" where
  "expectSemicolon p =
    (if curType p = TokenSemicolon then POk () p
     else if Tok_Type (ps_peek p) = TokenSemicolon then POk () (nextToken p)
     else PErr (Errf ''expected semicolon'' []))"

definition isCECommand :: "string \<Rightarrow> bool" where
  "isCECommand s = (ToUpper s \<in> set [''LS'', ''LIST'', ''SEARCH''])"

definition parseQuotedString :: "Parser \<Rightarrow> fmsg + string" where
  "parseQuotedString p =
    (if curType p \<noteq> TokenQuotedString
     then Inl (Errf ''expected quoted string, got %s'' [Txt (curValue p)])
     else Inr (curValue p))"

definition parseIdentifier :: "Parser \<Rightarrow> fmsg + string" where
  "parseIdentifier p =
    (if curType p \<noteq> TokenIdentifier
     then Inl (Errf ''expected identifier, got %s'' [Txt (curValue p)])
     else Inr (curValue p))"

definition parseVariableValue :: "Parser \<Rightarrow> fmsg + string" where
  "parseVariableValue p =
    (if curType p \<in> set [TokenIdentifier, TokenQuotedString, TokenInteger, TokenFloat]
     then Inr (curValue p)
     else Inl (Errf ''expected variable value, got %s'' [Txt (curValue p)]))"

definition parseNumber :: "Parser \<Rightarrow> fmsg + int" where
  "parseNumber p =
    (if curType p \<noteq> TokenInteger
     then Inl (Errf ''expected number, got %s'' [Txt (curValue p)])
     else Atoi (curValue p))"

definition parseFloat :: "Parser \<Rightarrow> fmsg + nat \<times> nat" where
  "parseFloat p =
    (if curType p \<noteq> TokenInteger \<and> curType p \<noteq> TokenFloat
     then Inl (Errf ''expected number, got %s'' [Txt (curValue p)])
     else ParseFloat (curValue p))"

definition parseQuotedStringList_body ::
  "string list \<Rightarrow> Parser \<Rightarrow> (string list + string list) res" where
  "parseQuotedStringList_body list p =
    (case parseQuotedString p of
       Inl err \<Rightarrow> PErr (Errf ''expected quoted string in list: %w'' [err])
     | Inr s \<Rightarrow>
         let list = list @ [s]; p = nextToken p
         in if curType p = TokenComma then POk (Inl list) (nextToken p)
            else if curType p = TokenRBracket then POk (Inr list) (nextToken p)
            else PErr (Errf (''expected '' @ bytes [39, 44, 39] @ '' or '' @ bytes [39, 93, 39] @
              '' in list, got %s'') [Txt (curValue p)]))"

definition parseQuotedStringList :: "Parser \<Rightarrow> string list res" where
  "parseQuotedStringList p =
    (if curType p \<noteq> TokenLBracket
     then PErr (Errf (''expected '' @ bytes [39, 91, 39] @ '', got %s'') [Txt (curValue p)])
     else let p = nextToken p
          in if curType p = TokenRBracket then POk [] (nextToken p)
             else ploop parseQuotedStringList_body [] p)"

definition parseMetaCommand_body :: "string list \<Rightarrow> Parser \<Rightarrow> (string list + string list) res" where
  "parseMetaCommand_body args p =
    (if curType p \<noteq> TokenEOF then POk (Inl (args @ [curValue p])) (nextToken p)
     else POk (Inr args) p)"

definition parseMetaCommand :: "Parser \<Rightarrow> Command res" where
  "parseMetaCommand p =
    (let cmd = NewCommand ''meta'';
         cmdName = (if has_backslash (curValue p) then tl (curValue p) else curValue p);
         cmd = setParam ''command'' (CStr (ToLower cmdName)) cmd;
         p = nextToken p
     in bindR (ploop parseMetaCommand_body [] p) (\<lambda>args p.
        POk (setParam ''args'' (CStrs args) cmd) p))"

definition parseFileSystemCommands :: "Parser \<Rightarrow> Command res" where
  "parseFileSystemCommands p =
    (let p = nextToken p;
         cmd = NewCommand ''file_system_command'';
         cmd = setParam ''command'' (CStr (ps_original p)) cmd
     in POk cmd p)"

definition IsCompositeModelName :: "string \<Rightarrow> bool" where
  "IsCompositeModelName modelName =
    (let parts = split_on (CHR 0x40) modelName
     in if length parts \<noteq> 3 then False else [] \<notin> set parts)"

definition IsUUID :: "string \<Rightarrow> bool" where
  "IsUUID uuid =
    (if length uuid \<noteq> 32 then False
     else list_all (\<lambda>c. let n = (of_char c :: nat) in 97 \<le> n \<and> n \<le> 122 \<or> isDigit c) uuid)"

definition parseHostPort :: "string \<Rightarrow> fmsg + string \<times> int" where
  "parseHostPort hostPort =
    (if hostPort = [] then Inr ([], -1)
     else case split_on (CHR '':'') hostPort of
       [host, portText] \<Rightarrow>
         (case Atoi portText of
            Inl err \<Rightarrow> Inl (Errf ''invalid port number: %s'' [Txt portText])
          | Inr port \<Rightarrow> Inr (host, port))
     | _ \<Rightarrow> Inl (Errf ''invalid host format, expected host:port, got: %s'' [Txt hostPort]))"

lemmas left_simps = nextToken_left nextToken_less optSemicolon_less

lemma parseQuotedString_Inr: "parseQuotedString p = Inr v \<longleftrightarrow> curType p = TokenQuotedString \<and> v = curValue p"
  by (auto simp: parseQuotedString_def)

lemma parseNumber_Inr: "parseNumber p = Inr n \<Longrightarrow> curType p = TokenInteger"
  by (auto simp: parseNumber_def split: if_splits)

lemma parseQuotedStringList_wp [wp_simps]: "returns_with (\<lambda>_ _. True) (parseQuotedStringList p)"
proof -
  have "returns_with (\<lambda>_ _. True) (ploop parseQuotedStringList_body [] p)" for p
    by (rule wp_ploop [where I = "\<lambda>_. True"])
       (simp_all add: parseQuotedStringList_body_def wp_simps left_simps parseQuotedString_Inr)
  then show ?thesis by (simp add: parseQuotedStringList_def wp_simps)
qed

end
