(* ===== verification/Cli_Dev_Parser.thy ===== *)
theory Cli_Dev_Parser
  imports Cli_Base
begin

text \<open>
  The development commands of the command line client (\<open>internal/cli/dev_parser.go\<close>): inserting,
  reading, updating and removing chunks and metadata. One definition per method of the source, in
  dependency order; the body of a loop is a definition of its own, \<open><method>_body\<close>, run by
  \<open>ploop\<close>. \<open>p\<close> is the parser, rebound by every \<open>nextToken\<close>, and \<open>cmd\<close> the command under
  construction.
\<close>

definition parseInsertChunksFromFile :: "Parser \<Rightarrow> Command res" where
  "parseInsertChunksFromFile p =
    (let p = nextToken p in
     if curType p \<noteq> TokenFrom
     then PErr (Errf ''expected FROM, got %s'' [Txt (curValue p)])
     else let p = nextToken p in
     if curType p \<noteq> TokenFile
     then PErr (Errf ''expected FILE, got %s'' [Txt (curValue p)])
     else let p = nextToken p in
     (case parseQuotedString p of
        Inl err \<Rightarrow> PErr err
      | Inr filePath \<Rightarrow>
     let cmd = NewCommand ''dev_insert_chunks_from_file'' in
     let cmd = setParam ''file_path'' (CStr filePath) cmd in
     let p = nextToken p in
     let p = optSemicolon p in
     POk cmd p))"

definition parseInsertMetadataFromFile :: "Parser \<Rightarrow> Command res" where
  "parseInsertMetadataFromFile p =
    (let p = nextToken p in
     if curType p \<noteq> TokenFrom
     then PErr (Errf ''expected FROM, got %s'' [Txt (curValue p)])
     else let p = nextToken p in
     if curType p \<noteq> TokenFile
     then PErr (Errf ''expected FILE, got %s'' [Txt (curValue p)])
     else let p = nextToken p in
     (case parseQuotedString p of
        Inl err \<Rightarrow> PErr err
      | Inr filePath \<Rightarrow>
     let cmd = NewCommand ''dev_insert_metadata_from_file'' in
     let cmd = setParam ''file_path'' (CStr filePath) cmd in
     let p = nextToken p in
     let p = optSemicolon p in
     POk cmd p))"

definition parseDevInsertCommand :: "Parser \<Rightarrow> Command res" where
  "parseDevInsertCommand p =
    (let p = nextToken p in
     if curType p = TokenChunks
     then parseInsertChunksFromFile p
     else if curType p = TokenMetadata
     then parseInsertMetadataFromFile p
     else PErr (Errf ''expected CHUNKS or METADATA after INSERT, got %s'' [Txt (curValue p)]))"

definition parseGetChunk :: "Parser \<Rightarrow> Command res" where
  "parseGetChunk p =
    (let p = nextToken p in
     (case parseQuotedString p of
        Inl err \<Rightarrow> PErr (Errf ''expected chunk_id: %w'' [err])
      | Inr chunkID \<Rightarrow>
     let cmd = NewCommand ''dev_get_chunk'' in
     let cmd = setParam ''chunk_id'' (CStr chunkID) cmd in
     let p = nextToken p in
     if curType p \<noteq> TokenOf
     then PErr (Errf ''expected OF after chunk_id'' [])
     else let p = nextToken p in
     if curType p \<noteq> TokenDocument
     then PErr (Errf ''expected DOCUMENT after OF'' [])
     else let p = nextToken p in
     (case parseQuotedString p of
        Inl err \<Rightarrow> PErr (Errf ''expected doc_id: %w'' [err])
      | Inr docID \<Rightarrow>
     let cmd = setParam ''doc_id'' (CStr docID) cmd in
     let p = nextToken p in
     if curType p \<noteq> TokenIn
     then PErr (Errf ''expected IN after doc_id'' [])
     else let p = nextToken p in
     if curType p \<noteq> TokenDataset
     then PErr (Errf ''expected DATASET after IN'' [])
     else let p = nextToken p in
     (case parseQuotedString p of
        Inl err \<Rightarrow> PErr (Errf ''expected dataset_id: %w'' [err])
      | Inr datasetID \<Rightarrow>
     let cmd = setParam ''dataset_id'' (CStr datasetID) cmd in
     let p = nextToken p in
     let p = optSemicolon p in
     POk cmd p))))"

definition parseGetMetadata_body :: "string list \<Rightarrow> Parser \<Rightarrow> (string list + string list) res" where
  "parseGetMetadata_body = (\<lambda>datasetNames p.
    ((case parseQuotedString p of
        Inl err \<Rightarrow> PErr (Errf ''expected dataset name: %w'' [err])
      | Inr nameV \<Rightarrow>
     let datasetNames = datasetNames @ [nameV] in
     let p = nextToken p in
     if curType p = TokenComma
     then PErr (Errf ''syntax error: dataset names must be space-separated, not comma-separated (got %q after %q)'' [Txt (bytes [39]), Txt nameV])
     else if curType p = TokenSemicolon
     then POk (Inr datasetNames) p
     else if curType p \<noteq> TokenQuotedString
     then POk (Inr datasetNames) p
     else POk (Inl datasetNames) p)))"

definition parseGetMetadata :: "Parser \<Rightarrow> Command res" where
  "parseGetMetadata p =
    (let p = nextToken p in
     if curType p \<noteq> TokenOf
     then PErr (Errf ''expected OF after METADATA'' [])
     else let p = nextToken p in
     if curType p \<noteq> TokenDataset
     then PErr (Errf ''expected DATASET after OF'' [])
     else let p = nextToken p in
     let datasetNames = ([] :: string list) in
     bindR (ploop parseGetMetadata_body datasetNames p) (\<lambda>datasetNames p.
     let cmd = NewCommand ''dev_get_metadata'' in
     let cmd = setParam ''dataset_names'' (CStrs datasetNames) cmd in
     let p = optSemicolon p in
     POk cmd p))"

definition parseDevGetCommand :: "Parser \<Rightarrow> Command res" where
  "parseDevGetCommand p =
    (let p = nextToken p in
     if curType p = TokenChunk
     then parseGetChunk p
     else if curType p = TokenMetadata
     then parseGetMetadata p
     else PErr (Errf ''unknown GET target: %s'' [Txt (curValue p)]))"

definition parseUpdateChunk :: "Parser \<Rightarrow> Command res" where
  "parseUpdateChunk p =
    (let p = nextToken p in
     (case parseQuotedString p of
        Inl err \<Rightarrow> PErr (Errf ''expected chunk_id: %w'' [err])
      | Inr chunkID \<Rightarrow>
     let cmd = NewCommand ''dev_update_chunk'' in
     let cmd = setParam ''chunk_id'' (CStr chunkID) cmd in
     let p = nextToken p in
     if curType p \<noteq> TokenOf
     then PErr (Errf ''expected OF after chunk_id'' [])
     else let p = nextToken p in
     if curType p \<noteq> TokenDocument
     then PErr (Errf ''expected DOCUMENT after OF'' [])
     else let p = nextToken p in
     (case parseQuotedString p of
        Inl err \<Rightarrow> PErr (Errf ''expected doc_id: %w'' [err])
      | Inr docID \<Rightarrow>
     let cmd = setParam ''doc_id'' (CStr docID) cmd in
     let p = nextToken p in
     if curType p \<noteq> TokenIn
     then PErr (Errf ''expected IN after doc_id'' [])
     else let p = nextToken p in
     if curType p \<noteq> TokenDataset
     then PErr (Errf ''expected DATASET after IN'' [])
     else let p = nextToken p in
     (case parseQuotedString p of
        Inl err \<Rightarrow> PErr (Errf ''expected dataset_name: %w'' [err])
      | Inr datasetName \<Rightarrow>
     let cmd = setParam ''dataset_name'' (CStr datasetName) cmd in
     let p = nextToken p in
     if curType p \<noteq> TokenSet
     then PErr (Errf ''expected SET after dataset_name'' [])
     else let p = nextToken p in
     (case parseQuotedString p of
        Inl err \<Rightarrow> PErr (Errf ''expected JSON body: %w'' [err])
      | Inr jsonBody \<Rightarrow>
     let cmd = setParam ''json_body'' (CStr jsonBody) cmd in
     let p = nextToken p in
     let p = optSemicolon p in
     POk cmd p)))))"

definition parseDevUpdateCommand :: "Parser \<Rightarrow> Command res" where
  "parseDevUpdateCommand p =
    (let p = nextToken p in
     if curType p = TokenChunk
     then parseUpdateChunk p
     else PErr (Errf ''unknown UPDATE target: %s'' [Txt (curValue p)]))"

definition parseDevSetMeta :: "Parser \<Rightarrow> Command res" where
  "parseDevSetMeta p =
    (let p = nextToken p in
     if curType p \<noteq> TokenOf
     then PErr (Errf ''expected OF after SET METADATA'' [])
     else let p = nextToken p in
     if curType p \<noteq> TokenDocument
     then PErr (Errf ''expected DOCUMENT after SET METADATA OF'' [])
     else let p = nextToken p in
     (case parseQuotedString p of
        Inl err \<Rightarrow> PErr (Errf ''expected doc_id: %w'' [err])
      | Inr docID \<Rightarrow>
     let cmd = NewCommand ''dev_set_meta'' in
     let cmd = setParam ''doc_id'' (CStr docID) cmd in
     let p = nextToken p in
     if curType p \<noteq> TokenTo
     then PErr (Errf ''expected TO after doc_id'' [])
     else let p = nextToken p in
     (case parseQuotedString p of
        Inl err \<Rightarrow> PErr (Errf ''expected meta JSON: %w'' [err])
      | Inr meta \<Rightarrow>
     let cmd = setParam ''meta'' (CStr meta) cmd in
     let p = nextToken p in
     let p = optSemicolon p in
     POk cmd p)))"

definition parseDevDeleteMeta :: "Parser \<Rightarrow> Command res" where
  "parseDevDeleteMeta p =
    (let p = nextToken p in
     if curType p \<noteq> TokenOf
     then PErr (Errf ''expected OF after DELETE METADATA'' [])
     else let p = nextToken p in
     if curType p \<noteq> TokenDocument
     then PErr (Errf ''expected DOCUMENT after DELETE METADATA OF'' [])
     else let p = nextToken p in
     (case parseQuotedString p of
        Inl err \<Rightarrow> PErr (Errf ''expected doc_id: %w'' [err])
      | Inr docID \<Rightarrow>
     let cmd = NewCommand ''dev_delete_meta'' in
     let cmd = setParam ''doc_id'' (CStr docID) cmd in
     let p = nextToken p in
     if curType p \<noteq> TokenKeys
     then if curType p = TokenSemicolon
       then let p = nextToken p in
         POk cmd p
       else if curType p = TokenEOF
       then POk cmd p
       else PErr (Errf ''expected KEYS or end of command after doc_id'' [])
     else let p = nextToken p in
     (case parseQuotedString p of
        Inl err \<Rightarrow> PErr (Errf ''expected keys JSON array: %w'' [err])
      | Inr keys \<Rightarrow>
     let cmd = setParam ''keys'' (CStr keys) cmd in
     let p = nextToken p in
     if curType p = TokenSemicolon
     then let p = nextToken p in
       POk cmd p
     else if curType p \<noteq> TokenEOF
     then PErr (Errf ''expected end of command after KEYS'' [])
     else POk cmd p)))"

definition parseDevRemoveTags_body :: "string list \<Rightarrow> Parser \<Rightarrow> (string list + string list) res" where
  "parseDevRemoveTags_body = (\<lambda>tags p.
    (let p = nextToken p in
     if curType p = TokenComma
     then let p = nextToken p in
       (case parseQuotedString p of
          Inl err \<Rightarrow> PErr (Errf ''expected tag after comma: %w'' [err])
        | Inr tagV \<Rightarrow>
       let tags = tags @ [tagV] in
       POk (Inl tags) p)
     else POk (Inr tags) p))"

definition parseDevRemoveTags :: "Parser \<Rightarrow> Command res" where
  "parseDevRemoveTags p =
    (let p = nextToken p in
     (case parseQuotedString p of
        Inl err \<Rightarrow> PErr (Errf ''expected tag: %w'' [err])
      | Inr tagV \<Rightarrow>
     let tags = [tagV] in
     bindR (ploop parseDevRemoveTags_body tags p) (\<lambda>tags p.
     let cmd = NewCommand ''dev_rm_tags'' in
     let cmd = setParam ''tags'' (CStrs tags) cmd in
     if curType p \<noteq> TokenFrom
     then PErr (Errf ''expected FROM after tags'' [])
     else let p = nextToken p in
     if curType p \<noteq> TokenDataset
     then PErr (Errf ''expected DATASET after FROM'' [])
     else let p = nextToken p in
     (case parseQuotedString p of
        Inl err \<Rightarrow> PErr (Errf ''expected dataset_name: %w'' [err])
      | Inr datasetName \<Rightarrow>
     let cmd = setParam ''dataset_name'' (CStr datasetName) cmd in
     let p = optSemicolon p in
     POk cmd p))))"

definition parseDevRemoveChunk_body :: "string list \<Rightarrow> Parser \<Rightarrow> (string list + string list) res" where
  "parseDevRemoveChunk_body = (\<lambda>chunkIDs p.
    (let p = nextToken p in
     if curType p = TokenFrom \<or> curType p \<noteq> TokenQuotedString
     then POk (Inr chunkIDs) p
     else (case parseQuotedString p of
        Inl err \<Rightarrow> PErr (Errf ''expected chunk_id: %w'' [err])
      | Inr chunkID \<Rightarrow>
     let chunkIDs = chunkIDs @ [chunkID] in
     POk (Inl chunkIDs) p)))"

definition parseDevRemoveChunk :: "Parser \<Rightarrow> Command res" where
  "parseDevRemoveChunk p =
    (let cmd = NewCommand ''dev_remove_chunks'' in
     bindR
       (if curType p = TokenAll
       then let p = nextToken p in
         if curType p \<noteq> TokenChunks
         then PErr (Errf ''expected CHUNKS after ALL'' [])
         else let p = nextToken p in
         let cmd = setParam ''delete_all'' (CBool True) cmd in
         POk cmd p
       else let p = nextToken p in
       (case parseQuotedString p of
          Inl err \<Rightarrow> PErr (Errf ''expected chunk_id: %w'' [err])
        | Inr chunkID \<Rightarrow>
       let chunkIDs = [chunkID] in
       bindR (ploop parseDevRemoveChunk_body chunkIDs p) (\<lambda>chunkIDs p.
       let cmd = setParam ''chunk_ids'' (CStrs chunkIDs) cmd in
       POk cmd p)))
       (\<lambda>cmd p.
     if curType p \<noteq> TokenFrom
     then PErr (Errf ''expected FROM after chunk(s)'' [])
     else let p = nextToken p in
     if curType p \<noteq> TokenDocument
     then PErr (Errf ''expected DOCUMENT after FROM'' [])
     else let p = nextToken p in
     (case parseQuotedString p of
        Inl err \<Rightarrow> PErr (Errf ''expected doc_id: %w'' [err])
      | Inr docID \<Rightarrow>
     let cmd = setParam ''doc_id'' (CStr docID) cmd in
     let p = nextToken p in
     if curType p \<noteq> TokenIn
     then PErr (Errf ''expected IN after doc_id'' [])
     else let p = nextToken p in
     if curType p \<noteq> TokenDataset
     then PErr (Errf ''expected DATASET after IN'' [])
     else let p = nextToken p in
     (case parseQuotedString p of
        Inl err \<Rightarrow> PErr (Errf ''expected dataset_name: %w'' [err])
      | Inr datasetName \<Rightarrow>
     let cmd = setParam ''dataset_name'' (CStr datasetName) cmd in
     let p = nextToken p in
     let p = optSemicolon p in
     POk cmd p))))"

definition parseDevDropChunkStore :: "Parser \<Rightarrow> Command res" where
  "parseDevDropChunkStore p =
    (let p = nextToken p in
     if curType p \<noteq> TokenFor
     then PErr (Errf ''expected FOR after CHUNK STORE, got %s'' [Txt (curValue p)])
     else let p = nextToken p in
     if curType p \<noteq> TokenDataset
     then PErr (Errf ''expected Dataset after FOR, got %s'' [Txt (curValue p)])
     else let p = nextToken p in
     (case parseQuotedString p of
        Inl err \<Rightarrow> PErr (Errf ''expected dataset name, got %s'' [Txt (curValue p)])
      | Inr datasetName \<Rightarrow>
     let p = nextToken p in
     let p = optSemicolon p in
     let cmd = NewCommand ''dev_drop_chunk_store'' in
     let cmd = setParam ''dataset_name'' (CStr datasetName) cmd in
     POk cmd p))"

definition parseDevDropMetadataStore :: "Parser \<Rightarrow> Command res" where
  "parseDevDropMetadataStore p =
    (let p = nextToken p in
     if curType p \<noteq> TokenStore
     then PErr (Errf ''expected STORE after METADATA, got %s'' [Txt (curValue p)])
     else let p = nextToken p in
     let p = optSemicolon p in
     let cmd = NewCommand ''dev_drop_metadata_store'' in
     POk cmd p)"

definition parseDevCreateChunkStore :: "Parser \<Rightarrow> Command res" where
  "parseDevCreateChunkStore p =
    (let p = nextToken p in
     if curType p \<noteq> TokenFor
     then PErr (Errf ''expected FOR after CHUNK STORE, got %s'' [Txt (curValue p)])
     else let p = nextToken p in
     if curType p \<noteq> TokenDataset
     then PErr (Errf ''expected Dataset after FOR, got %s'' [Txt (curValue p)])
     else let p = nextToken p in
     (case parseQuotedString p of
        Inl err \<Rightarrow> PErr (Errf ''expected dataset name, got %s'' [Txt (curValue p)])
      | Inr datasetName \<Rightarrow>
     let p = nextToken p in
     if curType p \<noteq> TokenVector
     then PErr (Errf ''expected VECTOR after dataset name, got %s'' [Txt (curValue p)])
     else let p = nextToken p in
     if curType p \<noteq> TokenSize
     then PErr (Errf ''expected SIZE after VECTOR, got %s'' [Txt (curValue p)])
     else let p = nextToken p in
     if curType p \<noteq> TokenInteger
     then PErr (Errf ''expected vector size number, got %s'' [Txt (curValue p)])
     else (case Atoi (curValue p) of
        Inl err \<Rightarrow> PErr (Errf ''invalid vector size: %s'' [Txt (curValue p)])
      | Inr vectorSize \<Rightarrow>
     let p = nextToken p in
     let p = optSemicolon p in
     let cmd = NewCommand ''dev_create_chunk_store'' in
     let cmd = setParam ''dataset_name'' (CStr datasetName) cmd in
     let cmd = setParam ''vector_size'' (CInt vectorSize) cmd in
     POk cmd p)))"

definition parseDevCreateMetadataStore :: "Parser \<Rightarrow> Command res" where
  "parseDevCreateMetadataStore p =
    (let p = nextToken p in
     if curType p \<noteq> TokenStore
     then PErr (Errf ''expected STORE after METADATA, got %s'' [Txt (curValue p)])
     else let p = nextToken p in
     let p = optSemicolon p in
     POk (NewCommand ''dev_create_metadata_store'') p)"

definition parseCreateRole :: "Parser \<Rightarrow> Command res" where
  "parseCreateRole p =
    (let p = nextToken p in
     (case parseIdentifier p of
        Inl err \<Rightarrow> PErr err
      | Inr roleName \<Rightarrow>
     let cmd = NewCommand ''create_role'' in
     let cmd = setParam ''role_name'' (CStr roleName) cmd in
     let p = nextToken p in
     bindR
       (if curType p = TokenDescription
       then let p = nextToken p in
         (case parseQuotedString p of
            Inl err \<Rightarrow> PErr err
          | Inr description \<Rightarrow>
         let cmd = setParam ''description'' (CStr description) cmd in
         let p = nextToken p in
         POk cmd p)
       else POk cmd p)
       (\<lambda>cmd p.
     let p = optSemicolon p in
     POk cmd p)))"

definition parseDevChunk :: "bool \<Rightarrow> Parser \<Rightarrow> Command res" where
  "parseDevChunk explain p =
    (let p = nextToken p in
     (case parseQuotedString p of
        Inl err \<Rightarrow> PErr (Errf ''expected filename: %w'' [err])
      | Inr filename \<Rightarrow>
     let p = nextToken p in
     if curType p \<noteq> TokenWith
     then PErr (Errf ''expected WITH after filename'' [])
     else let p = nextToken p in
     (case parseQuotedString p of
        Inl err \<Rightarrow> PErr (Errf ''expected chunk options file: %w'' [err])
      | Inr dsl \<Rightarrow>
     let p = optSemicolon p in
     let p = nextToken p in
     let cmd = NewCommand ''dev_chunk'' in
     let cmd = setParam ''dsl'' (CStr dsl) cmd in
     let cmd = setParam ''filename'' (CStr filename) cmd in
     let cmd = setParam ''explain'' (CBool explain) cmd in
     POk cmd p)))"

definition parseDevExplain :: "Parser \<Rightarrow> Command res" where
  "parseDevExplain p =
    (let p = nextToken p in
     if curType p = TokenChunk
     then parseDevChunk True p
     else PErr (Errf ''expected CHUNK after EXPLAIN'' []))"

end
