(* ===== verification/Cli_User_Parser.thy ===== *)
theory Cli_User_Parser
  imports Cli_Dev_Parser
begin

text \<open>
  The commands of the API mode (\<open>internal/cli/user_parser.go\<close>), one definition per method of the
  source in dependency order, in the style of \<open>Cli_Dev_Parser\<close>. The closures \<open>handleOption\<close> of
  \<open>parseOpenaiChat\<close> and \<open>parseChatCompletionsBody\<close> are \<open>openai_option\<close> and \<open>completions_option\<close>;
  the \<open>WITH\<close> options of \<open>parseAPIRetrieve\<close> are read by \<open>retrieve_value\<close> and \<open>retrieve_option\<close>. The
  local variables of the option loop of \<open>parseAPIAddModel\<close> are the record \<open>model_config\<close>.
\<close>

definition parseAPILoginUser :: "Parser \<Rightarrow> Command res" where
  "parseAPILoginUser p =
    (let cmd = NewCommand ''api_login_user'' in
     let p = nextToken p in
     if curType p \<noteq> TokenUser
     then PErr (Errf ''expected USER after LOGIN'' [])
     else let p = nextToken p in
     (case parseQuotedString p of
        Inl err \<Rightarrow> PErr err
      | Inr email \<Rightarrow>
     let cmd = setParam ''email'' (CStr email) cmd in
     let p = nextToken p in
     bindR
       (if curType p = TokenPassword
       then let p = nextToken p in
         (case parseQuotedString p of
            Inl err \<Rightarrow> PErr err
          | Inr password \<Rightarrow>
         let cmd = setParam ''password'' (CStr password) cmd in
         let p = nextToken p in
         POk cmd p)
       else POk cmd p)
       (\<lambda>cmd p.
     let p = optSemicolon p in
     POk cmd p)))"

definition parseAPILogout :: "Parser \<Rightarrow> Command res" where
  "parseAPILogout p =
    (let cmd = NewCommand ''api_logout'' in
     let p = nextToken p in
     let p = optSemicolon p in
     POk cmd p)"

definition parseAPIPingServer :: "Parser \<Rightarrow> Command res" where
  "parseAPIPingServer p =
    (let cmd = NewCommand ''api_ping_server'' in
     let p = nextToken p in
     let p = optSemicolon p in
     POk cmd p)"

definition parseAPIRegister :: "Parser \<Rightarrow> Command res" where
  "parseAPIRegister p =
    (let cmd = NewCommand ''api_register_user'' in
     bindR (expectPeek TokenUser p) (\<lambda>_ p.
     let p = nextToken p in
     (case parseQuotedString p of
        Inl err \<Rightarrow> PErr err
      | Inr userName \<Rightarrow>
     let cmd = setParam ''user_name'' (CStr userName) cmd in
     let p = nextToken p in
     if curType p \<noteq> TokenAs
     then PErr (Errf ''expected AS'' [])
     else let p = nextToken p in
     (case parseQuotedString p of
        Inl err \<Rightarrow> PErr err
      | Inr nickname \<Rightarrow>
     let cmd = setParam ''nickname'' (CStr nickname) cmd in
     let p = nextToken p in
     if curType p \<noteq> TokenPassword
     then PErr (Errf ''expected PASSWORD'' [])
     else let p = nextToken p in
     (case parseQuotedString p of
        Inl err \<Rightarrow> PErr err
      | Inr password \<Rightarrow>
     let cmd = setParam ''password'' (CStr password) cmd in
     let p = nextToken p in
     let p = optSemicolon p in
     POk cmd p)))))"

definition parseAPIListDatasets :: "Parser \<Rightarrow> Command res" where
  "parseAPIListDatasets p =
    (let cmd = NewCommand ''api_list_datasets'' in
     let p = nextToken p in
     let p = optSemicolon p in
     POk cmd p)"

definition parseAPIListDatasetDocuments :: "string \<Rightarrow> Parser \<Rightarrow> Command res" where
  "parseAPIListDatasetDocuments datasetID p =
    (let p = nextToken p in
     let p = optSemicolon p in
     let cmd = NewCommand ''api_list_dataset_documents'' in
     let cmd = setParam ''dataset_id'' (CStr datasetID) cmd in
     POk cmd p)"

definition parseAPIListDatasetFiles :: "string \<Rightarrow> Parser \<Rightarrow> Command res" where
  "parseAPIListDatasetFiles datasetName p =
    (let p = nextToken p in
     let p = optSemicolon p in
     let cmd = NewCommand ''api_list_dataset_files'' in
     let cmd = setParam ''dataset_name'' (CStr datasetName) cmd in
     POk cmd p)"

definition parseAPIListDatasetIngestionTasks :: "string \<Rightarrow> Parser \<Rightarrow> Command res" where
  "parseAPIListDatasetIngestionTasks datasetName p =
    (let p = nextToken p in
     if curType p \<noteq> TokenTasks
     then PErr (Errf ''expected TASKS'' [])
     else let p = optSemicolon p in
     let cmd = NewCommand ''api_list_ingestion_tasks'' in
     let cmd = setParam ''dataset_name'' (CStr datasetName) cmd in
     POk cmd p)"

definition parseSyncLogsWithOptions_body :: "Command \<Rightarrow> Parser \<Rightarrow> (Command + Command) res" where
  "parseSyncLogsWithOptions_body = (\<lambda>cmd p.
    (if curType p \<noteq> TokenEOF \<and> curType p \<noteq> TokenSemicolon
     then if curType p = TokenComma
       then PErr (Errf ''syntax error: WITH options must be space-separated, not comma-separated'' [])
       else if curType p \<noteq> TokenIdentifier
       then POk (Inr cmd) p
       else let paramName = ToLower (curValue p) in
       let p = nextToken p in
       if curType p \<noteq> TokenInteger
       then if curType p = TokenEOF \<or> curType p = TokenSemicolon
         then PErr (Errf ''WITH option %q is missing a value'' [Txt paramName])
         else PErr (Errf ''WITH option %q must be an integer, got %s''
           [Txt paramName, tokenTypeDescription (curType p) (ps_cur p)])
       else (case parseNumber p of
          Inl err \<Rightarrow> PErr err
        | Inr num \<Rightarrow>
       let p = nextToken p in
       if paramName \<in> set [''page'', ''page_size'']
       then POk (Inl (setParam paramName (CInt num) cmd)) p
       else PErr (Errf ''unknown WITH option %q'' [Txt paramName]))
     else POk (Inr cmd) p))"

definition parseSyncLogsWithOptions :: "Command \<Rightarrow> Parser \<Rightarrow> Command res" where
  "parseSyncLogsWithOptions cmd p =
    (if curType p \<noteq> TokenWith \<and> \<not> (curType p = TokenIdentifier \<and> EqualFold (curValue p) ''with'')
     then POk cmd p
     else let p = nextToken p in
     ploop parseSyncLogsWithOptions_body cmd p)"

definition parseAPIListDatasetSyncLogs :: "string \<Rightarrow> Parser \<Rightarrow> Command res" where
  "parseAPIListDatasetSyncLogs datasetName p =
    (let p = nextToken p in
     let cmd = NewCommand ''api_list_sync_logs'' in
     let cmd = setParam ''dataset_name'' (CStr datasetName) cmd in
     bindR (parseSyncLogsWithOptions cmd p) (\<lambda>cmd p.
     let p = optSemicolon p in
     POk cmd p))"

definition parseAPIListDatasetCommands :: "Parser \<Rightarrow> Command res" where
  "parseAPIListDatasetCommands p =
    (let p = nextToken p in
     (case parseQuotedString p of
        Inl err \<Rightarrow> PErr err
      | Inr datasetID \<Rightarrow>
     let p = nextToken p in
     if curType p = TokenDocuments
     then parseAPIListDatasetDocuments datasetID p
     else if curType p = TokenFiles
     then parseAPIListDatasetFiles datasetID p
     else if curType p = TokenIngestion
     then parseAPIListDatasetIngestionTasks datasetID p
     else if curType p = TokenSyncLogs
     then parseAPIListDatasetSyncLogs datasetID p
     else PErr (Errf ''unknown LIST target: %s'' [Txt (curValue p)])))"

definition parseAPIListAgents :: "Parser \<Rightarrow> Command res" where
  "parseAPIListAgents p =
    (let p = nextToken p in
     let p = optSemicolon p in
     POk (NewCommand ''api_list_agents'') p)"

definition parseAPIListChats :: "Parser \<Rightarrow> Command res" where
  "parseAPIListChats p =
    (let p = nextToken p in
     let p = optSemicolon p in
     POk (NewCommand ''api_list_chats'') p)"

definition parseAPIListSearches :: "Parser \<Rightarrow> Command res" where
  "parseAPIListSearches p =
    (let p = nextToken p in
     let p = optSemicolon p in
     POk (NewCommand ''api_list_searches'') p)"

definition parseAPIListMemories :: "Parser \<Rightarrow> Command res" where
  "parseAPIListMemories p =
    (let p = nextToken p in
     let p = optSemicolon p in
     POk (NewCommand ''api_list_memories'') p)"

definition parseAPIListAPIKeys :: "Parser \<Rightarrow> Command res" where
  "parseAPIListAPIKeys p =
    (let p = nextToken p in
     let cmd = NewCommand ''api_list_api_keys'' in
     let p = optSemicolon p in
     POk cmd p)"

definition parseAPIListProviders :: "Parser \<Rightarrow> Command res" where
  "parseAPIListProviders p =
    (let p = nextToken p in
     let p = optSemicolon p in
     POk (NewCommand ''api_list_providers'') p)"

definition parseListProviderInstances :: "string \<Rightarrow> Parser \<Rightarrow> Command res" where
  "parseListProviderInstances providerName p =
    (let p = nextToken p in
     let p = optSemicolon p in
     let cmd = NewCommand ''api_list_provider_instances'' in
     let cmd = setParam ''provider_name'' (CStr providerName) cmd in
     POk cmd p)"

definition parseListProviderInstanceModels :: "string \<Rightarrow> string \<Rightarrow> Parser \<Rightarrow> Command res" where
  "parseListProviderInstanceModels providerName instanceName p =
    (let p = nextToken p in
     let cmd = NewCommand ''api_list_provider_instance_models'' in
     let cmd =
       (if curType p = TokenSync
       then NewCommand ''api_list_provider_instance_models_sync''
       else cmd)
     in let p = optSemicolon p in
     let cmd = setParam ''provider_name'' (CStr providerName) cmd in
     let cmd = setParam ''instance_name'' (CStr instanceName) cmd in
     POk cmd p)"

definition parseListProviderInstanceTasks :: "string \<Rightarrow> string \<Rightarrow> Parser \<Rightarrow> Command res" where
  "parseListProviderInstanceTasks providerName instanceName p =
    (let p = nextToken p in
     let p = optSemicolon p in
     let cmd = NewCommand ''api_list_provider_instance_tasks'' in
     let cmd = setParam ''provider_name'' (CStr providerName) cmd in
     let cmd = setParam ''instance_name'' (CStr instanceName) cmd in
     POk cmd p)"

definition parseListProviderInstanceCommands :: "string \<Rightarrow> Parser \<Rightarrow> Command res" where
  "parseListProviderInstanceCommands providerName p =
    (let p = nextToken p in
     (case parseQuotedString p of
        Inl err \<Rightarrow> PErr err
      | Inr instanceName \<Rightarrow>
     let p = nextToken p in
     if curType p = TokenModels
     then parseListProviderInstanceModels providerName instanceName p
     else if curType p = TokenTasks
     then parseListProviderInstanceTasks providerName instanceName p
     else PErr (Errf ''unknown LIST target: %s'' [Txt (curValue p)])))"

definition parseListProviderModels :: "string \<Rightarrow> Parser \<Rightarrow> Command res" where
  "parseListProviderModels providerName p =
    (let p = nextToken p in
     let cmd = NewCommand ''api_list_provider_models'' in
     let p = optSemicolon p in
     let cmd = setParam ''provider_name'' (CStr providerName) cmd in
     POk cmd p)"

definition parseAPIListProviderCommands :: "Parser \<Rightarrow> Command res" where
  "parseAPIListProviderCommands p =
    (let p = nextToken p in
     (case parseQuotedString p of
        Inl err \<Rightarrow> PErr err
      | Inr providerName \<Rightarrow>
     let p = nextToken p in
     if curType p = TokenInstances
     then parseListProviderInstances providerName p
     else if curType p = TokenInstance
     then parseListProviderInstanceCommands providerName p
     else if curType p = TokenModels
     then parseListProviderModels providerName p
     else PErr (Errf ''unknown LIST target: %s'' [Txt (curValue p)])))"

definition parseAPIListAllModels :: "Parser \<Rightarrow> Command res" where
  "parseAPIListAllModels p =
    (let p = nextToken p in
     let cmd = NewCommand ''api_list_all_models'' in
     let p = optSemicolon p in
     POk cmd p)"

definition parseAPIListIngestionTasks :: "Parser \<Rightarrow> Command res" where
  "parseAPIListIngestionTasks p =
    (let p = nextToken p in
     if curType p \<noteq> TokenTasks
     then PErr (Errf ''expected TASKS'' [])
     else let p = nextToken p in
     let cmd = NewCommand ''api_list_ingestion_tasks'' in
     bindR
       (if curType p = TokenFrom
       then let p = nextToken p in
         (case parseQuotedString p of
            Inl err \<Rightarrow> PErr err
          | Inr datasetID \<Rightarrow>
         let cmd = setParam ''dataset_id'' (CStr datasetID) cmd in
         POk cmd p)
       else POk cmd p)
       (\<lambda>cmd p.
     let p = optSemicolon p in
     POk cmd p))"

definition parseAPIListSyncLogs :: "Parser \<Rightarrow> Command res" where
  "parseAPIListSyncLogs p =
    (let p = nextToken p in
     let cmd = NewCommand ''api_list_sync_logs'' in
     bindR
       (if curType p = TokenFrom
       then let p = nextToken p in
         (case parseQuotedString p of
            Inl err \<Rightarrow> PErr err
          | Inr datasetID \<Rightarrow>
         let cmd = setParam ''dataset_id'' (CStr datasetID) cmd in
         let p = nextToken p in
         POk cmd p)
       else POk cmd p)
       (\<lambda>cmd p.
     bindR (parseSyncLogsWithOptions cmd p) (\<lambda>cmd p.
     let p = optSemicolon p in
     POk cmd p)))"

definition parseAPIListDefaultModels :: "Parser \<Rightarrow> Command res" where
  "parseAPIListDefaultModels p =
    (let p = nextToken p in
     if curType p \<noteq> TokenModels
     then PErr (Errf ''expected MODELS'' [])
     else let p = nextToken p in
     let p = optSemicolon p in
     POk (NewCommand ''api_list_default_models'') p)"

definition parseAPIListAvailableProviders :: "Parser \<Rightarrow> Command res" where
  "parseAPIListAvailableProviders p =
    (let p = nextToken p in
     if curType p \<noteq> TokenProviders
     then PErr (Errf ''expected PROVIDERS'' [])
     else POk (NewCommand ''api_list_available_providers'') p)"

definition parseAPIListAPIServers :: "Parser \<Rightarrow> Command res" where
  "parseAPIListAPIServers p =
    (let p = nextToken p in
     if curType p = TokenServer
     then let p = nextToken p in
       let cmd = NewCommand ''api_list_api_servers'' in
       let p = optSemicolon p in
       POk cmd p
     else PErr (Errf ''expected SERVER after API'' []))"

definition parseAPIListEnvironments :: "Parser \<Rightarrow> Command res" where
  "parseAPIListEnvironments p =
    (let p = nextToken p in
     let cmd = NewCommand ''api_list_environments'' in
     let p = optSemicolon p in
     POk cmd p)"

definition parseAPIListVariables :: "Parser \<Rightarrow> Command res" where
  "parseAPIListVariables p =
    (let p = nextToken p in
     let cmd = NewCommand ''api_list_variables'' in
     let p = optSemicolon p in
     POk cmd p)"

definition parseAPIListCommands :: "Parser \<Rightarrow> Command res" where
  "parseAPIListCommands p =
    (let p = nextToken p in
     if curType p = TokenDatasets
     then parseAPIListDatasets p
     else if curType p = TokenDataset
     then parseAPIListDatasetCommands p
     else if curType p = TokenAgents
     then parseAPIListAgents p
     else if curType p = TokenChats
     then parseAPIListChats p
     else if curType p = TokenSearches
     then parseAPIListSearches p
     else if curType p = TokenMemories
     then parseAPIListMemories p
     else if curType p = TokenKeys
     then parseAPIListAPIKeys p
     else if curType p = TokenProviders
     then parseAPIListProviders p
     else if curType p = TokenProvider
     then parseAPIListProviderCommands p
     else if curType p = TokenModels
     then parseAPIListAllModels p
     else if curType p = TokenIngestion
     then parseAPIListIngestionTasks p
     else if curType p = TokenSyncLogs
     then parseAPIListSyncLogs p
     else if curType p = TokenDefault
     then parseAPIListDefaultModels p
     else if curType p = TokenAvailable
     then parseAPIListAvailableProviders p
     else if curType p = TokenAPI
     then parseAPIListAPIServers p
     else if curType p = TokenEnvs
     then parseAPIListEnvironments p
     else if curType p = TokenVars
     then parseAPIListVariables p
     else PErr (Errf ''unknown LIST target: %s'' [Txt (curValue p)]))"

definition parseAPIShowVersion :: "Parser \<Rightarrow> Command res" where
  "parseAPIShowVersion p =
    (let p = nextToken p in
     let p = optSemicolon p in
     POk (NewCommand ''api_show_version'') p)"

definition parseAPIShowKey :: "Parser \<Rightarrow> Command res" where
  "parseAPIShowKey p =
    (let p = nextToken p in
     let p = optSemicolon p in
     POk (NewCommand ''api_show_api_key'') p)"

definition parseAPIShowCurrent :: "Parser \<Rightarrow> Command res" where
  "parseAPIShowCurrent p =
    (let p = nextToken p in
     let p = optSemicolon p in
     POk (NewCommand ''api_show_current'') p)"

definition parseAPIShowVariable :: "Parser \<Rightarrow> Command res" where
  "parseAPIShowVariable p =
    (let p = nextToken p in
     (case parseQuotedString p of
        Inl err \<Rightarrow> PErr err
      | Inr varName \<Rightarrow>
     let p = nextToken p in
     let cmd = NewCommand ''api_show_variable'' in
     let cmd = setParam ''var_name'' (CStr varName) cmd in
     let p = optSemicolon p in
     POk cmd p))"

definition parseAPIShowProviderInstanceBalance :: "string \<Rightarrow> string \<Rightarrow> Parser \<Rightarrow> Command res" where
  "parseAPIShowProviderInstanceBalance providerName instanceName p =
    (let p = nextToken p in
     let cmd = NewCommand ''api_show_provider_instance_balance'' in
     let cmd = setParam ''instance_name'' (CStr instanceName) cmd in
     let cmd = setParam ''provider_name'' (CStr providerName) cmd in
     let p = optSemicolon p in
     POk cmd p)"

definition parseAPIShowProviderInstanceTask :: "string \<Rightarrow> string \<Rightarrow> Parser \<Rightarrow> Command res" where
  "parseAPIShowProviderInstanceTask providerName instanceName p =
    (let p = nextToken p in
     (case parseQuotedString p of
        Inl err \<Rightarrow> PErr (Errf ''expected task id: %w'' [err])
      | Inr taskID \<Rightarrow>
     let p = nextToken p in
     let cmd = NewCommand ''api_show_provider_instance_task'' in
     let cmd = setParam ''instance_name'' (CStr instanceName) cmd in
     let cmd = setParam ''provider_name'' (CStr providerName) cmd in
     let cmd = setParam ''task_id'' (CStr taskID) cmd in
     let p = optSemicolon p in
     POk cmd p))"

definition parseAPIShowProviderInstance :: "string \<Rightarrow> Parser \<Rightarrow> Command res" where
  "parseAPIShowProviderInstance providerName p =
    (let p = nextToken p in
     (case parseQuotedString p of
        Inl err \<Rightarrow> PErr (Errf ''expected instance name: %w'' [err])
      | Inr instanceName \<Rightarrow>
     let p = nextToken p in
     if curType p = TokenBalance
     then parseAPIShowProviderInstanceBalance providerName instanceName p
     else if curType p = TokenTask
     then parseAPIShowProviderInstanceTask providerName instanceName p
     else if curType p \<in> set [TokenSemicolon, TokenEOF]
     then let p = nextToken p in
       let cmd = NewCommand ''api_show_provider_instance'' in
       let cmd = setParam ''instance_name'' (CStr instanceName) cmd in
       let cmd = setParam ''provider_name'' (CStr providerName) cmd in
       POk cmd p
     else PErr (Errf ''unknown SHOW target: %s'' [Txt (curValue p)])))"

definition parseAPIShowProviderModel :: "string \<Rightarrow> Parser \<Rightarrow> Command res" where
  "parseAPIShowProviderModel providerName p =
    (let p = nextToken p in
     (case parseQuotedString p of
        Inl err \<Rightarrow> PErr (Errf ''expected model name: %w'' [err])
      | Inr modelName \<Rightarrow>
     let p = nextToken p in
     let cmd = NewCommand ''api_show_provider_model'' in
     let cmd = setParam ''model_name'' (CStr modelName) cmd in
     let cmd = setParam ''provider_name'' (CStr providerName) cmd in
     let p = optSemicolon p in
     POk cmd p))"

definition parseAPIShowProviderCommands :: "Parser \<Rightarrow> Command res" where
  "parseAPIShowProviderCommands p =
    (let p = nextToken p in
     (case parseQuotedString p of
        Inl err \<Rightarrow> PErr (Errf ''expected provider name: %w'' [err])
      | Inr providerName \<Rightarrow>
     let p = nextToken p in
     if curType p = TokenInstance
     then parseAPIShowProviderInstance providerName p
     else if curType p = TokenModel
     then parseAPIShowProviderModel providerName p
     else if curType p \<in> set [TokenSemicolon, TokenEOF]
     then let p = nextToken p in
       let cmd = NewCommand ''api_show_provider'' in
       let cmd = setParam ''provider_name'' (CStr providerName) cmd in
       POk cmd p
     else PErr (Errf ''unknown SHOW target: %s'' [Txt (curValue p)])))"

definition parseAPIShowModel :: "Parser \<Rightarrow> Command res" where
  "parseAPIShowModel p =
    (let p = nextToken p in
     (case parseQuotedString p of
        Inl err \<Rightarrow> PErr (Errf ''expected model name: %w'' [err])
      | Inr modelName \<Rightarrow>
     let p = nextToken p in
     let p = optSemicolon p in
     let cmd = NewCommand ''api_show_model'' in
     let cmd = setParam ''model_name'' (CStr modelName) cmd in
     POk cmd p))"

definition parseAPIShowAdmin :: "Parser \<Rightarrow> Command res" where
  "parseAPIShowAdmin p =
    (let p = nextToken p in
     if curType p = TokenServer
     then let p = nextToken p in
       let cmd = NewCommand ''api_show_admin_server'' in
       let p = optSemicolon p in
       POk cmd p
     else PErr (Errf ''expected SERVER after ADMIN'' []))"

definition parseAPIShowAPI :: "Parser \<Rightarrow> Command res" where
  "parseAPIShowAPI p =
    (let p = nextToken p in
     if curType p = TokenServer
     then let p = nextToken p in
       let cmd = NewCommand ''api_show_api_server'' in
       (case parseQuotedString p of
          Inl err \<Rightarrow> PErr (Errf ''expected API server name: %w'' [err])
        | Inr serverName \<Rightarrow>
       let cmd = setParam ''api_server_name'' (CStr serverName) cmd in
       let p = nextToken p in
       let p = optSemicolon p in
       POk cmd p)
     else PErr (Errf ''expected SERVER after API'' []))"

definition parseShowLogLevel :: "Parser \<Rightarrow> Command res" where
  "parseShowLogLevel p =
    (let p = nextToken p in
     let cmd = NewCommand ''api_show_log_level'' in
     let p = optSemicolon p in
     POk cmd p)"

definition parseAPIShowLogCommands :: "Parser \<Rightarrow> Command res" where
  "parseAPIShowLogCommands p =
    (let p = nextToken p in
     if curType p = TokenLevel
     then parseShowLogLevel p
     else PErr (Errf ''expected LEVEL after LOG'' []))"

definition parseAPIShowCommands :: "Parser \<Rightarrow> Command res" where
  "parseAPIShowCommands p =
    (let p = nextToken p in
     if curType p = TokenVersion
     then parseAPIShowVersion p
     else if curType p = TokenKey
     then parseAPIShowKey p
     else if curType p = TokenCurrent
     then parseAPIShowCurrent p
     else if curType p = TokenVar
     then parseAPIShowVariable p
     else if curType p = TokenProvider
     then parseAPIShowProviderCommands p
     else if curType p = TokenModel
     then parseAPIShowModel p
     else if curType p = TokenAdmin
     then parseAPIShowAdmin p
     else if curType p = TokenAPI
     then parseAPIShowAPI p
     else if curType p = TokenLog
     then parseAPIShowLogCommands p
     else PErr (Errf ''unknown SHOW target: %s'' [Txt (curValue p)]))"

definition parseAPICreateDataset :: "Parser \<Rightarrow> Command res" where
  "parseAPICreateDataset p =
    (let p = nextToken p in
     (case parseQuotedString p of
        Inl err \<Rightarrow> PErr err
      | Inr datasetName \<Rightarrow>
     let p = optSemicolon p in
     let cmd = NewCommand ''api_create_dataset'' in
     let cmd = setParam ''dataset_name'' (CStr datasetName) cmd in
     POk cmd p))"

definition parseAPICreateChat :: "Parser \<Rightarrow> Command res" where
  "parseAPICreateChat p =
    (let p = nextToken p in
     (case parseQuotedString p of
        Inl err \<Rightarrow> PErr err
      | Inr chatName \<Rightarrow>
     let p = nextToken p in
     let p = optSemicolon p in
     let cmd = NewCommand ''api_create_chat'' in
     let cmd = setParam ''chat_name'' (CStr chatName) cmd in
     POk cmd p))"

definition parseAPICreateSearch :: "Parser \<Rightarrow> Command res" where
  "parseAPICreateSearch p =
    (let p = nextToken p in
     (case parseQuotedString p of
        Inl err \<Rightarrow> PErr err
      | Inr searchName \<Rightarrow>
     let p = nextToken p in
     let p = optSemicolon p in
     let cmd = NewCommand ''api_create_search'' in
     let cmd = setParam ''search_name'' (CStr searchName) cmd in
     POk cmd p))"

definition parseAPICreateAgent :: "Parser \<Rightarrow> Command res" where
  "parseAPICreateAgent p =
    (let p = nextToken p in
     (case parseQuotedString p of
        Inl err \<Rightarrow> PErr err
      | Inr agentName \<Rightarrow>
     let p = nextToken p in
     let p = optSemicolon p in
     let cmd = NewCommand ''api_create_agent'' in
     let cmd = setParam ''agent_name'' (CStr agentName) cmd in
     POk cmd p))"

definition parseAPICreateMemory :: "Parser \<Rightarrow> Command res" where
  "parseAPICreateMemory p =
    (let p = nextToken p in
     (case parseQuotedString p of
        Inl err \<Rightarrow> PErr err
      | Inr memoryName \<Rightarrow>
     let p = nextToken p in
     let p = optSemicolon p in
     let cmd = NewCommand ''api_create_memory'' in
     let cmd = setParam ''memory_name'' (CStr memoryName) cmd in
     POk cmd p))"

definition parseAPICreateKey :: "Parser \<Rightarrow> Command res" where
  "parseAPICreateKey p =
    (let p = nextToken p in
     let p = optSemicolon p in
     POk (NewCommand ''api_create_api_key'') p)"

definition parseAPICreateProviderInstance_body :: "(string \<times> string) \<Rightarrow> Parser \<Rightarrow> ((string \<times> string) + (string \<times> string)) res" where
  "parseAPICreateProviderInstance_body = (\<lambda>(baseURL, region) p.
    (if curType p = TokenRegion
     then let p = nextToken p in
       (case parseQuotedString p of
          Inl err \<Rightarrow> PErr (Errf ''expected region: %w'' [err])
        | Inr region \<Rightarrow>
       let p = nextToken p in
       POk (Inl (baseURL, region)) p)
     else if curType p = TokenURL
     then let p = nextToken p in
       (case parseQuotedString p of
          Inl err \<Rightarrow> PErr (Errf ''expected base URL: %w'' [err])
        | Inr baseURL \<Rightarrow>
       let p = nextToken p in
       POk (Inl (baseURL, region)) p)
     else POk (Inr (baseURL, region)) p))"

definition parseAPICreateProviderInstance :: "Parser \<Rightarrow> Command res" where
  "parseAPICreateProviderInstance p =
    (let p = nextToken p in
     (case parseQuotedString p of
        Inl err \<Rightarrow> PErr (Errf ''expected provider name: %w'' [err])
      | Inr providerName \<Rightarrow>
     let p = nextToken p in
     if curType p \<noteq> TokenInstance
     then PErr (Errf ''expected INSTANCE after provider name'' [])
     else let p = nextToken p in
     (case parseQuotedString p of
        Inl err \<Rightarrow> PErr (Errf ''expected instance name: %w'' [err])
      | Inr instanceName \<Rightarrow>
     let p = nextToken p in
     if curType p \<noteq> TokenKey
     then PErr (Errf ''expected KEY after instance name'' [])
     else let p = nextToken p in
     (case parseQuotedString p of
        Inl err \<Rightarrow> PErr (Errf ''expected API key: %w'' [err])
      | Inr apiKey \<Rightarrow>
     let p = nextToken p in
     let baseURL = [] in
     let region = [] in
     bindR (ploop parseAPICreateProviderInstance_body (baseURL, region) p) (\<lambda>(baseURL, region) p.
     let cmd = NewCommand ''api_create_provider_instance'' in
     let cmd = setParam ''provider_name'' (CStr providerName) cmd in
     let cmd = setParam ''instance_name'' (CStr instanceName) cmd in
     let cmd = setParam ''api_key'' (CStr apiKey) cmd in
     let cmd = (if baseURL \<noteq> [] then setParam ''base_url'' (CStr baseURL) cmd else cmd) in
     let cmd = (if region \<noteq> [] then setParam ''region'' (CStr region) cmd else cmd) in
     let p = nextToken p in
     let p = optSemicolon p in
     POk cmd p)))))"

definition parseAPICreateCommands :: "Parser \<Rightarrow> Command res" where
  "parseAPICreateCommands p =
    (let p = nextToken p in
     if curType p = TokenDataset
     then parseAPICreateDataset p
     else if curType p = TokenChat
     then parseAPICreateChat p
     else if curType p = TokenSearch
     then parseAPICreateSearch p
     else if curType p = TokenAgent
     then parseAPICreateAgent p
     else if curType p = TokenMemory
     then parseAPICreateMemory p
     else if curType p = TokenKey
     then parseAPICreateKey p
     else if curType p = TokenChunkStore
     then parseDevCreateChunkStore p
     else if curType p = TokenMetadata
     then parseDevCreateMetadataStore p
     else if curType p = TokenProvider
     then parseAPICreateProviderInstance p
     else PErr (Errf ''unknown CREATE target: %s'' [Txt (curValue p)]))"

definition parseAPIDropDataset :: "Parser \<Rightarrow> Command res" where
  "parseAPIDropDataset p =
    (let p = nextToken p in
     (case parseQuotedString p of
        Inl err \<Rightarrow> PErr err
      | Inr datasetName \<Rightarrow>
     let p = nextToken p in
     let cmd = NewCommand ''api_drop_dataset'' in
     let cmd = setParam ''dataset_name'' (CStr datasetName) cmd in
     let p = optSemicolon p in
     POk cmd p))"

definition parseAPIDropChat :: "Parser \<Rightarrow> Command res" where
  "parseAPIDropChat p =
    (let p = nextToken p in
     (case parseQuotedString p of
        Inl err \<Rightarrow> PErr err
      | Inr chatName \<Rightarrow>
     let cmd = NewCommand ''api_drop_chat'' in
     let cmd = setParam ''chat_name'' (CStr chatName) cmd in
     let p = nextToken p in
     let p = optSemicolon p in
     POk cmd p))"

definition parseAPIDropSearch :: "Parser \<Rightarrow> Command res" where
  "parseAPIDropSearch p =
    (let p = nextToken p in
     (case parseQuotedString p of
        Inl err \<Rightarrow> PErr err
      | Inr searchName \<Rightarrow>
     let p = nextToken p in
     let cmd = NewCommand ''api_drop_search'' in
     let cmd = setParam ''search_name'' (CStr searchName) cmd in
     let p = optSemicolon p in
     POk cmd p))"

definition parseAPIDropMemory :: "Parser \<Rightarrow> Command res" where
  "parseAPIDropMemory p =
    (let p = nextToken p in
     (case parseQuotedString p of
        Inl err \<Rightarrow> PErr err
      | Inr memoryName \<Rightarrow>
     let cmd = NewCommand ''api_drop_memory'' in
     let cmd = setParam ''memory_name'' (CStr memoryName) cmd in
     let p = nextToken p in
     let p = optSemicolon p in
     POk cmd p))"

definition parseAPIDropAgent :: "Parser \<Rightarrow> Command res" where
  "parseAPIDropAgent p =
    (let p = nextToken p in
     (case parseQuotedString p of
        Inl err \<Rightarrow> PErr err
      | Inr agentName \<Rightarrow>
     let cmd = NewCommand ''api_drop_agent'' in
     let cmd = setParam ''agent_name'' (CStr agentName) cmd in
     let p = nextToken p in
     let p = optSemicolon p in
     POk cmd p))"

definition parseAPIDropAPIKey :: "Parser \<Rightarrow> Command res" where
  "parseAPIDropAPIKey p =
    (let p = nextToken p in
     (case parseQuotedString p of
        Inl err \<Rightarrow> PErr err
      | Inr apiKey \<Rightarrow>
     let p = nextToken p in
     let cmd = NewCommand ''api_delete_api_key'' in
     let cmd = setParam ''api_key'' (CStr apiKey) cmd in
     let p = optSemicolon p in
     POk cmd p))"

definition parseAPIDropCommands :: "Parser \<Rightarrow> Command res" where
  "parseAPIDropCommands p =
    (let p = nextToken p in
     if curType p = TokenDataset
     then parseAPIDropDataset p
     else if curType p = TokenChat
     then parseAPIDropChat p
     else if curType p = TokenSearch
     then parseAPIDropSearch p
     else if curType p = TokenMemory
     then parseAPIDropMemory p
     else if curType p = TokenAgent
     then parseAPIDropAgent p
     else if curType p = TokenKey
     then parseAPIDropAPIKey p
     else if curType p = TokenChunkStore
     then parseDevDropChunkStore p
     else if curType p = TokenMetadata
     then parseDevDropMetadataStore p
     else PErr (Errf ''unknown DROP target: %s'' [Txt (curValue p)]))"

definition parseAddProviderInstance_body :: "(string \<times> string) \<Rightarrow> Parser \<Rightarrow> ((string \<times> string) + (string \<times> string)) res" where
  "parseAddProviderInstance_body = (\<lambda>(baseURL, region) p.
    (if curType p = TokenRegion
     then let p = nextToken p in
       (case parseQuotedString p of
          Inl err \<Rightarrow> PErr (Errf ''expected region: %w'' [err])
        | Inr region \<Rightarrow>
       let p = nextToken p in
       POk (Inl (baseURL, region)) p)
     else if curType p = TokenURL
     then let p = nextToken p in
       (case parseQuotedString p of
          Inl err \<Rightarrow> PErr (Errf ''expected base URL: %w'' [err])
        | Inr baseURL \<Rightarrow>
       let p = nextToken p in
       POk (Inl (baseURL, region)) p)
     else POk (Inr (baseURL, region)) p))"

definition parseAddProviderInstance :: "string \<Rightarrow> Parser \<Rightarrow> Command res" where
  "parseAddProviderInstance providerName p =
    (let p = nextToken p in
     (case parseQuotedString p of
        Inl err \<Rightarrow> PErr (Errf ''expected instance name: %w'' [err])
      | Inr instanceName \<Rightarrow>
     let p = nextToken p in
     if curType p \<noteq> TokenKey
     then PErr (Errf ''expected KEY after instance name'' [])
     else let p = nextToken p in
     (case parseQuotedString p of
        Inl err \<Rightarrow> PErr (Errf ''expected API key: %w'' [err])
      | Inr apiKey \<Rightarrow>
     let p = nextToken p in
     let baseURL = [] in
     let region = [] in
     bindR (ploop parseAddProviderInstance_body (baseURL, region) p) (\<lambda>(baseURL, region) p.
     let cmd = NewCommand ''api_add_provider_instance'' in
     let cmd = setParam ''provider_name'' (CStr providerName) cmd in
     let cmd = setParam ''instance_name'' (CStr instanceName) cmd in
     let cmd = setParam ''api_key'' (CStr apiKey) cmd in
     let cmd = (if baseURL \<noteq> [] then setParam ''base_url'' (CStr baseURL) cmd else cmd) in
     let cmd = (if region \<noteq> [] then setParam ''region'' (CStr region) cmd else cmd) in
     let p = nextToken p in
     let p = optSemicolon p in
     POk cmd p))))"

definition parseAPIAddProvider :: "Parser \<Rightarrow> Command res" where
  "parseAPIAddProvider p =
    (let p = nextToken p in
     (case parseQuotedString p of
        Inl err \<Rightarrow> PErr (Errf ''expected provider name: %w'' [err])
      | Inr providerName \<Rightarrow>
     let p = nextToken p in
     if curType p = TokenInstance
     then parseAddProviderInstance providerName p
     else if curType p \<in> set [TokenEOF, TokenSemicolon]
     then let p = nextToken p in
       let cmd = NewCommand ''api_add_provider'' in
       let cmd = setParam ''provider_name'' (CStr providerName) cmd in
       let p = nextToken p in
       POk cmd p
     else PErr (Errf ''unknown ADD PROVIDER target: %s'' [Txt (curValue p)])))"

fun find_duplicate :: "string list \<Rightarrow> string list \<Rightarrow> string option" where
  "find_duplicate seen [] = None"
| "find_duplicate seen (modelName # rest) =
    (if modelName \<in> set seen then Some modelName else find_duplicate (modelName # seen) rest)"

definition parseModelNames :: "string \<Rightarrow> fmsg + string list" where
  "parseModelNames raw =
    (let modelNames = string_fields raw
     in if modelNames = [] then Inl (Errf ''model name is required'' [])
        else case find_duplicate [] modelNames of
          Some modelName \<Rightarrow> Inl (Errf ''duplicate model name: %s'' [Txt modelName])
        | None \<Rightarrow> Inr modelNames)"

fun dedup_types :: "string list \<Rightarrow> string list \<Rightarrow> string list" where
  "dedup_types deduped [] = deduped"
| "dedup_types deduped (t # ts) =
    (let modelType = trim_space t
     in if modelType = [] then dedup_types deduped ts
        else if modelType \<in> set deduped then dedup_types deduped ts
        else dedup_types (deduped @ [modelType]) ts)"

record model_config =
  mc_index :: nat
  mc_types :: "string list"
  mc_think :: "bool option"
  mc_tokens :: int
  mc_maxDim :: "int option"
  mc_dims :: "int list"
  mc_models :: "(string \<Rightarrow> cval option) list"

definition parseAPIAddModel_dims :: "int list \<Rightarrow> Parser \<Rightarrow> (int list + int list) res" where
  "parseAPIAddModel_dims = (\<lambda>dims p.
    (if curType p = TokenInteger
     then (case parseNumber p of
          Inl err \<Rightarrow> PErr err
        | Inr dimV \<Rightarrow> POk (Inl (dims @ [dimV])) (nextToken p))
     else POk (Inr dims) p))"

definition finishModel :: "string \<Rightarrow> model_config \<Rightarrow> fmsg + model_config" where
  "finishModel currentModelName c =
    (if mc_types c = []
     then Inl (Errf ''model type is required for model %s'' [Txt currentModelName])
     else let modelTypes = dedup_types [] (mc_types c) in
     if modelTypes = []
     then Inl (Errf ''model type is required for model %s'' [Txt currentModelName])
     else let model = [''model_name'' \<mapsto> CStr currentModelName, ''model_types'' \<mapsto> CStrs modelTypes,
         ''max_tokens'' \<mapsto> CInt (mc_tokens c)];
       model = (case mc_think c of None \<Rightarrow> model | Some b \<Rightarrow> model(''thinking'' \<mapsto> CBool b));
       model = (case mc_maxDim c of None \<Rightarrow> model
         | Some n \<Rightarrow> model(''max_dimension'' \<mapsto> CInt n, ''dimensions'' \<mapsto> CInts (mc_dims c)))
     in Inr \<lparr>mc_index = Suc (mc_index c), mc_types = [], mc_think = None, mc_tokens = 0,
       mc_maxDim = None, mc_dims = [], mc_models = mc_models c @ [model]\<rparr>)"

definition modelTypeTokens :: "(nat \<times> string) list" where
  "modelTypeTokens = [(TokenVision, ''vision''), (TokenChat, ''chat''), (TokenRerank, ''rerank''),
    (TokenOCR, ''ocr''), (TokenDocParse, ''doc_parse''), (TokenTTS, ''tts''), (TokenASR, ''asr'')]"

definition parseAPIAddModel_body ::
  "string list \<Rightarrow> model_config \<Rightarrow> Parser \<Rightarrow> (model_config + model_config) res" where
  "parseAPIAddModel_body modelNames = (\<lambda>c p.
    (if mc_index c \<ge> length modelNames
     then PErr (Errf ''too many model configs: got more configs than model names'' [])
     else let currentModelName = modelNames ! mc_index c in
     if curType p = TokenThink
     then (if mc_think c \<noteq> None
       then PErr (Errf ''think model is already set for model %s'' [Txt currentModelName])
       else POk (Inl (c\<lparr>mc_think := Some True\<rparr>)) (nextToken p))
     else if curType p = TokenEmbedding
     then let c = c\<lparr>mc_types := mc_types c @ [''embedding'']\<rparr> in
       let p = nextToken p in
       if curType p = TokenInteger
       then (case parseNumber p of
            Inl err \<Rightarrow> PErr err
          | Inr dimV \<Rightarrow>
         let c = c\<lparr>mc_maxDim := Some dimV\<rparr> in
         let p = nextToken p in
         bindR (ploop parseAPIAddModel_dims [] p) (\<lambda>dims p.
         POk (Inl (c\<lparr>mc_dims := dims\<rparr>)) p))
       else POk (Inl c) p
     else if curType p \<in> set [TokenToken, TokenTokens]
     then let p = nextToken p in
       if mc_tokens c \<noteq> 0
       then PErr (Errf ''max tokens is already given %d for model %s'' [Dec (mc_tokens c), Txt currentModelName])
       else if curType p \<noteq> TokenInteger
       then PErr (Errf ''expected integer'' [])
       else (case parseNumber p of
          Inl err \<Rightarrow> PErr err
        | Inr n \<Rightarrow> POk (Inl (c\<lparr>mc_tokens := n\<rparr>)) (nextToken p))
     else if curType p \<in> set [TokenComma, TokenSemicolon, TokenEOF]
     then (case finishModel currentModelName c of
          Inl err \<Rightarrow> PErr err
        | Inr c \<Rightarrow>
       if curType p = TokenComma
       then POk (Inl c) (nextToken p)
       else POk (Inr c) (optSemicolon p))
     else (case map_of modelTypeTokens (curType p) of
          Some modelType \<Rightarrow> POk (Inl (c\<lparr>mc_types := mc_types c @ [modelType]\<rparr>)) (nextToken p)
        | None \<Rightarrow> PErr (Errf ''unexpected token type: %s'' [Txt (curValue p)]))))"

definition parseAPIAddModel :: "Parser \<Rightarrow> Command res" where
  "parseAPIAddModel p =
    (let p = nextToken p in
     if curType p \<noteq> TokenQuotedString
     then PErr (Errf ''expected model name'' [])
     else (case parseQuotedString p of
        Inl err \<Rightarrow> PErr err
      | Inr rawModelNames \<Rightarrow>
     (case parseModelNames rawModelNames of
        Inl err \<Rightarrow> PErr err
      | Inr modelNames \<Rightarrow>
     let p = nextToken p in
     if curType p \<noteq> TokenTo
     then PErr (Errf ''expected TO'' [])
     else let p = nextToken p in
     if curType p \<noteq> TokenProvider
     then PErr (Errf ''expected PROVIDER'' [])
     else let p = nextToken p in
     if curType p \<noteq> TokenQuotedString
     then PErr (Errf ''expected provider name'' [])
     else (case parseQuotedString p of
        Inl err \<Rightarrow> PErr err
      | Inr providerName \<Rightarrow>
     let p = nextToken p in
     if curType p \<noteq> TokenInstance
     then PErr (Errf ''expected INSTANCE'' [])
     else let p = nextToken p in
     if curType p \<noteq> TokenQuotedString
     then PErr (Errf ''expected provider name'' [])
     else (case parseQuotedString p of
        Inl err \<Rightarrow> PErr err
      | Inr instanceName \<Rightarrow>
     let p = nextToken p in
     let c = \<lparr>mc_index = 0, mc_types = [], mc_think = None, mc_tokens = 0, mc_maxDim = None,
       mc_dims = [], mc_models = []\<rparr> in
     bindR (ploop (parseAPIAddModel_body modelNames) c p) (\<lambda>c p.
     if length (mc_models c) \<noteq> length modelNames
     then PErr (Errf ''model config count %d does not match model name count %d''
       [Dec (int (length (mc_models c))), Dec (int (length modelNames))])
     else let cmd = NewCommand ''api_add_custom_model'' in
     let cmd = setParam ''provider_name'' (CStr providerName) cmd in
     let cmd = setParam ''instance_name'' (CStr instanceName) cmd in
     let cmd = setParam ''models'' (CMaps (mc_models c)) cmd in
     POk cmd p))))))"

definition parseAddAPIServer :: "Parser \<Rightarrow> Command res" where
  "parseAddAPIServer p =
    (let p = nextToken p in
     (case parseQuotedString p of
        Inl err \<Rightarrow> PErr err
      | Inr serverName \<Rightarrow>
     let p = nextToken p in
     if curType p \<noteq> TokenHost
     then PErr (Errf ''expected HOST'' [])
     else let p = nextToken p in
     (case parseQuotedString p of
        Inl err \<Rightarrow> PErr err
      | Inr host \<Rightarrow>
     let p = nextToken p in
     (case parseHostPort host of
        Inl err \<Rightarrow> PErr err
      | Inr (ip, port) \<Rightarrow>
     let cmd = NewCommand ''api_add_api_server'' in
     let cmd = setParam ''server_name'' (CStr serverName) cmd in
     let cmd = setParam ''server_ip'' (CStr ip) cmd in
     let cmd = setParam ''server_port'' (CInt port) cmd in
     POk cmd p))))"

definition parseAddAdminServer :: "Parser \<Rightarrow> Command res" where
  "parseAddAdminServer p =
    (let p = nextToken p in
     if curType p \<noteq> TokenHost
     then PErr (Errf ''expected HOST'' [])
     else let p = nextToken p in
     (case parseQuotedString p of
        Inl err \<Rightarrow> PErr err
      | Inr host \<Rightarrow>
     let p = nextToken p in
     (case parseHostPort host of
        Inl err \<Rightarrow> PErr err
      | Inr (ip, port) \<Rightarrow>
     let cmd = NewCommand ''api_add_admin_server'' in
     let cmd = setParam ''server_ip'' (CStr ip) cmd in
     let cmd = setParam ''server_port'' (CInt port) cmd in
     POk cmd p)))"

definition parseAPIAddCommands :: "Parser \<Rightarrow> Command res" where
  "parseAPIAddCommands p =
    (let p = nextToken p in
     if curType p = TokenProvider
     then parseAPIAddProvider p
     else if curType p = TokenModel
     then parseAPIAddModel p
     else if curType p = TokenAPI
     then parseAddAPIServer p
     else if curType p = TokenAdmin
     then parseAddAdminServer p
     else PErr (Errf ''unknown ADD target: %s'' [Txt (curValue p)]))"

definition parseAPIDeleteProviderInstanceModels :: "string \<Rightarrow> string \<Rightarrow> Parser \<Rightarrow> Command res" where
  "parseAPIDeleteProviderInstanceModels providerName instanceName p =
    (let p = nextToken p in
     (case parseQuotedString p of
        Inl err \<Rightarrow> PErr (Errf ''expected model name: %w'' [err])
      | Inr rawModels \<Rightarrow>
     let p = nextToken p in
     let modelNames = split_on (CHR '' '') rawModels in
     let cmd = NewCommand ''api_delete_provider_instance_model'' in
     let cmd = setParam ''instance_name'' (CStr instanceName) cmd in
     let cmd = setParam ''provider_name'' (CStr providerName) cmd in
     let cmd = setParam ''model_names'' (CStrs modelNames) cmd in
     let p = nextToken p in
     let p = optSemicolon p in
     POk cmd p))"

definition parseAPIDeleteProviderInstance :: "string \<Rightarrow> Parser \<Rightarrow> Command res" where
  "parseAPIDeleteProviderInstance providerName p =
    (let p = nextToken p in
     (case parseQuotedString p of
        Inl err \<Rightarrow> PErr (Errf ''expected instance name: %w'' [err])
      | Inr instanceName \<Rightarrow>
     let p = nextToken p in
     let cmd = NewCommand ''api_delete_provider_instance'' in
     let cmd = setParam ''provider_name'' (CStr providerName) cmd in
     let cmd = setParam ''instance_name'' (CStr instanceName) cmd in
     if curType p = TokenModels
     then parseAPIDeleteProviderInstanceModels providerName instanceName p
     else if curType p \<in> set [TokenEOF, TokenSemicolon]
     then let p = nextToken p in
       let p = optSemicolon p in
       POk cmd p
     else PErr (Errf ''unknown DELETE target: %s'' [Txt (curValue p)])))"

definition parseAPIDeleteProvider :: "Parser \<Rightarrow> Command res" where
  "parseAPIDeleteProvider p =
    (let p = nextToken p in
     (case parseQuotedString p of
        Inl err \<Rightarrow> PErr (Errf ''expected provider name: %w'' [err])
      | Inr providerName \<Rightarrow>
     let p = nextToken p in
     if curType p = TokenInstance
     then parseAPIDeleteProviderInstance providerName p
     else if curType p \<in> set [TokenEOF, TokenSemicolon]
     then let p = nextToken p in
       let cmd = NewCommand ''api_delete_provider'' in
       let cmd = setParam ''provider_name'' (CStr providerName) cmd in
       let p = optSemicolon p in
       POk cmd p
     else PErr (Errf ''unknown DELETE target: %s'' [Txt (curValue p)])))"

definition parseAPIDeleteAdminServer :: "Parser \<Rightarrow> Command res" where
  "parseAPIDeleteAdminServer p =
    (let p = nextToken p in
     let cmd = NewCommand ''api_delete_admin_server'' in
     let p = optSemicolon p in
     POk cmd p)"

definition parseAPIDeleteAPIServer :: "Parser \<Rightarrow> Command res" where
  "parseAPIDeleteAPIServer p =
    (let p = nextToken p in
     (case parseQuotedString p of
        Inl err \<Rightarrow> PErr err
      | Inr serverName \<Rightarrow>
     let p = nextToken p in
     let cmd = NewCommand ''api_delete_api_server'' in
     let cmd = setParam ''server_name'' (CStr serverName) cmd in
     let p = optSemicolon p in
     POk cmd p))"

definition parseAPIDeleteCommands :: "Parser \<Rightarrow> Command res" where
  "parseAPIDeleteCommands p =
    (let p = nextToken p in
     if curType p = TokenProvider
     then parseAPIDeleteProvider p
     else if curType p = TokenMetadata
     then parseDevDeleteMeta p
     else if curType p = TokenAdmin
     then parseAPIDeleteAdminServer p
     else if curType p = TokenAPI
     then parseAPIDeleteAPIServer p
     else PErr (Errf ''unknown DELETE target: %s'' [Txt (curValue p)]))"

definition parseAPIAlterInstance_body :: "(string \<times> string) \<Rightarrow> Parser \<Rightarrow> ((string \<times> string) + (string \<times> string)) res" where
  "parseAPIAlterInstance_body = (\<lambda>(newAPIKey, newInstanceName) p.
    (if curType p = TokenName
     then let p = nextToken p in
       (case parseQuotedString p of
          Inl err \<Rightarrow> PErr (Errf ''expected model name: %w'' [err])
        | Inr newInstanceName \<Rightarrow>
       let p = nextToken p in
       POk (Inl (newAPIKey, newInstanceName)) p)
     else if curType p = TokenKey
     then let p = nextToken p in
       (case parseQuotedString p of
          Inl err \<Rightarrow> PErr (Errf ''expected API key: %w'' [err])
        | Inr newAPIKey \<Rightarrow>
       let p = nextToken p in
       POk (Inl (newAPIKey, newInstanceName)) p)
     else POk (Inr (newAPIKey, newInstanceName)) p))"

definition parseAPIAlterInstance :: "Parser \<Rightarrow> Command res" where
  "parseAPIAlterInstance p =
    (let p = nextToken p in
     (case parseQuotedString p of
        Inl err \<Rightarrow> PErr (Errf ''expected provider name: %w'' [err])
      | Inr providerName \<Rightarrow>
     let p = nextToken p in
     if curType p \<noteq> TokenInstance
     then PErr (Errf ''expected INSTANCE after provider name'' [])
     else let p = nextToken p in
     (case parseQuotedString p of
        Inl err \<Rightarrow> PErr (Errf ''expected instance name: %w'' [err])
      | Inr instanceName \<Rightarrow>
     let p = nextToken p in
     let newInstanceName = [] in
     let newAPIKey = [] in
     bindR (ploop parseAPIAlterInstance_body (newAPIKey, newInstanceName) p) (\<lambda>(newAPIKey, newInstanceName) p.
     if newInstanceName = [] \<and> newAPIKey = []
     then PErr (Errf ''expected NAME or KEY after INSTANCE'' [])
     else let cmd = NewCommand ''api_alter_provider_instance'' in
     let cmd = setParam ''provider_name'' (CStr providerName) cmd in
     let cmd = setParam ''instance_name'' (CStr instanceName) cmd in
     let cmd = setParam ''new_instance_name'' (CStr newInstanceName) cmd in
     let cmd = setParam ''new_api_key'' (CStr newAPIKey) cmd in
     let p = nextToken p in
     let p = optSemicolon p in
     POk cmd p))))"

definition parseAPIAlterCommands :: "Parser \<Rightarrow> Command res" where
  "parseAPIAlterCommands p =
    (let p = nextToken p in
     if curType p = TokenProvider
     then parseAPIAlterInstance p
     else PErr (Errf ''unknown ALTER target: %s'' [Txt (curValue p)]))"

definition parseIdentifierList_body :: "(string \<times> string list) \<Rightarrow> Parser \<Rightarrow> ((string \<times> string list) + (string \<times> string list)) res" where
  "parseIdentifierList_body = (\<lambda>(ident, listV) p.
    (if curType p = TokenComma
     then let p = nextToken p in
       (case parseIdentifier p of
          Inl err \<Rightarrow> PErr err
        | Inr ident \<Rightarrow>
       let listV = listV @ [ident] in
       let p = nextToken p in
       POk (Inl (ident, listV)) p)
     else POk (Inr (ident, listV)) p))"

definition parseIdentifierList :: "Parser \<Rightarrow> string list res" where
  "parseIdentifierList p =
    (let listV = ([] :: string list) in
     (case parseIdentifier p of
        Inl err \<Rightarrow> PErr err
      | Inr ident \<Rightarrow>
     let listV = listV @ [ident] in
     let p = nextToken p in
     bindR (ploop parseIdentifierList_body (ident, listV) p) (\<lambda>(ident, listV) p.
     POk listV p)))"

definition parseAPISetVariable :: "Parser \<Rightarrow> Command res" where
  "parseAPISetVariable p =
    (let p = nextToken p in
     (case parseQuotedString p of
        Inl err \<Rightarrow> PErr err
      | Inr varName \<Rightarrow>
     let p = nextToken p in
     (case parseVariableValue p of
        Inl err \<Rightarrow> PErr err
      | Inr varValue \<Rightarrow>
     let p = nextToken p in
     let cmd = NewCommand ''api_set_variable'' in
     let cmd = setParam ''var_name'' (CStr varName) cmd in
     let cmd = setParam ''var_value'' (CStr varValue) cmd in
     let p = optSemicolon p in
     POk cmd p)))"

definition parseAPISetDefault :: "Parser \<Rightarrow> Command res" where
  "parseAPISetDefault p =
    (let p = nextToken p in
     let modelType = ([] :: string) in
     let modelNameOrID = ([] :: string) in
     bindR
       (if curType p = TokenChat
       then let modelType = ''chat'' in
         POk modelType p
       else if curType p = TokenVision
       then let modelType = ''vision'' in
         POk modelType p
       else if curType p = TokenEmbedding
       then let modelType = ''embedding'' in
         POk modelType p
       else if curType p = TokenRerank
       then let modelType = ''rerank'' in
         POk modelType p
       else if curType p = TokenASR
       then let modelType = ''asr'' in
         POk modelType p
       else if curType p = TokenTTS
       then let modelType = ''tts'' in
         POk modelType p
       else if curType p = TokenOCR
       then let modelType = ''ocr'' in
         POk modelType p
       else PErr (Errf ''unknown model type: %s'' [Txt (curValue p)]))
       (\<lambda>modelType p.
     let p = nextToken p in
     if curType p \<noteq> TokenModel
     then PErr (Errf ''expected MODEL'' [])
     else let p = nextToken p in
     if curType p \<noteq> TokenQuotedString
     then PErr (Errf ''expected quoted string with format model@instance@provider'' [])
     else (case parseQuotedString p of
        Inl err \<Rightarrow> PErr err
      | Inr modelNameOrID \<Rightarrow>
     let p = nextToken p in
     let cmd = NewCommand ''api_set_default_model'' in
     let cmd = setParam ''model_type'' (CStr modelType) cmd in
     bindR
       (if IsCompositeModelName modelNameOrID
       then let cmd = setParam ''composite_model_name'' (CStr modelNameOrID) cmd in
         POk cmd p
       else if IsUUID modelNameOrID
       then let cmd = setParam ''model_id'' (CStr modelNameOrID) cmd in
         POk cmd p
       else PErr (Errf ''invalid format of model name or ID: %s'' [Txt modelNameOrID]))
       (\<lambda>cmd p.
     let p = nextToken p in
     let p = optSemicolon p in
     POk cmd p))))"

definition parseAPISetAPIKey :: "Parser \<Rightarrow> Command res" where
  "parseAPISetAPIKey p =
    (let p = nextToken p in
     (case parseQuotedString p of
        Inl err \<Rightarrow> PErr err
      | Inr apiKey \<Rightarrow>
     let p = nextToken p in
     let cmd = NewCommand ''api_set_api_key'' in
     let cmd = setParam ''api_key'' (CStr apiKey) cmd in
     let p = optSemicolon p in
     POk cmd p))"

definition parseAPISetLogLevel :: "Parser \<Rightarrow> Command res" where
  "parseAPISetLogLevel p =
    (let p = nextToken p in
     let cmd = NewCommand ''api_set_log_level'' in
     bindR
       (if curType p = TokenDebug
       then let cmd = setParam ''level'' (CStr ''debug'') cmd in
         POk cmd p
       else if curType p = TokenInfo
       then let cmd = setParam ''level'' (CStr ''info'') cmd in
         POk cmd p
       else if curType p = TokenWarn
       then let cmd = setParam ''level'' (CStr ''warn'') cmd in
         POk cmd p
       else if curType p = TokenError
       then let cmd = setParam ''level'' (CStr ''error'') cmd in
         POk cmd p
       else if curType p = TokenFatal
       then let cmd = setParam ''level'' (CStr ''fatal'') cmd in
         POk cmd p
       else if curType p = TokenPanic
       then let cmd = setParam ''level'' (CStr ''panic'') cmd in
         POk cmd p
       else PErr (Errf ''unknown log level: %s'' [Txt (curValue p)]))
       (\<lambda>cmd p.
     let p = nextToken p in
     let p = optSemicolon p in
     POk cmd p))"

definition parseAPISetLog :: "Parser \<Rightarrow> Command res" where
  "parseAPISetLog p =
    (let p = nextToken p in
     if curType p = TokenLevel
     then parseAPISetLogLevel p
     else PErr (Errf ''unknown log target: %s'' [Txt (curValue p)]))"

definition parseAPISetCommands :: "Parser \<Rightarrow> Command res" where
  "parseAPISetCommands p =
    (let p = nextToken p in
     if curType p = TokenVar
     then parseAPISetVariable p
     else if curType p = TokenDefault
     then parseAPISetDefault p
     else if curType p = TokenKey
     then parseAPISetAPIKey p
     else if curType p = TokenLog
     then parseAPISetLog p
     else if curType p = TokenMetadata
     then parseDevSetMeta p
     else PErr (Errf ''unknown SET target: %s'' [Txt (curValue p)]))"

definition parseAPIResetDefaultModel :: "Parser \<Rightarrow> Command res" where
  "parseAPIResetDefaultModel p =
    (let p = nextToken p in
     let modelType = ([] :: string) in
     bindR
       (if curType p = TokenChat
       then let modelType = ''chat'' in
         POk modelType p
       else if curType p = TokenVision
       then let modelType = ''vision'' in
         POk modelType p
       else if curType p = TokenEmbedding
       then let modelType = ''embedding'' in
         POk modelType p
       else if curType p = TokenRerank
       then let modelType = ''rerank'' in
         POk modelType p
       else if curType p = TokenASR
       then let modelType = ''asr'' in
         POk modelType p
       else if curType p = TokenTTS
       then let modelType = ''tts'' in
         POk modelType p
       else if curType p = TokenOCR
       then let modelType = ''ocr'' in
         POk modelType p
       else PErr (Errf ''unknown model type: %s'' [Txt (curValue p)]))
       (\<lambda>modelType p.
     let cmd = NewCommand ''reset_default_model'' in
     let cmd = setParam ''model_type'' (CStr modelType) cmd in
     let p = nextToken p in
     if curType p \<noteq> TokenModel
     then PErr (Errf ''expected MODEL'' [])
     else let p = nextToken p in
     let p = optSemicolon p in
     POk cmd p))"

definition parseAPIResetKey :: "Parser \<Rightarrow> Command res" where
  "parseAPIResetKey p =
    (let p = nextToken p in
     let p = optSemicolon p in
     POk (NewCommand ''api_unset_api_key'') p)"

definition parseAPIResetCommands :: "Parser \<Rightarrow> Command res" where
  "parseAPIResetCommands p =
    (let p = nextToken p in
     if curType p = TokenDefault
     then parseAPIResetDefaultModel p
     else if curType p = TokenKey
     then parseAPIResetKey p
     else PErr (Errf ''unknown RESET target: %s'' [Txt (curValue p)]))"

definition parseAPIImport :: "Parser \<Rightarrow> Command res" where
  "parseAPIImport p =
    (let p = nextToken p in
     (case parseQuotedString p of
        Inl err \<Rightarrow> PErr err
      | Inr documentPaths \<Rightarrow>
     let p = nextToken p in
     if curType p \<noteq> TokenInto
     then PErr (Errf ''expected INTO'' [])
     else let p = nextToken p in
     if curType p \<noteq> TokenDataset
     then PErr (Errf ''expected DATASET'' [])
     else let p = nextToken p in
     (case parseQuotedString p of
        Inl err \<Rightarrow> PErr err
      | Inr datasetName \<Rightarrow>
     let cmd = NewCommand ''import_docs_into_dataset'' in
     let cmd = setParam ''document_paths'' (CStr documentPaths) cmd in
     let cmd = setParam ''dataset_name'' (CStr datasetName) cmd in
     let p = nextToken p in
     let p = optSemicolon p in
     POk cmd p)))"

definition dashes_body :: "nat \<Rightarrow> Parser \<Rightarrow> (nat + nat) res" where
  "dashes_body = (\<lambda>dashCount p.
    (if curType p = TokenDash then POk (Inl (Suc dashCount)) (nextToken p)
     else POk (Inr dashCount) p))"

definition retrieve_value :: "string \<Rightarrow> Parser \<Rightarrow> cval option res" where
  "retrieve_value paramName p =
    (if curType p = TokenInteger
     then (case parseNumber p of
          Inl err \<Rightarrow> PErr err
        | Inr n \<Rightarrow> POk (Some (CInt n)) (nextToken p))
     else if curType p = TokenFloat
     then (case parseFloat p of
          Inl err \<Rightarrow> PErr err
        | Inr (m, k) \<Rightarrow> POk (Some (CFloat m k)) (nextToken p))
     else if curType p = TokenQuotedString
     then (case parseQuotedString p of
          Inl err \<Rightarrow> PErr err
        | Inr s \<Rightarrow> POk (Some (CStr s)) (nextToken p))
     else if curType p = TokenIdentifier
     then POk (Some (CStr (curValue p))) (nextToken p)
     else if curType p = TokenLBracket
     then POk None p
     else PErr (Errf ''WITH option %q is missing a value'' [Txt paramName]))"

definition retrieve_option ::
  "string \<Rightarrow> nat \<Rightarrow> cval option \<Rightarrow> Command \<Rightarrow> Parser \<Rightarrow> Command res" where
  "retrieve_option paramName valueToken paramValue cmd p =
    (if paramName \<in> set [''top_k'', ''page_size'', ''page'']
     then if valueToken \<noteq> TokenInteger
       then PErr (Errf ''WITH option %q must be an integer, got %s''
         [Txt paramName, tokenTypeDescription valueToken (ps_cur p)])
       else POk (cmd\<lparr>Cmd_Params := (Cmd_Params cmd)(paramName := paramValue)\<rparr>) p
     else if paramName \<in> set [''similarity_threshold'', ''vector_similarity_weight'']
     then (case paramValue of
          Some (CInt n) \<Rightarrow> POk (setParam paramName (CFloat (nat n) 0) cmd) p
        | Some (CFloat m k) \<Rightarrow> POk (setParam paramName (CFloat m k) cmd) p
        | _ \<Rightarrow> PErr (Errf ''WITH option %q must be a number, got %s''
            [Txt paramName, tokenTypeDescription valueToken (ps_cur p)]))
     else if paramName \<in> set [''keyword'', ''use_kg'']
     then (case paramValue of
          Some (CStr s) \<Rightarrow>
            if ToLower s = ''true'' then POk (setParam paramName (CBool True) cmd) p
            else if ToLower s = ''false'' then POk (setParam paramName (CBool False) cmd) p
            else PErr (Errf ''WITH option %q must be true or false, got %q'' [Txt paramName, Txt s])
        | _ \<Rightarrow> PErr (Errf ''WITH option %q must be true or false, got %s''
            [Txt paramName, tokenTypeDescription valueToken (ps_cur p)]))
     else if paramName \<in> set [''rerank_id'', ''tenant_rerank_id'', ''search_id'', ''meta_data_filter'']
     then if valueToken \<noteq> TokenQuotedString
       then PErr (Errf ''WITH option %q must be a quoted string, got %s''
         [Txt paramName, tokenTypeDescription valueToken (ps_cur p)])
       else POk (cmd\<lparr>Cmd_Params := (Cmd_Params cmd)(paramName := paramValue)\<rparr>) p
     else if paramName \<in> set [''cross_languages'', ''doc_ids'']
     then if curType p \<noteq> TokenLBracket
       then PErr (Errf (''WITH option %q must be a list, e.g. %q ['' @ bytes [39, 97, 39] @ '', '' @
         bytes [39, 98, 39] @ '']'') [Txt paramName, Txt paramName])
       else bindR (parseQuotedStringList p) (\<lambda>strs p.
       POk (setParam paramName (CStrs strs) cmd) p)
     else PErr (Errf ''unknown WITH option %q'' [Txt paramName]))"

definition parseAPIRetrieve_with :: "Command \<Rightarrow> Parser \<Rightarrow> (Command + Command) res" where
  "parseAPIRetrieve_with = (\<lambda>cmd p.
    (if curType p \<noteq> TokenEOF \<and> curType p \<noteq> TokenSemicolon
     then if curType p = TokenComma
       then PErr (Errf ''syntax error: WITH options must be space-separated, not comma-separated'' [])
       else if curType p \<noteq> TokenIdentifier
       then POk (Inr cmd) p
       else let paramName = ToLower (curValue p) in
       let p = nextToken p in
       let valueToken = curType p in
       bindR (retrieve_value paramName p) (\<lambda>paramValue p.
       bindR (retrieve_option paramName valueToken paramValue cmd p) (\<lambda>cmd p.
       POk (Inl cmd) p))
     else POk (Inr cmd) p))"

definition pathParam :: "Command \<Rightarrow> string" where
  "pathParam cmd = (case Cmd_Params cmd ''path'' of Some (CStr s) \<Rightarrow> s | _ \<Rightarrow> [])"

definition parseAPIRetrieve_path :: "Command \<Rightarrow> Parser \<Rightarrow> (Command + Command) res" where
  "parseAPIRetrieve_path = (\<lambda>cmd p.
    (if curType p \<noteq> TokenEOF
     then if curType p = TokenDash
       then let p = nextToken p in
         if curType p \<noteq> TokenIdentifier
         then PErr (Errf ''expect identifier'' [])
         else if ToLower (curValue p) = ''n''
         then let p = nextToken p in
           if curType p \<noteq> TokenInteger
           then PErr (Errf ''expect number'' [])
           else (case parseNumber p of
              Inl err \<Rightarrow> PErr err
            | Inr n \<Rightarrow> POk (Inl (setParam ''number'' (CInt n) cmd)) (nextToken p))
         else PErr (Errf ''unknow parameter: %s'' [Txt (curValue p)])
       else if curType p = TokenIdentifier
       then let cmd = (if Cmd_Params cmd ''path'' = None then setParam ''path'' (CStr (curValue p)) cmd
           else setParam ''path'' (CStr (pathParam cmd @ curValue p)) cmd) in
         POk (Inl cmd) (nextToken p)
       else if curType p = TokenSlash
       then let cmd = (if Cmd_Params cmd ''path'' = None then setParam ''path'' (CStr ''/'') cmd
           else setParam ''path'' (CStr (pathParam cmd @ ''/'')) cmd) in
         let p = nextToken p in
         if curType p = TokenIdentifier
         then POk (Inl (setParam ''path'' (CStr (pathParam cmd @ curValue p)) cmd)) (nextToken p)
         else POk (Inl cmd) p
       else if curType p = TokenIllegal \<and> curValue p = ''.''
       then let cmd = (if Cmd_Params cmd ''path'' = None then setParam ''path'' (CStr ''.'') cmd
           else setParam ''path'' (CStr (pathParam cmd @ ''.'')) cmd) in
         POk (Inl cmd) (nextToken p)
       else PErr (Errf ''unexpected token %q in search path'' [Txt (curValue p)])
     else POk (Inr cmd) p))"

definition parseAPIRetrieve :: "Parser \<Rightarrow> Command res" where
  "parseAPIRetrieve p =
    (let p = nextToken p in
     if curType p = TokenDash
     then bindR (ploop dashes_body 0 p) (\<lambda>dashCount p.
       if dashCount > 0 \<and> curType p = TokenIdentifier \<and> ToLower (curValue p) \<in> set [''h'', ''help'']
       then POk (NewCommand ''search_help'') p
       else PErr (Errf ''expected quoted string or identifier'' []))
     else bindR
       (if curType p = TokenQuotedString
       then (case parseQuotedString p of Inl err \<Rightarrow> PErr err | Inr question \<Rightarrow> POk question p)
       else if curType p = TokenIdentifier
       then (case parseIdentifier p of Inl err \<Rightarrow> PErr err | Inr question \<Rightarrow> POk question p)
       else PErr (Errf ''expected quoted string or identifier'' []))
       (\<lambda>question p.
     let p = nextToken p in
     if curType p = TokenOn
     then let p = nextToken p in
       if curType p \<noteq> TokenDatasets
       then PErr (Errf ''expected DATASETS'' [])
       else let p = nextToken p in
       (case parseQuotedString p of
          Inl err \<Rightarrow> PErr err
        | Inr datasets \<Rightarrow>
       let cmd = NewCommand ''search_on_datasets'' in
       let cmd = setParam ''question'' (CStr question) cmd in
       let cmd = setParam ''datasets'' (CStr datasets) cmd in
       let p = nextToken p in
       bindR
         (if curType p = TokenWith \<or> curType p = TokenIdentifier \<and> ToLower (curValue p) = ''with''
         then let p = nextToken p in
           ploop parseAPIRetrieve_with cmd p
         else POk cmd p)
         (\<lambda>cmd p.
       let p = optSemicolon p in
       POk cmd p))
     else let cmd = NewCommand ''ce_search'' in
     let cmd = setParam ''query'' (CStr question) cmd in
     if curType p = TokenEOF
     then POk (setParam ''path'' (CStr ''.'') cmd) p
     else ploop parseAPIRetrieve_path cmd p))"

definition parseAPIParseDataset :: "Parser \<Rightarrow> Command res" where
  "parseAPIParseDataset p =
    (let p = nextToken p in
     (case parseQuotedString p of
        Inl err \<Rightarrow> PErr err
      | Inr datasetName \<Rightarrow>
     let p = nextToken p in
     let method = ([] :: string) in
     bindR
       (if curType p = TokenSync
       then let method = ''sync'' in
         POk method p
       else if curType p = TokenAsync
       then let method = ''async'' in
         POk method p
       else PErr (Errf ''expected SYNC or ASYNC'' []))
       (\<lambda>method p.
     let p = nextToken p in
     let cmd = NewCommand ''parse_dataset'' in
     let cmd = setParam ''dataset_name'' (CStr datasetName) cmd in
     let cmd = setParam ''method'' (CStr method) cmd in
     let p = optSemicolon p in
     POk cmd p)))"

definition parseAPIModelParse :: "Parser \<Rightarrow> Command res" where
  "parseAPIModelParse p =
    (let p = nextToken p in
     (case parseQuotedString p of
        Inl err \<Rightarrow> PErr err
      | Inr modelNameOrID \<Rightarrow>
     let p = nextToken p in
     let cmd = NewCommand ''api_model_parse_file'' in
     bindR
       (if curType p = TokenFile
       then let p = nextToken p in
         (case parseQuotedString p of
            Inl err \<Rightarrow> PErr err
          | Inr fileV \<Rightarrow>
         let cmd = setParam ''file'' (CStr fileV) cmd in
         let p = nextToken p in
         POk cmd p)
       else if curType p = TokenURL
       then let p = nextToken p in
         (case parseQuotedString p of
            Inl err \<Rightarrow> PErr err
          | Inr urlV \<Rightarrow>
         let cmd = setParam ''url'' (CStr urlV) cmd in
         let p = nextToken p in
         POk cmd p)
       else PErr (Errf ''expected FILE or URL'' []))
       (\<lambda>cmd p.
     bindR
       (if IsCompositeModelName modelNameOrID
       then let cmd = setParam ''composite_model_name'' (CStr modelNameOrID) cmd in
         POk cmd p
       else if IsUUID modelNameOrID
       then let cmd = setParam ''model_id'' (CStr modelNameOrID) cmd in
         POk cmd p
       else PErr (Errf ''invalid format of model name or ID: %s'' [Txt modelNameOrID]))
       (\<lambda>cmd p.
     let p = optSemicolon p in
     POk cmd p))))"

definition parseAPIParseDocs :: "Parser \<Rightarrow> Command res" where
  "parseAPIParseDocs p =
    (let p = nextToken p in
     (case parseQuotedString p of
        Inl err \<Rightarrow> PErr err
      | Inr documentsStr \<Rightarrow>
     let p = nextToken p in
     if curType p \<noteq> TokenFrom
     then PErr (Errf ''expected FROM'' [])
     else let p = nextToken p in
     (case parseQuotedString p of
        Inl err \<Rightarrow> PErr err
      | Inr datasetID \<Rightarrow>
     let p = nextToken p in
     let cmd = NewCommand ''api_parse_documents'' in
     let documents = split_on (CHR '' '') documentsStr in
     let cmd = setParam ''documents'' (CStrs documents) cmd in
     let cmd = setParam ''dataset_id'' (CStr datasetID) cmd in
     let p = optSemicolon p in
     POk cmd p)))"

definition parseAPIParseLocalFile_body :: "Command \<Rightarrow> Parser \<Rightarrow> (Command + Command) res" where
  "parseAPIParseLocalFile_body = (\<lambda>cmd p.
    (if curType p = TokenVision
     then let p = nextToken p in
       (case parseQuotedString p of
          Inl err \<Rightarrow> PErr err
        | Inr visionModel \<Rightarrow>
       let cmd = setParam ''vision_model'' (CStr visionModel) cmd in
       let p = nextToken p in
       POk (Inl cmd) p)
     else if curType p = TokenASR
     then let p = nextToken p in
       (case parseQuotedString p of
          Inl err \<Rightarrow> PErr err
        | Inr asrModel \<Rightarrow>
       let cmd = setParam ''asr_model'' (CStr asrModel) cmd in
       let p = nextToken p in
       POk (Inl cmd) p)
     else if curType p = TokenOCR
     then let p = nextToken p in
       (case parseQuotedString p of
          Inl err \<Rightarrow> PErr err
        | Inr ocrModel \<Rightarrow>
       let cmd = setParam ''ocr_model'' (CStr ocrModel) cmd in
       let p = nextToken p in
       POk (Inl cmd) p)
     else if curType p = TokenChat
     then let p = nextToken p in
       (case parseQuotedString p of
          Inl err \<Rightarrow> PErr err
        | Inr chatModel \<Rightarrow>
       let cmd = setParam ''chat_model'' (CStr chatModel) cmd in
       let p = nextToken p in
       POk (Inl cmd) p)
     else if curType p = TokenEmbed
     then let p = nextToken p in
       (case parseQuotedString p of
          Inl err \<Rightarrow> PErr err
        | Inr embedModel \<Rightarrow>
       let cmd = setParam ''embedding_model'' (CStr embedModel) cmd in
       let p = nextToken p in
       POk (Inl cmd) p)
     else if curType p = TokenDocParse
     then let p = nextToken p in
       (case parseQuotedString p of
          Inl err \<Rightarrow> PErr err
        | Inr docParseModel \<Rightarrow>
       let cmd = setParam ''doc_parse_model'' (CStr docParseModel) cmd in
       let p = nextToken p in
       POk (Inl cmd) p)
     else if curType p = TokenSemicolon
     then let p = nextToken p in
       POk (Inr cmd) p
     else POk (Inr cmd) p))"

definition parseAPIParseLocalFile :: "Parser \<Rightarrow> Command res" where
  "parseAPIParseLocalFile p =
    (let p = nextToken p in
     (case parseQuotedString p of
        Inl err \<Rightarrow> PErr err
      | Inr filename \<Rightarrow>
     let p = nextToken p in
     let cmd = NewCommand ''user_parse_local_file_command'' in
     let cmd = setParam ''filename'' (CStr filename) cmd in
     bindR (ploop parseAPIParseLocalFile_body cmd p) (\<lambda>cmd p.
     POk cmd p)))"

definition parseParseCommands :: "Parser \<Rightarrow> Command res" where
  "parseParseCommands p =
    (let p = nextToken p in
     if curType p = TokenDataset
     then parseAPIParseDataset p
     else if curType p = TokenWith
     then parseAPIModelParse p
     else if curType p = TokenDocument
     then parseAPIParseDocs p
     else if curType p = TokenFile
     then parseAPIParseLocalFile p
     else PErr (Errf ''expected DATASET, WITH, or DOCUMENT'' []))"

definition parseUserStatement :: "Parser \<Rightarrow> Command res" where
  "parseUserStatement p =
    (if curType p = TokenPing
     then parseAPIPingServer p
     else if curType p = TokenShow
     then parseAPIShowCommands p
     else if curType p = TokenList
     then parseAPIListCommands p
     else if curType p = TokenImport
     then parseAPIImport p
     else if curType p = TokenInsert
     then parseDevInsertCommand p
     else if curType p = TokenRetrieve
     then parseAPIRetrieve p
     else PErr (Errf ''invalid user statement: %s'' [Txt (curValue p)]))"

definition parseBenchmarkCommand :: "Parser \<Rightarrow> Command res" where
  "parseBenchmarkCommand p =
    (let cmd = NewCommand ''benchmark'' in
     let p = nextToken p in
     (case parseNumber p of
        Inl err \<Rightarrow> PErr err
      | Inr concurrency \<Rightarrow>
     let cmd = setParam ''concurrency'' (CInt concurrency) cmd in
     let p = nextToken p in
     (case parseNumber p of
        Inl err \<Rightarrow> PErr err
      | Inr iterations \<Rightarrow>
     let cmd = setParam ''iterations'' (CInt iterations) cmd in
     let p = nextToken p in
     bindR (parseUserStatement p) (\<lambda>nestedCmd p.
     let cmd = setParam ''command'' (CCmd (Cmd_Type nestedCmd) (Cmd_Params nestedCmd)) cmd in
     POk cmd p))))"

definition parseAPIEnable :: "Parser \<Rightarrow> Command res" where
  "parseAPIEnable p =
    (let p = nextToken p in
     if curType p \<noteq> TokenModel
     then PErr (Errf ''expected MODEL'' [])
     else let p = nextToken p in
     (case parseQuotedString p of
        Inl err \<Rightarrow> PErr err
      | Inr modelName \<Rightarrow>
     let p = nextToken p in
     if curType p \<noteq> TokenFrom
     then PErr (Errf ''expected FROM'' [])
     else let p = nextToken p in
     (case parseQuotedString p of
        Inl err \<Rightarrow> PErr err
      | Inr modelProvider \<Rightarrow>
     let p = nextToken p in
     (case parseQuotedString p of
        Inl err \<Rightarrow> PErr err
      | Inr modelInstance \<Rightarrow>
     let p = nextToken p in
     let p = optSemicolon p in
     let cmd = NewCommand ''enable_model'' in
     let cmd = setParam ''model_name'' (CStr modelName) cmd in
     let cmd = setParam ''instance_name'' (CStr modelInstance) cmd in
     let cmd = setParam ''provider_name'' (CStr modelProvider) cmd in
     POk cmd p))))"

definition parseAPIDisable :: "Parser \<Rightarrow> Command res" where
  "parseAPIDisable p =
    (let p = nextToken p in
     if curType p \<noteq> TokenModel
     then PErr (Errf ''expected MODEL'' [])
     else let p = nextToken p in
     (case parseQuotedString p of
        Inl err \<Rightarrow> PErr err
      | Inr modelName \<Rightarrow>
     let p = nextToken p in
     if curType p \<noteq> TokenFrom
     then PErr (Errf ''expected FROM'' [])
     else let p = nextToken p in
     (case parseQuotedString p of
        Inl err \<Rightarrow> PErr err
      | Inr modelProvider \<Rightarrow>
     let p = nextToken p in
     (case parseQuotedString p of
        Inl err \<Rightarrow> PErr err
      | Inr modelInstance \<Rightarrow>
     let p = nextToken p in
     let p = optSemicolon p in
     let cmd = NewCommand ''disable_model'' in
     let cmd = setParam ''model_name'' (CStr modelName) cmd in
     let cmd = setParam ''instance_name'' (CStr modelInstance) cmd in
     let cmd = setParam ''provider_name'' (CStr modelProvider) cmd in
     POk cmd p))))"

definition parseBool :: "Parser \<Rightarrow> bool res" where
  "parseBool p =
    (if ToLower (curValue p) = ''true'' then POk True (nextToken p)
     else if ToLower (curValue p) = ''false'' then POk False (nextToken p)
     else PErr (Errf ''expected true or false, got %q'' [Txt (curValue p)]))"

text \<open>\<open>markSet\<close> and \<open>isSet\<close> keep the set of options given explicitly under the key \<open>_set\<close>.\<close>

definition markSet :: "string \<Rightarrow> Command \<Rightarrow> Command" where
  "markSet nameV cmd =
    (case Cmd_Params cmd ''_set'' of
       Some (CMap s) \<Rightarrow> setParam ''_set'' (CMap (s(nameV \<mapsto> CBool True))) cmd
     | _ \<Rightarrow> cmd)"

definition isSet :: "string \<Rightarrow> Command \<Rightarrow> bool" where
  "isSet nameV cmd =
    (case Cmd_Params cmd ''_set'' of
       Some (CMap s) \<Rightarrow> (case s nameV of Some (CBool b) \<Rightarrow> b | _ \<Rightarrow> False)
     | _ \<Rightarrow> False)"

definition completions_option :: "string \<Rightarrow> Command \<Rightarrow> Parser \<Rightarrow> Command res" where
  "completions_option nameV cmd p =
    (if nameV \<in> set [''chat_id'', ''session'', ''llm'', ''system'']
     then (case parseQuotedString p of
          Inl err \<Rightarrow> PErr (Errf ''CHAT COMPLETIONS %s: expected quoted string, got %s'' [Txt nameV, Txt (curValue p)])
        | Inr s \<Rightarrow> POk (markSet nameV (setParam nameV (CStr s) cmd)) (nextToken p))
     else if nameV \<in> set [''temperature'', ''top_p'', ''frequency_penalty'', ''presence_penalty'']
     then (case parseFloat p of
          Inl err \<Rightarrow> PErr (Errf ''CHAT COMPLETIONS %s: expected number, got %s'' [Txt nameV, Txt (curValue p)])
        | Inr (m, k) \<Rightarrow> POk (markSet nameV (setParam nameV (CFloat m k) cmd)) (nextToken p))
     else if nameV = ''max_tokens''
     then (case parseNumber p of
          Inl err \<Rightarrow> PErr (Errf ''CHAT COMPLETIONS max_tokens: expected integer, got %s'' [Txt (curValue p)])
        | Inr n \<Rightarrow> POk (markSet ''max_tokens'' (setParam ''max_tokens'' (CInt n) cmd)) (nextToken p))
     else if nameV \<in> set [''stream'', ''pass_all_history'', ''legacy'']
     then (case parseBool p of
          PErr err \<Rightarrow> PErr (Errf ''CHAT COMPLETIONS %s: expected true|false, got %s'' [Txt nameV, Txt (curValue p)])
        | PHang \<Rightarrow> PHang
        | POk b p \<Rightarrow> POk (markSet nameV (setParam nameV (CBool b) cmd)) p)
     else if nameV = ''history''
     then (case parseQuotedString p of
          Inl err \<Rightarrow> PErr (Errf ''CHAT COMPLETIONS history: expected quoted string, got %s'' [Txt (curValue p)])
        | Inr raw \<Rightarrow> POk (setParam ''history_raw'' (CStr raw) cmd) (nextToken p))
     else if nameV = ''history_delimiter''
     then (case parseQuotedString p of
          Inl err \<Rightarrow> PErr (Errf ''CHAT COMPLETIONS history_delimiter: expected quoted string, got %s'' [Txt (curValue p)])
        | Inr s \<Rightarrow> POk (setParam ''history_delimiter'' (CStr s) cmd) (nextToken p))
     else PErr (Errf (''CHAT COMPLETIONS: unknown option %q (valid: chat_id, session, llm, system, history, '' @
       ''history_delimiter, temperature, max_tokens, stream, top_p, frequency_penalty, presence_penalty, '' @
       ''pass_all_history, legacy)'') [Txt nameV]))"

definition parseChatCompletionsBody_body :: "Command \<Rightarrow> Parser \<Rightarrow> (Command + Command) res" where
  "parseChatCompletionsBody_body = (\<lambda>cmd p.
    (if curType p = TokenSemicolon
     then POk (Inr cmd) (nextToken p)
     else if curType p = TokenEOF
     then POk (Inr cmd) p
     else if curType p \<in> set [TokenIdentifier, TokenQuotedString]
     then let nameV = curValue p in
       let nameV = (if curType p = TokenQuotedString then trim_quotes nameV else nameV) in
       let p = nextToken p in
       bindR (completions_option nameV cmd p) (\<lambda>cmd p. POk (Inl cmd) p)
     else if \<not> isKeyword (curType p)
     then PErr (Errf (''CHAT COMPLETIONS: unexpected token %q in option list (valid options: chat_id, '' @
       ''session, llm, system, history, history_delimiter, temperature, max_tokens, stream, top_p, '' @
       ''frequency_penalty, presence_penalty, pass_all_history, legacy)'') [Txt (curValue p)])
     else let nameV = curValue p in
     let p = nextToken p in
     bindR (completions_option nameV cmd p) (\<lambda>cmd p. POk (Inl cmd) p)))"

definition parseChatCompletionsBody :: "Parser \<Rightarrow> Command res" where
  "parseChatCompletionsBody p =
    (if curType p = TokenDash
     then bindR (ploop dashes_body 0 p) (\<lambda>dashCount p.
       if dashCount > 0 \<and> curType p = TokenIdentifier \<and> ToLower (curValue p) \<in> set [''h'', ''help'']
       then POk (NewCommand ''chat completions help'') p
       else PErr (Errf ''CHAT COMPLETIONS: only -h/--help takes no args; otherwise expected question'' []))
     else let cmd = NewCommand ''chat completions'' in
     let cmd = setParam ''chat_id'' (CStr []) cmd in
     let cmd = setParam ''temperature'' (CFloat 0 0) cmd in
     let cmd = setParam ''max_tokens'' (CInt 0) cmd in
     let cmd = setParam ''stream'' (CBool False) cmd in
     let cmd = setParam ''_set'' (CMap Map.empty) cmd in
     (case parseQuotedString p of
        Inl err \<Rightarrow> PErr (Errf ''CHAT COMPLETIONS: expected question: %w'' [err])
      | Inr question \<Rightarrow>
     let cmd = setParam ''question'' (CStr question) cmd in
     let p = nextToken p in
     ploop parseChatCompletionsBody_body cmd p))"

definition parseAPIChat_body6 :: "string list \<Rightarrow> Parser \<Rightarrow> (string list + string list) res" where
  "parseAPIChat_body6 = (\<lambda>files p.
    (if curType p \<noteq> TokenQuotedString
     then POk (Inr files) p
     else (case parseQuotedString p of
        Inl err \<Rightarrow> PErr err
      | Inr fileV \<Rightarrow>
     let files = files @ [fileV] in
     let p = nextToken p in
     POk (Inl files) p)))"

definition parseAPIChat_body5 :: "string list \<Rightarrow> Parser \<Rightarrow> (string list + string list) res" where
  "parseAPIChat_body5 = (\<lambda>audios p.
    (if curType p \<noteq> TokenQuotedString
     then POk (Inr audios) p
     else (case parseQuotedString p of
        Inl err \<Rightarrow> PErr err
      | Inr audio \<Rightarrow>
     let audios = audios @ [audio] in
     let p = nextToken p in
     POk (Inl audios) p)))"

definition parseAPIChat_body4 :: "string list \<Rightarrow> Parser \<Rightarrow> (string list + string list) res" where
  "parseAPIChat_body4 = (\<lambda>videos p.
    (if curType p \<noteq> TokenQuotedString
     then POk (Inr videos) p
     else (case parseQuotedString p of
        Inl err \<Rightarrow> PErr err
      | Inr video \<Rightarrow>
     let videos = videos @ [video] in
     let p = nextToken p in
     POk (Inl videos) p)))"

definition parseAPIChat_body3 :: "string list \<Rightarrow> Parser \<Rightarrow> (string list + string list) res" where
  "parseAPIChat_body3 = (\<lambda>images p.
    (if curType p \<noteq> TokenQuotedString
     then POk (Inr images) p
     else (case parseQuotedString p of
        Inl err \<Rightarrow> PErr err
      | Inr imageV \<Rightarrow>
     let images = images @ [imageV] in
     let p = nextToken p in
     POk (Inl images) p)))"

definition parseAPIChat_body2 :: "string list \<Rightarrow> Parser \<Rightarrow> (string list + string list) res" where
  "parseAPIChat_body2 = (\<lambda>messages p.
    (if curType p \<noteq> TokenQuotedString
     then POk (Inr messages) p
     else (case parseQuotedString p of
        Inl err \<Rightarrow> PErr err
      | Inr message \<Rightarrow>
     let message = trim_space message in
     let messages = messages @ [message] in
     let p = nextToken p in
     POk (Inl messages) p)))"

type_synonym parseAPIChat_state =
  "string list \<times> string \<times> string list \<times> string list \<times> string list \<times> string \<times> string \<times> string list"

definition parseAPIChat_body :: "parseAPIChat_state \<Rightarrow> Parser \<Rightarrow> (parseAPIChat_state + parseAPIChat_state) res" where
  "parseAPIChat_body = (\<lambda>(audios, effort, files, images, messages, modelNameOrID, verbosity, videos) p.
    (if curType p = TokenWith
     then let p = nextToken p in
       if modelNameOrID \<noteq> []
       then PErr (Errf ''model name or ID is already set'' [])
       else (case parseQuotedString p of
          Inl err \<Rightarrow> PErr err
        | Inr modelNameOrID \<Rightarrow>
       let p = nextToken p in
       POk (Inl (audios, effort, files, images, messages, modelNameOrID, verbosity, videos)) p)
     else if curType p = TokenMessage
     then let p = nextToken p in
       if int (length messages) \<noteq> 0
       then PErr (Errf ''message is already set'' [])
       else bindR (ploop parseAPIChat_body2 messages p) (\<lambda>messages p.
       POk (Inl (audios, effort, files, images, messages, modelNameOrID, verbosity, videos)) p)
     else if curType p = TokenImage
     then let p = nextToken p in
       if int (length images) \<noteq> 0
       then PErr (Errf ''image is already set'' [])
       else bindR (ploop parseAPIChat_body3 images p) (\<lambda>images p.
       POk (Inl (audios, effort, files, images, messages, modelNameOrID, verbosity, videos)) p)
     else if curType p = TokenVideo
     then let p = nextToken p in
       if int (length videos) \<noteq> 0
       then PErr (Errf ''video is already set'' [])
       else bindR (ploop parseAPIChat_body4 videos p) (\<lambda>videos p.
       POk (Inl (audios, effort, files, images, messages, modelNameOrID, verbosity, videos)) p)
     else if curType p = TokenAudio
     then let p = nextToken p in
       if int (length audios) \<noteq> 0
       then PErr (Errf ''video is already set'' [])
       else bindR (ploop parseAPIChat_body5 audios p) (\<lambda>audios p.
       POk (Inl (audios, effort, files, images, messages, modelNameOrID, verbosity, videos)) p)
     else if curType p = TokenFile
     then let p = nextToken p in
       if int (length files) \<noteq> 0
       then PErr (Errf ''video is already set'' [])
       else bindR (ploop parseAPIChat_body6 files p) (\<lambda>files p.
       POk (Inl (audios, effort, files, images, messages, modelNameOrID, verbosity, videos)) p)
     else if curType p = TokenEffort
     then let p = nextToken p in
       bindR
         (if curType p = TokenNone
         then let effort = ''none'' in
           POk effort p
         else if curType p = TokenMinimal
         then let effort = ''minimal'' in
           POk effort p
         else if curType p = TokenLow
         then let effort = ''low'' in
           POk effort p
         else if curType p = TokenMedium
         then let effort = ''medium'' in
           POk effort p
         else if curType p = TokenHigh
         then let effort = ''high'' in
           POk effort p
         else if curType p = TokenMax
         then let effort = ''max'' in
           POk effort p
         else PErr (Errf ''invalid effort level'' []))
         (\<lambda>effort p.
       let p = nextToken p in
       POk (Inr (audios, effort, files, images, messages, modelNameOrID, verbosity, videos)) p)
     else if curType p = TokenVerbosity
     then let p = nextToken p in
       bindR
         (if curType p = TokenLow
         then let verbosity = ''low'' in
           POk verbosity p
         else if curType p = TokenMedium
         then let verbosity = ''median'' in
           POk verbosity p
         else if curType p = TokenHigh
         then let verbosity = ''high'' in
           POk verbosity p
         else PErr (Errf ''invalid verbosity level'' []))
         (\<lambda>verbosity p.
       let p = nextToken p in
       POk (Inr (audios, effort, files, images, messages, modelNameOrID, verbosity, videos)) p)
     else if curType p = TokenSemicolon
     then let p = nextToken p in
       POk (Inr (audios, effort, files, images, messages, modelNameOrID, verbosity, videos)) p
     else POk (Inr (audios, effort, files, images, messages, modelNameOrID, verbosity, videos)) p))"

definition parseAPIChat :: "Parser \<Rightarrow> Command res" where
  "parseAPIChat p =
    (let p = nextToken p in
     if curType p = TokenIdentifier \<and> (EqualFold (curValue p) ''completion'' \<or> EqualFold (curValue p) ''completions'')
     then let p = nextToken p in
       parseChatCompletionsBody p
     else let modelNameOrID = [] in
     let messages = ([] :: string list) in
     let images = ([] :: string list) in
     let videos = ([] :: string list) in
     let audios = ([] :: string list) in
     let files = ([] :: string list) in
     let effort = ''default'' in
     let verbosity = ''low'' in
     bindR (ploop parseAPIChat_body (audios, effort, files, images, messages, modelNameOrID, verbosity, videos) p)
       (\<lambda>(audios, effort, files, images, messages, modelNameOrID, verbosity, videos) p.
     let cmd = NewCommand ''api_chat_to_model'' in
     bindR
       (if modelNameOrID \<noteq> []
       then if IsCompositeModelName modelNameOrID
         then let cmd = setParam ''composite_model_name'' (CStr modelNameOrID) cmd in
           POk cmd p
         else if IsUUID modelNameOrID
         then let cmd = setParam ''model_id'' (CStr modelNameOrID) cmd in
           POk cmd p
         else PErr (Errf ''invalid format of model name or ID: %s'' [Txt modelNameOrID])
       else POk cmd p)
       (\<lambda>cmd p.
     let cmd = setParam ''messages'' (CStrs messages) cmd in
     let cmd = setParam ''images'' (CStrs images) cmd in
     let cmd = setParam ''videos'' (CStrs videos) cmd in
     let cmd = setParam ''audios'' (CStrs audios) cmd in
     let cmd = setParam ''files'' (CStrs files) cmd in
     let cmd = setParam ''thinking'' (CBool False) cmd in
     let cmd = setParam ''stream'' (CBool False) cmd in
     let cmd = setParam ''effort'' (CStr effort) cmd in
     let cmd = setParam ''verbosity'' (CStr verbosity) cmd in
     POk cmd p)))"

definition parseAPIThink :: "Parser \<Rightarrow> Command res" where
  "parseAPIThink p =
    (let p = nextToken p in
     if curType p \<noteq> TokenChat
     then PErr (Errf ''expected CHAT after THINK'' [])
     else bindR (parseAPIChat p) (\<lambda>command p.
     let command = setParam ''thinking'' (CBool True) command in
     POk command p))"

definition parseAPIASR_body :: "Command \<Rightarrow> Parser \<Rightarrow> (Command + Command) res" where
  "parseAPIASR_body = (\<lambda>cmd p.
    (if curType p \<noteq> TokenEOF \<and> curType p \<noteq> TokenSemicolon
     then if curType p = TokenParam
       then let p = nextToken p in
         if curType p \<noteq> TokenQuotedString
         then PErr (Errf (''expect quoted string after '' @ bytes [39] @ ''param'' @ bytes [39]) [])
         else let cmd = setParam ''param_str'' (CStr (trim_quotes (curValue p))) cmd in
         let p = nextToken p in
         POk (Inl cmd) p
       else PErr (Errf ''unexpected token in asr command: %s'' [Txt (curValue p)])
     else POk (Inr cmd) p))"

definition parseAPIASR :: "Parser \<Rightarrow> Command res" where
  "parseAPIASR p =
    (let p = nextToken p in
     if curType p \<noteq> TokenWith
     then PErr (Errf ''expected WITH after ASR'' [])
     else let p = nextToken p in
     (case parseQuotedString p of
        Inl err \<Rightarrow> PErr err
      | Inr modelNameOrID \<Rightarrow>
     let p = nextToken p in
     if curType p \<noteq> TokenAudio
     then PErr (Errf ''expected AUDIO to ASR'' [])
     else let p = nextToken p in
     (case parseQuotedString p of
        Inl err \<Rightarrow> PErr err
      | Inr audioFile \<Rightarrow>
     let p = nextToken p in
     let cmd = NewCommand ''asr_user_command'' in
     bindR
       (if IsCompositeModelName modelNameOrID
       then let cmd = setParam ''composite_model_name'' (CStr modelNameOrID) cmd in
         POk cmd p
       else if IsUUID modelNameOrID
       then let cmd = setParam ''model_id'' (CStr modelNameOrID) cmd in
         POk cmd p
       else PErr (Errf ''invalid format of model name or ID: %s'' [Txt modelNameOrID]))
       (\<lambda>cmd p.
     let cmd = setParam ''audio_file'' (CStr audioFile) cmd in
     bindR (ploop parseAPIASR_body cmd p) (\<lambda>cmd p.
     let p = optSemicolon p in
     POk cmd p)))))"

definition parseAPITTS_body :: "Command \<Rightarrow> Parser \<Rightarrow> (Command + Command) res" where
  "parseAPITTS_body = (\<lambda>cmd p.
    (if curType p \<noteq> TokenEOF \<and> curType p \<noteq> TokenSemicolon
     then if curType p = TokenPlay
       then let p = nextToken p in
         let cmd = setParam ''play'' (CBool True) cmd in
         POk (Inl cmd) p
       else if curType p = TokenParam
       then let p = nextToken p in
         if curType p \<noteq> TokenQuotedString
         then PErr (Errf (''expect quoted string after '' @ bytes [39] @ ''param'' @ bytes [39]) [])
         else let cmd = setParam ''param_str'' (CStr (trim_quotes (curValue p))) cmd in
         let p = nextToken p in
         let p = nextToken p in
         POk (Inl cmd) p
       else if curType p = TokenSave
       then let p = nextToken p in
         if curType p \<noteq> TokenQuotedString \<and> curType p \<noteq> TokenIdentifier
         then PErr (Errf (''expect directory path after '' @ bytes [39] @ ''save'' @ bytes [39]) [])
         else let cmd = setParam ''save'' (CBool True) cmd in
         let cmd = setParam ''save_path'' (CStr (trim_quotes (curValue p))) cmd in
         let p = nextToken p in
         POk (Inl cmd) p
       else if curType p = TokenFormat
       then let p = nextToken p in
         if curType p \<noteq> TokenQuotedString \<and> curType p \<noteq> TokenIdentifier
         then PErr (Errf (''expect format string (e.g. '' @ bytes [39] @ ''wav'' @ bytes [39] @ '') after '' @ bytes [39] @ ''format'' @ bytes [39]) [])
         else let cmd = setParam ''format'' (CStr (trim_quotes (curValue p))) cmd in
         let p = nextToken p in
         POk (Inl cmd) p
       else PErr (Errf ''unexpected token: %s'' [Txt (curValue p)])
     else POk (Inr cmd) p))"

definition parseAPITTS :: "Parser \<Rightarrow> Command res" where
  "parseAPITTS p =
    (let p = nextToken p in
     let cmd = NewCommand ''tts_user_command'' in
     if curType p \<noteq> TokenWith
     then PErr (Errf (''expect '' @ bytes [39] @ ''with'' @ bytes [39] @ '' after tts'') [])
     else let p = nextToken p in
     if curType p \<noteq> TokenQuotedString \<and> curType p \<noteq> TokenIdentifier
     then PErr (Errf (''expect model name after '' @ bytes [39] @ ''with'' @ bytes [39]) [])
     else let modelNameOrID = trim_quotes (curValue p) in
     let p = nextToken p in
     bindR
       (if IsCompositeModelName modelNameOrID
       then let cmd = setParam ''composite_model_name'' (CStr modelNameOrID) cmd in
         POk cmd p
       else if IsUUID modelNameOrID
       then let cmd = setParam ''model_id'' (CStr modelNameOrID) cmd in
         POk cmd p
       else PErr (Errf ''invalid format of model name or ID: %s'' [Txt modelNameOrID]))
       (\<lambda>cmd p.
     if curType p \<noteq> TokenText
     then PErr (Errf (''expect '' @ bytes [39] @ ''text'' @ bytes [39] @ '' parameter'') [])
     else let p = nextToken p in
     if curType p \<noteq> TokenQuotedString
     then PErr (Errf (''expect quoted string after '' @ bytes [39] @ ''text'' @ bytes [39]) [])
     else let cmd = setParam ''text'' (CStr (trim_quotes (curValue p))) cmd in
     let p = nextToken p in
     bindR (ploop parseAPITTS_body cmd p) (\<lambda>cmd p.
     let p = optSemicolon p in
     POk cmd p)))"

definition parseAPIStream :: "Parser \<Rightarrow> Command res" where
  "parseAPIStream p =
    (let p = nextToken p in
     bindR
       (if curType p = TokenChat
       then bindR (parseAPIChat p) (\<lambda>command p.
         POk command p)
       else if curType p = TokenThink
       then bindR (parseAPIThink p) (\<lambda>command p.
         POk command p)
       else if curType p = TokenASR
       then bindR (parseAPIASR p) (\<lambda>command p.
         POk command p)
       else if curType p = TokenTTS
       then bindR (parseAPITTS p) (\<lambda>command p.
         POk command p)
       else PErr (Errf ''expected CHAT, THINK, ASR, or TTS after STREAM'' []))
       (\<lambda>command p.
     let command = setParam ''stream'' (CBool True) command in
     POk command p))"

definition parseAPIEmbed_body :: "string list \<Rightarrow> Parser \<Rightarrow> (string list + string list) res" where
  "parseAPIEmbed_body = (\<lambda>texts p.
    (if curType p \<noteq> TokenQuotedString
     then POk (Inr texts) p
     else (case parseQuotedString p of
        Inl err \<Rightarrow> PErr err
      | Inr textV \<Rightarrow>
     let textV = trim_space textV in
     let texts = texts @ [textV] in
     let p = nextToken p in
     POk (Inl texts) p)))"

definition parseAPIEmbed :: "Parser \<Rightarrow> Command res" where
  "parseAPIEmbed p =
    (let p = nextToken p in
     if curType p \<noteq> TokenText
     then PErr (Errf ''expected WITH after EMBED'' [])
     else let p = nextToken p in
     let texts = ([] :: string list) in
     bindR (ploop parseAPIEmbed_body texts p) (\<lambda>texts p.
     if curType p \<noteq> TokenWith
     then PErr (Errf ''expected WITH after EMBED'' [])
     else let p = nextToken p in
     (case parseQuotedString p of
        Inl err \<Rightarrow> PErr err
      | Inr modelNameOrID \<Rightarrow>
     let p = nextToken p in
     let dimension = 0 in
     bindR
       (if curType p = TokenDimension
       then let p = nextToken p in
         if curType p \<noteq> TokenInteger
         then PErr (Errf ''expected integer after DIMENSION'' [])
         else (case parseNumber p of
            Inl err \<Rightarrow> PErr err
          | Inr dimension \<Rightarrow>
         let p = nextToken p in
         POk dimension p)
       else POk dimension p)
       (\<lambda>dimension p.
     let p = optSemicolon p in
     if curType p \<noteq> TokenEOF
     then PErr (Errf ''unexpected token after embed command: %s'' [Txt (curValue p)])
     else let cmd = NewCommand ''api_embed_user_text'' in
     bindR
       (if IsCompositeModelName modelNameOrID
       then let cmd = setParam ''composite_model_name'' (CStr modelNameOrID) cmd in
         POk cmd p
       else if IsUUID modelNameOrID
       then let cmd = setParam ''model_id'' (CStr modelNameOrID) cmd in
         POk cmd p
       else PErr (Errf ''invalid format of model name or ID: %s'' [Txt modelNameOrID]))
       (\<lambda>cmd p.
     let cmd = setParam ''texts'' (CStrs texts) cmd in
     let cmd = (if dimension > 0 then setParam ''dimension'' (CInt dimension) cmd else cmd) in
     POk cmd p)))))"

definition parseAPIRerank_body :: "string list \<Rightarrow> Parser \<Rightarrow> (string list + string list) res" where
  "parseAPIRerank_body = (\<lambda>documents p.
    (if curType p \<noteq> TokenQuotedString
     then POk (Inr documents) p
     else (case parseQuotedString p of
        Inl err \<Rightarrow> PErr err
      | Inr document \<Rightarrow>
     let document = trim_space document in
     let documents = documents @ [document] in
     let p = nextToken p in
     POk (Inl documents) p)))"

definition parseAPIRerank :: "Parser \<Rightarrow> Command res" where
  "parseAPIRerank p =
    (let p = nextToken p in
     if curType p \<noteq> TokenQuery
     then PErr (Errf ''expected WITH after EMBED'' [])
     else let p = nextToken p in
     (case parseQuotedString p of
        Inl err \<Rightarrow> PErr err
      | Inr query \<Rightarrow>
     let query = trim_space query in
     let p = nextToken p in
     if curType p \<noteq> TokenDocument
     then PErr (Errf ''expected DOCUMENT after query'' [])
     else let p = nextToken p in
     let documents = ([] :: string list) in
     bindR (ploop parseAPIRerank_body documents p) (\<lambda>documents p.
     if curType p \<noteq> TokenWith
     then PErr (Errf ''expected WITH after EMBED'' [])
     else let p = nextToken p in
     (case parseQuotedString p of
        Inl err \<Rightarrow> PErr err
      | Inr modelNameOrID \<Rightarrow>
     let p = nextToken p in
     if curType p \<noteq> TokenTop
     then PErr (Errf ''expected TOP after model'' [])
     else let p = nextToken p in
     (case parseNumber p of
        Inl err \<Rightarrow> PErr err
      | Inr topN \<Rightarrow>
     let p = nextToken p in
     let cmd = NewCommand ''api_rarank_user_document'' in
     bindR
       (if IsCompositeModelName modelNameOrID
       then let cmd = setParam ''composite_model_name'' (CStr modelNameOrID) cmd in
         POk cmd p
       else if IsUUID modelNameOrID
       then let cmd = setParam ''model_id'' (CStr modelNameOrID) cmd in
         POk cmd p
       else PErr (Errf ''invalid format of model name or ID: %s'' [Txt modelNameOrID]))
       (\<lambda>cmd p.
     let cmd = setParam ''query'' (CStr query) cmd in
     let cmd = setParam ''documents'' (CStrs documents) cmd in
     let cmd = setParam ''top_n'' (CInt topN) cmd in
     POk cmd p))))))"

definition parseAPIOCR :: "Parser \<Rightarrow> Command res" where
  "parseAPIOCR p =
    (let p = nextToken p in
     if curType p \<noteq> TokenWith
     then PErr (Errf ''expected WITH after OCR'' [])
     else let p = nextToken p in
     (case parseQuotedString p of
        Inl err \<Rightarrow> PErr err
      | Inr modelNameOrID \<Rightarrow>
     let p = nextToken p in
     let cmd = NewCommand ''ocr_user_command'' in
     bindR
       (if curType p = TokenFile
       then let p = nextToken p in
         (case parseQuotedString p of
            Inl err \<Rightarrow> PErr err
          | Inr fileV \<Rightarrow>
         let cmd = setParam ''file'' (CStr fileV) cmd in
         let p = nextToken p in
         POk cmd p)
       else if curType p = TokenURL
       then let p = nextToken p in
         (case parseQuotedString p of
            Inl err \<Rightarrow> PErr err
          | Inr urlV \<Rightarrow>
         let cmd = setParam ''url'' (CStr urlV) cmd in
         let p = nextToken p in
         POk cmd p)
       else PErr (Errf ''expected FILE or URL'' []))
       (\<lambda>cmd p.
     bindR
       (if IsCompositeModelName modelNameOrID
       then let cmd = setParam ''composite_model_name'' (CStr modelNameOrID) cmd in
         POk cmd p
       else if IsUUID modelNameOrID
       then let cmd = setParam ''model_id'' (CStr modelNameOrID) cmd in
         POk cmd p
       else PErr (Errf ''invalid format of model name or ID: %s'' [Txt modelNameOrID]))
       (\<lambda>cmd p.
     let p = optSemicolon p in
     POk cmd p))))"

definition parseCheckInstanceCommand :: "Parser \<Rightarrow> Command res" where
  "parseCheckInstanceCommand p =
    (if curType p \<noteq> TokenInstance
     then PErr (Errf ''expected INSTANCE after CHECK'' [])
     else let p = nextToken p in
     if curType p \<noteq> TokenQuotedString
     then PErr (Errf ''expected instance name after INSTANCE'' [])
     else let instanceName = curValue p in
     let p = nextToken p in
     if curType p \<noteq> TokenFrom
     then PErr (Errf ''expected FROM after instance name'' [])
     else let p = nextToken p in
     if curType p \<noteq> TokenQuotedString
     then PErr (Errf ''expected provider name after FROM'' [])
     else let providerName = curValue p in
     let p = nextToken p in
     let p = optSemicolon p in
     let cmd = NewCommand ''check_provider_connection'' in
     let cmd = setParam ''provider_name'' (CStr providerName) cmd in
     let cmd = setParam ''instance_name'' (CStr instanceName) cmd in
     POk cmd p)"

definition parseCheckProviderByKeyCommand :: "Parser \<Rightarrow> Command res" where
  "parseCheckProviderByKeyCommand p =
    (if curType p \<noteq> TokenProvider
     then PErr (Errf ''expected PROVIDER after CHECK'' [])
     else let p = nextToken p in
     if curType p \<noteq> TokenQuotedString
     then PErr (Errf ''expected provider name after PROVIDER'' [])
     else let providerName = curValue p in
     let p = nextToken p in
     if curType p \<noteq> TokenRegion
     then PErr (Errf ''expected REGION after provider name'' [])
     else let p = nextToken p in
     if curType p \<noteq> TokenQuotedString
     then PErr (Errf ''expected region name after REGION'' [])
     else let regionName = curValue p in
     let p = nextToken p in
     if curType p \<noteq> TokenKey
     then PErr (Errf ''expected KEY after region name'' [])
     else let p = nextToken p in
     if curType p \<noteq> TokenQuotedString
     then PErr (Errf ''expected API key after KEY'' [])
     else let apiKey = curValue p in
     let p = nextToken p in
     let baseURL = [] in
     bindR
       (if curType p = TokenURL
       then let p = nextToken p in
         if curType p \<noteq> TokenQuotedString
         then PErr (Errf ''expected base URL after URL'' [])
         else let baseURL = curValue p in
         let p = nextToken p in
         POk baseURL p
       else POk baseURL p)
       (\<lambda>baseURL p.
     let p = optSemicolon p in
     if curType p \<noteq> TokenEOF
     then PErr (Errf ''unexpected token: %s'' [Txt (curValue p)])
     else let cmd = NewCommand ''check_provider_with_key'' in
     let cmd = setParam ''provider_name'' (CStr providerName) cmd in
     let cmd = setParam ''region'' (CStr regionName) cmd in
     let cmd = setParam ''api_key'' (CStr apiKey) cmd in
     let cmd = (if baseURL \<noteq> [] then setParam ''base_url'' (CStr baseURL) cmd else cmd) in
     POk cmd p))"

definition parseAPICheck :: "Parser \<Rightarrow> Command res" where
  "parseAPICheck p =
    (let p = nextToken p in
     if curType p = TokenInstance
     then parseCheckInstanceCommand p
     else if curType p = TokenProvider
     then parseCheckProviderByKeyCommand p
     else PErr (Errf ''expected INSTANCE or PROVIDER after CHECK'' []))"

definition parseUserStartIngestion :: "Parser \<Rightarrow> Command res" where
  "parseUserStartIngestion p =
    (let p = nextToken p in
     if curType p \<noteq> TokenIngestion
     then PErr (Errf ''expect INGESTION'' [])
     else let p = nextToken p in
     (case parseQuotedString p of
        Inl err \<Rightarrow> PErr err
      | Inr documentID \<Rightarrow>
     let p = nextToken p in
     if curType p \<noteq> TokenFrom
     then PErr (Errf ''expect FROM'' [])
     else let p = nextToken p in
     (case parseQuotedString p of
        Inl err \<Rightarrow> PErr err
      | Inr datasetID \<Rightarrow>
     let cmd = NewCommand ''api_start_ingestion'' in
     let cmd = setParam ''document_id'' (CStr documentID) cmd in
     let cmd = setParam ''dataset_id'' (CStr datasetID) cmd in
     let p = nextToken p in
     let p = optSemicolon p in
     POk cmd p)))"

definition parseUserStopIngestion :: "Parser \<Rightarrow> Command res" where
  "parseUserStopIngestion p =
    (let p = nextToken p in
     if curType p \<noteq> TokenIngestion
     then PErr (Errf ''expect INGESTION'' [])
     else let p = nextToken p in
     if curType p \<noteq> TokenTasks
     then PErr (Errf ''expect TASKS'' [])
     else let p = nextToken p in
     (case parseQuotedString p of
        Inl err \<Rightarrow> PErr err
      | Inr taskStr \<Rightarrow>
     let tasks = split_on (CHR '' '') taskStr in
     let cmd = NewCommand ''api_stop_ingestion'' in
     let cmd = setParam ''tasks'' (CStrs tasks) cmd in
     let p = nextToken p in
     let p = optSemicolon p in
     POk cmd p))"

definition parseAPISaveConfig :: "Parser \<Rightarrow> Command res" where
  "parseAPISaveConfig p =
    (let p = nextToken p in
     if curType p \<noteq> TokenAs
     then PErr (Errf ''expected AS after CONFIG'' [])
     else let p = nextToken p in
     (case parseQuotedString p of
        Inl err \<Rightarrow> PErr err
      | Inr pathV \<Rightarrow>
     let cmd = NewCommand ''api_save_config_command'' in
     let cmd = setParam ''path'' (CStr pathV) cmd in
     let p = optSemicolon p in
     POk cmd p))"

definition parseAPISave :: "Parser \<Rightarrow> Command res" where
  "parseAPISave p =
    (let p = nextToken p in
     if curType p = TokenConfig
     then parseAPISaveConfig p
     else PErr (Errf ''unknown ADD target: %s'' [Txt (curValue p)]))"

definition parseAPIUseModel :: "Parser \<Rightarrow> Command res" where
  "parseAPIUseModel p =
    (let p = nextToken p in
     (case parseQuotedString p of
        Inl err \<Rightarrow> PErr (Errf (''expected model identifier in format '' @ bytes [39] @ ''model@instance@provider'' @ bytes [39] @ '': %w'') [err])
      | Inr modelNameOrID \<Rightarrow>
     let p = nextToken p in
     let p = optSemicolon p in
     let cmd = NewCommand ''api_use_model'' in
     bindR
       (if IsCompositeModelName modelNameOrID
       then let cmd = setParam ''composite_model_name'' (CStr modelNameOrID) cmd in
         POk cmd p
       else if IsUUID modelNameOrID
       then let cmd = setParam ''model_id'' (CStr modelNameOrID) cmd in
         POk cmd p
       else PErr (Errf ''invalid format of model name or ID: %s'' [Txt modelNameOrID]))
       (\<lambda>cmd p.
     POk cmd p)))"

definition parseAPIUseAPIServer :: "Parser \<Rightarrow> Command res" where
  "parseAPIUseAPIServer p =
    (let p = nextToken p in
     (case parseQuotedString p of
        Inl err \<Rightarrow> PErr err
      | Inr serverName \<Rightarrow>
     let p = nextToken p in
     let cmd = NewCommand ''api_use_api_server'' in
     let cmd = setParam ''server_name'' (CStr serverName) cmd in
     let p = optSemicolon p in
     POk cmd p))"

definition parseAPIUseAdminServer :: "Parser \<Rightarrow> Command res" where
  "parseAPIUseAdminServer p =
    (let p = nextToken p in
     let cmd = NewCommand ''api_use_admin_server'' in
     let p = optSemicolon p in
     POk cmd p)"

definition parseAPIUseCommands :: "Parser \<Rightarrow> Command res" where
  "parseAPIUseCommands p =
    (let p = nextToken p in
     if curType p = TokenModel
     then parseAPIUseModel p
     else if curType p = TokenAPI
     then parseAPIUseAPIServer p
     else if curType p = TokenAdmin
     then parseAPIUseAdminServer p
     else PErr (Errf ''expected MODEL or SKILL after USE'' []))"

definition parseAPIRemoveTask :: "Parser \<Rightarrow> Command res" where
  "parseAPIRemoveTask p =
    (let p = nextToken p in
     if curType p \<noteq> TokenTasks
     then PErr (Errf ''expected TASKS'' [])
     else let p = nextToken p in
     (case parseQuotedString p of
        Inl err \<Rightarrow> PErr err
      | Inr taskStr \<Rightarrow>
     let cmd = NewCommand ''api_remove_task'' in
     let tasks = split_on (CHR '' '') taskStr in
     let cmd = setParam ''tasks'' (CStrs tasks) cmd in
     let p = optSemicolon p in
     POk cmd p))"

definition parseAPIRemove :: "Parser \<Rightarrow> Command res" where
  "parseAPIRemove p =
    (let p = nextToken p in
     if curType p = TokenIngestion
     then parseAPIRemoveTask p
     else if curType p = TokenTag
     then parseDevRemoveTags p
     else if curType p \<in> set [TokenChunks, TokenAll]
     then parseDevRemoveChunk p
     else PErr (Errf ''unknown REMOVE target: %s'' [Txt (curValue p)]))"

text \<open>\<open>jsonErr\<close> stands for \<open>json.Unmarshal\<close> into an empty interface: the text of its error, or
  nothing when the literal is valid JSON.\<close>

definition parseJSONLiteral :: "(string \<Rightarrow> string option) \<Rightarrow> Parser \<Rightarrow> fmsg + string" where
  "parseJSONLiteral jsonErr p =
    (if curType p \<noteq> TokenQuotedString
     then Inl (Errf ''expected JSON literal in single/double quotes, got %s'' [Txt (curValue p)])
     else let raw = curValue p in
     (case jsonErr raw of
        Some e \<Rightarrow> Inl (Errf ''invalid JSON literal %q: %w'' [Txt raw, Txt e])
      | None \<Rightarrow> Inr raw))"

definition openai_option ::
  "(string \<Rightarrow> string option) \<Rightarrow> string \<Rightarrow> Command \<Rightarrow> Parser \<Rightarrow> Command res" where
  "openai_option jsonErr nameV cmd p =
    (if nameV \<in> set [''model'', ''system'']
     then (case parseQuotedString p of
          Inl err \<Rightarrow> PErr (Errf ''OPENAI_CHAT %s: expected quoted string, got %s'' [Txt nameV, Txt (curValue p)])
        | Inr s \<Rightarrow> POk (setParam nameV (CStr s) cmd) (nextToken p))
     else if nameV \<in> set [''temperature'', ''top_p'', ''frequency_penalty'', ''presence_penalty'']
     then (case parseFloat p of
          Inl err \<Rightarrow> PErr (Errf ''OPENAI_CHAT %s: expected number, got %s'' [Txt nameV, Txt (curValue p)])
        | Inr (m, k) \<Rightarrow> POk (setParam nameV (CFloat m k) cmd) (nextToken p))
     else if nameV = ''max_tokens''
     then (case parseNumber p of
          Inl err \<Rightarrow> PErr (Errf ''OPENAI_CHAT max_tokens: expected integer, got %s'' [Txt (curValue p)])
        | Inr n \<Rightarrow> POk (setParam ''max_tokens'' (CInt n) cmd) (nextToken p))
     else if nameV = ''stream''
     then (case parseBool p of
          PErr err \<Rightarrow> PErr (Errf ''OPENAI_CHAT %s: expected true|false, got %s'' [Txt nameV, Txt (curValue p)])
        | PHang \<Rightarrow> PHang
        | POk b p \<Rightarrow> POk (setParam nameV (CBool b) cmd) p)
     else if nameV = ''extra_body''
     then (case parseJSONLiteral jsonErr p of
          Inl err \<Rightarrow> PErr (Errf ''OPENAI_CHAT %s: %w'' [Txt nameV, err])
        | Inr raw \<Rightarrow> POk (setParam nameV (CStr raw) cmd) (nextToken p))
     else if nameV = ''history''
     then (case parseQuotedString p of
          Inl err \<Rightarrow> PErr (Errf ''OPENAI_CHAT history: expected quoted string, got %s'' [Txt (curValue p)])
        | Inr raw \<Rightarrow> POk (setParam ''history_raw'' (CStr raw) cmd) (nextToken p))
     else if nameV = ''history_delimiter''
     then (case parseQuotedString p of
          Inl err \<Rightarrow> PErr (Errf ''OPENAI_CHAT history_delimiter: expected quoted string, got %s'' [Txt (curValue p)])
        | Inr s \<Rightarrow> POk (setParam ''history_delimiter'' (CStr s) cmd) (nextToken p))
     else PErr (Errf (''OPENAI_CHAT: unknown option %q (valid: model, system, history, history_delimiter, '' @
       ''temperature, max_tokens, stream, top_p, frequency_penalty, presence_penalty, extra_body)'') [Txt nameV]))"

definition parseOpenaiChat_body ::
  "(string \<Rightarrow> string option) \<Rightarrow> Command \<Rightarrow> Parser \<Rightarrow> (Command + Command) res" where
  "parseOpenaiChat_body jsonErr = (\<lambda>cmd p.
    (if curType p = TokenSemicolon
     then POk (Inr cmd) (nextToken p)
     else if curType p = TokenEOF
     then POk (Inr cmd) p
     else if curType p \<in> set [TokenIdentifier, TokenQuotedString]
     then let nameV = curValue p in
       let nameV = (if curType p = TokenQuotedString then trim_quotes nameV else nameV) in
       let p = nextToken p in
       bindR (openai_option jsonErr nameV cmd p) (\<lambda>cmd p. POk (Inl cmd) p)
     else if \<not> isKeyword (curType p)
     then PErr (Errf (''OPENAI_CHAT: unexpected token %q in option list (valid options: model, system, '' @
       ''history, history_delimiter, temperature, max_tokens, stream, top_p, frequency_penalty, '' @
       ''presence_penalty, extra_body)'') [Txt (curValue p)])
     else let nameV = curValue p in
     let p = nextToken p in
     bindR (openai_option jsonErr nameV cmd p) (\<lambda>cmd p. POk (Inl cmd) p)))"

definition parseOpenaiChat :: "(string \<Rightarrow> string option) \<Rightarrow> Parser \<Rightarrow> Command res" where
  "parseOpenaiChat jsonErr p =
    (let p = nextToken p in
     if curType p = TokenDash
     then bindR (ploop dashes_body 0 p) (\<lambda>dashCount p.
       if dashCount > 0 \<and> curType p = TokenIdentifier \<and> ToLower (curValue p) \<in> set [''h'', ''help'']
       then POk (NewCommand ''openai_chat_help'') p
       else PErr (Errf ''OPENAI_CHAT: only -h/--help takes no args; otherwise expected chat_id and message'' []))
     else let cmd = NewCommand ''api_openai_chat'' in
     let cmd = setParam ''model'' (CStr ''model'') cmd in
     let cmd = setParam ''temperature'' (CFloat 0 0) cmd in
     let cmd = setParam ''max_tokens'' (CInt 0) cmd in
     let cmd = setParam ''stream'' (CBool False) cmd in
     (case parseQuotedString p of
        Inl err \<Rightarrow> PErr (Errf ''OPENAI_CHAT: expected chat_id as first argument: %w'' [err])
      | Inr chatID \<Rightarrow>
     let cmd = setParam ''chat_id'' (CStr chatID) cmd in
     let p = nextToken p in
     (case parseQuotedString p of
        Inl err \<Rightarrow> PErr (Errf ''OPENAI_CHAT: expected message as second argument: %w'' [err])
      | Inr message \<Rightarrow>
     let cmd = setParam ''message'' (CStr message) cmd in
     let p = nextToken p in
     ploop (parseOpenaiChat_body jsonErr) cmd p)))"

end
