(* ===== verification/Cli_Admin_Parser.thy ===== *)
theory Cli_Admin_Parser
  imports Cli_User_Parser
begin

text \<open>
  The commands of the admin mode (\<open>internal/cli/admin_parser.go\<close>), one definition per method of the
  source in dependency order, in the style of \<open>Cli_Dev_Parser\<close>.
\<close>

definition parseAdminLoginUser :: "Parser \<Rightarrow> Command res" where
  "parseAdminLoginUser p =
    (let cmd = NewCommand ''admin_login_user'' in
     let p = nextToken p in
     if curType p \<noteq> TokenAdmin
     then PErr (Errf ''expected ADMIN after LOGIN'' [])
     else let p = nextToken p in
     (case parseQuotedString p of
        Inl err \<Rightarrow> PErr err
      | Inr email \<Rightarrow>
     let cmd = setParam ''email'' (CStr email) cmd in
     let p = nextToken p in
     bindR
       (if curType p = TokenPassword
       then let p = nextToken p in
         (case parseQuotedString p of
            Inl err \<Rightarrow> PErr err
          | Inr password \<Rightarrow>
         let cmd = setParam ''password'' (CStr password) cmd in
         let p = nextToken p in
         POk cmd p)
       else POk cmd p)
       (\<lambda>cmd p.
     let p = optSemicolon p in
     POk cmd p)))"

definition parseAdminLogout :: "Parser \<Rightarrow> Command res" where
  "parseAdminLogout p =
    (let cmd = NewCommand ''admin_logout'' in
     let p = nextToken p in
     let p = optSemicolon p in
     POk cmd p)"

definition parseAdminPingServer :: "Parser \<Rightarrow> Command res" where
  "parseAdminPingServer p =
    (let p = nextToken p in
     bindR
       (if curType p = TokenStore
       then let p = nextToken p in
         let cmd = NewCommand ''admin_ping_store'' in
         POk cmd p
       else if curType p = TokenEngine
       then let p = nextToken p in
         let cmd = NewCommand ''admin_ping_engine'' in
         POk cmd p
       else if curType p = TokenMQ
       then let p = nextToken p in
         let cmd = NewCommand ''admin_ping_mq'' in
         POk cmd p
       else if curType p = TokenCache
       then let p = nextToken p in
         let cmd = NewCommand ''admin_ping_cache'' in
         POk cmd p
       else if curType p \<in> set [TokenSemicolon, TokenEOF]
       then let p = nextToken p in
         let cmd = NewCommand ''admin_ping_server'' in
         POk cmd p
       else PErr (Errf ''expected semicolon after PING'' []))
       (\<lambda>cmd p.
     POk cmd p))"

definition parseAdminLiveServer :: "Parser \<Rightarrow> Command res" where
  "parseAdminLiveServer p =
    (let p = nextToken p in
     let cmd = NewCommand ''admin_live_server'' in
     POk cmd p)"

definition parseAdminHealthServer :: "Parser \<Rightarrow> Command res" where
  "parseAdminHealthServer p =
    (let p = nextToken p in
     let cmd = NewCommand ''admin_health_server'' in
     POk cmd p)"

definition parseAdminListServices :: "Parser \<Rightarrow> Command res" where
  "parseAdminListServices p =
    (let p = nextToken p in
     let p = optSemicolon p in
     POk (NewCommand ''admin_list_services'') p)"

type_synonym parseAdminListUsersCommand_state =
  "bool \<times> int option \<times> string \<times> string option \<times> int option \<times> int option \<times> string"

definition parseAdminListUsersCommand_body :: "parseAdminListUsersCommand_state \<Rightarrow> Parser \<Rightarrow> (parseAdminListUsersCommand_state + parseAdminListUsersCommand_state) res" where
  "parseAdminListUsersCommand_body = (\<lambda>(condition, days, orderBy, planV, quota, topV, userStatus) p.
    (if curType p = TokenTop
     then let condition = True in
       let p = nextToken p in
       (case parseNumber p of
          Inl err \<Rightarrow> PErr err
        | Inr topInt \<Rightarrow>
       if topInt < 0
       then PErr (Errf ''invalid number of TOP'' [])
       else let p = nextToken p in
       let topV = Some topInt in
       POk (Inl (condition, days, orderBy, planV, quota, topV, userStatus)) p)
     else if curType p = TokenDays
     then let condition = True in
       let p = nextToken p in
       (case parseNumber p of
          Inl err \<Rightarrow> PErr err
        | Inr daysInt \<Rightarrow>
       if daysInt < 0
       then PErr (Errf ''invalid number of DAYS'' [])
       else let p = nextToken p in
       let days = Some daysInt in
       POk (Inl (condition, days, orderBy, planV, quota, topV, userStatus)) p)
     else if curType p = TokenPlan
     then let condition = True in
       let p = nextToken p in
       (case parseQuotedString p of
          Inl err \<Rightarrow> PErr err
        | Inr planStr \<Rightarrow>
       if planStr = []
       then PErr (Errf ''invalid plan'' [])
       else let planV = Some planStr in
       let p = nextToken p in
       POk (Inl (condition, days, orderBy, planV, quota, topV, userStatus)) p)
     else if curType p = TokenQuota
     then let condition = True in
       let p = nextToken p in
       (case parseNumber p of
          Inl err \<Rightarrow> PErr err
        | Inr quotaInt \<Rightarrow>
       if quotaInt < 0
       then PErr (Errf ''invalid number of QUOTA'' [])
       else let quota = Some quotaInt in
       let p = nextToken p in
       POk (Inl (condition, days, orderBy, planV, quota, topV, userStatus)) p)
     else if curType p \<in> set [TokenDocuments, TokenIndex, TokenStorage]
     then let condition = True in
       if orderBy \<noteq> []
       then PErr (Errf ''order by already set'' [])
       else let orderBy = curValue p in
       let p = nextToken p in
       POk (Inl (condition, days, orderBy, planV, quota, topV, userStatus)) p
     else if curType p \<in> set [TokenActive, TokenInactive]
     then let condition = True in
       let userStatus = curValue p in
       let p = nextToken p in
       POk (Inl (condition, days, orderBy, planV, quota, topV, userStatus)) p
     else if curType p = TokenSemicolon
     then let p = nextToken p in
       POk (Inr (condition, days, orderBy, planV, quota, topV, userStatus)) p
     else POk (Inr (condition, days, orderBy, planV, quota, topV, userStatus)) p))"

definition parseAdminListUsersCommand :: "Parser \<Rightarrow> Command res" where
  "parseAdminListUsersCommand p =
    (let p = nextToken p in
     let orderBy = ([] :: string) in
     let userStatus = ([] :: string) in
     let topV = (None :: int option) in
     let planV = (None :: string option) in
     let quota = (None :: int option) in
     let days = (None :: int option) in
     let condition = False in
     bindR (ploop parseAdminListUsersCommand_body (condition, days, orderBy, planV, quota, topV, userStatus) p)
       (\<lambda>(condition, days, orderBy, planV, quota, topV, userStatus) p.
     let p = optSemicolon p in
     if \<not> condition
     then POk (NewCommand ''admin_list_users_command'') p
     else let cmd = NewCommand ''admin_list_users_condition_command'' in
     let cmd = (if orderBy \<noteq> [] then setParam ''order_by'' (CStr orderBy) cmd else cmd) in
     let cmd =
       (if userStatus \<noteq> []
       then setParam ''user_status'' (CStr userStatus) cmd
       else cmd)
     in let cmd = (if topV \<noteq> None then setParam ''top'' (CInt (the topV)) cmd else cmd) in
     let cmd = (if planV \<noteq> None then setParam ''plan'' (CStr (the planV)) cmd else cmd) in
     let cmd =
       (if quota \<noteq> None
       then setParam ''quota'' (CInt (the quota)) cmd
       else cmd)
     in let cmd = (if days \<noteq> None then setParam ''days'' (CInt (the days)) cmd else cmd) in
     POk cmd p))"

definition parseAdminListRoles :: "Parser \<Rightarrow> Command res" where
  "parseAdminListRoles p =
    (let p = nextToken p in
     let p = optSemicolon p in
     POk (NewCommand ''admin_list_roles_command'') p)"

definition parseAdminListResources :: "Parser \<Rightarrow> Command res" where
  "parseAdminListResources p =
    (let p = nextToken p in
     let p = optSemicolon p in
     POk (NewCommand ''admin_list_resources_command'') p)"

definition parseAdminListVariables :: "Parser \<Rightarrow> Command res" where
  "parseAdminListVariables p =
    (let p = nextToken p in
     let p = optSemicolon p in
     POk (NewCommand ''admin_list_variables'') p)"

definition parseAdminListConfigs :: "Parser \<Rightarrow> Command res" where
  "parseAdminListConfigs p =
    (let p = nextToken p in
     let p = optSemicolon p in
     POk (NewCommand ''admin_list_configs'') p)"

definition parseAdminListEnvironments :: "Parser \<Rightarrow> Command res" where
  "parseAdminListEnvironments p =
    (let p = nextToken p in
     let p = optSemicolon p in
     POk (NewCommand ''admin_list_environments'') p)"

definition parseAdminListAvailableProviders :: "Parser \<Rightarrow> Command res" where
  "parseAdminListAvailableProviders p =
    (let p = nextToken p in
     if curType p \<noteq> TokenProviders
     then PErr (Errf ''expected PROVIDERS'' [])
     else POk (NewCommand ''admin_list_available_providers'') p)"

definition parseAdminListProviderInstances :: "string \<Rightarrow> Parser \<Rightarrow> Command res" where
  "parseAdminListProviderInstances providerName p =
    (let p = nextToken p in
     let cmd = NewCommand ''admin_list_provider_instances'' in
     let cmd = setParam ''provider_name'' (CStr providerName) cmd in
     let p = optSemicolon p in
     POk cmd p)"

definition parseAdminListProviderInstance :: "string \<Rightarrow> Parser \<Rightarrow> Command res" where
  "parseAdminListProviderInstance providerName p =
    (let p = nextToken p in
     (case parseQuotedString p of
        Inl err \<Rightarrow> PErr err
      | Inr instanceName \<Rightarrow>
     let p = nextToken p in
     if curType p \<noteq> TokenModels
     then PErr (Errf ''expected MODELS'' [])
     else let p = nextToken p in
     let cmd = NewCommand ''admin_list_provider_instance_models'' in
     let cmd = setParam ''provider_name'' (CStr providerName) cmd in
     let cmd = setParam ''instance_name'' (CStr instanceName) cmd in
     let p = optSemicolon p in
     POk cmd p))"

definition parseAdminListProviderModels :: "string \<Rightarrow> Parser \<Rightarrow> Command res" where
  "parseAdminListProviderModels providerName p =
    (let p = nextToken p in
     let cmd = NewCommand ''admin_list_provider_models'' in
     let cmd = setParam ''provider_name'' (CStr providerName) cmd in
     let p = optSemicolon p in
     POk cmd p)"

definition parseAdminListProviderCommands :: "Parser \<Rightarrow> Command res" where
  "parseAdminListProviderCommands p =
    (let p = nextToken p in
     (case parseQuotedString p of
        Inl err \<Rightarrow> PErr err
      | Inr providerName \<Rightarrow>
     let p = nextToken p in
     if curType p = TokenInstances
     then parseAdminListProviderInstances providerName p
     else if curType p = TokenInstance
     then parseAdminListProviderInstance providerName p
     else if curType p = TokenModels
     then parseAdminListProviderModels providerName p
     else PErr (Errf ''unknown LIST target: %s'' [Txt (curValue p)])))"

definition parseAdminListProviders :: "Parser \<Rightarrow> Command res" where
  "parseAdminListProviders p =
    (let p = nextToken p in
     let p = optSemicolon p in
     POk (NewCommand ''admin_list_providers'') p)"

definition parseAdminListModels :: "Parser \<Rightarrow> Command res" where
  "parseAdminListModels p =
    (let p = nextToken p in
     let cmd = NewCommand ''admin_list_all_models'' in
     let p = optSemicolon p in
     POk cmd p)"

definition parseAdminListUserIngestionTasks :: "string \<Rightarrow> Parser \<Rightarrow> Command res" where
  "parseAdminListUserIngestionTasks userName p =
    (let p = nextToken p in
     if curType p \<noteq> TokenTasks
     then PErr (Errf ''expected TASKS after INGESTION'' [])
     else let p = nextToken p in
     let cmd = NewCommand ''admin_list_user_ingestion_tasks'' in
     let cmd = setParam ''user_name'' (CStr userName) cmd in
     bindR
       (if curType p = TokenQuotedString
       then let status = ([] :: string) in
         (case parseQuotedString p of
            Inl err \<Rightarrow> PErr err
          | Inr status \<Rightarrow>
         let cmd = setParam ''status'' (CStr status) cmd in
         let p = nextToken p in
         POk cmd p)
       else POk cmd p)
       (\<lambda>cmd p.
     POk cmd p))"

definition parseAdminListUserProviderInstanceModels :: "string \<Rightarrow> Parser \<Rightarrow> Command res" where
  "parseAdminListUserProviderInstanceModels userName p =
    (let p = nextToken p in
     (case parseQuotedString p of
        Inl err \<Rightarrow> PErr err
      | Inr providerName \<Rightarrow>
     let p = nextToken p in
     if curType p = TokenInstances
     then let p = nextToken p in
       let cmd = NewCommand ''admin_list_user_provider_instances'' in
       let cmd = setParam ''user_name'' (CStr userName) cmd in
       let cmd = setParam ''provider_name'' (CStr providerName) cmd in
       let p = optSemicolon p in
       POk cmd p
     else if curType p \<noteq> TokenInstance
     then PErr (Errf ''expected INSTANCE after PROVIDER'' [])
     else let p = nextToken p in
     (case parseQuotedString p of
        Inl err \<Rightarrow> PErr err
      | Inr instanceName \<Rightarrow>
     let p = nextToken p in
     if curType p \<noteq> TokenModels
     then PErr (Errf ''expected MODELS after INSTANCE'' [])
     else let p = nextToken p in
     let cmd = NewCommand ''admin_list_user_provider_instance_models'' in
     let cmd = setParam ''user_name'' (CStr userName) cmd in
     let cmd = setParam ''provider_name'' (CStr providerName) cmd in
     let cmd = setParam ''instance_name'' (CStr instanceName) cmd in
     let p = optSemicolon p in
     POk cmd p)))"

definition parseAdminListUserLogs :: "string \<Rightarrow> Parser \<Rightarrow> Command res" where
  "parseAdminListUserLogs userName p =
    (let p = nextToken p in
     let dayCount = 7 in
     let cmd = NewCommand ''admin_list_user_operation_logs'' in
     bindR
       (if curType p = TokenNumber
       then (case parseNumber p of
            Inl err \<Rightarrow> PErr err
          | Inr dayCount \<Rightarrow>
         let p = nextToken p in
         POk dayCount p)
       else POk dayCount p)
       (\<lambda>dayCount p.
     let cmd = setParam ''user_name'' (CStr userName) cmd in
     let cmd = setParam ''days'' (CInt dayCount) cmd in
     let p = optSemicolon p in
     POk cmd p))"

definition parseAdminListUserDefaultModels :: "string \<Rightarrow> Parser \<Rightarrow> Command res" where
  "parseAdminListUserDefaultModels userName p =
    (let p = nextToken p in
     if curType p \<noteq> TokenModels
     then PErr (Errf ''expected MODELS after INSTANCE'' [])
     else let p = nextToken p in
     let cmd = NewCommand ''admin_list_user_default_models'' in
     let cmd = setParam ''user_name'' (CStr userName) cmd in
     let p = optSemicolon p in
     POk cmd p)"

definition parseAdminListUserCommand :: "Parser \<Rightarrow> Command res" where
  "parseAdminListUserCommand p =
    (let p = nextToken p in
     (case parseQuotedString p of
        Inl err \<Rightarrow> PErr err
      | Inr userName \<Rightarrow>
     let p = nextToken p in
     let finish = (\<lambda>cmd p.
       let p = optSemicolon p in
       let cmd = setParam ''user_name'' (CStr userName) cmd in
       POk cmd p)
     in if curType p = TokenIngestion
     then parseAdminListUserIngestionTasks userName p
     else if curType p = TokenDatasets
     then let p = nextToken p in
       let cmd = NewCommand ''admin_list_user_datasets'' in
       finish cmd p
     else if curType p = TokenAgents
     then let p = nextToken p in
       let cmd = NewCommand ''admin_list_user_agents'' in
       finish cmd p
     else if curType p = TokenChats
     then let p = nextToken p in
       let cmd = NewCommand ''admin_list_user_chats'' in
       finish cmd p
     else if curType p = TokenSearches
     then let p = nextToken p in
       let cmd = NewCommand ''admin_list_user_searches'' in
       finish cmd p
     else if curType p = TokenModels
     then let p = nextToken p in
       let cmd = NewCommand ''admin_list_user_models'' in
       finish cmd p
     else if curType p = TokenFiles
     then let p = nextToken p in
       let cmd = NewCommand ''admin_list_user_files'' in
       finish cmd p
     else if curType p = TokenKeys
     then let p = nextToken p in
       let cmd = NewCommand ''admin_list_user_keys'' in
       finish cmd p
     else if curType p = TokenProvider
     then parseAdminListUserProviderInstanceModels userName p
     else if curType p = TokenProviders
     then let p = nextToken p in
       let cmd = NewCommand ''admin_list_user_providers'' in
       finish cmd p
     else if curType p = TokenLogs
     then parseAdminListUserLogs userName p
     else if curType p = TokenDefault
     then parseAdminListUserDefaultModels userName p
     else PErr (Errf ''expected INGESTION or DATASETS or AGENTS or CHATS or SEARCHES or MODELS or FILES or KEYS or LOGS after USER'' [])))"

definition parseAdminListIngestors :: "Parser \<Rightarrow> Command res" where
  "parseAdminListIngestors p =
    (let p = nextToken p in
     let cmd = NewCommand ''admin_list_ingestors'' in
     POk cmd p)"

definition parseAdminListIngestionTasks :: "Parser \<Rightarrow> Command res" where
  "parseAdminListIngestionTasks p =
    (let p = nextToken p in
     if curType p \<noteq> TokenTasks
     then PErr (Errf ''expected TASKS'' [])
     else let p = nextToken p in
     let cmd = NewCommand ''list_admin_ingestion_tasks'' in
     let p = optSemicolon p in
     POk cmd p)"

definition parseAdminListAPIServers :: "Parser \<Rightarrow> Command res" where
  "parseAdminListAPIServers p =
    (let p = nextToken p in
     if curType p = TokenServer
     then let p = nextToken p in
       let cmd = NewCommand ''admin_list_api_servers'' in
       let p = optSemicolon p in
       POk cmd p
     else PErr (Errf ''expected SERVER after API'' []))"

definition parseAdminListCommands :: "Parser \<Rightarrow> Command res" where
  "parseAdminListCommands p =
    (let p = nextToken p in
     if curType p = TokenServices
     then parseAdminListServices p
     else if curType p = TokenUsers
     then parseAdminListUsersCommand p
     else if curType p = TokenRoles
     then parseAdminListRoles p
     else if curType p = TokenResources
     then parseAdminListResources p
     else if curType p = TokenVars
     then parseAdminListVariables p
     else if curType p = TokenConfigs
     then parseAdminListConfigs p
     else if curType p = TokenEnvs
     then parseAdminListEnvironments p
     else if curType p = TokenAvailable
     then parseAdminListAvailableProviders p
     else if curType p = TokenProvider
     then parseAdminListProviderCommands p
     else if curType p = TokenProviders
     then parseAdminListProviders p
     else if curType p = TokenModels
     then parseAdminListModels p
     else if curType p = TokenUser
     then parseAdminListUserCommand p
     else if curType p = TokenIngestors
     then parseAdminListIngestors p
     else if curType p = TokenIngestion
     then parseAdminListIngestionTasks p
     else if curType p = TokenAPI
     then parseAdminListAPIServers p
     else PErr (Errf ''unknown LIST target: %s'' [Txt (curValue p)]))"

definition parseAdminListFiles :: "Parser \<Rightarrow> Command res" where
  "parseAdminListFiles p =
    (let p = nextToken p in
     if curType p \<noteq> TokenOf
     then PErr (Errf ''expected OF'' [])
     else let p = nextToken p in
     if curType p \<noteq> TokenDataset
     then PErr (Errf ''expected DATASET'' [])
     else let p = nextToken p in
     (case parseQuotedString p of
        Inl err \<Rightarrow> PErr err
      | Inr datasetName \<Rightarrow>
     let cmd = NewCommand ''list_user_dataset_files'' in
     let cmd = setParam ''dataset_name'' (CStr datasetName) cmd in
     let p = nextToken p in
     let p = optSemicolon p in
     POk cmd p))"

definition parseAdminShowService :: "Parser \<Rightarrow> Command res" where
  "parseAdminShowService p =
    (let p = nextToken p in
     (case parseQuotedString p of
        Inl err \<Rightarrow> PErr err
      | Inr serviceName \<Rightarrow>
     let cmd = NewCommand ''admin_show_service'' in
     let cmd = setParam ''service_name'' (CStr serviceName) cmd in
     let p = nextToken p in
     let p = optSemicolon p in
     POk cmd p))"

definition parseAdminShowActivityCommand :: "string \<Rightarrow> Parser \<Rightarrow> Command res" where
  "parseAdminShowActivityCommand userName p =
    (let p = nextToken p in
     let days = (0 :: int) in
     bindR
       (if curType p = TokenDays
       then let p = nextToken p in
         (case parseNumber p of
            Inl err \<Rightarrow> PErr err
          | Inr days \<Rightarrow>
         if days < 1
         then PErr (Errf ''invalid number of DAYS'' [])
         else let p = nextToken p in
         POk days p)
       else let days = 7 in
       POk days p)
       (\<lambda>days p.
     let p = optSemicolon p in
     let cmd = NewCommand ''admin_show_user_activity_command'' in
     let cmd = setParam ''user_name'' (CStr userName) cmd in
     let cmd = setParam ''days'' (CInt days) cmd in
     POk cmd p))"

definition parseAdminShowUserSummaryCommand :: "string \<Rightarrow> Parser \<Rightarrow> Command res" where
  "parseAdminShowUserSummaryCommand userName p =
    (let p = nextToken p in
     let cmd = NewCommand ''admin_show_user_summary_command'' in
     let cmd = setParam ''user_name'' (CStr userName) cmd in
     let p = optSemicolon p in
     POk cmd p)"

definition parseAdminShowUserDataSetCommand :: "string \<Rightarrow> Parser \<Rightarrow> Command res" where
  "parseAdminShowUserDataSetCommand userName p =
    (let p = nextToken p in
     let tree = False in
     let datasetName = ([] :: string) in
     (case parseQuotedString p of
        Inl err \<Rightarrow> PErr err
      | Inr datasetName \<Rightarrow>
     let p = nextToken p in
     let (tree, p) =
       (if curType p = TokenTree
       then let tree = True in
         let p = nextToken p in
         (tree, p)
       else (tree, p))
     in let cmd = NewCommand ''admin_show_user_dataset_command'' in
     let cmd = setParam ''user_name'' (CStr userName) cmd in
     let cmd =
       (if datasetName \<noteq> []
       then setParam ''dataset_name'' (CStr datasetName) cmd
       else cmd)
     in let cmd = (if tree then setParam ''tree'' (CBool True) cmd else cmd) in
     let p = optSemicolon p in
     POk cmd p))"

definition parseAdminShowUserStorageCommand :: "string \<Rightarrow> Parser \<Rightarrow> Command res" where
  "parseAdminShowUserStorageCommand userName p =
    (let p = nextToken p in
     let cmd = NewCommand ''admin_show_user_storage_command'' in
     let cmd = setParam ''user_name'' (CStr userName) cmd in
     let p = optSemicolon p in
     POk cmd p)"

definition parseAdminShowUserQuotaCommand :: "string \<Rightarrow> Parser \<Rightarrow> Command res" where
  "parseAdminShowUserQuotaCommand userName p =
    (let p = nextToken p in
     let cmd = NewCommand ''admin_show_user_quota_command'' in
     let cmd = setParam ''user_name'' (CStr userName) cmd in
     let p = optSemicolon p in
     POk cmd p)"

definition parseAdminShowUserIndexCommand :: "string \<Rightarrow> Parser \<Rightarrow> Command res" where
  "parseAdminShowUserIndexCommand userName p =
    (let p = nextToken p in
     let cmd = NewCommand ''admin_show_user_index_command'' in
     let cmd = setParam ''user_name'' (CStr userName) cmd in
     let p = optSemicolon p in
     POk cmd p)"

definition parseAdminShowUserPermissionCommand :: "string \<Rightarrow> Parser \<Rightarrow> Command res" where
  "parseAdminShowUserPermissionCommand userName p =
    (let p = nextToken p in
     let cmd = NewCommand ''admin_show_user_permission_command'' in
     let cmd = setParam ''user_name'' (CStr userName) cmd in
     let p = optSemicolon p in
     POk cmd p)"

definition parseAdminShowUser :: "string \<Rightarrow> Parser \<Rightarrow> Command res" where
  "parseAdminShowUser userName p =
    (let p = optSemicolon p in
     let cmd = NewCommand ''admin_show_user'' in
     let cmd = setParam ''user_name'' (CStr userName) cmd in
     POk cmd p)"

definition parseAdminShowUserCommands :: "Parser \<Rightarrow> Command res" where
  "parseAdminShowUserCommands p =
    (let p = nextToken p in
     (case parseQuotedString p of
        Inl err \<Rightarrow> PErr err
      | Inr userName \<Rightarrow>
     let p = nextToken p in
     if curType p = TokenActivity
     then parseAdminShowActivityCommand userName p
     else if curType p = TokenSummary
     then parseAdminShowUserSummaryCommand userName p
     else if curType p = TokenDataset
     then parseAdminShowUserDataSetCommand userName p
     else if curType p = TokenStorage
     then parseAdminShowUserStorageCommand userName p
     else if curType p = TokenQuota
     then parseAdminShowUserQuotaCommand userName p
     else if curType p = TokenIndex
     then parseAdminShowUserIndexCommand userName p
     else if curType p = TokenPermission
     then parseAdminShowUserPermissionCommand userName p
     else parseAdminShowUser userName p))"

definition parseAdminShowRole :: "Parser \<Rightarrow> Command res" where
  "parseAdminShowRole p =
    (let p = nextToken p in
     (case parseQuotedString p of
        Inl err \<Rightarrow> PErr err
      | Inr roleName \<Rightarrow>
     let p = nextToken p in
     bindR
       (if curType p = TokenPermission
       then let p = nextToken p in
         let cmd = NewCommand ''admin_show_role_permission'' in
         let cmd = setParam ''role_name'' (CStr roleName) cmd in
         POk cmd p
       else if curType p = TokenDefault
       then let p = nextToken p in
         if curType p \<noteq> TokenModels
         then PErr (Errf ''expect MODELS after DEFAULT'' [])
         else let p = nextToken p in
         let cmd = NewCommand ''admin_show_role_default_models'' in
         let cmd = setParam ''role_name'' (CStr roleName) cmd in
         POk cmd p
       else if curType p = TokenSemicolon
       then let p = nextToken p in
         let cmd = NewCommand ''admin_show_role'' in
         let cmd = setParam ''role_name'' (CStr roleName) cmd in
         POk cmd p
       else PErr (Errf ''invalid command %s'' [tokenTypeToString (curType p)]))
       (\<lambda>cmd p.
     POk cmd p)))"

definition parseAdminShowVersion :: "Parser \<Rightarrow> Command res" where
  "parseAdminShowVersion p =
    (let p = nextToken p in
     let p = optSemicolon p in
     POk (NewCommand ''admin_show_version_command'') p)"

definition parseAdminShowVariable :: "Parser \<Rightarrow> Command res" where
  "parseAdminShowVariable p =
    (let p = nextToken p in
     (case parseQuotedString p of
        Inl err \<Rightarrow> PErr err
      | Inr varName \<Rightarrow>
     let cmd = NewCommand ''admin_show_variable'' in
     let cmd = setParam ''var_name'' (CStr varName) cmd in
     let p = nextToken p in
     let p = optSemicolon p in
     POk cmd p))"

definition parseAdminShowCurrent :: "Parser \<Rightarrow> Command res" where
  "parseAdminShowCurrent p =
    (let p = nextToken p in
     let p = optSemicolon p in
     POk (NewCommand ''admin_show_current'') p)"

definition parseAdminShowFingerprint :: "Parser \<Rightarrow> Command res" where
  "parseAdminShowFingerprint p =
    (let p = nextToken p in
     let p = optSemicolon p in
     POk (NewCommand ''admin_show_fingerprint'') p)"

definition parseAdminShowSoftFingerprint :: "Parser \<Rightarrow> Command res" where
  "parseAdminShowSoftFingerprint p =
    (let p = nextToken p in
     if curType p \<noteq> TokenFingerprint
     then PErr (Errf ''expected FINGERPRINT'' [])
     else let p = nextToken p in
     let p = optSemicolon p in
     POk (NewCommand ''admin_show_soft_fingerprint'') p)"

definition parseAdminShowLicense :: "Parser \<Rightarrow> Command res" where
  "parseAdminShowLicense p =
    (let p = nextToken p in
     let p = optSemicolon p in
     POk (NewCommand ''admin_show_license'') p)"

definition parseAdminShowProviderInstanceBalance :: "string \<Rightarrow> string \<Rightarrow> Parser \<Rightarrow> Command res" where
  "parseAdminShowProviderInstanceBalance providerName instanceName p =
    (let p = nextToken p in
     let cmd = NewCommand ''admin_show_provider_instance_balance'' in
     let cmd = setParam ''instance_name'' (CStr instanceName) cmd in
     let cmd = setParam ''provider_name'' (CStr providerName) cmd in
     let p = optSemicolon p in
     POk cmd p)"

definition parseAdminShowProviderInstance :: "string \<Rightarrow> Parser \<Rightarrow> Command res" where
  "parseAdminShowProviderInstance providerName p =
    (let p = nextToken p in
     (case parseQuotedString p of
        Inl err \<Rightarrow> PErr (Errf ''expected instance name: %w'' [err])
      | Inr instanceName \<Rightarrow>
     let p = nextToken p in
     if curType p = TokenBalance
     then parseAdminShowProviderInstanceBalance providerName instanceName p
     else let cmd = NewCommand ''admin_show_provider_instance'' in
     let cmd = setParam ''instance_name'' (CStr instanceName) cmd in
     let cmd = setParam ''provider_name'' (CStr providerName) cmd in
     let p = optSemicolon p in
     POk cmd p))"

definition parseAdminShowProviderModel :: "string \<Rightarrow> Parser \<Rightarrow> Command res" where
  "parseAdminShowProviderModel providerName p =
    (let p = nextToken p in
     (case parseQuotedString p of
        Inl err \<Rightarrow> PErr (Errf ''expected model name: %w'' [err])
      | Inr modelName \<Rightarrow>
     let p = nextToken p in
     let cmd = NewCommand ''admin_show_provider_model'' in
     let cmd = setParam ''model_name'' (CStr modelName) cmd in
     let cmd = setParam ''provider_name'' (CStr providerName) cmd in
     let p = optSemicolon p in
     POk cmd p))"

definition parseAdminShowProvider :: "Parser \<Rightarrow> Command res" where
  "parseAdminShowProvider p =
    (let p = nextToken p in
     (case parseQuotedString p of
        Inl err \<Rightarrow> PErr (Errf ''expected provider name: %w'' [err])
      | Inr providerName \<Rightarrow>
     let p = nextToken p in
     if curType p = TokenInstance
     then parseAdminShowProviderInstance providerName p
     else if curType p = TokenModel
     then parseAdminShowProviderModel providerName p
     else let p = nextToken p in
     let cmd = NewCommand ''admin_show_provider'' in
     let cmd = setParam ''provider_name'' (CStr providerName) cmd in
     POk cmd p))"

definition parseAdminShowModel :: "Parser \<Rightarrow> Command res" where
  "parseAdminShowModel p =
    (let p = nextToken p in
     (case parseQuotedString p of
        Inl err \<Rightarrow> PErr (Errf ''expected model name: %w'' [err])
      | Inr modelName \<Rightarrow>
     let p = nextToken p in
     let p = optSemicolon p in
     let cmd = NewCommand ''admin_show_model'' in
     let cmd = setParam ''model_name'' (CStr modelName) cmd in
     POk cmd p))"

definition parseAdminShowAdminServer :: "Parser \<Rightarrow> Command res" where
  "parseAdminShowAdminServer p =
    (let p = nextToken p in
     if curType p = TokenServer
     then let p = nextToken p in
       let cmd = NewCommand ''admin_show_admin_server'' in
       let p = optSemicolon p in
       POk cmd p
     else PErr (Errf ''expected SERVER after ADMIN'' []))"

definition parseAdminShowAPI :: "Parser \<Rightarrow> Command res" where
  "parseAdminShowAPI p =
    (let p = nextToken p in
     if curType p = TokenServer
     then let p = nextToken p in
       let cmd = NewCommand ''admin_show_api_server'' in
       (case parseQuotedString p of
          Inl err \<Rightarrow> PErr (Errf ''expected API server name: %w'' [err])
        | Inr serverName \<Rightarrow>
       let cmd = setParam ''api_server_name'' (CStr serverName) cmd in
       let p = nextToken p in
       let p = optSemicolon p in
       POk cmd p)
     else PErr (Errf ''expected SERVER after API'' []))"

definition parseAdminShowUsersActivity_body :: "(int \<times> int) \<Rightarrow> Parser \<Rightarrow> ((int \<times> int) + (int \<times> int)) res" where
  "parseAdminShowUsersActivity_body = (\<lambda>(days, windowSize) p.
    (if curType p = TokenDays
     then let p = nextToken p in
       (case parseNumber p of
          Inl err \<Rightarrow> PErr err
        | Inr days \<Rightarrow>
       if days < 1
       then PErr (Errf ''invalid number of DAYS'' [])
       else let p = nextToken p in
       POk (Inl (days, windowSize)) p)
     else if curType p = TokenWindow
     then let p = nextToken p in
       (case parseNumber p of
          Inl err \<Rightarrow> PErr err
        | Inr windowSize \<Rightarrow>
       if windowSize < 0
       then PErr (Errf ''invalid number of WINDOWS'' [])
       else let p = nextToken p in
       POk (Inl (days, windowSize)) p)
     else if curType p = TokenSemicolon
     then let p = nextToken p in
       POk (Inr (days, windowSize)) p
     else POk (Inr (days, windowSize)) p))"

definition parseAdminShowUsersActivity :: "Parser \<Rightarrow> Command res" where
  "parseAdminShowUsersActivity p =
    (let p = nextToken p in
     let days = (0 :: int) in
     let windowSize = (0 :: int) in
     bindR (ploop parseAdminShowUsersActivity_body (days, windowSize) p) (\<lambda>(days, windowSize) p.
     let p = optSemicolon p in
     let cmd = NewCommand ''admin_show_users_activity_command'' in
     let cmd = setParam ''days'' (CInt days) cmd in
     let cmd = setParam ''window'' (CInt windowSize) cmd in
     POk cmd p))"

definition parseAdminShowUsersPlan :: "Parser \<Rightarrow> Command res" where
  "parseAdminShowUsersPlan p =
    (let p = nextToken p in
     bindR
       (if curType p = TokenSummary
       then let p = nextToken p in
         let cmd = NewCommand ''admin_show_users_plan_summary'' in
         POk cmd p
       else if curType p = TokenQuota
       then let p = nextToken p in
         let cmd = NewCommand ''admin_show_users_plan_quota'' in
         if curType p \<noteq> TokenNumber
         then PErr (Errf ''expected QUOTA'' [])
         else (case parseNumber p of
            Inl err \<Rightarrow> PErr err
          | Inr quotaInt \<Rightarrow>
         let p = nextToken p in
         if quotaInt < 0 \<or> quotaInt > 100
         then PErr (Errf ''invalid quota value'' [])
         else let cmd = setParam ''quota'' (CInt quotaInt) cmd in
         POk cmd p)
       else PErr (Errf ''expected SUMMARY or QUOTA'' []))
       (\<lambda>cmd p.
     let p = optSemicolon p in
     POk cmd p))"

definition parseAdminShowUsersCommands :: "Parser \<Rightarrow> Command res" where
  "parseAdminShowUsersCommands p =
    (let p = nextToken p in
     if curType p = TokenSummary
     then let p = nextToken p in
       let cmd = NewCommand ''admin_show_users_summary_command'' in
       POk cmd p
     else if curType p = TokenActivity
     then parseAdminShowUsersActivity p
     else if curType p = TokenPlan
     then parseAdminShowUsersPlan p
     else PErr (Errf ''invalid command'' []))"

definition parseAdminShowData :: "Parser \<Rightarrow> Command res" where
  "parseAdminShowData p =
    (let p = nextToken p in
     bindR
       (if curType p = TokenSummary
       then let p = nextToken p in
         let cmd = NewCommand ''admin_show_data_summary'' in
         POk cmd p
       else if curType p = TokenOrphan
       then let p = nextToken p in
         let cmd = NewCommand ''admin_show_data_orphan'' in
         POk cmd p
       else if curType p = TokenStorage
       then let p = nextToken p in
         let cmd = NewCommand ''admin_show_data_storage'' in
         POk cmd p
       else if curType p = TokenIndex
       then let p = nextToken p in
         let cmd = NewCommand ''admin_show_data_index'' in
         POk cmd p
       else PErr (Errf ''expected SUMMARY, ORPHAN, STORAGE, INDEX after DATA'' []))
       (\<lambda>cmd p.
     let p = optSemicolon p in
     POk cmd p))"

definition parseAdminShowQuota :: "Parser \<Rightarrow> Command res" where
  "parseAdminShowQuota p =
    (let p = nextToken p in
     if curType p = TokenSummary
     then let p = nextToken p in
       let cmd = NewCommand ''admin_show_quota_summary'' in
       let p = optSemicolon p in
       POk cmd p
     else PErr (Errf ''expected SUMMARY after QUOTA'' []))"

definition parseAdminShowTasks :: "Parser \<Rightarrow> Command res" where
  "parseAdminShowTasks p =
    (let p = nextToken p in
     if curType p = TokenSummary
     then let p = nextToken p in
       let cmd = NewCommand ''admin_show_tasks_summary'' in
       let p = optSemicolon p in
       POk cmd p
     else PErr (Errf ''expected SUMMARY after TASKS'' []))"

definition parseAdminShowLogLevel :: "Parser \<Rightarrow> Command res" where
  "parseAdminShowLogLevel p =
    (let p = nextToken p in
     let cmd = NewCommand ''admin_show_log_level'' in
     let p = optSemicolon p in
     POk cmd p)"

definition parseAdminShowLogCommands :: "Parser \<Rightarrow> Command res" where
  "parseAdminShowLogCommands p =
    (let p = nextToken p in
     if curType p = TokenLevel
     then parseAdminShowLogLevel p
     else PErr (Errf ''expected LEVEL after LOG'' []))"

definition parseAdminShowCommands :: "Parser \<Rightarrow> Command res" where
  "parseAdminShowCommands p =
    (let p = nextToken p in
     if curType p = TokenService
     then parseAdminShowService p
     else if curType p = TokenUser
     then parseAdminShowUserCommands p
     else if curType p = TokenRole
     then parseAdminShowRole p
     else if curType p = TokenVersion
     then parseAdminShowVersion p
     else if curType p = TokenVar
     then parseAdminShowVariable p
     else if curType p = TokenCurrent
     then parseAdminShowCurrent p
     else if curType p = TokenFingerprint
     then parseAdminShowFingerprint p
     else if curType p = TokenSoft
     then parseAdminShowSoftFingerprint p
     else if curType p = TokenLicense
     then parseAdminShowLicense p
     else if curType p = TokenProvider
     then parseAdminShowProvider p
     else if curType p = TokenModel
     then parseAdminShowModel p
     else if curType p = TokenAdmin
     then parseAdminShowAdminServer p
     else if curType p = TokenAPI
     then parseAdminShowAPI p
     else if curType p = TokenUsers
     then parseAdminShowUsersCommands p
     else if curType p = TokenData
     then parseAdminShowData p
     else if curType p = TokenQuota
     then parseAdminShowQuota p
     else if curType p = TokenTasks
     then parseAdminShowTasks p
     else if curType p = TokenLog
     then parseAdminShowLogCommands p
     else PErr (Errf ''unknown SHOW target: %s'' [Txt (curValue p)]))"

definition parseCommonShowPoolModel :: "Parser \<Rightarrow> Command res" where
  "parseCommonShowPoolModel p =
    (let p = nextToken p in
     if curType p = TokenProvider
     then let p = nextToken p in
       (case parseQuotedString p of
          Inl err \<Rightarrow> PErr err
        | Inr providerName \<Rightarrow>
       let cmd = NewCommand ''show_pool_provider'' in
       let cmd = setParam ''provider_name'' (CStr providerName) cmd in
       let p = nextToken p in
       let p = optSemicolon p in
       POk cmd p)
     else if curType p = TokenModel
     then let p = nextToken p in
       (case parseQuotedString p of
          Inl err \<Rightarrow> PErr err
        | Inr modelName \<Rightarrow>
       let p = nextToken p in
       if curType p \<noteq> TokenFrom
       then PErr (Errf ''expected FROM'' [])
       else let p = nextToken p in
       (case parseQuotedString p of
          Inl err \<Rightarrow> PErr err
        | Inr providerName \<Rightarrow>
       let p = nextToken p in
       let cmd = NewCommand ''show_pool_model'' in
       let cmd = setParam ''provider_name'' (CStr providerName) cmd in
       let cmd = setParam ''model_name'' (CStr modelName) cmd in
       let p = optSemicolon p in
       POk cmd p))
     else PErr (Errf ''expected PROVIDERS or MODELS'' []))"

definition parseAdminStatsUser :: "Parser \<Rightarrow> Command res" where
  "parseAdminStatsUser p =
    (let p = nextToken p in
     let cmd = NewCommand ''admin_stats_user'' in
     (case parseQuotedString p of
        Inl err \<Rightarrow> PErr err
      | Inr userName \<Rightarrow>
     let cmd = setParam ''user_name'' (CStr userName) cmd in
     let p = nextToken p in
     bindR
       (if curType p = TokenFrom
       then let p = nextToken p in
         (case parseQuotedString p of
            Inl err \<Rightarrow> PErr err
          | Inr val \<Rightarrow>
         let cmd = setParam ''from'' (CStr val) cmd in
         let p = nextToken p in
         POk cmd p)
       else POk cmd p)
       (\<lambda>cmd p.
     bindR
       (if curType p = TokenTo
       then let p = nextToken p in
         (case parseQuotedString p of
            Inl err \<Rightarrow> PErr err
          | Inr val \<Rightarrow>
         let cmd = setParam ''to'' (CStr val) cmd in
         let p = nextToken p in
         POk cmd p)
       else POk cmd p)
       (\<lambda>cmd p.
     let (cmd, p) =
       (if curType p = TokenHour
       then let p = nextToken p in
         let cmd = setParam ''granularity'' (CStr ''HOUR'') cmd in
         (cmd, p)
       else if curType p = TokenDay
       then let p = nextToken p in
         let cmd = setParam ''granularity'' (CStr ''DAY'') cmd in
         (cmd, p)
       else if curType p = TokenMonth
       then let p = nextToken p in
         let cmd = setParam ''granularity'' (CStr ''MONTH'') cmd in
         (cmd, p)
       else let p = nextToken p in
       let cmd = setParam ''granularity'' (CStr ''HOUR'') cmd in
       (cmd, p))
     in let p = optSemicolon p in
     POk cmd p))))"

definition parseAdminStatsUsers :: "Parser \<Rightarrow> Command res" where
  "parseAdminStatsUsers p =
    (let p = nextToken p in
     let cmd = NewCommand ''admin_stats_users'' in
     let cmd = setParam ''top'' (CInt 10) cmd in
     bindR
       (if curType p = TokenTop
       then let p = nextToken p in
         (case parseNumber p of
            Inl err \<Rightarrow> PErr err
          | Inr val \<Rightarrow>
         let cmd = setParam ''top'' (CInt val) cmd in
         let p = nextToken p in
         POk cmd p)
       else POk cmd p)
       (\<lambda>cmd p.
     bindR
       (if curType p = TokenFrom
       then let p = nextToken p in
         (case parseQuotedString p of
            Inl err \<Rightarrow> PErr err
          | Inr val \<Rightarrow>
         let cmd = setParam ''from'' (CStr val) cmd in
         let p = nextToken p in
         POk cmd p)
       else POk cmd p)
       (\<lambda>cmd p.
     bindR
       (if curType p = TokenTo
       then let p = nextToken p in
         (case parseQuotedString p of
            Inl err \<Rightarrow> PErr err
          | Inr val \<Rightarrow>
         let cmd = setParam ''to'' (CStr val) cmd in
         let p = nextToken p in
         POk cmd p)
       else POk cmd p)
       (\<lambda>cmd p.
     let p = optSemicolon p in
     POk cmd p))))"

definition parseAdminStatsSummary :: "Parser \<Rightarrow> Command res" where
  "parseAdminStatsSummary p =
    (let p = nextToken p in
     let cmd = NewCommand ''admin_stats_summary'' in
     bindR
       (if curType p = TokenFrom
       then let p = nextToken p in
         (case parseQuotedString p of
            Inl err \<Rightarrow> PErr err
          | Inr val \<Rightarrow>
         let cmd = setParam ''from'' (CStr val) cmd in
         let p = nextToken p in
         POk cmd p)
       else POk cmd p)
       (\<lambda>cmd p.
     bindR
       (if curType p = TokenTo
       then let p = nextToken p in
         (case parseQuotedString p of
            Inl err \<Rightarrow> PErr err
          | Inr val \<Rightarrow>
         let cmd = setParam ''to'' (CStr val) cmd in
         let p = nextToken p in
         POk cmd p)
       else POk cmd p)
       (\<lambda>cmd p.
     let p = optSemicolon p in
     POk cmd p)))"

definition parseAdminStatsCommands :: "Parser \<Rightarrow> Command res" where
  "parseAdminStatsCommands p =
    (let p = nextToken p in
     if curType p = TokenUser
     then parseAdminStatsUser p
     else if curType p = TokenUsers
     then parseAdminStatsUsers p
     else if curType p = TokenSummary
     then parseAdminStatsSummary p
     else PErr (Errf ''expected USER or MODEL or SUMMARY after STATS'' []))"

definition parseAdminCheckLicense :: "Parser \<Rightarrow> Command res" where
  "parseAdminCheckLicense p =
    (let p = nextToken p in
     let cmd = NewCommand ''admin_check_license'' in
     let p = optSemicolon p in
     POk cmd p)"

definition parseAdminCheckProviderInstance :: "string \<Rightarrow> Parser \<Rightarrow> Command res" where
  "parseAdminCheckProviderInstance providerName p =
    (if curType p \<noteq> TokenInstance
     then PErr (Errf ''expected PROVIDER after CHECK'' [])
     else let p = nextToken p in
     (case parseQuotedString p of
        Inl err \<Rightarrow> PErr err
      | Inr instanceName \<Rightarrow>
     let cmd = NewCommand ''admin_check_provider_instance'' in
     let cmd = setParam ''provider_name'' (CStr providerName) cmd in
     let cmd = setParam ''instance_name'' (CStr instanceName) cmd in
     POk cmd p))"

definition parseAdminCheckProvider :: "Parser \<Rightarrow> Command res" where
  "parseAdminCheckProvider p =
    (if curType p \<noteq> TokenProvider
     then PErr (Errf ''expected PROVIDER after CHECK'' [])
     else let p = nextToken p in
     if curType p \<noteq> TokenQuotedString
     then PErr (Errf ''expected provider name after PROVIDER'' [])
     else let providerName = curValue p in
     let p = nextToken p in
     if curType p = TokenInstance
     then parseAdminCheckProviderInstance providerName p
     else if curType p \<noteq> TokenRegion
     then PErr (Errf ''expected REGION after provider name'' [])
     else let p = nextToken p in
     if curType p \<noteq> TokenQuotedString
     then PErr (Errf ''expected region name after REGION'' [])
     else let regionName = curValue p in
     let p = nextToken p in
     if curType p \<noteq> TokenKey
     then PErr (Errf ''expected KEY after region name'' [])
     else let p = nextToken p in
     if curType p \<noteq> TokenQuotedString
     then PErr (Errf ''expected API key after KEY'' [])
     else let apiKey = curValue p in
     let p = nextToken p in
     let baseURL = [] in
     bindR
       (if curType p = TokenURL
       then let p = nextToken p in
         if curType p \<noteq> TokenQuotedString
         then PErr (Errf ''expected base URL after URL'' [])
         else let baseURL = curValue p in
         let p = nextToken p in
         POk baseURL p
       else POk baseURL p)
       (\<lambda>baseURL p.
     let p = optSemicolon p in
     if curType p \<noteq> TokenEOF
     then PErr (Errf ''unexpected token: %s'' [Txt (curValue p)])
     else let cmd = NewCommand ''admin_check_provider_with_key'' in
     let cmd = setParam ''provider_name'' (CStr providerName) cmd in
     let cmd = setParam ''region'' (CStr regionName) cmd in
     let cmd = setParam ''api_key'' (CStr apiKey) cmd in
     let cmd = (if baseURL \<noteq> [] then setParam ''base_url'' (CStr baseURL) cmd else cmd) in
     POk cmd p))"

definition parseAdminCheck :: "Parser \<Rightarrow> Command res" where
  "parseAdminCheck p =
    (let p = nextToken p in
     if curType p = TokenLicense
     then parseAdminCheckLicense p
     else if curType p = TokenProvider
     then parseAdminCheckProvider p
     else PErr (Errf ''unknown CHECK target: %s'' [Txt (curValue p)]))"

definition parseAdminStopUserCommand :: "Parser \<Rightarrow> Command res" where
  "parseAdminStopUserCommand p =
    (let p = nextToken p in
     (case parseQuotedString p of
        Inl err \<Rightarrow> PErr err
      | Inr userName \<Rightarrow>
     let p = nextToken p in
     if curType p = TokenIngestion
     then let p = nextToken p in
       if curType p \<noteq> TokenTasks
       then PErr (Errf ''expected TASKS after INGESTION'' [])
       else let p = nextToken p in
       let cmd = NewCommand ''admin_stop_user_ingestion_tasks_command'' in
       bindR
         (if curType p = TokenQuotedString
         then (case parseQuotedString p of
              Inl err \<Rightarrow> PErr err
            | Inr status \<Rightarrow>
           let cmd = setParam ''status'' (CStr status) cmd in
           let p = nextToken p in
           POk cmd p)
         else POk cmd p)
         (\<lambda>cmd p.
       let cmd = setParam ''user_name'' (CStr userName) cmd in
       POk cmd p)
     else PErr (Errf ''expected INGESTION after USER'' [])))"

definition parseAdminStopIngestionTasks :: "Parser \<Rightarrow> Command res" where
  "parseAdminStopIngestionTasks p =
    (let p = nextToken p in
     if curType p = TokenIngestion
     then let p = nextToken p in
       if curType p \<noteq> TokenTasks
       then PErr (Errf ''expected TASKS'' [])
       else let p = nextToken p in
       (case parseQuotedString p of
          Inl err \<Rightarrow> PErr err
        | Inr taskString \<Rightarrow>
       let tasks = split_on (CHR '' '') taskString in
       let p = nextToken p in
       let cmd = NewCommand ''admin_stop_ingestion_tasks'' in
       let cmd = setParam ''tasks'' (CStrs tasks) cmd in
       let p = optSemicolon p in
       POk cmd p)
     else if curType p = TokenUser
     then parseAdminStopUserCommand p
     else PErr (Errf ''expected USER or INGESTION'' []))"

definition parseAdminRemoveIngestionTasks :: "Parser \<Rightarrow> Command res" where
  "parseAdminRemoveIngestionTasks p =
    (let p = nextToken p in
     if curType p \<noteq> TokenTasks
     then PErr (Errf ''expected TASKS'' [])
     else let p = nextToken p in
     (case parseQuotedString p of
        Inl err \<Rightarrow> PErr err
      | Inr taskString \<Rightarrow>
     let tasks = split_on (CHR '' '') taskString in
     let p = nextToken p in
     let cmd = NewCommand ''admin_remove_ingestion_tasks'' in
     let cmd = setParam ''tasks'' (CStrs tasks) cmd in
     let p = optSemicolon p in
     POk cmd p))"

definition parseAdminCreateUserAPIKeyCommand :: "string \<Rightarrow> Parser \<Rightarrow> Command res" where
  "parseAdminCreateUserAPIKeyCommand userName p =
    (let p = nextToken p in
     let p = optSemicolon p in
     let cmd = NewCommand ''admin_create_user_api_key'' in
     let cmd = setParam ''user_name'' (CStr userName) cmd in
     POk cmd p)"

definition parseAdminCreateUser :: "Parser \<Rightarrow> Command res" where
  "parseAdminCreateUser p =
    (let p = nextToken p in
     (case parseQuotedString p of
        Inl err \<Rightarrow> PErr err
      | Inr userName \<Rightarrow>
     let p = nextToken p in
     if curType p = TokenQuotedString
     then (case parseQuotedString p of
          Inl err \<Rightarrow> PErr err
        | Inr password \<Rightarrow>
       let p = nextToken p in
       let cmd = NewCommand ''admin_create_user'' in
       let cmd = setParam ''user_name'' (CStr userName) cmd in
       let cmd = setParam ''password'' (CStr password) cmd in
       let cmd = setParam ''role'' (CStr ''user'') cmd in
       let p = optSemicolon p in
       POk cmd p)
     else if curType p = TokenKey
     then parseAdminCreateUserAPIKeyCommand userName p
     else PErr (Errf ''expected password or KEY after USER, got %s'' [Txt (curValue p)])))"

definition parseAdminCreateRole :: "Parser \<Rightarrow> Command res" where
  "parseAdminCreateRole p =
    (let p = nextToken p in
     (case parseQuotedString p of
        Inl err \<Rightarrow> PErr err
      | Inr roleName \<Rightarrow>
     let cmd = NewCommand ''admin_create_role'' in
     let cmd = setParam ''role_name'' (CStr roleName) cmd in
     let p = nextToken p in
     bindR
       (if curType p = TokenDescription
       then let p = nextToken p in
         (case parseQuotedString p of
            Inl err \<Rightarrow> PErr err
          | Inr description \<Rightarrow>
         let cmd = setParam ''description'' (CStr description) cmd in
         let p = nextToken p in
         POk cmd p)
       else POk cmd p)
       (\<lambda>cmd p.
     let p = optSemicolon p in
     POk cmd p)))"

definition parseAdminCreateCommand :: "Parser \<Rightarrow> Command res" where
  "parseAdminCreateCommand p =
    (let p = nextToken p in
     if curType p = TokenUser
     then parseAdminCreateUser p
     else if curType p = TokenRole
     then parseAdminCreateRole p
     else PErr (Errf ''unknown CREATE target: %s'' [Txt (curValue p)]))"

definition parseAdminDropUserAPIKey :: "string \<Rightarrow> Parser \<Rightarrow> Command res" where
  "parseAdminDropUserAPIKey userName p =
    (let p = nextToken p in
     (case parseQuotedString p of
        Inl err \<Rightarrow> PErr err
      | Inr apiKey \<Rightarrow>
     let p = optSemicolon p in
     let cmd = NewCommand ''admin_drop_user_api_key'' in
     let cmd = setParam ''user_name'' (CStr userName) cmd in
     let cmd = setParam ''api_key'' (CStr apiKey) cmd in
     POk cmd p))"

definition parseAdminDropUser :: "Parser \<Rightarrow> Command res" where
  "parseAdminDropUser p =
    (let p = nextToken p in
     if curType p \<noteq> TokenQuotedString
     then PErr (Errf ''expected USER name, got %s'' [Txt (curValue p)])
     else (case parseQuotedString p of
        Inl err \<Rightarrow> PErr err
      | Inr userName \<Rightarrow>
     let p = nextToken p in
     if curType p = TokenKey
     then parseAdminDropUserAPIKey userName p
     else let p = nextToken p in
     let cmd = NewCommand ''admin_drop_user'' in
     let cmd = setParam ''user_name'' (CStr userName) cmd in
     POk cmd p))"

definition parseAdminDropRole :: "Parser \<Rightarrow> Command res" where
  "parseAdminDropRole p =
    (let p = nextToken p in
     (case parseQuotedString p of
        Inl err \<Rightarrow> PErr err
      | Inr roleName \<Rightarrow>
     let cmd = NewCommand ''admin_drop_role'' in
     let cmd = setParam ''role_name'' (CStr roleName) cmd in
     let p = nextToken p in
     let p = optSemicolon p in
     POk cmd p))"

definition parseAdminDropCommands :: "Parser \<Rightarrow> Command res" where
  "parseAdminDropCommands p =
    (let p = nextToken p in
     if curType p = TokenUser
     then parseAdminDropUser p
     else if curType p = TokenRole
     then parseAdminDropRole p
     else PErr (Errf ''unknown DROP target: %s'' [Txt (curValue p)]))"

definition parseAdminActivateUser :: "Parser \<Rightarrow> Command res" where
  "parseAdminActivateUser p =
    (let p = nextToken p in
     (case parseQuotedString p of
        Inl err \<Rightarrow> PErr err
      | Inr userName \<Rightarrow>
     let p = nextToken p in
     let status = curValue p in
     if status \<noteq> ''on'' \<and> status \<noteq> ''off''
     then PErr (Errf (''expected '' @ bytes [39] @ ''on'' @ bytes [39] @ '' or '' @ bytes [39] @ ''off'' @ bytes [39] @ '', got %s'') [Txt (curValue p)])
     else let p = nextToken p in
     let cmd = NewCommand ''admin_activate_user'' in
     let cmd = setParam ''user_name'' (CStr userName) cmd in
     let cmd = setParam ''activate_status'' (CStr status) cmd in
     let p = optSemicolon p in
     POk cmd p))"

definition parseAdminAlterUser :: "Parser \<Rightarrow> Command res" where
  "parseAdminAlterUser p =
    (let p = nextToken p in
     if curType p = TokenActive
     then parseAdminActivateUser p
     else if curType p = TokenPassword
     then let p = nextToken p in
       (case parseQuotedString p of
          Inl err \<Rightarrow> PErr err
        | Inr userName \<Rightarrow>
       let p = nextToken p in
       (case parseQuotedString p of
          Inl err \<Rightarrow> PErr err
        | Inr password \<Rightarrow>
       let cmd = NewCommand ''admin_alter_user'' in
       let cmd = setParam ''user_name'' (CStr userName) cmd in
       let cmd = setParam ''password'' (CStr password) cmd in
       let p = nextToken p in
       let p = optSemicolon p in
       POk cmd p))
     else (case parseQuotedString p of
        Inl err \<Rightarrow> PErr err
      | Inr userName \<Rightarrow>
     let p = nextToken p in
     if curType p \<noteq> TokenSet
     then PErr (Errf ''expected SET'' [])
     else let p = nextToken p in
     if curType p \<noteq> TokenRole
     then PErr (Errf ''expected ROLE'' [])
     else let p = nextToken p in
     (case parseIdentifier p of
        Inl err \<Rightarrow> PErr err
      | Inr roleName \<Rightarrow>
     let cmd = NewCommand ''alter_user_role'' in
     let cmd = setParam ''user_name'' (CStr userName) cmd in
     let cmd = setParam ''role_name'' (CStr roleName) cmd in
     let p = nextToken p in
     let p = optSemicolon p in
     POk cmd p)))"

definition parseAdminAlterRole :: "Parser \<Rightarrow> Command res" where
  "parseAdminAlterRole p =
    (let p = nextToken p in
     (case parseQuotedString p of
        Inl err \<Rightarrow> PErr err
      | Inr roleName \<Rightarrow>
     let p = nextToken p in
     if curType p \<noteq> TokenSet
     then PErr (Errf ''expected SET'' [])
     else let p = nextToken p in
     if curType p \<noteq> TokenDescription
     then PErr (Errf ''expected DESCRIPTION'' [])
     else let p = nextToken p in
     (case parseQuotedString p of
        Inl err \<Rightarrow> PErr err
      | Inr description \<Rightarrow>
     let p = nextToken p in
     let cmd = NewCommand ''admin_alter_role'' in
     let cmd = setParam ''role_name'' (CStr roleName) cmd in
     let cmd = setParam ''description'' (CStr description) cmd in
     let p = optSemicolon p in
     POk cmd p)))"

definition parseAdminAlterProvider_body :: "(string \<times> string) \<Rightarrow> Parser \<Rightarrow> ((string \<times> string) + (string \<times> string)) res" where
  "parseAdminAlterProvider_body = (\<lambda>(newAPIKey, newInstanceName) p.
    (if curType p = TokenName
     then let p = nextToken p in
       (case parseQuotedString p of
          Inl err \<Rightarrow> PErr (Errf ''expected model name: %w'' [err])
        | Inr newInstanceName \<Rightarrow>
       let p = nextToken p in
       POk (Inl (newAPIKey, newInstanceName)) p)
     else if curType p = TokenKey
     then let p = nextToken p in
       (case parseQuotedString p of
          Inl err \<Rightarrow> PErr (Errf ''expected API key: %w'' [err])
        | Inr newAPIKey \<Rightarrow>
       let p = nextToken p in
       POk (Inl (newAPIKey, newInstanceName)) p)
     else POk (Inr (newAPIKey, newInstanceName)) p))"

definition parseAdminAlterProvider :: "Parser \<Rightarrow> Command res" where
  "parseAdminAlterProvider p =
    (let p = nextToken p in
     (case parseQuotedString p of
        Inl err \<Rightarrow> PErr err
      | Inr providerName \<Rightarrow>
     let p = nextToken p in
     if curType p \<noteq> TokenInstance
     then PErr (Errf ''expected INSTANCE'' [])
     else let p = nextToken p in
     (case parseQuotedString p of
        Inl err \<Rightarrow> PErr err
      | Inr instanceName \<Rightarrow>
     let p = nextToken p in
     let newInstanceName = [] in
     let newAPIKey = [] in
     bindR (ploop parseAdminAlterProvider_body (newAPIKey, newInstanceName) p) (\<lambda>(newAPIKey, newInstanceName) p.
     if newInstanceName = [] \<and> newAPIKey = []
     then PErr (Errf ''expected NAME or KEY after INSTANCE'' [])
     else let cmd = NewCommand ''admin_alter_provider_instance'' in
     let cmd = setParam ''provider_name'' (CStr providerName) cmd in
     let cmd = setParam ''instance_name'' (CStr instanceName) cmd in
     let cmd = setParam ''new_instance_name'' (CStr newInstanceName) cmd in
     let cmd = setParam ''new_api_key'' (CStr newAPIKey) cmd in
     let p = nextToken p in
     let p = optSemicolon p in
     POk cmd p))))"

definition parseAdminAlterCommands :: "Parser \<Rightarrow> Command res" where
  "parseAdminAlterCommands p =
    (let p = nextToken p in
     if curType p = TokenUser
     then parseAdminAlterUser p
     else if curType p = TokenRole
     then parseAdminAlterRole p
     else if curType p = TokenProvider
     then parseAdminAlterProvider p
     else PErr (Errf ''unknown ALTER target: %s'' [Txt (curValue p)]))"

definition parseAdminGrantAdmin :: "Parser \<Rightarrow> Command res" where
  "parseAdminGrantAdmin p =
    (let p = nextToken p in
     (case parseQuotedString p of
        Inl err \<Rightarrow> PErr err
      | Inr userName \<Rightarrow>
     let cmd = NewCommand ''admin_grant_user_admin'' in
     let cmd = setParam ''user_name'' (CStr userName) cmd in
     let p = nextToken p in
     let p = optSemicolon p in
     POk cmd p))"

definition parseAdminGrantPermission :: "Parser \<Rightarrow> Command res" where
  "parseAdminGrantPermission p =
    ((case parseQuotedString p of
        Inl err \<Rightarrow> PErr err
      | Inr actionListStr \<Rightarrow>
     let actions = split_on (CHR '','') actionListStr in
     let p = nextToken p in
     let actions = map trim_space actions in
     if curType p \<noteq> TokenOn
     then PErr (Errf ''expected ON'' [])
     else let p = nextToken p in
     (case parseQuotedString p of
        Inl err \<Rightarrow> PErr err
      | Inr resource \<Rightarrow>
     let p = nextToken p in
     if curType p \<noteq> TokenTo
     then PErr (Errf ''expected TO'' [])
     else let p = nextToken p in
     if curType p \<noteq> TokenRole
     then PErr (Errf ''expected ROLE'' [])
     else let p = nextToken p in
     (case parseQuotedString p of
        Inl err \<Rightarrow> PErr err
      | Inr roleName \<Rightarrow>
     let cmd = NewCommand ''admin_grant_role_permission'' in
     let cmd = setParam ''actions'' (CStrs actions) cmd in
     let cmd = setParam ''resource'' (CStr resource) cmd in
     let cmd = setParam ''role_name'' (CStr roleName) cmd in
     let p = nextToken p in
     let p = optSemicolon p in
     POk cmd p))))"

definition parseAdminGrantCommands :: "Parser \<Rightarrow> Command res" where
  "parseAdminGrantCommands p =
    (let p = nextToken p in
     if curType p = TokenAdmin
     then parseAdminGrantAdmin p
     else parseAdminGrantPermission p)"

definition parseAdminRevokeAdmin :: "Parser \<Rightarrow> Command res" where
  "parseAdminRevokeAdmin p =
    (let p = nextToken p in
     (case parseQuotedString p of
        Inl err \<Rightarrow> PErr err
      | Inr userName \<Rightarrow>
     let cmd = NewCommand ''admin_revoke_user_admin'' in
     let cmd = setParam ''user_name'' (CStr userName) cmd in
     let p = nextToken p in
     let p = optSemicolon p in
     POk cmd p))"

definition parseAdminRevokePermission :: "Parser \<Rightarrow> Command res" where
  "parseAdminRevokePermission p =
    ((case parseQuotedString p of
        Inl err \<Rightarrow> PErr err
      | Inr actionListStr \<Rightarrow>
     let actions = split_on (CHR '','') actionListStr in
     let p = nextToken p in
     let actions = map trim_space actions in
     if curType p \<noteq> TokenOn
     then PErr (Errf ''expected ON'' [])
     else let p = nextToken p in
     (case parseQuotedString p of
        Inl err \<Rightarrow> PErr err
      | Inr resource \<Rightarrow>
     let p = nextToken p in
     if curType p \<noteq> TokenFrom
     then PErr (Errf ''expected FROM'' [])
     else let p = nextToken p in
     if curType p \<noteq> TokenRole
     then PErr (Errf ''expected ROLE'' [])
     else let p = nextToken p in
     (case parseQuotedString p of
        Inl err \<Rightarrow> PErr err
      | Inr roleName \<Rightarrow>
     let cmd = NewCommand ''admin_revoke_role_permission'' in
     let cmd = setParam ''actions'' (CStrs actions) cmd in
     let cmd = setParam ''resource'' (CStr resource) cmd in
     let cmd = setParam ''role_name'' (CStr roleName) cmd in
     let p = nextToken p in
     let p = optSemicolon p in
     POk cmd p))))"

definition parseAdminRevokeCommands :: "Parser \<Rightarrow> Command res" where
  "parseAdminRevokeCommands p =
    (let p = nextToken p in
     if curType p = TokenAdmin
     then parseAdminRevokeAdmin p
     else parseAdminRevokePermission p)"

definition parseAdminIdentifierList_body :: "string list \<Rightarrow> Parser \<Rightarrow> (string list + string list) res" where
  "parseAdminIdentifierList_body = (\<lambda>listV p.
    (if curType p = TokenComma
     then let p = nextToken p in
       (case parseIdentifier p of
          Inl err \<Rightarrow> PErr err
        | Inr ident \<Rightarrow>
       let listV = listV @ [ident] in
       let p = nextToken p in
       POk (Inl listV) p)
     else POk (Inr listV) p))"

definition parseAdminIdentifierList :: "Parser \<Rightarrow> string list res" where
  "parseAdminIdentifierList p =
    (let listV = ([] :: string list) in
     (case parseIdentifier p of
        Inl err \<Rightarrow> PErr err
      | Inr ident \<Rightarrow>
     let listV = listV @ [ident] in
     let p = nextToken p in
     bindR (ploop parseAdminIdentifierList_body listV p) (\<lambda>listV p.
     POk listV p)))"

definition parseAdminSetLicense :: "Parser \<Rightarrow> Command res" where
  "parseAdminSetLicense p =
    (let p = nextToken p in
     if curType p = TokenConfig
     then let p = nextToken p in
       let cmd = NewCommand ''admin_set_license_config'' in
       (case parseNumber p of
          Inl err \<Rightarrow> PErr err
        | Inr number1 \<Rightarrow>
       let p = nextToken p in
       (case parseNumber p of
          Inl err \<Rightarrow> PErr err
        | Inr number2 \<Rightarrow>
       let p = nextToken p in
       let cmd = setParam ''number1'' (CInt number1) cmd in
       let cmd = setParam ''number2'' (CInt number2) cmd in
       POk cmd p))
     else (case parseQuotedString p of
        Inl err \<Rightarrow> PErr err
      | Inr license \<Rightarrow>
     let p = nextToken p in
     let cmd = NewCommand ''admin_set_license'' in
     let cmd = setParam ''license'' (CStr license) cmd in
     let p = optSemicolon p in
     POk cmd p))"

definition parseAdminSetSoftFingerprint :: "Parser \<Rightarrow> Command res" where
  "parseAdminSetSoftFingerprint p =
    (let p = nextToken p in
     if curType p \<noteq> TokenFingerprint
     then PErr (Errf ''expected FINGERPRINT'' [])
     else let p = nextToken p in
     (case parseQuotedString p of
        Inl err \<Rightarrow> PErr err
      | Inr softFingerprint \<Rightarrow>
     let p = nextToken p in
     let cmd = NewCommand ''admin_set_soft_fingerprint'' in
     let cmd = setParam ''soft_fingerprint'' (CStr softFingerprint) cmd in
     let p = optSemicolon p in
     POk cmd p))"

definition parseAdminSetVariable :: "Parser \<Rightarrow> Command res" where
  "parseAdminSetVariable p =
    (let p = nextToken p in
     (case parseQuotedString p of
        Inl err \<Rightarrow> PErr err
      | Inr varName \<Rightarrow>
     let p = nextToken p in
     (case parseVariableValue p of
        Inl err \<Rightarrow> PErr err
      | Inr varValue \<Rightarrow>
     let cmd = NewCommand ''admin_set_variable'' in
     let cmd = setParam ''var_name'' (CStr varName) cmd in
     let cmd = setParam ''var_value'' (CStr varValue) cmd in
     let p = nextToken p in
     let p = optSemicolon p in
     POk cmd p)))"

definition parseAdminSetRoleDefaultModel :: "Parser \<Rightarrow> Command res" where
  "parseAdminSetRoleDefaultModel p =
    (let p = nextToken p in
     (case parseQuotedString p of
        Inl err \<Rightarrow> PErr err
      | Inr roleName \<Rightarrow>
     let p = nextToken p in
     if curType p \<noteq> TokenDefault
     then PErr (Errf ''expected DEFAULT'' [])
     else let p = nextToken p in
     let modelType = ([] :: string) in
     bindR
       (if curType p = TokenChat
       then let modelType = ''chat'' in
         POk modelType p
       else if curType p = TokenVision
       then let modelType = ''vision'' in
         POk modelType p
       else if curType p = TokenEmbedding
       then let modelType = ''embedding'' in
         POk modelType p
       else if curType p = TokenRerank
       then let modelType = ''rerank'' in
         POk modelType p
       else if curType p = TokenASR
       then let modelType = ''asr'' in
         POk modelType p
       else if curType p = TokenTTS
       then let modelType = ''tts'' in
         POk modelType p
       else if curType p = TokenOCR
       then let modelType = ''ocr'' in
         POk modelType p
       else PErr (Errf ''unknown model type: %s'' [Txt (curValue p)]))
       (\<lambda>modelType p.
     let p = nextToken p in
     (case parseQuotedString p of
        Inl err \<Rightarrow> PErr err
      | Inr modelNameOrID \<Rightarrow>
     let cmd = NewCommand ''admin_set_role_default_model'' in
     let cmd = setParam ''role_name'' (CStr roleName) cmd in
     let cmd = setParam ''model_type'' (CStr modelType) cmd in
     bindR
       (if IsCompositeModelName modelNameOrID
       then let cmd = setParam ''composite_model_name'' (CStr modelNameOrID) cmd in
         POk cmd p
       else if IsUUID modelNameOrID
       then let cmd = setParam ''model_id'' (CStr modelNameOrID) cmd in
         POk cmd p
       else PErr (Errf ''invalid format of model name or ID: %s'' [Txt modelNameOrID]))
       (\<lambda>cmd p.
     let p = nextToken p in
     let p = optSemicolon p in
     POk cmd p)))))"

definition parseAdminSetLogLevel :: "Parser \<Rightarrow> Command res" where
  "parseAdminSetLogLevel p =
    (let p = nextToken p in
     let cmd = NewCommand ''admin_set_log_level'' in
     bindR
       (if curType p = TokenDebug
       then let cmd = setParam ''level'' (CStr ''debug'') cmd in
         POk cmd p
       else if curType p = TokenInfo
       then let cmd = setParam ''level'' (CStr ''info'') cmd in
         POk cmd p
       else if curType p = TokenWarn
       then let cmd = setParam ''level'' (CStr ''warn'') cmd in
         POk cmd p
       else if curType p = TokenError
       then let cmd = setParam ''level'' (CStr ''error'') cmd in
         POk cmd p
       else if curType p = TokenFatal
       then let cmd = setParam ''level'' (CStr ''fatal'') cmd in
         POk cmd p
       else if curType p = TokenPanic
       then let cmd = setParam ''level'' (CStr ''panic'') cmd in
         POk cmd p
       else PErr (Errf ''unknown log level: %s'' [Txt (curValue p)]))
       (\<lambda>cmd p.
     let p = nextToken p in
     let p = optSemicolon p in
     POk cmd p))"

definition parseAdminSetLog :: "Parser \<Rightarrow> Command res" where
  "parseAdminSetLog p =
    (let p = nextToken p in
     if curType p = TokenLevel
     then parseAdminSetLogLevel p
     else PErr (Errf ''unknown log target: %s'' [Txt (curValue p)]))"

definition parseAdminSetCommand :: "Parser \<Rightarrow> Command res" where
  "parseAdminSetCommand p =
    (let p = nextToken p in
     if curType p = TokenLicense
     then parseAdminSetLicense p
     else if curType p = TokenSoft
     then parseAdminSetSoftFingerprint p
     else if curType p = TokenVar
     then parseAdminSetVariable p
     else if curType p = TokenRole
     then parseAdminSetRoleDefaultModel p
     else if curType p = TokenLog
     then parseAdminSetLog p
     else PErr (Errf ''unknown SET target: %s'' [Txt (curValue p)]))"

definition parseAdminResetCommand :: "Parser \<Rightarrow> Command res" where
  "parseAdminResetCommand p =
    (let p = nextToken p in
     if curType p \<noteq> TokenRole
     then PErr (Errf ''expected ROLE'' [])
     else let p = nextToken p in
     (case parseQuotedString p of
        Inl err \<Rightarrow> PErr err
      | Inr roleName \<Rightarrow>
     let p = nextToken p in
     if curType p \<noteq> TokenDefault
     then PErr (Errf ''expected DEFAULT'' [])
     else let p = nextToken p in
     let modelType = ([] :: string) in
     bindR
       (if curType p = TokenChat
       then let modelType = ''chat'' in
         POk modelType p
       else if curType p = TokenVision
       then let modelType = ''vision'' in
         POk modelType p
       else if curType p = TokenEmbedding
       then let modelType = ''embedding'' in
         POk modelType p
       else if curType p = TokenRerank
       then let modelType = ''rerank'' in
         POk modelType p
       else if curType p = TokenASR
       then let modelType = ''asr'' in
         POk modelType p
       else if curType p = TokenTTS
       then let modelType = ''tts'' in
         POk modelType p
       else if curType p = TokenOCR
       then let modelType = ''ocr'' in
         POk modelType p
       else PErr (Errf ''unknown model type: %s'' [Txt (curValue p)]))
       (\<lambda>modelType p.
     let p = nextToken p in
     let cmd = NewCommand ''admin_reset_role_default_model'' in
     let cmd = setParam ''role_name'' (CStr roleName) cmd in
     let cmd = setParam ''model_type'' (CStr modelType) cmd in
     let p = optSemicolon p in
     POk cmd p)))"

definition parseAdminBenchmarkCommand :: "Parser \<Rightarrow> Command res" where
  "parseAdminBenchmarkCommand p =
    (let cmd = NewCommand ''benchmark'' in
     let p = nextToken p in
     (case parseNumber p of
        Inl err \<Rightarrow> PErr err
      | Inr concurrency \<Rightarrow>
     let cmd = setParam ''concurrency'' (CInt concurrency) cmd in
     let p = nextToken p in
     (case parseNumber p of
        Inl err \<Rightarrow> PErr err
      | Inr iterations \<Rightarrow>
     let cmd = setParam ''iterations'' (CInt iterations) cmd in
     let p = nextToken p in
     bindR (parseUserStatement p) (\<lambda>nestedCmd p.
     let cmd = setParam ''command'' (CCmd (Cmd_Type nestedCmd) (Cmd_Params nestedCmd)) cmd in
     POk cmd p))))"

definition parseAdminStartService :: "Parser \<Rightarrow> Command res" where
  "parseAdminStartService p =
    (let p = nextToken p in
     if curType p \<noteq> TokenService
     then PErr (Errf ''expected SERVICE'' [])
     else let p = nextToken p in
     (case parseQuotedString p of
        Inl err \<Rightarrow> PErr err
      | Inr serviceName \<Rightarrow>
     let cmd = NewCommand ''admin_start_service'' in
     let cmd = setParam ''service_name'' (CStr serviceName) cmd in
     let p = nextToken p in
     let p = optSemicolon p in
     POk cmd p))"

definition parseAdminShutdownService :: "Parser \<Rightarrow> Command res" where
  "parseAdminShutdownService p =
    (let p = nextToken p in
     (case parseQuotedString p of
        Inl err \<Rightarrow> PErr err
      | Inr serviceName \<Rightarrow>
     let cmd = NewCommand ''admin_shutdown_service'' in
     let cmd = setParam ''service_name'' (CStr serviceName) cmd in
     let p = nextToken p in
     let p = optSemicolon p in
     POk cmd p))"

definition parseAdminShutdownIngestor :: "Parser \<Rightarrow> Command res" where
  "parseAdminShutdownIngestor p =
    (let p = nextToken p in
     (case parseQuotedString p of
        Inl err \<Rightarrow> PErr err
      | Inr ingestorName \<Rightarrow>
     let cmd = NewCommand ''admin_shutdown_ingestor_command'' in
     let cmd = setParam ''ingestor_name'' (CStr ingestorName) cmd in
     let p = nextToken p in
     let p = optSemicolon p in
     POk cmd p))"

definition parseAdminShutdownCommands :: "Parser \<Rightarrow> Command res" where
  "parseAdminShutdownCommands p =
    (let p = nextToken p in
     if curType p = TokenService
     then parseAdminShutdownService p
     else if curType p = TokenIngestor
     then parseAdminShutdownIngestor p
     else PErr (Errf ''expected SERVICE or INGESTOR'' []))"

definition parseAdminRestart :: "Parser \<Rightarrow> Command res" where
  "parseAdminRestart p =
    (let p = nextToken p in
     if curType p \<noteq> TokenService
     then PErr (Errf ''expected SERVICE'' [])
     else let p = nextToken p in
     (case parseQuotedString p of
        Inl err \<Rightarrow> PErr err
      | Inr serviceName \<Rightarrow>
     let cmd = NewCommand ''admin_restart_service'' in
     let cmd = setParam ''service_name'' (CStr serviceName) cmd in
     let p = nextToken p in
     let p = optSemicolon p in
     POk cmd p))"

definition parseAdminAddModel :: "string \<Rightarrow> string \<Rightarrow> Parser \<Rightarrow> Command res" where
  "parseAdminAddModel providerName instanceName p =
    (let p = nextToken p in
     (case parseQuotedString p of
        Inl err \<Rightarrow> PErr (Errf ''expected model name: %w'' [err])
      | Inr modelName \<Rightarrow>
     let p = nextToken p in
     let cmd = NewCommand ''admin_add_models'' in
     let cmd = setParam ''provider_name'' (CStr providerName) cmd in
     let cmd = setParam ''instance_name'' (CStr instanceName) cmd in
     let cmd = setParam ''model_names'' (CStrs [modelName]) cmd in
     let p = optSemicolon p in
     POk cmd p))"

definition parseAdminAddModelInstance :: "string \<Rightarrow> Parser \<Rightarrow> Command res" where
  "parseAdminAddModelInstance providerName p =
    (let p = nextToken p in
     (case parseQuotedString p of
        Inl err \<Rightarrow> PErr (Errf ''expected model instance name: %w'' [err])
      | Inr instanceName \<Rightarrow>
     let p = nextToken p in
     if curType p = TokenModel
     then parseAdminAddModel providerName instanceName p
     else let cmd = NewCommand ''admin_add_model_instance'' in
     let cmd = setParam ''provider_name'' (CStr providerName) cmd in
     let cmd = setParam ''instance_name'' (CStr instanceName) cmd in
     let p = optSemicolon p in
     POk cmd p))"

definition parseAdminAddModelProvider :: "Parser \<Rightarrow> Command res" where
  "parseAdminAddModelProvider p =
    (let p = nextToken p in
     (case parseQuotedString p of
        Inl err \<Rightarrow> PErr (Errf ''expected provider name: %w'' [err])
      | Inr providerName \<Rightarrow>
     let p = nextToken p in
     if curType p = TokenInstance
     then parseAdminAddModelInstance providerName p
     else let cmd = NewCommand ''admin_add_provider'' in
     let cmd = setParam ''provider_name'' (CStr providerName) cmd in
     let p = optSemicolon p in
     POk cmd p))"

definition parseAdminAddCommand :: "Parser \<Rightarrow> Command res" where
  "parseAdminAddCommand p =
    (let p = nextToken p in
     if curType p = TokenAPI
     then parseAddAPIServer p
     else if curType p = TokenAdmin
     then parseAddAdminServer p
     else if curType p = TokenProvider
     then parseAdminAddModelProvider p
     else PErr (Errf ''unknown ADD target: %s'' [Txt (curValue p)]))"

definition parseAdminDeleteModel :: "string \<Rightarrow> string \<Rightarrow> Parser \<Rightarrow> Command res" where
  "parseAdminDeleteModel providerName instanceName p =
    (let p = nextToken p in
     (case parseQuotedString p of
        Inl err \<Rightarrow> PErr (Errf ''expected model name: %w'' [err])
      | Inr modelName \<Rightarrow>
     let p = nextToken p in
     let cmd = NewCommand ''admin_delete_model'' in
     let cmd = setParam ''provider_name'' (CStr providerName) cmd in
     let cmd = setParam ''instance_name'' (CStr instanceName) cmd in
     let cmd = setParam ''model_names'' (CStrs [modelName]) cmd in
     let p = optSemicolon p in
     POk cmd p))"

definition parseAdminDeleteModelInstance :: "string \<Rightarrow> Parser \<Rightarrow> Command res" where
  "parseAdminDeleteModelInstance providerName p =
    (let p = nextToken p in
     (case parseQuotedString p of
        Inl err \<Rightarrow> PErr (Errf ''expected model instance name: %w'' [err])
      | Inr instanceName \<Rightarrow>
     let p = nextToken p in
     if curType p = TokenModel
     then parseAdminDeleteModel providerName instanceName p
     else let cmd = NewCommand ''admin_delete_model_instance'' in
     let cmd = setParam ''provider_name'' (CStr providerName) cmd in
     let cmd = setParam ''instance_names'' (CStrs [instanceName]) cmd in
     let p = optSemicolon p in
     POk cmd p))"

definition parseAdminDeleteProvider :: "Parser \<Rightarrow> Command res" where
  "parseAdminDeleteProvider p =
    (let p = nextToken p in
     (case parseQuotedString p of
        Inl err \<Rightarrow> PErr (Errf ''expected provider name: %w'' [err])
      | Inr providerName \<Rightarrow>
     let p = nextToken p in
     if curType p = TokenInstance
     then parseAdminDeleteModelInstance providerName p
     else let cmd = NewCommand ''admin_delete_model_providers'' in
     let cmd = setParam ''provider_names'' (CStrs [providerName]) cmd in
     let p = optSemicolon p in
     POk cmd p))"

definition parseAdminDeleteSoftFingerprint :: "Parser \<Rightarrow> Command res" where
  "parseAdminDeleteSoftFingerprint p =
    (let p = nextToken p in
     if curType p \<noteq> TokenFingerprint
     then PErr (Errf ''expected FINGERPRINT after SOFT'' [])
     else let p = nextToken p in
     let cmd = NewCommand ''admin_delete_soft_fingerprint'' in
     let p = optSemicolon p in
     POk cmd p)"

definition parseAdminDeleteCommands :: "Parser \<Rightarrow> Command res" where
  "parseAdminDeleteCommands p =
    (let p = nextToken p in
     if curType p = TokenAPI
     then parseAPIDeleteAPIServer p
     else if curType p = TokenAdmin
     then parseAPIDeleteAdminServer p
     else if curType p = TokenProvider
     then parseAdminDeleteProvider p
     else if curType p = TokenSoft
     then parseAdminDeleteSoftFingerprint p
     else PErr (Errf ''unknown ADD target: %s'' [Txt (curValue p)]))"

definition parseAdminEnableModel :: "Parser \<Rightarrow> Command res" where
  "parseAdminEnableModel p =
    (let p = nextToken p in
     (case parseQuotedString p of
        Inl err \<Rightarrow> PErr (Errf ''expected provider name: %w'' [err])
      | Inr providerName \<Rightarrow>
     let p = nextToken p in
     if curType p \<noteq> TokenInstance
     then PErr (Errf ''expected INSTANCE'' [])
     else let p = nextToken p in
     (case parseQuotedString p of
        Inl err \<Rightarrow> PErr (Errf ''expected model instance name: %w'' [err])
      | Inr instanceName \<Rightarrow>
     let p = nextToken p in
     if curType p \<noteq> TokenModel
     then PErr (Errf ''expected MODEL'' [])
     else let p = nextToken p in
     (case parseQuotedString p of
        Inl err \<Rightarrow> PErr (Errf ''expected model name: %w'' [err])
      | Inr modelName \<Rightarrow>
     let p = nextToken p in
     let cmd = NewCommand ''admin_enable_model'' in
     let cmd = setParam ''provider_name'' (CStr providerName) cmd in
     let cmd = setParam ''instance_name'' (CStr instanceName) cmd in
     let cmd = setParam ''model_name'' (CStr modelName) cmd in
     let p = optSemicolon p in
     POk cmd p))))"

definition parseAdminEnableCommand :: "Parser \<Rightarrow> Command res" where
  "parseAdminEnableCommand p =
    (let p = nextToken p in
     if curType p = TokenProvider
     then parseAdminEnableModel p
     else PErr (Errf ''unknown ENABLE target: %s'' [Txt (curValue p)]))"

definition parseAdminDisableModel :: "Parser \<Rightarrow> Command res" where
  "parseAdminDisableModel p =
    (let p = nextToken p in
     (case parseQuotedString p of
        Inl err \<Rightarrow> PErr (Errf ''expected provider name: %w'' [err])
      | Inr providerName \<Rightarrow>
     let p = nextToken p in
     if curType p \<noteq> TokenInstance
     then PErr (Errf ''expected INSTANCE'' [])
     else let p = nextToken p in
     (case parseQuotedString p of
        Inl err \<Rightarrow> PErr (Errf ''expected model instance name: %w'' [err])
      | Inr instanceName \<Rightarrow>
     let p = nextToken p in
     if curType p \<noteq> TokenModel
     then PErr (Errf ''expected MODEL'' [])
     else let p = nextToken p in
     (case parseQuotedString p of
        Inl err \<Rightarrow> PErr (Errf ''expected model name: %w'' [err])
      | Inr modelName \<Rightarrow>
     let p = nextToken p in
     let cmd = NewCommand ''admin_disable_model'' in
     let cmd = setParam ''provider_name'' (CStr providerName) cmd in
     let cmd = setParam ''instance_name'' (CStr instanceName) cmd in
     let cmd = setParam ''model_name'' (CStr modelName) cmd in
     let p = optSemicolon p in
     POk cmd p))))"

definition parseAdminDisableCommand :: "Parser \<Rightarrow> Command res" where
  "parseAdminDisableCommand p =
    (let p = nextToken p in
     if curType p = TokenProvider
     then parseAdminDisableModel p
     else PErr (Errf ''unknown DISABLE target: %s'' [Txt (curValue p)]))"

definition parseAdminSaveConfig :: "Parser \<Rightarrow> Command res" where
  "parseAdminSaveConfig p =
    (let p = nextToken p in
     if curType p \<noteq> TokenAs
     then PErr (Errf ''expected AS after CONFIG'' [])
     else let p = nextToken p in
     (case parseQuotedString p of
        Inl err \<Rightarrow> PErr err
      | Inr pathV \<Rightarrow>
     let cmd = NewCommand ''admin_save_config_command'' in
     let cmd = setParam ''path'' (CStr pathV) cmd in
     let p = optSemicolon p in
     POk cmd p))"

definition parseAdminSaveCommand :: "Parser \<Rightarrow> Command res" where
  "parseAdminSaveCommand p =
    (let p = nextToken p in
     if curType p = TokenConfig
     then parseAdminSaveConfig p
     else PErr (Errf ''unknown ADD target: %s'' [Txt (curValue p)]))"

definition parseAdminUseAPIServer :: "Parser \<Rightarrow> Command res" where
  "parseAdminUseAPIServer p =
    (let p = nextToken p in
     (case parseQuotedString p of
        Inl err \<Rightarrow> PErr err
      | Inr serverName \<Rightarrow>
     let p = nextToken p in
     let cmd = NewCommand ''admin_use_api_server'' in
     let cmd = setParam ''server_name'' (CStr serverName) cmd in
     let p = optSemicolon p in
     POk cmd p))"

definition parseAdminUseAdminServer :: "Parser \<Rightarrow> Command res" where
  "parseAdminUseAdminServer p =
    (let p = nextToken p in
     let cmd = NewCommand ''admin_use_admin_server'' in
     let p = optSemicolon p in
     POk cmd p)"

definition parseAdminUseCommand :: "Parser \<Rightarrow> Command res" where
  "parseAdminUseCommand p =
    (let p = nextToken p in
     if curType p = TokenAPI
     then parseAdminUseAPIServer p
     else if curType p = TokenAdmin
     then parseAdminUseAdminServer p
     else PErr (Errf ''expected API or ADMIN after USE'' []))"

definition parseStartIngestion :: "Parser \<Rightarrow> Command res" where
  "parseStartIngestion p =
    (let p = nextToken p in
     if curType p \<noteq> TokenIngestion
     then PErr (Errf ''expect INGESTION'' [])
     else let p = nextToken p in
     (case parseQuotedString p of
        Inl err \<Rightarrow> PErr err
      | Inr uri \<Rightarrow>
     let cmd = NewCommand ''admin_start_ingestion_command'' in
     let cmd = setParam ''uri'' (CStr uri) cmd in
     let p = nextToken p in
     let p = optSemicolon p in
     POk cmd p))"

definition parseStopIngestion :: "Parser \<Rightarrow> Command res" where
  "parseStopIngestion p =
    (let p = nextToken p in
     if curType p \<noteq> TokenIngestion
     then PErr (Errf ''expect INGESTION'' [])
     else let p = nextToken p in
     (case parseQuotedString p of
        Inl err \<Rightarrow> PErr err
      | Inr taskID \<Rightarrow>
     let cmd = NewCommand ''admin_stop_ingestion_command'' in
     let cmd = setParam ''task_id'' (CStr taskID) cmd in
     let p = nextToken p in
     let p = optSemicolon p in
     POk cmd p))"

definition parseAdminIngestCommand :: "Parser \<Rightarrow> Command res" where
  "parseAdminIngestCommand p =
    (let p = nextToken p in
     (case parseQuotedString p of
        Inl err \<Rightarrow> PErr err
      | Inr uri \<Rightarrow>
     let cmd = NewCommand ''admin_ingest_command'' in
     let cmd = setParam ''uri'' (CStr uri) cmd in
     let p = nextToken p in
     let p = optSemicolon p in
     POk cmd p))"

definition parseMessageQueueCommand :: "Parser \<Rightarrow> Command res" where
  "parseMessageQueueCommand p =
    (let p = nextToken p in
     bindR
       (if curType p = TokenShow
       then let p = nextToken p in
         POk (NewCommand ''user_show_message_queue_command'') p
       else if curType p = TokenList
       then let p = nextToken p in
         let cmd = NewCommand ''user_list_message_queue_command'' in
         if curType p = TokenPending
         then let cmd = setParam ''pending'' (CBool True) cmd in
           POk cmd (nextToken p)
         else POk (setParam ''pending'' (CBool False) cmd) p
       else if curType p = TokenPublish
       then let p = nextToken p in
         (case parseQuotedString p of
            Inl err \<Rightarrow> PErr (Errf ''expected message after PUBLISH'' [])
          | Inr message \<Rightarrow>
         let p = nextToken p in
         let cmd = NewCommand ''user_publish_message_command'' in
         POk (setParam ''message'' (CStr message) cmd) p)
       else if curType p = TokenPull
       then let p = nextToken p in
         let (messageCount, p) =
           (case parseNumber p of Inl err \<Rightarrow> (1, p) | Inr n \<Rightarrow> (n, nextToken p))
         in if messageCount \<le> 0 \<or> messageCount > 100
         then PErr (Errf ''message count cannot be less than 0 or greater than 100'' [])
         else let cmd = NewCommand ''user_pull_message_command'' in
         let cmd = setParam ''message_count'' (CInt messageCount) cmd in
         if curType p = TokenNoACK
         then let cmd = setParam ''ack_policy'' (CStr ''NOACK'') cmd in
           POk cmd (nextToken p)
         else POk (setParam ''ack_policy'' (CStr ''ACK'') cmd) p
       else PErr (Errf ''expected WITH'' []))
       (\<lambda>cmd p.
     let p = optSemicolon p in
     POk cmd p))"

definition parseAdminRemoveUserCommand :: "Parser \<Rightarrow> Command res" where
  "parseAdminRemoveUserCommand p =
    (let p = nextToken p in
     (case parseQuotedString p of
        Inl err \<Rightarrow> PErr err
      | Inr userName \<Rightarrow>
     let p = nextToken p in
     if curType p = TokenIngestion
     then let p = nextToken p in
       if curType p \<noteq> TokenTasks
       then PErr (Errf ''expected TASKS after INGESTION'' [])
       else let p = nextToken p in
       let cmd = NewCommand ''admin_remove_user_ingestion_tasks_command'' in
       bindR
         (if curType p = TokenQuotedString
         then (case parseQuotedString p of
              Inl err \<Rightarrow> PErr err
            | Inr status \<Rightarrow>
           let cmd = setParam ''status'' (CStr status) cmd in
           let p = nextToken p in
           POk cmd p)
         else POk cmd p)
         (\<lambda>cmd p.
       let cmd = setParam ''user_name'' (CStr userName) cmd in
       POk cmd p)
     else PErr (Errf ''expected INGESTION after USER'' [])))"

definition parseAdminRemoveCommands :: "Parser \<Rightarrow> Command res" where
  "parseAdminRemoveCommands p =
    (let p = nextToken p in
     if curType p = TokenIngestion
     then parseAdminRemoveIngestionTasks p
     else if curType p = TokenUser
     then parseAdminRemoveUserCommand p
     else PErr (Errf ''expected SERVICE'' []))"

definition parseAdminPurgeOrphanCommand :: "bool \<Rightarrow> Parser \<Rightarrow> Command res" where
  "parseAdminPurgeOrphanCommand preview p =
    (let p = nextToken p in
     let cmd = NewCommand ''admin_purge_orphan_command'' in
     let cmd = setParam ''preview'' (CBool preview) cmd in
     POk cmd p)"

definition parseAdminPurgeUserCommand :: "bool \<Rightarrow> Parser \<Rightarrow> Command res" where
  "parseAdminPurgeUserCommand preview p =
    (let p = nextToken p in
     (case parseQuotedString p of
        Inl err \<Rightarrow> PErr err
      | Inr userName \<Rightarrow>
     let cmd = NewCommand ''admin_purge_user_command'' in
     let cmd = setParam ''preview'' (CBool preview) cmd in
     let cmd = setParam ''user_name'' (CStr userName) cmd in
     POk cmd p))"

type_synonym parseAdminPurgeUsersCommand_state =
  "int option \<times> string option \<times> string option"

definition parseAdminPurgeUsersCommand_body :: "parseAdminPurgeUsersCommand_state \<Rightarrow> Parser \<Rightarrow> (parseAdminPurgeUsersCommand_state + parseAdminPurgeUsersCommand_state) res" where
  "parseAdminPurgeUsersCommand_body = (\<lambda>(days, planName, userStatus) p.
    (if curType p = TokenPlan
     then let p = nextToken p in
       if planName \<noteq> None
       then PErr (Errf ''duplicate PLAN after USERS'' [])
       else (case parseQuotedString p of
          Inl err \<Rightarrow> PErr err
        | Inr planV \<Rightarrow>
       let planName = Some planV in
       let p = nextToken p in
       POk (Inl (days, planName, userStatus)) p)
     else if curType p = TokenDays
     then let p = nextToken p in
       if days \<noteq> None
       then PErr (Errf ''duplicate DAYS after USERS'' [])
       else (case parseNumber p of
          Inl err \<Rightarrow> PErr err
        | Inr dayCount \<Rightarrow>
       let days = Some dayCount in
       let p = nextToken p in
       POk (Inl (days, planName, userStatus)) p)
     else if curType p = TokenInactive
     then let p = nextToken p in
       if userStatus \<noteq> None
       then PErr (Errf ''duplicate INACTIVE or ACTIVE after USERS'' [])
       else let inactiveStatus = ''inactive'' in
       let userStatus = Some inactiveStatus in
       POk (Inl (days, planName, userStatus)) p
     else if curType p = TokenActive
     then let p = nextToken p in
       if userStatus \<noteq> None
       then PErr (Errf ''duplicate INACTIVE or ACTIVE after USERS'' [])
       else let activeStatus = ''active'' in
       let userStatus = Some activeStatus in
       POk (Inl (days, planName, userStatus)) p
     else if curType p = TokenSemicolon
     then let p = nextToken p in
       POk (Inr (days, planName, userStatus)) p
     else POk (Inr (days, planName, userStatus)) p))"

definition parseAdminPurgeUsersCommand :: "bool \<Rightarrow> Parser \<Rightarrow> Command res" where
  "parseAdminPurgeUsersCommand preview p =
    (let p = nextToken p in
     let userStatus = (None :: string option) in
     let days = (None :: int option) in
     let planName = (None :: string option) in
     bindR (ploop parseAdminPurgeUsersCommand_body (days, planName, userStatus) p) (\<lambda>(days, planName, userStatus) p.
     let cmd = NewCommand ''admin_purge_users_command'' in
     let cmd = setParam ''preview'' (CBool preview) cmd in
     let cmd =
       (if planName \<noteq> None
       then setParam ''plan_name'' (CStr (the planName)) cmd
       else cmd)
     in let cmd =
       (if userStatus \<noteq> None
       then setParam ''user_status'' (CStr (the userStatus)) cmd
       else cmd)
     in let cmd = (if days \<noteq> None then setParam ''days'' (CInt (the days)) cmd else cmd) in
     POk cmd p))"

definition parseAdminPurgeCommand :: "Parser \<Rightarrow> Command res" where
  "parseAdminPurgeCommand p =
    (let p = nextToken p in
     let preview = False in
     let (preview, p) =
       (if curType p = TokenPreview
       then let p = nextToken p in
         let preview = True in
         (preview, p)
       else (preview, p))
     in if curType p = TokenOrphan
     then parseAdminPurgeOrphanCommand preview p
     else if curType p = TokenUser
     then parseAdminPurgeUserCommand preview p
     else if curType p = TokenUsers
     then parseAdminPurgeUsersCommand preview p
     else PErr (Errf ''expected PREVIEW, USER, USERS after PURGE'' []))"

end
