(* ===== verification/Cli_Parser.thy ===== *)
theory Cli_Parser
  imports Cli_Admin_Parser
begin

text \<open>
  The entry points of the command line client: \<open>Parse\<close> and the two command switches of
  \<open>internal/cli/parser.go\<close>, the dispatch of a parsed command in \<open>internal/cli/cli_http.go\<close> and
  \<open>execute\<close> with the meta commands of \<open>internal/cli/cli.go\<close>.

  The handlers of the dispatch talk to a server and are not modelled: \<open>ExecuteUserCommand\<close> and
  \<open>ExecuteAdminCommand\<close> give the name of the method that the source calls for a command type, or
  the error of the switch. \<open>execute\<close> returns what happens to a line of input: nothing, an error, a
  meta command or the call of a handler.
\<close>

datatype CommandLineMode = APIMode | AdminMode | OtherMode string

definition parseAdminCommand :: "Parser \<Rightarrow> Command res" where
  "parseAdminCommand p =
    (if curType p = TokenLogin then parseAdminLoginUser p
     else if curType p = TokenLogout then parseAdminLogout p
     else if curType p = TokenPing then parseAdminPingServer p
     else if curType p = TokenLive then parseAdminLiveServer p
     else if curType p = TokenHealth then parseAdminHealthServer p
     else if curType p = TokenList then parseAdminListCommands p
     else if curType p = TokenShow then parseAdminShowCommands p
     else if curType p = TokenStats then parseAdminStatsCommands p
     else if curType p = TokenCheck then parseAdminCheck p
     else if curType p = TokenCreate then parseAdminCreateCommand p
     else if curType p = TokenDrop then parseAdminDropCommands p
     else if curType p = TokenAlter then parseAdminAlterCommands p
     else if curType p = TokenGrant then parseAdminGrantCommands p
     else if curType p = TokenRevoke then parseAdminRevokeCommands p
     else if curType p = TokenSet then parseAdminSetCommand p
     else if curType p = TokenReset then parseAdminResetCommand p
     else if curType p = TokenBenchmark then parseAdminBenchmarkCommand p
     else if curType p = TokenStart then parseAdminStartService p
     else if curType p = TokenShutdown then parseAdminShutdownCommands p
     else if curType p = TokenRestart then parseAdminRestart p
     else if curType p = TokenMQ then parseMessageQueueCommand p
     else if curType p = TokenRemove then parseAdminRemoveCommands p
     else if curType p = TokenStop then parseAdminStopIngestionTasks p
     else if curType p = TokenAdd then parseAdminAddCommand p
     else if curType p = TokenDelete then parseAdminDeleteCommands p
     else if curType p = TokenEnable then parseAdminEnableCommand p
     else if curType p = TokenDisable then parseAdminDisableCommand p
     else if curType p = TokenSave then parseAdminSaveCommand p
     else if curType p = TokenUse then parseAdminUseCommand p
     else if curType p = TokenPurge then parseAdminPurgeCommand p
     else PErr (Errf ''unknown command: %s'' [Txt (curValue p)]))"

definition parseUserCommand :: "(string \<Rightarrow> string option) \<Rightarrow> Parser \<Rightarrow> Command res" where
  "parseUserCommand jsonErr p =
    (if curType p = TokenLogin then parseAPILoginUser p
     else if curType p = TokenLogout then parseAPILogout p
     else if curType p = TokenPing then parseAPIPingServer p
     else if curType p = TokenRegister then parseAPIRegister p
     else if curType p = TokenList then parseAPIListCommands p
     else if curType p = TokenShow then parseAPIShowCommands p
     else if curType p = TokenCreate then parseAPICreateCommands p
     else if curType p = TokenDrop then parseAPIDropCommands p
     else if curType p = TokenAdd then parseAPIAddCommands p
     else if curType p = TokenDelete then parseAPIDeleteCommands p
     else if curType p = TokenAlter then parseAPIAlterCommands p
     else if curType p = TokenSet then parseAPISetCommands p
     else if curType p = TokenReset then parseAPIResetCommands p
     else if curType p = TokenImport then parseAPIImport p
     else if curType p = TokenInsert then parseDevInsertCommand p
     else if curType p = TokenRetrieve then parseAPIRetrieve p
     else if curType p = TokenParse then parseParseCommands p
     else if curType p = TokenBenchmark then parseBenchmarkCommand p
     else if curType p = TokenEnable then parseAPIEnable p
     else if curType p = TokenDisable then parseAPIDisable p
     else if curType p = TokenChat then parseAPIChat p
     else if curType p = TokenStream then parseAPIStream p
     else if curType p = TokenThink then parseAPIThink p
     else if curType p = TokenEmbed then parseAPIEmbed p
     else if curType p = TokenRerank then parseAPIRerank p
     else if curType p = TokenASR then parseAPIASR p
     else if curType p = TokenTTS then parseAPITTS p
     else if curType p = TokenOCR then parseAPIOCR p
     else if curType p = TokenCheck then parseAPICheck p
     else if curType p = TokenStart then parseUserStartIngestion p
     else if curType p = TokenStop then parseUserStopIngestion p
     else if curType p = TokenSave then parseAPISave p
     else if curType p = TokenUse then parseAPIUseCommands p
     else if curType p = TokenUpdate then parseDevUpdateCommand p
     else if curType p = TokenRemove then parseAPIRemove p
     else if curType p = TokenGet then parseDevGetCommand p
     else if curType p = TokenExplain then parseDevExplain p
     else if curType p = TokenChunk then parseDevChunk False p
     else if curType p = TokenOpenaiChat then parseOpenaiChat jsonErr p
     else if curType p \<in> set [TokenLS, TokenCat, TokenSearch] then parseFileSystemCommands p
     else PErr (Errf ''unknown command: %s'' [Txt (curValue p)]))"

definition parseCommand ::
  "(string \<Rightarrow> string option) \<Rightarrow> CommandLineMode \<Rightarrow> Parser \<Rightarrow> Command res" where
  "parseCommand jsonErr cliMode p =
    (if curType p \<noteq> TokenIdentifier \<and> \<not> isKeyword (curType p)
     then PErr (Errf ''expected command, got %s'' [Txt (curValue p)])
     else case cliMode of
       AdminMode \<Rightarrow> parseAdminCommand p
     | APIMode \<Rightarrow> parseUserCommand jsonErr p
     | OtherMode m \<Rightarrow> PErr (Errf ''unknown mode: %s'' [Txt m]))"

text \<open>\<open>Parse\<close> returns a nil command for an input without tokens.\<close>

definition Parse ::
  "(string \<Rightarrow> string option) \<Rightarrow> CommandLineMode \<Rightarrow> Parser \<Rightarrow> Command option res" where
  "Parse jsonErr cliMode p =
    (if curType p = TokenEOF then POk None p
     else if curType p = TokenIdentifier \<and> has_backslash (curValue p)
     then bindR (parseMetaCommand p) (\<lambda>cmd p. POk (Some cmd) p)
     else bindR (parseCommand jsonErr cliMode p) (\<lambda>cmd p. POk (Some cmd) p))"

subsection \<open>Dispatch\<close>

definition admin_handlers :: "(string \<times> (fmsg + string)) list" where
  "admin_handlers = [
    (''admin_login_user'', Inr ''LoginUserByCommand''),
    (''admin_logout'', Inr ''Logout''),
    (''admin_ping_store'', Inr ''AdminPingStoreCommand''),
    (''admin_ping_engine'', Inr ''AdminPingEngineCommand''),
    (''admin_ping_mq'', Inr ''AdminPingMQCommand''),
    (''admin_ping_cache'', Inr ''AdminPingCacheCommand''),
    (''admin_ping_server'', Inr ''PingServerByCommand''),
    (''admin_live_server'', Inr ''AdminLiveServerCommand''),
    (''admin_health_server'', Inr ''AdminHealthServerCommand''),
    (''benchmark'', Inr ''RunBenchmark''),
    (''admin_list_services'', Inr ''AdminListServicesCommand''),
    (''admin_start_service'', Inr ''AdminStartServiceCommand''),
    (''admin_restart_service'', Inr ''AdminRestartServiceCommand''),
    (''admin_shutdown_service'', Inr ''AdminShutdownServiceCommand''),
    (''admin_grant_user_admin'', Inr ''AdminGrantUserAdminCommand''),
    (''admin_revoke_user_admin'', Inr ''AdminRevokeUserAdminCommand''),
    (''admin_grant_role_permission'', Inr ''AdminGrantRolePermissionCommand''),
    (''admin_revoke_role_permission'', Inr ''AdminRevokeRolePermissionCommand''),
    (''admin_show_role_permission'', Inr ''AdminShowRolePermissionCommand''),
    (''admin_create_user'', Inr ''AdminCreateUserCommand''),
    (''admin_create_user_api_key'', Inr ''AdminCreateUserAPIKeyCommand''),
    (''admin_create_role'', Inr ''AdminCreateRoleCommand''),
    (''admin_activate_user'', Inr ''AdminActivateUser''),
    (''admin_alter_user'', Inr ''AdminAlterUserPassword''),
    (''admin_alter_role'', Inr ''AdminAlterRole''),
    (''admin_alter_provider_instance'', Inr ''CommonAlterProviderInstanceCommand''),
    (''admin_drop_user'', Inr ''AdminDropUserCommand''),
    (''admin_drop_user_api_key'', Inr ''AdminDropUserAPIKeyCommand''),
    (''admin_drop_role'', Inr ''AdminDropRoleCommand''),
    (''admin_show_service'', Inr ''AdminShowService''),
    (''admin_show_version_command'', Inr ''AdminShowVersionCommand''),
    (''admin_show_current'', Inr ''CommonShowCurrentCommand''),
    (''admin_list_variables'', Inr ''AdminListVariablesCommand''),
    (''admin_list_configs'', Inr ''AdminListConfigsCommand''),
    (''admin_list_environments'', Inr ''AdminListEnvironmentsCommand''),
    (''admin_show_variable'', Inr ''AdminShowVariable''),
    (''admin_set_license'', Inr ''AdminSetLicenseCommand''),
    (''admin_set_soft_fingerprint'', Inr ''AdminSetSoftFingerprintCommand''),
    (''admin_set_license_config'', Inr ''AdminSetLicenseConfigCommand''),
    (''admin_set_variable'', Inr ''AdminSetVariableCommand''),
    (''admin_set_role_default_model'', Inr ''AdminSetRoleDefaultModelsCommand''),
    (''admin_set_log_level'', Inr ''AdminSetLogLevelCommand''),
    (''admin_reset_role_default_model'', Inr ''AdminResetRoleDefaultModelsCommand''),
    (''list_user_datasets'', Inr ''ListUserDatasets''),
    (''admin_list_resources_command'', Inr ''AdminListResourcesCommand''),
    (''admin_list_roles_command'', Inr ''AdminListRolesCommand''),
    (''admin_list_available_providers'', Inr ''CommonAvailableProvidersCommand''),
    (''admin_show_provider'', Inr ''CommonShowProviderCommand''),
    (''admin_show_provider_instance'', Inr ''CommonShowProviderInstanceCommand''),
    (''admin_show_provider_instance_balance'', Inr ''CommonShowProviderInstanceBalanceCommand''),
    (''admin_show_provider_model'', Inr ''CommonShowProviderModelCommand''),
    (''admin_list_provider_models'', Inr ''CommonListModelsCommand''),
    (''admin_list_provider_instance_models'', Inr ''CommonListInstanceModelsCommand''),
    (''admin_list_provider_instances'', Inr ''CommonListProviderInstancesCommand''),
    (''admin_show_model'', Inr ''CommonShowModelCommand''),
    (''admin_list_providers'', Inr ''AdminListProvidersCommand''),
    (''admin_list_all_models'', Inr ''CommonListAllModels''),
    (''list_admin_tasks'', Inr ''ListAdminTasks''),
    (''admin_list_ingestors'', Inr ''ListAdminIngestors''),
    (''admin_stop_ingestion_tasks'', Inr ''AdminStopIngestionCommand''),
    (''admin_remove_ingestion_tasks'', Inr ''AdminRemoveIngestionCommand''),
    (''admin_shutdown_ingestor_command'', Inr ''AdminShutdownIngestor''),
    (''list_admin_ingestion_tasks'', Inr ''ListAdminIngestionTasks''),
    (''user_list_message_queue_command'', Inr ''UserListMessageQueueCommand''),
    (''user_publish_message_command'', Inr ''UserPublishMessageCommand''),
    (''user_pull_message_command'', Inr ''UserPullMessageCommand''),
    (''user_show_message_queue_command'', Inr ''UserShowMessageQueueCommand''),
    (''admin_check_license'', Inr ''AdminCheckLicenseCommand''),
    (''admin_check_provider_with_key'', Inr ''CommonCheckProviderWithKeyCommand''),
    (''admin_check_provider_instance'', Inr ''CommonCheckProviderConnectionCommand''),
    (''admin_show_fingerprint'', Inr ''AdminShowFingerprintCommand''),
    (''admin_show_soft_fingerprint'', Inr ''AdminShowSoftFingerprintCommand''),
    (''admin_show_license'', Inr ''AdminShowLicenseCommand''),
    (''admin_show_user'', Inr ''AdminShowUserCommand''),
    (''admin_show_role'', Inr ''AdminShowRoleCommand''),
    (''admin_show_role_default_models'', Inr ''AdminShowRoleDefaultModelsCommand''),
    (''admin_show_user_activity_command'', Inr ''AdminShowUserActivityCommand''),
    (''admin_show_user_summary_command'', Inr ''AdminShowUserSummaryCommand''),
    (''admin_show_user_dataset_command'', Inr ''AdminShowUserDatasetCommand''),
    (''admin_show_user_storage_command'', Inr ''AdminShowUserStorageCommand''),
    (''admin_show_user_quota_command'', Inr ''AdminShowUserQuotaCommand''),
    (''admin_show_user_index_command'', Inr ''AdminShowUserIndexCommand''),
    (''admin_show_user_permission_command'', Inr ''AdminShowUserPermissionCommand''),
    (''admin_show_users_summary_command'', Inr ''AdminShowUsersSummaryCommand''),
    (''admin_show_users_activity_command'', Inr ''AdminShowUsersActivityCommand''),
    (''admin_show_users_plan_summary'', Inr ''AdminShowUsersPlanSummaryCommand''),
    (''admin_show_users_plan_quota'', Inr ''AdminShowUsersPlanQuotaCommand''),
    (''admin_stats_user'', Inr ''AdminStatsUserCommand''),
    (''admin_stats_users'', Inr ''AdminStatsUsersCommand''),
    (''admin_stats_summary'', Inr ''AdminStatsSummaryCommand''),
    (''admin_list_users_command'', Inr ''AdminListUsersCommand''),
    (''admin_list_users_condition_command'', Inr ''AdminListUsersConditionCommand''),
    (''admin_show_quota_summary'', Inr ''AdminShowQuotaSummaryCommand''),
    (''admin_show_tasks_summary'', Inr ''AdminShowTasksSummaryCommand''),
    (''admin_show_data_summary'', Inr ''AdminShowDataSummaryCommand''),
    (''admin_show_data_orphan'', Inr ''AdminShowDataOrphanCommand''),
    (''admin_show_data_storage'', Inr ''AdminShowDataStorageCommand''),
    (''admin_show_data_index'', Inr ''AdminShowDataIndexCommand''),
    (''admin_purge_orphan_command'', Inr ''AdminPurgeOrphanCommand''),
    (''admin_purge_user_command'', Inr ''AdminPurgeUserCommand''),
    (''admin_purge_users_command'', Inr ''AdminPurgeUsersCommand''),
    (''admin_list_user_ingestion_tasks'', Inr ''AdminListUserIngestionTasksCommand''),
    (''admin_list_user_datasets'', Inr ''AdminListUserDatasetsCommand''),
    (''admin_list_user_agents'', Inr ''AdminListUserAgentsCommand''),
    (''admin_list_user_chats'', Inr ''AdminListUserChatsCommand''),
    (''admin_list_user_searches'', Inr ''AdminListUserSearchesCommand''),
    (''admin_list_user_models'', Inr ''AdminListUserModelsCommand''),
    (''admin_list_user_files'', Inr ''AdminListUserFilesCommand''),
    (''admin_list_user_keys'', Inr ''AdminListUserKeysCommand''),
    (''admin_list_user_providers'', Inr ''AdminListUserProvidersCommand''),
    (''admin_list_user_provider_instances'', Inr ''AdminListUserProviderInstancesCommand''),
    (''admin_list_user_provider_instance_models'', Inr ''AdminListUserProviderInstanceModelsCommand''),
    (''admin_list_user_default_models'', Inr ''AdminListUserDefaultModelsCommand''),
    (''admin_list_user_operation_logs'', Inr ''AdminListUserLogsCommand''),
    (''admin_stop_user_ingestion_tasks_command'', Inr ''AdminStopUserIngestionTasksCommand''),
    (''admin_remove_user_ingestion_tasks_command'', Inr ''AdminRemoveUserIngestionTasksCommand''),
    (''admin_add_provider'', Inr ''AdminAddProviderCommand''),
    (''admin_add_model_instance'', Inr ''AdminAddModelInstanceCommand''),
    (''admin_add_models'', Inr ''AdminAddModelsCommand''),
    (''admin_delete_model_providers'', Inr ''AdminDeleteProvidersCommand''),
    (''admin_delete_model_instance'', Inr ''AdminDeleteInstancesCommand''),
    (''admin_delete_model'', Inr ''AdminDeleteModelsCommand''),
    (''admin_delete_soft_fingerprint'', Inr ''AdminDeleteSoftFingerprintCommand''),
    (''admin_enable_model'', Inr ''CommonEnableOrDisableModelCommand enable''),
    (''admin_disable_model'', Inr ''CommonEnableOrDisableModelCommand disable''),
    (''admin_show_admin_server'', Inr ''CommonShowAdminServerCommand''),
    (''admin_show_api_server'', Inr ''CommonShowAPIServerCommand''),
    (''admin_show_log_level'', Inr ''AdminShowLogLevelCommand''),
    (''admin_list_api_servers'', Inr ''CommonListAPIServersCommand''),
    (''api_add_api_server'', Inr ''AddAPIServerCommand''),
    (''api_delete_api_server'', Inr ''DeleteAPIServerCommand''),
    (''api_add_admin_server'', Inl (Errf ''cannot add admin server in admin mode'' [])),
    (''api_delete_admin_server'', Inl (Errf ''cannot delete admin server in admin mode'' [])),
    (''admin_save_config_command'', Inr ''CommonSaveServerConfigCommand''),
    (''admin_use_api_server'', Inr ''CommonUseAPIServerCommand''),
    (''admin_use_admin_server'', Inr ''CommonUseAdminServerCommand''),
    (''admin_list_bucket_objects'', Inr ''AdminListBucketObjects'')]"

definition user_handlers :: "(string \<times> (fmsg + string)) list" where
  "user_handlers = [
    (''api_register_user'', Inr ''RegisterUser''),
    (''api_login_user'', Inr ''LoginUserByCommand''),
    (''api_logout'', Inr ''Logout''),
    (''api_ping_server'', Inr ''PingServerByCommand''),
    (''api_set_log_level'', Inr ''APISetLogLevelCommand''),
    (''benchmark'', Inr ''RunBenchmark''),
    (''api_list_datasets'', Inr ''APIListDatasetsCommand''),
    (''api_list_dataset_documents'', Inr ''APIListDatasetDocumentsCommand''),
    (''api_list_dataset_files'', Inr ''APIListDatasetFilesCommand''),
    (''api_list_agents'', Inr ''APIListAgentsCommand''),
    (''api_list_chats'', Inr ''APIListChatsCommand''),
    (''api_list_searches'', Inr ''APIListSearchesCommand''),
    (''api_list_memories'', Inr ''APIListMemoriesCommand''),
    (''search_on_datasets'', Inr ''SearchOnDatasets''),
    (''search_help'', Inr ''printSearchHelp''),
    (''api_create_api_key'', Inr ''APICreateAPIKeyCommand''),
    (''api_create_dataset'', Inr ''APICreateDatasetCommand''),
    (''api_create_agent'', Inr ''APICreateAgentCommand''),
    (''api_create_chat'', Inr ''APICreateChatCommand''),
    (''api_create_search'', Inr ''APICreateSearchCommand''),
    (''api_create_memory'', Inr ''APICreateMemoryCommand''),
    (''api_list_api_keys'', Inr ''APIListAPIKeysCommand''),
    (''api_delete_api_key'', Inr ''APIDeleteAPIKeyCommand''),
    (''api_set_api_key'', Inr ''APISetAPIKeyCommand''),
    (''api_set_variable'', Inr ''APISetVariableCommand''),
    (''api_show_variable'', Inr ''APIShowVariableCommand''),
    (''api_unset_api_key'', Inr ''APIUnsetAPIKeyCommand''),
    (''api_show_version'', Inr ''APIShowVersionCommand''),
    (''api_show_api_key'', Inr ''APIShowAPIKeyCommand''),
    (''api_show_current'', Inr ''CommonShowCurrentCommand''),
    (''api_list_available_providers'', Inr ''CommonAvailableProvidersCommand''),
    (''api_show_provider'', Inr ''CommonShowProviderCommand''),
    (''api_show_provider_instance'', Inr ''CommonShowProviderInstanceCommand''),
    (''api_show_provider_instance_balance'', Inr ''CommonShowProviderInstanceBalanceCommand''),
    (''api_show_provider_instance_task'', Inr ''APIShowProviderInstanceTaskCommand''),
    (''api_show_provider_model'', Inr ''CommonShowProviderModelCommand''),
    (''api_list_provider_models'', Inr ''CommonListModelsCommand''),
    (''api_list_provider_instance_models'', Inr ''CommonListInstanceModelsCommand''),
    (''api_list_provider_instance_models_sync'', Inr ''CommonListInstanceModelsSyncCommand''),
    (''api_list_provider_instance_tasks'', Inr ''APIListModelInstanceTasksCommand''),
    (''api_show_model'', Inr ''CommonShowModelCommand''),
    (''api_list_all_models'', Inr ''CommonListAllModels''),
    (''api_add_provider'', Inr ''APIAddProviderCommand''),
    (''api_list_providers'', Inr ''APIListProvidersCommand''),
    (''api_delete_provider'', Inr ''APIDeleteProviderCommand''),
    (''api_delete_provider_instance'', Inr ''APIDeleteProviderInstanceCommand''),
    (''api_drop_dataset'', Inr ''APIDropDatasetCommand''),
    (''api_drop_chat'', Inr ''APIDropChatCommand''),
    (''api_drop_search'', Inr ''APIDropSearchCommand''),
    (''api_drop_memory'', Inr ''APIDropMemoryCommand''),
    (''api_drop_agent'', Inr ''APIDropAgentCommand''),
    (''api_add_provider_instance'', Inr ''APIAddProviderInstanceCommand''),
    (''api_list_provider_instances'', Inr ''CommonListProviderInstancesCommand''),
    (''api_alter_provider_instance'', Inr ''CommonAlterProviderInstanceCommand''),
    (''api_delete_provider_instance_model'', Inr ''APIDeleteProviderInstanceModelCommand''),
    (''enable_model'', Inr ''CommonEnableOrDisableModelCommand enable''),
    (''disable_model'', Inr ''CommonEnableOrDisableModelCommand disable''),
    (''api_add_custom_model'', Inr ''APIAddCustomModelCommand''),
    (''api_chat_to_model'', Inr ''APIChatToModelCommand''),
    (''api_openai_chat'', Inr ''APIOpenaiChatCommand''),
    (''openai_chat_help'', Inr ''printOpenaiChatHelp''),
    (''api_embed_user_text'', Inr ''EmbedUserTextCommand''),
    (''api_rarank_user_document'', Inr ''APIRerankUserDocumentCommand''),
    (''chat completions'', Inr ''ChatCompletions''),
    (''chat completions help'', Inr ''printChatCompletionsHelp''),
    (''tts_user_command'', Inr ''APITTSUserCommand''),
    (''asr_user_command'', Inr ''APIASRUserCommand''),
    (''ocr_user_command'', Inr ''APIOCRUserCommand''),
    (''api_model_parse_file'', Inr ''APIModelParseFileCommand''),
    (''check_provider_connection'', Inr ''CommonCheckProviderConnectionCommand''),
    (''check_provider_with_key'', Inr ''CommonCheckProviderWithKeyCommand''),
    (''api_use_model'', Inr ''APIUseModelCommand''),
    (''api_use_api_server'', Inr ''CommonUseAPIServerCommand''),
    (''api_use_admin_server'', Inr ''CommonUseAdminServerCommand''),
    (''api_set_default_model'', Inr ''APISetDefaultModelCommand''),
    (''api_reset_default_model'', Inr ''APIResetDefaultModelCommand''),
    (''api_list_default_models'', Inr ''APIListDefaultModelsCommand''),
    (''api_parse_documents'', Inr ''APIParseDocumentsCommand''),
    (''api_start_ingestion'', Inr ''APIStartIngestionCommand''),
    (''api_stop_ingestion'', Inr ''APIStopIngestionCommand''),
    (''api_list_ingestion_tasks'', Inr ''APIListIngestionTasks''),
    (''api_list_sync_logs'', Inr ''APIListSyncLogsCommand''),
    (''api_remove_task'', Inr ''APIRemoveTaskCommand''),
    (''user_parse_local_file_command'', Inr ''APIParseLocalFileCommand''),
    (''api_show_admin_server'', Inr ''CommonShowAdminServerCommand''),
    (''api_show_api_server'', Inr ''CommonShowAPIServerCommand''),
    (''api_show_log_level'', Inr ''APIShowLogLevelCommand''),
    (''api_list_api_servers'', Inr ''CommonListAPIServersCommand''),
    (''api_list_environments'', Inr ''APIListEnvironmentsCommand''),
    (''api_list_variables'', Inr ''APIListVariablesCommand''),
    (''api_add_api_server'', Inr ''AddAPIServerCommand''),
    (''api_delete_api_server'', Inr ''DeleteAPIServerCommand''),
    (''api_add_admin_server'', Inr ''AddAdminServerCommand''),
    (''api_delete_admin_server'', Inr ''DeleteAdminServerCommand''),
    (''api_save_config_command'', Inr ''CommonSaveServerConfigCommand''),
    (''file_system_command'', Inr ''ExecuteFilesystemCommand''),
    (''dev_chunk'', Inr ''DevChunkCommand''),
    (''dev_create_chunk_store'', Inr ''DevCreateChunkStoreCommand''),
    (''dev_drop_chunk_store'', Inr ''DevDropChunkStoreCommand''),
    (''dev_create_metadata_store'', Inr ''DevCreateMetadataStoreCommand''),
    (''dev_drop_metadata_store'', Inr ''DevDropMetadataStoreCommand''),
    (''dev_insert_chunks_from_file'', Inr ''DevInsertChunksFromFileCommand''),
    (''dev_insert_metadata_from_file'', Inr ''DevInsertMetadataFromFileCommand''),
    (''dev_update_chunk'', Inr ''DevUpdateChunkCommand''),
    (''dev_get_chunk'', Inr ''DevGetChunkCommand''),
    (''dev_set_meta'', Inr ''DevSetMetaCommand''),
    (''dev_delete_meta'', Inr ''DevDeleteMetaCommand''),
    (''dev_rm_tags'', Inr ''DevRmTagsCommand''),
    (''dev_remove_chunks'', Inr ''DevRemoveChunksCommand''),
    (''dev_get_metadata'', Inr ''DevGetMetadataCommand'')]"

definition user_handler :: "string \<Rightarrow> (fmsg + string) option" where
  "user_handler t = map_of user_handlers t"

definition admin_handler :: "string \<Rightarrow> (fmsg + string) option" where
  "admin_handler t = map_of admin_handlers t"

lemmas user_handler_chain = user_handler_def
  [unfolded user_handlers_def map_of.simps fst_conv snd_conv fun_upd_apply]

lemmas admin_handler_chain = admin_handler_def
  [unfolded admin_handlers_def map_of.simps fst_conv snd_conv fun_upd_apply]

declare user_handler_chain [code] admin_handler_chain [code]

definition dispatch_to :: "(fmsg + string) option \<Rightarrow> Command \<Rightarrow> fmsg + string" where
  "dispatch_to handler cmd =
    (case handler of
       Some r \<Rightarrow> r
     | None \<Rightarrow> Inl (Errf (''command '' @ bytes [39, 37, 115, 39] @ '' would be executed with API'')
         [Txt (Cmd_Type cmd)]))"

definition ExecuteAdminCommand :: "Command \<Rightarrow> fmsg + string" where
  "ExecuteAdminCommand cmd = dispatch_to (admin_handler (Cmd_Type cmd)) cmd"

definition ExecuteUserCommand :: "Command \<Rightarrow> fmsg + string" where
  "ExecuteUserCommand cmd = dispatch_to (user_handler (Cmd_Type cmd)) cmd"

definition ExecuteCommand :: "CommandLineMode \<Rightarrow> Command \<Rightarrow> fmsg + string" where
  "ExecuteCommand cliMode cmd =
    (case cliMode of
       APIMode \<Rightarrow> ExecuteUserCommand cmd
     | AdminMode \<Rightarrow> ExecuteAdminCommand cmd
     | OtherMode m \<Rightarrow> Inl (Errf ''invalid server type: %s'' [Txt m]))"

subsection \<open>One line of input\<close>

datatype meta_effect = Quit | PrintHelp | PrintDir

datatype line_effect = Nothing | Failed fmsg | Meta meta_effect | Called string Command | Panicked | Stuck

definition handleMetaCommand :: "Command \<Rightarrow> line_effect" where
  "handleMetaCommand cmd =
    (case Cmd_Params cmd ''command'' of
       Some (CStr command) \<Rightarrow>
         if command \<in> set [''q'', ''quit'', ''exit''] then Meta Quit
         else if command \<in> set [''?'', ''h'', ''help''] then Meta PrintHelp
         else if command = ''pwd'' then Meta PrintDir
         else Failed (Errf (''unknown meta command: '' @ bytes [92] @ ''%s'') [Txt command])
     | _ \<Rightarrow> Panicked)"

definition execute :: "(string \<Rightarrow> string option) \<Rightarrow> CommandLineMode \<Rightarrow> string \<Rightarrow> line_effect" where
  "execute jsonErr cliMode line =
    (case Parse jsonErr cliMode (NewParser line) of
       PHang \<Rightarrow> Stuck
     | PErr err \<Rightarrow> Failed err
     | POk None _ \<Rightarrow> Nothing
     | POk (Some cmd) _ \<Rightarrow>
         if Cmd_Type cmd = ''meta'' then handleMetaCommand cmd
         else (case ExecuteCommand cliMode cmd of
                 Inl err \<Rightarrow> Failed err
               | Inr handler \<Rightarrow> Called handler cmd))"

end
