(* ===== verification/Cli_Parser_Lemmas.thy ===== *)
theory Cli_Parser_Lemmas
  imports Cli_Parser
begin

text \<open>
  For every parser method that \<open>Parse\<close> can reach: the method returns (it is never \<open>PHang\<close>), and the
  type of the command it builds is one that the dispatch of its mode knows, up to the listed
  exceptions. Every loop comes with a fact that a round consumes a token (\<open>..._steps\<close>) and a rule
  (\<open>..._loop\<close>) by which the rest of a method is proved for every state the loop may leave. The
  methods follow in groups, each group calling only methods of the groups before it.
\<close>

subsection \<open>Command types with a handler\<close>

definition api_unhandled :: "string list" where
  "api_unhandled = [''api_create_provider_instance'', ''ce_search'', ''import_docs_into_dataset'',
    ''parse_dataset'', ''reset_default_model'']"

definition admin_unhandled :: "string list" where
  "admin_unhandled = [''alter_user_role'']"

definition api_known :: "string \<Rightarrow> bool" where
  "api_known t = (user_handler t \<noteq> None \<or> t \<in> set api_unhandled)"

definition admin_known :: "string \<Rightarrow> bool" where
  "admin_known t = (admin_handler t \<noteq> None \<or> t \<in> set admin_unhandled)"

lemma user_handlers_ok: "list_all (\<lambda>x. api_known (fst x)) user_handlers"
  by (auto simp: list_all_iff api_known_def user_handler_def map_of_eq_None_iff)

lemma admin_handlers_ok: "list_all (\<lambda>x. admin_known (fst x)) admin_handlers"
  by (auto simp: list_all_iff admin_known_def admin_handler_def map_of_eq_None_iff)

lemma api_unhandled_ok: "list_all api_known api_unhandled"
  by (simp add: list_all_iff api_known_def)

lemma admin_unhandled_ok: "list_all admin_known admin_unhandled"
  by (simp add: list_all_iff admin_known_def)

lemmas api_known_simps = user_handlers_ok [unfolded user_handlers_def list.pred_inject fst_conv]
  api_unhandled_ok [unfolded api_unhandled_def list.pred_inject]

lemmas admin_known_simps = admin_handlers_ok [unfolded admin_handlers_def list.pred_inject fst_conv]
  admin_unhandled_ok [unfolded admin_unhandled_def list.pred_inject]

abbreviation api_command :: "Command res \<Rightarrow> bool" where
  "api_command \<equiv> returns_with (\<lambda>c p. api_known (Cmd_Type c))"

abbreviation admin_command :: "Command res \<Rightarrow> bool" where
  "admin_command \<equiv> returns_with (\<lambda>c p. admin_known (Cmd_Type c))"

declare wp_simps [simp] api_known_simps [simp] admin_known_simps [simp]

subsection \<open>Loops\<close>

lemma le_nextToken: "parser_left p \<le> n \<Longrightarrow> parser_left (nextToken p) \<le> n"
  using nextToken_left_le [of p] by linarith

lemma le_optSemicolon: "parser_left p \<le> n \<Longrightarrow> parser_left (optSemicolon p) \<le> n"
  using optSemicolon_left_le [of p] by linarith

lemma less_after_nextToken:
  "parser_left q \<le> parser_left (nextToken p) \<Longrightarrow> curType p \<noteq> TokenEOF \<Longrightarrow> parser_left q < parser_left p"
  using nextToken_left [of p] by linarith

lemma less_after_nextTokens:
  "parser_left q \<le> parser_left (nextToken (nextToken p)) \<Longrightarrow> curType p \<noteq> TokenEOF \<Longrightarrow>
    parser_left q < parser_left p"
  using nextToken_left [of p] nextToken_left_le [of "nextToken p"] by linarith

lemma less_after_nextTokens3:
  "parser_left q \<le> parser_left (nextToken (nextToken (nextToken p))) \<Longrightarrow> curType p \<noteq> TokenEOF \<Longrightarrow>
    parser_left q < parser_left p"
  using nextToken_left [of p] nextToken_left_le [of "nextToken p"]
    nextToken_left_le [of "nextToken (nextToken p)"] by linarith

lemma nextToken_twice:
  "curType (nextToken p) \<noteq> TokenEOF \<Longrightarrow> parser_left (nextToken (nextToken p)) < parser_left p"
  using nextToken_left [of "nextToken p"] nextToken_left_le [of p] by linarith

lemmas move_simps = left_simps le_nextToken le_optSemicolon less_after_nextToken
  less_after_nextTokens less_after_nextTokens3 nextToken_twice parseQuotedString_Inr

text \<open>\<open>steps J K body\<close>: a round of the loop consumes a token and keeps \<open>J\<close>; leaving it gives \<open>K\<close>.\<close>

definition steps ::
  "('s \<Rightarrow> Parser \<Rightarrow> bool) \<Rightarrow> ('s \<Rightarrow> bool) \<Rightarrow> ('s \<Rightarrow> Parser \<Rightarrow> ('s + 's) res) \<Rightarrow> bool" where
  "steps J K body = (\<forall>s p. J s p \<longrightarrow>
    returns_with (\<lambda>r p'. case r of Inl s' \<Rightarrow> J s' p' \<and> parser_left p' < parser_left p
      | Inr s' \<Rightarrow> K s' \<and> parser_left p' \<le> parser_left p) (body s p))"

lemma steps_ploop:
  assumes "steps J K body" and "J s p"
  shows "returns_with (\<lambda>s' p'. K s' \<and> parser_left p' \<le> parser_left p) (ploop body s p)"
  using assms(2)
proof (induction "parser_left p" arbitrary: s p rule: less_induct)
  case less
  have b: "returns_with (\<lambda>r p'. case r of Inl s' \<Rightarrow> J s' p' \<and> parser_left p' < parser_left p
      | Inr s' \<Rightarrow> K s' \<and> parser_left p' \<le> parser_left p) (body s p)"
    using assms(1) less.prems by (simp add: steps_def)
  show ?case
  proof (cases "body s p")
    case (POk r q)
    have "returns_with (\<lambda>s' p'. K s' \<and> parser_left p' \<le> parser_left p) (ploop body s' q)"
      if "r = Inl s'" for s'
      using b POk that less.hyps [of q s'] by (auto simp: wp_basic elim!: wp_mono)
    then show ?thesis using b POk
      by (subst ploop.simps) (cases r; simp add: wp_basic)
  qed (use b in \<open>subst ploop.simps; simp add: wp_basic\<close>)+
qed

lemma steps_from:
  "steps J (\<lambda>_. True) body \<Longrightarrow> J s p \<Longrightarrow> (\<And>s' p'. parser_left p' \<le> parser_left p \<Longrightarrow> Q s' p') \<Longrightarrow>
    returns_with Q (ploop body s p)"
  by (rule wp_mono [OF steps_ploop [where J = J and K = "\<lambda>_. True"]]) auto

lemmas steps_any = steps_from [where J = "\<lambda>_ _. True", OF _ TrueI]

lemma steps_cmd:
  "(\<And>t. steps (\<lambda>c _. Cmd_Type c = t) (\<lambda>c. Cmd_Type c = t) body) \<Longrightarrow>
    (\<And>c' p'. Cmd_Type c' = Cmd_Type c \<Longrightarrow> parser_left p' \<le> parser_left p \<Longrightarrow> Q c' p') \<Longrightarrow>
    returns_with Q (ploop body c p)"
  by (rule wp_mono [OF steps_ploop [where J = "\<lambda>c' _. Cmd_Type c' = Cmd_Type c"]]) auto

lemma wp_case_prod_app [simp]:
  "returns_with Q (case_prod f a p) = (\<forall>x y. a = (x, y) \<longrightarrow> returns_with Q (f x y p))"
  by (cases a) simp

lemma wp_case_prod_if [simp]:
  "returns_with Q (case_prod f (if b then x else y)) =
    ((b \<longrightarrow> returns_with Q (case_prod f x)) \<and> (\<not> b \<longrightarrow> returns_with Q (case_prod f y)))"
  by simp

lemma wp_case_prod_sum [simp]:
  "returns_with Q (case_prod f (case_sum g h x)) =
    ((\<forall>e. x = Inl e \<longrightarrow> returns_with Q (case_prod f (g e))) \<and> (\<forall>v. x = Inr v \<longrightarrow> returns_with Q (case_prod f (h v))))"
  by (cases x) simp_all

lemma Cmd_Type_if [simp]: "Cmd_Type (if b then x else y) = (if b then Cmd_Type x else Cmd_Type y)"
  by simp

lemma finished_expectPeek [simp]: "returns_with Q (expectPeek t p) = (Tok_Type (ps_peek p) = t \<longrightarrow> Q () (nextToken p))"
  by (simp add: expectPeek_def)

lemma parseGetMetadata_body_steps: "steps (\<lambda>_ _. True) (\<lambda>_. True) parseGetMetadata_body"
  unfolding steps_def parseGetMetadata_body_def split_paired_all split_paired_All
  by (auto simp: move_simps Let_def dest: parseNumber_Inr)

lemmas parseGetMetadata_body_loop [simp] = steps_any [OF parseGetMetadata_body_steps]

lemma parseDevRemoveTags_body_steps: "steps (\<lambda>_ _. True) (\<lambda>_. True) parseDevRemoveTags_body"
  unfolding steps_def parseDevRemoveTags_body_def split_paired_all split_paired_All
  by (auto simp: move_simps Let_def dest: parseNumber_Inr)

lemmas parseDevRemoveTags_body_loop [simp] = steps_any [OF parseDevRemoveTags_body_steps]

lemma parseDevRemoveChunk_body_steps: "steps (\<lambda>_ p. curType p \<noteq> TokenEOF) (\<lambda>_. True) parseDevRemoveChunk_body"
  unfolding steps_def parseDevRemoveChunk_body_def split_paired_all split_paired_All
  by (auto simp: move_simps Let_def dest: parseNumber_Inr)

lemmas parseDevRemoveChunk_body_loop [simp] = steps_from [OF parseDevRemoveChunk_body_steps]

lemma parseSyncLogsWithOptions_body_steps: "steps (\<lambda>c _. Cmd_Type c = t) (\<lambda>c. Cmd_Type c = t) parseSyncLogsWithOptions_body"
  unfolding steps_def parseSyncLogsWithOptions_body_def
  by (auto simp: move_simps Let_def dest: parseNumber_Inr)

lemmas parseSyncLogsWithOptions_body_loop [simp] = steps_cmd [OF parseSyncLogsWithOptions_body_steps]

lemma parseSyncLogsWithOptions_wp [simp]:
  "(\<And>c' p'. Cmd_Type c' = Cmd_Type c \<Longrightarrow> Q c' p') \<Longrightarrow> returns_with Q (parseSyncLogsWithOptions c p)"
  by (simp add: parseSyncLogsWithOptions_def)

lemma parseAPICreateProviderInstance_body_steps: "steps (\<lambda>_ _. True) (\<lambda>_. True) parseAPICreateProviderInstance_body"
  unfolding steps_def parseAPICreateProviderInstance_body_def split_paired_all split_paired_All
  by (auto simp: move_simps Let_def dest: parseNumber_Inr)

lemmas parseAPICreateProviderInstance_body_loop [simp] = steps_any [OF parseAPICreateProviderInstance_body_steps]

lemma parseAddProviderInstance_body_steps: "steps (\<lambda>_ _. True) (\<lambda>_. True) parseAddProviderInstance_body"
  unfolding steps_def parseAddProviderInstance_body_def split_paired_all split_paired_All
  by (auto simp: move_simps Let_def dest: parseNumber_Inr)

lemmas parseAddProviderInstance_body_loop [simp] = steps_any [OF parseAddProviderInstance_body_steps]

lemma parseAPIAddModel_dims_steps: "steps (\<lambda>_ _. True) (\<lambda>_. True) parseAPIAddModel_dims"
  unfolding steps_def parseAPIAddModel_dims_def split_paired_all split_paired_All
  by (auto simp: move_simps Let_def dest: parseNumber_Inr)

lemmas parseAPIAddModel_dims_loop [simp] = steps_any [OF parseAPIAddModel_dims_steps]

lemma parseAPIAddModel_body_steps: "steps (\<lambda>_ _. True) (\<lambda>_. True) (parseAPIAddModel_body modelNames)"
  unfolding steps_def parseAPIAddModel_body_def split_paired_all split_paired_All
  by (auto simp: move_simps Let_def dest: parseNumber_Inr)

lemmas parseAPIAddModel_body_loop [simp] = steps_any [OF parseAPIAddModel_body_steps]

lemma parseAPIAlterInstance_body_steps: "steps (\<lambda>_ _. True) (\<lambda>_. True) parseAPIAlterInstance_body"
  unfolding steps_def parseAPIAlterInstance_body_def split_paired_all split_paired_All
  by (auto simp: move_simps Let_def dest: parseNumber_Inr)

lemmas parseAPIAlterInstance_body_loop [simp] = steps_any [OF parseAPIAlterInstance_body_steps]

lemma retrieve_value_wp:
  "returns_with (\<lambda>v p'. parser_left p' \<le> parser_left p) (retrieve_value n p)"
  by (simp add: retrieve_value_def move_simps split: prod.split)

lemma quotedList_left: "returns_with (\<lambda>xs p'. parser_left p' \<le> parser_left p) (parseQuotedStringList p)"
proof -
  have "steps (\<lambda>_ _. True) (\<lambda>_. True) parseQuotedStringList_body"
    unfolding steps_def parseQuotedStringList_body_def
    by (auto simp: move_simps Let_def)
  from steps_any [OF this] show ?thesis
    by (auto simp: parseQuotedStringList_def move_simps Let_def le_trans [OF _ nextToken_left_le])
qed

lemma retrieve_option_wp:
  "returns_with (\<lambda>c p'. Cmd_Type c = Cmd_Type cmd \<and> parser_left p' \<le> parser_left p) (retrieve_option n t v cmd p)"
  by (simp add: retrieve_option_def quotedList_left split: option.split cval.split)

lemma retrieve_value_any [simp]:
  "(\<And>v p'. parser_left p' \<le> parser_left p \<Longrightarrow> Q v p') \<Longrightarrow> returns_with Q (retrieve_value n p)"
  by (rule wp_mono [OF retrieve_value_wp])

lemma retrieve_option_any [simp]:
  "(\<And>c p'. Cmd_Type c = Cmd_Type cmd \<Longrightarrow> parser_left p' \<le> parser_left p \<Longrightarrow> Q c p') \<Longrightarrow>
    returns_with Q (retrieve_option n t v cmd p)"
  by (rule wp_mono [OF retrieve_option_wp]) simp

lemma dashes_body_steps: "steps (\<lambda>_ _. True) (\<lambda>_. True) dashes_body"
  unfolding steps_def dashes_body_def split_paired_all split_paired_All
  by (auto simp: move_simps Let_def dest: parseNumber_Inr)

lemmas dashes_body_loop [simp] = steps_any [OF dashes_body_steps]

lemma parseAPIRetrieve_with_steps: "steps (\<lambda>c _. Cmd_Type c = t) (\<lambda>c. Cmd_Type c = t) parseAPIRetrieve_with"
  unfolding steps_def parseAPIRetrieve_with_def split_paired_all split_paired_All
  by (auto simp: move_simps Let_def dest: parseNumber_Inr)

lemmas parseAPIRetrieve_with_loop [simp] = steps_cmd [OF parseAPIRetrieve_with_steps]

lemma parseAPIRetrieve_path_steps: "steps (\<lambda>c _. Cmd_Type c = t) (\<lambda>c. Cmd_Type c = t) parseAPIRetrieve_path"
  unfolding steps_def parseAPIRetrieve_path_def split_paired_all split_paired_All
  by (auto simp: move_simps Let_def dest: parseNumber_Inr)

lemmas parseAPIRetrieve_path_loop [simp] = steps_cmd [OF parseAPIRetrieve_path_steps]

lemma parseAPIParseLocalFile_body_steps: "steps (\<lambda>c _. Cmd_Type c = t) (\<lambda>c. Cmd_Type c = t) parseAPIParseLocalFile_body"
  unfolding steps_def parseAPIParseLocalFile_body_def split_paired_all split_paired_All
  by (auto simp: move_simps Let_def dest: parseNumber_Inr)

lemmas parseAPIParseLocalFile_body_loop [simp] = steps_cmd [OF parseAPIParseLocalFile_body_steps]

lemma markSet_Type [simp]: "Cmd_Type (markSet n c) = Cmd_Type c"
  by (simp add: markSet_def split: option.split cval.split)

lemma completions_option_any [simp]:
  "(\<And>c p'. Cmd_Type c = Cmd_Type cmd \<Longrightarrow> parser_left p' \<le> parser_left p \<Longrightarrow> Q c p') \<Longrightarrow>
    returns_with Q (completions_option n cmd p)"
  by (simp add: completions_option_def parseBool_def move_simps split: prod.split)

lemma parseChatCompletionsBody_body_steps: "steps (\<lambda>c _. Cmd_Type c = t) (\<lambda>c. Cmd_Type c = t) parseChatCompletionsBody_body"
  unfolding steps_def parseChatCompletionsBody_body_def split_paired_all split_paired_All
  by (auto simp: move_simps Let_def dest: parseNumber_Inr)

lemmas parseChatCompletionsBody_body_loop [simp] = steps_cmd [OF parseChatCompletionsBody_body_steps]

lemma parseAPIChat_body6_steps: "steps (\<lambda>_ _. True) (\<lambda>_. True) parseAPIChat_body6"
  unfolding steps_def parseAPIChat_body6_def split_paired_all split_paired_All
  by (auto simp: move_simps Let_def dest: parseNumber_Inr)

lemmas parseAPIChat_body6_loop [simp] = steps_any [OF parseAPIChat_body6_steps]

lemma parseAPIChat_body5_steps: "steps (\<lambda>_ _. True) (\<lambda>_. True) parseAPIChat_body5"
  unfolding steps_def parseAPIChat_body5_def split_paired_all split_paired_All
  by (auto simp: move_simps Let_def dest: parseNumber_Inr)

lemmas parseAPIChat_body5_loop [simp] = steps_any [OF parseAPIChat_body5_steps]

lemma parseAPIChat_body4_steps: "steps (\<lambda>_ _. True) (\<lambda>_. True) parseAPIChat_body4"
  unfolding steps_def parseAPIChat_body4_def split_paired_all split_paired_All
  by (auto simp: move_simps Let_def dest: parseNumber_Inr)

lemmas parseAPIChat_body4_loop [simp] = steps_any [OF parseAPIChat_body4_steps]

lemma parseAPIChat_body3_steps: "steps (\<lambda>_ _. True) (\<lambda>_. True) parseAPIChat_body3"
  unfolding steps_def parseAPIChat_body3_def split_paired_all split_paired_All
  by (auto simp: move_simps Let_def dest: parseNumber_Inr)

lemmas parseAPIChat_body3_loop [simp] = steps_any [OF parseAPIChat_body3_steps]

lemma parseAPIChat_body2_steps: "steps (\<lambda>_ _. True) (\<lambda>_. True) parseAPIChat_body2"
  unfolding steps_def parseAPIChat_body2_def split_paired_all split_paired_All
  by (auto simp: move_simps Let_def dest: parseNumber_Inr)

lemmas parseAPIChat_body2_loop [simp] = steps_any [OF parseAPIChat_body2_steps]

lemma parseAPIChat_body_steps: "steps (\<lambda>_ _. True) (\<lambda>_. True) parseAPIChat_body"
  unfolding steps_def parseAPIChat_body_def split_paired_all split_paired_All
  by (auto simp: move_simps Let_def dest: parseNumber_Inr)

lemmas parseAPIChat_body_loop [simp] = steps_any [OF parseAPIChat_body_steps]

lemma parseAPIASR_body_steps: "steps (\<lambda>c _. Cmd_Type c = t) (\<lambda>c. Cmd_Type c = t) parseAPIASR_body"
  unfolding steps_def parseAPIASR_body_def split_paired_all split_paired_All
  by (auto simp: move_simps Let_def dest: parseNumber_Inr)

lemmas parseAPIASR_body_loop [simp] = steps_cmd [OF parseAPIASR_body_steps]

lemma parseAPITTS_body_steps: "steps (\<lambda>c _. Cmd_Type c = t) (\<lambda>c. Cmd_Type c = t) parseAPITTS_body"
  unfolding steps_def parseAPITTS_body_def split_paired_all split_paired_All
  by (auto simp: move_simps Let_def dest: parseNumber_Inr)

lemmas parseAPITTS_body_loop [simp] = steps_cmd [OF parseAPITTS_body_steps]

lemma parseAPIEmbed_body_steps: "steps (\<lambda>_ _. True) (\<lambda>_. True) parseAPIEmbed_body"
  unfolding steps_def parseAPIEmbed_body_def split_paired_all split_paired_All
  by (auto simp: move_simps Let_def dest: parseNumber_Inr)

lemmas parseAPIEmbed_body_loop [simp] = steps_any [OF parseAPIEmbed_body_steps]

lemma parseAPIRerank_body_steps: "steps (\<lambda>_ _. True) (\<lambda>_. True) parseAPIRerank_body"
  unfolding steps_def parseAPIRerank_body_def split_paired_all split_paired_All
  by (auto simp: move_simps Let_def dest: parseNumber_Inr)

lemmas parseAPIRerank_body_loop [simp] = steps_any [OF parseAPIRerank_body_steps]

lemma openai_option_any [simp]:
  "(\<And>c p'. Cmd_Type c = Cmd_Type cmd \<Longrightarrow> parser_left p' \<le> parser_left p \<Longrightarrow> Q c p') \<Longrightarrow>
    returns_with Q (openai_option j n cmd p)"
  by (simp add: openai_option_def parseBool_def move_simps split: prod.split)

lemma parseOpenaiChat_body_steps: "steps (\<lambda>c _. Cmd_Type c = t) (\<lambda>c. Cmd_Type c = t) (parseOpenaiChat_body jsonErr)"
  unfolding steps_def parseOpenaiChat_body_def split_paired_all split_paired_All
  by (auto simp: move_simps Let_def dest: parseNumber_Inr)

lemmas parseOpenaiChat_body_loop [simp] = steps_cmd [OF parseOpenaiChat_body_steps]

lemma parseAdminListUsersCommand_body_steps: "steps (\<lambda>_ _. True) (\<lambda>_. True) parseAdminListUsersCommand_body"
  unfolding steps_def parseAdminListUsersCommand_body_def split_paired_all split_paired_All
  by (auto simp: move_simps Let_def dest: parseNumber_Inr)

lemmas parseAdminListUsersCommand_body_loop [simp] = steps_any [OF parseAdminListUsersCommand_body_steps]

lemma parseAdminShowUsersActivity_body_steps: "steps (\<lambda>_ _. True) (\<lambda>_. True) parseAdminShowUsersActivity_body"
  unfolding steps_def parseAdminShowUsersActivity_body_def split_paired_all split_paired_All
  by (auto simp: move_simps Let_def dest: parseNumber_Inr)

lemmas parseAdminShowUsersActivity_body_loop [simp] = steps_any [OF parseAdminShowUsersActivity_body_steps]

lemma parseAdminAlterProvider_body_steps: "steps (\<lambda>_ _. True) (\<lambda>_. True) parseAdminAlterProvider_body"
  unfolding steps_def parseAdminAlterProvider_body_def split_paired_all split_paired_All
  by (auto simp: move_simps Let_def dest: parseNumber_Inr)

lemmas parseAdminAlterProvider_body_loop [simp] = steps_any [OF parseAdminAlterProvider_body_steps]

lemma parseAdminPurgeUsersCommand_body_steps: "steps (\<lambda>_ _. True) (\<lambda>_. True) parseAdminPurgeUsersCommand_body"
  unfolding steps_def parseAdminPurgeUsersCommand_body_def split_paired_all split_paired_All
  by (auto simp: move_simps Let_def dest: parseNumber_Inr)

lemmas parseAdminPurgeUsersCommand_body_loop [simp] = steps_any [OF parseAdminPurgeUsersCommand_body_steps]

subsection \<open>The methods of the API mode\<close>

lemma api_methods_1a [simp]:
  "api_command (parseInsertChunksFromFile p)"
  "api_command (parseInsertMetadataFromFile p)"
  "api_command (parseGetChunk p)"
  "api_command (parseGetMetadata p)"
  "api_command (parseUpdateChunk p)"
  "api_command (parseDevSetMeta p)"
  "api_command (parseDevDeleteMeta p)"
  "api_command (parseDevRemoveTags p)"
  "api_command (parseDevRemoveChunk p)"
  "api_command (parseDevDropChunkStore p)"
  "api_command (parseDevDropMetadataStore p)"
  "api_command (parseDevCreateChunkStore p)"
  "api_command (parseDevCreateMetadataStore p)"
  "api_command (parseDevChunk explain p)"
  "api_command (parseAPILoginUser p)"
  "api_command (parseAPILogout p)"
  "api_command (parseAPIPingServer p)"
  "api_command (parseAPIRegister p)"
  "api_command (parseAPIListDatasets p)"
  "api_command (parseAPIListDatasetDocuments datasetID p)"
  "api_command (parseAPIListDatasetFiles datasetName p)"
  "api_command (parseAPIListDatasetIngestionTasks datasetName p)"
  "api_command (parseAPIListDatasetSyncLogs datasetName p)"
  "api_command (parseAPIListAgents p)"
  "api_command (parseAPIListChats p)"
  "api_command (parseAPIListSearches p)"
  "api_command (parseAPIListMemories p)"
  "api_command (parseAPIListAPIKeys p)"
  "api_command (parseAPIListProviders p)"
  "api_command (parseListProviderInstances providerName p)"
  by (simp_all add: parseInsertChunksFromFile_def parseInsertMetadataFromFile_def parseGetChunk_def
      parseGetMetadata_def parseUpdateChunk_def parseDevSetMeta_def parseDevDeleteMeta_def
      parseDevRemoveTags_def parseDevRemoveChunk_def parseDevDropChunkStore_def
      parseDevDropMetadataStore_def parseDevCreateChunkStore_def
      parseDevCreateMetadataStore_def parseDevChunk_def parseAPILoginUser_def
      parseAPILogout_def parseAPIPingServer_def parseAPIRegister_def
      parseAPIListDatasets_def parseAPIListDatasetDocuments_def
      parseAPIListDatasetFiles_def parseAPIListDatasetIngestionTasks_def
      parseAPIListDatasetSyncLogs_def parseAPIListAgents_def parseAPIListChats_def
      parseAPIListSearches_def parseAPIListMemories_def parseAPIListAPIKeys_def
      parseAPIListProviders_def parseListProviderInstances_def parseQuotedString_Inr)

lemma api_methods_1b [simp]:
  "api_command (parseListProviderInstanceModels providerName instanceName p)"
  "api_command (parseListProviderInstanceTasks providerName instanceName p)"
  "api_command (parseListProviderModels providerName p)"
  "api_command (parseAPIListAllModels p)"
  "api_command (parseAPIListIngestionTasks p)"
  "api_command (parseAPIListSyncLogs p)"
  "api_command (parseAPIListDefaultModels p)"
  "api_command (parseAPIListAvailableProviders p)"
  "api_command (parseAPIListAPIServers p)"
  "api_command (parseAPIListEnvironments p)"
  "api_command (parseAPIListVariables p)"
  "api_command (parseAPIShowVersion p)"
  "api_command (parseAPIShowKey p)"
  "api_command (parseAPIShowCurrent p)"
  "api_command (parseAPIShowVariable p)"
  "api_command (parseAPIShowProviderInstanceBalance providerName instanceName p)"
  "api_command (parseAPIShowProviderInstanceTask providerName instanceName p)"
  "api_command (parseAPIShowProviderModel providerName p)"
  "api_command (parseAPIShowModel p)"
  "api_command (parseAPIShowAdmin p)"
  "api_command (parseAPIShowAPI p)"
  "api_command (parseShowLogLevel p)"
  "api_command (parseAPICreateDataset p)"
  "api_command (parseAPICreateChat p)"
  "api_command (parseAPICreateSearch p)"
  "api_command (parseAPICreateAgent p)"
  "api_command (parseAPICreateMemory p)"
  "api_command (parseAPICreateKey p)"
  "api_command (parseAPICreateProviderInstance p)"
  "api_command (parseAPIDropDataset p)"
  by (simp_all add: parseListProviderInstanceModels_def parseListProviderInstanceTasks_def
      parseListProviderModels_def parseAPIListAllModels_def parseAPIListIngestionTasks_def
      parseAPIListSyncLogs_def parseAPIListDefaultModels_def
      parseAPIListAvailableProviders_def parseAPIListAPIServers_def
      parseAPIListEnvironments_def parseAPIListVariables_def parseAPIShowVersion_def
      parseAPIShowKey_def parseAPIShowCurrent_def parseAPIShowVariable_def
      parseAPIShowProviderInstanceBalance_def parseAPIShowProviderInstanceTask_def
      parseAPIShowProviderModel_def parseAPIShowModel_def parseAPIShowAdmin_def
      parseAPIShowAPI_def parseShowLogLevel_def parseAPICreateDataset_def
      parseAPICreateChat_def parseAPICreateSearch_def parseAPICreateAgent_def
      parseAPICreateMemory_def parseAPICreateKey_def parseAPICreateProviderInstance_def
      parseAPIDropDataset_def)

lemma api_methods_1c [simp]:
  "api_command (parseAPIDropChat p)"
  "api_command (parseAPIDropSearch p)"
  "api_command (parseAPIDropMemory p)"
  "api_command (parseAPIDropAgent p)"
  "api_command (parseAPIDropAPIKey p)"
  "api_command (parseAddProviderInstance providerName p)"
  "api_command (parseAPIAddModel p)"
  "api_command (parseAddAPIServer p)"
  "api_command (parseAddAdminServer p)"
  "api_command (parseAPIDeleteProviderInstanceModels providerName instanceName p)"
  "api_command (parseAPIDeleteAdminServer p)"
  "api_command (parseAPIDeleteAPIServer p)"
  "api_command (parseAPIAlterInstance p)"
  "api_command (parseAPISetVariable p)"
  "api_command (parseAPISetDefault p)"
  "api_command (parseAPISetAPIKey p)"
  "api_command (parseAPISetLogLevel p)"
  "api_command (parseAPIResetDefaultModel p)"
  "api_command (parseAPIResetKey p)"
  "api_command (parseAPIImport p)"
  "api_command (parseAPIRetrieve p)"
  "api_command (parseAPIParseDataset p)"
  "api_command (parseAPIModelParse p)"
  "api_command (parseAPIParseDocs p)"
  "api_command (parseAPIParseLocalFile p)"
  "api_command (parseAPIEnable p)"
  "api_command (parseAPIDisable p)"
  "api_command (parseChatCompletionsBody p)"
  "api_command (parseAPIASR p)"
  "api_command (parseAPITTS p)"
  by (simp_all add: parseAPIDropChat_def parseAPIDropSearch_def parseAPIDropMemory_def
      parseAPIDropAgent_def parseAPIDropAPIKey_def parseAddProviderInstance_def
      parseAPIAddModel_def parseAddAPIServer_def parseAddAdminServer_def
      parseAPIDeleteProviderInstanceModels_def parseAPIDeleteAdminServer_def
      parseAPIDeleteAPIServer_def parseAPIAlterInstance_def parseAPISetVariable_def
      parseAPISetDefault_def parseAPISetAPIKey_def parseAPISetLogLevel_def
      parseAPIResetDefaultModel_def parseAPIResetKey_def parseAPIImport_def
      parseAPIRetrieve_def parseAPIParseDataset_def parseAPIModelParse_def
      parseAPIParseDocs_def parseAPIParseLocalFile_def parseAPIEnable_def
      parseAPIDisable_def parseChatCompletionsBody_def parseAPIASR_def parseAPITTS_def)

lemma api_methods_1d [simp]:
  "api_command (parseAPIEmbed p)"
  "api_command (parseAPIRerank p)"
  "api_command (parseAPIOCR p)"
  "api_command (parseCheckInstanceCommand p)"
  "api_command (parseCheckProviderByKeyCommand p)"
  "api_command (parseUserStartIngestion p)"
  "api_command (parseUserStopIngestion p)"
  "api_command (parseAPISaveConfig p)"
  "api_command (parseAPIUseModel p)"
  "api_command (parseAPIUseAPIServer p)"
  "api_command (parseAPIUseAdminServer p)"
  "api_command (parseAPIRemoveTask p)"
  "api_command (parseOpenaiChat jsonErr p)"
  by (simp_all add: parseAPIEmbed_def parseAPIRerank_def parseAPIOCR_def parseCheckInstanceCommand_def
      parseCheckProviderByKeyCommand_def parseUserStartIngestion_def
      parseUserStopIngestion_def parseAPISaveConfig_def parseAPIUseModel_def
      parseAPIUseAPIServer_def parseAPIUseAdminServer_def parseAPIRemoveTask_def
      parseOpenaiChat_def)

lemma api_methods_2 [simp]:
  "api_command (parseDevInsertCommand p)"
  "api_command (parseDevGetCommand p)"
  "api_command (parseDevUpdateCommand p)"
  "api_command (parseDevExplain p)"
  "api_command (parseAPIListDatasetCommands p)"
  "api_command (parseListProviderInstanceCommands providerName p)"
  "api_command (parseAPIShowProviderInstance providerName p)"
  "api_command (parseAPIShowLogCommands p)"
  "api_command (parseAPICreateCommands p)"
  "api_command (parseAPIDropCommands p)"
  "api_command (parseAPIAddProvider p)"
  "api_command (parseAPIDeleteProviderInstance providerName p)"
  "api_command (parseAPIAlterCommands p)"
  "api_command (parseAPISetLog p)"
  "api_command (parseAPIResetCommands p)"
  "api_command (parseParseCommands p)"
  "api_command (parseAPIChat p)"
  "api_command (parseAPICheck p)"
  "api_command (parseAPISave p)"
  "api_command (parseAPIUseCommands p)"
  "api_command (parseAPIRemove p)"
  by (simp_all add: parseDevInsertCommand_def parseDevGetCommand_def parseDevUpdateCommand_def
      parseDevExplain_def parseAPIListDatasetCommands_def
      parseListProviderInstanceCommands_def parseAPIShowProviderInstance_def
      parseAPIShowLogCommands_def parseAPICreateCommands_def parseAPIDropCommands_def
      parseAPIAddProvider_def parseAPIDeleteProviderInstance_def parseAPIAlterCommands_def
      parseAPISetLog_def parseAPIResetCommands_def parseParseCommands_def parseAPIChat_def
      parseAPICheck_def parseAPISave_def parseAPIUseCommands_def parseAPIRemove_def)

lemma api_methods_3 [simp]:
  "api_command (parseAPIListProviderCommands p)"
  "api_command (parseAPIShowProviderCommands p)"
  "api_command (parseAPIAddCommands p)"
  "api_command (parseAPIDeleteProvider p)"
  "api_command (parseAPISetCommands p)"
  "api_command (parseAPIThink p)"
  by (simp_all add: parseAPIListProviderCommands_def parseAPIShowProviderCommands_def
      parseAPIAddCommands_def parseAPIDeleteProvider_def parseAPISetCommands_def
      parseAPIThink_def)

lemma api_methods_4 [simp]:
  "api_command (parseAPIListCommands p)"
  "api_command (parseAPIShowCommands p)"
  "api_command (parseAPIDeleteCommands p)"
  "api_command (parseAPIStream p)"
  by (simp_all add: parseAPIListCommands_def parseAPIShowCommands_def parseAPIDeleteCommands_def
      parseAPIStream_def)

lemma api_methods_5 [simp]:
  "api_command (parseUserStatement p)"
  by (simp_all add: parseUserStatement_def)

lemma parseUserStatement_returns [simp]: "returns_with (\<lambda>c p. True) (parseUserStatement p)"
  by (rule wp_mono [where Q = "\<lambda>c p. api_known (Cmd_Type c)"]) simp_all

lemma api_methods_6 [simp]:
  "api_command (parseBenchmarkCommand p)"
  by (simp_all add: parseBenchmarkCommand_def)

subsection \<open>The methods of the admin mode\<close>

lemma admin_methods_1a [simp]:
  "admin_command (parseAddAPIServer p)"
  "admin_command (parseAddAdminServer p)"
  "admin_command (parseAPIDeleteAdminServer p)"
  "admin_command (parseAPIDeleteAPIServer p)"
  "admin_command (parseAdminLoginUser p)"
  "admin_command (parseAdminLogout p)"
  "admin_command (parseAdminPingServer p)"
  "admin_command (parseAdminLiveServer p)"
  "admin_command (parseAdminHealthServer p)"
  "admin_command (parseAdminListServices p)"
  "admin_command (parseAdminListUsersCommand p)"
  "admin_command (parseAdminListRoles p)"
  "admin_command (parseAdminListResources p)"
  "admin_command (parseAdminListVariables p)"
  "admin_command (parseAdminListConfigs p)"
  "admin_command (parseAdminListEnvironments p)"
  "admin_command (parseAdminListAvailableProviders p)"
  "admin_command (parseAdminListProviderInstances providerName p)"
  "admin_command (parseAdminListProviderInstance providerName p)"
  "admin_command (parseAdminListProviderModels providerName p)"
  "admin_command (parseAdminListProviders p)"
  "admin_command (parseAdminListModels p)"
  "admin_command (parseAdminListUserIngestionTasks userName p)"
  "admin_command (parseAdminListUserProviderInstanceModels userName p)"
  "admin_command (parseAdminListUserLogs userName p)"
  "admin_command (parseAdminListUserDefaultModels userName p)"
  "admin_command (parseAdminListIngestors p)"
  "admin_command (parseAdminListIngestionTasks p)"
  "admin_command (parseAdminListAPIServers p)"
  "admin_command (parseAdminShowService p)"
  by (simp_all add: parseAddAPIServer_def parseAddAdminServer_def parseAPIDeleteAdminServer_def
      parseAPIDeleteAPIServer_def parseAdminLoginUser_def parseAdminLogout_def
      parseAdminPingServer_def parseAdminLiveServer_def parseAdminHealthServer_def
      parseAdminListServices_def parseAdminListUsersCommand_def parseAdminListRoles_def
      parseAdminListResources_def parseAdminListVariables_def parseAdminListConfigs_def
      parseAdminListEnvironments_def parseAdminListAvailableProviders_def
      parseAdminListProviderInstances_def parseAdminListProviderInstance_def
      parseAdminListProviderModels_def parseAdminListProviders_def
      parseAdminListModels_def parseAdminListUserIngestionTasks_def
      parseAdminListUserProviderInstanceModels_def parseAdminListUserLogs_def
      parseAdminListUserDefaultModels_def parseAdminListIngestors_def
      parseAdminListIngestionTasks_def parseAdminListAPIServers_def
      parseAdminShowService_def)

lemma admin_methods_1b [simp]:
  "admin_command (parseAdminShowActivityCommand userName p)"
  "admin_command (parseAdminShowUserSummaryCommand userName p)"
  "admin_command (parseAdminShowUserDataSetCommand userName p)"
  "admin_command (parseAdminShowUserStorageCommand userName p)"
  "admin_command (parseAdminShowUserQuotaCommand userName p)"
  "admin_command (parseAdminShowUserIndexCommand userName p)"
  "admin_command (parseAdminShowUserPermissionCommand userName p)"
  "admin_command (parseAdminShowUser userName p)"
  "admin_command (parseAdminShowRole p)"
  "admin_command (parseAdminShowVersion p)"
  "admin_command (parseAdminShowVariable p)"
  "admin_command (parseAdminShowCurrent p)"
  "admin_command (parseAdminShowFingerprint p)"
  "admin_command (parseAdminShowSoftFingerprint p)"
  "admin_command (parseAdminShowLicense p)"
  "admin_command (parseAdminShowProviderInstanceBalance providerName instanceName p)"
  "admin_command (parseAdminShowProviderModel providerName p)"
  "admin_command (parseAdminShowModel p)"
  "admin_command (parseAdminShowAdminServer p)"
  "admin_command (parseAdminShowAPI p)"
  "admin_command (parseAdminShowUsersActivity p)"
  "admin_command (parseAdminShowUsersPlan p)"
  "admin_command (parseAdminShowData p)"
  "admin_command (parseAdminShowQuota p)"
  "admin_command (parseAdminShowTasks p)"
  "admin_command (parseAdminShowLogLevel p)"
  "admin_command (parseAdminStatsUser p)"
  "admin_command (parseAdminStatsUsers p)"
  "admin_command (parseAdminStatsSummary p)"
  "admin_command (parseAdminCheckLicense p)"
  by (simp_all add: parseAdminShowActivityCommand_def parseAdminShowUserSummaryCommand_def
      parseAdminShowUserDataSetCommand_def parseAdminShowUserStorageCommand_def
      parseAdminShowUserQuotaCommand_def parseAdminShowUserIndexCommand_def
      parseAdminShowUserPermissionCommand_def parseAdminShowUser_def
      parseAdminShowRole_def parseAdminShowVersion_def parseAdminShowVariable_def
      parseAdminShowCurrent_def parseAdminShowFingerprint_def
      parseAdminShowSoftFingerprint_def parseAdminShowLicense_def
      parseAdminShowProviderInstanceBalance_def parseAdminShowProviderModel_def
      parseAdminShowModel_def parseAdminShowAdminServer_def parseAdminShowAPI_def
      parseAdminShowUsersActivity_def parseAdminShowUsersPlan_def parseAdminShowData_def
      parseAdminShowQuota_def parseAdminShowTasks_def parseAdminShowLogLevel_def
      parseAdminStatsUser_def parseAdminStatsUsers_def parseAdminStatsSummary_def
      parseAdminCheckLicense_def)

lemma admin_methods_1c [simp]:
  "admin_command (parseAdminCheckProviderInstance providerName p)"
  "admin_command (parseAdminStopUserCommand p)"
  "admin_command (parseAdminRemoveIngestionTasks p)"
  "admin_command (parseAdminCreateUserAPIKeyCommand userName p)"
  "admin_command (parseAdminCreateRole p)"
  "admin_command (parseAdminDropUserAPIKey userName p)"
  "admin_command (parseAdminDropRole p)"
  "admin_command (parseAdminActivateUser p)"
  "admin_command (parseAdminAlterRole p)"
  "admin_command (parseAdminAlterProvider p)"
  "admin_command (parseAdminGrantAdmin p)"
  "admin_command (parseAdminGrantPermission p)"
  "admin_command (parseAdminRevokeAdmin p)"
  "admin_command (parseAdminRevokePermission p)"
  "admin_command (parseAdminSetLicense p)"
  "admin_command (parseAdminSetSoftFingerprint p)"
  "admin_command (parseAdminSetVariable p)"
  "admin_command (parseAdminSetRoleDefaultModel p)"
  "admin_command (parseAdminSetLogLevel p)"
  "admin_command (parseAdminResetCommand p)"
  "admin_command (parseAdminStartService p)"
  "admin_command (parseAdminShutdownService p)"
  "admin_command (parseAdminShutdownIngestor p)"
  "admin_command (parseAdminRestart p)"
  "admin_command (parseAdminAddModel providerName instanceName p)"
  "admin_command (parseAdminDeleteModel providerName instanceName p)"
  "admin_command (parseAdminDeleteSoftFingerprint p)"
  "admin_command (parseAdminEnableModel p)"
  "admin_command (parseAdminDisableModel p)"
  "admin_command (parseAdminSaveConfig p)"
  by (simp_all add: parseAdminCheckProviderInstance_def parseAdminStopUserCommand_def
      parseAdminRemoveIngestionTasks_def parseAdminCreateUserAPIKeyCommand_def
      parseAdminCreateRole_def parseAdminDropUserAPIKey_def parseAdminDropRole_def
      parseAdminActivateUser_def parseAdminAlterRole_def parseAdminAlterProvider_def
      parseAdminGrantAdmin_def parseAdminGrantPermission_def parseAdminRevokeAdmin_def
      parseAdminRevokePermission_def parseAdminSetLicense_def
      parseAdminSetSoftFingerprint_def parseAdminSetVariable_def
      parseAdminSetRoleDefaultModel_def parseAdminSetLogLevel_def
      parseAdminResetCommand_def parseAdminStartService_def parseAdminShutdownService_def
      parseAdminShutdownIngestor_def parseAdminRestart_def parseAdminAddModel_def
      parseAdminDeleteModel_def parseAdminDeleteSoftFingerprint_def
      parseAdminEnableModel_def parseAdminDisableModel_def parseAdminSaveConfig_def)

lemma admin_methods_1d [simp]:
  "admin_command (parseAdminUseAPIServer p)"
  "admin_command (parseAdminUseAdminServer p)"
  "admin_command (parseMessageQueueCommand p)"
  "admin_command (parseAdminRemoveUserCommand p)"
  "admin_command (parseAdminPurgeOrphanCommand preview p)"
  "admin_command (parseAdminPurgeUserCommand preview p)"
  "admin_command (parseAdminPurgeUsersCommand preview p)"
  by (simp_all add: parseAdminUseAPIServer_def parseAdminUseAdminServer_def parseMessageQueueCommand_def
      parseAdminRemoveUserCommand_def parseAdminPurgeOrphanCommand_def
      parseAdminPurgeUserCommand_def parseAdminPurgeUsersCommand_def)

lemma admin_methods_2 [simp]:
  "admin_command (parseAdminListProviderCommands p)"
  "admin_command (parseAdminListUserCommand p)"
  "admin_command (parseAdminShowUserCommands p)"
  "admin_command (parseAdminShowProviderInstance providerName p)"
  "admin_command (parseAdminShowUsersCommands p)"
  "admin_command (parseAdminShowLogCommands p)"
  "admin_command (parseAdminStatsCommands p)"
  "admin_command (parseAdminCheckProvider p)"
  "admin_command (parseAdminStopIngestionTasks p)"
  "admin_command (parseAdminCreateUser p)"
  "admin_command (parseAdminDropUser p)"
  "admin_command (parseAdminAlterUser p)"
  "admin_command (parseAdminGrantCommands p)"
  "admin_command (parseAdminRevokeCommands p)"
  "admin_command (parseAdminSetLog p)"
  "admin_command (parseAdminShutdownCommands p)"
  "admin_command (parseAdminAddModelInstance providerName p)"
  "admin_command (parseAdminDeleteModelInstance providerName p)"
  "admin_command (parseAdminEnableCommand p)"
  "admin_command (parseAdminDisableCommand p)"
  "admin_command (parseAdminSaveCommand p)"
  "admin_command (parseAdminUseCommand p)"
  "admin_command (parseAdminRemoveCommands p)"
  "admin_command (parseAdminPurgeCommand p)"
  by (simp_all add: parseAdminListProviderCommands_def parseAdminListUserCommand_def
      parseAdminShowUserCommands_def parseAdminShowProviderInstance_def
      parseAdminShowUsersCommands_def parseAdminShowLogCommands_def
      parseAdminStatsCommands_def parseAdminCheckProvider_def
      parseAdminStopIngestionTasks_def parseAdminCreateUser_def parseAdminDropUser_def
      parseAdminAlterUser_def parseAdminGrantCommands_def parseAdminRevokeCommands_def
      parseAdminSetLog_def parseAdminShutdownCommands_def parseAdminAddModelInstance_def
      parseAdminDeleteModelInstance_def parseAdminEnableCommand_def
      parseAdminDisableCommand_def parseAdminSaveCommand_def parseAdminUseCommand_def
      parseAdminRemoveCommands_def parseAdminPurgeCommand_def)

lemma admin_methods_3 [simp]:
  "admin_command (parseAdminListCommands p)"
  "admin_command (parseAdminShowProvider p)"
  "admin_command (parseAdminCheck p)"
  "admin_command (parseAdminCreateCommand p)"
  "admin_command (parseAdminDropCommands p)"
  "admin_command (parseAdminAlterCommands p)"
  "admin_command (parseAdminSetCommand p)"
  "admin_command (parseAdminAddModelProvider p)"
  "admin_command (parseAdminDeleteProvider p)"
  by (simp_all add: parseAdminListCommands_def parseAdminShowProvider_def parseAdminCheck_def
      parseAdminCreateCommand_def parseAdminDropCommands_def parseAdminAlterCommands_def
      parseAdminSetCommand_def parseAdminAddModelProvider_def parseAdminDeleteProvider_def)

lemma admin_methods_4 [simp]:
  "admin_command (parseAdminShowCommands p)"
  "admin_command (parseAdminAddCommand p)"
  "admin_command (parseAdminDeleteCommands p)"
  by (simp_all add: parseAdminShowCommands_def parseAdminAddCommand_def parseAdminDeleteCommands_def)

lemma admin_methods_5 [simp]:
  "admin_command (parseAdminBenchmarkCommand p)"
  by (simp_all add: parseAdminBenchmarkCommand_def)

end
