(* ===== verification/Cli_Props.thy ===== *)
theory Cli_Props
  imports Cli_Parser_Lemmas
begin

text \<open>
  The properties of the command line client: every line is parsed to an end, every parsed command
  has a case in the dispatch of its mode up to six types, printed tokens are read back, and the
  configurations of \<open>ADD MODEL\<close> match the names they were given for.
\<close>

subsection \<open>Parsing returns, and what it returns is dispatched\<close>

lemma parseUserCommand_api [simp]: "returns_with (\<lambda>c p. api_known (Cmd_Type c)) (parseUserCommand j p)"
  by (simp add: parseUserCommand_def parseFileSystemCommands_def)

lemma parseAdminCommand_admin [simp]: "returns_with (\<lambda>c p. admin_known (Cmd_Type c)) (parseAdminCommand p)"
  by (simp add: parseAdminCommand_def)

definition mode_known :: "CommandLineMode \<Rightarrow> string \<Rightarrow> bool" where
  "mode_known m t = (case m of APIMode \<Rightarrow> api_known t | AdminMode \<Rightarrow> admin_known t | OtherMode _ \<Rightarrow> False)"

lemma parseCommand_mode: "returns_with (\<lambda>c p. mode_known m (Cmd_Type c)) (parseCommand j m p)"
  by (cases m) (simp_all add: parseCommand_def mode_known_def)

lemma meta_steps: "steps (\<lambda>_ _. True) (\<lambda>_. True) parseMetaCommand_body"
  unfolding steps_def parseMetaCommand_body_def by (auto simp: move_simps)

definition meta_command :: "Command \<Rightarrow> bool" where
  "meta_command c = (Cmd_Type c = ''meta'' \<and> (\<exists>w. Cmd_Params c ''command'' = Some (CStr w)))"

lemma parseMetaCommand_meta: "returns_with (\<lambda>c p. meta_command c) (parseMetaCommand p)"
  unfolding parseMetaCommand_def Let_def
  by (simp add: steps_any [OF meta_steps] meta_command_def)

lemma Parse_wp:
  "returns_with (\<lambda>r p. \<forall>c. r = Some c \<longrightarrow> meta_command c \<or> mode_known m (Cmd_Type c)) (Parse j m p)"
proof -
  have "returns_with (\<lambda>c p. meta_command c \<or> mode_known m (Cmd_Type c)) (parseMetaCommand q)" for q
    by (rule wp_mono [OF parseMetaCommand_meta]) simp
  moreover have "returns_with (\<lambda>c p. meta_command c \<or> mode_known m (Cmd_Type c)) (parseCommand j m q)" for q
    by (rule wp_mono [OF parseCommand_mode]) simp
  ultimately show ?thesis by (simp add: Parse_def)
qed

lemma Parse_Some:
  "Parse j m p = POk (Some c) q \<Longrightarrow> meta_command c \<or> mode_known m (Cmd_Type c)"
  using Parse_wp [of m j p] by (simp add: returns_with_def)

lemma meta_not_ok: "\<not> api_known ''meta''" "\<not> admin_known ''meta''"
  by code_simp+

lemma user_handlers_Inr:
  assumes "user_handler t = Some r"
  shows "\<exists>h. r = Inr h"
proof -
  have "list_all (\<lambda>x. \<not> isl (snd x)) user_handlers" by (simp add: user_handlers_def)
  moreover have "(t, r) \<in> set user_handlers" using assms unfolding user_handler_def by (rule map_of_SomeD)
  ultimately have "\<not> isl r" by (auto simp: list_all_iff)
  then show ?thesis by (cases r) auto
qed

text \<open>
  C12: Every line of input is dealt with: whatever the line, the mode and the JSON library, the lexer
  and the parsers come to an end (no loop ever goes round without consuming a token), and the type
  assertion on a meta command never panics.
\<close>

theorem line_never_stuck: "execute jsonErr m line \<noteq> Stuck \<and> execute jsonErr m line \<noteq> Panicked"
proof -
  have "Parse jsonErr m (NewParser line) \<noteq> PHang"
    using Parse_wp [of m jsonErr "NewParser line"] by (auto simp: returns_with_def)
  moreover have "handleMetaCommand c \<noteq> Panicked \<and> handleMetaCommand c \<noteq> Stuck"
    if "Parse jsonErr m (NewParser line) = POk (Some c) q" and "Cmd_Type c = ''meta''" for c q
  proof -
    have "meta_command c"
      using Parse_Some [OF that(1)] that(2) meta_not_ok
      by (auto simp: mode_known_def split: CommandLineMode.splits)
    then show ?thesis by (auto simp: meta_command_def handleMetaCommand_def split: if_splits)
  qed
  ultimately show ?thesis
    by (auto simp: execute_def split: res.splits option.splits sum.splits)
qed

text \<open>
  C13: Parser and dispatch agree: a command parsed in the API mode is a meta command, or the switch of
  \<open>ExecuteUserCommand\<close> calls a handler for it, or its type is one of the five in \<open>api_unhandled\<close>; in
  the admin mode the switch of \<open>ExecuteAdminCommand\<close> has a case for it, or it is \<open>alter_user_role\<close>.
\<close>

theorem commands_dispatched:
  assumes "Parse jsonErr m (NewParser line) = POk (Some cmd) p" and "Cmd_Type cmd \<noteq> ''meta''"
  shows "(m = APIMode \<longrightarrow> (\<exists>handler. ExecuteCommand m cmd = Inr handler) \<or>
      Cmd_Type cmd \<in> {''api_create_provider_instance'', ''ce_search'', ''import_docs_into_dataset'',
        ''parse_dataset'', ''reset_default_model''}) \<and>
    (m = AdminMode \<longrightarrow> admin_handler (Cmd_Type cmd) \<noteq> None \<or> Cmd_Type cmd = ''alter_user_role'') \<and>
    (m = APIMode \<or> m = AdminMode)"
proof -
  have "mode_known m (Cmd_Type cmd)"
    using Parse_Some [OF assms(1)] assms(2) by (auto simp: meta_command_def)
  moreover have "\<exists>handler. ExecuteCommand APIMode cmd = Inr handler"
    if "user_handler (Cmd_Type cmd) \<noteq> None"
    using that user_handlers_Inr
    by (auto simp: ExecuteCommand_def ExecuteUserCommand_def dispatch_to_def)
  ultimately show ?thesis
    by (auto simp: mode_known_def api_known_def admin_known_def api_unhandled_def admin_unhandled_def
        split: CommandLineMode.splits)
qed

text \<open>Reading the result of \<open>Parse\<close> on a concrete line.\<close>

definition parsed_type :: "Command option res \<Rightarrow> string option" where
  "parsed_type r = (case r of POk (Some c) _ \<Rightarrow> Some (Cmd_Type c) | _ \<Rightarrow> None)"

lemma parsed_typeE:
  assumes "parsed_type r = Some t"
  obtains c p where "r = POk (Some c) p" and "Cmd_Type c = t"
  using assms by (auto simp: parsed_type_def split: res.splits option.splits)

theorem commands_dispatched_witness:
  "\<exists>cmd p handler. Parse (\<lambda>_. None) APIMode (NewParser ''LIST datasets;'') = POk (Some cmd) p \<and>
    Cmd_Type cmd = ''api_list_datasets'' \<and> ExecuteCommand APIMode cmd = Inr handler"
proof -
  have "parsed_type (Parse (\<lambda>_. None) APIMode (NewParser ''LIST datasets;'')) = Some ''api_list_datasets''"
    by code_simp
  then obtain c p where c: "Parse (\<lambda>_. None) APIMode (NewParser ''LIST datasets;'') = POk (Some c) p"
      and t: "Cmd_Type c = ''api_list_datasets''"
    by (rule parsed_typeE)
  have "\<exists>handler. ExecuteCommand APIMode c = Inr handler"
    using commands_dispatched [OF c] t by simp
  then show ?thesis using c t by blast
qed

text \<open>
  The five types without a handler are all typed by users: each of these lines parses in the API mode
  and then fails with the error of the dispatch. In the admin mode the same happens to
  \<open>ALTER USER ... SET ROLE\<close>.
\<close>

definition undispatched :: "CommandLineMode \<Rightarrow> string \<Rightarrow> string \<Rightarrow> bool" where
  "undispatched m line t =
    (execute (\<lambda>_. None) m line = Failed (Errf (''command '' @ bytes [39, 37, 115, 39] @
       '' would be executed with API'') [Txt t]))"

definition fails_with :: "line_effect \<Rightarrow> fmsg \<Rightarrow> bool" where
  "fails_with r e = (case r of Failed e' \<Rightarrow> e' = e | _ \<Rightarrow> False)"

lemma undispatchedI:
  "fails_with (execute (\<lambda>_. None) m line) (Errf (''command '' @ bytes [39, 37, 115, 39] @
     '' would be executed with API'') [Txt t]) \<Longrightarrow> undispatched m line t"
  by (auto simp: fails_with_def undispatched_def split: line_effect.splits)

theorem commands_without_handler:
  "undispatched APIMode ''reset default chat model;'' ''reset_default_model'' \<and>
   undispatched APIMode ''retrieve 'x' docs'' ''ce_search'' \<and>
   undispatched APIMode ''import 'a.pdf' into dataset 'd';'' ''import_docs_into_dataset'' \<and>
   undispatched APIMode ''parse dataset 'd' sync;'' ''parse_dataset'' \<and>
   undispatched APIMode ''create provider 'p' instance 'i' key 'k';'' ''api_create_provider_instance'' \<and>
   undispatched AdminMode ''alter user 'u' set role dev;'' ''alter_user_role''"
  by (intro conjI undispatchedI; code_simp)

subsection \<open>Printed tokens are read back\<close>

function tokens_of :: "Lexer \<Rightarrow> Token list" where
  "tokens_of l =
    (if Tok_Type (fst (NextToken l)) = TokenEOF then []
     else fst (NextToken l) # tokens_of (snd (NextToken l)))"
  by pat_completeness auto
termination by (relation "measure lexer_left") (auto simp: NextToken_left)

declare tokens_of.simps [simp del]

definition tokenText :: "Token \<Rightarrow> string" where
  "tokenText t = (if Tok_Type t = TokenQuotedString then CHR 0x22 # Tok_Value t @ [CHR 0x22]
     else Tok_Value t)"

definition printable_word :: "Token \<Rightarrow> bool" where
  "printable_word t =
    (list_all isIdentChar (Tok_Value t) \<and>
     (case Tok_Value t of [] \<Rightarrow> False | c # _ \<Rightarrow> isLetter c \<or> c = CHR ''_'') \<and>
     ToUpper (Tok_Value t) \<noteq> ''CHUNK'' \<and>
     Tok_Type t = (case keywordType (ToUpper (Tok_Value t)) of
       Some k \<Rightarrow> k | None \<Rightarrow> TokenIdentifier))"

definition printable_number :: "Token \<Rightarrow> bool" where
  "printable_number t =
    (let whole = takeWhile isDigit (Tok_Value t); r = dropWhile isDigit (Tok_Value t)
     in whole \<noteq> [] \<and>
        (Tok_Type t = TokenInteger \<and> r = [] \<or>
         Tok_Type t = TokenFloat \<and>
           (case r of d # f # fs \<Rightarrow> d = CHR ''.'' \<and> list_all isDigit (f # fs) | _ \<Rightarrow> False)))"

definition printable :: "Token \<Rightarrow> bool" where
  "printable t =
    (if Tok_Type t = TokenQuotedString
     then CHR 0x22 \<notin> set (Tok_Value t) \<and> CHR 0x00 \<notin> set (Tok_Value t)
     else if Tok_Type t \<in> set [TokenInteger, TokenFloat] then printable_number t
     else (case Tok_Value t of [c] \<Rightarrow> map_of single_tokens c = Some (Tok_Type t) | _ \<Rightarrow> False) \<or>
       printable_word t)"

lemma mkToken_eta: "mkToken (Tok_Type t) (Tok_Value t) = t"
  by (simp add: mkToken_def)

lemma takeWhile_stop: "list_all P xs \<Longrightarrow> \<not> P y \<Longrightarrow> takeWhile P (xs @ y # ys) = xs"
  and dropWhile_stop: "list_all P xs \<Longrightarrow> \<not> P y \<Longrightarrow> dropWhile P (xs @ y # ys) = y # ys"
  by (auto simp: list_all_iff takeWhile_append dropWhile_append)

lemma blank_props [simp]:
  "isBlank (CHR '' '')" "\<not> isIdentChar (CHR '' '')" "\<not> isDigit (CHR '' '')" "\<not> isLetter (CHR '' '')"
  "\<not> isDigit (CHR ''.'')"
  by (simp_all add: isBlank_def isIdentChar_def isDigit_def isLetter_def)

definition special_chars :: "char list" where
  "special_chars = [CHR '' '', CHR 0x09, CHR 0x0A, CHR 0x0D, CHR '';'', CHR '','', CHR ''/'', CHR ''-'',
    CHR ''['', CHR '']'', CHR 0x27, CHR 0x22, CHR 0x5C, CHR 0x00]"

lemma special_chars_only:
  "list_all (\<lambda>c. \<not> isLetter c \<and> \<not> isDigit c \<and> c \<noteq> CHR ''_'') special_chars" by code_simp

lemma not_special:
  "c \<notin> set special_chars \<Longrightarrow> \<not> isBlank c \<and> map_of single_tokens c = None \<and> c \<noteq> CHR 0x27 \<and>
    c \<noteq> CHR 0x22 \<and> c \<noteq> CHR 0x5C \<and> c \<noteq> CHR 0x00"
  by (simp add: special_chars_def isBlank_def single_tokens_def)

lemma letter_not:
  "isLetter c \<or> c = CHR ''_'' \<Longrightarrow> \<not> isBlank c \<and> map_of single_tokens c = None \<and> c \<noteq> CHR 0x27 \<and>
    c \<noteq> CHR 0x22 \<and> c \<noteq> CHR 0x5C \<and> c \<noteq> CHR 0x00"
  using special_chars_only by (intro not_special) (auto simp: list_all_iff)

lemma digit_not_letter: "isDigit c \<Longrightarrow> \<not> isLetter c \<and> c \<noteq> CHR ''_''"
  by (auto simp: isLetter_def isDigit_def Let_def)

lemma digit_not:
  "isDigit c \<Longrightarrow> \<not> isBlank c \<and> map_of single_tokens c = None \<and> c \<noteq> CHR 0x27 \<and>
    c \<noteq> CHR 0x22 \<and> c \<noteq> CHR 0x5C \<and> c \<noteq> CHR 0x00"
  using special_chars_only by (intro not_special) (auto simp: list_all_iff)

lemma lex_word_back:
  assumes "printable_word t"
  shows "lex_rest (Tok_Value t @ CHR '' '' # r) = (t, CHR '' '' # r)"
proof -
  obtain c cs where v: "Tok_Value t = c # cs" and c: "isLetter c \<or> c = CHR ''_''"
    using assms by (auto simp: printable_word_def split: list.splits)
  have l: "list_all isIdentChar (Tok_Value t)" using assms by (simp add: printable_word_def)
  have "lex_rest (Tok_Value t @ CHR '' '' # r) = lex_word (Tok_Value t @ CHR '' '' # r)"
    using letter_not [OF c] c by (simp add: v lex_rest_def)
  also have "\<dots> = (t, CHR '' '' # r)"
    using assms mkToken_eta [of t]
    by (auto simp: lex_word_def Let_def takeWhile_stop [OF l] dropWhile_stop [OF l]
        printable_word_def split: option.splits)
  finally show ?thesis .
qed

lemma lex_number_back:
  assumes "printable_number t"
  shows "lex_rest (Tok_Value t @ CHR '' '' # r) = (t, CHR '' '' # r)"
proof -
  obtain c cs where v: "Tok_Value t = c # cs" and c: "isDigit c"
    using assms by (cases "Tok_Value t") (auto simp: printable_number_def Let_def split: if_splits)
  have "lex_rest (Tok_Value t @ CHR '' '' # r) = lex_number (Tok_Value t @ CHR '' '' # r)"
    using digit_not [OF c] digit_not_letter [OF c] c by (simp add: v lex_rest_def)
  also have "\<dots> = (t, CHR '' '' # r)"
  proof (cases "dropWhile isDigit (Tok_Value t)")
    case Nil
    then have l: "list_all isDigit (Tok_Value t)" by (simp add: list_all_iff)
    have ty: "Tok_Type t = TokenInteger" using assms Nil by (simp add: printable_number_def Let_def)
    show ?thesis using mkToken_eta [of t]
      by (auto simp: lex_number_def Let_def takeWhile_stop [OF l] dropWhile_stop [OF l] ty
          split: list.splits)
  next
    case (Cons d ds)
    let ?w = "takeWhile isDigit (Tok_Value t)"
    obtain f fs where ds: "ds = f # fs" and d: "d = CHR ''.''" and l: "list_all isDigit (f # fs)"
      and ty: "Tok_Type t = TokenFloat"
      using assms Cons by (auto simp: printable_number_def Let_def split: list.splits)
    have w: "list_all isDigit ?w" by (auto simp: list_all_iff dest: set_takeWhileD)
    have e: "Tok_Value t @ CHR '' '' # r = ?w @ CHR ''.'' # f # fs @ CHR '' '' # r"
      using takeWhile_dropWhile_id [of isDigit "Tok_Value t"] Cons ds d by (metis append.assoc append_Cons)
    have "isDigit f" using l by simp
    moreover have "?w @ CHR ''.'' # f # fs = Tok_Value t"
      using takeWhile_dropWhile_id [of isDigit "Tok_Value t"] Cons ds d by simp
    ultimately show ?thesis
      unfolding e lex_number_def Let_def
      using takeWhile_stop [OF w, of "CHR ''.''"] dropWhile_stop [OF w, of "CHR ''.''"]
        takeWhile_stop [OF l, of "CHR '' ''" r] dropWhile_stop [OF l, of "CHR '' ''" r]
        mkToken_eta [of t] ty by simp
  qed
  finally show ?thesis .
qed

lemma lex_quoted_back:
  assumes "Tok_Type t = TokenQuotedString" and "CHR 0x22 \<notin> set (Tok_Value t)" and "CHR 0x00 \<notin> set (Tok_Value t)"
  shows "lex_rest (tokenText t @ r) = (t, r)"
proof -
  let ?P = "\<lambda>c. c \<noteq> CHR 0x22 \<and> c \<noteq> CHR 0x00"
  have l: "list_all ?P (Tok_Value t)" using assms by (auto simp: list_all_iff)
  have "lex_rest (tokenText t @ r) = lex_quoted (CHR 0x22) (Tok_Value t @ CHR 0x22 # r)"
    using assms(1) by (simp add: tokenText_def lex_rest_def isBlank_def single_tokens_def)
  also have "\<dots> = (t, r)"
    using takeWhile_stop [OF l, of "CHR 0x22" r] dropWhile_stop [OF l, of "CHR 0x22" r]
      mkToken_eta [of t] assms(1) by (simp add: lex_quoted_def)
  finally show ?thesis .
qed

lemma lex_single_back:
  assumes "Tok_Value t = [c]" and "map_of single_tokens c = Some (Tok_Type t)"
  shows "lex_rest (Tok_Value t @ r) = (t, r)"
proof -
  have "\<not> isBlank c \<and> newToken (Tok_Type t) c = t"
    using assms mkToken_eta [of t]
    by (auto simp: single_tokens_def isBlank_def newToken_def split: if_splits)
  then show ?thesis using assms by (simp add: lex_rest_def)
qed

lemma lex_token_back:
  assumes "printable t"
  shows "lex_rest (tokenText t @ CHR '' '' # r) = (t, CHR '' '' # r)"
proof (cases "Tok_Type t = TokenQuotedString")
  case True
  then show ?thesis using assms lex_quoted_back [of t "CHR '' '' # r"] by (simp add: printable_def)
next
  case False
  then have "tokenText t = Tok_Value t" by (simp add: tokenText_def)
  moreover from False assms consider (num) "printable_number t" | (word) "printable_word t"
    | (single) c where "Tok_Value t = [c]" "map_of single_tokens c = Some (Tok_Type t)"
    by (auto simp: printable_def split: if_splits list.splits)
  then have "lex_rest (Tok_Value t @ CHR '' '' # r) = (t, CHR '' '' # r)"
    by cases (fact lex_number_back lex_word_back lex_single_back)+
  ultimately show ?thesis by simp
qed

lemma keyword_not_EOF: "keywordType s = Some t \<Longrightarrow> t \<noteq> TokenEOF"
proof -
  have "list_all (\<lambda>x. snd x \<noteq> TokenEOF) keyword_table" by (simp add: keyword_table_def)
  then show "keywordType s = Some t \<Longrightarrow> t \<noteq> TokenEOF"
    by (auto dest!: map_of_SomeD simp: list_all_iff keywordType_def)
qed

lemma printable_not_EOF: "printable t \<Longrightarrow> Tok_Type t \<noteq> TokenEOF"
  using keyword_not_EOF
  by (auto simp: printable_def printable_word_def single_tokens_def split: if_splits list.splits option.splits)

lemma lex_rest_blank: "lex_rest (CHR '' '' # s) = lex_rest s"
  by (simp add: lex_rest_def)

definition printTokens :: "Token list \<Rightarrow> string" where
  "printTokens ts = concat (map (\<lambda>t. tokenText t @ '' '') ts)"

lemma tokens_of_back:
  assumes "list_all printable ts" and "lex_ok l"
    and "unread l = printTokens ts \<or> unread l = CHR '' '' # printTokens ts"
  shows "tokens_of l = ts"
  using assms
proof (induction ts arbitrary: l)
  case Nil
  then have "lex_rest (unread l) = (mkToken TokenEOF [], [])"
    by (auto simp: printTokens_def lex_rest_def)
  then show ?case using NextToken_refines [OF Nil(2)] by (simp add: tokens_of.simps [of l])
next
  case (Cons t ts)
  have "lex_rest (unread l) = (t, CHR '' '' # printTokens ts)"
    using Cons.prems lex_token_back [of t "printTokens ts"]
    by (auto simp: printTokens_def lex_rest_blank)
  then have n: "fst (NextToken l) = t" "lex_ok (snd (NextToken l))"
      "unread (snd (NextToken l)) = CHR '' '' # printTokens ts"
    using NextToken_refines [OF Cons.prems(2)] by simp_all
  then have "tokens_of (snd (NextToken l)) = ts" using Cons by simp
  then show ?case using n(1) printable_not_EOF [of t] Cons.prems(1) by (simp add: tokens_of.simps [of l])
qed

text \<open>
  C15: Printing and lexing are inverse: a list of tokens that can be printed (keywords and identifiers
  other than \<open>CHUNK\<close>, numbers, quoted strings without a double quote, punctuation), written with a
  blank after each, is read back by the lexer as exactly that list.
\<close>

theorem lexer_roundtrip:
  assumes "list_all printable ts"
  shows "tokens_of (NewLexer (printTokens ts)) = ts"
  by (rule tokens_of_back [OF assms NewLexer_ok]) (simp add: NewLexer_unread)

theorem lexer_roundtrip_witness:
  "tokens_of (NewLexer (printTokens
     [mkToken TokenList ''List'', mkToken TokenQuotedString ''a b'', mkToken TokenFloat ''0.25'',
      mkToken TokenIdentifier ''x-1'', mkToken TokenSemicolon '';''])) =
     [mkToken TokenList ''List'', mkToken TokenQuotedString ''a b'', mkToken TokenFloat ''0.25'',
      mkToken TokenIdentifier ''x-1'', mkToken TokenSemicolon '';'']"
  by (rule lexer_roundtrip) code_simp

text \<open>
  \<open>CHUNK\<close> is left out because of \<open>peekToken\<close>, which starts after the current byte without looking at
  it: the words of \<open>chunk;store\<close> are joined across the semicolon, and \<open>store\<close> is read a second time.
  A quoted string that is never closed is accepted.
\<close>

theorem chunk_store_joined:
  "tokens_of (NewLexer ''chunk;store'') =
     [mkToken TokenChunkStore ''CHUNK STORE'', mkToken TokenSemicolon '';'', mkToken TokenStore ''store'']"
  by code_simp

theorem open_quote_accepted:
  "tokens_of (NewLexer (''show var '' @ bytes [39, 97, 98])) =
     [mkToken TokenShow ''show'', mkToken TokenVar ''var'', mkToken TokenQuotedString ''ab'']"
  by code_simp

subsection \<open>The configurations of ADD MODEL\<close>

lemma find_duplicate_None:
  "find_duplicate seen xs = None \<Longrightarrow> distinct xs \<and> set xs \<inter> set seen = {}"
  by (induction seen xs rule: find_duplicate.induct) (auto split: if_splits)

lemma parseModelNames_Inr: "parseModelNames raw = Inr names \<Longrightarrow> names \<noteq> [] \<and> distinct names"
  using find_duplicate_None [of "[]" "string_fields raw"]
  by (auto simp: parseModelNames_def Let_def split: if_splits option.splits)

lemma dedup_types_distinct: "distinct acc \<Longrightarrow> distinct (dedup_types acc ts)"
  by (induction acc ts rule: dedup_types.induct) (auto simp: Let_def)

definition model_for :: "string \<Rightarrow> (string \<Rightarrow> cval option) \<Rightarrow> bool" where
  "model_for n m = (m ''model_name'' = Some (CStr n) \<and>
    (case m ''model_types'' of Some (CStrs ts) \<Rightarrow> ts \<noteq> [] \<and> distinct ts | _ \<Rightarrow> False))"

lemma finishModel_Inr:
  assumes "finishModel n c = Inr c'"
  shows "mc_index c' = Suc (mc_index c) \<and> mc_models c' = mc_models c @ [last (mc_models c')] \<and>
    model_for n (last (mc_models c'))"
  using assms dedup_types_distinct [of "[]" "mc_types c"]
  by (auto simp: finishModel_def Let_def model_for_def split: if_splits option.splits)

definition configs_for :: "string list \<Rightarrow> model_config \<Rightarrow> bool" where
  "configs_for names c = (mc_index c = length (mc_models c) \<and> length (mc_models c) \<le> length names \<and>
    list_all2 model_for (take (length (mc_models c)) names) (mc_models c))"

lemma configs_for_update [simp]:
  "configs_for names (c\<lparr>mc_types := x\<rparr>) = configs_for names c"
  "configs_for names (c\<lparr>mc_think := y\<rparr>) = configs_for names c"
  "configs_for names (c\<lparr>mc_tokens := z\<rparr>) = configs_for names c"
  "configs_for names (c\<lparr>mc_maxDim := v\<rparr>) = configs_for names c"
  "configs_for names (c\<lparr>mc_dims := w\<rparr>) = configs_for names c"
  by (simp_all add: configs_for_def)

lemma configs_for_finish:
  assumes "configs_for names c" and "mc_index c < length names"
    and "finishModel (names ! mc_index c) c = Inr c'"
  shows "configs_for names c'"
proof -
  obtain m where "mc_models c' = mc_models c @ [m]" and "model_for (names ! mc_index c) m"
      and "mc_index c' = Suc (mc_index c)"
    using finishModel_Inr [OF assms(3)] by metis
  then show ?thesis using assms(1,2)
    by (auto simp: configs_for_def take_Suc_conv_app_nth list_all2_appendI)
qed

lemma add_model_steps: "steps (\<lambda>c _. configs_for names c) (configs_for names) (parseAPIAddModel_body names)"
  unfolding steps_def parseAPIAddModel_body_def
  by (auto simp: move_simps Let_def not_le configs_for_finish dest: parseNumber_Inr)

lemma add_model_loop:
  assumes "configs_for names c" and "\<And>c' p'. configs_for names c' \<Longrightarrow> Q c' p'"
  shows "returns_with Q (ploop (parseAPIAddModel_body names) c p)"
  by (rule wp_mono [OF steps_ploop [OF add_model_steps, of names c p]]) (use assms in auto)

lemma configs_for_start:
  "configs_for names \<lparr>mc_index = 0, mc_types = [], mc_think = None, mc_tokens = 0, mc_maxDim = None,
    mc_dims = [], mc_models = []\<rparr>"
  by (simp add: configs_for_def)

lemma configs_for_all:
  "configs_for names c \<Longrightarrow> length (mc_models c) = length names \<Longrightarrow> list_all2 model_for names (mc_models c)"
  by (simp add: configs_for_def)

text \<open>
  C14: \<open>ADD MODEL\<close> pairs configurations with names: when it succeeds, the names it was given are
  distinct and not empty, and the models of the command are one per name, in the order of the names,
  each with the name and a non-empty list of model types without repetition.
\<close>

theorem add_model_configs:
  assumes "parseAPIAddModel p = POk cmd q"
  shows "\<exists>names models. parseModelNames (curValue (nextToken p)) = Inr names \<and>
    names \<noteq> [] \<and> distinct names \<and>
    Cmd_Params cmd ''models'' = Some (CMaps models) \<and> list_all2 model_for names models"
proof -
  let ?Q = "\<lambda>c (q :: Parser). \<exists>names models. parseModelNames (curValue (nextToken p)) = Inr names \<and>
    Cmd_Params c ''models'' = Some (CMaps models) \<and> list_all2 model_for names models"
  have "returns_with ?Q (parseAPIAddModel p)"
    unfolding parseAPIAddModel_def Let_def
    by (auto simp: parseQuotedString_Inr simp del: parseAPIAddModel_body_loop
        intro!: add_model_loop configs_for_start intro: configs_for_all)
  then show ?thesis using assms parseModelNames_Inr by (fastforce simp: returns_with_def)
qed

theorem add_model_configs_witness:
  "\<exists>cmd q names models. parseAPIAddModel
      (NewParser ''MODEL 'a b' TO PROVIDER 'p' INSTANCE 'i' CHAT, ASR'') = POk cmd q \<and>
    parseModelNames ''a b'' = Inr names \<and> Cmd_Params cmd ''models'' = Some (CMaps models) \<and>
    list_all2 model_for names models"
proof -
  let ?p = "NewParser ''MODEL 'a b' TO PROVIDER 'p' INSTANCE 'i' CHAT, ASR''"
  have "case parseAPIAddModel ?p of POk _ _ \<Rightarrow> True | _ \<Rightarrow> False" by code_simp
  then obtain cmd q where c: "parseAPIAddModel ?p = POk cmd q" by (auto split: res.splits)
  moreover have "curValue (nextToken ?p) = ''a b''" by code_simp
  ultimately show ?thesis using add_model_configs [OF c] by auto
qed

end
