(* ===== verification/Spec2Isabelle.thy ===== *)
theory Spec2Isabelle
  imports Replay_Props Agent_Loop_Props Cancel_Props Parallel_Node Messages Async_Cache Multi_Retry Store_Props Limiters Background Cli_Props
begin

text \<open>
  A verification library for RAGFlow's Go harness: the graph execution engine
  (\<open>src/internal/harness/graph\<close>), the event log with replay (\<open>events\<close> and \<open>replay\<close> beside it), the agent
  loop (\<open>core\<close>) and the command language of the client (\<open>src/internal/cli\<close>).

  \<^bold>\<open>The program.\<close> A state graph is built from named nodes, edges, conditional edges and branches and
  is compiled after validation. The engine runs it in supersteps in the style of Pregel: it picks the
  next nodes, runs their functions on what they read from channels, collects their outputs as writes
  to channels, applies the writes, saves a checkpoint, and goes on until no node is left, a node
  interrupts, an error occurs or the recursion limit is reached. Checkpoints are kept per thread, so
  that a later run of the thread can resume. A recorder turns what the engine reports into a log of
  events, from which a run can be replayed, forked or compared. An agent loop takes items from a
  buffer, plans turns on them and runs an agent, and can be preempted, stopped and resumed. The command
  line client reads a line, parses it in the mode it was started in and calls the handler of the command.

  \<^bold>\<open>Theories and sources\<close> (paths below \<open>src/internal/harness/graph\<close>).
  \<^item> \<open>Harness_Prelude\<close>: finite maps, lists, sorted keys, folds with errors, collections of rules.
  \<^item> \<open>Go_Values\<close>: the values Go code stores in \<open>interface{}\<close>, their types, JSON copies
    (\<open>checkpoint/checkpoint.go\<close>: \<open>deepCopy\<close>) and the errors of \<open>errors/errors.go\<close>.
  \<^item> \<open>Channel_Kinds\<close>, \<open>Channel_Aggregates\<close>, \<open>Channel_Barriers\<close>: one record and one definition per method
    for each channel type of \<open>channels/*.go\<close>. \<open>Channels\<close> is the \<open>Channel\<close> interface as a datatype with
    dispatch, \<open>Channel_Laws\<close> and \<open>Channel_Props\<close> its laws, \<open>Channel_Registry\<close> the registry of
    \<open>channels/base.go\<close>.
  \<^item> \<open>Run_Config\<close>: \<open>types/config.go\<close>.
  \<^item> \<open>Checkpoint_Data\<close>, \<open>Checkpoint_Manager\<close>: \<open>checkpoint/checkpoint.go\<close>. \<open>Memory_Saver\<close>:
    \<open>checkpoint/memory.go\<close>; the contract the engine relies on is the locale \<open>checkpointer\<close>.
  \<^item> \<open>State_Maps\<close>: conversions of states, nested fields, field mappings, task paths (end of
    \<open>pregel/engine.go\<close>).
  \<^item> \<open>Retry\<close>: \<open>pregel/retry.go\<close> and the policy of \<open>types/types.go\<close>.
  \<^item> \<open>Graph_Build\<close>, \<open>Graph_Props\<close>: \<open>graph/graph.go\<close> and \<open>graph/state.go\<close>.
  \<^item> \<open>Scheduler\<close>, \<open>Scheduler_Props\<close>: the choice of the next tasks in \<open>pregel/engine.go\<close>
    (\<open>getNextNodes\<close>, \<open>prepareNextTasks\<close>, \<open>prepareNextTasksDAG\<close>, interrupts).
  \<^item> \<open>Engine_State\<close>, \<open>Engine_Props\<close>: applying input, reading task inputs, running tasks, applying writes.
  \<^item> \<open>Engine_Run\<close>, \<open>Run_Props\<close>: \<open>Engine.Run\<close>, \<open>RunSync\<close> and \<open>runCompiledGraph\<close>.
  \<^item> \<open>Interrupts\<close>: \<open>interrupt/interrupt.go\<close>, the questions a node asks and the values that answer them.
  \<^item> \<open>Loop_Node\<close>, \<open>Parallel_Node\<close>: \<open>graph/loop.go\<close> and \<open>graph/parallel.go\<close>, nodes that run a sub-graph repeatedly
    or once per item; the sub-graph is a function on the shared state, \<open>invoke_compiled\<close> the engine's.
  \<^item> \<open>Messages\<close>: \<open>graph/message.go\<close>.
  \<^item> \<open>Node_Cache\<close>, \<open>Async_Cache\<close>: \<open>pregel/cache.go\<close> and \<open>pregel/cache_async.go\<close>; the contract of a cache is the locale
    \<open>cache\<close>, workers and clients of the asynchronous one are a step relation.
  \<^item> \<open>Multi_Retry\<close>: \<open>pregel/retry_multi.go\<close>.
  \<^item> \<open>Async_Exec\<close>, \<open>Limiters\<close>: \<open>pregel/async.go\<close>; the goroutines of the executor are a step relation.
  \<^item> \<open>Task_Queues\<close>, \<open>Background\<close>: the three priority queues and the dependency table of \<open>pregel/optimized.go\<close>
    and \<open>pregel/background.go\<close>, with the locale \<open>prio_queue\<close> as their contract, and the background executor.
  \<^item> \<open>Kv_Store\<close>, \<open>Store_Props\<close>: \<open>store/memory.go\<close> and \<open>store/base.go\<close>; the contract of the table is the locale
    \<open>kv_store\<close>.

  \<^bold>\<open>Event log and agent loop\<close> (paths below \<open>src/internal/harness\<close>).
  \<^item> \<open>Sha256\<close>: the hash function of the standard library. \<open>Event_Log\<close>, \<open>Event_Props\<close>: \<open>events/event.go\<close>, \<open>store.go\<close>,
    \<open>memory.go\<close>, \<open>clock.go\<close>; the abstract log is \<open>abs_log\<close>. \<open>Event_Files\<close>: \<open>events/localfile.go\<close> over a directory as
    a finite map. \<open>Event_Recorder\<close>: \<open>events/recorder.go\<close>; the contract of a log is the locale \<open>event_log\<close>, with both
    stores as instances.
  \<^item> \<open>Replay\<close>, \<open>Replay_Props\<close>: \<open>replay/*.go\<close>; a fork runs the engine of \<open>Engine_Run\<close>.
  \<^item> \<open>Loop_Controls\<close>, \<open>Loop_Props\<close>: \<open>core/agent_loop_buffer.go\<close>, \<open>_stop.go\<close>, \<open>_preempt.go\<close>, \<open>_config.go\<close>; pushes, delayed
    requests, turns and watchers are the step relation \<open>preempt_step\<close>.
  \<^item> \<open>Agent_Loop\<close>, \<open>Agent_Loop_Props\<close>: \<open>core/agent_loop.go\<close>, \<open>_run.go\<close>, \<open>_push.go\<close>, \<open>_checkpoint.go\<close>, \<open>_agent.go\<close>, \<open>_bridge.go\<close>; the loop
    with its pushes and stops is the step relation \<open>loop_step\<close>.
  \<^item> \<open>Cancel\<close>, \<open>Cancel_Props\<close>: \<open>core/cancel.go\<close> and the cancel checks of \<open>core/workflow.go\<close>; every function is a list of atomic instructions, which the goroutines of
    \<open>cancel_step\<close> interleave, and a typing of such lists carries the invariant.

  \<^bold>\<open>Command line\<close> (paths below \<open>src/internal/cli\<close>).
  \<^item> \<open>Cli_Lexer\<close>: \<open>lexer.go\<close> and the tokens of \<open>types.go\<close>, with a reference lexer on the unread input.
  \<^item> \<open>Cli_Base\<close>: the parser state and the shared methods of \<open>parser.go\<close>, results of parser methods, loops
    (\<open>ploop\<close>) and the string functions the parsers use; what the parser relies on of the lexer is the locale
    \<open>token_source\<close>. \<open>Cli_Dev_Parser\<close>, \<open>Cli_User_Parser\<close>, \<open>Cli_Admin_Parser\<close>: \<open>dev_parser.go\<close>, \<open>user_parser.go\<close>,
    \<open>admin_parser.go\<close>, one definition per method.
  \<^item> \<open>Cli_Parser\<close>: \<open>Parse\<close> and the command switches of \<open>parser.go\<close>, the dispatch of \<open>cli_http.go\<close> and \<open>execute\<close> of
    \<open>cli.go\<close>. \<open>Cli_Parser_Lemmas\<close>, \<open>Cli_Props\<close>: what they guarantee, by weakest preconditions over the methods.

  \<^bold>\<open>State.\<close> Go structs are records with the same fields, prefixed where two structs share a field
  name. Values of type \<open>interface{}\<close> are the datatype \<open>gval\<close>. Maps are finite maps; where Go iterates over
  a map, the order is either proved irrelevant or given by a permutation argument. Pointers are passed
  and returned explicitly. Errors are values of \<open>gerror\<close>; a panic that no code recovers is
  \<open>GoPanic\<close>. A method that changes its receiver returns the new receiver.

  \<^bold>\<open>What comes from outside\<close> is an argument: fresh identifiers and the clock (\<open>newID\<close>, \<open>now\<close>), waits
  between retries, rounding of floating-point arithmetic, text of values and times, reflection on struct
  tags, node functions. \<open>Engine_Run\<close> collects them in the record \<open>Env\<close>. JSON encodings of events are the record
  \<open>Codec\<close>, the file system's answers \<open>FileEnv\<close>, gob encodings of loop checkpoints \<open>LoopEnv\<close>.

  \<^bold>\<open>What is shown.\<close> Channels: availability and reading, aggregation, barriers, and that what a saver keeps of
  a channel can be restored onto a new channel, which then behaves as the saved one (for channels that
  are \<open>persistent\<close> and hold JSON values). Registry: independence of map orders, rebuilding from a checkpoint.
  Checkpoints: lineage up to deleted checkpoints, optimistic locking, retention, map and JSON round trips,
  the saver's contract. Graphs: the builder keeps graphs well formed, validation is exactly reachability
  over edges and conditional edges and a valid schema. Scheduler: which nodes follow, and progress in DAG
  mode. Engine: what a superstep does to each channel (of several values only aggregates and reducers keep
  more than the last), independence of applying writes from the order of the results, agreement of the version
  bookkeeping. Runs: every run ends, an interrupted run resumes with what it saved. Nodes over sub-graphs:
  the loop and the fan-out compute what they are meant to, in every order of the items, and resume after
  an interrupt. Messages: what merging keeps and replaces. Caches: for inputs told apart by their keys caching
  does not change results, sequentially and under every interleaving of workers, and the cache stays within
  its size. Executor: no slot is lost, the concurrency is bounded, cancelled tasks that wait never run, all
  tasks end. Queues: they return what was put in, in the order of priority. Store: put, delete and get implement
  a table over namespaces without the separator, \<open>Get\<close> does not observe the removal of expired entries under
  names without a colon, searches and batches. Event log: the in-memory store implements an abstract log
  when clocks are left to it, clocks increase, a directory opened again holds what was stored up to what
  JSON makes of metadata, the recorder writes exactly its events. Replay: what each event becomes
  under model and tool overrides, which events a fork takes, what a rebuilt checkpoint contains (the engine never
  gets to see it), the comparison of traces is exact. Agent loop: where every item goes, also the lost ones;
  a committed stop ends the loop once the pushes it waits for have returned; every preemption is
  acknowledged once, cancel requests are joined. Cancel contexts: channels are closed once, a cancellation is
  handled once, a final state is kept, sub-agents are cancelled only with their parents. Command line: every
  line is parsed to an end, every parsed command reaches a handler up to six types that the code forgot,
  printed tokens are read back, the configurations of \<open>ADD MODEL\<close> match their names. Several theorems state
  where the code departs from its comments.

  \<^bold>\<open>Bounds.\<close> No definition uses fuel: \<open>run_loop\<close> terminates by the distance to the recursion limit,
  \<open>retry_loop\<close> and \<open>multi_loop\<close> by the attempts left, \<open>loop_from\<close> by the iterations left, \<open>reach_loop\<close> by the nodes not
  yet reached. An operation that waits for ever (a batch that takes its own lock) is \<open>None\<close>. A parser loop
  that came round without consuming a token would be \<open>PHang\<close>, which \<open>line_never_stuck\<close> excludes.

  \<^bold>\<open>Not modelled.\<close> Stream events, callbacks, tracing and logging, which only report; the concurrency of
  tasks inside one superstep beyond the order of their results; an asynchronous checkpoint save is taken to
  complete before the next step. Of the graph package: managed values, the scratchpad, the optimised
  application of writes, the remote and traced engine variants, streams, the NATS saver. A checkpoint given
  to a manager is a value: a caller that changes it afterwards through its pointer is not modelled. Of the
  harness: runners, workflows (but for their cancel checks) and middlewares of agents, metrics, the NATS event store. Outside it: the agent canvas, ingestion, document parsing, HTTP services, database access,
  the handlers of the command line client and the Python and web code.
\<close>

end
